(* ===== verification/Prelude.thy ===== *)
theory Prelude
  imports Main "HOL-Library.List_Lexorder" "HOL-Library.Char_ord" "HOL-Library.Sublist"
    "HOL-Library.Multiset"
begin

text \<open>
  What every component of the development shares: Go strings as byte lists with the functions of
  the package \<^verbatim>\<open>strings\<close> the sources call, sorted duplicate-free lists of strings (the canonical
  form of scopes, permissions and roles), and error results as sums.

  A Go string is a sequence of bytes and a HOL \<^typ>\<open>char\<close> is a byte, so \<^typ>\<open>string\<close> is the type of Go
  strings; the order of \<^typ>\<open>string\<close> is the bytewise lexicographic order that \<^verbatim>\<open>sort.Strings\<close> uses.
\<close>

named_theorems canon_simps \<open>canonical (sorted, duplicate-free) lists\<close>
named_theorems res_splits \<open>case splits of error results and optional values\<close>
named_theorems guard_simps \<open>when a guarded computation returns a value\<close>

type_synonym ('e, 'a) result = "'e + 'a"

declare sum.splits [res_splits] option.splits [res_splits] prod.splits [res_splits]
  if_splits [res_splits] list.splits [res_splits]

text \<open>A guarded computation returns a value exactly when every guard passes.\<close>

lemma guard_Inr [guard_simps]: "((if b then Inl e else r) = Inr y) \<longleftrightarrow> \<not> b \<and> r = Inr y"
  by simp

lemma bind_Inr [guard_simps]:
  "((case r of Inl e \<Rightarrow> Inl (f e) | Inr x \<Rightarrow> g x) = Inr y) \<longleftrightarrow> (\<exists>x. r = Inr x \<and> g x = Inr y)"
  by (simp split: sum.splits)

lemma option_Inr [guard_simps]:
  "((case q of None \<Rightarrow> Inl e | Some x \<Rightarrow> g x) = Inr y) \<longleftrightarrow> (\<exists>x. q = Some x \<and> g x = Inr y)"
  by (simp split: option.splits)

section \<open>White space and trimming\<close>

text \<open>
  The UTF-8 encodings of the code points of \<^verbatim>\<open>unicode.IsSpace\<close>: the six ASCII ones, U+0085, U+00A0,
  U+1680, U+2000 to U+200A, U+2028, U+2029, U+202F, U+205F and U+3000.
\<close>

definition go_spaces :: "string list" where
  "go_spaces =
     [[CHR 0x20], [CHR 0x09], [CHR 0x0A], [CHR 0x0B], [CHR 0x0C], [CHR 0x0D],
      [CHR 0xC2, CHR 0x85], [CHR 0xC2, CHR 0xA0], [CHR 0xE1, CHR 0x9A, CHR 0x80],
      [CHR 0xE2, CHR 0x80, CHR 0x80], [CHR 0xE2, CHR 0x80, CHR 0x81],
      [CHR 0xE2, CHR 0x80, CHR 0x82], [CHR 0xE2, CHR 0x80, CHR 0x83],
      [CHR 0xE2, CHR 0x80, CHR 0x84], [CHR 0xE2, CHR 0x80, CHR 0x85],
      [CHR 0xE2, CHR 0x80, CHR 0x86], [CHR 0xE2, CHR 0x80, CHR 0x87],
      [CHR 0xE2, CHR 0x80, CHR 0x88], [CHR 0xE2, CHR 0x80, CHR 0x89],
      [CHR 0xE2, CHR 0x80, CHR 0x8A], [CHR 0xE2, CHR 0x80, CHR 0xA8],
      [CHR 0xE2, CHR 0x80, CHR 0xA9], [CHR 0xE2, CHR 0x80, CHR 0xAF],
      [CHR 0xE2, CHR 0x81, CHR 0x9F], [CHR 0xE3, CHR 0x80, CHR 0x80]]"

definition HasPrefix :: "string \<Rightarrow> string \<Rightarrow> bool" where
  "HasPrefix s p \<longleftrightarrow> take (length p) s = p"

definition HasSuffix :: "string \<Rightarrow> string \<Rightarrow> bool" where
  "HasSuffix s p \<longleftrightarrow> HasPrefix (rev s) (rev p)"

definition TrimPrefix :: "string \<Rightarrow> string \<Rightarrow> string" where
  "TrimPrefix s p = (if HasPrefix s p then drop (length p) s else s)"

definition TrimSuffix :: "string \<Rightarrow> string \<Rightarrow> string" where
  "TrimSuffix s suf = (if HasSuffix s suf then take (length s - length suf) s else s)"

fun strip_one :: "string list \<Rightarrow> string \<Rightarrow> string option" where
  "strip_one [] s = None"
| "strip_one (w # ws) s = (if HasPrefix s w then Some (drop (length w) s) else strip_one ws s)"

fun trim_with :: "string list \<Rightarrow> string \<Rightarrow> string" where
  "trim_with ws s =
     (case strip_one ws s of
        None \<Rightarrow> s
      | Some r \<Rightarrow> if length r < length s then trim_with ws r else s)"

declare trim_with.simps [simp del]

definition TrimSpace :: "string \<Rightarrow> string" where
  "TrimSpace s = rev (trim_with (map rev go_spaces) (rev (trim_with go_spaces s)))"

section \<open>Case mapping and folding\<close>

text \<open>
  \<^verbatim>\<open>strings.ToLower\<close>, \<^verbatim>\<open>strings.ToUpper\<close> and \<^verbatim>\<open>strings.EqualFold\<close> work bytewise on ASCII input and fall
  back to the Unicode tables otherwise. The tables are a parameter.
\<close>

record go_unicode =
  mapLower :: "string \<Rightarrow> string"
  mapUpper :: "string \<Rightarrow> string"
  foldEqual :: "string \<Rightarrow> string \<Rightarrow> bool"

definition is_ascii :: "char \<Rightarrow> bool" where
  "is_ascii c \<longleftrightarrow> of_char c < (128 :: nat)"

definition ascii_lower :: "char \<Rightarrow> char" where
  "ascii_lower c =
     (if 65 \<le> (of_char c :: nat) \<and> (of_char c :: nat) \<le> 90 then char_of ((of_char c :: nat) + 32)
      else c)"

definition ascii_upper :: "char \<Rightarrow> char" where
  "ascii_upper c =
     (if 97 \<le> (of_char c :: nat) \<and> (of_char c :: nat) \<le> 122 then char_of ((of_char c :: nat) - 32)
      else c)"

definition ToLower :: "go_unicode \<Rightarrow> string \<Rightarrow> string" where
  "ToLower U s = (if list_all is_ascii s then map ascii_lower s else mapLower U s)"

definition ToUpper :: "go_unicode \<Rightarrow> string \<Rightarrow> string" where
  "ToUpper U s = (if list_all is_ascii s then map ascii_upper s else mapUpper U s)"

fun EqualFold :: "go_unicode \<Rightarrow> string \<Rightarrow> string \<Rightarrow> bool" where
  "EqualFold U (x # xs) (y # ys) =
     (if \<not> is_ascii x \<or> \<not> is_ascii y then foldEqual U (x # xs) (y # ys)
      else if ascii_lower x = ascii_lower y then EqualFold U xs ys else False)"
| "EqualFold U xs ys = (length xs = length ys)"

section \<open>Splitting and joining\<close>

fun SplitChar :: "char \<Rightarrow> string \<Rightarrow> string list" where
  "SplitChar c [] = [[]]"
| "SplitChar c (x # xs) =
     (if x = c then [] # SplitChar c xs
      else (case SplitChar c xs of [] \<Rightarrow> [[x]] | y # ys \<Rightarrow> (x # y) # ys))"

fun fields_from :: "string \<Rightarrow> string \<Rightarrow> string list" where
  "fields_from cur [] = (if cur = [] then [] else [rev cur])"
| "fields_from cur (x # xs) =
     (case strip_one go_spaces (x # xs) of
        Some r \<Rightarrow>
          if length r < length (x # xs)
          then (if cur = [] then fields_from [] r else rev cur # fields_from [] r)
          else []
      | None \<Rightarrow> fields_from (x # cur) xs)"

definition Fields :: "string \<Rightarrow> string list" where
  "Fields s = fields_from [] s"

fun JoinStr :: "string \<Rightarrow> string list \<Rightarrow> string" where
  "JoinStr sep [] = []"
| "JoinStr sep [x] = x"
| "JoinStr sep (x # y # ys) = x @ sep @ JoinStr sep (y # ys)"

section \<open>Facts about strings\<close>

definition graphic :: "char \<Rightarrow> bool" where
  "graphic c \<longleftrightarrow> 33 \<le> (of_char c :: nat) \<and> (of_char c :: nat) \<le> 126"

lemma HasPrefix_iff_prefix: "HasPrefix s p \<longleftrightarrow> prefix p s"
  by (auto simp: HasPrefix_def prefix_def) (metis append_take_drop_id)

lemma HasPrefix_hd: "HasPrefix s p \<Longrightarrow> p \<noteq> [] \<Longrightarrow> s \<noteq> [] \<and> hd s = hd p"
  by (auto simp: HasPrefix_iff_prefix prefix_def)

lemma strip_one_None_hd:
  "s \<noteq> [] \<Longrightarrow> \<forall>w \<in> set ws. w \<noteq> [] \<and> hd w \<noteq> hd s \<Longrightarrow> strip_one ws s = None"
  by (induction ws) (auto dest: HasPrefix_hd)

lemma strip_one_None_iff: "strip_one ws s = None \<longleftrightarrow> (\<forall>w \<in> set ws. \<not> HasPrefix s w)"
  by (induction ws) auto

lemma strip_one_prefix:
  "strip_one ws s = None \<Longrightarrow> prefix t s \<Longrightarrow> strip_one ws t = None"
  by (auto simp: strip_one_None_iff HasPrefix_iff_prefix dest: prefix_order.trans)

lemma strip_one_Some: "strip_one ws s = Some r \<Longrightarrow> \<exists>w \<in> set ws. s = w @ r"
  by (induction ws) (auto simp: HasPrefix_def split: if_splits, metis append_take_drop_id)

lemma trim_with_None [simp]: "strip_one ws s = None \<Longrightarrow> trim_with ws s = s"
  by (simp add: trim_with.simps)

lemma trim_with_suffix: "suffix (trim_with ws s) s"
proof (induction ws s rule: trim_with.induct)
  case (1 ws s)
  show ?case
  proof (cases "strip_one ws s")
    case None
    then show ?thesis by simp
  next
    case (Some r)
    then have "suffix r s" by (auto dest: strip_one_Some simp: suffix_def)
    with 1 Some show ?thesis
      by (auto simp: trim_with.simps [of ws s] intro: suffix_order.trans)
  qed
qed

lemma trim_with_fixpoint: "[] \<notin> set ws \<Longrightarrow> strip_one ws (trim_with ws s) = None"
proof (induction ws s rule: trim_with.induct)
  case (1 ws s)
  show ?case
  proof (cases "strip_one ws s")
    case None
    then show ?thesis by simp
  next
    case (Some r)
    with "1.prems" have "length r < length s" by (auto dest!: strip_one_Some)
    with 1 Some show ?thesis by (simp add: trim_with.simps [of ws s])
  qed
qed

lemma go_spaces_nonempty: "[] \<notin> set go_spaces" "[] \<notin> set (map rev go_spaces)"
  by (auto simp: go_spaces_def)

lemma go_spaces_bytes:
  assumes "w \<in> set go_spaces"
  shows "w \<noteq> [] \<and> \<not> graphic (hd w) \<and> \<not> graphic (last w)"
  using assms by (simp add: go_spaces_def graphic_def) (elim disjE; simp)

lemma strip_graphic: "s \<noteq> [] \<Longrightarrow> graphic (hd s) \<Longrightarrow> strip_one go_spaces s = None"
  by (rule strip_one_None_hd) (auto dest: go_spaces_bytes)

lemma strip_rev_graphic:
  assumes "s \<noteq> []" "graphic (last s)"
  shows "strip_one (map rev go_spaces) (rev s) = None"
proof (rule strip_one_None_hd)
  show "rev s \<noteq> []" using assms by simp
  show "\<forall>w \<in> set (map rev go_spaces). w \<noteq> [] \<and> hd w \<noteq> hd (rev s)"
    using assms by (auto simp: hd_rev dest: go_spaces_bytes)
qed

lemma TrimSpace_Nil [simp]: "TrimSpace [] = []"
  by (simp add: TrimSpace_def go_spaces_def trim_with.simps HasPrefix_def)

lemma TrimSpace_graphic:
  "s \<noteq> [] \<Longrightarrow> graphic (hd s) \<Longrightarrow> graphic (last s) \<Longrightarrow> TrimSpace s = s"
  by (simp add: TrimSpace_def strip_graphic strip_rev_graphic)

lemma TrimSpace_all_graphic: "list_all graphic s \<Longrightarrow> TrimSpace s = s"
  by (cases "s = []") (auto simp: list_all_iff intro!: TrimSpace_graphic)

lemma TrimSpace_idem [simp]: "TrimSpace (TrimSpace s) = TrimSpace s"
proof -
  let ?l = "trim_with go_spaces s"
  let ?t = "TrimSpace s"
  have right: "strip_one (map rev go_spaces) (rev ?t) = None"
    using trim_with_fixpoint [OF go_spaces_nonempty(2)] by (simp add: TrimSpace_def)
  have "prefix ?t ?l"
    by (metis TrimSpace_def trim_with_suffix suffix_to_prefix rev_rev_ident)
  moreover have "strip_one go_spaces ?l = None"
    by (simp add: trim_with_fixpoint go_spaces_nonempty)
  ultimately have left: "strip_one go_spaces ?t = None"
    by (rule strip_one_prefix [rotated])
  have "TrimSpace ?t = rev (trim_with (map rev go_spaces) (rev (trim_with go_spaces ?t)))"
    by (simp only: TrimSpace_def [of ?t])
  also have "\<dots> = ?t" using left right by simp
  finally show ?thesis .
qed

lemma fields_from_graphic:
  "list_all graphic s \<Longrightarrow> fields_from cur (s @ t) = fields_from (rev s @ cur) t"
  by (induction s arbitrary: cur) (auto simp: strip_graphic)

lemma Fields_Join_roundtrip:
  assumes "\<forall>x \<in> set xs. x \<noteq> [] \<and> list_all graphic x"
  shows "Fields (JoinStr '' '' xs) = xs"
proof -
  have "fields_from [] (JoinStr '' '' xs) = xs" using assms
  proof (induction xs)
    case Nil
    then show ?case by simp
  next
    case (Cons x ys)
    have sp: "strip_one go_spaces (CHR '' '' # r) = Some r" for r
      by (simp add: go_spaces_def HasPrefix_def)
    show ?case
    proof (cases ys)
      case Nil
      with Cons.prems fields_from_graphic [of x "[]" "[]"] show ?thesis by simp
    next
      case (Cons y zs)
      with Cons.prems Cons.IH sp show ?thesis
        by (simp add: fields_from_graphic)
    qed
  qed
  then show ?thesis by (simp add: Fields_def)
qed

section \<open>Canonical lists\<close>

definition sort_uniq :: "string list \<Rightarrow> string list" where
  "sort_uniq xs = sort (remdups xs)"

definition canonical :: "string list \<Rightarrow> bool" where
  "canonical xs \<longleftrightarrow> sorted xs \<and> distinct xs"

lemma sort_eq_Nil [simp]: "sort xs = [] \<longleftrightarrow> xs = []"
  by (metis set_sort set_empty)

lemma sort_sort [simp]: "sort (sort xs) = sort xs"
  by (simp add: sort_key_id_if_sorted)

lemma sort_uniq_eq_sorted_list_of_set: "sort_uniq xs = sorted_list_of_set (set xs)"
  by (simp add: sort_uniq_def sorted_list_of_set_sort_remdups)

lemma set_sort_uniq [simp, canon_simps]: "set (sort_uniq xs) = set xs"
  by (simp add: sort_uniq_def)

lemma canonical_sort_uniq [simp, canon_simps]: "canonical (sort_uniq xs)"
  by (simp add: sort_uniq_def canonical_def)

lemma canonical_sort [canon_simps]: "canonical (sort xs) \<longleftrightarrow> distinct xs"
  by (simp add: canonical_def)

lemma sort_canonical [canon_simps]: "canonical xs \<Longrightarrow> sort xs = xs"
  by (simp add: canonical_def sort_key_id_if_sorted)

lemma sort_uniq_canonical [canon_simps]: "canonical xs \<Longrightarrow> sort_uniq xs = xs"
  by (simp add: sort_uniq_def canonical_def sort_key_id_if_sorted distinct_remdups_id)

lemma canonical_unique: "canonical xs \<Longrightarrow> canonical ys \<Longrightarrow> set xs = set ys \<Longrightarrow> xs = ys"
  by (simp add: canonical_def sorted_distinct_set_unique)

lemma canonical_filter [canon_simps]: "canonical xs \<Longrightarrow> canonical (filter P xs)"
  using sorted_filter [of "\<lambda>x. x" xs P] by (simp add: canonical_def)

lemma canonical_Nil [simp, canon_simps]: "canonical []"
  by (simp add: canonical_def)

lemma canonical_single [simp, canon_simps]: "canonical [x]"
  by (simp add: canonical_def)

end
