(* ===== verification/Domain.thy ===== *)
theory Domain
  imports Prelude
begin

text \<open>
  The package \<^verbatim>\<open>pkg/domain\<close>: the sentinel errors, the stored records (users, tenants, roles, clients,
  memberships, access assignments), the predicates that recognise managed audience clients, the
  Kubernetes workload subject parser and the opaque Trino principal.

  A Go struct is a \<^theory_text>\<open>record\<close>, a pointer an \<^typ>\<open>'a option\<close>, a named string type (\<^verbatim>\<open>UserStatus\<close>, \<^verbatim>\<open>ClientType\<close>)
  is \<^typ>\<open>string\<close>, since the code stores and compares arbitrary strings. A \<^verbatim>\<open>time.Time\<close> is an optional number of
  nanoseconds, \<^term>\<open>None\<close> being the zero time.
\<close>

section \<open>Errors\<close>

datatype gerror =
    ErrEmailExists | ErrInvalidCreds | ErrPasswordChangeRequired | ErrRateLimited
  | ErrAuthenticationUnavailable | ErrVersionConflict | ErrGroupMutationsDisabled | ErrGroupExists
  | ErrDirectoryInvariant | ErrDirectoryDeletionDenied | ErrDirectoryBackfillInProgress
  | ErrInvalidToken | ErrInvalidAudience | ErrInvalidTenant | ErrUnauthorizedScope
  | ErrInvalidArgument | ErrTenantConflict | ErrTenantInvariant | ErrRoleConflict | ErrRoleNotFound
  | ErrMembershipNotFound | ErrMembershipConflict | ErrMembershipDependencyNotFound
  | ErrMembershipDependencyInactive | ErrMembershipPageStale | ErrManagedClientConflict
  | ErrAIGatewayAdministrator | ErrClientConflict | ErrNotFound | ErrInvalidOob
  | ErrWorkloadTokenInvalid | ErrWorkloadBindingDenied | ErrWorkloadIdentityUnavailable
  | ErrStoredRoleContract
  | ErrText string        \<comment> \<open>\<^verbatim>\<open>errors.New\<close> and \<^verbatim>\<open>fmt.Errorf\<close> without a wrapped error\<close>
  | ErrWrap string gerror \<comment> \<open>\<^verbatim>\<open>fmt.Errorf\<close> with \<^verbatim>\<open>%w\<close>\<close>

type_synonym 'a res = "gerror + 'a"

fun errors_Is :: "gerror \<Rightarrow> gerror \<Rightarrow> bool" where
  "errors_Is (ErrWrap m e) target = (ErrWrap m e = target \<or> errors_Is e target)"
| "errors_Is e target = (e = target)"

type_synonym gotime = "int option"

section \<open>Tenants, roles, users\<close>

abbreviation MasterTenantID :: string where "MasterTenantID \<equiv> ''local-tenant''"
abbreviation MasterTenantName :: string where "MasterTenantName \<equiv> ''Code Foundry''"
abbreviation RetiredDefaultTenantID :: string where "RetiredDefaultTenantID \<equiv> ''default''"
abbreviation TenantStatusActive :: string where "TenantStatusActive \<equiv> ''ACTIVE''"
abbreviation TenantStatusDisabled :: string where "TenantStatusDisabled \<equiv> ''DISABLED''"
abbreviation TenantTypeMaster :: string where "TenantTypeMaster \<equiv> ''MASTER''"
abbreviation TenantTypeWorkload :: string where "TenantTypeWorkload \<equiv> ''WORKLOAD''"

record tenant =
  t_Id :: string
  t_Slug :: string
  t_Name :: string
  t_Status :: string
  t_CreatedAt :: gotime
  t_RetiredAt :: "gotime option"

record tenantCreateReq =
  tcr_Name :: string
  tcr_Slug :: string

record tenantResp =
  tr_Id :: string
  tr_Slug :: string
  tr_Name :: string
  tr_Status :: string
  tr_CreatedAt :: gotime
  tr_TenantType :: string

record tenantsPage =
  tp_Tenants :: "tenantResp list"
  tp_NextPageToken :: string

abbreviation RoleScopeTenant :: string where "RoleScopeTenant \<equiv> ''TENANT''"

record role =
  r_Name :: string
  r_Scope :: string
  r_TenantId :: string
  r_ResourceId :: string
  r_Permissions :: "string list"

record roleResp =
  rr_Name :: string
  rr_Permissions :: "string list"

abbreviation UserStatusActive :: string where "UserStatusActive \<equiv> ''ACTIVE''"
abbreviation UserStatusInactive :: string where "UserStatusInactive \<equiv> ''INACTIVE''"
abbreviation UserStatusSuspended :: string where "UserStatusSuspended \<equiv> ''SUSPENDED''"
abbreviation RoleAdmin :: string where "RoleAdmin \<equiv> ''ADMIN''"
abbreviation RoleCompanyAdmin :: string where "RoleCompanyAdmin \<equiv> ''COMPANY_ADMIN''"
abbreviation RoleCompanyEmployee :: string where "RoleCompanyEmployee \<equiv> ''COMPANY_EMPLOYEE''"
abbreviation PlatformTenantAdminScope :: string where
  "PlatformTenantAdminScope \<equiv> ''code-admin:tenants:admin''"
abbreviation PlatformPrivilegeClaim :: string where
  "PlatformPrivilegeClaim \<equiv> ''tikti_platform_privilege''"
abbreviation PlatformPrivilegeAdmin :: string where "PlatformPrivilegeAdmin \<equiv> ''platform-admin''"
abbreviation AuthSourcePassword :: string where "AuthSourcePassword \<equiv> ''password''"
abbreviation AuthSourceSAML :: string where "AuthSourceSAML \<equiv> ''saml''"

record user =
  u_Id :: string
  u_Email :: string
  u_Password :: string
  u_Role :: string
  u_Status :: string
  u_CompanyId :: "string option"
  u_TokenVersion :: int
  u_Revision :: int
  u_CreatedAt :: gotime
  u_AuthSource :: string
  u_ExternalSubject :: string
  u_PasswordChangeRequired :: bool

record membership =
  m_Id :: string
  m_TenantId :: string
  m_UserId :: string
  m_Roles :: "string list"
  m_CreatedAt :: gotime

abbreviation AccessPrincipalUser :: string where "AccessPrincipalUser \<equiv> ''USER''"
abbreviation AccessPrincipalGroup :: string where "AccessPrincipalGroup \<equiv> ''GROUP''"

record accessAssignment =
  a_TenantID :: string
  a_PrincipalType :: string
  a_PrincipalID :: string
  a_Roles :: "string list"
  a_Version :: int
  a_CreatedAt :: gotime
  a_UpdatedAt :: gotime

section \<open>Clients\<close>

abbreviation ClientTypePublic :: string where "ClientTypePublic \<equiv> ''PUBLIC''"
abbreviation ClientTypeService :: string where "ClientTypeService \<equiv> ''SERVICE''"
abbreviation GrantTypeTokenExchange :: string where "GrantTypeTokenExchange \<equiv> ''token_exchange''"
abbreviation ClientStatusActive :: string where "ClientStatusActive \<equiv> ''ACTIVE''"
abbreviation ClientStatusInactive :: string where "ClientStatusInactive \<equiv> ''INACTIVE''"
abbreviation CodeAdminAudienceClientID :: string where
  "CodeAdminAudienceClientID \<equiv> ''code-admin-api''"
abbreviation CodeAdminAudienceClientManager :: string where
  "CodeAdminAudienceClientManager \<equiv> ''tikti:code-admin-audience:v1''"
abbreviation WorkloadAccountBFFClientManager :: string where
  "WorkloadAccountBFFClientManager \<equiv> ''tikti:workload-account-bff:v1''"
abbreviation AIGatewayAudienceClientID :: string where
  "AIGatewayAudienceClientID \<equiv> ''code-llm-service''"
abbreviation AIGatewayAudienceClientManager :: string where
  "AIGatewayAudienceClientManager \<equiv> ''tikti:ai-gateway-audience:v1''"

record client =
  c_Id :: string
  c_TenantId :: string
  c_SecretHash :: string
  c_Type :: string
  c_AllowedGrantTypes :: "string list"
  c_DefaultScopes :: "string list"
  c_Status :: string
  c_ManagedBy :: string

record clientCreateReq =
  ccr_ClientId :: string
  ccr_Type :: string
  ccr_AllowedGrantTypes :: "string list"
  ccr_DefaultScopes :: "string list"

record clientResp =
  cr_ClientId :: string
  cr_Type :: string
  cr_AllowedGrantTypes :: "string list"
  cr_DefaultScopes :: "string list"
  cr_Secret :: string

record managedAudienceClientResp =
  mac_ClientId :: string
  mac_TenantId :: string
  mac_Type :: string
  mac_AllowedGrantTypes :: "string list"
  mac_DefaultScopes :: "string list"
  mac_Status :: string

definition IsManagedCodeAdminAudience :: "string \<Rightarrow> client option \<Rightarrow> bool" where
  "IsManagedCodeAdminAudience tenantID oc =
     (case oc of None \<Rightarrow> False | Some c \<Rightarrow>
        c_Id c = CodeAdminAudienceClientID \<and> c_TenantId c = tenantID \<and>
        c_SecretHash c = [] \<and> c_Type c = ClientTypeService \<and> c_Status c = ClientStatusActive \<and>
        c_ManagedBy c = CodeAdminAudienceClientManager \<and>
        c_AllowedGrantTypes c = [GrantTypeTokenExchange])"

definition IsBootstrapLegacyAudience :: "string \<Rightarrow> string \<Rightarrow> client option \<Rightarrow> bool" where
  "IsBootstrapLegacyAudience tenantID clientID oc =
     (case oc of None \<Rightarrow> False | Some c \<Rightarrow>
        c_Id c = clientID \<and> c_TenantId c = tenantID \<and>
        c_SecretHash c = [] \<and> c_Type c = ClientTypePublic \<and> c_Status c = ClientStatusActive \<and>
        c_ManagedBy c = [] \<and> c_AllowedGrantTypes c = [GrantTypeTokenExchange])"

definition IsBootstrapLegacyCodeAdminAudience :: "string \<Rightarrow> client option \<Rightarrow> bool" where
  "IsBootstrapLegacyCodeAdminAudience tenantID oc =
     IsBootstrapLegacyAudience tenantID CodeAdminAudienceClientID oc"

definition IsManagedWorkloadAccountAudience :: "string \<Rightarrow> client option \<Rightarrow> bool" where
  "IsManagedWorkloadAccountAudience tenantID oc =
     (case oc of None \<Rightarrow> False | Some c \<Rightarrow>
        c_Id c \<noteq> [] \<and> c_Id c \<noteq> CodeAdminAudienceClientID \<and>
        c_Id c \<noteq> AIGatewayAudienceClientID \<and> c_TenantId c = tenantID \<and>
        c_SecretHash c = [] \<and> c_Type c = ClientTypeService \<and> c_Status c = ClientStatusActive \<and>
        c_ManagedBy c = WorkloadAccountBFFClientManager \<and>
        c_AllowedGrantTypes c = [GrantTypeTokenExchange])"

definition IsManagedAIGatewayAudienceRecord :: "string \<Rightarrow> client option \<Rightarrow> bool" where
  "IsManagedAIGatewayAudienceRecord tenantID oc =
     (case oc of None \<Rightarrow> False | Some c \<Rightarrow>
        c_Id c = AIGatewayAudienceClientID \<and> c_TenantId c = tenantID \<and>
        c_SecretHash c = [] \<and> c_Type c = ClientTypeService \<and>
        (c_Status c = ClientStatusActive \<or> c_Status c = ClientStatusInactive) \<and>
        c_ManagedBy c = AIGatewayAudienceClientManager \<and>
        c_AllowedGrantTypes c = [GrantTypeTokenExchange])"

definition IsManagedAIGatewayAudience :: "string \<Rightarrow> client option \<Rightarrow> bool" where
  "IsManagedAIGatewayAudience tenantID oc \<longleftrightarrow>
     IsManagedAIGatewayAudienceRecord tenantID oc \<and>
     (case oc of None \<Rightarrow> False | Some c \<Rightarrow> c_Status c = ClientStatusActive)"

section \<open>Byte classes and identifiers\<close>

definition inLower :: "char \<Rightarrow> bool" where
  "inLower c \<longleftrightarrow> 97 \<le> (of_char c :: nat) \<and> (of_char c :: nat) \<le> 122"

definition inUpper :: "char \<Rightarrow> bool" where
  "inUpper c \<longleftrightarrow> 65 \<le> (of_char c :: nat) \<and> (of_char c :: nat) \<le> 90"

definition inDigit :: "char \<Rightarrow> bool" where
  "inDigit c \<longleftrightarrow> 48 \<le> (of_char c :: nat) \<and> (of_char c :: nat) \<le> 57"

text \<open>\<^verbatim>\<open>^[a-z0-9]([-a-z0-9]*[a-z0-9])?$\<close> with the length bound of \<^verbatim>\<open>validDNSLabel\<close>.\<close>

definition validDNSLabel :: "string \<Rightarrow> bool" where
  "validDNSLabel s \<longleftrightarrow>
     1 \<le> length s \<and> length s \<le> 63 \<and>
     (inLower (hd s) \<or> inDigit (hd s)) \<and> (inLower (last s) \<or> inDigit (last s)) \<and>
     list_all (\<lambda>c. inLower c \<or> inDigit c \<or> c = CHR ''-'') s"

definition validDNSSubdomain :: "string \<Rightarrow> bool" where
  "validDNSSubdomain s \<longleftrightarrow>
     1 \<le> length s \<and> length s \<le> 253 \<and> list_all validDNSLabel (SplitChar CHR ''.'' s)"

section \<open>Workload subjects\<close>

abbreviation workloadSubjectPrefix :: string where
  "workloadSubjectPrefix \<equiv> ''system:serviceaccount:''"

record workloadSubject =
  ws_ServiceAccountUID :: string
  ws_PodUID :: string
  ws_Subject :: string
  ws_Issuer :: string
  ws_ClusterRef :: string
  ws_Namespace :: string
  ws_ServiceAccount :: string
  ws_ExpiresAt :: gotime

definition ParseWorkloadSubject :: "string \<Rightarrow> workloadSubject option" where
  "ParseWorkloadSubject raw =
     (let subject = TrimSpace raw in
      if \<not> HasPrefix subject workloadSubjectPrefix then None
      else (case SplitChar CHR '':'' (TrimPrefix subject workloadSubjectPrefix) of
              [namespace, account] \<Rightarrow>
                if \<not> validDNSLabel namespace \<or> \<not> validDNSSubdomain account then None
                else Some \<lparr>ws_ServiceAccountUID = [], ws_PodUID = [], ws_Subject = subject,
                  ws_Issuer = [], ws_ClusterRef = [], ws_Namespace = namespace,
                  ws_ServiceAccount = account, ws_ExpiresAt = None\<rparr>
            | _ \<Rightarrow> None))"

definition WorkloadBindingKey :: "string \<Rightarrow> string \<Rightarrow> string" where
  "WorkloadBindingKey clusterRef subject =
     (if clusterRef = [] then subject else clusterRef @ [CHR 0x00] @ subject)"

definition ValidWorkloadClusterRef :: "string \<Rightarrow> bool" where
  "ValidWorkloadClusterRef s = validDNSLabel s"

definition ValidWorkloadObjectUID :: "string \<Rightarrow> bool" where
  "ValidWorkloadObjectUID s \<longleftrightarrow>
     length s \<noteq> 0 \<and> length s \<le> 128 \<and>
     list_all (\<lambda>c. inLower c \<or> inUpper c \<or> inDigit c \<or> c = CHR ''-'') s"

section \<open>Trino principals\<close>

abbreviation TrinoQueryScope :: string where "TrinoQueryScope \<equiv> ''code-admin:trino:query''"

record trinoPrincipal =
  tp_InstallationUID :: string
  tp_TenantID :: string
  tp_TenantEpoch :: string
  tp_SubjectKind :: string
  tp_SubjectUID :: string

definition trinoIdentityPart :: "string \<Rightarrow> bool" where
  "trinoIdentityPart s \<longleftrightarrow>
     length s \<noteq> 0 \<and> length s \<le> 128 \<and>
     list_all (\<lambda>c. inLower c \<or> inUpper c \<or> inDigit c \<or> c = CHR ''-'' \<or> c = CHR ''_'') s"

definition TrinoInstallationAudience :: "string \<Rightarrow> string \<times> bool" where
  "TrinoInstallationAudience audience =
     (if \<not> HasPrefix audience ''trino:'' then ([], False)
      else let uid = TrimPrefix audience ''trino:'' in (uid, trinoIdentityPart uid))"

text \<open>
  The decimal rendering of \<^verbatim>\<open>strconv.Itoa\<close> on non-negative numbers, and lower-case hexadecimal text of
  32 bytes, which is what decoding and re-encoding the epoch accepts.
\<close>

fun Itoa :: "nat \<Rightarrow> string" where
  "Itoa n = (if n < 10 then [char_of (48 + n)] else Itoa (n div 10) @ [char_of (48 + n mod 10)])"

declare Itoa.simps [simp del]

definition lowerHex :: "char \<Rightarrow> bool" where
  "lowerHex c \<longleftrightarrow> inDigit c \<or> 97 \<le> (of_char c :: nat) \<and> (of_char c :: nat) \<le> 102"

definition netstring :: "string \<Rightarrow> string" where
  "netstring s = Itoa (length s) @ '':'' @ s @ '',''"

definition trinoTuple :: "trinoPrincipal \<Rightarrow> string" where
  "trinoTuple p =
     concat (map netstring
       [tp_InstallationUID p, tp_TenantID p, tp_TenantEpoch p, tp_SubjectKind p, tp_SubjectUID p])"

definition OpaquePrincipal :: "(string \<Rightarrow> string) \<Rightarrow> trinoPrincipal \<Rightarrow> string res" where
  "OpaquePrincipal sha256hex p =
     (if \<not> trinoIdentityPart (tp_InstallationUID p) \<or> \<not> trinoIdentityPart (tp_TenantID p) \<or>
         \<not> trinoIdentityPart (tp_SubjectUID p) \<or>
         \<not> (length (tp_TenantEpoch p) = 64 \<and> list_all lowerHex (tp_TenantEpoch p)) \<or>
         (tp_SubjectKind p \<noteq> ''User'' \<and> tp_SubjectKind p \<noteq> ''Service'')
      then Inl (ErrText ''invalid Trino principal identity'')
      else Inr (''cfp_'' @ sha256hex (trinoTuple p)))"

section \<open>Lemmas\<close>

lemma SplitChar_neq_Nil [simp]: "SplitChar c s \<noteq> []"
  by (induction s) (auto split: list.splits)

lemma SplitChar_notin: "p \<in> set (SplitChar c s) \<Longrightarrow> c \<notin> set p"
  by (induction s arbitrary: p) (fastforce split: if_splits list.splits)+

lemma SplitChar_join: "JoinStr [c] (SplitChar c s) = s"
proof (induction s)
  case (Cons x xs)
  then show ?case
    by (cases "SplitChar c xs" rule: list.exhaust) (auto split: list.splits, (metis JoinStr.simps(2,3) append_Cons list.exhaust)+)
qed simp

lemma inLower_graphic [simp]: "inLower c \<Longrightarrow> graphic c"
  by (simp add: inLower_def graphic_def)

lemma inUpper_graphic [simp]: "inUpper c \<Longrightarrow> graphic c"
  by (simp add: inUpper_def graphic_def)

lemma inDigit_graphic [simp]: "inDigit c \<Longrightarrow> graphic c"
  by (simp add: inDigit_def graphic_def)

lemma validDNSLabel_graphic: "validDNSLabel s \<Longrightarrow> list_all graphic s"
  by (auto simp: validDNSLabel_def list_all_iff graphic_def inLower_def inDigit_def)

lemma Itoa_digits: "\<forall>c \<in> set (Itoa n). inDigit c"
proof (induction n rule: Itoa.induct)
  case (1 n)
  then show ?case
    by (subst Itoa.simps) (auto simp: inDigit_def)
qed

fun decValue :: "string \<Rightarrow> nat" where
  "decValue s = foldl (\<lambda>a c. 10 * a + (of_char c - 48)) 0 s"

lemma decValue_Itoa: "decValue (Itoa n) = n"
proof (induction n rule: Itoa.induct)
  case (1 n)
  then show ?case by (subst Itoa.simps) auto
qed

lemma Itoa_inj: "Itoa m = Itoa n \<Longrightarrow> m = n"
  by (metis decValue_Itoa)

lemma digits_colon_inj:
  "xs @ CHR '':'' # s = ys @ CHR '':'' # t \<Longrightarrow> \<forall>c \<in> set xs. inDigit c \<Longrightarrow>
   \<forall>c \<in> set ys. inDigit c \<Longrightarrow> xs = ys \<and> s = t"
proof (induction xs arbitrary: ys)
  case Nil
  then show ?case by (cases ys) (auto simp: inDigit_def)
next
  case (Cons x xs)
  then show ?case by (cases ys) (auto simp: inDigit_def)
qed

lemma netstring_cancel: "netstring a @ s = netstring b @ t \<Longrightarrow> a = b \<and> s = t"
proof -
  assume "netstring a @ s = netstring b @ t"
  then have eq: "Itoa (length a) @ CHR '':'' # (a @ CHR '','' # s) =
      Itoa (length b) @ CHR '':'' # (b @ CHR '','' # t)"
    by (simp add: netstring_def)
  from digits_colon_inj [OF eq Itoa_digits Itoa_digits]
  have "Itoa (length a) = Itoa (length b)" and rest: "a @ CHR '','' # s = b @ CHR '','' # t"
    by auto
  then have "length a = length b" by (auto dest: Itoa_inj)
  with rest show ?thesis by simp
qed

lemma netstrings_inj:
  "length xs = length ys \<Longrightarrow> concat (map netstring xs) = concat (map netstring ys) \<Longrightarrow> xs = ys"
proof (induction xs ys rule: list_induct2)
  case (Cons x xs y ys)
  from Cons.prems have "netstring x @ concat (map netstring xs) = netstring y @ concat (map netstring ys)"
    by simp
  from netstring_cancel [OF this] Cons.IH show ?case by simp
qed simp

end
