(* ===== verification/Scope_Policy.thy ===== *)
theory Scope_Policy
  imports Domain
begin

text \<open>
  The package \<^verbatim>\<open>internal/scopepolicy\<close>: the versioned manifest of reserved \<^verbatim>\<open>code-admin:\<close> scopes, its
  validation on load, the canonical forms of role permissions and of audience scopes, and the two
  predicates that split reserved scopes between tenant roles and home authority.

  \<^verbatim>\<open>sha256\<close> and the JSON decoder are parameters. The package variables \<^verbatim>\<open>policyScopes\<close> and \<^verbatim>\<open>policyErr\<close>,
  written once by \<^verbatim>\<open>loadPolicy\<close>, are the argument \<open>P\<close> of the operations that read them.
\<close>

section \<open>The manifest\<close>

abbreviation PolicyVersion :: string where "PolicyVersion \<equiv> ''2026-10-23.1''"
abbreviation ManifestSHA256 :: string where
  "ManifestSHA256 \<equiv> ''a8ff94abb20b942c61dd732cb7f131d7205c3e5178005415f458505220e2e54a''"
abbreviation reservedPrefix :: string where "reservedPrefix \<equiv> ''code-admin:''"

record scopeEntry =
  se_Scope :: string
  se_Boundary :: string
  se_TenantAssignable :: bool
  se_Reason :: string

record manifest =
  mf_SchemaVersion :: int
  mf_PolicyVersion :: string
  mf_Scopes :: "scopeEntry list"

type_synonym policy = "(string \<rightharpoonup> scopeEntry) res"

text \<open>
  The decoder gives the first JSON value as a manifest (\<^term>\<open>None\<close> when decoding fails, unknown fields
  included) and whether the input ends after it.
\<close>

type_synonym manifest_decoder = "string \<Rightarrow> manifest option \<times> bool"

definition validEntry :: "scopeEntry \<Rightarrow> bool" where
  "validEntry e \<longleftrightarrow>
     \<not> (se_Scope e = [] \<or> se_TenantAssignable e \<and> se_Boundary e \<noteq> ''tenant'' \<or>
        se_Boundary e \<noteq> ''tenant'' \<and> se_Boundary e \<noteq> ''global'' \<and> se_Boundary e \<noteq> ''mixed'')"

fun loadEntries :: "(string \<rightharpoonup> scopeEntry) \<Rightarrow> scopeEntry list \<Rightarrow> policy" where
  "loadEntries scopes [] = Inr scopes"
| "loadEntries scopes (e # es) =
     (if \<not> validEntry e then Inl (ErrText ''compiled scope policy contains an invalid entry'')
      else if scopes (se_Scope e) \<noteq> None
        then Inl (ErrText ''compiled scope policy contains a duplicate scope'')
      else loadEntries (scopes(se_Scope e \<mapsto> e)) es)"

definition parseManifest ::
  "(string \<Rightarrow> string) \<Rightarrow> manifest_decoder \<Rightarrow> string \<Rightarrow> string \<Rightarrow> string \<Rightarrow> policy" where
  "parseManifest sha256hex decode data expectedDigest expectedVersion =
     (if sha256hex data \<noteq> expectedDigest
      then Inl (ErrText ''compiled scope policy digest mismatch'')
      else (case decode data of
              (None, _) \<Rightarrow> Inl (ErrText ''compiled scope policy version mismatch'')
            | (Some parsed, atEOF) \<Rightarrow>
                if mf_SchemaVersion parsed \<noteq> 1 \<or> mf_PolicyVersion parsed \<noteq> expectedVersion
                then Inl (ErrText ''compiled scope policy version mismatch'')
                else if \<not> atEOF
                then Inl (ErrText ''compiled scope policy contains trailing data'')
                else loadEntries Map.empty (mf_Scopes parsed)))"

definition loadPolicy :: "(string \<Rightarrow> string) \<Rightarrow> manifest_decoder \<Rightarrow> string \<Rightarrow> policy" where
  "loadPolicy sha256hex decode manifestJSON =
     parseManifest sha256hex decode manifestJSON ManifestSHA256 PolicyVersion"

definition ValidateCompiled :: "policy \<Rightarrow> gerror option" where
  "ValidateCompiled P = (case P of Inl e \<Rightarrow> Some e | Inr _ \<Rightarrow> None)"

text \<open>After a failed load \<^verbatim>\<open>policyScopes\<close> is the nil map, in which every lookup misses.\<close>

definition policyScopes :: "policy \<Rightarrow> string \<Rightarrow> scopeEntry option" where
  "policyScopes P v = (case P of Inl _ \<Rightarrow> None | Inr m \<Rightarrow> m v)"

section \<open>Permissions and audience scopes\<close>

definition permissionChar :: "char \<Rightarrow> bool" where
  "permissionChar c \<longleftrightarrow> inLower c \<or> inUpper c \<or> inDigit c \<or> c \<in> set ''._:/*-''"

definition validPermission :: "string \<Rightarrow> bool" where
  "validPermission v \<longleftrightarrow> \<not> (length v < 1 \<or> length v > 128) \<and> list_all permissionChar v"

definition TenantRoleAssignable :: "policy \<Rightarrow> string \<Rightarrow> bool" where
  "TenantRoleAssignable P v =
     (if ValidateCompiled P \<noteq> None \<or> \<not> HasPrefix v reservedPrefix then False
      else (case policyScopes P v of
              None \<Rightarrow> False
            | Some e \<Rightarrow> se_TenantAssignable e \<and> se_Boundary e = ''tenant''))"

definition RequiresHomeAuthority :: "policy \<Rightarrow> string \<Rightarrow> bool" where
  "RequiresHomeAuthority P v =
     (if \<not> validPermission v then False
      else if \<not> HasPrefix v reservedPrefix then True
      else if ValidateCompiled P \<noteq> None then False
      else (case policyScopes P v of None \<Rightarrow> False | Some e \<Rightarrow> se_Boundary e \<noteq> ''tenant''))"

fun checkPermissions :: "policy \<Rightarrow> string set \<Rightarrow> string list \<Rightarrow> bool" where
  "checkPermissions P seen [] = True"
| "checkPermissions P seen (v # vs) =
     (if \<not> validPermission v then False
      else if v \<in> seen then False
      else if HasPrefix v reservedPrefix \<and>
        (ValidateCompiled P \<noteq> None \<or>
         (case policyScopes P v of
            None \<Rightarrow> True
          | Some e \<Rightarrow> \<not> se_TenantAssignable e \<or> se_Boundary e \<noteq> ''tenant''))
        then False
      else checkPermissions P (insert v seen) vs)"

definition CanonicalPermissions :: "policy \<Rightarrow> string list \<Rightarrow> string list option" where
  "CanonicalPermissions P values =
     (if length values < 1 \<or> length values > 500 then None
      else if checkPermissions P {} values then Some (sort values) else None)"

definition ValidCanonicalPermissions :: "policy \<Rightarrow> string list \<Rightarrow> bool" where
  "ValidCanonicalPermissions P values \<longleftrightarrow>
     (case CanonicalPermissions P values of None \<Rightarrow> False | Some cs \<Rightarrow> cs = values)"

fun collectAudienceScopes ::
  "policy \<Rightarrow> string list \<Rightarrow> string list \<Rightarrow> string list option" where
  "collectAudienceScopes P result [] = Some result"
| "collectAudienceScopes P result (raw # raws) =
     (let v = TrimSpace raw in
      if \<not> validPermission v then None
      else if HasPrefix v reservedPrefix \<and>
        (case policyScopes P v of
           None \<Rightarrow> True
         | Some e \<Rightarrow> se_Boundary e = ''tenant'' \<and> \<not> se_TenantAssignable e)
        then None
      else if v \<in> set result then collectAudienceScopes P result raws
      else collectAudienceScopes P (result @ [v]) raws)"

definition CanonicalAudienceScopes :: "policy \<Rightarrow> string list \<Rightarrow> string list option" where
  "CanonicalAudienceScopes P values =
     (if length values < 1 \<or> length values > 500 \<or> ValidateCompiled P \<noteq> None then None
      else (case collectAudienceScopes P [] values of
              None \<Rightarrow> None
            | Some result \<Rightarrow> let r = sort result in if length r > 0 then Some r else None))"

definition ValidCanonicalAudienceScopes :: "policy \<Rightarrow> string list \<Rightarrow> bool" where
  "ValidCanonicalAudienceScopes P values \<longleftrightarrow>
     (case CanonicalAudienceScopes P values of None \<Rightarrow> False | Some cs \<Rightarrow> cs = values)"

section \<open>The compiled manifest\<close>

text \<open>The entries of \<^verbatim>\<open>manifest.v1.json\<close>, in file order.\<close>

definition entry :: "string \<Rightarrow> string \<Rightarrow> bool \<Rightarrow> string \<Rightarrow> scopeEntry" where
  "entry s b a r =
     \<lparr>se_Scope = s, se_Boundary = b, se_TenantAssignable = a, se_Reason = r\<rparr>"

definition compiledEntries :: "scopeEntry list" where
  "compiledEntries =
     [entry ''code-admin:ai:platform'' ''global'' False '''',
      entry ''code-admin:ai:read'' ''tenant'' True '''',
      entry ''code-admin:ai:runtime'' ''global'' False '''',
      entry ''code-admin:ai:write'' ''tenant'' True '''',
      entry ''code-admin:audit:read'' ''tenant'' True '''',
      entry ''code-admin:audit:write'' ''tenant'' True '''',
      entry ''code-admin:bindings:read'' ''tenant'' True '''',
      entry ''code-admin:bindings:write'' ''tenant'' True '''',
      entry ''code-admin:clusters:admin'' ''global'' False '''',
      entry ''code-admin:clusters:read'' ''global'' False '''',
      entry ''code-admin:deployments:approve'' ''tenant'' True '''',
      entry ''code-admin:deployments:read'' ''tenant'' True '''',
      entry ''code-admin:deployments:rollback'' ''tenant'' True '''',
      entry ''code-admin:deployments:write'' ''tenant'' True '''',
      entry ''code-admin:environments:admin'' ''global'' False '''',
      entry ''code-admin:environments:read'' ''tenant'' True '''',
      entry ''code-admin:explorer:read'' ''mixed'' False ''Queries both tenant and global catalog resources.'',
      entry ''code-admin:features:read'' ''tenant'' True '''',
      entry ''code-admin:features:write'' ''tenant'' True '''',
      entry ''code-admin:identity:read'' ''mixed'' False ''Used by tenant resources and legacy tenant-directory/explicit-tenant routes; nonassignable until those routes have a uniform tenant boundary or separate scope.'',
      entry ''code-admin:identity:write'' ''tenant'' True '''',
      entry ''code-admin:logs:platform:read'' ''global'' False ''Platform log access is restricted to explicit home platform authority.'',
      entry ''code-admin:logs:read'' ''tenant'' True '''',
      entry ''code-admin:metrics:read'' ''tenant'' True '''',
      entry ''code-admin:observability:read'' ''tenant'' True '''',
      entry ''code-admin:observability:write'' ''tenant'' True '''',
      entry ''code-admin:operations:read'' ''tenant'' True '''',
      entry ''code-admin:operations:write'' ''tenant'' True '''',
      entry ''code-admin:owners:delegate'' ''tenant'' False ''Internal owner-delegation capability; tenant-bound but not assignable through membership roles.'',
      entry ''code-admin:platform:admin'' ''global'' False '''',
      entry ''code-admin:platform:read'' ''global'' False '''',
      entry ''code-admin:policies:read'' ''tenant'' True '''',
      entry ''code-admin:policies:write'' ''tenant'' True '''',
      entry ''code-admin:queues:read'' ''tenant'' True '''',
      entry ''code-admin:queues:write'' ''tenant'' True '''',
      entry ''code-admin:quotas:read'' ''tenant'' True '''',
      entry ''code-admin:quotas:write'' ''tenant'' True '''',
      entry ''code-admin:repositories:admin'' ''global'' False '''',
      entry ''code-admin:repositories:read'' ''tenant'' True '''',
      entry ''code-admin:repositories:write'' ''tenant'' True '''',
      entry ''code-admin:secrets:read'' ''tenant'' True '''',
      entry ''code-admin:secrets:write'' ''tenant'' True '''',
      entry ''code-admin:services:read'' ''tenant'' True '''',
      entry ''code-admin:services:write'' ''tenant'' True '''',
      entry ''code-admin:storage:read'' ''tenant'' True '''',
      entry ''code-admin:storage:write'' ''tenant'' True '''',
      entry ''code-admin:subscriptions:admin'' ''global'' False '''',
      entry ''code-admin:subscriptions:read'' ''global'' False '''',
      entry ''code-admin:tenants:admin'' ''global'' False '''',
      entry ''code-admin:tenants:read'' ''global'' False '''',
      entry ''code-admin:trino:query'' ''tenant'' True '''',
      entry ''code-admin:trino:read'' ''tenant'' True '''',
      entry ''code-admin:trino:write'' ''tenant'' True '''',
      entry ''code-admin:workloads:read'' ''tenant'' True '''',
      entry ''code-admin:workloads:write'' ''tenant'' True '''',
      entry ''code-admin:yaml:read'' ''mixed'' False ''Exports both tenant and global catalog resources.'',
      entry ''code-admin:yaml:write'' ''tenant'' True '''']"

definition compiledManifest :: manifest where
  "compiledManifest =
     \<lparr>mf_SchemaVersion = 1, mf_PolicyVersion = PolicyVersion, mf_Scopes = compiledEntries\<rparr>"

definition compiledPolicy :: policy where
  "compiledPolicy = loadEntries Map.empty compiledEntries"

section \<open>The contract of a canonicaliser\<close>

text \<open>
  Several routines of the program bring a list of strings into canonical form or refuse it. What the
  callers rely on: a result is sorted and duplicate free, holds the normalised input values, and is
  accepted again unchanged, so that comparing a stored list with its canonical form is a validity
  check.
\<close>

locale canonicaliser =
  fixes canon :: "string list \<Rightarrow> string list option"
    and norm :: "string \<Rightarrow> string"
  assumes canon_canonical: "canon xs = Some ys \<Longrightarrow> canonical ys"
    and canon_set: "canon xs = Some ys \<Longrightarrow> set ys = norm ` set xs"
    and canon_stable: "canon xs = Some ys \<Longrightarrow> canon ys = Some ys"
begin

lemma canon_unique:
  "canon xs = Some ys \<Longrightarrow> canon xs' = Some ys' \<Longrightarrow> norm ` set xs = norm ` set xs' \<Longrightarrow> ys = ys'"
  by (metis canon_canonical canon_set canonical_unique)

lemma canon_image_iff: "(\<exists>xs. canon xs = Some ys) \<longleftrightarrow> canon ys = Some ys"
  using canon_stable by blast

lemma canon_member: "canon xs = Some ys \<Longrightarrow> x \<in> set xs \<Longrightarrow> norm x \<in> set ys"
  using canon_set by blast

end

section \<open>Lemmas\<close>

lemma validPermission_graphic: "validPermission v \<Longrightarrow> v \<noteq> [] \<and> list_all graphic v"
proof -
  have "graphic c" if "permissionChar c" for c
    using that by (auto simp: permissionChar_def graphic_def inLower_def inUpper_def inDigit_def)
  then show "validPermission v \<Longrightarrow> v \<noteq> [] \<and> list_all graphic v"
    by (auto simp: validPermission_def list_all_iff)
qed

lemma validPermission_TrimSpace [simp]: "validPermission v \<Longrightarrow> TrimSpace v = v"
  by (simp add: TrimSpace_all_graphic validPermission_graphic)

lemma reserved_refused_iff:
  "HasPrefix v reservedPrefix \<Longrightarrow>
   (ValidateCompiled P \<noteq> None \<or>
      (case policyScopes P v of None \<Rightarrow> True
       | Some e \<Rightarrow> \<not> se_TenantAssignable e \<or> se_Boundary e \<noteq> ''tenant'')) \<longleftrightarrow>
   \<not> TenantRoleAssignable P v"
  by (auto simp: TenantRoleAssignable_def split: option.splits)

lemma checkPermissions_iff:
  "checkPermissions P seen vs \<longleftrightarrow>
     distinct vs \<and> set vs \<inter> seen = {} \<and>
     (\<forall>v \<in> set vs. validPermission v \<and> (HasPrefix v reservedPrefix \<longrightarrow> TenantRoleAssignable P v))"
proof (induction vs arbitrary: seen)
  case (Cons v vs)
  show ?case
  proof (cases "HasPrefix v reservedPrefix")
    case True
    note r = reserved_refused_iff [OF True]
    show ?thesis by (simp only: checkPermissions.simps r Cons.IH) (use True in auto)
  next
    case False
    then show ?thesis by (auto simp: Cons.IH)
  qed
qed simp

lemma CanonicalPermissions_eq_Some:
  "CanonicalPermissions P xs = Some ys \<longleftrightarrow>
     1 \<le> length xs \<and> length xs \<le> 500 \<and> distinct xs \<and>
     (\<forall>v \<in> set xs. validPermission v \<and> (HasPrefix v reservedPrefix \<longrightarrow> TenantRoleAssignable P v)) \<and>
     ys = sort xs"
  by (auto simp: CanonicalPermissions_def checkPermissions_iff Suc_le_eq)

interpretation permissions: canonicaliser "CanonicalPermissions P" "\<lambda>v. v" for P
  by unfold_locales
    (auto simp: CanonicalPermissions_eq_Some canonical_sort sort_key_id_if_sorted)

lemma ValidCanonicalPermissions_iff:
  "ValidCanonicalPermissions P xs \<longleftrightarrow> CanonicalPermissions P xs = Some xs"
  by (auto simp: ValidCanonicalPermissions_def split: option.splits)

definition audienceAllowed :: "policy \<Rightarrow> string \<Rightarrow> bool" where
  "audienceAllowed P v \<longleftrightarrow>
     validPermission v \<and>
     (HasPrefix v reservedPrefix \<longrightarrow>
        (\<exists>e. policyScopes P v = Some e \<and> (se_Boundary e = ''tenant'' \<longrightarrow> se_TenantAssignable e)))"

lemma collectAudienceScopes_Some:
  "collectAudienceScopes P acc raws = Some out \<Longrightarrow> distinct acc \<Longrightarrow>
   distinct out \<and> set out = set acc \<union> TrimSpace ` set raws \<and>
   (\<forall>raw \<in> set raws. audienceAllowed P (TrimSpace raw))"
proof (induction raws arbitrary: acc)
  case (Cons raw raws)
  let ?v = "TrimSpace raw"
  from Cons.prems(1) have a: "audienceAllowed P ?v"
    and c: "collectAudienceScopes P (if ?v \<in> set acc then acc else acc @ [?v]) raws = Some out"
    by (auto simp: Let_def audienceAllowed_def split: if_splits option.splits)
  from Cons.IH [OF c] Cons.prems(2) a show ?case by (auto split: if_splits)
qed simp

lemma collectAudienceScopes_total:
  "\<forall>raw \<in> set raws. audienceAllowed P (TrimSpace raw) \<Longrightarrow>
   \<exists>out. collectAudienceScopes P acc raws = Some out"
  by (induction raws arbitrary: acc) (auto simp: Let_def audienceAllowed_def split: option.splits)

lemma CanonicalAudienceScopes_eq_Some:
  "CanonicalAudienceScopes P xs = Some ys \<longleftrightarrow>
     1 \<le> length xs \<and> length xs \<le> 500 \<and> ValidateCompiled P = None \<and>
     (\<forall>raw \<in> set xs. audienceAllowed P (TrimSpace raw)) \<and> ys = sort_uniq (map TrimSpace xs)"
  (is "?lhs \<longleftrightarrow> ?rhs")
proof
  assume ?lhs
  then obtain out where o: "collectAudienceScopes P [] xs = Some out" "ys = sort out"
    and l: "1 \<le> length xs" "length xs \<le> 500" "ValidateCompiled P = None"
    by (auto simp: CanonicalAudienceScopes_def Let_def Suc_le_eq split: if_splits option.splits)
  from collectAudienceScopes_Some [OF o(1)] have d: "distinct out" "set out = TrimSpace ` set xs"
    "\<forall>raw \<in> set xs. audienceAllowed P (TrimSpace raw)" by auto
  then have "ys = sort_uniq (map TrimSpace xs)"
    by (intro canonical_unique) (simp_all add: o canonical_sort)
  with l d show ?rhs by blast
next
  assume r: ?rhs
  then obtain out where o: "collectAudienceScopes P [] xs = Some out"
    using collectAudienceScopes_total by blast
  from collectAudienceScopes_Some [OF this] have d: "distinct out" "set out = TrimSpace ` set xs"
    by auto
  from d r have "ys = sort out" by (intro canonical_unique) (simp_all add: canonical_sort)
  moreover have "0 < length (sort out)" using d r by auto
  ultimately show ?lhs using r o by (simp add: CanonicalAudienceScopes_def Let_def Suc_le_eq)
qed

lemma length_sort_uniq_le: "length (sort_uniq xs) \<le> length xs"
  by (simp add: sort_uniq_def length_remdups_leq)

lemma sort_uniq_eq_Nil [simp]: "sort_uniq xs = [] \<longleftrightarrow> xs = []"
  by (metis set_sort_uniq set_empty)

lemma audienceAllowed_TrimSpace: "audienceAllowed P v \<Longrightarrow> TrimSpace v = v"
  by (simp add: audienceAllowed_def)

interpretation audience: canonicaliser "CanonicalAudienceScopes P" TrimSpace for P
proof unfold_locales
  fix xs ys
  assume a: "CanonicalAudienceScopes P xs = Some ys"
  then have ys: "ys = sort_uniq (map TrimSpace xs)" and ok: "\<forall>y \<in> set ys. audienceAllowed P y"
    and l: "1 \<le> length xs" "length xs \<le> 500" "ValidateCompiled P = None"
    by (auto simp: CanonicalAudienceScopes_eq_Some)
  then show "canonical ys" "set ys = TrimSpace ` set xs" by auto
  have "map TrimSpace ys = ys" by (rule map_idI) (use ok audienceAllowed_TrimSpace in auto)
  moreover have "length ys \<le> 500" "1 \<le> length ys"
    using ys l length_sort_uniq_le [of "map TrimSpace xs"] by (auto simp: Suc_le_eq)
  ultimately show "CanonicalAudienceScopes P ys = Some ys"
    using ok l ys
    by (auto simp: CanonicalAudienceScopes_eq_Some sort_uniq_canonical audienceAllowed_TrimSpace)
qed

lemma ValidCanonicalAudienceScopes_iff:
  "ValidCanonicalAudienceScopes P xs \<longleftrightarrow> CanonicalAudienceScopes P xs = Some xs"
  by (auto simp: ValidCanonicalAudienceScopes_def split: option.splits)

lemma audienceAllowed_split:
  "ValidateCompiled P = None \<Longrightarrow> audienceAllowed P v \<Longrightarrow>
   TenantRoleAssignable P v \<noteq> RequiresHomeAuthority P v"
  by (auto simp: audienceAllowed_def TenantRoleAssignable_def RequiresHomeAuthority_def)

lemma loadEntries_keeps: "loadEntries a es = Inr b \<Longrightarrow> a v = Some x \<Longrightarrow> b v = Some x"
proof (induction es arbitrary: a)
  case (Cons e es)
  then have "loadEntries (a(se_Scope e \<mapsto> e)) es = Inr b" "(a(se_Scope e \<mapsto> e)) v = Some x"
    by (auto split: if_splits)
  then show ?case by (rule Cons.IH)
qed simp

definition policyTable :: "(string \<rightharpoonup> scopeEntry) \<Rightarrow> bool" where
  "policyTable m \<longleftrightarrow> (\<forall>v e. m v = Some e \<longrightarrow> se_Scope e = v \<and> validEntry e)"

lemma policyTable_upd: "policyTable m \<Longrightarrow> validEntry e \<Longrightarrow> policyTable (m(se_Scope e \<mapsto> e))"
  by (simp add: policyTable_def)

lemma loadEntries_Cons_Inr:
  "loadEntries m (e # es) = Inr m' \<longleftrightarrow>
     validEntry e \<and> m (se_Scope e) = None \<and> loadEntries (m(se_Scope e \<mapsto> e)) es = Inr m'"
  by auto

lemma loadEntries_policyTable: "loadEntries m es = Inr m' \<Longrightarrow> policyTable m \<Longrightarrow> policyTable m'"
proof (induction es arbitrary: m)
  case (Cons e es)
  then show ?case using policyTable_upd unfolding loadEntries_Cons_Inr by blast
qed simp

lemma loadEntries_contents:
  "loadEntries m es = Inr m' \<Longrightarrow>
   distinct (map se_Scope es) \<and> dom m \<inter> se_Scope ` set es = {} \<and>
   dom m' = dom m \<union> se_Scope ` set es \<and> (\<forall>e \<in> set es. m' (se_Scope e) = Some e)"
proof (induction es arbitrary: m)
  case (Cons e es)
  then have n: "m (se_Scope e) = None" and r: "loadEntries (m(se_Scope e \<mapsto> e)) es = Inr m'"
    unfolding loadEntries_Cons_Inr by auto
  have "m' (se_Scope e) = Some e" by (rule loadEntries_keeps [OF r]) simp
  moreover have d: "dom (m(se_Scope e \<mapsto> e)) = insert (se_Scope e) (dom m)" by simp
  moreover from n have "se_Scope e \<notin> dom m" by (simp add: domIff)
  ultimately show ?case using Cons.IH [OF r, unfolded d]
    unfolding set_simps image_insert list.map distinct.simps set_map by blast
qed simp

lemma loadEntries_total:
  "list_all validEntry es \<Longrightarrow> distinct (map se_Scope es) \<Longrightarrow> dom m \<inter> se_Scope ` set es = {} \<Longrightarrow>
   loadEntries m es = Inr (m ++ map_of (map (\<lambda>e. (se_Scope e, e)) es))"
proof (induction es arbitrary: m)
  case (Cons e es)
  let ?f = "map_of (map (\<lambda>e. (se_Scope e, e)) es)"
  from Cons.prems(2) have "?f (se_Scope e) = None" by (auto simp: map_of_eq_None_iff image_iff)
  then have c: "m(se_Scope e \<mapsto> e) ++ ?f = m ++ map_of (map (\<lambda>e. (se_Scope e, e)) (e # es))"
    by (auto simp: map_add_def fun_eq_iff split: option.splits)
  have d: "dom (m(se_Scope e \<mapsto> e)) = insert (se_Scope e) (dom m)" by simp
  from Cons.prems have dd: "dom (m(se_Scope e \<mapsto> e)) \<inter> se_Scope ` set es = {}"
    unfolding d list.set image_insert list.map distinct.simps set_map by blast
  from Cons.prems have "list_all validEntry es" "distinct (map se_Scope es)" by auto
  from Cons.IH [OF this dd]
  have "loadEntries (m(se_Scope e \<mapsto> e)) es = Inr (m(se_Scope e \<mapsto> e) ++ ?f)" .
  moreover have "m (se_Scope e) = None" "validEntry e" using Cons.prems by (auto simp: domIff)
  ultimately show ?case unfolding loadEntries_Cons_Inr c [symmetric] by blast
qed simp

lemma compiledEntries_valid: "list_all validEntry compiledEntries"
  by (simp add: compiledEntries_def entry_def validEntry_def)

lemma compiledEntries_distinct: "distinct (map se_Scope compiledEntries)"
proof -
  have "sorted_wrt (<) (map se_Scope compiledEntries)"
    by (simp add: compiledEntries_def entry_def sorted_wrt1 sorted_wrt2
      del: sorted_wrt.simps(2))
  then show ?thesis by (simp add: strict_sorted_iff)
qed

lemma compiledPolicy_eq:
  "compiledPolicy = Inr (map_of (map (\<lambda>e. (se_Scope e, e)) compiledEntries))"
  using loadEntries_total [OF compiledEntries_valid compiledEntries_distinct, of Map.empty]
  by (simp add: compiledPolicy_def)

lemma ValidateCompiled_compiled [simp]: "ValidateCompiled compiledPolicy = None"
  by (simp add: compiledPolicy_eq ValidateCompiled_def)

lemma map_of_eq_find: "map_of (map (\<lambda>e. (f e, e)) es) v = find (\<lambda>e. f e = v) es"
  by (induction es) auto

lemma policyScopes_compiled:
  "policyScopes compiledPolicy v = find (\<lambda>e. se_Scope e = v) compiledEntries"
  by (simp add: compiledPolicy_eq policyScopes_def map_of_eq_find)

lemmas compiled_eval = policyScopes_compiled compiledEntries_def entry_def HasPrefix_def
  TenantRoleAssignable_def RequiresHomeAuthority_def validPermission_def permissionChar_def
  inLower_def inUpper_def inDigit_def

section \<open>Properties\<close>

text \<open>
  \<^verbatim>\<open>CanonicalPermissions\<close> accepts a list exactly when it has 1 to 500 entries, no duplicates, every
  entry is a well-formed permission and every reserved \<^verbatim>\<open>code-admin:\<close> entry is assignable by a tenant
  role according to the loaded manifest; the result is then the sorted input.
\<close>
theorem CanonicalPermissions_accepts:
  "CanonicalPermissions P xs = Some ys \<longleftrightarrow>
     1 \<le> length xs \<and> length xs \<le> 500 \<and> distinct xs \<and>
     (\<forall>v \<in> set xs. validPermission v \<and> (HasPrefix v reservedPrefix \<longrightarrow> TenantRoleAssignable P v)) \<and>
     sorted ys \<and> mset ys = mset xs"
  by (auto simp: CanonicalPermissions_eq_Some) (metis properties_for_sort)

theorem CanonicalPermissions_accepts_witness:
  "CanonicalPermissions compiledPolicy [''files:read'', ''code-admin:ai:write'', ''code-admin:ai:read''] =
     Some [''code-admin:ai:read'', ''code-admin:ai:write'', ''files:read''] \<and>
   CanonicalPermissions compiledPolicy [''code-admin:tenants:admin''] \<noteq> Some [''code-admin:tenants:admin'']"
proof
  show "CanonicalPermissions compiledPolicy [''files:read'', ''code-admin:ai:write'', ''code-admin:ai:read''] =
     Some [''code-admin:ai:read'', ''code-admin:ai:write'', ''files:read'']"
    unfolding CanonicalPermissions_accepts by (simp add: compiled_eval)
  show "CanonicalPermissions compiledPolicy [''code-admin:tenants:admin''] \<noteq> Some [''code-admin:tenants:admin'']"
    unfolding CanonicalPermissions_accepts by (simp add: compiled_eval)
qed

text \<open>
  A list accepted by \<^verbatim>\<open>CanonicalAudienceScopes\<close> is the sorted, duplicate-free list of the trimmed
  inputs, is accepted again unchanged, and each of its scopes belongs to exactly one of the two
  authorities: either a tenant role may grant it or it needs home authority.
\<close>
theorem CanonicalAudienceScopes_partition:
  assumes "CanonicalAudienceScopes P xs = Some ys"
  shows "canonical ys \<and> set ys = TrimSpace ` set xs \<and> ValidCanonicalAudienceScopes P ys \<and>
    (\<forall>v \<in> set ys. TenantRoleAssignable P v \<noteq> RequiresHomeAuthority P v)"
proof (intro conjI ballI)
  show "canonical ys" "set ys = TrimSpace ` set xs"
    using audience.canon_canonical audience.canon_set assms by auto
  show "ValidCanonicalAudienceScopes P ys"
    using audience.canon_stable [OF assms] by (simp add: ValidCanonicalAudienceScopes_iff)
  fix v
  assume "v \<in> set ys"
  with assms have "audienceAllowed P v" "ValidateCompiled P = None"
    by (auto simp: CanonicalAudienceScopes_eq_Some)
  then show "TenantRoleAssignable P v \<noteq> RequiresHomeAuthority P v" by (simp add: audienceAllowed_split)
qed

theorem CanonicalAudienceScopes_partition_witness:
  "CanonicalAudienceScopes compiledPolicy ['' console '', ''code-admin:tenants:admin'', ''code-admin:ai:read'', ''console''] =
     Some [''code-admin:ai:read'', ''code-admin:tenants:admin'', ''console''] \<and>
   ValidCanonicalAudienceScopes compiledPolicy [''code-admin:ai:read'', ''code-admin:tenants:admin'', ''console'']"
proof -
  have t: "TrimSpace '' console '' = ''console''"
    by (simp add: TrimSpace_def trim_with.simps go_spaces_def HasPrefix_def)
  have a: "audienceAllowed compiledPolicy ''console''"
    "audienceAllowed compiledPolicy ''code-admin:tenants:admin''"
    "audienceAllowed compiledPolicy ''code-admin:ai:read''"
    by (simp_all add: audienceAllowed_def compiled_eval)
  note e = t a a [THEN audienceAllowed_TrimSpace]
  have "CanonicalAudienceScopes compiledPolicy ['' console '', ''code-admin:tenants:admin'', ''code-admin:ai:read'', ''console''] =
     Some [''code-admin:ai:read'', ''code-admin:tenants:admin'', ''console'']"
    unfolding CanonicalAudienceScopes_eq_Some
    by (simp add: e sort_uniq_def)
  with CanonicalAudienceScopes_partition [OF this] show ?thesis by simp
qed

text \<open>
  A manifest that loads has the pinned digest and version, no trailing data and no duplicate scope;
  the loaded table holds exactly its entries, each under its own name, and an entry that tenant roles
  may carry is always bounded by a tenant.
\<close>
theorem loadPolicy_sound:
  assumes "loadPolicy sha256hex decode data = Inr m"
  shows "sha256hex data = ManifestSHA256 \<and>
    (\<exists>mf. decode data = (Some mf, True) \<and> mf_SchemaVersion mf = 1 \<and>
       mf_PolicyVersion mf = PolicyVersion \<and> distinct (map se_Scope (mf_Scopes mf)) \<and>
       dom m = se_Scope ` set (mf_Scopes mf) \<and> (\<forall>e \<in> set (mf_Scopes mf). m (se_Scope e) = Some e)) \<and>
    (\<forall>v e. m v = Some e \<longrightarrow> se_Scope e = v \<and> (se_TenantAssignable e \<longrightarrow> se_Boundary e = ''tenant''))"
proof -
  from assms obtain mf where mf: "sha256hex data = ManifestSHA256" "decode data = (Some mf, True)"
    "mf_SchemaVersion mf = 1" "mf_PolicyVersion mf = PolicyVersion"
    and l: "loadEntries Map.empty (mf_Scopes mf) = Inr m"
    by (auto simp: loadPolicy_def parseManifest_def split: if_splits prod.splits option.splits)
  moreover have "policyTable m"
    by (rule loadEntries_policyTable [OF l]) (simp add: policyTable_def)
  ultimately show ?thesis using loadEntries_contents [OF l]
    by (auto simp: policyTable_def validEntry_def)
qed

theorem loadPolicy_sound_witness:
  "loadPolicy (\<lambda>_. ManifestSHA256) (\<lambda>_. (Some compiledManifest, True)) ''{}'' = compiledPolicy \<and>
   (\<exists>m. compiledPolicy = Inr m \<and> dom m = se_Scope ` set compiledEntries)"
proof -
  have l: "loadPolicy (\<lambda>_. ManifestSHA256) (\<lambda>_. (Some compiledManifest, True)) ''{}'' = compiledPolicy"
    by (simp add: loadPolicy_def parseManifest_def compiledManifest_def compiledPolicy_def)
  then obtain m where m: "compiledPolicy = Inr m" "loadPolicy (\<lambda>_. ManifestSHA256) (\<lambda>_. (Some compiledManifest, True)) ''{}'' = Inr m"
    by (simp add: compiledPolicy_eq)
  from loadPolicy_sound [OF m(2)] m l show ?thesis by (auto simp: compiledManifest_def)
qed

end
