(* ===== verification/Redis_Client.thy ===== *)
theory Redis_Client
  imports Domain
begin

text \<open>
  The two libraries under the repositories, as parameters: the Redis client (\<^verbatim>\<open>go-redis\<close>), a record of
  commands over a world \<open>'w\<close>, and the JSON codec of one stored type. A read that finds nothing
  (\<^verbatim>\<open>redis.Nil\<close>) is \<^term>\<open>Inr None\<close>, a failed command \<^term>\<open>Inl e\<close>; a command that writes returns the new world.

  \<open>exactObject\<close> stands for \<^verbatim>\<open>decodeExactObject\<close>: the value decodes and the object has only the fields the
  stored type declares, each at most once and none null.
\<close>

record 'w redis =
  HGet :: "'w \<Rightarrow> string \<Rightarrow> string \<Rightarrow> string option res"
  HSet :: "'w \<Rightarrow> string \<Rightarrow> string \<Rightarrow> string \<Rightarrow> gerror option \<times> 'w"
  HSetNX :: "'w \<Rightarrow> string \<Rightarrow> string \<Rightarrow> string \<Rightarrow> bool res \<times> 'w"
  HGetAll :: "'w \<Rightarrow> string \<Rightarrow> (string \<times> string) list res"
  HMGet :: "'w \<Rightarrow> string \<Rightarrow> string list \<Rightarrow> string option list res"
  HDel :: "'w \<Rightarrow> string \<Rightarrow> string \<Rightarrow> int res \<times> 'w"
  scriptError :: "'w \<Rightarrow> gerror option"

record 'a codec =
  marshal :: "'a \<Rightarrow> string res"
  unmarshal :: "string \<Rightarrow> 'a res"
  exactObject :: "string \<Rightarrow> 'a option"

section \<open>An in-memory Redis\<close>

text \<open>A Redis that never fails, as the documentation describes the commands; witnesses run on it.\<close>

type_synonym memory = "string \<Rightarrow> (string \<times> string) list"

definition memSet :: "memory \<Rightarrow> string \<Rightarrow> string \<Rightarrow> string \<Rightarrow> memory" where
  "memSet w k f v = w(k := (f, v) # filter (\<lambda>p. fst p \<noteq> f) (w k))"

definition memRedis :: "memory redis" where
  "memRedis =
     \<lparr>HGet = (\<lambda>w k f. Inr (map_of (w k) f)),
      HSet = (\<lambda>w k f v. (None, memSet w k f v)),
      HSetNX = (\<lambda>w k f v. if map_of (w k) f = None then (Inr True, memSet w k f v) else (Inr False, w)),
      HGetAll = (\<lambda>w k. Inr (w k)),
      HMGet = (\<lambda>w k fs. Inr (map (map_of (w k)) fs)),
      HDel = (\<lambda>w k f. if map_of (w k) f = None then (Inr 0, w)
        else (Inr 1, w(k := filter (\<lambda>p. fst p \<noteq> f) (w k)))),
      scriptError = (\<lambda>w. None)\<rparr>"

section \<open>What the repositories rely on\<close>

definition hash_reads_writes :: "'w redis \<Rightarrow> bool" where
  "hash_reads_writes R \<longleftrightarrow>
     (\<forall>w k f v w'. HSet R w k f v = (None, w') \<longrightarrow> HGet R w' k f = Inr (Some v)) \<and>
     (\<forall>w k f v w'. HSetNX R w k f v = (Inr True, w') \<longrightarrow>
        HGet R w k f = Inr None \<and> HGet R w' k f = Inr (Some v)) \<and>
     (\<forall>w k f v w'. HSetNX R w k f v = (Inr False, w') \<longrightarrow> w' = w)"

definition codec_roundtrip :: "'a codec \<Rightarrow> bool" where
  "codec_roundtrip C \<longleftrightarrow> (\<forall>a s. marshal C a = Inr s \<longrightarrow> s \<noteq> [] \<and> exactObject C s = Some a)"

lemma memRedis_hash: "hash_reads_writes memRedis"
  by (auto simp: hash_reads_writes_def memRedis_def memSet_def split: if_splits)

end
