(* ===== verification/Role_Service.thy ===== *)
theory Role_Service
  imports Scope_Policy Redis_Client
begin

text \<open>
  Tenant roles: the Redis repository of \<^verbatim>\<open>internal/repository/role_repository.go\<close> and the service of
  \<^verbatim>\<open>internal/services/role_service.go\<close>. The service works on the repository interface, a record of
  operations; the contract of the exact reads is the locale \<open>exact_role_store\<close>, which the Redis
  repository satisfies.
\<close>

section \<open>Identifiers\<close>

definition validRoleTenantID :: "string \<Rightarrow> bool" where
  "validRoleTenantID v =
     (if length v < 1 \<or> length v > 63 \<or> hd v = CHR ''-'' \<or> last v = CHR ''-'' then False
      else list_all (\<lambda>c. inLower c \<or> inDigit c \<or> c = CHR ''-'') v)"

definition asciiAlphaNumeric :: "char \<Rightarrow> bool" where
  "asciiAlphaNumeric c \<longleftrightarrow> inLower c \<or> inUpper c \<or> inDigit c"

definition validRoleName :: "string \<Rightarrow> bool" where
  "validRoleName v =
     (if length v < 1 \<or> length v > 128 \<or> \<not> asciiAlphaNumeric (hd v) \<or> \<not> asciiAlphaNumeric (last v)
      then False
      else list_all (\<lambda>c. asciiAlphaNumeric c \<or> c = CHR ''.'' \<or> c = CHR ''_'' \<or> c = CHR ''-'') v)"

definition canonicalTenantIdentity :: "string \<Rightarrow> bool" where
  "canonicalTenantIdentity v =
     (if length v < 1 \<or> length v > 63 \<or> hd v = CHR ''-'' \<or> last v = CHR ''-'' then False
      else list_all (\<lambda>c. c = CHR ''-'' \<or> inLower c \<or> inDigit c) v)"

definition activeTenantIdentity :: "string \<Rightarrow> bool" where
  "activeTenantIdentity v \<longleftrightarrow> v \<noteq> RetiredDefaultTenantID \<and> canonicalTenantIdentity v"

definition canonicalMembershipRoleName :: "string \<Rightarrow> bool" where
  "canonicalMembershipRoleName v =
     (if length v < 1 \<or> length v > 128 \<or> \<not> asciiAlphaNumeric (hd v) \<or> \<not> asciiAlphaNumeric (last v)
      then False
      else list_all (\<lambda>c. asciiAlphaNumeric c \<or> c = CHR ''.'' \<or> c = CHR ''_'' \<or> c = CHR ''-'') v)"

section \<open>The repository\<close>

definition rolesKey :: "string \<Rightarrow> string" where
  "rolesKey tenantID = ''roles:'' @ tenantID"

definition repoExactRoleDefinition :: "policy \<Rightarrow> string \<Rightarrow> string \<Rightarrow> role \<Rightarrow> bool" where
  "repoExactRoleDefinition P tenantID name r \<longleftrightarrow>
     activeTenantIdentity tenantID \<and> canonicalMembershipRoleName name \<and> r_Name r = name \<and>
     r_Scope r = RoleScopeTenant \<and> r_TenantId r = tenantID \<and> r_ResourceId r = [] \<and>
     ValidCanonicalPermissions P (r_Permissions r)"

definition decodeExactRole :: "policy \<Rightarrow> role codec \<Rightarrow> string \<Rightarrow> string \<Rightarrow> string \<Rightarrow> role res" where
  "decodeExactRole P C tenantID name value =
     (if value = [] then Inl ErrStoredRoleContract
      else (case exactObject C value of
              None \<Rightarrow> Inl ErrStoredRoleContract
            | Some r \<Rightarrow> if repoExactRoleDefinition P tenantID name r then Inr r
                        else Inl ErrStoredRoleContract))"

definition IsStoredRoleContractMismatch :: "gerror \<Rightarrow> bool" where
  "IsStoredRoleContractMismatch e = errors_Is e ErrStoredRoleContract"

text \<open>\<^verbatim>\<open>Create\<close> trims the name in the caller's role: the result is the role after the call.\<close>

definition roleRepo_Create ::
  "'w redis \<Rightarrow> role codec \<Rightarrow> 'w \<Rightarrow> string \<Rightarrow> role \<Rightarrow> role res \<times> 'w" where
  "roleRepo_Create R C w tenantID0 r =
     (let tenantID = TrimSpace tenantID0; name = TrimSpace (r_Name r) in
      if \<not> activeTenantIdentity tenantID \<or> name = [] then (Inl ErrInvalidArgument, w)
      else (case marshal C (r\<lparr>r_Name := name\<rparr>) of
              Inl e \<Rightarrow> (Inl e, w)
            | Inr data \<Rightarrow>
                (case HSet R w (rolesKey tenantID) name data of
                   (Some e, w') \<Rightarrow> (Inl e, w')
                 | (None, w') \<Rightarrow> (Inr (r\<lparr>r_Name := name\<rparr>), w'))))"

definition roleRepo_GetExact ::
  "policy \<Rightarrow> 'w redis \<Rightarrow> role codec \<Rightarrow> 'w \<Rightarrow> string \<Rightarrow> string \<Rightarrow> role option res" where
  "roleRepo_GetExact P R C w tenantID name =
     (if \<not> activeTenantIdentity tenantID then Inl ErrInvalidTenant
      else if \<not> canonicalMembershipRoleName name then Inl ErrInvalidArgument
      else (case HGet R w (rolesKey tenantID) name of
              Inl e \<Rightarrow> Inl e
            | Inr None \<Rightarrow> Inr None
            | Inr (Some value) \<Rightarrow>
                (case decodeExactRole P C tenantID name value of Inl e \<Rightarrow> Inl e | Inr r \<Rightarrow> Inr (Some r))))"

definition roleRepo_CreateIfAbsent ::
  "policy \<Rightarrow> 'w redis \<Rightarrow> role codec \<Rightarrow> 'w \<Rightarrow> string \<Rightarrow> role \<Rightarrow> (role option \<times> bool) res \<times> 'w" where
  "roleRepo_CreateIfAbsent P R C w tenantID r =
     (if \<not> repoExactRoleDefinition P tenantID (r_Name r) r then (Inl ErrInvalidArgument, w)
      else (case marshal C r of
              Inl e \<Rightarrow> (Inl e, w)
            | Inr data \<Rightarrow>
                (case HSetNX R w (rolesKey tenantID) (r_Name r) data of
                   (Inl e, w') \<Rightarrow> (Inl e, w')
                 | (Inr True, w') \<Rightarrow> (Inr (Some r, True), w')
                 | (Inr False, w') \<Rightarrow>
                     (case roleRepo_GetExact P R C w' tenantID (r_Name r) of
                        Inl e \<Rightarrow> (Inl e, w')
                      | Inr stored \<Rightarrow> (Inr (stored, False), w')))))"

text \<open>The script runs atomically: it writes only when the stored value is still the one read before.\<close>

definition replaceExactRoleScript ::
  "'w redis \<Rightarrow> 'w \<Rightarrow> string \<Rightarrow> string \<Rightarrow> string \<Rightarrow> string \<Rightarrow> string res \<times> 'w" where
  "replaceExactRoleScript R w key field expected desired =
     (case scriptError R w of
        Some e \<Rightarrow> (Inl e, w)
      | None \<Rightarrow>
          (case HGet R w key field of
             Inl e \<Rightarrow> (Inl e, w)
           | Inr None \<Rightarrow> (Inr ''changed'', w)
           | Inr (Some current) \<Rightarrow>
               if current \<noteq> expected then (Inr ''changed'', w)
               else (case HSet R w key field desired of
                       (Some e, w') \<Rightarrow> (Inl e, w')
                     | (None, w') \<Rightarrow> (Inr ''updated'', w'))))"

text \<open>Between the read and the script other clients may act: \<open>interfere\<close> is what they do to the world.\<close>

definition roleRepo_ReplaceExact ::
  "policy \<Rightarrow> 'w redis \<Rightarrow> role codec \<Rightarrow> ('w \<Rightarrow> 'w) \<Rightarrow> 'w \<Rightarrow> string \<Rightarrow> role \<Rightarrow> role \<Rightarrow> gerror option \<times> 'w" where
  "roleRepo_ReplaceExact P R C interfere w tenantID previous desired =
     (if r_Name previous \<noteq> r_Name desired \<or>
         \<not> repoExactRoleDefinition P tenantID (r_Name previous) previous \<or>
         \<not> repoExactRoleDefinition P tenantID (r_Name desired) desired \<or>
         r_Permissions previous = r_Permissions desired
      then (Some ErrInvalidArgument, w)
      else (case HGet R w (rolesKey tenantID) (r_Name previous) of
              Inl e \<Rightarrow> (Some e, w)
            | Inr None \<Rightarrow> (Some ErrRoleConflict, w)
            | Inr (Some currentRaw) \<Rightarrow>
                (case decodeExactRole P C tenantID (r_Name previous) currentRaw of
                   Inl _ \<Rightarrow> (Some ErrRoleConflict, w)
                 | Inr current \<Rightarrow>
                     if r_Permissions current \<noteq> r_Permissions previous then (Some ErrRoleConflict, w)
                     else (case marshal C desired of
                             Inl e \<Rightarrow> (Some e, w)
                           | Inr desiredRaw \<Rightarrow>
                               (case replaceExactRoleScript R (interfere w) (rolesKey tenantID)
                                       (r_Name previous) currentRaw desiredRaw of
                                  (Inl e, w') \<Rightarrow> (Some e, w')
                                | (Inr result, w') \<Rightarrow>
                                    if result \<noteq> ''updated'' then (Some ErrRoleConflict, w')
                                    else (None, w'))))))"

definition roleRepo_Get :: "'w redis \<Rightarrow> role codec \<Rightarrow> 'w \<Rightarrow> string \<Rightarrow> string \<Rightarrow> role option res" where
  "roleRepo_Get R C w tenantID name =
     (if \<not> activeTenantIdentity (TrimSpace tenantID) then Inl ErrInvalidTenant
      else (case HGet R w (rolesKey tenantID) name of
              Inl e \<Rightarrow> Inl e
            | Inr None \<Rightarrow> Inr None
            | Inr (Some v) \<Rightarrow>
                if v = [] then Inr None
                else (case unmarshal C v of Inl e \<Rightarrow> Inl e | Inr r \<Rightarrow> Inr (Some r))))"

fun unmarshalAll :: "'a codec \<Rightarrow> string list \<Rightarrow> 'a list res" where
  "unmarshalAll C [] = Inr []"
| "unmarshalAll C (v # vs) =
     (case unmarshal C v of
        Inl e \<Rightarrow> Inl e
      | Inr a \<Rightarrow> (case unmarshalAll C vs of Inl e \<Rightarrow> Inl e | Inr as \<Rightarrow> Inr (a # as)))"

definition roleRepo_List :: "'w redis \<Rightarrow> role codec \<Rightarrow> 'w \<Rightarrow> string \<Rightarrow> role list res" where
  "roleRepo_List R C w tenantID =
     (if \<not> activeTenantIdentity (TrimSpace tenantID) then Inl ErrInvalidTenant
      else (case HGetAll R w (rolesKey tenantID) of
              Inl e \<Rightarrow> Inl e | Inr vals \<Rightarrow> unmarshalAll C (map snd vals)))"

fun decodeExactRoles :: "policy \<Rightarrow> role codec \<Rightarrow> string \<Rightarrow> (string \<times> string) list \<Rightarrow> role list res" where
  "decodeExactRoles P C tenantID [] = Inr []"
| "decodeExactRoles P C tenantID ((name, value) # vs) =
     (case decodeExactRole P C tenantID name value of
        Inl e \<Rightarrow> Inl e
      | Inr r \<Rightarrow> (case decodeExactRoles P C tenantID vs of Inl e \<Rightarrow> Inl e | Inr rs \<Rightarrow> Inr (r # rs)))"

definition roleRepo_ListExact :: "policy \<Rightarrow> 'w redis \<Rightarrow> role codec \<Rightarrow> 'w \<Rightarrow> string \<Rightarrow> role list res" where
  "roleRepo_ListExact P R C w tenantID =
     (if \<not> activeTenantIdentity tenantID then Inl ErrInvalidTenant
      else (case HGetAll R w (rolesKey tenantID) of
              Inl e \<Rightarrow> Inl e | Inr values \<Rightarrow> decodeExactRoles P C tenantID values))"

fun ascendingNames :: "string list \<Rightarrow> bool" where
  "ascendingNames (x # y # zs) = (x < y \<and> ascendingNames (y # zs))"
| "ascendingNames _ = True"

fun decodeExactRoleBatch ::
  "policy \<Rightarrow> role codec \<Rightarrow> string \<Rightarrow> string list \<Rightarrow> string option list \<Rightarrow> role option list res" where
  "decodeExactRoleBatch P C tenantID [] [] = Inr []"
| "decodeExactRoleBatch P C tenantID (n # ns) (None # vs) =
     (case decodeExactRoleBatch P C tenantID ns vs of Inl e \<Rightarrow> Inl e | Inr rs \<Rightarrow> Inr (None # rs))"
| "decodeExactRoleBatch P C tenantID (n # ns) (Some v # vs) =
     (case decodeExactRole P C tenantID n v of
        Inl e \<Rightarrow> Inl e
      | Inr r \<Rightarrow>
          (case decodeExactRoleBatch P C tenantID ns vs of Inl e \<Rightarrow> Inl e | Inr rs \<Rightarrow> Inr (Some r # rs)))"
| "decodeExactRoleBatch P C tenantID _ _ = Inl ErrStoredRoleContract"

definition roleRepo_GetManyExact ::
  "policy \<Rightarrow> 'w redis \<Rightarrow> role codec \<Rightarrow> 'w \<Rightarrow> string \<Rightarrow> string list \<Rightarrow> role option list res" where
  "roleRepo_GetManyExact P R C w tenantID names =
     (if \<not> activeTenantIdentity tenantID then Inl ErrInvalidTenant
      else if length names < 1 \<or> length names > 100 then Inl ErrInvalidArgument
      else if \<not> list_all canonicalMembershipRoleName names \<or> \<not> ascendingNames names
      then Inl ErrInvalidArgument
      else (case HMGet R w (rolesKey tenantID) names of
              Inl e \<Rightarrow> Inl e
            | Inr values \<Rightarrow>
                if length values \<noteq> length names then Inl ErrStoredRoleContract
                else decodeExactRoleBatch P C tenantID names values))"

section \<open>The service\<close>

record 'w exactRoleRepository =
  xGetExact :: "'w \<Rightarrow> string \<Rightarrow> string \<Rightarrow> role option res"
  xListExact :: "'w \<Rightarrow> string \<Rightarrow> role list res"

record 'w roleRepository =
  rpCreate :: "'w \<Rightarrow> string \<Rightarrow> role \<Rightarrow> role res \<times> 'w"
  rpCreateIfAbsent :: "'w \<Rightarrow> string \<Rightarrow> role \<Rightarrow> (role option \<times> bool) res \<times> 'w"
  rpGet :: "'w \<Rightarrow> string \<Rightarrow> string \<Rightarrow> role option res"
  rpList :: "'w \<Rightarrow> string \<Rightarrow> role list res"
  rpExact :: "'w exactRoleRepository option"

definition NewRoleRepo :: "policy \<Rightarrow> 'w redis \<Rightarrow> role codec \<Rightarrow> 'w roleRepository" where
  "NewRoleRepo P R C =
     \<lparr>rpCreate = roleRepo_Create R C, rpCreateIfAbsent = roleRepo_CreateIfAbsent P R C,
      rpGet = roleRepo_Get R C, rpList = roleRepo_List R C,
      rpExact = Some \<lparr>xGetExact = roleRepo_GetExact P R C, xListExact = roleRepo_ListExact P R C\<rparr>\<rparr>"

fun uniqueTrimmed :: "string list \<Rightarrow> string list \<Rightarrow> string list" where
  "uniqueTrimmed out [] = out"
| "uniqueTrimmed out (v # vs) =
     (let t = TrimSpace v in
      if t = [] \<or> t \<in> set out then uniqueTrimmed out vs else uniqueTrimmed (out @ [t]) vs)"

definition normalizePermissions :: "string list \<Rightarrow> string list" where
  "normalizePermissions vs = sort (uniqueTrimmed [] vs)"

definition canonicalLegacyRolePermissions :: "policy \<Rightarrow> string list \<Rightarrow> string list option" where
  "canonicalLegacyRolePermissions P values =
     (let normalized = normalizePermissions values in
      if length normalized = 0 then Some normalized else CanonicalPermissions P normalized)"

definition validRolePermissions :: "policy \<Rightarrow> string list \<Rightarrow> bool" where
  "validRolePermissions P values = ValidCanonicalPermissions P values"

definition exactRoleDefinition :: "policy \<Rightarrow> string \<Rightarrow> string \<Rightarrow> role \<Rightarrow> bool" where
  "exactRoleDefinition P tenantID name r \<longleftrightarrow>
     r_Name r = name \<and> r_Scope r = RoleScopeTenant \<and> r_TenantId r = tenantID \<and>
     r_ResourceId r = [] \<and> validRoleName name \<and> validRolePermissions P (r_Permissions r)"

definition sameRoleDefinition :: "role \<Rightarrow> role \<Rightarrow> bool" where
  "sameRoleDefinition l r =
     (if r_Name l \<noteq> r_Name r \<or> r_Scope l \<noteq> r_Scope r \<or> r_TenantId l \<noteq> r_TenantId r \<or>
         r_ResourceId l \<noteq> r_ResourceId r \<or> length (r_Permissions l) \<noteq> length (r_Permissions r)
      then False
      else sort (r_Permissions l) = sort (r_Permissions r))"

definition roleResponse :: "role \<Rightarrow> roleResp" where
  "roleResponse r = \<lparr>rr_Name = r_Name r, rr_Permissions = r_Permissions r\<rparr>"

definition roleService_Create ::
  "policy \<Rightarrow> 'w roleRepository \<Rightarrow> 'w \<Rightarrow> string \<Rightarrow> string \<Rightarrow> string list \<Rightarrow> roleResp res \<times> 'w" where
  "roleService_Create P S w tenantID name permissions =
     (if TrimSpace tenantID = [] then (Inl ErrInvalidTenant, w)
      else if TrimSpace name = [] then (Inl ErrInvalidArgument, w)
      else (case canonicalLegacyRolePermissions P permissions of
              None \<Rightarrow> (Inl ErrInvalidArgument, w)
            | Some perms \<Rightarrow>
                (case rpCreate S w tenantID
                        \<lparr>r_Name = name, r_Scope = RoleScopeTenant, r_TenantId = tenantID,
                         r_ResourceId = [], r_Permissions = perms\<rparr> of
                   (Inl e, w') \<Rightarrow> (Inl e, w')
                 | (Inr r, w') \<Rightarrow> (Inr \<lparr>rr_Name = r_Name r, rr_Permissions = r_Permissions r\<rparr>, w'))))"

definition roleService_CreateWithName ::
  "policy \<Rightarrow> 'w roleRepository \<Rightarrow> 'w \<Rightarrow> string \<Rightarrow> string \<Rightarrow> string list \<Rightarrow> (roleResp \<times> bool) res \<times> 'w" where
  "roleService_CreateWithName P S w tenantID name permissions0 =
     (if \<not> validRoleTenantID tenantID then (Inl ErrInvalidTenant, w)
      else (case CanonicalPermissions P permissions0 of
              None \<Rightarrow> (Inl ErrInvalidArgument, w)
            | Some permissions \<Rightarrow>
                if \<not> validRoleName name then (Inl ErrInvalidArgument, w)
                else
                  let desired = \<lparr>r_Name = name, r_Scope = RoleScopeTenant, r_TenantId = tenantID,
                        r_ResourceId = [], r_Permissions = permissions\<rparr> in
                  (case rpCreateIfAbsent S w tenantID desired of
                     (Inl e, w') \<Rightarrow> (Inl (ErrWrap ''create role: '' e), w')
                   | (Inr (None, created), w') \<Rightarrow>
                       (Inl (ErrText ''create role: stored role is missing''), w')
                   | (Inr (Some stored, created), w') \<Rightarrow>
                       if \<not> exactRoleDefinition P tenantID name stored \<or> \<not> sameRoleDefinition stored desired
                       then (Inl ErrRoleConflict, w')
                       else (Inr (\<lparr>rr_Name = r_Name stored, rr_Permissions = r_Permissions stored\<rparr>, created), w'))))"

definition roleService_GetByName ::
  "policy \<Rightarrow> 'w roleRepository \<Rightarrow> 'w \<Rightarrow> string \<Rightarrow> string \<Rightarrow> roleResp res" where
  "roleService_GetByName P S w tenantID name =
     (if \<not> validRoleTenantID tenantID then Inl ErrInvalidTenant
      else if \<not> validRoleName name then Inl ErrInvalidArgument
      else (case rpExact S of
              None \<Rightarrow> Inl (ErrText ''get role: exact repository unavailable'')
            | Some X \<Rightarrow>
                (case xGetExact X w tenantID name of
                   Inl e \<Rightarrow> Inl (ErrWrap ''get role: '' e)
                 | Inr None \<Rightarrow> Inl ErrRoleNotFound
                 | Inr (Some r) \<Rightarrow>
                     if \<not> exactRoleDefinition P tenantID name r
                     then Inl (ErrText ''get role: stored role contract mismatch'')
                     else Inr (roleResponse r))))"

fun adjacentEqual :: "string list \<Rightarrow> bool" where
  "adjacentEqual (x # y # zs) = (x = y \<or> adjacentEqual (y # zs))"
| "adjacentEqual _ = False"

definition roleService_ListCanonical ::
  "policy \<Rightarrow> 'w roleRepository \<Rightarrow> 'w \<Rightarrow> string \<Rightarrow> roleResp list res" where
  "roleService_ListCanonical P S w tenantID =
     (if \<not> validRoleTenantID tenantID then Inl ErrInvalidTenant
      else (case rpExact S of
              None \<Rightarrow> Inl (ErrText ''list roles: exact repository unavailable'')
            | Some X \<Rightarrow>
                (case xListExact X w tenantID of
                   Inl e \<Rightarrow> Inl (ErrWrap ''list roles: '' e)
                 | Inr roles \<Rightarrow>
                     if length roles > 500 then Inl (ErrText ''list roles: stored role limit exceeded'')
                     else if \<not> list_all (\<lambda>r. exactRoleDefinition P tenantID (r_Name r) r) roles
                     then Inl (ErrText ''list roles: stored role contract mismatch'')
                     else let out = sort_key rr_Name (map roleResponse roles) in
                       if adjacentEqual (map rr_Name out)
                       then Inl (ErrText ''list roles: duplicate stored role identity'')
                       else Inr out)))"

definition roleService_List :: "'w roleRepository \<Rightarrow> 'w \<Rightarrow> string \<Rightarrow> roleResp list res" where
  "roleService_List S w tenantID =
     (if TrimSpace tenantID = [] then Inl ErrInvalidTenant
      else (case rpList S w tenantID of
              Inl e \<Rightarrow> Inl e
            | Inr roles \<Rightarrow> Inr (map (\<lambda>r. \<lparr>rr_Name = r_Name r, rr_Permissions = r_Permissions r\<rparr>) roles)))"

fun collectPermissions ::
  "policy \<Rightarrow> 'w roleRepository \<Rightarrow> 'w \<Rightarrow> string \<Rightarrow> string list \<Rightarrow> string list \<Rightarrow> string list res" where
  "collectPermissions P S w tenantID perms [] = Inr perms"
| "collectPermissions P S w tenantID perms (r0 # rs) =
     (let r = TrimSpace r0 in
      if r = [] then collectPermissions P S w tenantID perms rs
      else (case rpGet S w tenantID r of
              Inl e \<Rightarrow> Inl e
            | Inr None \<Rightarrow> collectPermissions P S w tenantID perms rs
            | Inr (Some role) \<Rightarrow>
                (case canonicalLegacyRolePermissions P (r_Permissions role) of
                   None \<Rightarrow> Inl ErrInvalidArgument
                 | Some ps \<Rightarrow> collectPermissions P S w tenantID (perms @ ps) rs)))"

definition roleService_ResolvePermissions ::
  "policy \<Rightarrow> 'w roleRepository \<Rightarrow> 'w \<Rightarrow> string \<Rightarrow> string list \<Rightarrow> string list res" where
  "roleService_ResolvePermissions P S w tenantID roles =
     (if TrimSpace tenantID = [] then Inl ErrInvalidTenant
      else (case collectPermissions P S w tenantID [] roles of
              Inl e \<Rightarrow> Inl e | Inr perms \<Rightarrow> Inr (sort_uniq perms)))"

section \<open>Contracts\<close>

text \<open>What the service relies on in a repository with exact reads.\<close>

locale exact_role_store =
  fixes P :: policy
    and getExact :: "'w \<Rightarrow> string \<Rightarrow> string \<Rightarrow> role option res"
  assumes getExact_exact: "getExact w t n = Inr (Some r) \<Longrightarrow> exactRoleDefinition P t n r"
begin

lemma GetByName_Inr_iff:
  assumes "rpExact S = Some X" "xGetExact X = getExact"
  shows "roleService_GetByName P S w t n = Inr resp \<longleftrightarrow>
    validRoleTenantID t \<and> validRoleName n \<and> (\<exists>r. getExact w t n = Inr (Some r) \<and> resp = roleResponse r)"
  using assms getExact_exact by (auto simp: roleService_GetByName_def split: option.splits sum.splits)

lemma GetByName_no_mismatch:
  assumes "rpExact S = Some X" "xGetExact X = getExact"
  shows "roleService_GetByName P S w t n \<noteq> Inl (ErrText ''get role: stored role contract mismatch'')"
  using assms getExact_exact by (auto simp: roleService_GetByName_def split: option.splits sum.splits)

end

text \<open>What token issuance relies on in a role service: a role found is the one asked for and its
  permissions are in canonical form.\<close>

locale role_lookup =
  fixes P :: policy
    and lookup :: "'w \<Rightarrow> string \<Rightarrow> string \<Rightarrow> roleResp res"
  assumes lookup_name: "lookup w t n = Inr r \<Longrightarrow> rr_Name r = n"
    and lookup_canonical: "lookup w t n = Inr r \<Longrightarrow> ValidCanonicalPermissions P (rr_Permissions r)"
begin

lemma lookup_assignable:
  "lookup w t n = Inr r \<Longrightarrow> v \<in> set (rr_Permissions r) \<Longrightarrow>
   validPermission v \<and> (HasPrefix v reservedPrefix \<longrightarrow> TenantRoleAssignable P v)"
  using lookup_canonical [of w t n r]
  by (auto simp: ValidCanonicalPermissions_iff CanonicalPermissions_eq_Some)

lemma lookup_bounded:
  "lookup w t n = Inr r \<Longrightarrow> 1 \<le> length (rr_Permissions r) \<and> length (rr_Permissions r) \<le> 500"
  using lookup_canonical [of w t n r]
  by (auto simp: ValidCanonicalPermissions_iff CanonicalPermissions_eq_Some)

end

section \<open>Lemmas\<close>

lemma canonicalMembershipRoleName_eq: "canonicalMembershipRoleName v = validRoleName v"
  by (simp add: canonicalMembershipRoleName_def validRoleName_def)

lemma validRoleTenantID_iff: "validRoleTenantID v = validDNSLabel v"
proof (cases v)
  case (Cons c cs)
  let ?ok = "\<lambda>c. inLower c \<or> inDigit c \<or> c = CHR ''-''"
  have nd: "\<not> (inLower CHR ''-'' \<or> inDigit CHR ''-'')" by (simp add: inLower_def inDigit_def)
  have "list_all ?ok v \<Longrightarrow> ?ok (hd v) \<and> ?ok (last v)"
    using Cons by (auto simp: list_all_iff)
  with Cons nd show ?thesis unfolding validRoleTenantID_def validDNSLabel_def by auto
qed (simp add: validRoleTenantID_def validDNSLabel_def)

lemma canonicalTenantIdentity_iff: "canonicalTenantIdentity v = validRoleTenantID v"
  unfolding canonicalTenantIdentity_def validRoleTenantID_def by (simp add: disj_comms)

lemma repoExactRoleDefinition_iff:
  "repoExactRoleDefinition P t n r \<longleftrightarrow> activeTenantIdentity t \<and> exactRoleDefinition P t n r"
  by (auto simp: repoExactRoleDefinition_def exactRoleDefinition_def canonicalMembershipRoleName_eq
      validRolePermissions_def)

lemma decodeExactRole_Inr: "decodeExactRole P C t n v = Inr r \<Longrightarrow> repoExactRoleDefinition P t n r"
  by (auto simp: decodeExactRole_def split: if_splits option.splits)

interpretation redis_roles: exact_role_store P "roleRepo_GetExact P R C" for P R C
  by unfold_locales
    (auto simp: roleRepo_GetExact_def repoExactRoleDefinition_iff
      dest!: decodeExactRole_Inr split: if_splits sum.splits option.splits)

interpretation role_names: role_lookup P "roleService_GetByName P S" for P S
  by unfold_locales
    (auto simp: roleService_GetByName_def exactRoleDefinition_def roleResponse_def validRolePermissions_def
      split: if_splits sum.splits option.splits)

lemma uniqueTrimmed_props:
  "distinct out \<Longrightarrow> distinct (uniqueTrimmed out vs) \<and>
   set (uniqueTrimmed out vs) = set out \<union> (TrimSpace ` set vs - {[]})"
  by (induction vs arbitrary: out) (auto simp: Let_def)

lemma set_normalizePermissions [simp]: "set (normalizePermissions vs) = TrimSpace ` set vs - {[]}"
  using uniqueTrimmed_props [of "[]" vs] by (simp add: normalizePermissions_def)

lemma canonical_normalizePermissions [simp]: "canonical (normalizePermissions vs)"
  using uniqueTrimmed_props [of "[]" vs] by (simp add: normalizePermissions_def canonical_sort)

lemma CanonicalPermissions_assignable:
  "CanonicalPermissions P vs = Some ps \<Longrightarrow> v \<in> set ps \<Longrightarrow>
   validPermission v \<and> (HasPrefix v reservedPrefix \<longrightarrow> TenantRoleAssignable P v)"
  unfolding CanonicalPermissions_eq_Some by (metis set_sort)

lemma canonicalLegacyRolePermissions_cases:
  assumes "canonicalLegacyRolePermissions P vs = Some ps"
  obtains "normalizePermissions vs = []" "ps = []"
  | "CanonicalPermissions P (normalizePermissions vs) = Some ps"
  using assms by (simp add: canonicalLegacyRolePermissions_def Let_def split: if_splits)

lemma canonicalLegacyRolePermissions_assignable:
  "canonicalLegacyRolePermissions P vs = Some ps \<Longrightarrow> v \<in> set ps \<Longrightarrow>
   validPermission v \<and> (HasPrefix v reservedPrefix \<longrightarrow> TenantRoleAssignable P v)"
  by (erule canonicalLegacyRolePermissions_cases) (simp, blast dest: CanonicalPermissions_assignable)

lemma canonicalLegacyRolePermissions_set:
  assumes "canonicalLegacyRolePermissions P vs = Some ps"
  shows "set ps = TrimSpace ` set vs - {[]}"
  using assms
proof (cases rule: canonicalLegacyRolePermissions_cases)
  case 1
  then have "set ps = set (normalizePermissions vs)" by (simp only:)
  then show ?thesis by (simp only: set_normalizePermissions)
next
  case 2
  then have "set ps = (\<lambda>v. v) ` set (normalizePermissions vs)" by (rule permissions.canon_set)
  then show ?thesis by (simp only: set_normalizePermissions image_ident)
qed

lemma collectPermissions_ConsE:
  assumes "collectPermissions P S w t acc (r0 # rs) = Inr ps"
  obtains (skip) "TrimSpace r0 = [] \<or> rpGet S w t (TrimSpace r0) = Inr None"
      "collectPermissions P S w t acc rs = Inr ps"
  | (grant) role ps' where "TrimSpace r0 \<noteq> []" "rpGet S w t (TrimSpace r0) = Inr (Some role)"
      "canonicalLegacyRolePermissions P (r_Permissions role) = Some ps'"
      "collectPermissions P S w t (acc @ ps') rs = Inr ps"
  using assms by (auto simp: Let_def split: if_splits sum.splits option.splits)

lemma collectPermissions_assignable:
  "collectPermissions P S w t acc rs = Inr ps \<Longrightarrow>
   \<forall>v \<in> set acc. validPermission v \<and> (HasPrefix v reservedPrefix \<longrightarrow> TenantRoleAssignable P v) \<Longrightarrow>
   \<forall>v \<in> set ps. validPermission v \<and> (HasPrefix v reservedPrefix \<longrightarrow> TenantRoleAssignable P v)"
proof (induction rs arbitrary: acc)
  case (Cons r0 rs)
  from Cons.prems(1) show ?case
  proof (cases rule: collectPermissions_ConsE)
    case skip
    then show ?thesis using Cons by blast
  next
    case (grant role ps')
    have "\<forall>v \<in> set (acc @ ps'). validPermission v \<and> (HasPrefix v reservedPrefix \<longrightarrow> TenantRoleAssignable P v)"
      using grant(3) Cons.prems(2) canonicalLegacyRolePermissions_assignable by (metis Un_iff set_append)
    with grant(4) show ?thesis by (rule Cons.IH)
  qed
qed simp

lemma collectPermissions_granted:
  "collectPermissions P S w t acc rs = Inr ps \<Longrightarrow>
   set ps = set acc \<union> {v. \<exists>r \<in> set rs. \<exists>role. TrimSpace r \<noteq> [] \<and>
      rpGet S w t (TrimSpace r) = Inr (Some role) \<and> v \<in> TrimSpace ` set (r_Permissions role) - {[]}}"
proof (induction rs arbitrary: acc)
  case (Cons r0 rs)
  let ?g = "\<lambda>rs. {v. \<exists>r \<in> set rs. \<exists>role. TrimSpace r \<noteq> [] \<and>
      rpGet S w t (TrimSpace r) = Inr (Some role) \<and> v \<in> TrimSpace ` set (r_Permissions role) - {[]}}"
  from Cons.prems show ?case
  proof (cases rule: collectPermissions_ConsE)
    case skip
    have "?g (r0 # rs) = ?g rs" using skip(1) by auto
    with Cons.IH [OF skip(2)] show ?thesis by (simp only:)
  next
    case (grant role ps')
    have "?g (r0 # rs) = set ps' \<union> ?g rs"
      unfolding canonicalLegacyRolePermissions_set [OF grant(3)] using grant(1,2) by auto
    with Cons.IH [OF grant(4)] show ?thesis by (simp only: set_append Un_assoc)
  qed
qed simp

text \<open>Creating a role and reading it back.\<close>

lemma roleRepo_CreateIfAbsent_created:
  assumes R: "hash_reads_writes R" and C: "codec_roundtrip C"
    and c: "roleRepo_CreateIfAbsent P R C w t r = (Inr (s, True), w')"
  shows "s = Some r \<and> repoExactRoleDefinition P t (r_Name r) r \<and>
    roleRepo_GetExact P R C w t (r_Name r) = Inr None \<and>
    roleRepo_GetExact P R C w' t (r_Name r) = Inr (Some r)"
proof -
  from c obtain data where x: "repoExactRoleDefinition P t (r_Name r) r" "marshal C r = Inr data"
    "HSetNX R w (rolesKey t) (r_Name r) data = (Inr True, w')" "s = Some r"
    by (auto simp: roleRepo_CreateIfAbsent_def split: if_splits sum.splits prod.splits bool.splits)
  with C have d: "data \<noteq> []" "exactObject C data = Some r" by (auto simp: codec_roundtrip_def)
  from R x(3) have "HGet R w (rolesKey t) (r_Name r) = Inr None"
    "HGet R w' (rolesKey t) (r_Name r) = Inr (Some data)" by (auto simp: hash_reads_writes_def)
  with x d show ?thesis
    by (auto simp: roleRepo_GetExact_def decodeExactRole_def repoExactRoleDefinition_def)
qed

lemma roleRepo_CreateIfAbsent_replay:
  assumes R: "hash_reads_writes R"
    and c: "roleRepo_CreateIfAbsent P R C w t r = (Inr (s, False), w')"
  shows "w' = w \<and> roleRepo_GetExact P R C w t (r_Name r) = Inr s"
proof -
  from c obtain data where "HSetNX R w (rolesKey t) (r_Name r) data = (Inr False, w')"
    and g: "roleRepo_GetExact P R C w' t (r_Name r) = Inr s"
    by (auto simp: roleRepo_CreateIfAbsent_def split: if_splits sum.splits prod.splits bool.splits)
  with R have "w' = w" unfolding hash_reads_writes_def by blast
  with g show ?thesis by simp
qed

section \<open>Properties\<close>

definition sampleRole :: role where
  "sampleRole = \<lparr>r_Name = ''OPS'', r_Scope = ''TENANT'', r_TenantId = ''acme'', r_ResourceId = [],
     r_Permissions = [''code-admin:ai:read'', ''files:read'']\<rparr>"

definition sampleRoleCodec :: "role codec" where
  "sampleRoleCodec =
     \<lparr>marshal = (\<lambda>r. if r = sampleRole then Inr ''ops'' else Inl (ErrText ''unsupported'')),
      unmarshal = (\<lambda>s. if s = ''ops'' then Inr sampleRole else Inl (ErrText ''syntax'')),
      exactObject = (\<lambda>s. if s = ''ops'' then Some sampleRole else None)\<rparr>"

lemma sampleRole_permissions:
  "CanonicalPermissions compiledPolicy [''files:read'', ''code-admin:ai:read''] =
     Some [''code-admin:ai:read'', ''files:read'']"
  "ValidCanonicalPermissions compiledPolicy [''code-admin:ai:read'', ''files:read'']"
  by (simp_all add: ValidCanonicalPermissions_iff CanonicalPermissions_eq_Some compiled_eval)

lemma sampleRole_create:
  "\<exists>w'. roleService_CreateWithName compiledPolicy (NewRoleRepo compiledPolicy memRedis sampleRoleCodec) (\<lambda>_. [])
     ''acme'' ''OPS'' [''files:read'', ''code-admin:ai:read''] = (Inr (roleResponse sampleRole, True), w')"
  by (simp add: roleService_CreateWithName_def sampleRole_permissions validRoleTenantID_def validRoleName_def
      asciiAlphaNumeric_def inLower_def inUpper_def inDigit_def NewRoleRepo_def roleRepo_CreateIfAbsent_def
      repoExactRoleDefinition_def activeTenantIdentity_def canonicalTenantIdentity_def
      canonicalMembershipRoleName_def sampleRoleCodec_def sampleRole_def memRedis_def exactRoleDefinition_def
      validRolePermissions_def sameRoleDefinition_def roleResponse_def)

abbreviation desiredRole :: "string \<Rightarrow> string \<Rightarrow> string list \<Rightarrow> role" where
  "desiredRole t n perms \<equiv> \<lparr>r_Name = n, r_Scope = RoleScopeTenant, r_TenantId = t, r_ResourceId = [], r_Permissions = perms\<rparr>"

lemma CreateWithName_Inr:
  assumes "roleService_CreateWithName P (NewRoleRepo P R C) w t n qs = (Inr (resp, b), w')"
  obtains perms s where "CanonicalPermissions P qs = Some perms" "validRoleTenantID t" "validRoleName n"
    "roleRepo_CreateIfAbsent P R C w t (desiredRole t n perms) = (Inr (Some s, b), w')"
    "sameRoleDefinition s (desiredRole t n perms)" "resp = roleResponse s"
  using assms by (auto simp: roleService_CreateWithName_def NewRoleRepo_def Let_def roleResponse_def
      split: if_splits option.splits sum.splits prod.splits)

lemma GetByName_redis:
  "validRoleTenantID t \<Longrightarrow> validRoleName n \<Longrightarrow>
   roleService_GetByName P (NewRoleRepo P R C) w t n =
     (case roleRepo_GetExact P R C w t n of
        Inl e \<Rightarrow> Inl (ErrWrap ''get role: '' e) | Inr None \<Rightarrow> Inl ErrRoleNotFound
      | Inr (Some r) \<Rightarrow> Inr (roleResponse r))"
  using redis_roles.getExact_exact [of P R C w t n]
  by (auto simp: roleService_GetByName_def NewRoleRepo_def split: sum.splits option.splits)

lemma sameRoleDefinition_desired:
  assumes "sameRoleDefinition (desiredRole t n xs) (desiredRole t n ys)" "canonical xs" "canonical ys"
  shows "xs = ys"
  using assms by (simp add: sameRoleDefinition_def sort_canonical split: if_splits)

text \<open>
  A role created through the service was absent before and is read back by \<^verbatim>\<open>GetByName\<close> with the
  canonical form of the requested permissions. From then on the definition is immutable: every later
  create request for that name that succeeds asks for the same permissions, answers the same role as
  not created and changes nothing.
\<close>
theorem role_create_get_roundtrip:
  assumes R: "hash_reads_writes R" and C: "codec_roundtrip C" and S: "S = NewRoleRepo P R C"
    and c: "roleService_CreateWithName P S w t n ps = (Inr (resp, True), w')"
  shows "CanonicalPermissions P ps = Some (rr_Permissions resp) \<and> rr_Name resp = n \<and>
    roleService_GetByName P S w t n = Inl ErrRoleNotFound \<and>
    roleService_GetByName P S w' t n = Inr resp \<and>
    (\<forall>qs resp' b w''. roleService_CreateWithName P S w' t n qs = (Inr (resp', b), w'') \<longrightarrow>
       resp' = resp \<and> \<not> b \<and> w'' = w' \<and> CanonicalPermissions P qs = CanonicalPermissions P ps)"
proof -
  from c [unfolded S] obtain perms s where p: "CanonicalPermissions P ps = Some perms"
    "validRoleTenantID t" "validRoleName n"
    "roleRepo_CreateIfAbsent P R C w t (desiredRole t n perms) = (Inr (Some s, True), w')"
    "resp = roleResponse s" by (rule CreateWithName_Inr)
  from roleRepo_CreateIfAbsent_created [OF R C p(4)] have s: "s = desiredRole t n perms"
    and g0: "roleRepo_GetExact P R C w t n = Inr None" and g: "roleRepo_GetExact P R C w' t n = Inr (Some s)"
    by auto
  have later: "resp' = resp \<and> \<not> b \<and> w'' = w' \<and> CanonicalPermissions P qs = CanonicalPermissions P ps"
    if q: "roleService_CreateWithName P S w' t n qs = (Inr (resp', b), w'')" for qs b resp' w''
  proof -
    from q [unfolded S] obtain perms' s' where p': "CanonicalPermissions P qs = Some perms'"
      "roleRepo_CreateIfAbsent P R C w' t (desiredRole t n perms') = (Inr (Some s', b), w'')"
      "sameRoleDefinition s' (desiredRole t n perms')" "resp' = roleResponse s'"
      by (rule CreateWithName_Inr)
    have nb: "\<not> b" using roleRepo_CreateIfAbsent_created [OF R C, of P w' t "desiredRole t n perms'"] p'(2) g
      by (cases b) auto
    with roleRepo_CreateIfAbsent_replay [OF R, of P C w' t "desiredRole t n perms'"] p'(2) g
    have e: "w'' = w'" "s' = s" by auto
    then have "perms = perms'" using p'(3) s permissions.canon_canonical [OF p(1)]
        permissions.canon_canonical [OF p'(1)] by (auto dest: sameRoleDefinition_desired)
    with nb e p p' show ?thesis by simp
  qed
  have "CanonicalPermissions P ps = Some (rr_Permissions resp)" "rr_Name resp = n"
    "roleService_GetByName P S w t n = Inl ErrRoleNotFound" "roleService_GetByName P S w' t n = Inr resp"
    using p s g0 g by (simp_all add: S GetByName_redis roleResponse_def)
  with later show ?thesis by blast
qed

theorem role_create_get_roundtrip_witness:
  "\<exists>w'. roleService_CreateWithName compiledPolicy (NewRoleRepo compiledPolicy memRedis sampleRoleCodec) (\<lambda>_. [])
       ''acme'' ''OPS'' [''files:read'', ''code-admin:ai:read''] = (Inr (roleResponse sampleRole, True), w') \<and>
     roleService_GetByName compiledPolicy (NewRoleRepo compiledPolicy memRedis sampleRoleCodec) w' ''acme'' ''OPS'' =
       Inr (roleResponse sampleRole)"
proof -
  have "codec_roundtrip sampleRoleCodec" by (simp add: codec_roundtrip_def sampleRoleCodec_def)
  from role_create_get_roundtrip [OF memRedis_hash this refl] sampleRole_create show ?thesis by blast
qed

text \<open>
  The permissions \<^verbatim>\<open>ResolvePermissions\<close> returns are in canonical order, are exactly the trimmed
  permissions of the stored roles among those named, and none of them is a reserved scope that a tenant
  role may not carry: stored data cannot smuggle a platform scope into a tenant role.
\<close>
theorem ResolvePermissions_safe:
  assumes "roleService_ResolvePermissions P S w t roles = Inr ps"
  shows "canonical ps \<and>
    set ps = {v. \<exists>r \<in> set roles. \<exists>role. TrimSpace r \<noteq> [] \<and> rpGet S w t (TrimSpace r) = Inr (Some role) \<and>
      v \<in> TrimSpace ` set (r_Permissions role) - {[]}} \<and>
    (\<forall>v \<in> set ps. validPermission v \<and> (HasPrefix v reservedPrefix \<longrightarrow> TenantRoleAssignable P v))"
proof -
  from assms obtain qs where q: "collectPermissions P S w t [] roles = Inr qs" and ps: "ps = sort_uniq qs"
    by (auto simp: roleService_ResolvePermissions_def split: if_splits sum.splits)
  have "canonical ps" by (simp add: ps)
  moreover have "\<forall>v \<in> set ps. validPermission v \<and> (HasPrefix v reservedPrefix \<longrightarrow> TenantRoleAssignable P v)"
    unfolding ps set_sort_uniq by (rule collectPermissions_assignable [OF q]) simp
  moreover have "set ps = set qs" by (simp add: ps)
  ultimately show ?thesis
    unfolding collectPermissions_granted [OF q] by (simp only: set_simps Un_empty_left simp_thms)
qed

theorem ResolvePermissions_safe_witness:
  "\<exists>w'. roleService_ResolvePermissions compiledPolicy (NewRoleRepo compiledPolicy memRedis sampleRoleCodec) w' ''acme'' [''OPS'', ''GONE''] =
       Inr [''code-admin:ai:read'', ''files:read''] \<and>
     (\<forall>v \<in> set [''code-admin:ai:read'', ''files:read'']. HasPrefix v reservedPrefix \<longrightarrow> TenantRoleAssignable compiledPolicy v)"
proof -
  let ?w = "memSet (\<lambda>_. []) ''roles:acme'' ''OPS'' ''ops''"
  let ?S = "NewRoleRepo compiledPolicy memRedis sampleRoleCodec"
  have t: "TrimSpace ''acme'' = ''acme''" "TrimSpace ''OPS'' = ''OPS''" "TrimSpace ''GONE'' = ''GONE''"
    "TrimSpace ''code-admin:ai:read'' = ''code-admin:ai:read''" "TrimSpace ''files:read'' = ''files:read''"
    by (simp_all add: TrimSpace_all_graphic graphic_def)
  have g: "rpGet ?S ?w ''acme'' ''OPS'' = Inr (Some sampleRole)" "rpGet ?S ?w ''acme'' ''GONE'' = Inr None"
    by (simp_all add: NewRoleRepo_def roleRepo_Get_def t activeTenantIdentity_def canonicalTenantIdentity_def
        inLower_def rolesKey_def memRedis_def memSet_def sampleRoleCodec_def)
  have "canonicalLegacyRolePermissions compiledPolicy [''code-admin:ai:read'', ''files:read''] =
      Some [''code-admin:ai:read'', ''files:read'']"
    using sampleRole_permissions(2)
    by (simp add: canonicalLegacyRolePermissions_def normalizePermissions_def t ValidCanonicalPermissions_iff)
  then have "roleService_ResolvePermissions compiledPolicy ?S ?w ''acme'' [''OPS'', ''GONE''] =
       Inr [''code-admin:ai:read'', ''files:read'']"
    by (simp add: roleService_ResolvePermissions_def t g sampleRole_def sort_uniq_def)
  note r = this
  have "\<forall>v \<in> set [''code-admin:ai:read'', ''files:read'']. HasPrefix v reservedPrefix \<longrightarrow> TenantRoleAssignable compiledPolicy v"
    using conjunct2 [OF conjunct2 [OF ResolvePermissions_safe [OF r]]] by blast
  with r show ?thesis by (intro exI [of _ ?w] conjI)
qed

end
