(* ===== verification/Utf8.thy ===== *)
theory Utf8
  imports Prelude
begin

text \<open>
  Go's UTF-8: \<^verbatim>\<open>range\<close> over a string and \<^verbatim>\<open>[]rune\<close> (\<open>runes\<close>), \<^verbatim>\<open>utf8.ValidString\<close>, \<^verbatim>\<open>WriteRune\<close> (\<open>encodeRune\<close>)
  and \<^verbatim>\<open>unicode.IsControl\<close>, which holds of the C0 and C1 controls and U+007F only. A rune is a natural
  number; an invalid byte is read as U+FFFD of width one.
\<close>

section \<open>UTF-8\<close>

type_synonym rune = nat

definition byte :: "char \<Rightarrow> nat" where
  "byte c = of_char c"

definition contByte :: "char \<Rightarrow> bool" where
  "contByte c \<longleftrightarrow> 128 \<le> byte c \<and> byte c \<le> 191"

abbreviation RuneError :: rune where "RuneError \<equiv> 65533"

text \<open>The bounds Go puts on the second byte of a sequence that starts with \<open>b\<close>.\<close>

definition secondOk :: "nat \<Rightarrow> char \<Rightarrow> bool" where
  "secondOk b c \<longleftrightarrow>
     (if b = 0xE0 then 0xA0 \<le> byte c \<and> byte c \<le> 0xBF
      else if b = 0xED then 0x80 \<le> byte c \<and> byte c \<le> 0x9F
      else if b = 0xF0 then 0x90 \<le> byte c \<and> byte c \<le> 0xBF
      else if b = 0xF4 then 0x80 \<le> byte c \<and> byte c \<le> 0x8F
      else contByte c)"

text \<open>One rune with its width; \<^term>\<open>None\<close> for an invalid sequence, which Go reads as one byte.\<close>

definition decodeRune :: "string \<Rightarrow> (rune \<times> nat) option" where
  "decodeRune s =
     (case s of
        [] \<Rightarrow> None
      | c0 # r \<Rightarrow>
          let b = byte c0 in
          if b < 0x80 then Some (b, 1)
          else if 0xC2 \<le> b \<and> b \<le> 0xDF then
            (case r of c1 # _ \<Rightarrow>
               if contByte c1 then Some ((b - 0xC0) * 64 + (byte c1 - 128), 2) else None
             | _ \<Rightarrow> None)
          else if 0xE0 \<le> b \<and> b \<le> 0xEF then
            (case r of c1 # c2 # _ \<Rightarrow>
               if secondOk b c1 \<and> contByte c2
               then Some ((b - 0xE0) * 4096 + (byte c1 - 128) * 64 + (byte c2 - 128), 3) else None
             | _ \<Rightarrow> None)
          else if 0xF0 \<le> b \<and> b \<le> 0xF4 then
            (case r of c1 # c2 # c3 # _ \<Rightarrow>
               if secondOk b c1 \<and> contByte c2 \<and> contByte c3
               then Some ((b - 0xF0) * 262144 + (byte c1 - 128) * 4096 +
                 (byte c2 - 128) * 64 + (byte c3 - 128), 4) else None
             | _ \<Rightarrow> None)
          else None)"

function runes :: "string \<Rightarrow> rune list" where
  "runes [] = []"
| "runes (c # s) =
     (case decodeRune (c # s) of
        None \<Rightarrow> RuneError # runes s
      | Some (r, n) \<Rightarrow> r # runes (drop (n - 1) s))"
  by pat_completeness auto
termination by (relation "measure length") auto

function ValidString :: "string \<Rightarrow> bool" where
  "ValidString [] = True"
| "ValidString (c # s) =
     (case decodeRune (c # s) of None \<Rightarrow> False | Some (r, n) \<Rightarrow> ValidString (drop (n - 1) s))"
  by pat_completeness auto
termination by (relation "measure length") auto

definition encodeRune :: "rune \<Rightarrow> string" where
  "encodeRune r =
     (let q = (if r > 0x10FFFF \<or> 0xD800 \<le> r \<and> r \<le> 0xDFFF then RuneError else r) in
      if q < 0x80 then [char_of q]
      else if q < 0x800 then [char_of (0xC0 + q div 64), char_of (128 + q mod 64)]
      else if q < 0x10000 then
        [char_of (0xE0 + q div 4096), char_of (128 + q div 64 mod 64), char_of (128 + q mod 64)]
      else [char_of (0xF0 + q div 262144), char_of (128 + q div 4096 mod 64),
        char_of (128 + q div 64 mod 64), char_of (128 + q mod 64)])"

definition IsControl :: "rune \<Rightarrow> bool" where
  "IsControl r \<longleftrightarrow> r < 32 \<or> 127 \<le> r \<and> r < 160"

section \<open>Encoding and decoding\<close>

definition validRune :: "rune \<Rightarrow> bool" where
  "validRune r \<longleftrightarrow> r \<le> 0x10FFFF \<and> \<not> (0xD800 \<le> r \<and> r \<le> 0xDFFF)"

lemma byte_char_of [simp]: "n < 256 \<Longrightarrow> byte (char_of n) = n"
  by (simp add: byte_def)

lemma decode1: "r < 0x80 \<Longrightarrow> decodeRune (char_of r # s) = Some (r, 1)"
  by (simp add: decodeRune_def Let_def)

lemma decode2:
  "2 \<le> q \<Longrightarrow> q < 32 \<Longrightarrow> m < 64 \<Longrightarrow>
   decodeRune (char_of (0xC0 + q) # char_of (128 + m) # s) = Some (q * 64 + m, 2)"
  by (simp add: decodeRune_def contByte_def Let_def)

lemma decode3:
  "a < 16 \<Longrightarrow> b < 64 \<Longrightarrow> c < 64 \<Longrightarrow> (a = 0 \<longrightarrow> 32 \<le> b) \<Longrightarrow> (a = 13 \<longrightarrow> b < 32) \<Longrightarrow>
   decodeRune (char_of (0xE0 + a) # char_of (128 + b) # char_of (128 + c) # s) =
     Some (a * 4096 + b * 64 + c, 3)"
  by (auto simp: decodeRune_def contByte_def secondOk_def Let_def)

lemma decode4:
  "a \<le> 4 \<Longrightarrow> b < 64 \<Longrightarrow> c < 64 \<Longrightarrow> d < 64 \<Longrightarrow> (a = 0 \<longrightarrow> 16 \<le> b) \<Longrightarrow> (a = 4 \<longrightarrow> b < 16) \<Longrightarrow>
   decodeRune (char_of (0xF0 + a) # char_of (128 + b) # char_of (128 + c) # char_of (128 + d) # s) =
     Some (a * 262144 + b * 4096 + c * 64 + d, 4)"
  by (auto simp: decodeRune_def contByte_def secondOk_def Let_def)

lemma base64_digits:
  fixes r :: nat
  obtains a b c d where "r mod 64 = d" "r div 64 mod 64 = c" "r div 4096 mod 64 = b" "r div 4096 = b + 64 * a"
    "r div 262144 = a" "r div 64 = c + 64 * b + 4096 * a" "r = d + 64 * c + 4096 * b + 262144 * a"
    "b < 64" "c < 64" "d < 64"
proof -
  let ?q = "r div 64"
  let ?p = "?q div 64"
  have e: "r div 4096 = ?p" "r div 262144 = ?p div 64"
    by (simp_all add: div_mult2_eq [symmetric])
  have "r = r mod 64 + 64 * ?q" "?q = ?q mod 64 + 64 * ?p" "?p = ?p mod 64 + 64 * (?p div 64)"
    by simp_all
  then have "?q = ?q mod 64 + 64 * (?p mod 64) + 4096 * (?p div 64)"
    "r = r mod 64 + 64 * (?q mod 64) + 4096 * (?p mod 64) + 262144 * (?p div 64)"
    "r div 4096 = ?p mod 64 + 64 * (?p div 64)" "r div 4096 mod 64 = ?p mod 64"
    unfolding e by linarith+
  then show thesis
    by (intro that [of "r mod 64" "?q mod 64" "?p mod 64" "?p div 64"]) (assumption | simp add: e)+
qed

lemma decode_encode:
  assumes "validRune r"
  shows "decodeRune (encodeRune r @ s) = Some (r, length (encodeRune r))"
proof -
  obtain a b c d where r: "r mod 64 = d" "r div 64 mod 64 = c" "r div 4096 mod 64 = b"
    "r div 4096 = b + 64 * a" "r div 262144 = a" "r div 64 = c + 64 * b + 4096 * a"
    "r = d + 64 * c + 4096 * b + 262144 * a" and l: "b < 64" "c < 64" "d < 64"
    by (rule base64_digits)
  from assms consider "r < 0x80" | "0x80 \<le> r" "r < 0x800" | "0x800 \<le> r" "r < 0x10000"
    | "0x10000 \<le> r" "r \<le> 0x10FFFF" by (fastforce simp: validRune_def)
  then show ?thesis
  proof cases
    case 1
    then show ?thesis using decode1 by (simp add: encodeRune_def)
  next
    case 2
    then have ab: "a = 0" "b = 0" using r(7) l by linarith+
    have "2 \<le> c" "c < 32" using r(7) l 2 unfolding ab by linarith+
    with ab have "encodeRune r = [char_of (0xC0 + c), char_of (128 + d)]" "r = c * 64 + d"
      using r 2 by (simp_all only: encodeRune_def Let_def) simp_all
    then show ?thesis using decode2 \<open>2 \<le> c\<close> \<open>c < 32\<close> l by simp
  next
    case 3
    then have a0: "a = 0" "b < 16" using r(7) l by linarith+
    moreover have "b = 0 \<longrightarrow> 32 \<le> c"
    proof
      assume "b = 0"
      with r(7) a0 have "r = d + 64 * c" by simp
      with 3 l show "32 \<le> c" by linarith
    qed
    moreover have "b = 13 \<longrightarrow> c < 32"
    proof
      assume "b = 13"
      with r(7) a0 have "r = d + 64 * c + 53248" by simp
      with assms l show "c < 32" unfolding validRune_def by linarith
    qed
    moreover have "encodeRune r = [char_of (0xE0 + b), char_of (128 + c), char_of (128 + d)]"
      using r(1-6) 3 assms \<open>a = 0\<close> by (auto simp: encodeRune_def validRune_def)
    ultimately show ?thesis using decode3 l r(7) by simp
  next
    case 4
    then have "a \<le> 4" "a = 0 \<Longrightarrow> 16 \<le> b" "a = 4 \<Longrightarrow> b < 16" using r(7) l by linarith+
    moreover have "encodeRune r = [char_of (0xF0 + a), char_of (128 + b), char_of (128 + c), char_of (128 + d)]"
      using r(1-6) 4 by (simp add: encodeRune_def)
    ultimately show ?thesis using decode4 l r(7) by simp
  qed
qed

lemma encodeRune_neq_Nil [simp]: "encodeRune r \<noteq> []"
  by (simp add: encodeRune_def Let_def)

lemma runes_encodeRune:
  assumes "validRune r"
  shows "runes (encodeRune r @ s) = r # runes s \<and> ValidString (encodeRune r @ s) = ValidString s"
proof (cases "encodeRune r")
  case (Cons c cs)
  with decode_encode [OF assms, of s]
  have "decodeRune (c # cs @ s) = Some (r, Suc (length cs))" by simp
  with Cons show ?thesis by simp
qed simp

lemma runes_roundtrip:
  "\<forall>r \<in> set rs. validRune r \<Longrightarrow> runes (concat (map encodeRune rs)) = rs"
  by (induction rs) (auto simp: runes_encodeRune)

end
