(* ===== verification/Tenant_Name.thy ===== *)
theory Tenant_Name
  imports Utf8
begin

text \<open>
  The package \<^verbatim>\<open>internal/tenantname\<close>: normalisation and validity of tenant display names and the guard
  against names that imitate the protected master tenant.

  The character tables of the package \<^verbatim>\<open>unicode\<close> and the normal forms of
  \<^verbatim>\<open>golang.org/x/text\<close> are parameters.
\<close>

section \<open>Names\<close>

abbreviation protectedMasterSkeleton :: string where "protectedMasterSkeleton \<equiv> ''codefoundry''"

record unicode_tables =
  NFKC :: "string \<Rightarrow> string"
  NFKD :: "string \<Rightarrow> string"
  InCfZlZp :: "rune \<Rightarrow> bool"
  IsPrint :: "rune \<Rightarrow> bool"
  IsMn :: "rune \<Rightarrow> bool"
  IsMe :: "rune \<Rightarrow> bool"
  runeLower :: "rune \<Rightarrow> rune"
  IsLetter :: "rune \<Rightarrow> bool"
  IsDigit :: "rune \<Rightarrow> bool"

definition Normalize :: "unicode_tables \<Rightarrow> string \<Rightarrow> string" where
  "Normalize T value = TrimSpace (NFKC T value)"

definition Valid :: "unicode_tables \<Rightarrow> string \<Rightarrow> bool" where
  "Valid T value0 =
     (let value = Normalize T value0; len = length (runes value) in
      if len < 1 \<or> len > 128 \<or> \<not> ValidString value then False
      else list_all (\<lambda>c. \<not> (IsControl c \<or> InCfZlZp T c \<or> \<not> IsPrint T c)) (runes value))"

definition protectedConfusable :: "rune \<Rightarrow> rune option" where
  "protectedConfusable c =
     (if c = 0x30 then Some 0x6F
      else if c = 0x33 then Some 0x65
      else if c \<in> {0x441, 0x3F2, 0xA4DA, 0x1D04} then Some 0x63
      else if c \<in> {0x43E, 0x3BF, 0x585, 0xA4F3, 0x1D0F} then Some 0x6F
      else if c \<in> {0x501, 0x217E, 0xA4D3, 0x1D05} then Some 0x64
      else if c \<in> {0x435, 0x3B5, 0xA4F0, 0x1D07} then Some 0x65
      else if c \<in> {0x493, 0x3DD, 0xA4DD, 0xA730} then Some 0x66
      else if c \<in> {0x3C5, 0x57D, 0xA4F4, 0x1D1C} then Some 0x75
      else if c \<in> {0x578, 0x43F, 0xA4E0, 0x274} then Some 0x6E
      else if c \<in> {0x433, 0x3C1, 0xA4E3, 0x280} then Some 0x72
      else if c \<in> {0x443, 0x4AF, 0xA4EC, 0x28F} then Some 0x79
      else None)"

fun skeletonRunes :: "unicode_tables \<Rightarrow> rune list \<Rightarrow> rune list" where
  "skeletonRunes T [] = []"
| "skeletonRunes T (c # cs) =
     (if IsMn T c \<or> IsMe T c then skeletonRunes T cs
      else let l = runeLower T c; m = (case protectedConfusable l of Some x \<Rightarrow> x | None \<Rightarrow> l) in
        if IsLetter T m \<or> IsDigit T m then m # skeletonRunes T cs else skeletonRunes T cs)"

definition skeleton :: "unicode_tables \<Rightarrow> string \<Rightarrow> string" where
  "skeleton T value = concat (map encodeRune (skeletonRunes T (runes (NFKD T (Normalize T value)))))"

fun Contains :: "string \<Rightarrow> string \<Rightarrow> bool" where
  "Contains [] p = (p = [])"
| "Contains (c # s) p = (HasPrefix (c # s) p \<or> Contains s p)"

definition distanceCell :: "rune \<Rightarrow> rune list \<Rightarrow> nat list \<Rightarrow> nat list \<Rightarrow> nat \<Rightarrow> nat list" where
  "distanceCell left protected previous current r =
     (let substitution = (if left \<noteq> protected ! r then previous ! r + 1 else previous ! r) in
      current[r + 1 := min (previous ! (r + 1) + 1) (min (current ! r + 1) substitution)])"

definition distanceRow :: "rune list \<Rightarrow> rune list \<Rightarrow> nat list \<Rightarrow> nat \<Rightarrow> nat list" where
  "distanceRow characters protected previous leftIndex =
     foldl (distanceCell (characters ! leftIndex) protected previous)
       ((replicate (length protected + 1) 0)[0 := leftIndex + 1]) [0..<length protected]"

definition distanceTable :: "rune list \<Rightarrow> rune list \<Rightarrow> nat list" where
  "distanceTable characters protected =
     foldl (distanceRow characters protected) [0..<length protected + 1] [0..<length characters]"

definition protectedShape :: "string \<Rightarrow> bool" where
  "protectedShape candidate =
     (if Contains candidate protectedMasterSkeleton then True
      else let characters = runes candidate; protected = runes protectedMasterSkeleton;
        maximumDistance = 3 in
        if int (length characters) - int (length protected) > maximumDistance \<or>
           int (length protected) - int (length characters) > maximumDistance then False
        else int (distanceTable characters protected ! length protected) \<le> maximumDistance)"

definition ReservedMaster :: "unicode_tables \<Rightarrow> string \<Rightarrow> bool" where
  "ReservedMaster T value = protectedShape (skeleton T value)"

section \<open>Edit distance\<close>

text \<open>
  The specification of the distance: the least number of single-character insertions, deletions and
  substitutions that turn one word into the other. \<open>lev\<close> is the textbook recursion, the bridge
  between the specification and the two-row table of the code.
\<close>

inductive one_edit :: "'a list \<Rightarrow> 'a list \<Rightarrow> bool" where
  insertion: "one_edit (u @ v) (u @ y # v)"
| deletion: "one_edit (u @ x # v) (u @ v)"
| substitution: "one_edit (u @ x # v) (u @ y # v)"

fun lev :: "'a list \<Rightarrow> 'a list \<Rightarrow> nat" where
  "lev [] ys = length ys"
| "lev (x # xs) [] = Suc (length xs)"
| "lev (x # xs) (y # ys) =
     min (lev xs (y # ys) + 1) (min (lev (x # xs) ys + 1) (lev xs ys + (if x = y then 0 else 1)))"

lemma lev_Nil2 [simp]: "lev xs [] = length xs"
  by (cases xs) auto

lemma lev_Cons1: "lev (x # xs) ys \<le> Suc (lev xs ys)"
  by (cases ys) auto

lemma lev_Cons2: "lev xs (y # ys) \<le> Suc (lev xs ys)"
  by (cases xs) auto

lemma lev_uncons2: "lev xs ys \<le> Suc (lev xs (y # ys))"
proof (induction xs)
  case (Cons x xs)
  then show ?case using lev_Cons1 [of x xs ys] by (simp add: min_def)
qed simp

lemma lev_subst2: "lev xs (y' # ys) \<le> Suc (lev xs (y # ys))"
  by (induction xs) (auto simp: min_def)

lemma lev_cong2:
  "(\<And>xs. lev xs ys' \<le> Suc (lev xs ys)) \<Longrightarrow> lev xs (z # ys') \<le> Suc (lev xs (z # ys))"
proof (induction xs)
  case Nil
  from Nil [of "[]"] show ?case by simp
next
  case (Cons x xs)
  from Cons.IH [OF Cons.prems] Cons.prems [of xs] Cons.prems [of "x # xs"]
  show ?case by (cases "x = z") (auto simp: min_le_iff_disj not_le)
qed

lemma lev_app_cong2:
  "(\<And>xs. lev xs ys' \<le> Suc (lev xs ys)) \<Longrightarrow> lev xs (u @ ys') \<le> Suc (lev xs (u @ ys))"
  by (induction u arbitrary: xs) (auto intro: lev_cong2)

lemma lev_one_edit: "one_edit ys zs \<Longrightarrow> lev xs zs \<le> Suc (lev xs ys)"
  by (induction rule: one_edit.induct)
    (auto intro!: lev_app_cong2 lev_Cons2 lev_uncons2 lev_subst2 simp del: lev.simps)

lemma one_edit_Cons: "one_edit xs ys \<Longrightarrow> one_edit (z # xs) (z # ys)"
  by (induction rule: one_edit.induct) (metis one_edit.intros append_Cons)+

lemma edits_Cons: "(one_edit ^^ n) xs ys \<Longrightarrow> (one_edit ^^ n) (z # xs) (z # ys)"
  by (induction n arbitrary: ys) (auto intro: one_edit_Cons)

lemma lev_self [simp]: "lev xs xs = 0"
  by (induction xs) auto

lemma edits_lev: "(one_edit ^^ n) xs ys \<Longrightarrow> lev xs ys \<le> n"
proof (induction n arbitrary: ys)
  case (Suc n)
  then obtain zs where "(one_edit ^^ n) xs zs" "one_edit zs ys" by auto
  with Suc.IH lev_one_edit [of zs ys xs] show ?case by fastforce
qed simp

lemma one_edit_head:
  "one_edit ys (y # ys)" "one_edit (x # xs) xs" "one_edit (x # xs) (y # xs)"
  using insertion [of "[]" ys y] deletion [of "[]" x xs] substitution [of "[]" x xs y] by auto

lemma min3_cases: "min a (min b c) = a \<or> min a (min b c) = b \<or> min a (min b c) = (c :: nat)"
  by (simp add: min_def)

lemma lev_edits: "(one_edit ^^ lev xs ys) xs ys"
proof (induction xs ys rule: lev.induct)
  case (1 ys)
  show ?case by (induction ys) (auto intro: one_edit_head)
next
  case (2 x xs)
  have "(one_edit ^^ length zs) zs []" for zs :: "'a list"
    by (induction zs) (auto intro: relpowp_Suc_I2 one_edit_head simp del: relpowp.simps(2))
  from this [of "x # xs"] show ?case by simp
next
  case (3 x xs y ys)
  consider "lev (x # xs) (y # ys) = Suc (lev xs (y # ys))"
    | "lev (x # xs) (y # ys) = Suc (lev (x # xs) ys)"
    | "lev (x # xs) (y # ys) = Suc (lev xs ys)" "x \<noteq> y"
    | "lev (x # xs) (y # ys) = lev xs ys" "x = y"
    using min3_cases [of "lev xs (y # ys) + 1" "lev (x # xs) ys + 1" "lev xs ys + (if x = y then 0 else 1)"]
    unfolding lev.simps(3) [symmetric] by (cases "x = y") (simp_all del: lev.simps, argo+)
  then show ?case
  proof cases
    case 1
    with 3(1) show ?thesis by (simp only:) (rule relpowp_Suc_I2 [where P = one_edit, OF one_edit_head(2)])
  next
    case 2
    with 3(2) show ?thesis by (simp only:) (rule relpowp_Suc_I [where P = one_edit, OF _ one_edit_head(1)])
  next
    case 3
    from edits_Cons [OF \<open>(one_edit ^^ lev xs ys) xs ys\<close>]
    show ?thesis by (simp only: 3) (rule relpowp_Suc_I [where P = one_edit, OF _ one_edit_head(3)])
  next
    case 4
    with edits_Cons [OF 3(3)] show ?thesis by (simp only:)
  qed
qed

lemma lev_le_iff: "lev xs ys \<le> k \<longleftrightarrow> (\<exists>n \<le> k. (one_edit ^^ n) xs ys)"
  using edits_lev lev_edits le_trans by blast

section \<open>The two-row table computes the distance\<close>

definition cellD :: "rune list \<Rightarrow> rune list \<Rightarrow> nat \<Rightarrow> nat \<Rightarrow> nat" where
  "cellD cs ps i j = lev (rev (take i cs)) (rev (take j ps))"

lemma cellD_0 [simp]: "j \<le> length ps \<Longrightarrow> cellD cs ps 0 j = j"
  by (simp add: cellD_def)

lemma cellD_col0 [simp]: "i \<le> length cs \<Longrightarrow> cellD cs ps i 0 = i"
  by (simp add: cellD_def)

lemma cellD_Suc:
  "i < length cs \<Longrightarrow> j < length ps \<Longrightarrow>
   cellD cs ps (Suc i) (Suc j) =
     min (cellD cs ps i (Suc j) + 1)
       (min (cellD cs ps (Suc i) j + 1) (cellD cs ps i j + (if cs ! i = ps ! j then 0 else 1)))"
  by (simp add: cellD_def take_Suc_conv_app_nth)

lemma distanceRow_correct:
  assumes i: "i < length cs" and prev: "\<forall>j \<le> length ps. previous ! j = cellD cs ps i j"
  shows "length (distanceRow cs ps previous i) = Suc (length ps) \<and>
    (\<forall>j \<le> length ps. distanceRow cs ps previous i ! j = cellD cs ps (Suc i) j)"
proof -
  let ?row = "\<lambda>r. foldl (distanceCell (cs ! i) ps previous)
    ((replicate (length ps + 1) 0)[0 := i + 1]) [0..<r]"
  have "r \<le> length ps \<Longrightarrow> length (?row r) = Suc (length ps) \<and> (\<forall>j \<le> r. ?row r ! j = cellD cs ps (Suc i) j)" for r
  proof (induction r)
    case 0
    then show ?case using i by simp
  next
    case (Suc r)
    then have l: "length (?row r) = Suc (length ps)"
      and v: "\<forall>j \<le> r. ?row r ! j = cellD cs ps (Suc i) j" and r: "r < length ps" by auto
    show ?case
    proof (intro conjI allI impI)
      show "length (?row (Suc r)) = Suc (length ps)" using l by (simp add: distanceCell_def Let_def)
      fix j
      assume "j \<le> Suc r"
      then consider "j = Suc r" | "j \<le> r" by linarith
      then show "?row (Suc r) ! j = cellD cs ps (Suc i) j"
      proof cases
        case 1
        then show ?thesis using l v r prev i by (auto simp: distanceCell_def Let_def cellD_Suc)
      next
        case 2
        then show ?thesis using l v r by (auto simp: distanceCell_def Let_def)
      qed
    qed
  qed
  then show ?thesis by (simp add: distanceRow_def)
qed

lemma distanceTable_correct: "distanceTable cs ps ! length ps = lev (rev cs) (rev ps)"
proof -
  let ?t = "\<lambda>i. foldl (distanceRow cs ps) [0..<length ps + 1] [0..<i]"
  have "i \<le> length cs \<Longrightarrow> \<forall>j \<le> length ps. ?t i ! j = cellD cs ps i j" for i
  proof (induction i)
    case 0
    then show ?case by (auto simp del: upt_Suc)
  next
    case (Suc i)
    then have "i < length cs" "\<forall>j \<le> length ps. ?t i ! j = cellD cs ps i j" by auto
    from distanceRow_correct [OF this] show ?case by simp
  qed
  from this [of "length cs"] show ?thesis by (simp add: distanceTable_def cellD_def)
qed

lemma one_edit_rev: "one_edit xs ys \<Longrightarrow> one_edit (rev xs) (rev ys)"
  by (induction rule: one_edit.induct) (auto intro: one_edit.intros)

lemma edits_rev: "(one_edit ^^ n) xs ys \<Longrightarrow> (one_edit ^^ n) (rev xs) (rev ys)"
  by (induction n arbitrary: ys) (auto intro: one_edit_rev)

lemma edits_rev_iff: "(one_edit ^^ n) (rev xs) (rev ys) \<longleftrightarrow> (one_edit ^^ n) xs ys"
  using edits_rev [of n xs ys] edits_rev [of n "rev xs" "rev ys"] by auto

lemma one_edit_length: "one_edit xs ys \<Longrightarrow> length ys \<le> Suc (length xs) \<and> length xs \<le> Suc (length ys)"
  by (induction rule: one_edit.induct) auto

lemma edits_length: "(one_edit ^^ n) xs ys \<Longrightarrow> length ys \<le> length xs + n \<and> length xs \<le> length ys + n"
proof (induction n arbitrary: ys)
  case (Suc n)
  then obtain zs where "(one_edit ^^ n) xs zs" "one_edit zs ys" by auto
  with Suc.IH [of zs] one_edit_length [of zs ys] show ?case by simp
qed simp

lemma distanceTable_le_iff:
  "distanceTable cs ps ! length ps \<le> k \<longleftrightarrow> (\<exists>n \<le> k. (one_edit ^^ n) cs ps)"
  by (simp add: distanceTable_correct lev_le_iff edits_rev_iff)

lemma Contains_iff: "Contains s p \<longleftrightarrow> (\<exists>u v. s = u @ p @ v)"
proof (induction s)
  case (Cons c s)
  have "(\<exists>u v. c # s = u @ p @ v) \<longleftrightarrow> prefix p (c # s) \<or> (\<exists>u v. s = u @ p @ v)"
    by (auto simp: prefix_def Cons_eq_append_conv)
  with Cons.IH show ?case by (simp add: HasPrefix_iff_prefix)
qed auto

section \<open>Properties\<close>

text \<open>
  C37. \<^verbatim>\<open>protectedShape\<close> reserves exactly the skeletons that contain \<^verbatim>\<open>codefoundry\<close> or can be turned into it by
  at most three insertions, deletions or substitutions of a character; the length guard before the
  distance table excludes none of them.
\<close>
theorem protectedShape_iff_edit_distance:
  "protectedShape candidate \<longleftrightarrow>
     (\<exists>u v. candidate = u @ ''codefoundry'' @ v) \<or>
     (\<exists>n \<le> 3. (one_edit ^^ n) (runes candidate) (runes ''codefoundry''))"
proof -
  let ?p = "runes ''codefoundry''"
  have "\<not> (int (length (runes candidate)) - int (length ?p) > 3 \<or>
      int (length ?p) - int (length (runes candidate)) > 3)"
    if "(one_edit ^^ n) (runes candidate) ?p" "n \<le> 3" for n
    using edits_length [OF that(1)] that(2) by linarith
  moreover have "int (distanceTable (runes candidate) ?p ! length ?p) \<le> 3 \<longleftrightarrow>
      (\<exists>n \<le> 3. (one_edit ^^ n) (runes candidate) ?p)"
    unfolding distanceTable_le_iff [symmetric] by linarith
  ultimately show ?thesis
    unfolding protectedShape_def Let_def Contains_iff by auto
qed

end
