(* ===== verification/Tenant_Service.thy ===== *)
theory Tenant_Service
  imports Role_Service Tenant_Name "HOL-Library.Product_Lexorder"
begin

text \<open>
  Tenants: the registry in Redis (\<^verbatim>\<open>tenant_repository.go\<close>, \<^verbatim>\<open>retained_tenant_repository.go\<close> and the exact tenant
  read of \<^verbatim>\<open>exact_identity_repository.go\<close>) and the service of \<^verbatim>\<open>tenant_service.go\<close>. A retired tenant keeps its
  registry field as a tombstone.

  The optimistic transactions (\<^verbatim>\<open>Watch\<close> with at most eight attempts) take an environment: for each
  attempt what other clients do between the read and the commit, and whether Redis lets the commit
  through. Clock readings are the arguments \<open>clock i\<close>.
\<close>

section \<open>Stored tenants\<close>

abbreviation tenantsHash :: string where "tenantsHash \<equiv> ''tenants''"
abbreviation errStoredTenantContract :: gerror where
  "errStoredTenantContract \<equiv> ErrText ''stored tenant contract mismatch''"

definition validIdentityText :: "string \<Rightarrow> nat \<Rightarrow> bool" where
  "validIdentityText v maxRunes =
     (if \<not> ValidString v \<or> TrimSpace v \<noteq> v \<or> length (runes v) < 1 \<or> length (runes v) > maxRunes
      then False
      else list_all (\<lambda>r. \<not> IsControl r) (runes v))"

definition validTenantNameText :: "string \<Rightarrow> bool" where
  "validTenantNameText v = validIdentityText v 128"

definition validTenantStatus :: "string \<Rightarrow> bool" where
  "validTenantStatus s \<longleftrightarrow> s = TenantStatusActive \<or> s = TenantStatusDisabled"

text \<open>
  \<open>times\<close> tells for a stored value whether the raw \<^verbatim>\<open>createdAt\<close> and \<^verbatim>\<open>retiredAt\<close> members are the canonical
  texts of the decoded times (\<^verbatim>\<open>canonicalStoredTime\<close>); \<^term>\<open>None\<close> when the value does not decode.
\<close>

record tenant_codec =
  tenantCodec :: "tenant codec"
  storedTimes :: "string \<Rightarrow> (bool \<times> bool) option"

definition retiredTimeOk :: "tenant \<Rightarrow> int \<Rightarrow> bool \<Rightarrow> bool" where
  "retiredTimeOk t observedAt canonicalRetired =
     (case t_RetiredAt t of
        None \<Rightarrow> True
      | Some at \<Rightarrow>
          t_Status t = TenantStatusDisabled \<and>
          (case (at, t_CreatedAt t) of
             (Some r, Some c) \<Rightarrow> \<not> r < c \<and> \<not> r > observedAt
           | _ \<Rightarrow> False) \<and> canonicalRetired)"

definition decodeRetainedTenant :: "tenant_codec \<Rightarrow> string \<Rightarrow> string \<Rightarrow> int \<Rightarrow> tenant res" where
  "decodeRetainedTenant K raw tenantID observedAt =
     (if length raw = 0 \<or> length raw > 4096 then Inl ErrTenantInvariant
      else (case exactObject (tenantCodec K) raw of
              None \<Rightarrow> Inl ErrTenantInvariant
            | Some t \<Rightarrow>
                if \<not> activeTenantIdentity tenantID \<or> t_Id t \<noteq> tenantID \<or> t_Slug t \<noteq> tenantID \<or>
                   \<not> validTenantNameText (t_Name t) \<or> \<not> validTenantStatus (t_Status t) \<or>
                   (case t_CreatedAt t of None \<Rightarrow> True | Some c \<Rightarrow> c > observedAt)
                then Inl ErrTenantInvariant
                else (case storedTimes K raw of
                        None \<Rightarrow> Inl ErrTenantInvariant
                      | Some (canonicalCreated, canonicalRetired) \<Rightarrow>
                          if \<not> canonicalCreated \<or> \<not> retiredTimeOk t observedAt canonicalRetired
                          then Inl ErrTenantInvariant
                          else Inr t)))"

section \<open>The repository\<close>

record 'w watch_env =
  otherClients :: "nat \<Rightarrow> 'w \<Rightarrow> 'w"
  commits :: "nat \<Rightarrow> bool"

definition prepareTenant :: "string \<Rightarrow> int \<Rightarrow> tenant \<Rightarrow> tenant" where
  "prepareTenant newID now t =
     (let t1 = (if t_Id t = [] then t\<lparr>t_Id := newID\<rparr> else t);
          t2 = (if t_Status t1 = [] then t1\<lparr>t_Status := TenantStatusActive\<rparr> else t1) in
      if t_CreatedAt t2 = None then t2\<lparr>t_CreatedAt := Some now\<rparr> else t2)"

text \<open>One attempt: read, decide what to write, commit. \<^term>\<open>None\<close> is \<^verbatim>\<open>redis.TxFailedErr\<close>.\<close>

definition createCandidate ::
  "tenant_codec \<Rightarrow> (nat \<Rightarrow> int) \<Rightarrow> nat \<Rightarrow> tenant \<Rightarrow> string option \<Rightarrow> (tenant \<times> string) res" where
  "createCandidate K clock attempt t current =
     (let decoded = (case current of
            None \<Rightarrow> Inr t
          | Some raw \<Rightarrow>
              (case decodeRetainedTenant K raw (t_Id t) (clock (2 * attempt)) of
                 Inl _ \<Rightarrow> Inl ErrTenantInvariant
               | Inr cur \<Rightarrow>
                   if t_RetiredAt cur \<noteq> None then Inl ErrTenantConflict
                   else let c1 = t\<lparr>t_CreatedAt := t_CreatedAt cur\<rparr> in
                     Inr (if t_Status cur = TenantStatusDisabled then c1\<lparr>t_Status := TenantStatusDisabled\<rparr>
                          else c1))) in
      case decoded of
        Inl e \<Rightarrow> Inl e
      | Inr candidate \<Rightarrow>
          (case marshal (tenantCodec K) candidate of
             Inl e \<Rightarrow> Inl e
           | Inr data \<Rightarrow>
               if current \<noteq> None \<and>
                  (case decodeRetainedTenant K data (t_Id t) (clock (2 * attempt + 1)) of Inl _ \<Rightarrow> True | Inr _ \<Rightarrow> False)
               then Inl ErrTenantInvariant
               else Inr (candidate, data)))"

definition createAttempt ::
  "'w redis \<Rightarrow> tenant_codec \<Rightarrow> 'w watch_env \<Rightarrow> (nat \<Rightarrow> int) \<Rightarrow> nat \<Rightarrow> 'w \<Rightarrow> tenant \<Rightarrow> tenant res option \<times> 'w" where
  "createAttempt R K E clock attempt w t =
     (case HGet R w tenantsHash (t_Id t) of
        Inl e \<Rightarrow> (Some (Inl e), w)
      | Inr current \<Rightarrow>
          (case createCandidate K clock attempt t current of
             Inl e \<Rightarrow> (Some (Inl e), w)
           | Inr (candidate, data) \<Rightarrow>
               let w1 = otherClients E attempt w in
               if \<not> commits E attempt then (None, w1)
               else (case HSet R w1 tenantsHash (t_Id t) data of
                       (Some e, w2) \<Rightarrow> (Some (Inl e), w2)
                     | (None, w2) \<Rightarrow> (Some (Inr candidate), w2))))"

fun createLoop ::
  "'w redis \<Rightarrow> tenant_codec \<Rightarrow> 'w watch_env \<Rightarrow> (nat \<Rightarrow> int) \<Rightarrow> nat \<Rightarrow> nat \<Rightarrow> 'w \<Rightarrow> tenant \<Rightarrow> tenant res \<times> 'w" where
  "createLoop R K E clock attempt 0 w t = (Inl ErrVersionConflict, w)"
| "createLoop R K E clock attempt (Suc left) w t =
     (case createAttempt R K E clock attempt w t of
        (Some r, w') \<Rightarrow> (r, w')
      | (None, w') \<Rightarrow> createLoop R K E clock (Suc attempt) left w' t)"

definition tenantRepo_Create ::
  "'w redis \<Rightarrow> tenant_codec \<Rightarrow> 'w watch_env \<Rightarrow> (nat \<Rightarrow> int) \<Rightarrow> string \<Rightarrow> int \<Rightarrow> 'w \<Rightarrow> tenant \<Rightarrow> tenant res \<times> 'w" where
  "tenantRepo_Create R K E clock newID now w t =
     (if t_Id t = RetiredDefaultTenantID then (Inl ErrInvalidArgument, w)
      else createLoop R K E clock 0 8 w (prepareTenant newID now t))"

definition tenantRepo_CreateIfAbsent ::
  "'w redis \<Rightarrow> tenant_codec \<Rightarrow> string \<Rightarrow> int \<Rightarrow> int \<Rightarrow> 'w \<Rightarrow> tenant \<Rightarrow> (tenant option \<times> bool) res \<times> 'w" where
  "tenantRepo_CreateIfAbsent R K newID now later w t0 =
     (if t_Id t0 = RetiredDefaultTenantID then (Inl ErrInvalidArgument, w)
      else let t = prepareTenant newID now t0 in
        (case marshal (tenantCodec K) t of
           Inl e \<Rightarrow> (Inl e, w)
         | Inr data \<Rightarrow>
             (case HSetNX R w tenantsHash (t_Id t) data of
                (Inl e, w') \<Rightarrow> (Inl e, w')
              | (Inr True, w') \<Rightarrow> (Inr (Some t, True), w')
              | (Inr False, w') \<Rightarrow>
                  (case HGet R w' tenantsHash (t_Id t) of
                     Inl e \<Rightarrow> (Inl e, w')
                   | Inr None \<Rightarrow> (Inl ErrTenantConflict, w')
                   | Inr (Some raw) \<Rightarrow>
                       (case decodeRetainedTenant K raw (t_Id t) later of
                          Inl e \<Rightarrow> (Inl e, w')
                        | Inr existing \<Rightarrow>
                            if t_RetiredAt existing \<noteq> None then (Inl ErrTenantConflict, w')
                            else (Inr (Some existing, False), w'))))))"

definition tenantRepo_Get :: "'w redis \<Rightarrow> tenant_codec \<Rightarrow> 'w \<Rightarrow> string \<Rightarrow> tenant option res" where
  "tenantRepo_Get R K w tenantID =
     (if tenantID = RetiredDefaultTenantID then Inr None
      else (case HGet R w tenantsHash tenantID of
              Inl e \<Rightarrow> Inl e
            | Inr None \<Rightarrow> Inr None
            | Inr (Some v) \<Rightarrow>
                if v = [] then Inr None
                else (case unmarshal (tenantCodec K) v of
                        Inl e \<Rightarrow> Inl e
                      | Inr t \<Rightarrow> if t_RetiredAt t \<noteq> None then Inr None else Inr (Some t))))"

definition tenantRepo_GetExact :: "'w redis \<Rightarrow> tenant_codec \<Rightarrow> 'w \<Rightarrow> string \<Rightarrow> tenant option res" where
  "tenantRepo_GetExact R K w tenantID =
     (if \<not> activeTenantIdentity tenantID then Inl ErrInvalidTenant
      else (case HGet R w tenantsHash tenantID of
              Inl e \<Rightarrow> Inl e
            | Inr None \<Rightarrow> Inr None
            | Inr (Some v) \<Rightarrow>
                if v = [] then Inl errStoredTenantContract
                else (case exactObject (tenantCodec K) v of
                        None \<Rightarrow> Inl errStoredTenantContract
                      | Some t \<Rightarrow>
                          if t_Id t \<noteq> tenantID \<or> \<not> canonicalTenantIdentity (t_Id t) \<or>
                             \<not> canonicalTenantIdentity (t_Slug t) \<or> \<not> validTenantNameText (t_Name t) \<or>
                             \<not> validTenantStatus (t_Status t) \<or> t_CreatedAt t = None
                          then Inl errStoredTenantContract
                          else if t_RetiredAt t \<noteq> None then Inr None else Inr (Some t))))"

definition tenantRepo_GetRetained ::
  "'w redis \<Rightarrow> tenant_codec \<Rightarrow> 'w \<Rightarrow> string \<Rightarrow> gotime \<Rightarrow> tenant option res" where
  "tenantRepo_GetRetained R K w tenantID observedAt =
     (if \<not> activeTenantIdentity tenantID then Inl ErrInvalidTenant
      else (case observedAt of
              None \<Rightarrow> Inl errStoredTenantContract
            | Some at \<Rightarrow>
                (case HGet R w tenantsHash tenantID of
                   Inl _ \<Rightarrow> Inl errStoredTenantContract
                 | Inr None \<Rightarrow> Inr None
                 | Inr (Some raw) \<Rightarrow>
                     (case decodeRetainedTenant K raw tenantID at of Inl e \<Rightarrow> Inl e | Inr t \<Rightarrow> Inr (Some t)))))"

text \<open>The listing: tombstones and the retired default are skipped, the master comes first.\<close>

fun listTenants :: "unicode_tables \<Rightarrow> tenant_codec \<Rightarrow> string list \<Rightarrow> tenant list res" where
  "listTenants T K [] = Inr []"
| "listTenants T K (v # vs) =
     (if v = [] then listTenants T K vs
      else (case unmarshal (tenantCodec K) v of
              Inl e \<Rightarrow> Inl e
            | Inr t \<Rightarrow>
                if t_Id t = RetiredDefaultTenantID \<or> t_RetiredAt t \<noteq> None then listTenants T K vs
                else if \<not> Valid T (t_Name t) then Inl ErrTenantInvariant
                else if t_Id t = MasterTenantID \<and> t_Slug t \<noteq> MasterTenantID then Inl ErrTenantInvariant
                else if t_Id t \<noteq> MasterTenantID \<and> ReservedMaster T (t_Name t) then Inl ErrTenantInvariant
                else (case listTenants T K vs of Inl e \<Rightarrow> Inl e | Inr ts \<Rightarrow> Inr (t # ts))))"

definition tenantOrder :: "go_unicode \<Rightarrow> tenant \<Rightarrow> bool \<times> string \<times> string" where
  "tenantOrder U t =
     (if t_Id t = MasterTenantID then (False, [], [])
      else (True, ToLower U (TrimSpace (t_Name t)), t_Id t))"

definition tenantRepo_List ::
  "go_unicode \<Rightarrow> unicode_tables \<Rightarrow> 'w redis \<Rightarrow> tenant_codec \<Rightarrow> 'w \<Rightarrow> nat \<Rightarrow> int \<Rightarrow> (tenant list \<times> string) res" where
  "tenantRepo_List U T R K w offset pageSize =
     (if pageSize < 1 \<or> pageSize > 200 then Inl ErrInvalidArgument
      else (case HGetAll R w tenantsHash of
              Inl e \<Rightarrow> Inl e
            | Inr values \<Rightarrow>
                (case listTenants T K (map snd values) of
                   Inl e \<Rightarrow> Inl e
                 | Inr found \<Rightarrow>
                     if length (filter (\<lambda>t. t_Id t = MasterTenantID) found) \<noteq> 1 then Inl ErrTenantInvariant
                     else let tenants = sort_key (tenantOrder U) found in
                       if offset \<ge> length tenants then Inr ([], [])
                       else let end0 = offset + nat pageSize;
                                finish = (if end0 > length tenants then length tenants else end0) in
                         Inr (take (finish - offset) (drop offset tenants),
                              if finish < length tenants then Itoa finish else []))))"

definition RetireLegacyDefault :: "'w redis \<Rightarrow> 'w \<Rightarrow> bool res \<times> 'w" where
  "RetireLegacyDefault R w =
     (case HDel R w tenantsHash RetiredDefaultTenantID of
        (Inl e, w') \<Rightarrow> (Inl e, w') | (Inr removed, w') \<Rightarrow> (Inr (removed = 1), w'))"

definition tenantRepo_IsRetired :: "'w redis \<Rightarrow> tenant_codec \<Rightarrow> int \<Rightarrow> 'w \<Rightarrow> string \<Rightarrow> bool res" where
  "tenantRepo_IsRetired R K now w tenantID =
     (if \<not> activeTenantIdentity tenantID \<or> tenantID = MasterTenantID then Inl ErrInvalidTenant
      else (case HGet R w tenantsHash tenantID of
              Inl e \<Rightarrow> Inl e
            | Inr None \<Rightarrow> Inr False
            | Inr (Some raw) \<Rightarrow>
                (case decodeRetainedTenant K raw tenantID now of
                   Inl _ \<Rightarrow> Inl ErrTenantInvariant | Inr t \<Rightarrow> Inr (t_RetiredAt t \<noteq> None))))"

definition retireAttempt ::
  "'w redis \<Rightarrow> tenant_codec \<Rightarrow> 'w watch_env \<Rightarrow> (nat \<Rightarrow> int) \<Rightarrow> nat \<Rightarrow> 'w \<Rightarrow> string \<Rightarrow> gerror option option \<times> 'w" where
  "retireAttempt R K E clock attempt w tenantID =
     (case HGet R w tenantsHash tenantID of
        Inl e \<Rightarrow> (Some (Some e), w)
      | Inr None \<Rightarrow> (Some None, w)
      | Inr (Some raw) \<Rightarrow>
          (case decodeRetainedTenant K raw tenantID (clock (2 * attempt)) of
             Inl _ \<Rightarrow> (Some (Some ErrTenantInvariant), w)
           | Inr t \<Rightarrow>
               if t_RetiredAt t \<noteq> None then (Some None, w)
               else (case marshal (tenantCodec K)
                        (t\<lparr>t_Status := TenantStatusDisabled, t_RetiredAt := Some (Some (clock (2 * attempt + 1)))\<rparr>) of
                       Inl e \<Rightarrow> (Some (Some e), w)
                     | Inr payload \<Rightarrow>
                         let w1 = otherClients E attempt w in
                         if \<not> commits E attempt then (None, w1)
                         else (case HSet R w1 tenantsHash tenantID payload of
                                 (Some e, w2) \<Rightarrow> (Some (Some e), w2) | (None, w2) \<Rightarrow> (Some None, w2)))))"

fun retireLoop ::
  "'w redis \<Rightarrow> tenant_codec \<Rightarrow> 'w watch_env \<Rightarrow> (nat \<Rightarrow> int) \<Rightarrow> nat \<Rightarrow> nat \<Rightarrow> 'w \<Rightarrow> string \<Rightarrow> gerror option \<times> 'w" where
  "retireLoop R K E clock attempt 0 w tenantID = (Some ErrVersionConflict, w)"
| "retireLoop R K E clock attempt (Suc left) w tenantID =
     (case retireAttempt R K E clock attempt w tenantID of
        (Some r, w') \<Rightarrow> (r, w')
      | (None, w') \<Rightarrow> retireLoop R K E clock (Suc attempt) left w' tenantID)"

definition tenantRepo_Retire ::
  "'w redis \<Rightarrow> tenant_codec \<Rightarrow> 'w watch_env \<Rightarrow> (nat \<Rightarrow> int) \<Rightarrow> 'w \<Rightarrow> string \<Rightarrow> gerror option \<times> 'w" where
  "tenantRepo_Retire R K E clock w tenantID =
     (if \<not> activeTenantIdentity tenantID \<or> tenantID = MasterTenantID then (Some ErrInvalidTenant, w)
      else retireLoop R K E clock 0 8 w tenantID)"

section \<open>The service\<close>

record 'w tenantRepository =
  tnCreateIfAbsent :: "'w \<Rightarrow> tenant \<Rightarrow> (tenant option \<times> bool) res \<times> 'w"
  tnGet :: "'w \<Rightarrow> string \<Rightarrow> tenant option res"
  tnList :: "'w \<Rightarrow> nat \<Rightarrow> int \<Rightarrow> (tenant list \<times> string) res"
  tnRetire :: "('w \<Rightarrow> string \<Rightarrow> gerror option \<times> 'w) option"

definition validStoredTenant :: "unicode_tables \<Rightarrow> tenant \<Rightarrow> bool" where
  "validStoredTenant T t \<longleftrightarrow>
     t_Id t \<noteq> RetiredDefaultTenantID \<and> validDNSLabel (t_Id t) \<and> t_Slug t = t_Id t \<and> Valid T (t_Name t) \<and>
     (t_Id t = MasterTenantID \<or> \<not> ReservedMaster T (t_Name t))"

definition tenantResponse :: "tenant \<Rightarrow> tenantResp" where
  "tenantResponse t =
     \<lparr>tr_Id = t_Id t, tr_Slug = t_Slug t,
      tr_Name = (if t_Id t = MasterTenantID then MasterTenantName else t_Name t),
      tr_Status = t_Status t, tr_CreatedAt = t_CreatedAt t,
      tr_TenantType = (if t_Id t = MasterTenantID then TenantTypeMaster else TenantTypeWorkload)\<rparr>"

definition IsTenantActive :: "unicode_tables \<Rightarrow> 'w tenantRepository \<Rightarrow> 'w \<Rightarrow> string \<Rightarrow> bool res" where
  "IsTenantActive T S w tenantID =
     (if \<not> validDNSLabel tenantID then Inl ErrInvalidArgument
      else if tenantID = RetiredDefaultTenantID then Inr False
      else (case tnGet S w tenantID of
              Inl e \<Rightarrow> Inl e
            | Inr None \<Rightarrow> Inr False
            | Inr (Some t) \<Rightarrow>
                if t_Id t \<noteq> tenantID \<or> \<not> validStoredTenant T t then Inl ErrTenantInvariant
                else Inr (t_Status t = TenantStatusActive)))"

definition tenantService_Retire :: "'w tenantRepository \<Rightarrow> 'w \<Rightarrow> string \<Rightarrow> gerror option \<times> 'w" where
  "tenantService_Retire S w tenantID =
     (if \<not> validDNSLabel tenantID \<or> tenantID = MasterTenantID \<or> tenantID = RetiredDefaultTenantID
      then (Some ErrInvalidTenant, w)
      else (case tnRetire S of None \<Rightarrow> (Some ErrTenantInvariant, w) | Some retire \<Rightarrow> retire w tenantID))"

definition quoted :: "string \<Rightarrow> string" where
  "quoted s = [CHR 0x22] @ s @ [CHR 0x22]"

definition CreateWithID ::
  "unicode_tables \<Rightarrow> 'w tenantRepository \<Rightarrow> 'w \<Rightarrow> string \<Rightarrow> tenantCreateReq \<Rightarrow> (tenantResp \<times> bool) res \<times> 'w" where
  "CreateWithID T S w tenantID req =
     (let name = Normalize T (tcr_Name req) in
      if \<not> validDNSLabel tenantID \<or> \<not> Valid T name \<or> tcr_Slug req \<noteq> tenantID \<or>
         tenantID = RetiredDefaultTenantID \<or>
         tenantID = MasterTenantID \<and> name \<noteq> MasterTenantName \<or>
         tenantID \<noteq> MasterTenantID \<and> ReservedMaster T name
      then (Inl ErrInvalidArgument, w)
      else
        let proposed = \<lparr>t_Id = tenantID, t_Slug = tcr_Slug req, t_Name = name,
              t_Status = TenantStatusActive, t_CreatedAt = None, t_RetiredAt = None\<rparr> in
        (case tnCreateIfAbsent S w proposed of
           (Inl e, w') \<Rightarrow> (Inl (ErrWrap (''create tenant '' @ quoted tenantID @ '': '') e), w')
         | (Inr (None, _), w') \<Rightarrow> 
             (Inl (ErrText (''create tenant '' @ quoted tenantID @ '': stored tenant missing'')), w')
         | (Inr (Some existing, created), w') \<Rightarrow>
             if t_Name existing \<noteq> name \<or> t_Slug existing \<noteq> tcr_Slug req then (Inl ErrTenantConflict, w')
             else (Inr (tenantResponse existing, created), w')))"

definition tenantService_Get :: "unicode_tables \<Rightarrow> 'w tenantRepository \<Rightarrow> 'w \<Rightarrow> string \<Rightarrow> tenantResp res" where
  "tenantService_Get T S w tenantID =
     (if TrimSpace tenantID = [] then Inl ErrInvalidArgument
      else if tenantID = RetiredDefaultTenantID then Inl ErrNotFound
      else (case tnGet S w tenantID of
              Inl e \<Rightarrow> Inl e
            | Inr None \<Rightarrow> Inl ErrNotFound
            | Inr (Some t) \<Rightarrow>
                if \<not> validStoredTenant T t then Inl ErrTenantInvariant else Inr (tenantResponse t)))"

definition tenantService_List ::
  "unicode_tables \<Rightarrow> 'w tenantRepository \<Rightarrow> 'w \<Rightarrow> nat \<Rightarrow> int \<Rightarrow> tenantsPage res" where
  "tenantService_List T S w offset pageSize =
     (if pageSize < 1 \<or> pageSize > 200 then Inl ErrInvalidArgument
      else (case tnList S w offset pageSize of
              Inl e \<Rightarrow> Inl e
            | Inr (tenants, next) \<Rightarrow>
                if \<not> list_all (validStoredTenant T) tenants then Inl ErrTenantInvariant
                else Inr \<lparr>tp_Tenants = map tenantResponse tenants, tp_NextPageToken = next\<rparr>))"

definition NewTenantRepo ::
  "go_unicode \<Rightarrow> unicode_tables \<Rightarrow> 'w redis \<Rightarrow> tenant_codec \<Rightarrow> 'w watch_env \<Rightarrow> (nat \<Rightarrow> int) \<Rightarrow> string \<Rightarrow> int \<Rightarrow> int \<Rightarrow>
   'w tenantRepository" where
  "NewTenantRepo U T R K E clock newID now later =
     \<lparr>tnCreateIfAbsent = tenantRepo_CreateIfAbsent R K newID now later, tnGet = tenantRepo_Get R K,
      tnList = tenantRepo_List U T R K, tnRetire = Some (tenantRepo_Retire R K E clock)\<rparr>"

section \<open>The contract of a tenant registry\<close>

text \<open>What issuance and administration rely on in tenant reads: the retired default tenant does not
  exist and no tombstone is ever returned.\<close>

locale tenant_registry =
  fixes getTenant :: "'w \<Rightarrow> string \<Rightarrow> tenant option res"
  assumes get_default: "getTenant w RetiredDefaultTenantID = Inr None"
    and get_live: "getTenant w i = Inr (Some t) \<Longrightarrow> t_RetiredAt t = None"
begin

lemma default_inactive:
  "tnGet S = getTenant \<Longrightarrow> IsTenantActive T S w RetiredDefaultTenantID \<noteq> Inr True"
  by (simp add: IsTenantActive_def)

lemma active_is_live:
  "tnGet S = getTenant \<Longrightarrow> IsTenantActive T S w i = Inr True \<Longrightarrow>
   \<exists>t. getTenant w i = Inr (Some t) \<and> t_Id t = i \<and> t_RetiredAt t = None \<and>
     t_Status t = TenantStatusActive \<and> validStoredTenant T t"
  using get_live [of w i] by (auto simp: IsTenantActive_def split: if_splits sum.splits option.splits)

end

interpretation redis_tenants: tenant_registry "tenantRepo_Get R K" for R K
  by unfold_locales
    (auto simp: tenantRepo_Get_def split: if_splits sum.splits option.splits)

section \<open>Lemmas\<close>

text \<open>The decoder behind \<^verbatim>\<open>decodeExactObject\<close> is \<^verbatim>\<open>json.Unmarshal\<close>.\<close>

definition exact_unmarshals :: "'a codec \<Rightarrow> bool" where
  "exact_unmarshals C \<longleftrightarrow> (\<forall>s a. exactObject C s = Some a \<longrightarrow> unmarshal C s = Inr a)"

definition tombstone :: "'w redis \<Rightarrow> tenant_codec \<Rightarrow> 'w \<Rightarrow> string \<Rightarrow> bool" where
  "tombstone R K w i \<longleftrightarrow>
     (\<exists>raw t. HGet R w tenantsHash i = Inr (Some raw) \<and> raw \<noteq> [] \<and>
        exactObject (tenantCodec K) raw = Some t \<and> t_RetiredAt t \<noteq> None)"

lemma decodeRetainedTenant_Inr:
  "decodeRetainedTenant K raw i at = Inr t \<Longrightarrow>
   raw \<noteq> [] \<and> exactObject (tenantCodec K) raw = Some t \<and> t_Id t = i \<and> activeTenantIdentity i"
  by (auto simp: decodeRetainedTenant_def split: if_splits option.splits)

lemma decodeRetainedTenant_tombstone:
  "exactObject (tenantCodec K) raw = Some t \<Longrightarrow> t_RetiredAt t \<noteq> None \<Longrightarrow>
   decodeRetainedTenant K raw i at = Inr t' \<Longrightarrow> t_RetiredAt t' \<noteq> None"
  using decodeRetainedTenant_Inr [of K raw i at t'] by auto

lemma retireAttempt_done:
  assumes R: "hash_reads_writes R" and C: "codec_roundtrip (tenantCodec K)"
    and a: "retireAttempt R K E clock n w i = (Some None, w')"
  shows "HGet R w' tenantsHash i = Inr None \<or> tombstone R K w' i"
proof -
  from a consider "HGet R w' tenantsHash i = Inr None"
    | raw t where "HGet R w' tenantsHash i = Inr (Some raw)"
        "decodeRetainedTenant K raw i (clock (2 * n)) = Inr t" "t_RetiredAt t \<noteq> None"
    | t payload w1 where "marshal (tenantCodec K)
          (t\<lparr>t_Status := TenantStatusDisabled, t_RetiredAt := Some (Some (clock (2 * n + 1)))\<rparr>) = Inr payload"
        "HSet R w1 tenantsHash i payload = (None, w')"
    by (auto simp: retireAttempt_def Let_def split: if_splits sum.splits option.splits prod.splits)
  then show ?thesis
  proof cases
    case 2
    with decodeRetainedTenant_Inr [OF 2(2)] show ?thesis by (auto simp: tombstone_def)
  next
    case 3
    with C have "payload \<noteq> []" "exactObject (tenantCodec K) payload =
        Some (t\<lparr>t_Status := TenantStatusDisabled, t_RetiredAt := Some (Some (clock (2 * n + 1)))\<rparr>)"
      by (auto simp: codec_roundtrip_def)
    moreover from R 3(2) have "HGet R w' tenantsHash i = Inr (Some payload)"
      by (auto simp: hash_reads_writes_def)
    ultimately show ?thesis by (auto simp: tombstone_def)
  qed simp
qed

lemma retireLoop_done:
  assumes "hash_reads_writes R" "codec_roundtrip (tenantCodec K)"
  shows "retireLoop R K E clock n left w i = (None, w') \<Longrightarrow>
    HGet R w' tenantsHash i = Inr None \<or> tombstone R K w' i"
proof (induction left arbitrary: n w)
  case (Suc left)
  then show ?case using retireAttempt_done [OF assms] by (auto split: prod.splits option.splits)
qed simp

lemma tombstone_hidden:
  assumes "exact_unmarshals (tenantCodec K)" "tombstone R K w i"
  shows "tenantRepo_Get R K w i = Inr None"
  using assms by (auto simp: tombstone_def tenantRepo_Get_def exact_unmarshals_def)

lemma tombstone_reserved:
  assumes R: "hash_reads_writes R" and t: "tombstone R K w (t_Id p)" "t_Id p \<noteq> []"
  shows "fst (tenantRepo_CreateIfAbsent R K newID now later w p) \<noteq> Inr r"
proof
  assume a: "fst (tenantRepo_CreateIfAbsent R K newID now later w p) = Inr r"
  have p: "t_Id (prepareTenant newID now p) = t_Id p" using t(2) by (simp add: prepareTenant_def Let_def)
  from t obtain raw x where x: "HGet R w tenantsHash (t_Id p) = Inr (Some raw)"
    "exactObject (tenantCodec K) raw = Some x" "t_RetiredAt x \<noteq> None" by (auto simp: tombstone_def)
  from a consider data w' where "HSetNX R w tenantsHash (t_Id p) data = (Inr True, w')"
    | data w' raw' y where "HSetNX R w tenantsHash (t_Id p) data = (Inr False, w')"
        "HGet R w' tenantsHash (t_Id p) = Inr (Some raw')"
        "decodeRetainedTenant K raw' (t_Id p) later = Inr y" "t_RetiredAt y = None"
    by (auto simp: tenantRepo_CreateIfAbsent_def Let_def p
        split: if_splits sum.splits prod.splits bool.splits option.splits)
  then show False
  proof cases
    case 1
    with R x(1) show False by (fastforce simp: hash_reads_writes_def)
  next
    case 2
    from R 2(1) have "w' = w" unfolding hash_reads_writes_def by blast
    with 2 x show False using decodeRetainedTenant_tombstone [OF x(2,3)] by auto
  qed
qed

text \<open>A write changes the field it names and no other, whatever it answers, and \<^verbatim>\<open>HSETNX\<close> never overwrites.\<close>

definition hash_frames :: "'w redis \<Rightarrow> bool" where
  "hash_frames R \<longleftrightarrow>
     (\<forall>w k f v g. g \<noteq> f \<longrightarrow> HGet R (snd (HSet R w k f v)) k g = HGet R w k g) \<and>
     (\<forall>w k f v g. g \<noteq> f \<or> (\<exists>x. HGet R w k g = Inr (Some x)) \<longrightarrow> HGet R (snd (HSetNX R w k f v)) k g = HGet R w k g) \<and>
     (\<forall>w k f g. g \<noteq> f \<longrightarrow> HGet R (snd (HDel R w k f)) k g = HGet R w k g)"

lemma memRedis_frames: "hash_frames memRedis"
proof -
  have d: "map_of (filter (\<lambda>p. fst p \<noteq> f) xs) g = map_of xs g" if "g \<noteq> f" for f g and xs :: "(string \<times> string) list"
    using that by (induction xs) auto
  show ?thesis by (auto simp: hash_frames_def memRedis_def memSet_def d)
qed

text \<open>
  The states of the registry after \<open>w\<close>: any of its operations, in any number and order, each with any clock and with
  other clients of the registry acting inside its optimistic transactions, and any change of other data.
\<close>

inductive laterRegistry :: "'w redis \<Rightarrow> tenant_codec \<Rightarrow> 'w \<Rightarrow> 'w \<Rightarrow> bool" for R K where
  same: "laterRegistry R K w w"
| elsewhere: "laterRegistry R K w v \<Longrightarrow> \<forall>i. HGet R v' tenantsHash i = HGet R v tenantsHash i \<Longrightarrow> laterRegistry R K w v'"
| create: "laterRegistry R K w v \<Longrightarrow> \<forall>n u. laterRegistry R K u (otherClients E n u) \<Longrightarrow>
    laterRegistry R K w (snd (tenantRepo_Create R K E clock newID now v t))"
| createIfAbsent: "laterRegistry R K w v \<Longrightarrow> laterRegistry R K w (snd (tenantRepo_CreateIfAbsent R K newID now after v t))"
| retire: "laterRegistry R K w v \<Longrightarrow> \<forall>n u. laterRegistry R K u (otherClients E n u) \<Longrightarrow>
    laterRegistry R K w (snd (tenantRepo_Retire R K E clock v i))"
| retireDefault: "laterRegistry R K w v \<Longrightarrow> laterRegistry R K w (snd (RetireLegacyDefault R v))"

lemma tombstone_refuses:
  assumes "tombstone R K w (t_Id t)"
  shows "\<exists>e. createAttempt R K E clock n w t = (Some (Inl e), w)"
proof -
  from assms obtain raw x where x: "HGet R w tenantsHash (t_Id t) = Inr (Some raw)"
    "exactObject (tenantCodec K) raw = Some x" "t_RetiredAt x \<noteq> None" by (auto simp: tombstone_def)
  have "\<exists>e. createCandidate K clock n t (Some raw) = Inl e"
  proof (cases "decodeRetainedTenant K raw (t_Id t) (clock (2 * n))")
    case (Inr y)
    with decodeRetainedTenant_tombstone [OF x(2,3) Inr] show ?thesis by (auto simp: createCandidate_def)
  qed (simp add: createCandidate_def)
  with x(1) show ?thesis by (auto simp: createAttempt_def)
qed

lemma createLoop_tombstone:
  assumes F: "hash_frames R" and E: "\<And>n u. tombstone R K u i \<Longrightarrow> tombstone R K (otherClients E n u) i"
  shows "tombstone R K w i \<Longrightarrow> tombstone R K (snd (createLoop R K E clock n left w t)) i \<and>
    (t_Id t = i \<longrightarrow> (\<exists>e. fst (createLoop R K E clock n left w t) = Inl e))"
proof (induction left arbitrary: n w)
  case (Suc left)
  have a: "tombstone R K (snd (createAttempt R K E clock n w t)) i"
  proof (cases "t_Id t = i")
    case True
    with tombstone_refuses [of R K w t E clock n] Suc.prems show ?thesis by auto
  next
    case False
    have "HGet R (snd (HSet R u tenantsHash (t_Id t) v)) tenantsHash i = HGet R u tenantsHash i" for u v
      using F False by (simp add: hash_frames_def)
    then have "tombstone R K u i \<Longrightarrow> tombstone R K (snd (HSet R u tenantsHash (t_Id t) v)) i" for u v
      by (simp add: tombstone_def)
    with E [OF Suc.prems] Suc.prems show ?thesis
      by (auto simp: createAttempt_def Let_def split: sum.split option.split prod.split if_split) (metis snd_conv)+
  qed
  show ?case
  proof (cases "createAttempt R K E clock n w t")
    case (Pair z v)
    with a have v: "tombstone R K v i" by simp
    show ?thesis
    proof (cases z)
      case None
      with Pair Suc.IH [OF v, of "Suc n"] show ?thesis by simp
    next
      case (Some r)
      with Pair v tombstone_refuses [of R K w t E clock n] Suc.prems show ?thesis by auto
    qed
  qed
qed simp


lemma tombstone_frame: "HGet R v tenantsHash i = HGet R w tenantsHash i \<Longrightarrow> tombstone R K w i \<Longrightarrow> tombstone R K v i"
  by (simp add: tombstone_def)

lemma tenantRepo_Create_tombstone:
  assumes "hash_frames R" "\<And>n u. tombstone R K u i \<Longrightarrow> tombstone R K (otherClients E n u) i" "tombstone R K w i"
  shows "tombstone R K (snd (tenantRepo_Create R K E clock newID now w t)) i"
    "t_Id t = i \<Longrightarrow> i \<noteq> [] \<Longrightarrow> \<exists>e. fst (tenantRepo_Create R K E clock newID now w t) = Inl e"
  using createLoop_tombstone [OF assms, of clock 0 8 "prepareTenant newID now t"] assms(3)
  by (auto simp: tenantRepo_Create_def prepareTenant_def Let_def simp del: createLoop.simps)

lemma tenantRepo_CreateIfAbsent_tombstone:
  assumes "hash_frames R" "tombstone R K w i"
  shows "tombstone R K (snd (tenantRepo_CreateIfAbsent R K newID now after w t)) i"
proof -
  from assms(2) have "\<exists>x. HGet R w tenantsHash i = Inr (Some x)" by (auto simp: tombstone_def)
  with assms(1) have "HGet R (snd (HSetNX R w tenantsHash f v)) tenantsHash i = HGet R w tenantsHash i" for f v
    unfolding hash_frames_def by blast
  then have "tombstone R K (snd (HSetNX R w tenantsHash f v)) i" for f v by (rule tombstone_frame) (rule assms(2))
  then have "tombstone R K w1 i" if "HSetNX R w tenantsHash f v = (r, w1)" for f v r w1 using that by (metis snd_conv)
  with assms(2) show ?thesis
    by (auto simp: tenantRepo_CreateIfAbsent_def Let_def split: sum.split option.split prod.split bool.split)
qed

lemma retireAttempt_tombstone:
  assumes F: "hash_frames R" and E: "\<And>n u. tombstone R K u i \<Longrightarrow> tombstone R K (otherClients E n u) i" and w: "tombstone R K w i"
  shows "tombstone R K (snd (retireAttempt R K E clock n w j)) i"
proof (cases "j = i")
  case True
  from w obtain raw x where x: "HGet R w tenantsHash i = Inr (Some raw)"
    "exactObject (tenantCodec K) raw = Some x" "t_RetiredAt x \<noteq> None" by (auto simp: tombstone_def)
  show ?thesis
  proof (cases "decodeRetainedTenant K raw i (clock (2 * n))")
    case (Inr y)
    with decodeRetainedTenant_tombstone [OF x(2,3) Inr] x(1) w True show ?thesis by (auto simp: retireAttempt_def)
  qed (use x(1) w True in \<open>simp add: retireAttempt_def\<close>)
next
  case False
  have "tombstone R K (snd (HSet R u tenantsHash j v)) i" if "tombstone R K u i" for u v
    by (rule tombstone_frame [OF _ that]) (use F False in \<open>simp add: hash_frames_def\<close>)
  with E [OF w] have "tombstone R K w1 i" if "HSet R (otherClients E n w) tenantsHash j v = (r, w1)" for v r w1
    using that by (metis snd_conv)
  with E [OF w] w show ?thesis
    by (auto simp: retireAttempt_def Let_def split: sum.split option.split prod.split)
qed

lemma retireLoop_tombstone:
  assumes "hash_frames R" and "\<And>n u. tombstone R K u i \<Longrightarrow> tombstone R K (otherClients E n u) i"
  shows "tombstone R K w i \<Longrightarrow> tombstone R K (snd (retireLoop R K E clock n left w j)) i"
proof (induction left arbitrary: n w)
  case (Suc left)
  from retireAttempt_tombstone [OF assms Suc.prems, of clock n j] Suc.IH show ?case
    by (auto split: prod.split option.split) 
qed simp

lemma later_tombstone:
  assumes "laterRegistry R K w v" "hash_frames R" "i \<noteq> RetiredDefaultTenantID"
  shows "tombstone R K w i \<Longrightarrow> tombstone R K v i"
  using assms(1)
proof (induction rule: laterRegistry.induct)
  case (elsewhere w v v')
  then show ?case using tombstone_frame [of R v' i v K] by simp
next
  case (create w v E clock newID now t)
  show ?case by (rule tenantRepo_Create_tombstone(1) [OF assms(2)]) (use create in blast)+
next
  case (createIfAbsent w v newID now after t)
  then show ?case by (intro tenantRepo_CreateIfAbsent_tombstone [OF assms(2)]) simp
next
  case (retire w v E clock j)
  then show ?case
    by (auto simp: tenantRepo_Retire_def simp del: retireLoop.simps intro!: retireLoop_tombstone [OF assms(2)])
next
  case (retireDefault w v)
  have "HGet R (snd (HDel R v tenantsHash RetiredDefaultTenantID)) tenantsHash i = HGet R v tenantsHash i"
    using assms(2,3) by (simp add: hash_frames_def)
  then have "HGet R (snd (RetireLegacyDefault R v)) tenantsHash i = HGet R v tenantsHash i"
    by (auto simp: RetireLegacyDefault_def split: prod.split sum.split)
  from tombstone_frame [OF this] retireDefault show ?case by simp
qed


lemma listTenants_Inr:
  "listTenants T K vs = Inr ts \<Longrightarrow> t \<in> set ts \<Longrightarrow>
   t_Id t \<noteq> RetiredDefaultTenantID \<and> t_RetiredAt t = None \<and> Valid T (t_Name t) \<and>
   (t_Id t = MasterTenantID \<longrightarrow> t_Slug t = MasterTenantID) \<and>
   (t_Id t \<noteq> MasterTenantID \<longrightarrow> \<not> ReservedMaster T (t_Name t))"
  by (induction vs arbitrary: ts) (auto split: if_splits sum.splits)

section \<open>Properties\<close>

text \<open>
  C36. Retirement is final. Once \<^verbatim>\<open>Retire\<close> succeeds, whatever other clients did in between, the tenant is not found and
  not active; and if it ever existed this stays so in every later state of the registry, and there no create of its
  identifier succeeds, neither the public \<^verbatim>\<open>CreateWithID\<close> nor the overwriting \<^verbatim>\<open>Create\<close> of the bootstrap, because
  the tombstone reserves it.
\<close>
theorem retire_is_final:
  assumes R: "hash_reads_writes R" "hash_frames R" and C: "codec_roundtrip (tenantCodec K)" "exact_unmarshals (tenantCodec K)"
    and S: "S = NewTenantRepo U T R K E clock newID now later"
    and r: "tenantService_Retire S w i = (None, w')"
  shows "tenantService_Get T S w' i = Inl ErrNotFound \<and> IsTenantActive T S w' i = Inr False \<and>
    (HGet R w' tenantsHash i \<noteq> Inr None \<longrightarrow>
      (\<forall>v. laterRegistry R K w' v \<longrightarrow>
         tenantService_Get T S v i = Inl ErrNotFound \<and> IsTenantActive T S v i = Inr False \<and>
         (\<forall>req resp. fst (CreateWithID T S v i req) \<noteq> Inr resp) \<and>
         (\<forall>E' clock' newID' now' t u. (\<forall>n u. laterRegistry R K u (otherClients E' n u)) \<and> t_Id t = i \<longrightarrow>
            fst (tenantRepo_Create R K E' clock' newID' now' v t) \<noteq> Inr u)))"
proof -
  from r have i: "validDNSLabel i" "i \<noteq> RetiredDefaultTenantID"
    and l: "retireLoop R K E clock 0 8 w i = (None, w')"
    by (auto simp: tenantService_Retire_def tenantRepo_Retire_def S NewTenantRepo_def
        simp del: retireLoop.simps split: if_splits)
  have ne: "i \<noteq> []" "TrimSpace i = i"
    using i by (auto simp: validDNSLabel_def TrimSpace_all_graphic validDNSLabel_graphic)
  have gone: "tenantService_Get T S v i = Inl ErrNotFound \<and> IsTenantActive T S v i = Inr False"
    if "tenantRepo_Get R K v i = Inr None" for v
    using that i ne by (simp add: S NewTenantRepo_def tenantService_Get_def IsTenantActive_def)
  from retireLoop_done [OF R(1) C(1) l] have d: "HGet R w' tenantsHash i = Inr None \<or> tombstone R K w' i" .
  have now: "tenantService_Get T S w' i = Inl ErrNotFound \<and> IsTenantActive T S w' i = Inr False"
  proof (rule gone, use d in \<open>elim disjE\<close>)
    show "tenantRepo_Get R K w' i = Inr None" if "HGet R w' tenantsHash i = Inr None" using that by (simp add: tenantRepo_Get_def)
  qed (rule tombstone_hidden [OF C(2)])
  have "tenantService_Get T S v i = Inl ErrNotFound \<and> IsTenantActive T S v i = Inr False \<and>
       (\<forall>req resp. fst (CreateWithID T S v i req) \<noteq> Inr resp) \<and>
       (\<forall>E' clock' newID' now' t u. (\<forall>n u. laterRegistry R K u (otherClients E' n u)) \<and> t_Id t = i \<longrightarrow>
          fst (tenantRepo_Create R K E' clock' newID' now' v t) \<noteq> Inr u)"
    if "HGet R w' tenantsHash i \<noteq> Inr None" "laterRegistry R K w' v" for v
  proof -
    from d that(1) have "tombstone R K w' i" by blast
    from later_tombstone [OF that(2) R(2) i(2) this] have v: "tombstone R K v i" .
    have "fst (CreateWithID T S v i req) \<noteq> Inr resp" for req resp
    proof -
      let ?p = "\<lparr>t_Id = i, t_Slug = tcr_Slug req, t_Name = Normalize T (tcr_Name req),
        t_Status = TenantStatusActive, t_CreatedAt = None, t_RetiredAt = None\<rparr>"
      have "fst (tnCreateIfAbsent S v ?p) \<noteq> Inr x" for x
        using tombstone_reserved [OF R(1), of K v ?p] v ne by (simp add: S NewTenantRepo_def)
      then obtain e w1 where "tnCreateIfAbsent S v ?p = (Inl e, w1)"
        by (cases "tnCreateIfAbsent S v ?p"; cases "fst (tnCreateIfAbsent S v ?p)") auto
      then show ?thesis by (auto simp: CreateWithID_def Let_def)
    qed
    moreover have "fst (tenantRepo_Create R K E' clock' newID' now' v t) \<noteq> Inr u"
      if "\<forall>n u. laterRegistry R K u (otherClients E' n u)" "t_Id t = i" for E' clock' newID' now' t u
    proof -
      have e: "tombstone R K (otherClients E' n x) i" if "tombstone R K x i" for n x
        using \<open>\<forall>n u. laterRegistry R K u (otherClients E' n u)\<close> later_tombstone [OF _ R(2) i(2) that] by blast
      have "\<exists>e. fst (tenantRepo_Create R K E' clock' newID' now' v t) = Inl e"
        by (rule tenantRepo_Create_tombstone(2) [OF R(2) _ v that(2) ne(1)]) (rule e)
      then show ?thesis by auto
    qed
    ultimately show ?thesis using gone [OF tombstone_hidden [OF C(2) v]] by blast
  qed
  with now show ?thesis by blast
qed

definition sampleTenant :: tenant where
  "sampleTenant = \<lparr>t_Id = ''acme'', t_Slug = ''acme'', t_Name = ''Acme'', t_Status = ''ACTIVE'',
     t_CreatedAt = Some 5, t_RetiredAt = None\<rparr>"

definition retiredTenant :: tenant where
  "retiredTenant = sampleTenant\<lparr>t_Status := ''DISABLED'', t_RetiredAt := Some (Some 9)\<rparr>"

definition sampleTenantCodec :: tenant_codec where
  "sampleTenantCodec =
     \<lparr>tenantCodec =
        \<lparr>marshal = (\<lambda>t. if t = sampleTenant then Inr ''live'' else if t = retiredTenant then Inr ''dead''
           else Inl (ErrText ''unsupported'')),
         unmarshal = (\<lambda>s. if s = ''live'' then Inr sampleTenant else if s = ''dead'' then Inr retiredTenant
           else Inl (ErrText ''syntax'')),
         exactObject = (\<lambda>s. if s = ''live'' then Some sampleTenant else if s = ''dead'' then Some retiredTenant else None)\<rparr>,
      storedTimes = (\<lambda>_. Some (True, True))\<rparr>"

definition asciiTables :: unicode_tables where
  "asciiTables =
     \<lparr>NFKC = (\<lambda>s. s), NFKD = (\<lambda>s. s), InCfZlZp = (\<lambda>_. False), IsPrint = (\<lambda>r. 32 \<le> r \<and> r < 127),
      IsMn = (\<lambda>_. False), IsMe = (\<lambda>_. False),
      runeLower = (\<lambda>r. if 65 \<le> r \<and> r \<le> 90 then r + 32 else r),
      IsLetter = (\<lambda>r. 65 \<le> r \<and> r \<le> 90 \<or> 97 \<le> r \<and> r \<le> 122), IsDigit = (\<lambda>r. 48 \<le> r \<and> r \<le> 57)\<rparr>"

definition quietEnv :: "'w watch_env" where
  "quietEnv = \<lparr>otherClients = (\<lambda>_ w. w), commits = (\<lambda>n. n \<noteq> 0)\<rparr>"

lemma sampleTenantCodec_laws:
  "codec_roundtrip (tenantCodec sampleTenantCodec)" "exact_unmarshals (tenantCodec sampleTenantCodec)"
  by (auto simp: codec_roundtrip_def exact_unmarshals_def sampleTenantCodec_def retiredTenant_def
      sampleTenant_def split: if_splits)

lemma Acme_text: "TrimSpace ''Acme'' = ''Acme''" "runes ''Acme'' = [65, 99, 109, 101]" "ValidString ''Acme''"
  by (simp_all add: TrimSpace_all_graphic graphic_def decodeRune_def byte_def)

lemma sampleTenant_decodes:
  "5 \<le> now \<Longrightarrow> decodeRetainedTenant sampleTenantCodec ''live'' ''acme'' now = Inr sampleTenant"
  by (simp add: decodeRetainedTenant_def sampleTenantCodec_def sampleTenant_def activeTenantIdentity_def
      canonicalTenantIdentity_def inLower_def validTenantNameText_def validIdentityText_def Acme_text
      IsControl_def validTenantStatus_def retiredTimeOk_def decodeRune_def byte_def)

theorem retire_is_final_witness:
  "let S = NewTenantRepo \<lparr>mapLower = id, mapUpper = id, foldEqual = (=)\<rparr> asciiTables memRedis sampleTenantCodec
         quietEnv (\<lambda>_. 9) ''x'' 7 8;
       w = memSet (\<lambda>_. []) tenantsHash ''acme'' ''live'';
       w' = memSet w tenantsHash ''acme'' ''dead'' in
   tenantService_Retire S w ''acme'' = (None, w') \<and> IsTenantActive asciiTables S w' ''acme'' = Inr False \<and>
   (\<forall>req resp. fst (CreateWithID asciiTables S w' ''acme'' req) \<noteq> Inr resp) \<and>
   (\<forall>t u. t_Id t = ''acme'' \<longrightarrow> fst (tenantRepo_Create memRedis sampleTenantCodec quietEnv (\<lambda>_. 9) ''x'' 7 w' t) \<noteq> Inr u)"
proof -
  let ?S = "NewTenantRepo \<lparr>mapLower = id, mapUpper = id, foldEqual = (=)\<rparr> asciiTables memRedis sampleTenantCodec
     quietEnv (\<lambda>_. 9) ''x'' 7 8"
  let ?w = "memSet (\<lambda>_. []) tenantsHash ''acme'' ''live''"
  let ?w' = "memSet ?w tenantsHash ''acme'' ''dead''"
  have "sampleTenant\<lparr>t_Status := ''DISABLED'', t_RetiredAt := Some (Some 9)\<rparr> \<noteq> sampleTenant"
    by (simp add: sampleTenant_def)
  then have m: "marshal (tenantCodec sampleTenantCodec)
      (sampleTenant\<lparr>t_Status := ''DISABLED'', t_RetiredAt := Some (Some 9)\<rparr>) = Inr ''dead''"
    by (simp add: sampleTenantCodec_def retiredTenant_def)
  have live: "t_RetiredAt sampleTenant = None" by (simp add: sampleTenant_def)
  have g: "HGet memRedis ?w tenantsHash ''acme'' = Inr (Some ''live'')"
    "HSet memRedis ?w tenantsHash ''acme'' ''dead'' = (None, ?w')" by (simp_all add: memRedis_def memSet_def)
  have a: "retireAttempt memRedis sampleTenantCodec quietEnv (\<lambda>_. 9) n ?w ''acme'' =
      (if n = 0 then (None, ?w) else (Some None, ?w'))" for n
    by (simp add: retireAttempt_def g sampleTenant_decodes m live quietEnv_def Let_def)
  have "retireLoop memRedis sampleTenantCodec quietEnv (\<lambda>_. 9) 0 8 ?w ''acme'' = (None, ?w')"
    by (simp add: numeral_eq_Suc a)
  then have r: "tenantService_Retire ?S ?w ''acme'' = (None, ?w')"
    by (simp add: tenantService_Retire_def NewTenantRepo_def tenantRepo_Retire_def validDNSLabel_def inLower_def
        activeTenantIdentity_def canonicalTenantIdentity_def del: retireLoop.simps)
  have "HGet memRedis ?w' tenantsHash ''acme'' \<noteq> Inr None" by (simp add: memRedis_def memSet_def)
  note final = retire_is_final [OF memRedis_hash memRedis_frames sampleTenantCodec_laws refl r, THEN conjunct2, THEN conjunct2,
      THEN mp, OF this, THEN spec, THEN mp, OF laterRegistry.same]
  note last = final [THEN conjunct2, THEN conjunct1] final [THEN conjunct2, THEN conjunct2, THEN conjunct1]
    and fence = final [THEN conjunct2, THEN conjunct2, THEN conjunct2]
  have "\<forall>n u. laterRegistry memRedis sampleTenantCodec u (otherClients quietEnv n u)"
    by (simp add: quietEnv_def laterRegistry.same)
  with fence have "\<forall>t u. t_Id t = ''acme'' \<longrightarrow>
      fst (tenantRepo_Create memRedis sampleTenantCodec quietEnv (\<lambda>_. 9) ''x'' 7 ?w' t) \<noteq> Inr u" by blast
  with r last show ?thesis unfolding Let_def by (intro conjI)
qed

text \<open>
  A tenant created through the service has a DNS-label identifier that is not the retired default,
  its normalised name is valid and does not imitate the master unless it is the master, the answer
  carries the tenant type of its identifier, and the tenant is immediately readable and active.
\<close>
theorem tenant_create_get_roundtrip:
  assumes R: "hash_reads_writes R" and C: "codec_roundtrip (tenantCodec K)" "exact_unmarshals (tenantCodec K)"
    and S: "S = NewTenantRepo U T R K E clock newID now later"
    and c: "CreateWithID T S w i req = (Inr (resp, True), w')"
  shows "validDNSLabel i \<and> i \<noteq> RetiredDefaultTenantID \<and> tr_Id resp = i \<and> tr_Slug resp = i \<and>
    tr_Name resp = Normalize T (tcr_Name req) \<and> Valid T (tr_Name resp) \<and>
    (tr_TenantType resp = TenantTypeMaster \<longleftrightarrow> i = MasterTenantID) \<and>
    (ReservedMaster T (tr_Name resp) \<longrightarrow> i = MasterTenantID) \<and>
    tenantService_Get T S w' i = Inr resp \<and> IsTenantActive T S w' i = Inr True"
proof -
  let ?n = "Normalize T (tcr_Name req)"
  let ?p = "\<lparr>t_Id = i, t_Slug = tcr_Slug req, t_Name = ?n, t_Status = TenantStatusActive, t_CreatedAt = None, t_RetiredAt = None\<rparr>"
  let ?t = "?p\<lparr>t_CreatedAt := Some now\<rparr>"
  from c have v: "validDNSLabel i" "Valid T ?n" "tcr_Slug req = i" "i \<noteq> RetiredDefaultTenantID"
    "i = MasterTenantID \<Longrightarrow> ?n = MasterTenantName" "i \<noteq> MasterTenantID \<Longrightarrow> \<not> ReservedMaster T ?n"
    by (auto simp: CreateWithID_def Let_def split: if_splits)
  from c obtain x where x: "tnCreateIfAbsent S w ?p = (Inr (Some x, True), w')" "resp = tenantResponse x"
    by (auto simp: CreateWithID_def Let_def split: if_splits sum.splits prod.splits option.splits)
  have ne: "i \<noteq> []" "TrimSpace i = i"
    using v(1) by (auto simp: validDNSLabel_def TrimSpace_all_graphic validDNSLabel_graphic)
  then have "prepareTenant newID now ?p = ?t" by (simp add: prepareTenant_def)
  with x(1) obtain data where d: "x = ?t" "marshal (tenantCodec K) ?t = Inr data"
    "HSetNX R w tenantsHash i data = (Inr True, w')"
    by (auto simp: S NewTenantRepo_def tenantRepo_CreateIfAbsent_def Let_def
        split: if_splits sum.splits prod.splits bool.splits option.splits)
  from d(2) C have "data \<noteq> []" "unmarshal (tenantCodec K) data = Inr ?t"
    by (auto simp: codec_roundtrip_def exact_unmarshals_def)
  moreover from R d(3) have "HGet R w' tenantsHash i = Inr (Some data)" by (auto simp: hash_reads_writes_def)
  ultimately have g: "tnGet S w' i = Inr (Some ?t)"
    using v(4) by (simp add: S NewTenantRepo_def tenantRepo_Get_def)
  have "validStoredTenant T ?t" using v by (auto simp: validStoredTenant_def)
  then have "tenantService_Get T S w' i = Inr resp" "IsTenantActive T S w' i = Inr True"
    using g v ne x(2) d(1) by (simp_all add: tenantService_Get_def IsTenantActive_def)
  then show ?thesis using v x(2) d(1) by (auto simp: tenantResponse_def)
qed

lemma sampleTenant_valid:
  "Valid asciiTables ''Acme''" "Normalize asciiTables ''Acme'' = ''Acme''" "\<not> ReservedMaster asciiTables ''Acme''"
proof -
  show n: "Normalize asciiTables ''Acme'' = ''Acme''" by (simp add: Normalize_def asciiTables_def Acme_text)
  show "Valid asciiTables ''Acme''"
    unfolding Valid_def n Let_def by (simp only: Acme_text) (simp add: IsControl_def asciiTables_def)
  have "skeletonRunes asciiTables [65, 99, 109, 101] = [97, 99, 109, 101]"
    by (simp add: asciiTables_def protectedConfusable_def)
  moreover have "NFKD asciiTables ''Acme'' = ''Acme''" by (simp add: asciiTables_def)
  moreover have "concat (map encodeRune [97, 99, 109, 101]) = ''acme''"
    by (simp add: encodeRune_def char_of_def bit_Suc_0_iff)
  ultimately have "skeleton asciiTables ''Acme'' = ''acme''"
    by (simp only: skeleton_def n Acme_text(2))
  then show "\<not> ReservedMaster asciiTables ''Acme''"
    by (simp add: ReservedMaster_def protectedShape_def HasPrefix_def decodeRune_def byte_def)
qed

theorem tenant_create_get_roundtrip_witness:
  "let S = NewTenantRepo \<lparr>mapLower = id, mapUpper = id, foldEqual = (=)\<rparr> asciiTables memRedis sampleTenantCodec
         quietEnv (\<lambda>_. 9) ''x'' 5 8;
       w' = memSet (\<lambda>_. []) tenantsHash ''acme'' ''live'' in
   CreateWithID asciiTables S (\<lambda>_. []) ''acme'' \<lparr>tcr_Name = ''Acme'', tcr_Slug = ''acme''\<rparr> =
     (Inr (tenantResponse sampleTenant, True), w') \<and> IsTenantActive asciiTables S w' ''acme'' = Inr True"
proof -
  let ?S = "NewTenantRepo \<lparr>mapLower = id, mapUpper = id, foldEqual = (=)\<rparr> asciiTables memRedis sampleTenantCodec
     quietEnv (\<lambda>_. 9) ''x'' 5 8"
  have "CreateWithID asciiTables ?S (\<lambda>_. []) ''acme'' \<lparr>tcr_Name = ''Acme'', tcr_Slug = ''acme''\<rparr> =
     (Inr (tenantResponse sampleTenant, True), memSet (\<lambda>_. []) tenantsHash ''acme'' ''live'')"
    by (simp add: CreateWithID_def sampleTenant_valid validDNSLabel_def inLower_def NewTenantRepo_def
        tenantRepo_CreateIfAbsent_def prepareTenant_def sampleTenantCodec_def sampleTenant_def memRedis_def)
  with tenant_create_get_roundtrip [OF memRedis_hash sampleTenantCodec_laws refl this] show ?thesis
    unfolding Let_def by blast
qed

text \<open>
  A page of tenants is the contiguous part of the ordered registry at the offset, never longer than
  the page size, and the next token is empty exactly at the end and otherwise the position at which the
  following page starts, so following the tokens visits every tenant once. The registry listed holds no
  tombstone, not the retired default, and exactly one master.
\<close>
theorem tenant_list_pages:
  assumes "tenantRepo_List U T R K w offset pageSize = Inr (page, next)"
  shows "1 \<le> pageSize \<and> pageSize \<le> 200 \<and> length page \<le> nat pageSize \<and>
    (\<exists>tenants. sorted (map (tenantOrder U) tenants) \<and>
       length (filter (\<lambda>t. t_Id t = MasterTenantID) tenants) = 1 \<and>
       (\<forall>t \<in> set tenants. t_Id t \<noteq> RetiredDefaultTenantID \<and> t_RetiredAt t = None) \<and>
       page = take (nat pageSize) (drop offset tenants) \<and>
       (if offset + nat pageSize < length tenants then next = Itoa (offset + nat pageSize) else next = []))"
proof -
  from assms obtain vals found where l: "1 \<le> pageSize" "pageSize \<le> 200"
    and f: "listTenants T K (map snd vals) = Inr found"
    and g: "HGetAll R w tenantsHash = Inr vals"
    and m: "length (filter (\<lambda>t. t_Id t = MasterTenantID) found) = 1"
    by (auto simp: tenantRepo_List_def Let_def split: if_splits sum.splits)
  let ?ts = "sort_key (tenantOrder U) found"
  have "mset (filter (\<lambda>t. t_Id t = MasterTenantID) ?ts) = mset (filter (\<lambda>t. t_Id t = MasterTenantID) found)"
    by simp
  then have "length (filter (\<lambda>t. t_Id t = MasterTenantID) ?ts) = 1"
    unfolding m [symmetric] by (rule mset_eq_length)
  moreover have "\<forall>t \<in> set ?ts. t_Id t \<noteq> RetiredDefaultTenantID \<and> t_RetiredAt t = None"
    using listTenants_Inr [OF f] by auto
  moreover have "page = take (nat pageSize) (drop offset ?ts) \<and>
    (if offset + nat pageSize < length ?ts then next = Itoa (offset + nat pageSize) else next = [])"
    using assms l by (auto simp: tenantRepo_List_def Let_def g f m split: if_splits)
  ultimately show ?thesis using l by (intro conjI exI [of _ ?ts]) auto
qed

definition masterTenant :: tenant where
  "masterTenant = \<lparr>t_Id = ''local-tenant'', t_Slug = ''local-tenant'', t_Name = ''HQ'', t_Status = ''ACTIVE'',
     t_CreatedAt = Some 1, t_RetiredAt = None\<rparr>"

definition listCodec :: tenant_codec where
  "listCodec = \<lparr>tenantCodec =
     \<lparr>marshal = (\<lambda>_. Inl (ErrText ''unsupported'')),
      unmarshal = (\<lambda>s. if s = ''live'' then Inr sampleTenant else if s = ''dead'' then Inr retiredTenant else Inr masterTenant),
      exactObject = (\<lambda>_. None)\<rparr>, storedTimes = (\<lambda>_. None)\<rparr>"

theorem tenant_list_pages_witness:
  "let U = \<lparr>mapLower = id, mapUpper = id, foldEqual = (=)\<rparr>;
       w = (\<lambda>_. [(''acme'', ''live''), (''old'', ''dead''), (''local-tenant'', ''hq'')]) in
   tenantRepo_List U asciiTables memRedis listCodec w 0 1 = Inr ([masterTenant], ''1'') \<and>
   length [masterTenant] \<le> nat 1"
proof -
  let ?U = "\<lparr>mapLower = id, mapUpper = id, foldEqual = (=)\<rparr>"
  let ?w = "(\<lambda>_. [(''acme'', ''live''), (''old'', ''dead''), (''local-tenant'', ''hq'')]) :: memory"
  have "TrimSpace ''HQ'' = ''HQ''" by (simp add: TrimSpace_all_graphic graphic_def)
  then have hq: "Valid asciiTables ''HQ''"
    by (simp add: Valid_def Normalize_def asciiTables_def IsControl_def decodeRune_def byte_def)
  have l: "listTenants asciiTables listCodec [''live'', ''dead'', ''hq''] = Inr [sampleTenant, masterTenant]"
    using hq sampleTenant_valid by (simp add: listCodec_def sampleTenant_def retiredTenant_def masterTenant_def)
  have o: "tenantOrder ?U masterTenant < tenantOrder ?U sampleTenant"
    by (simp add: tenantOrder_def masterTenant_def sampleTenant_def)
  then have s: "sort_key (tenantOrder ?U) [sampleTenant, masterTenant] = [masterTenant, sampleTenant]"
    by auto
  have f: "filter (\<lambda>t. t_Id t = MasterTenantID) [sampleTenant, masterTenant] = [masterTenant]"
    by (simp add: sampleTenant_def masterTenant_def)
  have "Itoa 1 = ''1''" by (simp add: Itoa.simps char_of_def bit_Suc_0_iff)
  then have "tenantRepo_List ?U asciiTables memRedis listCodec ?w 0 1 = Inr ([masterTenant], ''1'')"
    by (simp add: tenantRepo_List_def memRedis_def l f s Let_def
        del: filter.simps sort_key_simps listTenants.simps)
  with tenant_list_pages [OF this] show ?thesis unfolding Let_def by blast
qed

end
