(* ===== verification/Client_Service.thy ===== *)
theory Client_Service
  imports Tenant_Service
begin

text \<open>
  Audience clients: \<^verbatim>\<open>internal/services/client_service.go\<close> over the client repository interface, with the
  reserved AI audience of \<^verbatim>\<open>internal/aigateway\<close>. The random secret and \<^verbatim>\<open>bcrypt\<close> are arguments.
\<close>

section \<open>Operations\<close>

abbreviation errManagedAudienceClientContract :: gerror where
  "errManagedAudienceClientContract \<equiv> ErrText ''managed audience client contract mismatch''"

definition ReservedAudience :: "go_unicode \<Rightarrow> string \<Rightarrow> bool" where
  "ReservedAudience U a = EqualFold U (TrimSpace a) ''code-llm-service''"

fun normalizeList :: "string list \<Rightarrow> string list" where
  "normalizeList [] = []"
| "normalizeList (v # vs) =
     (let t = TrimSpace v in if t = [] then normalizeList vs else t # normalizeList vs)"

record 'w clientRepository =
  clCreate :: "'w \<Rightarrow> string \<Rightarrow> client \<Rightarrow> gerror option \<times> 'w"
  clEnsureManagedAudience :: "'w \<Rightarrow> string \<Rightarrow> client \<Rightarrow> (client option \<times> bool) res \<times> 'w"
  clGet :: "'w \<Rightarrow> string \<Rightarrow> string \<Rightarrow> client option res"
  clList :: "'w \<Rightarrow> string \<Rightarrow> client list res"

record 'w clientService =
  cs_repo :: "'w clientRepository"
  cs_managedAudienceEnabled :: bool
  cs_managedAudienceTenants :: "string list"
  cs_dynamicManagedAudienceEnabled :: bool
  cs_dynamicManagedAudienceTenants :: "'w tenantRepository option"

definition NewClientService :: "'w clientRepository \<Rightarrow> 'w clientService" where
  "NewClientService repo =
     \<lparr>cs_repo = repo, cs_managedAudienceEnabled = False, cs_managedAudienceTenants = [],
      cs_dynamicManagedAudienceEnabled = False, cs_dynamicManagedAudienceTenants = None\<rparr>"

definition WithManagedAudienceClients :: "bool \<Rightarrow> string list \<Rightarrow> 'w clientService \<Rightarrow> 'w clientService" where
  "WithManagedAudienceClients enabled tenants s =
     s\<lparr>cs_managedAudienceEnabled := enabled, cs_managedAudienceTenants := tenants\<rparr>"

definition WithDynamicManagedAudienceClients ::
  "bool \<Rightarrow> 'w tenantRepository option \<Rightarrow> 'w clientService \<Rightarrow> 'w clientService" where
  "WithDynamicManagedAudienceClients enabled tenants s =
     s\<lparr>cs_dynamicManagedAudienceEnabled := enabled, cs_dynamicManagedAudienceTenants := tenants\<rparr>"

definition clientService_Create ::
  "go_unicode \<Rightarrow> policy \<Rightarrow> (string \<Rightarrow> string res) \<Rightarrow> string \<Rightarrow> 'w clientService \<Rightarrow> 'w \<Rightarrow> string \<Rightarrow> clientCreateReq \<Rightarrow>
   clientResp res \<times> 'w" where
  "clientService_Create U P bcrypt secret s w tenantID req =
     (if TrimSpace tenantID = [] then (Inl ErrInvalidTenant, w)
      else if TrimSpace (ccr_ClientId req) = [] then (Inl ErrInvalidArgument, w)
      else if ReservedAudience U (ccr_ClientId req) then (Inl ErrInvalidArgument, w)
      else
        (case (if length (ccr_DefaultScopes req) > 0 then CanonicalAudienceScopes P (ccr_DefaultScopes req)
               else Some []) of
           None \<Rightarrow> (Inl ErrInvalidArgument, w)
         | Some defaultScopes \<Rightarrow>
             let clientType = (if ccr_Type req \<noteq> [] then ToUpper U (ccr_Type req) else ClientTypeService) in
             (case bcrypt secret of
                Inl e \<Rightarrow> (Inl e, w)
              | Inr hash \<Rightarrow>
                  let c = \<lparr>c_Id = ccr_ClientId req, c_TenantId = tenantID, c_SecretHash = hash,
                        c_Type = clientType, c_AllowedGrantTypes = normalizeList (ccr_AllowedGrantTypes req),
                        c_DefaultScopes = defaultScopes, c_Status = ''ACTIVE'', c_ManagedBy = []\<rparr> in
                  (case clCreate (cs_repo s) w tenantID c of
                     (Some e, w') \<Rightarrow> (Inl e, w')
                   | (None, w') \<Rightarrow>
                       (Inr \<lparr>cr_ClientId = c_Id c, cr_Type = c_Type c,
                          cr_AllowedGrantTypes = c_AllowedGrantTypes c,
                          cr_DefaultScopes = c_DefaultScopes c, cr_Secret = secret\<rparr>, w')))))"

definition sameManagedAudienceDefinition :: "client option \<Rightarrow> client \<Rightarrow> bool" where
  "sameManagedAudienceDefinition left right =
     (case left of None \<Rightarrow> False | Some l \<Rightarrow>
        IsManagedCodeAdminAudience (c_TenantId l) (Some l) \<and>
        IsManagedCodeAdminAudience (c_TenantId right) (Some right) \<and>
        c_TenantId l = c_TenantId right \<and> c_DefaultScopes l = c_DefaultScopes right)"

definition dynamicAudienceTenant :: "'w clientService \<Rightarrow> 'w \<Rightarrow> string \<Rightarrow> gerror option" where
  "dynamicAudienceTenant s w tenantID =
     (if \<not> cs_dynamicManagedAudienceEnabled s then Some ErrInvalidTenant
      else (case cs_dynamicManagedAudienceTenants s of
              None \<Rightarrow> Some ErrInvalidTenant
            | Some tenants \<Rightarrow>
                (case tnGet tenants w tenantID of
                   Inl e \<Rightarrow> Some e
                 | Inr None \<Rightarrow> Some ErrInvalidTenant
                 | Inr (Some t) \<Rightarrow>
                     if t_Id t \<noteq> tenantID \<or> t_Status t \<noteq> TenantStatusActive
                     then Some ErrInvalidTenant else None)))"

definition EnsureCodeAdminAudience ::
  "policy \<Rightarrow> 'w clientService \<Rightarrow> 'w \<Rightarrow> string \<Rightarrow> string list \<Rightarrow> (managedAudienceClientResp \<times> bool) res \<times> 'w" where
  "EnsureCodeAdminAudience P s w tenantID scopes =
     (if (\<not> cs_managedAudienceEnabled s \<and> \<not> cs_dynamicManagedAudienceEnabled s) \<or> \<not> validRoleTenantID tenantID
      then (Inl ErrInvalidTenant, w)
      else
        (case (if tenantID \<in> set (cs_managedAudienceTenants s) then None
               else dynamicAudienceTenant s w tenantID) of
           Some e \<Rightarrow> (Inl e, w)
         | None \<Rightarrow>
             (case CanonicalAudienceScopes P scopes of
                None \<Rightarrow> (Inl ErrInvalidArgument, w)
              | Some defaultScopes \<Rightarrow>
                  let desired = \<lparr>c_Id = CodeAdminAudienceClientID, c_TenantId = tenantID, c_SecretHash = [],
                        c_Type = ClientTypeService, c_AllowedGrantTypes = [GrantTypeTokenExchange],
                        c_DefaultScopes = defaultScopes, c_Status = ClientStatusActive,
                        c_ManagedBy = CodeAdminAudienceClientManager\<rparr> in
                  (case clEnsureManagedAudience (cs_repo s) w tenantID desired of
                     (Inl e, w') \<Rightarrow> (Inl e, w')
                   | (Inr (stored, created), w') \<Rightarrow>
                       (case stored of
                          None \<Rightarrow> (Inl errManagedAudienceClientContract, w')
                        | Some c \<Rightarrow>
                            if \<not> sameManagedAudienceDefinition stored desired
                            then (Inl errManagedAudienceClientContract, w')
                            else (Inr (\<lparr>mac_ClientId = c_Id c, mac_TenantId = c_TenantId c, mac_Type = c_Type c,
                                   mac_AllowedGrantTypes = c_AllowedGrantTypes c,
                                   mac_DefaultScopes = c_DefaultScopes c, mac_Status = c_Status c\<rparr>, created), w'))))))"

definition clientResponse :: "client \<Rightarrow> clientResp" where
  "clientResponse c =
     \<lparr>cr_ClientId = c_Id c, cr_Type = c_Type c, cr_AllowedGrantTypes = c_AllowedGrantTypes c,
      cr_DefaultScopes = c_DefaultScopes c, cr_Secret = []\<rparr>"

definition clientService_Get :: "'w clientService \<Rightarrow> 'w \<Rightarrow> string \<Rightarrow> string \<Rightarrow> clientResp res" where
  "clientService_Get s w tenantID clientID =
     (case clGet (cs_repo s) w tenantID clientID of
        Inl e \<Rightarrow> Inl e | Inr None \<Rightarrow> Inl ErrNotFound | Inr (Some c) \<Rightarrow> Inr (clientResponse c))"

definition clientService_List :: "'w clientService \<Rightarrow> 'w \<Rightarrow> string \<Rightarrow> clientResp list res" where
  "clientService_List s w tenantID =
     (case clList (cs_repo s) w tenantID of Inl e \<Rightarrow> Inl e | Inr cs \<Rightarrow> Inr (map clientResponse cs))"

definition GetClient :: "'w clientService \<Rightarrow> 'w \<Rightarrow> string \<Rightarrow> string \<Rightarrow> client option res" where
  "GetClient s w tenantID clientID = clGet (cs_repo s) w tenantID clientID"

section \<open>Lemmas\<close>

lemma set_normalizeList [simp]: "set (normalizeList vs) = TrimSpace ` set vs - {[]}"
  by (induction vs) (auto simp: Let_def)

section \<open>Properties\<close>

text \<open>
  \<^verbatim>\<open>EnsureCodeAdminAudience\<close> succeeds only for a well-formed tenant identifier that is in the
  configured set or belongs to a stored active tenant, and then answers exactly the managed,
  credential-free client of that tenant with the canonical form of the requested scopes.
\<close>
theorem EnsureCodeAdminAudience_exact:
  assumes "EnsureCodeAdminAudience P s w tenantID scopes = (Inr (resp, created), w')"
  shows "validRoleTenantID tenantID \<and>
    (tenantID \<in> set (cs_managedAudienceTenants s) \<or>
     (\<exists>tenants t. cs_dynamicManagedAudienceTenants s = Some tenants \<and> tnGet tenants w tenantID = Inr (Some t) \<and>
        t_Id t = tenantID \<and> t_Status t = TenantStatusActive)) \<and>
    mac_ClientId resp = CodeAdminAudienceClientID \<and> mac_TenantId resp = tenantID \<and>
    mac_Type resp = ClientTypeService \<and> mac_AllowedGrantTypes resp = [GrantTypeTokenExchange] \<and>
    mac_Status resp = ClientStatusActive \<and> CanonicalAudienceScopes P scopes = Some (mac_DefaultScopes resp)"
proof -
  from assms have t: "validRoleTenantID tenantID"
    "tenantID \<in> set (cs_managedAudienceTenants s) \<or> dynamicAudienceTenant s w tenantID = None"
    by (auto simp: EnsureCodeAdminAudience_def split: if_splits option.splits)
  from t(2) have "tenantID \<in> set (cs_managedAudienceTenants s) \<or>
     (\<exists>tenants t. cs_dynamicManagedAudienceTenants s = Some tenants \<and> tnGet tenants w tenantID = Inr (Some t) \<and>
        t_Id t = tenantID \<and> t_Status t = TenantStatusActive)"
    by (auto simp: dynamicAudienceTenant_def split: if_splits option.splits sum.splits)
  with t(1) assms show ?thesis
    by (auto simp: EnsureCodeAdminAudience_def Let_def sameManagedAudienceDefinition_def
        IsManagedCodeAdminAudience_def split: if_splits option.splits sum.splits prod.splits)
qed

definition sampleClientRepo :: "(string \<times> string \<rightharpoonup> client) clientRepository" where
  "sampleClientRepo =
     \<lparr>clCreate = (\<lambda>w t c. if w (t, c_Id c) \<noteq> None then (Some ErrClientConflict, w) else (None, w((t, c_Id c) \<mapsto> c))),
      clEnsureManagedAudience = (\<lambda>w t c. case w (t, c_Id c) of
         None \<Rightarrow> (Inr (Some c, True), w((t, c_Id c) \<mapsto> c)) | Some d \<Rightarrow> (Inr (Some d, False), w)),
      clGet = (\<lambda>w t i. Inr (w (t, i))), clList = (\<lambda>w t. Inr [])\<rparr>"

theorem EnsureCodeAdminAudience_exact_witness:
  "\<exists>resp w'. EnsureCodeAdminAudience compiledPolicy
     (WithManagedAudienceClients True [''acme''] (NewClientService sampleClientRepo)) Map.empty ''acme''
     [''code-admin:ai:read''] = (Inr (resp, True), w') \<and> mac_DefaultScopes resp = [''code-admin:ai:read'']"
proof -
  have a: "audienceAllowed compiledPolicy ''code-admin:ai:read''" by (simp add: audienceAllowed_def compiled_eval)
  then have c: "CanonicalAudienceScopes compiledPolicy [''code-admin:ai:read''] = Some [''code-admin:ai:read'']"
    by (simp add: CanonicalAudienceScopes_eq_Some audienceAllowed_TrimSpace sort_uniq_def)
  then obtain resp w' where e: "EnsureCodeAdminAudience compiledPolicy
     (WithManagedAudienceClients True [''acme''] (NewClientService sampleClientRepo)) Map.empty ''acme''
     [''code-admin:ai:read''] = (Inr (resp, True), w')"
    by (simp add: EnsureCodeAdminAudience_def WithManagedAudienceClients_def NewClientService_def
        sampleClientRepo_def validRoleTenantID_def inLower_def sameManagedAudienceDefinition_def
        IsManagedCodeAdminAudience_def)
  with EnsureCodeAdminAudience_exact [OF e] c show ?thesis by auto
qed

end
