(* ===== verification/Token_Claims.thy ===== *)
theory Token_Claims
  imports Client_Service Complex_Main
begin

text \<open>
  The claims of a token and the pure decisions on them: \<^verbatim>\<open>internal/utils/utils.go\<close>, \<^verbatim>\<open>jwt_verify.go\<close>, and
  the helpers of \<^verbatim>\<open>user_service.go\<close>, \<^verbatim>\<open>tenant_scoped_token.go\<close>, \<^verbatim>\<open>authentication_rate_limit.go\<close> and
  \<^verbatim>\<open>identity_directory_service.go\<close> that read only a user and its claims.

  A claim value is what \<^verbatim>\<open>encoding/json\<close> decodes (\<open>JNum\<close> is a \<^verbatim>\<open>float64\<close>, a rational) or what the code puts in
  before signing (\<open>GoInt\<close>, \<open>GoStrs\<close>). The JWT library and RSA keys are the record \<open>jwtlib\<close>;
  times are nanoseconds since the epoch.
\<close>

section \<open>Claims\<close>

datatype jval =
    JNull | JBool bool | JNum rat | JStr string | JArr "jval list" | JObj "(string \<times> jval) list"
  | GoInt int | GoStrs "string list"

type_synonym claims = "string \<rightharpoonup> jval"

record 'k jwtlib =
  parseHS256 :: "string \<Rightarrow> string \<Rightarrow> int \<Rightarrow> claims option"
  parseRS256 :: "string \<Rightarrow> 'k \<Rightarrow> int \<Rightarrow> claims option"
  signHS256 :: "claims \<Rightarrow> string \<Rightarrow> string res"
  signRS256 :: "string option \<Rightarrow> claims \<Rightarrow> 'k \<Rightarrow> string res"
  expirationTime :: "claims \<Rightarrow> int option res"
  parseRSAPrivateKeyFromPEM :: "string \<Rightarrow> 'k res"

definition claimStringValue :: "claims \<Rightarrow> string \<Rightarrow> string" where
  "claimStringValue c k = (case c k of Some (JStr s) \<Rightarrow> s | _ \<Rightarrow> [])"

text \<open>\<open>Inl\<close> text of the errors: callers only test for failure.\<close>

definition ParseToken :: "'k jwtlib \<Rightarrow> int \<Rightarrow> int \<Rightarrow> string \<Rightarrow> string \<Rightarrow> claims res" where
  "ParseToken J now1 now2 tokenString0 secret =
     (let tokenString = TrimSpace tokenString0 in
      if tokenString = [] \<or> secret = [] then Inl (ErrText ''invalid token'')
      else (case parseHS256 J tokenString secret now1 of
              None \<Rightarrow> Inl (ErrText ''invalid token'')
            | Some c \<Rightarrow>
                (case expirationTime J c of
                   Inl _ \<Rightarrow> Inl (ErrText ''invalid token'')
                 | Inr None \<Rightarrow> Inl (ErrText ''invalid token'')
                 | Inr (Some ex) \<Rightarrow> if ex < now2 then Inl (ErrText ''invalid token'') else Inr c)))"

definition tokenHasAudience :: "claims \<Rightarrow> string \<Rightarrow> bool" where
  "tokenHasAudience c audience =
     (if TrimSpace audience = [] then True
      else (case c ''aud'' of
              Some (JStr s) \<Rightarrow> s = audience
            | Some (JArr vs) \<Rightarrow> list_ex (\<lambda>v. v = JStr audience) vs
            | Some (GoStrs vs) \<Rightarrow> list_ex (\<lambda>v. v = audience) vs
            | _ \<Rightarrow> False))"

definition audienceMatches :: "claims \<Rightarrow> string \<Rightarrow> bool" where
  "audienceMatches c audience =
     (case c ''aud'' of
        Some (JStr s) \<Rightarrow> s = audience
      | Some (JArr vs) \<Rightarrow> list_ex (\<lambda>v. v = JStr audience) vs
      | Some (GoStrs vs) \<Rightarrow> list_ex (\<lambda>v. v = audience) vs
      | _ \<Rightarrow> False)"

definition ValidateRS256 ::
  "'k jwtlib \<Rightarrow> int \<Rightarrow> int \<Rightarrow> string \<Rightarrow> 'k \<Rightarrow> string \<Rightarrow> string \<Rightarrow> claims res" where
  "ValidateRS256 J now1 now2 tokenString0 key issuer audience =
     (let tokenString = TrimSpace tokenString0 in
      if tokenString = [] then Inl (ErrText ''invalid token'')
      else (case parseRS256 J tokenString key now1 of
              None \<Rightarrow> Inl (ErrText ''invalid token'')
            | Some c \<Rightarrow>
                (case expirationTime J c of
                   Inl _ \<Rightarrow> Inl (ErrText ''invalid token'')
                 | Inr None \<Rightarrow> Inl (ErrText ''invalid token'')
                 | Inr (Some ex) \<Rightarrow>
                     if ex < now2 then Inl (ErrText ''invalid token'')
                     else if issuer \<noteq> [] \<and> claimStringValue c ''iss'' \<noteq> issuer then Inl (ErrText ''invalid issuer'')
                     else if audience \<noteq> [] \<and> \<not> audienceMatches c audience then Inl (ErrText ''invalid audience'')
                     else Inr c)))"

definition tokenVersion :: "claims \<Rightarrow> int option" where
  "tokenVersion c =
     (case c ''ver'' of
        Some (JNum v) \<Rightarrow> if v < 0 \<or> v > 2 ^ 31 \<or> v \<noteq> of_int \<lfloor>v\<rfloor> then None else Some \<lfloor>v\<rfloor>
      | _ \<Rightarrow> None)"

fun stringItems :: "jval list \<Rightarrow> string list option" where
  "stringItems [] = Some []"
| "stringItems (JStr s # vs) = map_option (\<lambda>ss. s # ss) (stringItems vs)"
| "stringItems (_ # vs) = None"

definition stringList :: "jval \<Rightarrow> string list option" where
  "stringList v = (case v of JArr vs \<Rightarrow> stringItems vs | GoStrs ss \<Rightarrow> Some ss | _ \<Rightarrow> None)"

fun collectMethods :: "go_unicode \<Rightarrow> string list \<Rightarrow> string list \<Rightarrow> string list option" where
  "collectMethods U acc [] = Some acc"
| "collectMethods U acc (v0 # vs) =
     (let v = ToLower U (TrimSpace v0) in
      if v = [] \<or> length v > 64 then None
      else if v \<in> set acc then collectMethods U acc vs
      else collectMethods U (acc @ [v]) vs)"

definition canonicalAuthenticationMethods :: "go_unicode \<Rightarrow> claims \<Rightarrow> string list option" where
  "canonicalAuthenticationMethods U c =
     (case c ''amr'' of
        None \<Rightarrow> Some []
      | Some raw \<Rightarrow>
          (case stringList raw of
             None \<Rightarrow> None
           | Some vs \<Rightarrow>
               if length vs = 0 \<or> length vs > 16 then None
               else (case collectMethods U [] vs of
                       None \<Rightarrow> None
                     | Some ms \<Rightarrow> if length (sort ms) > 0 then Some (sort ms) else None)))"

section \<open>Roles\<close>

abbreviation maximumMembershipRoles :: nat where "maximumMembershipRoles \<equiv> 500"

fun strictlyNamed :: "string list \<Rightarrow> bool" where
  "strictlyNamed [] = True"
| "strictlyNamed [x] = validRoleName x"
| "strictlyNamed (x # y # zs) = (validRoleName x \<and> x \<noteq> y \<and> strictlyNamed (y # zs))"

definition canonicalMembershipRoles :: "string list \<Rightarrow> string list option" where
  "canonicalMembershipRoles vs =
     (if length vs < 1 \<or> length vs > maximumMembershipRoles then None
      else let out = sort vs in if strictlyNamed out then Some out else None)"

definition canonicalAccessTokenRoles :: "jval \<Rightarrow> string list option" where
  "canonicalAccessTokenRoles raw =
     (case stringList raw of
        None \<Rightarrow> None
      | Some roles \<Rightarrow>
          (case canonicalMembershipRoles roles of
             None \<Rightarrow> None | Some cs \<Rightarrow> if roles = cs then Some cs else None))"

definition effectiveUserRole :: "user option \<Rightarrow> string \<Rightarrow> string" where
  "effectiveUserRole ou privilege =
     (case ou of
        None \<Rightarrow> []
      | Some u \<Rightarrow>
          if u_AuthSource u = AuthSourceSAML \<and> u_Role u = RoleAdmin \<and> privilege \<noteq> PlatformPrivilegeAdmin
          then RoleCompanyAdmin else u_Role u)"

definition issuablePlatformPrivilege :: "user option \<Rightarrow> string \<Rightarrow> string" where
  "issuablePlatformPrivilege ou requested =
     (case ou of
        None \<Rightarrow> []
      | Some u \<Rightarrow>
          if u_Status u = UserStatusActive \<and> u_AuthSource u = AuthSourceSAML \<and> u_Role u = RoleAdmin \<and>
             requested = PlatformPrivilegeAdmin
          then PlatformPrivilegeAdmin else [])"

definition validatedPlatformPrivilege :: "user \<Rightarrow> claims \<Rightarrow> string" where
  "validatedPlatformPrivilege u c =
     (if issuablePlatformPrivilege (Some u) (claimStringValue c PlatformPrivilegeClaim) = [] \<or>
         claimStringValue c ''role'' \<noteq> RoleAdmin then []
      else (case u_CompanyId u of
              None \<Rightarrow> []
            | Some company \<Rightarrow>
                if claimStringValue c ''tid'' \<noteq> TrimSpace company then []
                else (case tokenVersion c of
                        None \<Rightarrow> []
                      | Some v \<Rightarrow> if v \<noteq> u_TokenVersion u then [] else PlatformPrivilegeAdmin)))"

definition recoveredMasterPlatformClaims :: "claims \<Rightarrow> string list \<Rightarrow> bool" where
  "recoveredMasterPlatformClaims c signedRoles \<longleftrightarrow>
     claimStringValue c ''tid'' = MasterTenantID \<and> claimStringValue c ''principal_tid'' = MasterTenantID \<and>
     claimStringValue c ''role'' = RoleAdmin \<and>
     claimStringValue c PlatformPrivilegeClaim = PlatformPrivilegeAdmin \<and> RoleAdmin \<in> set signedRoles"

definition currentPlatformAdministratorKey :: "go_unicode \<Rightarrow> string \<Rightarrow> string \<Rightarrow> string" where
  "currentPlatformAdministratorKey U tenantID0 email0 =
     (let tenantID = TrimSpace tenantID0; email = ToLower U (TrimSpace email0) in
      if tenantID = [] \<or> email = [] then [] else tenantID @ [CHR 0x00] @ email)"

section \<open>Homes and authority\<close>

definition isTenantLocalFederatedPrincipal :: "user \<Rightarrow> string \<Rightarrow> bool" where
  "isTenantLocalFederatedPrincipal u home \<longleftrightarrow>
     u_AuthSource u = AuthSourceSAML \<and>
     (case u_CompanyId u of None \<Rightarrow> False | Some company \<Rightarrow> TrimSpace company = home) \<and>
     TrimSpace (u_ExternalSubject u) \<noteq> []"

definition trustedFederatedPlatformPrincipal :: "user \<Rightarrow> string \<Rightarrow> string \<Rightarrow> bool" where
  "trustedFederatedPlatformPrincipal u home platformPrivilege \<longleftrightarrow>
     isTenantLocalFederatedPrincipal u home \<and> home = MasterTenantID \<and> u_Role u = RoleAdmin \<and>
     platformPrivilege = PlatformPrivilegeAdmin"

definition validSignedHome :: "user \<Rightarrow> string \<Rightarrow> string \<Rightarrow> string \<Rightarrow> bool" where
  "validSignedHome u home signedRole platformPrivilege \<longleftrightarrow>
     u_Status u = UserStatusActive \<and> validRoleTenantID home \<and> u_CompanyId u = Some home \<and>
     signedRole = effectiveUserRole (Some u) platformPrivilege"

definition validDirectoryPrincipalHome :: "user \<Rightarrow> string \<Rightarrow> string \<Rightarrow> string \<Rightarrow> bool" where
  "validDirectoryPrincipalHome u home signedRole platformPrivilege \<longleftrightarrow>
     u_Status u = UserStatusActive \<and> u_CompanyId u = None \<and> validRoleTenantID home \<and>
     signedRole = effectiveUserRole (Some u) platformPrivilege"

definition homeAuthority :: "user \<Rightarrow> string \<Rightarrow> string list \<Rightarrow> string \<Rightarrow> string list" where
  "homeAuthority u signedRole candidates platformPrivilege =
     (let role = effectiveUserRole (Some u) platformPrivilege in
      if signedRole \<noteq> role then []
      else if role = RoleAdmin then candidates
      else if role = RoleCompanyAdmin then filter (\<lambda>sc. sc \<noteq> PlatformTenantAdminScope) candidates
      else [])"

abbreviation tenantFeatureAdministrationScope :: string where
  "tenantFeatureAdministrationScope \<equiv> ''code-admin:features:write''"
abbreviation tenantIdentityWriteScope :: string where
  "tenantIdentityWriteScope \<equiv> ''code-admin:identity:write''"
abbreviation tenantSecretReadScope :: string where "tenantSecretReadScope \<equiv> ''code-admin:secrets:read''"
abbreviation tenantSecretWriteScope :: string where "tenantSecretWriteScope \<equiv> ''code-admin:secrets:write''"

definition homeGlobalAuthority :: "policy \<Rightarrow> user \<Rightarrow> string \<Rightarrow> string list \<Rightarrow> string \<Rightarrow> string list" where
  "homeGlobalAuthority P u signedRole candidates platformPrivilege =
     filter (\<lambda>sc. RequiresHomeAuthority P sc \<or> sc = tenantFeatureAdministrationScope)
       (homeAuthority u signedRole candidates platformPrivilege)"

fun intersectScopeSets :: "string list \<Rightarrow> string list list \<Rightarrow> string list" where
  "intersectScopeSets result [] = result"
| "intersectScopeSets result (values # others) = intersectScopeSets (filter (\<lambda>v. v \<in> set values) result) others"

definition containsString :: "string list \<Rightarrow> string \<Rightarrow> bool" where
  "containsString xs v \<longleftrightarrow> v \<in> set xs"

definition subsetList :: "string list \<Rightarrow> string list \<Rightarrow> bool" where
  "subsetList items allowed =
     (if length items = 0 then True
      else list_all (\<lambda>i. i = [] \<or> i \<in> set (filter (\<lambda>a. a \<noteq> []) allowed)) items)"

definition derefString :: "string option \<Rightarrow> string" where
  "derefString v = (case v of None \<Rightarrow> [] | Some s \<Rightarrow> s)"

definition withoutRetiredDefaultTenant :: "string list \<Rightarrow> string list" where
  "withoutRetiredDefaultTenant ids = filter (\<lambda>i. i \<noteq> RetiredDefaultTenantID) ids"

definition passwordCredentialEligible :: "user \<Rightarrow> bool" where
  "passwordCredentialEligible u \<longleftrightarrow> u_AuthSource u = [] \<or> u_AuthSource u = AuthSourcePassword"

definition normalizeIdentityEmail :: "go_unicode \<Rightarrow> string \<Rightarrow> string" where
  "normalizeIdentityEmail U value0 =
     (let value = ToLower U (TrimSpace value0) in
      if length value < 3 \<or> length value > 254 \<or> length (filter (\<lambda>c. c = CHR ''@'') value) \<noteq> 1 \<or>
         HasPrefix value ''@'' \<or> HasSuffix value ''@'' then []
      else if list_all graphic value then value else [])"

definition validDirectoryPassword :: "string \<Rightarrow> bool" where
  "validDirectoryPassword v \<longleftrightarrow> length v \<ge> 12 \<and> length v \<le> 1024 \<and> TrimSpace v \<noteq> []"

section \<open>Rate limits\<close>

record rateLimit =
  rl_Requests :: int
  rl_WindowSeconds :: int

record rateLimits =
  rls_Login :: rateLimit
  rls_OOBSignIn :: rateLimit
  rls_TokenExchange :: rateLimit
  rls_Lookup :: rateLimit
  rls_OOB :: rateLimit
  rls_SAML :: rateLimit

definition DefaultAuthenticationRateLimits :: rateLimits where
  "DefaultAuthenticationRateLimits =
     \<lparr>rls_Login = \<lparr>rl_Requests = 5, rl_WindowSeconds = 60\<rparr>,
      rls_OOBSignIn = \<lparr>rl_Requests = 10, rl_WindowSeconds = 60\<rparr>,
      rls_TokenExchange = \<lparr>rl_Requests = 10, rl_WindowSeconds = 60\<rparr>,
      rls_Lookup = \<lparr>rl_Requests = 60, rl_WindowSeconds = 60\<rparr>,
      rls_OOB = \<lparr>rl_Requests = 3, rl_WindowSeconds = 3600\<rparr>,
      rls_SAML = \<lparr>rl_Requests = 10, rl_WindowSeconds = 60\<rparr>\<rparr>"

definition limitOr :: "rateLimit \<Rightarrow> rateLimit \<Rightarrow> rateLimit" where
  "limitOr l d = (if rl_Requests l < 1 \<or> rl_WindowSeconds l < 1 then d else l)"

definition effectiveAuthenticationRateLimits :: "rateLimits \<Rightarrow> rateLimits" where
  "effectiveAuthenticationRateLimits l =
     (let d = DefaultAuthenticationRateLimits in
      \<lparr>rls_Login = limitOr (rls_Login l) (rls_Login d),
       rls_OOBSignIn = limitOr (rls_OOBSignIn l) (rls_OOBSignIn d),
       rls_TokenExchange = limitOr (rls_TokenExchange l) (rls_TokenExchange d),
       rls_Lookup = limitOr (rls_Lookup l) (rls_Lookup d),
       rls_OOB = limitOr (rls_OOB l) (rls_OOB d),
       rls_SAML = limitOr (rls_SAML l) (rls_SAML d)\<rparr>)"

section \<open>Lemmas\<close>

lemma claimStringValue_upd [simp]:
  "claimStringValue (c(k \<mapsto> v)) k' = (if k' = k then (case v of JStr s \<Rightarrow> s | _ \<Rightarrow> []) else claimStringValue c k')"
  by (simp add: claimStringValue_def)

lemma strictlyNamed_iff:
  "sorted vs \<Longrightarrow> strictlyNamed vs \<longleftrightarrow> distinct vs \<and> list_all validRoleName vs"
  by (induction vs rule: strictlyNamed.induct) auto

lemma canonicalMembershipRoles_eq_Some:
  "canonicalMembershipRoles vs = Some rs \<longleftrightarrow>
     1 \<le> length vs \<and> length vs \<le> 500 \<and> distinct vs \<and> list_all validRoleName vs \<and> rs = sort vs"
  by (auto simp: canonicalMembershipRoles_def Let_def strictlyNamed_iff list_all_iff Suc_le_eq)

interpretation membership_roles: canonicaliser canonicalMembershipRoles "\<lambda>v. v"
  by unfold_locales
    (auto simp: canonicalMembershipRoles_eq_Some canonical_sort sort_key_id_if_sorted list_all_iff)

lemma canonicalAccessTokenRoles_Some:
  "canonicalAccessTokenRoles raw = Some rs \<Longrightarrow>
   stringList raw = Some rs \<and> canonicalMembershipRoles rs = Some rs \<and> canonical rs \<and> rs \<noteq> []"
  using membership_roles.canon_canonical [of rs rs]
  by (auto simp: canonicalAccessTokenRoles_def canonicalMembershipRoles_eq_Some split: option.splits if_splits)

lemma canonicalAccessTokenRoles_GoStrs:
  "canonicalMembershipRoles rs = Some rs \<Longrightarrow> canonicalAccessTokenRoles (GoStrs rs) = Some rs"
  by (simp add: canonicalAccessTokenRoles_def stringList_def)

lemma stringItems_map [simp]: "stringItems (map JStr ss) = Some ss"
  by (induction ss) auto

lemma tokenVersion_JNum:
  "c ''ver'' = Some (JNum (of_int n)) \<Longrightarrow> 0 \<le> n \<Longrightarrow> n \<le> 2 ^ 31 \<Longrightarrow> tokenVersion c = Some n"
proof -
  assume c: "c ''ver'' = Some (JNum (of_int n))" and n: "0 \<le> n" "n \<le> 2 ^ 31"
  from n(2) have "(of_int n :: rat) \<le> of_int (2 ^ 31)" by (simp only: of_int_le_iff)
  with c n(1) show ?thesis by (simp add: tokenVersion_def)
qed

lemma tokenVersion_bounds: "tokenVersion c = Some n \<Longrightarrow> 0 \<le> n \<and> n \<le> 2 ^ 31"
  by (auto simp: tokenVersion_def floor_le_iff split: option.splits jval.splits if_splits)

lemma ParseToken_Inr:
  "ParseToken J t1 t2 tok secret = Inr c \<longleftrightarrow>
     TrimSpace tok \<noteq> [] \<and> secret \<noteq> [] \<and> parseHS256 J (TrimSpace tok) secret t1 = Some c \<and>
     (\<exists>ex. expirationTime J c = Inr (Some ex) \<and> t2 \<le> ex)"
  by (auto simp: ParseToken_def Let_def not_less split: option.splits sum.splits if_splits)

lemma tokenHasAudience_iff: "tokenHasAudience c a \<longleftrightarrow> TrimSpace a = [] \<or> audienceMatches c a"
  by (simp add: tokenHasAudience_def audienceMatches_def)

lemma ValidateRS256_Inr:
  "ValidateRS256 J t1 t2 tok key issuer audience = Inr c \<longleftrightarrow>
     TrimSpace tok \<noteq> [] \<and> parseRS256 J (TrimSpace tok) key t1 = Some c \<and>
     (\<exists>ex. expirationTime J c = Inr (Some ex) \<and> t2 \<le> ex) \<and>
     (issuer = [] \<or> claimStringValue c ''iss'' = issuer) \<and> (audience = [] \<or> audienceMatches c audience)"
  by (auto simp: ValidateRS256_def Let_def not_less split: option.splits sum.splits if_splits)

lemma homeAuthority_subset: "set (homeAuthority u r cs p) \<subseteq> set cs"
  by (auto simp: homeAuthority_def Let_def)

lemma set_intersectScopeSets:
  "set (intersectScopeSets xs yss) = {x \<in> set xs. \<forall>ys \<in> set yss. x \<in> set ys}"
  by (induction xs yss rule: intersectScopeSets.induct) auto

lemma intersectScopeSets_filter:
  "intersectScopeSets xs yss = filter (\<lambda>x. \<forall>ys \<in> set yss. x \<in> set ys) xs"
  by (induction xs yss rule: intersectScopeSets.induct) (auto intro!: filter_cong)

lemma subsetList_iff: "subsetList xs ys \<longleftrightarrow> set xs - {[]} \<subseteq> set ys"
  by (auto simp: subsetList_def list_all_iff)

lemma limitOr_positive:
  "1 \<le> rl_Requests d \<Longrightarrow> 1 \<le> rl_WindowSeconds d \<Longrightarrow>
   1 \<le> rl_Requests (limitOr l d) \<and> 1 \<le> rl_WindowSeconds (limitOr l d)"
  by (simp add: limitOr_def)

lemma effective_limits_positive:
  assumes "f \<in> {rls_Login, rls_OOBSignIn, rls_TokenExchange, rls_Lookup, rls_OOB, rls_SAML}"
  shows "1 \<le> rl_Requests (f (effectiveAuthenticationRateLimits l)) \<and>
    1 \<le> rl_WindowSeconds (f (effectiveAuthenticationRateLimits l))"
proof -
  have "f (effectiveAuthenticationRateLimits l) = limitOr (f l) (f DefaultAuthenticationRateLimits)"
    using assms by (auto simp: effectiveAuthenticationRateLimits_def)
  moreover have "1 \<le> rl_Requests (f DefaultAuthenticationRateLimits) \<and>
      1 \<le> rl_WindowSeconds (f DefaultAuthenticationRateLimits)"
    using assms by (elim insertE emptyE) (simp_all add: DefaultAuthenticationRateLimits_def)
  ultimately show ?thesis using limitOr_positive by simp
qed

lemma effectiveUserRole_admin:
  "effectiveUserRole (Some u) p = RoleAdmin \<longleftrightarrow>
     u_Role u = RoleAdmin \<and> (u_AuthSource u \<noteq> AuthSourceSAML \<or> p = PlatformPrivilegeAdmin)"
  by (auto simp: effectiveUserRole_def)

lemma normalizeIdentityEmail_graphic:
  "normalizeIdentityEmail U e \<noteq> [] \<Longrightarrow> list_all graphic (normalizeIdentityEmail U e)"
  by (auto simp: normalizeIdentityEmail_def Let_def split: if_splits)

section \<open>Properties\<close>

text \<open>
  The roles of a membership are accepted exactly when they are 1 to 500 distinct well-formed role names; the
  result is the same names in order, so a list in a token is compared with the stored one by equality.
\<close>
theorem canonicalMembershipRoles_accepts:
  "canonicalMembershipRoles vs = Some rs \<longleftrightarrow>
     1 \<le> length vs \<and> length vs \<le> 500 \<and> distinct vs \<and> list_all validRoleName vs \<and> rs = sort vs"
  by (rule canonicalMembershipRoles_eq_Some)

text \<open>
  Home authority never exceeds the candidate scopes, and it contains the platform tenant administration scope
  only for a signed ADMIN role that the user record still has; a federated ADMIN needs the platform privilege.
\<close>
theorem homeAuthority_platform_scope:
  "set (homeAuthority u signedRole candidates privilege) \<subseteq> set candidates \<and>
   (PlatformTenantAdminScope \<in> set (homeAuthority u signedRole candidates privilege) \<longleftrightarrow>
      PlatformTenantAdminScope \<in> set candidates \<and> signedRole = RoleAdmin \<and> u_Role u = RoleAdmin \<and>
      (u_AuthSource u = AuthSourceSAML \<longrightarrow> privilege = PlatformPrivilegeAdmin))"
  using effectiveUserRole_admin [of u privilege] homeAuthority_subset [of u signedRole candidates privilege]
  by (auto simp: homeAuthority_def Let_def)

definition sampleAdmin :: user where
  "sampleAdmin =
     \<lparr>u_Id = ''u-1'', u_Email = ''ana@acme.io'', u_Password = ''hash'', u_Role = RoleAdmin, u_Status = UserStatusActive,
      u_CompanyId = Some MasterTenantID, u_TokenVersion = 3, u_Revision = 0, u_CreatedAt = None,
      u_AuthSource = AuthSourceSAML, u_ExternalSubject = ''idp-7'', u_PasswordChangeRequired = False\<rparr>"

theorem homeAuthority_platform_scope_witness:
  "PlatformTenantAdminScope \<notin> set (homeAuthority sampleAdmin RoleAdmin [PlatformTenantAdminScope] []) \<and>
   PlatformTenantAdminScope \<in> set (homeAuthority sampleAdmin RoleAdmin [PlatformTenantAdminScope] PlatformPrivilegeAdmin)"
  using homeAuthority_platform_scope [of sampleAdmin RoleAdmin "[PlatformTenantAdminScope]" "[]"]
    homeAuthority_platform_scope [of sampleAdmin RoleAdmin "[PlatformTenantAdminScope]" PlatformPrivilegeAdmin]
  by (simp add: sampleAdmin_def)

end
