(* ===== verification/Native_Policy.thy ===== *)
theory Native_Policy
  imports Domain Utf8
begin

text \<open>
  The package \<^verbatim>\<open>internal/nativepolicy\<close>: the server-owned policy of public native clients (validation and
  normalisation, redirect addresses, the scopes a set of roles gives), the immutable registry with its
  foreign-role trust, and the PKCE challenge check.

  Regular expressions are written out as predicates on bytes. \<^verbatim>\<open>sha256\<close>, \<^verbatim>\<open>json.Marshal\<close> of a client and
  \<^verbatim>\<open>url.Parse\<close> with \<^verbatim>\<open>URL.String\<close> are parameters.
\<close>

section \<open>Syntax of identifiers, roles, scopes and paths\<close>

abbreviation ErrInvalidClient :: gerror where
  "ErrInvalidClient \<equiv> ErrText ''invalid native client policy''"
abbreviation ErrAccessDenied :: gerror where
  "ErrAccessDenied \<equiv> ErrText ''native client access denied''"
abbreviation ErrInvalidPKCE :: gerror where
  "ErrInvalidPKCE \<equiv> ErrText ''invalid native proof key''"
abbreviation MaximumClients :: nat where "MaximumClients \<equiv> 128"

definition alnum :: "char \<Rightarrow> bool" where
  "alnum c \<longleftrightarrow> inLower c \<or> inUpper c \<or> inDigit c"

definition nativeIdentifier :: "string \<Rightarrow> bool" where
  "nativeIdentifier s \<longleftrightarrow>
     1 \<le> length s \<and> length s \<le> 63 \<and>
     (inLower (hd s) \<or> inDigit (hd s)) \<and> (inLower (last s) \<or> inDigit (last s)) \<and>
     list_all (\<lambda>c. inLower c \<or> inDigit c \<or> c = CHR ''-'') s"

definition roleName :: "string \<Rightarrow> bool" where
  "roleName s \<longleftrightarrow>
     1 \<le> length s \<and> length s \<le> 128 \<and> alnum (hd s) \<and> alnum (last s) \<and>
     list_all (\<lambda>c. alnum c \<or> c \<in> set ''._-'') s"

definition scopeName :: "string \<Rightarrow> bool" where
  "scopeName s \<longleftrightarrow> 1 \<le> length s \<and> length s \<le> 128 \<and> list_all (\<lambda>c. alnum c \<or> c \<in> set ''._:/-'') s"

definition ValidScope :: "string \<Rightarrow> bool" where
  "ValidScope value = scopeName value"

fun distinctScopes :: "string set \<Rightarrow> string list \<Rightarrow> bool" where
  "distinctScopes seen [] = True"
| "distinctScopes seen (v # vs) =
     (if \<not> scopeName v \<or> v \<in> seen then False else distinctScopes (insert v seen) vs)"

definition validScopes :: "string list \<Rightarrow> bool" where
  "validScopes vs =
     (if length vs = 0 \<or> length vs > 128 then False else distinctScopes {} vs)"

text \<open>
  \<^verbatim>\<open>path.Clean\<close> of a rooted path: empty and \<^verbatim>\<open>.\<close> elements disappear, \<^verbatim>\<open>..\<close> removes the element before it.
\<close>

fun cleanElements :: "string list \<Rightarrow> string list \<Rightarrow> string list" where
  "cleanElements acc [] = acc"
| "cleanElements acc (e # es) =
     (if e = [] \<or> e = ''.'' then cleanElements acc es
      else if e = ''..'' then cleanElements (butlast acc) es
      else cleanElements (acc @ [e]) es)"

definition CleanRooted :: "string \<Rightarrow> string" where
  "CleanRooted p = ''/'' @ JoinStr ''/'' (cleanElements [] (SplitChar CHR ''/'' p))"

definition validPath :: "string \<Rightarrow> bool" where
  "validPath v =
     (if v = [] \<or> length v > 256 \<or> \<not> HasPrefix v ''/'' \<or> HasPrefix v ''//'' \<or>
         (\<exists>c \<in> set v. c \<in> set [CHR 0x5C, CHR ''?'', CHR ''#'', CHR ''%'']) \<or> CleanRooted v \<noteq> v
      then False
      else list_all (\<lambda>r. \<not> (r < 0x21 \<or> r > 0x7E)) (runes v))"

section \<open>Clients\<close>

record nativeRole =
  nr_Name :: string
  nr_Scopes :: "string list"

record nativeClient =
  nc_ID :: string
  nc_Name :: string
  nc_TenantID :: string
  nc_IdentityTenantID :: string
  nc_Audience :: string
  nc_RedirectPath :: string
  nc_BaseRole :: nativeRole
  nc_AdditionalRoles :: "nativeRole list"
  nc_RequiredScopes :: "string list"
  nc_TTLSeconds :: int

text \<open>The loop over the roles: names are unique and well formed, scopes valid; it sorts the scopes.\<close>

fun normalizeRoles :: "string set \<Rightarrow> nativeRole list \<Rightarrow> nativeRole list option" where
  "normalizeRoles seen [] = Some []"
| "normalizeRoles seen (r # rs) =
     (if \<not> roleName (nr_Name r) \<or> \<not> validScopes (nr_Scopes r) \<or> nr_Name r \<in> seen then None
      else map_option (\<lambda>rs'. r\<lparr>nr_Scopes := sort (nr_Scopes r)\<rparr> # rs')
        (normalizeRoles (insert (nr_Name r) seen) rs))"

definition scopeCeiling :: "nativeRole list \<Rightarrow> string list" where
  "scopeCeiling rs = remdups (concat (map nr_Scopes rs))"

definition NormalizeClient :: "nativeClient \<Rightarrow> nativeClient res" where
  "NormalizeClient c =
     (if \<not> nativeIdentifier (nc_ID c) \<or> \<not> nativeIdentifier (nc_TenantID c) \<or>
         \<not> nativeIdentifier (nc_IdentityTenantID c) \<or> \<not> nativeIdentifier (nc_Audience c) \<or>
         \<not> validPath (nc_RedirectPath c) \<or> nc_TTLSeconds c < 60 \<or> nc_TTLSeconds c > 3600 \<or>
         length (nc_Name c) < 1 \<or> length (nc_Name c) > 100 \<or> TrimSpace (nc_Name c) \<noteq> nc_Name c \<or>
         length (nc_AdditionalRoles c) > 31 \<or> \<not> validScopes (nc_RequiredScopes c)
      then Inl ErrInvalidClient
      else if \<exists>r \<in> set (runes (nc_Name c)). IsControl r then Inl ErrInvalidClient
      else (case normalizeRoles {} (nc_BaseRole c # nc_AdditionalRoles c) of
              None \<Rightarrow> Inl ErrInvalidClient
            | Some roles \<Rightarrow>
                let ceil = scopeCeiling (nc_BaseRole c # nc_AdditionalRoles c) in
                if length ceil > 500 then Inl ErrInvalidClient
                else if \<exists>q \<in> set (nc_RequiredScopes c). q \<notin> set ceil then Inl ErrInvalidClient
                else Inr (c\<lparr>nc_BaseRole := hd roles,
                            nc_AdditionalRoles := sort_key nr_Name (tl roles),
                            nc_RequiredScopes := sort (nc_RequiredScopes c)\<rparr>)))"

definition Fingerprint ::
  "(string \<Rightarrow> string) \<Rightarrow> (nativeClient \<Rightarrow> string option) \<Rightarrow> nativeClient \<Rightarrow> string res" where
  "Fingerprint sha256hex marshal c =
     (case NormalizeClient c of
        Inl e \<Rightarrow> Inl e
      | Inr n \<Rightarrow> (case marshal n of None \<Rightarrow> Inl ErrInvalidClient | Some s \<Rightarrow> Inr (sha256hex s)))"

definition ScopesForRoles :: "nativeClient \<Rightarrow> string list \<Rightarrow> string list res" where
  "ScopesForRoles c assigned =
     (case NormalizeClient c of
        Inl e \<Rightarrow> Inl e
      | Inr n \<Rightarrow>
          if nr_Name (nc_BaseRole n) \<notin> set assigned then Inl ErrAccessDenied
          else let granted = concat (map nr_Scopes
                 (filter (\<lambda>r. nr_Name r \<in> set assigned) (nc_BaseRole n # nc_AdditionalRoles n))) in
            if \<exists>q \<in> set (nc_RequiredScopes n). q \<notin> set granted then Inl ErrAccessDenied
            else Inr (sort_uniq granted))"

section \<open>Redirect addresses\<close>

record url =
  url_Scheme :: string
  url_Opaque :: string
  url_User :: "string option"
  url_Host :: string
  url_Path :: string
  url_RawPath :: string
  url_ForceQuery :: bool
  url_RawQuery :: string
  url_Fragment :: string
  url_RawFragment :: string

definition validOptionalPort :: "string \<Rightarrow> bool" where
  "validOptionalPort p =
     (case p of [] \<Rightarrow> True | c # ds \<Rightarrow> c = CHR '':'' \<and> list_all inDigit ds)"

definition lastColon :: "string \<Rightarrow> nat option" where
  "lastColon s =
     (case filter (\<lambda>i. s ! i = CHR '':'') [0..<length s] of [] \<Rightarrow> None | js \<Rightarrow> Some (last js))"

definition splitHostPort :: "string \<Rightarrow> string \<times> string" where
  "splitHostPort hostPort =
     (let (h, p) = (case lastColon hostPort of
            None \<Rightarrow> (hostPort, [])
          | Some i \<Rightarrow> if validOptionalPort (drop i hostPort)
                      then (take i hostPort, drop (i + 1) hostPort) else (hostPort, [])) in
      if HasPrefix h ''['' \<and> HasSuffix h '']'' then (butlast (tl h), p) else (h, p))"

definition decimal :: "string \<Rightarrow> nat" where
  "decimal s = foldl (\<lambda>a c. 10 * a + (of_char c - 48)) 0 s"

text \<open>\<^verbatim>\<open>strconv.Atoi\<close> on the digits \<^verbatim>\<open>Port\<close> returns; the 64-bit range is the only other error.\<close>

definition Atoi :: "string \<Rightarrow> int option" where
  "Atoi s = (if s = [] \<or> \<not> list_all inDigit s \<or> decimal s \<ge> 2 ^ 63 then None else Some (int (decimal s)))"

definition ValidateRedirect ::
  "(string \<Rightarrow> url option) \<Rightarrow> (url \<Rightarrow> string) \<Rightarrow> nativeClient \<Rightarrow> string \<Rightarrow> gerror option" where
  "ValidateRedirect parseURL urlString c raw =
     (if \<not> validPath (nc_RedirectPath c) \<or> length raw > 1024 then Some ErrInvalidClient
      else (case parseURL raw of
              None \<Rightarrow> Some ErrInvalidClient
            | Some u \<Rightarrow>
                if url_Scheme u \<noteq> ''http'' \<or> url_User u \<noteq> None \<or> url_Opaque u \<noteq> [] \<or>
                   url_RawQuery u \<noteq> [] \<or> url_ForceQuery u \<or> url_Fragment u \<noteq> [] \<or>
                   url_RawFragment u \<noteq> [] \<or> url_RawPath u \<noteq> [] \<or>
                   url_Path u \<noteq> nc_RedirectPath c \<or> urlString u \<noteq> raw
                then Some ErrInvalidClient
                else let (host, port) = splitHostPort (url_Host u) in
                  if host \<noteq> ''127.0.0.1'' \<and> host \<noteq> ''::1'' then Some ErrInvalidClient
                  else (case Atoi port of
                          None \<Rightarrow> Some ErrInvalidClient
                        | Some n \<Rightarrow>
                            if n < 1 \<or> n > 65535 \<or> Itoa (nat n) \<noteq> port then Some ErrInvalidClient
                            else None)))"

section \<open>The registry\<close>

record registry =
  rg_clients :: "string \<rightharpoonup> nativeClient"
  rg_foreignRoles :: "string \<rightharpoonup> string set"
  rg_roleScopes :: "string \<rightharpoonup> string list"

definition pairKey :: "string \<Rightarrow> string \<Rightarrow> string" where
  "pairKey a b = a @ [CHR 0x00] @ b"

definition addForeignRole :: "string \<Rightarrow> string \<Rightarrow> registry \<Rightarrow> registry" where
  "addForeignRole key name r =
     (let held = (case rg_foreignRoles r key of None \<Rightarrow> {} | Some s \<Rightarrow> s) in
      r\<lparr>rg_foreignRoles := (rg_foreignRoles r)(key \<mapsto> insert name held)\<rparr>)"

definition registerRole :: "nativeClient \<Rightarrow> nativeRole \<Rightarrow> registry \<Rightarrow> registry res" where
  "registerRole c role r =
     (let roleKey = pairKey (nc_TenantID c) (nr_Name role) in
      if (case rg_roleScopes r roleKey of None \<Rightarrow> False | Some scopes \<Rightarrow> scopes \<noteq> nr_Scopes role)
      then Inl ErrInvalidClient
      else let r1 = r\<lparr>rg_roleScopes := (rg_roleScopes r)(roleKey \<mapsto> nr_Scopes role)\<rparr> in
        Inr (if nc_IdentityTenantID c \<noteq> nc_TenantID c
             then addForeignRole (pairKey (nc_IdentityTenantID c) (nc_TenantID c)) (nr_Name role) r1
             else r1))"

fun registerRoles :: "nativeClient \<Rightarrow> nativeRole list \<Rightarrow> registry \<Rightarrow> registry res" where
  "registerRoles c [] r = Inr r"
| "registerRoles c (role # roles) r =
     (case registerRole c role r of Inl e \<Rightarrow> Inl e | Inr r' \<Rightarrow> registerRoles c roles r')"

fun registerClients :: "nativeClient list \<Rightarrow> registry \<Rightarrow> registry res" where
  "registerClients [] r = Inr r"
| "registerClients (input # inputs) r =
     (case NormalizeClient input of
        Inl e \<Rightarrow> Inl e
      | Inr c \<Rightarrow>
          if rg_clients r (nc_ID c) \<noteq> None then Inl ErrInvalidClient
          else (case registerRoles c (nc_BaseRole c # nc_AdditionalRoles c)
                       (r\<lparr>rg_clients := (rg_clients r)(nc_ID c \<mapsto> c)\<rparr>) of
                  Inl e \<Rightarrow> Inl e
                | Inr r' \<Rightarrow> registerClients inputs r'))"

definition emptyRegistry :: registry where
  "emptyRegistry = \<lparr>rg_clients = Map.empty, rg_foreignRoles = Map.empty, rg_roleScopes = Map.empty\<rparr>"

definition NewRegistry :: "nativeClient list \<Rightarrow> registry res" where
  "NewRegistry clients =
     (if length clients > MaximumClients then Inl ErrInvalidClient
      else registerClients clients emptyRegistry)"

definition RegistryGet :: "registry option \<Rightarrow> string \<Rightarrow> nativeClient option" where
  "RegistryGet rg i =
     (case rg of None \<Rightarrow> None | Some r \<Rightarrow>
        (case rg_clients r i of None \<Rightarrow> None | Some c \<Rightarrow>
           (case NormalizeClient c of Inl _ \<Rightarrow> None | Inr n \<Rightarrow> Some n)))"

definition AllowsForeignRole :: "registry option \<Rightarrow> string \<Rightarrow> string \<Rightarrow> string \<Rightarrow> bool" where
  "AllowsForeignRole rg source target role =
     (case rg of None \<Rightarrow> False | Some r \<Rightarrow>
        (case rg_foreignRoles r (pairKey source target) of None \<Rightarrow> False | Some s \<Rightarrow> role \<in> s))"

definition HasForeignTrust :: "registry option \<Rightarrow> string \<Rightarrow> string \<Rightarrow> bool" where
  "HasForeignTrust rg source target =
     (case rg of None \<Rightarrow> False | Some r \<Rightarrow>
        (case rg_foreignRoles r (pairKey source target) of None \<Rightarrow> False | Some s \<Rightarrow> s \<noteq> {}))"

definition AllowsForeignAssignment :: "registry option \<Rightarrow> string \<Rightarrow> string \<Rightarrow> string list \<Rightarrow> bool" where
  "AllowsForeignAssignment rg source target roles =
     (if length roles = 0 \<or> length roles > 100 then False
      else list_all (AllowsForeignRole rg source target) roles)"

definition ExpectedRoleScopes :: "registry option \<Rightarrow> string \<Rightarrow> string \<Rightarrow> string list option" where
  "ExpectedRoleScopes rg tenantID role =
     (case rg of None \<Rightarrow> None | Some r \<Rightarrow> rg_roleScopes r (pairKey tenantID role))"

section \<open>Proof keys\<close>

text \<open>\<^verbatim>\<open>base64.RawURLEncoding\<close>: six bits per character, no padding; the strict decoder insists on zero
  trailing bits and, like Go's, skips line breaks.\<close>

definition b64char :: "nat \<Rightarrow> char" where
  "b64char n =
     (if n < 26 then char_of (65 + n) else if n < 52 then char_of (71 + n)
      else if n < 62 then char_of (n - 4) else if n = 62 then CHR ''-'' else CHR ''_'')"

definition b64val :: "char \<Rightarrow> nat option" where
  "b64val c =
     (if inUpper c then Some (of_char c - 65) else if inLower c then Some (of_char c - 71)
      else if inDigit c then Some (of_char c + 4) else if c = CHR ''-'' then Some 62
      else if c = CHR ''_'' then Some 63 else None)"

fun b64encode :: "string \<Rightarrow> string" where
  "b64encode [] = []"
| "b64encode [a] = [b64char (of_char a div 4), b64char (of_char a mod 4 * 16)]"
| "b64encode [a, b] =
     [b64char (of_char a div 4), b64char (of_char a mod 4 * 16 + of_char b div 16),
      b64char (of_char b mod 16 * 4)]"
| "b64encode (a # b # c # s) =
     b64char (of_char a div 4) # b64char (of_char a mod 4 * 16 + of_char b div 16) #
     b64char (of_char b mod 16 * 4 + of_char c div 64) # b64char (of_char c mod 64) # b64encode s"

fun b64quanta :: "nat list \<Rightarrow> string option" where
  "b64quanta [] = Some []"
| "b64quanta [x] = None"
| "b64quanta [x, y] = (if y mod 16 \<noteq> 0 then None else Some [char_of (x * 4 + y div 16)])"
| "b64quanta [x, y, z] =
     (if z mod 4 \<noteq> 0 then None
      else Some [char_of (x * 4 + y div 16), char_of (y mod 16 * 16 + z div 4)])"
| "b64quanta (x # y # z # w # r) =
     map_option (\<lambda>t. char_of (x * 4 + y div 16) # char_of (y mod 16 * 16 + z div 4) #
       char_of (z mod 4 * 64 + w) # t) (b64quanta r)"

definition b64decodeStrict :: "string \<Rightarrow> string option" where
  "b64decodeStrict s =
     (let vs = map b64val (filter (\<lambda>c. c \<noteq> CHR 0x0A \<and> c \<noteq> CHR 0x0D) s) in
      if None \<in> set vs then None else b64quanta (map the vs))"

definition unreserved :: "string \<Rightarrow> bool" where
  "unreserved s \<longleftrightarrow> 43 \<le> length s \<and> length s \<le> 128 \<and> list_all (\<lambda>c. alnum c \<or> c \<in> set ''._~-'') s"

definition ValidState :: "string \<Rightarrow> bool" where
  "ValidState value = unreserved value"

definition ValidS256Challenge :: "string \<Rightarrow> bool" where
  "ValidS256Challenge value =
     (if length value \<noteq> 43 then False
      else (case b64decodeStrict value of None \<Rightarrow> False | Some d \<Rightarrow> length d = 32))"

definition S256Challenge :: "(string \<Rightarrow> string) \<Rightarrow> string \<Rightarrow> string res" where
  "S256Challenge sha256 verifier =
     (if \<not> unreserved verifier then Inl ErrInvalidPKCE else Inr (b64encode (sha256 verifier)))"

definition VerifyS256 :: "(string \<Rightarrow> string) \<Rightarrow> string \<Rightarrow> string \<Rightarrow> bool" where
  "VerifyS256 sha256 verifier challenge =
     (if \<not> ValidS256Challenge challenge then False
      else (case S256Challenge sha256 verifier of Inl _ \<Rightarrow> False | Inr computed \<Rightarrow> computed = challenge))"

section \<open>Lemmas on proof keys\<close>

lemma b64val_b64char [simp]: "n < 64 \<Longrightarrow> b64val (b64char n) = Some n"
  by (auto simp: b64val_def b64char_def inUpper_def inLower_def inDigit_def)

lemma b64char_no_break: "n < 64 \<Longrightarrow> b64char n \<noteq> CHR 0x0A \<and> b64char n \<noteq> CHR 0x0D"
proof -
  assume "n < 64"
  then have "b64val (b64char n) \<noteq> None" by simp
  moreover have "b64val CHR 0x0A = None" "b64val CHR 0x0D = None"
    by (simp_all add: b64val_def inUpper_def inLower_def inDigit_def)
  ultimately show ?thesis by metis
qed

fun b64values :: "string \<Rightarrow> nat list" where
  "b64values [] = []"
| "b64values [a] = [of_char a div 4, of_char a mod 4 * 16]"
| "b64values [a, b] =
     [of_char a div 4, of_char a mod 4 * 16 + of_char b div 16, of_char b mod 16 * 4]"
| "b64values (a # b # c # s) =
     of_char a div 4 # (of_char a mod 4 * 16 + of_char b div 16) #
     (of_char b mod 16 * 4 + of_char c div 64) # (of_char c mod 64) # b64values s"

lemma b64encode_values: "b64encode s = map b64char (b64values s)"
  by (induction s rule: b64values.induct) auto

lemma byte_quotients:
  "(of_char c :: nat) div 4 < 64" "(of_char c :: nat) div 16 < 16" "(of_char c :: nat) div 64 < 4"
  by (simp_all add: less_mult_imp_div_less)

lemma sextets:
  "(of_char a :: nat) div 4 < 64" "of_char a mod 4 * 16 + (of_char b :: nat) div 16 < 64"
  "of_char b mod 16 * 4 + (of_char c :: nat) div 64 < 64" "(of_char a :: nat) mod 4 * 16 < 64"
  "(of_char b :: nat) mod 16 * 4 < 64"
proof -
  have "(of_char a :: nat) mod 4 < 4" "(of_char b :: nat) mod 16 < 16" by simp_all
  with byte_quotients [of a] byte_quotients [of b] byte_quotients [of c]
  show "(of_char a :: nat) div 4 < 64" "of_char a mod 4 * 16 + (of_char b :: nat) div 16 < 64"
    "of_char b mod 16 * 4 + (of_char c :: nat) div 64 < 64" "(of_char a :: nat) mod 4 * 16 < 64"
    "(of_char b :: nat) mod 16 * 4 < 64"
    by linarith+
qed

lemma byte_quotients_mod:
  "(of_char c :: nat) div 16 div 16 = 0" "(of_char c :: nat) div 16 mod 16 = of_char c div 16"
  "(of_char c :: nat) div 64 div 4 = 0" "(of_char c :: nat) div 64 mod 4 = of_char c div 64"
  using byte_quotients [of c] by simp_all

lemma b64values_bound: "n \<in> set (b64values s) \<Longrightarrow> n < 64"
  by (induction s rule: b64values.induct) (auto simp: sextets)

lemma b64quanta_values: "b64quanta (b64values s) = Some s"
  by (induction s rule: b64values.induct) (simp_all add: byte_quotients_mod)

lemma b64decode_encode: "b64decodeStrict (b64encode s) = Some s"
proof -
  have f: "filter (\<lambda>c. c \<noteq> CHR 0x0A \<and> c \<noteq> CHR 0x0D) (b64encode s) = b64encode s"
    using b64values_bound b64char_no_break by (auto simp: b64encode_values filter_id_conv)
  have v: "map b64val (b64encode s) = map Some (b64values s)"
    using b64values_bound by (auto simp: b64encode_values)
  show ?thesis by (simp only: b64decodeStrict_def f v Let_def) (auto simp: b64quanta_values comp_def)
qed

lemma length_b64encode: "length (b64encode s) = (length s * 4 + 2) div 3"
  by (induction s rule: b64encode.induct) simp_all

section \<open>Lemmas on clients\<close>

abbreviation sortScopes :: "nativeRole \<Rightarrow> nativeRole" where
  "sortScopes r \<equiv> r\<lparr>nr_Scopes := sort (nr_Scopes r)\<rparr>"

lemma distinctScopes_iff:
  "distinctScopes seen vs \<longleftrightarrow> distinct vs \<and> set vs \<inter> seen = {} \<and> (\<forall>v \<in> set vs. scopeName v)"
  by (induction vs arbitrary: seen) auto

lemma validScopes_iff:
  "validScopes vs \<longleftrightarrow> vs \<noteq> [] \<and> length vs \<le> 128 \<and> distinct vs \<and> (\<forall>v \<in> set vs. scopeName v)"
  by (auto simp: validScopes_def distinctScopes_iff)

lemma validScopes_sort [simp]: "validScopes (sort vs) = validScopes vs"
  by (simp add: validScopes_iff)

definition rolesOk :: "nativeRole list \<Rightarrow> bool" where
  "rolesOk rs \<longleftrightarrow>
     distinct (map nr_Name rs) \<and> (\<forall>r \<in> set rs. roleName (nr_Name r) \<and> validScopes (nr_Scopes r))"

lemma normalizeRoles_eq:
  "normalizeRoles seen rs =
     (if rolesOk rs \<and> nr_Name ` set rs \<inter> seen = {} then Some (map sortScopes rs) else None)"
  by (induction rs arbitrary: seen) (auto simp: rolesOk_def)

definition clientOk :: "nativeClient \<Rightarrow> bool" where
  "clientOk c \<longleftrightarrow>
     nativeIdentifier (nc_ID c) \<and> nativeIdentifier (nc_TenantID c) \<and>
     nativeIdentifier (nc_IdentityTenantID c) \<and> nativeIdentifier (nc_Audience c) \<and>
     validPath (nc_RedirectPath c) \<and> 60 \<le> nc_TTLSeconds c \<and> nc_TTLSeconds c \<le> 3600 \<and>
     1 \<le> length (nc_Name c) \<and> length (nc_Name c) \<le> 100 \<and> TrimSpace (nc_Name c) = nc_Name c \<and>
     length (nc_AdditionalRoles c) \<le> 31 \<and> validScopes (nc_RequiredScopes c) \<and>
     \<not> (\<exists>r \<in> set (runes (nc_Name c)). IsControl r) \<and>
     rolesOk (nc_BaseRole c # nc_AdditionalRoles c) \<and>
     card (\<Union>r \<in> set (nc_BaseRole c # nc_AdditionalRoles c). set (nr_Scopes r)) \<le> 500 \<and>
     set (nc_RequiredScopes c) \<subseteq> (\<Union>r \<in> set (nc_BaseRole c # nc_AdditionalRoles c). set (nr_Scopes r))"

lemma scopeCeiling_set [simp]: "set (scopeCeiling rs) = (\<Union>r \<in> set rs. set (nr_Scopes r))"
  by (simp add: scopeCeiling_def)

lemma scopeCeiling_length: "length (scopeCeiling rs) = card (\<Union>r \<in> set rs. set (nr_Scopes r))"
  by (metis distinct_card distinct_remdups scopeCeiling_def scopeCeiling_set)

definition normalForm :: "nativeClient \<Rightarrow> nativeClient" where
  "normalForm c =
     c\<lparr>nc_BaseRole := sortScopes (nc_BaseRole c),
       nc_AdditionalRoles := sort_key nr_Name (map sortScopes (nc_AdditionalRoles c)),
       nc_RequiredScopes := sort (nc_RequiredScopes c)\<rparr>"

lemma NormalizeClient_eq:
  "NormalizeClient c = (if clientOk c then Inr (normalForm c) else Inl ErrInvalidClient)"
proof -
  let ?rs = "nc_BaseRole c # nc_AdditionalRoles c"
  have "NormalizeClient c =
     (if \<not> nativeIdentifier (nc_ID c) \<or> \<not> nativeIdentifier (nc_TenantID c) \<or>
         \<not> nativeIdentifier (nc_IdentityTenantID c) \<or> \<not> nativeIdentifier (nc_Audience c) \<or>
         \<not> validPath (nc_RedirectPath c) \<or> nc_TTLSeconds c < 60 \<or> nc_TTLSeconds c > 3600 \<or>
         length (nc_Name c) < 1 \<or> length (nc_Name c) > 100 \<or> TrimSpace (nc_Name c) \<noteq> nc_Name c \<or>
         length (nc_AdditionalRoles c) > 31 \<or> \<not> validScopes (nc_RequiredScopes c)
      then Inl ErrInvalidClient
      else if \<exists>r \<in> set (runes (nc_Name c)). IsControl r then Inl ErrInvalidClient
      else if \<not> rolesOk ?rs then Inl ErrInvalidClient
      else if card (\<Union>r \<in> set ?rs. set (nr_Scopes r)) > 500 then Inl ErrInvalidClient
      else if \<not> set (nc_RequiredScopes c) \<subseteq> (\<Union>r \<in> set ?rs. set (nr_Scopes r))
      then Inl ErrInvalidClient else Inr (normalForm c))"
    unfolding NormalizeClient_def normalizeRoles_eq normalForm_def Let_def scopeCeiling_length
      scopeCeiling_set subset_iff by auto
  then show ?thesis unfolding clientOk_def not_le [symmetric] by argo
qed

lemma sortScopes_simps [simp]: "nr_Name (sortScopes r) = nr_Name r" "set (nr_Scopes (sortScopes r)) = set (nr_Scopes r)"
  by simp_all

lemma rolesOk_normalForm:
  "rolesOk (b # rs) \<Longrightarrow> rolesOk (sortScopes b # sort_key nr_Name (map sortScopes rs))"
proof -
  have "mset (map nr_Name (sort_key nr_Name (map sortScopes rs))) = mset (map nr_Name rs)"
    by (simp add: image_mset.compositionality comp_def)
  then have "distinct (map nr_Name (sort_key nr_Name (map sortScopes rs))) = distinct (map nr_Name rs)"
    by (rule mset_eq_imp_distinct_iff)
  then show "rolesOk (b # rs) \<Longrightarrow> rolesOk (sortScopes b # sort_key nr_Name (map sortScopes rs))"
    by (auto simp: rolesOk_def)
qed

lemma clientOk_normalForm: "clientOk c \<Longrightarrow> clientOk (normalForm c)"
  unfolding clientOk_def normalForm_def by (simp add: rolesOk_normalForm)

lemma normalForm_idem [simp]: "normalForm (normalForm c) = normalForm c"
proof -
  let ?rs = "sort_key nr_Name (map sortScopes (nc_AdditionalRoles c))"
  have "map sortScopes ?rs = ?rs" by (rule map_idI) auto
  then show ?thesis by (simp add: normalForm_def sort_key_id_if_sorted)
qed

lemma clientScopes_normalForm:
  "(\<Union>r \<in> set (filter P (nc_BaseRole (normalForm c) # nc_AdditionalRoles (normalForm c))). set (nr_Scopes r)) =
   (\<Union>r \<in> {r \<in> set (nc_BaseRole c # nc_AdditionalRoles c). P (sortScopes r)}. set (nr_Scopes r))"
  by (auto simp: normalForm_def)

lemma ScopesForRoles_eq:
  "ScopesForRoles c assigned =
     (let granted = (\<Union>r \<in> {r \<in> set (nc_BaseRole c # nc_AdditionalRoles c). nr_Name r \<in> set assigned}. set (nr_Scopes r)) in
      if \<not> clientOk c then Inl ErrInvalidClient
      else if nr_Name (nc_BaseRole c) \<notin> set assigned \<or> \<not> set (nc_RequiredScopes c) \<subseteq> granted
      then Inl ErrAccessDenied
      else Inr (sorted_list_of_set granted))"
proof -
  let ?n = "normalForm c"
  let ?g = "concat (map nr_Scopes (filter (\<lambda>r. nr_Name r \<in> set assigned) (nc_BaseRole ?n # nc_AdditionalRoles ?n)))"
  let ?granted = "\<Union>r \<in> {r \<in> set (nc_BaseRole c # nc_AdditionalRoles c). nr_Name r \<in> set assigned}. set (nr_Scopes r)"
  have g: "set ?g = ?granted"
    using clientScopes_normalForm [of "\<lambda>r. nr_Name r \<in> set assigned" c] by simp
  have su: "sort_uniq ?g = sorted_list_of_set ?granted"
    unfolding g [symmetric] by (rule sort_uniq_eq_sorted_list_of_set)
  have n: "set (nc_RequiredScopes ?n) = set (nc_RequiredScopes c)"
    "nr_Name (nc_BaseRole ?n) = nr_Name (nc_BaseRole c)" by (simp_all add: normalForm_def)
  have b: "(\<exists>q \<in> R. q \<notin> G) \<longleftrightarrow> \<not> R \<subseteq> G" for R G :: "string set" by blast
  show ?thesis
    by (cases "clientOk c")
      (simp_all only: ScopesForRoles_def NormalizeClient_eq Let_def if_True if_False sum.case
         not_True_eq_False not_False_eq_True g su n b, argo+)
qed

section \<open>Lemmas on the registry\<close>

lemma nativeIdentifier_no_NUL: "nativeIdentifier s \<Longrightarrow> CHR 0x00 \<notin> set s"
  by (auto simp: nativeIdentifier_def list_all_iff inLower_def inDigit_def)

lemma roleName_no_NUL: "roleName s \<Longrightarrow> CHR 0x00 \<notin> set s"
  by (auto simp: roleName_def list_all_iff alnum_def inLower_def inUpper_def inDigit_def)

lemma pairKey_inj:
  "pairKey a b = pairKey s t \<Longrightarrow> CHR 0x00 \<notin> set s \<Longrightarrow> CHR 0x00 \<notin> set t \<Longrightarrow> a = s \<and> b = t"
proof (induction a arbitrary: s)
  case Nil
  then show ?case by (cases s) (auto simp: pairKey_def)
next
  case (Cons x xs)
  then show ?case by (cases s) (fastforce simp: pairKey_def)+
qed

text \<open>What a registry knows, as relations over the clients registered so far (in normal form).\<close>

definition clientRoles :: "nativeClient \<Rightarrow> nativeRole list" where
  "clientRoles c = nc_BaseRole c # nc_AdditionalRoles c"

definition registryInv :: "nativeClient list \<Rightarrow> registry \<Rightarrow> bool" where
  "registryInv cs r \<longleftrightarrow>
     (\<forall>c \<in> set cs. clientOk c \<and> normalForm c = c) \<and>
     (\<forall>i n. rg_clients r i = Some n \<longleftrightarrow> n \<in> set cs \<and> nc_ID n = i) \<and>
     (\<forall>s t role. AllowsForeignRole (Some r) s t role \<longleftrightarrow>
        (\<exists>c \<in> set cs. nc_IdentityTenantID c = s \<and> nc_TenantID c = t \<and> s \<noteq> t \<and>
           role \<in> nr_Name ` set (clientRoles c))) \<and>
     (\<forall>c \<in> set cs. \<forall>x \<in> set (clientRoles c).
        ExpectedRoleScopes (Some r) (nc_TenantID c) (nr_Name x) = Some (nr_Scopes x))"

lemma AllowsForeignRole_add:
  "CHR 0x00 \<notin> set i \<Longrightarrow> CHR 0x00 \<notin> set t \<Longrightarrow>
   AllowsForeignRole (Some (addForeignRole (pairKey i t) n r)) s' t' role \<longleftrightarrow>
     AllowsForeignRole (Some r) s' t' role \<or> s' = i \<and> t' = t \<and> role = n"
  by (auto simp: AllowsForeignRole_def addForeignRole_def Let_def dest: pairKey_inj split: option.splits)

lemma AllowsForeignRole_roleScopes [simp]:
  "AllowsForeignRole (Some (r\<lparr>rg_roleScopes := m\<rparr>)) = AllowsForeignRole (Some r)"
  "AllowsForeignRole (Some (r\<lparr>rg_clients := m'\<rparr>)) = AllowsForeignRole (Some r)"
  by (auto simp: AllowsForeignRole_def fun_eq_iff)

lemma registerRole_Inr:
  "registerRole c x r = Inr r' \<Longrightarrow>
   rg_clients r' = rg_clients r \<and>
   rg_roleScopes r' = (rg_roleScopes r)(pairKey (nc_TenantID c) (nr_Name x) \<mapsto> nr_Scopes x) \<and>
   (rg_roleScopes r k = Some v \<longrightarrow> rg_roleScopes r' k = Some v)"
  by (auto simp: registerRole_def Let_def addForeignRole_def split: if_splits option.splits)

lemma registerRoles_Cons_Inr:
  "registerRoles c (x # xs) r = Inr r' \<longleftrightarrow>
     (\<exists>r1. registerRole c x r = Inr r1 \<and> registerRoles c xs r1 = Inr r')"
  by (auto split: sum.splits)

lemma registerRoles_clients: "registerRoles c rs r = Inr r' \<Longrightarrow> rg_clients r' = rg_clients r"
  by (induction rs arbitrary: r) (auto simp: registerRoles_Cons_Inr dest: registerRole_Inr simp del: registerRoles.simps(2))

lemma registerRoles_keep:
  "registerRoles c rs r = Inr r' \<Longrightarrow> rg_roleScopes r k = Some v \<Longrightarrow> rg_roleScopes r' k = Some v"
proof (induction rs arbitrary: r)
  case (Cons x xs)
  then obtain r1 where "registerRole c x r = Inr r1" "registerRoles c xs r1 = Inr r'"
    unfolding registerRoles_Cons_Inr by blast
  with Cons registerRole_Inr show ?case by blast
qed simp

lemma registerRoles_scopes:
  "registerRoles c rs r = Inr r' \<Longrightarrow> x \<in> set rs \<Longrightarrow>
   rg_roleScopes r' (pairKey (nc_TenantID c) (nr_Name x)) = Some (nr_Scopes x)"
proof (induction rs arbitrary: r)
  case (Cons y ys)
  then obtain r1 where r1: "registerRole c y r = Inr r1" "registerRoles c ys r1 = Inr r'"
    unfolding registerRoles_Cons_Inr by blast
  have "rg_roleScopes r1 (pairKey (nc_TenantID c) (nr_Name y)) = Some (nr_Scopes y)"
    using registerRole_Inr [OF r1(1)] by simp
  from registerRoles_keep [OF r1(2) this] Cons r1(2) show ?case by auto
qed simp

lemma registerRoles_foreign:
  assumes "CHR 0x00 \<notin> set (nc_IdentityTenantID c)" "CHR 0x00 \<notin> set (nc_TenantID c)"
  shows "registerRoles c rs r = Inr r' \<Longrightarrow>
    AllowsForeignRole (Some r') s t role \<longleftrightarrow>
      AllowsForeignRole (Some r) s t role \<or>
      nc_IdentityTenantID c = s \<and> nc_TenantID c = t \<and> s \<noteq> t \<and> role \<in> nr_Name ` set rs"
proof (induction rs arbitrary: r)
  case (Cons x xs)
  then obtain r1 where r1: "registerRole c x r = Inr r1" "registerRoles c xs r1 = Inr r'"
    unfolding registerRoles_Cons_Inr by blast
  from r1(1) have "AllowsForeignRole (Some r1) s t role \<longleftrightarrow> AllowsForeignRole (Some r) s t role \<or>
      nc_IdentityTenantID c = s \<and> nc_TenantID c = t \<and> s \<noteq> t \<and> role = nr_Name x"
    by (auto simp: registerRole_def Let_def AllowsForeignRole_add assms split: if_splits)
  with Cons.IH [OF r1(2)] show ?case by auto
qed auto

lemma registerClients_inv:
  "registerClients inputs r = Inr r' \<Longrightarrow> registryInv cs r \<Longrightarrow>
   registryInv (cs @ map normalForm inputs) r' \<and> (\<forall>c \<in> set inputs. clientOk c)"
proof (induction inputs arbitrary: r cs)
  case (Cons c inputs)
  let ?n = "normalForm c"
  let ?r = "r\<lparr>rg_clients := (rg_clients r)(nc_ID ?n \<mapsto> ?n)\<rparr>"
  from Cons.prems(1) obtain r1 where ok: "clientOk c" and new: "rg_clients r (nc_ID ?n) = None"
    and rr: "registerRoles ?n (nc_BaseRole ?n # nc_AdditionalRoles ?n) ?r = Inr r1"
    and rest: "registerClients inputs r1 = Inr r'"
    by (auto simp: NormalizeClient_eq simp del: registerRoles.simps split: if_splits sum.splits)
  note inv = Cons.prems(2) [unfolded registryInv_def]
  have okn: "clientOk ?n" using ok by (rule clientOk_normalForm)
  then have nul: "CHR 0x00 \<notin> set (nc_IdentityTenantID ?n)" "CHR 0x00 \<notin> set (nc_TenantID ?n)"
    by (auto simp: clientOk_def nativeIdentifier_no_NUL)
  from inv have cl: "\<forall>i n. rg_clients r i = Some n \<longleftrightarrow> n \<in> set cs \<and> nc_ID n = i" by blast
  with new have fresh: "\<forall>n \<in> set cs. nc_ID n \<noteq> nc_ID ?n"
    by (metis option.distinct(1))
  have "registryInv (cs @ [?n]) r1"
    unfolding registryInv_def
  proof (intro conjI allI ballI)
    fix i n
    show "rg_clients r1 i = Some n \<longleftrightarrow> n \<in> set (cs @ [?n]) \<and> nc_ID n = i"
      using cl fresh registerRoles_clients [OF rr] by auto
  next
    fix s t role
    show "AllowsForeignRole (Some r1) s t role \<longleftrightarrow>
        (\<exists>c \<in> set (cs @ [?n]). nc_IdentityTenantID c = s \<and> nc_TenantID c = t \<and> s \<noteq> t \<and>
           role \<in> nr_Name ` set (clientRoles c))"
      using inv registerRoles_foreign [OF nul rr] by (auto simp: clientRoles_def)
  next
    fix c' x
    assume "c' \<in> set (cs @ [?n])" "x \<in> set (clientRoles c')"
    moreover have "rg_roleScopes ?r = rg_roleScopes r" by simp
    ultimately show "ExpectedRoleScopes (Some r1) (nc_TenantID c') (nr_Name x) = Some (nr_Scopes x)"
      using inv registerRoles_scopes [OF rr] registerRoles_keep [OF rr]
      by (fastforce simp: ExpectedRoleScopes_def clientRoles_def)
  qed (use inv okn in auto)
  from Cons.IH [OF rest this] ok show ?case by simp
qed simp

lemma registryInv_empty: "registryInv [] emptyRegistry"
  by (simp add: registryInv_def emptyRegistry_def AllowsForeignRole_def)

lemma NewRegistry_inv:
  "NewRegistry clients = Inr r \<Longrightarrow>
   registryInv (map normalForm clients) r \<and> (\<forall>c \<in> set clients. clientOk c)"
  using registerClients_inv [OF _ registryInv_empty, of clients r]
  by (auto simp: NewRegistry_def split: if_splits)

section \<open>Properties\<close>

definition sampleClient :: nativeClient where
  "sampleClient =
     \<lparr>nc_ID = ''cli'', nc_Name = ''CLI'', nc_TenantID = ''acme'', nc_IdentityTenantID = ''corp'',
      nc_Audience = ''api'', nc_RedirectPath = ''/callback'',
      nc_BaseRole = \<lparr>nr_Name = ''USER'', nr_Scopes = [''write'', ''read'']\<rparr>,
      nc_AdditionalRoles = [\<lparr>nr_Name = ''OPS'', nr_Scopes = [''deploy'']\<rparr>, \<lparr>nr_Name = ''DEV'', nr_Scopes = [''read'']\<rparr>],
      nc_RequiredScopes = [''read''], nc_TTLSeconds = 300\<rparr>"

lemma sampleClient_ok: "clientOk sampleClient"
proof -
  have "TrimSpace ''CLI'' = ''CLI''" by (simp add: TrimSpace_all_graphic graphic_def)
  moreover have "validPath ''/callback''"
    by (simp add: validPath_def CleanRooted_def HasPrefix_def decodeRune_def byte_def)
  ultimately show ?thesis
    by (simp add: clientOk_def sampleClient_def nativeIdentifier_def inLower_def inDigit_def
        inUpper_def validScopes_iff scopeName_def alnum_def rolesOk_def roleName_def
        decodeRune_def byte_def IsControl_def card_insert_if)
qed

text \<open>
  Normalising a native client yields a client that is accepted again and left as it is, keeps its
  identity, tenants, audience, redirect path and lifetime, keeps the names and scopes of its roles, and
  lists scopes, additional roles and required scopes in order.
\<close>
theorem NormalizeClient_canonical:
  assumes "NormalizeClient c = Inr n"
  shows "NormalizeClient n = Inr n \<and>
    nc_ID n = nc_ID c \<and> nc_TenantID n = nc_TenantID c \<and> nc_IdentityTenantID n = nc_IdentityTenantID c \<and>
    nc_Audience n = nc_Audience c \<and> nc_RedirectPath n = nc_RedirectPath c \<and>
    nc_TTLSeconds n = nc_TTLSeconds c \<and> 60 \<le> nc_TTLSeconds n \<and> nc_TTLSeconds n \<le> 3600 \<and>
    (\<lambda>r. (nr_Name r, set (nr_Scopes r))) ` set (clientRoles n) =
      (\<lambda>r. (nr_Name r, set (nr_Scopes r))) ` set (clientRoles c) \<and>
    sorted (nc_RequiredScopes n) \<and> sorted (map nr_Name (nc_AdditionalRoles n)) \<and>
    (\<forall>r \<in> set (clientRoles n). canonical (nr_Scopes r) \<and> length (nr_Scopes r) \<le> 128)"
proof -
  from assms have n: "n = normalForm c" and ok: "clientOk c"
    by (auto simp: NormalizeClient_eq split: if_splits)
  have "NormalizeClient n = Inr n" using ok n by (simp add: NormalizeClient_eq clientOk_normalForm)
  moreover have "(\<lambda>r. (nr_Name r, set (nr_Scopes r))) ` set (clientRoles n) =
      (\<lambda>r. (nr_Name r, set (nr_Scopes r))) ` set (clientRoles c)"
    by (simp add: n normalForm_def clientRoles_def image_image)
  moreover have "\<forall>r \<in> set (clientRoles n). canonical (nr_Scopes r) \<and> length (nr_Scopes r) \<le> 128"
    using ok by (auto simp: n normalForm_def clientRoles_def clientOk_def rolesOk_def validScopes_iff canonical_sort)
  ultimately show ?thesis using ok by (simp add: n normalForm_def clientOk_def)
qed

theorem NormalizeClient_canonical_witness:
  "NormalizeClient sampleClient = Inr (normalForm sampleClient) \<and>
   NormalizeClient (normalForm sampleClient) = Inr (normalForm sampleClient)"
proof -
  have "NormalizeClient sampleClient = Inr (normalForm sampleClient)"
    by (simp add: NormalizeClient_eq sampleClient_ok)
  with NormalizeClient_canonical [OF this] show ?thesis by simp
qed

text \<open>
  \<^verbatim>\<open>ScopesForRoles\<close> returns, sorted and without duplicates, exactly the union of the scopes of the
  configured roles that are assigned; it refuses an invalid client, a subject without the base role and
  one whose roles do not cover the required scopes. Roles the client does not configure grant nothing.
\<close>
theorem ScopesForRoles_exact:
  "ScopesForRoles c assigned =
     (let granted = \<Union> {set (nr_Scopes r) |r. r \<in> set (clientRoles c) \<and> nr_Name r \<in> set assigned} in
      case NormalizeClient c of
        Inl e \<Rightarrow> Inl ErrInvalidClient
      | Inr _ \<Rightarrow>
          if nr_Name (nc_BaseRole c) \<in> set assigned \<and> set (nc_RequiredScopes c) \<subseteq> granted
          then Inr (sorted_list_of_set granted) else Inl ErrAccessDenied)"
proof -
  have "\<Union> {set (nr_Scopes r) |r. r \<in> set (clientRoles c) \<and> nr_Name r \<in> set assigned} =
    (\<Union>r \<in> {r \<in> set (nc_BaseRole c # nc_AdditionalRoles c). nr_Name r \<in> set assigned}. set (nr_Scopes r))"
    by (auto simp: clientRoles_def)
  then show ?thesis unfolding ScopesForRoles_eq Let_def NormalizeClient_eq by simp
qed

text \<open>
  In a registry that was built, every registered client is found under its identifier in normal form
  and nothing else is found, and a role is trusted across tenants exactly when a registered client of
  that pair of distinct tenants configures it. The composed map keys never confuse two pairs.
\<close>
theorem registry_exact:
  assumes "NewRegistry clients = Inr r"
  shows "(RegistryGet (Some r) i = Some n \<longleftrightarrow>
      (\<exists>c \<in> set clients. NormalizeClient c = Inr n \<and> nc_ID c = i)) \<and>
    (AllowsForeignRole (Some r) source target role \<longleftrightarrow>
      (\<exists>c \<in> set clients. nc_IdentityTenantID c = source \<and> nc_TenantID c = target \<and>
         source \<noteq> target \<and> role \<in> nr_Name ` set (clientRoles c)))"
proof -
  from NewRegistry_inv [OF assms] have inv: "registryInv (map normalForm clients) r"
    and ok: "\<forall>c \<in> set clients. clientOk c" by auto
  have nf: "nr_Name ` set (clientRoles (normalForm c)) = nr_Name ` set (clientRoles c)"
    "nc_ID (normalForm c) = nc_ID c" "nc_TenantID (normalForm c) = nc_TenantID c"
    "nc_IdentityTenantID (normalForm c) = nc_IdentityTenantID c" for c
    by (simp_all add: normalForm_def clientRoles_def image_image)
  have cl: "rg_clients r i = Some n \<longleftrightarrow> n \<in> normalForm ` set clients \<and> nc_ID n = i" for n
    using inv by (simp add: registryInv_def)
  have "RegistryGet (Some r) i = rg_clients r i"
  proof (cases "rg_clients r i")
    case (Some m)
    with cl [of m] ok obtain c where "m = normalForm c" "clientOk c" by auto
    with Some show ?thesis by (simp add: RegistryGet_def NormalizeClient_eq clientOk_normalForm)
  qed (simp add: RegistryGet_def)
  with cl have "RegistryGet (Some r) i = Some n \<longleftrightarrow> n \<in> normalForm ` set clients \<and> nc_ID n = i"
    by simp
  also have "\<dots> \<longleftrightarrow> (\<exists>c \<in> set clients. NormalizeClient c = Inr n \<and> nc_ID c = i)"
    using ok by (auto simp: NormalizeClient_eq nf)
  finally show ?thesis using inv by (simp add: registryInv_def nf)
qed

theorem registry_exact_witness:
  "\<exists>r. NewRegistry [sampleClient] = Inr r \<and> RegistryGet (Some r) ''cli'' = Some (normalForm sampleClient) \<and>
     AllowsForeignRole (Some r) ''corp'' ''acme'' ''OPS'' \<and> \<not> AllowsForeignRole (Some r) ''acme'' ''corp'' ''OPS''"
proof -
  obtain r where r: "NewRegistry [sampleClient] = Inr r"
    by (simp add: NewRegistry_def NormalizeClient_eq sampleClient_ok)
      (simp add: sampleClient_def normalForm_def emptyRegistry_def registerRole_def pairKey_def addForeignRole_def)
  have "nc_ID sampleClient = ''cli''" "NormalizeClient sampleClient = Inr (normalForm sampleClient)"
    "nc_IdentityTenantID sampleClient = ''corp''" "nc_TenantID sampleClient = ''acme''"
    "''OPS'' \<in> nr_Name ` set (clientRoles sampleClient)"
    by (simp_all add: NormalizeClient_eq sampleClient_ok) (simp_all add: sampleClient_def clientRoles_def)
  then show ?thesis
    using r registry_exact [OF r, of "''cli''" "normalForm sampleClient" "''corp''" "''acme''" "''OPS''"]
      registry_exact [OF r, of "''cli''" "normalForm sampleClient" "''acme''" "''corp''" "''OPS''"]
    by auto
qed

text \<open>
  With a 32-byte digest the PKCE check accepts a challenge for a verifier exactly when the challenge
  is the encoded digest of an admissible verifier; in particular every challenge the server computes is
  itself a well-formed challenge and verifies.
\<close>
theorem VerifyS256_iff:
  assumes "\<And>v. length (sha256 v) = 32"
  shows "VerifyS256 sha256 verifier challenge \<longleftrightarrow> S256Challenge sha256 verifier = Inr challenge"
proof -
  have "ValidS256Challenge (b64encode (sha256 verifier))"
    by (simp add: ValidS256Challenge_def length_b64encode b64decode_encode assms)
  then show ?thesis by (auto simp: VerifyS256_def S256Challenge_def)
qed

theorem VerifyS256_iff_witness:
  "VerifyS256 (\<lambda>v. take 32 v @ replicate (32 - length v) CHR ''0'') (replicate 43 CHR ''a'')
     (b64encode (replicate 32 CHR ''a''))"
  using VerifyS256_iff [of "\<lambda>v. take 32 v @ replicate (32 - length v) CHR ''0''" "replicate 43 CHR ''a''"
      "b64encode (replicate 32 CHR ''a'')"]
  by (auto simp: S256Challenge_def unreserved_def alnum_def inLower_def list_all_iff)

end
