(* ===== verification/User_State.thy ===== *)
theory User_State
  imports Token_Claims Native_Policy
begin

text \<open>
  The state of the user service: the record \<open>userService\<close> is the struct \<^verbatim>\<open>userService\<close> of
  \<^verbatim>\<open>internal/services/user_service.go\<close>. Its repositories and services are records of functions over a world
  \<open>'w\<close> (Redis and whatever the other services keep), an absent dependency is \<^term>\<open>None\<close>; an optional interface of
  a repository (a Go type assertion) is an optional field. \<open>goPanic\<close> marks the use of an absent dependency
  that the code does not guard. \<open>goLibrary\<close> holds the library functions the service calls, \<open>callEnv\<close> what one call
  reads from its surroundings.
\<close>

section \<open>The AI identity protocol\<close>

record aiWorkload =
  aw_Issuer :: string
  aw_ServiceUID :: string
  aw_ClusterRef :: string
  aw_Namespace :: string
  aw_ServiceAccount :: string
  aw_ServiceAccountUID :: string
  aw_PodUID :: string

record aiWorkloadRequest =
  awr_Issuer :: string
  awr_ClusterRef :: string
  awr_Namespace :: string
  awr_ServiceAccount :: string
  awr_ServiceAccountUID :: string
  awr_PodUID :: string

record aiIdentity =
  ai_SchemaVersion :: string
  ai_Kind :: string
  ai_Subject :: string
  ai_TenantID :: string
  ai_Scopes :: "string list"
  ai_Workload :: "aiWorkloadRequest option"

record aiPrincipal =
  ap_SchemaVersion :: string
  ap_TenantID :: string
  ap_TenantUID :: string
  ap_TenantEpoch :: string
  ap_Subject :: string
  ap_PrincipalKind :: string
  ap_Workload :: "aiWorkload option"

text \<open>The fields of \<^verbatim>\<open>config.AIGatewayConfig\<close> that the exchanges read.\<close>

record aiMachineIdentity =
  mi_Enabled :: bool
  mi_Issuer :: string
  mi_ClusterRef :: string
  mi_Namespace :: string
  mi_ServiceAccount :: string
  mi_ServiceAccountUID :: string

record aiGatewayConfig =
  agc_Enabled :: bool
  agc_AccessTokenTTLSeconds :: int
  agc_MaximumConcurrent :: int
  agc_PerIdentityPerMinute :: int
  agc_InstallationUID :: string
  agc_RuntimeTenantID :: string
  agc_Runtime :: aiMachineIdentity
  agc_StoreAudience :: string
  agc_StoreRuntime :: aiMachineIdentity
  agc_StoreBootstrap :: aiMachineIdentity

text \<open>
  \<open>ax_slotFree\<close> says whether the bounded channel of concurrent authorisations has room; \<open>ax_slots\<close> and
  \<open>ax_limiter\<close> whether the constructor created the channel and the rate limiter.
\<close>

record 'w aiGatewayExchange =
  ax_cfg :: aiGatewayConfig
  ax_authority :: "('w \<Rightarrow> string \<Rightarrow> aiPrincipal res) option"
  ax_tenants :: "('w \<Rightarrow> string \<Rightarrow> int \<Rightarrow> tenant option res) option"
  ax_slots :: bool
  ax_slotFree :: "'w \<Rightarrow> bool"
  ax_limiter :: bool

section \<open>The service and its dependencies\<close>

definition goPanic :: gerror where
  "goPanic = ErrText ''runtime error: invalid memory address or nil pointer dereference''"

record oobSubject =
  ob_UserID :: string
  ob_Email :: string
  ob_TokenVersion :: int

record 'w userIDRepository =
  idFindByID :: "'w \<Rightarrow> string \<Rightarrow> user option res"
  idIncrementTokenVersionByID :: "'w \<Rightarrow> string \<Rightarrow> (int \<times> user) res \<times> 'w"

record 'w subjectOOBRepository =
  sobSave :: "'w \<Rightarrow> string \<Rightarrow> oobSubject \<Rightarrow> string \<Rightarrow> gerror option \<times> 'w"
  sobConsume :: "'w \<Rightarrow> string \<Rightarrow> string \<Rightarrow> oobSubject res \<times> 'w"

record 'w userRepository =
  usFindByEmail :: "'w \<Rightarrow> string \<Rightarrow> user option res"
  usUpdateUser :: "'w \<Rightarrow> user \<Rightarrow> gerror option \<times> 'w"
  usDeleteByEmail :: "'w \<Rightarrow> string \<Rightarrow> gerror option \<times> 'w"
  usSetStatus :: "'w \<Rightarrow> string \<Rightarrow> string \<Rightarrow> user res \<times> 'w"
  usIncrementTokenVersion :: "'w \<Rightarrow> string \<Rightarrow> (int \<times> user) res \<times> 'w"
  usSaveOobCode :: "'w \<Rightarrow> string \<Rightarrow> string \<Rightarrow> string \<Rightarrow> gerror option \<times> 'w"
  usConsumeOobCode :: "'w \<Rightarrow> string \<Rightarrow> string \<Rightarrow> string res \<times> 'w"
  usByID :: "'w userIDRepository option"
  usSubjectOOB :: "'w subjectOOBRepository option"

record 'w membershipRepository =
  mbGet :: "'w \<Rightarrow> string \<Rightarrow> string \<Rightarrow> membership option res"
  mbListTenantIDsByUser :: "'w \<Rightarrow> string \<Rightarrow> string list res"

record 'w exactMembershipRepository =
  xmGetExact :: "'w \<Rightarrow> string \<Rightarrow> string \<Rightarrow> membership option res"
  xmListTenantIDsByUserExactBounded :: "'w \<Rightarrow> string \<Rightarrow> int \<Rightarrow> (string list \<times> bool) res"

record 'w directoryRepository =
  dirListEffectiveTenantIDs :: "'w \<Rightarrow> string \<Rightarrow> int \<Rightarrow> (string list \<times> bool) res"
  dirGetEffectiveTenantRoles :: "'w \<Rightarrow> string \<Rightarrow> string \<Rightarrow> string list res"
  dirGetAccessAssignment :: "'w \<Rightarrow> string \<Rightarrow> string \<Rightarrow> string \<Rightarrow> accessAssignment option res"

record 'w roleLookupService =
  rsGetByName :: "'w \<Rightarrow> string \<Rightarrow> string \<Rightarrow> roleResp res"
  rsResolvePermissions :: "'w \<Rightarrow> string \<Rightarrow> string list \<Rightarrow> string list res"

record goLibrary =
  sha256hex :: "string \<Rightarrow> string"
  marshalNativeClient :: "nativeClient \<Rightarrow> string option"
  parseURL :: "string \<Rightarrow> url option"
  urlString :: "url \<Rightarrow> string"
  rfc3339Nano :: "gotime \<Rightarrow> string"

record ('w, 'k) userService =
  us_unicode :: go_unicode
  us_policy :: policy
  us_jwt :: "'k jwtlib"
  us_library :: goLibrary
  us_trinoAuthority :: "('w \<Rightarrow> string \<Rightarrow> string \<Rightarrow> string \<Rightarrow> trinoPrincipal res) option"
  us_aiGateway :: "'w aiGatewayExchange option"
  us_nativeClients :: "registry option"
  us_repo :: "'w userRepository"
  us_membershipRepo :: "'w membershipRepository option"
  us_exactMembershipRepo :: "'w exactMembershipRepository option"
  us_directoryAccess :: "'w directoryRepository option"
  us_authenticationAttempts :: "('w \<Rightarrow> string \<Rightarrow> string \<Rightarrow> int \<Rightarrow> int \<Rightarrow> bool res \<times> 'w) option"
  us_authenticationRateLimits :: rateLimits
  us_verifyPassword :: "string \<Rightarrow> string \<Rightarrow> bool"
  us_tenantRepo :: "'w tenantRepository option"
  us_tenantScopedTokenClaimsV1 :: bool
  us_tenantScopedTokenAllowlist :: "string list"
  us_tenantTargetDiscoveryV2 :: bool
  us_platformAdministrators :: "string list"
  us_platformAuthorityConfigured :: bool
  us_jwtSecret :: string
  us_issuerBaseURL :: string
  us_defaultAudience :: string
  us_jwksPrivateKey :: string
  us_jwksKeyID :: string
  us_roleSvc :: "'w roleLookupService option"
  us_clientSvc :: "('w \<Rightarrow> string \<Rightarrow> string \<Rightarrow> client option res) option"

section \<open>One call\<close>

text \<open>
  What a call reads from outside the service: the values of \<^verbatim>\<open>time.Now()\<close> (nanoseconds since the epoch) in the
  order the code takes them, the fresh UUIDs, the salted password hash, and the identities the HTTP boundary put
  into the context.
\<close>

record callEnv =
  ev_parseTime :: int
  ev_checkTime :: int
  ev_now :: int
  ev_recheck :: int
  ev_uuid :: "nat \<Rightarrow> string"
  ev_GenerateFromPassword :: "string \<Rightarrow> string res"
  ev_clientIP :: string
  ev_apiKeyID :: string

definition Unix :: "int \<Rightarrow> int" where
  "Unix t = t div 1000000000"

definition wrap64 :: "int \<Rightarrow> int" where
  "wrap64 x = (x + 2 ^ 63) mod 2 ^ 64 - 2 ^ 63"

text \<open>\<^verbatim>\<open>time.Duration(n) * time.Second\<close> on 64 bits.\<close>

definition seconds :: "int \<Rightarrow> int" where
  "seconds n = wrap64 (n * 1000000000)"

section \<open>Keys and throttling\<close>

text \<open>
  \<^verbatim>\<open>sync.Once\<close> keeps the first result of parsing the configured key; parsing is a function of the key, so every
  call gives that result.
\<close>

definition ParseRSAPrivateKey :: "'k jwtlib \<Rightarrow> string \<Rightarrow> 'k res" where
  "ParseRSAPrivateKey J pem =
     (if pem = [] then Inl (ErrText ''rsa private key missing'') else parseRSAPrivateKeyFromPEM J pem)"

definition getRSAPrivateKey :: "('w, 'k) userService \<Rightarrow> 'k res" where
  "getRSAPrivateKey s = ParseRSAPrivateKey (us_jwt s) (us_jwksPrivateKey s)"

definition allowAuthenticationAttempt ::
  "('w, 'k) userService \<Rightarrow> 'w \<Rightarrow> string \<Rightarrow> string \<Rightarrow> rateLimit \<Rightarrow> bool res \<times> 'w" where
  "allowAuthenticationAttempt s w bucket subject limit =
     (case us_authenticationAttempts s of
        None \<Rightarrow> (Inr True, w)
      | Some allow \<Rightarrow>
          if TrimSpace subject = [] then (Inr True, w)
          else allow w bucket subject (rl_Requests limit) (seconds (rl_WindowSeconds limit)))"

text \<open>Two limits in a row: the second is asked only when the first admits the attempt.\<close>

definition allowBoth ::
  "('w, 'k) userService \<Rightarrow> 'w \<Rightarrow> string \<Rightarrow> string \<Rightarrow> string \<Rightarrow> string \<Rightarrow> rateLimit \<Rightarrow> bool res \<times> 'w" where
  "allowBoth s w bucket1 subject1 bucket2 subject2 limit =
     (case allowAuthenticationAttempt s w bucket1 subject1 limit of
        (Inr True, w1) \<Rightarrow> allowAuthenticationAttempt s w1 bucket2 subject2 limit
      | r \<Rightarrow> r)"

section \<open>A small deployment\<close>

text \<open>
  Concrete dependencies for the witnesses: an active tenant \<^verbatim>\<open>acme\<close> and one more \<^verbatim>\<open>globex\<close>, a managed audience client
  in each, one role, and a user of \<^verbatim>\<open>acme\<close> whose directory access covers both.
\<close>

definition activeSample :: "string \<Rightarrow> tenant" where
  "activeSample i =
     \<lparr>t_Id = i, t_Slug = i, t_Name = i, t_Status = TenantStatusActive, t_CreatedAt = Some 1, t_RetiredAt = None\<rparr>"

definition sampleTenants :: "unit tenantRepository" where
  "sampleTenants =
     \<lparr>tnCreateIfAbsent = (\<lambda>w t. (Inl ErrTenantConflict, w)),
      tnGet = (\<lambda>w i. Inr (if i \<in> {''acme'', ''globex'', MasterTenantID} then Some (activeSample i) else None)),
      tnList = (\<lambda>w off lim. Inr ([], [])), tnRetire = None\<rparr>"

definition sampleAudience :: "string \<Rightarrow> string \<Rightarrow> client" where
  "sampleAudience i aud =
     \<lparr>c_Id = aud, c_TenantId = i, c_SecretHash = [], c_Type = ClientTypeService,
      c_AllowedGrantTypes = [GrantTypeTokenExchange], c_DefaultScopes = [''code-admin:ai:read''],
      c_Status = ClientStatusActive, c_ManagedBy = CodeAdminAudienceClientManager\<rparr>"

definition sampleUser :: user where
  "sampleUser =
     \<lparr>u_Id = ''u-1'', u_Email = ''ana@acme.io'', u_Password = ''hash'', u_Role = RoleCompanyAdmin,
      u_Status = UserStatusActive, u_CompanyId = Some ''acme'', u_TokenVersion = 3, u_Revision = 0, u_CreatedAt = None,
      u_AuthSource = AuthSourcePassword, u_ExternalSubject = [], u_PasswordChangeRequired = False\<rparr>"

definition sampleRepo :: "unit userRepository" where
  "sampleRepo =
     \<lparr>usFindByEmail = (\<lambda>w e. Inr (if e = u_Email sampleUser then Some sampleUser else None)),
      usUpdateUser = (\<lambda>w u. (None, w)), usDeleteByEmail = (\<lambda>w e. (None, w)),
      usSetStatus = (\<lambda>w e st. (Inr sampleUser, w)), usIncrementTokenVersion = (\<lambda>w e. (Inr (4, sampleUser), w)),
      usSaveOobCode = (\<lambda>w c e r. (None, w)), usConsumeOobCode = (\<lambda>w c r. (Inl ErrInvalidOob, w)),
      usByID = Some \<lparr>idFindByID = (\<lambda>w i. Inr (if i = u_Id sampleUser then Some sampleUser else None)),
        idIncrementTokenVersionByID = (\<lambda>w i. (Inr (4, sampleUser), w))\<rparr>,
      usSubjectOOB = Some \<lparr>sobSave = (\<lambda>w c p r. (None, w)),
        sobConsume = (\<lambda>w c r. (Inr \<lparr>ob_UserID = ''u-1'', ob_Email = ''ana@acme.io'', ob_TokenVersion = 3\<rparr>, w))\<rparr>\<rparr>"

definition sampleDirectory :: "unit directoryRepository" where
  "sampleDirectory =
     \<lparr>dirListEffectiveTenantIDs = (\<lambda>w u n. Inr ([''acme'', ''globex''], False)),
      dirGetEffectiveTenantRoles = (\<lambda>w u t. Inr [''reader'']),
      dirGetAccessAssignment = (\<lambda>w t k p. Inr None)\<rparr>"

definition sampleRoles :: "unit roleLookupService" where
  "sampleRoles =
     \<lparr>rsGetByName = (\<lambda>w t n. Inr \<lparr>rr_Name = n, rr_Permissions = [''code-admin:ai:read'']\<rparr>),
      rsResolvePermissions = (\<lambda>w t ns. Inr [''code-admin:ai:read''])\<rparr>"

definition asciiUnicode :: go_unicode where
  "asciiUnicode = \<lparr>mapLower = (\<lambda>s. s), mapUpper = (\<lambda>s. s), foldEqual = (\<lambda>s t. s = t)\<rparr>"

definition sampleJwt :: "unit jwtlib" where
  "sampleJwt =
     \<lparr>parseHS256 = (\<lambda>t k n. None), parseRS256 = (\<lambda>t k n. None), signHS256 = (\<lambda>c k. Inr ''id-token''),
      signRS256 = (\<lambda>kid c k. Inr ''access-token''),
      expirationTime = (\<lambda>c. case c ''exp'' of
          Some (GoInt n) \<Rightarrow> Inr (Some (n * 1000000000))
        | Some (JNum r) \<Rightarrow> Inr (Some (\<lfloor>r\<rfloor> * 1000000000)) | _ \<Rightarrow> Inr None),
      parseRSAPrivateKeyFromPEM = (\<lambda>pem. Inr ())\<rparr>"

definition sampleLibrary :: goLibrary where
  "sampleLibrary =
     \<lparr>sha256hex = (\<lambda>s. s), marshalNativeClient = (\<lambda>c. Some (nc_ID c)), parseURL = (\<lambda>s. None),
      urlString = (\<lambda>u. []), rfc3339Nano = (\<lambda>t. [])\<rparr>"

definition sampleService :: "(unit, unit) userService" where
  "sampleService =
     \<lparr>us_unicode = asciiUnicode, us_policy = compiledPolicy, us_jwt = sampleJwt, us_library = sampleLibrary,
      us_trinoAuthority = None, us_aiGateway = None, us_nativeClients = None, us_repo = sampleRepo,
      us_membershipRepo = None, us_exactMembershipRepo = None, us_directoryAccess = Some sampleDirectory,
      us_authenticationAttempts = None, us_authenticationRateLimits = DefaultAuthenticationRateLimits,
      us_verifyPassword = (\<lambda>h p. h = ''hash'' \<and> p = ''correct horse''), us_tenantRepo = Some sampleTenants,
      us_tenantScopedTokenClaimsV1 = True, us_tenantScopedTokenAllowlist = [''globex''],
      us_tenantTargetDiscoveryV2 = True, us_platformAdministrators = [], us_platformAuthorityConfigured = True,
      us_jwtSecret = ''secret'', us_issuerBaseURL = ''https://id'', us_defaultAudience = ''tikti'',
      us_jwksPrivateKey = ''pem'', us_jwksKeyID = ''k1'', us_roleSvc = Some sampleRoles,
      us_clientSvc = Some (\<lambda>w t a. Inr (Some (sampleAudience t a)))\<rparr>"

lemmas sample_defs = sampleService_def sampleTenants_def sampleAudience_def sampleUser_def sampleRepo_def
  sampleDirectory_def sampleRoles_def asciiUnicode_def sampleJwt_def sampleLibrary_def activeSample_def

end
