(* ===== verification/Directory_Store.thy ===== *)
theory Directory_Store
  imports User_State Tenant_Service
begin

text \<open>
  The Redis that the user and identity directory repositories (\<^verbatim>\<open>user_repository.go\<close>, \<^verbatim>\<open>subject_oob_repository.go\<close>,
  \<^verbatim>\<open>identity_directory_repository.go\<close>, \<^verbatim>\<open>directory_user_deletion.go\<close>) run on, as a parameter: a record of the commands
  they send, over a world \<open>'w\<close>, and their optimistic transactions. \<open>store_ok\<close> states what Redis documents about
  those commands, through a view of the world as a keyspace.

  A transaction is \<^verbatim>\<open>client.Watch\<close>: the watched keys are fixed in one world, the function reads and decides, other
  clients act, and \<^verbatim>\<open>TxPipelined\<close> sends all writes at once, which Redis applies only if no watched key was changed.
  The code retries it eight times. The reads of one attempt see one world.
\<close>

section \<open>Keyspace and commands\<close>

record keyspace =
  ks_string :: "string \<Rightarrow> string option"
  ks_hash :: "string \<Rightarrow> string \<Rightarrow> string option"
  ks_set :: "string \<Rightarrow> string set"
  ks_zset :: "string \<Rightarrow> string set"

datatype cmd =
    CSet string string
  | CDel string
  | CHSet string string string
  | CHDel string string
  | CSAdd string string
  | CSRem string string
  | CZAdd string string   \<comment> \<open>with score 0\<close>
  | CZRem string string
  | CExpire string int    \<comment> \<open>seconds; the expiry itself is a step of another client\<close>
  | CPing

fun applyCmd :: "cmd \<Rightarrow> keyspace \<Rightarrow> keyspace" where
  "applyCmd (CSet k v) ks = ks\<lparr>ks_string := (ks_string ks)(k \<mapsto> v)\<rparr>"
| "applyCmd (CDel k) ks =
     ks\<lparr>ks_string := (ks_string ks)(k := None), ks_hash := (ks_hash ks)(k := Map.empty),
        ks_set := (ks_set ks)(k := {}), ks_zset := (ks_zset ks)(k := {})\<rparr>"
| "applyCmd (CHSet k f v) ks = ks\<lparr>ks_hash := (ks_hash ks)(k := (ks_hash ks k)(f \<mapsto> v))\<rparr>"
| "applyCmd (CHDel k f) ks = ks\<lparr>ks_hash := (ks_hash ks)(k := (ks_hash ks k)(f := None))\<rparr>"
| "applyCmd (CSAdd k m) ks = ks\<lparr>ks_set := (ks_set ks)(k := insert m (ks_set ks k))\<rparr>"
| "applyCmd (CSRem k m) ks = ks\<lparr>ks_set := (ks_set ks)(k := ks_set ks k - {m})\<rparr>"
| "applyCmd (CZAdd k m) ks = ks\<lparr>ks_zset := (ks_zset ks)(k := insert m (ks_zset ks k))\<rparr>"
| "applyCmd (CZRem k m) ks = ks\<lparr>ks_zset := (ks_zset ks)(k := ks_zset ks k - {m})\<rparr>"
| "applyCmd (CExpire k n) ks = ks"
| "applyCmd CPing ks = ks"

definition applyAll :: "cmd list \<Rightarrow> keyspace \<Rightarrow> keyspace" where
  "applyAll cs ks = fold applyCmd cs ks"

definition sameKey :: "keyspace \<Rightarrow> keyspace \<Rightarrow> string \<Rightarrow> bool" where
  "sameKey a b k \<longleftrightarrow>
     ks_string a k = ks_string b k \<and> ks_hash a k = ks_hash b k \<and> ks_set a k = ks_set b k \<and> ks_zset a k = ks_zset b k"

text \<open>The bounds of \<^verbatim>\<open>ZRANGEBYLEX\<close>: \<^verbatim>\<open>-\<close> and \<^verbatim>\<open>+\<close>, or a member after \<^verbatim>\<open>[\<close> (inclusive) or \<^verbatim>\<open>(\<close> (exclusive).\<close>

definition lexAtLeast :: "string \<Rightarrow> string \<Rightarrow> bool" where
  "lexAtLeast lo m \<longleftrightarrow>
     (case lo of [] \<Rightarrow> False | c # b \<Rightarrow> if c = CHR ''['' then b \<le> m else if c = CHR ''('' then b < m else c = CHR ''-'')"

definition lexAtMost :: "string \<Rightarrow> string \<Rightarrow> bool" where
  "lexAtMost hi m \<longleftrightarrow>
     (case hi of [] \<Rightarrow> False | c # b \<Rightarrow> if c = CHR ''['' then m \<le> b else if c = CHR ''('' then m < b else c = CHR ''+'')"

definition lexRange :: "string set \<Rightarrow> string \<Rightarrow> string \<Rightarrow> nat \<Rightarrow> string list" where
  "lexRange z lo hi most = take most (filter (\<lambda>m. lexAtLeast lo m \<and> lexAtMost hi m) (sorted_list_of_set z))"

section \<open>The client\<close>

datatype execResult = Committed | TxFailed | ExecError gerror

text \<open>
  \<open>rExec w keys w1 cs\<close> is \<^verbatim>\<open>EXEC\<close> of \<open>cs\<close> in the world \<open>w1\<close> after \<^verbatim>\<open>WATCH\<close> of \<open>keys\<close> in \<open>w\<close>; without keys it is a plain
  command or pipeline. \<open>rEval\<close> runs a Lua script, given as the function it computes on the keyspace, atomically.
  \<open>rZRangeByLex w k lo hi count\<close> takes the bounds in the syntax of Redis.
\<close>

record 'w store =
  rGet :: "'w \<Rightarrow> string \<Rightarrow> string option res"
  rHGet :: "'w \<Rightarrow> string \<Rightarrow> string \<Rightarrow> string option res"
  rHExists :: "'w \<Rightarrow> string \<Rightarrow> string \<Rightarrow> bool res"
  rHGetAll :: "'w \<Rightarrow> string \<Rightarrow> (string \<times> string) list res"
  rHLen :: "'w \<Rightarrow> string \<Rightarrow> nat res"
  rSMembers :: "'w \<Rightarrow> string \<Rightarrow> string list res"
  rSCard :: "'w \<Rightarrow> string \<Rightarrow> nat res"
  rSIsMember :: "'w \<Rightarrow> string \<Rightarrow> string \<Rightarrow> bool res"
  rZScore :: "'w \<Rightarrow> string \<Rightarrow> string \<Rightarrow> bool res"
  rZRangeByLex :: "'w \<Rightarrow> string \<Rightarrow> string \<Rightarrow> string \<Rightarrow> nat \<Rightarrow> string list res"
  rHScan :: "'w \<Rightarrow> string \<Rightarrow> nat \<Rightarrow> int \<Rightarrow> ((string \<times> string) list \<times> nat) res"
  rSetNX :: "'w \<Rightarrow> string \<Rightarrow> string \<Rightarrow> bool res \<times> 'w"
  rEval :: "'w \<Rightarrow> (keyspace \<Rightarrow> string list \<times> cmd list) \<Rightarrow> string list res \<times> 'w"
  rExec :: "'w \<Rightarrow> string list \<Rightarrow> 'w \<Rightarrow> cmd list \<Rightarrow> execResult \<times> 'w"

text \<open>
  What Redis documents: reads that succeed report the keyspace, writes that succeed change it as asked, and a
  transaction commits only over unchanged watched keys. A write that reports an error (a lost connection) happened
  or not, but not in part: \<open>writes_atomic\<close>.
\<close>

definition reads_ok :: "'w store \<Rightarrow> ('w \<Rightarrow> keyspace) \<Rightarrow> bool" where
  "reads_ok R view \<longleftrightarrow>
     (\<forall>w k r. rGet R w k = Inr r \<longrightarrow> r = ks_string (view w) k) \<and>
     (\<forall>w k f r. rHGet R w k f = Inr r \<longrightarrow> r = ks_hash (view w) k f) \<and>
     (\<forall>w k f b. rHExists R w k f = Inr b \<longrightarrow> b = (ks_hash (view w) k f \<noteq> None)) \<and>
     (\<forall>w k kvs. rHGetAll R w k = Inr kvs \<longrightarrow> distinct (map fst kvs) \<and> map_of kvs = ks_hash (view w) k) \<and>
     (\<forall>w k n. rHLen R w k = Inr n \<longrightarrow> n = card (dom (ks_hash (view w) k))) \<and>
     (\<forall>w k ms. rSMembers R w k = Inr ms \<longrightarrow> distinct ms \<and> set ms = ks_set (view w) k) \<and>
     (\<forall>w k n. rSCard R w k = Inr n \<longrightarrow> n = card (ks_set (view w) k)) \<and>
     (\<forall>w k m b. rSIsMember R w k m = Inr b \<longrightarrow> b = (m \<in> ks_set (view w) k)) \<and>
     (\<forall>w k lo hi n ms. rZRangeByLex R w k lo hi n = Inr ms \<longrightarrow>
        finite (ks_zset (view w) k) \<and> ms = lexRange (ks_zset (view w) k) lo hi n)"

definition writes_ok :: "'w store \<Rightarrow> ('w \<Rightarrow> keyspace) \<Rightarrow> bool" where
  "writes_ok R view \<longleftrightarrow>
     (\<forall>w k v w'. rSetNX R w k v = (Inr True, w') \<longrightarrow>
        ks_string (view w) k = None \<and> view w' = applyCmd (CSet k v) (view w)) \<and>
     (\<forall>w k v w'. rSetNX R w k v = (Inr False, w') \<longrightarrow> ks_string (view w) k \<noteq> None \<and> view w' = view w) \<and>
     (\<forall>w f r w'. rEval R w f = (Inr r, w') \<longrightarrow> (\<exists>cs. f (view w) = (r, cs) \<and> view w' = applyAll cs (view w))) \<and>
     (\<forall>w ks w1 cs w'. rExec R w ks w1 cs = (Committed, w') \<longrightarrow>
        (\<forall>k \<in> set ks. sameKey (view w) (view w1) k) \<and> view w' = applyAll cs (view w1)) \<and>
     (\<forall>w ks w1 cs w'. rExec R w ks w1 cs = (TxFailed, w') \<longrightarrow> view w' = view w1)"

definition writes_atomic :: "'w store \<Rightarrow> ('w \<Rightarrow> keyspace) \<Rightarrow> bool" where
  "writes_atomic R view \<longleftrightarrow>
     (\<forall>w k v e w'. rSetNX R w k v = (Inl e, w') \<longrightarrow> view w' = view w \<or>
        ks_string (view w) k = None \<and> view w' = applyCmd (CSet k v) (view w)) \<and>
     (\<forall>w f e w'. rEval R w f = (Inl e, w') \<longrightarrow> view w' = view w \<or> view w' = applyAll (snd (f (view w))) (view w)) \<and>
     (\<forall>w ks w1 cs e w'. rExec R w ks w1 cs = (ExecError e, w') \<longrightarrow> view w' = view w1 \<or>
        (\<forall>k \<in> set ks. sameKey (view w) (view w1) k) \<and> view w' = applyAll cs (view w1))"

definition store_ok :: "'w store \<Rightarrow> ('w \<Rightarrow> keyspace) \<Rightarrow> bool" where
  "store_ok R view \<longleftrightarrow> reads_ok R view \<and> writes_ok R view \<and> writes_atomic R view"

section \<open>Optimistic transactions\<close>

abbreviation directoryMaximumRetries :: nat where "directoryMaximumRetries \<equiv> 8"
abbreviation errDirectoryRetry :: gerror where
  "errDirectoryRetry \<equiv> ErrText ''identity directory transaction retry exhausted''"

text \<open>What the function of a transaction decides from its reads.\<close>

datatype 'a txn =
    Abort gerror
  | Again                    \<comment> \<open>it returns \<^verbatim>\<open>redis.TxFailedErr\<close> itself\<close>
  | Keep 'a                  \<comment> \<open>it returns without a pipeline\<close>
  | Commit "cmd list" 'a

text \<open>One attempt; \<open>other\<close> is what the other clients do between the reads and the commit. \<^term>\<open>None\<close> is \<^verbatim>\<open>redis.TxFailedErr\<close>.\<close>

definition watchTx :: "'w store \<Rightarrow> ('w \<Rightarrow> 'w) \<Rightarrow> string list \<Rightarrow> 'a txn \<Rightarrow> 'w \<Rightarrow> 'a res option \<times> 'w" where
  "watchTx R other watched t w =
     (case t of
        Abort e \<Rightarrow> (Some (Inl e), w)
      | Again \<Rightarrow> (None, w)
      | Keep a \<Rightarrow> (Some (Inr a), w)
      | Commit cs a \<Rightarrow>
          (case rExec R w watched (other w) cs of
             (Committed, w') \<Rightarrow> (Some (Inr a), w')
           | (TxFailed, w') \<Rightarrow> (None, w')
           | (ExecError e, w') \<Rightarrow> (Some (Inl e), w')))"

fun retryTx :: "(nat \<Rightarrow> 'w \<Rightarrow> 'a res option \<times> 'w) \<Rightarrow> nat \<Rightarrow> nat \<Rightarrow> 'w \<Rightarrow> 'a res \<times> 'w" where
  "retryTx attempt i 0 w = (Inl errDirectoryRetry, w)"
| "retryTx attempt i (Suc left) w =
     (case attempt i w of
        (Some r, w') \<Rightarrow> (r, w')
      | (None, w') \<Rightarrow> retryTx attempt (Suc i) left w')"

text \<open>A pipeline or single write without \<^verbatim>\<open>WATCH\<close>.\<close>

definition pipelined :: "'w store \<Rightarrow> 'w \<Rightarrow> cmd list \<Rightarrow> gerror option \<times> 'w" where
  "pipelined R w cs =
     (case rExec R w [] w cs of
        (Committed, w') \<Rightarrow> (None, w')
      | (TxFailed, w') \<Rightarrow> (Some (ErrText ''redis: transaction failed''), w')
      | (ExecError e, w') \<Rightarrow> (Some e, w'))"

section \<open>A Redis in memory\<close>

text \<open>A Redis as the documentation describes the commands, without scans; witnesses run on it.\<close>

definition emptyKeys :: keyspace where
  "emptyKeys = \<lparr>ks_string = Map.empty, ks_hash = (\<lambda>k. Map.empty), ks_set = (\<lambda>k. {}), ks_zset = (\<lambda>k. {})\<rparr>"

record memory =
  mem_keys :: keyspace
  mem_fields :: "string list"

definition memStore :: "memory store" where
  "memStore =
     \<lparr>rGet = (\<lambda>w k. Inr (ks_string (mem_keys w) k)), rHGet = (\<lambda>w k f. Inr (ks_hash (mem_keys w) k f)),
      rHExists = (\<lambda>w k f. Inr (ks_hash (mem_keys w) k f \<noteq> None)),
      rHGetAll = (\<lambda>w k. if dom (ks_hash (mem_keys w) k) \<subseteq> set (mem_fields w)
        then Inr (map (\<lambda>f. (f, the (ks_hash (mem_keys w) k f)))
                   (filter (\<lambda>f. ks_hash (mem_keys w) k f \<noteq> None) (remdups (mem_fields w))))
        else Inl (ErrText ''unknown field'')),
      rHLen = (\<lambda>w k. Inr (card (dom (ks_hash (mem_keys w) k)))),
      rSMembers = (\<lambda>w k. if finite (ks_set (mem_keys w) k) then Inr (sorted_list_of_set (ks_set (mem_keys w) k))
        else Inl (ErrText ''infinite set'')),
      rSCard = (\<lambda>w k. Inr (card (ks_set (mem_keys w) k))),
      rSIsMember = (\<lambda>w k m. Inr (m \<in> ks_set (mem_keys w) k)),
      rZScore = (\<lambda>w k m. Inr (m \<in> ks_zset (mem_keys w) k)),
      rZRangeByLex = (\<lambda>w k lo hi n. if finite (ks_zset (mem_keys w) k) then Inr (lexRange (ks_zset (mem_keys w) k) lo hi n)
        else Inl (ErrText ''infinite set'')),
      rHScan = (\<lambda>w k cursor n. Inl (ErrText ''no scan'')),
      rSetNX = (\<lambda>w k v. if ks_string (mem_keys w) k = None
        then (Inr True, w\<lparr>mem_keys := applyCmd (CSet k v) (mem_keys w)\<rparr>) else (Inr False, w)),
      rEval = (\<lambda>w f. case f (mem_keys w) of (r, cs) \<Rightarrow> (Inr r, w\<lparr>mem_keys := applyAll cs (mem_keys w)\<rparr>)),
      rExec = (\<lambda>w ks w1 cs. if \<forall>k \<in> set ks. sameKey (mem_keys w) (mem_keys w1) k
        then (Committed, w1\<lparr>mem_keys := applyAll cs (mem_keys w1)\<rparr>) else (TxFailed, w1))\<rparr>"


section \<open>Lemmas\<close>

lemma sameKey_refl [simp]: "sameKey a a k"
  by (simp add: sameKey_def)

lemma applyAll_simps [simp]:
  "applyAll [] ks = ks" "applyAll (c # cs) ks = applyAll cs (applyCmd c ks)"
  "applyAll (cs @ ds) ks = applyAll ds (applyAll cs ks)"
  by (simp_all add: applyAll_def)

lemma memStore_ok: "store_ok memStore mem_keys"
proof -
  have "distinct (map fst (map (\<lambda>f. (f, the (h f))) (filter (\<lambda>f. h f \<noteq> None) (remdups fs)))) \<and>
      map_of (map (\<lambda>f. (f, the (h f))) (filter (\<lambda>f. h f \<noteq> None) (remdups fs))) = h" if "dom h \<subseteq> set fs" for h fs
    using that by (auto simp: comp_def map_of_map_restrict fun_eq_iff restrict_map_def domIff subset_iff)
      (metis option.exhaust)
  then have "reads_ok memStore mem_keys"
    by (auto simp: reads_ok_def memStore_def split: if_splits)
  moreover have "writes_ok memStore mem_keys"
    by (auto simp: writes_ok_def memStore_def split: if_splits prod.splits)
  moreover have "writes_atomic memStore mem_keys"
    by (auto simp: writes_atomic_def memStore_def split: if_splits prod.splits)
  ultimately show ?thesis by (simp add: store_ok_def)
qed

lemma store_reads:
  assumes "store_ok R view"
  shows "rGet R w k = Inr r \<Longrightarrow> r = ks_string (view w) k"
    "rHGet R w k f = Inr r \<Longrightarrow> r = ks_hash (view w) k f"
    "rHExists R w k f = Inr b \<Longrightarrow> b = (ks_hash (view w) k f \<noteq> None)"
    "rHGetAll R w k = Inr kvs \<Longrightarrow> distinct (map fst kvs) \<and> map_of kvs = ks_hash (view w) k"
    "rSMembers R w k = Inr ms \<Longrightarrow> distinct ms \<and> set ms = ks_set (view w) k"
    "rSCard R w k = Inr n \<Longrightarrow> n = card (ks_set (view w) k)"
    "rSIsMember R w k m = Inr b \<Longrightarrow> b = (m \<in> ks_set (view w) k)"
  using assms unfolding store_ok_def reads_ok_def by (elim conjE; simp)+

lemma store_exec:
  assumes "store_ok R view" "rExec R w ks w1 cs = (Committed, w')"
  shows "k \<in> set ks \<Longrightarrow> sameKey (view w) (view w1) k" "view w' = applyAll cs (view w1)"
  using assms unfolding store_ok_def writes_ok_def by blast+

text \<open>The possible ends of a transaction attempt, and of a retried transaction.\<close>

lemma watchTx_Inr:
  assumes "store_ok R view" "watchTx R other watched t w = (Some (Inr x), w')"
  obtains "t = Keep x" "w' = w"
  | cs where "t = Commit cs x" "\<And>k. k \<in> set watched \<Longrightarrow> sameKey (view w) (view (other w)) k"
      "view w' = applyAll cs (view (other w))"
  using assms store_exec [OF assms(1)]
  by (auto simp: watchTx_def split: txn.splits prod.splits execResult.splits)

lemma watchTx_view:
  assumes "store_ok R view" "watchTx R other watched t w = (r, w')"
  shows "w' = w \<or> view w' = view (other w) \<or>
    (\<exists>cs x. t = Commit cs x \<and> (\<forall>k \<in> set watched. sameKey (view w) (view (other w)) k) \<and>
       view w' = applyAll cs (view (other w)))"
proof (cases t)
  case (Commit cs x)
  obtain z v where e: "rExec R w watched (other w) cs = (z, v)" by force
  with assms(2) Commit have "w' = v" by (auto simp: watchTx_def split: execResult.splits)
  with e Commit assms(1) show ?thesis
    by (cases z) (auto simp: store_ok_def writes_ok_def writes_atomic_def)
qed (use assms in \<open>auto simp: watchTx_def\<close>)

lemma retryTx_result:
  assumes "retryTx attempt i n w = (r, w')" "P w" and keep: "\<And>j v v'. P v \<Longrightarrow> attempt j v = (None, v') \<Longrightarrow> P v'"
  obtains "r = Inl errDirectoryRetry" "P w'" | j v where "P v" "attempt j v = (Some r, w')"
  using assms(1,2)
proof (induction n arbitrary: i w)
  case (Suc n)
  then show ?case using keep by (auto split: prod.splits option.splits)
qed simp

lemma retryTx_Inr:
  assumes "retryTx attempt i n w = (Inr x, w')"
  obtains j v where "attempt j v = (Some (Inr x), w')"
  using retryTx_result [OF assms, of "\<lambda>_. True"] by auto

lemma retryTx_invariant:
  assumes "retryTx attempt i n w = (r, w')" "P w" and keep: "\<And>j v r v'. P v \<Longrightarrow> attempt j v = (r, v') \<Longrightarrow> P v'"
  shows "P w'"
  using assms(1,2)
proof (induction n arbitrary: i w)
  case (Suc n)
  obtain z v where a: "attempt i w = (z, v)" by force
  with Suc keep have "P v" by blast
  with a Suc show ?case by (cases z) auto
qed simp

text \<open>What a write command can have done, whatever it reports.\<close>

lemma store_writes:
  assumes "store_ok R view"
  shows "rExec R w ks w1 cs = (TxFailed, w') \<Longrightarrow> view w' = view w1"
    "rExec R w ks w1 cs = (ExecError e, w') \<Longrightarrow> view w' = view w1 \<or>
      (\<forall>k \<in> set ks. sameKey (view w) (view w1) k) \<and> view w' = applyAll cs (view w1)"
    "rEval R w f = (Inr r, w') \<Longrightarrow> \<exists>cs. f (view w) = (r, cs) \<and> view w' = applyAll cs (view w)"
    "rEval R w f = (Inl e, w') \<Longrightarrow> view w' = view w \<or> view w' = applyAll (snd (f (view w))) (view w)"
    "rSetNX R w k v = (Inr True, w') \<Longrightarrow> ks_string (view w) k = None \<and> view w' = applyCmd (CSet k v) (view w)"
    "rSetNX R w k v = (Inr False, w') \<Longrightarrow> ks_string (view w) k \<noteq> None \<and> view w' = view w"
    "rSetNX R w k v = (Inl e, w') \<Longrightarrow> view w' = view w \<or>
      ks_string (view w) k = None \<and> view w' = applyCmd (CSet k v) (view w)"
  using assms unfolding store_ok_def writes_ok_def writes_atomic_def by meson+

lemma exec_view:
  assumes "store_ok R view" "rExec R w ks w1 cs = (z, w')"
  shows "view w' = view w1 \<or> (\<forall>k \<in> set ks. sameKey (view w) (view w1) k) \<and> view w' = applyAll cs (view w1)"
  using assms(2) store_writes(1,2) [OF assms(1)] store_exec [OF assms(1)] by (cases z) auto

lemma eval_view:
  assumes "store_ok R view" "rEval R w f = (r, w')"
  shows "view w' = view w \<or> view w' = applyAll (snd (f (view w))) (view w)"
proof (cases r)
  case (Inr a)
  with assms(2) store_writes(3) [OF assms(1)] show ?thesis by (metis snd_conv)
qed (use assms(2) store_writes(4) [OF assms(1)] in auto)

lemma SetNX_view:
  assumes "store_ok R view" "rSetNX R w k v = (r, w')"
  shows "view w' = view w \<or> ks_string (view w) k = None \<and> view w' = applyCmd (CSet k v) (view w)"
proof (cases r)
  case (Inr b)
  with assms(2) store_writes(5,6) [OF assms(1)] show ?thesis by (cases b) auto
qed (use assms(2) store_writes(7) [OF assms(1)] in auto)

end
