(* ===== verification/Directory_Records.thy ===== *)
theory Directory_Records
  imports Directory_Store
begin

text \<open>
  The stored records of the identity directory and their canonical forms: users, groups, access assignments, the
  keys they are stored under, entity tags and page cursors
  (\<^verbatim>\<open>internal/repository/identity_directory_repository.go\<close>, \<^verbatim>\<open>user_repository.go\<close>, the validators of
  \<^verbatim>\<open>exact_identity_repository.go\<close> and the records of \<^verbatim>\<open>pkg/domain/identity_directory.go\<close>).
\<close>

section \<open>Records\<close>

abbreviation IdentityGroupStatusActive :: string where "IdentityGroupStatusActive \<equiv> ''ACTIVE''"
abbreviation IdentityGroupStatusDisabled :: string where "IdentityGroupStatusDisabled \<equiv> ''DISABLED''"

record identityGroup =
  g_ID :: string
  g_Name :: string
  g_Description :: string
  g_Status :: string
  g_MemberCount :: int
  g_Version :: int
  g_CreatedAt :: gotime
  g_UpdatedAt :: gotime

record directoryUser =
  du_ID :: string
  du_Email :: string
  du_Status :: string
  du_AuthSource :: string
  du_HomeTenantID :: string
  du_PasswordChangeRequired :: bool
  du_CreatedAt :: gotime
  du_Version :: int

record accessProvenance =
  pv_Type :: string
  pv_Roles :: "string list"
  pv_AssignmentVersion :: int
  pv_GroupID :: string
  pv_GroupName :: string

record directoryCursor =
  dc_Version :: int
  dc_Kind :: string
  dc_Scope :: string
  dc_After :: string

text \<open>The library functions the repositories use: the Unicode tables, the JSON of each stored type, SHA-256 in
  hexadecimal and as bytes. \<open>dl_userFields\<close> is \<^verbatim>\<open>decodeExactObject\<close> with the narrower \<^verbatim>\<open>userFields\<close>, \<open>dl_exactMembership\<close>
  is \<^verbatim>\<open>decodeExactMembership\<close>, which insists on all members of the object and admits null roles.\<close>

record directoryLib =
  dl_unicode :: go_unicode
  dl_user :: "user codec"
  dl_userFields :: "string \<Rightarrow> user option"
  dl_group :: "identityGroup codec"
  dl_assignment :: "accessAssignment codec"
  dl_membership :: "membership codec"
  dl_exactMembership :: "string \<Rightarrow> membership option"
  dl_cursor :: "directoryCursor codec"
  dl_sha256hex :: "string \<Rightarrow> string"
  dl_sha256 :: "string \<Rightarrow> string"

section \<open>Keys\<close>

abbreviation usersHashV2 :: string where "usersHashV2 \<equiv> ''users_v2''"
abbreviation legacyUsersHash :: string where "legacyUsersHash \<equiv> ''users''"
abbreviation federatedUsersHash :: string where "federatedUsersHash \<equiv> ''saml_users_v2''"
abbreviation directoryUserEmailIndex :: string where "directoryUserEmailIndex \<equiv> ''identity:v2:directory:users:email''"
abbreviation directoryGroupsHash :: string where "directoryGroupsHash \<equiv> ''identity:v2:directory:groups''"
abbreviation directoryGroupOrderIndex :: string where "directoryGroupOrderIndex \<equiv> ''identity:v2:directory:groups:order''"
abbreviation directoryBackfillMarker :: string where "directoryBackfillMarker \<equiv> ''identity:v2:backfill:complete''"
abbreviation directoryBackfillVersion :: string where "directoryBackfillVersion \<equiv> ''v1''"
abbreviation directoryMaximumRelationships :: nat where "directoryMaximumRelationships \<equiv> 500"
abbreviation directoryMaximumPageSize :: nat where "directoryMaximumPageSize \<equiv> 200"
abbreviation directoryMaximumAssignments :: nat where "directoryMaximumAssignments \<equiv> 10000"

definition userByEmailKey :: "string \<Rightarrow> string" where
  "userByEmailKey email = ''userByEmail:'' @ email"

definition samlSubjectKey :: "string \<Rightarrow> string \<Rightarrow> string" where
  "samlSubjectKey tid externalSubject = ''samlSubject:'' @ tid @ '':'' @ externalSubject"

definition groupNameKey :: "directoryLib \<Rightarrow> string \<Rightarrow> string" where
  "groupNameKey L name = ''identity:v2:directory:groups:name:'' @ dl_sha256hex L (ToLower (dl_unicode L) name)"

definition groupMembersKey :: "string \<Rightarrow> string" where
  "groupMembersKey groupID = ''identity:v2:directory:groups:members:'' @ groupID"

definition userGroupsKey :: "string \<Rightarrow> string" where
  "userGroupsKey userID = ''identity:v2:directory:users:groups:'' @ userID"

definition assignmentsKey :: "string \<Rightarrow> string" where
  "assignmentsKey tenantID = ''identity:v2:access:assignments:'' @ tenantID"

definition lowerKind :: "string \<Rightarrow> string" where
  "lowerKind kind = map ascii_lower kind"

definition assignmentField :: "string \<Rightarrow> string \<Rightarrow> string" where
  "assignmentField kind i = lowerKind kind @ '':'' @ i"

definition principalTenantsKey :: "string \<Rightarrow> string \<Rightarrow> string" where
  "principalTenantsKey kind i = ''identity:v2:access:principal:'' @ lowerKind kind @ '':'' @ i @ '':tenants''"

section \<open>Identifiers and texts\<close>

definition identityChar :: "char \<Rightarrow> bool" where
  "identityChar c \<longleftrightarrow> inLower c \<or> inUpper c \<or> inDigit c \<or> c \<in> set ''._:-''"

definition canonicalUserIdentity :: "string \<Rightarrow> bool" where
  "canonicalUserIdentity v = (if length v < 1 \<or> length v > 128 then False else list_all identityChar v)"

definition canonicalEmail :: "string \<Rightarrow> bool" where
  "canonicalEmail v =
     (if length v < 3 \<or> length v > 254 \<or> length (filter (\<lambda>c. c = CHR ''@'') v) \<noteq> 1 then False
      else if hd v = CHR ''@'' \<or> last v = CHR ''@'' then False
      else list_all graphic v)"

definition normalizeDirectoryEmail :: "directoryLib \<Rightarrow> string \<Rightarrow> string" where
  "normalizeDirectoryEmail L v =
     (let e = ToLower (dl_unicode L) (TrimSpace v) in if \<not> canonicalEmail e then [] else e)"

definition validExternalSubject :: "string \<Rightarrow> bool" where
  "validExternalSubject v \<longleftrightarrow> length v \<le> 512 \<and> validIdentityText v 512"

definition validUserStatus :: "string \<Rightarrow> bool" where
  "validUserStatus s \<longleftrightarrow> s = UserStatusActive \<or> s = UserStatusInactive \<or> s = UserStatusSuspended"

definition invalidSearch :: string where "invalidSearch = ''!invalid!''"

definition normalizeDirectorySearch :: "directoryLib \<Rightarrow> string \<Rightarrow> string" where
  "normalizeDirectorySearch L v =
     (let s = ToLower (dl_unicode L) (TrimSpace v) in
      if s = [] then []
      else if length s > 254 \<or> \<not> ValidString s then invalidSearch
      else if \<not> list_all graphic s then invalidSearch
      else s)"

section \<open>Users\<close>

definition canonicalDirectoryStorageUser :: "directoryLib \<Rightarrow> int \<Rightarrow> user option \<Rightarrow> user res" where
  "canonicalDirectoryStorageUser L now input =
     (case input of
        None \<Rightarrow> Inl ErrInvalidArgument
      | Some u \<Rightarrow>
          if \<not> canonicalUserIdentity (u_Id u) \<or> u_Revision u < 0 then Inl ErrInvalidArgument
          else let email = normalizeDirectoryEmail L (u_Email u);
                   authSource = (if u_AuthSource u = [] then AuthSourcePassword else u_AuthSource u) in
            if email = [] then Inl ErrInvalidArgument
            else if authSource \<noteq> AuthSourcePassword \<and> authSource \<noteq> AuthSourceSAML then Inl ErrInvalidArgument
            else if authSource = AuthSourcePassword \<and> TrimSpace (u_Password u) = [] \<or>
                    authSource = AuthSourceSAML \<and> \<not> validExternalSubject (u_ExternalSubject u)
            then Inl ErrInvalidArgument
            else let created = (if u_CreatedAt u = None then Some now else u_CreatedAt u);
                     status = (if u_Status u = [] then UserStatusActive else u_Status u) in
              if \<not> validUserStatus status then Inl ErrInvalidArgument
              else let c = u\<lparr>u_CreatedAt := created, u_Status := status,
                             u_Role := (if u_Role u = [] then RoleCompanyEmployee else u_Role u),
                             u_Email := email, u_AuthSource := authSource\<rparr> in
                Inr (if authSource = AuthSourceSAML then c\<lparr>u_Password := [], u_PasswordChangeRequired := False\<rparr> else c))"

definition canonicalFederatedUser :: "directoryLib \<Rightarrow> user option \<Rightarrow> user res" where
  "canonicalFederatedUser L input =
     (case input of
        None \<Rightarrow> Inl ErrInvalidArgument
      | Some u \<Rightarrow>
          if \<not> canonicalUserIdentity (u_Id u) \<or> u_AuthSource u \<noteq> AuthSourceSAML \<or>
             \<not> validExternalSubject (u_ExternalSubject u) \<or>
             (case u_CompanyId u of None \<Rightarrow> True | Some company \<Rightarrow> \<not> activeTenantIdentity company) \<or>
             \<not> canonicalEmail (u_Email u) \<or> \<not> validUserStatus (u_Status u) \<or> u_TokenVersion u < 0
          then Inl ErrInvalidArgument
          else Inr (u\<lparr>u_Password := [], u_PasswordChangeRequired := False,
                     u_Email := normalizeDirectoryEmail L (u_Email u)\<rparr>))"

definition directoryUserProjection :: "user \<Rightarrow> directoryUser" where
  "directoryUserProjection u =
     \<lparr>du_ID = u_Id u, du_Email = u_Email u, du_Status = u_Status u, du_AuthSource = u_AuthSource u,
      du_HomeTenantID = (case u_CompanyId u of None \<Rightarrow> [] | Some company \<Rightarrow> TrimSpace company),
      du_PasswordChangeRequired = u_PasswordChangeRequired u, du_CreatedAt = u_CreatedAt u,
      du_Version = u_Revision u + 1\<rparr>"

definition directoryUserIndexMember :: "string \<Rightarrow> string \<Rightarrow> string" where
  "directoryUserIndexMember email userID = email @ [CHR 0x00] @ userID"

text \<open>The text before and after the last occurrence of a byte.\<close>

definition splitLast :: "char \<Rightarrow> string \<Rightarrow> (string \<times> string) option" where
  "splitLast c s =
     (if c \<notin> set s then None
      else let after = rev (takeWhile (\<lambda>x. x \<noteq> c) (rev s)) in
        Some (take (length s - length after - 1) s, after))"

definition parseDirectoryUserIndexMember :: "directoryLib \<Rightarrow> string \<Rightarrow> string \<times> string \<times> bool" where
  "parseDirectoryUserIndexMember L value =
     (case splitLast CHR 0x00 value of
        None \<Rightarrow> ([], [], False)
      | Some (email, userID) \<Rightarrow>
          if email = [] \<or> userID = [] then ([], [], False)
          else (email, userID, normalizeDirectoryEmail L email = email \<and> canonicalUserIdentity userID))"

section \<open>Groups\<close>

definition canonicalGroupFields :: "string \<Rightarrow> string \<Rightarrow> (string \<times> string) res" where
  "canonicalGroupFields name0 description0 =
     (let name = TrimSpace name0; description = TrimSpace description0 in
      if \<not> validIdentityText name 128 \<or> description \<noteq> [] \<and> \<not> validIdentityText description 512
      then Inl ErrInvalidArgument else Inr (name, description))"

definition canonicalGroupID :: "string \<Rightarrow> bool" where
  "canonicalGroupID v \<longleftrightarrow> HasPrefix v ''grp_'' \<and> canonicalUserIdentity v"

definition decodeGroup :: "directoryLib \<Rightarrow> string \<Rightarrow> string \<Rightarrow> identityGroup res" where
  "decodeGroup L raw expectedID =
     (case unmarshal (dl_group L) raw of
        Inl _ \<Rightarrow> Inl ErrDirectoryInvariant
      | Inr g \<Rightarrow>
          if g_ID g \<noteq> expectedID \<or> \<not> canonicalGroupID (g_ID g) \<or> g_Version g < 1 \<or> g_CreatedAt g = None \<or>
             g_UpdatedAt g = None \<or>
             g_Status g \<noteq> IdentityGroupStatusActive \<and> g_Status g \<noteq> IdentityGroupStatusDisabled
          then Inl ErrDirectoryInvariant
          else (case canonicalGroupFields (g_Name g) (g_Description g) of
                  Inl _ \<Rightarrow> Inl ErrDirectoryInvariant
                | Inr (name, description) \<Rightarrow>
                    if name \<noteq> g_Name g \<or> description \<noteq> g_Description g then Inl ErrDirectoryInvariant else Inr g))"

definition groupIndexMember :: "directoryLib \<Rightarrow> string \<Rightarrow> string \<Rightarrow> string" where
  "groupIndexMember L name i = ToLower (dl_unicode L) name @ [CHR 0x00] @ i"

definition parseGroupIndexMember :: "string \<Rightarrow> string \<times> string \<times> bool" where
  "parseGroupIndexMember value =
     (case splitLast CHR 0x00 value of
        None \<Rightarrow> ([], [], False)
      | Some (name, i) \<Rightarrow> if name = [] \<or> i = [] then ([], [], False) else (name, i, canonicalGroupID i))"

section \<open>Access assignments\<close>

definition canonicalDirectoryRoles :: "string list \<Rightarrow> string list res" where
  "canonicalDirectoryRoles vs =
     (if length vs < 1 \<or> length vs > 100 then Inl ErrInvalidArgument
      else let rs = map TrimSpace vs in
        if \<not> list_all canonicalMembershipRoleName rs then Inl ErrInvalidArgument
        else if \<not> distinct rs then Inl ErrInvalidArgument
        else Inr (sort rs))"

definition canonicalPrincipal :: "string \<Rightarrow> string \<Rightarrow> bool" where
  "canonicalPrincipal kind i =
     (if kind = AccessPrincipalUser then canonicalUserIdentity i
      else if kind = AccessPrincipalGroup then canonicalGroupID i
      else False)"

definition parseAssignmentField :: "directoryLib \<Rightarrow> string \<Rightarrow> string \<times> string \<times> bool" where
  "parseAssignmentField L value =
     (case dropWhile (\<lambda>c. c \<noteq> CHR '':'') value of
        [] \<Rightarrow> ([], [], False)
      | _ # i \<Rightarrow>
          let kind = ToUpper (dl_unicode L) (takeWhile (\<lambda>c. c \<noteq> CHR '':'') value) in (kind, i, canonicalPrincipal kind i))"

definition decodeAssignment :: "directoryLib \<Rightarrow> string \<Rightarrow> string \<Rightarrow> string \<Rightarrow> string \<Rightarrow> accessAssignment res" where
  "decodeAssignment L raw tenantID kind principalID =
     (case unmarshal (dl_assignment L) raw of
        Inl _ \<Rightarrow> Inl ErrDirectoryInvariant
      | Inr a \<Rightarrow>
          if a_TenantID a \<noteq> tenantID \<or> a_PrincipalType a \<noteq> kind \<or> a_PrincipalID a \<noteq> principalID \<or> a_Version a < 1 \<or>
             a_CreatedAt a = None \<or> a_UpdatedAt a = None
          then Inl ErrDirectoryInvariant
          else (case canonicalDirectoryRoles (a_Roles a) of
                  Inl _ \<Rightarrow> Inl ErrDirectoryInvariant
                | Inr roles \<Rightarrow> if roles \<noteq> a_Roles a then Inl ErrDirectoryInvariant else Inr a))"

section \<open>Entity tags and cursors\<close>

definition FormatInt :: "int \<Rightarrow> string" where
  "FormatInt n = (if n < 0 then CHR ''-'' # Itoa (nat (- n)) else Itoa (nat n))"

definition IdentityETag :: "int \<Rightarrow> string" where
  "IdentityETag version = [CHR 0x22] @ FormatInt version @ [CHR 0x22]"

definition matchesVersion :: "string \<Rightarrow> int \<Rightarrow> bool" where
  "matchesVersion value version \<longleftrightarrow> value = ''*'' \<or> value = IdentityETag version"

text \<open>\<^verbatim>\<open>base64.RawURLEncoding\<close> without \<^verbatim>\<open>Strict\<close>: trailing bits are ignored.\<close>

fun b64quantaLax :: "nat list \<Rightarrow> string option" where
  "b64quantaLax [] = Some []"
| "b64quantaLax [x] = None"
| "b64quantaLax [x, y] = Some [char_of (x * 4 + y div 16)]"
| "b64quantaLax [x, y, z] = Some [char_of (x * 4 + y div 16), char_of (y mod 16 * 16 + z div 4)]"
| "b64quantaLax (x # y # z # w # r) =
     map_option (\<lambda>t. char_of (x * 4 + y div 16) # char_of (y mod 16 * 16 + z div 4) #
       char_of (z mod 4 * 64 + w) # t) (b64quantaLax r)"

definition b64decode :: "string \<Rightarrow> string option" where
  "b64decode s =
     (let vs = map b64val (filter (\<lambda>c. c \<noteq> CHR 0x0A \<and> c \<noteq> CHR 0x0D) s) in
      if None \<in> set vs then None else b64quantaLax (map the vs))"

definition encodeDirectoryCursor :: "directoryLib \<Rightarrow> string \<Rightarrow> string \<Rightarrow> string \<Rightarrow> string res" where
  "encodeDirectoryCursor L kind scope after =
     (case marshal (dl_cursor L) \<lparr>dc_Version = 1, dc_Kind = kind, dc_Scope = scope, dc_After = after\<rparr> of
        Inl e \<Rightarrow> Inl e | Inr raw \<Rightarrow> Inr (b64encode raw))"

definition decodeDirectoryCursor :: "directoryLib \<Rightarrow> string \<Rightarrow> string \<Rightarrow> string \<Rightarrow> string res" where
  "decodeDirectoryCursor L encoded kind scope =
     (if encoded = [] then Inr []
      else if length encoded > 1024 then Inl ErrInvalidArgument
      else (case b64decode encoded of
              None \<Rightarrow> Inl ErrInvalidArgument
            | Some raw \<Rightarrow>
                (case unmarshal (dl_cursor L) raw of
                   Inl _ \<Rightarrow> Inl ErrInvalidArgument
                 | Inr c \<Rightarrow>
                     if dc_Version c \<noteq> 1 \<or> dc_Kind c \<noteq> kind \<or> dc_Scope c \<noteq> scope \<or> dc_After c = []
                     then Inl ErrInvalidArgument else Inr (dc_After c))))"

section \<open>Lemmas on keys\<close>

text \<open>Keys of different families differ, and a key determines what it was built from.\<close>

lemmas key_defs = userByEmailKey_def samlSubjectKey_def groupNameKey_def groupMembersKey_def userGroupsKey_def
  assignmentsKey_def principalTenantsKey_def

lemma key_inj [simp]:
  "groupMembersKey g = groupMembersKey g' \<longleftrightarrow> g = g'"
  "userGroupsKey u = userGroupsKey u' \<longleftrightarrow> u = u'"
  "assignmentsKey t = assignmentsKey t' \<longleftrightarrow> t = t'"
  "userByEmailKey e = userByEmailKey e' \<longleftrightarrow> e = e'"
  "principalTenantsKey k i = principalTenantsKey k i' \<longleftrightarrow> i = i'"
  "assignmentField k i = assignmentField k i' \<longleftrightarrow> i = i'"
  by (simp_all add: key_defs assignmentField_def)

lemma lowerKind_eval [simp]:
  "lowerKind AccessPrincipalUser = ''user''" "lowerKind AccessPrincipalGroup = ''group''"
  by code_simp+

lemma principal_keys_differ [simp]:
  "principalTenantsKey AccessPrincipalUser i \<noteq> principalTenantsKey AccessPrincipalGroup i'"
  "principalTenantsKey AccessPrincipalGroup i \<noteq> principalTenantsKey AccessPrincipalUser i'"
  "assignmentField AccessPrincipalUser i \<noteq> assignmentField AccessPrincipalGroup i'"
  "assignmentField AccessPrincipalGroup i \<noteq> assignmentField AccessPrincipalUser i'"
  by (simp_all add: principalTenantsKey_def assignmentField_def)

lemma key_families_differ [simp]:
  "groupMembersKey g \<noteq> userGroupsKey u" "userGroupsKey u \<noteq> groupMembersKey g"
  "groupMembersKey g \<noteq> principalTenantsKey k i" "principalTenantsKey k i \<noteq> groupMembersKey g"
  "userGroupsKey u \<noteq> principalTenantsKey k i" "principalTenantsKey k i \<noteq> userGroupsKey u"
  "assignmentsKey t \<noteq> groupMembersKey g" "groupMembersKey g \<noteq> assignmentsKey t"
  "assignmentsKey t \<noteq> userGroupsKey u" "userGroupsKey u \<noteq> assignmentsKey t"
  "assignmentsKey t \<noteq> principalTenantsKey k i" "principalTenantsKey k i \<noteq> assignmentsKey t"
  "groupMembersKey g \<noteq> userByEmailKey e" "userGroupsKey u \<noteq> userByEmailKey e" "assignmentsKey t \<noteq> userByEmailKey e"
  "principalTenantsKey k i \<noteq> userByEmailKey e"
  "groupMembersKey g \<noteq> groupNameKey L n" "userGroupsKey u \<noteq> groupNameKey L n" "assignmentsKey t \<noteq> groupNameKey L n"
  "principalTenantsKey k i \<noteq> groupNameKey L n"
  "groupMembersKey g \<noteq> samlSubjectKey c x" "userGroupsKey u \<noteq> samlSubjectKey c x" "assignmentsKey t \<noteq> samlSubjectKey c x"
  "principalTenantsKey k i \<noteq> samlSubjectKey c x"
  "assignmentsKey t \<noteq> usersHashV2" "assignmentsKey t \<noteq> directoryGroupsHash" "assignmentsKey t \<noteq> legacyUsersHash"
  "assignmentsKey t \<noteq> federatedUsersHash"
  "userByEmailKey e \<noteq> usersHashV2" "userByEmailKey e \<noteq> directoryGroupsHash"
  "userGroupsKey u \<noteq> usersHashV2" "groupMembersKey u \<noteq> usersHashV2" "principalTenantsKey k i \<noteq> usersHashV2"
  "userGroupsKey u \<noteq> directoryGroupsHash" "groupMembersKey u \<noteq> directoryGroupsHash"
  "principalTenantsKey k i \<noteq> directoryGroupsHash" "groupNameKey L n \<noteq> directoryGroupsHash" "groupNameKey L n \<noteq> usersHashV2"
  by (simp_all add: key_defs)

end
