(* ===== verification/Directory_Users.thy ===== *)
theory Directory_Users
  imports Directory_Records
begin

text \<open>
  Users: the writes and reads of \<^verbatim>\<open>identity_directory_repository.go\<close>, the \<^verbatim>\<open>UserRepository\<close> of \<^verbatim>\<open>user_repository.go\<close>, the
  import of legacy records (\<^verbatim>\<open>user_legacy_import.go\<close>) and the reads of \<^verbatim>\<open>directory_user_deletion.go\<close>. Deletions are in
  the theory \<open>Directory_Deletion\<close>, one-time codes in \<open>Oob_Codes\<close>.

  \<open>others i\<close> is what other clients do at the \<open>i\<close>-th point of a call at which they may act, \<open>clock i\<close> the \<open>i\<close>-th
  clock reading. An operation that overwrites the caller's user returns the user as the caller sees it afterwards.
\<close>

section \<open>Reads\<close>

text \<open>A stored user of \<^verbatim>\<open>users_v2\<close> in canonical form, or the error; \<open>missing\<close> is the error for an absent field.\<close>

definition canonicalStoredUser :: "'w store \<Rightarrow> directoryLib \<Rightarrow> int \<Rightarrow> 'w \<Rightarrow> string \<Rightarrow> gerror \<Rightarrow> user res" where
  "canonicalStoredUser R L now w userID missing =
     (case rHGet R w usersHashV2 userID of
        Inl e \<Rightarrow> Inl e
      | Inr None \<Rightarrow> Inl missing
      | Inr (Some raw) \<Rightarrow>
          (case unmarshal (dl_user L) raw of
             Inl _ \<Rightarrow> Inl ErrDirectoryInvariant
           | Inr stored \<Rightarrow>
               (case canonicalDirectoryStorageUser L now (Some stored) of
                  Inl _ \<Rightarrow> Inl ErrDirectoryInvariant
                | Inr u \<Rightarrow> if u_Id u \<noteq> userID then Inl ErrDirectoryInvariant else Inr u)))"

definition decodeDeletionUser :: "directoryLib \<Rightarrow> int \<Rightarrow> string \<Rightarrow> string \<Rightarrow> string \<Rightarrow> user res" where
  "decodeDeletionUser L now raw userID hash =
     (if length raw = 0 \<or> length raw > 16384 then Inl ErrDirectoryInvariant
      else (case exactObject (dl_user L) raw of
              None \<Rightarrow> Inl ErrDirectoryInvariant
            | Some u \<Rightarrow>
                if u_Id u \<noteq> userID \<or> u_TokenVersion u < 0 \<or> u_Revision u < 0 \<or> u_Revision u = 2 ^ 63 - 1 \<or>
                   u_CreatedAt u = None \<or> \<not> validUserStatus (u_Status u) \<or>
                   u_Role u \<noteq> RoleAdmin \<and> u_Role u \<noteq> RoleCompanyAdmin \<and> u_Role u \<noteq> RoleCompanyEmployee
                then Inl ErrDirectoryInvariant
                else (case (if hash = federatedUsersHash then canonicalFederatedUser L (Some u)
                            else canonicalDirectoryStorageUser L now (Some u)) of
                        Inl _ \<Rightarrow> Inl ErrDirectoryInvariant
                      | Inr c \<Rightarrow>
                          if u_Email c \<noteq> u_Email u \<or> u_AuthSource c \<noteq> u_AuthSource u then Inl ErrDirectoryInvariant
                          else Inr c)))"

text \<open>The loop over the two hashes: a user found in both is an error.\<close>

fun deletionStorageUserIn ::
  "'w store \<Rightarrow> directoryLib \<Rightarrow> int \<Rightarrow> 'w \<Rightarrow> string \<Rightarrow> string list \<Rightarrow> (user \<times> string) option \<Rightarrow> (user \<times> string) option res" where
  "deletionStorageUserIn R L now w userID [] found = Inr found"
| "deletionStorageUserIn R L now w userID (hash # hashes) found =
     (case rHGet R w hash userID of
        Inl e \<Rightarrow> Inl e
      | Inr None \<Rightarrow> deletionStorageUserIn R L now w userID hashes found
      | Inr (Some raw) \<Rightarrow>
          if found \<noteq> None then Inl ErrDirectoryInvariant
          else (case decodeDeletionUser L now raw userID hash of
                  Inl e \<Rightarrow> Inl e
                | Inr u \<Rightarrow> deletionStorageUserIn R L now w userID hashes (Some (u, hash))))"

definition deletionStorageUser :: "'w store \<Rightarrow> directoryLib \<Rightarrow> int \<Rightarrow> 'w \<Rightarrow> string \<Rightarrow> (user \<times> string) option res" where
  "deletionStorageUser R L now w userID = deletionStorageUserIn R L now w userID [usersHashV2, federatedUsersHash] None"

definition readStorageUser :: "'w store \<Rightarrow> directoryLib \<Rightarrow> int \<Rightarrow> 'w \<Rightarrow> string \<Rightarrow> user option res" where
  "readStorageUser R L now w userID =
     (if \<not> canonicalUserIdentity userID then Inl ErrInvalidArgument
      else (case deletionStorageUser R L now w userID of
              Inl e \<Rightarrow> Inl e | Inr found \<Rightarrow> Inr (map_option fst found)))"

definition GetDirectoryUser :: "'w store \<Rightarrow> directoryLib \<Rightarrow> int \<Rightarrow> 'w \<Rightarrow> string \<Rightarrow> directoryUser option res" where
  "GetDirectoryUser R L now w userID =
     (case readStorageUser R L now w userID of
        Inl e \<Rightarrow> Inl e | Inr ou \<Rightarrow> Inr (map_option directoryUserProjection ou))"

definition FindDirectoryUserByEmail :: "'w store \<Rightarrow> directoryLib \<Rightarrow> int \<Rightarrow> 'w \<Rightarrow> string \<Rightarrow> directoryUser option res" where
  "FindDirectoryUserByEmail R L now w email0 =
     (let email = normalizeDirectoryEmail L email0 in
      if email = [] then Inl ErrInvalidArgument
      else (case rGet R w (userByEmailKey email) of
              Inl e \<Rightarrow> Inl e
            | Inr None \<Rightarrow> Inr None
            | Inr (Some userID) \<Rightarrow>
                (case readStorageUser R L now w userID of
                   Inl e \<Rightarrow> Inl e
                 | Inr None \<Rightarrow> Inl ErrDirectoryInvariant
                 | Inr (Some u) \<Rightarrow>
                     if u_Email u \<noteq> email then Inl ErrDirectoryInvariant
                     else Inr (Some (directoryUserProjection u)))))"

text \<open>
  \<^verbatim>\<open>FindByID\<close> looks at the text before it looks at the error. The client returns the empty text with every
  error, so a hash that cannot be read counts as one without the user.
\<close>

fun findByIDIn :: "'w store \<Rightarrow> directoryLib \<Rightarrow> 'w \<Rightarrow> string \<Rightarrow> string list \<Rightarrow> user option res" where
  "findByIDIn R L w userID [] = Inr None"
| "findByIDIn R L w userID (hash # hashes) =
     (case rHGet R w hash userID of
        Inl _ \<Rightarrow> findByIDIn R L w userID hashes
      | Inr None \<Rightarrow> findByIDIn R L w userID hashes
      | Inr (Some raw) \<Rightarrow>
          if raw = [] then findByIDIn R L w userID hashes
          else (case unmarshal (dl_user L) raw of
                  Inl _ \<Rightarrow> Inl ErrDirectoryInvariant
                | Inr u \<Rightarrow> if u_Id u \<noteq> userID then Inl ErrDirectoryInvariant else Inr (Some u)))"

definition FindByID :: "'w store \<Rightarrow> directoryLib \<Rightarrow> 'w \<Rightarrow> string \<Rightarrow> user option res" where
  "FindByID R L w userID =
     (if \<not> canonicalUserIdentity userID then Inl ErrInvalidArgument
      else findByIDIn R L w userID [usersHashV2, federatedUsersHash])"

section \<open>Directory writes\<close>

definition createDirectoryUserScript ::
  "string \<Rightarrow> string \<Rightarrow> string \<Rightarrow> string \<Rightarrow> keyspace \<Rightarrow> string list \<times> cmd list" where
  "createDirectoryUserScript userID emailKey payload indexMember ks =
     (if ks_string ks emailKey \<noteq> None \<and> ks_string ks emailKey \<noteq> Some userID then ([''duplicate''], [])
      else if ks_hash ks usersHashV2 userID \<noteq> None \<and> ks_hash ks usersHashV2 userID \<noteq> Some payload
      then ([''id-conflict''], [])
      else ([''ok''],
            [CHSet usersHashV2 userID payload, CSet emailKey userID, CZAdd directoryUserEmailIndex indexMember]))"

definition CreateDirectoryUser :: "'w store \<Rightarrow> directoryLib \<Rightarrow> int \<Rightarrow> 'w \<Rightarrow> user option \<Rightarrow> directoryUser res \<times> 'w" where
  "CreateDirectoryUser R L now w input =
     (case canonicalDirectoryStorageUser L now input of
        Inl _ \<Rightarrow> (Inl ErrInvalidArgument, w)
      | Inr c \<Rightarrow>
          let u = c\<lparr>u_Revision := 0\<rparr> in
          (case marshal (dl_user L) u of
             Inl _ \<Rightarrow> (Inl ErrInvalidArgument, w)
           | Inr payload \<Rightarrow>
               (case rEval R w (createDirectoryUserScript (u_Id u) (userByEmailKey (u_Email u)) payload
                       (directoryUserIndexMember (u_Email u) (u_Id u))) of
                  (Inl e, w') \<Rightarrow> (Inl e, w')
                | (Inr status, w') \<Rightarrow>
                    (if status = [''duplicate''] then (Inl ErrEmailExists, w')
                     else if status = [''id-conflict''] then (Inl ErrDirectoryInvariant, w')
                     else if status = [''ok''] then (Inr (directoryUserProjection u), w')
                     else (Inl ErrDirectoryInvariant, w')))))"

definition CreateUser :: "'w store \<Rightarrow> directoryLib \<Rightarrow> int \<Rightarrow> 'w \<Rightarrow> user option \<Rightarrow> gerror option \<times> 'w" where
  "CreateUser R L now w input =
     (case CreateDirectoryUser R L now w input of (Inl e, w') \<Rightarrow> (Some e, w') | (Inr _, w') \<Rightarrow> (None, w'))"

text \<open>The function of the transaction of \<^verbatim>\<open>UpdateDirectoryUser\<close>, in the world of its \<^verbatim>\<open>WATCH\<close>.\<close>

definition updateDirectoryUserTx ::
  "'w store \<Rightarrow> directoryLib \<Rightarrow> int \<Rightarrow> user \<Rightarrow> string \<Rightarrow> 'w \<Rightarrow> user txn" where
  "updateDirectoryUserTx R L now u previousEmail w =
     (case canonicalStoredUser R L now w (u_Id u) ErrNotFound of
        Inl e \<Rightarrow> Abort e
      | Inr current \<Rightarrow>
          if u_Revision current \<noteq> u_Revision u then Abort ErrVersionConflict
          else if u_Email current \<noteq> previousEmail then Again
          else
            (case (if previousEmail = u_Email u then Inr None else rGet R w (userByEmailKey (u_Email u))) of
               Inl e \<Rightarrow> Abort e
             | Inr owner \<Rightarrow>
                 if owner \<noteq> None \<and> owner \<noteq> Some (u_Id u) then Abort ErrEmailExists
                 else let updated = u\<lparr>u_Revision := u_Revision current + 1\<rparr> in
                   (case marshal (dl_user L) updated of
                      Inl _ \<Rightarrow> Abort ErrInvalidArgument
                    | Inr payload \<Rightarrow>
                        Commit
                          ([CHSet usersHashV2 (u_Id u) payload, CSet (userByEmailKey (u_Email u)) (u_Id u),
                            CZAdd directoryUserEmailIndex (directoryUserIndexMember (u_Email u) (u_Id u))] @
                           (if previousEmail \<noteq> u_Email u
                            then [CDel (userByEmailKey previousEmail),
                                  CZRem directoryUserEmailIndex (directoryUserIndexMember previousEmail (u_Id u))]
                            else [])) updated)))"

definition updateDirectoryUserWatched :: "user \<Rightarrow> string \<Rightarrow> string list" where
  "updateDirectoryUserWatched u previousEmail =
     [usersHashV2, userByEmailKey previousEmail, userByEmailKey (u_Email u), directoryUserEmailIndex]"

text \<open>One attempt: the user is read, then other clients may act, then the transaction.\<close>

definition updateDirectoryUserAttempt ::
  "'w store \<Rightarrow> directoryLib \<Rightarrow> (nat \<Rightarrow> 'w \<Rightarrow> 'w) \<Rightarrow> (nat \<Rightarrow> int) \<Rightarrow> user \<Rightarrow> nat \<Rightarrow> 'w \<Rightarrow> user res option \<times> 'w" where
  "updateDirectoryUserAttempt R L others clock u i w =
     (case canonicalStoredUser R L (clock (2 * i + 1)) w (u_Id u) ErrNotFound of
        Inl e \<Rightarrow> (Some (Inl e), w)
      | Inr observed \<Rightarrow>
          let w1 = others (2 * i) w in
          watchTx R (others (2 * i + 1)) (updateDirectoryUserWatched u (u_Email observed))
            (updateDirectoryUserTx R L (clock (2 * i + 2)) u (u_Email observed) w1) w1)"

definition UpdateDirectoryUser ::
  "'w store \<Rightarrow> directoryLib \<Rightarrow> (nat \<Rightarrow> 'w \<Rightarrow> 'w) \<Rightarrow> (nat \<Rightarrow> int) \<Rightarrow> 'w \<Rightarrow> user option \<Rightarrow> user res \<times> 'w" where
  "UpdateDirectoryUser R L others clock w input =
     (case canonicalDirectoryStorageUser L (clock 0) input of
        Inl _ \<Rightarrow> (Inl ErrInvalidArgument, w)
      | Inr u \<Rightarrow> retryTx (updateDirectoryUserAttempt R L others clock u) 0 directoryMaximumRetries w)"

definition consumeTemporaryPasswordTx ::
  "'w store \<Rightarrow> directoryLib \<Rightarrow> int \<Rightarrow> string \<Rightarrow> string \<Rightarrow> int \<Rightarrow> string \<Rightarrow> 'w \<Rightarrow> unit txn" where
  "consumeTemporaryPasswordTx R L now userID expectedHash expectedVersion replacementHash w =
     (case canonicalStoredUser R L now w userID ErrInvalidCreds of
        Inl e \<Rightarrow> Abort e
      | Inr c \<Rightarrow>
          if u_Status c \<noteq> UserStatusActive \<or> u_AuthSource c \<noteq> AuthSourcePassword \<or> \<not> u_PasswordChangeRequired c \<or>
             u_Password c \<noteq> expectedHash \<or> u_TokenVersion c \<noteq> expectedVersion
          then Abort ErrInvalidCreds
          else
            (case marshal (dl_user L) (c\<lparr>u_Password := replacementHash, u_PasswordChangeRequired := False,
                    u_TokenVersion := u_TokenVersion c + 1, u_Revision := u_Revision c + 1\<rparr>) of
               Inl _ \<Rightarrow> Abort ErrDirectoryInvariant
             | Inr payload \<Rightarrow> Commit [CHSet usersHashV2 userID payload] ()))"

definition ConsumeTemporaryPassword ::
  "'w store \<Rightarrow> directoryLib \<Rightarrow> (nat \<Rightarrow> 'w \<Rightarrow> 'w) \<Rightarrow> (nat \<Rightarrow> int) \<Rightarrow> 'w \<Rightarrow> string \<Rightarrow> string \<Rightarrow> int \<Rightarrow> string \<Rightarrow>
   unit res \<times> 'w" where
  "ConsumeTemporaryPassword R L others clock w userID expectedHash expectedVersion replacementHash =
     (if \<not> canonicalUserIdentity userID \<or> TrimSpace expectedHash = [] \<or> expectedVersion < 0 \<or>
         TrimSpace replacementHash = []
      then (Inl ErrInvalidArgument, w)
      else retryTx (\<lambda>i v. watchTx R (others i) [usersHashV2]
             (consumeTemporaryPasswordTx R L (clock i) userID expectedHash expectedVersion replacementHash v) v)
             0 directoryMaximumRetries w)"

end
