(* ===== verification/Directory_Groups.thy ===== *)
theory Directory_Groups
  imports Directory_Users
begin

text \<open>
  Groups of the identity directory and the pages over users and groups (\<^verbatim>\<open>identity_directory_repository.go\<close>): a group
  record, its name index, its members and the reverse index from users to groups, changed in one transaction under
  the version of the group. Conventions as in the theory \<open>Directory_Users\<close>; the loops over a Go map follow the order
  in which the client delivers the entries.
\<close>

section \<open>Groups\<close>

definition GetGroup :: "'w store \<Rightarrow> directoryLib \<Rightarrow> 'w \<Rightarrow> string \<Rightarrow> identityGroup option res" where
  "GetGroup R L w groupID =
     (if \<not> canonicalGroupID groupID then Inl ErrInvalidArgument
      else
        (case rHGet R w directoryGroupsHash groupID of
           Inl e \<Rightarrow> Inl e
         | Inr None \<Rightarrow> Inr None
         | Inr (Some raw) \<Rightarrow>
             (case decodeGroup L raw groupID of
                Inl e \<Rightarrow> Inl e
              | Inr g \<Rightarrow>
                  (case rSCard R w (groupMembersKey groupID) of
                     Inl _ \<Rightarrow> Inl ErrDirectoryInvariant
                   | Inr n \<Rightarrow>
                       if n > directoryMaximumRelationships then Inl ErrDirectoryInvariant
                       else Inr (Some (g\<lparr>g_MemberCount := int n\<rparr>))))))"

text \<open>The name is reserved first, then the record is written; a failed write gives the name back.\<close>

definition CreateGroup ::
  "'w store \<Rightarrow> directoryLib \<Rightarrow> (nat \<Rightarrow> 'w \<Rightarrow> 'w) \<Rightarrow> int \<Rightarrow> string \<Rightarrow> 'w \<Rightarrow> string \<Rightarrow> string \<Rightarrow> identityGroup res \<times> 'w" where
  "CreateGroup R L others now uuid w name0 description0 =
     (case canonicalGroupFields name0 description0 of
        Inl _ \<Rightarrow> (Inl ErrInvalidArgument, w)
      | Inr (name, description) \<Rightarrow>
          let g = \<lparr>g_ID = ''grp_'' @ uuid, g_Name = name, g_Description = description,
                   g_Status = IdentityGroupStatusActive, g_MemberCount = 0, g_Version = 1, g_CreatedAt = Some now,
                   g_UpdatedAt = Some now\<rparr>;
              payload = (case marshal (dl_group L) g of Inl _ \<Rightarrow> [] | Inr p \<Rightarrow> p);
              nameKey = groupNameKey L name in
          (case rSetNX R w nameKey (g_ID g) of
             (Inl e, w1) \<Rightarrow> (Inl e, w1)
           | (Inr False, w1) \<Rightarrow> (Inl ErrGroupExists, w1)
           | (Inr True, w1) \<Rightarrow>
               (case pipelined R (others 0 w1)
                       [CHSet directoryGroupsHash (g_ID g) payload,
                        CZAdd directoryGroupOrderIndex (groupIndexMember L name (g_ID g))] of
                  (None, w2) \<Rightarrow> (Inr g, w2)
                | (Some e, w2) \<Rightarrow> (Inl e, snd (pipelined R (others 1 w2) [CDel nameKey])))))"

record groupPatch =
  gp_Name :: "string option"
  gp_Description :: "string option"
  gp_Status :: "string option"

definition patched :: "'a option \<Rightarrow> 'a \<Rightarrow> 'a" where
  "patched p v = (case p of None \<Rightarrow> v | Some x \<Rightarrow> x)"

definition patchGroupTx ::
  "'w store \<Rightarrow> directoryLib \<Rightarrow> int \<Rightarrow> string \<Rightarrow> groupPatch \<Rightarrow> string \<Rightarrow> 'w \<Rightarrow> identityGroup txn" where
  "patchGroupTx R L now groupID patch ifMatch w =
     (case rHGet R w directoryGroupsHash groupID of
        Inl e \<Rightarrow> Abort e
      | Inr None \<Rightarrow> Abort ErrNotFound
      | Inr (Some raw) \<Rightarrow>
          (case decodeGroup L raw groupID of
             Inl e \<Rightarrow> Abort e
           | Inr current \<Rightarrow>
               let status = patched (gp_Status patch) (g_Status current) in
               (case canonicalGroupFields (patched (gp_Name patch) (g_Name current))
                       (patched (gp_Description patch) (g_Description current)) of
                  Inl _ \<Rightarrow> Abort ErrInvalidArgument
                | Inr (name, description) \<Rightarrow>
                    if status \<noteq> IdentityGroupStatusActive \<and> status \<noteq> IdentityGroupStatusDisabled
                    then Abort ErrInvalidArgument
                    else if name = g_Name current \<and> description = g_Description current \<and> status = g_Status current
                    then Keep current
                    else if \<not> matchesVersion ifMatch (g_Version current) then Abort ErrVersionConflict
                    else
                      (case (if name = g_Name current then Inr None else rGet R w (groupNameKey L name)) of
                         Inl e \<Rightarrow> Abort e
                       | Inr owner \<Rightarrow>
                           if owner \<noteq> None \<and> owner \<noteq> Some groupID then Abort ErrVersionConflict
                           else
                             let updated = current\<lparr>g_Name := name, g_Description := description, g_Status := status,
                                             g_Version := g_Version current + 1, g_UpdatedAt := Some now\<rparr>;
                                 payload = (case marshal (dl_group L) updated of Inl _ \<Rightarrow> [] | Inr p \<Rightarrow> p) in
                             Commit
                               (CHSet directoryGroupsHash groupID payload #
                                (if name \<noteq> g_Name current
                                 then [CDel (groupNameKey L (g_Name current)), CSet (groupNameKey L name) groupID,
                                       CZRem directoryGroupOrderIndex (groupIndexMember L (g_Name current) groupID),
                                       CZAdd directoryGroupOrderIndex (groupIndexMember L name groupID)]
                                 else [])) updated))))"

definition patchGroupWatched :: "directoryLib \<Rightarrow> groupPatch \<Rightarrow> string list" where
  "patchGroupWatched L patch =
     [directoryGroupsHash, directoryGroupOrderIndex] @
     (case gp_Name patch of
        None \<Rightarrow> []
      | Some n \<Rightarrow> (case canonicalGroupFields n [] of Inl _ \<Rightarrow> [] | Inr (name, _) \<Rightarrow> [groupNameKey L name]))"

text \<open>\<^verbatim>\<open>SCard(...).Val()\<close>: zero when the command fails.\<close>

definition memberCount :: "'w store \<Rightarrow> 'w \<Rightarrow> string \<Rightarrow> int" where
  "memberCount R w groupID = (case rSCard R w (groupMembersKey groupID) of Inl _ \<Rightarrow> 0 | Inr n \<Rightarrow> int n)"

definition PatchGroup ::
  "'w store \<Rightarrow> directoryLib \<Rightarrow> (nat \<Rightarrow> 'w \<Rightarrow> 'w) \<Rightarrow> (nat \<Rightarrow> int) \<Rightarrow> 'w \<Rightarrow> string \<Rightarrow> groupPatch \<Rightarrow> string \<Rightarrow>
   identityGroup res \<times> 'w" where
  "PatchGroup R L others clock w groupID patch ifMatch =
     (if \<not> canonicalGroupID groupID then (Inl ErrInvalidArgument, w)
      else
        (case retryTx (\<lambda>i v. watchTx R (others i) (patchGroupWatched L patch)
                (patchGroupTx R L (clock i) groupID patch ifMatch v) v) 0 directoryMaximumRetries w of
           (Inl e, w') \<Rightarrow> (Inl e, w')
         | (Inr g, w') \<Rightarrow> (Inr (g\<lparr>g_MemberCount := memberCount R w' groupID\<rparr>), w')))"

definition deleteGroupTx :: "'w store \<Rightarrow> directoryLib \<Rightarrow> string \<Rightarrow> string \<Rightarrow> 'w \<Rightarrow> bool txn" where
  "deleteGroupTx R L groupID ifMatch w =
     (case rHGet R w directoryGroupsHash groupID of
        Inl e \<Rightarrow> Abort e
      | Inr None \<Rightarrow> Keep False
      | Inr (Some raw) \<Rightarrow>
          (case decodeGroup L raw groupID of
             Inl e \<Rightarrow> Abort e
           | Inr g \<Rightarrow>
               if \<not> matchesVersion ifMatch (g_Version g) then Abort ErrVersionConflict
               else
                 (case rSMembers R w (groupMembersKey groupID) of
                    Inl _ \<Rightarrow> Abort ErrDirectoryInvariant
                  | Inr members \<Rightarrow>
                      if length members > directoryMaximumRelationships then Abort ErrDirectoryInvariant
                      else
                        (case rSMembers R w (principalTenantsKey AccessPrincipalGroup groupID) of
                           Inl _ \<Rightarrow> Abort ErrDirectoryInvariant
                         | Inr tenants \<Rightarrow>
                             if length tenants > directoryMaximumRelationships then Abort ErrDirectoryInvariant
                             else Commit
                               ([CHDel directoryGroupsHash groupID, CDel (groupNameKey L (g_Name g)),
                                 CDel (groupMembersKey groupID), CDel (principalTenantsKey AccessPrincipalGroup groupID),
                                 CZRem directoryGroupOrderIndex (groupIndexMember L (g_Name g) groupID)] @
                                map (\<lambda>userID. CSRem (userGroupsKey userID) groupID) members @
                                map (\<lambda>t. CHDel (assignmentsKey t) (assignmentField AccessPrincipalGroup groupID)) tenants)
                               True))))"

definition deleteGroupWatched :: "string \<Rightarrow> string list" where
  "deleteGroupWatched groupID =
     [directoryGroupsHash, directoryGroupOrderIndex, groupMembersKey groupID,
      principalTenantsKey AccessPrincipalGroup groupID]"

definition DeleteGroup ::
  "'w store \<Rightarrow> directoryLib \<Rightarrow> (nat \<Rightarrow> 'w \<Rightarrow> 'w) \<Rightarrow> 'w \<Rightarrow> string \<Rightarrow> string \<Rightarrow> bool res \<times> 'w" where
  "DeleteGroup R L others w groupID ifMatch =
     (if \<not> canonicalGroupID groupID then (Inl ErrInvalidArgument, w)
      else retryTx (\<lambda>i v. watchTx R (others i) (deleteGroupWatched groupID) (deleteGroupTx R L groupID ifMatch v) v)
             0 directoryMaximumRetries w)"

section \<open>Members\<close>

definition changeGroupMemberTx ::
  "'w store \<Rightarrow> directoryLib \<Rightarrow> int \<Rightarrow> string \<Rightarrow> string \<Rightarrow> string \<Rightarrow> bool \<Rightarrow> 'w \<Rightarrow> (identityGroup \<times> bool) txn" where
  "changeGroupMemberTx R L now groupID userID ifMatch add w =
     (case (if add then (case canonicalStoredUser R L now w userID ErrNotFound of Inl e \<Rightarrow> Some e | Inr _ \<Rightarrow> None) else None) of
        Some e \<Rightarrow> Abort e
      | None \<Rightarrow>
          (case rHGet R w directoryGroupsHash groupID of
             Inl e \<Rightarrow> Abort e
           | Inr None \<Rightarrow> Abort ErrNotFound
           | Inr (Some raw) \<Rightarrow>
               (case decodeGroup L raw groupID of
                  Inl e \<Rightarrow> Abort e
                | Inr g \<Rightarrow>
                    (case rSIsMember R w (groupMembersKey groupID) userID of
                       Inl e \<Rightarrow> Abort e
                     | Inr present \<Rightarrow>
                         if present = add then Keep (g, False)
                         else if \<not> matchesVersion ifMatch (g_Version g) then Abort ErrVersionConflict
                         else if add \<and> (case rSCard R w (groupMembersKey groupID) of
                                 Inl _ \<Rightarrow> True | Inr n \<Rightarrow> n \<ge> directoryMaximumRelationships)
                         then Abort ErrDirectoryInvariant
                         else
                           let g' = g\<lparr>g_Version := g_Version g + 1, g_UpdatedAt := Some now\<rparr>;
                               payload = (case marshal (dl_group L) g' of Inl _ \<Rightarrow> [] | Inr p \<Rightarrow> p) in
                           Commit
                             (CHSet directoryGroupsHash groupID payload #
                              (if add then [CSAdd (groupMembersKey groupID) userID, CSAdd (userGroupsKey userID) groupID]
                               else [CSRem (groupMembersKey groupID) userID, CSRem (userGroupsKey userID) groupID]))
                             (g', True)))))"

definition changeGroupMember ::
  "'w store \<Rightarrow> directoryLib \<Rightarrow> (nat \<Rightarrow> 'w \<Rightarrow> 'w) \<Rightarrow> (nat \<Rightarrow> int) \<Rightarrow> 'w \<Rightarrow> string \<Rightarrow> string \<Rightarrow> string \<Rightarrow> bool \<Rightarrow>
   (identityGroup \<times> bool) res \<times> 'w" where
  "changeGroupMember R L others clock w groupID userID ifMatch add =
     (if \<not> canonicalGroupID groupID \<or> \<not> canonicalUserIdentity userID then (Inl ErrInvalidArgument, w)
      else
        (case retryTx (\<lambda>i v. watchTx R (others i)
                [usersHashV2, directoryGroupsHash, groupMembersKey groupID, userGroupsKey userID]
                (changeGroupMemberTx R L (clock i) groupID userID ifMatch add v) v) 0 directoryMaximumRetries w of
           (Inl e, w') \<Rightarrow> (Inl e, w')
         | (Inr (g, changed), w') \<Rightarrow> (Inr (g\<lparr>g_MemberCount := memberCount R w' groupID\<rparr>, changed), w')))"

definition PutGroupMember where
  "PutGroupMember R L others clock w groupID userID ifMatch = changeGroupMember R L others clock w groupID userID ifMatch True"

definition DeleteGroupMember where
  "DeleteGroupMember R L others clock w groupID userID ifMatch = changeGroupMember R L others clock w groupID userID ifMatch False"

section \<open>Pages\<close>

fun readUsers :: "'w store \<Rightarrow> directoryLib \<Rightarrow> int \<Rightarrow> 'w \<Rightarrow> string list \<Rightarrow> directoryUser list res" where
  "readUsers R L now w [] = Inr []"
| "readUsers R L now w (userID # ids) =
     (case readStorageUser R L now w userID of
        Inr (Some u) \<Rightarrow>
          (case readUsers R L now w ids of Inl e \<Rightarrow> Inl e | Inr us \<Rightarrow> Inr (directoryUserProjection u # us))
      | _ \<Rightarrow> Inl ErrDirectoryInvariant)"

definition GetGroupDetail ::
  "'w store \<Rightarrow> directoryLib \<Rightarrow> int \<Rightarrow> 'w \<Rightarrow> string \<Rightarrow> (identityGroup \<times> directoryUser list) option res" where
  "GetGroupDetail R L now w groupID =
     (case GetGroup R L w groupID of
        Inl e \<Rightarrow> Inl e
      | Inr None \<Rightarrow> Inr None
      | Inr (Some g) \<Rightarrow>
          (case rSMembers R w (groupMembersKey groupID) of
             Inl _ \<Rightarrow> Inl ErrDirectoryInvariant
           | Inr ids \<Rightarrow>
               if length ids > directoryMaximumRelationships \<or> int (length ids) \<noteq> g_MemberCount g
               then Inl ErrDirectoryInvariant
               else (case readUsers R L now w ids of
                       Inl e \<Rightarrow> Inl e
                     | Inr us \<Rightarrow> Inr (Some (g, sort_key (\<lambda>u. (du_Email u, du_ID u)) us)))))"

definition lexBounds :: "string \<Rightarrow> string \<Rightarrow> string \<times> string" where
  "lexBounds search after =
     ((if after \<noteq> [] then CHR ''('' # after else if search \<noteq> [] then CHR ''['' # search else ''-''),
      (if search \<noteq> [] then CHR ''['' # search @ [CHR 0xFF] else ''+''))"

fun readIndexedUsers :: "'w store \<Rightarrow> directoryLib \<Rightarrow> int \<Rightarrow> 'w \<Rightarrow> string list \<Rightarrow> directoryUser list res" where
  "readIndexedUsers R L now w [] = Inr []"
| "readIndexedUsers R L now w (m # ms) =
     (case parseDirectoryUserIndexMember L m of
        (email, userID, ok) \<Rightarrow>
          if \<not> ok then Inl ErrDirectoryInvariant
          else
            (case readStorageUser R L now w userID of
               Inr (Some u) \<Rightarrow>
                 if u_Email u \<noteq> email then Inl ErrDirectoryInvariant
                 else (case readIndexedUsers R L now w ms of
                         Inl e \<Rightarrow> Inl e | Inr us \<Rightarrow> Inr (directoryUserProjection u # us))
             | _ \<Rightarrow> Inl ErrDirectoryInvariant))"

definition nextToken :: "directoryLib \<Rightarrow> string \<Rightarrow> string \<Rightarrow> bool \<Rightarrow> string \<Rightarrow> string res" where
  "nextToken L kind scope pending lastVisible =
     (if pending then (case encodeDirectoryCursor L kind scope lastVisible of Inl _ \<Rightarrow> Inl ErrDirectoryInvariant | Inr t \<Rightarrow> Inr t)
      else Inr [])"

definition ListDirectoryUsers ::
  "'w store \<Rightarrow> directoryLib \<Rightarrow> int \<Rightarrow> 'w \<Rightarrow> string \<Rightarrow> string \<Rightarrow> int \<Rightarrow> (directoryUser list \<times> string) res" where
  "ListDirectoryUsers R L now w search0 token limit =
     (if limit < 1 \<or> limit > int directoryMaximumPageSize then Inl ErrInvalidArgument
      else let search = normalizeDirectorySearch L search0 in
        if search = invalidSearch then Inl ErrInvalidArgument
        else
          (case decodeDirectoryCursor L token ''users'' search of
             Inl e \<Rightarrow> Inl e
           | Inr after \<Rightarrow>
               (case rZRangeByLex R w directoryUserEmailIndex (fst (lexBounds search after)) (snd (lexBounds search after))
                       (nat limit + 1) of
                  Inl e \<Rightarrow> Inl e
                | Inr members \<Rightarrow>
                    let visible = take (nat limit) members in
                    (case readIndexedUsers R L now w visible of
                       Inl e \<Rightarrow> Inl e
                     | Inr us \<Rightarrow>
                         (case nextToken L ''users'' search (length members > nat limit) (last visible) of
                            Inl e \<Rightarrow> Inl e | Inr t \<Rightarrow> Inr (us, t))))))"

fun readIndexedGroups :: "'w store \<Rightarrow> directoryLib \<Rightarrow> 'w \<Rightarrow> string list \<Rightarrow> identityGroup list res" where
  "readIndexedGroups R L w [] = Inr []"
| "readIndexedGroups R L w (m # ms) =
     (case parseGroupIndexMember m of
        (_, groupID, ok) \<Rightarrow>
          if \<not> ok then Inl ErrDirectoryInvariant
          else
            (case GetGroup R L w groupID of
               Inr (Some g) \<Rightarrow>
                 (case readIndexedGroups R L w ms of Inl e \<Rightarrow> Inl e | Inr gs \<Rightarrow> Inr (g # gs))
             | _ \<Rightarrow> Inl ErrDirectoryInvariant))"

definition ListGroups ::
  "'w store \<Rightarrow> directoryLib \<Rightarrow> 'w \<Rightarrow> string \<Rightarrow> string \<Rightarrow> int \<Rightarrow> (identityGroup list \<times> string) res" where
  "ListGroups R L w search0 token limit =
     (if limit < 1 \<or> limit > int directoryMaximumPageSize then Inl ErrInvalidArgument
      else let search = ToLower (dl_unicode L) (TrimSpace search0) in
        if search \<noteq> [] \<and> \<not> validIdentityText search 128 then Inl ErrInvalidArgument
        else
          (case decodeDirectoryCursor L token ''groups'' search of
             Inl e \<Rightarrow> Inl e
           | Inr after \<Rightarrow>
               (case rZRangeByLex R w directoryGroupOrderIndex (fst (lexBounds search after)) (snd (lexBounds search after))
                       (nat limit + 1) of
                  Inl e \<Rightarrow> Inl e
                | Inr members \<Rightarrow>
                    let visible = take (nat limit) members in
                    (case readIndexedGroups R L w visible of
                       Inl e \<Rightarrow> Inl e
                     | Inr gs \<Rightarrow>
                         (case nextToken L ''groups'' search (length members > nat limit) (last visible) of
                            Inl e \<Rightarrow> Inl e | Inr t \<Rightarrow> Inr (gs, t))))))"

end
