(* ===== verification/Directory_Access.thy ===== *)
theory Directory_Access
  imports Directory_Groups
begin

text \<open>
  Access assignments and what they give a user (\<^verbatim>\<open>identity_directory_repository.go\<close>): roles of a user or a group in a
  tenant, stored under the tenant with a reverse index from the principal to its tenants; the effective roles of a
  user, direct and through active groups, where a principal federated elsewhere keeps only the roles the native
  policy trusts. Conventions as in the theory \<open>Directory_Users\<close>; \<open>rg\<close> is the native client registry, if any.
\<close>

section \<open>Assignments\<close>

definition readAssignment ::
  "'w store \<Rightarrow> directoryLib \<Rightarrow> 'w \<Rightarrow> string \<Rightarrow> string \<Rightarrow> string \<Rightarrow> accessAssignment option res" where
  "readAssignment R L w tenantID kind principalID =
     (case rHGet R w (assignmentsKey tenantID) (assignmentField kind principalID) of
        Inl e \<Rightarrow> Inl e
      | Inr None \<Rightarrow> Inr None
      | Inr (Some raw) \<Rightarrow>
          (case decodeAssignment L raw tenantID kind principalID of Inl e \<Rightarrow> Inl e | Inr a \<Rightarrow> Inr (Some a)))"

definition GetAccessAssignment ::
  "'w store \<Rightarrow> directoryLib \<Rightarrow> 'w \<Rightarrow> string \<Rightarrow> string \<Rightarrow> string \<Rightarrow> accessAssignment option res" where
  "GetAccessAssignment R L w tenantID kind principalID =
     (if \<not> activeTenantIdentity tenantID \<or> \<not> canonicalPrincipal kind principalID then Inl ErrInvalidArgument
      else readAssignment R L w tenantID kind principalID)"

text \<open>The principal must exist; a federated user may be assigned in a foreign tenant only what the policy allows.\<close>

definition assignmentPrincipalError ::
  "'w store \<Rightarrow> directoryLib \<Rightarrow> registry option \<Rightarrow> int \<Rightarrow> 'w \<Rightarrow> string \<Rightarrow> string \<Rightarrow> string \<Rightarrow> string list \<Rightarrow> gerror option" where
  "assignmentPrincipalError R L rg now w tenantID kind principalID roles =
     (if kind = AccessPrincipalUser
      then (case canonicalStoredUser R L now w principalID ErrNotFound of
              Inl e \<Rightarrow> Some e
            | Inr u \<Rightarrow>
                if u_AuthSource u = AuthSourceSAML \<and> u_CompanyId u \<noteq> Some tenantID \<and>
                   (case u_CompanyId u of None \<Rightarrow> True
                      | Some company \<Rightarrow> \<not> AllowsForeignAssignment rg company tenantID roles)
                then Some ErrInvalidTenant else None)
      else (case rHGet R w directoryGroupsHash principalID of
              Inl e \<Rightarrow> Some e
            | Inr None \<Rightarrow> Some ErrNotFound
            | Inr (Some raw) \<Rightarrow> (case decodeGroup L raw principalID of Inl e \<Rightarrow> Some e | Inr _ \<Rightarrow> None)))"

definition putAccessAssignmentTx ::
  "'w store \<Rightarrow> directoryLib \<Rightarrow> registry option \<Rightarrow> int \<Rightarrow> string \<Rightarrow> string \<Rightarrow> string \<Rightarrow> string list \<Rightarrow> string \<Rightarrow> 'w \<Rightarrow>
   (accessAssignment \<times> bool) txn" where
  "putAccessAssignmentTx R L rg now tenantID kind principalID roles ifMatch w =
     (case assignmentPrincipalError R L rg now w tenantID kind principalID roles of
        Some e \<Rightarrow> Abort e
      | None \<Rightarrow>
          let commit = (\<lambda>a created.
                Commit
                  [CHSet (assignmentsKey tenantID) (assignmentField kind principalID)
                     (case marshal (dl_assignment L) a of Inl _ \<Rightarrow> [] | Inr p \<Rightarrow> p),
                   CSAdd (principalTenantsKey kind principalID) tenantID] (a, created)) in
          (case rHGet R w (assignmentsKey tenantID) (assignmentField kind principalID) of
             Inl e \<Rightarrow> Abort e
           | Inr None \<Rightarrow>
               if ifMatch \<noteq> [] \<and> ifMatch \<noteq> ''*'' then Abort ErrVersionConflict
               else commit \<lparr>a_TenantID = tenantID, a_PrincipalType = kind, a_PrincipalID = principalID, a_Roles = roles,
                      a_Version = 1, a_CreatedAt = Some now, a_UpdatedAt = Some now\<rparr> True
           | Inr (Some raw) \<Rightarrow>
               (case decodeAssignment L raw tenantID kind principalID of
                  Inl e \<Rightarrow> Abort e
                | Inr current \<Rightarrow>
                    if a_Roles current = roles then Keep (current, False)
                    else if \<not> matchesVersion ifMatch (a_Version current) then Abort ErrVersionConflict
                    else commit (current\<lparr>a_Roles := roles, a_Version := a_Version current + 1, a_UpdatedAt := Some now\<rparr>)
                           False)))"

definition putAssignmentWatched :: "string \<Rightarrow> string \<Rightarrow> string \<Rightarrow> string list" where
  "putAssignmentWatched tenantID kind principalID =
     [if kind = AccessPrincipalGroup then directoryGroupsHash else usersHashV2, assignmentsKey tenantID,
      principalTenantsKey kind principalID]"

definition PutAccessAssignment ::
  "'w store \<Rightarrow> directoryLib \<Rightarrow> registry option \<Rightarrow> (nat \<Rightarrow> 'w \<Rightarrow> 'w) \<Rightarrow> (nat \<Rightarrow> int) \<Rightarrow> 'w \<Rightarrow> string \<Rightarrow> string \<Rightarrow>
   string \<Rightarrow> string list \<Rightarrow> string \<Rightarrow> (accessAssignment \<times> bool) res \<times> 'w" where
  "PutAccessAssignment R L rg others clock w tenantID kind principalID roles0 ifMatch =
     (case canonicalDirectoryRoles roles0 of
        Inl _ \<Rightarrow> (Inl ErrInvalidArgument, w)
      | Inr roles \<Rightarrow>
          if \<not> activeTenantIdentity tenantID \<or> \<not> canonicalPrincipal kind principalID then (Inl ErrInvalidArgument, w)
          else retryTx (\<lambda>i v. watchTx R (others i) (putAssignmentWatched tenantID kind principalID)
                 (putAccessAssignmentTx R L rg (clock i) tenantID kind principalID roles ifMatch v) v)
                 0 directoryMaximumRetries w)"

definition deleteAccessAssignmentTx ::
  "'w store \<Rightarrow> directoryLib \<Rightarrow> string \<Rightarrow> string \<Rightarrow> string \<Rightarrow> string \<Rightarrow> 'w \<Rightarrow> bool txn" where
  "deleteAccessAssignmentTx R L tenantID kind principalID ifMatch w =
     (case readAssignment R L w tenantID kind principalID of
        Inl e \<Rightarrow> Abort e
      | Inr None \<Rightarrow> Keep False
      | Inr (Some current) \<Rightarrow>
          if \<not> matchesVersion ifMatch (a_Version current) then Abort ErrVersionConflict
          else Commit
            [CHDel (assignmentsKey tenantID) (assignmentField kind principalID),
             CSRem (principalTenantsKey kind principalID) tenantID] True)"

definition DeleteAccessAssignment ::
  "'w store \<Rightarrow> directoryLib \<Rightarrow> (nat \<Rightarrow> 'w \<Rightarrow> 'w) \<Rightarrow> 'w \<Rightarrow> string \<Rightarrow> string \<Rightarrow> string \<Rightarrow> string \<Rightarrow> bool res \<times> 'w" where
  "DeleteAccessAssignment R L others w tenantID kind principalID ifMatch =
     (if \<not> activeTenantIdentity tenantID \<or> \<not> canonicalPrincipal kind principalID then (Inl ErrInvalidArgument, w)
      else retryTx (\<lambda>i v. watchTx R (others i) [assignmentsKey tenantID, principalTenantsKey kind principalID]
             (deleteAccessAssignmentTx R L tenantID kind principalID ifMatch v) v) 0 directoryMaximumRetries w)"

section \<open>Pages of assignments\<close>

text \<open>\<^verbatim>\<open>sort.SearchStrings\<close> and the slice after the cursor: the page and whether more follows.\<close>

definition pageAfter :: "string list \<Rightarrow> string \<Rightarrow> nat \<Rightarrow> string list \<times> bool" where
  "pageAfter names after limit =
     (let start = length (takeWhile (\<lambda>f. f < after) names);
          start' = (if after \<noteq> [] \<and> start < length names \<and> names ! start = after then start + 1 else start);
          stop = min (start' + limit) (length names) in
      (take (stop - start') (drop start' names), stop < length names))"

fun decodeAssignments ::
  "directoryLib \<Rightarrow> string \<Rightarrow> (string \<Rightarrow> string option) \<Rightarrow> string list \<Rightarrow> accessAssignment list res" where
  "decodeAssignments L tenantID vals [] = Inr []"
| "decodeAssignments L tenantID vals (f # fs) =
     (case parseAssignmentField L f of
        (kind, principalID, ok) \<Rightarrow>
          if \<not> ok then Inl ErrDirectoryInvariant
          else
            (case decodeAssignment L (patched (vals f) []) tenantID kind principalID of
               Inl e \<Rightarrow> Inl e
             | Inr a \<Rightarrow> (case decodeAssignments L tenantID vals fs of Inl e \<Rightarrow> Inl e | Inr as \<Rightarrow> Inr (a # as))))"

definition ListAccessAssignments ::
  "'w store \<Rightarrow> directoryLib \<Rightarrow> 'w \<Rightarrow> string \<Rightarrow> string \<Rightarrow> int \<Rightarrow> (accessAssignment list \<times> string) res" where
  "ListAccessAssignments R L w tenantID token limit =
     (if \<not> activeTenantIdentity tenantID \<or> limit < 1 \<or> limit > int directoryMaximumPageSize then Inl ErrInvalidArgument
      else
        (case decodeDirectoryCursor L token ''assignments'' tenantID of
           Inl e \<Rightarrow> Inl e
         | Inr after \<Rightarrow>
             (case rHLen R w (assignmentsKey tenantID) of
                Inl _ \<Rightarrow> Inl ErrDirectoryInvariant
              | Inr n \<Rightarrow>
                  if n > directoryMaximumAssignments then Inl ErrDirectoryInvariant
                  else
                    (case rHGetAll R w (assignmentsKey tenantID) of
                       Inl _ \<Rightarrow> Inl ErrDirectoryInvariant
                     | Inr kvs \<Rightarrow>
                         if length kvs > directoryMaximumAssignments then Inl ErrDirectoryInvariant
                         else let (visible, pending) = pageAfter (sort (map fst kvs)) after (nat limit) in
                           (case decodeAssignments L tenantID (map_of kvs) visible of
                              Inl e \<Rightarrow> Inl e
                            | Inr as \<Rightarrow>
                                (case nextToken L ''assignments'' tenantID pending (last visible) of
                                   Inl e \<Rightarrow> Inl e | Inr t \<Rightarrow> Inr (as, t)))))))"

section \<open>Effective access\<close>

definition eligibleRoles :: "registry option \<Rightarrow> bool \<Rightarrow> string \<Rightarrow> string \<Rightarrow> string list \<Rightarrow> string list" where
  "eligibleRoles rg foreignSAML home tenantID roles =
     (if \<not> foreignSAML then roles else filter (AllowsForeignRole rg home tenantID) roles)"

definition foreignPrincipal :: "directoryUser \<Rightarrow> string \<Rightarrow> bool" where
  "foreignPrincipal u tenantID \<longleftrightarrow> du_AuthSource u = AuthSourceSAML \<and> du_HomeTenantID u \<noteq> tenantID"

text \<open>The loop over the user's groups collects what each active group contributes.\<close>

fun groupContributions ::
  "'w store \<Rightarrow> directoryLib \<Rightarrow> (string list \<Rightarrow> string list) \<Rightarrow> 'w \<Rightarrow> string \<Rightarrow> string list \<Rightarrow> accessProvenance list res" where
  "groupContributions R L eligible w tenantID [] = Inr []"
| "groupContributions R L eligible w tenantID (groupID # gs) =
     (case GetGroup R L w groupID of
        Inr (Some g) \<Rightarrow>
          if g_Status g \<noteq> IdentityGroupStatusActive then groupContributions R L eligible w tenantID gs
          else
            (case readAssignment R L w tenantID AccessPrincipalGroup groupID of
               Inl e \<Rightarrow> Inl e
             | Inr None \<Rightarrow> groupContributions R L eligible w tenantID gs
             | Inr (Some a) \<Rightarrow>
                 let roles = eligible (a_Roles a) in
                 (case groupContributions R L eligible w tenantID gs of
                    Inl e \<Rightarrow> Inl e
                  | Inr ps \<Rightarrow>
                      Inr (if length roles > 0
                           then \<lparr>pv_Type = ''GROUP'', pv_Roles = roles, pv_AssignmentVersion = a_Version a,
                                 pv_GroupID = g_ID g, pv_GroupName = g_Name g\<rparr> # ps
                           else ps)))
      | _ \<Rightarrow> Inl ErrDirectoryInvariant)"

definition GetEffectiveTenantRoles ::
  "'w store \<Rightarrow> directoryLib \<Rightarrow> registry option \<Rightarrow> int \<Rightarrow> 'w \<Rightarrow> string \<Rightarrow> string \<Rightarrow> (string list \<times> accessProvenance list) res" where
  "GetEffectiveTenantRoles R L rg now w userID tenantID =
     (if \<not> canonicalUserIdentity userID \<or> \<not> activeTenantIdentity tenantID then Inl ErrInvalidArgument
      else
        (case GetDirectoryUser R L now w userID of
           Inl e \<Rightarrow> Inl e
         | Inr None \<Rightarrow> Inl ErrNotFound
         | Inr (Some u) \<Rightarrow>
             let foreign = foreignPrincipal u tenantID;
                 eligible = eligibleRoles rg foreign (du_HomeTenantID u) tenantID in
             if foreign \<and> \<not> HasForeignTrust rg (du_HomeTenantID u) tenantID then Inr ([], [])
             else
               (case readAssignment R L w tenantID AccessPrincipalUser userID of
                  Inl e \<Rightarrow> Inl e
                | Inr direct \<Rightarrow>
                    let own = (case direct of None \<Rightarrow> [] | Some a \<Rightarrow>
                          if length (eligible (a_Roles a)) > 0
                          then [\<lparr>pv_Type = ''DIRECT'', pv_Roles = eligible (a_Roles a), pv_AssignmentVersion = a_Version a,
                                 pv_GroupID = [], pv_GroupName = []\<rparr>]
                          else []) in
                    (case rSMembers R w (userGroupsKey userID) of
                       Inl _ \<Rightarrow> Inl ErrDirectoryInvariant
                     | Inr groups \<Rightarrow>
                         if length groups > directoryMaximumRelationships then Inl ErrDirectoryInvariant
                         else
                           (case groupContributions R L eligible w tenantID (sort groups) of
                              Inl e \<Rightarrow> Inl e
                            | Inr ps \<Rightarrow> Inr (sort_uniq (concat (map pv_Roles (own @ ps))), own @ ps))))))"

text \<open>The tenants of the user's active groups, with the bound checked after each group.\<close>

fun groupTenants ::
  "'w store \<Rightarrow> directoryLib \<Rightarrow> 'w \<Rightarrow> int \<Rightarrow> string list \<Rightarrow> string list \<Rightarrow> (string list \<times> bool) res" where
  "groupTenants R L w maximum [] acc = Inr (acc, False)"
| "groupTenants R L w maximum (groupID # gs) acc =
     (case GetGroup R L w groupID of
        Inr (Some g) \<Rightarrow>
          if g_Status g \<noteq> IdentityGroupStatusActive then groupTenants R L w maximum gs acc
          else
            (case rSMembers R w (principalTenantsKey AccessPrincipalGroup groupID) of
               Inl _ \<Rightarrow> Inl ErrDirectoryInvariant
             | Inr ts \<Rightarrow>
                 if length ts > directoryMaximumRelationships \<or> \<not> list_all canonicalTenantIdentity ts
                 then Inl ErrDirectoryInvariant
                 else let acc' = fold List.insert (filter (\<lambda>t. t \<noteq> RetiredDefaultTenantID) ts) acc in
                   if int (length acc') > maximum then Inr (acc', True)
                   else groupTenants R L w maximum gs acc')
      | _ \<Rightarrow> Inl ErrDirectoryInvariant)"

definition tenantReachable ::
  "'w store \<Rightarrow> directoryLib \<Rightarrow> registry option \<Rightarrow> int \<Rightarrow> 'w \<Rightarrow> directoryUser \<Rightarrow> string \<Rightarrow> string \<Rightarrow> bool res" where
  "tenantReachable R L rg now w u userID t =
     (if \<not> foreignPrincipal u t then Inr True
      else if \<not> HasForeignTrust rg (du_HomeTenantID u) t then Inr False
      else (case GetEffectiveTenantRoles R L rg now w userID t of Inl e \<Rightarrow> Inl e | Inr (roles, _) \<Rightarrow> Inr (length roles \<noteq> 0)))"

fun reachableTenants ::
  "'w store \<Rightarrow> directoryLib \<Rightarrow> registry option \<Rightarrow> int \<Rightarrow> 'w \<Rightarrow> directoryUser \<Rightarrow> string \<Rightarrow> string list \<Rightarrow> string list res" where
  "reachableTenants R L rg now w u userID [] = Inr []"
| "reachableTenants R L rg now w u userID (t # ts) =
     (case tenantReachable R L rg now w u userID t of
        Inl e \<Rightarrow> Inl e
      | Inr keep \<Rightarrow>
          (case reachableTenants R L rg now w u userID ts of
             Inl e \<Rightarrow> Inl e | Inr rest \<Rightarrow> Inr (if keep then t # rest else rest)))"

definition ListEffectiveTenantIDs ::
  "'w store \<Rightarrow> directoryLib \<Rightarrow> registry option \<Rightarrow> int \<Rightarrow> 'w \<Rightarrow> string \<Rightarrow> int \<Rightarrow> (string list \<times> bool) res" where
  "ListEffectiveTenantIDs R L rg now w userID maximum =
     (if \<not> canonicalUserIdentity userID \<or> maximum < 1 \<or> maximum > int directoryMaximumRelationships
      then Inl ErrInvalidArgument
      else
        (case GetDirectoryUser R L now w userID of
           Inl e \<Rightarrow> Inl e
         | Inr None \<Rightarrow> Inl ErrNotFound
         | Inr (Some u) \<Rightarrow>
             (case rSMembers R w (principalTenantsKey AccessPrincipalUser userID) of
                Inl e \<Rightarrow> Inl e
              | Inr tenants \<Rightarrow>
                  (case rSMembers R w (userGroupsKey userID) of
                     Inl _ \<Rightarrow> Inl ErrDirectoryInvariant
                   | Inr groups \<Rightarrow>
                       if length groups > directoryMaximumRelationships \<or> \<not> list_all canonicalTenantIdentity tenants
                       then Inl ErrDirectoryInvariant
                       else
                         (case groupTenants R L w maximum groups
                                 (remdups (filter (\<lambda>t. t \<noteq> RetiredDefaultTenantID) tenants)) of
                            Inl e \<Rightarrow> Inl e
                          | Inr (ts, True) \<Rightarrow> Inr ([], True)
                          | Inr (ts, False) \<Rightarrow>
                              (case reachableTenants R L rg now w u userID ts of
                                 Inl e \<Rightarrow> Inl e
                               | Inr result \<Rightarrow> Inr (sort result, int (length result) > maximum)))))))"

fun effectiveTenants ::
  "'w store \<Rightarrow> directoryLib \<Rightarrow> registry option \<Rightarrow> int \<Rightarrow> 'w \<Rightarrow> string \<Rightarrow> string list \<Rightarrow>
   (string \<times> string list \<times> accessProvenance list) list res" where
  "effectiveTenants R L rg now w userID [] = Inr []"
| "effectiveTenants R L rg now w userID (t # ts) =
     (case GetEffectiveTenantRoles R L rg now w userID t of
        Inl e \<Rightarrow> Inl e
      | Inr (roles, provenance) \<Rightarrow>
          (case effectiveTenants R L rg now w userID ts of
             Inl e \<Rightarrow> Inl e
           | Inr rest \<Rightarrow> Inr (if length roles > 0 then (t, roles, provenance) # rest else rest)))"

definition GetEffectiveUserAccess ::
  "'w store \<Rightarrow> directoryLib \<Rightarrow> registry option \<Rightarrow> int \<Rightarrow> 'w \<Rightarrow> string \<Rightarrow>
   (directoryUser \<times> (string \<times> string list \<times> accessProvenance list) list) res" where
  "GetEffectiveUserAccess R L rg now w userID =
     (case GetDirectoryUser R L now w userID of
        Inl e \<Rightarrow> Inl e
      | Inr None \<Rightarrow> Inl ErrNotFound
      | Inr (Some u) \<Rightarrow>
          (case ListEffectiveTenantIDs R L rg now w userID (int directoryMaximumRelationships) of
             Inr (ts, False) \<Rightarrow>
               (case effectiveTenants R L rg now w userID ts of Inl e \<Rightarrow> Inl e | Inr rows \<Rightarrow> Inr (u, rows))
           | _ \<Rightarrow> Inl ErrDirectoryInvariant))"

end
