(* ===== verification/User_Repository.thy ===== *)
theory User_Repository
  imports Directory_Users
begin

text \<open>
  The \<^verbatim>\<open>UserRepository\<close> of \<^verbatim>\<open>internal/repository/user_repository.go\<close> with the import of legacy records of
  \<^verbatim>\<open>user_legacy_import.go\<close>: lookup by email, updates under the revision, status and token version changes, and the
  federated principals created from SAML assertions. Conventions as in the theory \<open>Directory_Users\<close>.
\<close>

section \<open>Legacy import and lookup\<close>

definition importLegacyTx :: "'w store \<Rightarrow> directoryLib \<Rightarrow> int \<Rightarrow> string \<Rightarrow> 'w \<Rightarrow> user option txn" where
  "importLegacyTx R L now email w =
     (case rGet R w directoryBackfillMarker of
        Inl e \<Rightarrow> Abort e
      | Inr (Some marker) \<Rightarrow> if marker \<noteq> directoryBackfillVersion then Abort ErrDirectoryInvariant else Keep None
      | Inr None \<Rightarrow>
          (case rGet R w (userByEmailKey email) of
             Inl e \<Rightarrow> Abort e
           | Inr (Some _) \<Rightarrow> Again
           | Inr None \<Rightarrow>
               (case rHGet R w legacyUsersHash email of
                  Inl e \<Rightarrow> Abort e
                | Inr None \<Rightarrow> Keep None
                | Inr (Some raw) \<Rightarrow>
                    (case unmarshal (dl_user L) raw of
                       Inl e \<Rightarrow> Abort e
                     | Inr legacy \<Rightarrow>
                         if u_Password legacy = [] \<and> u_AuthSource legacy \<noteq> AuthSourceSAML then Abort ErrNotFound
                         else
                           (case canonicalDirectoryStorageUser L now (Some legacy) of
                              Inl _ \<Rightarrow> Abort ErrDirectoryInvariant
                            | Inr c \<Rightarrow>
                                if u_Email c \<noteq> email then Abort ErrDirectoryInvariant
                                else
                                  (case (rHExists R w usersHashV2 (u_Id c), rHExists R w federatedUsersHash (u_Id c)) of
                                     (Inl e, _) \<Rightarrow> Abort e
                                   | (Inr True, _) \<Rightarrow> Abort ErrDirectoryInvariant
                                   | (Inr False, Inl e) \<Rightarrow> Abort e
                                   | (Inr False, Inr True) \<Rightarrow> Abort ErrDirectoryInvariant
                                   | (Inr False, Inr False) \<Rightarrow>
                                       (case rZScore R w directoryUserEmailIndex (directoryUserIndexMember email (u_Id c)) of
                                          Inl e \<Rightarrow> Abort e
                                        | Inr _ \<Rightarrow>
                                            (case marshal (dl_user L) c of
                                               Inl _ \<Rightarrow> Abort ErrDirectoryInvariant
                                             | Inr payload \<Rightarrow>
                                                 Commit
                                                   [CHSet usersHashV2 (u_Id c) payload,
                                                    CSet (userByEmailKey email) (u_Id c),
                                                    CZAdd directoryUserEmailIndex
                                                      (directoryUserIndexMember email (u_Id c))]
                                                   (Some c)))))))))"

definition importLegacyWatched :: "string \<Rightarrow> string list" where
  "importLegacyWatched email =
     [directoryBackfillMarker, usersHashV2, federatedUsersHash, userByEmailKey email, legacyUsersHash,
      directoryUserEmailIndex]"

definition indexedUser :: "'w store \<Rightarrow> directoryLib \<Rightarrow> 'w \<Rightarrow> string \<Rightarrow> string \<Rightarrow> user option res" where
  "indexedUser R L w email userID =
     (if \<not> canonicalUserIdentity userID then Inl ErrDirectoryInvariant
      else (case rHGet R w usersHashV2 userID of
              Inl e \<Rightarrow> Inl e
            | Inr None \<Rightarrow> Inr None
            | Inr (Some raw) \<Rightarrow>
                if raw = [] then Inr None
                else (case unmarshal (dl_user L) raw of
                        Inl e \<Rightarrow> Inl e
                      | Inr u \<Rightarrow>
                          if u_Id u \<noteq> userID \<or> normalizeDirectoryEmail L (u_Email u) \<noteq> email
                          then Inl ErrDirectoryInvariant
                          else if u_Password u = [] \<and> u_AuthSource u \<noteq> AuthSourceSAML then Inl ErrNotFound
                          else Inr (Some u))))"

definition findByEmailAttempt ::
  "'w store \<Rightarrow> directoryLib \<Rightarrow> (nat \<Rightarrow> 'w \<Rightarrow> 'w) \<Rightarrow> (nat \<Rightarrow> int) \<Rightarrow> string \<Rightarrow> nat \<Rightarrow> 'w \<Rightarrow> user option res option \<times> 'w" where
  "findByEmailAttempt R L others clock email i w =
     (case rGet R w (userByEmailKey email) of
        Inl e \<Rightarrow> (Some (Inl e), w)
      | Inr (Some userID) \<Rightarrow> (Some (indexedUser R L w email userID), w)
      | Inr None \<Rightarrow>
          let w1 = others (2 * i) w in
          watchTx R (others (2 * i + 1)) (importLegacyWatched email) (importLegacyTx R L (clock i) email w1) w1)"

definition FindByEmail ::
  "'w store \<Rightarrow> directoryLib \<Rightarrow> (nat \<Rightarrow> 'w \<Rightarrow> 'w) \<Rightarrow> (nat \<Rightarrow> int) \<Rightarrow> 'w \<Rightarrow> string \<Rightarrow> user option res \<times> 'w" where
  "FindByEmail R L others clock w email0 =
     (let email = normalizeDirectoryEmail L email0 in
      if email = [] then (Inr None, w)
      else retryTx (findByEmailAttempt R L others clock email) 0 directoryMaximumRetries w)"

section \<open>Updates\<close>

definition sameCompany :: "user \<Rightarrow> user \<Rightarrow> bool" where
  "sameCompany a b \<longleftrightarrow> u_CompanyId a \<noteq> None \<and> u_CompanyId b \<noteq> None \<and> u_CompanyId a = u_CompanyId b"

definition updateFederatedUserTx :: "'w store \<Rightarrow> directoryLib \<Rightarrow> user \<Rightarrow> 'w \<Rightarrow> unit txn" where
  "updateFederatedUserTx R L canonicalUser w =
     (case rHGet R w federatedUsersHash (u_Id canonicalUser) of
        Inl _ \<Rightarrow> Abort ErrNotFound
      | Inr None \<Rightarrow> Abort ErrNotFound
      | Inr (Some raw) \<Rightarrow>
          if raw = [] then Abort ErrNotFound
          else
            (case unmarshal (dl_user L) raw of
               Inl _ \<Rightarrow> Abort ErrDirectoryInvariant
             | Inr stored \<Rightarrow>
                 (case canonicalFederatedUser L (Some stored) of
                    Inl _ \<Rightarrow> Abort ErrDirectoryInvariant
                  | Inr current \<Rightarrow>
                      if u_Id current \<noteq> u_Id canonicalUser then Abort ErrDirectoryInvariant
                      else if u_Revision current \<noteq> u_Revision canonicalUser then Abort ErrVersionConflict
                      else if \<not> sameCompany current canonicalUser \<or>
                              u_ExternalSubject current \<noteq> u_ExternalSubject canonicalUser \<or>
                              u_TokenVersion canonicalUser < u_TokenVersion current
                      then Abort ErrDirectoryInvariant
                      else
                        (case marshal (dl_user L) (canonicalUser\<lparr>u_Revision := u_Revision canonicalUser + 1\<rparr>) of
                           Inl _ \<Rightarrow> Abort ErrInvalidArgument
                         | Inr payload \<Rightarrow> Commit [CHSet federatedUsersHash (u_Id canonicalUser) payload] ()))))"

text \<open>A single attempt; a lost race is a version conflict. The caller's user gets the next revision.\<close>

definition updateFederatedUser ::
  "'w store \<Rightarrow> directoryLib \<Rightarrow> ('w \<Rightarrow> 'w) \<Rightarrow> 'w \<Rightarrow> user \<Rightarrow> user res \<times> 'w" where
  "updateFederatedUser R L other w u =
     (case canonicalFederatedUser L (Some u) of
        Inl e \<Rightarrow> (Inl e, w)
      | Inr c \<Rightarrow>
          (case watchTx R other [federatedUsersHash] (updateFederatedUserTx R L c w) w of
             (None, w') \<Rightarrow> (Inl ErrVersionConflict, w')
           | (Some (Inl e), w') \<Rightarrow> (Inl e, w')
           | (Some (Inr _), w') \<Rightarrow> (Inr (u\<lparr>u_Revision := u_Revision c + 1\<rparr>), w')))"

definition userRepo_UpdateUser ::
  "'w store \<Rightarrow> directoryLib \<Rightarrow> (nat \<Rightarrow> 'w \<Rightarrow> 'w) \<Rightarrow> (nat \<Rightarrow> int) \<Rightarrow> 'w \<Rightarrow> user option \<Rightarrow> user res \<times> 'w" where
  "userRepo_UpdateUser R L others clock w input =
     (case input of
        None \<Rightarrow> UpdateDirectoryUser R L others clock w None
      | Some u \<Rightarrow>
          (case rHExists R w federatedUsersHash (u_Id u) of
             Inl e \<Rightarrow> (Inl e, w)
           | Inr federated \<Rightarrow>
               let w1 = others 0 w in
               if federated then updateFederatedUser R L (others 1) w1 u
               else UpdateDirectoryUser R L (\<lambda>i. others (i + 1)) clock w1 input))"

text \<open>\<open>bumpVersion\<close> is the repair and increment that every revocation applies.\<close>

definition bumpVersion :: "user \<Rightarrow> user" where
  "bumpVersion u = u\<lparr>u_TokenVersion := (if u_TokenVersion u < 0 then 0 else u_TokenVersion u) + 1\<rparr>"

text \<open>The calls of one operation take disjoint parts of \<open>others\<close> and \<open>clock\<close>: at most 16 for a lookup by email, 32 for an
  update.\<close>

definition userRepo_SetStatus ::
  "'w store \<Rightarrow> directoryLib \<Rightarrow> (nat \<Rightarrow> 'w \<Rightarrow> 'w) \<Rightarrow> (nat \<Rightarrow> int) \<Rightarrow> 'w \<Rightarrow> string \<Rightarrow> string \<Rightarrow> user res \<times> 'w" where
  "userRepo_SetStatus R L others clock w email status =
     (case FindByEmail R L others clock w email of
        (Inl e, w') \<Rightarrow> (Inl e, w')
      | (Inr None, w') \<Rightarrow> (Inl ErrNotFound, w')
      | (Inr (Some u), w') \<Rightarrow>
          userRepo_UpdateUser R L (\<lambda>i. others (i + 17)) (\<lambda>i. clock (i + 8)) (others 16 w')
            (Some ((bumpVersion u)\<lparr>u_Status := status\<rparr>)))"

definition IncrementTokenVersion ::
  "'w store \<Rightarrow> directoryLib \<Rightarrow> (nat \<Rightarrow> 'w \<Rightarrow> 'w) \<Rightarrow> (nat \<Rightarrow> int) \<Rightarrow> 'w \<Rightarrow> string \<Rightarrow> (int \<times> user) res \<times> 'w" where
  "IncrementTokenVersion R L others clock w email =
     (case FindByEmail R L others clock w email of
        (Inl e, w') \<Rightarrow> (Inl e, w')
      | (Inr None, w') \<Rightarrow> (Inl ErrNotFound, w')
      | (Inr (Some u), w') \<Rightarrow>
          (case userRepo_UpdateUser R L (\<lambda>i. others (i + 17)) (\<lambda>i. clock (i + 8)) (others 16 w') (Some (bumpVersion u)) of
             (Inl e, w'') \<Rightarrow> (Inl e, w'')
           | (Inr u', w'') \<Rightarrow> (Inr (u_TokenVersion u', u'), w'')))"

definition incrementByIDAttempt ::
  "'w store \<Rightarrow> directoryLib \<Rightarrow> (nat \<Rightarrow> 'w \<Rightarrow> 'w) \<Rightarrow> (nat \<Rightarrow> int) \<Rightarrow> string \<Rightarrow> nat \<Rightarrow> 'w \<Rightarrow>
   (int \<times> user) res option \<times> 'w" where
  "incrementByIDAttempt R L others clock userID i w =
     (case FindByID R L w userID of
        Inl e \<Rightarrow> (Some (Inl e), w)
      | Inr None \<Rightarrow> (Some (Inl ErrNotFound), w)
      | Inr (Some u) \<Rightarrow>
          (case userRepo_UpdateUser R L (\<lambda>j. others (32 * i + j + 1)) (\<lambda>j. clock (32 * i + j)) (others (32 * i) w)
                  (Some (bumpVersion u)) of
             (Inl e, w') \<Rightarrow> (if errors_Is e ErrVersionConflict then (None, w') else (Some (Inl e), w'))
           | (Inr u', w') \<Rightarrow> (Some (Inr (u_TokenVersion u', u')), w')))"

definition IncrementTokenVersionByID ::
  "'w store \<Rightarrow> directoryLib \<Rightarrow> (nat \<Rightarrow> 'w \<Rightarrow> 'w) \<Rightarrow> (nat \<Rightarrow> int) \<Rightarrow> 'w \<Rightarrow> string \<Rightarrow> (int \<times> user) res \<times> 'w" where
  "IncrementTokenVersionByID R L others clock w userID =
     retryTx (incrementByIDAttempt R L others clock userID) 0 directoryMaximumRetries w"

section \<open>Federated principals\<close>

abbreviation membershipsByUserPrefix :: string where "membershipsByUserPrefix \<equiv> ''membershipsByUser:''"

definition membershipsKey :: "string \<Rightarrow> string" where
  "membershipsKey tenantID = ''memberships:'' @ tenantID"

definition findByExternalSubject :: "'w store \<Rightarrow> directoryLib \<Rightarrow> 'w \<Rightarrow> string \<Rightarrow> string \<Rightarrow> user option res" where
  "findByExternalSubject R L w tid externalSubject =
     (case rGet R w (samlSubjectKey tid externalSubject) of
        Inl _ \<Rightarrow> Inr None
      | Inr None \<Rightarrow> Inr None
      | Inr (Some userID) \<Rightarrow> if userID = [] then Inr None else FindByID R L w userID)"

definition tenantScopedSAMLRole :: "string list \<Rightarrow> string" where
  "tenantScopedSAMLRole roles =
     (case roles of
        [] \<Rightarrow> RoleCompanyEmployee
      | r # _ \<Rightarrow>
          if TrimSpace r = RoleAdmin \<or> TrimSpace r = RoleCompanyAdmin then RoleCompanyAdmin else RoleCompanyEmployee)"

definition existingRole :: "string \<Rightarrow> string list \<Rightarrow> string" where
  "existingRole existing asserted =
     (if length asserted > 0 then tenantScopedSAMLRole asserted
      else if existing = RoleAdmin \<or> existing = RoleCompanyAdmin then RoleCompanyAdmin
      else RoleCompanyEmployee)"

definition canonicalMembershipAssignments :: "string list \<Rightarrow> string list option" where
  "canonicalMembershipAssignments vs =
     (if length vs > 500 then None
      else let out = sort vs in
        if list_all canonicalMembershipRoleName out \<and> distinct out then Some out else None)"

text \<open>\<^verbatim>\<open>(*redisRepo).existingTenantScopedSAMLRole\<close>: the role is recovered only from an intact local membership.\<close>

definition existingTenantScopedSAMLRole ::
  "'w store \<Rightarrow> directoryLib \<Rightarrow> 'w \<Rightarrow> string \<Rightarrow> user \<Rightarrow> string list \<Rightarrow> string" where
  "existingTenantScopedSAMLRole R L w tenantID u asserted =
     (let role = existingRole (u_Role u) asserted in
      if length asserted > 0 \<or> role = RoleCompanyAdmin then role
      else
        (case (rHGet R w (membershipsKey tenantID) (u_Id u), rSIsMember R w (membershipsByUserPrefix @ u_Id u) tenantID) of
           (Inr (Some raw), Inr True) \<Rightarrow>
             if raw = [] then role
             else
               (case dl_exactMembership L raw of
                  None \<Rightarrow> role
                | Some m \<Rightarrow>
                    if m_TenantId m \<noteq> tenantID \<or> m_UserId m \<noteq> u_Id u \<or> \<not> canonicalUserIdentity (m_Id m) \<or>
                       m_CreatedAt m = None
                    then role
                    else
                      (case canonicalMembershipAssignments (m_Roles m) of
                         None \<Rightarrow> role
                       | Some assignments \<Rightarrow>
                           if RoleAdmin \<in> set assignments \<or> RoleCompanyAdmin \<in> set assignments
                           then RoleCompanyAdmin else role))
         | _ \<Rightarrow> role))"

text \<open>One attempt to refresh an existing principal; \<^term>\<open>Some (Inr None)\<close> when there is none.\<close>

definition upsertExistingAttempt ::
  "'w store \<Rightarrow> directoryLib \<Rightarrow> (nat \<Rightarrow> 'w \<Rightarrow> 'w) \<Rightarrow> (nat \<Rightarrow> int) \<Rightarrow> string \<Rightarrow> string \<Rightarrow> string \<Rightarrow> string list \<Rightarrow> nat \<Rightarrow> 'w \<Rightarrow>
   user option res option \<times> 'w" where
  "upsertExistingAttempt R L others clock tid externalSubject email roles i w =
     (case findByExternalSubject R L w tid externalSubject of
        Inl e \<Rightarrow> (Some (Inl e), w)
      | Inr None \<Rightarrow> (Some (Inr None), w)
      | Inr (Some existing) \<Rightarrow>
          let e1 = existing\<lparr>u_Email := email\<rparr>;
              role = existingTenantScopedSAMLRole R L w tid e1 roles;
              e2 = e1\<lparr>u_Role := role,
                     u_TokenVersion := u_TokenVersion e1 + (if role \<noteq> u_Role existing then 1 else 0),
                     u_AuthSource := AuthSourceSAML, u_ExternalSubject := externalSubject, u_CompanyId := Some tid\<rparr> in
          (case userRepo_UpdateUser R L (\<lambda>j. others (32 * i + j + 1)) (\<lambda>j. clock (32 * i + j)) (others (32 * i) w) (Some e2) of
             (Inl e, w') \<Rightarrow> (if errors_Is e ErrVersionConflict then (None, w') else (Some (Inl e), w'))
           | (Inr u', w') \<Rightarrow> (Some (Inr (Some u')), w')))"

definition createFederatedUserScript :: "string \<Rightarrow> string \<Rightarrow> string \<Rightarrow> keyspace \<Rightarrow> string list \<times> cmd list" where
  "createFederatedUserScript subjectKey userID payload ks =
     (case ks_string ks subjectKey of
        Some existing \<Rightarrow> ([existing], [])
      | None \<Rightarrow>
          if ks_hash ks federatedUsersHash userID \<noteq> None then ([''collision''], [])
          else ([userID], [CHSet federatedUsersHash userID payload, CSet subjectKey userID]))"

definition createFederatedUser ::
  "'w store \<Rightarrow> directoryLib \<Rightarrow> int \<Rightarrow> string \<Rightarrow> 'w \<Rightarrow> string \<Rightarrow> string \<Rightarrow> string \<Rightarrow> string list \<Rightarrow> (user \<times> bool) res \<times> 'w" where
  "createFederatedUser R L now newID w tid externalSubject email roles =
     (let u = \<lparr>u_Id = newID, u_Email = email, u_Password = [], u_Role = tenantScopedSAMLRole roles,
               u_Status = UserStatusActive, u_CompanyId = Some tid, u_TokenVersion = 0, u_Revision = 0,
               u_CreatedAt = Some now, u_AuthSource = AuthSourceSAML, u_ExternalSubject = externalSubject,
               u_PasswordChangeRequired = False\<rparr> in
      (case canonicalFederatedUser L (Some u) of
         Inl e \<Rightarrow> (Inl e, w)
       | Inr c \<Rightarrow>
           (case marshal (dl_user L) c of
              Inl _ \<Rightarrow> (Inl ErrInvalidArgument, w)
            | Inr raw \<Rightarrow>
                (case rEval R w (createFederatedUserScript (samlSubjectKey tid externalSubject) (u_Id c) raw) of
                   (Inl e, w') \<Rightarrow> (Inl e, w')
                 | (Inr stored, w') \<Rightarrow>
                     let storedID = concat stored in
                     if storedID = ''collision'' then (Inl ErrDirectoryInvariant, w')
                     else if storedID \<noteq> u_Id c
                     then (case FindByID R L w' storedID of
                             Inr (Some existing) \<Rightarrow> (Inr (existing, False), w')
                           | _ \<Rightarrow> (Inl ErrDirectoryInvariant, w'))
                     else (Inr (c, True), w')))))"

text \<open>The loop leaves either with a refreshed principal or, when none is found or all attempts lost, to the creation.\<close>

fun upsertLoop :: "(nat \<Rightarrow> 'w \<Rightarrow> user option res option \<times> 'w) \<Rightarrow> nat \<Rightarrow> nat \<Rightarrow> 'w \<Rightarrow> user option res \<times> 'w" where
  "upsertLoop attempt i 0 w = (Inr None, w)"
| "upsertLoop attempt i (Suc left) w =
     (case attempt i w of (Some r, w') \<Rightarrow> (r, w') | (None, w') \<Rightarrow> upsertLoop attempt (Suc i) left w')"

definition UpsertFromSAML ::
  "'w store \<Rightarrow> directoryLib \<Rightarrow> (nat \<Rightarrow> 'w \<Rightarrow> 'w) \<Rightarrow> (nat \<Rightarrow> int) \<Rightarrow> string \<Rightarrow> 'w \<Rightarrow> string \<Rightarrow> string \<Rightarrow> string \<Rightarrow>
   string list \<Rightarrow> (user \<times> bool) res \<times> 'w" where
  "UpsertFromSAML R L others clock newID w tid externalSubject email roles =
     (if tid = [] \<or> externalSubject = [] \<or> email = [] then (Inl ErrInvalidArgument, w)
      else
        (case upsertLoop (upsertExistingAttempt R L others clock tid externalSubject email roles) 0
                directoryMaximumRetries w of
           (Inl e, w') \<Rightarrow> (Inl e, w')
         | (Inr (Some u), w') \<Rightarrow> (Inr (u, False), w')
         | (Inr None, w') \<Rightarrow>
             createFederatedUser R L (clock 256) newID (others 256 w') tid externalSubject email roles))"

section \<open>Exact reads\<close>

abbreviation errStoredUserContract :: gerror where
  "errStoredUserContract \<equiv> ErrText ''stored user contract mismatch''"

record userIdentity =
  ui_Id :: string
  ui_Email :: string
  ui_Status :: string
  ui_AuthSource :: string
  ui_CreatedAt :: gotime

definition exactAuthSource :: "user \<Rightarrow> string option" where
  "exactAuthSource u =
     (if u_AuthSource u = AuthSourcePassword \<or> u_AuthSource u = []
      then (if u_Password u \<noteq> [] then Some AuthSourcePassword else None)
      else if u_AuthSource u = AuthSourceSAML
      then (if validExternalSubject (u_ExternalSubject u) then Some AuthSourceSAML else None)
      else None)"

definition decodeExactUserIdentity :: "directoryLib \<Rightarrow> string \<Rightarrow> string \<Rightarrow> userIdentity option" where
  "decodeExactUserIdentity L value userID =
     (if value = [] then None
      else
        (case dl_userFields L value of
           None \<Rightarrow> None
         | Some u \<Rightarrow>
             if u_Id u \<noteq> userID \<or> \<not> canonicalUserIdentity (u_Id u) \<or> \<not> canonicalEmail (u_Email u) \<or>
                \<not> validUserStatus (u_Status u) \<or> u_CreatedAt u = None \<or> u_TokenVersion u < 0
             then None
             else map_option (\<lambda>src. \<lparr>ui_Id = u_Id u, ui_Email = u_Email u, ui_Status = u_Status u, ui_AuthSource = src,
                    ui_CreatedAt = u_CreatedAt u\<rparr>) (exactAuthSource u)))"

definition userRepo_GetExact :: "'w store \<Rightarrow> directoryLib \<Rightarrow> 'w \<Rightarrow> string \<Rightarrow> userIdentity option res" where
  "userRepo_GetExact R L w userID =
     (if \<not> canonicalUserIdentity userID then Inl ErrInvalidArgument
      else
        (case rHGet R w usersHashV2 userID of
           Inl e \<Rightarrow> Inl e
         | Inr None \<Rightarrow> Inr None
         | Inr (Some value) \<Rightarrow>
             (case decodeExactUserIdentity L value userID of
                None \<Rightarrow> Inl errStoredUserContract
              | Some identity \<Rightarrow>
                  (case rGet R w (userByEmailKey (ui_Email identity)) of
                     Inl e \<Rightarrow> Inl e
                   | Inr None \<Rightarrow> Inl errStoredUserContract
                   | Inr (Some indexedID) \<Rightarrow>
                       if indexedID \<noteq> userID then Inl errStoredUserContract else Inr (Some identity)))))"

end
