(* ===== verification/Memberships.thy ===== *)
theory Memberships
  imports User_Repository
begin

text \<open>
  Tenant memberships: the legacy records of \<^verbatim>\<open>membership_repository.go\<close>, which stay writable only while no
  version-two record exists for the pair, the immutable records of \<^verbatim>\<open>membership_v2_repository.go\<close>, and the exact
  read of \<^verbatim>\<open>exact_membership_reader.go\<close>. A membership is stored under its tenant and indexed under its user; the Lua
  scripts change both sides at once. Where a script returns the members of a set, the model lists them in order; the
  code sorts them.
\<close>

abbreviation errStoredMembershipContract :: gerror where
  "errStoredMembershipContract \<equiv> ErrText ''stored membership contract mismatch''"
abbreviation errStoredMembershipV2Contract :: gerror where
  "errStoredMembershipV2Contract \<equiv> ErrText ''stored membership v2 contract mismatch''"
abbreviation errStoredMembershipReadContract :: gerror where
  "errStoredMembershipReadContract \<equiv> ErrText ''stored membership read contract mismatch''"

definition membershipV2Key :: "string \<Rightarrow> string" where
  "membershipV2Key tenantID = ''memberships:v2:'' @ tenantID"

definition membershipV2ByUserKey :: "string \<Rightarrow> string" where
  "membershipV2ByUserKey userID = ''membershipsByUser:v2:'' @ userID"

definition membershipsByUserKey :: "string \<Rightarrow> string" where
  "membershipsByUserKey userID = membershipsByUserPrefix @ userID"

section \<open>Legacy memberships\<close>

definition v2Locked :: "string \<Rightarrow> string \<Rightarrow> keyspace \<Rightarrow> bool" where
  "v2Locked tenantID userID ks \<longleftrightarrow>
     ks_hash ks (membershipV2Key tenantID) userID \<noteq> None \<or> tenantID \<in> ks_set ks (membershipV2ByUserKey userID)"

definition membershipLegacyCreateScript :: "string \<Rightarrow> string \<Rightarrow> string \<Rightarrow> keyspace \<Rightarrow> string list \<times> cmd list" where
  "membershipLegacyCreateScript tenantID userID payload ks =
     (if v2Locked tenantID userID ks then ([''locked''], [])
      else ([''created''],
            [CHSet (membershipsKey tenantID) userID payload, CSAdd (membershipsByUserKey userID) tenantID]))"

definition membershipLegacyDeleteScript :: "string \<Rightarrow> string \<Rightarrow> keyspace \<Rightarrow> string list \<times> cmd list" where
  "membershipLegacyDeleteScript tenantID userID ks =
     (if v2Locked tenantID userID ks then ([''locked''], [])
      else ([''deleted''], [CHDel (membershipsKey tenantID) userID, CSRem (membershipsByUserKey userID) tenantID]))"

definition guardedStatus :: "string \<Rightarrow> string list res \<times> 'w \<Rightarrow> gerror option \<times> 'w" where
  "guardedStatus expected r =
     (case r of
        (Inl e, w') \<Rightarrow> (Some e, w')
      | (Inr status, w') \<Rightarrow>
          (if status = [''locked''] then (Some ErrMembershipConflict, w')
           else if status \<noteq> [expected] then (Some errStoredMembershipContract, w')
           else (None, w')))"

definition membershipRepo_Create :: "'w store \<Rightarrow> directoryLib \<Rightarrow> int \<Rightarrow> 'w \<Rightarrow> membership \<Rightarrow> gerror option \<times> 'w" where
  "membershipRepo_Create R L now w m0 =
     (if \<not> activeTenantIdentity (TrimSpace (m_TenantId m0)) then (Some ErrInvalidTenant, w)
      else let m = (if m_CreatedAt m0 = None then m0\<lparr>m_CreatedAt := Some now\<rparr> else m0) in
        (case marshal (dl_membership L) m of
           Inl e \<Rightarrow> (Some e, w)
         | Inr data \<Rightarrow>
             guardedStatus ''created'' (rEval R w (membershipLegacyCreateScript (m_TenantId m) (m_UserId m) data))))"

definition membershipRepo_Delete :: "'w store \<Rightarrow> 'w \<Rightarrow> string \<Rightarrow> string \<Rightarrow> gerror option \<times> 'w" where
  "membershipRepo_Delete R w tenantID userID =
     (if \<not> activeTenantIdentity (TrimSpace tenantID) then (Some ErrInvalidTenant, w)
      else guardedStatus ''deleted'' (rEval R w (membershipLegacyDeleteScript tenantID userID)))"

definition membershipRepo_Get :: "'w store \<Rightarrow> directoryLib \<Rightarrow> 'w \<Rightarrow> string \<Rightarrow> string \<Rightarrow> membership option res" where
  "membershipRepo_Get R L w tenantID userID =
     (if \<not> activeTenantIdentity (TrimSpace tenantID) then Inl ErrInvalidTenant
      else
        (case rHGet R w (membershipsKey tenantID) userID of
           Inl e \<Rightarrow> Inl e
         | Inr None \<Rightarrow> Inr None
         | Inr (Some val) \<Rightarrow>
             if val = [] then Inr None
             else (case unmarshal (dl_membership L) val of Inl e \<Rightarrow> Inl e | Inr m \<Rightarrow> Inr (Some m))))"

definition membershipRepo_GetExact :: "'w store \<Rightarrow> directoryLib \<Rightarrow> 'w \<Rightarrow> string \<Rightarrow> string \<Rightarrow> membership option res" where
  "membershipRepo_GetExact R L w tenantID userID =
     (if \<not> activeTenantIdentity tenantID then Inl ErrInvalidTenant
      else
        (case rHGet R w (membershipsKey tenantID) userID of
           Inl e \<Rightarrow> Inl e
         | Inr None \<Rightarrow> Inr None
         | Inr (Some val) \<Rightarrow>
             if val = [] then Inl errStoredMembershipContract
             else (case unmarshal (dl_membership L) val of
                     Inl _ \<Rightarrow> Inl errStoredMembershipContract
                   | Inr m \<Rightarrow>
                       if m_TenantId m \<noteq> tenantID \<or> m_UserId m \<noteq> userID then Inl errStoredMembershipContract
                       else Inr (Some m))))"

definition membershipRepo_ListByTenant ::
  "'w store \<Rightarrow> directoryLib \<Rightarrow> 'w \<Rightarrow> string \<Rightarrow> nat \<Rightarrow> int \<Rightarrow> (membership list \<times> nat) res" where
  "membershipRepo_ListByTenant R L w tenantID cursor most =
     (if \<not> activeTenantIdentity (TrimSpace tenantID) then Inl ErrInvalidTenant
      else
        (case rHScan R w (membershipsKey tenantID) cursor most of
           Inl e \<Rightarrow> Inl e
         | Inr (kvs, next) \<Rightarrow>
             (case unmarshalAll (dl_membership L) (map snd kvs) of Inl e \<Rightarrow> Inl e | Inr ms \<Rightarrow> Inr (ms, next))))"

definition membershipRepo_ListTenantIDsByUser :: "'w store \<Rightarrow> 'w \<Rightarrow> string \<Rightarrow> string list res" where
  "membershipRepo_ListTenantIDsByUser R w userID =
     (case rSMembers R w (membershipsByUserKey userID) of
        Inl e \<Rightarrow> Inl e | Inr vals \<Rightarrow> Inr (filter (\<lambda>t. t \<noteq> RetiredDefaultTenantID) vals))"

definition membershipExactTenantIDsScript :: "string \<Rightarrow> int \<Rightarrow> keyspace \<Rightarrow> string list \<times> cmd list" where
  "membershipExactTenantIDsScript key maximum ks =
     (if int (card (ks_set ks key)) > maximum then ([''limit''], [])
      else (''ok'' # sorted_list_of_set (ks_set ks key), []))"

definition canonicalMembershipTenantID :: "string \<Rightarrow> bool" where
  "canonicalMembershipTenantID v =
     (if length v < 1 \<or> length v > 63 \<or> hd v = CHR ''-'' \<or> last v = CHR ''-'' then False
      else list_all (\<lambda>c. inLower c \<or> inDigit c \<or> c = CHR ''-'') v)"

definition membershipRepo_ListTenantIDsByUserExactBounded ::
  "'w store \<Rightarrow> 'w \<Rightarrow> string \<Rightarrow> int \<Rightarrow> (string list \<times> bool) res \<times> 'w" where
  "membershipRepo_ListTenantIDsByUserExactBounded R w userID maximum =
     (if userID = [] \<or> TrimSpace userID \<noteq> userID \<or> maximum < 1 \<or> maximum > 500
      then (Inl errStoredMembershipContract, w)
      else
        (case rEval R w (membershipExactTenantIDsScript (membershipsByUserKey userID) maximum) of
           (Inl e, w') \<Rightarrow> (Inl e, w')
         | (Inr [], w') \<Rightarrow> (Inl errStoredMembershipContract, w')
         | (Inr (marker # vals), w') \<Rightarrow>
             (if marker = ''limit'' then (Inr ([], True), w')
              else if marker \<noteq> ''ok'' \<or> \<not> list_all canonicalMembershipTenantID vals
              then (Inl errStoredMembershipContract, w')
              else (Inr (sort (filter (\<lambda>t. t \<noteq> RetiredDefaultTenantID) vals), False), w'))))"

definition membershipRepo_ListTenantIDsByUserExact :: "'w store \<Rightarrow> 'w \<Rightarrow> string \<Rightarrow> string list res \<times> 'w" where
  "membershipRepo_ListTenantIDsByUserExact R w userID =
     (case membershipRepo_ListTenantIDsByUserExactBounded R w userID 500 of
        (Inl e, w') \<Rightarrow> (Inl e, w')
      | (Inr (vals, exceeded), w') \<Rightarrow> (if exceeded then Inl errStoredMembershipContract else Inr vals, w'))"

section \<open>Version-two memberships\<close>

definition membershipV2ID :: "directoryLib \<Rightarrow> string \<Rightarrow> string \<Rightarrow> string" where
  "membershipV2ID L tenantID userID =
     ''m2_'' @ b64encode (dl_sha256 L (''tikti-membership-v2-id-v1'' @ [CHR 0x00] @ tenantID @ [CHR 0x00] @ userID))"

definition canonicalMembershipV2UserID :: "string \<Rightarrow> bool" where
  "canonicalMembershipV2UserID v \<longleftrightarrow> v \<noteq> ''.'' \<and> v \<noteq> ''..'' \<and> canonicalUserIdentity v"

definition validMembershipV2Roles :: "string list \<Rightarrow> bool" where
  "validMembershipV2Roles vs =
     (if length vs < 1 \<or> length vs > 100 then False
      else list_all canonicalMembershipRoleName vs \<and> sorted_wrt (<) vs)"

definition decodeMembershipV2 :: "directoryLib \<Rightarrow> string \<Rightarrow> string \<Rightarrow> string \<Rightarrow> membership option" where
  "decodeMembershipV2 L tenantID userID val =
     (if length val < 1 \<or> length val > 16384 then None
      else
        (case exactObject (dl_membership L) val of
           None \<Rightarrow> None
         | Some m \<Rightarrow>
             if m_Id m \<noteq> membershipV2ID L tenantID userID \<or> m_TenantId m \<noteq> tenantID \<or> m_UserId m \<noteq> userID \<or>
                \<not> activeTenantIdentity (m_TenantId m) \<or> \<not> canonicalMembershipV2UserID (m_UserId m) \<or>
                \<not> validMembershipV2Roles (m_Roles m) \<or> m_CreatedAt m = None
             then None else Some m))"

definition membershipV2EnsureScript :: "string \<Rightarrow> string \<Rightarrow> string \<Rightarrow> keyspace \<Rightarrow> string list \<times> cmd list" where
  "membershipV2EnsureScript tenantID userID payload ks =
     (let legacy = ks_hash ks (membershipsKey tenantID) userID;
          reverse = (tenantID \<in> ks_set ks (membershipV2ByUserKey userID));
          legacyReverse = (tenantID \<in> ks_set ks (membershipsByUserKey userID)) in
      case ks_hash ks (membershipV2Key tenantID) userID of
        Some val \<Rightarrow>
          if \<not> reverse \<or> legacy = None \<or> \<not> legacyReverse \<or> legacy \<noteq> Some val then ([''corrupt'', val], [])
          else ([''existing'', val], [])
      | None \<Rightarrow>
          if reverse then ([''corrupt'', []], [])
          else if legacy \<noteq> None \<or> legacyReverse then ([''shadow'', []], [])
          else ([''created'', payload],
                [CHSet (membershipV2Key tenantID) userID payload, CSAdd (membershipV2ByUserKey userID) tenantID,
                 CHSet (membershipsKey tenantID) userID payload, CSAdd (membershipsByUserKey userID) tenantID]))"

definition membershipV2_Ensure ::
  "'w store \<Rightarrow> directoryLib \<Rightarrow> int \<Rightarrow> 'w \<Rightarrow> string \<Rightarrow> string \<Rightarrow> string list \<Rightarrow> (membership \<times> bool) res \<times> 'w" where
  "membershipV2_Ensure R L now w tenantID userID roles =
     (if \<not> activeTenantIdentity tenantID then (Inl ErrInvalidTenant, w)
      else if \<not> canonicalMembershipV2UserID userID \<or> \<not> validMembershipV2Roles roles then (Inl ErrInvalidArgument, w)
      else
        (case marshal (dl_membership L) \<lparr>m_Id = membershipV2ID L tenantID userID, m_TenantId = tenantID,
                m_UserId = userID, m_Roles = roles, m_CreatedAt = Some now\<rparr> of
           Inl _ \<Rightarrow> (Inl ErrInvalidArgument, w)
         | Inr payload \<Rightarrow>
             if length payload > 16384 then (Inl ErrInvalidArgument, w)
             else
               (case rEval R w (membershipV2EnsureScript tenantID userID payload) of
                  (Inl e, w') \<Rightarrow> (Inl errStoredMembershipV2Contract, w')
                | (Inr [status, val], w') \<Rightarrow>
                    (if status = ''shadow'' then (Inl ErrMembershipConflict, w')
                     else if status = ''created'' \<or> status = ''existing''
                     then (case decodeMembershipV2 L tenantID userID val of
                             None \<Rightarrow> (Inl errStoredMembershipV2Contract, w')
                           | Some stored \<Rightarrow>
                               if m_Roles stored \<noteq> roles
                               then (Inl (if status = ''existing'' then ErrMembershipConflict
                                          else errStoredMembershipV2Contract), w')
                               else (Inr (stored, status = ''created''), w'))
                     else (Inl errStoredMembershipV2Contract, w'))
                | (Inr _, w') \<Rightarrow> (Inl errStoredMembershipV2Contract, w'))))"

definition membershipV2ReadScript :: "string \<Rightarrow> string \<Rightarrow> keyspace \<Rightarrow> string list \<times> cmd list" where
  "membershipV2ReadScript tenantID userID ks =
     (let reverse = (tenantID \<in> ks_set ks (membershipV2ByUserKey userID)) in
      case ks_hash ks (membershipV2Key tenantID) userID of
        None \<Rightarrow> (if \<not> reverse then [''missing'', []] else [''corrupt'', []], [])
      | Some val \<Rightarrow> (if \<not> reverse then [''corrupt'', val] else [''found'', val], []))"

definition membershipV2_GetExact ::
  "'w store \<Rightarrow> directoryLib \<Rightarrow> 'w \<Rightarrow> string \<Rightarrow> string \<Rightarrow> membership option res \<times> 'w" where
  "membershipV2_GetExact R L w tenantID userID =
     (if \<not> activeTenantIdentity tenantID then (Inl ErrInvalidTenant, w)
      else if \<not> canonicalMembershipV2UserID userID then (Inl ErrInvalidArgument, w)
      else
        (case rEval R w (membershipV2ReadScript tenantID userID) of
           (Inr [status, val], w') \<Rightarrow>
             (if status = ''missing'' then (Inr None, w')
              else if status = ''found''
              then (case decodeMembershipV2 L tenantID userID val of
                      None \<Rightarrow> (Inl errStoredMembershipV2Contract, w') | Some m \<Rightarrow> (Inr (Some m), w'))
              else (Inl errStoredMembershipV2Contract, w'))
         | (_, w') \<Rightarrow> (Inl errStoredMembershipV2Contract, w')))"

section \<open>The exact reader\<close>

record membershipIdentity =
  mi_Id :: string
  mi_TenantId :: string
  mi_UserId :: string
  mi_User :: userIdentity
  mi_Roles :: "string list"
  mi_CreatedAt :: gotime

definition exactMembershipReader_GetExact ::
  "'w store \<Rightarrow> directoryLib \<Rightarrow> ('w \<Rightarrow> string \<Rightarrow> tenant option res) \<Rightarrow> 'w \<Rightarrow> string \<Rightarrow> string \<Rightarrow>
   membershipIdentity option res" where
  "exactMembershipReader_GetExact R L getTenant w tenantID userID =
     (if \<not> activeTenantIdentity tenantID then Inl ErrInvalidTenant
      else if userID = ''.'' \<or> userID = ''..'' \<or> \<not> canonicalUserIdentity userID then Inl ErrInvalidArgument
      else
        (case (rHGet R w (membershipsKey tenantID) userID, rSIsMember R w (membershipsByUserKey userID) tenantID) of
           (Inr forward, Inr reverse) \<Rightarrow>
             if forward = None \<and> \<not> reverse then Inr None
             else if (forward \<noteq> None) \<noteq> reverse then Inl errStoredMembershipReadContract
             else
               (case Option.bind forward (\<lambda>val. if val = [] then None else dl_exactMembership L val) of
                  None \<Rightarrow> Inl errStoredMembershipReadContract
                | Some m \<Rightarrow>
                    if m_TenantId m \<noteq> tenantID \<or> m_UserId m \<noteq> userID \<or> \<not> canonicalUserIdentity (m_Id m) \<or>
                       m_CreatedAt m = None
                    then Inl errStoredMembershipReadContract
                    else
                      (case (canonicalMembershipAssignments (m_Roles m), getTenant w tenantID,
                             userRepo_GetExact R L w userID) of
                         (Some roles, Inr (Some t), Inr (Some u)) \<Rightarrow>
                           if t_Id t \<noteq> tenantID \<or> ui_Id u \<noteq> userID then Inl errStoredMembershipReadContract
                           else Inr (Some \<lparr>mi_Id = m_Id m, mi_TenantId = m_TenantId m, mi_UserId = m_UserId m,
                                  mi_User = u, mi_Roles = roles, mi_CreatedAt = m_CreatedAt m\<rparr>)
                       | _ \<Rightarrow> Inl errStoredMembershipReadContract))
         | _ \<Rightarrow> Inl errStoredMembershipReadContract))"

end
