(* ===== verification/Directory_Deletion.thy ===== *)
theory Directory_Deletion
  imports Directory_Access Memberships
begin

text \<open>
  Deleting users: \<^verbatim>\<open>DeleteByEmail\<close> of \<^verbatim>\<open>user_repository.go\<close> and \<^verbatim>\<open>DeleteDirectoryUser\<close> of
  \<^verbatim>\<open>directory_user_deletion.go\<close>, which checks the authority of the actor and every link of the target in the
  transaction that removes them; and the page of a tenant's users. Conventions as in the theory \<open>Directory_Users\<close>.
\<close>

section \<open>Deletion by email\<close>

text \<open>The groups of the user with the next version, in the order of the client.\<close>

fun bumpedGroups :: "'w store \<Rightarrow> directoryLib \<Rightarrow> int \<Rightarrow> 'w \<Rightarrow> string list \<Rightarrow> (string \<times> string) list res" where
  "bumpedGroups R L now w [] = Inr []"
| "bumpedGroups R L now w (groupID # gs) =
     (case rHGet R w directoryGroupsHash groupID of
        Inr (Some raw) \<Rightarrow>
          (case decodeGroup L raw groupID of
             Inl e \<Rightarrow> Inl e
           | Inr g \<Rightarrow>
               (case marshal (dl_group L) (g\<lparr>g_Version := g_Version g + 1, g_UpdatedAt := Some now\<rparr>) of
                  Inl _ \<Rightarrow> Inl ErrDirectoryInvariant
                | Inr payload \<Rightarrow>
                    (case bumpedGroups R L now w gs of Inl e \<Rightarrow> Inl e | Inr ps \<Rightarrow> Inr ((groupID, payload) # ps))))
      | _ \<Rightarrow> Inl ErrDirectoryInvariant)"

definition boundedMembers :: "'w store \<Rightarrow> 'w \<Rightarrow> string \<Rightarrow> string list res" where
  "boundedMembers R w k =
     (case rSMembers R w k of
        Inl _ \<Rightarrow> Inl ErrDirectoryInvariant
      | Inr ms \<Rightarrow> if length ms > directoryMaximumRelationships then Inl ErrDirectoryInvariant else Inr ms)"

definition unlinkGroups :: "string \<Rightarrow> (string \<times> string) list \<Rightarrow> cmd list" where
  "unlinkGroups userID ps =
     concat (map (\<lambda>(groupID, payload).
       [CSRem (groupMembersKey groupID) userID, CHSet directoryGroupsHash groupID payload]) ps)"

definition unlinkAssignments :: "string \<Rightarrow> string list \<Rightarrow> cmd list" where
  "unlinkAssignments userID ts =
     map (\<lambda>t. CHDel (assignmentsKey t) (assignmentField AccessPrincipalUser userID)) ts"

definition unlinkSubject :: "user \<Rightarrow> cmd list" where
  "unlinkSubject u =
     (case u_CompanyId u of
        None \<Rightarrow> []
      | Some company \<Rightarrow>
          if u_ExternalSubject u \<noteq> [] then [CDel (samlSubjectKey company (u_ExternalSubject u))] else [])"

definition deleteByEmailTx :: "'w store \<Rightarrow> directoryLib \<Rightarrow> int \<Rightarrow> string \<Rightarrow> string \<Rightarrow> 'w \<Rightarrow> unit txn" where
  "deleteByEmailTx R L now email userID w =
     (case rGet R w (userByEmailKey email) of
        Inl e \<Rightarrow> Abort e
      | Inr None \<Rightarrow> Keep ()
      | Inr (Some currentID) \<Rightarrow>
          if currentID \<noteq> userID then Again
          else
            (case (case canonicalStoredUser R L now w userID ErrDirectoryInvariant of
                     Inl _ \<Rightarrow> None | Inr u \<Rightarrow> if u_Email u \<noteq> email then None else Some u) of
               None \<Rightarrow> Abort ErrDirectoryInvariant
             | Some current \<Rightarrow>
                 (case (boundedMembers R w (userGroupsKey userID),
                        boundedMembers R w (principalTenantsKey AccessPrincipalUser userID)) of
                    (Inr groups, Inr tenants) \<Rightarrow>
                      (case bumpedGroups R L now w groups of
                         Inl e \<Rightarrow> Abort e
                       | Inr ps \<Rightarrow>
                           Commit
                             ([CHDel usersHashV2 userID, CDel (userByEmailKey email), CDel (userGroupsKey userID),
                               CDel (principalTenantsKey AccessPrincipalUser userID),
                               CZRem directoryUserEmailIndex (directoryUserIndexMember email userID),
                               CHDel legacyUsersHash email] @
                              unlinkSubject current @
                              unlinkGroups userID ps @ unlinkAssignments userID tenants) ())
                  | _ \<Rightarrow> Abort ErrDirectoryInvariant)))"

definition deleteByEmailWatched :: "string \<Rightarrow> string \<Rightarrow> string list \<Rightarrow> string list \<Rightarrow> string list" where
  "deleteByEmailWatched email userID groups tenants =
     [usersHashV2, userByEmailKey email, directoryUserEmailIndex, userGroupsKey userID,
      principalTenantsKey AccessPrincipalUser userID, directoryGroupsHash] @
     map groupMembersKey groups @ map assignmentsKey tenants"

definition deleteByEmailAttempt ::
  "'w store \<Rightarrow> directoryLib \<Rightarrow> (nat \<Rightarrow> 'w \<Rightarrow> 'w) \<Rightarrow> (nat \<Rightarrow> int) \<Rightarrow> string \<Rightarrow> nat \<Rightarrow> 'w \<Rightarrow> unit res option \<times> 'w" where
  "deleteByEmailAttempt R L others clock email i w =
     (case rGet R w (userByEmailKey email) of
        Inl e \<Rightarrow> (Some (Inl e), w)
      | Inr None \<Rightarrow>
          (case pipelined R w [CHDel legacyUsersHash email] of
             (None, w') \<Rightarrow> (Some (Inr ()), w') | (Some e, w') \<Rightarrow> (Some (Inl e), w'))
      | Inr (Some userID) \<Rightarrow>
          if \<not> canonicalUserIdentity userID then (Some (Inl ErrDirectoryInvariant), w)
          else
            (case (boundedMembers R w (userGroupsKey userID),
                   boundedMembers R w (principalTenantsKey AccessPrincipalUser userID)) of
               (Inr groups, Inr tenants) \<Rightarrow>
                 let w1 = others (2 * i) w in
                 watchTx R (others (2 * i + 1)) (deleteByEmailWatched email userID groups tenants)
                   (deleteByEmailTx R L (clock i) email userID w1) w1
             | _ \<Rightarrow> (Some (Inl ErrDirectoryInvariant), w)))"

definition DeleteByEmail ::
  "'w store \<Rightarrow> directoryLib \<Rightarrow> (nat \<Rightarrow> 'w \<Rightarrow> 'w) \<Rightarrow> (nat \<Rightarrow> int) \<Rightarrow> 'w \<Rightarrow> string \<Rightarrow> unit res \<times> 'w" where
  "DeleteByEmail R L others clock w email0 =
     (let email = normalizeDirectoryEmail L email0 in
      if email = [] then (Inr (), w)
      else retryTx (deleteByEmailAttempt R L others clock email) 0 directoryMaximumRetries w)"

section \<open>Deletion by an administrator\<close>

record directoryDeletionActor =
  act_UserID :: string
  act_TokenVersion :: int
  act_Revision :: int
  act_RecoveredMaster :: bool

definition validateDeletionActor ::
  "'w store \<Rightarrow> directoryLib \<Rightarrow> int \<Rightarrow> 'w \<Rightarrow> directoryDeletionActor \<Rightarrow> gerror option" where
  "validateDeletionActor R L now w actor =
     (case deletionStorageUser R L now w (act_UserID actor) of
        Inl e \<Rightarrow> Some e
      | Inr None \<Rightarrow> Some ErrDirectoryDeletionDenied
      | Inr (Some (u, _)) \<Rightarrow>
          if u_Status u \<noteq> UserStatusActive \<or> u_Role u \<noteq> RoleAdmin \<or> u_PasswordChangeRequired u \<or>
             u_TokenVersion u \<noteq> act_TokenVersion actor \<or> u_Revision u \<noteq> act_Revision actor
          then Some ErrDirectoryDeletionDenied
          else if \<not> act_RecoveredMaster actor then None
          else if u_AuthSource u \<noteq> AuthSourcePassword \<or> u_CompanyId u = None \<or> u_CompanyId u = Some MasterTenantID
          then Some ErrDirectoryDeletionDenied
          else
            (case readAssignment R L w MasterTenantID AccessPrincipalUser (u_Id u) of
               Inl e \<Rightarrow> Some e
             | Inr None \<Rightarrow> Some ErrDirectoryDeletionDenied
             | Inr (Some a) \<Rightarrow>
                 (case rSIsMember R w (principalTenantsKey AccessPrincipalUser (u_Id u)) MasterTenantID of
                    Inl e \<Rightarrow> Some e
                  | Inr reverse \<Rightarrow> if \<not> reverse \<or> a_Roles a \<noteq> [RoleAdmin] then Some ErrDirectoryDeletionDenied else None)))"

definition deletionBoundedSet :: "'w store \<Rightarrow> 'w \<Rightarrow> string \<Rightarrow> string list res" where
  "deletionBoundedSet R w k =
     (case rSCard R w k of
        Inl e \<Rightarrow> Inl e
      | Inr n \<Rightarrow>
          if n > directoryMaximumRelationships then Inl ErrDirectoryInvariant
          else (case rSMembers R w k of
                  Inl e \<Rightarrow> Inl e
                | Inr ms \<Rightarrow> if length ms > directoryMaximumRelationships then Inl ErrDirectoryInvariant else Inr (sort ms)))"

text \<open>\<^verbatim>\<open>prepareAliases\<close>: the email key if the user owns it, and whether a legacy record of the user exists.\<close>

definition prepareAliases ::
  "'w store \<Rightarrow> directoryLib \<Rightarrow> int \<Rightarrow> 'w \<Rightarrow> user \<Rightarrow> string \<Rightarrow> (string list \<times> bool) res" where
  "prepareAliases R L now w u hash =
     (case rZScore R w directoryUserEmailIndex (directoryUserIndexMember (u_Email u) (u_Id u)) of
        Inl e \<Rightarrow> Inl e
      | Inr _ \<Rightarrow>
          (case rGet R w (userByEmailKey (u_Email u)) of
             Inl e \<Rightarrow> Inl e
           | Inr owner \<Rightarrow>
               if owner \<noteq> None \<and> owner \<noteq> Some (u_Id u) \<and> hash = usersHashV2 then Inl ErrDirectoryInvariant
               else let aliases = (if owner = Some (u_Id u) then [userByEmailKey (u_Email u)] else []) in
                 (case rHGet R w legacyUsersHash (u_Email u) of
                    Inl e \<Rightarrow> Inl e
                  | Inr None \<Rightarrow> Inr (aliases, False)
                  | Inr (Some raw) \<Rightarrow>
                      (case exactObject (dl_user L) raw of
                         None \<Rightarrow> Inl ErrDirectoryInvariant
                       | Some legacy \<Rightarrow>
                           if u_Id legacy = [] then Inl ErrDirectoryInvariant
                           else if u_Id legacy \<noteq> u_Id u then Inr (aliases, False)
                           else
                             (case canonicalDirectoryStorageUser L now (Some legacy) of
                                Inl _ \<Rightarrow> Inl ErrDirectoryInvariant
                              | Inr c \<Rightarrow> if u_Email c \<noteq> u_Email u then Inl ErrDirectoryInvariant
                                          else Inr (aliases, True))))))"

fun prepareGroups ::
  "'w store \<Rightarrow> directoryLib \<Rightarrow> int \<Rightarrow> 'w \<Rightarrow> string \<Rightarrow> string list \<Rightarrow> (string \<times> string) list res" where
  "prepareGroups R L now w userID [] = Inr []"
| "prepareGroups R L now w userID (groupID # gs) =
     (if \<not> canonicalGroupID groupID then Inl ErrDirectoryInvariant
      else
        (case rSIsMember R w (groupMembersKey groupID) userID of
           Inl e \<Rightarrow> Inl e
         | Inr False \<Rightarrow> Inl ErrDirectoryInvariant
         | Inr True \<Rightarrow>
             (case rHGet R w directoryGroupsHash groupID of
                Inr (Some raw) \<Rightarrow>
                  (case decodeGroup L raw groupID of
                     Inl _ \<Rightarrow> Inl ErrDirectoryInvariant
                   | Inr g \<Rightarrow>
                       if g_Version g = 2 ^ 63 - 1 then Inl ErrDirectoryInvariant
                       else
                         (case marshal (dl_group L) (g\<lparr>g_Version := g_Version g + 1, g_UpdatedAt := Some now\<rparr>) of
                            Inl _ \<Rightarrow> Inl ErrDirectoryInvariant
                          | Inr payload \<Rightarrow>
                              (case prepareGroups R L now w userID gs of
                                 Inl e \<Rightarrow> Inl e | Inr ps \<Rightarrow> Inr ((groupID, payload) # ps))))
              | _ \<Rightarrow> Inl ErrDirectoryInvariant)))"

fun prepareAssignments :: "'w store \<Rightarrow> directoryLib \<Rightarrow> 'w \<Rightarrow> string \<Rightarrow> string list \<Rightarrow> gerror option" where
  "prepareAssignments R L w userID [] = None"
| "prepareAssignments R L w userID (t # ts) =
     (if \<not> activeTenantIdentity t then Some ErrDirectoryInvariant
      else
        (case rHGet R w (assignmentsKey t) (assignmentField AccessPrincipalUser userID) of
           Inr (Some raw) \<Rightarrow>
             (case decodeAssignment L raw t AccessPrincipalUser userID of
                Inl e \<Rightarrow> Some e | Inr _ \<Rightarrow> prepareAssignments R L w userID ts)
         | _ \<Rightarrow> Some ErrDirectoryInvariant))"

fun prepareLegacyMemberships :: "'w store \<Rightarrow> directoryLib \<Rightarrow> 'w \<Rightarrow> string \<Rightarrow> string list \<Rightarrow> gerror option" where
  "prepareLegacyMemberships R L w userID [] = None"
| "prepareLegacyMemberships R L w userID (t # ts) =
     (if \<not> canonicalTenantIdentity t then Some ErrDirectoryInvariant
      else
        (case rHGet R w (membershipsKey t) userID of
           Inr (Some raw) \<Rightarrow>
             (case (if raw = [] then None else dl_exactMembership L raw) of
                None \<Rightarrow> Some ErrDirectoryInvariant
              | Some m \<Rightarrow>
                  if m_UserId m \<noteq> userID \<or> m_TenantId m \<noteq> t then Some ErrDirectoryInvariant
                  else prepareLegacyMemberships R L w userID ts)
         | _ \<Rightarrow> Some ErrDirectoryInvariant))"

fun prepareV2Memberships ::
  "'w store \<Rightarrow> directoryLib \<Rightarrow> 'w \<Rightarrow> string \<Rightarrow> string list \<Rightarrow> string list \<Rightarrow> gerror option" where
  "prepareV2Memberships R L w userID legacyTenants [] = None"
| "prepareV2Memberships R L w userID legacyTenants (t # ts) =
     (if \<not> canonicalTenantIdentity t \<or> t \<notin> set legacyTenants then Some ErrDirectoryInvariant
      else
        (case rHGet R w (membershipV2Key t) userID of
           Inr (Some raw) \<Rightarrow>
             if decodeMembershipV2 L t userID raw = None then Some ErrDirectoryInvariant
             else if rHGet R w (membershipsKey t) userID \<noteq> Inr (Some raw) then Some ErrDirectoryInvariant
             else prepareV2Memberships R L w userID legacyTenants ts
         | _ \<Rightarrow> Some ErrDirectoryInvariant))"

text \<open>The session index of the SAML logout flow, decoded by \<open>sl_record\<close> (\<^verbatim>\<open>msgpack\<close>).\<close>

record samlSessionIndexRecord =
  sr_TenantID :: string
  sr_Subject :: string
  sr_NameID :: string
  sr_Email :: string
  sr_SessionIndex :: string

abbreviation SAMLIndexPrefix :: string where "SAMLIndexPrefix \<equiv> ''saml:idx:''"

definition SAMLSessionIndexKey :: "directoryLib \<Rightarrow> string \<Rightarrow> string \<Rightarrow> string \<Rightarrow> string" where
  "SAMLSessionIndexKey L tenantID kind val =
     (if tenantID = [] \<or> TrimSpace tenantID \<noteq> tenantID \<or> length tenantID > 128 \<or> val = [] \<or> TrimSpace val \<noteq> val \<or>
         length val > 1024
      then []
      else ''v2:'' @ kind @ '':'' @
        dl_sha256hex L (''v2'' @ [CHR 0x00] @ tenantID @ [CHR 0x00] @ kind @ [CHR 0x00] @ val))"

definition ownedSessionIndex ::
  "'w store \<Rightarrow> directoryLib \<Rightarrow> (string \<Rightarrow> samlSessionIndexRecord option) \<Rightarrow> 'w \<Rightarrow> string \<Rightarrow> string \<Rightarrow> string \<Rightarrow>
   samlSessionIndexRecord option res" where
  "ownedSessionIndex R L msgpack w tenant userID k =
     (case rGet R w k of
        Inl e \<Rightarrow> Inl e
      | Inr None \<Rightarrow> Inr None
      | Inr (Some raw) \<Rightarrow>
          (case msgpack raw of
             None \<Rightarrow> Inl ErrDirectoryInvariant
           | Some r \<Rightarrow>
               if sr_TenantID r \<noteq> tenant \<or> sr_Subject r \<noteq> userID \<or> sr_NameID r = [] \<or> sr_SessionIndex r = [] \<or>
                  sr_Email r = [] \<or>
                  k \<noteq> SAMLIndexPrefix @ SAMLSessionIndexKey L (sr_TenantID r) ''subject'' (sr_Subject r) \<and>
                  k \<noteq> SAMLIndexPrefix @ SAMLSessionIndexKey L (sr_TenantID r) ''nameid'' (sr_NameID r)
               then Inl ErrDirectoryInvariant else Inr (Some r)))"

text \<open>\<^verbatim>\<open>prepareSAML\<close>: the keys of a federated user that go with it, and the keys it watches.\<close>

definition prepareSAML ::
  "'w store \<Rightarrow> directoryLib \<Rightarrow> (string \<Rightarrow> samlSessionIndexRecord option) \<Rightarrow> 'w \<Rightarrow> user \<Rightarrow>
   (string list \<times> string list) res" where
  "prepareSAML R L msgpack w u =
     (if u_AuthSource u \<noteq> AuthSourceSAML then Inr ([], [])
      else
        (case u_CompanyId u of
           None \<Rightarrow> Inl ErrDirectoryInvariant
         | Some tenant \<Rightarrow>
             if \<not> activeTenantIdentity tenant then Inl ErrDirectoryInvariant
             else let aliasKey = samlSubjectKey tenant (u_ExternalSubject u);
                      subjectKey = SAMLIndexPrefix @ SAMLSessionIndexKey L tenant ''subject'' (u_Id u) in
               (case rGet R w aliasKey of
                  Inl e \<Rightarrow> Inl e
                | Inr owner \<Rightarrow>
                    if owner \<noteq> None \<and> owner \<noteq> Some (u_Id u) then Inl ErrDirectoryInvariant
                    else
                      (case ownedSessionIndex R L msgpack w tenant (u_Id u) subjectKey of
                         Inl e \<Rightarrow> Inl e
                       | Inr found \<Rightarrow>
                           let nameID = (case found of None \<Rightarrow> u_ExternalSubject u | Some r \<Rightarrow> sr_NameID r);
                               nameAlias = SAMLSessionIndexKey L tenant ''nameid'' nameID in
                           if nameAlias = [] then Inl ErrDirectoryInvariant
                           else
                             (case ownedSessionIndex R L msgpack w tenant (u_Id u) (SAMLIndexPrefix @ nameAlias) of
                                Inl e \<Rightarrow> Inl e
                              | Inr named \<Rightarrow>
                                  Inr ((if owner \<noteq> None then [aliasKey] else []) @
                                       (if found \<noteq> None then [subjectKey] else []) @
                                       (if named \<noteq> None then [SAMLIndexPrefix @ nameAlias] else []),
                                       [aliasKey, subjectKey, SAMLIndexPrefix @ nameAlias]))))))"

record userDeletionPlan =
  pl_user :: user
  pl_hash :: string
  pl_keys :: "string list"
  pl_legacy :: bool
  pl_groups :: "(string \<times> string) list"
  pl_assignments :: "string list"
  pl_legacyTenants :: "string list"
  pl_v2Tenants :: "string list"
  pl_samlWatched :: "string list"  \<comment> \<open>the keys \<^verbatim>\<open>prepareSAML\<close> watched\<close>

definition prepareUserDeletion ::
  "'w store \<Rightarrow> directoryLib \<Rightarrow> (string \<Rightarrow> samlSessionIndexRecord option) \<Rightarrow> int \<Rightarrow> 'w \<Rightarrow> user \<Rightarrow> string \<Rightarrow>
   userDeletionPlan res" where
  "prepareUserDeletion R L msgpack now w u hash =
     (case (deletionBoundedSet R w (userGroupsKey (u_Id u)),
            deletionBoundedSet R w (principalTenantsKey AccessPrincipalUser (u_Id u)),
            deletionBoundedSet R w (membershipsByUserKey (u_Id u)),
            deletionBoundedSet R w (membershipV2ByUserKey (u_Id u))) of
        (Inr groups, Inr assignments, Inr legacyTenants, Inr v2Tenants) \<Rightarrow>
          if length groups + length assignments + length legacyTenants + length v2Tenants > directoryMaximumRelationships
          then Inl ErrDirectoryInvariant
          else
            (case prepareAliases R L now w u hash of
               Inl e \<Rightarrow> Inl e
             | Inr (aliases, legacy) \<Rightarrow>
                 (case prepareGroups R L now w (u_Id u) groups of
                    Inl e \<Rightarrow> Inl e
                  | Inr ps \<Rightarrow>
                      (case prepareAssignments R L w (u_Id u) assignments of
                         Some e \<Rightarrow> Inl e
                       | None \<Rightarrow>
                           (case prepareLegacyMemberships R L w (u_Id u) legacyTenants of
                              Some e \<Rightarrow> Inl e
                            | None \<Rightarrow>
                                (case prepareV2Memberships R L w (u_Id u) legacyTenants v2Tenants of
                                   Some e \<Rightarrow> Inl e
                                 | None \<Rightarrow>
                                     (case prepareSAML R L msgpack w u of
                                        Inl e \<Rightarrow> Inl e
                                      | Inr (samlKeys, samlWatched) \<Rightarrow>
                                          Inr \<lparr>pl_user = u, pl_hash = hash, pl_keys = aliases @ samlKeys, pl_legacy = legacy,
                                            pl_groups = ps, pl_assignments = assignments,
                                            pl_legacyTenants = legacyTenants, pl_v2Tenants = v2Tenants,
                                            pl_samlWatched = samlWatched\<rparr>))))))
      | (Inl e, _) \<Rightarrow> Inl e | (_, Inl e, _) \<Rightarrow> Inl e | (_, _, Inl e, _) \<Rightarrow> Inl e | (_, _, _, Inl e) \<Rightarrow> Inl e)"

definition applyPlan :: "userDeletionPlan \<Rightarrow> cmd list" where
  "applyPlan p =
     (let userID = u_Id (pl_user p) in
      [CHDel (pl_hash p) userID, CDel (userGroupsKey userID), CDel (principalTenantsKey AccessPrincipalUser userID),
       CDel (membershipsByUserKey userID), CDel (membershipV2ByUserKey userID)] @
      map CDel (pl_keys p) @
      [CZRem directoryUserEmailIndex (directoryUserIndexMember (u_Email (pl_user p)) userID)] @
      (if pl_legacy p then [CHDel legacyUsersHash (u_Email (pl_user p))] else []) @
      unlinkGroups userID (pl_groups p) @ unlinkAssignments userID (pl_assignments p) @
      map (\<lambda>t. CHDel (membershipsKey t) userID) (pl_legacyTenants p) @
      map (\<lambda>t. CHDel (membershipV2Key t) userID) (pl_v2Tenants p))"

text \<open>The keys watched at the start and those that the preparation adds with \<^verbatim>\<open>tx.Watch\<close>.\<close>

definition deletionWatched :: "string \<Rightarrow> directoryDeletionActor \<Rightarrow> string list" where
  "deletionWatched userID actor =
     [usersHashV2, federatedUsersHash, directoryGroupsHash, directoryBackfillMarker, userGroupsKey userID,
      principalTenantsKey AccessPrincipalUser userID, membershipsByUserKey userID, membershipV2ByUserKey userID] @
     (if act_RecoveredMaster actor
      then [assignmentsKey MasterTenantID, principalTenantsKey AccessPrincipalUser (act_UserID actor)] else [])"

definition planWatched :: "directoryLib \<Rightarrow> userDeletionPlan \<Rightarrow> string list" where
  "planWatched L p =
     [userByEmailKey (u_Email (pl_user p)), directoryUserEmailIndex, legacyUsersHash] @
     map (\<lambda>(g, _). groupMembersKey g) (pl_groups p) @ map assignmentsKey (pl_assignments p) @
     map membershipsKey (pl_legacyTenants p) @ map membershipV2Key (pl_v2Tenants p) @ pl_samlWatched p"

definition deleteDirectoryUserTx ::
  "'w store \<Rightarrow> directoryLib \<Rightarrow> (string \<Rightarrow> samlSessionIndexRecord option) \<Rightarrow> int \<Rightarrow> string \<Rightarrow> int \<Rightarrow>
   directoryDeletionActor \<Rightarrow> 'w \<Rightarrow> string list \<times> bool txn" where
  "deleteDirectoryUserTx R L msgpack now userID version actor w =
     (case validateDeletionActor R L now w actor of
        Some e \<Rightarrow> ([], Abort e)
      | None \<Rightarrow>
          (case rGet R w directoryBackfillMarker of
             Inl e \<Rightarrow> ([], Abort e)
           | Inr None \<Rightarrow> ([], Abort (ErrText ''redis: nil''))
           | Inr (Some marker) \<Rightarrow>
               if marker \<noteq> directoryBackfillVersion then ([], Abort ErrDirectoryInvariant)
               else
                 (case deletionStorageUser R L now w userID of
                    Inl e \<Rightarrow> ([], Abort e)
                  | Inr None \<Rightarrow> ([], Commit [CPing] False)
                  | Inr (Some (target, hash)) \<Rightarrow>
                      if u_Revision target + 1 \<noteq> version then ([], Abort ErrVersionConflict)
                      else
                        (case prepareUserDeletion R L msgpack now w target hash of
                           Inl e \<Rightarrow> ([], Abort e)
                         | Inr plan \<Rightarrow> (planWatched L plan, Commit (applyPlan plan) True)))))"

definition DeleteDirectoryUser ::
  "'w store \<Rightarrow> directoryLib \<Rightarrow> (string \<Rightarrow> samlSessionIndexRecord option) \<Rightarrow> (nat \<Rightarrow> 'w \<Rightarrow> 'w) \<Rightarrow> (nat \<Rightarrow> int) \<Rightarrow> 'w \<Rightarrow>
   string \<Rightarrow> int \<Rightarrow> directoryDeletionActor \<Rightarrow> bool res \<times> 'w" where
  "DeleteDirectoryUser R L msgpack others clock w userID version actor =
     (if \<not> canonicalUserIdentity userID \<or> version < 1 then (Inl ErrInvalidArgument, w)
      else if \<not> canonicalUserIdentity (act_UserID actor) \<or> act_UserID actor = userID \<or> act_TokenVersion actor < 0 \<or>
              act_Revision actor < 0
      then (Inl ErrDirectoryDeletionDenied, w)
      else retryTx (\<lambda>i v.
             case deleteDirectoryUserTx R L msgpack (clock i) userID version actor v of
               (added, t) \<Rightarrow> watchTx R (others i) (deletionWatched userID actor @ added) t v)
             0 directoryMaximumRetries w)"

section \<open>The users of a tenant\<close>

fun assignedUsers :: "'w store \<Rightarrow> directoryLib \<Rightarrow> 'w \<Rightarrow> string \<Rightarrow> (string \<times> string) list \<Rightarrow> string list \<Rightarrow> string list res" where
  "assignedUsers R L w tenantID [] acc = Inr acc"
| "assignedUsers R L w tenantID ((f, raw) # kvs) acc =
     (case parseAssignmentField L f of
        (kind, principalID, ok) \<Rightarrow>
          if \<not> ok then Inl ErrDirectoryInvariant
          else
            (case decodeAssignment L raw tenantID kind principalID of
               Inl e \<Rightarrow> Inl e
             | Inr _ \<Rightarrow>
                 (case (if kind = AccessPrincipalUser then Inr [principalID]
                        else if kind = AccessPrincipalGroup
                        then (case GetGroup R L w principalID of
                                Inl e \<Rightarrow> Inl e
                              | Inr None \<Rightarrow> Inl ErrDirectoryInvariant
                              | Inr (Some g) \<Rightarrow>
                                  if g_Status g \<noteq> IdentityGroupStatusActive then Inr []
                                  else
                                    (case boundedMembers R w (groupMembersKey principalID) of
                                       Inl e \<Rightarrow> Inl e
                                     | Inr ms \<Rightarrow>
                                         if \<not> list_all canonicalUserIdentity ms then Inl ErrDirectoryInvariant else Inr ms))
                        else Inr []) of
                    Inl e \<Rightarrow> Inl e
                  | Inr ids \<Rightarrow>
                      let acc' = fold List.insert ids acc in
                      if length acc' > 100000 then Inl ErrDirectoryInvariant
                      else assignedUsers R L w tenantID kvs acc')))"

fun matchingUsers ::
  "'w store \<Rightarrow> directoryLib \<Rightarrow> int \<Rightarrow> 'w \<Rightarrow> string \<Rightarrow> string list \<Rightarrow> (string \<times> user) list res" where
  "matchingUsers R L now w search [] = Inr []"
| "matchingUsers R L now w search (userID # ids) =
     (case readStorageUser R L now w userID of
        Inl e \<Rightarrow> Inl e
      | Inr None \<Rightarrow> Inl ErrDirectoryInvariant
      | Inr (Some u) \<Rightarrow>
          (case matchingUsers R L now w search ids of
             Inl e \<Rightarrow> Inl e
           | Inr rest \<Rightarrow>
               Inr (if search \<noteq> [] \<and> \<not> HasPrefix (u_Email u) search then rest
                    else (directoryUserIndexMember (u_Email u) (u_Id u), u) # rest)))"

definition tenantUserScope :: "string \<Rightarrow> string \<Rightarrow> string" where
  "tenantUserScope tenantID search = tenantID @ [CHR 0x00] @ search"

definition ListTenantDirectoryUsers ::
  "'w store \<Rightarrow> directoryLib \<Rightarrow> int \<Rightarrow> 'w \<Rightarrow> string \<Rightarrow> string \<Rightarrow> string \<Rightarrow> int \<Rightarrow> (directoryUser list \<times> string) res" where
  "ListTenantDirectoryUsers R L now w tenantID search0 token limit =
     (if \<not> activeTenantIdentity tenantID \<or> limit < 1 \<or> limit > int directoryMaximumPageSize then Inl ErrInvalidArgument
      else let search = normalizeDirectorySearch L search0 in
        if search = invalidSearch then Inl ErrInvalidArgument
        else
          (case decodeDirectoryCursor L token ''tenant-users'' (tenantUserScope tenantID search) of
             Inl e \<Rightarrow> Inl e
           | Inr after \<Rightarrow>
               (case rHGetAll R w (assignmentsKey tenantID) of
                  Inl _ \<Rightarrow> Inl ErrDirectoryInvariant
                | Inr kvs \<Rightarrow>
                    if length kvs > directoryMaximumAssignments then Inl ErrDirectoryInvariant
                    else
                      (case assignedUsers R L w tenantID kvs [] of
                         Inl e \<Rightarrow> Inl e
                       | Inr ids \<Rightarrow>
                           (case matchingUsers R L now w search ids of
                              Inl e \<Rightarrow> Inl e
                            | Inr found \<Rightarrow>
                                let (visible, pending) = pageAfter (sort (map fst found)) after (nat limit) in
                                (case nextToken L ''tenant-users'' (tenantUserScope tenantID search) pending (last visible) of
                                   Inl e \<Rightarrow> Inl e
                                 | Inr t \<Rightarrow>
                                     Inr (map (\<lambda>m. directoryUserProjection (the (map_of found m))) visible, t)))))))"

end
