(* ===== verification/Directory_Backfill.thy ===== *)
theory Directory_Backfill
  imports Directory_Deletion "HOL-Library.AList"
begin

text \<open>
  The start-up migration \<^verbatim>\<open>Backfill\<close> of \<^verbatim>\<open>identity_directory_repository.go\<close>: legacy users and memberships are copied
  into the directory under a lease, once, and a marker records that it is done. The lease is renewed by a goroutine;
  losing it cancels the calls, which is an error of a command here. The loops over Redis cursors end when Redis
  returns the cursor zero: they are partial functions.
\<close>

section \<open>Scans\<close>

definition mergeBounded ::
  "nat \<Rightarrow> (string \<times> string) list \<Rightarrow> (string \<times> string) list \<Rightarrow> (string \<times> string) list res" where
  "mergeBounded maximum kvs acc =
     (let acc' = fold (\<lambda>(f, v). AList.update f v) kvs acc in
      if length acc' > maximum then Inl ErrDirectoryInvariant else Inr acc')"

partial_function (option) scanHash ::
  "'w store \<Rightarrow> 'w \<Rightarrow> string \<Rightarrow> nat \<Rightarrow> nat \<Rightarrow> (string \<times> string) list \<Rightarrow> (string \<times> string) list res option" where
  "scanHash R w k maximum cursor acc =
     (case rHScan R w k cursor 256 of
        Inl e \<Rightarrow> Some (Inl e)
      | Inr (kvs, next) \<Rightarrow>
          (case mergeBounded maximum kvs acc of
             Inl e \<Rightarrow> Some (Inl e)
           | Inr acc' \<Rightarrow> if next = 0 then Some (Inr acc') else scanHash R w k maximum next acc'))"

definition scanHashBounded :: "'w store \<Rightarrow> 'w \<Rightarrow> string \<Rightarrow> nat \<Rightarrow> (string \<times> string) list res option" where
  "scanHashBounded R w k maximum = scanHash R w k maximum 0 []"

text \<open>\<open>scanKeys w cursor\<close> is \<^verbatim>\<open>SCAN\<close> with the pattern \<^verbatim>\<open>memberships:*\<close>.\<close>

partial_function (option) scanKeyNames ::
  "('w \<Rightarrow> nat \<Rightarrow> (string list \<times> nat) res) \<Rightarrow> 'w \<Rightarrow> nat \<Rightarrow> nat \<Rightarrow> string list \<Rightarrow> string list res option" where
  "scanKeyNames scanKeys w maximum cursor acc =
     (case scanKeys w cursor of
        Inl e \<Rightarrow> Some (Inl e)
      | Inr (names, next) \<Rightarrow>
          if length (acc @ names) > maximum then Some (Inl ErrDirectoryInvariant)
          else if next = 0 then Some (Inr (sort (acc @ names)))
          else scanKeyNames scanKeys w maximum next (acc @ names))"

section \<open>Users\<close>

text \<open>The fold \<^verbatim>\<open>consume\<close>: users by identifier and identifiers by email.\<close>

fun consumeUsers ::
  "directoryLib \<Rightarrow> int \<Rightarrow> bool \<Rightarrow> string list \<Rightarrow> (string \<rightharpoonup> user) \<times> (string \<rightharpoonup> string) \<times> string list \<Rightarrow>
   ((string \<rightharpoonup> user) \<times> (string \<rightharpoonup> string) \<times> string list) res" where
  "consumeUsers L now prefer [] st = Inr st"
| "consumeUsers L now prefer (raw # raws) (byID, byEmail, ids) =
     (case unmarshal (dl_user L) raw of
        Inl _ \<Rightarrow> Inl ErrDirectoryInvariant
      | Inr u \<Rightarrow>
          (case canonicalDirectoryStorageUser L now (Some u) of
             Inl _ \<Rightarrow> Inl ErrDirectoryInvariant
           | Inr c \<Rightarrow>
               if byID (u_Id c) \<noteq> None \<and> \<not> prefer then consumeUsers L now prefer raws (byID, byEmail, ids)
               else if byEmail (u_Email c) \<noteq> None \<and> byEmail (u_Email c) \<noteq> Some (u_Id c) then Inl ErrDirectoryInvariant
               else consumeUsers L now prefer raws
                      (byID(u_Id c \<mapsto> c), byEmail(u_Email c \<mapsto> u_Id c), List.insert (u_Id c) ids)))"

fun writeUsers ::
  "'w store \<Rightarrow> directoryLib \<Rightarrow> (nat \<Rightarrow> 'w \<Rightarrow> 'w) \<Rightarrow> (string \<rightharpoonup> user) \<Rightarrow> nat \<Rightarrow> 'w \<Rightarrow> string list \<Rightarrow> gerror option \<times> 'w" where
  "writeUsers R L others byID i w [] = (None, w)"
| "writeUsers R L others byID i w (userID # ids) =
     (case byID userID of
        None \<Rightarrow> writeUsers R L others byID i w ids
      | Some u \<Rightarrow>
          let payload = (case marshal (dl_user L) u of Inl _ \<Rightarrow> [] | Inr p \<Rightarrow> p) in
          (case rGet R w (userByEmailKey (u_Email u)) of
             Inl _ \<Rightarrow> (Some ErrDirectoryInvariant, w)
           | Inr owner \<Rightarrow>
               if owner \<noteq> None \<and> owner \<noteq> Some userID then (Some ErrDirectoryInvariant, w)
               else
                 (case pipelined R (others i w)
                         [CHSet usersHashV2 userID payload, CSet (userByEmailKey (u_Email u)) userID,
                          CZAdd directoryUserEmailIndex (directoryUserIndexMember (u_Email u) userID)] of
                    (Some e, w') \<Rightarrow> (Some e, w')
                  | (None, w') \<Rightarrow> writeUsers R L others byID (Suc i) w' ids)))"

definition backfillUsers ::
  "'w store \<Rightarrow> directoryLib \<Rightarrow> (nat \<Rightarrow> 'w \<Rightarrow> 'w) \<Rightarrow> int \<Rightarrow> 'w \<Rightarrow> (nat res \<times> 'w) option" where
  "backfillUsers R L others now w =
     Option.bind (scanHashBounded R w usersHashV2 100000) (\<lambda>r1.
       case r1 of
         Inl e \<Rightarrow> Some (Inl e, w)
       | Inr v2 \<Rightarrow>
           Option.bind (scanHashBounded R w legacyUsersHash 100000) (\<lambda>r2.
             case r2 of
               Inl e \<Rightarrow> Some (Inl e, w)
             | Inr legacy \<Rightarrow>
                 (case consumeUsers L now True (map snd v2) (Map.empty, Map.empty, []) of
                    Inl e \<Rightarrow> Some (Inl e, w)
                  | Inr st \<Rightarrow>
                      (case consumeUsers L now False (map snd legacy) st of
                         Inl e \<Rightarrow> Some (Inl e, w)
                       | Inr (byID, _, ids) \<Rightarrow>
                           (case writeUsers R L others byID 0 w (sort ids) of
                              (Some e, w') \<Rightarrow> Some (Inl e, w')
                            | (None, w') \<Rightarrow> Some (Inr (length ids), w'))))))"

section \<open>Assignments\<close>

record candidate =
  ca_Roles :: "string list"
  ca_V2 :: bool

text \<open>One membership record of a scanned key; a version-two record wins over a legacy one.\<close>

fun collectMemberships ::
  "directoryLib \<Rightarrow> string \<Rightarrow> bool \<Rightarrow> (string \<times> string) list \<Rightarrow> ((string \<times> string) \<times> candidate) list \<Rightarrow>
   ((string \<times> string) \<times> candidate) list res" where
  "collectMemberships L tenantID isV2 [] acc = Inr acc"
| "collectMemberships L tenantID isV2 ((userID, raw) # kvs) acc =
     (case unmarshal (dl_membership L) raw of
        Inl _ \<Rightarrow> Inl ErrDirectoryInvariant
      | Inr m \<Rightarrow>
          if m_TenantId m \<noteq> tenantID \<or> m_UserId m \<noteq> userID then Inl ErrDirectoryInvariant
          else
            (case canonicalDirectoryRoles (m_Roles m) of
               Inl _ \<Rightarrow> Inl ErrDirectoryInvariant
             | Inr roles \<Rightarrow>
                 let prior = map_of acc (tenantID, userID) in
                 if (case prior of None \<Rightarrow> False | Some p \<Rightarrow> ca_V2 p \<and> \<not> isV2)
                 then collectMemberships L tenantID isV2 kvs acc
                 else if (case prior of None \<Rightarrow> False | Some p \<Rightarrow> ca_V2 p = isV2 \<and> ca_Roles p \<noteq> roles)
                 then Inl ErrDirectoryInvariant
                 else
                   let acc' = AList.update (tenantID, userID) \<lparr>ca_Roles = roles, ca_V2 = isV2\<rparr> acc in
                   if length acc' > 100000 then Inl ErrDirectoryInvariant
                   else collectMemberships L tenantID isV2 kvs acc'))"

definition membershipKeyTenant :: "string \<Rightarrow> (string \<times> bool) option" where
  "membershipKeyTenant k =
     (if HasPrefix k ''memberships:v2:'' then Some (TrimPrefix k ''memberships:v2:'', True)
      else if HasPrefix k ''memberships:'' then Some (TrimPrefix k ''memberships:'', False)
      else None)"

fun collectKeys ::
  "'w store \<Rightarrow> directoryLib \<Rightarrow> 'w \<Rightarrow> string list \<Rightarrow> ((string \<times> string) \<times> candidate) list \<Rightarrow>
   ((string \<times> string) \<times> candidate) list res option" where
  "collectKeys R L w [] acc = Some (Inr acc)"
| "collectKeys R L w (k # ks) acc =
     (case membershipKeyTenant k of
        None \<Rightarrow> collectKeys R L w ks acc
      | Some (tenantID, isV2) \<Rightarrow>
          if \<not> canonicalTenantIdentity tenantID then Some (Inl ErrDirectoryInvariant)
          else if tenantID = RetiredDefaultTenantID then collectKeys R L w ks acc
          else
            Option.bind (scanHashBounded R w k directoryMaximumAssignments) (\<lambda>r.
              case r of
                Inl e \<Rightarrow> Some (Inl e)
              | Inr kvs \<Rightarrow>
                  (case collectMemberships L tenantID isV2 kvs acc of
                     Inl e \<Rightarrow> Some (Inl e) | Inr acc' \<Rightarrow> collectKeys R L w ks acc')))"

text \<open>
  The copy: a pair that has an assignment keeps it, a federated user gets none outside its home tenant. The calls to
  \<^verbatim>\<open>PutAccessAssignment\<close> take eight steps of \<open>others\<close> each.
\<close>

fun copyAssignments ::
  "'w store \<Rightarrow> directoryLib \<Rightarrow> registry option \<Rightarrow> (nat \<Rightarrow> 'w \<Rightarrow> 'w) \<Rightarrow> (nat \<Rightarrow> int) \<Rightarrow> nat \<Rightarrow> 'w \<Rightarrow>
   ((string \<times> string) \<times> candidate) list \<Rightarrow> nat \<Rightarrow> nat res \<times> 'w" where
  "copyAssignments R L rg others clock i w [] copied = (Inr copied, w)"
| "copyAssignments R L rg others clock i w (((t, userID), c) # pairs) copied =
     (case GetAccessAssignment R L w t AccessPrincipalUser userID of
        Inl e \<Rightarrow> (Inl e, w)
      | Inr (Some _) \<Rightarrow> copyAssignments R L rg others clock i w pairs copied
      | Inr None \<Rightarrow>
          (case GetDirectoryUser R L (clock i) w userID of
             Inl e \<Rightarrow> (Inl e, w)
           | Inr None \<Rightarrow> (Inl ErrNotFound, w)
           | Inr (Some u) \<Rightarrow>
               if foreignPrincipal u t then copyAssignments R L rg others clock i w pairs copied
               else
                 (case PutAccessAssignment R L rg (\<lambda>j. others (8 * i + j)) (\<lambda>j. clock (8 * i + j)) w t
                         AccessPrincipalUser userID (ca_Roles c) [] of
                    (Inl e, w') \<Rightarrow> (Inl e, w')
                  | (Inr (_, created), w') \<Rightarrow>
                      copyAssignments R L rg others clock (Suc i) w' pairs (if created then Suc copied else copied))))"

definition backfillAssignments ::
  "'w store \<Rightarrow> directoryLib \<Rightarrow> registry option \<Rightarrow> ('w \<Rightarrow> nat \<Rightarrow> (string list \<times> nat) res) \<Rightarrow> (nat \<Rightarrow> 'w \<Rightarrow> 'w) \<Rightarrow>
   (nat \<Rightarrow> int) \<Rightarrow> 'w \<Rightarrow> (nat res \<times> 'w) option" where
  "backfillAssignments R L rg scanKeys others clock w =
     Option.bind (scanKeyNames scanKeys w (2 * directoryMaximumAssignments) 0 []) (\<lambda>r.
       case r of
         Inl e \<Rightarrow> Some (Inl e, w)
       | Inr names \<Rightarrow>
           Option.bind (collectKeys R L w names []) (\<lambda>rv.
             case rv of
               Inl e \<Rightarrow> Some (Inl e, w)
             | Inr pairs \<Rightarrow> Some (copyAssignments R L rg others clock 0 w (sort_key fst pairs) 0)))"

section \<open>The migration\<close>

abbreviation directoryBackfillLock :: string where "directoryBackfillLock \<equiv> ''identity:v2:backfill:owner''"

definition directoryBackfillComplete :: "'w store \<Rightarrow> 'w \<Rightarrow> bool res" where
  "directoryBackfillComplete R w =
     (case rGet R w directoryBackfillMarker of
        Inl e \<Rightarrow> Inl e
      | Inr None \<Rightarrow> Inr False
      | Inr (Some marker) \<Rightarrow> if marker \<noteq> directoryBackfillVersion then Inl ErrDirectoryInvariant else Inr True)"

definition completeBackfillScript :: "string \<Rightarrow> keyspace \<Rightarrow> string list \<times> cmd list" where
  "completeBackfillScript owner ks =
     (if ks_string ks directoryBackfillLock \<noteq> Some owner then ([''0''], [])
      else ([''1''], [CSet directoryBackfillMarker directoryBackfillVersion, CDel directoryBackfillLock]))"

definition releaseLeaseScript :: "string \<Rightarrow> keyspace \<Rightarrow> string list \<times> cmd list" where
  "releaseLeaseScript owner ks =
     (if ks_string ks directoryBackfillLock \<noteq> Some owner then ([''0''], []) else ([''1''], [CDel directoryBackfillLock]))"

definition releaseLease :: "'w store \<Rightarrow> string \<Rightarrow> 'a \<times> 'w \<Rightarrow> 'a \<times> 'w" where
  "releaseLease R owner r = (fst r, snd (rEval R (snd r) (releaseLeaseScript owner)))"

definition underLease ::
  "'w store \<Rightarrow> directoryLib \<Rightarrow> registry option \<Rightarrow> ('w \<Rightarrow> nat \<Rightarrow> (string list \<times> nat) res) \<Rightarrow> (nat \<Rightarrow> nat \<Rightarrow> 'w \<Rightarrow> 'w) \<Rightarrow>
   (nat \<Rightarrow> int) \<Rightarrow> string \<Rightarrow> 'w \<Rightarrow> ((nat \<times> nat) res \<times> 'w) option" where
  "underLease R L rg scanKeys others clock owner w =
     Option.bind (backfillUsers R L (others 0) (clock 0) w) (\<lambda>r1.
       case r1 of
         (Inl e, w1) \<Rightarrow> Some (releaseLease R owner (Inl e, w1))
       | (Inr users, w1) \<Rightarrow>
           Option.bind (backfillAssignments R L rg scanKeys (others 1) clock w1) (\<lambda>r2.
             case r2 of
               (Inl e, w2) \<Rightarrow> Some (releaseLease R owner (Inl e, w2))
             | (Inr copied, w2) \<Rightarrow>
                 (case rEval R (others 2 0 w2) (completeBackfillScript owner) of
                    (Inl e, w3) \<Rightarrow> Some (releaseLease R owner (Inl e, w3))
                  | (Inr status, w3) \<Rightarrow>
                      Some (if status \<noteq> [''1''] then releaseLease R owner (Inl ErrDirectoryBackfillInProgress, w3)
                            else (Inr (users, copied), w3)))))"

definition Backfill ::
  "'w store \<Rightarrow> directoryLib \<Rightarrow> registry option \<Rightarrow> ('w \<Rightarrow> nat \<Rightarrow> (string list \<times> nat) res) \<Rightarrow> (nat \<Rightarrow> nat \<Rightarrow> 'w \<Rightarrow> 'w) \<Rightarrow>
   (nat \<Rightarrow> int) \<Rightarrow> string \<Rightarrow> 'w \<Rightarrow> ((nat \<times> nat) res \<times> 'w) option" where
  "Backfill R L rg scanKeys others clock owner w =
     (case directoryBackfillComplete R w of
        Inl e \<Rightarrow> Some (Inl e, w)
      | Inr True \<Rightarrow> Some (Inr (0, 0), w)
      | Inr False \<Rightarrow>
          (case rSetNX R w directoryBackfillLock owner of
             (Inl e, w1) \<Rightarrow> Some (Inl e, w1)
           | (Inr False, w1) \<Rightarrow>
               (case directoryBackfillComplete R w1 of
                  Inl e \<Rightarrow> Some (Inl e, w1)
                | Inr True \<Rightarrow> Some (Inr (0, 0), w1)
                | Inr False \<Rightarrow> Some (Inl ErrDirectoryBackfillInProgress, w1))
           | (Inr True, w1) \<Rightarrow> underLease R L rg scanKeys others clock owner w1))"

end
