(* ===== verification/Oob_Codes.thy ===== *)
theory Oob_Codes
  imports User_Repository
begin

text \<open>
  One-time codes: \<^verbatim>\<open>subject_oob_repository.go\<close>, where a code is bound to one account generation, the email codes and
  their legacy form of \<^verbatim>\<open>user_repository.go\<close>, and the attempt counter \<^verbatim>\<open>AllowAuthenticationAttempt\<close>. The Lua scripts
  run atomically; \<open>tonumber\<close> is Lua's.
\<close>

record oobLib =
  ol_tonumber :: "string \<Rightarrow> int option"
  ol_legacyPayload :: "string \<Rightarrow> (string \<times> string \<times> int) res"  \<comment> \<open>\<^verbatim>\<open>json.Unmarshal\<close> to email, reqType, expiresAt\<close>

abbreviation legacyOobHash :: string where "legacyOobHash \<equiv> ''oobs''"

definition oobKey :: "string \<Rightarrow> string" where
  "oobKey code = ''oob:'' @ code"

definition fifteenMinutes :: int where "fifteenMinutes = 900000000000"

text \<open>\<^verbatim>\<open>strconv.Atoi\<close> on 64 bits.\<close>

definition Atoi64 :: "string \<Rightarrow> int option" where
  "Atoi64 s =
     (let (neg, ds) = (case s of [] \<Rightarrow> (False, []) | c # cs \<Rightarrow>
            if c = CHR ''-'' then (True, cs) else if c = CHR ''+'' then (False, cs) else (False, s)) in
      if ds = [] \<or> \<not> list_all inDigit ds then None
      else let n = (if neg then - int (decValue ds) else int (decValue ds)) in
        if n < - (2 ^ 63) \<or> n > 2 ^ 63 - 1 then None else Some n)"

section \<open>Codes bound to an account generation\<close>

definition validOOBSubject :: "directoryLib \<Rightarrow> oobSubject \<Rightarrow> bool" where
  "validOOBSubject L p \<longleftrightarrow>
     canonicalUserIdentity (ob_UserID p) \<and> normalizeDirectoryEmail L (ob_Email p) = ob_Email p \<and> ob_Email p \<noteq> [] \<and>
     0 \<le> ob_TokenVersion p"

definition oobRequest :: "string \<Rightarrow> bool" where
  "oobRequest request \<longleftrightarrow> request = ''EMAIL_SIGNIN'' \<or> request = ''PASSWORD_RESET''"

definition SaveSubjectOobCode ::
  "'w store \<Rightarrow> directoryLib \<Rightarrow> int \<Rightarrow> 'w \<Rightarrow> string \<Rightarrow> oobSubject \<Rightarrow> string \<Rightarrow> gerror option \<times> 'w" where
  "SaveSubjectOobCode R L now w code p request =
     (if TrimSpace code = [] \<or> \<not> validOOBSubject L p \<or> \<not> oobRequest request then (Some ErrInvalidArgument, w)
      else pipelined R w
        [CHSet (oobKey code) ''email'' (ob_Email p), CHSet (oobKey code) ''userId'' (ob_UserID p),
         CHSet (oobKey code) ''tokenVersion'' (FormatInt (ob_TokenVersion p)), CHSet (oobKey code) ''reqType'' request,
         CHSet (oobKey code) ''expiresAt'' (FormatInt (Unix (now + fifteenMinutes))), CExpire (oobKey code) 900])"

definition consumeSubjectOobScript :: "oobLib \<Rightarrow> string \<Rightarrow> string \<Rightarrow> int \<Rightarrow> keyspace \<Rightarrow> string list \<times> cmd list" where
  "consumeSubjectOobScript Q key request now ks =
     (let h = ks_hash ks key in
      if h ''reqType'' \<noteq> Some request then ([], [])
      else
        (case (h ''email'', h ''userId'', h ''tokenVersion'', Option.bind (h ''expiresAt'') (ol_tonumber Q)) of
           (Some email, Some userID, Some version, Some expiry) \<Rightarrow>
             if expiry < now then ([], [CDel key]) else ([userID, email, version], [CDel key])
         | _ \<Rightarrow> ([], [CDel key])))"

definition ConsumeSubjectOobCode ::
  "'w store \<Rightarrow> directoryLib \<Rightarrow> oobLib \<Rightarrow> int \<Rightarrow> 'w \<Rightarrow> string \<Rightarrow> string \<Rightarrow> oobSubject res \<times> 'w" where
  "ConsumeSubjectOobCode R L Q now w code request =
     (if TrimSpace code = [] \<or> \<not> oobRequest request then (Inl ErrInvalidOob, w)
      else
        (case rEval R w (consumeSubjectOobScript Q (oobKey code) request (Unix now)) of
           (Inl e, w') \<Rightarrow> (Inl e, w')
         | (Inr [userID, email, version], w') \<Rightarrow>
             (case Atoi64 version of
                None \<Rightarrow> (Inl ErrInvalidOob, w')
              | Some n \<Rightarrow>
                  let p = \<lparr>ob_UserID = userID, ob_Email = email, ob_TokenVersion = n\<rparr> in
                  if FormatInt n \<noteq> version \<or> \<not> validOOBSubject L p then (Inl ErrInvalidOob, w') else (Inr p, w'))
         | (Inr _, w') \<Rightarrow> (Inl ErrInvalidOob, w')))"

section \<open>Email codes\<close>

definition SaveOobCode ::
  "'w store \<Rightarrow> int \<Rightarrow> ('w \<Rightarrow> 'w) \<Rightarrow> 'w \<Rightarrow> string \<Rightarrow> string \<Rightarrow> string \<Rightarrow> gerror option \<times> 'w" where
  "SaveOobCode R now other w code0 email0 reqType0 =
     (let code = TrimSpace code0; email = TrimSpace email0; reqType = TrimSpace reqType0 in
      if code = [] \<or> email = [] \<or> reqType = [] then (Some ErrInvalidArgument, w)
      else
        (case pipelined R w
                [CHSet (oobKey code) ''email'' email, CHSet (oobKey code) ''reqType'' reqType,
                 CHSet (oobKey code) ''expiresAt'' (FormatInt (Unix (now + fifteenMinutes)))] of
           (Some e, w') \<Rightarrow> (Some e, w')
         | (None, w') \<Rightarrow> pipelined R (other w') [CExpire (oobKey code) 900]))"

text \<open>Here an unreadable expiry does not stop the code.\<close>

definition consumeOobCodeScript :: "oobLib \<Rightarrow> string \<Rightarrow> string \<Rightarrow> int \<Rightarrow> keyspace \<Rightarrow> string list \<times> cmd list" where
  "consumeOobCodeScript Q key request now ks =
     (let h = ks_hash ks key in
      if h ''reqType'' \<noteq> Some request then ([[]], [])
      else if (case Option.bind (h ''expiresAt'') (ol_tonumber Q) of None \<Rightarrow> False | Some expiry \<Rightarrow> expiry < now)
      then ([[]], [CDel key])
      else (case h ''email'' of None \<Rightarrow> ([[]], [CDel key]) | Some email \<Rightarrow> ([email], [CDel key])))"

definition consumeLegacyOobCode ::
  "'w store \<Rightarrow> oobLib \<Rightarrow> int \<Rightarrow> ('w \<Rightarrow> 'w) \<Rightarrow> 'w \<Rightarrow> string \<Rightarrow> string \<Rightarrow> string res \<times> 'w" where
  "consumeLegacyOobCode R Q now other w code request =
     (case rHGet R w legacyOobHash code of
        Inl e \<Rightarrow> (Inl e, w)
      | Inr None \<Rightarrow> (Inl ErrInvalidOob, w)
      | Inr (Some val) \<Rightarrow>
          if TrimSpace val = [] then (Inl ErrInvalidOob, w)
          else
            (case ol_legacyPayload Q val of
               Inl e \<Rightarrow> (Inl e, w)
             | Inr (email, reqType, expiresAt) \<Rightarrow>
                 let delete = pipelined R (other w) [CHDel legacyOobHash code] in
                 if expiresAt > 0 \<and> Unix now > expiresAt then (Inl ErrInvalidOob, snd delete)
                 else if TrimSpace reqType \<noteq> request then (Inl ErrInvalidOob, w)
                 else if TrimSpace email = [] then (Inl ErrInvalidOob, snd delete)
                 else (case delete of (Some e, w') \<Rightarrow> (Inl e, w') | (None, w') \<Rightarrow> (Inr email, w'))))"

definition ConsumeOobCode ::
  "'w store \<Rightarrow> oobLib \<Rightarrow> (nat \<Rightarrow> int) \<Rightarrow> (nat \<Rightarrow> 'w \<Rightarrow> 'w) \<Rightarrow> 'w \<Rightarrow> string \<Rightarrow> string \<Rightarrow> string res \<times> 'w" where
  "ConsumeOobCode R Q clock others w code0 request0 =
     (let code = TrimSpace code0; request = TrimSpace request0 in
      if code = [] \<or> request = [] then (Inl ErrInvalidOob, w)
      else
        (case rEval R w (consumeOobCodeScript Q (oobKey code) request (Unix (clock 0))) of
           (Inl e, w') \<Rightarrow> (Inl e, w')
         | (Inr r, w') \<Rightarrow>
             if concat r \<noteq> [] then (Inr (concat r), w')
             else consumeLegacyOobCode R Q (clock 1) (others 1) (others 0 w') code request))"

section \<open>Attempt counters\<close>

definition validAuthenticationBucket :: "string \<Rightarrow> bool" where
  "validAuthenticationBucket v =
     (if v = [] \<or> length v > 64 then False
      else list_all (\<lambda>c. inLower c \<or> inDigit c \<or> c = CHR ''-'' \<or> c = CHR '':'') v)"

definition authenticationAttemptKey :: "directoryLib \<Rightarrow> string \<Rightarrow> string \<Rightarrow> string" where
  "authenticationAttemptKey L bucket subject =
     ''identity:v2:auth:attempt:'' @ dl_sha256hex L (bucket @ [CHR 0x00] @ subject)"

text \<open>\<^verbatim>\<open>INCR\<close> counts from zero and fails on other texts; the count expires with the window.\<close>

definition authenticationAttemptScript :: "string \<Rightarrow> int \<Rightarrow> keyspace \<Rightarrow> string list \<times> cmd list" where
  "authenticationAttemptScript key milliseconds ks =
     (case (case ks_string ks key of None \<Rightarrow> Some 0
             | Some v \<Rightarrow> Option.bind (Atoi64 v) (\<lambda>n. if FormatInt n = v \<and> n < 2 ^ 63 - 1 then Some n else None)) of
        None \<Rightarrow> ([], [])
      | Some n \<Rightarrow>
          ([FormatInt (n + 1)],
           CSet key (FormatInt (n + 1)) # (if n + 1 = 1 then [CExpire key (milliseconds div 1000)] else [])))"

definition AllowAuthenticationAttempt ::
  "'w store \<Rightarrow> directoryLib \<Rightarrow> 'w \<Rightarrow> string \<Rightarrow> string \<Rightarrow> int \<Rightarrow> int \<Rightarrow> bool res \<times> 'w" where
  "AllowAuthenticationAttempt R L w bucket0 subject0 limit window =
     (let bucket = TrimSpace bucket0; subject = TrimSpace subject0 in
      if \<not> validAuthenticationBucket bucket \<or> subject = [] \<or> length subject > 2048 \<or> limit < 1 \<or> window < 1000000
      then (Inl ErrInvalidArgument, w)
      else
        (case rEval R w (authenticationAttemptScript (authenticationAttemptKey L bucket subject) (window div 1000000)) of
           (Inl e, w') \<Rightarrow> (Inl e, w')
         | (Inr r, w') \<Rightarrow>
             (case Atoi64 (concat r) of
                None \<Rightarrow> (Inl (ErrText ''redis: unexpected reply''), w')
              | Some used \<Rightarrow> (Inr (used \<le> limit), w'))))"

section \<open>Lemmas\<close>

lemma decValue_append_digit: "decValue (s @ [c]) = 10 * decValue s + (of_char c - 48)"
  by simp

lemma FormatInt_nonneg: "0 \<le> n \<Longrightarrow> FormatInt n = Itoa (nat n)"
  by (simp add: FormatInt_def)

lemma Itoa_nonempty [simp]: "Itoa n \<noteq> []"
  by (subst Itoa.simps) simp

lemma Itoa_hd: "inDigit (hd (Itoa n))"
  using Itoa_digits [of n] Itoa_nonempty [of n] hd_in_set by blast

lemma Atoi64_FormatInt: "- (2 ^ 63) \<le> n \<Longrightarrow> n \<le> 2 ^ 63 - 1 \<Longrightarrow> Atoi64 (FormatInt n) = Some n"
proof -
  assume n: "- (2 ^ 63) \<le> n" "n \<le> 2 ^ 63 - 1"
  have d: "list_all inDigit (Itoa m)" for m using Itoa_digits by (simp add: list_all_iff)
  obtain c cs where c: "Itoa (nat n) = c # cs" by (meson Itoa_nonempty neq_Nil_conv)
  with Itoa_hd [of "nat n"] have "c \<noteq> CHR ''-''" "c \<noteq> CHR ''+''" by (auto simp: inDigit_def)
  with n c d [of "nat n"] decValue_Itoa [of "nat n"] show ?thesis
  proof (cases "n < 0")
    case True
    with n d [of "nat (- n)"] show ?thesis by (simp add: Atoi64_def FormatInt_def decValue_Itoa del: decValue.simps)
  next
    case False
    with n c d [of "nat n"] decValue_Itoa [of "nat n"] \<open>c \<noteq> CHR ''-''\<close> \<open>c \<noteq> CHR ''+''\<close> show ?thesis
      by (simp add: Atoi64_def FormatInt_def del: decValue.simps)
  qed
qed

lemma store_eval:
  assumes "store_ok R view" "rEval R w f = (Inr r, w')"
  shows "f (view w) = (r, snd (f (view w)))" "view w' = applyAll (snd (f (view w))) (view w)"
  using assms unfolding store_ok_def writes_ok_def by (metis snd_conv)+

end
