(* ===== verification/Directory_Samples.thy ===== *)
theory Directory_Samples
  imports Directory_Groups
begin

text \<open>
  A concrete identity directory for the witnesses: codecs that know the records of a table, the library functions built
  from them, and a store with one user and one group.
\<close>

section \<open>Codecs of a table\<close>

fun encodeBy :: "('a \<times> string) list \<Rightarrow> 'a \<Rightarrow> string option" where
  "encodeBy [] a = None"
| "encodeBy ((b, s) # t) a = (if a = b then Some s else encodeBy t a)"

fun decodeBy :: "('a \<times> string) list \<Rightarrow> string \<Rightarrow> 'a option" where
  "decodeBy [] s = None"
| "decodeBy ((b, r) # t) s = (if s = r then Some b else decodeBy t s)"

definition tableCodec :: "('a \<times> string) list \<Rightarrow> 'a codec" where
  "tableCodec t =
     \<lparr>marshal = (\<lambda>a. case encodeBy t a of None \<Rightarrow> Inl (ErrText ''json: unsupported value'') | Some s \<Rightarrow> Inr s),
      unmarshal = (\<lambda>s. case decodeBy t s of None \<Rightarrow> Inl (ErrText ''invalid character'') | Some a \<Rightarrow> Inr a),
      exactObject = decodeBy t\<rparr>"

text \<open>What a codec of the program's JSON does on the records it is given: a record that was written is read back.\<close>

definition codec_ok :: "'a codec \<Rightarrow> bool" where
  "codec_ok C \<longleftrightarrow> codec_roundtrip C \<and> (\<forall>a s. marshal C a = Inr s \<longrightarrow> unmarshal C s = Inr a)"

lemma decode_encodeBy: "distinct (map snd t) \<Longrightarrow> encodeBy t a = Some s \<Longrightarrow> decodeBy t s = Some a"
proof (induction t a rule: encodeBy.induct)
  case (2 b r t a)
  have "s \<in> snd ` set t" if "encodeBy t a = Some s" for t
    using that by (induction t a rule: encodeBy.induct) (auto split: if_splits)
  with 2 show ?case by (auto split: if_splits)
qed simp

lemma encodeBy_mem: "encodeBy t a = Some s \<Longrightarrow> s \<in> set (map snd t)"
  by (induction t a rule: encodeBy.induct) (auto split: if_splits)

lemma tableCodec_ok: "distinct (map snd t) \<Longrightarrow> [] \<notin> set (map snd t) \<Longrightarrow> codec_ok (tableCodec t)"
  using decode_encodeBy [of t] encodeBy_mem [of t]
  by (fastforce simp: codec_ok_def codec_roundtrip_def tableCodec_def split: option.splits)

section \<open>A directory\<close>

definition alice :: user where
  "alice = \<lparr>u_Id = ''alice'', u_Email = ''a@ex.io'', u_Password = ''hash0'', u_Role = RoleCompanyEmployee,
     u_Status = UserStatusActive, u_CompanyId = None, u_TokenVersion = 0, u_Revision = 0, u_CreatedAt = Some 7,
     u_AuthSource = AuthSourcePassword, u_ExternalSubject = [], u_PasswordChangeRequired = True\<rparr>"

definition staff :: identityGroup where
  "staff = \<lparr>g_ID = ''grp_1'', g_Name = ''Staff'', g_Description = [], g_Status = IdentityGroupStatusActive,
     g_MemberCount = 0, g_Version = 1, g_CreatedAt = Some 7, g_UpdatedAt = Some 7\<rparr>"

definition reader :: accessAssignment where
  "reader = \<lparr>a_TenantID = ''acme'', a_PrincipalType = AccessPrincipalUser, a_PrincipalID = ''alice'',
     a_Roles = [''READER''], a_Version = 1, a_CreatedAt = Some 9, a_UpdatedAt = Some 9\<rparr>"

definition sampleLib :: directoryLib where
  "sampleLib =
     \<lparr>dl_unicode = asciiUnicode,
      dl_user = tableCodec [(alice, ''U0''), (alice\<lparr>u_Revision := 1\<rparr>, ''U1''),
        (alice\<lparr>u_Email := ''b@ex.io'', u_Revision := 1\<rparr>, ''U2''),
        (alice\<lparr>u_Password := ''hash1'', u_PasswordChangeRequired := False, u_TokenVersion := 1, u_Revision := 1\<rparr>, ''U3''),
        (alice\<lparr>u_TokenVersion := 1, u_Revision := 1\<rparr>, ''U4'')],
      dl_userFields = (\<lambda>s. if s = ''U0'' then Some alice else None),
      dl_group = tableCodec [(staff, ''G0''), (staff\<lparr>g_Version := 2, g_UpdatedAt := Some 9\<rparr>, ''G1'')],
      dl_assignment = tableCodec [(reader, ''A0''), (reader\<lparr>a_Roles := [''WRITER''], a_Version := 2\<rparr>, ''A1'')],
      dl_membership = tableCodec [], dl_exactMembership = (\<lambda>s. None), dl_cursor = tableCodec [],
      dl_sha256hex = id, dl_sha256 = id\<rparr>"

lemma sampleLib_ok:
  "codec_ok (dl_user sampleLib)" "codec_ok (dl_group sampleLib)" "codec_ok (dl_assignment sampleLib)"
  unfolding sampleLib_def directoryLib.simps by (rule tableCodec_ok; code_simp)+

definition sampleKeys :: keyspace where
  "sampleKeys = applyAll
     [CHSet usersHashV2 ''alice'' ''U0'', CSet (userByEmailKey ''a@ex.io'') ''alice'',
      CZAdd directoryUserEmailIndex (directoryUserIndexMember ''a@ex.io'' ''alice''),
      CHSet directoryGroupsHash ''grp_1'' ''G0''] emptyKeys"

definition sampleMem :: memory where
  "sampleMem = \<lparr>mem_keys = sampleKeys, mem_fields = [''alice'', ''grp_1'', ''user:alice'', ''group:grp_1'']\<rparr>"

definition quiet :: "nat \<Rightarrow> 'w \<Rightarrow> 'w" where "quiet i w = w"


lemma quiet_apply [simp]: "quiet i w = w" "quiet i = (\<lambda>w. w)"
  by (simp_all add: quiet_def fun_eq_iff)

section \<open>Running it\<close>

lemma memStore_run [simp]:
  "rGet memStore w k = Inr (ks_string (mem_keys w) k)" "rHGet memStore w k f = Inr (ks_hash (mem_keys w) k f)"
  "rSIsMember memStore w k m = Inr (m \<in> ks_set (mem_keys w) k)" "rSCard memStore w k = Inr (card (ks_set (mem_keys w) k))"
  "finite (ks_set (mem_keys w) k) \<Longrightarrow> rSMembers memStore w k = Inr (sorted_list_of_set (ks_set (mem_keys w) k))"
  "rExec memStore w ks w cs = (Committed, w\<lparr>mem_keys := applyAll cs (mem_keys w)\<rparr>)"
  "scr (mem_keys w) = (r, cs) \<Longrightarrow> rEval memStore w scr = (Inr r, w\<lparr>mem_keys := applyAll cs (mem_keys w)\<rparr>)"
  "rZRangeByLex memStore w k lo hi n = (if finite (ks_zset (mem_keys w) k)
     then Inr (lexRange (ks_zset (mem_keys w) k) lo hi n) else Inl (ErrText ''infinite set''))"
  by (simp_all add: memStore_def)

lemma sampleKeys_simps [simp]:
  "ks_hash sampleKeys usersHashV2 = [''alice'' \<mapsto> ''U0'']" "ks_hash sampleKeys federatedUsersHash = Map.empty"
  "ks_hash sampleKeys directoryGroupsHash = [''grp_1'' \<mapsto> ''G0'']" "ks_hash sampleKeys (assignmentsKey t) = Map.empty"
  "ks_set sampleKeys k = {}" "ks_string sampleKeys = [userByEmailKey ''a@ex.io'' \<mapsto> ''alice'']"
  "ks_zset sampleKeys directoryUserEmailIndex = {directoryUserIndexMember ''a@ex.io'' ''alice''}"
  "mem_keys sampleMem = sampleKeys"
  by (simp_all add: sampleKeys_def emptyKeys_def sampleMem_def fun_eq_iff assignmentsKey_def)

lemma sampleLib_decode [simp]:
  "unmarshal (dl_user sampleLib) ''U0'' = Inr alice" "exactObject (dl_user sampleLib) ''U0'' = Some alice"
  "unmarshal (dl_group sampleLib) ''G0'' = Inr staff"
  "canonicalDirectoryStorageUser sampleLib now (Some alice) = Inr alice" "decodeGroup sampleLib ''G0'' ''grp_1'' = Inr staff"
  "decodeDeletionUser sampleLib now ''U0'' ''alice'' usersHashV2 = Inr alice"
  "u_Id alice = ''alice''" "u_Email alice = ''a@ex.io''" "u_Revision alice = 0" "g_Version staff = 1"
  by code_simp+

lemma sample_checks [simp]:
  "canonicalUserIdentity ''alice''" "canonicalGroupID ''grp_1''" "activeTenantIdentity ''acme''"
  "canonicalPrincipal AccessPrincipalUser ''alice''" "canonicalDirectoryRoles [''READER''] = Inr [''READER'']"
  "matchesVersion ''*'' n"
  by (code_simp | simp add: matchesVersion_def)+

lemma sample_storedUser [simp]:
  "ks_hash (mem_keys w) usersHashV2 ''alice'' = Some ''U0'' \<Longrightarrow> canonicalStoredUser memStore sampleLib now w ''alice'' e = Inr alice"
  by (simp add: canonicalStoredUser_def)

lemma retryTx_first:
  "retryTx attempt i 8 w =
     (case attempt i w of (Some r, w') \<Rightarrow> (r, w') | (None, w') \<Rightarrow> retryTx attempt (Suc i) 7 w')"
proof -
  have "(8 :: nat) = Suc 7" by simp
  then show ?thesis by (simp only: retryTx.simps)
qed

end
