(* ===== verification/Directory_Links.thy ===== *)
theory Directory_Links
  imports Directory_Backfill Oob_Codes Directory_Samples
begin

text \<open>
  The invariant of the identity directory under concurrency: membership of groups and access assignments are stored
  twice, forward and reverse, and both sides always agree. \<open>directoryStep\<close> are the operations of the repository as
  transitions of the store, each interleaved with any further operations of other clients at every point at which
  the code does not hold the store.
\<close>

section \<open>The invariant\<close>

definition linkedGroups :: "keyspace \<Rightarrow> bool" where
  "linkedGroups ks \<longleftrightarrow> (\<forall>g u. u \<in> ks_set ks (groupMembersKey g) \<longleftrightarrow> g \<in> ks_set ks (userGroupsKey u))"

definition linkedTenants :: "keyspace \<Rightarrow> string \<Rightarrow> bool" where
  "linkedTenants ks kind \<longleftrightarrow>
     (\<forall>t i. ks_hash ks (assignmentsKey t) (assignmentField kind i) \<noteq> None \<longleftrightarrow> t \<in> ks_set ks (principalTenantsKey kind i))"

definition links :: "keyspace \<Rightarrow> bool" where
  "links ks \<longleftrightarrow> linkedGroups ks \<and> linkedTenants ks AccessPrincipalUser \<and> linkedTenants ks AccessPrincipalGroup"

section \<open>What commands change\<close>

definition linkKey :: "string \<Rightarrow> bool" where
  "linkKey k \<longleftrightarrow>
     (\<exists>g. k = groupMembersKey g) \<or> (\<exists>u. k = userGroupsKey u) \<or> (\<exists>t. k = assignmentsKey t) \<or>
     (\<exists>kind i. k = principalTenantsKey kind i)"

fun linkFree :: "cmd \<Rightarrow> bool" where
  "linkFree (CDel k) = (\<not> linkKey k)"
| "linkFree (CHSet k f v) = (\<not> linkKey k)"
| "linkFree (CHDel k f) = (\<not> linkKey k)"
| "linkFree (CSAdd k m) = (\<not> linkKey k)"
| "linkFree (CSRem k m) = (\<not> linkKey k)"
| "linkFree c = True"

definition sameLinks :: "keyspace \<Rightarrow> keyspace \<Rightarrow> bool" where
  "sameLinks a b \<longleftrightarrow> (\<forall>k. linkKey k \<longrightarrow> ks_hash a k = ks_hash b k \<and> ks_set a k = ks_set b k)"

lemma linkKey_intros [simp]:
  "linkKey (groupMembersKey g)" "linkKey (userGroupsKey u)" "linkKey (assignmentsKey t)"
  "linkKey (principalTenantsKey kind i)"
  by (auto simp: linkKey_def)

lemma not_linkKey [simp]:
  "\<not> linkKey usersHashV2" "\<not> linkKey federatedUsersHash" "\<not> linkKey legacyUsersHash" "\<not> linkKey directoryGroupsHash"
  "\<not> linkKey (userByEmailKey e)" "\<not> linkKey (samlSubjectKey c x)" "\<not> linkKey (groupNameKey L n)"
  "\<not> linkKey directoryBackfillLock"
  "\<not> linkKey (membershipsKey t)" "\<not> linkKey (membershipV2Key t)" "\<not> linkKey (membershipsByUserKey u)"
  "\<not> linkKey (membershipV2ByUserKey u)" "\<not> linkKey (SAMLIndexPrefix @ s)"
  by (auto simp: linkKey_def key_defs membershipsKey_def membershipV2Key_def membershipsByUserKey_def membershipV2ByUserKey_def)

lemma sameLinks_refl [simp]: "sameLinks a a" by (simp add: sameLinks_def)

lemma sameLinks_trans: "sameLinks a b \<Longrightarrow> sameLinks b c \<Longrightarrow> sameLinks a c" by (simp add: sameLinks_def)

lemma linkFree_cmd: "linkFree c \<Longrightarrow> sameLinks (applyCmd c ks) ks"
  by (cases c) (auto simp: sameLinks_def)

lemma linkFree_all: "list_all linkFree cs \<Longrightarrow> sameLinks (applyAll cs ks) ks"
proof (induction cs arbitrary: ks)
  case (Cons c cs)
  then have "linkFree c" "list_all linkFree cs" by simp_all
  with linkFree_cmd [of c ks] Cons.IH [of "applyCmd c ks"] sameLinks_trans show ?case by auto
qed simp

lemma links_sameLinks: "sameLinks a b \<Longrightarrow> links a = links b"
  by (simp add: links_def linkedGroups_def linkedTenants_def sameLinks_def)

lemma applyAll_CSRem:
  "ks_set (applyAll (map (\<lambda>x. CSRem (f x) (h x)) xs) ks) k = ks_set ks k - {h x |x. x \<in> set xs \<and> f x = k}"
  "ks_hash (applyAll (map (\<lambda>x. CSRem (f x) (h x)) xs) ks) = ks_hash ks"
  "ks_string (applyAll (map (\<lambda>x. CSRem (f x) (h x)) xs) ks) = ks_string ks"
  by (induction xs arbitrary: ks) auto

lemma applyAll_CHDel:
  "ks_hash (applyAll (map (\<lambda>x. CHDel (f x) (h x)) xs) ks) k fld =
     (if \<exists>x \<in> set xs. f x = k \<and> h x = fld then None else ks_hash ks k fld)"
  "ks_set (applyAll (map (\<lambda>x. CHDel (f x) (h x)) xs) ks) = ks_set ks"
  "ks_string (applyAll (map (\<lambda>x. CHDel (f x) (h x)) xs) ks) = ks_string ks"
  by (induction xs arbitrary: ks) auto


lemma links_add_member:
  "links ks \<Longrightarrow> links (applyAll [CHSet directoryGroupsHash g p, CSAdd (groupMembersKey g) u, CSAdd (userGroupsKey u) g] ks)"
  by (auto simp: links_def linkedGroups_def linkedTenants_def)

lemma links_remove_member:
  "links ks \<Longrightarrow> links (applyAll [CHSet directoryGroupsHash g p, CSRem (groupMembersKey g) u, CSRem (userGroupsKey u) g] ks)"
  by (auto simp: links_def linkedGroups_def linkedTenants_def)

lemma links_put_assignment:
  "links ks \<Longrightarrow> kind = AccessPrincipalUser \<or> kind = AccessPrincipalGroup \<Longrightarrow>
   links (applyAll [CHSet (assignmentsKey t) (assignmentField kind i) p, CSAdd (principalTenantsKey kind i) t] ks)"
  by (auto simp: links_def linkedGroups_def linkedTenants_def)

lemma links_delete_assignment:
  "links ks \<Longrightarrow> kind = AccessPrincipalUser \<or> kind = AccessPrincipalGroup \<Longrightarrow>
   links (applyAll [CHDel (assignmentsKey t) (assignmentField kind i), CSRem (principalTenantsKey kind i) t] ks)"
  by (auto simp: links_def linkedGroups_def linkedTenants_def)

section \<open>Every operation keeps the links\<close>

definition keepsLinks :: "('w \<Rightarrow> keyspace) \<Rightarrow> ('w \<Rightarrow> 'w) \<Rightarrow> bool" where
  "keepsLinks view f \<longleftrightarrow> (\<forall>v. links (view v) \<longrightarrow> links (view (f v)))"

lemma keepsLinksD: "keepsLinks view f \<Longrightarrow> links (view v) \<Longrightarrow> links (view (f v))"
  by (simp add: keepsLinks_def)

lemma links_watchTx:
  assumes "store_ok R view" "watchTx R other watched t w = (r, w')" "links (view w)" "keepsLinks view other"
    and "\<And>cs x. t = Commit cs x \<Longrightarrow> (\<And>k. k \<in> set watched \<Longrightarrow> sameKey (view w) (view (other w)) k) \<Longrightarrow>
      links (view (other w)) \<Longrightarrow> links (applyAll cs (view (other w)))"
  shows "links (view w')"
  using watchTx_view [OF assms(1,2)] assms(3-) keepsLinksD [OF assms(4), of w] by auto

lemma links_linkFree: "list_all linkFree cs \<Longrightarrow> links ks \<Longrightarrow> links (applyAll cs ks)"
  using links_sameLinks [OF linkFree_all] by simp

lemma links_exec:
  assumes "store_ok R view" "rExec R w [] w cs = (z, w')" "links (view w)" "list_all linkFree cs"
  shows "links (view w')"
  using exec_view [OF assms(1,2)] assms(3) links_linkFree [OF assms(4)] by auto

lemma links_pipelined:
  assumes "store_ok R view" "pipelined R w cs = (e, w')" "links (view w)" "list_all linkFree cs"
  shows "links (view w')"
  using links_exec [OF assms(1) _ assms(3,4)] assms(2) by (auto simp: pipelined_def split: prod.splits execResult.splits)

lemma links_eval:
  assumes "store_ok R view" "rEval R w f = (r, w')" "links (view w)" "list_all linkFree (snd (f (view w)))"
  shows "links (view w')"
  using eval_view [OF assms(1,2)] assms(3) links_linkFree [OF assms(4)] by auto

lemma links_SetNX:
  assumes "store_ok R view" "rSetNX R w k v = (r, w')" "links (view w)"
  shows "links (view w')"
  using SetNX_view [OF assms(1,2)] assms(3) links_linkFree [of "[CSet k v]" "view w"] by auto

lemma changeGroupMember_links:
  assumes "store_ok R view" "\<And>i. keepsLinks view (others i)" "links (view w)"
    "changeGroupMember R L others clock w groupID userID ifMatch add = (r, w')"
  shows "links (view w')"
proof -
  have tx: "links (applyAll cs ks)" if "changeGroupMemberTx R L now groupID userID ifMatch add v = Commit cs x" "links ks"
    for now v cs x ks
    using that links_add_member [OF that(2)] links_remove_member [OF that(2)]
    by (auto simp: changeGroupMemberTx_def Let_def split: option.splits sum.splits if_splits)
  show ?thesis
    using assms(3,4) tx
    by (auto simp: changeGroupMember_def split: if_splits prod.splits sum.splits
        elim!: retryTx_invariant [where P = "\<lambda>v. links (view v)"] intro: links_watchTx [OF assms(1)] assms(2))
qed

lemma links_retryTx:
  assumes "retryTx attempt i n w = (r, w')" "links (view w)"
    and "\<And>j v r v'. links (view v) \<Longrightarrow> attempt j v = (r, v') \<Longrightarrow> links (view v')"
  shows "links (view w')"
  using retryTx_invariant [OF assms(1), of "\<lambda>v. links (view v)"] assms(2,3) by blast

lemma CreateGroup_links:
  assumes "store_ok R view" "\<And>i. keepsLinks view (others i)" "links (view w)"
    "CreateGroup R L others now uuid w name description = (r, w')"
  shows "links (view w')"
proof -
  have p: "links (view v')" if "pipelined R v cs = (e, v')" "links (view v)" "list_all linkFree cs" for v v' cs e
    using links_pipelined [OF assms(1) that(1,2,3)] .
  have d: "links (view (snd (pipelined R v cs)))" if "links (view v)" "list_all linkFree cs" for v cs
    using links_pipelined [OF assms(1) _ that] by (metis prod.collapse)
  have n: "links (view v')" if "rSetNX R v k x = (e, v')" "links (view v)" for v v' k x e
    using links_SetNX [OF assms(1) that] .
  show ?thesis
    using assms(3,4)
    by (auto simp: CreateGroup_def Let_def split: sum.splits prod.splits option.splits bool.splits
        intro!: d keepsLinksD [OF assms(2)] dest!: n p)
qed

lemma PatchGroup_links:
  assumes "store_ok R view" "\<And>i. keepsLinks view (others i)" "links (view w)"
    "PatchGroup R L others clock w groupID patch ifMatch = (r, w')"
  shows "links (view w')"
proof -
  have tx: "list_all linkFree cs" if "patchGroupTx R L now groupID patch ifMatch v = Commit cs x" for now v cs x
    using that by (auto simp: patchGroupTx_def Let_def split: option.splits sum.splits if_splits)
  show ?thesis
    using assms(3,4)
    by (auto simp: PatchGroup_def split: if_splits prod.splits sum.splits
        elim!: links_retryTx intro: links_watchTx [OF assms(1)] assms(2) links_linkFree tx)
qed

lemma links_delete_group:
  assumes "links ks" "set members = ks_set ks (groupMembersKey g)"
    "set tenants = ks_set ks (principalTenantsKey AccessPrincipalGroup g)" "\<not> linkKey nk"
  shows "links (applyAll ([CHDel directoryGroupsHash g, CDel nk, CDel (groupMembersKey g),
      CDel (principalTenantsKey AccessPrincipalGroup g), CZRem directoryGroupOrderIndex z] @
      map (\<lambda>u. CSRem (userGroupsKey u) g) members @
      map (\<lambda>t. CHDel (assignmentsKey t) (assignmentField AccessPrincipalGroup g)) tenants) ks)"
proof -
  have nk: "groupMembersKey x \<noteq> nk" "userGroupsKey x \<noteq> nk" "assignmentsKey x \<noteq> nk" "principalTenantsKey kind x \<noteq> nk"
    for x kind using assms(4) by (auto simp: linkKey_def)
  show ?thesis
    using assms(1-3)
    by (simp add: links_def linkedGroups_def linkedTenants_def applyAll_CSRem applyAll_CHDel nk) (metis not_Some_eq)
qed

lemma DeleteGroup_links:
  assumes "store_ok R view" "\<And>i. keepsLinks view (others i)" "links (view w)"
    "DeleteGroup R L others w groupID ifMatch = (r, w')"
  shows "links (view w')"
proof -
  have tx: "links (applyAll cs (view v'))" if t: "deleteGroupTx R L groupID ifMatch v = Commit cs x"
    and same: "\<And>k. k \<in> set (deleteGroupWatched groupID) \<Longrightarrow> sameKey (view v) (view v') k" and l: "links (view v')" for v v' cs x
  proof -
    from t obtain raw g members tenants where d: "rHGet R v directoryGroupsHash groupID = Inr (Some raw)"
        "decodeGroup L raw groupID = Inr g"
      and ms: "rSMembers R v (groupMembersKey groupID) = Inr members"
        "rSMembers R v (principalTenantsKey AccessPrincipalGroup groupID) = Inr tenants"
      by (auto simp: deleteGroupTx_def split: sum.splits option.splits if_splits)
    with t have cs: "cs = [CHDel directoryGroupsHash groupID, CDel (groupNameKey L (g_Name g)),
          CDel (groupMembersKey groupID), CDel (principalTenantsKey AccessPrincipalGroup groupID),
          CZRem directoryGroupOrderIndex (groupIndexMember L (g_Name g) groupID)] @
         map (\<lambda>userID. CSRem (userGroupsKey userID) groupID) members @
         map (\<lambda>t. CHDel (assignmentsKey t) (assignmentField AccessPrincipalGroup groupID)) tenants"
      by (simp add: deleteGroupTx_def split: if_splits)
    have s: "sameKey (view v) (view v') (groupMembersKey groupID)"
      "sameKey (view v) (view v') (principalTenantsKey AccessPrincipalGroup groupID)"
      by (rule same, simp add: deleteGroupWatched_def)+
    show ?thesis
      unfolding cs using store_reads(5) [OF assms(1) ms(1)] store_reads(5) [OF assms(1) ms(2)] s l
      by (intro links_delete_group) (simp_all add: sameKey_def)
  qed
  show ?thesis
    using assms(3,4)
    by (auto simp: DeleteGroup_def split: if_splits elim!: links_retryTx intro: links_watchTx [OF assms(1)] assms(2) tx)
qed

lemma canonicalPrincipal_kind: "canonicalPrincipal kind i \<Longrightarrow> kind = AccessPrincipalUser \<or> kind = AccessPrincipalGroup"
  by (auto simp: canonicalPrincipal_def split: if_splits)

lemma PutAccessAssignment_links:
  assumes "store_ok R view" "\<And>i. keepsLinks view (others i)" "links (view w)"
    "PutAccessAssignment R L rg others clock w tenantID kind principalID roles ifMatch = (r, w')"
  shows "links (view w')"
proof -
  have tx: "links (applyAll cs ks)"
    if "putAccessAssignmentTx R L rg now tenantID kind principalID rs ifMatch v = Commit cs x" "links ks"
      "canonicalPrincipal kind principalID" for now rs v cs x ks
    using that links_put_assignment [OF that(2) canonicalPrincipal_kind [OF that(3)]]
    by (auto simp: putAccessAssignmentTx_def Let_def split: option.splits sum.splits if_splits)
  show ?thesis
    using assms(3,4)
    by (auto simp: PutAccessAssignment_def split: if_splits sum.splits
        elim!: links_retryTx intro: links_watchTx [OF assms(1)] assms(2) tx)
qed

lemma DeleteAccessAssignment_links:
  assumes "store_ok R view" "\<And>i. keepsLinks view (others i)" "links (view w)"
    "DeleteAccessAssignment R L others w tenantID kind principalID ifMatch = (r, w')"
  shows "links (view w')"
proof -
  have tx: "links (applyAll cs ks)"
    if "deleteAccessAssignmentTx R L tenantID kind principalID ifMatch v = Commit cs x" "links ks"
      "canonicalPrincipal kind principalID" for v cs x ks
    using that links_delete_assignment [OF that(2) canonicalPrincipal_kind [OF that(3)]]
    by (auto simp: deleteAccessAssignmentTx_def split: option.splits sum.splits if_splits)
  show ?thesis
    using assms(3,4)
    by (auto simp: DeleteAccessAssignment_def split: if_splits elim!: links_retryTx intro: links_watchTx [OF assms(1)] assms(2) tx)
qed

lemma CreateDirectoryUser_links:
  assumes "store_ok R view" "links (view w)" "CreateDirectoryUser R L now w input = (r, w')"
  shows "links (view w')"
proof -
  have f: "list_all linkFree (snd (createDirectoryUserScript i (userByEmailKey e) p m ks))" for i e p m ks
    by (simp add: createDirectoryUserScript_def)
  show ?thesis
    using assms(2,3) links_eval [OF assms(1) _ _ f]
    by (auto simp: CreateDirectoryUser_def Let_def split: sum.splits prod.splits if_splits)
qed

lemma UpdateDirectoryUser_links:
  assumes "store_ok R view" "\<And>i. keepsLinks view (others i)" "links (view w)"
    "UpdateDirectoryUser R L others clock w input = (r, w')"
  shows "links (view w')"
proof -
  have tx: "list_all linkFree cs" if "updateDirectoryUserTx R L now u e v = Commit cs x" for now u e v cs x
    using that by (auto simp: updateDirectoryUserTx_def Let_def split: option.splits sum.splits if_splits)
  have "links (view v')" if "updateDirectoryUserAttempt R L others clock u i v = (z, v')" "links (view v)" for u i v z v'
    using that
    by (auto simp: updateDirectoryUserAttempt_def Let_def split: sum.splits
        intro: links_watchTx [OF assms(1)] assms(2) links_linkFree tx keepsLinksD [OF assms(2)])
  with assms(3,4) show ?thesis
    by (auto simp: UpdateDirectoryUser_def split: sum.splits elim!: links_retryTx)
qed

lemma ConsumeTemporaryPassword_links:
  assumes "store_ok R view" "\<And>i. keepsLinks view (others i)" "links (view w)"
    "ConsumeTemporaryPassword R L others clock w userID h n h' = (r, w')"
  shows "links (view w')"
proof -
  have tx: "list_all linkFree cs" if "consumeTemporaryPasswordTx R L now userID h n h' v = Commit cs x" for now v cs x
    using that by (auto simp: consumeTemporaryPasswordTx_def split: sum.splits if_splits)
  show ?thesis
    using assms(3,4)
    by (auto simp: ConsumeTemporaryPassword_def split: if_splits
        elim!: links_retryTx intro: links_watchTx [OF assms(1)] assms(2) links_linkFree tx)
qed

lemma applyAll_unlinkGroups:
  "ks_set (applyAll (unlinkGroups u ps) ks) k =
     ks_set ks k - (if \<exists>p \<in> set ps. k = groupMembersKey (fst p) then {u} else {})"
  "linkKey k \<Longrightarrow> ks_hash (applyAll (unlinkGroups u ps) ks) k = ks_hash ks k"
  by (induction ps arbitrary: ks) (auto simp: unlinkGroups_def split: if_splits)

lemma links_delete_user:
  assumes "links ks" "fst ` set ps = ks_set ks (userGroupsKey u)"
    "set tenants = ks_set ks (principalTenantsKey AccessPrincipalUser u)"
    "list_all linkFree pre" "list_all linkFree mid" "list_all linkFree post"
  shows "links (applyAll (pre @ [CDel (userGroupsKey u), CDel (principalTenantsKey AccessPrincipalUser u)] @ mid @
      unlinkGroups u ps @ unlinkAssignments u tenants @ post) ks)"
proof -
  let ?k1 = "applyAll pre ks"
  let ?k2 = "applyAll [CDel (userGroupsKey u), CDel (principalTenantsKey AccessPrincipalUser u)] ?k1"
  obtain k3 where k3: "k3 = applyAll mid ?k2" by blast
  let ?k5 = "applyAll (unlinkAssignments u tenants) (applyAll (unlinkGroups u ps) k3)"
  have s: "sameLinks ?k1 ks" "sameLinks k3 ?k2" unfolding k3 using linkFree_all assms(4,5) by blast+
  then have h: "\<And>k. linkKey k \<Longrightarrow> ks_set k3 k = (if k = userGroupsKey u \<or> k = principalTenantsKey AccessPrincipalUser u then {} else ks_set ks k)"
    "\<And>k. linkKey k \<Longrightarrow> k \<noteq> userGroupsKey u \<Longrightarrow> k \<noteq> principalTenantsKey AccessPrincipalUser u \<Longrightarrow> ks_hash k3 k = ks_hash ks k"
    by (auto simp: sameLinks_def)
  have g: "(\<exists>p \<in> set ps. g = fst p) \<longleftrightarrow> g \<in> ks_set ks (userGroupsKey u)" for g using assms(2) by force
  have l: "\<And>g x. x \<in> ks_set ks (groupMembersKey g) \<longleftrightarrow> g \<in> ks_set ks (userGroupsKey x)"
    "\<And>t i. ks_hash ks (assignmentsKey t) (assignmentField AccessPrincipalUser i) = None \<longleftrightarrow> t \<notin> ks_set ks (principalTenantsKey AccessPrincipalUser i)"
    "\<And>t i. ks_hash ks (assignmentsKey t) (assignmentField AccessPrincipalGroup i) = None \<longleftrightarrow> t \<notin> ks_set ks (principalTenantsKey AccessPrincipalGroup i)"
    using assms(1) unfolding links_def linkedGroups_def linkedTenants_def by blast+
  have "linkedGroups ?k5"
    unfolding linkedGroups_def unlinkAssignments_def
    by (auto simp: applyAll_CHDel applyAll_unlinkGroups h g l split: if_splits)
  moreover have "linkedTenants ?k5 AccessPrincipalUser" "linkedTenants ?k5 AccessPrincipalGroup"
    unfolding linkedTenants_def unlinkAssignments_def
    using assms(3) by (auto simp: applyAll_CHDel applyAll_unlinkGroups h l simp del: not_None_eq split: if_splits)
  ultimately have "links ?k5" by (simp add: links_def)
  then have "links (applyAll post ?k5)" using links_linkFree [OF assms(6)] by blast
  then show ?thesis by (simp add: k3)
qed

lemma canonicalDirectoryStorageUser_Id:
  "canonicalDirectoryStorageUser L now (Some u) = Inr c \<Longrightarrow> u_Id c = u_Id u \<and> u_Revision c = u_Revision u \<and> u_TokenVersion c = u_TokenVersion u"
  by (auto simp: canonicalDirectoryStorageUser_def Let_def split: if_splits)

lemma canonicalFederatedUser_Id:
  "canonicalFederatedUser L (Some u) = Inr c \<Longrightarrow> u_Id c = u_Id u \<and> u_Revision c = u_Revision u \<and> u_TokenVersion c = u_TokenVersion u"
  by (auto simp: canonicalFederatedUser_def split: if_splits)

lemma decodeDeletionUser_Id: "decodeDeletionUser L now raw userID hash = Inr c \<Longrightarrow> u_Id c = userID"
  by (auto simp: decodeDeletionUser_def dest: canonicalDirectoryStorageUser_Id canonicalFederatedUser_Id
      split: if_splits option.splits sum.splits)

lemma deletionStorageUser_Some:
  assumes "deletionStorageUser R L now w userID = Inr (Some (u, hash))"
  shows "u_Id u = userID" "hash = usersHashV2 \<or> hash = federatedUsersHash"
    "\<exists>raw. rHGet R w hash userID = Inr (Some raw) \<and> decodeDeletionUser L now raw userID hash = Inr u"
    "hash' = usersHashV2 \<or> hash' = federatedUsersHash \<Longrightarrow> hash' \<noteq> hash \<Longrightarrow> rHGet R w hash' userID = Inr None"
proof -
  have *: "\<exists>raw. rHGet R w hash userID = Inr (Some raw) \<and> decodeDeletionUser L now raw userID hash = Inr u \<and>
      (hash = usersHashV2 \<and> rHGet R w federatedUsersHash userID = Inr None \<or>
       hash = federatedUsersHash \<and> rHGet R w usersHashV2 userID = Inr None)"
    using assms by (auto simp: deletionStorageUser_def split: sum.splits option.splits)
  then show "u_Id u = userID" "hash = usersHashV2 \<or> hash = federatedUsersHash"
    "\<exists>raw. rHGet R w hash userID = Inr (Some raw) \<and> decodeDeletionUser L now raw userID hash = Inr u"
    "hash' = usersHashV2 \<or> hash' = federatedUsersHash \<Longrightarrow> hash' \<noteq> hash \<Longrightarrow> rHGet R w hash' userID = Inr None"
    using decodeDeletionUser_Id by blast+
qed

lemma boundedMembers_Inr: "boundedMembers R w k = Inr ms \<Longrightarrow> rSMembers R w k = Inr ms"
  by (auto simp: boundedMembers_def split: sum.splits if_splits)

lemma deletionBoundedSet_Inr: "deletionBoundedSet R w k = Inr ms \<Longrightarrow> \<exists>xs. rSMembers R w k = Inr xs \<and> ms = sort xs"
  by (auto simp: deletionBoundedSet_def split: sum.splits if_splits)

lemma bumpedGroups_fst: "bumpedGroups R L now w gs = Inr ps \<Longrightarrow> map fst ps = gs"
  by (induction gs arbitrary: ps) (auto split: sum.splits option.splits)

lemma prepareGroups_fst: "prepareGroups R L now w userID gs = Inr ps \<Longrightarrow> map fst ps = gs"
  by (induction gs arbitrary: ps) (auto split: sum.splits option.splits bool.splits if_splits)

lemma deleteByEmailTx_Commit:
  assumes "deleteByEmailTx R L now email userID w = Commit cs x"
  obtains groups tenants ps mid where
    "rSMembers R w (userGroupsKey userID) = Inr groups"
    "rSMembers R w (principalTenantsKey AccessPrincipalUser userID) = Inr tenants" "map fst ps = groups"
    "cs = [CHDel usersHashV2 userID, CDel (userByEmailKey email)] @
       [CDel (userGroupsKey userID), CDel (principalTenantsKey AccessPrincipalUser userID)] @ mid @
       unlinkGroups userID ps @ unlinkAssignments userID tenants @ []" "list_all linkFree mid"
proof -
  from assms obtain u groups tenants ps where u:
    "boundedMembers R w (userGroupsKey userID) = Inr groups"
    "boundedMembers R w (principalTenantsKey AccessPrincipalUser userID) = Inr tenants"
    "bumpedGroups R L now w groups = Inr ps"
    "cs = [CHDel usersHashV2 userID, CDel (userByEmailKey email), CDel (userGroupsKey userID),
       CDel (principalTenantsKey AccessPrincipalUser userID),
       CZRem directoryUserEmailIndex (directoryUserIndexMember email userID), CHDel legacyUsersHash email] @
      unlinkSubject u @ unlinkGroups userID ps @ unlinkAssignments userID tenants"
    by (auto simp: deleteByEmailTx_def split: sum.splits option.splits if_splits)
  have f: "list_all linkFree ([CZRem directoryUserEmailIndex (directoryUserIndexMember email userID), CHDel legacyUsersHash email] @
      unlinkSubject u)"
    by (simp add: unlinkSubject_def split: option.splits)
  from u(4) have c: "cs = [CHDel usersHashV2 userID, CDel (userByEmailKey email)] @
       [CDel (userGroupsKey userID), CDel (principalTenantsKey AccessPrincipalUser userID)] @
       ([CZRem directoryUserEmailIndex (directoryUserIndexMember email userID), CHDel legacyUsersHash email] @ unlinkSubject u) @
       unlinkGroups userID ps @ unlinkAssignments userID tenants @ []" by simp
  show thesis
    by (rule that [OF boundedMembers_Inr [OF u(1)] boundedMembers_Inr [OF u(2)] bumpedGroups_fst [OF u(3)] c f])
qed

lemma DeleteByEmail_links:
  assumes "store_ok R view" "\<And>i. keepsLinks view (others i)" "links (view w)"
    "DeleteByEmail R L others clock w email = (r, w')"
  shows "links (view w')"
proof -
  have tx: "links (applyAll cs (view v'))" if t: "deleteByEmailTx R L now e userID v = Commit cs x"
    and same: "\<And>k. k \<in> set (deleteByEmailWatched e userID gs ts) \<Longrightarrow> sameKey (view v) (view v') k"
    and l: "links (view v')" for now e userID v cs x v' gs ts
  proof -
    from t obtain groups tenants ps mid where c: "rSMembers R v (userGroupsKey userID) = Inr groups"
      "rSMembers R v (principalTenantsKey AccessPrincipalUser userID) = Inr tenants" "map fst ps = groups"
      "cs = [CHDel usersHashV2 userID, CDel (userByEmailKey e)] @
       [CDel (userGroupsKey userID), CDel (principalTenantsKey AccessPrincipalUser userID)] @ mid @
       unlinkGroups userID ps @ unlinkAssignments userID tenants @ []" "list_all linkFree mid"
      by (rule deleteByEmailTx_Commit)
    have s: "sameKey (view v) (view v') (userGroupsKey userID)"
      "sameKey (view v) (view v') (principalTenantsKey AccessPrincipalUser userID)"
      by (rule same, simp add: deleteByEmailWatched_def)+
    have f: "fst ` set ps = set groups" using c(3) by (metis set_map)
    show ?thesis
      unfolding c(4)
      by (rule links_delete_user [OF l]) (use s f c(5) store_reads(5) [OF assms(1) c(1)] store_reads(5) [OF assms(1) c(2)] in
          \<open>simp_all add: sameKey_def\<close>)
  qed
  have "links (view v')" if "deleteByEmailAttempt R L others clock e i v = (z, v')" "links (view v)" for e i v z v'
    using that
    by (auto simp: deleteByEmailAttempt_def Let_def split: sum.splits option.splits if_splits prod.splits
        intro: links_watchTx [OF assms(1)] assms(2) tx keepsLinksD [OF assms(2)] dest: links_pipelined [OF assms(1)])
  with assms(3,4) show ?thesis
    by (auto simp: DeleteByEmail_def Let_def split: if_splits elim!: links_retryTx)
qed

lemma prepareAliases_free: "prepareAliases R L now w u hash = Inr (ks, lg) \<Longrightarrow> list_all (\<lambda>k. \<not> linkKey k) ks"
  by (auto simp: prepareAliases_def Let_def split: sum.splits option.splits if_splits)

lemma prepareSAML_free: "prepareSAML R L msgpack w u = Inr (ks, watched) \<Longrightarrow> list_all (\<lambda>k. \<not> linkKey k) ks"
  by (auto simp: prepareSAML_def Let_def split: sum.splits option.splits if_splits simp del: append.simps)

lemma prepareUserDeletion_Inr:
  assumes "prepareUserDeletion R L msgpack now w u hash = Inr plan"
  obtains groups tenants where "rSMembers R w (userGroupsKey (u_Id u)) = Inr groups"
    "rSMembers R w (principalTenantsKey AccessPrincipalUser (u_Id u)) = Inr tenants"
    "map fst (pl_groups plan) = sort groups" "pl_assignments plan = sort tenants" "pl_user plan = u" "pl_hash plan = hash"
    "list_all (\<lambda>k. \<not> linkKey k) (pl_keys plan)"
proof -
  from assms obtain gs ts ps aliases legacy keys watched where p:
    "deletionBoundedSet R w (userGroupsKey (u_Id u)) = Inr gs"
    "deletionBoundedSet R w (principalTenantsKey AccessPrincipalUser (u_Id u)) = Inr ts"
    "prepareAliases R L now w u hash = Inr (aliases, legacy)" "prepareGroups R L now w (u_Id u) gs = Inr ps"
    "prepareSAML R L msgpack w u = Inr (keys, watched)"
    "pl_groups plan = ps" "pl_assignments plan = ts" "pl_user plan = u" "pl_hash plan = hash" "pl_keys plan = aliases @ keys"
    by (auto simp: prepareUserDeletion_def split: sum.splits option.splits if_splits prod.splits)
  from deletionBoundedSet_Inr [OF p(1)] deletionBoundedSet_Inr [OF p(2)] obtain g t where
    "rSMembers R w (userGroupsKey (u_Id u)) = Inr g" "gs = sort g"
    "rSMembers R w (principalTenantsKey AccessPrincipalUser (u_Id u)) = Inr t" "ts = sort t" by blast
  with that p prepareGroups_fst [OF p(4)] prepareAliases_free [OF p(3)] prepareSAML_free [OF p(5)] show thesis by simp
qed

lemma applyPlan_shape:
  assumes "list_all (\<lambda>k. \<not> linkKey k) (pl_keys p)" "pl_hash p = usersHashV2 \<or> pl_hash p = federatedUsersHash"
  obtains mid post where "applyPlan p = [CHDel (pl_hash p) (u_Id (pl_user p))] @
       [CDel (userGroupsKey (u_Id (pl_user p))), CDel (principalTenantsKey AccessPrincipalUser (u_Id (pl_user p)))] @ mid @
       unlinkGroups (u_Id (pl_user p)) (pl_groups p) @ unlinkAssignments (u_Id (pl_user p)) (pl_assignments p) @ post"
    "list_all linkFree mid" "list_all linkFree post" "linkFree (CHDel (pl_hash p) (u_Id (pl_user p)))"
proof
  let ?u = "u_Id (pl_user p)"
  let ?mid = "[CDel (membershipsByUserKey ?u), CDel (membershipV2ByUserKey ?u)] @ map CDel (pl_keys p) @
      [CZRem directoryUserEmailIndex (directoryUserIndexMember (u_Email (pl_user p)) ?u)] @
      (if pl_legacy p then [CHDel legacyUsersHash (u_Email (pl_user p))] else [])"
  let ?post = "map (\<lambda>t. CHDel (membershipsKey t) ?u) (pl_legacyTenants p) @ map (\<lambda>t. CHDel (membershipV2Key t) ?u) (pl_v2Tenants p)"
  show "applyPlan p = [CHDel (pl_hash p) ?u] @ [CDel (userGroupsKey ?u), CDel (principalTenantsKey AccessPrincipalUser ?u)] @ ?mid @
       unlinkGroups ?u (pl_groups p) @ unlinkAssignments ?u (pl_assignments p) @ ?post" by (simp add: applyPlan_def Let_def)
  show "list_all linkFree ?mid" using assms(1) by (auto simp: list_all_iff)
  show "list_all linkFree ?post" by (auto simp: list_all_iff)
  show "linkFree (CHDel (pl_hash p) ?u)" using assms(2) by auto
qed

lemma deleteDirectoryUserTx_Commit:
  assumes "deleteDirectoryUserTx R L msgpack now userID version actor w = (added, Commit cs x)"
  obtains "cs = [CPing]" "x = False"
  | target hash plan where "deletionStorageUser R L now w userID = Inr (Some (target, hash))"
      "prepareUserDeletion R L msgpack now w target hash = Inr plan" "cs = applyPlan plan" "x = True"
      "added = planWatched L plan" "u_Revision target + 1 = version"
  using assms by (auto simp: deleteDirectoryUserTx_def split: option.splits sum.splits if_splits prod.splits)

lemma DeleteDirectoryUser_links:
  assumes "store_ok R view" "\<And>i. keepsLinks view (others i)" "links (view w)"
    "DeleteDirectoryUser R L msgpack others clock w userID version actor = (r, w')"
  shows "links (view w')"
proof -
  have tx: "links (applyAll cs (view v'))"
    if t: "deleteDirectoryUserTx R L msgpack now userID version actor v = (added, Commit cs x)"
    and same: "\<And>k. k \<in> set (deletionWatched userID actor @ added) \<Longrightarrow> sameKey (view v) (view v') k"
    and l: "links (view v')" for now v added cs x v'
    using t
  proof (cases rule: deleteDirectoryUserTx_Commit)
    case 1
    with l show ?thesis by simp
  next
    case (2 target hash plan)
    note id = deletionStorageUser_Some [OF 2(1)]
    from 2(2) obtain groups tenants where p: "rSMembers R v (userGroupsKey (u_Id target)) = Inr groups"
      "rSMembers R v (principalTenantsKey AccessPrincipalUser (u_Id target)) = Inr tenants"
      "map fst (pl_groups plan) = sort groups" "pl_assignments plan = sort tenants" "pl_user plan = target" "pl_hash plan = hash"
      "list_all (\<lambda>k. \<not> linkKey k) (pl_keys plan)" by (rule prepareUserDeletion_Inr)
    have s: "sameKey (view v) (view v') (userGroupsKey userID)"
      "sameKey (view v) (view v') (principalTenantsKey AccessPrincipalUser userID)"
      by (rule same, simp add: deletionWatched_def)+
    have f: "fst ` set (pl_groups plan) = set groups" using p(3) by (metis set_map set_sort)
    obtain mid post where a: "applyPlan plan = [CHDel (pl_hash plan) (u_Id (pl_user plan))] @
       [CDel (userGroupsKey (u_Id (pl_user plan))), CDel (principalTenantsKey AccessPrincipalUser (u_Id (pl_user plan)))] @ mid @
       unlinkGroups (u_Id (pl_user plan)) (pl_groups plan) @ unlinkAssignments (u_Id (pl_user plan)) (pl_assignments plan) @ post"
      "list_all linkFree mid" "list_all linkFree post" "linkFree (CHDel (pl_hash plan) (u_Id (pl_user plan)))"
      using applyPlan_shape [OF p(7)] p(6) id(2) by blast
    show ?thesis
      unfolding 2(3) a(1)
      by (rule links_delete_user [OF l])
        (use s f a p id store_reads(5) [OF assms(1) p(1)] store_reads(5) [OF assms(1) p(2)] in \<open>simp_all add: sameKey_def\<close>)
  qed
  have step: "links (view v')" if d: "deleteDirectoryUserTx R L msgpack now userID version actor v = (added, t)"
    and wt: "watchTx R (others i) (deletionWatched userID actor @ added) t v = (z, v')" and l: "links (view v)" for now v added t i z v'
    by (rule links_watchTx [OF assms(1) wt l assms(2)]) (rule tx [OF d [THEN trans]], simp_all)
  show ?thesis
    using assms(3,4)
    by (auto simp: DeleteDirectoryUser_def split: if_splits prod.splits elim!: links_retryTx intro: step)
qed

lemma FindByEmail_links:
  assumes "store_ok R view" "\<And>i. keepsLinks view (others i)" "links (view w)"
    "FindByEmail R L others clock w email = (r, w')"
  shows "links (view w')"
proof -
  have tx: "list_all linkFree cs" if "importLegacyTx R L now e v = Commit cs x" for now e v cs x
    using that by (auto simp: importLegacyTx_def split: option.splits sum.splits if_splits bool.splits prod.splits)
  have "links (view v')" if "findByEmailAttempt R L others clock e i v = (z, v')" "links (view v)" for e i v z v'
    using that
    by (auto simp: findByEmailAttempt_def Let_def split: sum.splits option.splits
        intro: links_watchTx [OF assms(1)] assms(2) links_linkFree tx keepsLinksD [OF assms(2)])
  with assms(3,4) show ?thesis
    by (auto simp: FindByEmail_def Let_def split: if_splits elim!: links_retryTx)
qed

lemma userRepo_UpdateUser_links:
  assumes "store_ok R view" "\<And>i. keepsLinks view (others i)" "links (view w)"
    "userRepo_UpdateUser R L others clock w input = (r, w')"
  shows "links (view w')"
proof -
  have tx: "list_all linkFree cs" if "updateFederatedUserTx R L c v = Commit cs x" for c v cs x
    using that by (auto simp: updateFederatedUserTx_def split: option.splits sum.splits if_splits)
  have f: "links (view v')" if "updateFederatedUser R L (others i) v u = (z, v')" "links (view v)" for i v u z v'
    using that
    by (auto simp: updateFederatedUser_def split: sum.splits prod.splits option.splits
        intro: links_watchTx [OF assms(1)] assms(2) links_linkFree tx)
  have l: "links (view (others i w))" for i using keepsLinksD [OF assms(2,3)] .
  have d: "links (view v')" if "UpdateDirectoryUser R L (\<lambda>i. others (i + 1)) clock v x = (z, v')" "links (view v)" for v x z v'
    by (rule UpdateDirectoryUser_links [OF assms(1) _ that(2,1)]) (rule assms(2))
  show ?thesis
  proof (cases input)
    case None
    with assms(4) UpdateDirectoryUser_links [OF assms(1,2,3)] show ?thesis by (simp add: userRepo_UpdateUser_def)
  next
    case (Some u)
    with assms(3,4) f [OF _ l] d [OF _ l] show ?thesis
      by (auto simp: userRepo_UpdateUser_def Let_def split: sum.splits if_splits)
  qed
qed

lemma userRepo_SetStatus_links:
  assumes "store_ok R view" "\<And>i. keepsLinks view (others i)" "links (view w)"
    "userRepo_SetStatus R L others clock w email status = (r, w')"
  shows "links (view w')"
proof -
  obtain z v where f: "FindByEmail R L others clock w email = (z, v)" by force
  note l = FindByEmail_links [OF assms(1-3) f]
  have "links (view (others 16 v))" by (rule keepsLinksD [OF assms(2) l])
  with assms(2,4) f l show ?thesis
    by (auto simp: userRepo_SetStatus_def split: sum.splits option.splits
        intro: userRepo_UpdateUser_links [OF assms(1), where others = "\<lambda>i. others (i + 17)"])
qed

lemma IncrementTokenVersion_links:
  assumes "store_ok R view" "\<And>i. keepsLinks view (others i)" "links (view w)"
    "IncrementTokenVersion R L others clock w email = (r, w')"
  shows "links (view w')"
proof -
  obtain z v where f: "FindByEmail R L others clock w email = (z, v)" by force
  note l = FindByEmail_links [OF assms(1-3) f]
  have "links (view (others 16 v))" by (rule keepsLinksD [OF assms(2) l])
  with assms(2,4) f l show ?thesis
    by (auto simp: IncrementTokenVersion_def split: sum.splits option.splits prod.splits
        intro: userRepo_UpdateUser_links [OF assms(1), where others = "\<lambda>i. others (i + 17)"])
qed

lemma IncrementTokenVersionByID_links:
  assumes "store_ok R view" "\<And>i. keepsLinks view (others i)" "links (view w)"
    "IncrementTokenVersionByID R L others clock w userID = (r, w')"
  shows "links (view w')"
proof -
  have "links (view v')" if "incrementByIDAttempt R L others clock userID i v = (z, v')" "links (view v)" for i v z v'
  proof -
    have "links (view (others (32 * i) v))" by (rule keepsLinksD [OF assms(2) that(2)])
    with assms(2) that show ?thesis
      by (auto simp: incrementByIDAttempt_def split: sum.splits option.splits prod.splits if_splits
          intro: userRepo_UpdateUser_links [OF assms(1), where others = "\<lambda>j. others (32 * i + j + 1)"])
  qed
  with assms(3,4) show ?thesis by (auto simp: IncrementTokenVersionByID_def elim!: links_retryTx)
qed

lemma UpsertFromSAML_links:
  assumes "store_ok R view" "\<And>i. keepsLinks view (others i)" "links (view w)"
    "UpsertFromSAML R L others clock newID w tid sub email roles = (r, w')"
  shows "links (view w')"
proof -
  have a: "links (view v')" if "upsertExistingAttempt R L others clock tid sub email roles i v = (z, v')" "links (view v)" for i v z v'
  proof -
    have "links (view (others (32 * i) v))" by (rule keepsLinksD [OF assms(2) that(2)])
    with assms(2) that show ?thesis
      by (auto simp: upsertExistingAttempt_def Let_def split: sum.splits option.splits prod.splits if_splits
          intro: userRepo_UpdateUser_links [OF assms(1), where others = "\<lambda>j. others (32 * i + j + 1)"])
  qed
  have loop: "links (view v')" if "upsertLoop (upsertExistingAttempt R L others clock tid sub email roles) i n v = (z, v')"
    "links (view v)" for i n v z v'
    using that
  proof (induction n arbitrary: i v)
    case (Suc n)
    obtain y u where "upsertExistingAttempt R L others clock tid sub email roles i v = (y, u)" by force
    with Suc a show ?case by (cases y) auto
  qed simp
  have f: "list_all linkFree (snd (createFederatedUserScript (samlSubjectKey t x) i p ks))" for t x i p ks
    by (simp add: createFederatedUserScript_def split: option.splits)
  have c: "links (view v')" if "createFederatedUser R L now newID v tid sub email roles = (z, v')" "links (view v)" for now v z v'
    using that links_eval [OF assms(1) _ _ f]
    by (auto simp: createFederatedUser_def Let_def split: sum.splits prod.splits if_splits option.splits)
  obtain y v where u: "upsertLoop (upsertExistingAttempt R L others clock tid sub email roles) 0 directoryMaximumRetries w = (y, v)"
    by force
  note l = loop [OF u assms(3)]
  from assms(3,4) u l c [OF _ keepsLinksD [OF assms(2) l]] show ?thesis
    by (auto simp: UpsertFromSAML_def split: sum.splits prod.splits if_splits option.splits)
qed

section \<open>Memberships, codes, counters and the migration\<close>

lemma linkKey_others [simp]:
  "\<not> linkKey (oobKey c)" "\<not> linkKey legacyOobHash" "\<not> linkKey (authenticationAttemptKey L b s)"
  by (auto simp: linkKey_def key_defs oobKey_def authenticationAttemptKey_def)

lemma guardedStatus_snd [simp]: "snd (guardedStatus x r) = snd r"
  by (auto simp: guardedStatus_def split: sum.splits prod.splits)

lemma links_snd_eval:
  assumes "store_ok R view" "links (view w)" "list_all linkFree (snd (f (view w)))"
  shows "links (view (snd (rEval R w f)))"
  using links_eval [OF assms(1), of w f "fst (rEval R w f)" "snd (rEval R w f)"] assms(2,3) by simp

lemma links_snd_pipelined:
  assumes "store_ok R view" "links (view w)" "list_all linkFree cs"
  shows "links (view (snd (pipelined R w cs)))"
  using links_pipelined [OF assms(1), of w cs "fst (pipelined R w cs)" "snd (pipelined R w cs)"] assms(2,3) by simp

lemma membershipRepo_Create_links:
  assumes "store_ok R view" "links (view w)"
  shows "links (view (snd (membershipRepo_Create R L now w m)))"
  using assms by (auto simp: membershipRepo_Create_def Let_def membershipLegacyCreateScript_def
      split: sum.splits intro!: links_snd_eval)

lemma membershipRepo_Delete_links:
  assumes "store_ok R view" "links (view w)"
  shows "links (view (snd (membershipRepo_Delete R w tenantID userID)))"
  using assms by (auto simp: membershipRepo_Delete_def membershipLegacyDeleteScript_def intro!: links_snd_eval)

lemma snd_case [simp]:
  "snd (case s of Inl e \<Rightarrow> f e | Inr a \<Rightarrow> g a) = (case s of Inl e \<Rightarrow> snd (f e) | Inr a \<Rightarrow> snd (g a))"
  "snd (case p of (x, y) \<Rightarrow> h x y) = (case p of (x, y) \<Rightarrow> snd (h x y))"
  "snd (case l of [] \<Rightarrow> u | x # xs \<Rightarrow> v x xs) = (case l of [] \<Rightarrow> snd u | x # xs \<Rightarrow> snd (v x xs))"
  "snd (case q of None \<Rightarrow> n | Some z \<Rightarrow> k z) = (case q of None \<Rightarrow> snd n | Some z \<Rightarrow> snd (k z))"
  "snd (if b then c else d) = (if b then snd c else snd d)"
  by (simp_all split: sum.split prod.split list.split option.split)

lemma case_same:
  "(case s of Inl e \<Rightarrow> c | Inr a \<Rightarrow> c) = c" "(case l of [] \<Rightarrow> c | x # xs \<Rightarrow> c) = c" "(case q of None \<Rightarrow> c | Some z \<Rightarrow> c) = c"
  by (simp_all split: sum.split list.split option.split)

lemma membershipV2_Ensure_links:
  assumes "store_ok R view" "links (view w)"
  shows "links (view (snd (membershipV2_Ensure R L now w t u roles)))"
proof -
  have "list_all linkFree (snd (membershipV2EnsureScript t u payload ks))" for payload ks
    by (simp add: membershipV2EnsureScript_def Let_def split: option.split)
  then have "links (view (snd (rEval R w (membershipV2EnsureScript t u payload))))" for payload
    by (rule links_snd_eval [OF assms])
  then show ?thesis using assms(2)
    by (simp add: membershipV2_Ensure_def case_same split_def cong del: list.case_cong_weak sum.case_cong_weak option.case_cong_weak if_weak_cong split: sum.split)
qed

lemma ConsumeSubjectOobCode_links:
  assumes "store_ok R view" "links (view w)"
  shows "links (view (snd (ConsumeSubjectOobCode R L Q now w code request)))"
proof -
  have "list_all linkFree (snd (consumeSubjectOobScript Q (oobKey code) request n ks))" for n ks
    by (simp add: consumeSubjectOobScript_def Let_def split: option.split)
  then have "links (view (snd (rEval R w (consumeSubjectOobScript Q (oobKey code) request n))))" for n
    by (rule links_snd_eval [OF assms])
  then show ?thesis using assms(2)
    by (simp add: ConsumeSubjectOobCode_def Let_def case_same split_def
        cong del: list.case_cong_weak sum.case_cong_weak option.case_cong_weak if_weak_cong)
qed

lemma SaveSubjectOobCode_links:
  assumes "store_ok R view" "links (view w)"
  shows "links (view (snd (SaveSubjectOobCode R L now w code p request)))"
  using assms by (simp add: SaveSubjectOobCode_def links_snd_pipelined)

lemma AllowAuthenticationAttempt_links:
  assumes "store_ok R view" "links (view w)"
  shows "links (view (snd (AllowAuthenticationAttempt R L w bucket subject limit window)))"
proof -
  have "list_all linkFree (snd (authenticationAttemptScript (authenticationAttemptKey L b s) n ks))" for b s n ks
    by (auto simp: authenticationAttemptScript_def split: option.split)
  then have "links (view (snd (rEval R w (authenticationAttemptScript (authenticationAttemptKey L b s) n))))" for b s n
    by (rule links_snd_eval [OF assms])
  then show ?thesis using assms(2)
    by (simp add: AllowAuthenticationAttempt_def Let_def case_same split_def
        cong del: list.case_cong_weak sum.case_cong_weak option.case_cong_weak if_weak_cong)
qed

lemma writeUsers_links:
  assumes "store_ok R view" "\<And>i. keepsLinks view (others i)" "links (view w)"
    "writeUsers R L others byID i w ids = (r, w')"
  shows "links (view w')"
  using assms(3,4)
proof (induction ids arbitrary: i w)
  case (Cons u ids)
  have put: "links (view v)"
    if "pipelined R (others i w) [CHSet usersHashV2 a b, CSet c d, CZAdd e f] = (z, v)" for a b c d e f z v
    using links_pipelined [OF assms(1) that keepsLinksD [OF assms(2) Cons.prems(1)]] by simp
  show ?case
    using Cons.prems(2,1)
    by (auto simp: Let_def split: sum.splits option.splits prod.splits if_splits dest!: put intro: Cons.IH)
qed simp

lemma copyAssignments_links:
  assumes "store_ok R view" "\<And>i. keepsLinks view (others i)" "links (view w)"
    "copyAssignments R L rg others clock i w pairs n = (r, w')"
  shows "links (view w')"
  using assms(3,4)
proof (induction pairs arbitrary: i w n)
  case (Cons a pairs)
  obtain t u c where a: "a = ((t, u), c)" by (metis surj_pair)
  have put: "links (view v)" if "PutAccessAssignment R L rg (\<lambda>j. others (8 * i + j)) clk w t k u rs [] = (z, v)" for v z clk k rs
    using PutAccessAssignment_links [OF assms(1), of "\<lambda>j. others (8 * i + j)"] assms(2) Cons.prems(1) that by blast
  show ?case
    using Cons.prems(2,1) unfolding a
    by (auto split: sum.splits option.splits prod.splits if_splits dest!: put intro: Cons.IH)
qed simp

lemma backfillUsers_links:
  assumes "store_ok R view" "\<And>i. keepsLinks view (others i)" "links (view w)"
    "backfillUsers R L others now w = Some (r, w')"
  shows "links (view w')"
  using assms(3,4)
  by (auto simp: backfillUsers_def split: sum.splits option.splits prod.splits bind_splits
      dest: writeUsers_links [OF assms(1,2)])

lemma backfillAssignments_links:
  assumes "store_ok R view" "\<And>i. keepsLinks view (others i)" "links (view w)"
    "backfillAssignments R L rg scanKeys others clock w = Some (r, w')"
  shows "links (view w')"
  using assms(3,4)
  by (auto simp: backfillAssignments_def split: sum.splits option.splits prod.splits bind_splits
      dest: copyAssignments_links [OF assms(1,2)])

lemma releaseLease_links:
  assumes "store_ok R view" "links (view (snd p))"
  shows "links (view (snd (releaseLease R owner p)))"
  using assms by (simp add: releaseLease_def releaseLeaseScript_def links_snd_eval)

lemma underLease_links:
  assumes "store_ok R view" "\<And>i j. keepsLinks view (others i j)" "links (view w)"
    "underLease R L rg scanKeys others clock owner w = Some (r, w')"
  shows "links (view w')"
proof -
  have rel: "links (view w')" if "releaseLease R owner (z, v) = (r, w')" "links (view v)" for z v
    using releaseLease_links [OF assms(1), of "(z, v)" owner] that by (metis snd_conv)
  obtain r1 w1 where u: "backfillUsers R L (others 0) (clock 0) w = Some (r1, w1)"
    using assms(4) by (cases "backfillUsers R L (others 0) (clock 0) w") (auto simp: underLease_def)
  note l1 = backfillUsers_links [OF assms(1,2,3) u]
  show ?thesis
  proof (cases r1)
    case (Inl e)
    with assms(4) u l1 rel show ?thesis by (auto simp: underLease_def)
  next
    case (Inr users)
    then obtain r2 w2 where a: "backfillAssignments R L rg scanKeys (others 1) clock w1 = Some (r2, w2)"
      using assms(4) u by (cases "backfillAssignments R L rg scanKeys (others 1) clock w1") (auto simp: underLease_def)
    note l2 = backfillAssignments_links [OF assms(1,2) l1 a]
    obtain r3 w3 where c: "rEval R (others 2 0 w2) (completeBackfillScript owner) = (r3, w3)" by force
    have "links (view w3)"
      using links_eval [OF assms(1) c keepsLinksD [OF assms(2) l2]] by (simp add: completeBackfillScript_def)
    with assms(4) u a Inr c l2 rel show ?thesis
      by (auto simp: underLease_def split: sum.splits if_splits)
  qed
qed

lemma Backfill_links:
  assumes "store_ok R view" "\<And>i j. keepsLinks view (others i j)" "links (view w)"
    "Backfill R L rg scanKeys others clock owner w = Some (r, w')"
  shows "links (view w')"
  using assms(3,4)
  by (auto simp: Backfill_def split: sum.splits option.splits prod.splits bool.splits
      dest: links_SetNX [OF assms(1)] underLease_links [OF assms(1,2), rotated])

lemma SaveOobCode_links:
  assumes "store_ok R view" "keepsLinks view other" "links (view w)"
  shows "links (view (snd (SaveOobCode R now other w code email reqType)))"
proof -
  have p: "links (view (snd (pipelined R v cs)))" if "links (view v)" "list_all linkFree cs" for v cs
    using links_snd_pipelined [OF assms(1) that] .
  have q: "links (view v)" if "pipelined R w cs = (z, v)" "list_all linkFree cs" for z v cs
    using p [OF assms(3) that(2)] that(1) by simp
  show ?thesis
    using assms(3) by (auto simp: SaveOobCode_def Let_def case_same split: prod.splits option.splits
        intro!: p keepsLinksD [OF assms(2)] dest!: q)
qed

lemma consumeLegacyOobCode_links:
  assumes "store_ok R view" "keepsLinks view other" "links (view w)"
  shows "links (view (snd (consumeLegacyOobCode R Q now other w code request)))"
proof -
  have p: "links (view (snd (pipelined R (other w) [CHDel legacyOobHash code])))"
    using links_snd_pipelined [OF assms(1) keepsLinksD [OF assms(2,3)]] by simp
  then show ?thesis
    using assms(3) by (auto simp: consumeLegacyOobCode_def Let_def split: sum.split option.split prod.splits)
qed

lemma ConsumeOobCode_links:
  assumes "store_ok R view" "\<And>i. keepsLinks view (others i)" "links (view w)"
  shows "links (view (snd (ConsumeOobCode R Q clock others w code request)))"
proof -
  have "list_all linkFree (snd (consumeOobCodeScript Q (oobKey c) r n ks))" for c r n ks
    by (simp add: consumeOobCodeScript_def Let_def split: option.split)
  then have e: "links (view (snd (rEval R w (consumeOobCodeScript Q (oobKey c) r n))))" for c r n
    by (rule links_snd_eval [OF assms(1,3)])
  then show ?thesis
    using assms(3) consumeLegacyOobCode_links [OF assms(1,2) keepsLinksD [OF assms(2) e]]
    by (simp add: ConsumeOobCode_def Let_def split_def split: sum.split cong del: if_weak_cong)
qed

section \<open>The operations as steps\<close>

text \<open>
  One step is one call of the repository by one client. While it runs, the others make any number of steps of their own
  wherever the code sends two requests: every \<open>others\<close> is itself a sequence of steps.
\<close>

inductive directoryStep ::
  "'w store \<Rightarrow> directoryLib \<Rightarrow> registry option \<Rightarrow> (string \<Rightarrow> samlSessionIndexRecord option) \<Rightarrow> oobLib \<Rightarrow>
   ('w \<Rightarrow> nat \<Rightarrow> (string list \<times> nat) res) \<Rightarrow> 'w \<Rightarrow> 'w \<Rightarrow> bool"
  for R L rg msgpack Q scanKeys where
  find_by_email: "\<forall>i v. (directoryStep R L rg msgpack Q scanKeys)\<^sup>*\<^sup>* v (others i v) \<Longrightarrow>
    FindByEmail R L others clock w email = (r, w') \<Longrightarrow> directoryStep R L rg msgpack Q scanKeys w w'"
| update_user: "\<forall>i v. (directoryStep R L rg msgpack Q scanKeys)\<^sup>*\<^sup>* v (others i v) \<Longrightarrow>
    userRepo_UpdateUser R L others clock w u = (r, w') \<Longrightarrow> directoryStep R L rg msgpack Q scanKeys w w'"
| set_status: "\<forall>i v. (directoryStep R L rg msgpack Q scanKeys)\<^sup>*\<^sup>* v (others i v) \<Longrightarrow>
    userRepo_SetStatus R L others clock w email status = (r, w') \<Longrightarrow> directoryStep R L rg msgpack Q scanKeys w w'"
| increment_token_version: "\<forall>i v. (directoryStep R L rg msgpack Q scanKeys)\<^sup>*\<^sup>* v (others i v) \<Longrightarrow>
    IncrementTokenVersion R L others clock w email = (r, w') \<Longrightarrow> directoryStep R L rg msgpack Q scanKeys w w'"
| increment_by_id: "\<forall>i v. (directoryStep R L rg msgpack Q scanKeys)\<^sup>*\<^sup>* v (others i v) \<Longrightarrow>
    IncrementTokenVersionByID R L others clock w userID = (r, w') \<Longrightarrow> directoryStep R L rg msgpack Q scanKeys w w'"
| upsert_saml: "\<forall>i v. (directoryStep R L rg msgpack Q scanKeys)\<^sup>*\<^sup>* v (others i v) \<Longrightarrow>
    UpsertFromSAML R L others clock newID w tid sub email roles = (r, w') \<Longrightarrow>
    directoryStep R L rg msgpack Q scanKeys w w'"
| delete_by_email: "\<forall>i v. (directoryStep R L rg msgpack Q scanKeys)\<^sup>*\<^sup>* v (others i v) \<Longrightarrow>
    DeleteByEmail R L others clock w email = (r, w') \<Longrightarrow> directoryStep R L rg msgpack Q scanKeys w w'"
| create_user: "CreateDirectoryUser R L now w input = (r, w') \<Longrightarrow> directoryStep R L rg msgpack Q scanKeys w w'"
| update_directory_user: "\<forall>i v. (directoryStep R L rg msgpack Q scanKeys)\<^sup>*\<^sup>* v (others i v) \<Longrightarrow>
    UpdateDirectoryUser R L others clock w u = (r, w') \<Longrightarrow> directoryStep R L rg msgpack Q scanKeys w w'"
| consume_password: "\<forall>i v. (directoryStep R L rg msgpack Q scanKeys)\<^sup>*\<^sup>* v (others i v) \<Longrightarrow>
    ConsumeTemporaryPassword R L others clock w userID h n h' = (r, w') \<Longrightarrow> directoryStep R L rg msgpack Q scanKeys w w'"
| delete_directory_user: "\<forall>i v. (directoryStep R L rg msgpack Q scanKeys)\<^sup>*\<^sup>* v (others i v) \<Longrightarrow>
    DeleteDirectoryUser R L msgpack others clock w userID version actor = (r, w') \<Longrightarrow>
    directoryStep R L rg msgpack Q scanKeys w w'"
| create_group: "\<forall>i v. (directoryStep R L rg msgpack Q scanKeys)\<^sup>*\<^sup>* v (others i v) \<Longrightarrow>
    CreateGroup R L others now uuid w name description = (r, w') \<Longrightarrow> directoryStep R L rg msgpack Q scanKeys w w'"
| patch_group: "\<forall>i v. (directoryStep R L rg msgpack Q scanKeys)\<^sup>*\<^sup>* v (others i v) \<Longrightarrow>
    PatchGroup R L others clock w groupID patch ifMatch = (r, w') \<Longrightarrow> directoryStep R L rg msgpack Q scanKeys w w'"
| delete_group: "\<forall>i v. (directoryStep R L rg msgpack Q scanKeys)\<^sup>*\<^sup>* v (others i v) \<Longrightarrow>
    DeleteGroup R L others w groupID ifMatch = (r', w') \<Longrightarrow> directoryStep R L rg msgpack Q scanKeys w w'"
| change_member: "\<forall>i v. (directoryStep R L rg msgpack Q scanKeys)\<^sup>*\<^sup>* v (others i v) \<Longrightarrow>
    changeGroupMember R L others clock w groupID userID ifMatch add = (r, w') \<Longrightarrow>
    directoryStep R L rg msgpack Q scanKeys w w'"
| put_assignment: "\<forall>i v. (directoryStep R L rg msgpack Q scanKeys)\<^sup>*\<^sup>* v (others i v) \<Longrightarrow>
    PutAccessAssignment R L rg others clock w tenantID kind principalID roles ifMatch = (r, w') \<Longrightarrow>
    directoryStep R L rg msgpack Q scanKeys w w'"
| delete_assignment: "\<forall>i v. (directoryStep R L rg msgpack Q scanKeys)\<^sup>*\<^sup>* v (others i v) \<Longrightarrow>
    DeleteAccessAssignment R L others w tenantID kind principalID ifMatch = (r', w') \<Longrightarrow>
    directoryStep R L rg msgpack Q scanKeys w w'"
| backfill: "\<forall>i j v. (directoryStep R L rg msgpack Q scanKeys)\<^sup>*\<^sup>* v (others2 i j v) \<Longrightarrow>
    Backfill R L rg scanKeys others2 clock owner w = Some (r, w') \<Longrightarrow> directoryStep R L rg msgpack Q scanKeys w w'"
| create_membership: "membershipRepo_Create R L now w m = (r, w') \<Longrightarrow> directoryStep R L rg msgpack Q scanKeys w w'"
| delete_membership: "membershipRepo_Delete R w tenantID userID = (r, w') \<Longrightarrow> directoryStep R L rg msgpack Q scanKeys w w'"
| ensure_membership: "membershipV2_Ensure R L now w tenantID userID roles = (r, w') \<Longrightarrow>
    directoryStep R L rg msgpack Q scanKeys w w'"
| save_subject_code: "SaveSubjectOobCode R L now w code p request = (r, w') \<Longrightarrow>
    directoryStep R L rg msgpack Q scanKeys w w'"
| consume_subject_code: "ConsumeSubjectOobCode R L Q now w code request = (r, w') \<Longrightarrow>
    directoryStep R L rg msgpack Q scanKeys w w'"
| save_code: "\<forall>v. (directoryStep R L rg msgpack Q scanKeys)\<^sup>*\<^sup>* v (other v) \<Longrightarrow>
    SaveOobCode R now other w code email reqType = (r, w') \<Longrightarrow> directoryStep R L rg msgpack Q scanKeys w w'"
| consume_code: "\<forall>i v. (directoryStep R L rg msgpack Q scanKeys)\<^sup>*\<^sup>* v (others i v) \<Longrightarrow>
    ConsumeOobCode R Q clock others w code request = (r, w') \<Longrightarrow> directoryStep R L rg msgpack Q scanKeys w w'"
| count_attempt: "AllowAuthenticationAttempt R L w bucket subject limit window = (r, w') \<Longrightarrow>
    directoryStep R L rg msgpack Q scanKeys w w'"

lemma keepsLinks_steps:
  assumes "\<And>v. (\<lambda>x y. S x y \<and> (links (view x) \<longrightarrow> links (view y)))\<^sup>*\<^sup>* v (f v)"
  shows "keepsLinks view f"
proof -
  have "links (view y)" if "(\<lambda>x y. S x y \<and> (links (view x) \<longrightarrow> links (view y)))\<^sup>*\<^sup>* x y" "links (view x)" for x y
    using that by induction auto
  with assms show ?thesis unfolding keepsLinks_def by blast
qed

lemmas directory_links =
  FindByEmail_links userRepo_UpdateUser_links userRepo_SetStatus_links IncrementTokenVersion_links IncrementTokenVersionByID_links
  UpsertFromSAML_links DeleteByEmail_links UpdateDirectoryUser_links ConsumeTemporaryPassword_links
  DeleteDirectoryUser_links CreateGroup_links PatchGroup_links DeleteGroup_links changeGroupMember_links
  PutAccessAssignment_links DeleteAccessAssignment_links

lemmas membership_links =
  membershipRepo_Create_links membershipRepo_Delete_links membershipV2_Ensure_links SaveSubjectOobCode_links
  ConsumeSubjectOobCode_links AllowAuthenticationAttempt_links

lemma links_snd: "links (view (snd p)) \<Longrightarrow> p = (r, w') \<Longrightarrow> links (view w')"
  by simp

text \<open>Each step keeps the invariant when the steps of the others inside it do.\<close>

lemma directoryStep_links:
  assumes "directoryStep R L rg msgpack Q scanKeys w w'" "store_ok R view"
  shows "links (view w) \<longrightarrow> links (view w')"
proof -
  note k = keepsLinks_steps [of "directoryStep R L rg msgpack Q scanKeys" view]
  show ?thesis
    using assms(1)
  proof induction
  case (create_user now w input r w')
  then show ?case using CreateDirectoryUser_links [OF assms(2)] by simp
next
  case (backfill others2 clock owner w r w')
  then have "\<And>i j. keepsLinks view (others2 i j)"
    by (intro keepsLinks_steps [of "directoryStep R L rg msgpack Q scanKeys"]) blast
  with backfill(2) show ?case using Backfill_links [OF assms(2), where others = others2] by blast
next
  case (save_code other now w code email reqType r w')
  then have "keepsLinks view other" by - (rule k, blast)
  then show ?case using save_code(2) SaveOobCode_links [OF assms(2)] links_snd by metis
next
  case (consume_code others clock w code request r w')
  then have "\<And>i. keepsLinks view (others i)" by - (rule k, blast)
  then show ?case using consume_code(2) ConsumeOobCode_links [OF assms(2)] links_snd by metis
next
  case (find_by_email others clock w email r w')
  then have "\<And>i. keepsLinks view (others i)" by - (rule k, blast)
  then show ?case using find_by_email(2) FindByEmail_links [OF assms(2), where others = others] by blast
next
  case (update_user others clock w u r w')
  then have "\<And>i. keepsLinks view (others i)" by - (rule k, blast)
  then show ?case using update_user(2) userRepo_UpdateUser_links [OF assms(2), where others = others] by blast
next
  case (set_status others clock w email status r w')
  then have "\<And>i. keepsLinks view (others i)" by - (rule k, blast)
  then show ?case using set_status(2) userRepo_SetStatus_links [OF assms(2), where others = others] by blast
next
  case (increment_token_version others clock w email r w')
  then have "\<And>i. keepsLinks view (others i)" by - (rule k, blast)
  then show ?case using increment_token_version(2) IncrementTokenVersion_links [OF assms(2), where others = others] by blast
next
  case (increment_by_id others clock w userID r w')
  then have "\<And>i. keepsLinks view (others i)" by - (rule k, blast)
  then show ?case using increment_by_id(2) IncrementTokenVersionByID_links [OF assms(2), where others = others] by blast
next
  case (upsert_saml others clock newID w tid sub email roles r w')
  then have "\<And>i. keepsLinks view (others i)" by - (rule k, blast)
  then show ?case using upsert_saml(2) UpsertFromSAML_links [OF assms(2), where others = others] by blast
next
  case (delete_by_email others clock w email r w')
  then have "\<And>i. keepsLinks view (others i)" by - (rule k, blast)
  then show ?case using delete_by_email(2) DeleteByEmail_links [OF assms(2), where others = others] by blast
next
  case (update_directory_user others clock w u r w')
  then have "\<And>i. keepsLinks view (others i)" by - (rule k, blast)
  then show ?case using update_directory_user(2) UpdateDirectoryUser_links [OF assms(2), where others = others] by blast
next
  case (consume_password others clock w userID h n h' r w')
  then have "\<And>i. keepsLinks view (others i)" by - (rule k, blast)
  then show ?case using consume_password(2) ConsumeTemporaryPassword_links [OF assms(2), where others = others] by blast
next
  case (delete_directory_user others clock w userID version actor r w')
  then have "\<And>i. keepsLinks view (others i)" by - (rule k, blast)
  then show ?case using delete_directory_user(2) DeleteDirectoryUser_links [OF assms(2), where others = others] by blast
next
  case (create_group others now uuid w name description r w')
  then have "\<And>i. keepsLinks view (others i)" by - (rule k, blast)
  then show ?case using create_group(2) CreateGroup_links [OF assms(2), where others = others] by blast
next
  case (patch_group others clock w groupID patch ifMatch r w')
  then have "\<And>i. keepsLinks view (others i)" by - (rule k, blast)
  then show ?case using patch_group(2) PatchGroup_links [OF assms(2), where others = others] by blast
next
  case (delete_group others w groupID ifMatch r' w')
  then have "\<And>i. keepsLinks view (others i)" by - (rule k, blast)
  then show ?case using delete_group(2) DeleteGroup_links [OF assms(2), where others = others] by blast
next
  case (change_member others clock w groupID userID ifMatch add r w')
  then have "\<And>i. keepsLinks view (others i)" by - (rule k, blast)
  then show ?case using change_member(2) changeGroupMember_links [OF assms(2), where others = others] by blast
next
  case (put_assignment others clock w tenantID kind principalID roles ifMatch r w')
  then have "\<And>i. keepsLinks view (others i)" by - (rule k, blast)
  then show ?case using put_assignment(2) PutAccessAssignment_links [OF assms(2), where others = others] by blast
next
  case (delete_assignment others w tenantID kind principalID ifMatch r' w')
  then have "\<And>i. keepsLinks view (others i)" by - (rule k, blast)
  then show ?case using delete_assignment(2) DeleteAccessAssignment_links [OF assms(2), where others = others] by blast
qed (use membership_links [OF assms(2)] links_snd in metis)+
qed

text \<open>
  C18. At every moment that any sequence of repository calls can reach, with the calls of concurrent clients interleaved
  and with requests that fail halfway, the two copies of every relation of the directory agree: a group lists a user as
  its member exactly when the user lists the group, and a tenant holds an assignment of a user or a group exactly when
  that principal lists the tenant. The steps are all writing operations of the user, directory, membership and code
  repositories and the migration.
\<close>

theorem directory_links_invariant:
  assumes "(directoryStep R L rg msgpack Q scanKeys)\<^sup>*\<^sup>* w0 w" "store_ok R view" "links (view w0)"
  shows "links (view w)"
  using assms(1)
proof (induction rule: rtranclp_induct)
  case (step v w)
  then show ?case using directoryStep_links [OF step(2) assms(2)] by simp
qed (rule assms(3))

lemma sample_add_member:
  "changeGroupMember memStore sampleLib quiet (\<lambda>i. 9) sampleMem ''grp_1'' ''alice'' ''*'' True =
     (Inr (staff\<lparr>g_Version := 2, g_UpdatedAt := Some 9, g_MemberCount := 1\<rparr>, True),
      sampleMem\<lparr>mem_keys := applyAll [CHSet directoryGroupsHash ''grp_1'' ''G1'', CSAdd (groupMembersKey ''grp_1'') ''alice'',
        CSAdd (userGroupsKey ''alice'') ''grp_1''] sampleKeys\<rparr>)"
proof -
  have "marshal (dl_group sampleLib) (staff\<lparr>g_Version := 2, g_UpdatedAt := Some 9\<rparr>) = Inr ''G1''" by code_simp
  then show ?thesis
    by (simp add: changeGroupMember_def changeGroupMemberTx_def watchTx_def Let_def memberCount_def retryTx_first)
qed

lemma sample_links: "links (mem_keys sampleMem)"
  by (simp add: links_def linkedGroups_def linkedTenants_def)

theorem directory_links_invariant_witness:
  "\<exists>w. (directoryStep memStore sampleLib None (\<lambda>s. None) \<lparr>ol_tonumber = (\<lambda>s. None), ol_legacyPayload = (\<lambda>s. Inl ErrNotFound)\<rparr>
          (\<lambda>w n. Inr ([], 0)))\<^sup>*\<^sup>* sampleMem w \<and> links (mem_keys sampleMem) \<and> links (mem_keys w) \<and>
     ''alice'' \<in> ks_set (mem_keys w) (groupMembersKey ''grp_1'') \<and> ''grp_1'' \<in> ks_set (mem_keys w) (userGroupsKey ''alice'')"
proof -
  let ?S = "directoryStep memStore sampleLib None (\<lambda>s. None)
    \<lparr>ol_tonumber = (\<lambda>s. None), ol_legacyPayload = (\<lambda>s. Inl ErrNotFound)\<rparr> (\<lambda>w n. Inr ([], 0))"
  obtain w where w: "w = snd (changeGroupMember memStore sampleLib quiet (\<lambda>i. 9) sampleMem ''grp_1'' ''alice'' ''*'' True)"
    by simp
  then have "?S sampleMem w"
    using directoryStep.change_member [OF _ sample_add_member] sample_add_member by auto
  then have s: "?S\<^sup>*\<^sup>* sampleMem w" by simp
  have "''alice'' \<in> ks_set (mem_keys w) (groupMembersKey ''grp_1'')" "''grp_1'' \<in> ks_set (mem_keys w) (userGroupsKey ''alice'')"
    by (simp_all add: w sample_add_member)
  with s directory_links_invariant [OF s memStore_ok sample_links] sample_links show ?thesis by blast
qed

end
