(* ===== verification/Instants.thy ===== *)
theory Instants
  imports Directory_Store
begin

text \<open>
  The instants of a call. \<open>F\<close> is what other clients may do meanwhile; an instant of a call that starts at \<open>w\<close> is a state
  the store passes through by their doing alone, before the call has written anything. A client that is alone has the
  start as its only instant.
\<close>

inductive instant :: "('w \<Rightarrow> keyspace) \<Rightarrow> ('w \<Rightarrow> 'w) set \<Rightarrow> 'w \<Rightarrow> 'w \<Rightarrow> bool" for view F w where
  start: "instant view F w w"
| other: "instant view F w v \<Longrightarrow> f \<in> F \<Longrightarrow> instant view F w (f v)"
| unseen: "instant view F w v \<Longrightarrow> view v' = view v \<Longrightarrow> instant view F w v'"

lemma instant_trans: "instant view F v u \<Longrightarrow> instant view F w v \<Longrightarrow> instant view F w u"
  by (induction rule: instant.induct) (auto intro: instant.intros)

lemma instant_mono: "instant view G w v \<Longrightarrow> G \<subseteq> F \<Longrightarrow> instant view F w v"
  by (induction rule: instant.induct) (auto intro: instant.intros)

lemma instant_alone:
  assumes "instant view F w v" "\<And>f u. f \<in> F \<Longrightarrow> f u = u"
  shows "view v = view w"
  using assms(1) by (induction rule: instant.induct) (simp_all add: assms(2))

lemma instant_others: "instant view (range others) w v \<Longrightarrow> instant view (range others) w (others j v)"
  by (rule other) simp_all

text \<open>A transaction that lost against another client has written nothing.\<close>

lemma watchTx_None:
  assumes "store_ok R view" "watchTx R other watched t w = (None, w')"
  shows "w' = w \<or> view w' = view (other w)"
  using assms(2) store_writes(1) [OF assms(1)] by (auto simp: watchTx_def split: txn.splits prod.splits execResult.splits)

lemma watchTx_instant:
  assumes "store_ok R view" "instant view F w v" "watchTx R f watched t v = (None, v')" "f \<in> F"
  shows "instant view F w v'"
  using watchTx_None [OF assms(1,3)] assms(2,4) by (auto intro: instant.intros)

text \<open>A call that succeeds does so in an attempt that starts at one of its instants.\<close>

lemma retryTx_instant:
  assumes "retryTx attempt i n w = (Inr x, w')"
    and "\<And>j v v'. instant view F w v \<Longrightarrow> attempt j v = (None, v') \<Longrightarrow> instant view F w v'"
  obtains j v where "instant view F w v" "attempt j v = (Some (Inr x), w')"
proof -
  note found = that
  show thesis
  proof (rule retryTx_result [where P = "instant view F w", OF assms(1) start])
    show "instant view F w v'" if "instant view F w v" "attempt j v = (None, v')" for j v v' using assms(2) that .
    show thesis if "Inr x = Inl errDirectoryRetry" using that by simp
    show thesis if "instant view F w v" "attempt j v = (Some (Inr x), w')" for j v using that by (rule found)
  qed
qed

end
