(* ===== verification/Directory_Updates.thy ===== *)
theory Directory_Updates
  imports Directory_Links Instants
begin

text \<open>
  What a successful write of the identity directory means, whatever other clients do meanwhile: at one instant the
  stored record had the version the caller saw, and the store then changed as the operation says and in nothing else.
\<close>

lemma watchTx_Commit:
  assumes "store_ok R view" "watchTx R other watched t w = (Some (Inr x), w')" "t \<noteq> Keep x"
  obtains cs where "t = Commit cs x" "\<And>k. k \<in> set watched \<Longrightarrow> sameKey (view w) (view (other w)) k"
    "view w' = applyAll cs (view (other w))"
  by (rule watchTx_Inr [OF assms(1,2)]) (use assms(3) in simp, erule that)

lemma canonicalStoredUser_Inr:
  assumes "store_ok R view" "canonicalStoredUser R L now w userID missing = Inr c"
  obtains raw stored where "ks_hash (view w) usersHashV2 userID = Some raw" "unmarshal (dl_user L) raw = Inr stored"
    "canonicalDirectoryStorageUser L now (Some stored) = Inr c" "u_Id c = userID"
  using assms(2) store_reads(2) [OF assms(1)]
  by (auto simp: canonicalStoredUser_def split: sum.splits option.splits if_splits)

lemma canonicalDirectoryStorageUser_Email:
  "canonicalDirectoryStorageUser L now (Some u) = Inr c \<Longrightarrow> u_Email c = normalizeDirectoryEmail L (u_Email u)"
  by (auto simp: canonicalDirectoryStorageUser_def Let_def split: if_splits)

lemma updateDirectoryUserTx_Commit:
  assumes "updateDirectoryUserTx R L now u prev w = Commit cs u'"
  obtains current payload where "canonicalStoredUser R L now w (u_Id u) ErrNotFound = Inr current"
    "u_Revision current = u_Revision u" "u_Email current = prev" "u' = u\<lparr>u_Revision := u_Revision u + 1\<rparr>"
    "prev = u_Email u \<or> (\<exists>owner. rGet R w (userByEmailKey (u_Email u)) = Inr owner \<and> (owner = None \<or> owner = Some (u_Id u)))"
    "marshal (dl_user L) u' = Inr payload"
    "cs = [CHSet usersHashV2 (u_Id u) payload, CSet (userByEmailKey (u_Email u)) (u_Id u),
       CZAdd directoryUserEmailIndex (directoryUserIndexMember (u_Email u) (u_Id u))] @
      (if prev \<noteq> u_Email u then [CDel (userByEmailKey prev),
         CZRem directoryUserEmailIndex (directoryUserIndexMember prev (u_Id u))] else [])"
  using assms by (auto simp: updateDirectoryUserTx_def Let_def split: sum.splits if_splits)

lemma updateDirectoryUserTx_Keep: "updateDirectoryUserTx R L now u prev w \<noteq> Keep x"
  by (simp add: updateDirectoryUserTx_def Let_def split: sum.split)

lemma UpdateDirectoryUser_Inr:
  assumes "store_ok R view" "UpdateDirectoryUser R L others clock w (Some u) = (Inr u', w')"
  shows "\<exists>v raw stored payload c. instant view (range others) w v \<and> canonicalDirectoryStorageUser L (clock 0) (Some u) = Inr c \<and>
    u' = c\<lparr>u_Revision := u_Revision u + 1\<rparr> \<and> marshal (dl_user L) u' = Inr payload \<and>
    ks_hash (view v) usersHashV2 (u_Id u) = Some raw \<and> unmarshal (dl_user L) raw = Inr stored \<and>
    u_Revision stored = u_Revision u \<and>
    (normalizeDirectoryEmail L (u_Email stored) = u_Email u' \<or>
       ks_string (view v) (userByEmailKey (u_Email u')) \<in> {None, Some (u_Id u)}) \<and>
    view w' = applyAll
      ([CHSet usersHashV2 (u_Id u) payload, CSet (userByEmailKey (u_Email u')) (u_Id u),
        CZAdd directoryUserEmailIndex (directoryUserIndexMember (u_Email u') (u_Id u))] @
       (if normalizeDirectoryEmail L (u_Email stored) \<noteq> u_Email u'
        then [CDel (userByEmailKey (normalizeDirectoryEmail L (u_Email stored))),
              CZRem directoryUserEmailIndex
                (directoryUserIndexMember (normalizeDirectoryEmail L (u_Email stored)) (u_Id u))]
        else [])) (view v)"
proof -
  from assms(2) obtain c where c: "canonicalDirectoryStorageUser L (clock 0) (Some u) = Inr c"
    and t: "retryTx (updateDirectoryUserAttempt R L others clock c) 0 directoryMaximumRetries w = (Inr u', w')"
    by (auto simp: UpdateDirectoryUser_def split: sum.splits)
  note id = canonicalDirectoryStorageUser_Id [OF c]
  have keep: "instant view (range others) w v'"
    if "instant view (range others) w v" "updateDirectoryUserAttempt R L others clock c j v = (None, v')" for j v v'
  proof -
    from that(2) obtain prev and t :: "user txn" where "watchTx R (others (2 * j + 1)) prev t (others (2 * j) v) = (None, v')"
      by (auto simp: updateDirectoryUserAttempt_def Let_def split: sum.splits)
    from watchTx_instant [OF assms(1) instant_others [OF that(1)] this] show ?thesis by simp
  qed
  obtain j v where inst: "instant view (range others) w v" and "updateDirectoryUserAttempt R L others clock c j v = (Some (Inr u'), w')"
    by (rule retryTx_instant [OF t keep])
  then obtain observed :: user where "watchTx R (others (2 * j + 1)) (updateDirectoryUserWatched c (u_Email observed))
      (updateDirectoryUserTx R L (clock (2 * j + 2)) c (u_Email observed) (others (2 * j) v)) (others (2 * j) v) =
      (Some (Inr u'), w')"
    by (simp only: updateDirectoryUserAttempt_def Let_def split: sum.splits) blast
  with instant_others [OF inst, of "2 * j"]
  obtain observed :: user and v1 where inst1: "instant view (range others) w v1" and a: "watchTx R (others (2 * j + 1)) (updateDirectoryUserWatched c (u_Email observed))
      (updateDirectoryUserTx R L (clock (2 * j + 2)) c (u_Email observed) v1) v1 = (Some (Inr u'), w')"
    by blast
  let ?v2 = "others (2 * j + 1) v1" and ?now = "clock (2 * j + 2)" and ?prev = "u_Email observed"
  obtain cs where
    tx: "updateDirectoryUserTx R L ?now c ?prev v1 = Commit cs u'"
    and same: "\<And>k. k \<in> set (updateDirectoryUserWatched c ?prev) \<Longrightarrow> sameKey (view v1) (view ?v2) k"
    and view: "view w' = applyAll cs (view ?v2)"
    using watchTx_Commit [OF assms(1) a updateDirectoryUserTx_Keep] by blast
  from updateDirectoryUserTx_Commit [OF tx] obtain current payload where
    current: "canonicalStoredUser R L ?now v1 (u_Id c) ErrNotFound = Inr current" "u_Revision current = u_Revision c"
      "u_Email current = ?prev"
    and u': "u' = c\<lparr>u_Revision := u_Revision c + 1\<rparr>" "marshal (dl_user L) u' = Inr payload"
    and owner: "?prev = u_Email c \<or> (\<exists>owner. rGet R v1 (userByEmailKey (u_Email c)) = Inr owner \<and>
      (owner = None \<or> owner = Some (u_Id c)))"
    and cs: "cs = [CHSet usersHashV2 (u_Id c) payload, CSet (userByEmailKey (u_Email c)) (u_Id c),
       CZAdd directoryUserEmailIndex (directoryUserIndexMember (u_Email c) (u_Id c))] @
      (if ?prev \<noteq> u_Email c then [CDel (userByEmailKey ?prev),
         CZRem directoryUserEmailIndex (directoryUserIndexMember ?prev (u_Id c))] else [])" .
  from canonicalStoredUser_Inr [OF assms(1) current(1)] obtain raw stored where
    stored: "ks_hash (view v1) usersHashV2 (u_Id c) = Some raw" "unmarshal (dl_user L) raw = Inr stored"
      "canonicalDirectoryStorageUser L ?now (Some stored) = Inr current" .
  have "sameKey (view v1) (view ?v2) usersHashV2" "sameKey (view v1) (view ?v2) (userByEmailKey (u_Email c))"
    by (rule same, simp add: updateDirectoryUserWatched_def)+
  then have raw: "ks_hash (view ?v2) usersHashV2 (u_Id c) = Some raw"
    and o2: "?prev = u_Email c \<or> ks_string (view ?v2) (userByEmailKey (u_Email c)) \<in> {None, Some (u_Id c)}"
    using stored(1) owner store_reads(1) [OF assms(1)] by (auto simp: sameKey_def)
  have e: "normalizeDirectoryEmail L (u_Email stored) = ?prev" "u_Revision stored = u_Revision c" "u_Email u' = u_Email c"
    using canonicalDirectoryStorageUser_Email [OF stored(3)] canonicalDirectoryStorageUser_Id [OF stored(3)] current u'
    by simp_all
  have idc: "u_Id c = u_Id u" "u_Revision c = u_Revision u" using id by simp_all
  let ?old = "normalizeDirectoryEmail L (u_Email stored)"
  have "view w' = applyAll
      ([CHSet usersHashV2 (u_Id u) payload, CSet (userByEmailKey (u_Email u')) (u_Id u),
        CZAdd directoryUserEmailIndex (directoryUserIndexMember (u_Email u') (u_Id u))] @
       (if ?old \<noteq> u_Email u'
        then [CDel (userByEmailKey ?old), CZRem directoryUserEmailIndex (directoryUserIndexMember ?old (u_Id u))]
        else [])) (view ?v2)"
    by (simp only: view cs e idc)
  moreover have "?old = u_Email u' \<or> ks_string (view ?v2) (userByEmailKey (u_Email u')) \<in> {None, Some (u_Id u)}"
    using o2 by (simp only: e idc)
  moreover have "u' = c\<lparr>u_Revision := u_Revision u + 1\<rparr>" "u_Revision stored = u_Revision u"
    "ks_hash (view ?v2) usersHashV2 (u_Id u) = Some raw"
    using u'(1) e(2) raw by (simp_all only: idc)
  moreover have "instant view (range others) w ?v2" using inst1 by (rule instant_others)
  ultimately show ?thesis using c u'(2) stored(2) by blast
qed

text \<open>
  C21. Optimistic update of a user. A call of \<^verbatim>\<open>UpdateDirectoryUser\<close> that succeeds acts as one atomic compare-and-set:
  there was an instant \<open>v\<close> of the call, reached by the doings of others alone, however many retries and concurrent writers came before it, at which the
  stored record had exactly the revision the caller presented and the new email belonged to nobody else; the call
  replaced the record by the canonical form of the caller's user with the revision raised by one, moved the email
  index, and changed nothing else.
\<close>

theorem update_user_compare_and_set:
  assumes "store_ok R view" "UpdateDirectoryUser R L others clock w (Some u) = (Inr u', w')"
  shows "\<exists>v raw stored payload c. instant view (range others) w v \<and> canonicalDirectoryStorageUser L (clock 0) (Some u) = Inr c \<and>
    u' = c\<lparr>u_Revision := u_Revision u + 1\<rparr> \<and> marshal (dl_user L) u' = Inr payload \<and>
    ks_hash (view v) usersHashV2 (u_Id u) = Some raw \<and> unmarshal (dl_user L) raw = Inr stored \<and>
    u_Revision stored = u_Revision u \<and>
    (normalizeDirectoryEmail L (u_Email stored) = u_Email u' \<or>
       ks_string (view v) (userByEmailKey (u_Email u')) \<in> {None, Some (u_Id u)}) \<and>
    view w' = applyAll
      ([CHSet usersHashV2 (u_Id u) payload, CSet (userByEmailKey (u_Email u')) (u_Id u),
        CZAdd directoryUserEmailIndex (directoryUserIndexMember (u_Email u') (u_Id u))] @
       (if normalizeDirectoryEmail L (u_Email stored) \<noteq> u_Email u'
        then [CDel (userByEmailKey (normalizeDirectoryEmail L (u_Email stored))),
              CZRem directoryUserEmailIndex
                (directoryUserIndexMember (normalizeDirectoryEmail L (u_Email stored)) (u_Id u))]
        else [])) (view v)"
  by (rule UpdateDirectoryUser_Inr [OF assms])

theorem update_user_compare_and_set_witness:
  "\<exists>u' w'. UpdateDirectoryUser memStore sampleLib quiet (\<lambda>i. 9) sampleMem (Some (alice\<lparr>u_Email := ''B@ex.io''\<rparr>)) = (Inr u', w') \<and>
     u_Revision u' = 1 \<and> ks_hash (mem_keys w') usersHashV2 ''alice'' = Some ''U2''"
proof -
  let ?u = "alice\<lparr>u_Email := ''b@ex.io''\<rparr>" let ?u' = "?u\<lparr>u_Revision := 1\<rparr>"
  have c: "canonicalDirectoryStorageUser sampleLib 9 (Some (alice\<lparr>u_Email := ''B@ex.io''\<rparr>)) = Inr ?u" "u_Id ?u = ''alice''"
    "marshal (dl_user sampleLib) ?u' = Inr ''U2''" "userByEmailKey ''b@ex.io'' \<noteq> userByEmailKey ''a@ex.io''"
    by (code_simp | simp)+
  obtain w' where w': "w' = snd (UpdateDirectoryUser memStore sampleLib quiet (\<lambda>i. 9) sampleMem (Some (alice\<lparr>u_Email := ''B@ex.io''\<rparr>)))"
    by simp
  have run: "UpdateDirectoryUser memStore sampleLib quiet (\<lambda>i. 9) sampleMem (Some (alice\<lparr>u_Email := ''B@ex.io''\<rparr>)) = (Inr ?u', w')"
    using c by (simp add: w' UpdateDirectoryUser_def retryTx_first updateDirectoryUserAttempt_def
        updateDirectoryUserTx_def watchTx_def Let_def)
  have k: "usersHashV2 \<noteq> userByEmailKey e" for e by (simp add: userByEmailKey_def)
  from update_user_compare_and_set [OF memStore_ok run] c(3) k have "ks_hash (mem_keys w') usersHashV2 ''alice'' = Some ''U2''"
    by (auto split: if_splits)
  with run show ?thesis by (intro exI [of _ ?u'] exI [of _ w']) simp
qed

section \<open>Assignments\<close>

lemma canonicalDirectoryRoles_idem:
  assumes "canonicalDirectoryRoles vs = Inr rs"
  shows "canonicalDirectoryRoles rs = Inr rs"
proof -
  from assms have l: "\<not> (length vs < 1 \<or> length vs > 100)" and c: "list_all canonicalMembershipRoleName (map TrimSpace vs)"
    and d: "distinct (map TrimSpace vs)" and rs: "rs = sort (map TrimSpace vs)"
    by (auto simp only: canonicalDirectoryRoles_def Let_def split: if_splits)
  have t: "map TrimSpace rs = rs" unfolding rs by (rule map_idI) auto
  have "distinct rs" "length rs = length vs" using d rs by simp_all
  moreover have "list_all canonicalMembershipRoleName rs" using c rs by (simp add: list_all_iff)
  moreover have "sort rs = rs" using rs by (simp add: sorted_sort_id)
  ultimately show ?thesis using l by (simp add: canonicalDirectoryRoles_def t)
qed

text \<open>What the transaction of \<^verbatim>\<open>PutAccessAssignment\<close> has read when it decides.\<close>

definition assignable ::
  "directoryLib \<Rightarrow> registry option \<Rightarrow> int \<Rightarrow> keyspace \<Rightarrow> string \<Rightarrow> string \<Rightarrow> string \<Rightarrow> string list \<Rightarrow> bool" where
  "assignable L rg now ks tenantID kind principalID roles \<longleftrightarrow>
     (if kind = AccessPrincipalUser
      then (\<exists>raw stored u. ks_hash ks usersHashV2 principalID = Some raw \<and> unmarshal (dl_user L) raw = Inr stored \<and>
              canonicalDirectoryStorageUser L now (Some stored) = Inr u \<and>
              (u_AuthSource u = AuthSourceSAML \<and> u_CompanyId u \<noteq> Some tenantID \<longrightarrow>
                 (\<exists>home. u_CompanyId u = Some home \<and> (\<forall>r \<in> set roles. AllowsForeignRole rg home tenantID r))))
      else (\<exists>raw g. ks_hash ks directoryGroupsHash principalID = Some raw \<and> decodeGroup L raw principalID = Inr g))"

lemma assignmentPrincipalError_None:
  assumes "store_ok R view" "assignmentPrincipalError R L rg now w t kind i roles = None"
  shows "assignable L rg now (view w) t kind i roles"
proof (cases "kind = AccessPrincipalUser")
  case True
  with assms(2) obtain u where u: "canonicalStoredUser R L now w i ErrNotFound = Inr u"
    and f: "u_AuthSource u = AuthSourceSAML \<and> u_CompanyId u \<noteq> Some t \<Longrightarrow>
      \<exists>home. u_CompanyId u = Some home \<and> (\<forall>r \<in> set roles. AllowsForeignRole rg home t r)"
    by (auto simp: assignmentPrincipalError_def AllowsForeignAssignment_def list_all_iff split: sum.splits if_splits option.splits)
  from canonicalStoredUser_Inr [OF assms(1) u] obtain raw stored where
    "ks_hash (view w) usersHashV2 i = Some raw" "unmarshal (dl_user L) raw = Inr stored"
    "canonicalDirectoryStorageUser L now (Some stored) = Inr u" .
  with f True show ?thesis unfolding assignable_def by auto
next
  case False
  with assms(2) store_reads(2) [OF assms(1)] show ?thesis
    by (auto simp: assignmentPrincipalError_def assignable_def split: sum.splits option.splits)
qed

lemma decodeAssignment_fields:
  "decodeAssignment L raw t kind i = Inr a \<Longrightarrow> a_TenantID a = t \<and> a_PrincipalType a = kind \<and> a_PrincipalID a = i \<and>
     1 \<le> a_Version a \<and> a_CreatedAt a \<noteq> None \<and> a_UpdatedAt a \<noteq> None \<and> canonicalDirectoryRoles (a_Roles a) = Inr (a_Roles a)"
  by (auto simp: decodeAssignment_def split: sum.splits if_splits)

lemma decodeAssignment_written:
  assumes "codec_ok (dl_assignment L)" "marshal (dl_assignment L) a = Inr p" "a_TenantID a = t" "a_PrincipalType a = kind"
    "a_PrincipalID a = i" "1 \<le> a_Version a" "a_CreatedAt a \<noteq> None" "a_UpdatedAt a \<noteq> None"
    "canonicalDirectoryRoles (a_Roles a) = Inr (a_Roles a)"
  shows "decodeAssignment L p t kind i = Inr a"
  using assms by (auto simp: decodeAssignment_def codec_ok_def)

lemma putAccessAssignmentTx_Keep:
  assumes "store_ok R view" "putAccessAssignmentTx R L rg now t kind i roles ifMatch w = Keep (a, created)"
  obtains raw where "assignable L rg now (view w) t kind i roles" "\<not> created" "a_Roles a = roles"
    "ks_hash (view w) (assignmentsKey t) (assignmentField kind i) = Some raw" "decodeAssignment L raw t kind i = Inr a"
  using assms(2) store_reads(2) [OF assms(1)] assignmentPrincipalError_None [OF assms(1)]
  by (auto simp: putAccessAssignmentTx_def Let_def split: option.splits sum.splits if_splits)

lemma putAccessAssignmentTx_Commit:
  assumes "store_ok R view" "putAccessAssignmentTx R L rg now t kind i roles ifMatch w = Commit cs (a, created)"
  shows "assignable L rg now (view w) t kind i roles"
    "cs = [CHSet (assignmentsKey t) (assignmentField kind i)
             (case marshal (dl_assignment L) a of Inl _ \<Rightarrow> [] | Inr p \<Rightarrow> p),
           CSAdd (principalTenantsKey kind i) t]"
    "created \<and> ks_hash (view w) (assignmentsKey t) (assignmentField kind i) = None \<and> (ifMatch = [] \<or> ifMatch = ''*'') \<and>
       a = \<lparr>a_TenantID = t, a_PrincipalType = kind, a_PrincipalID = i, a_Roles = roles, a_Version = 1,
         a_CreatedAt = Some now, a_UpdatedAt = Some now\<rparr> \<or>
     \<not> created \<and> (\<exists>raw current. ks_hash (view w) (assignmentsKey t) (assignmentField kind i) = Some raw \<and>
       decodeAssignment L raw t kind i = Inr current \<and> matchesVersion ifMatch (a_Version current) \<and>
       a = current\<lparr>a_Roles := roles, a_Version := a_Version current + 1, a_UpdatedAt := Some now\<rparr>)"
proof -
  note tx = assms(2) [unfolded putAccessAssignmentTx_def Let_def]
  from tx have e: "assignmentPrincipalError R L rg now w t kind i roles = None" by (simp split: option.splits)
  then show "assignable L rg now (view w) t kind i roles" by (rule assignmentPrincipalError_None [OF assms(1)])
  from tx e obtain raw where raw: "rHGet R w (assignmentsKey t) (assignmentField kind i) = Inr raw"
    by (simp split: sum.splits)
  note r = store_reads(2) [OF assms(1) raw]
  show "cs = [CHSet (assignmentsKey t) (assignmentField kind i)
             (case marshal (dl_assignment L) a of Inl _ \<Rightarrow> [] | Inr p \<Rightarrow> p), CSAdd (principalTenantsKey kind i) t]"
    using tx e raw by (auto split: option.splits sum.splits if_splits)
  show "created \<and> ks_hash (view w) (assignmentsKey t) (assignmentField kind i) = None \<and> (ifMatch = [] \<or> ifMatch = ''*'') \<and>
       a = \<lparr>a_TenantID = t, a_PrincipalType = kind, a_PrincipalID = i, a_Roles = roles, a_Version = 1,
         a_CreatedAt = Some now, a_UpdatedAt = Some now\<rparr> \<or>
     \<not> created \<and> (\<exists>raw current. ks_hash (view w) (assignmentsKey t) (assignmentField kind i) = Some raw \<and>
       decodeAssignment L raw t kind i = Inr current \<and> matchesVersion ifMatch (a_Version current) \<and>
       a = current\<lparr>a_Roles := roles, a_Version := a_Version current + 1, a_UpdatedAt := Some now\<rparr>)"
  proof (cases raw)
    case None
    with tx e raw r show ?thesis by (simp split: if_splits)
  next
    case (Some x)
    with tx e raw obtain current where "decodeAssignment L x t kind i = Inr current" by (auto split: sum.splits)
    with Some tx e raw r show ?thesis by (simp split: if_splits)
  qed
qed

lemma assignable_sameKey:
  assumes "assignable L rg now a t kind i roles"
    "sameKey a b (if kind = AccessPrincipalGroup then directoryGroupsHash else usersHashV2)" "canonicalPrincipal kind i"
  shows "assignable L rg now b t kind i roles"
  using assms canonicalPrincipal_kind [OF assms(3)] by (auto simp: assignable_def sameKey_def)


lemma PutAccessAssignment_Inr:
  assumes "store_ok R view" "codec_ok (dl_assignment L)" "marshal (dl_assignment L) a = Inr payload"
    "PutAccessAssignment R L rg others clock w t kind i roles ifMatch = (Inr (a, created), w')"
  shows "\<exists>v now. instant view (range others) w v \<and> assignable L rg now (view v) t kind i (a_Roles a) \<and> canonicalDirectoryRoles roles = Inr (a_Roles a) \<and>
      (created \<longleftrightarrow> ks_hash (view v) (assignmentsKey t) (assignmentField kind i) = None) \<and>
      (if created then a_Version a = 1 \<and> (ifMatch = [] \<or> ifMatch = ''*'')
       else \<exists>raw old. ks_hash (view v) (assignmentsKey t) (assignmentField kind i) = Some raw \<and>
              decodeAssignment L raw t kind i = Inr old \<and>
              (a = old \<or> matchesVersion ifMatch (a_Version old) \<and> a_Version a = a_Version old + 1)) \<and>
      (\<forall>r. GetAccessAssignment R L w' t kind i = Inr r \<longrightarrow> r = Some a)"
proof -
  from assms(4) obtain rs where rs: "canonicalDirectoryRoles roles = Inr rs"
    and ok: "activeTenantIdentity t" "canonicalPrincipal kind i"
    and "retryTx (\<lambda>j v. watchTx R (others j) (putAssignmentWatched t kind i)
           (putAccessAssignmentTx R L rg (clock j) t kind i rs ifMatch v) v) 0 directoryMaximumRetries w = (Inr (a, created), w')"
    by (auto simp: PutAccessAssignment_def split: sum.splits if_splits)
  then obtain j v where inst: "instant view (range others) w v" and att: "watchTx R (others j) (putAssignmentWatched t kind i)
      (putAccessAssignmentTx R L rg (clock j) t kind i rs ifMatch v) v = (Some (Inr (a, created)), w')"
    using watchTx_instant [OF assms(1)] by (elim retryTx_instant [where F = "range others"]) blast+
  note idem = canonicalDirectoryRoles_idem [OF rs]
  have get: "\<forall>r. GetAccessAssignment R L w' t kind i = Inr r \<longrightarrow> r = Some a"
    if "ks_hash (view w') (assignmentsKey t) (assignmentField kind i) = Some raw" "decodeAssignment L raw t kind i = Inr a" for raw
    using that ok store_reads(2) [OF assms(1), of w']
    by (auto simp: GetAccessAssignment_def readAssignment_def split: sum.splits option.splits)
  from watchTx_Inr [OF assms(1) att] show ?thesis
  proof cases
    case 1
    from putAccessAssignmentTx_Keep [OF assms(1) 1(1)] obtain raw where
      "assignable L rg (clock j) (view v) t kind i rs" "\<not> created" "a_Roles a = rs"
      "ks_hash (view v) (assignmentsKey t) (assignmentField kind i) = Some raw" "decodeAssignment L raw t kind i = Inr a" .
    then show ?thesis using get 1(2) rs inst by (intro exI [of _ v] exI [of _ "clock j"]) auto
  next
    case (2 cs)
    note tx = putAccessAssignmentTx_Commit [OF assms(1) 2(1)]
    let ?ks = "view (others j v)"
    have same: "sameKey (view v) ?ks (if kind = AccessPrincipalGroup then directoryGroupsHash else usersHashV2)"
      "sameKey (view v) ?ks (assignmentsKey t)"
      by (rule 2(2), simp add: putAssignmentWatched_def)+
    from assignable_sameKey [OF tx(1) same(1) ok(2)] have able: "assignable L rg (clock j) ?ks t kind i rs" .
    have h: "ks_hash (view v) (assignmentsKey t) = ks_hash ?ks (assignmentsKey t)" using same(2) by (simp add: sameKey_def)
    have new: "ks_hash (view w') (assignmentsKey t) (assignmentField kind i) = Some payload"
      by (simp add: 2(3) tx(2) assms(3))
    have a: "a_Roles a = rs" "a_TenantID a = t" "a_PrincipalType a = kind" "a_PrincipalID a = i" "1 \<le> a_Version a"
      "a_CreatedAt a \<noteq> None" "a_UpdatedAt a \<noteq> None"
      using tx(3) decodeAssignment_fields by fastforce+
    with decodeAssignment_written [OF assms(2,3)] idem have "decodeAssignment L payload t kind i = Inr a" by simp
    note got = get [OF new this]
    have "created \<and> ks_hash ?ks (assignmentsKey t) (assignmentField kind i) = None \<and> a_Version a = 1 \<and> (ifMatch = [] \<or> ifMatch = ''*'') \<or>
      \<not> created \<and> (\<exists>raw old. ks_hash ?ks (assignmentsKey t) (assignmentField kind i) = Some raw \<and>
        decodeAssignment L raw t kind i = Inr old \<and> matchesVersion ifMatch (a_Version old) \<and> a_Version a = a_Version old + 1)"
      using tx(3) unfolding h by fastforce
    with got able rs a(1) instant_others [OF inst, of j] show ?thesis
      by (intro exI [of _ "others j v"] exI [of _ "clock j"]) auto
  qed
qed

text \<open>
  C30. Assignments. A successful \<^verbatim>\<open>PutAccessAssignment\<close> is atomic under concurrency and keeps foreign tenants safe. There was
  one instant \<open>v\<close> of the call at which the principal existed, and a user federated in another tenant was given only roles that the
  native policy trusts from its home. The assignment is new exactly when the tenant had none at that instant, and has
  version one then, and the caller presented no entity tag; otherwise the caller's entity tag matched the stored version, which was raised by one, or the roles
  were already those stored. Whatever was there before, the read that follows returns the assignment that was reported.
\<close>

theorem put_assignment_sound:
  assumes "store_ok R view" "codec_ok (dl_assignment L)" "marshal (dl_assignment L) a = Inr payload"
    "PutAccessAssignment R L rg others clock w t kind i roles ifMatch = (Inr (a, created), w')"
  shows "\<exists>v now. instant view (range others) w v \<and> assignable L rg now (view v) t kind i (a_Roles a) \<and> canonicalDirectoryRoles roles = Inr (a_Roles a) \<and>
      (created \<longleftrightarrow> ks_hash (view v) (assignmentsKey t) (assignmentField kind i) = None) \<and>
      (if created then a_Version a = 1 \<and> (ifMatch = [] \<or> ifMatch = ''*'')
       else \<exists>raw old. ks_hash (view v) (assignmentsKey t) (assignmentField kind i) = Some raw \<and>
              decodeAssignment L raw t kind i = Inr old \<and>
              (a = old \<or> matchesVersion ifMatch (a_Version old) \<and> a_Version a = a_Version old + 1)) \<and>
      (\<forall>r. GetAccessAssignment R L w' t kind i = Inr r \<longrightarrow> r = Some a)"
  by (rule PutAccessAssignment_Inr [OF assms])

theorem put_assignment_sound_witness:
  "\<exists>w'. PutAccessAssignment memStore sampleLib None quiet (\<lambda>i. 9) sampleMem ''acme'' AccessPrincipalUser ''alice'' [''READER''] [] =
        (Inr (reader, True), w') \<and>
     (\<forall>r. GetAccessAssignment memStore sampleLib w' ''acme'' AccessPrincipalUser ''alice'' = Inr r \<longrightarrow> r = Some reader)"
proof -
  have m: "marshal (dl_assignment sampleLib) reader = Inr ''A0''" by code_simp
  obtain w' where w': "w' = snd (PutAccessAssignment memStore sampleLib None quiet (\<lambda>i. 9) sampleMem ''acme'' AccessPrincipalUser
      ''alice'' [''READER''] [])" by simp
  have "u_AuthSource alice \<noteq> AuthSourceSAML" by code_simp
  then have run: "PutAccessAssignment memStore sampleLib None quiet (\<lambda>i. 9) sampleMem ''acme'' AccessPrincipalUser ''alice''
      [''READER''] [] = (Inr (reader, True), w')"
    using m by (simp add: w' PutAccessAssignment_def retryTx_first putAccessAssignmentTx_def assignmentPrincipalError_def
        watchTx_def Let_def reader_def)
  from put_assignment_sound [OF memStore_ok sampleLib_ok(3) m run] run show ?thesis by blast
qed

end
