(* ===== verification/Tenant_Scope.thy ===== *)
theory Tenant_Scope
  imports User_State
begin

text \<open>
  The authority of a user in a tenant: \<^verbatim>\<open>internal/services/tenant_scoped_token.go\<close>.

  Discovery also reports omissions to its metrics; the model returns them as a list of reasons.
\<close>

section \<open>Options\<close>

definition WithTenantScopedTokenClaimsV1 ::
  "bool \<Rightarrow> string list \<Rightarrow> 'w tenantRepository option \<Rightarrow> ('w, 'k) userService \<Rightarrow> ('w, 'k) userService" where
  "WithTenantScopedTokenClaimsV1 enabled tenants tenantRepo s =
     s\<lparr>us_tenantRepo := tenantRepo, us_tenantScopedTokenClaimsV1 := enabled,
       us_tenantScopedTokenAllowlist := tenants\<rparr>"

section \<open>Roles and permissions of a user in a tenant\<close>

record tenantScopedTokenAuthorization =
  ta_roles :: "string list"
  ta_permissions :: "string list"
  ta_legacyCreatorAdministrator :: bool

record tenantDiscoverySnapshot =
  tds_principalTenantID :: string
  tds_directMasterPlatformAuthority :: bool
  tds_authorizedTenants :: "string list"
  tds_authorizations :: "string \<rightharpoonup> tenantScopedTokenAuthorization"

record tenantDiscoveryAuthorization =
  tda_tenantID :: string
  tda_principalTenantID :: string
  tda_directoryPrincipal :: bool
  tda_directMasterPlatformAuthority :: bool
  tda_authorizedTenants :: "string list"
  tda_roles :: "string list"
  tda_scopes :: "string list"

abbreviation maximumMembershipsScanned :: int where "maximumMembershipsScanned \<equiv> 500"
abbreviation maximumAuthorizedTenantTargets :: nat where "maximumAuthorizedTenantTargets \<equiv> 100"
abbreviation maximumDynamicMembershipRoles :: nat where "maximumDynamicMembershipRoles \<equiv> 100"
abbreviation maximumDiscoveryRoleLookups :: nat where "maximumDiscoveryRoleLookups \<equiv> 500"

definition tenantScopedTokenTarget :: "('w, 'k) userService \<Rightarrow> string \<Rightarrow> string \<times> bool" where
  "tenantScopedTokenTarget s requested =
     (if \<not> us_tenantScopedTokenClaimsV1 s \<or> requested = [] then ([], False)
      else let canon = ToLower (us_unicode s) (TrimSpace requested) in
        if canon \<notin> set (us_tenantScopedTokenAllowlist s) then ([], False)
        else if canon \<noteq> requested then ([], True) else (requested, True))"

definition accessTenantIDs :: "('w, 'k) userService \<Rightarrow> 'w \<Rightarrow> string \<Rightarrow> (string list \<times> bool) res" where
  "accessTenantIDs s w userID =
     (case us_directoryAccess s of
        Some d \<Rightarrow> dirListEffectiveTenantIDs d w userID maximumMembershipsScanned
      | None \<Rightarrow>
          (case us_exactMembershipRepo s of
             None \<Rightarrow> Inl goPanic
           | Some x \<Rightarrow> xmListTenantIDsByUserExactBounded x w userID maximumMembershipsScanned))"

definition accessTenantRoles :: "('w, 'k) userService \<Rightarrow> 'w \<Rightarrow> string \<Rightarrow> string \<Rightarrow> string list res" where
  "accessTenantRoles s w userID tenantID =
     (case us_directoryAccess s of
        Some d \<Rightarrow>
          (case dirGetEffectiveTenantRoles d w userID tenantID of
             Inl e \<Rightarrow> Inl e
           | Inr roles \<Rightarrow>
               (case canonicalMembershipRoles roles of None \<Rightarrow> Inl ErrInvalidTenant | Some cs \<Rightarrow> Inr cs))
      | None \<Rightarrow>
          (case us_exactMembershipRepo s of
             None \<Rightarrow> Inl goPanic
           | Some x \<Rightarrow>
               (case xmGetExact x w tenantID userID of
                  Inl _ \<Rightarrow> Inl ErrInvalidTenant
                | Inr None \<Rightarrow> Inl ErrInvalidTenant
                | Inr (Some m) \<Rightarrow>
                    if m_TenantId m \<noteq> tenantID \<or> m_UserId m \<noteq> userID then Inl ErrInvalidTenant
                    else (case canonicalMembershipRoles (m_Roles m) of
                            None \<Rightarrow> Inl ErrInvalidTenant | Some cs \<Rightarrow> Inr cs))))"

text \<open>
  The loop over role names shared by \<^verbatim>\<open>resolveTenantScopedAuthorization\<close> (which may skip roles that are not
  exact definitions) and \<^verbatim>\<open>resolveMembershipRoleAuthorization\<close> (which never skips).
\<close>

fun collectRolePermissions ::
  "policy \<Rightarrow> 'w roleLookupService \<Rightarrow> 'w \<Rightarrow> bool \<Rightarrow> string \<Rightarrow> string list \<Rightarrow> string list \<Rightarrow> bool \<Rightarrow> (string list \<times> bool) option" where
  "collectRolePermissions P R w skip tenantID [] perms creator = Some (perms, creator)"
| "collectRolePermissions P R w skip tenantID (rn # names) perms creator =
     (case rsGetByName R w tenantID rn of
        Inl e \<Rightarrow>
          if skip \<and> IsStoredRoleContractMismatch e
          then collectRolePermissions P R w skip tenantID names perms creator else None
      | Inr role \<Rightarrow>
          if rr_Name role \<noteq> rn then None
          else if \<not> ValidCanonicalPermissions P (rr_Permissions role)
          then (if skip then collectRolePermissions P R w skip tenantID names perms creator else None)
          else collectRolePermissions P R w skip tenantID names (perms @ rr_Permissions role)
            (creator \<or> rn = tenantID @ ''-admin'' \<and> tenantIdentityWriteScope \<in> set (rr_Permissions role)))"

definition resolveMembershipRoleAuthorization ::
  "('w, 'k) userService \<Rightarrow> 'w \<Rightarrow> string \<Rightarrow> string list \<Rightarrow> tenantScopedTokenAuthorization option" where
  "resolveMembershipRoleAuthorization s w tenantID roles =
     (case us_roleSvc s of
        None \<Rightarrow> None
      | Some R \<Rightarrow>
          (case collectRolePermissions (us_policy s) R w False tenantID roles [] False of
             None \<Rightarrow> None
           | Some (perms, creator) \<Rightarrow>
               Some \<lparr>ta_roles = roles, ta_permissions = sort_uniq perms, ta_legacyCreatorAdministrator = creator\<rparr>))"

fun readAllRoles ::
  "('w, 'k) userService \<Rightarrow> 'w \<Rightarrow> string \<Rightarrow> string \<Rightarrow> string list \<Rightarrow> string list \<Rightarrow> string list res" where
  "readAllRoles s w userID target [] selected = Inr selected"
| "readAllRoles s w userID target (t # ts) selected =
     (case accessTenantRoles s w userID t of
        Inl e \<Rightarrow> Inl e
      | Inr roles \<Rightarrow> readAllRoles s w userID target ts (if t = target then roles else selected))"

definition tenantIsActive :: "'w tenantRepository \<Rightarrow> 'w \<Rightarrow> string \<Rightarrow> bool" where
  "tenantIsActive T w tenantID =
     (case tnGet T w tenantID of
        Inr (Some t) \<Rightarrow> t_Id t = tenantID \<and> t_Status t = TenantStatusActive
      | _ \<Rightarrow> False)"

definition resolveTenantScopedAuthorization ::
  "('w, 'k) userService \<Rightarrow> 'w \<Rightarrow> user option \<Rightarrow> string \<Rightarrow> bool \<Rightarrow> tenantScopedTokenAuthorization res" where
  "resolveTenantScopedAuthorization s w ou target skip =
     (case (ou, us_tenantRepo s) of
        (Some u, Some T) \<Rightarrow>
          if u_Status u \<noteq> UserStatusActive \<or> \<not> validRoleTenantID target \<or>
             us_directoryAccess s = None \<and> us_exactMembershipRepo s = None
          then Inl ErrInvalidTenant
          else (case accessTenantIDs s w (u_Id u) of
                  Inl _ \<Rightarrow> Inl ErrInvalidTenant
                | Inr (tenantIDs, exceeded) \<Rightarrow>
                    if exceeded \<or> length tenantIDs = 0 \<or> \<not> containsString tenantIDs target
                    then Inl ErrInvalidTenant
                    else (case readAllRoles s w (u_Id u) target tenantIDs [] of
                            Inl _ \<Rightarrow> Inl ErrInvalidTenant
                          | Inr selectedRoles \<Rightarrow>
                              if \<not> tenantIsActive T w target then Inl ErrInvalidTenant
                              else (case us_roleSvc s of
                                      None \<Rightarrow> Inl ErrUnauthorizedScope
                                    | Some R \<Rightarrow>
                                        (case collectRolePermissions (us_policy s) R w skip target selectedRoles [] False of
                                           None \<Rightarrow> Inl ErrUnauthorizedScope
                                         | Some (perms, creator) \<Rightarrow>
                                             Inr \<lparr>ta_roles = selectedRoles, ta_permissions = sort_uniq perms,
                                                  ta_legacyCreatorAdministrator = creator\<rparr>))))
      | _ \<Rightarrow> Inl ErrInvalidTenant)"

definition resolveTenantScopedTokenAuthorization ::
  "('w, 'k) userService \<Rightarrow> 'w \<Rightarrow> user option \<Rightarrow> string \<Rightarrow> tenantScopedTokenAuthorization res" where
  "resolveTenantScopedTokenAuthorization s w u target = resolveTenantScopedAuthorization s w u target False"

definition resolveTenantScopedAIAuthorization ::
  "('w, 'k) userService \<Rightarrow> 'w \<Rightarrow> user option \<Rightarrow> string \<Rightarrow> tenantScopedTokenAuthorization res" where
  "resolveTenantScopedAIAuthorization s w u target = resolveTenantScopedAuthorization s w u target True"

definition recoveredMasterPlatformAdministrator :: "('w, 'k) userService \<Rightarrow> 'w \<Rightarrow> user \<Rightarrow> bool" where
  "recoveredMasterPlatformAdministrator s w u =
     (case (us_directoryAccess s, u_CompanyId u) of
        (Some d, Some company) \<Rightarrow>
          if u_Status u \<noteq> UserStatusActive \<or> u_AuthSource u \<noteq> AuthSourcePassword \<or> u_Role u \<noteq> RoleAdmin
          then False
          else let home = TrimSpace company in
            if home = [] \<or> home = MasterTenantID then False
            else (case dirGetAccessAssignment d w MasterTenantID AccessPrincipalUser (u_Id u) of
                    Inr (Some a) \<Rightarrow>
                      a_TenantID a = MasterTenantID \<and> a_PrincipalType a = AccessPrincipalUser \<and>
                      a_PrincipalID a = u_Id u \<and> a_Roles a = [RoleAdmin]
                  | _ \<Rightarrow> False)
      | _ \<Rightarrow> False)"

section \<open>Discovery of tenant targets\<close>

record discoveryState =
  ds_allowed :: "string list"
  ds_authorizations :: "string \<rightharpoonup> tenantScopedTokenAuthorization"
  ds_lookups :: nat
  ds_omitted :: "string list"

definition omit :: "string \<Rightarrow> discoveryState \<Rightarrow> discoveryState" where
  "omit reason st = st\<lparr>ds_omitted := ds_omitted st @ [reason]\<rparr>"

definition admit :: "bool \<Rightarrow> string \<Rightarrow> discoveryState \<Rightarrow> gerror option \<times> discoveryState" where
  "admit dynamicTargets tenantID st =
     (let st' = st\<lparr>ds_allowed := List.insert tenantID (ds_allowed st)\<rparr> in
      if dynamicTargets \<and> length (ds_allowed st') > maximumAuthorizedTenantTargets
      then (Some ErrInvalidTenant, omit ''target_limit'' st') else (None, st'))"

definition managedAudienceAvailable :: "policy \<Rightarrow> string \<Rightarrow> client option res \<Rightarrow> bool" where
  "managedAudienceAvailable P tenantID r =
     (case r of
        Inr (Some c) \<Rightarrow> IsManagedCodeAdminAudience tenantID (Some c) \<and> ValidCanonicalAudienceScopes P (c_DefaultScopes c)
      | _ \<Rightarrow> False)"

text \<open>The part of an iteration for a foreign target of dynamic discovery: the audience client of the
  tenant, the budget of role lookups, and the roles themselves.\<close>

definition discoverForeign ::
  "('w, 'k) userService \<Rightarrow> 'w \<Rightarrow> bool \<Rightarrow> string \<Rightarrow> string list \<Rightarrow> discoveryState \<Rightarrow> gerror option \<times> discoveryState" where
  "discoverForeign s w dynamicTargets tenantID roles st =
     (case us_clientSvc s of
        None \<Rightarrow> (Some goPanic, st)
      | Some getClient \<Rightarrow>
          if \<not> managedAudienceAvailable (us_policy s) tenantID (getClient w tenantID CodeAdminAudienceClientID)
          then (None, omit ''audience_unavailable'' st)
          else if int (length roles) > int maximumDiscoveryRoleLookups - int (ds_lookups st)
          then (Some ErrInvalidTenant, omit ''role_budget_exceeded'' st)
          else let st1 = st\<lparr>ds_lookups := ds_lookups st + length roles\<rparr> in
            (case resolveMembershipRoleAuthorization s w tenantID roles of
               None \<Rightarrow> (None, omit ''role_unresolvable'' st1)
             | Some a \<Rightarrow>
                 admit dynamicTargets tenantID
                   (st1\<lparr>ds_authorizations := (ds_authorizations st1)(tenantID \<mapsto> a)\<rparr>)))"

definition discoverTenant ::
  "('w, 'k) userService \<Rightarrow> 'w \<Rightarrow> 'w tenantRepository \<Rightarrow> user \<Rightarrow> string \<Rightarrow> bool \<Rightarrow> bool \<Rightarrow> bool \<Rightarrow> string \<Rightarrow>
   discoveryState \<Rightarrow> gerror option \<times> discoveryState" where
  "discoverTenant s w T u home dynamicTargets platformFederated directoryPrincipal tenantID st =
     (if \<not> dynamicTargets \<and> tenantID \<notin> set (us_tenantScopedTokenAllowlist s)
      then (None, omit ''not_in_v1_cohort'' st)
      else
        (case (if platformFederated then Inr [] else accessTenantRoles s w (u_Id u) tenantID) of
           Inl _ \<Rightarrow> (Some ErrInvalidTenant, st)
         | Inr roles \<Rightarrow>
             if dynamicTargets \<and> length roles > maximumDynamicMembershipRoles
             then (Some ErrInvalidTenant, omit ''role_budget_exceeded'' st)
             else
               (case tnGet T w tenantID of
                  Inl _ \<Rightarrow> (Some ErrInvalidTenant, st)
                | Inr ot \<Rightarrow>
                    if \<not> (case ot of None \<Rightarrow> False
                          | Some t \<Rightarrow> t_Id t = tenantID \<and> t_Status t = TenantStatusActive)
                    then (None, omit ''tenant_inactive'' st)
                    else if dynamicTargets \<and> \<not> platformFederated \<and> (tenantID \<noteq> home \<or> directoryPrincipal)
                    then discoverForeign s w dynamicTargets tenantID roles st
                    else admit dynamicTargets tenantID st)))"

fun discoverLoop ::
  "('w, 'k) userService \<Rightarrow> 'w \<Rightarrow> 'w tenantRepository \<Rightarrow> user \<Rightarrow> string \<Rightarrow> bool \<Rightarrow> bool \<Rightarrow> bool \<Rightarrow> string list \<Rightarrow>
   discoveryState \<Rightarrow> gerror option \<times> discoveryState" where
  "discoverLoop s w T u home dyn fed dirp [] st = (None, st)"
| "discoverLoop s w T u home dyn fed dirp (t # ts) st =
     (case discoverTenant s w T u home dyn fed dirp t st of
        (Some e, st') \<Rightarrow> (Some e, st')
      | (None, st') \<Rightarrow> discoverLoop s w T u home dyn fed dirp ts st')"

text \<open>Which tenants to look at: all active ones for the federated platform administrator, the effective
  assignments for a directory or membership principal, none for a tenant-local federated user.\<close>

definition discoveryCandidates ::
  "('w, 'k) userService \<Rightarrow> 'w \<Rightarrow> 'w tenantRepository \<Rightarrow> user \<Rightarrow> bool \<Rightarrow> bool \<Rightarrow> (string list \<times> string list) option \<times> string list" where
  "discoveryCandidates s w T u tenantLocalFederated platformFederated =
     (if platformFederated then
        (case tnList T w 0 (int maximumAuthorizedTenantTargets + 1) of
           Inl _ \<Rightarrow> (None, [''target_limit''])
         | Inr (tenants, next) \<Rightarrow>
             if next \<noteq> [] \<or> length tenants > maximumAuthorizedTenantTargets then (None, [''target_limit''])
             else (Some (map t_Id (filter (\<lambda>t. t_Status t = TenantStatusActive) tenants), []), []))
      else if \<not> tenantLocalFederated then
        (case accessTenantIDs s w (u_Id u) of
           Inl _ \<Rightarrow> (None, [])
         | Inr (ids, exceeded) \<Rightarrow> if exceeded then (None, [''membership_limit'']) else (Some (ids, []), []))
      else (Some ([], []), []))"

definition discoverTenantTargets ::
  "('w, 'k) userService \<Rightarrow> 'w \<Rightarrow> user option \<Rightarrow> string \<Rightarrow> bool \<Rightarrow> bool \<Rightarrow> string \<Rightarrow>
   tenantDiscoverySnapshot res \<times> string list" where
  "discoverTenantTargets s w ou home dynamicTargets directoryPrincipal platformPrivilege =
     (case (ou, us_tenantRepo s) of
        (Some u, Some T) \<Rightarrow>
          let tenantLocalFederated = isTenantLocalFederatedPrincipal u home;
              platformFederated = trustedFederatedPlatformPrincipal u home platformPrivilege in
          if u_Status u \<noteq> UserStatusActive \<or>
             \<not> tenantLocalFederated \<and> us_directoryAccess s = None \<and> us_exactMembershipRepo s = None
          then (Inl ErrInvalidTenant, [])
          else if \<not> tenantIsActive T w home then (Inl ErrInvalidTenant, [])
          else
            (case discoveryCandidates s w T u tenantLocalFederated platformFederated of
               (None, om) \<Rightarrow> (Inl ErrInvalidTenant, om)
             | (Some (tenantIDs, _), om) \<Rightarrow>
                 if directoryPrincipal \<and> home \<notin> set tenantIDs then (Inl ErrInvalidTenant, om)
                 else
                   (case discoverLoop s w T u home dynamicTargets platformFederated directoryPrincipal tenantIDs
                           \<lparr>ds_allowed = [home], ds_authorizations = Map.empty, ds_lookups = 0, ds_omitted = om\<rparr> of
                      (Some e, st) \<Rightarrow> (Inl e, ds_omitted st)
                    | (None, st) \<Rightarrow>
                        let direct = dynamicTargets \<and>
                              (case ds_authorizations st MasterTenantID of
                                 None \<Rightarrow> False
                               | Some a \<Rightarrow> RoleAdmin \<in> set (ta_roles a) \<and> recoveredMasterPlatformAdministrator s w u) in
                        (Inr \<lparr>tds_principalTenantID = (if direct then MasterTenantID else home),
                              tds_directMasterPlatformAuthority = direct,
                              tds_authorizedTenants = sort (ds_allowed st),
                              tds_authorizations = ds_authorizations st\<rparr>, ds_omitted st)))
      | _ \<Rightarrow> (Inl ErrInvalidTenant, []))"

section \<open>Authority in the target\<close>

definition validHomeAudienceClient :: "string \<Rightarrow> client option \<Rightarrow> bool" where
  "validHomeAudienceClient tenantID oc =
     (case oc of
        None \<Rightarrow> False
      | Some c \<Rightarrow>
          if c_Id c \<noteq> CodeAdminAudienceClientID \<or> c_TenantId c \<noteq> tenantID \<or> c_Status c \<noteq> ClientStatusActive \<or>
             c_AllowedGrantTypes c \<noteq> [GrantTypeTokenExchange] then False
          else if c_ManagedBy c = [] then c_Type c = ClientTypePublic \<and> c_SecretHash c = []
          else IsManagedCodeAdminAudience tenantID oc)"

definition roleAuthority ::
  "policy \<Rightarrow> user \<Rightarrow> string \<Rightarrow> string list \<Rightarrow> string \<Rightarrow> bool \<Rightarrow> tenantScopedTokenAuthorization \<Rightarrow> string list" where
  "roleAuthority P u signedRole candidates platformPrivilege directoryPrincipal a =
     normalizePermissions
       (filter (TenantRoleAssignable P) (ta_permissions a) @
        (if ta_legacyCreatorAdministrator a
         then filter (\<lambda>c. c = tenantSecretReadScope \<or> c = tenantSecretWriteScope) candidates else []) @
        (if \<not> directoryPrincipal then homeGlobalAuthority P u signedRole candidates platformPrivilege else []))"

definition targetAuthority ::
  "('w, 'k) userService \<Rightarrow> 'w \<Rightarrow> user \<Rightarrow> string \<Rightarrow> string \<Rightarrow> string \<Rightarrow> string list \<Rightarrow> bool \<Rightarrow>
   (string \<rightharpoonup> tenantScopedTokenAuthorization) \<Rightarrow> string \<Rightarrow> bool \<Rightarrow> (string list \<times> string list) res" where
  "targetAuthority s w u target home signedRole candidates dynamicTargets authorizations platformPrivilege directoryPrincipal =
     (if target = home \<and> \<not> directoryPrincipal
      then Inr ([], homeAuthority u signedRole candidates platformPrivilege)
      else if trustedFederatedPlatformPrincipal u home platformPrivilege
      then Inr ([], homeAuthority u signedRole candidates platformPrivilege)
      else
        (case (if dynamicTargets then
                 (case authorizations target of None \<Rightarrow> Inl ErrInvalidTenant | Some a \<Rightarrow> Inr a)
               else
                 let (strict, protected) = tenantScopedTokenTarget s target in
                 if \<not> protected \<or> strict = [] then Inl ErrInvalidTenant
                 else resolveTenantScopedTokenAuthorization s w (Some u) strict) of
           Inl e \<Rightarrow> Inl e
         | Inr a \<Rightarrow>
             Inr (ta_roles a,
                  roleAuthority (us_policy s) u signedRole candidates platformPrivilege directoryPrincipal a)))"

definition audienceDefaults ::
  "policy \<Rightarrow> string \<Rightarrow> string \<Rightarrow> client option \<Rightarrow> string list res" where
  "audienceDefaults P target home oc =
     (let defaults = (case oc of None \<Rightarrow> [] | Some c \<Rightarrow> c_DefaultScopes c) in
      if target = home then
        (case CanonicalAudienceScopes P defaults of
           None \<Rightarrow> Inl ErrInvalidAudience
         | Some canon \<Rightarrow>
             if \<not> validHomeAudienceClient target oc \<or> length canon \<noteq> length defaults then Inl ErrInvalidAudience
             else Inr canon)
      else if \<not> IsManagedCodeAdminAudience target oc \<or> \<not> ValidCanonicalAudienceScopes P defaults
      then Inl ErrInvalidAudience
      else Inr defaults)"

definition requestedWithin :: "policy \<Rightarrow> string list \<Rightarrow> string list \<Rightarrow> string list res" where
  "requestedWithin P requestedScopes effective0 =
     (case (if length requestedScopes > 0 then
              (case CanonicalAudienceScopes P requestedScopes of
                 None \<Rightarrow> Inl ErrUnauthorizedScope
               | Some requested \<Rightarrow>
                   if \<not> subsetList requested effective0 then Inl ErrUnauthorizedScope else Inr requested)
            else Inr effective0) of
        Inl e \<Rightarrow> Inl e
      | Inr effective \<Rightarrow> if length effective = 0 then Inl ErrUnauthorizedScope else Inr effective)"

definition resolveTenantDiscoveryAuthorization ::
  "('w, 'k) userService \<Rightarrow> 'w \<Rightarrow> user option \<Rightarrow> string \<Rightarrow> string \<Rightarrow> string \<Rightarrow> string list \<Rightarrow> string list \<Rightarrow> bool \<Rightarrow>
   string \<Rightarrow> bool \<Rightarrow> tenantDiscoveryAuthorization res \<times> string list" where
  "resolveTenantDiscoveryAuthorization s w ou target home signedRole ceiling0 requestedScopes dynamicTargets
     platformPrivilege directoryPrincipal =
     (case (ou, us_clientSvc s) of
        (Some u, Some getClient) \<Rightarrow>
          if target = [] \<or> TrimSpace target \<noteq> target \<or> \<not> validRoleTenantID target \<or>
             \<not> (if directoryPrincipal then validDirectoryPrincipalHome u home signedRole platformPrivilege
                 else validSignedHome u home signedRole platformPrivilege)
          then (Inl ErrInvalidTenant, [])
          else
            (case discoverTenantTargets s w ou home dynamicTargets directoryPrincipal platformPrivilege of
               (Inl _, om) \<Rightarrow> (Inl ErrInvalidTenant, om)
             | (Inr disc, om) \<Rightarrow>
                 (if target \<notin> set (tds_authorizedTenants disc) then Inl ErrInvalidTenant
                  else
                    (case CanonicalAudienceScopes (us_policy s) ceiling0 of
                       None \<Rightarrow> Inl ErrInvalidArgument
                     | Some ceil \<Rightarrow>
                         (case getClient w target CodeAdminAudienceClientID of
                            Inl e \<Rightarrow> Inl e
                          | Inr oc \<Rightarrow>
                              (case audienceDefaults (us_policy s) target home oc of
                                 Inl e \<Rightarrow> Inl e
                               | Inr defaults \<Rightarrow>
                                   (case targetAuthority s w u target home signedRole defaults dynamicTargets
                                           (tds_authorizations disc) platformPrivilege directoryPrincipal of
                                      Inl e \<Rightarrow> Inl e
                                    | Inr (roles, authority) \<Rightarrow>
                                        (case requestedWithin (us_policy s) requestedScopes
                                                (intersectScopeSets defaults [authority, ceil]) of
                                           Inl e \<Rightarrow> Inl e
                                         | Inr effective \<Rightarrow>
                                             Inr \<lparr>tda_tenantID = target,
                                                  tda_principalTenantID = tds_principalTenantID disc,
                                                  tda_directoryPrincipal = directoryPrincipal,
                                                  tda_directMasterPlatformAuthority =
                                                    tds_directMasterPlatformAuthority disc \<and> target = MasterTenantID,
                                                  tda_authorizedTenants = tds_authorizedTenants disc,
                                                  tda_roles = roles, tda_scopes = effective\<rparr>))))), om))
      | _ \<Rightarrow> (Inl ErrInvalidTenant, []))"

definition resolveDiscoveryHome ::
  "('w, 'k) userService \<Rightarrow> 'w \<Rightarrow> user option \<Rightarrow> string \<Rightarrow> string \<Rightarrow> string \<Rightarrow> (string \<times> bool) res" where
  "resolveDiscoveryHome s w ou signedHome signedRole platformPrivilege =
     (case ou of
        None \<Rightarrow> Inl ErrInvalidTenant
      | Some u \<Rightarrow>
          if u_Status u \<noteq> UserStatusActive then Inl ErrInvalidTenant
          else if u_CompanyId u \<noteq> None then
            (if \<not> validSignedHome u signedHome signedRole platformPrivilege then Inl ErrInvalidTenant
             else Inr (signedHome, False))
          else if signedHome \<noteq> [] \<or> signedRole \<noteq> effectiveUserRole ou platformPrivilege
          then Inl ErrInvalidTenant
          else (case accessTenantIDs s w (u_Id u) of
                  Inl e \<Rightarrow> if e = goPanic then Inl goPanic else Inl ErrInvalidTenant
                | Inr (ids, exceeded) \<Rightarrow>
                    if exceeded \<or> length ids = 0 then Inl ErrInvalidTenant
                    else if \<not> validDirectoryPrincipalHome u (hd ids) signedRole platformPrivilege
                    then Inl ErrInvalidTenant
                    else Inr (hd ids, True)))"

definition authorizedTenantTargets ::
  "('w, 'k) userService \<Rightarrow> 'w \<Rightarrow> user option \<Rightarrow> string \<Rightarrow> bool \<Rightarrow> string list res" where
  "authorizedTenantTargets s w ou home dynamicTargets =
     (case fst (discoverTenantTargets s w ou home dynamicTargets False []) of
        Inl e \<Rightarrow> Inl e | Inr d \<Rightarrow> Inr (tds_authorizedTenants d))"

section \<open>Lemmas\<close>

definition grantable :: "policy \<Rightarrow> string \<Rightarrow> bool" where
  "grantable P v \<longleftrightarrow> validPermission v \<and> (HasPrefix v reservedPrefix \<longrightarrow> TenantRoleAssignable P v)"

lemma ValidCanonicalPermissions_grantable:
  "ValidCanonicalPermissions P vs \<Longrightarrow> v \<in> set vs \<Longrightarrow> grantable P v"
  unfolding ValidCanonicalPermissions_iff grantable_def by (rule CanonicalPermissions_assignable)

lemma collectRolePermissions_ConsE:
  assumes "collectRolePermissions P R w skip t (rn # names) perms creator = Some r"
  obtains "skip" "collectRolePermissions P R w skip t names perms creator = Some r"
  | role c where "rsGetByName R w t rn = Inr role" "rr_Name role = rn" "ValidCanonicalPermissions P (rr_Permissions role)"
      "collectRolePermissions P R w skip t names (perms @ rr_Permissions role) c = Some r"
  using assms by (auto split: sum.splits if_splits)

lemma collectRolePermissions_grantable:
  "collectRolePermissions P R w skip t names perms creator = Some (ps, cr) \<Longrightarrow>
   v \<in> set ps \<Longrightarrow> v \<in> set perms \<or> grantable P v"
proof (induction names arbitrary: perms creator)
  case (Cons rn names)
  from Cons.prems(1) show ?case
  proof (cases rule: collectRolePermissions_ConsE)
    case 1
    with Cons show ?thesis by blast
  next
    case (2 role c)
    from Cons.IH [OF 2(4) Cons.prems(2)] ValidCanonicalPermissions_grantable [OF 2(3)] show ?thesis by auto
  qed
qed simp

lemma collectRolePermissions_keeps:
  "collectRolePermissions P R w skip t names perms creator = Some (ps, cr) \<Longrightarrow> set perms \<subseteq> set ps"
proof (induction names arbitrary: perms creator)
  case (Cons rn names)
  from Cons.prems show ?case
    by (cases rule: collectRolePermissions_ConsE) (use Cons.IH in \<open>fastforce+\<close>)
qed simp

lemma collectRolePermissions_strict:
  "collectRolePermissions P R w False t names perms creator = Some (ps, cr) \<Longrightarrow> n \<in> set names \<Longrightarrow>
   \<exists>r. rsGetByName R w t n = Inr r \<and> rr_Name r = n \<and> set (rr_Permissions r) \<subseteq> set ps"
proof (induction names arbitrary: perms creator)
  case (Cons rn names)
  from Cons.prems(1) show ?case
  proof (cases rule: collectRolePermissions_ConsE)
    case (2 role c)
    with Cons.IH [OF 2(4)] Cons.prems(2) collectRolePermissions_keeps [OF 2(4)] show ?thesis by auto
  qed simp
qed simp

lemma resolveMembershipRoleAuthorization_Some:
  assumes "resolveMembershipRoleAuthorization s w t roles = Some a"
  shows "ta_roles a = roles" "\<forall>v \<in> set (ta_permissions a). grantable (us_policy s) v"
    "canonical (ta_permissions a)"
  using assms
  by (auto simp: resolveMembershipRoleAuthorization_def split: option.splits dest: collectRolePermissions_grantable)

lemma resolveTenantScopedAuthorization_Inr:
  assumes "resolveTenantScopedAuthorization s w ou target skip = Inr a"
  obtains u T ids where "ou = Some u" "us_tenantRepo s = Some T" "u_Status u = UserStatusActive"
    "validRoleTenantID target" "accessTenantIDs s w (u_Id u) = Inr (ids, False)" "target \<in> set ids"
    "readAllRoles s w (u_Id u) target ids [] = Inr (ta_roles a)" "tenantIsActive T w target"
    "\<forall>v \<in> set (ta_permissions a). grantable (us_policy s) v" "canonical (ta_permissions a)"
proof -
  from assms obtain u T where ou: "ou = Some u" "us_tenantRepo s = Some T"
    by (auto simp: resolveTenantScopedAuthorization_def split: option.splits)
  from assms ou obtain ids roles R perms creator where
    1: "u_Status u = UserStatusActive" "validRoleTenantID target" "accessTenantIDs s w (u_Id u) = Inr (ids, False)"
      "containsString ids target" "readAllRoles s w (u_Id u) target ids [] = Inr roles" "tenantIsActive T w target"
    and 2: "collectRolePermissions (us_policy s) R w skip target roles [] False = Some (perms, creator)"
    and 3: "a = \<lparr>ta_roles = roles, ta_permissions = sort_uniq perms, ta_legacyCreatorAdministrator = creator\<rparr>"
    by (auto simp: resolveTenantScopedAuthorization_def split: option.splits sum.splits if_splits prod.splits)
  show thesis
  proof (rule that [OF ou 1(1-3)])
    show "target \<in> set ids" using 1 by (simp add: containsString_def)
    show "\<forall>v \<in> set (ta_permissions a). grantable (us_policy s) v"
      using collectRolePermissions_grantable [OF 2] by (simp add: 3)
  qed (use 1 3 in simp_all)
qed

lemma readAllRoles_selected:
  "readAllRoles s w uid target ids sel = Inr roles \<Longrightarrow>
   (target \<in> set ids \<longrightarrow> accessTenantRoles s w uid target = Inr roles) \<and> (target \<notin> set ids \<longrightarrow> roles = sel)"
proof (induction ids arbitrary: sel)
  case (Cons t ts)
  from Cons.prems obtain r where r: "accessTenantRoles s w uid t = Inr r"
    and rest: "readAllRoles s w uid target ts (if t = target then r else sel) = Inr roles"
    by (auto split: sum.splits)
  from Cons.IH [OF rest] r show ?case by auto
qed simp

lemma accessTenantRoles_canonical:
  "accessTenantRoles s w uid t = Inr roles \<Longrightarrow> canonicalMembershipRoles roles = Some roles"
  by (auto simp: accessTenantRoles_def split: option.splits sum.splits if_splits dest: membership_roles.canon_stable)

section \<open>Discovery keeps its bounds\<close>

definition discoveryInv ::
  "('w, 'k) userService \<Rightarrow> 'w \<Rightarrow> 'w tenantRepository \<Rightarrow> string \<Rightarrow> bool \<Rightarrow> discoveryState \<Rightarrow> bool" where
  "discoveryInv s w T home dyn st \<longleftrightarrow>
     distinct (ds_allowed st) \<and> home \<in> set (ds_allowed st) \<and>
     (dyn \<longrightarrow> length (ds_allowed st) \<le> maximumAuthorizedTenantTargets) \<and>
     ds_lookups st \<le> maximumDiscoveryRoleLookups \<and>
     (\<forall>t \<in> set (ds_allowed st). tenantIsActive T w t) \<and>
     dom (ds_authorizations st) \<subseteq> set (ds_allowed st) \<and>
     (\<forall>a \<in> ran (ds_authorizations st). \<forall>v \<in> set (ta_permissions a). grantable (us_policy s) v)"

lemma discoveryInv_omit [simp]: "discoveryInv s w T home dyn (omit r st) = discoveryInv s w T home dyn st"
  by (simp add: discoveryInv_def omit_def)

lemma discoveryInv_admit:
  assumes inv: "discoveryInv s w T home dyn st" and act: "tenantIsActive T w t"
    and a: "admit dyn t st = (None, st')"
  shows "discoveryInv s w T home dyn st'"
proof -
  from a have st': "st' = st\<lparr>ds_allowed := List.insert t (ds_allowed st)\<rparr>"
    and len: "dyn \<longrightarrow> length (List.insert t (ds_allowed st)) \<le> maximumAuthorizedTenantTargets"
    by (auto simp: admit_def Let_def split: if_splits)
  show ?thesis
    using inv act len unfolding discoveryInv_def st' by (auto simp: distinct_insert)
qed

lemma discoveryInv_admit_with:
  assumes inv: "discoveryInv s w T home dyn st" and act: "tenantIsActive T w t"
    and g: "\<forall>v \<in> set (ta_permissions au). grantable (us_policy s) v"
    and l: "ds_lookups st + n \<le> maximumDiscoveryRoleLookups"
    and a: "admit dyn t (st\<lparr>ds_lookups := ds_lookups st + n, ds_authorizations := (ds_authorizations st)(t \<mapsto> au)\<rparr>)
      = (None, st')"
  shows "discoveryInv s w T home dyn st'"
proof -
  let ?l = "List.insert t (ds_allowed st)"
  from a have st': "st' = st\<lparr>ds_lookups := ds_lookups st + n, ds_authorizations := (ds_authorizations st)(t \<mapsto> au),
      ds_allowed := ?l\<rparr>"
    and len: "dyn \<longrightarrow> length ?l \<le> maximumAuthorizedTenantTargets"
    by (auto simp: admit_def Let_def split: if_splits)
  have r: "ran ((ds_authorizations st)(t \<mapsto> au)) \<subseteq> insert au (ran (ds_authorizations st))"
    by (auto simp: ran_def split: if_splits)
  have d: "dom ((ds_authorizations st)(t \<mapsto> au)) \<subseteq> set ?l"
    using inv by (auto simp: discoveryInv_def)
  have rr: "\<forall>x \<in> ran ((ds_authorizations st)(t \<mapsto> au)). \<forall>v \<in> set (ta_permissions x). grantable (us_policy s) v"
    using r inv g unfolding discoveryInv_def by blast
  show ?thesis
    unfolding discoveryInv_def st' using inv act len l d rr
    by (simp add: discoveryInv_def distinct_insert del: dom_fun_upd)
qed

lemma discoverForeign_inv:
  assumes inv: "discoveryInv s w T home dyn st" and act: "tenantIsActive T w t"
    and d: "discoverForeign s w dyn t roles st = (None, st')"
  shows "discoveryInv s w T home dyn st'"
proof -
  from d obtain getClient where c: "us_clientSvc s = Some getClient"
    by (auto simp: discoverForeign_def split: option.splits)
  consider "st' = omit ''audience_unavailable'' st"
    | au where "int (length roles) \<le> int maximumDiscoveryRoleLookups - int (ds_lookups st)"
        "resolveMembershipRoleAuthorization s w t roles = Some au"
        "admit dyn t (st\<lparr>ds_lookups := ds_lookups st + length roles,
           ds_authorizations := (ds_authorizations st)(t \<mapsto> au)\<rparr>) = (None, st')"
    | "int (length roles) \<le> int maximumDiscoveryRoleLookups - int (ds_lookups st)"
        "st' = omit ''role_unresolvable'' (st\<lparr>ds_lookups := ds_lookups st + length roles\<rparr>)"
    using d c by (auto simp: discoverForeign_def Let_def not_less split: option.splits if_splits)
  then show ?thesis
  proof cases
    case 1
    with inv show ?thesis by simp
  next
    case 2
    show ?thesis
      by (rule discoveryInv_admit_with [OF inv act _ _ 2(3)])
        (use resolveMembershipRoleAuthorization_Some(2) [OF 2(2)] 2(1) in auto)
  next
    case 3
    then have "ds_lookups st + length roles \<le> maximumDiscoveryRoleLookups" by linarith
    with inv 3(2) show ?thesis by (simp add: discoveryInv_def omit_def)
  qed
qed

lemma discoverTenant_inv:
  assumes inv: "discoveryInv s w T home dyn st"
    and d: "discoverTenant s w T u home dyn fed dirp t st = (None, st')"
  shows "discoveryInv s w T home dyn st'"
proof -
  consider r where "st' = omit r st"
    | roles where "tenantIsActive T w t" "discoverForeign s w dyn t roles st = (None, st')"
    | "tenantIsActive T w t" "admit dyn t st = (None, st')"
    using d
    by (auto simp: discoverTenant_def tenantIsActive_def split: if_splits sum.splits option.splits)
  then show ?thesis
    by cases (use inv in \<open>auto intro: discoverForeign_inv discoveryInv_admit\<close>)
qed

lemma discoverLoop_inv:
  "discoveryInv s w T home dyn st \<Longrightarrow> discoverLoop s w T u home dyn fed dirp ts st = (None, st') \<Longrightarrow>
   discoveryInv s w T home dyn st'"
  by (induction ts arbitrary: st) (auto split: prod.splits option.splits dest: discoverTenant_inv)

lemma discoverTenantTargets_Inr:
  assumes "discoverTenantTargets s w ou home dyn dirp priv = (Inr d, om)"
  obtains u T st where "ou = Some u" "us_tenantRepo s = Some T" "u_Status u = UserStatusActive"
    "tenantIsActive T w home" "discoveryInv s w T home dyn st" "tds_authorizedTenants d = sort (ds_allowed st)"
    "tds_authorizations d = ds_authorizations st"
    "tds_directMasterPlatformAuthority d \<longrightarrow> recoveredMasterPlatformAdministrator s w u"
proof -
  from assms obtain u T where ou: "ou = Some u" "us_tenantRepo s = Some T"
    by (auto simp: discoverTenantTargets_def split: option.splits)
  from assms ou obtain ids om0 st where
    1: "u_Status u = UserStatusActive" "tenantIsActive T w home"
    and 2: "discoverLoop s w T u home dyn (trustedFederatedPlatformPrincipal u home priv) dirp ids
       \<lparr>ds_allowed = [home], ds_authorizations = Map.empty, ds_lookups = 0, ds_omitted = om0\<rparr> = (None, st)"
    and 3: "tds_authorizedTenants d = sort (ds_allowed st)" "tds_authorizations d = ds_authorizations st"
      "tds_directMasterPlatformAuthority d \<longrightarrow> recoveredMasterPlatformAdministrator s w u"
    by (auto simp: discoverTenantTargets_def Let_def split: option.splits sum.splits if_splits prod.splits)
  have "discoveryInv s w T home dyn \<lparr>ds_allowed = [home], ds_authorizations = Map.empty, ds_lookups = 0, ds_omitted = om0\<rparr>"
    using 1 by (simp add: discoveryInv_def)
  from discoverLoop_inv [OF this 2] show thesis by (rule that [OF ou 1 _ 3])
qed

section \<open>Authority in the target is bounded\<close>

lemma CanonicalAudienceScopes_nonempty_members:
  "CanonicalAudienceScopes P xs = Some ys \<Longrightarrow> [] \<notin> set ys"
  by (force simp: CanonicalAudienceScopes_eq_Some audienceAllowed_def validPermission_def)

lemma requestedWithin_Inr:
  assumes "requestedWithin P req eff = Inr scopes"
  shows "scopes \<noteq> []" "set scopes \<subseteq> set eff" "canonical eff \<longrightarrow> canonical scopes"
    "req \<noteq> [] \<longrightarrow> set scopes = TrimSpace ` set req"
proof -
  from assms have "scopes \<noteq> []" and
    c: "(req = [] \<and> scopes = eff) \<or> (req \<noteq> [] \<and> CanonicalAudienceScopes P req = Some scopes \<and> subsetList scopes eff)"
    by (auto simp: requestedWithin_def split: if_splits option.splits)
  then show "scopes \<noteq> []" "set scopes \<subseteq> set eff" "canonical eff \<longrightarrow> canonical scopes"
    "req \<noteq> [] \<longrightarrow> set scopes = TrimSpace ` set req"
    using audience.canon_canonical audience.canon_set CanonicalAudienceScopes_nonempty_members [of P req scopes]
    by (auto simp: subsetList_iff)
qed

lemma audienceDefaults_Inr:
  assumes "audienceDefaults P target home oc = Inr defaults"
  obtains cl where "oc = Some cl" "c_TenantId cl = target" "c_Id cl = CodeAdminAudienceClientID"
    "c_Status cl = ClientStatusActive" "canonical defaults" "set defaults = TrimSpace ` set (c_DefaultScopes cl)"
proof -
  from assms obtain cl where oc: "oc = Some cl"
    by (auto simp: audienceDefaults_def validHomeAudienceClient_def IsManagedCodeAdminAudience_def Let_def
        split: if_splits option.splits)
  with assms have 1: "c_TenantId cl = target" "c_Id cl = CodeAdminAudienceClientID" "c_Status cl = ClientStatusActive"
    and 2: "CanonicalAudienceScopes P (c_DefaultScopes cl) = Some defaults"
    by (auto simp: audienceDefaults_def validHomeAudienceClient_def IsManagedCodeAdminAudience_def Let_def
        ValidCanonicalAudienceScopes_iff split: if_splits option.splits)
  show thesis
    by (rule that [OF oc 1]) (use audience.canon_canonical [OF 2] audience.canon_set [OF 2] in simp_all)
qed

lemma resolveTenantDiscoveryAuthorization_Inr:
  assumes "resolveTenantDiscoveryAuthorization s w ou target home sr ceil0 req dyn priv dirp = (Inr d, om)"
  obtains u getClient disc om' ceil oc defaults authority where
    "ou = Some u" "us_clientSvc s = Some getClient"
    "(if dirp then validDirectoryPrincipalHome u home sr priv else validSignedHome u home sr priv)"
    "discoverTenantTargets s w (Some u) home dyn dirp priv = (Inr disc, om')"
    "target \<in> set (tds_authorizedTenants disc)" "CanonicalAudienceScopes (us_policy s) ceil0 = Some ceil"
    "getClient w target CodeAdminAudienceClientID = Inr oc"
    "audienceDefaults (us_policy s) target home oc = Inr defaults"
    "targetAuthority s w u target home sr defaults dyn (tds_authorizations disc) priv dirp = Inr (tda_roles d, authority)"
    "requestedWithin (us_policy s) req (intersectScopeSets defaults [authority, ceil]) = Inr (tda_scopes d)"
    "tda_tenantID d = target" "tda_authorizedTenants d = tds_authorizedTenants disc"
    "tda_directMasterPlatformAuthority d \<longrightarrow> tds_directMasterPlatformAuthority disc \<and> target = MasterTenantID"
proof -
  from assms obtain u getClient where ou: "ou = Some u" "us_clientSvc s = Some getClient"
    by (auto simp: resolveTenantDiscoveryAuthorization_def split: option.splits)
  from assms ou obtain disc om' where
    1: "if dirp then validDirectoryPrincipalHome u home sr priv else validSignedHome u home sr priv"
       "discoverTenantTargets s w (Some u) home dyn dirp priv = (Inr disc, om')"
    by (auto simp: resolveTenantDiscoveryAuthorization_def split: sum.splits if_splits prod.splits)
  from assms ou 1 obtain ceil oc defaults authority where
    2: "target \<in> set (tds_authorizedTenants disc)" "CanonicalAudienceScopes (us_policy s) ceil0 = Some ceil"
      "getClient w target CodeAdminAudienceClientID = Inr oc"
      "audienceDefaults (us_policy s) target home oc = Inr defaults"
      "targetAuthority s w u target home sr defaults dyn (tds_authorizations disc) priv dirp = Inr (tda_roles d, authority)"
      "requestedWithin (us_policy s) req (intersectScopeSets defaults [authority, ceil]) = Inr (tda_scopes d)"
      "tda_tenantID d = target" "tda_authorizedTenants d = tds_authorizedTenants disc"
      "tda_directMasterPlatformAuthority d \<longrightarrow> tds_directMasterPlatformAuthority disc \<and> target = MasterTenantID"
    by (auto simp: resolveTenantDiscoveryAuthorization_def split: sum.splits if_splits prod.splits option.splits)
  show thesis by (rule that [OF ou 1 2])
qed

lemma homeGlobalAuthority_subset: "set (homeGlobalAuthority P u sr cs priv) \<subseteq> set (homeAuthority u sr cs priv)"
  by (auto simp: homeGlobalAuthority_def)

lemma TrimSpace_grantable: "TrimSpace v \<in> A \<Longrightarrow> grantable P v \<Longrightarrow> v \<in> A"
  by (simp add: grantable_def)

text \<open>Where a scope of the target authority can come from.\<close>

lemma roleAuthority_sources:
  assumes "v \<in> set (roleAuthority P u sr cs priv dirp a)"
  obtains v0 where "v = TrimSpace v0" "v0 \<in> set (ta_permissions a)" "TenantRoleAssignable P v0"
  | "v = tenantSecretReadScope \<or> v = tenantSecretWriteScope" "ta_legacyCreatorAdministrator a"
  | v0 where "v = TrimSpace v0" "v0 \<in> set (homeAuthority u sr cs priv)" "\<not> dirp"
proof -
  have sec: "TrimSpace tenantSecretReadScope = tenantSecretReadScope" "TrimSpace tenantSecretWriteScope = tenantSecretWriteScope"
    by (simp_all add: TrimSpace_all_graphic graphic_def)
  from assms consider v0 where "v = TrimSpace v0" "v0 \<in> set (ta_permissions a)" "TenantRoleAssignable P v0"
    | v0 where "v = TrimSpace v0" "v0 = tenantSecretReadScope \<or> v0 = tenantSecretWriteScope" "ta_legacyCreatorAdministrator a"
    | v0 where "v = TrimSpace v0" "v0 \<in> set (homeGlobalAuthority P u sr cs priv)" "\<not> dirp"
    by (auto simp: roleAuthority_def split: if_splits)
  then show thesis
    using that sec homeGlobalAuthority_subset [of P u sr cs priv] by cases (blast | metis)+
qed

lemma targetAuthority_cases:
  assumes "targetAuthority s w u target home sr cs dyn auths priv dirp = Inr (roles, authority)"
  obtains "authority = homeAuthority u sr cs priv"
  | a where "authority = roleAuthority (us_policy s) u sr cs priv dirp a" "roles = ta_roles a"
      "dyn \<longrightarrow> auths target = Some a"
  using assms by (auto simp: targetAuthority_def Let_def split: if_splits option.splits sum.splits prod.splits)

section \<open>Properties\<close>

text \<open>
  When discovery succeeds, the authorised tenants are a sorted list without duplicates that contains the home
  tenant, every one of them is active now, dynamic discovery returns at most 100 of them, and the authorities it
  recorded belong to authorised tenants and hold only permissions that a tenant role may grant.
\<close>
theorem discovery_bounded:
  assumes "discoverTenantTargets s w (Some u) home dyn dirp priv = (Inr d, om)" and "us_tenantRepo s = Some T"
  shows "canonical (tds_authorizedTenants d) \<and> home \<in> set (tds_authorizedTenants d) \<and>
    (\<forall>t \<in> set (tds_authorizedTenants d). tenantIsActive T w t) \<and>
    (dyn \<longrightarrow> length (tds_authorizedTenants d) \<le> 100) \<and>
    (\<forall>t a. tds_authorizations d t = Some a \<longrightarrow>
       t \<in> set (tds_authorizedTenants d) \<and> (\<forall>v \<in> set (ta_permissions a). grantable (us_policy s) v))"
proof -
  from assms(1) obtain T' st where "us_tenantRepo s = Some T'" "discoveryInv s w T' home dyn st"
    "tds_authorizedTenants d = sort (ds_allowed st)" "tds_authorizations d = ds_authorizations st"
    by (rule discoverTenantTargets_Inr)
  with assms(2) show ?thesis
    by (auto simp: discoveryInv_def canonical_sort intro: ranI)
qed

lemma compiled_TrimSpace: "policyScopes compiledPolicy v = Some e \<Longrightarrow> TrimSpace v = v"
proof -
  assume "policyScopes compiledPolicy v = Some e"
  then have "e \<in> set compiledEntries" "se_Scope e = v" by (auto simp: policyScopes_compiled find_Some_iff)
  moreover have "list_all (\<lambda>e. list_all graphic (se_Scope e)) compiledEntries"
    by (simp add: compiledEntries_def entry_def graphic_def)
  ultimately show "TrimSpace v = v" by (auto simp: list_all_iff intro: TrimSpace_all_graphic [unfolded list_all_iff])
qed

lemma sampleRole_lookup:
  "resolveMembershipRoleAuthorization sampleService () t [''reader''] =
     Some \<lparr>ta_roles = [''reader''], ta_permissions = [''code-admin:ai:read''],
          ta_legacyCreatorAdministrator = False\<rparr>"
proof -
  have "ValidCanonicalPermissions compiledPolicy [''code-admin:ai:read'']"
    by (simp add: ValidCanonicalPermissions_iff CanonicalPermissions_eq_Some compiled_eval)
  then show ?thesis
    by (simp add: resolveMembershipRoleAuthorization_def sample_defs sort_uniq_def)
qed

lemma sampleScopes_canonical:
  "CanonicalAudienceScopes compiledPolicy [''code-admin:ai:read''] = Some [''code-admin:ai:read'']"
proof -
  have "audienceAllowed compiledPolicy ''code-admin:ai:read''"
    by (simp add: audienceAllowed_def compiled_eval)
  then show ?thesis
    by (simp add: CanonicalAudienceScopes_eq_Some audienceAllowed_TrimSpace sort_uniq_def)
qed

lemma sample_access:
  "accessTenantRoles sampleService () (u_Id sampleUser) t = Inr [''reader'']"
  "accessTenantIDs sampleService () (u_Id sampleUser) = Inr ([''acme'', ''globex''], False)"
proof -
  have "validRoleName ''reader''" by (simp add: validRoleName_def asciiAlphaNumeric_def inLower_def inUpper_def inDigit_def)
  then show "accessTenantRoles sampleService () (u_Id sampleUser) t = Inr [''reader'']"
    by (simp add: accessTenantRoles_def sample_defs canonicalMembershipRoles_def)
  show "accessTenantIDs sampleService () (u_Id sampleUser) = Inr ([''acme'', ''globex''], False)"
    by (simp add: accessTenantIDs_def sample_defs)
qed

lemma sample_home:
  "isTenantLocalFederatedPrincipal sampleUser h = False" "trustedFederatedPlatformPrincipal sampleUser h p = False"
  "us_directoryAccess sampleService \<noteq> None" "us_tenantRepo sampleService = Some sampleTenants"
  "u_Status sampleUser = UserStatusActive" "us_policy sampleService = compiledPolicy"
  "us_clientSvc sampleService = Some (\<lambda>w t a. Inr (Some (sampleAudience t a)))"
  "t \<in> {''acme'', ''globex''} \<Longrightarrow> tenantIsActive sampleTenants () t"
  by (auto simp: sample_defs isTenantLocalFederatedPrincipal_def trustedFederatedPlatformPrincipal_def tenantIsActive_def)

lemma sample_audience:
  "IsManagedCodeAdminAudience t (Some (sampleAudience t CodeAdminAudienceClientID))"
  "c_DefaultScopes (sampleAudience t a) = [''code-admin:ai:read'']"
  by (simp_all add: IsManagedCodeAdminAudience_def sampleAudience_def)

lemma sample_discovery:
  "discoverTenantTargets sampleService () (Some sampleUser) ''acme'' True False [] =
     (Inr \<lparr>tds_principalTenantID = ''acme'', tds_directMasterPlatformAuthority = False,
           tds_authorizedTenants = [''acme'', ''globex''],
           tds_authorizations = [''globex'' \<mapsto> \<lparr>ta_roles = [''reader''], ta_permissions = [''code-admin:ai:read''],
             ta_legacyCreatorAdministrator = False\<rparr>]\<rparr>, [])"
proof -
  have g: "tnGet sampleTenants () t = Inr (Some (activeSample t))" if "t \<in> {''acme'', ''globex''}" for t
    using that by (auto simp: sampleTenants_def)
  have a: "t_Id (activeSample t) = t" "t_Status (activeSample t) = TenantStatusActive" for t
    by (simp_all add: activeSample_def)
  have m: "managedAudienceAvailable compiledPolicy t (Inr (Some (sampleAudience t CodeAdminAudienceClientID)))" for t
    by (simp add: managedAudienceAvailable_def sample_audience ValidCanonicalAudienceScopes_iff sampleScopes_canonical)
  have s1: "discoverTenant sampleService () sampleTenants sampleUser ''acme'' True False False ''acme'' st =
      admit True ''acme'' st" for st
    by (simp add: discoverTenant_def sample_access g a)
  have s2: "discoverTenant sampleService () sampleTenants sampleUser ''acme'' True False False ''globex'' st =
      discoverForeign sampleService () True ''globex'' [''reader''] st" for st
    by (simp add: discoverTenant_def sample_access g a)
  show ?thesis
    by (simp add: discoverTenantTargets_def discoveryCandidates_def sample_home sample_access s1 s2 admit_def
        discoverForeign_def m sampleRole_lookup)
qed

theorem discovery_bounded_witness:
  "(\<exists>d om. discoverTenantTargets sampleService () (Some sampleUser) ''acme'' True False [] = (Inr d, om) \<and>
     tds_authorizedTenants d = [''acme'', ''globex'']) \<and> tenantIsActive sampleTenants () ''globex''"
  using discovery_bounded [OF sample_discovery sample_home(4)] sample_discovery by simp

text \<open>
  A discovery exchange never exceeds what limits it: the target is one of the authorised tenants, the scopes are
  a non-empty sorted list inside the signed-in ceiling and inside the default scopes of the active audience client
  of the target, and a request for scopes is granted exactly or refused.
\<close>
theorem discovery_scopes_bounded:
  assumes "resolveTenantDiscoveryAuthorization s w (Some u) target home signedRole ceil0 requested dyn priv dirp = (Inr d, om)"
  shows "tda_tenantID d = target \<and> target \<in> set (tda_authorizedTenants d) \<and>
    tda_scopes d \<noteq> [] \<and> canonical (tda_scopes d) \<and>
    set (tda_scopes d) \<subseteq> TrimSpace ` set ceil0 \<and>
    (\<exists>getClient cl. us_clientSvc s = Some getClient \<and> getClient w target CodeAdminAudienceClientID = Inr (Some cl) \<and>
       c_TenantId cl = target \<and> c_Status cl = ClientStatusActive \<and>
       set (tda_scopes d) \<subseteq> TrimSpace ` set (c_DefaultScopes cl)) \<and>
    (requested \<noteq> [] \<longrightarrow> set (tda_scopes d) = TrimSpace ` set requested)"
  using assms
proof (rule resolveTenantDiscoveryAuthorization_Inr)
  fix u' getClient disc om' ceil oc defaults authority
  assume c: "us_clientSvc s = Some getClient" "getClient w target CodeAdminAudienceClientID = Inr oc"
    and t: "target \<in> set (tds_authorizedTenants disc)" "tda_tenantID d = target"
      "tda_authorizedTenants d = tds_authorizedTenants disc"
    and ceil: "CanonicalAudienceScopes (us_policy s) ceil0 = Some ceil"
    and def: "audienceDefaults (us_policy s) target home oc = Inr defaults"
    and r: "requestedWithin (us_policy s) requested (intersectScopeSets defaults [authority, ceil]) = Inr (tda_scopes d)"
  from def obtain cl where cl: "oc = Some cl" "c_TenantId cl = target" "c_Status cl = ClientStatusActive"
    "canonical defaults" "set defaults = TrimSpace ` set (c_DefaultScopes cl)"
    by (rule audienceDefaults_Inr)
  have "canonical (intersectScopeSets defaults [authority, ceil])"
    using cl(4) by (simp add: intersectScopeSets_filter canonical_filter)
  moreover have "set (tda_scopes d) \<subseteq> set defaults \<inter> set ceil"
    using requestedWithin_Inr(2) [OF r] by (auto simp: set_intersectScopeSets)
  ultimately show ?thesis
    using c t cl requestedWithin_Inr(1,3,4) [OF r] audience.canon_set [OF ceil] by auto
qed

lemma sample_resolution:
  "\<exists>d om. resolveTenantDiscoveryAuthorization sampleService () (Some sampleUser) ''globex'' ''acme'' RoleCompanyAdmin
     [''code-admin:ai:read''] [] True [] False = (Inr d, om) \<and> tda_scopes d = [''code-admin:ai:read'']"
proof -
  have v: "validSignedHome sampleUser ''acme'' RoleCompanyAdmin []"
    by (simp add: validSignedHome_def sampleUser_def effectiveUserRole_def validRoleTenantID_def inLower_def inDigit_def)
  have t: "TrimSpace ''globex'' = ''globex''" "validRoleTenantID ''globex''" "TrimSpace ''code-admin:ai:read'' = ''code-admin:ai:read''"
    by (simp_all add: validRoleTenantID_def inLower_def inDigit_def TrimSpace_all_graphic graphic_def)
  have h: "homeGlobalAuthority compiledPolicy sampleUser RoleCompanyAdmin [''code-admin:ai:read''] [] = []"
  proof -
    have "\<not> RequiresHomeAuthority compiledPolicy ''code-admin:ai:read''" by (simp add: compiled_eval)
    then show ?thesis by (simp add: homeGlobalAuthority_def homeAuthority_def Let_def)
  qed
  have a: "TenantRoleAssignable compiledPolicy ''code-admin:ai:read''" by (simp add: compiled_eval)
  have d: "audienceDefaults compiledPolicy ''globex'' ''acme'' (Some (sampleAudience ''globex'' CodeAdminAudienceClientID)) =
      Inr [''code-admin:ai:read'']"
    by (simp add: audienceDefaults_def sample_audience ValidCanonicalAudienceScopes_iff sampleScopes_canonical)
  have ra: "roleAuthority compiledPolicy sampleUser RoleCompanyAdmin [''code-admin:ai:read''] [] False
      \<lparr>ta_roles = [''reader''], ta_permissions = [''code-admin:ai:read''], ta_legacyCreatorAdministrator = False\<rparr> =
      [''code-admin:ai:read'']"
    by (simp add: roleAuthority_def normalizePermissions_def a h t)
  have ta: "targetAuthority sampleService () sampleUser ''globex'' ''acme'' RoleCompanyAdmin [''code-admin:ai:read''] True
      [''globex'' \<mapsto> \<lparr>ta_roles = [''reader''], ta_permissions = [''code-admin:ai:read''],
        ta_legacyCreatorAdministrator = False\<rparr>] [] False = Inr ([''reader''], [''code-admin:ai:read''])"
    by (simp add: targetAuthority_def sample_home ra)
  show ?thesis
    by (simp add: resolveTenantDiscoveryAuthorization_def sample_home v t sample_discovery sampleScopes_canonical d
        ta requestedWithin_def)
qed

theorem discovery_scopes_bounded_witness:
  "\<exists>d om. resolveTenantDiscoveryAuthorization sampleService () (Some sampleUser) ''globex'' ''acme'' RoleCompanyAdmin
     [''code-admin:ai:read''] [] True [] False = (Inr d, om) \<and> ''globex'' \<in> set (tda_authorizedTenants d) \<and>
     tda_scopes d = [''code-admin:ai:read'']"
proof -
  obtain d om where r: "resolveTenantDiscoveryAuthorization sampleService () (Some sampleUser) ''globex'' ''acme''
     RoleCompanyAdmin [''code-admin:ai:read''] [] True [] False = (Inr d, om)" "tda_scopes d = [''code-admin:ai:read'']"
    using sample_resolution by blast
  with discovery_scopes_bounded [OF r(1)] show ?thesis by simp
qed

lemma discovery_platform_scope:
  assumes "resolveTenantDiscoveryAuthorization s w (Some u) target home signedRole ceil0 requested dyn priv dirp = (Inr d, om)"
    and "us_policy s = compiledPolicy" and "PlatformTenantAdminScope \<in> set (tda_scopes d)"
  shows "signedRole = RoleAdmin \<and> u_Role u = RoleAdmin \<and>
    (u_AuthSource u \<noteq> AuthSourceSAML \<or> priv = PlatformPrivilegeAdmin)"
  using assms(1)
proof (rule resolveTenantDiscoveryAuthorization_Inr)
  fix u' getClient disc om' ceil oc defaults authority
  assume u': "Some u = Some u'"
    and def: "audienceDefaults (us_policy s) target home oc = Inr defaults"
    and ta: "targetAuthority s w u' target home signedRole defaults dyn (tds_authorizations disc) priv dirp =
      Inr (tda_roles d, authority)"
    and r: "requestedWithin (us_policy s) requested (intersectScopeSets defaults [authority, ceil]) = Inr (tda_scopes d)"
  have trim: "TrimSpace v \<noteq> PlatformTenantAdminScope" if "TenantRoleAssignable compiledPolicy v" for v
  proof
    assume "TrimSpace v = PlatformTenantAdminScope"
    moreover from that have "TrimSpace v = v"
      by (auto simp: TenantRoleAssignable_def compiled_TrimSpace split: if_splits option.splits)
    ultimately show False using that by (simp add: compiled_eval)
  qed
  from def obtain cl where cl: "oc = Some cl" "canonical defaults" "set defaults = TrimSpace ` set (c_DefaultScopes cl)"
    by (rule audienceDefaults_Inr)
  have "PlatformTenantAdminScope \<in> set authority"
    using requestedWithin_Inr(2) [OF r] assms(3) by (auto simp: set_intersectScopeSets)
  from ta have "PlatformTenantAdminScope \<in> set (homeAuthority u' signedRole defaults priv)"
  proof (cases rule: targetAuthority_cases)
    case 1
    with \<open>PlatformTenantAdminScope \<in> set authority\<close> show ?thesis by simp
  next
    case (2 a)
    with \<open>PlatformTenantAdminScope \<in> set authority\<close>
    have "PlatformTenantAdminScope \<in> set (roleAuthority compiledPolicy u' signedRole defaults priv dirp a)"
      using assms(2) by simp
    then show ?thesis
    proof (cases rule: roleAuthority_sources)
      case (3 v0)
      then have "v0 \<in> set defaults" using homeAuthority_subset by blast
      then have "TrimSpace v0 = v0" using cl(3) by auto
      with 3 show ?thesis by simp
    qed (use trim in auto)
  qed
  with u' show ?thesis
    using effectiveUserRole_admin [of u priv] by (auto simp: homeAuthority_def Let_def split: if_splits)
qed

text \<open>
  Under the compiled scope policy no exchange with discovery grants the platform tenant administration scope
  unless the signed role and the stored role are both ADMIN, and a federated ADMIN also has the platform privilege.
  Roles in the target tenant cannot supply it.
\<close>
theorem discovery_no_platform_escalation:
  assumes "resolveTenantDiscoveryAuthorization s w (Some u) target home signedRole ceil0 requested dyn priv dirp = (Inr d, om)"
    and "us_policy s = compiledPolicy" and "PlatformTenantAdminScope \<in> set (tda_scopes d)"
  shows "signedRole = RoleAdmin \<and> u_Role u = RoleAdmin \<and>
    (u_AuthSource u \<noteq> AuthSourceSAML \<or> priv = PlatformPrivilegeAdmin)"
  by (rule discovery_platform_scope [OF assms])

definition masterService :: "(unit, unit) userService" where
  "masterService =
     sampleService\<lparr>us_clientSvc :=
       Some (\<lambda>w t a. Inr (Some (sampleAudience t a\<lparr>c_DefaultScopes := [PlatformTenantAdminScope]\<rparr>)))\<rparr>"

lemma master_resolution:
  "\<exists>d om. resolveTenantDiscoveryAuthorization masterService () (Some sampleAdmin) MasterTenantID MasterTenantID RoleAdmin
     [PlatformTenantAdminScope] [] True PlatformPrivilegeAdmin False = (Inr d, om) \<and>
     PlatformTenantAdminScope \<in> set (tda_scopes d)"
proof -
  have aud: "audienceAllowed compiledPolicy PlatformTenantAdminScope"
    by (simp add: audienceAllowed_def compiled_eval)
  have c: "CanonicalAudienceScopes compiledPolicy [PlatformTenantAdminScope] = Some [PlatformTenantAdminScope]"
    using aud by (simp add: CanonicalAudienceScopes_eq_Some audienceAllowed_TrimSpace sort_uniq_def)
  have t: "TrimSpace MasterTenantID = MasterTenantID" "validRoleTenantID MasterTenantID" "TrimSpace ''idp-7'' = ''idp-7''"
    by (simp_all add: validRoleTenantID_def inLower_def inDigit_def TrimSpace_all_graphic graphic_def)
  have f: "isTenantLocalFederatedPrincipal sampleAdmin MasterTenantID"
    "trustedFederatedPlatformPrincipal sampleAdmin MasterTenantID PlatformPrivilegeAdmin"
    "validSignedHome sampleAdmin MasterTenantID RoleAdmin PlatformPrivilegeAdmin"
    "u_Status sampleAdmin = UserStatusActive"
    by (simp_all add: isTenantLocalFederatedPrincipal_def trustedFederatedPlatformPrincipal_def validSignedHome_def
        sampleAdmin_def effectiveUserRole_def t)
  have m: "us_tenantRepo masterService = Some sampleTenants" "us_policy masterService = compiledPolicy"
    "us_clientSvc masterService =
       Some (\<lambda>w t a. Inr (Some (sampleAudience t a\<lparr>c_DefaultScopes := [PlatformTenantAdminScope]\<rparr>)))"
    "us_directoryAccess masterService = Some sampleDirectory"
    by (simp_all add: masterService_def sampleService_def)
  have l: "tnList sampleTenants () 0 n = Inr ([], [])" "tenantIsActive sampleTenants () MasterTenantID" for n
    by (simp_all add: sampleTenants_def tenantIsActive_def activeSample_def)
  have disc: "\<exists>disc om. discoverTenantTargets masterService () (Some sampleAdmin) MasterTenantID True False
      PlatformPrivilegeAdmin = (Inr disc, om) \<and> tds_authorizedTenants disc = [MasterTenantID]"
    by (simp add: discoverTenantTargets_def f m l discoveryCandidates_def)
  have d: "audienceDefaults compiledPolicy MasterTenantID MasterTenantID
      (Some (sampleAudience MasterTenantID CodeAdminAudienceClientID\<lparr>c_DefaultScopes := [PlatformTenantAdminScope]\<rparr>)) =
      Inr [PlatformTenantAdminScope]"
    by (simp add: audienceDefaults_def c validHomeAudienceClient_def IsManagedCodeAdminAudience_def sampleAudience_def)
  have ta: "targetAuthority masterService () sampleAdmin MasterTenantID MasterTenantID RoleAdmin [PlatformTenantAdminScope] True
      auths PlatformPrivilegeAdmin False = Inr ([], [PlatformTenantAdminScope])" for auths
    by (simp add: targetAuthority_def homeAuthority_def effectiveUserRole_def sampleAdmin_def)
  from disc show ?thesis
    by (auto simp: resolveTenantDiscoveryAuthorization_def f m t c d ta requestedWithin_def)
qed

theorem discovery_no_platform_escalation_witness:
  "\<exists>d om. resolveTenantDiscoveryAuthorization masterService () (Some sampleAdmin) MasterTenantID MasterTenantID RoleAdmin
     [PlatformTenantAdminScope] [] True PlatformPrivilegeAdmin False = (Inr d, om) \<and>
     PlatformTenantAdminScope \<in> set (tda_scopes d) \<and> u_Role sampleAdmin = RoleAdmin"
proof -
  obtain d om where r: "resolveTenantDiscoveryAuthorization masterService () (Some sampleAdmin) MasterTenantID
     MasterTenantID RoleAdmin [PlatformTenantAdminScope] [] True PlatformPrivilegeAdmin False = (Inr d, om)"
    "PlatformTenantAdminScope \<in> set (tda_scopes d)"
    using master_resolution by blast
  have "us_policy masterService = compiledPolicy" by (simp add: masterService_def sampleService_def)
  from discovery_no_platform_escalation [OF r(1) this r(2)] r show ?thesis by blast
qed

end
