(* ===== verification/AI_Gateway.thy ===== *)
theory AI_Gateway
  imports Tenant_Scope
begin

text \<open>
  The AI audience: \<^verbatim>\<open>aigateway.Scopes\<close> and the exchange of a user session for an AI token in
  \<^verbatim>\<open>internal/services/ai_gateway.go\<close>. The external authority that resolves the principal is a parameter; the
  service checks its answer against the request and the tenant before and after the call.
\<close>

section \<open>Scopes and the tenant lifetime\<close>

abbreviation AuthorityAudience :: string where "AuthorityAudience \<equiv> ''code-admin-ai-identity''"
abbreviation IdentityVersion :: string where "IdentityVersion \<equiv> ''ai-identity/v1''"
abbreviation InvokeScope :: string where "InvokeScope \<equiv> ''code-llm:invoke''"
abbreviation ModelsScope :: string where "ModelsScope \<equiv> ''code-llm:models:read''"
abbreviation UsageScope :: string where "UsageScope \<equiv> ''code-llm:usage:read''"
abbreviation ErrDenied :: gerror where "ErrDenied \<equiv> ErrText ''AI identity is not authorized''"

definition aiKnown :: "string \<Rightarrow> bool" where
  "aiKnown v \<longleftrightarrow> v = InvokeScope \<or> v = ModelsScope \<or> v = UsageScope"

fun knownAIScopes :: "string list \<Rightarrow> bool" where
  "knownAIScopes [] = True"
| "knownAIScopes [x] = aiKnown x"
| "knownAIScopes (x # y # zs) = (aiKnown x \<and> x \<noteq> y \<and> knownAIScopes (y # zs))"

definition AIScopes :: "string list \<Rightarrow> string list option" where
  "AIScopes vs =
     (if length vs < 1 \<or> length vs > 3 then None
      else let out = sort vs in if knownAIScopes out then Some out else None)"

text \<open>\<^verbatim>\<open>^[a-z][a-z0-9-]{1,62}$\<close>\<close>

definition tenantIDPattern :: "string \<Rightarrow> bool" where
  "tenantIDPattern s \<longleftrightarrow>
     2 \<le> length s \<and> length s \<le> 63 \<and> inLower (hd s) \<and>
     list_all (\<lambda>c. inLower c \<or> inDigit c \<or> c = CHR ''-'') (tl s)"

definition activeTenant :: "tenant option \<Rightarrow> string \<Rightarrow> int \<Rightarrow> bool" where
  "activeTenant ot tenantID now =
     (case ot of
        None \<Rightarrow> False
      | Some t \<Rightarrow>
          t_Id t = tenantID \<and> t_Status t = TenantStatusActive \<and> t_RetiredAt t = None \<and>
          (case t_CreatedAt t of None \<Rightarrow> False | Some created \<Rightarrow> created \<le> now))"

section \<open>The exchange\<close>

definition newAIGatewayExchange ::
  "aiGatewayConfig \<Rightarrow> ('w \<Rightarrow> string \<Rightarrow> aiPrincipal res) option \<Rightarrow> ('w \<Rightarrow> string \<Rightarrow> int \<Rightarrow> tenant option res) option \<Rightarrow>
   ('w \<Rightarrow> bool) \<Rightarrow> 'w aiGatewayExchange" where
  "newAIGatewayExchange cfg authority tenants slotFree =
     \<lparr>ax_cfg = cfg, ax_authority = authority, ax_tenants = tenants,
      ax_slots = (agc_MaximumConcurrent cfg > 0 \<and> agc_MaximumConcurrent cfg \<le> 32),
      ax_slotFree = slotFree,
      ax_limiter = (agc_PerIdentityPerMinute cfg > 0 \<and> agc_PerIdentityPerMinute cfg \<le> 60)\<rparr>"

definition reservedAIAudience :: "go_unicode \<Rightarrow> 'w aiGatewayExchange option \<Rightarrow> string \<Rightarrow> bool" where
  "reservedAIAudience U oe audience \<longleftrightarrow>
     ReservedAudience U audience \<or>
     (case oe of
        None \<Rightarrow> False
      | Some e \<Rightarrow> agc_StoreAudience (ax_cfg e) \<noteq> [] \<and> EqualFold U (TrimSpace audience) (agc_StoreAudience (ax_cfg e)))"

definition aiReady :: "'w aiGatewayExchange option \<Rightarrow> bool" where
  "aiReady oe =
     (case oe of
        None \<Rightarrow> False
      | Some e \<Rightarrow>
          agc_Enabled (ax_cfg e) \<and> ax_authority e \<noteq> None \<and> ax_tenants e \<noteq> None \<and> ax_slots e \<and> ax_limiter e \<and>
          agc_AccessTokenTTLSeconds (ax_cfg e) \<ge> 30 \<and> agc_AccessTokenTTLSeconds (ax_cfg e) \<le> 300)"

definition aiTenant :: "goLibrary \<Rightarrow> 'w aiGatewayExchange \<Rightarrow> 'w \<Rightarrow> string \<Rightarrow> int \<Rightarrow> string res" where
  "aiTenant L e w tenantID now =
     (case ax_tenants e of
        None \<Rightarrow> Inl ErrInvalidTenant
      | Some getRetained \<Rightarrow>
          if \<not> tenantIDPattern tenantID \<or> tenantID = RetiredDefaultTenantID then Inl ErrInvalidTenant
          else (case getRetained w tenantID now of
                  Inl _ \<Rightarrow> Inl ErrAuthenticationUnavailable
                | Inr ot \<Rightarrow>
                    if \<not> activeTenant ot tenantID now then Inl ErrInvalidTenant
                    else Inr (sha256hex L (''codefoundry/tenant-lifetime/v1'' @ [CHR 0x00] @ tenantID @ [CHR 0x00] @
                           rfc3339Nano L (t_CreatedAt (the ot))))))"

definition signAIClaims :: "'k jwtlib \<Rightarrow> 'k \<Rightarrow> string \<Rightarrow> claims \<Rightarrow> string res" where
  "signAIClaims J key kid c =
     (if kid = [] then Inl ErrAuthenticationUnavailable
      else (case signRS256 J (Some kid) c key of
              Inl _ \<Rightarrow> Inl ErrAuthenticationUnavailable | Inr raw \<Rightarrow> Inr raw))"

definition workloadRequestJson :: "aiWorkloadRequest \<Rightarrow> jval" where
  "workloadRequestJson r =
     JObj [(''issuer'', JStr (awr_Issuer r)), (''cluster_ref'', JStr (awr_ClusterRef r)),
           (''namespace'', JStr (awr_Namespace r)), (''service_account'', JStr (awr_ServiceAccount r)),
           (''service_account_uid'', JStr (awr_ServiceAccountUID r)), (''pod_uid'', JStr (awr_PodUID r))]"

definition identityJson :: "aiIdentity \<Rightarrow> jval" where
  "identityJson i =
     JObj ([(''schemaVersion'', JStr (ai_SchemaVersion i)), (''kind'', JStr (ai_Kind i)),
            (''subject'', JStr (ai_Subject i)), (''tenantId'', JStr (ai_TenantID i)),
            (''scopes'', GoStrs (ai_Scopes i))] @
           (case ai_Workload i of None \<Rightarrow> [] | Some r \<Rightarrow> [(''workload'', workloadRequestJson r)]))"

definition principalMatches :: "aiIdentity \<Rightarrow> string \<Rightarrow> aiPrincipal \<Rightarrow> bool" where
  "principalMatches identity epoch p \<longleftrightarrow>
     ap_SchemaVersion p = IdentityVersion \<and> ap_TenantID p = ai_TenantID identity \<and>
     ap_TenantUID p = ai_TenantID identity \<and> ap_TenantEpoch p = epoch \<and>
     ap_PrincipalKind p = ai_Kind identity \<and> ap_Subject p \<noteq> [] \<and>
     (if ai_Kind identity = ''User'' then
        ap_Subject p = ai_Subject identity \<and> ap_Workload p = None \<and> ai_Workload identity = None
      else
        (case (ap_Workload p, ai_Workload identity) of
           (Some k, Some r) \<Rightarrow>
             ValidWorkloadObjectUID (aw_ServiceUID k) \<and> aw_Issuer k = awr_Issuer r \<and>
             aw_ClusterRef k = awr_ClusterRef r \<and> aw_Namespace k = awr_Namespace r \<and>
             aw_ServiceAccount k = awr_ServiceAccount r \<and> aw_ServiceAccountUID k = awr_ServiceAccountUID r \<and>
             aw_PodUID k = awr_PodUID r \<and>
             \<not> (ai_Kind identity = ''Workload'' \<and> ap_Subject p \<noteq> ''codefoundry:service:'' @ aw_ServiceUID k \<or>
                ai_Kind identity = ''Delegated'' \<and> ap_Subject p \<noteq> ai_Subject identity)
         | _ \<Rightarrow> False))"

definition aiAuthorize ::
  "'k jwtlib \<Rightarrow> goLibrary \<Rightarrow> 'w aiGatewayExchange option \<Rightarrow> 'w \<Rightarrow> callEnv \<Rightarrow> aiIdentity \<Rightarrow> 'k \<Rightarrow> string \<Rightarrow> string \<Rightarrow>
   int \<Rightarrow> aiPrincipal res" where
  "aiAuthorize J L oe w E identity key issuer kid now =
     (case oe of
        None \<Rightarrow> Inl ErrAuthenticationUnavailable
      | Some e \<Rightarrow>
          if \<not> aiReady oe \<or> issuer = [] \<or> kid = [] then Inl ErrAuthenticationUnavailable
          else
            (case aiTenant L e w (ai_TenantID identity) now of
               Inl err \<Rightarrow> Inl err
             | Inr epoch \<Rightarrow>
                 if \<not> ax_slotFree e w then Inl ErrAuthenticationUnavailable
                 else
                   (case signAIClaims J key kid
                           [''iss'' \<mapsto> JStr issuer, ''aud'' \<mapsto> JStr AuthorityAudience, ''sub'' \<mapsto> JStr ''tikti'',
                            ''iat'' \<mapsto> GoInt (Unix now), ''nbf'' \<mapsto> GoInt (Unix now),
                            ''exp'' \<mapsto> GoInt (Unix (now + 60000000000)), ''jti'' \<mapsto> JStr (ev_uuid E 0),
                            ''ai_identity'' \<mapsto> identityJson identity] of
                      Inl err \<Rightarrow> Inl err
                    | Inr assertion \<Rightarrow>
                        (case the (ax_authority e) w assertion of
                           Inl err \<Rightarrow>
                             if errors_Is err ErrDenied then Inl ErrUnauthorizedScope
                             else Inl ErrAuthenticationUnavailable
                         | Inr p \<Rightarrow>
                             if \<not> principalMatches identity epoch p then Inl ErrUnauthorizedScope
                             else if aiTenant L e w (ai_TenantID identity) (ev_recheck E) \<noteq> Inr epoch
                             then Inl ErrInvalidTenant
                             else Inr p))))"

definition aiPrincipalClaims :: "aiPrincipal \<Rightarrow> string \<Rightarrow> string list \<Rightarrow> int \<Rightarrow> int \<Rightarrow> string \<Rightarrow> claims" where
  "aiPrincipalClaims p issuer scopes now ttl jti =
     [''iss'' \<mapsto> JStr issuer, ''aud'' \<mapsto> JStr AIGatewayAudienceClientID, ''sub'' \<mapsto> JStr (ap_Subject p),
      ''tid'' \<mapsto> JStr (ap_TenantID p), ''tenant_uid'' \<mapsto> JStr (ap_TenantUID p),
      ''tenant_epoch'' \<mapsto> JStr (ap_TenantEpoch p), ''principal_kind'' \<mapsto> JStr (ap_PrincipalKind p),
      ''scope'' \<mapsto> JStr (JoinStr '' '' scopes), ''iat'' \<mapsto> GoInt (Unix now), ''exp'' \<mapsto> GoInt (Unix (now + ttl)),
      ''jti'' \<mapsto> JStr jti]"

definition aiPermission :: "string \<Rightarrow> string" where
  "aiPermission sc = (if sc = UsageScope then ''code-admin:ai:read'' else sc)"

definition aiUserEffectiveScopes ::
  "('w, 'k) userService \<Rightarrow> 'w \<Rightarrow> user \<Rightarrow> string \<Rightarrow> string list \<Rightarrow> string list res" where
  "aiUserEffectiveScopes s w u tenantID requested =
     (case resolveTenantScopedAIAuthorization s w (Some u) tenantID of
        Inl e \<Rightarrow> Inl e
      | Inr a \<Rightarrow>
          (case us_clientSvc s of
             None \<Rightarrow> Inl ErrInvalidAudience
           | Some getClient \<Rightarrow>
               (case getClient w tenantID AIGatewayAudienceClientID of
                  Inl _ \<Rightarrow> Inl ErrInvalidAudience
                | Inr None \<Rightarrow> Inl ErrInvalidAudience
                | Inr (Some c) \<Rightarrow>
                    if c_Id c \<noteq> AIGatewayAudienceClientID \<or> \<not> IsManagedAIGatewayAudience tenantID (Some c)
                    then Inl ErrInvalidAudience
                    else (case AIScopes (c_DefaultScopes c) of
                            None \<Rightarrow> Inl ErrUnauthorizedScope
                          | Some ceil \<Rightarrow>
                              let out = filter (\<lambda>sc. sc \<in> set ceil \<and> aiPermission sc \<in> set (ta_permissions a)) requested in
                              if length out = 0 then Inl ErrUnauthorizedScope else Inr out))))"

definition aiUserPermissions ::
  "('w, 'k) userService \<Rightarrow> 'w \<Rightarrow> user \<Rightarrow> string \<Rightarrow> string list \<Rightarrow> gerror option" where
  "aiUserPermissions s w u tenantID scopes =
     (case aiUserEffectiveScopes s w u tenantID scopes of
        Inl e \<Rightarrow> Some e
      | Inr granted \<Rightarrow> if granted \<noteq> scopes then Some ErrUnauthorizedScope else None)"

section \<open>Exchanging a session\<close>

record tokenExchangeReq =
  te_IdToken :: string
  te_Audience :: string
  te_Scopes :: "string list"
  te_EventTypes :: "string list"
  te_TTLSeconds :: int
  te_TenantID :: string
  te_DiscoverTenantTargetsV1 :: bool
  te_DiscoverTenantTargetsV2 :: bool
  te_ScopeCeilingV1 :: "string list option" \<comment> \<open>\<^term>\<open>None\<close> is a nil slice\<close>

record tokenExchangeResp =
  ter_AccessToken :: string
  ter_TokenType :: string
  ter_ExpiresIn :: int
  ter_PrincipalTenantID :: string
  ter_AuthorizedTenants :: "string list"
  ter_Scopes :: "string list"

definition bearer :: "string \<Rightarrow> int \<Rightarrow> string list \<Rightarrow> tokenExchangeResp" where
  "bearer token expiresIn scopes =
     \<lparr>ter_AccessToken = token, ter_TokenType = ''Bearer'', ter_ExpiresIn = expiresIn, ter_PrincipalTenantID = [],
      ter_AuthorizedTenants = [], ter_Scopes = scopes\<rparr>"

text \<open>\<^verbatim>\<open>Time.Sub\<close> saturates; \<^verbatim>\<open>Duration.Truncate(time.Second)\<close> rounds towards zero.\<close>

definition timeSub :: "int \<Rightarrow> int \<Rightarrow> int" where
  "timeSub a b = max (- (2 ^ 63)) (min (2 ^ 63 - 1) (a - b))"

definition truncateSecond :: "int \<Rightarrow> int" where
  "truncateSecond d = (if d \<ge> 0 then d - d mod 1000000000 else d + (- d) mod 1000000000)"

definition aiTTL :: "int \<Rightarrow> int \<Rightarrow> int \<Rightarrow> int \<Rightarrow> int" where
  "aiTTL configured requested expiry now =
     (let ttl = (if requested > 0 then min (seconds configured) (seconds requested) else seconds configured) in
      min ttl (truncateSecond (timeSub expiry now)))"

definition aiRequestedScopes ::
  "('w, 'k) userService \<Rightarrow> 'w \<Rightarrow> user \<Rightarrow> tokenExchangeReq \<Rightarrow> string list \<Rightarrow> string list res" where
  "aiRequestedScopes s w u r scopes =
     (if te_ScopeCeilingV1 r \<noteq> None then aiUserEffectiveScopes s w u (te_TenantID r) scopes
      else (case aiUserPermissions s w u (te_TenantID r) scopes of Some e \<Rightarrow> Inl e | None \<Rightarrow> Inr scopes))"

definition exchangeAIUser ::
  "('w, 'k) userService \<Rightarrow> 'w \<Rightarrow> callEnv \<Rightarrow> tokenExchangeReq \<Rightarrow> user \<Rightarrow> claims \<Rightarrow> tokenExchangeResp res" where
  "exchangeAIUser s w E r u source =
     (let requested = (case te_ScopeCeilingV1 r of None \<Rightarrow> te_Scopes r | Some ceil \<Rightarrow> ceil) in
      if \<not> aiReady (us_aiGateway s) \<or> te_Audience r \<noteq> AIGatewayAudienceClientID then Inl ErrInvalidAudience
      else
        (case AIScopes requested of
           None \<Rightarrow> Inl ErrInvalidArgument
         | Some scopes0 \<Rightarrow>
             if length (te_EventTypes r) > 0 \<or> te_DiscoverTenantTargetsV1 r \<or> te_DiscoverTenantTargetsV2 r \<or>
                te_ScopeCeilingV1 r \<noteq> None \<and> length (te_Scopes r) \<noteq> 0 \<or> te_TTLSeconds r < 0
             then Inl ErrInvalidArgument
             else
               (case aiRequestedScopes s w u r scopes0 of
                  Inl e \<Rightarrow> Inl e
                | Inr scopes \<Rightarrow>
                    let now = Unix (ev_now E) * 1000000000 in
                    (case expirationTime (us_jwt s) source of
                       Inl _ \<Rightarrow> Inl ErrInvalidToken
                     | Inr None \<Rightarrow> Inl ErrInvalidToken
                     | Inr (Some ex) \<Rightarrow>
                         let ttl = aiTTL (agc_AccessTokenTTLSeconds (ax_cfg (the (us_aiGateway s)))) (te_TTLSeconds r) ex now in
                         if ttl < 1000000000 then Inl ErrInvalidToken
                         else
                           (case getRSAPrivateKey s of
                              Inl _ \<Rightarrow> Inl ErrAuthenticationUnavailable
                            | Inr key \<Rightarrow>
                                (case aiAuthorize (us_jwt s) (us_library s) (us_aiGateway s) w E
                                        \<lparr>ai_SchemaVersion = IdentityVersion, ai_Kind = ''User'', ai_Subject = u_Id u,
                                         ai_TenantID = te_TenantID r, ai_Scopes = scopes, ai_Workload = None\<rparr>
                                        key (us_issuerBaseURL s) (us_jwksKeyID s) now of
                                   Inl e \<Rightarrow> Inl e
                                 | Inr p \<Rightarrow>
                                     (case signAIClaims (us_jwt s) key (us_jwksKeyID s)
                                             ((aiPrincipalClaims p (us_issuerBaseURL s) scopes now ttl (ev_uuid E 1))
                                                (''ver'' \<mapsto> GoInt (u_TokenVersion u))) of
                                        Inl e \<Rightarrow> Inl e
                                      | Inr raw \<Rightarrow> Inr (bearer raw (ttl div 1000000000) scopes))))))))"

section \<open>Lemmas\<close>

lemma knownAIScopes_iff: "sorted vs \<Longrightarrow> knownAIScopes vs \<longleftrightarrow> distinct vs \<and> list_all aiKnown vs"
  by (induction vs rule: knownAIScopes.induct) auto

lemma AIScopes_eq_Some:
  "AIScopes vs = Some out \<longleftrightarrow> vs \<noteq> [] \<and> distinct vs \<and> list_all aiKnown vs \<and> out = sort vs"
proof -
  have "length vs \<le> 3" if "distinct vs" "list_all aiKnown vs"
  proof -
    have "card (set vs) \<le> card {InvokeScope, ModelsScope, UsageScope}"
      using that(2) by (intro card_mono) (auto simp: list_all_iff aiKnown_def)
    also have "\<dots> \<le> 3" by (simp add: card_insert_if)
    finally show ?thesis using that(1) by (simp add: distinct_card)
  qed
  then show ?thesis
    by (auto simp: AIScopes_def Let_def knownAIScopes_iff Suc_le_eq list_all_iff)
qed

interpretation ai_scopes: canonicaliser AIScopes "\<lambda>v. v"
  by unfold_locales (auto simp: AIScopes_eq_Some canonical_sort sort_key_id_if_sorted list_all_iff)

lemma truncateSecond_le: "1000000000 \<le> truncateSecond d \<Longrightarrow> truncateSecond d \<le> d"
  by (auto simp: truncateSecond_def split: if_splits)

lemma aiTTL_le_expiry:
  assumes "1000000000 \<le> aiTTL conf req ex now"
  shows "now + aiTTL conf req ex now \<le> ex"
proof -
  from assms have "1000000000 \<le> truncateSecond (timeSub ex now)" "aiTTL conf req ex now \<le> truncateSecond (timeSub ex now)"
    by (auto simp: aiTTL_def Let_def)
  with truncateSecond_le have "1000000000 \<le> timeSub ex now" "aiTTL conf req ex now \<le> timeSub ex now" by force+
  then show ?thesis by (auto simp: timeSub_def)
qed

lemma seconds_small: "0 \<le> n \<Longrightarrow> n \<le> 300 \<Longrightarrow> seconds n = n * 1000000000"
  by (simp add: seconds_def wrap64_def)

lemma aiTTL_le_configured: "0 \<le> conf \<Longrightarrow> conf \<le> 300 \<Longrightarrow> aiTTL conf req ex now \<le> conf * 1000000000"
  by (auto simp: aiTTL_def Let_def seconds_small)

lemma aiUserEffectiveScopes_Inr:
  assumes "aiUserEffectiveScopes s w u t req = Inr out"
  obtains a getClient cl ceil where "resolveTenantScopedAIAuthorization s w (Some u) t = Inr a"
    "us_clientSvc s = Some getClient" "getClient w t AIGatewayAudienceClientID = Inr (Some cl)"
    "IsManagedAIGatewayAudience t (Some cl)" "AIScopes (c_DefaultScopes cl) = Some ceil" "out \<noteq> []"
    "out = filter (\<lambda>sc. sc \<in> set ceil \<and> aiPermission sc \<in> set (ta_permissions a)) req"
  using assms
  by (auto simp: aiUserEffectiveScopes_def Let_def split: sum.splits option.splits if_splits)

lemma aiRequestedScopes_effective:
  "aiRequestedScopes s w u r scopes0 = Inr scopes \<Longrightarrow>
   aiUserEffectiveScopes s w u (te_TenantID r) scopes0 = Inr scopes"
  by (auto simp: aiRequestedScopes_def aiUserPermissions_def split: if_splits option.splits sum.splits)

lemma aiAuthorize_Inr:
  assumes "aiAuthorize J L oe w E identity key issuer kid now = Inr p"
  obtains e epoch where "oe = Some e" "aiReady oe" "kid \<noteq> []" "aiTenant L e w (ai_TenantID identity) now = Inr epoch"
    "aiTenant L e w (ai_TenantID identity) (ev_recheck E) = Inr epoch" "principalMatches identity epoch p"
  using assms by (auto simp: aiAuthorize_def split: option.splits sum.splits if_splits)

lemma exchangeAIUser_Inr:
  assumes "exchangeAIUser s w E r u source = Inr resp"
  obtains e scopes0 scopes ex key p where "us_aiGateway s = Some e" "aiReady (us_aiGateway s)"
    "AIScopes (case te_ScopeCeilingV1 r of None \<Rightarrow> te_Scopes r | Some ceil \<Rightarrow> ceil) = Some scopes0"
    "aiUserEffectiveScopes s w u (te_TenantID r) scopes0 = Inr scopes"
    "expirationTime (us_jwt s) source = Inr (Some ex)"
    "1000000000 \<le> aiTTL (agc_AccessTokenTTLSeconds (ax_cfg e)) (te_TTLSeconds r) ex (Unix (ev_now E) * 1000000000)"
    "aiAuthorize (us_jwt s) (us_library s) (us_aiGateway s) w E
       \<lparr>ai_SchemaVersion = IdentityVersion, ai_Kind = ''User'', ai_Subject = u_Id u,
        ai_TenantID = te_TenantID r, ai_Scopes = scopes, ai_Workload = None\<rparr>
       key (us_issuerBaseURL s) (us_jwksKeyID s) (Unix (ev_now E) * 1000000000) = Inr p"
    "ter_ExpiresIn resp = aiTTL (agc_AccessTokenTTLSeconds (ax_cfg e)) (te_TTLSeconds r) ex
       (Unix (ev_now E) * 1000000000) div 1000000000" "ter_Scopes resp = scopes"
  using assms
  by (auto simp: exchangeAIUser_def Let_def aiReady_def bearer_def not_less dest!: aiRequestedScopes_effective
      split: option.splits sum.splits if_splits)

section \<open>Properties\<close>

text \<open>
  A token for the AI audience lives between one and 300 seconds and never longer than the session it was
  exchanged for. Its scopes are known AI scopes among those asked for, each covered by a permission the user's
  current roles give in that tenant and by the managed audience client, and the tenant had the same active
  lifetime before and after the external authority answered.
\<close>
theorem ai_exchange_bounded:
  fixes s :: "('w, 'k) userService"
  assumes "exchangeAIUser s w E r u source = Inr resp"
  shows "1 \<le> ter_ExpiresIn resp \<and> ter_ExpiresIn resp \<le> 300 \<and>
    (\<exists>ex. expirationTime (us_jwt s) source = Inr (Some ex) \<and> Unix (ev_now E) + ter_ExpiresIn resp \<le> Unix ex) \<and>
    ter_Scopes resp \<noteq> [] \<and> list_all aiKnown (ter_Scopes resp) \<and>
    set (ter_Scopes resp) \<subseteq> set (case te_ScopeCeilingV1 r of None \<Rightarrow> te_Scopes r | Some ceil \<Rightarrow> ceil) \<and>
    (\<exists>a. resolveTenantScopedAIAuthorization s w (Some u) (te_TenantID r) = Inr a \<and>
       aiPermission ` set (ter_Scopes resp) \<subseteq> set (ta_permissions a)) \<and>
    (\<exists>getClient cl. us_clientSvc s = Some getClient \<and>
       getClient w (te_TenantID r) AIGatewayAudienceClientID = Inr (Some cl) \<and>
       IsManagedAIGatewayAudience (te_TenantID r) (Some cl) \<and> set (ter_Scopes resp) \<subseteq> set (c_DefaultScopes cl)) \<and>
    (\<exists>e epoch. us_aiGateway s = Some e \<and>
       aiTenant (us_library s) e w (te_TenantID r) (Unix (ev_now E) * 1000000000) = Inr epoch \<and>
       aiTenant (us_library s) e w (te_TenantID r) (ev_recheck E) = Inr epoch)"
  using assms
proof (rule exchangeAIUser_Inr)
  fix e :: "'w aiGatewayExchange" and scopes0 scopes ex key p
  let ?now = "Unix (ev_now E) * 1000000000"
  let ?ttl = "aiTTL (agc_AccessTokenTTLSeconds (ax_cfg e)) (te_TTLSeconds r) ex ?now"
  assume e: "us_aiGateway s = Some e" "aiReady (us_aiGateway s)"
    and sc0: "AIScopes (case te_ScopeCeilingV1 r of None \<Rightarrow> te_Scopes r | Some ceil \<Rightarrow> ceil) = Some scopes0"
    and eff: "aiUserEffectiveScopes s w u (te_TenantID r) scopes0 = Inr scopes"
    and ex: "expirationTime (us_jwt s) source = Inr (Some ex)" and t1: "1000000000 \<le> ?ttl"
    and au: "aiAuthorize (us_jwt s) (us_library s) (us_aiGateway s) w E
       \<lparr>ai_SchemaVersion = IdentityVersion, ai_Kind = ''User'', ai_Subject = u_Id u,
        ai_TenantID = te_TenantID r, ai_Scopes = scopes, ai_Workload = None\<rparr>
       key (us_issuerBaseURL s) (us_jwksKeyID s) ?now = Inr p"
    and resp: "ter_ExpiresIn resp = ?ttl div 1000000000" "ter_Scopes resp = scopes"
  from e have "0 \<le> agc_AccessTokenTTLSeconds (ax_cfg e)" "agc_AccessTokenTTLSeconds (ax_cfg e) \<le> 300"
    by (auto simp: aiReady_def)
  from this aiTTL_le_configured [OF this, of "te_TTLSeconds r" ex ?now] have t2: "?ttl \<le> 300 * 1000000000"
    by linarith
  have t: "1 \<le> ter_ExpiresIn resp" "ter_ExpiresIn resp \<le> 300" using t1 t2 resp(1) by linarith+
  have "?now + ?ttl \<le> ex" by (rule aiTTL_le_expiry [OF t1])
  then have t3: "Unix (ev_now E) + ter_ExpiresIn resp \<le> Unix ex"
    using resp(1) unfolding Unix_def [of ex] by linarith
  from eff obtain a getClient cl ceil where f: "resolveTenantScopedAIAuthorization s w (Some u) (te_TenantID r) = Inr a"
    "us_clientSvc s = Some getClient" "getClient w (te_TenantID r) AIGatewayAudienceClientID = Inr (Some cl)"
    "IsManagedAIGatewayAudience (te_TenantID r) (Some cl)" "AIScopes (c_DefaultScopes cl) = Some ceil" "scopes \<noteq> []"
    "scopes = filter (\<lambda>sc. sc \<in> set ceil \<and> aiPermission sc \<in> set (ta_permissions a)) scopes0"
    by (rule aiUserEffectiveScopes_Inr)
  have s1: "set scopes \<subseteq> set scopes0" "set scopes \<subseteq> set ceil" "aiPermission ` set scopes \<subseteq> set (ta_permissions a)"
    using f(7) by auto
  have s2: "set scopes0 = set (case te_ScopeCeilingV1 r of None \<Rightarrow> te_Scopes r | Some ceil \<Rightarrow> ceil)"
    "list_all aiKnown scopes0" "set ceil = set (c_DefaultScopes cl)"
    using sc0 f(5) by (auto simp: AIScopes_eq_Some list_all_iff)
  from au obtain epoch where ep: "aiTenant (us_library s) e w (te_TenantID r) ?now = Inr epoch"
    "aiTenant (us_library s) e w (te_TenantID r) (ev_recheck E) = Inr epoch"
    using e(1) by (auto elim: aiAuthorize_Inr)
  have known: "list_all aiKnown scopes" using s1(1) s2(2) by (auto simp: list_all_iff)
  have set3: "set scopes \<subseteq> set (c_DefaultScopes cl)"
    "set scopes \<subseteq> set (case te_ScopeCeilingV1 r of None \<Rightarrow> te_Scopes r | Some ceil \<Rightarrow> ceil)"
    using s1 s2 by blast+
  show ?thesis
    unfolding resp(2) using t t3 ex f(1-4,6) known set3 s1(3) e(1) ep by blast
qed

definition sampleEpoch :: string where
  "sampleEpoch = ''codefoundry/tenant-lifetime/v1'' @ [CHR 0x00] @ ''globex'' @ [CHR 0x00]"

definition noMachine :: aiMachineIdentity where
  "noMachine = \<lparr>mi_Enabled = False, mi_Issuer = [], mi_ClusterRef = [], mi_Namespace = [], mi_ServiceAccount = [],
     mi_ServiceAccountUID = []\<rparr>"

definition sampleGateway :: "unit aiGatewayExchange" where
  "sampleGateway =
     newAIGatewayExchange
       \<lparr>agc_Enabled = True, agc_AccessTokenTTLSeconds = 120, agc_MaximumConcurrent = 8, agc_PerIdentityPerMinute = 10,
        agc_InstallationUID = ''inst-1'', agc_RuntimeTenantID = ''acme'', agc_Runtime = noMachine, agc_StoreAudience = [],
        agc_StoreRuntime = noMachine, agc_StoreBootstrap = noMachine\<rparr>
       (Some (\<lambda>w assertion. Inr \<lparr>ap_SchemaVersion = IdentityVersion, ap_TenantID = ''globex'', ap_TenantUID = ''globex'',
          ap_TenantEpoch = sampleEpoch, ap_Subject = ''u-1'', ap_PrincipalKind = ''User'', ap_Workload = None\<rparr>))
       (Some (\<lambda>w t now. Inr (Some (activeSample t)))) (\<lambda>w. True)"

definition aiService :: "(unit, unit) userService" where
  "aiService =
     sampleService\<lparr>us_aiGateway := Some sampleGateway, us_clientSvc := Some (\<lambda>w t a. Inr (Some
       (sampleAudience t a\<lparr>c_DefaultScopes := [UsageScope], c_ManagedBy := AIGatewayAudienceClientManager\<rparr>)))\<rparr>"

definition sampleCall :: callEnv where
  "sampleCall =
     \<lparr>ev_parseTime = 5000000000, ev_checkTime = 5000000000, ev_now = 5000000000, ev_recheck = 6000000000,
      ev_uuid = (\<lambda>n. ''uuid''), ev_GenerateFromPassword = (\<lambda>p. Inr ''hash''), ev_clientIP = [], ev_apiKeyID = []\<rparr>"

definition aiRequest :: tokenExchangeReq where
  "aiRequest =
     \<lparr>te_IdToken = ''id-token'', te_Audience = AIGatewayAudienceClientID, te_Scopes = [UsageScope], te_EventTypes = [],
      te_TTLSeconds = 60, te_TenantID = ''globex'', te_DiscoverTenantTargetsV1 = False,
      te_DiscoverTenantTargetsV2 = False, te_ScopeCeilingV1 = None\<rparr>"

lemma ai_sample_scopes: "aiUserEffectiveScopes aiService () sampleUser ''globex'' [UsageScope] = Inr [UsageScope]"
proof -
  have p: "ValidCanonicalPermissions compiledPolicy [''code-admin:ai:read'']"
    by (simp add: ValidCanonicalPermissions_iff CanonicalPermissions_eq_Some compiled_eval)
  have v: "validRoleTenantID ''globex''" "canonicalMembershipRoles [''reader''] = Some [''reader'']"
    by (simp_all add: validRoleTenantID_def inLower_def inDigit_def canonicalMembershipRoles_def validRoleName_def
        asciiAlphaNumeric_def inUpper_def)
  have "resolveTenantScopedAIAuthorization aiService () (Some sampleUser) ''globex'' =
      Inr \<lparr>ta_roles = [''reader''], ta_permissions = [''code-admin:ai:read''], ta_legacyCreatorAdministrator = False\<rparr>"
    by (simp add: resolveTenantScopedAIAuthorization_def resolveTenantScopedAuthorization_def aiService_def sample_defs v
        accessTenantIDs_def accessTenantRoles_def tenantIsActive_def containsString_def p sort_uniq_def)
  moreover have "AIScopes [UsageScope] = Some [UsageScope]" by (simp add: AIScopes_eq_Some aiKnown_def)
  ultimately show ?thesis
    by (simp add: aiUserEffectiveScopes_def aiService_def sampleAudience_def IsManagedAIGatewayAudience_def
        IsManagedAIGatewayAudienceRecord_def aiPermission_def)
qed

lemma ai_sample_exchange:
  "exchangeAIUser aiService () sampleCall aiRequest sampleUser [''exp'' \<mapsto> GoInt 1000] =
     Inr (bearer ''access-token'' 60 [UsageScope])"
proof -
  have g: "us_aiGateway aiService = Some sampleGateway" "us_jwt aiService = sampleJwt" "us_library aiService = sampleLibrary"
    "us_jwksKeyID aiService = ''k1''" "us_issuerBaseURL aiService = ''https://id''"
    by (simp_all add: aiService_def sampleService_def)
  have k: "getRSAPrivateKey aiService = Inr ()"
    by (simp add: getRSAPrivateKey_def ParseRSAPrivateKey_def aiService_def sampleService_def sampleJwt_def)
  have r: "aiReady (Some sampleGateway)" "agc_AccessTokenTTLSeconds (ax_cfg sampleGateway) = 120"
    by (simp_all add: aiReady_def sampleGateway_def newAIGatewayExchange_def)
  have tn: "aiTenant sampleLibrary sampleGateway () ''globex'' n = Inr sampleEpoch" if "1 \<le> n" for n
    using that by (simp add: aiTenant_def sampleGateway_def newAIGatewayExchange_def tenantIDPattern_def inLower_def
        inDigit_def activeTenant_def activeSample_def sampleLibrary_def sampleEpoch_def)
  have sg: "signAIClaims sampleJwt () ''k1'' c = Inr ''access-token''" for c
    by (simp add: signAIClaims_def sampleJwt_def)
  have au: "ax_authority sampleGateway = Some (\<lambda>w assertion. Inr \<lparr>ap_SchemaVersion = IdentityVersion,
      ap_TenantID = ''globex'', ap_TenantUID = ''globex'', ap_TenantEpoch = sampleEpoch, ap_Subject = ''u-1'',
      ap_PrincipalKind = ''User'', ap_Workload = None\<rparr>)" "ax_slotFree sampleGateway ()"
    by (simp_all add: sampleGateway_def newAIGatewayExchange_def)
  have id: "u_Id sampleUser = ''u-1''" by (simp add: sampleUser_def)
  have a: "\<exists>p. aiAuthorize sampleJwt sampleLibrary (Some sampleGateway) () sampleCall
       \<lparr>ai_SchemaVersion = IdentityVersion, ai_Kind = ''User'', ai_Subject = ''u-1'', ai_TenantID = ''globex'',
        ai_Scopes = [UsageScope], ai_Workload = None\<rparr> () ''https://id'' ''k1'' 5000000000 = Inr p"
    by (simp add: aiAuthorize_def r tn sg au principalMatches_def sampleCall_def)
  have sc: "aiRequestedScopes aiService () sampleUser aiRequest [UsageScope] = Inr [UsageScope]"
    by (simp add: aiRequestedScopes_def aiUserPermissions_def aiRequest_def ai_sample_scopes)
  have q: "AIScopes [UsageScope] = Some [UsageScope]" by (simp add: AIScopes_eq_Some aiKnown_def)
  have ttl: "aiTTL 120 60 1000000000000 5000000000 = 60000000000"
    by (simp add: aiTTL_def seconds_small timeSub_def truncateSecond_def)
  have rq: "te_Scopes aiRequest = [UsageScope]" "te_ScopeCeilingV1 aiRequest = None" "te_TTLSeconds aiRequest = 60"
    "te_TenantID aiRequest = ''globex''" "te_Audience aiRequest = AIGatewayAudienceClientID" "te_EventTypes aiRequest = []"
    "\<not> te_DiscoverTenantTargetsV1 aiRequest" "\<not> te_DiscoverTenantTargetsV2 aiRequest"
    by (simp_all add: aiRequest_def)
  have ex: "expirationTime sampleJwt [''exp'' \<mapsto> GoInt 1000] = Inr (Some 1000000000000)" "Unix (ev_now sampleCall) = 5"
    by (simp_all add: sampleJwt_def sampleCall_def Unix_def)
  from a show ?thesis
    by (auto simp: exchangeAIUser_def Let_def g k r rq q sc ex ttl sg id)
qed

theorem ai_exchange_bounded_witness:
  "\<exists>resp. exchangeAIUser aiService () sampleCall aiRequest sampleUser [''exp'' \<mapsto> GoInt 1000] = Inr resp \<and>
     ter_ExpiresIn resp = 60 \<and> ter_ExpiresIn resp \<le> 300 \<and> ter_Scopes resp = [UsageScope]"
  using ai_exchange_bounded [OF ai_sample_exchange] ai_sample_exchange by (simp add: bearer_def)

end
