(* ===== verification/Session.thy ===== *)
theory Session
  imports AI_Gateway
begin

text \<open>
  Sessions and accounts in \<^verbatim>\<open>internal/services/user_service.go\<close>, with \<^verbatim>\<open>subject_oob.go\<close>: issuing and validating the
  HS256 ID token, sign-in by password and by one-time code, lookup, account updates, status, revocation, one-time
  codes and password reset.

  An operation that may change the stored state returns its result with the new world. Reads of one call see the
  same world.
\<close>

section \<open>Requests and responses\<close>

record signInReq =
  si_Email :: string
  si_Password :: string

record signInWithOobCodeReq =
  sio_Email :: string
  sio_OobCode :: string

record signInResp =
  sir_IdToken :: string
  sir_Email :: string
  sir_LocalId :: string
  sir_ExpiresIn :: int

record userInfo =
  ui_LocalId :: string
  ui_Email :: string
  ui_Role :: string
  ui_Status :: string
  ui_Tenant :: string

record updateReq =
  up_IdToken :: string
  up_Email :: string
  up_Password :: string

record updateResp =
  upr_LocalId :: string
  upr_Email :: string

record statusResp =
  str_LocalId :: string
  str_Email :: string
  str_Status :: string

record revokeResp =
  rvr_LocalId :: string
  rvr_Email :: string
  rvr_TokenVersion :: int

record sendOobReq =
  so_RequestType :: string
  so_Email :: string

record sendOobResp =
  sor_Kind :: string
  sor_Email :: string
  sor_OobCode :: string

record sendOobTenantResp =
  sot_Kind :: string
  sot_Email :: string
  sot_RequestType :: string
  sot_ExpiresIn :: int
  sot_OobCode :: string

record resetPwdReq =
  rp_OobCode :: string
  rp_NewPassword :: string

section \<open>Construction\<close>

abbreviation platformAuthorityOriginClaim :: string where
  "platformAuthorityOriginClaim \<equiv> ''tikti_platform_authority_origin''"
abbreviation platformAuthorityOriginSAML :: string where
  "platformAuthorityOriginSAML \<equiv> ''saml-allowlist-v1''"
abbreviation temporaryPasswordDummyHash :: string where
  "temporaryPasswordDummyHash \<equiv> ''$2a$10$E0ITma.2mszCHfbNPAFTK.XtwO7m/I6pZzFSnlhYM6wbTc612RWze''"

definition WithIdentityDirectoryAccess ::
  "'w directoryRepository \<Rightarrow> ('w \<Rightarrow> string \<Rightarrow> string \<Rightarrow> int \<Rightarrow> int \<Rightarrow> bool res \<times> 'w) \<Rightarrow> ('w, 'k) userService \<Rightarrow>
   ('w, 'k) userService" where
  "WithIdentityDirectoryAccess access limiter s =
     s\<lparr>us_directoryAccess := Some access, us_authenticationAttempts := Some limiter\<rparr>"

definition WithAuthenticationRateLimits :: "rateLimits \<Rightarrow> ('w, 'k) userService \<Rightarrow> ('w, 'k) userService" where
  "WithAuthenticationRateLimits limits s =
     s\<lparr>us_authenticationRateLimits := effectiveAuthenticationRateLimits limits\<rparr>"

definition WithCurrentPlatformAdministrators ::
  "(string \<times> string) list \<Rightarrow> ('w, 'k) userService \<Rightarrow> ('w, 'k) userService" where
  "WithCurrentPlatformAdministrators administrators s =
     s\<lparr>us_platformAuthorityConfigured := True,
       us_platformAdministrators :=
         filter (\<lambda>k. k \<noteq> []) (map (\<lambda>(t, e). currentPlatformAdministratorKey (us_unicode s) t e) administrators)\<rparr>"

section \<open>Issuing ID tokens\<close>

definition putWhen :: "bool \<Rightarrow> string \<Rightarrow> jval \<Rightarrow> claims \<Rightarrow> claims" where
  "putWhen b k v c = (if b then c(k \<mapsto> v) else c)"

definition homeTenant :: "user \<Rightarrow> string" where
  "homeTenant u = (case u_CompanyId u of None \<Rightarrow> [] | Some company \<Rightarrow> TrimSpace company)"

definition idTokenClaims ::
  "('w, 'k) userService \<Rightarrow> user \<Rightarrow> string list \<Rightarrow> string \<Rightarrow> int \<Rightarrow> int \<Rightarrow> claims" where
  "idTokenClaims s u amr platformPrivilege nowUnix expiresUnix =
     putWhen (platformPrivilege \<noteq> []) PlatformPrivilegeClaim (JStr platformPrivilege)
     (putWhen (length amr > 0) ''amr'' (GoStrs amr)
     (putWhen (homeTenant u \<noteq> [] \<and> homeTenant u \<noteq> RetiredDefaultTenantID) ''tid'' (JStr (homeTenant u))
       [''sub'' \<mapsto> JStr (u_Id u), ''userId'' \<mapsto> JStr (u_Id u), ''email'' \<mapsto> JStr (u_Email u),
        ''role'' \<mapsto> JStr (effectiveUserRole (Some u) platformPrivilege), ''iss'' \<mapsto> JStr (us_issuerBaseURL s),
        ''aud'' \<mapsto> JStr (us_defaultAudience s), ''ver'' \<mapsto> GoInt (u_TokenVersion u),
        ''exp'' \<mapsto> GoInt expiresUnix, ''iat'' \<mapsto> GoInt nowUnix]))"

definition issueIDTokenWithPlatformPrivilegeUntil ::
  "('w, 'k) userService \<Rightarrow> callEnv \<Rightarrow> user option \<Rightarrow> string list \<Rightarrow> string \<Rightarrow> gotime \<Rightarrow> (string \<times> int) res" where
  "issueIDTokenWithPlatformPrivilegeUntil s E ou amr requestedPlatformPrivilege absoluteExpiry =
     (case ou of
        None \<Rightarrow> Inl ErrInvalidArgument
      | Some u \<Rightarrow>
          if u_Status u \<noteq> UserStatusActive then Inl ErrInvalidCreds
          else if u_PasswordChangeRequired u then Inl ErrPasswordChangeRequired
          else
            let now = ev_now E;
                hour = now + 3600000000000;
                expiresAt = (case absoluteExpiry of None \<Rightarrow> hour | Some a \<Rightarrow> if a < hour then a else hour) in
            if Unix expiresAt \<le> Unix now then Inl ErrInvalidArgument
            else
              (case signHS256 (us_jwt s)
                      (idTokenClaims s u amr (issuablePlatformPrivilege ou requestedPlatformPrivilege)
                         (Unix now) (Unix expiresAt)) (us_jwtSecret s) of
                 Inl e \<Rightarrow> Inl e
               | Inr signed \<Rightarrow> Inr (signed, Unix expiresAt - Unix now)))"

definition issueIDTokenWithPlatformPrivilege ::
  "('w, 'k) userService \<Rightarrow> callEnv \<Rightarrow> user option \<Rightarrow> string list \<Rightarrow> string \<Rightarrow> (string \<times> int) res" where
  "issueIDTokenWithPlatformPrivilege s E ou amr requested =
     issueIDTokenWithPlatformPrivilegeUntil s E ou amr requested None"

definition issueIDToken :: "('w, 'k) userService \<Rightarrow> callEnv \<Rightarrow> user option \<Rightarrow> string list \<Rightarrow> (string \<times> int) res" where
  "issueIDToken s E ou amr = issueIDTokenWithPlatformPrivilege s E ou amr []"

definition IssueIDTokenWithAMR ::
  "('w, 'k) userService \<Rightarrow> callEnv \<Rightarrow> user option \<Rightarrow> string list \<Rightarrow> string \<Rightarrow> (string \<times> int) res" where
  "IssueIDTokenWithAMR s E ou amr platformPrivilege = issueIDTokenWithPlatformPrivilege s E ou amr platformPrivilege"

definition IssueIDTokenWithAMRUntil ::
  "('w, 'k) userService \<Rightarrow> callEnv \<Rightarrow> user option \<Rightarrow> string list \<Rightarrow> string \<Rightarrow> gotime \<Rightarrow> (string \<times> int) res" where
  "IssueIDTokenWithAMRUntil s E ou amr platformPrivilege notOnOrAfter =
     (if notOnOrAfter = None then Inl ErrInvalidArgument
      else issueIDTokenWithPlatformPrivilegeUntil s E ou amr platformPrivilege notOnOrAfter)"

section \<open>Validating ID tokens\<close>

definition resolveCurrentTokenUser :: "('w, 'k) userService \<Rightarrow> 'w \<Rightarrow> string \<Rightarrow> string \<Rightarrow> user res" where
  "resolveCurrentTokenUser s w subject email =
     (let U = us_unicode s in
      if TrimSpace subject = [] \<or> TrimSpace email = [] then Inl ErrInvalidToken
      else
        (case usByID (us_repo s) of
           Some byID \<Rightarrow>
             (case idFindByID byID w subject of
                Inl _ \<Rightarrow> Inl ErrInvalidToken
              | Inr None \<Rightarrow> Inl ErrNotFound
              | Inr (Some u) \<Rightarrow>
                  if u_Id u \<noteq> subject \<or> \<not> EqualFold U (u_Email u) email then Inl ErrInvalidToken else Inr u)
         | None \<Rightarrow>
             (case usFindByEmail (us_repo s) w email of
                Inl _ \<Rightarrow> Inl ErrInvalidToken
              | Inr None \<Rightarrow> Inl ErrNotFound
              | Inr (Some u) \<Rightarrow>
                  if subject \<noteq> u_Id u \<and> \<not> EqualFold U subject (u_Email u) \<or> \<not> EqualFold U (u_Email u) email
                  then Inl ErrInvalidToken else Inr u)))"

definition currentPlatformAuthorityValid :: "('w, 'k) userService \<Rightarrow> user option \<Rightarrow> claims \<Rightarrow> bool" where
  "currentPlatformAuthorityValid s ou c =
     (let claimedPrivilege = claimStringValue c PlatformPrivilegeClaim;
          authorityOrigin = claimStringValue c platformAuthorityOriginClaim in
      if claimedPrivilege \<noteq> [] \<and> claimedPrivilege \<noteq> PlatformPrivilegeAdmin then False
      else if authorityOrigin \<noteq> [] \<and> authorityOrigin \<noteq> platformAuthorityOriginSAML then False
      else
        (case ou of
           None \<Rightarrow> authorityOrigin = [] \<and> claimedPrivilege = []
         | Some u \<Rightarrow>
             if u_AuthSource u \<noteq> AuthSourceSAML
             then authorityOrigin = [] \<and> (claimedPrivilege = [] \<or> u_Role u = RoleAdmin)
             else if \<not> (u_Role u = RoleAdmin \<or> claimedPrivilege = PlatformPrivilegeAdmin \<or>
                        authorityOrigin = platformAuthorityOriginSAML) then True
             else
               (case u_CompanyId u of
                  None \<Rightarrow> False
                | Some company \<Rightarrow>
                    if u_Role u \<noteq> RoleAdmin then False
                    else if \<not> us_platformAuthorityConfigured s then True
                    else currentPlatformAdministratorKey (us_unicode s) company (u_Email u)
                           \<in> set (us_platformAdministrators s))))"

definition validateCurrentIDToken ::
  "('w, 'k) userService \<Rightarrow> 'w \<Rightarrow> callEnv \<Rightarrow> string \<Rightarrow> string \<Rightarrow> string \<Rightarrow> (claims \<times> user) res" where
  "validateCurrentIDToken s w E tokenString issuer audience =
     (case ParseToken (us_jwt s) (ev_parseTime E) (ev_checkTime E) tokenString (us_jwtSecret s) of
        Inl _ \<Rightarrow> Inl ErrInvalidToken
      | Inr c \<Rightarrow>
          if issuer \<noteq> [] \<and> claimStringValue c ''iss'' \<noteq> issuer then Inl ErrInvalidToken
          else if \<not> tokenHasAudience c audience then Inl ErrInvalidToken
          else let subject = claimStringValue c ''sub''; email = claimStringValue c ''email'';
                   tid = claimStringValue c ''tid'' in
            if TrimSpace subject = [] \<or> TrimSpace email = [] then Inl ErrInvalidToken
            else
              (case resolveCurrentTokenUser s w subject email of
                 Inl e \<Rightarrow> Inl e
               | Inr u \<Rightarrow>
                   if usByID (us_repo s) \<noteq> None \<and> u_AuthSource u = AuthSourceSAML \<and> tid \<noteq> homeTenant u
                   then Inl ErrInvalidToken
                   else if tid \<noteq> [] \<and> (case us_tenantRepo s of None \<Rightarrow> False | Some T \<Rightarrow> \<not> tenantIsActive T w tid)
                   then Inl ErrInvalidToken
                   else if u_Status u \<noteq> UserStatusActive then Inl ErrInvalidCreds
                   else if u_PasswordChangeRequired u then Inl ErrPasswordChangeRequired
                   else if \<not> currentPlatformAuthorityValid s (Some u) c then Inl ErrInvalidToken
                   else if tokenVersion c \<noteq> Some (u_TokenVersion u) then Inl ErrInvalidToken
                   else Inr (c, u)))"

definition ValidateIDToken ::
  "('w, 'k) userService \<Rightarrow> 'w \<Rightarrow> callEnv \<Rightarrow> string \<Rightarrow> string \<Rightarrow> string \<Rightarrow> claims res" where
  "ValidateIDToken s w E tokenString issuer audience =
     (case validateCurrentIDToken s w E tokenString issuer audience of Inl e \<Rightarrow> Inl e | Inr (c, _) \<Rightarrow> Inr c)"

section \<open>Signing in\<close>

definition signInResponse :: "user \<Rightarrow> (string \<times> int) res \<Rightarrow> signInResp res" where
  "signInResponse u r =
     (case r of
        Inl e \<Rightarrow> Inl e
      | Inr (signed, expiresIn) \<Rightarrow>
          Inr \<lparr>sir_IdToken = signed, sir_Email = u_Email u, sir_LocalId = u_Id u, sir_ExpiresIn = expiresIn\<rparr>)"

definition signInUser :: "('w, 'k) userService \<Rightarrow> 'w \<Rightarrow> callEnv \<Rightarrow> string \<Rightarrow> string \<Rightarrow> signInResp res" where
  "signInUser s w E email password =
     (let eligible = (case usFindByEmail (us_repo s) w email of
            Inr (Some u) \<Rightarrow> if u_Status u = UserStatusActive \<and> passwordCredentialEligible u then Some u else None
          | _ \<Rightarrow> None);
          passwordHash = (case eligible of Some u \<Rightarrow> u_Password u | None \<Rightarrow> temporaryPasswordDummyHash);
          verified = us_verifyPassword s passwordHash password in
      case eligible of
        None \<Rightarrow> Inl ErrInvalidCreds
      | Some u \<Rightarrow>
          if \<not> verified then Inl ErrInvalidCreds
          else if u_PasswordChangeRequired u \<and> us_directoryAccess s = None then Inl ErrInvalidCreds
          else if u_PasswordChangeRequired u then Inl ErrPasswordChangeRequired
          else signInResponse u (issueIDToken s E (Some u) []))"

definition SignIn :: "('w, 'k) userService \<Rightarrow> 'w \<Rightarrow> callEnv \<Rightarrow> signInReq \<Rightarrow> signInResp res \<times> 'w" where
  "SignIn s w E req =
     (let email = normalizeIdentityEmail (us_unicode s) (si_Email req) in
      case allowBoth s w ''password:ip'' (ev_clientIP E) ''password:email'' email
             (rls_Login (us_authenticationRateLimits s)) of
        (Inl _, w1) \<Rightarrow> (Inl ErrInvalidCreds, w1)
      | (Inr False, w1) \<Rightarrow> (Inl ErrRateLimited, w1)
      | (Inr True, w1) \<Rightarrow> (signInUser s w1 E email (si_Password req), w1))"

section \<open>One-time codes\<close>

abbreviation requestPasswordReset :: string where "requestPasswordReset \<equiv> ''PASSWORD_RESET''"
abbreviation requestEmailSignIn :: string where "requestEmailSignIn \<equiv> ''EMAIL_SIGNIN''"

definition saveAccountOOB ::
  "('w, 'k) userService \<Rightarrow> 'w \<Rightarrow> string \<Rightarrow> user \<Rightarrow> string \<Rightarrow> gerror option \<times> 'w" where
  "saveAccountOOB s w code u request =
     (case usSubjectOOB (us_repo s) of
        Some bound \<Rightarrow>
          sobSave bound w code \<lparr>ob_UserID = u_Id u, ob_Email = u_Email u, ob_TokenVersion = u_TokenVersion u\<rparr> request
      | None \<Rightarrow> usSaveOobCode (us_repo s) w code (u_Email u) request)"

definition boundAccount :: "('w, 'k) userService \<Rightarrow> 'w \<Rightarrow> oobSubject \<Rightarrow> user res" where
  "boundAccount s w proof =
     (case usByID (us_repo s) of
        None \<Rightarrow> Inl ErrInvalidOob
      | Some subjects \<Rightarrow>
          (case idFindByID subjects w (ob_UserID proof) of
             Inl e \<Rightarrow> Inl e
           | Inr None \<Rightarrow> Inl ErrInvalidOob
           | Inr (Some u) \<Rightarrow>
               if u_Id u \<noteq> ob_UserID proof \<or> u_Email u \<noteq> ob_Email proof \<or>
                  u_TokenVersion u \<noteq> ob_TokenVersion proof \<or> u_Status u \<noteq> UserStatusActive \<or>
                  \<not> passwordCredentialEligible u
               then Inl ErrInvalidOob else Inr u))"

definition consumeAccountOOB ::
  "('w, 'k) userService \<Rightarrow> 'w \<Rightarrow> string \<Rightarrow> string \<Rightarrow> user res \<times> 'w" where
  "consumeAccountOOB s w code request =
     (case usSubjectOOB (us_repo s) of
        Some bound \<Rightarrow>
          (case sobConsume bound w code request of
             (Inl e, w1) \<Rightarrow> (Inl e, w1)
           | (Inr proof, w1) \<Rightarrow> (boundAccount s w1 proof, w1))
      | None \<Rightarrow>
          (case usConsumeOobCode (us_repo s) w code request of
             (Inl e, w1) \<Rightarrow> (Inl e, w1)
           | (Inr email, w1) \<Rightarrow>
               ((case usFindByEmail (us_repo s) w1 email of
                   Inr (Some u) \<Rightarrow> Inr u
                 | _ \<Rightarrow> if request = requestEmailSignIn then Inl ErrInvalidCreds else Inl ErrNotFound), w1)))"

definition SignInWithOobCode ::
  "('w, 'k) userService \<Rightarrow> 'w \<Rightarrow> callEnv \<Rightarrow> signInWithOobCodeReq \<Rightarrow> signInResp res \<times> 'w" where
  "SignInWithOobCode s w E req =
     (let email = normalizeIdentityEmail (us_unicode s) (sio_Email req); code = TrimSpace (sio_OobCode req) in
      if email = [] \<or> code = [] then (Inl ErrInvalidArgument, w)
      else
        (case allowBoth s w ''oob-signin:ip'' (ev_clientIP E) ''oob-signin:email'' email
                (rls_OOBSignIn (us_authenticationRateLimits s)) of
           (Inl _, w1) \<Rightarrow> (Inl ErrAuthenticationUnavailable, w1)
         | (Inr False, w1) \<Rightarrow> (Inl ErrRateLimited, w1)
         | (Inr True, w1) \<Rightarrow>
             (case consumeAccountOOB s w1 code requestEmailSignIn of
                (Inl e, w2) \<Rightarrow>
                  (if errors_Is e ErrInvalidOob \<or> errors_Is e ErrInvalidCreds then (Inl e, w2)
                   else (Inl ErrAuthenticationUnavailable, w2))
              | (Inr u, w2) \<Rightarrow>
                  (if \<not> EqualFold (us_unicode s) (u_Email u) email then Inl ErrInvalidOob
                   else if u_Status u \<noteq> UserStatusActive then Inl ErrInvalidCreds
                   else if \<not> passwordCredentialEligible u then Inl ErrInvalidCreds
                   else if u_PasswordChangeRequired u then Inl ErrPasswordChangeRequired
                   else signInResponse u (issueIDToken s E (Some u) []), w2))))"

definition canonicalRequestType :: "go_unicode \<Rightarrow> string \<Rightarrow> string option" where
  "canonicalRequestType U r =
     (let reqType = TrimSpace (ToUpper U r) in
      if reqType = requestPasswordReset \<or> reqType = requestEmailSignIn then Some reqType else None)"

definition oobResponse :: "string \<Rightarrow> string \<Rightarrow> sendOobResp" where
  "oobResponse email code =
     \<lparr>sor_Kind = ''identitytoolkit#GetOobConfirmationCodeResponse'', sor_Email = email, sor_OobCode = code\<rparr>"

definition SendOob :: "('w, 'k) userService \<Rightarrow> 'w \<Rightarrow> callEnv \<Rightarrow> sendOobReq \<Rightarrow> sendOobResp res \<times> 'w" where
  "SendOob s w E req =
     (case canonicalRequestType (us_unicode s) (so_RequestType req) of
        None \<Rightarrow> (Inl ErrInvalidArgument, w)
      | Some reqType \<Rightarrow>
          let email = normalizeIdentityEmail (us_unicode s) (so_Email req) in
          if email = [] then (Inl ErrInvalidArgument, w)
          else
            (case allowAuthenticationAttempt s w ''oob-send:email'' email (rls_OOB (us_authenticationRateLimits s)) of
               (Inl _, w1) \<Rightarrow> (Inl ErrAuthenticationUnavailable, w1)
             | (Inr False, w1) \<Rightarrow> (Inl ErrRateLimited, w1)
             | (Inr True, w1) \<Rightarrow>
                 (case (case usFindByEmail (us_repo s) w1 email of
                          Inr (Some u) \<Rightarrow>
                            if u_Status u = UserStatusActive \<and> passwordCredentialEligible u then Some u else None
                        | _ \<Rightarrow> None) of
                    None \<Rightarrow>
                      ((if reqType = requestEmailSignIn then Inr (oobResponse email (ev_uuid E 0))
                        else Inl ErrNotFound), w1)
                  | Some u \<Rightarrow>
                      (case saveAccountOOB s w1 (ev_uuid E 0) u reqType of
                         (Some e, w2) \<Rightarrow> (Inl e, w2)
                       | (None, w2) \<Rightarrow> (Inr (oobResponse email (ev_uuid E 0)), w2)))))"

text \<open>Whether the tenant may act on the account: effective roles, a legacy membership, or the exact company.\<close>

definition tenantMayAct :: "('w, 'k) userService \<Rightarrow> 'w \<Rightarrow> string \<Rightarrow> user \<Rightarrow> bool res" where
  "tenantMayAct s w tenantID u =
     (let company = (u_CompanyId u = Some tenantID) in
      case us_directoryAccess s of
        Some d \<Rightarrow>
          (case dirGetEffectiveTenantRoles d w (u_Id u) tenantID of
             Inl e \<Rightarrow> Inl e | Inr roles \<Rightarrow> Inr (length roles \<noteq> 0 \<or> company))
      | None \<Rightarrow>
          (case us_membershipRepo s of
             Some M \<Rightarrow>
               (case mbGet M w tenantID (u_Id u) of Inl e \<Rightarrow> Inl e | Inr om \<Rightarrow> Inr (om \<noteq> None \<or> company))
           | None \<Rightarrow> Inr company))"

definition oobTenantResponse :: "string \<Rightarrow> string \<Rightarrow> string \<Rightarrow> sendOobTenantResp" where
  "oobTenantResponse email reqType code =
     \<lparr>sot_Kind = ''tikti#SendOobResponse'', sot_Email = email, sot_RequestType = reqType, sot_ExpiresIn = 900,
      sot_OobCode = code\<rparr>"

definition SendOobForTenant ::
  "('w, 'k) userService \<Rightarrow> 'w \<Rightarrow> callEnv \<Rightarrow> string \<Rightarrow> sendOobReq \<Rightarrow> sendOobTenantResp res \<times> 'w" where
  "SendOobForTenant s w E tenantID0 req =
     (let tenantID = TrimSpace tenantID0 in
      if tenantID = [] then (Inl ErrInvalidTenant, w)
      else
        (case canonicalRequestType (us_unicode s) (so_RequestType req) of
           None \<Rightarrow> (Inl ErrInvalidArgument, w)
         | Some reqType \<Rightarrow>
             let email = normalizeIdentityEmail (us_unicode s) (so_Email req);
                 reply = oobTenantResponse email reqType (ev_uuid E 0);
                 concealed = (\<lambda>e. if reqType = requestPasswordReset then Inl e else Inr reply) in
             if email = [] then (Inl ErrInvalidArgument, w)
             else
               (case allowAuthenticationAttempt s w ''oob-send:email'' email (rls_OOB (us_authenticationRateLimits s)) of
                  (Inl _, w1) \<Rightarrow> (Inl ErrAuthenticationUnavailable, w1)
                | (Inr False, w1) \<Rightarrow> (Inl ErrRateLimited, w1)
                | (Inr True, w1) \<Rightarrow>
                    (case usFindByEmail (us_repo s) w1 email of
                       Inl e \<Rightarrow> (Inl e, w1)
                     | Inr None \<Rightarrow> (concealed ErrNotFound, w1)
                     | Inr (Some u) \<Rightarrow>
                         if u_Status u \<noteq> UserStatusActive \<or> \<not> passwordCredentialEligible u
                         then (concealed ErrNotFound, w1)
                         else
                           (case tenantMayAct s w1 tenantID u of
                              Inl e \<Rightarrow> (Inl e, w1)
                            | Inr False \<Rightarrow> (concealed ErrInvalidTenant, w1)
                            | Inr True \<Rightarrow>
                                (case saveAccountOOB s w1 (ev_uuid E 0) u reqType of
                                   (Some e, w2) \<Rightarrow> (Inl e, w2)
                                 | (None, w2) \<Rightarrow> (Inr reply, w2)))))))"

section \<open>Accounts\<close>

definition withPassword :: "string \<Rightarrow> user \<Rightarrow> user" where
  "withPassword hash u =
     u\<lparr>u_Password := hash, u_PasswordChangeRequired := False, u_TokenVersion := u_TokenVersion u + 1\<rparr>"

definition ResetPassword :: "('w, 'k) userService \<Rightarrow> 'w \<Rightarrow> callEnv \<Rightarrow> resetPwdReq \<Rightarrow> gerror option \<times> 'w" where
  "ResetPassword s w E req =
     (let code = TrimSpace (rp_OobCode req) in
      if code = [] \<or> \<not> validDirectoryPassword (rp_NewPassword req) then (Some ErrInvalidArgument, w)
      else
        (case consumeAccountOOB s w code requestPasswordReset of
           (Inl e, w1) \<Rightarrow> (Some (if errors_Is e ErrNotFound then ErrNotFound else ErrInvalidOob), w1)
         | (Inr u, w1) \<Rightarrow>
             if \<not> passwordCredentialEligible u then (Some ErrNotFound, w1)
             else
               (case ev_GenerateFromPassword E (rp_NewPassword req) of
                  Inl _ \<Rightarrow> (Some ErrInvalidArgument, w1)
                | Inr hash \<Rightarrow> usUpdateUser (us_repo s) w1 (withPassword hash u))))"

definition UpdateUser :: "('w, 'k) userService \<Rightarrow> 'w \<Rightarrow> callEnv \<Rightarrow> updateReq \<Rightarrow> updateResp res \<times> 'w" where
  "UpdateUser s w E req =
     (case validateCurrentIDToken s w E (up_IdToken req) (us_issuerBaseURL s) (us_defaultAudience s) of
        Inl e \<Rightarrow> (Inl e, w)
      | Inr (_, u0) \<Rightarrow>
          let u1 = (if up_Email req \<noteq> [] then u0\<lparr>u_Email := up_Email req\<rparr> else u0) in
          (case (if up_Password req = [] then Inr u1
                 else if \<not> passwordCredentialEligible u1 then Inl ErrInvalidArgument
                 else if \<not> validDirectoryPassword (up_Password req) then Inl ErrInvalidArgument
                 else (case ev_GenerateFromPassword E (up_Password req) of
                         Inl _ \<Rightarrow> Inl ErrInvalidArgument | Inr hash \<Rightarrow> Inr (withPassword hash u1))) of
             Inl e \<Rightarrow> (Inl e, w)
           | Inr u2 \<Rightarrow>
               (case usUpdateUser (us_repo s) w u2 of
                  (Some e, w1) \<Rightarrow> (Inl e, w1)
                | (None, w1) \<Rightarrow> (Inr \<lparr>upr_LocalId = u_Id u2, upr_Email = u_Email u2\<rparr>, w1))))"

definition DeleteUser :: "('w, 'k) userService \<Rightarrow> 'w \<Rightarrow> callEnv \<Rightarrow> string \<Rightarrow> gerror option \<times> 'w" where
  "DeleteUser s w E idToken =
     (case validateCurrentIDToken s w E idToken (us_issuerBaseURL s) (us_defaultAudience s) of
        Inl e \<Rightarrow> (Some e, w)
      | Inr (_, u) \<Rightarrow>
          if u_AuthSource u = AuthSourceSAML then (Some ErrInvalidArgument, w)
          else usDeleteByEmail (us_repo s) w (u_Email u))"

definition SetStatus :: "('w, 'k) userService \<Rightarrow> 'w \<Rightarrow> string \<Rightarrow> string \<Rightarrow> statusResp res \<times> 'w" where
  "SetStatus s w email0 status0 =
     (let email = TrimSpace email0; status = TrimSpace (ToUpper (us_unicode s) status0) in
      if email = [] \<or> status = [] then (Inl ErrInvalidArgument, w)
      else if status \<noteq> UserStatusActive \<and> status \<noteq> UserStatusInactive \<and> status \<noteq> UserStatusSuspended
      then (Inl ErrInvalidArgument, w)
      else
        (case usSetStatus (us_repo s) w email status of
           (Inl e, w1) \<Rightarrow> (Inl e, w1)
         | (Inr u, w1) \<Rightarrow> (Inr \<lparr>str_LocalId = u_Id u, str_Email = u_Email u, str_Status = u_Status u\<rparr>, w1)))"

definition RevokeTokens :: "('w, 'k) userService \<Rightarrow> 'w \<Rightarrow> string \<Rightarrow> string \<Rightarrow> string \<Rightarrow> revokeResp res \<times> 'w" where
  "RevokeTokens s w email0 tenantID0 scope0 =
     (let email = TrimSpace email0; tenantID = TrimSpace tenantID0;
          scope1 = TrimSpace (ToLower (us_unicode s) scope0);
          scope = (if scope1 = [] then ''global'' else scope1) in
      if email = [] then (Inl ErrInvalidArgument, w)
      else if scope \<noteq> ''global'' \<or> tenantID \<noteq> [] then (Inl ErrInvalidArgument, w)
      else
        (case usIncrementTokenVersion (us_repo s) w email of
           (Inl e, w1) \<Rightarrow> (Inl e, w1)
         | (Inr (ver, u), w1) \<Rightarrow>
             (Inr \<lparr>rvr_LocalId = u_Id u, rvr_Email = u_Email u, rvr_TokenVersion = ver\<rparr>, w1)))"

definition RevokeIDTokenSubject :: "('w, 'k) userService \<Rightarrow> 'w \<Rightarrow> string \<Rightarrow> gerror option \<times> 'w" where
  "RevokeIDTokenSubject s w subject =
     (case usByID (us_repo s) of
        None \<Rightarrow> (Some ErrInvalidArgument, w)
      | Some byID \<Rightarrow>
          if TrimSpace subject = [] then (Some ErrInvalidArgument, w)
          else (case idIncrementTokenVersionByID byID w subject of
                  (Inl e, w1) \<Rightarrow> (Some e, w1) | (Inr _, w1) \<Rightarrow> (None, w1)))"

section \<open>Lookup\<close>

definition listTenantIDs :: "('w, 'k) userService \<Rightarrow> 'w \<Rightarrow> string \<Rightarrow> string list" where
  "listTenantIDs s w userID =
     (if us_directoryAccess s \<noteq> None \<and> userID \<noteq> [] then
        (case dirListEffectiveTenantIDs (the (us_directoryAccess s)) w userID maximumMembershipsScanned of
           Inr (ids, exceeded) \<Rightarrow> if exceeded then [] else withoutRetiredDefaultTenant ids
         | Inl _ \<Rightarrow> [])
      else
        (case us_membershipRepo s of
           None \<Rightarrow> []
         | Some M \<Rightarrow>
             if userID = [] then []
             else (case mbListTenantIDsByUser M w userID of
                     Inl _ \<Rightarrow> [] | Inr ids \<Rightarrow> sort (withoutRetiredDefaultTenant ids))))"

definition resolveTenantID :: "('w, 'k) userService \<Rightarrow> 'w \<Rightarrow> user \<Rightarrow> string" where
  "resolveTenantID s w u =
     (case listTenantIDs s w (u_Id u) of
        i # _ \<Rightarrow> i
      | [] \<Rightarrow> let tenantID = derefString (u_CompanyId u) in if tenantID = RetiredDefaultTenantID then [] else tenantID)"

definition Lookup :: "('w, 'k) userService \<Rightarrow> 'w \<Rightarrow> callEnv \<Rightarrow> string \<Rightarrow> userInfo list res \<times> 'w" where
  "Lookup s w E idToken =
     (case allowAuthenticationAttempt s w ''lookup:api-key'' (ev_apiKeyID E) (rls_Lookup (us_authenticationRateLimits s)) of
        (Inl _, w1) \<Rightarrow> (Inl ErrAuthenticationUnavailable, w1)
      | (Inr False, w1) \<Rightarrow> (Inl ErrRateLimited, w1)
      | (Inr True, w1) \<Rightarrow>
          ((case validateCurrentIDToken s w1 E idToken (us_issuerBaseURL s) (us_defaultAudience s) of
              Inl e \<Rightarrow> Inl e
            | Inr (_, u) \<Rightarrow>
                Inr [\<lparr>ui_LocalId = u_Id u, ui_Email = u_Email u, ui_Role = effectiveUserRole (Some u) [],
                      ui_Status = u_Status u, ui_Tenant = resolveTenantID s w1 u\<rparr>]), w1))"

section \<open>What the JWT library promises\<close>

text \<open>
  Signing encodes the claims as JSON and parsing decodes them: numbers come back as \<^verbatim>\<open>float64\<close>, which is exact for the
  integers the service signs, and string slices as arrays. Parsing accepts a token before its expiry. The claims of a
  token do not depend on when it is parsed.
\<close>

fun jsonValue :: "jval \<Rightarrow> jval" where
  "jsonValue (GoInt n) = JNum (of_int n)"
| "jsonValue (GoStrs ss) = JArr (map JStr ss)"
| "jsonValue v = v"

definition jsonClaims :: "claims \<Rightarrow> claims" where
  "jsonClaims c = (\<lambda>k. map_option jsonValue (c k))"

definition exactInts :: "claims \<Rightarrow> bool" where
  "exactInts c \<longleftrightarrow> (\<forall>k n. c k = Some (GoInt n) \<longrightarrow> \<bar>n\<bar> \<le> 2 ^ 53)"

definition jwtRoundtrip :: "'k jwtlib \<Rightarrow> bool" where
  "jwtRoundtrip J \<longleftrightarrow>
     (\<forall>c key tok now ex. signHS256 J c key = Inr tok \<and> exactInts c \<and> c ''nbf'' = None \<and>
        c ''exp'' = Some (GoInt ex) \<and> now < ex * 1000000000 \<longrightarrow>
        tok \<noteq> [] \<and> TrimSpace tok = tok \<and> parseHS256 J tok key now = Some (jsonClaims c)) \<and>
     (\<forall>kid c key tok now ex. signRS256 J kid c key = Inr tok \<and> exactInts c \<and> c ''nbf'' = None \<and>
        c ''exp'' = Some (GoInt ex) \<and> now < ex * 1000000000 \<longrightarrow>
        tok \<noteq> [] \<and> TrimSpace tok = tok \<and> parseRS256 J tok key now = Some (jsonClaims c)) \<and>
     (\<forall>c n. c ''exp'' = Some (JNum (of_int n)) \<and> \<bar>n\<bar> \<le> 2 ^ 53 \<longrightarrow> expirationTime J c = Inr (Some (n * 1000000000)))"

definition parseStable :: "'k jwtlib \<Rightarrow> bool" where
  "parseStable J \<longleftrightarrow>
     (\<forall>tok key now now' c c'. parseHS256 J tok key now = Some c \<and> parseHS256 J tok key now' = Some c' \<longrightarrow> c = c') \<and>
     (\<forall>tok key now now' c c'. parseRS256 J tok key now = Some c \<and> parseRS256 J tok key now' = Some c' \<longrightarrow> c = c')"

definition foldReflexive :: "go_unicode \<Rightarrow> bool" where
  "foldReflexive U \<longleftrightarrow> (\<forall>x. foldEqual U x x)"

section \<open>Lemmas\<close>

lemma EqualFold_refl: "foldReflexive U \<Longrightarrow> EqualFold U x x"
  by (induction x) (auto simp: foldReflexive_def)

lemma claimStringValue_jsonClaims [simp]: "claimStringValue (jsonClaims c) k = claimStringValue c k"
  by (auto simp: claimStringValue_def jsonClaims_def split: option.splits jval.splits elim: jsonValue.elims)

lemma putWhen_apply: "putWhen b k v c k' = (if b \<and> k' = k then Some v else c k')"
  by (simp add: putWhen_def)

lemma claimStringValue_putWhen:
  "claimStringValue (putWhen b k v c) k' =
     (if b \<and> k' = k then (case v of JStr s \<Rightarrow> s | _ \<Rightarrow> []) else claimStringValue c k')"
  by (simp add: putWhen_def)

lemma resolveCurrentTokenUser_byID:
  assumes "resolveCurrentTokenUser s w subject email = Inr u" "usByID (us_repo s) = Some byID"
  shows "idFindByID byID w subject = Inr (Some u)" "u_Id u = subject"
  using assms by (auto simp: resolveCurrentTokenUser_def Let_def split: if_splits sum.splits option.splits)

lemma resolveCurrentTokenUser_email:
  "resolveCurrentTokenUser s w subject email = Inr u \<Longrightarrow>
   TrimSpace subject \<noteq> [] \<and> TrimSpace email \<noteq> [] \<and> EqualFold (us_unicode s) (u_Email u) email"
  by (auto simp: resolveCurrentTokenUser_def Let_def split: if_splits sum.splits option.splits)

lemma validateCurrentIDToken_Inr:
  "validateCurrentIDToken s w E tok issuer audience = Inr (c, u) \<longleftrightarrow>
     ParseToken (us_jwt s) (ev_parseTime E) (ev_checkTime E) tok (us_jwtSecret s) = Inr c \<and>
     (issuer = [] \<or> claimStringValue c ''iss'' = issuer) \<and> tokenHasAudience c audience \<and>
     resolveCurrentTokenUser s w (claimStringValue c ''sub'') (claimStringValue c ''email'') = Inr u \<and>
     (usByID (us_repo s) \<noteq> None \<and> u_AuthSource u = AuthSourceSAML \<longrightarrow> claimStringValue c ''tid'' = homeTenant u) \<and>
     (claimStringValue c ''tid'' \<noteq> [] \<longrightarrow>
        (case us_tenantRepo s of None \<Rightarrow> True | Some T \<Rightarrow> tenantIsActive T w (claimStringValue c ''tid''))) \<and>
     u_Status u = UserStatusActive \<and> \<not> u_PasswordChangeRequired u \<and> currentPlatformAuthorityValid s (Some u) c \<and>
     tokenVersion c = Some (u_TokenVersion u)"
proof -
  have t: "(case us_tenantRepo s of None \<Rightarrow> False | Some T \<Rightarrow> \<not> tenantIsActive T w t) \<longleftrightarrow>
      \<not> (case us_tenantRepo s of None \<Rightarrow> True | Some T \<Rightarrow> tenantIsActive T w t)" for t
    by (simp split: option.splits)
  show ?thesis (is "?L \<longleftrightarrow> ?R")
  proof
    assume ?L
    then show ?R
      unfolding validateCurrentIDToken_def Let_def bind_Inr guard_Inr sum.inject prod.inject t
      by (elim exE conjE) (simp only: simp_thms de_Morgan_conj not_not imp_conv_disj disj_assoc)
  next
    assume R: ?R
    then have "resolveCurrentTokenUser s w (claimStringValue c ''sub'') (claimStringValue c ''email'') = Inr u" by simp
    from resolveCurrentTokenUser_email [OF this]
    have "TrimSpace (claimStringValue c ''sub'') \<noteq> []" "TrimSpace (claimStringValue c ''email'') \<noteq> []" by simp_all
    with R show ?L
      unfolding validateCurrentIDToken_def Let_def bind_Inr guard_Inr sum.inject prod.inject t
      by (elim conjE) (simp only: sum.inject simp_thms de_Morgan_conj de_Morgan_disj not_not imp_conv_disj disj_assoc)
  qed
qed

lemma issueIDToken_Inr:
  assumes "issueIDTokenWithPlatformPrivilegeUntil s E ou amr requested expiry = Inr (tok, secs)"
  obtains u where "ou = Some u" "u_Status u = UserStatusActive" "\<not> u_PasswordChangeRequired u"
    "1 \<le> secs" "secs \<le> 3600"
    "case expiry of None \<Rightarrow> True | Some a \<Rightarrow> Unix (ev_now E) + secs \<le> Unix a"
    "signHS256 (us_jwt s) (idTokenClaims s u amr (issuablePlatformPrivilege ou requested) (Unix (ev_now E))
       (Unix (ev_now E) + secs)) (us_jwtSecret s) = Inr tok"
proof -
  from assms obtain u where u: "ou = Some u" "u_Status u = UserStatusActive" "\<not> u_PasswordChangeRequired u"
    by (auto simp: issueIDTokenWithPlatformPrivilegeUntil_def split: option.splits if_splits)
  let ?hour = "ev_now E + 3600000000000"
  define dl where "dl = (case expiry of None \<Rightarrow> ?hour | Some a \<Rightarrow> if a < ?hour then a else ?hour)"
  from assms u have 1: "Unix (ev_now E) < Unix dl" "secs = Unix dl - Unix (ev_now E)"
    and 2: "signHS256 (us_jwt s) (idTokenClaims s u amr (issuablePlatformPrivilege ou requested) (Unix (ev_now E))
      (Unix dl)) (us_jwtSecret s) = Inr tok"
    by (auto simp: issueIDTokenWithPlatformPrivilegeUntil_def Let_def dl_def not_le split: if_splits sum.splits)
  have "dl \<le> ?hour" by (auto simp: dl_def split: option.splits)
  then have "Unix dl \<le> Unix ?hour" by (simp add: Unix_def zdiv_mono1)
  also have "Unix ?hour = Unix (ev_now E) + 3600" by (simp add: Unix_def)
  finally have "secs \<le> 3600" using 1 by simp
  moreover have "case expiry of None \<Rightarrow> True | Some a \<Rightarrow> dl \<le> a" by (auto simp: dl_def split: option.splits)
  then have "case expiry of None \<Rightarrow> True | Some a \<Rightarrow> Unix dl \<le> Unix a" by (auto simp: Unix_def zdiv_mono1 split: option.splits)
  ultimately show thesis using that [OF u] 1 2 by (auto split: option.splits)
qed

lemma idTokenClaims_strings:
  "claimStringValue (idTokenClaims s u amr priv n x) ''sub'' = u_Id u"
  "claimStringValue (idTokenClaims s u amr priv n x) ''email'' = u_Email u"
  "claimStringValue (idTokenClaims s u amr priv n x) ''role'' = effectiveUserRole (Some u) priv"
  "claimStringValue (idTokenClaims s u amr priv n x) ''iss'' = us_issuerBaseURL s"
  "claimStringValue (idTokenClaims s u amr priv n x) ''tid'' =
     (if homeTenant u = RetiredDefaultTenantID then [] else homeTenant u)"
  "claimStringValue (idTokenClaims s u amr priv n x) PlatformPrivilegeClaim = priv"
  "claimStringValue (idTokenClaims s u amr priv n x) platformAuthorityOriginClaim = []"
  by (simp_all add: idTokenClaims_def claimStringValue_putWhen) (simp_all add: claimStringValue_def)

lemma idTokenClaims_apply:
  "idTokenClaims s u amr priv n x ''exp'' = Some (GoInt x)"
  "idTokenClaims s u amr priv n x ''ver'' = Some (GoInt (u_TokenVersion u))"
  "idTokenClaims s u amr priv n x ''aud'' = Some (JStr (us_defaultAudience s))"
  "idTokenClaims s u amr priv n x ''nbf'' = None"
  by (simp_all add: idTokenClaims_def putWhen_apply)

lemma idTokenClaims_exactInts:
  assumes "\<bar>u_TokenVersion u\<bar> \<le> 2 ^ 53" "\<bar>n\<bar> \<le> 2 ^ 53" "\<bar>x\<bar> \<le> 2 ^ 53"
  shows "exactInts (idTokenClaims s u amr priv n x)"
  using assms
  by (auto simp: exactInts_def idTokenClaims_def putWhen_apply split: if_splits)

text \<open>A federated administrator is current while the server allowlist names the address in its tenant.\<close>

definition platformCurrent :: "('w, 'k) userService \<Rightarrow> user \<Rightarrow> bool" where
  "platformCurrent s u \<longleftrightarrow>
     (u_AuthSource u = AuthSourceSAML \<and> u_Role u = RoleAdmin \<longrightarrow>
        (case u_CompanyId u of
           None \<Rightarrow> False
         | Some company \<Rightarrow>
             us_platformAuthorityConfigured s \<longrightarrow>
             currentPlatformAdministratorKey (us_unicode s) company (u_Email u) \<in> set (us_platformAdministrators s)))"

lemma currentPlatformAuthorityValid_issued:
  assumes "claimStringValue c PlatformPrivilegeClaim = issuablePlatformPrivilege (Some u) r"
    and "claimStringValue c platformAuthorityOriginClaim = []"
  shows "currentPlatformAuthorityValid s (Some u) c \<longleftrightarrow> platformCurrent s u"
proof -
  have "issuablePlatformPrivilege (Some u) r = [] \<or>
      issuablePlatformPrivilege (Some u) r = PlatformPrivilegeAdmin \<and> u_AuthSource u = AuthSourceSAML \<and> u_Role u = RoleAdmin"
    by (simp add: issuablePlatformPrivilege_def)
  then show ?thesis
    unfolding currentPlatformAuthorityValid_def platformCurrent_def Let_def assms
    by (auto split: option.splits)
qed

lemma currentPlatformAuthorityValid_current:
  "currentPlatformAuthorityValid s (Some u) c \<Longrightarrow> platformCurrent s u"
  by (auto simp: currentPlatformAuthorityValid_def platformCurrent_def Let_def split: if_splits option.splits)

section \<open>Properties\<close>

text \<open>
  C20. A session that validates is backed by the signature and the stored account: the token parses under the
  configured secret and has not expired, issuer and audience are the expected ones, the signed subject is the
  identifier of the stored user and the signed address is its address up to letter case, that user is active, needs no
  password change, carries the version in the token, and a federated administrator is still on the server allowlist.
\<close>
theorem session_sound:
  assumes "validateCurrentIDToken s w E tok issuer audience = Inr (c, u)" and "usByID (us_repo s) = Some byID"
  shows "us_jwtSecret s \<noteq> [] \<and> parseHS256 (us_jwt s) (TrimSpace tok) (us_jwtSecret s) (ev_parseTime E) = Some c \<and>
    (\<exists>ex. expirationTime (us_jwt s) c = Inr (Some ex) \<and> ev_checkTime E \<le> ex) \<and>
    (issuer \<noteq> [] \<longrightarrow> claimStringValue c ''iss'' = issuer) \<and> (TrimSpace audience \<noteq> [] \<longrightarrow> audienceMatches c audience) \<and>
    idFindByID byID w (claimStringValue c ''sub'') = Inr (Some u) \<and> u_Id u = claimStringValue c ''sub'' \<and>
    EqualFold (us_unicode s) (u_Email u) (claimStringValue c ''email'') \<and>
    u_Status u = UserStatusActive \<and> \<not> u_PasswordChangeRequired u \<and> tokenVersion c = Some (u_TokenVersion u) \<and>
    platformCurrent s u"
proof -
  note v = assms(1) [unfolded validateCurrentIDToken_Inr ParseToken_Inr]
  from v have r: "resolveCurrentTokenUser s w (claimStringValue c ''sub'') (claimStringValue c ''email'') = Inr u"
    by (elim conjE)
  from v have cp: "currentPlatformAuthorityValid s (Some u) c" by (elim conjE)
  from v show ?thesis
    using resolveCurrentTokenUser_byID [OF r assms(2)] resolveCurrentTokenUser_email [OF r]
      currentPlatformAuthorityValid_current [OF cp]
    by (simp add: tokenHasAudience_iff) blast
qed

text \<open>
  A token is never accepted against an account whose version has moved on: if it was accepted for a user and the
  store later holds another version for that subject, every later validation of the same token fails, whatever the
  issuer, audience and time. This is how revocation, password changes and status changes end sessions.
\<close>
theorem stale_session_rejected:
  assumes "validateCurrentIDToken s w E tok issuer audience = Inr (c, u)" and "usByID (us_repo s) = Some byID"
    and "idFindByID byID w' (u_Id u) = Inr (Some u')" and "u_TokenVersion u' \<noteq> u_TokenVersion u"
    and "parseStable (us_jwt s)"
  shows "\<exists>e. validateCurrentIDToken s w' E' tok issuer' audience' = Inl e"
proof (rule ccontr)
  assume "\<not> ?thesis"
  then obtain c2 u2 where 2: "validateCurrentIDToken s w' E' tok issuer' audience' = Inr (c2, u2)"
    by (metis sum.exhaust prod.exhaust)
  note v1 = assms(1) [unfolded validateCurrentIDToken_Inr ParseToken_Inr]
    and v2 = 2 [unfolded validateCurrentIDToken_Inr ParseToken_Inr]
  from v1 v2 have p: "parseHS256 (us_jwt s) (TrimSpace tok) (us_jwtSecret s) (ev_parseTime E) = Some c"
    "parseHS256 (us_jwt s) (TrimSpace tok) (us_jwtSecret s) (ev_parseTime E') = Some c2" by blast+
  then have "c2 = c" using assms(5) unfolding parseStable_def by blast
  with v1 v2 have r: "resolveCurrentTokenUser s w (claimStringValue c ''sub'') (claimStringValue c ''email'') = Inr u"
    "resolveCurrentTokenUser s w' (claimStringValue c ''sub'') (claimStringValue c ''email'') = Inr u2"
    and ver: "tokenVersion c = Some (u_TokenVersion u)" "tokenVersion c = Some (u_TokenVersion u2)" by simp_all
  from resolveCurrentTokenUser_byID [OF r(1) assms(2)] resolveCurrentTokenUser_byID [OF r(2) assms(2)] assms(3)
  have "u2 = u'" by simp
  with ver assms(4) show False by simp
qed

text \<open>
  C35. Issuing and validating fit together: an ID token issued for a stored, current user is accepted until it expires,
  and validation returns exactly the claims that were signed (as JSON) and that user. The token lives at most an hour
  and never past the bound the identity provider set.
\<close>
theorem session_roundtrip:
  assumes J: "jwtRoundtrip (us_jwt s)" and secret: "us_jwtSecret s \<noteq> []"
    and iss: "issueIDTokenWithPlatformPrivilegeUntil s E (Some u) amr requested expiry = Inr (tok, secs)"
    and byID: "usByID (us_repo s) = Some byID" and stored: "idFindByID byID w (u_Id u) = Inr (Some u)"
    and fold: "foldReflexive (us_unicode s)"
    and ident: "TrimSpace (u_Id u) \<noteq> []" "TrimSpace (u_Email u) \<noteq> []"
    and ver: "0 \<le> u_TokenVersion u" "u_TokenVersion u \<le> 2 ^ 31"
    and home: "homeTenant u \<noteq> RetiredDefaultTenantID"
    and active: "\<forall>T. us_tenantRepo s = Some T \<and> homeTenant u \<noteq> [] \<longrightarrow> tenantIsActive T w (homeTenant u)"
    and plat: "platformCurrent s u"
    and time: "\<bar>Unix (ev_now E)\<bar> \<le> 2 ^ 52"
      "ev_parseTime E' < (Unix (ev_now E) + secs) * 1000000000" "ev_checkTime E' < (Unix (ev_now E) + secs) * 1000000000"
  shows "validateCurrentIDToken s w E' tok (us_issuerBaseURL s) (us_defaultAudience s) =
      Inr (jsonClaims (idTokenClaims s u amr (issuablePlatformPrivilege (Some u) requested) (Unix (ev_now E))
        (Unix (ev_now E) + secs)), u) \<and>
    1 \<le> secs \<and> secs \<le> 3600 \<and> (\<forall>a. expiry = Some a \<longrightarrow> Unix (ev_now E) + secs \<le> Unix a)"
proof -
  let ?n = "Unix (ev_now E)" and ?p = "issuablePlatformPrivilege (Some u) requested"
  let ?c = "idTokenClaims s u amr ?p ?n (?n + secs)"
  from iss obtain u0 where u0: "Some u = Some u0" and st: "u_Status u0 = UserStatusActive" "\<not> u_PasswordChangeRequired u0"
    and sec: "1 \<le> secs" "secs \<le> 3600" "case expiry of None \<Rightarrow> True | Some a \<Rightarrow> ?n + secs \<le> Unix a"
    and sign: "signHS256 (us_jwt s) (idTokenClaims s u0 amr ?p ?n (?n + secs)) (us_jwtSecret s) = Inr tok"
    by (rule issueIDToken_Inr)
  have num: "\<bar>u_TokenVersion u\<bar> \<le> 2 ^ 53" "\<bar>?n\<bar> \<le> 2 ^ 53" "\<bar>?n + secs\<bar> \<le> 2 ^ 53"
    using ver time(1) sec by auto
  have ex: "exactInts ?c" by (rule idTokenClaims_exactInts [OF num])
  from J sign u0 ex idTokenClaims_apply time(2) have tok: "tok \<noteq> []" "TrimSpace tok = tok"
    "parseHS256 (us_jwt s) tok (us_jwtSecret s) (ev_parseTime E') = Some (jsonClaims ?c)"
    unfolding jwtRoundtrip_def by (metis option.inject)+
  have jc: "jsonClaims ?c ''exp'' = Some (JNum (of_int (?n + secs)))"
    "jsonClaims ?c ''ver'' = Some (JNum (of_int (u_TokenVersion u)))"
    "jsonClaims ?c ''aud'' = Some (JStr (us_defaultAudience s))"
    by (simp_all add: jsonClaims_def idTokenClaims_apply)
  then have "expirationTime (us_jwt s) (jsonClaims ?c) = Inr (Some ((?n + secs) * 1000000000))"
    using J num(3) unfolding jwtRoundtrip_def by blast
  with tok time(3) secret have parse:
    "ParseToken (us_jwt s) (ev_parseTime E') (ev_checkTime E') tok (us_jwtSecret s) = Inr (jsonClaims ?c)"
    by (simp add: ParseToken_Inr)
  have aud: "tokenHasAudience (jsonClaims ?c) (us_defaultAudience s)"
    by (simp add: tokenHasAudience_def jc(3))
  have res: "resolveCurrentTokenUser s w (u_Id u) (u_Email u) = Inr u"
    using ident byID stored EqualFold_refl [OF fold] by (simp add: resolveCurrentTokenUser_def)
  have plat': "currentPlatformAuthorityValid s (Some u) (jsonClaims ?c)"
    using plat currentPlatformAuthorityValid_issued [of "jsonClaims ?c" u requested s] by (simp add: idTokenClaims_strings)
  have ten: "homeTenant u \<noteq> [] \<longrightarrow> (case us_tenantRepo s of None \<Rightarrow> True | Some T \<Rightarrow> tenantIsActive T w (homeTenant u))"
    using active by (simp split: option.splits)
  have tid: "claimStringValue (jsonClaims ?c) ''tid'' = homeTenant u" using home by (simp add: idTokenClaims_strings)
  have "validateCurrentIDToken s w E' tok (us_issuerBaseURL s) (us_defaultAudience s) = Inr (jsonClaims ?c, u)"
    unfolding validateCurrentIDToken_Inr tid
    using parse aud res plat' ten home st u0 tokenVersion_JNum [where c = "jsonClaims ?c", OF jc(2) ver]
    by (simp add: idTokenClaims_strings)
  with sec show ?thesis by (auto split: option.splits)
qed

section \<open>A store whose state is the version of its one account\<close>

definition versionRepo :: "int userRepository" where
  "versionRepo =
     \<lparr>usFindByEmail = (\<lambda>w e. Inr (if e = u_Email sampleUser then Some (sampleUser\<lparr>u_TokenVersion := w\<rparr>) else None)),
      usUpdateUser = (\<lambda>w u. (None, u_TokenVersion u)), usDeleteByEmail = (\<lambda>w e. (None, w)),
      usSetStatus = (\<lambda>w e st. (Inr sampleUser, w + 1)), usIncrementTokenVersion = (\<lambda>w e. (Inr (w + 1, sampleUser), w + 1)),
      usSaveOobCode = (\<lambda>w c e r. (None, w)), usConsumeOobCode = (\<lambda>w c r. (Inl ErrInvalidOob, w)),
      usByID = Some \<lparr>idFindByID = (\<lambda>w i. Inr (if i = ''u-1'' then Some (sampleUser\<lparr>u_TokenVersion := w\<rparr>) else None)),
        idIncrementTokenVersionByID = (\<lambda>w i. (Inr (w + 1, sampleUser), w + 1))\<rparr>,
      usSubjectOOB = Some \<lparr>sobSave = (\<lambda>w c p r. (None, w)),
        sobConsume = (\<lambda>w c r. (Inr \<lparr>ob_UserID = ''u-1'', ob_Email = ''ana@acme.io'', ob_TokenVersion = w\<rparr>, w))\<rparr>\<rparr>"

definition sessionClaims :: claims where
  "sessionClaims = idTokenClaims sampleService sampleUser [] [] 5 3605"

definition sessionJwt :: "unit jwtlib" where
  "sessionJwt =
     sampleJwt\<lparr>parseHS256 := (\<lambda>t k n. Some (jsonClaims sessionClaims)),
       signHS256 := (\<lambda>c k. if c = sessionClaims then Inr ''id-token'' else Inl ErrInvalidToken),
       signRS256 := (\<lambda>kid c k. Inl ErrInvalidToken)\<rparr>"

definition sessionService :: "(int, unit) userService" where
  "sessionService =
     \<lparr>us_unicode = asciiUnicode, us_policy = compiledPolicy, us_jwt = sessionJwt, us_library = sampleLibrary,
      us_trinoAuthority = None, us_aiGateway = None, us_nativeClients = None, us_repo = versionRepo,
      us_membershipRepo = None, us_exactMembershipRepo = None, us_directoryAccess = None,
      us_authenticationAttempts = None, us_authenticationRateLimits = DefaultAuthenticationRateLimits,
      us_verifyPassword = (\<lambda>h p. h = ''hash'' \<and> p = ''correct horse''), us_tenantRepo = None,
      us_tenantScopedTokenClaimsV1 = False, us_tenantScopedTokenAllowlist = [],
      us_tenantTargetDiscoveryV2 = False, us_platformAdministrators = [], us_platformAuthorityConfigured = True,
      us_jwtSecret = ''secret'', us_issuerBaseURL = ''https://id'', us_defaultAudience = ''tikti'',
      us_jwksPrivateKey = ''pem'', us_jwksKeyID = ''k1'', us_roleSvc = None, us_clientSvc = None\<rparr>"

lemma session_fields:
  "us_jwt sessionService = sessionJwt" "us_repo sessionService = versionRepo" "us_unicode sessionService = asciiUnicode"
  "us_tenantRepo sessionService = None" "us_jwtSecret sessionService = ''secret''"
  "us_issuerBaseURL sessionService = ''https://id''" "us_defaultAudience sessionService = ''tikti''"
  "idTokenClaims sessionService sampleUser [] [] 5 3605 = sessionClaims"
  "us_directoryAccess sessionService = None" "us_authenticationAttempts sessionService = None"
  by (simp_all add: sessionService_def sessionClaims_def idTokenClaims_def sampleService_def)

lemma sample_strings:
  "TrimSpace ''u-1'' = ''u-1''" "TrimSpace ''ana@acme.io'' = ''ana@acme.io''" "TrimSpace ''acme'' = ''acme''"
  "TrimSpace ''id-token'' = ''id-token''" "homeTenant sampleUser = ''acme''"
  by (simp_all add: TrimSpace_all_graphic graphic_def homeTenant_def sampleUser_def)

lemma sessionJwt_roundtrip: "jwtRoundtrip sessionJwt"
  unfolding jwtRoundtrip_def using sample_strings(4)
  by (auto simp: sessionJwt_def sampleJwt_def split: if_splits)

lemma sessionJwt_stable: "parseStable sessionJwt"
  by (simp add: parseStable_def sessionJwt_def sampleJwt_def)

lemma sessionClaims_values:
  "claimStringValue (jsonClaims sessionClaims) ''sub'' = ''u-1''"
  "claimStringValue (jsonClaims sessionClaims) ''email'' = ''ana@acme.io''"
  "claimStringValue (jsonClaims sessionClaims) ''tid'' = ''acme''"
  "claimStringValue (jsonClaims sessionClaims) ''iss'' = ''https://id''"
  "tokenVersion (jsonClaims sessionClaims) = Some 3" "tokenHasAudience (jsonClaims sessionClaims) ''tikti''"
  "expirationTime sessionJwt (jsonClaims sessionClaims) = Inr (Some 3605000000000)"
proof -
  have f: "us_issuerBaseURL sampleService = ''https://id''" "us_defaultAudience sampleService = ''tikti''"
    "u_Id sampleUser = ''u-1''" "u_Email sampleUser = ''ana@acme.io''" "u_TokenVersion sampleUser = 3"
    by (simp_all add: sampleService_def sampleUser_def)
  show "claimStringValue (jsonClaims sessionClaims) ''sub'' = ''u-1''"
    "claimStringValue (jsonClaims sessionClaims) ''email'' = ''ana@acme.io''"
    "claimStringValue (jsonClaims sessionClaims) ''tid'' = ''acme''"
    "claimStringValue (jsonClaims sessionClaims) ''iss'' = ''https://id''"
    by (simp_all add: sessionClaims_def idTokenClaims_strings sample_strings f)
  have c: "jsonClaims sessionClaims ''ver'' = Some (JNum (of_int 3))" "jsonClaims sessionClaims ''aud'' = Some (JStr ''tikti'')"
    "jsonClaims sessionClaims ''exp'' = Some (JNum (of_int 3605))"
    by (simp_all add: sessionClaims_def jsonClaims_def idTokenClaims_apply f)
  from tokenVersion_JNum [where c = "jsonClaims sessionClaims", OF c(1)]
  show "tokenVersion (jsonClaims sessionClaims) = Some 3" by simp
  show "tokenHasAudience (jsonClaims sessionClaims) ''tikti''" by (simp add: tokenHasAudience_def c)
  show "expirationTime sessionJwt (jsonClaims sessionClaims) = Inr (Some 3605000000000)"
    using c(3) by (simp add: sessionJwt_def sampleJwt_def)
qed

lemma sample_session:
  "validateCurrentIDToken sessionService 3 sampleCall ''id-token'' ''https://id'' ''tikti'' =
     Inr (jsonClaims sessionClaims, sampleUser)"
proof -
  have p: "ParseToken sessionJwt (ev_parseTime sampleCall) (ev_checkTime sampleCall) ''id-token'' ''secret'' =
      Inr (jsonClaims sessionClaims)"
    by (simp add: ParseToken_Inr sample_strings sessionClaims_values) (simp add: sessionJwt_def sampleCall_def)
  have r: "resolveCurrentTokenUser sessionService 3 ''u-1'' ''ana@acme.io'' = Inr sampleUser"
    using EqualFold_refl [of asciiUnicode] sample_strings
    by (simp add: resolveCurrentTokenUser_def session_fields versionRepo_def foldReflexive_def)
      (simp add: sampleUser_def asciiUnicode_def)
  have pc: "currentPlatformAuthorityValid sessionService (Some sampleUser) (jsonClaims sessionClaims)"
    using currentPlatformAuthorityValid_issued [of "jsonClaims sessionClaims" sampleUser "[]" sessionService]
    by (simp add: sessionClaims_def idTokenClaims_strings issuablePlatformPrivilege_def platformCurrent_def sampleUser_def)
  show ?thesis
    unfolding validateCurrentIDToken_Inr session_fields sessionClaims_values
    using p r pc by (simp add: sessionClaims_values) (simp add: sampleUser_def)
qed

theorem session_sound_witness:
  "validateCurrentIDToken sessionService 3 sampleCall ''id-token'' ''https://id'' ''tikti'' =
     Inr (jsonClaims sessionClaims, sampleUser) \<and> tokenVersion (jsonClaims sessionClaims) = Some (u_TokenVersion sampleUser)"
  using session_sound [OF sample_session] sample_session by (simp add: session_fields versionRepo_def)

theorem stale_session_rejected_witness:
  "\<exists>e. validateCurrentIDToken sessionService 4 sampleCall ''id-token'' ''https://id'' ''tikti'' = Inl e"
  using stale_session_rejected [OF sample_session, of "the (usByID versionRepo)" 4 "sampleUser\<lparr>u_TokenVersion := 4\<rparr>" sampleCall
      "''https://id''" "''tikti''"]
    sessionJwt_stable
  by (simp add: session_fields versionRepo_def) (simp add: sampleUser_def)

theorem session_roundtrip_witness:
  "\<exists>tok. issueIDTokenWithPlatformPrivilegeUntil sessionService sampleCall (Some sampleUser) [] [] None = Inr (tok, 3600) \<and>
     validateCurrentIDToken sessionService 3 sampleCall tok ''https://id'' ''tikti'' = Inr (jsonClaims sessionClaims, sampleUser)"
proof -
  have u: "Unix (ev_now sampleCall) = 5" "Unix (ev_now sampleCall + 3600000000000) = 3605"
    by (simp_all add: Unix_def sampleCall_def)
  have p: "issuablePlatformPrivilege (Some sampleUser) [] = []" by (simp add: issuablePlatformPrivilege_def)
  have s: "u_Status sampleUser = UserStatusActive" "\<not> u_PasswordChangeRequired sampleUser" "u_TokenVersion sampleUser = 3"
    "u_Id sampleUser = ''u-1''" "u_Email sampleUser = ''ana@acme.io''"
    by (simp_all add: sampleUser_def)
  have iss: "issueIDTokenWithPlatformPrivilegeUntil sessionService sampleCall (Some sampleUser) [] [] None = Inr (''id-token'', 3600)"
    by (simp add: issueIDTokenWithPlatformPrivilegeUntil_def Let_def u p s session_fields)
      (simp add: sessionJwt_def u)
  have st: "idFindByID (the (usByID versionRepo)) 3 (u_Id sampleUser) = Inr (Some sampleUser)"
    by (simp add: versionRepo_def sampleUser_def)
  have "validateCurrentIDToken sessionService 3 sampleCall ''id-token'' (us_issuerBaseURL sessionService)
      (us_defaultAudience sessionService) = Inr (jsonClaims (idTokenClaims sessionService sampleUser [] [] 5 (5 + 3600)), sampleUser)"
    using session_roundtrip [OF _ _ iss, of "the (usByID versionRepo)" 3 sampleCall] st sessionJwt_roundtrip
    by (simp add: session_fields s p u sample_strings foldReflexive_def platformCurrent_def)
      (simp add: versionRepo_def asciiUnicode_def sampleUser_def sampleCall_def)
  with iss show ?thesis by (simp add: session_fields)
qed

end
