(* ===== verification/Native_Token.thy ===== *)
theory Native_Token
  imports Session
begin

text \<open>
  Native applications: \<^verbatim>\<open>internal/services/native_saml.go\<close>. The current identity of a federated user for a
  registered client, the token issued for a consumed grant, and the re-validation of such a token.
\<close>

abbreviation ErrNoSession :: gerror where "ErrNoSession \<equiv> ErrText ''native SAML browser session required''"
abbreviation ErrNativeDenied :: gerror where "ErrNativeDenied \<equiv> ErrText ''native application access denied''"
abbreviation ErrUnavailable :: gerror where "ErrUnavailable \<equiv> ErrText ''native authorization unavailable''"
abbreviation ErrInvalidGrant :: gerror where "ErrInvalidGrant \<equiv> ErrText ''invalid native authorization grant''"

record nativeIdentity =
  ni_Subject :: string
  ni_Email :: string
  ni_IdentityTenantID :: string
  ni_TenantName :: string
  ni_TokenVersion :: int
  ni_SessionExpiresAt :: int
  ni_Scopes :: "string list"

record nativeGrant =
  ng_ClientID :: string
  ng_ClientFingerprint :: string
  ng_RedirectURI :: string
  ng_Challenge :: string
  ng_Subject :: string
  ng_IdentityTenantID :: string
  ng_IdentityFingerprint :: string
  ng_TokenVersion :: int
  ng_ApprovedScopes :: "string list"
  ng_SessionExpiresAt :: int
  ng_ExpiresAt :: int

record nativeToken =
  nt_AccessToken :: string
  nt_TokenType :: string
  nt_ExpiresIn :: int
  nt_Scope :: string
  nt_Email :: string

definition identityFingerprint :: "go_unicode \<Rightarrow> goLibrary \<Rightarrow> nativeIdentity \<Rightarrow> string" where
  "identityFingerprint U L i =
     sha256hex L (''native-identity-v1'' @ [CHR 0x00] @ ni_Subject i @ [CHR 0x00] @ ni_IdentityTenantID i @
       [CHR 0x00] @ ToLower U (ni_Email i))"

definition clientFingerprint :: "goLibrary \<Rightarrow> nativeClient \<Rightarrow> string res" where
  "clientFingerprint L c = Fingerprint (sha256hex L) (marshalNativeClient L) c"

definition nativeScopesEqual :: "string list \<Rightarrow> string list \<Rightarrow> bool" where
  "nativeScopesEqual actual expected \<longleftrightarrow> sort actual = expected"

definition registeredNativeClient :: "('w, 'k) userService \<Rightarrow> nativeClient \<Rightarrow> bool" where
  "registeredNativeClient s c =
     (case RegistryGet (us_nativeClients s) (nc_ID c) of
        None \<Rightarrow> False
      | Some registered \<Rightarrow>
          (case (clientFingerprint (us_library s) registered, clientFingerprint (us_library s) c) of
             (Inr expected, Inr actual) \<Rightarrow> expected = actual
           | _ \<Rightarrow> False))"

text \<open>The tenants of the identity and of the client must exist and be active; the loop returns the client's name.\<close>

fun activeTenants :: "'w tenantRepository \<Rightarrow> 'w \<Rightarrow> string \<Rightarrow> string list \<Rightarrow> string \<Rightarrow> string res" where
  "activeTenants T w target [] name = Inr name"
| "activeTenants T w target (i # is') name =
     (case tnGet T w i of
        Inl _ \<Rightarrow> Inl ErrUnavailable
      | Inr None \<Rightarrow> Inl ErrNativeDenied
      | Inr (Some t) \<Rightarrow>
          if t_Id t \<noteq> i \<or> t_Status t \<noteq> TenantStatusActive then Inl ErrNativeDenied
          else activeTenants T w target is' (if i = target then t_Name t else name))"

fun heldRoles ::
  "'w roleLookupService \<Rightarrow> 'w \<Rightarrow> string \<Rightarrow> string list \<Rightarrow> nativeRole list \<Rightarrow> string list option" where
  "heldRoles R w tenantID held [] = Some []"
| "heldRoles R w tenantID held (ex # exs) =
     (if nr_Name ex \<notin> set held then heldRoles R w tenantID held exs
      else (case rsGetByName R w tenantID (nr_Name ex) of
              Inl _ \<Rightarrow> None
            | Inr d \<Rightarrow>
                if rr_Name d \<noteq> nr_Name ex \<or> \<not> nativeScopesEqual (rr_Permissions d) (nr_Scopes ex) then None
                else map_option (\<lambda>rs. nr_Name ex # rs) (heldRoles R w tenantID held exs)))"

definition audienceCovers :: "string \<Rightarrow> string \<Rightarrow> string list \<Rightarrow> client option \<Rightarrow> bool" where
  "audienceCovers audience tenantID scopes oc =
     (case oc of
        None \<Rightarrow> False
      | Some c \<Rightarrow>
          c_Id c = audience \<and> c_TenantId c = tenantID \<and> c_Status c = ClientStatusActive \<and>
          subsetList scopes (c_DefaultScopes c))"

definition nativeEligible :: "('w, 'k) userService \<Rightarrow> user option \<Rightarrow> nativeClient \<Rightarrow> bool" where
  "nativeEligible s ou c \<longleftrightarrow>
     registeredNativeClient s c \<and>
     (case ou of
        None \<Rightarrow> False
      | Some u \<Rightarrow>
          u_Id u \<noteq> [] \<and> u_Email u \<noteq> [] \<and> u_AuthSource u = AuthSourceSAML \<and>
          u_CompanyId u = Some (nc_IdentityTenantID c) \<and> u_Status u = UserStatusActive \<and>
          \<not> u_PasswordChangeRequired u \<and> currentPlatformAuthorityValid s ou Map.empty)"

definition currentNativeIdentity ::
  "('w, 'k) userService \<Rightarrow> 'w \<Rightarrow> user option \<Rightarrow> nativeClient \<Rightarrow> (nativeIdentity \<times> string list) res" where
  "currentNativeIdentity s w ou c =
     (case (us_tenantRepo s, us_clientSvc s, us_directoryAccess s, us_roleSvc s) of
        (Some T, Some getClient, Some d, Some R) \<Rightarrow>
          if \<not> nativeEligible s ou c then Inl ErrNativeDenied
          else let u = the ou in
            (case activeTenants T w (nc_TenantID c) [nc_IdentityTenantID c, nc_TenantID c] [] of
               Inl e \<Rightarrow> Inl e
             | Inr tenantName \<Rightarrow>
                 (case dirGetEffectiveTenantRoles d w (u_Id u) (nc_TenantID c) of
                    Inl _ \<Rightarrow> Inl ErrUnavailable
                  | Inr held \<Rightarrow>
                      (case heldRoles R w (nc_TenantID c) held (nc_BaseRole c # nc_AdditionalRoles c) of
                         None \<Rightarrow> Inl ErrNativeDenied
                       | Some roles0 \<Rightarrow>
                           let roles = sort roles0 in
                           (case ScopesForRoles c roles of
                              Inl _ \<Rightarrow> Inl ErrNativeDenied
                            | Inr scopes \<Rightarrow>
                                (case getClient w (nc_TenantID c) (nc_Audience c) of
                                   Inl _ \<Rightarrow> Inl ErrUnavailable
                                 | Inr oc \<Rightarrow>
                                     if \<not> audienceCovers (nc_Audience c) (nc_TenantID c) scopes oc
                                     then Inl ErrNativeDenied
                                     else Inr (\<lparr>ni_Subject = u_Id u, ni_Email = u_Email u,
                                                ni_IdentityTenantID = derefString (u_CompanyId u), ni_TenantName = tenantName,
                                                ni_TokenVersion = u_TokenVersion u, ni_SessionExpiresAt = 0,
                                                ni_Scopes = scopes\<rparr>, roles))))))
      | _ \<Rightarrow> Inl ErrNativeDenied)"

definition BrowserIdentity ::
  "('w, 'k) userService \<Rightarrow> 'w \<Rightarrow> callEnv \<Rightarrow> string \<Rightarrow> nativeClient \<Rightarrow> nativeIdentity res" where
  "BrowserIdentity s w E session c =
     (case validateCurrentIDToken s w E session (us_issuerBaseURL s) (us_defaultAudience s) of
        Inl _ \<Rightarrow> Inl ErrNoSession
      | Inr (cl, u) \<Rightarrow>
          (case expirationTime (us_jwt s) cl of
             Inr (Some deadline) \<Rightarrow>
               if canonicalAuthenticationMethods (us_unicode s) cl \<noteq> Some [''saml''] \<or>
                  Unix deadline \<le> Unix (ev_now E) \<or> claimStringValue cl ''sub'' \<noteq> u_Id u
               then Inl ErrNoSession
               else (case currentNativeIdentity s w (Some u) c of
                       Inl e \<Rightarrow> Inl e
                     | Inr (identity, _) \<Rightarrow> Inr (identity\<lparr>ni_SessionExpiresAt := Unix deadline\<rparr>))
           | _ \<Rightarrow> Inl ErrNoSession))"

definition grantMatches ::
  "('w, 'k) userService \<Rightarrow> nativeClient \<Rightarrow> nativeGrant \<Rightarrow> nativeIdentity \<Rightarrow> string \<Rightarrow> bool" where
  "grantMatches s c g identity policy \<longleftrightarrow>
     ng_ClientID g = nc_ID c \<and> ng_ClientFingerprint g = policy \<and>
     ValidateRedirect (parseURL (us_library s)) (urlString (us_library s)) c (ng_RedirectURI g) = None \<and>
     ni_Subject identity = ng_Subject g \<and> ni_TokenVersion identity = ng_TokenVersion g \<and>
     ni_IdentityTenantID identity = ng_IdentityTenantID g \<and>
     identityFingerprint (us_unicode s) (us_library s) identity = ng_IdentityFingerprint g \<and>
     length (ng_ApprovedScopes g) \<noteq> 0 \<and> subsetList (ng_ApprovedScopes g) (ni_Scopes identity) \<and>
     subsetList (nc_RequiredScopes c) (ng_ApprovedScopes g)"

text \<open>Only roles that stay within the approved scopes go into the token.\<close>

definition approvedRoles :: "nativeClient \<Rightarrow> string list \<Rightarrow> string list \<Rightarrow> string list" where
  "approvedRoles c roles scopes =
     sort (map nr_Name
       (filter (\<lambda>r. nr_Name r \<in> set roles \<and> subsetList (nr_Scopes r) scopes) (nc_BaseRole c # nc_AdditionalRoles c)))"

definition nativeClaims ::
  "('w, 'k) userService \<Rightarrow> callEnv \<Rightarrow> nativeClient \<Rightarrow> nativeIdentity \<Rightarrow> string \<Rightarrow> string list \<Rightarrow> string list \<Rightarrow> int \<Rightarrow> int \<Rightarrow>
   claims" where
  "nativeClaims s E c identity policy roles scopes now expires =
     [''iss'' \<mapsto> JStr (us_issuerBaseURL s), ''aud'' \<mapsto> JStr (nc_Audience c), ''sub'' \<mapsto> JStr (ni_Subject identity),
      ''email'' \<mapsto> JStr (ni_Email identity), ''tid'' \<mapsto> JStr (nc_TenantID c),
      ''principal_tid'' \<mapsto> JStr (nc_IdentityTenantID c), ''role'' \<mapsto> JStr RoleCompanyEmployee,
      ''roles'' \<mapsto> GoStrs roles, ''scope'' \<mapsto> JStr (JoinStr '' '' scopes), ''amr'' \<mapsto> GoStrs [''saml''],
      ''ver'' \<mapsto> GoInt (ni_TokenVersion identity), ''iat'' \<mapsto> GoInt now, ''exp'' \<mapsto> GoInt expires,
      ''jti'' \<mapsto> JStr (ev_uuid E 0), ''native_client_id'' \<mapsto> JStr (nc_ID c), ''native_policy'' \<mapsto> JStr policy]"

definition IssueNativeToken ::
  "('w, 'k) userService \<Rightarrow> 'w \<Rightarrow> callEnv \<Rightarrow> nativeClient \<Rightarrow> nativeGrant \<Rightarrow> nativeToken res" where
  "IssueNativeToken s w E c g =
     (case usByID (us_repo s) of
        None \<Rightarrow> Inl ErrUnavailable
      | Some byID \<Rightarrow>
          (case idFindByID byID w (ng_Subject g) of
             Inl _ \<Rightarrow> Inl ErrUnavailable
           | Inr ou \<Rightarrow>
               (case currentNativeIdentity s w ou c of
                  Inl e \<Rightarrow> Inl e
                | Inr (identity, roles) \<Rightarrow>
                    let policy = (case clientFingerprint (us_library s) c of Inl _ \<Rightarrow> [] | Inr p \<Rightarrow> p);
                        now = Unix (ev_now E);
                        expires = min (now + nc_TTLSeconds c) (ng_SessionExpiresAt g);
                        scopes = sort (ng_ApprovedScopes g) in
                    if \<not> grantMatches s c g identity policy then Inl ErrInvalidGrant
                    else if expires \<le> now \<or> ng_ExpiresAt g \<le> now then Inl ErrInvalidGrant
                    else
                      (case getRSAPrivateKey s of
                         Inl _ \<Rightarrow> Inl ErrUnavailable
                       | Inr key \<Rightarrow>
                           (case signRS256 (us_jwt s) (Some (us_jwksKeyID s))
                                   (nativeClaims s E c identity policy (approvedRoles c roles scopes) scopes now expires)
                                   key of
                              Inl _ \<Rightarrow> Inl ErrUnavailable
                            | Inr signed \<Rightarrow>
                                Inr \<lparr>nt_AccessToken = signed, nt_TokenType = ''Bearer'', nt_ExpiresIn = expires - now,
                                     nt_Scope = JoinStr '' '' scopes, nt_Email = ni_Email identity\<rparr>)))))"

definition nativeRoleScopes :: "nativeClient \<Rightarrow> string \<rightharpoonup> string list" where
  "nativeRoleScopes c =
     map_of (rev (map (\<lambda>r. (nr_Name r, nr_Scopes r)) (nc_BaseRole c # nc_AdditionalRoles c)))"

definition nativeClaimsMatch ::
  "('w, 'k) userService \<Rightarrow> nativeClient \<Rightarrow> claims \<Rightarrow> bool" where
  "nativeClaimsMatch s c cl \<longleftrightarrow>
     clientFingerprint (us_library s) c = Inr (claimStringValue cl ''native_policy'') \<and>
     claimStringValue cl ''tid'' = nc_TenantID c \<and> tokenHasAudience cl (nc_Audience c) \<and>
     claimStringValue cl ''principal_tid'' = nc_IdentityTenantID c \<and>
     claimStringValue cl ''role'' = RoleCompanyEmployee \<and>
     (cl PlatformPrivilegeClaim = None \<or> cl PlatformPrivilegeClaim = Some JNull) \<and>
     (cl platformAuthorityOriginClaim = None \<or> cl platformAuthorityOriginClaim = Some JNull) \<and>
     canonicalAuthenticationMethods (us_unicode s) cl = Some [''saml'']"

definition validateNativeAccessToken ::
  "('w, 'k) userService \<Rightarrow> 'w \<Rightarrow> user \<Rightarrow> claims \<Rightarrow> gerror option" where
  "validateNativeAccessToken s w u cl =
     (case RegistryGet (us_nativeClients s) (claimStringValue cl ''native_client_id'') of
        None \<Rightarrow> Some ErrInvalidToken
      | Some c \<Rightarrow>
          if \<not> nativeClaimsMatch s c cl then Some ErrInvalidToken
          else let scopes = Fields (claimStringValue cl ''scope'') in
            (case currentNativeIdentity s w (Some u) c of
               Inl _ \<Rightarrow> Some ErrInvalidToken
             | Inr (identity, currentRoles) \<Rightarrow>
                 if length scopes = 0 \<or> \<not> subsetList scopes (ni_Scopes identity) \<or>
                    \<not> subsetList (nc_RequiredScopes c) scopes then Some ErrInvalidToken
                 else
                   (case (case cl ''roles'' of None \<Rightarrow> None | Some raw \<Rightarrow> canonicalAccessTokenRoles raw) of
                      None \<Rightarrow> Some ErrInvalidToken
                    | Some signedRoles \<Rightarrow>
                        if nr_Name (nc_BaseRole c) \<notin> set signedRoles \<or> \<not> subsetList signedRoles currentRoles
                        then Some ErrInvalidToken
                        else if list_all (\<lambda>r. case nativeRoleScopes c r of
                                              None \<Rightarrow> False | Some perms \<Rightarrow> subsetList perms scopes) signedRoles
                        then None else Some ErrInvalidToken)))"

end
