(* ===== verification/Access_Token.thy ===== *)
theory Access_Token
  imports Native_Token
begin

text \<open>
  Validating access tokens: \<^verbatim>\<open>ValidateAccessToken\<close> of \<^verbatim>\<open>internal/services/user_service.go\<close> with its re-evaluation of
  the tenant, the audience client, the roles and the scopes, and \<^verbatim>\<open>managed_logs_platform_read.go\<close>.
\<close>

section \<open>Platform log authority\<close>

abbreviation managedLogsPlatformReadScope :: string where
  "managedLogsPlatformReadScope \<equiv> ''code-admin:logs:platform:read''"
abbreviation StoreAudience :: string where "StoreAudience \<equiv> ''code-admin-logs-store''"

definition managedLogsPlatformAuthority :: "('w, 'k) userService \<Rightarrow> 'w \<Rightarrow> user \<Rightarrow> claims \<Rightarrow> bool" where
  "managedLogsPlatformAuthority s w u c =
     (case u_CompanyId u of
        None \<Rightarrow> False
      | Some company \<Rightarrow>
          if u_Status u \<noteq> UserStatusActive \<or> \<not> currentPlatformAuthorityValid s (Some u) c then False
          else if u_AuthSource u = AuthSourceSAML
          then us_platformAuthorityConfigured s \<and>
               trustedFederatedPlatformPrincipal u (TrimSpace company) (validatedPlatformPrivilege u c)
          else
            (case us_directoryAccess s of
               None \<Rightarrow> False
             | Some d \<Rightarrow>
                 if u_AuthSource u \<noteq> AuthSourcePassword \<or> u_Role u \<noteq> RoleAdmin then False
                 else (case dirGetAccessAssignment d w MasterTenantID AccessPrincipalUser (u_Id u) of
                         Inr (Some a) \<Rightarrow>
                           a_TenantID a = MasterTenantID \<and> a_PrincipalType a = AccessPrincipalUser \<and>
                           a_PrincipalID a = u_Id u \<and> a_Roles a = [RoleAdmin]
                       | _ \<Rightarrow> False)))"

definition managedLogsPlatformIssuance ::
  "('w, 'k) userService \<Rightarrow> 'w \<Rightarrow> user \<Rightarrow> claims \<Rightarrow> tokenExchangeReq \<Rightarrow> string \<Rightarrow> bool \<Rightarrow> bool" where
  "managedLogsPlatformIssuance s w u c req tenantID discoverAtPrincipal =
     (let requested = managedLogsPlatformReadScope \<in> set (te_Scopes req);
          discovered = discoverAtPrincipal \<and>
            managedLogsPlatformReadScope \<in> set (case te_ScopeCeilingV1 req of None \<Rightarrow> [] | Some ceil \<Rightarrow> ceil) in
      case us_clientSvc s of
        None \<Rightarrow> False
      | Some getClient \<Rightarrow>
          if te_Audience req \<noteq> CodeAdminAudienceClientID \<or> \<not> requested \<and> \<not> discovered \<or>
             \<not> managedLogsPlatformAuthority s w u c then False
          else (case getClient w tenantID (te_Audience req) of
                  Inr (Some cl) \<Rightarrow>
                    c_Id cl = te_Audience req \<and> c_TenantId cl = tenantID \<and> c_Status cl = ClientStatusActive \<and>
                    managedLogsPlatformReadScope \<in> set (c_DefaultScopes cl)
                | _ \<Rightarrow> False))"

section \<open>Validation\<close>

text \<open>\<open>True\<close> where the code returns no error.\<close>

definition validateCurrentAccessTokenTarget :: "('w, 'k) userService \<Rightarrow> 'w \<Rightarrow> claims \<Rightarrow> bool" where
  "validateCurrentAccessTokenTarget s w c =
     (let tenantID = claimStringValue c ''tid'' in
      if \<not> validRoleTenantID tenantID then False
      else if (case us_tenantRepo s of None \<Rightarrow> False | Some T \<Rightarrow> \<not> tenantIsActive T w tenantID) then False
      else
        (case us_clientSvc s of
           None \<Rightarrow> True
         | Some getClient \<Rightarrow>
             (case c ''aud'' of
                Some (JStr audience) \<Rightarrow>
                  if TrimSpace audience = [] \<or> audience \<noteq> TrimSpace audience then False
                  else
                    (case getClient w tenantID audience of
                       Inr (Some cl) \<Rightarrow>
                         if c_Id cl \<noteq> audience \<or> c_TenantId cl \<noteq> tenantID \<or> c_Status cl \<noteq> ClientStatusActive then False
                         else let signedScopes = Fields (claimStringValue c ''scope'') in
                           if length signedScopes = 0 then True
                           else
                             (case CanonicalAudienceScopes (us_policy s) signedScopes of
                                None \<Rightarrow> False
                              | Some canon \<Rightarrow>
                                  (case CanonicalAudienceScopes (us_policy s) (c_DefaultScopes cl) of
                                     None \<Rightarrow> False
                                   | Some current \<Rightarrow> subsetList canon current))
                     | _ \<Rightarrow> False)
              | _ \<Rightarrow> False)))"

definition emptyAuthorization :: tenantScopedTokenAuthorization where
  "emptyAuthorization = \<lparr>ta_roles = [], ta_permissions = [], ta_legacyCreatorAdministrator = False\<rparr>"

text \<open>The roles the user holds now, which must be those the token carries.\<close>

definition currentTokenRoles ::
  "('w, 'k) userService \<Rightarrow> 'w \<Rightarrow> user \<Rightarrow> string \<Rightarrow> bool \<Rightarrow> string list \<Rightarrow> string list option" where
  "currentTokenRoles s w u tenantID platformAuthority signedRoles =
     (if platformAuthority \<and> length signedRoles = 0 then Some []
      else if us_directoryAccess s = None then (if length signedRoles \<noteq> 0 then None else Some [])
      else (case accessTenantRoles s w (u_Id u) tenantID of
              Inl _ \<Rightarrow> None | Inr current \<Rightarrow> if current \<noteq> signedRoles then None else Some current))"

definition currentRoleAuthorization ::
  "('w, 'k) userService \<Rightarrow> 'w \<Rightarrow> string \<Rightarrow> string list \<Rightarrow> tenantScopedTokenAuthorization option" where
  "currentRoleAuthorization s w tenantID currentRoles =
     (if length currentRoles = 0 then Some emptyAuthorization
      else resolveMembershipRoleAuthorization s w tenantID currentRoles)"

definition currentScopeAuthority ::
  "('w, 'k) userService \<Rightarrow> user \<Rightarrow> claims \<Rightarrow> bool \<Rightarrow> bool \<Rightarrow> string list \<Rightarrow> tenantScopedTokenAuthorization \<Rightarrow> string list" where
  "currentScopeAuthority s u c platformAuthority recovered canonScopes a =
     normalizePermissions
       (ta_permissions a @
        (if ta_legacyCreatorAdministrator a then [tenantSecretReadScope, tenantSecretWriteScope] else []) @
        (if platformAuthority then homeAuthority u RoleAdmin canonScopes PlatformPrivilegeAdmin else []) @
        (if u_CompanyId u \<noteq> None then
           let platformPrivilege = issuablePlatformPrivilege (Some u) (claimStringValue c PlatformPrivilegeClaim) in
           homeGlobalAuthority (us_policy s) u (effectiveUserRole (Some u) platformPrivilege) canonScopes platformPrivilege
         else []) @
        (if recovered then canonScopes else []))"

definition validateCurrentAccessTokenAuthority :: "('w, 'k) userService \<Rightarrow> 'w \<Rightarrow> user \<Rightarrow> claims \<Rightarrow> bool" where
  "validateCurrentAccessTokenAuthority s w u c =
     (case c ''roles'' of
        None \<Rightarrow> True
      | Some rawRoles \<Rightarrow>
          let platformAuthority = (claimStringValue c platformAuthorityOriginClaim = platformAuthorityOriginSAML);
              tenantID = claimStringValue c ''tid'' in
          (case (if rawRoles = JNull \<and> platformAuthority then Some [] else canonicalAccessTokenRoles rawRoles) of
             None \<Rightarrow> False
           | Some signedRoles \<Rightarrow>
               if \<not> validRoleTenantID tenantID then False
               else
                 (case currentTokenRoles s w u tenantID platformAuthority signedRoles of
                    None \<Rightarrow> False
                  | Some currentRoles \<Rightarrow>
                      (case currentRoleAuthorization s w tenantID currentRoles of
                         None \<Rightarrow> False
                       | Some a \<Rightarrow>
                           let signedScopes = Fields (claimStringValue c ''scope'') in
                           if length signedScopes = 0 then True
                           else
                             (case CanonicalAudienceScopes (us_policy s) signedScopes of
                                None \<Rightarrow> False
                              | Some canon \<Rightarrow>
                                  let recovered = recoveredMasterPlatformClaims c signedRoles in
                                  if recovered \<and> \<not> recoveredMasterPlatformAdministrator s w u then False
                                  else subsetList canon (currentScopeAuthority s u c platformAuthority recovered canon a))))))"

definition isWorkloadSubject :: "string \<Rightarrow> bool" where
  "isWorkloadSubject subject =
     (case ParseWorkloadSubject subject of None \<Rightarrow> False | Some k \<Rightarrow> ws_Subject k = subject)"

text \<open>The checks on a user token after its signature, in the order of the code.\<close>

definition validateUserAccess ::
  "('w, 'k) userService \<Rightarrow> 'w \<Rightarrow> string \<Rightarrow> int \<Rightarrow> user \<Rightarrow> claims \<Rightarrow> claims res" where
  "validateUserAccess s w audience version u c =
     (if usByID (us_repo s) \<noteq> None \<and> u_AuthSource u = AuthSourceSAML \<and>
         (case u_CompanyId u of None \<Rightarrow> True | Some company \<Rightarrow> claimStringValue c ''principal_tid'' \<noteq> TrimSpace company)
      then Inl ErrInvalidToken
      else if u_Status u \<noteq> UserStatusActive then Inl ErrInvalidCreds
      else if u_PasswordChangeRequired u then Inl ErrPasswordChangeRequired
      else if \<not> currentPlatformAuthorityValid s (Some u) c then Inl ErrInvalidToken
      else if managedLogsPlatformReadScope \<in> set (Fields (claimStringValue c ''scope'')) \<and>
              (audience \<noteq> CodeAdminAudienceClientID \<or> \<not> managedLogsPlatformAuthority s w u c)
      then Inl ErrInvalidToken
      else if u_TokenVersion u \<noteq> version then Inl ErrInvalidToken
      else if \<not> validateCurrentAccessTokenTarget s w c then Inl ErrInvalidToken
      else if c ''native_client_id'' \<noteq> None \<or> c ''native_policy'' \<noteq> None
      then (if validateNativeAccessToken s w u c \<noteq> None then Inl ErrInvalidToken else Inr c)
      else if \<not> validateCurrentAccessTokenAuthority s w u c then Inl ErrInvalidToken
      else Inr c)"

definition ValidateAccessToken ::
  "('w, 'k) userService \<Rightarrow> 'w \<Rightarrow> callEnv \<Rightarrow> string \<Rightarrow> string \<Rightarrow> string \<Rightarrow> claims res" where
  "ValidateAccessToken s w E tokenString issuer audience =
     (case getRSAPrivateKey s of
        Inl e \<Rightarrow> Inl e
      | Inr key \<Rightarrow>
          (case ValidateRS256 (us_jwt s) (ev_parseTime E) (ev_checkTime E) tokenString key issuer audience of
             Inl e \<Rightarrow> Inl e
           | Inr c \<Rightarrow>
               let subject = claimStringValue c ''sub''; email = claimStringValue c ''email'' in
               if isWorkloadSubject subject
               then (if TrimSpace (claimStringValue c ''tid'') = [] then Inl ErrInvalidToken else Inr c)
               else
                 (case tokenVersion c of
                    None \<Rightarrow> Inl ErrInvalidToken
                  | Some version \<Rightarrow>
                      if TrimSpace subject = [] \<or> TrimSpace email = [] then Inl ErrInvalidToken
                      else (case resolveCurrentTokenUser s w subject email of
                              Inl e \<Rightarrow> Inl e
                            | Inr u \<Rightarrow> validateUserAccess s w audience version u c))))"

section \<open>Lemmas\<close>

lemma audienceAllowed_nonempty: "audienceAllowed P v \<Longrightarrow> v \<noteq> []"
  using validPermission_graphic by (auto simp: audienceAllowed_def)

lemma collectRolePermissions_source:
  "collectRolePermissions P R w skip t names perms creator = Some (ps, cr) \<Longrightarrow> v \<in> set ps \<Longrightarrow>
   v \<in> set perms \<or> (\<exists>n \<in> set names. \<exists>r. rsGetByName R w t n = Inr r \<and> v \<in> set (rr_Permissions r))"
proof (induction names arbitrary: perms creator)
  case (Cons rn names)
  from Cons.prems(1) show ?case
  proof (cases rule: collectRolePermissions_ConsE)
    case 1
    with Cons show ?thesis by fastforce
  next
    case (2 role c)
    with Cons.IH [OF 2(4) Cons.prems(2)] show ?thesis by auto
  qed
qed simp

lemma resolveMembershipRoleAuthorization_source:
  assumes "resolveMembershipRoleAuthorization s w t roles = Some a" "v \<in> set (ta_permissions a)"
  obtains R n r where "us_roleSvc s = Some R" "n \<in> set roles" "rsGetByName R w t n = Inr r" "v \<in> set (rr_Permissions r)"
  using assms
  by (auto simp: resolveMembershipRoleAuthorization_def split: option.splits prod.splits
      dest!: collectRolePermissions_source)

lemma validateUserAccess_Inr:
  "validateUserAccess s w audience version u c = Inr c' \<Longrightarrow>
   c' = c \<and> u_Status u = UserStatusActive \<and> \<not> u_PasswordChangeRequired u \<and> currentPlatformAuthorityValid s (Some u) c \<and>
   (managedLogsPlatformReadScope \<in> set (Fields (claimStringValue c ''scope'')) \<longrightarrow> managedLogsPlatformAuthority s w u c) \<and>
   u_TokenVersion u = version \<and> validateCurrentAccessTokenTarget s w c \<and>
   (if c ''native_client_id'' \<noteq> None \<or> c ''native_policy'' \<noteq> None then validateNativeAccessToken s w u c = None
    else validateCurrentAccessTokenAuthority s w u c)"
  unfolding validateUserAccess_def by (cases "c ''native_client_id'' \<noteq> None \<or> c ''native_policy'' \<noteq> None") (simp_all split: if_splits)

lemma ValidateAccessToken_signed:
  assumes "ValidateAccessToken s w E tok issuer audience = Inr c"
  obtains key where "getRSAPrivateKey s = Inr key"
    "ValidateRS256 (us_jwt s) (ev_parseTime E) (ev_checkTime E) tok key issuer audience = Inr c"
proof -
  have e: "validateUserAccess s w audience v u c' = Inr c \<Longrightarrow> c' = c" for v u c'
    by (drule validateUserAccess_Inr) simp
  from assms e that show thesis
    by (auto simp: ValidateAccessToken_def Let_def split: sum.splits if_splits option.splits)
qed

lemma ValidateAccessToken_workload:
  assumes "ValidateAccessToken s w E tok issuer audience = Inr c" "isWorkloadSubject (claimStringValue c ''sub'')"
  shows "TrimSpace (claimStringValue c ''tid'') \<noteq> []"
proof -
  from ValidateAccessToken_signed [OF assms(1)] obtain key where "getRSAPrivateKey s = Inr key"
    "ValidateRS256 (us_jwt s) (ev_parseTime E) (ev_checkTime E) tok key issuer audience = Inr c" .
  with assms show ?thesis by (auto simp: ValidateAccessToken_def split: if_splits)
qed

lemma collectRolePermissions_creator:
  "collectRolePermissions P R w skip t names perms creator = Some (ps, True) \<Longrightarrow> creator \<or> t @ ''-admin'' \<in> set names"
proof (induction names arbitrary: perms creator)
  case (Cons rn names)
  then show ?case by (fastforce split: sum.splits if_splits)
qed simp

lemma resolveMembershipRoleAuthorization_creator:
  "resolveMembershipRoleAuthorization s w t roles = Some a \<Longrightarrow> ta_legacyCreatorAdministrator a \<Longrightarrow> t @ ''-admin'' \<in> set roles"
  by (auto simp: resolveMembershipRoleAuthorization_def split: option.splits prod.splits
      dest!: collectRolePermissions_creator)

lemma ValidateAccessToken_Inr:
  assumes "ValidateAccessToken s w E tok issuer audience = Inr c" "\<not> isWorkloadSubject (claimStringValue c ''sub'')"
  obtains key u where "getRSAPrivateKey s = Inr key"
    "ValidateRS256 (us_jwt s) (ev_parseTime E) (ev_checkTime E) tok key issuer audience = Inr c"
    "resolveCurrentTokenUser s w (claimStringValue c ''sub'') (claimStringValue c ''email'') = Inr u"
    "tokenVersion c = Some (u_TokenVersion u)" "validateUserAccess s w audience (u_TokenVersion u) u c = Inr c"
proof -
  from assms(1) obtain key where k: "getRSAPrivateKey s = Inr key"
    by (auto simp: ValidateAccessToken_def split: sum.splits)
  with assms(1) obtain c' where v: "ValidateRS256 (us_jwt s) (ev_parseTime E) (ev_checkTime E) tok key issuer audience = Inr c'"
    by (auto simp: ValidateAccessToken_def split: sum.splits)
  have r: "ValidateAccessToken s w E tok issuer audience =
      (let subject = claimStringValue c' ''sub''; email = claimStringValue c' ''email'' in
       if isWorkloadSubject subject
       then (if TrimSpace (claimStringValue c' ''tid'') = [] then Inl ErrInvalidToken else Inr c')
       else (case tokenVersion c' of
               None \<Rightarrow> Inl ErrInvalidToken
             | Some version \<Rightarrow>
                 if TrimSpace subject = [] \<or> TrimSpace email = [] then Inl ErrInvalidToken
                 else (case resolveCurrentTokenUser s w subject email of
                         Inl e \<Rightarrow> Inl e
                       | Inr u \<Rightarrow> validateUserAccess s w audience version u c')))"
    by (simp add: ValidateAccessToken_def k v)
  show thesis
  proof (cases "isWorkloadSubject (claimStringValue c' ''sub'')")
    case True
    with r assms show thesis by (simp add: Let_def split: if_splits)
  next
    case False
    with r assms(1) obtain u version where
      u: "tokenVersion c' = Some version" "validateUserAccess s w audience version u c' = Inr c"
        "resolveCurrentTokenUser s w (claimStringValue c' ''sub'') (claimStringValue c' ''email'') = Inr u"
      by (simp add: Let_def split: if_splits option.splits sum.splits)
    from validateUserAccess_Inr [OF u(2)] have "c = c'" "u_TokenVersion u = version" by simp_all
    with u k v that show thesis by blast
  qed
qed

lemma validateCurrentAccessTokenTarget_client:
  assumes "validateCurrentAccessTokenTarget s w c" "us_clientSvc s = Some getClient"
  obtains audience cl where "c ''aud'' = Some (JStr audience)"
    "getClient w (claimStringValue c ''tid'') audience = Inr (Some cl)" "c_Id cl = audience"
    "c_TenantId cl = claimStringValue c ''tid''" "c_Status cl = ClientStatusActive"
    "TrimSpace ` set (Fields (claimStringValue c ''scope'')) \<subseteq> TrimSpace ` set (c_DefaultScopes cl)"
proof -
  from assms obtain audience where a: "c ''aud'' = Some (JStr audience)"
    by (auto simp: validateCurrentAccessTokenTarget_def Let_def split: if_splits option.splits jval.splits)
  from assms a obtain cl where cl: "getClient w (claimStringValue c ''tid'') audience = Inr (Some cl)"
    "c_Id cl = audience" "c_TenantId cl = claimStringValue c ''tid''" "c_Status cl = ClientStatusActive"
    by (auto simp: validateCurrentAccessTokenTarget_def Let_def split: if_splits sum.splits option.splits)
  have "TrimSpace ` set (Fields (claimStringValue c ''scope'')) \<subseteq> TrimSpace ` set (c_DefaultScopes cl)"
  proof (cases "Fields (claimStringValue c ''scope'') = []")
    case False
    with assms a cl obtain canon current where
      "CanonicalAudienceScopes (us_policy s) (Fields (claimStringValue c ''scope'')) = Some canon"
      "CanonicalAudienceScopes (us_policy s) (c_DefaultScopes cl) = Some current" "subsetList canon current"
      by (auto simp: validateCurrentAccessTokenTarget_def Let_def split: if_splits option.splits)
    then show ?thesis using audienceAllowed_nonempty by (fastforce simp: CanonicalAudienceScopes_eq_Some subsetList_iff)
  qed simp
  with a cl that show thesis by blast
qed

lemma currentScopeAuthority_source:
  assumes "v \<in> set (currentScopeAuthority s u c platformAuthority recovered cs a)"
  obtains v0 where "v = TrimSpace v0" "v0 \<in> set (ta_permissions a)"
  | "v = tenantSecretReadScope \<or> v = tenantSecretWriteScope" "ta_legacyCreatorAdministrator a"
  | v0 where "v = TrimSpace v0" "platformAuthority" "v0 \<in> set (homeAuthority u RoleAdmin cs PlatformPrivilegeAdmin)"
  | v0 priv where "v = TrimSpace v0" "u_CompanyId u \<noteq> None" "priv = issuablePlatformPrivilege (Some u) (claimStringValue c PlatformPrivilegeClaim)"
      "v0 \<in> set (homeGlobalAuthority (us_policy s) u (effectiveUserRole (Some u) priv) cs priv)"
  | "recovered"
proof -
  have sec: "TrimSpace tenantSecretReadScope = tenantSecretReadScope" "TrimSpace tenantSecretWriteScope = tenantSecretWriteScope"
    by (simp_all add: TrimSpace_all_graphic graphic_def)
  from assms show thesis
    using that sec
    unfolding currentScopeAuthority_def set_normalizePermissions
    by (auto simp: Let_def split: if_splits)
qed

lemma validateCurrentAccessTokenAuthority_roles:
  assumes "validateCurrentAccessTokenAuthority s w u c" "c ''roles'' = Some raw" "us_directoryAccess s \<noteq> None"
    "claimStringValue c platformAuthorityOriginClaim \<noteq> platformAuthorityOriginSAML"
  obtains rs a where "canonicalAccessTokenRoles raw = Some rs"
    "accessTenantRoles s w (u_Id u) (claimStringValue c ''tid'') = Inr rs"
    "resolveMembershipRoleAuthorization s w (claimStringValue c ''tid'') rs = Some a"
    "Fields (claimStringValue c ''scope'') = [] \<or>
     (\<exists>canon. CanonicalAudienceScopes (us_policy s) (Fields (claimStringValue c ''scope'')) = Some canon \<and>
        set canon \<subseteq> set (currentScopeAuthority s u c False (recoveredMasterPlatformClaims c rs) canon a) \<and>
        (recoveredMasterPlatformClaims c rs \<longrightarrow> recoveredMasterPlatformAdministrator s w u))"
proof -
  let ?tid = "claimStringValue c ''tid''"
  from assms obtain rs where rs: "canonicalAccessTokenRoles raw = Some rs" "validRoleTenantID ?tid"
    "currentTokenRoles s w u ?tid False rs = Some rs \<or> currentTokenRoles s w u ?tid False rs \<noteq> Some rs"
    by (auto simp: validateCurrentAccessTokenAuthority_def Let_def split: option.splits if_splits)
  from canonicalAccessTokenRoles_Some [OF rs(1)] have ne: "rs \<noteq> []" by simp
  from assms rs obtain cur where cur: "currentTokenRoles s w u ?tid False rs = Some cur"
    by (auto simp: validateCurrentAccessTokenAuthority_def Let_def split: option.splits if_splits)
  then have acc: "accessTenantRoles s w (u_Id u) ?tid = Inr rs" "cur = rs"
    using assms(3) ne by (auto simp: currentTokenRoles_def split: sum.splits if_splits)
  from assms rs cur acc ne obtain a where a: "resolveMembershipRoleAuthorization s w ?tid rs = Some a"
    by (auto simp: validateCurrentAccessTokenAuthority_def Let_def currentRoleAuthorization_def split: option.splits if_splits)
  have last: "Fields (claimStringValue c ''scope'') = [] \<or>
      (\<exists>canon. CanonicalAudienceScopes (us_policy s) (Fields (claimStringValue c ''scope'')) = Some canon \<and>
        subsetList canon (currentScopeAuthority s u c False (recoveredMasterPlatformClaims c rs) canon a) \<and>
        (recoveredMasterPlatformClaims c rs \<longrightarrow> recoveredMasterPlatformAdministrator s w u))"
    using assms rs cur acc ne a
    by (simp add: validateCurrentAccessTokenAuthority_def Let_def currentRoleAuthorization_def split: option.splits if_splits)
  show thesis
  proof (rule that [OF rs(1) acc(1) a])
    show "Fields (claimStringValue c ''scope'') = [] \<or>
      (\<exists>canon. CanonicalAudienceScopes (us_policy s) (Fields (claimStringValue c ''scope'')) = Some canon \<and>
        set canon \<subseteq> set (currentScopeAuthority s u c False (recoveredMasterPlatformClaims c rs) canon a) \<and>
        (recoveredMasterPlatformClaims c rs \<longrightarrow> recoveredMasterPlatformAdministrator s w u))"
      using last CanonicalAudienceScopes_nonempty_members by (auto simp: subsetList_iff)
  qed
qed

lemma homeGlobalAuthority_role:
  assumes "v \<in> set (homeGlobalAuthority P u sr cs priv)"
  shows "u_Role u = RoleAdmin \<or> u_Role u = RoleCompanyAdmin"
proof -
  from assms have "effectiveUserRole (Some u) priv = RoleAdmin \<or> effectiveUserRole (Some u) priv = RoleCompanyAdmin"
    by (auto simp: homeGlobalAuthority_def homeAuthority_def Let_def split: if_splits)
  then show ?thesis by (auto simp: effectiveUserRole_def split: if_splits)
qed

lemma heldRoles_held: "heldRoles R w t held exs = Some rs \<Longrightarrow> set rs \<subseteq> set held"
proof (induction exs arbitrary: rs)
  case (Cons ex exs)
  then show ?case by (fastforce split: if_splits sum.splits)
qed simp

lemma currentNativeIdentity_held:
  assumes "currentNativeIdentity s w (Some u) nc = Inr (identity, roles)" "us_directoryAccess s = Some d"
  shows "\<exists>held. dirGetEffectiveTenantRoles d w (u_Id u) (nc_TenantID nc) = Inr held \<and> set roles \<subseteq> set held"
proof -
  from assms obtain held R roles0 where "dirGetEffectiveTenantRoles d w (u_Id u) (nc_TenantID nc) = Inr held"
    "heldRoles R w (nc_TenantID nc) held (nc_BaseRole nc # nc_AdditionalRoles nc) = Some roles0" "roles = sort roles0"
    by (auto simp: currentNativeIdentity_def Let_def simp del: heldRoles.simps split: option.splits if_splits sum.splits)
  with heldRoles_held show ?thesis by fastforce
qed

lemma canonicalAccessTokenRoles_named: "canonicalAccessTokenRoles raw = Some rs \<Longrightarrow> [] \<notin> set rs"
  by (auto simp: canonicalAccessTokenRoles_def canonicalMembershipRoles_eq_Some list_all_iff validRoleName_def
      split: option.splits if_splits)

lemma validateNativeAccessToken_held:
  assumes "validateNativeAccessToken s w u c = None" "us_directoryAccess s = Some d"
  shows "\<exists>raw rs held. c ''roles'' = Some raw \<and> canonicalAccessTokenRoles raw = Some rs \<and>
    dirGetEffectiveTenantRoles d w (u_Id u) (claimStringValue c ''tid'') = Inr held \<and> set rs \<subseteq> set held"
proof -
  from assms(1) obtain nc identity cur where nc: "nativeClaimsMatch s nc c"
    and cur: "currentNativeIdentity s w (Some u) nc = Inr (identity, cur)"
    and rs: "\<exists>raw rs. c ''roles'' = Some raw \<and> canonicalAccessTokenRoles raw = Some rs \<and> subsetList rs cur"
    by (auto simp: validateNativeAccessToken_def Let_def split: option.splits if_splits sum.splits)
  from rs obtain raw rs where r: "c ''roles'' = Some raw" "canonicalAccessTokenRoles raw = Some rs" "subsetList rs cur" by blast
  from r(3) canonicalAccessTokenRoles_named [OF r(2)] have "set rs \<subseteq> set cur" by (simp add: subsetList_iff)
  with currentNativeIdentity_held [OF cur assms(2)] nc r show ?thesis by (auto simp: nativeClaimsMatch_def)
qed

lemma validateCurrentAccessTokenAuthority_held:
  assumes "validateCurrentAccessTokenAuthority s w u c" "c ''roles'' = Some raw" "raw \<noteq> JNull" "us_directoryAccess s = Some d"
  shows "\<exists>rs held. canonicalAccessTokenRoles raw = Some rs \<and>
    dirGetEffectiveTenantRoles d w (u_Id u) (claimStringValue c ''tid'') = Inr held \<and> set rs = set held"
proof -
  let ?tid = "claimStringValue c ''tid''"
    and ?p = "claimStringValue c platformAuthorityOriginClaim = platformAuthorityOriginSAML"
  from assms obtain rs cur where rs: "canonicalAccessTokenRoles raw = Some rs" "currentTokenRoles s w u ?tid ?p rs = Some cur"
    by (auto simp: validateCurrentAccessTokenAuthority_def Let_def split: option.splits if_splits)
  from canonicalAccessTokenRoles_Some [OF rs(1)] have "rs \<noteq> []" by simp
  with rs(2) assms(4) have "accessTenantRoles s w (u_Id u) ?tid = Inr rs"
    by (auto simp: currentTokenRoles_def split: sum.splits if_splits)
  then show ?thesis using assms(4) rs(1)
    by (auto simp: accessTenantRoles_def canonicalMembershipRoles_eq_Some split: sum.splits option.splits)
qed

section \<open>Properties\<close>

text \<open>
  C38. An access token that validates was signed with the service's key, has not expired and names the issuer and the
  audience the caller asked for (an empty argument asks for none). A workload subject is then only held to a tenant;
  its authority is checked when the token is issued. For every other subject the token rests on what is stored now:
  the subject is the stored, active user with the signed address (up to letter case) at the signed version, the tenant
  is active, and the audience client of that tenant is active and still lists every scope in the token.
\<close>
theorem access_token_current:
  assumes "ValidateAccessToken s w E tok issuer audience = Inr c"
    and "usByID (us_repo s) = Some byID" and "us_tenantRepo s = Some T" and "us_clientSvc s = Some getClient"
  shows "(\<exists>key. getRSAPrivateKey s = Inr key \<and> parseRS256 (us_jwt s) (TrimSpace tok) key (ev_parseTime E) = Some c) \<and>
    (\<exists>ex. expirationTime (us_jwt s) c = Inr (Some ex) \<and> ev_checkTime E \<le> ex) \<and>
    (issuer \<noteq> [] \<longrightarrow> claimStringValue c ''iss'' = issuer) \<and> (audience \<noteq> [] \<longrightarrow> audienceMatches c audience) \<and>
    (if isWorkloadSubject (claimStringValue c ''sub'') then TrimSpace (claimStringValue c ''tid'') \<noteq> []
     else
       (\<exists>u. idFindByID byID w (claimStringValue c ''sub'') = Inr (Some u) \<and> u_Id u = claimStringValue c ''sub'' \<and>
          EqualFold (us_unicode s) (u_Email u) (claimStringValue c ''email'') \<and>
          u_Status u = UserStatusActive \<and> \<not> u_PasswordChangeRequired u \<and> tokenVersion c = Some (u_TokenVersion u) \<and>
          platformCurrent s u) \<and>
       tenantIsActive T w (claimStringValue c ''tid'') \<and>
       (\<exists>aud cl. c ''aud'' = Some (JStr aud) \<and> getClient w (claimStringValue c ''tid'') aud = Inr (Some cl) \<and>
          c_TenantId cl = claimStringValue c ''tid'' \<and> c_Status cl = ClientStatusActive \<and>
          TrimSpace ` set (Fields (claimStringValue c ''scope'')) \<subseteq> TrimSpace ` set (c_DefaultScopes cl)))"
proof -
  from ValidateAccessToken_signed [OF assms(1)] obtain key where k: "getRSAPrivateKey s = Inr key"
    "ValidateRS256 (us_jwt s) (ev_parseTime E) (ev_checkTime E) tok key issuer audience = Inr c" by metis
  show ?thesis
  proof (cases "isWorkloadSubject (claimStringValue c ''sub'')")
    case True
    with k ValidateAccessToken_workload [OF assms(1) True] show ?thesis by (simp add: ValidateRS256_Inr) blast
  next
    case False
    from ValidateAccessToken_Inr [OF assms(1) False] obtain u where
      r: "resolveCurrentTokenUser s w (claimStringValue c ''sub'') (claimStringValue c ''email'') = Inr u"
      and v: "tokenVersion c = Some (u_TokenVersion u)" and a: "validateUserAccess s w audience (u_TokenVersion u) u c = Inr c"
      by metis
    note id = resolveCurrentTokenUser_byID [OF r assms(2)] resolveCurrentTokenUser_email [OF r]
    note ok = validateUserAccess_Inr [OF a]
    then have t: "validateCurrentAccessTokenTarget s w c" by simp
    then have "tenantIsActive T w (claimStringValue c ''tid'')"
      using assms(3) by (simp add: validateCurrentAccessTokenTarget_def Let_def split: if_splits)
    moreover from validateCurrentAccessTokenTarget_client [OF t assms(4)]
    have "\<exists>aud cl. c ''aud'' = Some (JStr aud) \<and> getClient w (claimStringValue c ''tid'') aud = Inr (Some cl) \<and>
         c_TenantId cl = claimStringValue c ''tid'' \<and> c_Status cl = ClientStatusActive \<and>
         TrimSpace ` set (Fields (claimStringValue c ''scope'')) \<subseteq> TrimSpace ` set (c_DefaultScopes cl)"
      by metis
    moreover have "platformCurrent s u" using ok currentPlatformAuthorityValid_current by blast
    ultimately show ?thesis using False k id ok v by (simp add: ValidateRS256_Inr) blast
  qed
qed

text \<open>A tenant token of the sample user, with its role and one scope.\<close>

definition accessClaims :: claims where
  "accessClaims =
     [''iss'' \<mapsto> JStr ''https://id'', ''aud'' \<mapsto> JStr CodeAdminAudienceClientID, ''sub'' \<mapsto> JStr ''u-1'',
      ''email'' \<mapsto> JStr ''ana@acme.io'', ''tid'' \<mapsto> JStr ''globex'', ''ver'' \<mapsto> JNum 3, ''exp'' \<mapsto> JNum 1000,
      ''roles'' \<mapsto> JArr [JStr ''reader''], ''scope'' \<mapsto> JStr ''code-admin:ai:read'']"

definition accessOn :: "unit directoryRepository \<Rightarrow> (unit, unit) userService" where
  "accessOn d = sampleService\<lparr>us_jwt := sampleJwt\<lparr>parseRS256 := (\<lambda>t k n. Some accessClaims)\<rparr>, us_directoryAccess := Some d\<rparr>"

abbreviation accessService :: "(unit, unit) userService" where
  "accessService \<equiv> accessOn sampleDirectory"

lemma accessClaims_values:
  "claimStringValue accessClaims ''sub'' = ''u-1''" "claimStringValue accessClaims ''email'' = ''ana@acme.io''"
  "claimStringValue accessClaims ''tid'' = ''globex''" "claimStringValue accessClaims ''iss'' = ''https://id''"
  "Fields (claimStringValue accessClaims ''scope'') = [''code-admin:ai:read'']"
  "claimStringValue accessClaims platformAuthorityOriginClaim = []" "claimStringValue accessClaims PlatformPrivilegeClaim = []"
  "accessClaims ''roles'' = Some (JArr [JStr ''reader''])" "accessClaims ''aud'' = Some (JStr CodeAdminAudienceClientID)"
  "accessClaims ''native_client_id'' = None" "accessClaims ''native_policy'' = None"
  "canonicalAccessTokenRoles (JArr [JStr ''reader'']) = Some [''reader'']"
proof -
  have "claimStringValue accessClaims ''scope'' = ''code-admin:ai:read''" by (simp add: accessClaims_def claimStringValue_def)
  then show "Fields (claimStringValue accessClaims ''scope'') = [''code-admin:ai:read'']"
    using Fields_Join_roundtrip [of "[''code-admin:ai:read'']"] by (simp add: graphic_def)
  have "validRoleName ''reader''" by (simp add: validRoleName_def asciiAlphaNumeric_def inLower_def inUpper_def inDigit_def)
  then show "canonicalAccessTokenRoles (JArr [JStr ''reader'']) = Some [''reader'']"
    by (simp add: canonicalAccessTokenRoles_def stringList_def canonicalMembershipRoles_def)
qed (simp_all add: accessClaims_def claimStringValue_def)

lemma accessOn_fields:
  "us_repo (accessOn d) = sampleRepo" "us_tenantRepo (accessOn d) = Some sampleTenants" "us_policy (accessOn d) = compiledPolicy"
  "us_clientSvc (accessOn d) = Some (\<lambda>w t a. Inr (Some (sampleAudience t a)))" "us_unicode (accessOn d) = asciiUnicode"
  "us_directoryAccess (accessOn d) = Some d" "us_roleSvc (accessOn d) = Some sampleRoles"
  "getRSAPrivateKey (accessOn d) = Inr ()"
  "dirGetEffectiveTenantRoles d () ''u-1'' t = Inr [''reader''] \<Longrightarrow> accessTenantRoles (accessOn d) () ''u-1'' t = Inr [''reader'']"
  "resolveMembershipRoleAuthorization (accessOn d) () t [''reader''] =
     Some \<lparr>ta_roles = [''reader''], ta_permissions = [''code-admin:ai:read''], ta_legacyCreatorAdministrator = False\<rparr>"
proof -
  have e: "us_policy (accessOn d) = us_policy sampleService" "us_roleSvc (accessOn d) = us_roleSvc sampleService"
    by (simp_all add: accessOn_def)
  have "validRoleName ''reader''" by (simp add: validRoleName_def asciiAlphaNumeric_def inLower_def inUpper_def inDigit_def)
  then show "accessTenantRoles (accessOn d) () ''u-1'' t = Inr [''reader'']"
    if "dirGetEffectiveTenantRoles d () ''u-1'' t = Inr [''reader'']"
    using that by (simp add: accessTenantRoles_def accessOn_def canonicalMembershipRoles_def)
  show "resolveMembershipRoleAuthorization (accessOn d) () t [''reader''] =
     Some \<lparr>ta_roles = [''reader''], ta_permissions = [''code-admin:ai:read''], ta_legacyCreatorAdministrator = False\<rparr>"
    using sampleRole_lookup [of t] unfolding resolveMembershipRoleAuthorization_def e by simp
qed (simp_all add: accessOn_def sampleService_def getRSAPrivateKey_def ParseRSAPrivateKey_def sampleJwt_def)

lemma access_subject: "\<not> isWorkloadSubject ''u-1''"
  by (simp add: isWorkloadSubject_def ParseWorkloadSubject_def sample_strings HasPrefix_def)

lemma sample_access_token:
  assumes "dirGetEffectiveTenantRoles d () ''u-1'' ''globex'' = Inr [''reader'']"
  shows "ValidateAccessToken (accessOn d) () sampleCall ''access-token'' ''https://id'' CodeAdminAudienceClientID = Inr accessClaims"
proof -
  have v: "ValidateRS256 (us_jwt (accessOn d)) (ev_parseTime sampleCall) (ev_checkTime sampleCall) ''access-token'' ()
      ''https://id'' CodeAdminAudienceClientID = Inr accessClaims"
    unfolding ValidateRS256_Inr
    by (simp add: accessClaims_values audienceMatches_def TrimSpace_all_graphic graphic_def accessOn_def sampleJwt_def)
      (simp add: accessClaims_def sampleCall_def)
  have ver: "tokenVersion accessClaims = Some 3" by (simp add: tokenVersion_def accessClaims_def)
  have r: "resolveCurrentTokenUser (accessOn d) () ''u-1'' ''ana@acme.io'' = Inr sampleUser"
    using EqualFold_refl [of asciiUnicode] sample_strings
    by (simp add: resolveCurrentTokenUser_def accessOn_fields foldReflexive_def sampleRepo_def)
      (simp add: sampleUser_def asciiUnicode_def)
  have pc: "currentPlatformAuthorityValid (accessOn d) (Some sampleUser) accessClaims"
    using currentPlatformAuthorityValid_issued [of accessClaims sampleUser "[]" "accessOn d"]
    by (simp add: accessClaims_values issuablePlatformPrivilege_def platformCurrent_def sampleUser_def)
  have u: "u_Status sampleUser = UserStatusActive" "\<not> u_PasswordChangeRequired sampleUser" "u_AuthSource sampleUser = AuthSourcePassword"
    "u_TokenVersion sampleUser = 3" "u_Id sampleUser = ''u-1''" by (simp_all add: sampleUser_def)
  have t: "validRoleTenantID ''globex''" "tenantIsActive sampleTenants () ''globex''"
    by (simp_all add: validRoleTenantID_def inLower_def inDigit_def sample_home)
  have tgt: "validateCurrentAccessTokenTarget (accessOn d) () accessClaims"
    by (simp add: validateCurrentAccessTokenTarget_def accessClaims_values accessOn_fields t sampleScopes_canonical
        sample_audience subsetList_iff TrimSpace_all_graphic graphic_def) (simp add: sampleAudience_def)
  have "set [''code-admin:ai:read''] \<subseteq> set (currentScopeAuthority (accessOn d) sampleUser accessClaims False False
      [''code-admin:ai:read''] \<lparr>ta_roles = [''reader''], ta_permissions = [''code-admin:ai:read''], ta_legacyCreatorAdministrator = False\<rparr>)"
    by (simp add: currentScopeAuthority_def TrimSpace_all_graphic graphic_def)
  then have au: "validateCurrentAccessTokenAuthority (accessOn d) () sampleUser accessClaims"
    by (simp add: validateCurrentAccessTokenAuthority_def accessClaims_values accessOn_fields assms t u currentTokenRoles_def
        currentRoleAuthorization_def sampleScopes_canonical recoveredMasterPlatformClaims_def subsetList_iff)
  show ?thesis
    using v r tgt au pc
    by (simp add: ValidateAccessToken_def accessOn_fields accessClaims_values access_subject ver sample_strings validateUserAccess_def u)
qed

lemma sample_directory_reader: "dirGetEffectiveTenantRoles sampleDirectory () u t = Inr [''reader'']"
  by (simp add: sampleDirectory_def)

theorem access_token_current_witness:
  "ValidateAccessToken accessService () sampleCall ''access-token'' ''https://id'' CodeAdminAudienceClientID = Inr accessClaims \<and>
   tenantIsActive sampleTenants () ''globex''"
  using access_token_current [OF sample_access_token [OF sample_directory_reader], of "the (usByID sampleRepo)" sampleTenants]
    sample_access_token [OF sample_directory_reader] access_subject
  by (simp add: accessClaims_values accessOn_fields sampleRepo_def)

text \<open>The roles of a valid tenant token are those the directory reports now.\<close>

lemma access_token_roles_held:
  assumes "ValidateAccessToken s w E tok issuer audience = Inr c" and "\<not> isWorkloadSubject (claimStringValue c ''sub'')"
    and "usByID (us_repo s) = Some byID" and "c ''roles'' = Some raw" and "us_directoryAccess s = Some d"
    and "c ''native_client_id'' = None" and "c ''native_policy'' = None"
    and "claimStringValue c platformAuthorityOriginClaim \<noteq> platformAuthorityOriginSAML"
  shows "\<exists>u rs held. idFindByID byID w (claimStringValue c ''sub'') = Inr (Some u) \<and>
    canonicalAccessTokenRoles raw = Some rs \<and>
    dirGetEffectiveTenantRoles d w (u_Id u) (claimStringValue c ''tid'') = Inr held \<and> set rs = set held \<and>
    (\<forall>v \<in> TrimSpace ` set (Fields (claimStringValue c ''scope'')).
       (\<exists>R. us_roleSvc s = Some R \<and> (\<exists>n \<in> set rs. \<exists>r. rsGetByName R w (claimStringValue c ''tid'') n = Inr r \<and>
          v \<in> TrimSpace ` set (rr_Permissions r))) \<or>
       (v = tenantSecretReadScope \<or> v = tenantSecretWriteScope) \<and> claimStringValue c ''tid'' @ ''-admin'' \<in> set rs \<or>
       u_CompanyId u \<noteq> None \<and> (u_Role u = RoleAdmin \<or> u_Role u = RoleCompanyAdmin) \<or>
       recoveredMasterPlatformAdministrator s w u)"
proof -
  let ?tid = "claimStringValue c ''tid''" and ?sc = "Fields (claimStringValue c ''scope'')"
  from ValidateAccessToken_Inr [OF assms(1,2)] obtain u where
    r: "resolveCurrentTokenUser s w (claimStringValue c ''sub'') (claimStringValue c ''email'') = Inr u"
    and a: "validateUserAccess s w audience (u_TokenVersion u) u c = Inr c" by metis
  note id = resolveCurrentTokenUser_byID [OF r assms(3)]
  from validateUserAccess_Inr [OF a] assms have "validateCurrentAccessTokenAuthority s w u c" by simp
  from validateCurrentAccessTokenAuthority_roles [OF this assms(4) _ assms(8)] assms(5) obtain rs az where
    rs: "canonicalAccessTokenRoles raw = Some rs" "accessTenantRoles s w (u_Id u) ?tid = Inr rs"
    and az: "resolveMembershipRoleAuthorization s w ?tid rs = Some az"
    and sc: "?sc = [] \<or> (\<exists>canon. CanonicalAudienceScopes (us_policy s) ?sc = Some canon \<and>
        set canon \<subseteq> set (currentScopeAuthority s u c False (recoveredMasterPlatformClaims c rs) canon az) \<and>
        (recoveredMasterPlatformClaims c rs \<longrightarrow> recoveredMasterPlatformAdministrator s w u))"
    by auto
  from rs(2) assms(5) obtain held where held: "dirGetEffectiveTenantRoles d w (u_Id u) ?tid = Inr held"
    "canonicalMembershipRoles held = Some rs"
    by (auto simp: accessTenantRoles_def split: sum.splits option.splits)
  have scopes: "(\<exists>R. us_roleSvc s = Some R \<and> (\<exists>n \<in> set rs. \<exists>r. rsGetByName R w ?tid n = Inr r \<and>
          v \<in> TrimSpace ` set (rr_Permissions r))) \<or>
       (v = tenantSecretReadScope \<or> v = tenantSecretWriteScope) \<and> ?tid @ ''-admin'' \<in> set rs \<or>
       u_CompanyId u \<noteq> None \<and> (u_Role u = RoleAdmin \<or> u_Role u = RoleCompanyAdmin) \<or>
       recoveredMasterPlatformAdministrator s w u" if v: "v \<in> TrimSpace ` set ?sc" for v
  proof -
    from v sc obtain canon where canon: "CanonicalAudienceScopes (us_policy s) ?sc = Some canon"
      "set canon \<subseteq> set (currentScopeAuthority s u c False (recoveredMasterPlatformClaims c rs) canon az)"
      "recoveredMasterPlatformClaims c rs \<longrightarrow> recoveredMasterPlatformAdministrator s w u" by auto
    from canon(1) v have "v \<in> set canon" by (simp add: CanonicalAudienceScopes_eq_Some)
    with canon(2) have "v \<in> set (currentScopeAuthority s u c False (recoveredMasterPlatformClaims c rs) canon az)" by auto
    then show ?thesis
    proof (cases rule: currentScopeAuthority_source)
      case (1 v0)
      from resolveMembershipRoleAuthorization_source [OF az 1(2)] obtain R n r where
        "us_roleSvc s = Some R" "n \<in> set rs" "rsGetByName R w ?tid n = Inr r" "v0 \<in> set (rr_Permissions r)" by metis
      with 1(1) show ?thesis by (intro disjI1) auto
    next
      case (4 v0 priv)
      from homeGlobalAuthority_role [OF 4(4)] have "u_Role u = RoleAdmin \<or> u_Role u = RoleCompanyAdmin" .
      with 4 show ?thesis by blast
    next
      case 2
      with resolveMembershipRoleAuthorization_creator [OF az] show ?thesis by (elim disjE) simp_all
    qed (use canon(3) in simp_all)
  qed
  from held(2) have "set rs = set held" by (auto simp: canonicalMembershipRoles_eq_Some)
  with id rs held scopes show ?thesis by blast
qed

text \<open>
  Revoking roles takes effect on tokens already issued. A tenant token with a role list validates only while that
  list equals the roles the user effectively holds in the tenant now, and each of its scopes is a permission of one
  of those roles as defined now, or one of the two secret scopes of a legacy creator role, or authority the user
  record itself carries (ADMIN or COMPANY_ADMIN), or covered by the recovered master assignment that still exists.
\<close>
theorem access_token_roles_current:
  assumes "ValidateAccessToken s w E tok issuer audience = Inr c" and "\<not> isWorkloadSubject (claimStringValue c ''sub'')"
    and "usByID (us_repo s) = Some byID" and "c ''roles'' = Some raw" and "us_directoryAccess s = Some d"
    and "c ''native_client_id'' = None" and "c ''native_policy'' = None"
    and "claimStringValue c platformAuthorityOriginClaim \<noteq> platformAuthorityOriginSAML"
  shows "\<exists>u rs held. idFindByID byID w (claimStringValue c ''sub'') = Inr (Some u) \<and>
    canonicalAccessTokenRoles raw = Some rs \<and>
    dirGetEffectiveTenantRoles d w (u_Id u) (claimStringValue c ''tid'') = Inr held \<and> set rs = set held \<and>
    (\<forall>v \<in> TrimSpace ` set (Fields (claimStringValue c ''scope'')).
       (\<exists>R. us_roleSvc s = Some R \<and> (\<exists>n \<in> set rs. \<exists>r. rsGetByName R w (claimStringValue c ''tid'') n = Inr r \<and>
          v \<in> TrimSpace ` set (rr_Permissions r))) \<or>
       (v = tenantSecretReadScope \<or> v = tenantSecretWriteScope) \<and> claimStringValue c ''tid'' @ ''-admin'' \<in> set rs \<or>
       u_CompanyId u \<noteq> None \<and> (u_Role u = RoleAdmin \<or> u_Role u = RoleCompanyAdmin) \<or>
       recoveredMasterPlatformAdministrator s w u)"
  by (rule access_token_roles_held [OF assms])

theorem access_token_roles_current_witness:
  "\<exists>u rs held. idFindByID (the (usByID sampleRepo)) () ''u-1'' = Inr (Some u) \<and>
     canonicalAccessTokenRoles (JArr [JStr ''reader'']) = Some rs \<and>
     dirGetEffectiveTenantRoles sampleDirectory () (u_Id u) ''globex'' = Inr held \<and> set rs = set held"
proof -
  have h: "\<not> isWorkloadSubject (claimStringValue accessClaims ''sub'')"
    "usByID (us_repo accessService) = Some (the (usByID sampleRepo))"
    "claimStringValue accessClaims platformAuthorityOriginClaim \<noteq> platformAuthorityOriginSAML"
    using access_subject by (simp_all add: accessClaims_values accessOn_fields sampleRepo_def)
  from access_token_roles_current [OF sample_access_token [OF sample_directory_reader] h(1,2) accessClaims_values(8) accessOn_fields(6)
      accessClaims_values(10,11) h(3)]
  show ?thesis unfolding accessClaims_values by (elim exE conjE) (intro exI conjI)
qed

end
