(* ===== verification/Directory_Rights.thy ===== *)
theory Directory_Rights
  imports Directory_Updates Access_Token
begin

text \<open>
  What the identity directory grants: the roles that \<^verbatim>\<open>GetEffectiveTenantRoles\<close> computes, stated over the stored
  assignments, memberships and groups.
\<close>

section \<open>Granted roles\<close>

definition assignedRoles :: "directoryLib \<Rightarrow> keyspace \<Rightarrow> string \<Rightarrow> string \<Rightarrow> string \<Rightarrow> string set" where
  "assignedRoles L ks t kind i =
     {r. \<exists>raw a. ks_hash ks (assignmentsKey t) (assignmentField kind i) = Some raw \<and>
           decodeAssignment L raw t kind i = Inr a \<and> r \<in> set (a_Roles a)}"

definition activeGroup :: "directoryLib \<Rightarrow> keyspace \<Rightarrow> string \<Rightarrow> bool" where
  "activeGroup L ks i \<longleftrightarrow>
     (\<exists>raw g. ks_hash ks directoryGroupsHash i = Some raw \<and> decodeGroup L raw i = Inr g \<and>
        g_Status g = IdentityGroupStatusActive)"

definition grantedRoles :: "directoryLib \<Rightarrow> keyspace \<Rightarrow> string \<Rightarrow> string \<Rightarrow> string set" where
  "grantedRoles L ks t userID =
     assignedRoles L ks t AccessPrincipalUser userID \<union>
     (\<Union>i \<in> {i \<in> ks_set ks (userGroupsKey userID). activeGroup L ks i}. assignedRoles L ks t AccessPrincipalGroup i)"

lemma readAssignment_roles:
  assumes "store_ok R view" "readAssignment R L w t kind i = Inr found"
  shows "assignedRoles L (view w) t kind i = (case found of None \<Rightarrow> {} | Some a \<Rightarrow> set (a_Roles a))"
  using assms(2) store_reads(2) [OF assms(1), of w "assignmentsKey t" "assignmentField kind i"]
  by (auto simp: readAssignment_def assignedRoles_def split: sum.splits option.splits)

lemma GetGroup_active:
  assumes "store_ok R view" "GetGroup R L w i = Inr (Some g)"
  shows "activeGroup L (view w) i \<longleftrightarrow> g_Status g = IdentityGroupStatusActive"
  using assms(2) store_reads(2) [OF assms(1), of w directoryGroupsHash i]
  by (auto simp: GetGroup_def activeGroup_def split: sum.splits option.splits if_splits)

lemma set_eligibleRoles:
  "set (eligibleRoles rg foreign home t roles) = {r \<in> set roles. foreign \<longrightarrow> AllowsForeignRole rg home t r}"
  by (auto simp: eligibleRoles_def)

lemma eligibleRoles_Nil:
  "eligibleRoles rg foreign home t roles = [] \<longleftrightarrow> {r \<in> set roles. foreign \<longrightarrow> AllowsForeignRole rg home t r} = {}"
  by (simp add: set_eligibleRoles [symmetric])

lemma groupContributions_roles:
  assumes "store_ok R view" "groupContributions R L (eligibleRoles rg foreign home t) w t gs = Inr ps"
  shows "\<Union> (set ` pv_Roles ` set ps) =
    {r \<in> (\<Union>i \<in> {i \<in> set gs. activeGroup L (view w) i}. assignedRoles L (view w) t AccessPrincipalGroup i).
       foreign \<longrightarrow> AllowsForeignRole rg home t r}"
  using assms(2)
proof (induction gs arbitrary: ps)
  case (Cons i gs)
  let ?own = "{r \<in> assignedRoles L (view w) t AccessPrincipalGroup i. activeGroup L (view w) i \<and> (foreign \<longrightarrow> AllowsForeignRole rg home t r)}"
  from Cons.prems obtain g where g: "GetGroup R L w i = Inr (Some g)" by (auto split: sum.splits option.splits)
  note act = GetGroup_active [OF assms(1) g]
  obtain qs where qs: "groupContributions R L (eligibleRoles rg foreign home t) w t gs = Inr qs"
    and ps: "\<Union> (set ` pv_Roles ` set ps) = ?own \<union> \<Union> (set ` pv_Roles ` set qs)"
  proof (cases "g_Status g = IdentityGroupStatusActive")
    case False
    with Cons.prems g act that show ?thesis by auto
  next
    case True
    with Cons.prems g obtain found where found: "readAssignment R L w t AccessPrincipalGroup i = Inr found"
      by (auto split: sum.splits)
    note roles = readAssignment_roles [OF assms(1) found]
    show ?thesis
    proof (cases found)
      case None
      with Cons.prems g found True roles that show ?thesis by auto
    next
      case (Some a)
      with Cons.prems g found True obtain qs where
        "groupContributions R L (eligibleRoles rg foreign home t) w t gs = Inr qs"
        "ps = (if length (eligibleRoles rg foreign home t (a_Roles a)) > 0
           then \<lparr>pv_Type = ''GROUP'', pv_Roles = eligibleRoles rg foreign home t (a_Roles a), pv_AssignmentVersion = a_Version a,
                 pv_GroupID = g_ID g, pv_GroupName = g_Name g\<rparr> # qs else qs)"
        by (auto simp: Let_def split: sum.splits)
      moreover have "set (eligibleRoles rg foreign home t (a_Roles a)) = ?own"
        using roles Some act True by (auto simp: set_eligibleRoles)
      ultimately show ?thesis by (intro that) (auto split: if_splits)
    qed
  qed
  show ?case unfolding ps Cons.IH [OF qs] by auto
qed simp

lemma AllowsForeignRole_trust: "AllowsForeignRole rg home t r \<Longrightarrow> HasForeignTrust rg home t"
  by (auto simp: AllowsForeignRole_def HasForeignTrust_def split: option.splits)

lemma GetEffectiveTenantRoles_Inr:
  assumes "store_ok R view" "GetEffectiveTenantRoles R L rg now w userID t = Inr (roles, provenance)"
  shows "\<exists>u. GetDirectoryUser R L now w userID = Inr (Some u) \<and> sorted roles \<and> distinct roles \<and>
    set roles = {r \<in> grantedRoles L (view w) t userID. foreignPrincipal u t \<longrightarrow> AllowsForeignRole rg (du_HomeTenantID u) t r}"
proof -
  from assms(2) obtain u where u: "GetDirectoryUser R L now w userID = Inr (Some u)"
    by (auto simp: GetEffectiveTenantRoles_def split: if_splits sum.splits option.splits)
  let ?foreign = "foreignPrincipal u t" and ?home = "du_HomeTenantID u"
  show ?thesis
  proof (cases "?foreign \<and> \<not> HasForeignTrust rg ?home t")
    case True
    with assms(2) u AllowsForeignRole_trust show ?thesis
      by (auto simp: GetEffectiveTenantRoles_def Let_def split: if_splits)
  next
    case False
    let ?eligible = "eligibleRoles rg ?foreign ?home t"
    note def = assms(2) [unfolded GetEffectiveTenantRoles_def Let_def]
    from def u False obtain direct where direct: "readAssignment R L w t AccessPrincipalUser userID = Inr direct"
      by (auto split: if_splits sum.splits)
    from def u False direct obtain groups where groups: "rSMembers R w (userGroupsKey userID) = Inr groups"
      by (auto split: if_splits sum.splits)
    from def u False direct groups obtain ps where ps: "groupContributions R L ?eligible w t (sort groups) = Inr ps"
      by (auto split: if_splits sum.splits)
    let ?own = "case direct of None \<Rightarrow> [] | Some a \<Rightarrow> if length (?eligible (a_Roles a)) > 0
      then [\<lparr>pv_Type = ''DIRECT'', pv_Roles = ?eligible (a_Roles a), pv_AssignmentVersion = a_Version a,
             pv_GroupID = [], pv_GroupName = []\<rparr>] else []"
    from def u False direct groups ps have roles: "roles = sort_uniq (concat (map pv_Roles (?own @ ps)))"
      by (auto split: if_splits sum.splits)
    have own: "\<Union> (set ` pv_Roles ` set ?own) =
        {r \<in> assignedRoles L (view w) t AccessPrincipalUser userID. ?foreign \<longrightarrow> AllowsForeignRole rg ?home t r}"
      using readAssignment_roles [OF assms(1) direct]
      by (auto simp: set_eligibleRoles eligibleRoles_Nil split: option.splits)
    have "set (sort groups) = ks_set (view w) (userGroupsKey userID)"
      using store_reads(5) [OF assms(1) groups] by simp
    with groupContributions_roles [OF assms(1) ps] own have
      "set roles = {r \<in> grantedRoles L (view w) t userID. ?foreign \<longrightarrow> AllowsForeignRole rg ?home t r}"
      unfolding roles grantedRoles_def by auto
    moreover have "sorted roles" "distinct roles" unfolding roles by (simp_all add: sort_uniq_eq_sorted_list_of_set)
    ultimately show ?thesis using u by blast
  qed
qed

text \<open>
  C25. Effective roles. The roles that \<^verbatim>\<open>GetEffectiveTenantRoles\<close> returns for a user in a tenant are sorted, without
  duplicates, and exactly the roles of the user's own assignment and of the assignments of the active groups that list
  it, disabled groups giving nothing; for a user federated in another tenant only those roles among them that the
  native policy trusts from its home.
\<close>

theorem effective_roles_exact:
  assumes "store_ok R view" "GetEffectiveTenantRoles R L rg now w userID t = Inr (roles, provenance)"
  shows "\<exists>u. GetDirectoryUser R L now w userID = Inr (Some u) \<and> sorted roles \<and> distinct roles \<and>
    set roles = {r \<in> grantedRoles L (view w) t userID. foreignPrincipal u t \<longrightarrow> AllowsForeignRole rg (du_HomeTenantID u) t r}"
  by (rule GetEffectiveTenantRoles_Inr [OF assms])


lemma fixed_keys_differ [simp]:
  "usersHashV2 \<noteq> assignmentsKey t" "federatedUsersHash \<noteq> assignmentsKey t" "directoryGroupsHash \<noteq> assignmentsKey t"
  by (simp_all add: assignmentsKey_def)

definition readerMem :: memory where
  "readerMem = sampleMem\<lparr>mem_keys := applyAll [CHSet (assignmentsKey ''acme'') (assignmentField AccessPrincipalUser ''alice'') ''A0'',
     CSAdd (principalTenantsKey AccessPrincipalUser ''alice'') ''acme''] sampleKeys\<rparr>"

lemma sample_effective_roles:
  "\<exists>ps. GetEffectiveTenantRoles memStore sampleLib None 9 readerMem ''alice'' ''acme'' = Inr ([''READER''], ps)"
proof -
  have c: "decodeAssignment sampleLib ''A0'' ''acme'' AccessPrincipalUser ''alice'' = Inr reader"
    "du_AuthSource (directoryUserProjection alice) \<noteq> AuthSourceSAML" "a_Roles reader = [''READER'']"
    "sort_uniq [''READER''] = [''READER'']"
    by (code_simp | simp)+
  have "GetDirectoryUser memStore sampleLib 9 readerMem ''alice'' = Inr (Some (directoryUserProjection alice))"
    by (simp add: GetDirectoryUser_def readStorageUser_def deletionStorageUser_def readerMem_def)
  then show ?thesis
    using c by (simp add: GetEffectiveTenantRoles_def readAssignment_def readerMem_def Let_def foreignPrincipal_def eligibleRoles_def)
qed

theorem effective_roles_exact_witness:
  "\<exists>roles ps. GetEffectiveTenantRoles memStore sampleLib None 9 readerMem ''alice'' ''acme'' = Inr (roles, ps) \<and>
     roles = [''READER''] \<and> sorted roles \<and> distinct roles"
  using sample_effective_roles effective_roles_exact [OF memStore_ok] by blast

section \<open>Tokens over the directory\<close>

text \<open>The repository as the dependency of the user service.\<close>

definition directoryAccess :: "'w store \<Rightarrow> directoryLib \<Rightarrow> registry option \<Rightarrow> int \<Rightarrow> 'w directoryRepository" where
  "directoryAccess R L rg now =
     \<lparr>dirListEffectiveTenantIDs = (\<lambda>w userID maximum. ListEffectiveTenantIDs R L rg now w userID maximum),
      dirGetEffectiveTenantRoles = (\<lambda>w userID t. case GetEffectiveTenantRoles R L rg now w userID t of
         Inl e \<Rightarrow> Inl e | Inr (roles, provenance) \<Rightarrow> Inr roles),
      dirGetAccessAssignment = (\<lambda>w t kind i. GetAccessAssignment R L w t kind i)\<rparr>"

text \<open>
  C19. From the store to the token. When the user service runs on the Redis directory, a tenant token of a user that names
  roles passes validation only while all of them are roles the stored assignments and active groups grant its user at
  that moment (and, for a user federated elsewhere, that the policy trusts): deleting an assignment, leaving or
  disabling a group takes effect on tokens already issued. For a token that was not issued to a native client the roles
  are exactly the granted ones; a native token names the part of them its client asks for. Workload tokens and
  tokens without role names (the platform-origin ones of SAML administrators) are outside this statement.
\<close>

theorem token_roles_granted:
  fixes s :: "('w, 'k) userService"
  assumes "ValidateAccessToken s w E tok issuer audience = Inr c" and "\<not> isWorkloadSubject (claimStringValue c ''sub'')"
    and "usByID (us_repo s) = Some byID" and "c ''roles'' = Some raw" and "raw \<noteq> JNull"
    and "us_directoryAccess s = Some (directoryAccess R L rg now)" and "store_ok R view"
  shows "\<exists>u du rs. idFindByID byID w (claimStringValue c ''sub'') = Inr (Some u) \<and>
    GetDirectoryUser R L now w (u_Id u) = Inr (Some du) \<and> canonicalAccessTokenRoles raw = Some rs \<and> rs \<noteq> [] \<and>
    (let granted = {r \<in> grantedRoles L (view w) (claimStringValue c ''tid'') (u_Id u).
        foreignPrincipal du (claimStringValue c ''tid'') \<longrightarrow> AllowsForeignRole rg (du_HomeTenantID du) (claimStringValue c ''tid'') r} in
     if c ''native_client_id'' = None \<and> c ''native_policy'' = None then set rs = granted else set rs \<subseteq> granted)"
proof -
  from ValidateAccessToken_Inr [OF assms(1,2)] obtain u where
    r: "resolveCurrentTokenUser s w (claimStringValue c ''sub'') (claimStringValue c ''email'') = Inr u"
    and a: "validateUserAccess s w audience (u_TokenVersion u) u c = Inr c" by metis
  let ?own = "c ''native_client_id'' = None \<and> c ''native_policy'' = None"
    and ?granted = "\<lambda>u du. {r \<in> grantedRoles L (view w) (claimStringValue c ''tid'') (u_Id u).
        foreignPrincipal du (claimStringValue c ''tid'') \<longrightarrow> AllowsForeignRole rg (du_HomeTenantID du) (claimStringValue c ''tid'') r}"
  obtain rs held where rs: "canonicalAccessTokenRoles raw = Some rs" "if ?own then set rs = set held else set rs \<subseteq> set held"
    and held: "dirGetEffectiveTenantRoles (directoryAccess R L rg now) w (u_Id u) (claimStringValue c ''tid'') = Inr held"
  proof (cases ?own)
    case True
    with validateUserAccess_Inr [OF a] have "validateCurrentAccessTokenAuthority s w u c" by simp
    from validateCurrentAccessTokenAuthority_held [OF this assms(4-6)] True that show thesis by auto
  next
    case False
    with validateUserAccess_Inr [OF a] have "validateNativeAccessToken s w u c = None" by auto
    from validateNativeAccessToken_held [OF this assms(6)] assms(4) False that show thesis by auto
  qed
  from held obtain ps where "GetEffectiveTenantRoles R L rg now w (u_Id u) (claimStringValue c ''tid'') = Inr (held, ps)"
    by (auto simp: directoryAccess_def split: sum.splits)
  from GetEffectiveTenantRoles_Inr [OF assms(7) this] obtain du where
    du: "GetDirectoryUser R L now w (u_Id u) = Inr (Some du)" and h: "set held = ?granted u du" by blast
  from rs(2) have "let granted = ?granted u du in if ?own then set rs = granted else set rs \<subseteq> granted"
    unfolding Let_def h .
  with resolveCurrentTokenUser_byID(1) [OF r assms(3)] du rs(1) canonicalAccessTokenRoles_Some [OF rs(1)] show ?thesis
    by (intro exI conjI) simp_all
qed

text \<open>A store that never changes, over the world of the sample service.\<close>

definition frozen :: "memory \<Rightarrow> unit store" where
  "frozen m =
     \<lparr>rGet = (\<lambda>w. rGet memStore m), rHGet = (\<lambda>w. rHGet memStore m), rHExists = (\<lambda>w. rHExists memStore m),
      rHGetAll = (\<lambda>w. rHGetAll memStore m), rHLen = (\<lambda>w. rHLen memStore m), rSMembers = (\<lambda>w. rSMembers memStore m),
      rSCard = (\<lambda>w. rSCard memStore m), rSIsMember = (\<lambda>w. rSIsMember memStore m), rZScore = (\<lambda>w. rZScore memStore m),
      rZRangeByLex = (\<lambda>w. rZRangeByLex memStore m), rHScan = (\<lambda>w. rHScan memStore m),
      rSetNX = (\<lambda>w k v. (Inl (ErrText ''read only''), w)), rEval = (\<lambda>w f. (Inl (ErrText ''read only''), w)),
      rExec = (\<lambda>w ks w1 cs. (ExecError (ErrText ''read only''), w1))\<rparr>"

lemma frozen_ok: "store_ok (frozen m) (\<lambda>w. mem_keys m)"
proof -
  have "reads_ok memStore mem_keys" using memStore_ok by (simp add: store_ok_def)
  then have "reads_ok (frozen m) (\<lambda>w. mem_keys m)" by (simp add: reads_ok_def frozen_def)
  then show ?thesis by (simp add: store_ok_def writes_ok_def writes_atomic_def frozen_def)
qed

definition ana :: user where
  "ana = sampleUser\<lparr>u_CreatedAt := Some 5\<rparr>"

definition anaReader :: accessAssignment where
  "anaReader = \<lparr>a_TenantID = ''globex'', a_PrincipalType = AccessPrincipalUser, a_PrincipalID = ''u-1'', a_Roles = [''reader''],
     a_Version = 1, a_CreatedAt = Some 9, a_UpdatedAt = Some 9\<rparr>"

definition anaLib :: directoryLib where
  "anaLib = sampleLib\<lparr>dl_user := tableCodec [(ana, ''U'')], dl_assignment := tableCodec [(anaReader, ''A'')]\<rparr>"

definition anaMem :: memory where
  "anaMem = \<lparr>mem_keys = applyAll [CHSet usersHashV2 ''u-1'' ''U'',
     CHSet (assignmentsKey ''globex'') (assignmentField AccessPrincipalUser ''u-1'') ''A''] emptyKeys, mem_fields = []\<rparr>"

lemma ana_roles: "\<exists>ps. GetEffectiveTenantRoles (frozen anaMem) anaLib None 9 () ''u-1'' ''globex'' = Inr ([''reader''], ps)"
proof -
  have c: "decodeAssignment anaLib ''A'' ''globex'' AccessPrincipalUser ''u-1'' = Inr anaReader"
    "du_AuthSource (directoryUserProjection ana) \<noteq> AuthSourceSAML" "a_Roles anaReader = [''reader'']"
    "sort_uniq [''reader''] = [''reader'']" "decodeDeletionUser anaLib 9 ''U'' ''u-1'' usersHashV2 = Inr ana"
    "canonicalUserIdentity ''u-1''" "activeTenantIdentity ''globex''"
    by (code_simp | simp)+
  have r: "rHGet (frozen m) () k f = rHGet memStore m k f" "rSMembers (frozen m) () k = rSMembers memStore m k" for m k f
    by (simp_all add: frozen_def)
  have m: "ks_hash (mem_keys anaMem) usersHashV2 ''u-1'' = Some ''U''" "ks_hash (mem_keys anaMem) federatedUsersHash = Map.empty"
    "ks_hash (mem_keys anaMem) (assignmentsKey ''globex'') (assignmentField AccessPrincipalUser ''u-1'') = Some ''A''"
    "ks_set (mem_keys anaMem) k = {}" for k
    by (simp_all add: anaMem_def emptyKeys_def)
  have "GetDirectoryUser (frozen anaMem) anaLib 9 () ''u-1'' = Inr (Some (directoryUserProjection ana))"
    using c m by (simp add: GetDirectoryUser_def readStorageUser_def deletionStorageUser_def r)
  then show ?thesis
    using c m by (simp add: GetEffectiveTenantRoles_def readAssignment_def Let_def foreignPrincipal_def eligibleRoles_def r)
qed

theorem token_roles_granted_witness:
  "\<exists>rs. ValidateAccessToken (accessOn (directoryAccess (frozen anaMem) anaLib None 9)) () sampleCall ''access-token'' ''https://id''
       CodeAdminAudienceClientID = Inr accessClaims \<and>
     canonicalAccessTokenRoles (JArr [JStr ''reader'']) = Some rs \<and>
     (\<forall>r \<in> set rs. r \<in> grantedRoles anaLib (mem_keys anaMem) ''globex'' ''u-1'')"
proof -
  let ?d = "directoryAccess (frozen anaMem) anaLib None 9"
  have v: "ValidateAccessToken (accessOn ?d) () sampleCall ''access-token'' ''https://id'' CodeAdminAudienceClientID = Inr accessClaims"
    using ana_roles by (intro sample_access_token) (auto simp: directoryAccess_def)
  have h: "\<not> isWorkloadSubject (claimStringValue accessClaims ''sub'')"
    "usByID (us_repo (accessOn ?d)) = Some (the (usByID sampleRepo))" "JArr [JStr ''reader''] \<noteq> JNull"
    using access_subject by (simp_all add: accessClaims_values accessOn_fields sampleRepo_def)
  have i: "idFindByID (the (usByID sampleRepo)) () ''u-1'' = Inr (Some u) \<Longrightarrow> u_Id u = ''u-1''" for u
    by (auto simp: sampleRepo_def sampleUser_def split: if_splits)
  from token_roles_granted [OF v h(1,2) accessClaims_values(8) h(3) accessOn_fields(6) frozen_ok]
  obtain u rs where "idFindByID (the (usByID sampleRepo)) () ''u-1'' = Inr (Some u)"
    "canonicalAccessTokenRoles (JArr [JStr ''reader'']) = Some rs"
    "\<forall>r \<in> set rs. r \<in> grantedRoles anaLib (mem_keys anaMem) ''globex'' (u_Id u)"
    unfolding accessClaims_values by (auto simp: Let_def)
  with i v show ?thesis by auto
qed

end
