(* ===== verification/Directory_Credentials.thy ===== *)
theory Directory_Credentials
  imports Directory_Rights
begin

text \<open>
  Credentials that are used once: temporary passwords, one-time codes bound to an account generation, and the token
  version whose increment ends every session.
\<close>

section \<open>Temporary passwords\<close>

lemma consumeTemporaryPasswordTx_Commit:
  assumes "store_ok R view" "consumeTemporaryPasswordTx R L now userID h n h' w = Commit cs x"
  obtains raw stored c payload where "ks_hash (view w) usersHashV2 userID = Some raw" "unmarshal (dl_user L) raw = Inr stored"
    "canonicalDirectoryStorageUser L now (Some stored) = Inr c" "u_Id c = userID"
    "u_Status c = UserStatusActive" "u_AuthSource c = AuthSourcePassword" "u_PasswordChangeRequired c"
    "u_Password c = h" "u_TokenVersion c = n"
    "marshal (dl_user L) (c\<lparr>u_Password := h', u_PasswordChangeRequired := False, u_TokenVersion := n + 1,
       u_Revision := u_Revision c + 1\<rparr>) = Inr payload"
    "cs = [CHSet usersHashV2 userID payload]"
proof -
  from assms(2) obtain c where c: "canonicalStoredUser R L now w userID ErrInvalidCreds = Inr c"
    by (auto simp: consumeTemporaryPasswordTx_def split: sum.splits)
  with assms(2) have a: "u_Status c = UserStatusActive" "u_AuthSource c = AuthSourcePassword" "u_PasswordChangeRequired c"
    "u_Password c = h" "u_TokenVersion c = n" by (auto simp: consumeTemporaryPasswordTx_def split: if_splits)
  with assms(2) c obtain payload where p: "marshal (dl_user L) (c\<lparr>u_Password := h', u_PasswordChangeRequired := False,
      u_TokenVersion := n + 1, u_Revision := u_Revision c + 1\<rparr>) = Inr payload" "cs = [CHSet usersHashV2 userID payload]"
    by (auto simp: consumeTemporaryPasswordTx_def split: sum.splits)
  from canonicalStoredUser_Inr [OF assms(1) c] that a p show thesis by metis
qed

lemma consumeTemporaryPasswordTx_Keep: "consumeTemporaryPasswordTx R L now userID h n h' w \<noteq> Keep x"
  by (auto simp: consumeTemporaryPasswordTx_def split: sum.split)

lemma ConsumeTemporaryPassword_Inr:
  assumes "store_ok R view" "ConsumeTemporaryPassword R L others clock w userID h n h' = (Inr x, w')"
  obtains v now raw stored c payload where "instant view (range others) w v" "ks_hash (view v) usersHashV2 userID = Some raw" "unmarshal (dl_user L) raw = Inr stored"
    "canonicalDirectoryStorageUser L now (Some stored) = Inr c" "u_Id c = userID"
    "u_Status c = UserStatusActive" "u_AuthSource c = AuthSourcePassword" "u_PasswordChangeRequired c"
    "u_Password c = h" "u_TokenVersion c = n"
    "marshal (dl_user L) (c\<lparr>u_Password := h', u_PasswordChangeRequired := False, u_TokenVersion := n + 1,
       u_Revision := u_Revision c + 1\<rparr>) = Inr payload"
    "view w' = applyCmd (CHSet usersHashV2 userID payload) (view v)" "TrimSpace h' \<noteq> []"
proof -
  from assms(2) have ok: "TrimSpace h' \<noteq> []" and
    "retryTx (\<lambda>i v. watchTx R (others i) [usersHashV2] (consumeTemporaryPasswordTx R L (clock i) userID h n h' v) v)
       0 directoryMaximumRetries w = (Inr x, w')"
    by (auto simp: ConsumeTemporaryPassword_def split: if_splits)
  from this(2) obtain j v where inst: "instant view (range others) w v" and
    "watchTx R (others j) [usersHashV2] (consumeTemporaryPasswordTx R L (clock j) userID h n h' v) v = (Some (Inr x), w')"
    using watchTx_instant [OF assms(1)] by (elim retryTx_instant [where F = "range others"]) blast+
  from this(2) obtain cs where cs: "consumeTemporaryPasswordTx R L (clock j) userID h n h' v = Commit cs x"
    and same: "sameKey (view v) (view (others j v)) usersHashV2" and view: "view w' = applyAll cs (view (others j v))"
    using watchTx_Commit [OF assms(1) _ consumeTemporaryPasswordTx_Keep] by (metis list.set_intros(1))
  from consumeTemporaryPasswordTx_Commit [OF assms(1) cs] obtain raw stored c payload where
    c: "ks_hash (view v) usersHashV2 userID = Some raw" "unmarshal (dl_user L) raw = Inr stored"
    "canonicalDirectoryStorageUser L (clock j) (Some stored) = Inr c" "u_Id c = userID"
    "u_Status c = UserStatusActive" "u_AuthSource c = AuthSourcePassword" "u_PasswordChangeRequired c"
    "u_Password c = h" "u_TokenVersion c = n"
    "marshal (dl_user L) (c\<lparr>u_Password := h', u_PasswordChangeRequired := False, u_TokenVersion := n + 1,
       u_Revision := u_Revision c + 1\<rparr>) = Inr payload"
    "cs = [CHSet usersHashV2 userID payload]" by metis
  from same c(1) have "ks_hash (view (others j v)) usersHashV2 userID = Some raw" by (simp add: sameKey_def)
  moreover from view c(11) have "view w' = applyCmd (CHSet usersHashV2 userID payload) (view (others j v))" by simp
  ultimately show thesis using that instant_others [OF inst] c ok by blast
qed

lemma canonicalDirectoryStorageUser_PasswordChange:
  "canonicalDirectoryStorageUser L now (Some u) = Inr c \<Longrightarrow> u_PasswordChangeRequired c \<Longrightarrow> u_PasswordChangeRequired u"
  by (auto simp: canonicalDirectoryStorageUser_def Let_def split: if_splits)

text \<open>No call consumes a record that requires no change of password, while nobody else writes users.\<close>

lemma ConsumeTemporaryPassword_refused:
  assumes "store_ok R view" "ks_hash (view w) usersHashV2 userID = Some raw" "unmarshal (dl_user L) raw = Inr u"
    "\<not> u_PasswordChangeRequired u" "\<And>i v. sameKey (view v) (view (others i v)) usersHashV2"
  shows "fst (ConsumeTemporaryPassword R L others clock w userID h n h') \<noteq> Inr y"
proof
  let ?P = "\<lambda>v. ks_hash (view v) usersHashV2 userID = Some raw"
  let ?attempt = "\<lambda>i v. watchTx R (others i) [usersHashV2] (consumeTemporaryPasswordTx R L (clock i) userID h n h' v) v"
  assume "fst (ConsumeTemporaryPassword R L others clock w userID h n h') = Inr y"
  then obtain w' where "ConsumeTemporaryPassword R L others clock w userID h n h' = (Inr y, w')" by (metis prod.collapse)
  then have r: "retryTx ?attempt 0 directoryMaximumRetries w = (Inr y, w')"
    by (simp add: ConsumeTemporaryPassword_def split: if_splits)
  have keep: "?P v'" if "?P v" "?attempt j v = (None, v')" for j v v'
    using watchTx_None [OF assms(1) that(2)] that(1) assms(5) [of v j] by (auto simp: sameKey_def)
  obtain j v where v: "?P v" "?attempt j v = (Some (Inr y), w')"
  proof (rule retryTx_result [where P = ?P, OF r assms(2)])
    show "?P v'" if "?P v" "?attempt j v = (None, v')" for j v v' using that by (rule keep)
  qed simp_all
  then obtain cs where "consumeTemporaryPasswordTx R L (clock j) userID h n h' v = Commit cs y"
    using watchTx_Commit [OF assms(1) _ consumeTemporaryPasswordTx_Keep] by metis
  from consumeTemporaryPasswordTx_Commit [OF assms(1) this] v(1) assms(3,4) canonicalDirectoryStorageUser_PasswordChange
  show False by (metis option.inject sum.inject(2))
qed

text \<open>
  C24. A temporary password works once. When \<^verbatim>\<open>ConsumeTemporaryPassword\<close> succeeds there was an instant at which the active
  password account still required a change and held the expected hash and token version; the call replaced the hash,
  cleared the requirement and raised token version and revision by one in the same atomic write. From the store it
  leaves, the same temporary password can never be consumed again, and neither by a call already racing with it.
\<close>

theorem temporary_password_once:
  assumes "store_ok R view" "codec_ok (dl_user L)"
    "ConsumeTemporaryPassword R L others clock w userID h n h' = (Inr x, w')"
  shows "(\<exists>v now raw stored c payload. instant view (range others) w v \<and>
      ks_hash (view v) usersHashV2 userID = Some raw \<and> unmarshal (dl_user L) raw = Inr stored \<and>
      canonicalDirectoryStorageUser L now (Some stored) = Inr c \<and> u_Status c = UserStatusActive \<and>
      u_PasswordChangeRequired c \<and> u_Password c = h \<and> u_TokenVersion c = n \<and>
      view w' = applyCmd (CHSet usersHashV2 userID payload) (view v) \<and>
      unmarshal (dl_user L) payload = Inr (c\<lparr>u_Password := h', u_PasswordChangeRequired := False, u_TokenVersion := n + 1,
        u_Revision := u_Revision c + 1\<rparr>)) \<and>
    (\<forall>others' clock' m g g' y. (\<forall>i v. sameKey (view v) (view (others' i v)) usersHashV2) \<longrightarrow>
      fst (ConsumeTemporaryPassword R L others' clock' w' userID g m g') \<noteq> Inr y)"
proof -
  from assms(1,3) obtain v now raw stored c payload where inst: "instant view (range others) w v" and c: "ks_hash (view v) usersHashV2 userID = Some raw" "unmarshal (dl_user L) raw = Inr stored"
    "canonicalDirectoryStorageUser L now (Some stored) = Inr c" "u_Status c = UserStatusActive"
    "u_PasswordChangeRequired c" "u_Password c = h" "u_TokenVersion c = n"
    "marshal (dl_user L) (c\<lparr>u_Password := h', u_PasswordChangeRequired := False, u_TokenVersion := n + 1,
       u_Revision := u_Revision c + 1\<rparr>) = Inr payload"
    "view w' = applyCmd (CHSet usersHashV2 userID payload) (view v)"
    using ConsumeTemporaryPassword_Inr by metis
  let ?u = "c\<lparr>u_Password := h', u_PasswordChangeRequired := False, u_TokenVersion := n + 1, u_Revision := u_Revision c + 1\<rparr>"
  from c(8) assms(2) have u: "unmarshal (dl_user L) payload = Inr ?u" by (simp add: codec_ok_def)
  have "ks_hash (view w') usersHashV2 userID = Some payload" by (simp add: c(9))
  from ConsumeTemporaryPassword_refused [OF assms(1) this u] have
    "\<forall>others' clock' m g g' y. (\<forall>i v. sameKey (view v) (view (others' i v)) usersHashV2) \<longrightarrow>
      fst (ConsumeTemporaryPassword R L others' clock' w' userID g m g') \<noteq> Inr y" by simp
  with inst c u show ?thesis by blast
qed

lemma sample_consume:
  "ConsumeTemporaryPassword memStore sampleLib quiet (\<lambda>i. 9) sampleMem ''alice'' ''hash0'' 0 ''hash1'' =
     (Inr (), sampleMem\<lparr>mem_keys := applyCmd (CHSet usersHashV2 ''alice'' ''U3'') sampleKeys\<rparr>)"
proof -
  have "marshal (dl_user sampleLib) (alice\<lparr>u_Password := ''hash1'', u_PasswordChangeRequired := False, u_TokenVersion := 1,
      u_Revision := 1\<rparr>) = Inr ''U3''" "TrimSpace ''hash0'' = ''hash0''" "TrimSpace ''hash1'' = ''hash1''"
    "u_Status alice = UserStatusActive" "u_AuthSource alice = AuthSourcePassword" "u_PasswordChangeRequired alice"
    "u_Password alice = ''hash0''" "u_TokenVersion alice = 0"
    by (code_simp | simp add: TrimSpace_all_graphic graphic_def)+
  then show ?thesis
    by (simp add: ConsumeTemporaryPassword_def retryTx_first consumeTemporaryPasswordTx_def watchTx_def)
qed

theorem temporary_password_once_witness:
  "let w' = snd (ConsumeTemporaryPassword memStore sampleLib quiet (\<lambda>i. 9) sampleMem ''alice'' ''hash0'' 0 ''hash1'') in
     fst (ConsumeTemporaryPassword memStore sampleLib quiet (\<lambda>i. 9) sampleMem ''alice'' ''hash0'' 0 ''hash1'') = Inr () \<and>
     fst (ConsumeTemporaryPassword memStore sampleLib quiet (\<lambda>i. 9) w' ''alice'' ''hash0'' 0 ''hash2'') \<noteq> Inr ()"
  using temporary_password_once [OF memStore_ok sampleLib_ok(1) sample_consume, THEN conjunct2, rule_format,
      of quiet "\<lambda>i. 9" "''hash0''" 0 "''hash2''" "()"]
  by (simp add: sample_consume)

section \<open>One-time codes\<close>

lemma pipelined_None: "store_ok R view \<Longrightarrow> pipelined R w cs = (None, w') \<Longrightarrow> view w' = applyAll cs (view w)"
  using store_exec(2) by (auto simp: pipelined_def split: prod.splits execResult.splits)

lemma SaveSubjectOobCode_None:
  assumes "store_ok R view" "SaveSubjectOobCode R L now w code p request = (None, w')"
  shows "TrimSpace code \<noteq> []" "validOOBSubject L p" "oobRequest request"
    "ks_hash (view w') (oobKey code) ''email'' = Some (ob_Email p)"
    "ks_hash (view w') (oobKey code) ''userId'' = Some (ob_UserID p)"
    "ks_hash (view w') (oobKey code) ''tokenVersion'' = Some (FormatInt (ob_TokenVersion p))"
    "ks_hash (view w') (oobKey code) ''reqType'' = Some request"
    "ks_hash (view w') (oobKey code) ''expiresAt'' = Some (FormatInt (Unix (now + fifteenMinutes)))"
proof -
  show "TrimSpace code \<noteq> []" "validOOBSubject L p" "oobRequest request"
    using assms(2) by (auto simp: SaveSubjectOobCode_def split: if_splits)
  with assms(2) have "pipelined R w
        [CHSet (oobKey code) ''email'' (ob_Email p), CHSet (oobKey code) ''userId'' (ob_UserID p),
         CHSet (oobKey code) ''tokenVersion'' (FormatInt (ob_TokenVersion p)), CHSet (oobKey code) ''reqType'' request,
         CHSet (oobKey code) ''expiresAt'' (FormatInt (Unix (now + fifteenMinutes))), CExpire (oobKey code) 900] = (None, w')"
    by (simp add: SaveSubjectOobCode_def)
  from pipelined_None [OF assms(1) this]
  show "ks_hash (view w') (oobKey code) ''email'' = Some (ob_Email p)"
    "ks_hash (view w') (oobKey code) ''userId'' = Some (ob_UserID p)"
    "ks_hash (view w') (oobKey code) ''tokenVersion'' = Some (FormatInt (ob_TokenVersion p))"
    "ks_hash (view w') (oobKey code) ''reqType'' = Some request"
    "ks_hash (view w') (oobKey code) ''expiresAt'' = Some (FormatInt (Unix (now + fifteenMinutes)))"
    by simp_all
qed

lemma ConsumeSubjectOobCode_empty:
  assumes "store_ok R view" "ks_hash (view w) (oobKey code) = Map.empty"
  shows "fst (ConsumeSubjectOobCode R L Q now w code request) \<noteq> Inr p"
proof -
  obtain r w' where r: "rEval R w (consumeSubjectOobScript Q (oobKey code) request (Unix now)) = (r, w')" by force
  show ?thesis
  proof (cases r)
    case (Inr z)
    from store_eval(1) [OF assms(1) r [unfolded Inr]] assms(2) have "z = []" by (simp add: consumeSubjectOobScript_def)
    with r Inr show ?thesis by (simp add: ConsumeSubjectOobCode_def)
  qed (use r in \<open>simp add: ConsumeSubjectOobCode_def\<close>)
qed

text \<open>
  C31. One-time codes. A code that \<^verbatim>\<open>SaveSubjectOobCode\<close> stored and nobody touched since gives, when it is consumed for the
  same request within fifteen minutes, exactly the account generation it was issued for: user, email and token version.
  Later it gives nothing, and consuming it removes it in the same atomic step, so a second consumption fails whatever
  its request. With a request of the other kind the code is refused and kept.
\<close>

theorem subject_code_roundtrip:
  assumes "store_ok R view" "SaveSubjectOobCode R L now w code p request = (None, w1)" "ob_TokenVersion p < 2 ^ 63"
    and "sameKey (view w1) (view w2) (oobKey code)" "\<And>n. ol_tonumber Q (FormatInt n) = Some n"
    and "rEval R w2 (consumeSubjectOobScript Q (oobKey code) request' (Unix now')) = (Inr reply, w3)"
  shows "fst (ConsumeSubjectOobCode R L Q now' w2 code request') =
      (if request' = request \<and> Unix now' \<le> Unix (now + fifteenMinutes) then Inr p else Inl ErrInvalidOob) \<and>
    (if request' = request
     then \<forall>w4 later again p'. sameKey (view w3) (view w4) (oobKey code) \<longrightarrow>
            fst (ConsumeSubjectOobCode R L Q later w4 code again) \<noteq> Inr p'
     else view w3 = view w2)"
proof -
  note saved = SaveSubjectOobCode_None [OF assms(1,2)]
  have h: "ks_hash (view w2) (oobKey code) = ks_hash (view w1) (oobKey code)" using assms(4) by (simp add: sameKey_def)
  let ?f = "consumeSubjectOobScript Q (oobKey code) request' (Unix now') (view w2)"
  let ?expiry = "Unix (now + fifteenMinutes)"
  have f: "?f = (if request' = request
      then if Unix now' \<le> ?expiry then ([ob_UserID p, ob_Email p, FormatInt (ob_TokenVersion p)], [CDel (oobKey code)])
           else ([], [CDel (oobKey code)]) else ([], []))"
    using saved(4-8) assms(5) by (simp add: consumeSubjectOobScript_def Let_def h)
  note run = store_eval [OF assms(1,6)]
  have "0 \<le> ob_TokenVersion p" using saved(2) by (simp add: validOOBSubject_def)
  then have v: "Atoi64 (FormatInt (ob_TokenVersion p)) = Some (ob_TokenVersion p)" using assms(3) by (intro Atoi64_FormatInt) simp_all
  have e: "\<lparr>ob_UserID = ob_UserID p, ob_Email = ob_Email p, ob_TokenVersion = ob_TokenVersion p\<rparr> = p" by simp
  have "fst (ConsumeSubjectOobCode R L Q now' w2 code request') =
      (if request' = request \<and> Unix now' \<le> ?expiry then Inr p else Inl ErrInvalidOob)"
  proof (cases "request' = request")
    case True
    have "rEval R w2 (consumeSubjectOobScript Q (oobKey code) request (Unix now')) = (Inr reply, w3)"
      using assms(6) True by simp
    with True run(1) f v saved(1-3) show ?thesis by (auto simp: ConsumeSubjectOobCode_def Let_def e split: if_splits)
  next
    case False
    with run(1) f have "reply = []" by simp
    with False assms(6) show ?thesis by (simp add: ConsumeSubjectOobCode_def)
  qed
  moreover have "ks_hash (view w4) (oobKey code) = Map.empty"
    if "request' = request" "sameKey (view w3) (view w4) (oobKey code)" for w4
  proof -
    from f that(1) have "snd ?f = [CDel (oobKey code)]" by simp
    with run(2) have "ks_hash (view w3) (oobKey code) = Map.empty" by simp
    with that(2) show ?thesis by (simp add: sameKey_def)
  qed
  moreover have "view w3 = view w2" if "request' \<noteq> request" using run(2) f that by simp
  ultimately show ?thesis using ConsumeSubjectOobCode_empty [OF assms(1)] by simp
qed

definition readNumber :: "string \<Rightarrow> int option" where
  "readNumber s = (if s \<noteq> [] \<and> hd s = CHR ''-'' then Some (- int (decValue (tl s))) else Some (int (decValue s)))"

lemma readNumber_FormatInt: "readNumber (FormatInt n) = Some n"
proof -
  have "hd (Itoa (nat n)) \<noteq> CHR ''-''" using Itoa_hd [of "nat n"] by (auto simp: inDigit_def)
  then show ?thesis by (simp add: readNumber_def FormatInt_def decValue_Itoa del: decValue.simps)
qed

definition sampleOob :: oobLib where
  "sampleOob = \<lparr>ol_tonumber = readNumber, ol_legacyPayload = (\<lambda>s. Inl ErrInvalidOob)\<rparr>"

definition aliceCode :: oobSubject where
  "aliceCode = \<lparr>ob_UserID = ''alice'', ob_Email = ''a@ex.io'', ob_TokenVersion = 3\<rparr>"

theorem subject_code_roundtrip_witness:
  "let w1 = snd (SaveSubjectOobCode memStore sampleLib 5 sampleMem ''c0de'' aliceCode ''PASSWORD_RESET'');
       w3 = snd (rEval memStore w1 (consumeSubjectOobScript sampleOob (oobKey ''c0de'') ''PASSWORD_RESET'' (Unix 7)))
   in fst (SaveSubjectOobCode memStore sampleLib 5 sampleMem ''c0de'' aliceCode ''PASSWORD_RESET'') = None \<and>
      fst (ConsumeSubjectOobCode memStore sampleLib sampleOob 7 w1 ''c0de'' ''PASSWORD_RESET'') = Inr aliceCode \<and>
      fst (ConsumeSubjectOobCode memStore sampleLib sampleOob 8 w3 ''c0de'' ''PASSWORD_RESET'') \<noteq> Inr aliceCode"
proof -
  obtain w1 where w1: "w1 = snd (SaveSubjectOobCode memStore sampleLib 5 sampleMem ''c0de'' aliceCode ''PASSWORD_RESET'')" by simp
  obtain w3 where w3: "w3 = snd (rEval memStore w1 (consumeSubjectOobScript sampleOob (oobKey ''c0de'') ''PASSWORD_RESET'' (Unix 7)))"
    by simp
  have "validOOBSubject sampleLib aliceCode" "TrimSpace ''c0de'' = ''c0de''" "oobRequest ''PASSWORD_RESET''"
    by (code_simp | simp add: oobRequest_def TrimSpace_all_graphic graphic_def)+
  then have s: "SaveSubjectOobCode memStore sampleLib 5 sampleMem ''c0de'' aliceCode ''PASSWORD_RESET'' = (None, w1)"
    by (simp add: w1 SaveSubjectOobCode_def pipelined_def)
  obtain reply where r: "rEval memStore w1 (consumeSubjectOobScript sampleOob (oobKey ''c0de'') ''PASSWORD_RESET'' (Unix 7)) = (Inr reply, w3)"
    by (simp add: w3 memStore_def split_def)
  have n: "ol_tonumber sampleOob (FormatInt n) = Some n" for n by (simp add: sampleOob_def readNumber_FormatInt)
  have v: "ob_TokenVersion aliceCode < 2 ^ 63" "Unix 7 \<le> Unix (5 + fifteenMinutes)"
    by (simp_all add: aliceCode_def Unix_def fifteenMinutes_def)
  from subject_code_roundtrip [OF memStore_ok s v(1) sameKey_refl n r] s v(2) show ?thesis
    unfolding w1 [symmetric] w3 [symmetric] Let_def by auto
qed

section \<open>Revocation\<close>

lemma canonicalFederatedUser_fields:
  "canonicalFederatedUser L (Some u) = Inr c \<Longrightarrow> u_Id c = u_Id u \<and> u_TokenVersion c = u_TokenVersion u"
  using canonicalFederatedUser_Id by blast

text \<open>What a successful update leaves in the store.\<close>

lemma userRepo_UpdateUser_Inr:
  assumes "store_ok R view" "userRepo_UpdateUser R L others clock w (Some u) = (Inr u', w')"
  shows "u_TokenVersion u' = u_TokenVersion u \<and> (\<exists>hash stored payload. (hash = usersHashV2 \<or> hash = federatedUsersHash) \<and>
    ks_hash (view w') hash (u_Id u) = Some payload \<and> marshal (dl_user L) stored = Inr payload \<and> u_Id stored = u_Id u \<and>
    u_TokenVersion stored = u_TokenVersion u)"
proof -
  from assms(2) obtain federated where x: "rHExists R w federatedUsersHash (u_Id u) = Inr federated"
    by (auto simp: userRepo_UpdateUser_def split: sum.splits)
  show ?thesis
  proof (cases federated)
    case True
    with assms(2) x have up: "updateFederatedUser R L (others 1) (others 0 w) u = (Inr u', w')" by (simp add: userRepo_UpdateUser_def Let_def)
    then obtain c y where c: "canonicalFederatedUser L (Some u) = Inr c"
      and tx: "watchTx R (others 1) [federatedUsersHash] (updateFederatedUserTx R L c (others 0 w)) (others 0 w) = (Some (Inr y), w')"
      and u': "u' = u\<lparr>u_Revision := u_Revision c + 1\<rparr>"
      by (auto simp: updateFederatedUser_def split: sum.splits prod.splits option.splits)
    have "updateFederatedUserTx R L c (others 0 w) \<noteq> Keep y"
      by (auto simp: updateFederatedUserTx_def split: sum.split option.split)
    from watchTx_Commit [OF assms(1) tx this] obtain cs where
      cs: "updateFederatedUserTx R L c (others 0 w) = Commit cs y" "view w' = applyAll cs (view (others 1 (others 0 w)))" by blast
    then obtain payload where "marshal (dl_user L) (c\<lparr>u_Revision := u_Revision c + 1\<rparr>) = Inr payload"
      "cs = [CHSet federatedUsersHash (u_Id c) payload]"
      by (auto simp: updateFederatedUserTx_def split: sum.splits option.splits if_splits)
    with cs(2) u' canonicalFederatedUser_fields [OF c] show ?thesis
      by (intro conjI exI [of _ federatedUsersHash] exI [of _ "c\<lparr>u_Revision := u_Revision c + 1\<rparr>"] exI [of _ payload]) simp_all
  next
    case False
    with assms(2) x have up: "UpdateDirectoryUser R L (\<lambda>i. others (i + 1)) clock (others 0 w) (Some u) = (Inr u', w')"
      by (simp add: userRepo_UpdateUser_def Let_def)
    from UpdateDirectoryUser_Inr [OF assms(1) up] obtain v payload c old where
      c: "canonicalDirectoryStorageUser L (clock 0) (Some u) = Inr c" "u' = c\<lparr>u_Revision := u_Revision u + 1\<rparr>"
        "marshal (dl_user L) u' = Inr payload"
      and v: "view w' = applyAll ([CHSet usersHashV2 (u_Id u) payload, CSet (userByEmailKey (u_Email u')) (u_Id u),
        CZAdd directoryUserEmailIndex (directoryUserIndexMember (u_Email u') (u_Id u))] @
       (if old \<noteq> u_Email u' then [CDel (userByEmailKey old),
              CZRem directoryUserEmailIndex (directoryUserIndexMember old (u_Id u))] else [])) (view v)"
      by (elim exE conjE) (rule that)
    have "usersHashV2 \<noteq> userByEmailKey e" for e by (simp add: userByEmailKey_def)
    with v have "ks_hash (view w') usersHashV2 (u_Id u) = Some payload" by (simp split: if_splits)
    with c canonicalDirectoryStorageUser_Id [OF c(1)] show ?thesis
      by (intro conjI exI [of _ usersHashV2] exI [of _ u'] exI [of _ payload]) simp_all
  qed
qed

lemma FindByID_stored:
  assumes "store_ok R view" "codec_ok (dl_user L)" "FindByID R L w userID = Inr (Some u)"
    and "ks_hash (view w) hash userID = Some payload" "hash = usersHashV2 \<or> hash = federatedUsersHash"
    and "ks_hash (view w) usersHashV2 userID = None \<or> ks_hash (view w) federatedUsersHash userID = None"
    and "marshal (dl_user L) stored = Inr payload"
  shows "u = stored"
proof -
  have p: "payload \<noteq> []" "unmarshal (dl_user L) payload = Inr stored"
    using assms(2,7) by (auto simp: codec_ok_def codec_roundtrip_def)
  from assms(3) have "findByIDIn R L w userID [usersHashV2, federatedUsersHash] = Inr (Some u)"
    by (simp add: FindByID_def split: if_splits)
  then obtain raw h where h: "h = usersHashV2 \<or> h = federatedUsersHash" "rHGet R w h userID = Inr (Some raw)"
    "unmarshal (dl_user L) raw = Inr u"
    by (auto split: sum.splits option.splits if_splits)
  from store_reads(2) [OF assms(1) h(2)] have "ks_hash (view w) h userID = Some raw" by simp
  with assms(4-6) h(1) have "raw = payload" by auto
  with h(3) p(2) show ?thesis by simp
qed

text \<open>
  A revocation retries when its update lost against another client. What Redis itself reports is never that error, so a
  lost attempt has written nothing and the next one starts at an instant of the call.
\<close>

definition conflictFree :: "'w store \<Rightarrow> bool" where
  "conflictFree R \<longleftrightarrow>
     (\<forall>w ks w1 cs e w'. rExec R w ks w1 cs = (ExecError e, w') \<longrightarrow> \<not> errors_Is e ErrVersionConflict)"

lemma watchTx_lost:
  assumes "conflictFree R" "watchTx R f watched t v = (Some (Inl e), v')" "errors_Is e ErrVersionConflict"
  shows "v' = v"
  using assms by (auto simp: watchTx_def conflictFree_def split: txn.splits prod.splits execResult.splits) blast

lemma updateFederatedUser_lost:
  assumes "store_ok R view" "conflictFree R" "updateFederatedUser R L f w u = (Inl e, w')" "errors_Is e ErrVersionConflict" "f \<in> F"
  shows "instant view F w w'"
proof (cases "canonicalFederatedUser L (Some u)")
  case (Inl x)
  with assms(3) show ?thesis by (auto simp: updateFederatedUser_def intro: start)
next
  case (Inr c)
  obtain z v where x: "watchTx R f [federatedUsersHash] (updateFederatedUserTx R L c w) w = (z, v)" by force
  with assms(3) Inr have v: "w' = v" "z = None \<or> z = Some (Inl e)"
    by (auto simp: updateFederatedUser_def split: option.splits sum.splits)
  from v(2) show ?thesis
  proof
    assume "z = None"
    with x v(1) watchTx_instant [OF assms(1) start _ assms(5)] show ?thesis by blast
  next
    assume "z = Some (Inl e)"
    with x have "watchTx R f [federatedUsersHash] (updateFederatedUserTx R L c w) w = (Some (Inl e), v)" by simp
    from watchTx_lost [OF assms(2) this assms(4)] v(1) show ?thesis by (simp add: start)
  qed
qed

lemma UpdateDirectoryUser_lost:
  assumes "store_ok R view" "conflictFree R" "UpdateDirectoryUser R L others clock w (Some u) = (Inl e, w')"
    "errors_Is e ErrVersionConflict"
  shows "instant view (range others) w w'"
proof (cases "canonicalDirectoryStorageUser L (clock 0) (Some u)")
  case (Inl x)
  with assms(3) show ?thesis by (auto simp: UpdateDirectoryUser_def intro: start)
next
  case (Inr c)
  with assms(3) have t: "retryTx (updateDirectoryUserAttempt R L others clock c) 0 directoryMaximumRetries w = (Inl e, w')"
    by (simp add: UpdateDirectoryUser_def)
  have step: "instant view (range others) w v'"
    if "instant view (range others) w v" "updateDirectoryUserAttempt R L others clock c j v = (z, v')" "z = None \<or> z = Some (Inl e)" for j v z v'
  proof -
    from that(2,3) have "v' = v \<or> (\<exists>prev t :: user txn. watchTx R (others (2 * j + 1)) prev t (others (2 * j) v) = (z, v'))"
      by (auto simp: updateDirectoryUserAttempt_def Let_def split: sum.splits)
    then show ?thesis
    proof (elim disjE exE)
      assume "v' = v"
      with that(1) show ?thesis by simp
    next
      fix prev :: "string list" and t :: "user txn"
      assume x: "watchTx R (others (2 * j + 1)) prev t (others (2 * j) v) = (z, v')"
      from that(3) show ?thesis
      proof
        assume "z = None"
        with x have "watchTx R (others (2 * j + 1)) prev t (others (2 * j) v) = (None, v')" by simp
        from watchTx_instant [OF assms(1) instant_others [OF that(1)] this] show ?thesis by simp
      next
        assume "z = Some (Inl e)"
        with x have "watchTx R (others (2 * j + 1)) prev t (others (2 * j) v) = (Some (Inl e), v')" by simp
        from watchTx_lost [OF assms(2) this assms(4)] instant_others [OF that(1)] show ?thesis by simp
      qed
    qed
  qed
  from t show ?thesis
  proof (rule retryTx_result [where P = "instant view (range others) w", OF _ start])
    show "instant view (range others) w v'" if "instant view (range others) w v"
      "updateDirectoryUserAttempt R L others clock c j v = (None, v')" for j v v' by (rule step [OF that]) simp
    show ?thesis if "instant view (range others) w v" "updateDirectoryUserAttempt R L others clock c j v = (Some (Inl e), w')" for j v
      by (rule step [OF that]) simp
  qed
qed

lemma userRepo_UpdateUser_lost:
  assumes "store_ok R view" "conflictFree R" "userRepo_UpdateUser R L others clock w (Some u) = (Inl e, w')"
    "errors_Is e ErrVersionConflict"
  shows "instant view (range others) w w'"
proof (cases "rHExists R w federatedUsersHash (u_Id u)")
  case (Inl x)
  with assms(3) show ?thesis by (auto simp: userRepo_UpdateUser_def intro: start)
next
  case (Inr federated)
  have w1: "instant view (range others) w (others 0 w)" by (rule instant_others [OF start])
  show ?thesis
  proof (cases federated)
    case True
    with Inr assms(3) have "updateFederatedUser R L (others 1) (others 0 w) u = (Inl e, w')" by (simp add: userRepo_UpdateUser_def)
    from updateFederatedUser_lost [OF assms(1,2) this assms(4), of "range others"] show ?thesis
      by (intro instant_trans [OF _ w1]) simp
  next
    case False
    with Inr assms(3) have "UpdateDirectoryUser R L (\<lambda>i. others (i + 1)) clock (others 0 w) (Some u) = (Inl e, w')"
      by (simp add: userRepo_UpdateUser_def Let_def)
    then have "instant view (range others) (others 0 w) w'"
      by (intro instant_mono [OF UpdateDirectoryUser_lost [OF assms(1,2) _ assms(4)]]) auto
    then show ?thesis by (rule instant_trans) (rule w1)
  qed
qed

lemma incrementByIDAttempt_lost:
  assumes "store_ok R view" "conflictFree R" "incrementByIDAttempt R L others clock userID j v = (None, v')"
  shows "instant view (range others) v v'"
proof -
  from assms(3) obtain old e where
    up: "userRepo_UpdateUser R L (\<lambda>i. others (32 * j + i + 1)) (\<lambda>i. clock (32 * j + i)) (others (32 * j) v) (Some (bumpVersion old)) = (Inl e, v')"
      "errors_Is e ErrVersionConflict"
    by (auto simp: incrementByIDAttempt_def split: sum.splits option.splits prod.splits if_splits)
  have "instant view (range others) (others (32 * j) v) v'"
    by (rule instant_mono [OF userRepo_UpdateUser_lost [OF assms(1,2) up]]) auto
  then show ?thesis by (rule instant_trans) (rule instant_others [OF start])
qed

text \<open>
  C23. Revocation ends every older session. A call of \<^verbatim>\<open>IncrementTokenVersionByID\<close> that reports version \<open>n\<close> read the account
  at an instant \<open>v\<close> of the call, reached by the doings of others alone, and \<open>n\<close> is one more than the version it read there
  (zero when that was negative). Every session token of the account the user service accepts on the store of that instant
  has a version below \<open>n\<close>, and on the store the call leaves it accepts only tokens with exactly version \<open>n\<close>, whatever
  concurrent updates the call raced with: no token accepted before survives.
\<close>

theorem revocation_ends_sessions:
  fixes s :: "('w, 'k) userService"
  assumes "store_ok R view" "codec_ok (dl_user L)" "conflictFree R"
    and "IncrementTokenVersionByID R L others clock w userID = (Inr (n, u), w')"
    and "ks_hash (view w') usersHashV2 userID = None \<or> ks_hash (view w') federatedUsersHash userID = None"
    and "usByID (us_repo s) = Some byID" "\<And>v i. idFindByID byID v i = FindByID R L v i"
  shows "\<exists>v old. instant view (range others) w v \<and> FindByID R L v userID = Inr (Some old) \<and>
    n = max 0 (u_TokenVersion old) + 1 \<and> u_TokenVersion u = n \<and>
    (\<forall>E tok issuer audience c u'. validateCurrentIDToken s v E tok issuer audience = Inr (c, u') \<and> u_Id u' = userID \<longrightarrow>
       (\<exists>m. tokenVersion c = Some m \<and> m < n)) \<and>
    (\<forall>E tok issuer audience c u'. validateCurrentIDToken s w' E tok issuer audience = Inr (c, u') \<and> u_Id u' = userID \<longrightarrow>
       tokenVersion c = Some n)"
proof -
  from assms(4) have t: "retryTx (incrementByIDAttempt R L others clock userID) 0 directoryMaximumRetries w = (Inr (n, u), w')"
    by (simp add: IncrementTokenVersionByID_def)
  have keep: "instant view (range others) w v'" if "instant view (range others) w v"
    "incrementByIDAttempt R L others clock userID j v = (None, v')" for j v v'
    by (rule instant_trans [OF incrementByIDAttempt_lost [OF assms(1,3) that(2)] that(1)])
  obtain j v where inst: "instant view (range others) w v"
    and a: "incrementByIDAttempt R L others clock userID j v = (Some (Inr (n, u)), w')"
    by (rule retryTx_instant [OF t keep])
  from a obtain old u' where old: "FindByID R L v userID = Inr (Some old)"
    and up: "userRepo_UpdateUser R L (\<lambda>i. others (32 * j + i + 1)) (\<lambda>i. clock (32 * j + i)) (others (32 * j) v) (Some (bumpVersion old)) = (Inr u', w')"
    and n: "n = u_TokenVersion u'" "u = u'"
    by (auto simp: incrementByIDAttempt_def split: sum.splits option.splits prod.splits if_splits)
  have id: "u_Id old = userID" using old by (auto simp: FindByID_def split: sum.splits option.splits if_splits)
  have b: "u_Id (bumpVersion old) = userID" "u_TokenVersion (bumpVersion old) = max 0 (u_TokenVersion old) + 1"
    using id by (simp_all add: bumpVersion_def)
  from userRepo_UpdateUser_Inr [OF assms(1) up, unfolded b] obtain hash stored payload where
    st: "n = max 0 (u_TokenVersion old) + 1" "hash = usersHashV2 \<or> hash = federatedUsersHash"
      "ks_hash (view w') hash userID = Some payload" "marshal (dl_user L) stored = Inr payload" "u_TokenVersion stored = n"
    using n by auto
  have acc: "FindByID R L x userID = Inr (Some u2) \<and> tokenVersion c = Some (u_TokenVersion u2)"
    if "validateCurrentIDToken s x E tok issuer audience = Inr (c, u2)" "u_Id u2 = userID" for x E tok issuer audience c u2
  proof -
    from that(1) have r: "resolveCurrentTokenUser s x (claimStringValue c ''sub'') (claimStringValue c ''email'') = Inr u2"
      and ver: "tokenVersion c = Some (u_TokenVersion u2)" by (simp_all add: validateCurrentIDToken_Inr)
    from resolveCurrentTokenUser_byID [OF r assms(6)] that(2) assms(7) ver show ?thesis by simp
  qed
  have "tokenVersion c = Some n" if "validateCurrentIDToken s w' E tok issuer audience = Inr (c, u2)" "u_Id u2 = userID"
    for E tok issuer audience c u2
    using FindByID_stored [OF assms(1,2) conjunct1 [OF acc [OF that]] st(3,2) assms(5) st(4)] acc [OF that] st(5) by simp
  moreover have "\<exists>m. tokenVersion c = Some m \<and> m < n" if "validateCurrentIDToken s v E tok issuer audience = Inr (c, u2)" "u_Id u2 = userID"
    for E tok issuer audience c u2
    using acc [OF that] old st(1) by (intro exI [of _ "u_TokenVersion old"]) simp
  moreover have "u_TokenVersion u = n" using n by simp
  ultimately show ?thesis using inst old st(1)
    by (intro exI [of _ v] exI [of _ old] conjI allI impI; (elim conjE)?) (assumption | blast)+
qed

text \<open>The user service on the repository, with the calls that read and revoke by identifier.\<close>

definition memRepo :: "memory userRepository" where
  "memRepo =
     \<lparr>usFindByEmail = (\<lambda>w e. Inr None), usUpdateUser = (\<lambda>w u. (Some ErrNotFound, w)), usDeleteByEmail = (\<lambda>w e. (Some ErrNotFound, w)),
      usSetStatus = (\<lambda>w e st. (Inl ErrNotFound, w)), usIncrementTokenVersion = (\<lambda>w e. (Inl ErrNotFound, w)),
      usSaveOobCode = (\<lambda>w c e r. (Some ErrNotFound, w)), usConsumeOobCode = (\<lambda>w c r. (Inl ErrInvalidOob, w)),
      usByID = Some \<lparr>idFindByID = FindByID memStore sampleLib,
        idIncrementTokenVersionByID = IncrementTokenVersionByID memStore sampleLib quiet (\<lambda>i. 9)\<rparr>,
      usSubjectOOB = None\<rparr>"

definition memService :: "(memory, unit) userService" where
  "memService =
     \<lparr>us_unicode = asciiUnicode, us_policy = compiledPolicy, us_jwt = sampleJwt, us_library = sampleLibrary,
      us_trinoAuthority = None, us_aiGateway = None, us_nativeClients = None, us_repo = memRepo, us_membershipRepo = None,
      us_exactMembershipRepo = None, us_directoryAccess = Some (directoryAccess memStore sampleLib None 9),
      us_authenticationAttempts = None, us_authenticationRateLimits = DefaultAuthenticationRateLimits,
      us_verifyPassword = (\<lambda>h p. h = p), us_tenantRepo = None, us_tenantScopedTokenClaimsV1 = True,
      us_tenantScopedTokenAllowlist = [], us_tenantTargetDiscoveryV2 = True, us_platformAdministrators = [],
      us_platformAuthorityConfigured = True, us_jwtSecret = ''secret'', us_issuerBaseURL = ''https://id'',
      us_defaultAudience = ''tikti'', us_jwksPrivateKey = ''pem'', us_jwksKeyID = ''k1'', us_roleSvc = None, us_clientSvc = None\<rparr>"

lemma sample_revoke:
  "IncrementTokenVersionByID memStore sampleLib quiet (\<lambda>i. 9) sampleMem ''alice'' =
     (Inr (1, alice\<lparr>u_TokenVersion := 1, u_Revision := 1\<rparr>),
      sampleMem\<lparr>mem_keys := applyAll [CHSet usersHashV2 ''alice'' ''U4'', CSet (userByEmailKey ''a@ex.io'') ''alice'',
        CZAdd directoryUserEmailIndex (directoryUserIndexMember ''a@ex.io'' ''alice'')] sampleKeys\<rparr>)"
proof -
  let ?u = "alice\<lparr>u_TokenVersion := 1\<rparr>"
  have c: "canonicalDirectoryStorageUser sampleLib 9 (Some ?u) = Inr ?u" "bumpVersion alice = ?u"
    "marshal (dl_user sampleLib) (?u\<lparr>u_Revision := 1\<rparr>) = Inr ''U4''"
    by code_simp+
  have x: "rHExists memStore sampleMem federatedUsersHash ''alice'' = Inr False" by (simp add: memStore_def)
  have f: "FindByID memStore sampleLib sampleMem ''alice'' = Inr (Some alice)" by (simp add: FindByID_def)
  show ?thesis
    using c x f by (simp add: IncrementTokenVersionByID_def retryTx_first incrementByIDAttempt_def userRepo_UpdateUser_def Let_def
        UpdateDirectoryUser_def updateDirectoryUserAttempt_def updateDirectoryUserTx_def watchTx_def)
qed

lemma memStore_conflictFree: "conflictFree memStore"
  by (auto simp: conflictFree_def memStore_def split: if_splits)

theorem revocation_ends_sessions_witness:
  "fst (IncrementTokenVersionByID memStore sampleLib quiet (\<lambda>i. 9) sampleMem ''alice'') =
     Inr (1, alice\<lparr>u_TokenVersion := 1, u_Revision := 1\<rparr>) \<and>
   {tokenVersion c | c u' E tok issuer audience.
      validateCurrentIDToken memService (snd (IncrementTokenVersionByID memStore sampleLib quiet (\<lambda>i. 9) sampleMem ''alice''))
        E tok issuer audience = Inr (c, u') \<and> u_Id u' = ''alice''} \<subseteq> {Some 1}"
proof -
  let ?w = "snd (IncrementTokenVersionByID memStore sampleLib quiet (\<lambda>i. 9) sampleMem ''alice'')"
  have run: "IncrementTokenVersionByID memStore sampleLib quiet (\<lambda>i. 9) sampleMem ''alice'' =
      (Inr (1, alice\<lparr>u_TokenVersion := 1, u_Revision := 1\<rparr>), ?w)"
    by (simp add: sample_revoke)
  have k: "ks_hash (mem_keys ?w) usersHashV2 ''alice'' = None \<or> ks_hash (mem_keys ?w) federatedUsersHash ''alice'' = None"
    by (simp add: sample_revoke)
  have s: "usByID (us_repo memService) = Some (the (usByID memRepo))" "idFindByID (the (usByID memRepo)) v i = FindByID memStore sampleLib v i"
    for v i by (simp_all add: memService_def memRepo_def)
  have r: "\<forall>E tok issuer audience c u'. validateCurrentIDToken memService ?w E tok issuer audience = Inr (c, u') \<and>
      u_Id u' = ''alice'' \<longrightarrow> tokenVersion c = Some 1"
    using revocation_ends_sessions [OF memStore_ok sampleLib_ok(1) memStore_conflictFree run k s] by (elim exE conjE)
  have "fst (IncrementTokenVersionByID memStore sampleLib quiet (\<lambda>i. 9) sampleMem ''alice'') =
     Inr (1, alice\<lparr>u_TokenVersion := 1, u_Revision := 1\<rparr>)"
    unfolding sample_revoke fst_conv ..
  with r show ?thesis by blast
qed

end
