(* ===== verification/Directory_Removal.thy ===== *)
theory Directory_Removal
  imports Directory_Credentials
begin

text \<open>
  Deleting a user of the identity directory: who may, under which version, and that nothing of the user is left.
\<close>

definition noHSet :: "string \<Rightarrow> cmd \<Rightarrow> bool" where
  "noHSet k c \<longleftrightarrow> (\<forall>f v. c \<noteq> CHSet k f v)"

definition noSAdd :: "string \<Rightarrow> cmd \<Rightarrow> bool" where
  "noSAdd k c \<longleftrightarrow> (\<forall>m. c \<noteq> CSAdd k m)"

lemma applyAll_hash_None: "ks_hash ks k f = None \<Longrightarrow> list_all (noHSet k) cs \<Longrightarrow> ks_hash (applyAll cs ks) k f = None"
proof (induction cs arbitrary: ks)
  case (Cons c cs)
  then have "ks_hash (applyCmd c ks) k f = None" by (cases c) (auto simp: noHSet_def)
  with Cons show ?case by simp
qed simp

lemma applyAll_set_empty: "ks_set ks k = {} \<Longrightarrow> list_all (noSAdd k) cs \<Longrightarrow> ks_set (applyAll cs ks) k = {}"
proof (induction cs arbitrary: ks)
  case (Cons c cs)
  then have "ks_set (applyCmd c ks) k = {}" by (cases c) (auto simp: noSAdd_def)
  with Cons show ?case by simp
qed simp

text \<open>The plan leaves neither record nor relation of the user.\<close>

lemma applyPlan_removes:
  assumes "pl_hash p = usersHashV2 \<or> pl_hash p = federatedUsersHash" "i = u_Id (pl_user p)"
    and "\<And>h. h = usersHashV2 \<or> h = federatedUsersHash \<Longrightarrow> h \<noteq> pl_hash p \<Longrightarrow> ks_hash ks h i = None"
  shows "ks_hash (applyAll (applyPlan p) ks) usersHashV2 i = None" "ks_hash (applyAll (applyPlan p) ks) federatedUsersHash i = None"
    "ks_set (applyAll (applyPlan p) ks) (userGroupsKey i) = {}"
    "ks_set (applyAll (applyPlan p) ks) (principalTenantsKey AccessPrincipalUser i) = {}"
    "ks_set (applyAll (applyPlan p) ks) (membershipsByUserKey i) = {}"
    "ks_set (applyAll (applyPlan p) ks) (membershipV2ByUserKey i) = {}"
proof -
  obtain rest where r: "applyPlan p = [CHDel (pl_hash p) i, CDel (userGroupsKey i), CDel (principalTenantsKey AccessPrincipalUser i),
      CDel (membershipsByUserKey i), CDel (membershipV2ByUserKey i)] @ rest"
    and h: "list_all (noHSet usersHashV2) rest" "list_all (noHSet federatedUsersHash) rest"
    and s: "\<And>k. list_all (noSAdd k) rest"
  proof
    show "applyPlan p = [CHDel (pl_hash p) i, CDel (userGroupsKey i), CDel (principalTenantsKey AccessPrincipalUser i),
        CDel (membershipsByUserKey i), CDel (membershipV2ByUserKey i)] @ drop 5 (applyPlan p)"
      by (simp add: applyPlan_def Let_def assms(2))
  qed (auto simp: applyPlan_def Let_def list_all_iff noHSet_def noSAdd_def unlinkGroups_def unlinkAssignments_def)
  have k: "usersHashV2 \<noteq> userGroupsKey i" "usersHashV2 \<noteq> principalTenantsKey AccessPrincipalUser i"
    "federatedUsersHash \<noteq> userGroupsKey i" "federatedUsersHash \<noteq> principalTenantsKey AccessPrincipalUser i"
    "usersHashV2 \<noteq> membershipsByUserKey i" "usersHashV2 \<noteq> membershipV2ByUserKey i"
    "federatedUsersHash \<noteq> membershipsByUserKey i" "federatedUsersHash \<noteq> membershipV2ByUserKey i"
    by (simp_all add: key_defs membershipsByUserKey_def membershipV2ByUserKey_def)
  let ?k = "applyAll [CHDel (pl_hash p) i, CDel (userGroupsKey i), CDel (principalTenantsKey AccessPrincipalUser i),
      CDel (membershipsByUserKey i), CDel (membershipV2ByUserKey i)] ks"
  have "ks_hash ?k usersHashV2 i = None" "ks_hash ?k federatedUsersHash i = None"
    using assms(1,3) k by auto
  then show "ks_hash (applyAll (applyPlan p) ks) usersHashV2 i = None" "ks_hash (applyAll (applyPlan p) ks) federatedUsersHash i = None"
    unfolding r applyAll_simps(3) using h by (auto intro!: applyAll_hash_None simp del: applyAll_simps)
  have "ks_set ?k (userGroupsKey i) = {}" "ks_set ?k (principalTenantsKey AccessPrincipalUser i) = {}"
    "ks_set ?k (membershipsByUserKey i) = {}" "ks_set ?k (membershipV2ByUserKey i) = {}" by simp_all
  then show "ks_set (applyAll (applyPlan p) ks) (userGroupsKey i) = {}"
    "ks_set (applyAll (applyPlan p) ks) (principalTenantsKey AccessPrincipalUser i) = {}"
    "ks_set (applyAll (applyPlan p) ks) (membershipsByUserKey i) = {}"
    "ks_set (applyAll (applyPlan p) ks) (membershipV2ByUserKey i) = {}"
    unfolding r applyAll_simps(3) using s by (auto intro!: applyAll_set_empty simp del: applyAll_simps)
qed


lemma applyAll_string:
  assumes "\<And>v. CSet k v \<notin> set cs"
  shows "ks_string (applyAll cs ks) k = (if CDel k \<in> set cs then None else ks_string ks k)"
  using assms
proof (induction cs arbitrary: ks)
  case (Cons c cs)
  have "ks_string (applyCmd c ks) k = (if c = CDel k then None else ks_string ks k)"
    using Cons.prems by (cases c) auto
  with Cons show ?case by auto
qed simp

lemma applyAll_zset:
  assumes "CZAdd k m \<notin> set cs" "CZRem k m \<in> set cs"
  shows "m \<notin> ks_zset (applyAll cs ks) k"
proof -
  have keep: "m \<notin> ks_zset ks' k \<Longrightarrow> CZAdd k m \<notin> set ds \<Longrightarrow> m \<notin> ks_zset (applyAll ds ks') k" for ds ks'
  proof (induction ds arbitrary: ks')
    case (Cons d ds)
    then have "m \<notin> ks_zset (applyCmd d ks') k" by (cases d) auto
    with Cons show ?case by simp
  qed simp
  from assms(2) obtain as bs where cs: "cs = as @ CZRem k m # bs" by (meson split_list)
  with assms(1) have "CZAdd k m \<notin> set bs" by simp
  with keep [of "applyCmd (CZRem k m) (applyAll as ks)" bs] show ?thesis by (simp add: cs)
qed

lemma applyAll_hash_kept: "list_all (noHSet k) cs \<Longrightarrow> ks_hash (applyAll cs ks) k f \<in> {None, ks_hash ks k f}"
proof (induction cs arbitrary: ks)
  case (Cons c cs)
  have "ks_hash (applyCmd c ks) k f \<in> {None, ks_hash ks k f}"
    using Cons.prems by (cases c) (auto simp: noHSet_def)
  with Cons.IH [of "applyCmd c ks"] Cons.prems show ?case by auto
qed simp

lemma applyAll_hash_gone:
  assumes "list_all (noHSet k) cs" "CHDel k f \<in> set cs"
  shows "ks_hash (applyAll cs ks) k f = None"
proof -
  from assms(2) obtain as bs where cs: "cs = as @ CHDel k f # bs" by (meson split_list)
  with assms(1) have "list_all (noHSet k) bs" by simp
  then show ?thesis using applyAll_hash_None [of "applyCmd (CHDel k f) (applyAll as ks)" k f bs] by (simp add: cs)
qed

lemma applyPlan_plain:
  "CSet k v \<notin> set (applyPlan p)" "CZAdd k m \<notin> set (applyPlan p)"
  "k \<noteq> directoryGroupsHash \<Longrightarrow> list_all (noHSet k) (applyPlan p)"
  by (auto simp: applyPlan_def Let_def unlinkGroups_def unlinkAssignments_def list_all_iff noHSet_def)

lemma applyPlan_members:
  "CZRem directoryUserEmailIndex (directoryUserIndexMember (u_Email (pl_user p)) (u_Id (pl_user p))) \<in> set (applyPlan p)"
  "k \<in> set (pl_keys p) \<Longrightarrow> CDel k \<in> set (applyPlan p)"
  "pl_legacy p \<Longrightarrow> CHDel legacyUsersHash (u_Email (pl_user p)) \<in> set (applyPlan p)"
  "t \<in> set (pl_legacyTenants p) \<Longrightarrow> CHDel (membershipsKey t) (u_Id (pl_user p)) \<in> set (applyPlan p)"
  "t \<in> set (pl_v2Tenants p) \<Longrightarrow> CHDel (membershipV2Key t) (u_Id (pl_user p)) \<in> set (applyPlan p)"
  by (simp_all add: applyPlan_def Let_def)


text \<open>What the plan of a user rests on: its addresses, its legacy record and its memberships.\<close>

lemma prepareUserDeletion_parts:
  assumes "store_ok R view" "prepareUserDeletion R L msgpack now w u hash = Inr plan"
  obtains "pl_user plan = u" "set (pl_legacyTenants plan) = ks_set (view w) (membershipsByUserKey (u_Id u))"
    "set (pl_v2Tenants plan) = ks_set (view w) (membershipV2ByUserKey (u_Id u))"
    "ks_string (view w) (userByEmailKey (u_Email u)) = Some (u_Id u) \<longrightarrow> userByEmailKey (u_Email u) \<in> set (pl_keys plan)"
    "\<forall>raw old. ks_hash (view w) legacyUsersHash (u_Email u) = Some raw \<and> exactObject (dl_user L) raw = Some old \<and>
       u_Id old = u_Id u \<longrightarrow> pl_legacy plan"
    "\<forall>company. u_AuthSource u = AuthSourceSAML \<and> u_CompanyId u = Some company \<longrightarrow>
       samlSubjectKey company (u_ExternalSubject u) \<in> set (pl_samlWatched plan) \<and>
       (ks_string (view w) (samlSubjectKey company (u_ExternalSubject u)) = None \<or>
        samlSubjectKey company (u_ExternalSubject u) \<in> set (pl_keys plan))"
proof -
  from assms(2) obtain gs ts ms vs aliases legacy keys watched where p:
    "deletionBoundedSet R w (membershipsByUserKey (u_Id u)) = Inr ms"
    "deletionBoundedSet R w (membershipV2ByUserKey (u_Id u)) = Inr vs"
    "prepareAliases R L now w u hash = Inr (aliases, legacy)" "prepareSAML R L msgpack w u = Inr (keys, watched)"
    "pl_user plan = u" "pl_keys plan = aliases @ keys" "pl_legacy plan = legacy" "pl_legacyTenants plan = ms"
    "pl_v2Tenants plan = vs" "pl_samlWatched plan = watched"
    by (auto simp: prepareUserDeletion_def split: sum.splits option.splits if_splits prod.splits)
  have m: "set ms = ks_set (view w) (membershipsByUserKey (u_Id u))" "set vs = ks_set (view w) (membershipV2ByUserKey (u_Id u))"
    using deletionBoundedSet_Inr [OF p(1)] deletionBoundedSet_Inr [OF p(2)] store_reads(5) [OF assms(1)] by force+
  from p(3) obtain owner where o: "rGet R w (userByEmailKey (u_Email u)) = Inr owner"
    "owner = Some (u_Id u) \<longrightarrow> userByEmailKey (u_Email u) \<in> set aliases"
    by (auto simp: prepareAliases_def Let_def split: sum.splits option.splits if_splits)
  from p(3) obtain r where l: "rHGet R w legacyUsersHash (u_Email u) = Inr r"
    "\<forall>raw old. r = Some raw \<and> exactObject (dl_user L) raw = Some old \<and> u_Id old = u_Id u \<longrightarrow> legacy"
    by (auto simp: prepareAliases_def Let_def split: sum.splits option.splits if_splits)
  have s: "samlSubjectKey company (u_ExternalSubject u) \<in> set watched \<and>
      (ks_string (view w) (samlSubjectKey company (u_ExternalSubject u)) = None \<or>
       samlSubjectKey company (u_ExternalSubject u) \<in> set keys)"
    if "u_AuthSource u = AuthSourceSAML" "u_CompanyId u = Some company" for company
  proof -
    from p(4) that obtain owner where "rGet R w (samlSubjectKey company (u_ExternalSubject u)) = Inr owner"
      "samlSubjectKey company (u_ExternalSubject u) \<in> set watched"
      "owner \<noteq> None \<longrightarrow> samlSubjectKey company (u_ExternalSubject u) \<in> set keys"
      by (auto simp: prepareSAML_def Let_def split: sum.splits if_splits)
    with store_reads(1) [OF assms(1) this(1)] show ?thesis by (cases "owner = None") simp_all
  qed
  show thesis
  proof (rule that)
    show "\<forall>company. u_AuthSource u = AuthSourceSAML \<and> u_CompanyId u = Some company \<longrightarrow>
       samlSubjectKey company (u_ExternalSubject u) \<in> set (pl_samlWatched plan) \<and>
       (ks_string (view w) (samlSubjectKey company (u_ExternalSubject u)) = None \<or>
        samlSubjectKey company (u_ExternalSubject u) \<in> set (pl_keys plan))"
      using s unfolding p(6,10) set_append Un_iff by blast
  qed (use p(5-10) m o(2) l(2) store_reads(1) [OF assms(1) o(1)] store_reads(2) [OF assms(1) l(1)] in simp_all)
qed


definition unindexed :: "directoryLib \<Rightarrow> keyspace \<Rightarrow> user \<Rightarrow> bool" where
  "unindexed L ks u \<longleftrightarrow>
     directoryUserIndexMember (u_Email u) (u_Id u) \<notin> ks_zset ks directoryUserEmailIndex \<and>
     ks_string ks (userByEmailKey (u_Email u)) \<noteq> Some (u_Id u) \<and>
     (\<forall>raw old. ks_hash ks legacyUsersHash (u_Email u) = Some raw \<and> exactObject (dl_user L) raw = Some old \<longrightarrow>
        u_Id old \<noteq> u_Id u) \<and>
     (\<forall>company. u_AuthSource u = AuthSourceSAML \<and> u_CompanyId u = Some company \<longrightarrow>
        ks_string ks (samlSubjectKey company (u_ExternalSubject u)) = None)"

lemma applyPlan_unindexed:
  assumes "store_ok R view" "prepareUserDeletion R L msgpack now w u hash = Inr plan"
    and same: "\<And>k. k \<in> set (planWatched L plan) \<Longrightarrow> sameKey (view w) ks k"
  shows "unindexed L (applyAll (applyPlan plan) ks) u"
    "t \<in> ks_set (view w) (membershipsByUserKey (u_Id u)) \<Longrightarrow>
       ks_hash (applyAll (applyPlan plan) ks) (membershipsKey t) (u_Id u) = None"
    "t \<in> ks_set (view w) (membershipV2ByUserKey (u_Id u)) \<Longrightarrow>
       ks_hash (applyAll (applyPlan plan) ks) (membershipV2Key t) (u_Id u) = None"
proof -
  let ?ks = "applyAll (applyPlan plan) ks" and ?e = "u_Email u" and ?i = "u_Id u"
  obtain plan: "pl_user plan = u" "set (pl_legacyTenants plan) = ks_set (view w) (membershipsByUserKey ?i)"
    "set (pl_v2Tenants plan) = ks_set (view w) (membershipV2ByUserKey ?i)"
    and al: "ks_string (view w) (userByEmailKey ?e) = Some ?i \<longrightarrow> userByEmailKey ?e \<in> set (pl_keys plan)"
    and legacy: "\<forall>raw old. ks_hash (view w) legacyUsersHash ?e = Some raw \<and> exactObject (dl_user L) raw = Some old \<and>
       u_Id old = ?i \<longrightarrow> pl_legacy plan"
    and saml: "\<forall>company. u_AuthSource u = AuthSourceSAML \<and> u_CompanyId u = Some company \<longrightarrow>
       samlSubjectKey company (u_ExternalSubject u) \<in> set (pl_samlWatched plan) \<and>
       (ks_string (view w) (samlSubjectKey company (u_ExternalSubject u)) = None \<or>
        samlSubjectKey company (u_ExternalSubject u) \<in> set (pl_keys plan))"
    by (rule prepareUserDeletion_parts [OF assms(1,2)])
  have str: "ks_string ?ks k = (if CDel k \<in> set (applyPlan plan) then None else ks_string ks k)" for k
    by (rule applyAll_string) (rule applyPlan_plain)
  have zset: "directoryUserIndexMember ?e ?i \<notin> ks_zset ?ks directoryUserEmailIndex"
    by (rule applyAll_zset [OF applyPlan_plain(2)]) (use applyPlan_members(1) [of plan] plan(1) in simp)
  have "sameKey (view w) ks (userByEmailKey ?e)" by (rule same) (simp add: planWatched_def plan(1))
  then have e: "ks_string ks (userByEmailKey ?e) = ks_string (view w) (userByEmailKey ?e)" by (simp add: sameKey_def)
  have a: "ks_string ?ks (userByEmailKey ?e) \<noteq> Some ?i"
  proof
    assume n: "ks_string ?ks (userByEmailKey ?e) = Some ?i"
    then have "CDel (userByEmailKey ?e) \<notin> set (applyPlan plan)" "ks_string (view w) (userByEmailKey ?e) = Some ?i"
      by (simp_all add: str e split: if_splits)
    with al applyPlan_members(2) [of "userByEmailKey ?e" plan] show False by simp
  qed
  have l: "u_Id old \<noteq> ?i" if "ks_hash ?ks legacyUsersHash ?e = Some raw" "exactObject (dl_user L) raw = Some old" for raw old
  proof
    assume id: "u_Id old = ?i"
    have n: "list_all (noHSet legacyUsersHash) (applyPlan plan)" by (rule applyPlan_plain) simp
    from applyAll_hash_kept [OF n, of ks ?e] that(1) have "ks_hash ks legacyUsersHash ?e = Some raw" by simp
    moreover have "sameKey (view w) ks legacyUsersHash" by (rule same) (simp add: planWatched_def)
    ultimately have "pl_legacy plan" using legacy that(2) id by (simp add: sameKey_def)
    from applyAll_hash_gone [OF n applyPlan_members(3) [OF this], of ks] that(1) plan(1) show False by simp
  qed
  have s: "ks_string ?ks (samlSubjectKey company (u_ExternalSubject u)) = None"
    if "u_AuthSource u = AuthSourceSAML" "u_CompanyId u = Some company" for company
  proof -
    note x = saml [rule_format, OF conjI, OF that]
    have "sameKey (view w) ks (samlSubjectKey company (u_ExternalSubject u))"
      by (rule same) (use x in \<open>simp add: planWatched_def\<close>)
    with x applyPlan_members(2) [of "samlSubjectKey company (u_ExternalSubject u)" plan] show ?thesis
      by (auto simp only: str sameKey_def split: if_split)
  qed
  show "unindexed L ?ks u" unfolding unindexed_def using zset a l s by (intro conjI allI impI) (assumption | elim conjE, blast)+
  have k: "membershipsKey t \<noteq> directoryGroupsHash" "membershipV2Key t \<noteq> directoryGroupsHash" for t
    by (simp_all add: membershipsKey_def membershipV2Key_def)
  show "ks_hash ?ks (membershipsKey t) ?i = None" if "t \<in> ks_set (view w) (membershipsByUserKey ?i)"
  proof -
    from that have "t \<in> set (pl_legacyTenants plan)" by (simp only: plan(2))
    from applyAll_hash_gone [OF applyPlan_plain(3) [OF k(1)] applyPlan_members(4) [OF this]] show ?thesis by (simp only: plan(1))
  qed
  show "ks_hash ?ks (membershipV2Key t) ?i = None" if "t \<in> ks_set (view w) (membershipV2ByUserKey ?i)"
  proof -
    from that have "t \<in> set (pl_v2Tenants plan)" by (simp only: plan(3))
    from applyAll_hash_gone [OF applyPlan_plain(3) [OF k(2)] applyPlan_members(5) [OF this]] show ?thesis by (simp only: plan(1))
  qed
qed

lemma validateDeletionActor_None:
  assumes "store_ok R view" "validateDeletionActor R L now w actor = None"
  obtains hash raw a where "hash = usersHashV2 \<or> hash = federatedUsersHash" "ks_hash (view w) hash (act_UserID actor) = Some raw"
    "decodeDeletionUser L now raw (act_UserID actor) hash = Inr a" "u_Status a = UserStatusActive" "u_Role a = RoleAdmin"
    "\<not> u_PasswordChangeRequired a" "u_TokenVersion a = act_TokenVersion actor" "u_Revision a = act_Revision actor"
proof -
  from assms(2) obtain a hash where d: "deletionStorageUser R L now w (act_UserID actor) = Inr (Some (a, hash))"
    by (auto simp: validateDeletionActor_def split: sum.splits option.splits)
  with assms(2) have ok: "u_Status a = UserStatusActive" "u_Role a = RoleAdmin" "\<not> u_PasswordChangeRequired a"
    "u_TokenVersion a = act_TokenVersion actor" "u_Revision a = act_Revision actor"
    by (auto simp: validateDeletionActor_def split: if_splits)
  note id = deletionStorageUser_Some [OF d]
  from id(3) store_reads(2) [OF assms(1)] obtain raw where "ks_hash (view w) hash (act_UserID actor) = Some raw"
    "decodeDeletionUser L now raw (act_UserID actor) hash = Inr a" by auto
  with that id(2) ok show thesis by blast
qed

lemma deleteDirectoryUserTx_True:
  assumes "deleteDirectoryUserTx R L msgpack now userID version actor w = (added, t)"
  shows "t \<noteq> Keep x" "t = Commit cs True \<Longrightarrow> \<exists>target hash plan. validateDeletionActor R L now w actor = None \<and>
    deletionStorageUser R L now w userID = Inr (Some (target, hash)) \<and> u_Revision target + 1 = version \<and>
    prepareUserDeletion R L msgpack now w target hash = Inr plan \<and> cs = applyPlan plan \<and> added = planWatched L plan"
  using assms by (auto simp: deleteDirectoryUserTx_def split: option.splits sum.splits if_splits prod.splits)

text \<open>
  C22. Deletion is authorised, versioned and complete. When \<^verbatim>\<open>DeleteDirectoryUser\<close> reports that it removed a user, then at the
  very instant of the commit the acting account was an active administrator with the token version and revision of the
  caller's session, and the record of the user had the version the caller presented. Afterwards the user has no
  record, no group lists it, no tenant holds an assignment of it, its own indexes are empty, the membership records
  they named are gone, and the email index, the email and federated-subject keys and the legacy record of the removed
  record no longer lead to it.
\<close>

theorem delete_user_complete:
  assumes "store_ok R view" "\<And>i. keepsLinks view (others i)" "links (view w)"
    "DeleteDirectoryUser R L msgpack others clock w userID version actor = (Inr True, w')"
  shows "(\<exists>v now ha ra a h raw u. instant view (range others) w v \<and> ks_hash (view v) ha (act_UserID actor) = Some ra \<and>
      decodeDeletionUser L now ra (act_UserID actor) ha = Inr a \<and> u_Status a = UserStatusActive \<and> u_Role a = RoleAdmin \<and>
      u_TokenVersion a = act_TokenVersion actor \<and> u_Revision a = act_Revision actor \<and>
      ks_hash (view v) h userID = Some raw \<and> decodeDeletionUser L now raw userID h = Inr u \<and> u_Revision u + 1 = version \<and>
      (\<exists>plan. view w' = applyAll (applyPlan plan) (view v) \<and> pl_user plan = u) \<and>
      u_Id u = userID \<and> unindexed L (view w') u \<and>
      (\<forall>t \<in> ks_set (view v) (membershipsByUserKey userID). ks_hash (view w') (membershipsKey t) userID = None) \<and>
      (\<forall>t \<in> ks_set (view v) (membershipV2ByUserKey userID). ks_hash (view w') (membershipV2Key t) userID = None)) \<and>
    ks_hash (view w') usersHashV2 userID = None \<and> ks_hash (view w') federatedUsersHash userID = None \<and>
    (\<forall>g. userID \<notin> ks_set (view w') (groupMembersKey g) \<and> g \<notin> ks_set (view w') (userGroupsKey userID)) \<and>
    (\<forall>t. ks_hash (view w') (assignmentsKey t) (assignmentField AccessPrincipalUser userID) = None) \<and>
    ks_set (view w') (membershipsByUserKey userID) = {} \<and> ks_set (view w') (membershipV2ByUserKey userID) = {}"
proof -
  have l: "links (view w')" by (rule DeleteDirectoryUser_links [OF assms(1-4)])
  from assms(4) have "retryTx (\<lambda>i v. case deleteDirectoryUserTx R L msgpack (clock i) userID version actor v of
      (added, t) \<Rightarrow> watchTx R (others i) (deletionWatched userID actor @ added) t v) 0 directoryMaximumRetries w = (Inr True, w')"
    by (simp add: DeleteDirectoryUser_def split: if_splits)
  then obtain j v where inst: "instant view (range others) w v" and att: "(case deleteDirectoryUserTx R L msgpack (clock j) userID version actor v of
      (added, t) \<Rightarrow> watchTx R (others j) (deletionWatched userID actor @ added) t v) = (Some (Inr True), w')"
    using watchTx_instant [OF assms(1)]
    by (elim retryTx_instant [where view = view and F = "range others"]; simp split: prod.splits; blast)
  obtain added t where d: "deleteDirectoryUserTx R L msgpack (clock j) userID version actor v = (added, t)" by force
  with att have wt: "watchTx R (others j) (deletionWatched userID actor @ added) t v = (Some (Inr True), w')" by simp
  let ?ks = "view (others j v)" and ?now = "clock j"
  obtain cs where cs: "t = Commit cs True" "\<And>k. k \<in> set (deletionWatched userID actor @ added) \<Longrightarrow> sameKey (view v) ?ks k"
    "view w' = applyAll cs ?ks"
    using watchTx_Commit [OF assms(1) wt deleteDirectoryUserTx_True(1) [OF d]] by blast
  from deleteDirectoryUserTx_True(2) [OF d cs(1)] obtain target hash plan where p:
    "validateDeletionActor R L ?now v actor = None" "deletionStorageUser R L ?now v userID = Inr (Some (target, hash))"
    "u_Revision target + 1 = version" "prepareUserDeletion R L msgpack ?now v target hash = Inr plan" "cs = applyPlan plan"
    "added = planWatched L plan" by blast
  note id = deletionStorageUser_Some [OF p(2)]
  have same: "sameKey (view v) ?ks usersHashV2" "sameKey (view v) ?ks federatedUsersHash"
    by (rule cs(2), simp add: deletionWatched_def)+
  then have h: "ks_hash (view v) k = ks_hash ?ks k" if "k = usersHashV2 \<or> k = federatedUsersHash" for k
    using that by (auto simp: sameKey_def)
  from validateDeletionActor_None [OF assms(1) p(1)] obtain ha ra a where
    "ha = usersHashV2 \<or> ha = federatedUsersHash" "ks_hash (view v) ha (act_UserID actor) = Some ra"
    "decodeDeletionUser L ?now ra (act_UserID actor) ha = Inr a" "u_Status a = UserStatusActive" "u_Role a = RoleAdmin"
    "\<not> u_PasswordChangeRequired a" "u_TokenVersion a = act_TokenVersion actor" "u_Revision a = act_Revision actor" .
  note actor = this(2-8) [unfolded h [OF this(1)]]
  from id(3) obtain raw where raw: "rHGet R v hash userID = Inr (Some raw)" "decodeDeletionUser L ?now raw userID hash = Inr target"
    by blast
  have target: "ks_hash ?ks hash userID = Some raw" using store_reads(2) [OF assms(1) raw(1)] h [OF id(2)] by simp
  from p(4) have pl: "pl_user plan = target" "pl_hash plan = hash" by (rule prepareUserDeletion_Inr, blast)+
  have other: "ks_hash ?ks k userID = None" if "k = usersHashV2 \<or> k = federatedUsersHash" "k \<noteq> pl_hash plan" for k
    using id(4) [OF that(1)] that(2) store_reads(2) [OF assms(1)] unfolding h [OF that(1), symmetric] pl by auto
  note gone = applyPlan_removes [where p = plan and ks = ?ks and i = userID, unfolded pl, OF id(2) id(1) [symmetric] other [unfolded pl],
      folded p(5), folded cs(3)]
  have "sameKey (view v) ?ks (membershipsByUserKey userID)" "sameKey (view v) ?ks (membershipV2ByUserKey userID)"
    by (rule cs(2), simp add: deletionWatched_def)+
  then have own: "ks_set ?ks (membershipsByUserKey userID) = ks_set (view v) (membershipsByUserKey userID)"
    "ks_set ?ks (membershipV2ByUserKey userID) = ks_set (view v) (membershipV2ByUserKey userID)" by (simp_all add: sameKey_def)
  have "sameKey (view v) ?ks k" if "k \<in> set (planWatched L plan)" for k by (rule cs(2)) (simp add: p(6) that)
  note left = applyPlan_unindexed [OF assms(1) p(4) this, folded p(5), folded cs(3), unfolded id(1), folded own]
  have "userID \<notin> ks_set (view w') (groupMembersKey g)" for g
    using l gone(3) by (simp add: links_def linkedGroups_def)
  moreover have "ks_hash (view w') (assignmentsKey t) (assignmentField AccessPrincipalUser userID) = None" for t
    using l gone(4) unfolding links_def linkedTenants_def by blast
  moreover have "\<exists>v now ha ra a h raw u. instant view (range others) w v \<and> ks_hash (view v) ha (act_UserID actor) = Some ra \<and>
      decodeDeletionUser L now ra (act_UserID actor) ha = Inr a \<and> u_Status a = UserStatusActive \<and> u_Role a = RoleAdmin \<and>
      u_TokenVersion a = act_TokenVersion actor \<and> u_Revision a = act_Revision actor \<and>
      ks_hash (view v) h userID = Some raw \<and> decodeDeletionUser L now raw userID h = Inr u \<and> u_Revision u + 1 = version \<and>
      (\<exists>plan. view w' = applyAll (applyPlan plan) (view v) \<and> pl_user plan = u) \<and>
      u_Id u = userID \<and> unindexed L (view w') u \<and>
      (\<forall>t \<in> ks_set (view v) (membershipsByUserKey userID). ks_hash (view w') (membershipsKey t) userID = None) \<and>
      (\<forall>t \<in> ks_set (view v) (membershipV2ByUserKey userID). ks_hash (view w') (membershipV2Key t) userID = None)"
    using instant_others [OF inst] actor target raw(2) p(3) cs(3) pl(1) id(1) left unfolding p(5) by blast
  ultimately show ?thesis using gone by simp
qed

section \<open>A deletion\<close>

definition root :: user where
  "root = alice\<lparr>u_Id := ''root'', u_Email := ''r@ex.io'', u_Role := RoleAdmin, u_PasswordChangeRequired := False\<rparr>"

definition rootLib :: directoryLib where
  "rootLib = sampleLib\<lparr>dl_user := tableCodec [(alice, ''U0''), (root, ''R0'')]\<rparr>"

definition rootMem :: memory where
  "rootMem = \<lparr>mem_keys = applyAll
     [CHSet usersHashV2 ''alice'' ''U0'', CSet (userByEmailKey ''a@ex.io'') ''alice'',
      CZAdd directoryUserEmailIndex (directoryUserIndexMember ''a@ex.io'' ''alice''), CHSet usersHashV2 ''root'' ''R0'',
      CSet directoryBackfillMarker directoryBackfillVersion] emptyKeys, mem_fields = []\<rparr>"

definition rootActor :: directoryDeletionActor where
  "rootActor = \<lparr>act_UserID = ''root'', act_TokenVersion = 0, act_Revision = 0, act_RecoveredMaster = False\<rparr>"

lemma sample_deletion:
  "fst (DeleteDirectoryUser memStore rootLib (\<lambda>s. None) quiet (\<lambda>i. 9) rootMem ''alice'' 1 rootActor) = Inr True"
proof -
  have c: "decodeDeletionUser rootLib 9 ''U0'' ''alice'' usersHashV2 = Inr alice"
    "decodeDeletionUser rootLib 9 ''R0'' ''root'' usersHashV2 = Inr root"
    "u_Status root = UserStatusActive" "u_Role root = RoleAdmin" "\<not> u_PasswordChangeRequired root" "u_TokenVersion root = 0"
    "u_Revision root = 0" "u_AuthSource alice = AuthSourcePassword"
    "canonicalUserIdentity ''root''"
    by code_simp+
  have m: "ks_hash (mem_keys rootMem) usersHashV2 = [''alice'' \<mapsto> ''U0'', ''root'' \<mapsto> ''R0'']"
    "ks_hash (mem_keys rootMem) federatedUsersHash = Map.empty" "ks_hash (mem_keys rootMem) legacyUsersHash = Map.empty"
    "ks_set (mem_keys rootMem) k = {}"
    "ks_string (mem_keys rootMem) directoryBackfillMarker = Some directoryBackfillVersion"
    "ks_string (mem_keys rootMem) (userByEmailKey ''a@ex.io'') = Some ''alice''"
    "ks_zset (mem_keys rootMem) directoryUserEmailIndex = {directoryUserIndexMember ''a@ex.io'' ''alice''}" for k
    by (auto simp: rootMem_def emptyKeys_def userByEmailKey_def)
  have z: "rZScore memStore w k x = Inr (x \<in> ks_zset (mem_keys w) k)" for w k x by (simp add: memStore_def)
  have "deletionStorageUser memStore rootLib 9 rootMem ''alice'' = Inr (Some (alice, usersHashV2))"
    "deletionStorageUser memStore rootLib 9 rootMem ''root'' = Inr (Some (root, usersHashV2))"
    using c m by (simp_all add: deletionStorageUser_def)
  then show ?thesis
    using c m
    by (simp add: DeleteDirectoryUser_def retryTx_first rootActor_def deleteDirectoryUserTx_def validateDeletionActor_def watchTx_def
        prepareUserDeletion_def deletionBoundedSet_def prepareAliases_def prepareSAML_def z)
qed

theorem delete_user_complete_witness:
  "let w' = snd (DeleteDirectoryUser memStore rootLib (\<lambda>s. None) quiet (\<lambda>i. 9) rootMem ''alice'' 1 rootActor)
   in fst (DeleteDirectoryUser memStore rootLib (\<lambda>s. None) quiet (\<lambda>i. 9) rootMem ''alice'' 1 rootActor) = Inr True \<and>
      ks_hash (mem_keys w') usersHashV2 ''alice'' = None \<and>
      (\<forall>t. ks_hash (mem_keys w') (assignmentsKey t) (assignmentField AccessPrincipalUser ''alice'') = None)"
proof -
  obtain w' where w': "w' = snd (DeleteDirectoryUser memStore rootLib (\<lambda>s. None) quiet (\<lambda>i. 9) rootMem ''alice'' 1 rootActor)" by simp
  with sample_deletion have run: "DeleteDirectoryUser memStore rootLib (\<lambda>s. None) quiet (\<lambda>i. 9) rootMem ''alice'' 1 rootActor = (Inr True, w')"
    by (metis prod.collapse)
  have l: "links (mem_keys rootMem)"
    by (simp add: links_def linkedGroups_def linkedTenants_def rootMem_def emptyKeys_def)
  have q: "keepsLinks mem_keys (quiet i)" for i by (simp add: keepsLinks_def)
  from delete_user_complete [OF memStore_ok q l run] show ?thesis unfolding run by simp
qed

end
