(* ===== verification/Directory_Pages.thy ===== *)
theory Directory_Pages
  imports Directory_Removal
begin

text \<open>
  Paging through the assignments of a tenant: a client that follows the tokens of \<^verbatim>\<open>ListAccessAssignments\<close> comes to an end
  and has then seen every assignment once, in the order of the fields.
\<close>

section \<open>Cursors\<close>

lemma b64quantaLax_strict: "b64quanta vs = Some s \<Longrightarrow> b64quantaLax vs = Some s"
  by (induction vs arbitrary: s rule: b64quanta.induct) (auto split: if_splits)

lemma b64decode_lax: "b64decode (b64encode s) = Some s"
proof -
  have "b64decodeStrict (b64encode s) = Some s" by (rule b64decode_encode)
  then show ?thesis
    by (auto simp: b64decodeStrict_def b64decode_def Let_def intro: b64quantaLax_strict split: if_splits)
qed

lemma cursor_roundtrip:
  assumes "codec_ok (dl_cursor L)" "encodeDirectoryCursor L kind scope after = Inr tok" "length tok \<le> 1024" "after \<noteq> []"
  shows "decodeDirectoryCursor L tok kind scope = Inr after" "tok \<noteq> []"
proof -
  from assms(2) obtain raw where raw: "marshal (dl_cursor L) \<lparr>dc_Version = 1, dc_Kind = kind, dc_Scope = scope, dc_After = after\<rparr> = Inr raw"
    "tok = b64encode raw" by (auto simp: encodeDirectoryCursor_def split: sum.splits)
  with assms(1) have r: "raw \<noteq> []" "unmarshal (dl_cursor L) raw = Inr \<lparr>dc_Version = 1, dc_Kind = kind, dc_Scope = scope, dc_After = after\<rparr>"
    unfolding codec_ok_def codec_roundtrip_def by blast+
  then have "0 < length tok" by (simp add: raw(2) length_b64encode) (cases raw; simp)
  then show "tok \<noteq> []" by simp
  with assms(3,4) r raw(2) show "decodeDirectoryCursor L tok kind scope = Inr after"
    by (simp add: decodeDirectoryCursor_def b64decode_lax)
qed

section \<open>Pages\<close>

text \<open>The cursor after the first \<open>k\<close> names.\<close>

definition cursorAt :: "string list \<Rightarrow> nat \<Rightarrow> string" where
  "cursorAt names k = (if k = 0 then [] else names ! (k - 1))"

lemma takeWhile_below:
  assumes "sorted names" "distinct names" "k < length names"
  shows "takeWhile (\<lambda>f. f < names ! k) names = take k names"
  using assms
proof (induction names arbitrary: k)
  case (Cons a names)
  show ?case
  proof (cases k)
    case (Suc j)
    with Cons.prems have "a < names ! j" by (metis distinct.simps(2) le_neq_trans length_Cons list.simps(15) nth_mem
        not_less_eq sorted_simps(2))
    with Suc Cons show ?thesis by simp
  qed simp
qed simp

lemma pageAfter_at:
  assumes "sorted names" "distinct names" "[] \<notin> set names" "k \<le> length names"
  shows "pageAfter names (cursorAt names k) limit = (take limit (drop k names), k + limit < length names)"
proof (cases "k = 0")
  case True
  have "takeWhile (\<lambda>f. f < []) names = []" by (cases names) auto
  with True show ?thesis by (simp add: pageAfter_def cursorAt_def Let_def min_def)
next
  case False
  with assms(4) have k: "k - 1 < length names" by simp
  from takeWhile_below [OF assms(1,2) k] k have "length (takeWhile (\<lambda>f. f < names ! (k - 1)) names) = k - 1" by simp
  moreover have "names ! (k - 1) \<noteq> []" using assms(3) k by (metis nth_mem)
  ultimately show ?thesis using False k by (auto simp: pageAfter_def cursorAt_def Let_def min_def)
qed

lemma decodeAssignments_append:
  "decodeAssignments L t v (xs @ ys) =
     (case decodeAssignments L t v xs of Inl e \<Rightarrow> Inl e
      | Inr a \<Rightarrow> (case decodeAssignments L t v ys of Inl e \<Rightarrow> Inl e | Inr b \<Rightarrow> Inr (a @ b)))"
  by (induction xs) (auto split: prod.split sum.split)

text \<open>A client that follows the tokens; it might not end, so the result is optional.\<close>

partial_function (option) followPages ::
  "'w store \<Rightarrow> directoryLib \<Rightarrow> 'w \<Rightarrow> string \<Rightarrow> int \<Rightarrow> string \<Rightarrow> accessAssignment list res option" where
  "followPages R L w t limit token =
     (case ListAccessAssignments R L w t token limit of
        Inl e \<Rightarrow> Some (Inl e)
      | Inr (as, next) \<Rightarrow>
          if next = [] then Some (Inr as)
          else Option.bind (followPages R L w t limit next)
                 (\<lambda>r. Some (case r of Inl e \<Rightarrow> Inl e | Inr rest \<Rightarrow> Inr (as @ rest))))"

lemma decodeAssignments_fields: "decodeAssignments L t v fs = Inr as \<Longrightarrow> [] \<notin> set fs \<and> length as = length fs"
  by (induction fs arbitrary: as) (auto simp: parseAssignmentField_def split: prod.splits sum.splits if_splits)

lemma decodeAssignments_appendD:
  "decodeAssignments L t v (xs @ ys) = Inr as \<Longrightarrow>
     \<exists>a b. decodeAssignments L t v xs = Inr a \<and> decodeAssignments L t v ys = Inr b \<and> as = a @ b"
  by (auto simp: decodeAssignments_append split: sum.splits)

lemma ListAccessAssignments_page:
  assumes "store_ok R view" "activeTenantIdentity t" "1 \<le> limit" "limit \<le> int directoryMaximumPageSize"
    and "rHLen R w (assignmentsKey t) = Inr n" "n \<le> directoryMaximumAssignments"
    and "rHGetAll R w (assignmentsKey t) = Inr kvs" "names = sort (map fst kvs)" "[] \<notin> set names" "k \<le> length names"
    and "decodeDirectoryCursor L token ''assignments'' t = Inr (cursorAt names k)"
    and "decodeAssignments L t (map_of kvs) (take (nat limit) (drop k names)) = Inr page"
  shows "ListAccessAssignments R L w t token limit =
    (case nextToken L ''assignments'' t (k + nat limit < length names) (last (take (nat limit) (drop k names))) of
       Inl e \<Rightarrow> Inl e | Inr next \<Rightarrow> Inr (page, next))"
proof -
  have d: "distinct (map fst kvs)" "map_of kvs = ks_hash (view w) (assignmentsKey t)"
    using store_reads(4) [OF assms(1,7)] by simp_all
  have "n = card (dom (ks_hash (view w) (assignmentsKey t)))"
    using assms(1,5) by (auto simp: store_ok_def reads_ok_def)
  then have "n = length kvs" unfolding d(2) [symmetric] dom_map_of_conv_image_fst
    using d(1) by (metis distinct_card length_map set_map)
  moreover have p: "pageAfter names (cursorAt names k) (nat limit) = (take (nat limit) (drop k names), k + nat limit < length names)"
    by (rule pageAfter_at) (use assms(8-10) d(1) in auto)
  ultimately show ?thesis
    using assms(2-7,11,12) p [unfolded assms(8)] unfolding assms(8)
    by (simp add: ListAccessAssignments_def Let_def)
qed

lemma followPages_at:
  assumes "store_ok R view" "activeTenantIdentity t" "1 \<le> limit" "limit \<le> int directoryMaximumPageSize"
    and "rHLen R w (assignmentsKey t) = Inr n" "n \<le> directoryMaximumAssignments"
    and "rHGetAll R w (assignmentsKey t) = Inr kvs" "names = sort (map fst kvs)" "[] \<notin> set names"
    and "codec_ok (dl_cursor L)"
    and "\<And>f. f \<in> set names \<Longrightarrow> \<exists>tok. encodeDirectoryCursor L ''assignments'' t f = Inr tok \<and> length tok \<le> 1024"
    and "k \<le> length names" "decodeDirectoryCursor L token ''assignments'' t = Inr (cursorAt names k)"
    and "decodeAssignments L t (map_of kvs) (drop k names) = Inr rest"
  shows "followPages R L w t limit token = Some (Inr rest)"
  using assms(12-14)
proof (induction "length names - k" arbitrary: k token rest rule: less_induct)
  case less
  let ?l = "nat limit" let ?page = "take ?l (drop k names)"
  have l: "1 \<le> ?l" using assms(3) by simp
  have "drop k names = ?page @ drop (k + ?l) names" by (metis append_take_drop_id drop_drop add.commute)
  with less.prems(3) obtain page others where p: "decodeAssignments L t (map_of kvs) ?page = Inr page"
    "decodeAssignments L t (map_of kvs) (drop (k + ?l) names) = Inr others" "rest = page @ others"
    using decodeAssignments_appendD by metis
  note list = ListAccessAssignments_page [OF assms(1-9) less.prems(1,2) p(1)]
  show ?case
  proof (cases "k + ?l < length names")
    case False
    with p have "rest = page" by simp
    with list False show ?thesis by (subst followPages.simps) (simp add: nextToken_def)
  next
    case True
    let ?f = "last ?page"
    have len: "length ?page = ?l" using True by simp
    then have ne: "?page \<noteq> []" using l by (metis list.size(3) not_one_le_zero)
    from last_in_set [OF ne] have f1: "?f \<in> set names" by (rule in_set_dropD [OF in_set_takeD])
    have "?f = ?page ! (?l - 1)" using last_conv_nth [OF ne] len by simp
    also have "... = names ! (k + ?l - 1)" using True l by simp
    finally have f: "?f \<in> set names" "?f = cursorAt names (k + ?l)" using f1 l assms(3) by (simp_all add: cursorAt_def)
    from assms(11) [OF f(1)] obtain tok where tok: "encodeDirectoryCursor L ''assignments'' t ?f = Inr tok" "length tok \<le> 1024" by blast
    have "?f \<noteq> []" using f(1) assms(9) by metis
    note c = cursor_roundtrip [OF assms(10) tok this]
    have "followPages R L w t limit tok = Some (Inr others)"
      by (rule less.hyps [OF _ _ c(1) [unfolded f(2)] p(2)]) (use True l in auto)
    with list True tok(1) c(2) p(3) show ?thesis by (subst followPages.simps) (simp add: nextToken_def)
  qed
qed

text \<open>
  C28. Paging ends and is complete. On a store whose assignments of the tenant are intact, a client that starts without a
  token and follows each token it is given reaches the end, for every page size the service accepts, and has then read
  every assignment of the tenant exactly once, sorted by field. The cursors must fit the limit the reader imposes on
  them (1024 bytes), which is not checked when they are written.
\<close>

theorem assignment_pages_complete:
  assumes "store_ok R view" "activeTenantIdentity t" "1 \<le> limit" "limit \<le> int directoryMaximumPageSize"
    and "rHLen R w (assignmentsKey t) = Inr n" "n \<le> directoryMaximumAssignments" "rHGetAll R w (assignmentsKey t) = Inr kvs"
    and "codec_ok (dl_cursor L)"
    and "\<And>f. f \<in> fst ` set kvs \<Longrightarrow> \<exists>tok. encodeDirectoryCursor L ''assignments'' t f = Inr tok \<and> length tok \<le> 1024"
    and "decodeAssignments L t (map_of kvs) (sort (map fst kvs)) = Inr all"
  shows "followPages R L w t limit [] = Some (Inr all) \<and> length all = card (dom (ks_hash (view w) (assignmentsKey t))) \<and>
    set (map fst kvs) = dom (ks_hash (view w) (assignmentsKey t))"
proof -
  note f = decodeAssignments_fields [OF assms(10)]
  have "followPages R L w t limit [] = Some (Inr all)"
    by (rule followPages_at [OF assms(1-7) refl _ assms(8), where k = 0])
      (use f assms(9,10) in \<open>auto simp: decodeDirectoryCursor_def cursorAt_def\<close>)
  moreover have d: "distinct (map fst kvs)" "map_of kvs = ks_hash (view w) (assignmentsKey t)"
    using store_reads(4) [OF assms(1,7)] by simp_all
  then have "set (map fst kvs) = dom (ks_hash (view w) (assignmentsKey t))"
    unfolding d(2) [symmetric] by (simp add: dom_map_of_conv_image_fst)
  moreover from this d(1) f have "length all = card (dom (ks_hash (view w) (assignmentsKey t)))"
    by (metis distinct_card length_map length_sort)
  ultimately show ?thesis by blast
qed


section \<open>Two assignments, one per page\<close>

definition staffReader :: accessAssignment where
  "staffReader = \<lparr>a_TenantID = ''acme'', a_PrincipalType = AccessPrincipalGroup, a_PrincipalID = ''grp_1'',
     a_Roles = [''WRITER''], a_Version = 3, a_CreatedAt = Some 9, a_UpdatedAt = Some 9\<rparr>"

definition pageLib :: directoryLib where
  "pageLib = sampleLib\<lparr>dl_assignment := tableCodec [(reader, ''A0''), (staffReader, ''A1'')],
     dl_unicode := \<lparr>mapLower = id, mapUpper = id, foldEqual = (=)\<rparr>,
     dl_cursor := tableCodec (map (\<lambda>f. (\<lparr>dc_Version = 1, dc_Kind = ''assignments'', dc_Scope = ''acme'', dc_After = f\<rparr>, f))
       [''group:grp_1'', ''user:alice''])\<rparr>"

definition pageMem :: memory where
  "pageMem = \<lparr>mem_keys = applyAll [CHSet (assignmentsKey ''acme'') ''user:alice'' ''A0'',
     CHSet (assignmentsKey ''acme'') ''group:grp_1'' ''A1''] emptyKeys, mem_fields = [''user:alice'', ''group:grp_1'']\<rparr>"

theorem assignment_pages_complete_witness:
  "followPages memStore pageLib pageMem ''acme'' 1 [] = Some (Inr [staffReader, reader])"
proof -
  have h: "ks_hash (mem_keys pageMem) (assignmentsKey ''acme'') = [''user:alice'' \<mapsto> ''A0'', ''group:grp_1'' \<mapsto> ''A1'']"
    by (auto simp: pageMem_def emptyKeys_def)
  then have "dom (ks_hash (mem_keys pageMem) (assignmentsKey ''acme'')) = {''user:alice'', ''group:grp_1''}" by auto
  then have r: "rHLen memStore pageMem (assignmentsKey ''acme'') = Inr 2"
    "rHGetAll memStore pageMem (assignmentsKey ''acme'') = Inr [(''user:alice'', ''A0''), (''group:grp_1'', ''A1'')]"
    by (simp_all add: memStore_def h) (simp_all add: pageMem_def)
  have c: "codec_ok (dl_cursor pageLib)" by (simp add: pageLib_def) (rule tableCodec_ok; code_simp)
  have e: "encodeDirectoryCursor pageLib ''assignments'' ''acme'' ''user:alice'' = Inr (b64encode ''user:alice'')"
    "encodeDirectoryCursor pageLib ''assignments'' ''acme'' ''group:grp_1'' = Inr (b64encode ''group:grp_1'')"
    by code_simp+
  have d: "decodeAssignments pageLib ''acme'' (map_of [(''user:alice'', ''A0''), (''group:grp_1'', ''A1'')])
      (sort (map fst [(''user:alice'', ''A0''), (''group:grp_1'', ''A1'')])) = Inr [staffReader, reader]"
    by code_simp
  have t: "\<exists>tok. encodeDirectoryCursor pageLib ''assignments'' ''acme'' f = Inr tok \<and> length tok \<le> 1024"
    if "f \<in> fst ` set [(''user:alice'', ''A0''), (''group:grp_1'', ''A1'')]" for f
  proof -
    from that consider "f = ''user:alice''" | "f = ''group:grp_1''" by auto
    then show ?thesis by cases (simp_all only: e, simp_all)
  qed
  have l: "(1 :: int) \<le> 1" "(1 :: int) \<le> int directoryMaximumPageSize" "(2 :: nat) \<le> directoryMaximumAssignments" by simp_all
  from assignment_pages_complete [OF memStore_ok sample_checks(3) l(1,2) r(1) l(3) r(2) c t d] show ?thesis by blast
qed

end
