(* ===== verification/Directory_Limits.thy ===== *)
theory Directory_Limits
  imports Directory_Pages
begin

text \<open>
  The edges of the directory: the form of every stored user, what the retries guarantee under interference, and what
  an outage of the store looks like to the callers.
\<close>

section \<open>Stored users\<close>

definition storedUser :: "directoryLib \<Rightarrow> user \<Rightarrow> bool" where
  "storedUser L u \<longleftrightarrow>
     canonicalUserIdentity (u_Id u) \<and> 0 \<le> u_Revision u \<and> canonicalEmail (u_Email u) \<and>
     normalizeDirectoryEmail L (u_Email u) = u_Email u \<and> validUserStatus (u_Status u) \<and> u_CreatedAt u \<noteq> None \<and>
     u_Role u \<noteq> [] \<and>
     (if u_AuthSource u = AuthSourceSAML
      then u_Password u = [] \<and> \<not> u_PasswordChangeRequired u \<and> validExternalSubject (u_ExternalSubject u)
      else u_AuthSource u = AuthSourcePassword \<and> TrimSpace (u_Password u) \<noteq> [])"

text \<open>\<^verbatim>\<open>strings.ToLower\<close> leaves no ASCII capital, whatever the other letters of the text are.\<close>

definition lower_ok :: "go_unicode \<Rightarrow> bool" where
  "lower_ok U \<longleftrightarrow> (\<forall>s. list_all (\<lambda>c. ascii_lower c = c) (mapLower U s))"

lemma ascii_lower_idem [simp]: "ascii_lower (ascii_lower c) = ascii_lower c"
  by (auto simp: ascii_lower_def)

lemma ToLower_lower: "lower_ok U \<Longrightarrow> list_all (\<lambda>c. ascii_lower c = c) (ToLower U s)"
  by (simp add: ToLower_def lower_ok_def list_all_iff)

lemma graphic_ascii: "graphic c \<Longrightarrow> is_ascii c"
  by (simp add: graphic_def is_ascii_def)

lemma normalizeDirectoryEmail_idem:
  assumes "lower_ok (dl_unicode L)"
  shows "normalizeDirectoryEmail L (normalizeDirectoryEmail L v) = normalizeDirectoryEmail L v"
proof -
  let ?e = "ToLower (dl_unicode L) (TrimSpace v)"
  show ?thesis
  proof (cases "canonicalEmail ?e")
    case True
    then have g: "list_all graphic ?e" by (simp add: canonicalEmail_def split: if_splits)
    then have "TrimSpace ?e = ?e" by (rule TrimSpace_all_graphic)
    moreover have "list_all is_ascii ?e" using g graphic_ascii by (auto simp: list_all_iff)
    moreover have "map ascii_lower ?e = ?e" using ToLower_lower [OF assms] by (intro map_idI) (auto simp: list_all_iff)
    ultimately have "ToLower (dl_unicode L) (TrimSpace ?e) = ?e" by (simp add: ToLower_def [of _ ?e])
    with True show ?thesis by (simp add: normalizeDirectoryEmail_def Let_def)
  next
    case False
    have "\<not> canonicalEmail []" by (simp add: canonicalEmail_def)
    with False show ?thesis by (simp add: normalizeDirectoryEmail_def Let_def ToLower_def)
  qed
qed

lemma normalizeDirectoryEmail_canonical: "normalizeDirectoryEmail L v \<noteq> [] \<Longrightarrow> canonicalEmail (normalizeDirectoryEmail L v)"
  by (auto simp: normalizeDirectoryEmail_def Let_def split: if_splits)

lemma canonicalDirectoryStorageUser_accepts:
  assumes "canonicalDirectoryStorageUser L now (Some u) = Inr c"
  obtains source status created where "canonicalUserIdentity (u_Id u)" "0 \<le> u_Revision u" "validUserStatus status"
      "source = AuthSourcePassword \<and> TrimSpace (u_Password u) \<noteq> [] \<or> source = AuthSourceSAML \<and> validExternalSubject (u_ExternalSubject u)"
    and "c = (let x = u\<lparr>u_CreatedAt := Some created, u_Status := status,
                   u_Role := (if u_Role u = [] then RoleCompanyEmployee else u_Role u),
                   u_Email := normalizeDirectoryEmail L (u_Email u), u_AuthSource := source\<rparr> in
          if source = AuthSourceSAML then x\<lparr>u_Password := [], u_PasswordChangeRequired := False\<rparr> else x)"
proof -
  define source where "source = (if u_AuthSource u = [] then AuthSourcePassword else u_AuthSource u)"
  define status where "status = (if u_Status u = [] then UserStatusActive else u_Status u)"
  define created where "created = (case u_CreatedAt u of None \<Rightarrow> now | Some t \<Rightarrow> t)"
  have cr: "(if u_CreatedAt u = None then Some now else u_CreatedAt u) = Some created"
    by (cases "u_CreatedAt u") (simp_all add: created_def)
  note run = assms [unfolded canonicalDirectoryStorageUser_def option.case Let_def, folded source_def status_def, unfolded cr]
  show thesis
  proof (rule that [of status source created])
    show "canonicalUserIdentity (u_Id u)" "0 \<le> u_Revision u" using run by (simp_all split: if_split_asm)
    show "validUserStatus status" using run by (simp split: if_split_asm)
    show "source = AuthSourcePassword \<and> TrimSpace (u_Password u) \<noteq> [] \<or> source = AuthSourceSAML \<and> validExternalSubject (u_ExternalSubject u)"
      using run by (auto split: if_split_asm)
    show "c = (let x = u\<lparr>u_CreatedAt := Some created, u_Status := status,
                   u_Role := (if u_Role u = [] then RoleCompanyEmployee else u_Role u),
                   u_Email := normalizeDirectoryEmail L (u_Email u), u_AuthSource := source\<rparr> in
          if source = AuthSourceSAML then x\<lparr>u_Password := [], u_PasswordChangeRequired := False\<rparr> else x)"
      using run by (simp add: Let_def split: if_split_asm)
  qed
qed

text \<open>
  C34. The type of a stored user. Whatever record comes in, from a caller or from the store, \<^verbatim>\<open>canonicalDirectoryStorageUser\<close>
  either refuses it or returns a user of one exact form: canonical identifier and email, a known status and source, a
  role and a creation time; a password account with a password hash, a federated one with its subject, no hash and no
  pending change. That form is a fixed point: canonicalising it again, at any time, changes nothing.
\<close>

theorem stored_user_form:
  assumes "canonicalDirectoryStorageUser L now (Some u) = Inr c" "lower_ok (dl_unicode L)"
  shows "storedUser L c \<and> u_Id c = u_Id u \<and> u_Revision c = u_Revision u \<and> u_TokenVersion c = u_TokenVersion u \<and>
    (\<forall>later. canonicalDirectoryStorageUser L later (Some c) = Inr c)"
proof -
  have e: "normalizeDirectoryEmail L (u_Email u) \<noteq> []"
    using assms(1) by (auto simp: canonicalDirectoryStorageUser_def Let_def split: if_splits)
  note email = normalizeDirectoryEmail_idem [OF assms(2), of "u_Email u"] normalizeDirectoryEmail_canonical [OF e]
  obtain source status created where acc: "canonicalUserIdentity (u_Id u)" "0 \<le> u_Revision u" "validUserStatus status"
      "source = AuthSourcePassword \<and> TrimSpace (u_Password u) \<noteq> [] \<or> source = AuthSourceSAML \<and> validExternalSubject (u_ExternalSubject u)"
    and c: "c = (let x = u\<lparr>u_CreatedAt := Some created, u_Status := status,
                   u_Role := (if u_Role u = [] then RoleCompanyEmployee else u_Role u),
                   u_Email := normalizeDirectoryEmail L (u_Email u), u_AuthSource := source\<rparr> in
          if source = AuthSourceSAML then x\<lparr>u_Password := [], u_PasswordChangeRequired := False\<rparr> else x)"
    by (rule canonicalDirectoryStorageUser_accepts [OF assms(1)])
  from acc(4) have f: "storedUser L c"
  proof
    assume "source = AuthSourcePassword \<and> TrimSpace (u_Password u) \<noteq> []"
    then show ?thesis using acc(1-3) email by (simp add: c storedUser_def)
  next
    assume "source = AuthSourceSAML \<and> validExternalSubject (u_ExternalSubject u)"
    then show ?thesis using acc(1-3) email by (simp add: c storedUser_def)
  qed
  then have st: "u_Status c \<noteq> []" "u_Role c \<noteq> []" "u_AuthSource c \<noteq> []" "u_CreatedAt c \<noteq> None" "u_Email c \<noteq> []"
    by (auto simp: storedUser_def validUserStatus_def canonicalEmail_def split: if_splits)
  have "canonicalDirectoryStorageUser L later (Some c) = Inr c" for later
    using f st by (cases c) (simp add: storedUser_def canonicalDirectoryStorageUser_def Let_def split: if_splits)
  with f canonicalDirectoryStorageUser_Id [OF assms(1)] show ?thesis by blast
qed

definition lowerLib :: directoryLib where
  "lowerLib = sampleLib\<lparr>dl_unicode := \<lparr>mapLower = map ascii_lower, mapUpper = map ascii_upper, foldEqual = (=)\<rparr>\<rparr>"

theorem stored_user_form_witness:
  "storedUser lowerLib (alice\<lparr>u_Email := ''b@ex.io''\<rparr>)"
proof -
  have c: "canonicalDirectoryStorageUser lowerLib 9 (Some (alice\<lparr>u_Email := '' B@ex.io''\<rparr>)) = Inr (alice\<lparr>u_Email := ''b@ex.io''\<rparr>)"
    by code_simp
  have "lower_ok (dl_unicode lowerLib)" by (simp add: lower_ok_def lowerLib_def list_all_iff)
  from stored_user_form [OF c this] show ?thesis by blast
qed

section \<open>Retries\<close>

text \<open>Redis commits a transaction whose watched keys are unchanged, or reports an error.\<close>

definition commits :: "'w store \<Rightarrow> ('w \<Rightarrow> keyspace) \<Rightarrow> bool" where
  "commits R view \<longleftrightarrow>
     (\<forall>w ks w1 cs w'. (\<forall>k \<in> set ks. sameKey (view w) (view w1) k) \<longrightarrow> rExec R w ks w1 cs \<noteq> (TxFailed, w'))"

lemma memStore_commits: "commits memStore mem_keys"
  by (simp add: commits_def memStore_def)

lemma watchTx_decides:
  assumes "commits R view" "t \<noteq> Again" "\<And>k. k \<in> set watched \<Longrightarrow> sameKey (view w) (view (other w)) k"
  shows "fst (watchTx R other watched t w) \<noteq> None"
  using assms by (auto simp: watchTx_def commits_def split: txn.split prod.split execResult.split)

lemma retryTx_decides:
  assumes "retryTx attempt i n w = (r, w')" "i \<le> m" "m < i + n" "\<And>v. fst (attempt m v) \<noteq> None"
  shows "\<exists>j v. i \<le> j \<and> j \<le> m \<and> attempt j v = (Some r, w')"
  using assms
proof (induction n arbitrary: i w)
  case (Suc n)
  obtain z v where a: "attempt i w = (z, v)" by force
  show ?case
  proof (cases z)
    case (Some q)
    with a Suc.prems show ?thesis by auto
  next
    case None
    with a Suc.prems(4) [of w] have "i \<noteq> m" by auto
    with Suc.prems a None Suc.IH [of "Suc i" v] show ?thesis by (auto dest: Suc_leD)
  qed
qed simp

text \<open>What an attempt to change a member that decides in the world \<open>v\<close> returns and leaves.\<close>

definition memberOutcome ::
  "'w store \<Rightarrow> ('w \<Rightarrow> 'w) \<Rightarrow> string \<Rightarrow> string \<Rightarrow> (identityGroup \<times> bool) txn \<Rightarrow> 'w \<Rightarrow> (identityGroup \<times> bool) res \<Rightarrow> 'w \<Rightarrow> bool" where
  "memberOutcome R other g u t v r w' \<longleftrightarrow>
     (case t of
        Abort e \<Rightarrow> r = Inl e \<and> w' = v
      | Again \<Rightarrow> False
      | Keep x \<Rightarrow> r = Inr x \<and> w' = v
      | Commit cs x \<Rightarrow>
          r = Inr x \<and> rExec R v [usersHashV2, directoryGroupsHash, groupMembersKey g, userGroupsKey u] (other v) cs = (Committed, w') \<or>
          (\<exists>e. r = Inl e \<and>
             rExec R v [usersHashV2, directoryGroupsHash, groupMembersKey g, userGroupsKey u] (other v) cs = (ExecError e, w')))"

text \<open>
  C32. Retrying makes progress. A change of a group's membership gives up only when it loses every one of its eight races:
  if in one of the attempts the other clients leave the four keys it watches alone, whatever they do in the others, the
  call returns the outcome of an attempt, so either the member was changed, or it was already as asked, or the reads of
  that attempt give the reason of the refusal.
\<close>

theorem member_change_decides:
  assumes "commits R view" "canonicalGroupID g" "canonicalUserIdentity u" "m < directoryMaximumRetries"
    and "\<And>v k. k \<in> {usersHashV2, directoryGroupsHash, groupMembersKey g, userGroupsKey u} \<Longrightarrow>
      sameKey (view v) (view (others m v)) k"
  shows "\<exists>j v r w'. j \<le> m \<and> changeGroupMember R L others clock w g u ifMatch add =
      (map_sum id (\<lambda>(x, changed). (x\<lparr>g_MemberCount := memberCount R w' g\<rparr>, changed)) r, w') \<and>
    memberOutcome R (others j) g u (changeGroupMemberTx R L (clock j) g u ifMatch add v) v r w'"
proof -
  let ?keys = "[usersHashV2, directoryGroupsHash, groupMembersKey g, userGroupsKey u]"
  let ?tx = "\<lambda>j v. changeGroupMemberTx R L (clock j) g u ifMatch add v"
  let ?attempt = "\<lambda>j v. watchTx R (others j) ?keys (?tx j v) v"
  have again: "?tx j v \<noteq> Again" for j v
    by (simp add: changeGroupMemberTx_def Let_def split: option.split sum.split)
  obtain r w' where run: "retryTx ?attempt 0 directoryMaximumRetries w = (r, w')" by force
  have "fst (?attempt m v) \<noteq> None" for v
    by (rule watchTx_decides [OF assms(1) again]) (use assms(5) in auto)
  with retryTx_decides [OF run, of m] assms(4) obtain j v where j: "j \<le> m" "?attempt j v = (Some r, w')" by auto
  have "changeGroupMember R L others clock w g u ifMatch add =
      (map_sum id (\<lambda>(x, changed). (x\<lparr>g_MemberCount := memberCount R w' g\<rparr>, changed)) r, w')"
    using assms(2,3) run by (simp add: changeGroupMember_def split: sum.split prod.split)
  moreover have "memberOutcome R (others j) g u (?tx j v) v r w'"
    using j(2) again [of j v]
    by (cases "?tx j v") (auto simp: memberOutcome_def watchTx_def split: prod.splits execResult.splits)
  ultimately show ?thesis using j(1) by blast
qed

text \<open>Another client changes the groups during the first attempt and is silent afterwards.\<close>

definition noisyOnce :: "nat \<Rightarrow> memory \<Rightarrow> memory" where
  "noisyOnce i w = (if i = 0 then w\<lparr>mem_keys := applyCmd (CHSet directoryGroupsHash ''grp_2'' ''?'') (mem_keys w)\<rparr> else w)"

theorem member_change_decides_witness:
  "\<exists>j v r w'. j \<le> 1 \<and> changeGroupMember memStore sampleLib noisyOnce (\<lambda>i. 9) sampleMem ''grp_1'' ''alice'' ''*'' True =
      (map_sum id (\<lambda>(x, changed). (x\<lparr>g_MemberCount := memberCount memStore w' ''grp_1''\<rparr>, changed)) r, w') \<and>
      memberOutcome memStore (noisyOnce j) ''grp_1'' ''alice'' (changeGroupMemberTx memStore sampleLib 9 ''grp_1'' ''alice'' ''*'' True v) v r w'"
proof -
  have q: "sameKey (mem_keys v) (mem_keys (noisyOnce 1 v)) k" for v k by (simp add: noisyOnce_def)
  have one: "(1 :: nat) < directoryMaximumRetries" by simp
  show ?thesis
    by (rule member_change_decides [where view = mem_keys and others = noisyOnce and m = 1 and R = memStore
          and g = "''grp_1''" and u = "''alice''", OF memStore_commits sample_checks(2,1) one q])
qed

section \<open>Outages\<close>

text \<open>
  C33. An outage looks like a missing account. \<^verbatim>\<open>FindByID\<close> looks at the reply before it looks at the error, so when neither
  hash can be read it reports, without an error, that the account does not exist; a revocation by identifier then
  answers ErrNotFound and leaves every session of the account valid, and session validation answers the same as for a
  deleted account.
\<close>

theorem outage_reported_as_missing:
  fixes s :: "('w, 'k) userService"
  assumes "canonicalUserIdentity userID" "rHGet R w usersHashV2 userID = Inl e" "rHGet R w federatedUsersHash userID = Inl e'"
    and "usByID (us_repo s) = Some byID" "\<And>v i. idFindByID byID v i = FindByID R L v i" "TrimSpace userID \<noteq> []" "TrimSpace email \<noteq> []"
  shows "FindByID R L w userID = Inr None \<and>
    IncrementTokenVersionByID R L others clock w userID = (Inl ErrNotFound, w) \<and>
    resolveCurrentTokenUser s w userID email = Inl ErrNotFound"
proof -
  have f: "FindByID R L w userID = Inr None" using assms(1-3) by (simp add: FindByID_def)
  then have "IncrementTokenVersionByID R L others clock w userID = (Inl ErrNotFound, w)"
    by (simp add: IncrementTokenVersionByID_def retryTx_first incrementByIDAttempt_def)
  with f assms(4-7) show ?thesis by (simp add: resolveCurrentTokenUser_def Let_def)
qed

theorem outage_reported_as_missing_witness:
  "let R = memStore\<lparr>rHGet := (\<lambda>w k f. Inl (ErrText ''connection refused''))\<rparr> in
     rHGet memStore sampleMem usersHashV2 ''alice'' = Inr (Some ''U0'') \<and> FindByID R sampleLib sampleMem ''alice'' = Inr None \<and>
     IncrementTokenVersionByID R sampleLib quiet (\<lambda>i. 9) sampleMem ''alice'' = (Inl ErrNotFound, sampleMem)"
proof -
  let ?R = "memStore\<lparr>rHGet := (\<lambda>w k f. Inl (ErrText ''connection refused''))\<rparr>"
  let ?s = "memService\<lparr>us_repo := memRepo\<lparr>usByID := Some \<lparr>idFindByID = FindByID ?R sampleLib,
    idIncrementTokenVersionByID = (\<lambda>w i. (Inl ErrNotFound, w))\<rparr>\<rparr>\<rparr>"
  have h: "rHGet ?R sampleMem k f = Inl (ErrText ''connection refused'')" for k f by simp
  have b: "usByID (us_repo ?s) = Some \<lparr>idFindByID = FindByID ?R sampleLib, idIncrementTokenVersionByID = (\<lambda>w i. (Inl ErrNotFound, w))\<rparr>"
    by simp
  have t: "TrimSpace ''alice'' \<noteq> []" by (simp add: TrimSpace_all_graphic graphic_def)
  from outage_reported_as_missing [OF sample_checks(1) h h b _ t t, of sampleLib quiet "\<lambda>i. 9"] show ?thesis by (simp add: Let_def)
qed

end
