(* ===== verification/Authority_Contracts.thy ===== *)
theory Authority_Contracts
  imports AI_Gateway Utf8
begin

text \<open>
  The contracts of the two external grant authorities: the requests, decisions and validity checks of
  \<^verbatim>\<open>internal/codeqbinding/types.go\<close> and \<^verbatim>\<open>internal/managedlogs/authority.go\<close>. A decision that does not answer its
  request, or grants anything outside the closed vocabulary, is refused whoever sent it.
\<close>

section \<open>Identifiers\<close>

text \<open>\<^verbatim>\<open>^[A-Za-z0-9][A-Za-z0-9._:-]{0,127}$\<close>\<close>

definition safeID :: "string \<Rightarrow> bool" where
  "safeID s \<longleftrightarrow>
     1 \<le> length s \<and> length s \<le> 128 \<and> (inLower (hd s) \<or> inUpper (hd s) \<or> inDigit (hd s)) \<and>
     list_all (\<lambda>c. inLower c \<or> inUpper c \<or> inDigit c \<or> c \<in> set ''._:-'') s"

text \<open>\<^verbatim>\<open>^[0-9a-f]{8}-[0-9a-f]{4}-[0-9a-f]{4}-[0-9a-f]{4}-[0-9a-f]{12}$\<close>\<close>

definition ValidCanonicalUUID :: "string \<Rightarrow> bool" where
  "ValidCanonicalUUID v \<longleftrightarrow>
     map length (SplitChar CHR ''-'' v) = [8, 4, 4, 4, 12] \<and> list_all (list_all lowerHex) (SplitChar CHR ''-'' v)"

definition ValidTopicName :: "string \<Rightarrow> bool" where
  "ValidTopicName name = validDNSLabel name"

section \<open>Queue bindings\<close>

abbreviation codeqSchemaVersion :: string where "codeqSchemaVersion \<equiv> ''codeq-binding-authority/v1''"
abbreviation codeqAuthorityAudience :: string where "codeqAuthorityAudience \<equiv> ''code-admin-codeq-binding-authority''"
abbreviation codeqServiceSubject :: string where "codeqServiceSubject \<equiv> ''tikti:codeq-binding-exchange''"
abbreviation PolicyPublish :: string where "PolicyPublish \<equiv> ''Publish''"
abbreviation PolicySubscribe :: string where "PolicySubscribe \<equiv> ''Subscribe''"
abbreviation ReasonResolved :: string where "ReasonResolved \<equiv> ''Resolved''"
abbreviation MaxBindings :: nat where "MaxBindings \<equiv> 32"

record authorityRequest =
  cq_SchemaVersion :: string
  cq_RequestID :: string
  cq_TenantID :: string
  cq_ClusterRef :: string
  cq_Namespace :: string
  cq_ServiceAccountName :: string
  cq_ServiceAccountUID :: string
  cq_PodUID :: string

record queueBinding =
  qb_BindingUID :: string
  qb_Generation :: int
  qb_TopicID :: string
  qb_TopicName :: string
  qb_Policy :: string

record excludedBinding =
  xb_BindingUID :: string
  xb_Reason :: string
  xb_TopicID :: string
  xb_Policy :: string

record authorityDecision =
  cd_SchemaVersion :: string
  cd_RequestID :: string
  cd_Allowed :: "bool option"
  cd_Reason :: string
  cd_Bindings :: "queueBinding list"
  cd_Excluded :: "excludedBinding list"

definition IsAllowed :: "authorityDecision \<Rightarrow> bool" where
  "IsAllowed d \<longleftrightarrow> cd_Allowed d = Some True"

definition deniedReasons :: "string list" where
  "deniedReasons =
     [''NamespaceNotBound'', ''ServiceNotFound'', ''ServiceAmbiguous'', ''ServiceNotReady'', ''PlacementMismatch'',
      ''PlacementAmbiguous'', ''TooManyBindings'']"

definition excludedReasons :: "string list" where
  "excludedReasons =
     [''TargetKindUnsupported'', ''QueueBindingConflict'', ''PolicyInvalid'', ''OwnerMismatch'', ''BindingNotReady'',
      ''TopicNotFound'', ''TopicTenantMismatch'', ''TopicNotReady'', ''TopicIdentityMismatch'']"

text \<open>\<^verbatim>\<open>for _, c := range value\<close> decodes runes; every control character below 0x20 and DEL is one byte.\<close>

definition printable :: "string \<Rightarrow> bool" where
  "printable value = list_all (\<lambda>r. \<not> (r < 32 \<or> r = 127)) (runes value)"

definition validQueueBinding :: "string \<Rightarrow> queueBinding \<Rightarrow> bool" where
  "validQueueBinding pfx b \<longleftrightarrow>
     safeID (qb_BindingUID b) \<and> 1 \<le> qb_Generation b \<and> ValidTopicName (qb_TopicName b) \<and>
     qb_TopicID b = pfx @ qb_TopicName b \<and> (qb_Policy b = PolicyPublish \<or> qb_Policy b = PolicySubscribe)"

fun validQueueBindings :: "string \<Rightarrow> string list \<Rightarrow> queueBinding list \<Rightarrow> bool" where
  "validQueueBindings pfx seen [] = True"
| "validQueueBindings pfx seen (b # bs) =
     (if \<not> validQueueBinding pfx b then False
      else if qb_BindingUID b \<in> set seen then False
      else validQueueBindings pfx (qb_BindingUID b # seen) bs)"

definition validExcluded :: "string \<Rightarrow> excludedBinding \<Rightarrow> bool" where
  "validExcluded pfx x \<longleftrightarrow>
     xb_Reason x \<in> set excludedReasons \<and> (xb_BindingUID x = [] \<or> safeID (xb_BindingUID x)) \<and>
     HasPrefix (xb_TopicID x) pfx \<and> length (xb_TopicID x) \<le> 320 \<and> printable (xb_TopicID x) \<and>
     length (xb_Policy x) \<le> 64 \<and> printable (xb_Policy x)"

definition codeqValidDecision :: "authorityRequest \<Rightarrow> authorityDecision \<Rightarrow> bool" where
  "codeqValidDecision request d =
     (if cd_SchemaVersion d \<noteq> codeqSchemaVersion \<or> cd_RequestID d \<noteq> cq_RequestID request then False
      else (case cd_Allowed d of
              None \<Rightarrow> False
            | Some False \<Rightarrow> cd_Reason d \<in> set deniedReasons \<and> cd_Bindings d = [] \<and> cd_Excluded d = []
            | Some True \<Rightarrow>
                if cd_Reason d \<noteq> ReasonResolved \<or> length (cd_Bindings d) > MaxBindings then False
                else validQueueBindings (cq_TenantID request @ ''.'') [] (cd_Bindings d) \<and>
                     list_all (validExcluded (cq_TenantID request @ ''.'')) (cd_Excluded d)))"

definition codeqValidRequest :: "authorityRequest \<Rightarrow> bool" where
  "codeqValidRequest r \<longleftrightarrow>
     cq_SchemaVersion r = codeqSchemaVersion \<and> ValidCanonicalUUID (cq_RequestID r) \<and> tenantIDPattern (cq_TenantID r) \<and>
     validDNSLabel (cq_ClusterRef r) \<and> validDNSLabel (cq_Namespace r) \<and> validDNSSubdomain (cq_ServiceAccountName r) \<and>
     ValidCanonicalUUID (cq_ServiceAccountUID r) \<and> ValidCanonicalUUID (cq_PodUID r)"

section \<open>Platform logs\<close>

abbreviation logsVersion :: string where "logsVersion \<equiv> ''managed-logs-authority/v1''"
abbreviation CollectorVersion :: string where "CollectorVersion \<equiv> ''managed-logs-collector/v1''"
abbreviation logsAuthorityAudience :: string where "logsAuthorityAudience \<equiv> ''code-admin-logs-authority''"
abbreviation logsAuthoritySubject :: string where "logsAuthoritySubject \<equiv> ''tikti:logs-exchange''"
abbreviation GatewaySubject :: string where "GatewaySubject \<equiv> ''runtime:logs-api''"
abbreviation logsTopicName :: string where "logsTopicName \<equiv> ''cf-logs''"
abbreviation logsStoreAudience :: string where "logsStoreAudience \<equiv> ''code-admin-logs-store''"

definition StoreScopes :: "string \<Rightarrow> string list" where
  "StoreScopes operation =
     (if operation = ''CefasBootstrap'' then [''cefas:table:create'', ''cefas:table:describe'']
      else if operation = ''CefasRuntime''
      then [''cefas:item:delete:logs-events'', ''cefas:item:read:logs-events'', ''cefas:item:read:logs-state'',
            ''cefas:item:write:logs-events'', ''cefas:item:write:logs-state'', ''cefas:query:logs-events'',
            ''cefas:table:describe'']
      else [])"

record logsIdentity =
  li_ClusterRef :: string
  li_Namespace :: string
  li_ServiceAccountName :: string
  li_ServiceAccountUID :: string
  li_PodUID :: string

record logsRequest =
  lq_SchemaVersion :: string
  lq_RequestID :: string
  lq_Operation :: string
  lq_GrantKind :: string
  lq_Identity :: logsIdentity
  lq_TenantID :: string
  lq_ConfigUID :: string
  lq_ConfigGeneration :: int

record logsDecision =
  ld_SchemaVersion :: string
  ld_RequestID :: string
  ld_Allowed :: bool
  ld_Reason :: string
  ld_InstallationID :: string
  ld_ClusterUID :: string
  ld_GrantUID :: string
  ld_GrantGeneration :: int
  ld_TenantID :: string
  ld_TopicID :: string
  ld_RetentionSeconds :: int

definition installationOperation :: "string \<Rightarrow> bool" where
  "installationOperation operation \<longleftrightarrow>
     operation = ''Ingest'' \<or> operation = ''Resolve'' \<or> operation = ''CefasBootstrap'' \<or> operation = ''CefasRuntime''"

definition ValidGrantKind :: "string \<Rightarrow> string \<Rightarrow> bool" where
  "ValidGrantKind operation kind =
     (if installationOperation operation then kind = []
      else if operation = ''Publish'' then kind = [] \<or> kind = ''ObservabilityConfig''
      else if operation = ''Subscribe'' then kind = [] \<or> kind = ''ObservabilityConfig'' \<or> kind = ''LogRetentionPolicy''
      else False)"

definition logsValidDecision :: "logsRequest \<Rightarrow> logsDecision \<Rightarrow> bool" where
  "logsValidDecision r d =
     (if \<not> ValidGrantKind (lq_Operation r) (lq_GrantKind r) \<or> ld_SchemaVersion d \<noteq> logsVersion \<or>
         ld_RequestID d \<noteq> lq_RequestID r then False
      else if \<not> ld_Allowed d
      then ld_Reason d = ''NotAuthorized'' \<and> ld_InstallationID d = [] \<and> ld_GrantUID d = [] \<and> ld_GrantGeneration d = 0 \<and>
        ld_TenantID d = [] \<and> ld_TopicID d = [] \<and> ld_ClusterUID d = [] \<and> ld_RetentionSeconds d = 0
      else if ld_Reason d \<noteq> ''Resolved'' \<or> \<not> safeID (ld_InstallationID d) \<or> \<not> safeID (ld_ClusterUID d) \<or>
              \<not> safeID (ld_GrantUID d) \<or> ld_GrantGeneration d < 1 then False
      else if installationOperation (lq_Operation r)
      then ld_TenantID d = [] \<and> ld_TopicID d = [] \<and> ld_RetentionSeconds d = 0
      else (lq_Operation r = ''Publish'' \<or> lq_Operation r = ''Subscribe'') \<and> ld_GrantUID d = lq_ConfigUID r \<and>
        ld_GrantGeneration d = lq_ConfigGeneration r \<and> ld_TenantID d = lq_TenantID r \<and>
        ld_TopicID d = lq_TenantID r @ ''.'' @ logsTopicName \<and> 60 \<le> ld_RetentionSeconds d \<and>
        ld_RetentionSeconds d \<le> 2147483647)"

end
