(* ===== verification/Workload_Binding.thy ===== *)
theory Workload_Binding
  imports Directory_Store Client_Service
begin

text \<open>
  Workload bindings: the records of \<^verbatim>\<open>pkg/domain/workload_identity.go\<close> and their repository
  \<^verbatim>\<open>internal/repository/workload_binding_repository.go\<close>. A binding is a field of one hash; its key is the bare subject,
  or cluster, NUL and subject. The JSON of a binding is a parameter.
\<close>

section \<open>Records\<close>

abbreviation WorkloadSubjectTokenType :: string where
  "WorkloadSubjectTokenType \<equiv> ''urn:ietf:params:oauth:token-type:jwt''"
abbreviation WorkloadProducerAudience :: string where "WorkloadProducerAudience \<equiv> ''codeq-producer''"
abbreviation WorkloadWorkerAudience :: string where "WorkloadWorkerAudience \<equiv> ''codeq-worker''"
abbreviation WorkloadAdminScope :: string where "WorkloadAdminScope \<equiv> ''codeq:admin''"
abbreviation WorkloadClaimScope :: string where "WorkloadClaimScope \<equiv> ''codeq:claim''"
abbreviation WorkloadNackScope :: string where "WorkloadNackScope \<equiv> ''codeq:nack''"
abbreviation WorkloadResultScope :: string where "WorkloadResultScope \<equiv> ''codeq:result''"
abbreviation MaxWorkloadGrants :: nat where "MaxWorkloadGrants \<equiv> 100"
abbreviation MaxWorkloadEventTypes :: nat where "MaxWorkloadEventTypes \<equiv> 100"

record workloadGrant =
  wg_TenantID :: string
  wg_Audience :: string
  wg_Scopes :: "string list"
  wg_EventTypes :: "string list"

record workloadBinding =
  wb_Subject :: string
  wb_Namespace :: string
  wb_ServiceAccount :: string
  wb_ClusterRef :: string
  wb_ServiceAccountUID :: string
  wb_Grants :: "workloadGrant list"
  wb_Revoked :: bool
  wb_UpdatedAt :: gotime

record 'w workloadBindingRepository =
  wrUpsert :: "'w \<Rightarrow> workloadBinding \<Rightarrow> gerror option \<times> 'w"
  wrGet :: "'w \<Rightarrow> string \<Rightarrow> workloadBinding option res"
  wrRevoke :: "'w \<Rightarrow> string \<Rightarrow> gotime \<Rightarrow> workloadBinding option res \<times> 'w"

section \<open>The repository\<close>

abbreviation workloadBindingsKey :: string where "workloadBindingsKey \<equiv> ''workloadBindings''"

definition bindingRepo_Upsert ::
  "'w store \<Rightarrow> workloadBinding codec \<Rightarrow> 'w \<Rightarrow> workloadBinding option \<Rightarrow> gerror option \<times> 'w" where
  "bindingRepo_Upsert R K w ob =
     (case ob of
        None \<Rightarrow> (Some ErrInvalidArgument, w)
      | Some b \<Rightarrow>
          if TrimSpace (wb_Subject b) = [] then (Some ErrInvalidArgument, w)
          else (case marshal K b of
                  Inl e \<Rightarrow> (Some e, w)
                | Inr raw \<Rightarrow> pipelined R w [CHSet workloadBindingsKey (WorkloadBindingKey (wb_ClusterRef b) (wb_Subject b)) raw]))"

text \<open>
  \<^verbatim>\<open>HGet\<close> answers the empty string with every error, and the code looks for the empty string first: an error is read as
  a missing record.
\<close>

definition bindingRepo_Get :: "'w store \<Rightarrow> workloadBinding codec \<Rightarrow> 'w \<Rightarrow> string \<Rightarrow> workloadBinding option res" where
  "bindingRepo_Get R K w key0 =
     (let key = TrimSpace key0 in
      if key = [] then Inl ErrInvalidArgument
      else (case rHGet R w workloadBindingsKey key of
              Inl e \<Rightarrow> Inr None
            | Inr None \<Rightarrow> Inr None
            | Inr (Some raw) \<Rightarrow>
                if raw = [] then Inr None
                else (case unmarshal K raw of
                        Inl e \<Rightarrow> Inl e
                      | Inr b \<Rightarrow>
                          if WorkloadBindingKey (wb_ClusterRef b) (wb_Subject b) \<noteq> key then Inl ErrInvalidArgument
                          else Inr (Some b))))"

text \<open>\<open>other\<close> is what other clients do between the read and the write.\<close>

definition bindingRepo_Revoke ::
  "'w store \<Rightarrow> workloadBinding codec \<Rightarrow> ('w \<Rightarrow> 'w) \<Rightarrow> 'w \<Rightarrow> string \<Rightarrow> gotime \<Rightarrow> workloadBinding option res \<times> 'w" where
  "bindingRepo_Revoke R K other w key revokedAt =
     (case bindingRepo_Get R K w key of
        Inl e \<Rightarrow> (Inl e, w)
      | Inr None \<Rightarrow> (Inr None, w)
      | Inr (Some b) \<Rightarrow>
          let revoked = b\<lparr>wb_Revoked := True, wb_UpdatedAt := revokedAt\<rparr> in
          (case bindingRepo_Upsert R K (other w) (Some revoked) of
             (Some e, w') \<Rightarrow> (Inl e, w')
           | (None, w') \<Rightarrow> (Inr (Some revoked), w')))"

definition NewWorkloadBindingRepo :: "'w store \<Rightarrow> workloadBinding codec \<Rightarrow> ('w \<Rightarrow> 'w) \<Rightarrow> 'w workloadBindingRepository" where
  "NewWorkloadBindingRepo R K other =
     \<lparr>wrUpsert = (\<lambda>w b. bindingRepo_Upsert R K w (Some b)), wrGet = bindingRepo_Get R K,
      wrRevoke = bindingRepo_Revoke R K other\<rparr>"

end
