(* ===== verification/Rate_Limit.thy ===== *)
theory Rate_Limit
  imports User_State "HOL-Library.AList"
begin

text \<open>
  The in-process rate limiter of the workload exchanges: \<^verbatim>\<open>internal/codeqbinding/ratelimit.go\<close>. The Go map from
  identities to attempt times is an association list with distinct keys; times are nanoseconds. One call of \<open>Allow\<close>
  holds the mutex from its first read to its last write, so it is one step of the state.
\<close>

section \<open>The limiter\<close>

record rateLimiter =
  il_limit :: int
  il_window :: int
  il_maxEntries :: int
  il_attempts :: "(string \<times> int list) list"

definition NewIdentityRateLimiter :: "int \<Rightarrow> int \<Rightarrow> rateLimiter" where
  "NewIdentityRateLimiter limit window =
     \<lparr>il_limit = limit, il_window = window, il_maxEntries = 16384, il_attempts = []\<rparr>"

definition IdentityKey :: "string \<Rightarrow> string \<Rightarrow> string \<Rightarrow> string \<Rightarrow> string" where
  "IdentityKey clusterRef namespace serviceAccount podUID =
     clusterRef @ [CHR 0x00] @ namespace @ [CHR 0x00] @ serviceAccount @ [CHR 0x00] @ podUID"

definition pruneAttempts :: "int list \<Rightarrow> int \<Rightarrow> int list" where
  "pruneAttempts attempts cutoff = dropWhile (\<lambda>a. a \<le> cutoff) attempts"

definition retrySeconds :: "int \<Rightarrow> int" where
  "retrySeconds wait = (let s = (wait + 999999999) div 1000000000 in if s < 1 then 1 else s)"

definition attemptsOf :: "rateLimiter \<Rightarrow> string \<Rightarrow> int list" where
  "attemptsOf l key = (case map_of (il_attempts l) key of None \<Rightarrow> [] | Some as \<Rightarrow> as)"

definition evictExpired :: "rateLimiter \<Rightarrow> int \<Rightarrow> rateLimiter" where
  "evictExpired l now =
     (let cutoff = now - il_window l in
      l\<lparr>il_attempts := filter (\<lambda>(k, as). as \<noteq> []) (map (\<lambda>(k, as). (k, pruneAttempts as cutoff)) (il_attempts l))\<rparr>)"

text \<open>The table before a new identity is entered: its stale entry removed, and expired ones when the table is full.\<close>

definition makeRoom :: "rateLimiter \<Rightarrow> int \<Rightarrow> string \<Rightarrow> rateLimiter" where
  "makeRoom l now key =
     (let l1 = l\<lparr>il_attempts := AList.delete key (il_attempts l)\<rparr> in
      if int (length (il_attempts l1)) \<ge> il_maxEntries l then evictExpired l1 now else l1)"

definition Allow :: "rateLimiter \<Rightarrow> int \<Rightarrow> string \<Rightarrow> (bool \<times> int) \<times> rateLimiter" where
  "Allow l now key =
     (if il_limit l < 1 \<or> il_window l \<le> 0 then ((False, 1), l)
      else
        let recent = pruneAttempts (attemptsOf l key) (now - il_window l);
            l1 = (if recent = [] then makeRoom l now key else l) in
        if recent = [] \<and> int (length (il_attempts l1)) \<ge> il_maxEntries l then ((False, retrySeconds (il_window l)), l1)
        else if int (length recent) \<ge> il_limit l
        then ((False, retrySeconds (hd recent + il_window l - now)),
              l1\<lparr>il_attempts := AList.update key recent (il_attempts l1)\<rparr>)
        else ((True, 0), l1\<lparr>il_attempts := AList.update key (recent @ [now]) (il_attempts l1)\<rparr>))"

section \<open>What the limiter remembers\<close>

text \<open>
  \<open>remembers l now G\<close>: \<open>G key\<close> are the times at which the limiter admitted \<open>key\<close> up to \<open>now\<close>. Whatever it has dropped
  lies outside every window that ends now or later.
\<close>

definition remembers :: "rateLimiter \<Rightarrow> int \<Rightarrow> (string \<Rightarrow> int list) \<Rightarrow> bool" where
  "remembers l now G \<longleftrightarrow>
     distinct (map fst (il_attempts l)) \<and>
     (\<forall>k. sorted (attemptsOf l k) \<and> (\<forall>a \<in> set (attemptsOf l k). a \<le> now) \<and> int (length (attemptsOf l k)) \<le> max 0 (il_limit l) \<and>
       (\<forall>c \<ge> now - il_window l. filter (\<lambda>a. c < a) (G k) = filter (\<lambda>a. c < a) (attemptsOf l k)))"

lemma dropWhile_sorted: "sorted as \<Longrightarrow> dropWhile (\<lambda>a. a \<le> cutoff) as = filter (\<lambda>a. cutoff < a) (as :: int list)"
  by (induction as) (auto intro!: filter_True [symmetric])

lemma prune_filter:
  assumes "sorted as"
  shows "pruneAttempts as cutoff = filter (\<lambda>a. cutoff < a) as"
  using assms by (simp add: pruneAttempts_def dropWhile_sorted)

lemma attemptsOf_upd: "il_attempts l' = AList.update key as (il_attempts l) \<Longrightarrow>
    attemptsOf l' k = (if k = key then as else attemptsOf l k)"
  by (simp add: attemptsOf_def update_conv')

lemma attemptsOf_delete: "attemptsOf (l\<lparr>il_attempts := AList.delete key (il_attempts l)\<rparr>) k = (if k = key then [] else attemptsOf l k)"
  by (simp add: attemptsOf_def delete_conv')

lemma map_of_prune:
  "distinct (map fst xs) \<Longrightarrow> map_of (filter (\<lambda>(k, as). as \<noteq> []) (map (\<lambda>(k, as). (k, f as)) xs)) k =
     (case map_of xs k of None \<Rightarrow> None | Some as \<Rightarrow> if f as = [] then None else Some (f as))"
proof (induction xs)
  case (Cons x xs)
  have "map_of (filter (\<lambda>(k, as). as \<noteq> []) (map (\<lambda>(k, as). (k, f as)) xs)) (fst x) = None"
    using Cons.prems by (auto simp: map_of_eq_None_iff image_iff)
  with Cons show ?case by (cases x) auto
qed simp

lemma attemptsOf_evict:
  "distinct (map fst (il_attempts l)) \<Longrightarrow> attemptsOf (evictExpired l now) k = pruneAttempts (attemptsOf l k) (now - il_window l)"
  by (cases "map_of (il_attempts l) k")
    (simp_all add: attemptsOf_def evictExpired_def Let_def map_of_prune del: map_of_eq_Some_iff, simp add: pruneAttempts_def)

lemma map_fst_prune:
  "map fst (filter (\<lambda>(k, as). as \<noteq> []) (map (\<lambda>(k, as). (k, f as)) xs)) = map fst (filter (\<lambda>(k, as). f as \<noteq> []) xs)"
  by (induction xs) auto

lemma distinct_evict: "distinct (map fst (il_attempts l)) \<Longrightarrow> distinct (map fst (il_attempts (evictExpired l now)))"
  by (simp add: evictExpired_def Let_def map_fst_prune distinct_map_filter)

text \<open>Pruning any part of the table keeps what matters.\<close>

lemma remembers_prune:
  assumes "remembers l before G" "before \<le> now" "il_window l' = il_window l" "il_limit l' = il_limit l"
    and "distinct (map fst (il_attempts l'))"
    and "\<And>k. attemptsOf l' k = attemptsOf l k \<or> attemptsOf l' k = pruneAttempts (attemptsOf l k) (now - il_window l)"
  shows "remembers l' now G"
proof -
  have s: "sorted (attemptsOf l k)" "\<forall>a \<in> set (attemptsOf l k). a \<le> before" "int (length (attemptsOf l k)) \<le> max 0 (il_limit l)"
    "\<And>c. before - il_window l \<le> c \<Longrightarrow> filter (\<lambda>a. c < a) (G k) = filter (\<lambda>a. c < a) (attemptsOf l k)" for k
    using assms(1) by (auto simp: remembers_def)
  have p: "pruneAttempts (attemptsOf l k) cutoff = filter (\<lambda>a. cutoff < a) (attemptsOf l k)" for k cutoff
    by (rule prune_filter [OF s(1)])
  have len: "int (length (filter P (attemptsOf l k))) \<le> max 0 (il_limit l)" for P k
    using s(3) [of k] length_filter_le [of P "attemptsOf l k"] by linarith
  have f: "filter (\<lambda>a. c < a) (G k) = filter (\<lambda>a. c < a) (attemptsOf l' k)" if "now - il_window l \<le> c" for c k
  proof -
    have "filter (\<lambda>a. c < a) (filter (\<lambda>a. now - il_window l < a) (attemptsOf l k)) = filter (\<lambda>a. c < a) (attemptsOf l k)"
      using that by (auto simp: intro!: filter_cong)
    moreover have "before - il_window l \<le> c" using that assms(2) by simp
    ultimately show ?thesis using assms(6) [of k] s(4) [of c k] unfolding p by auto
  qed
  have "sorted (attemptsOf l' k) \<and> (\<forall>a \<in> set (attemptsOf l' k). a \<le> now) \<and> int (length (attemptsOf l' k)) \<le> max 0 (il_limit l)" for k
    using assms(6) [of k] s(1-3) [of k] len [of _ k] assms(2) unfolding p by (auto intro: sorted_wrt_filter order_trans)
  with f assms(3,4,5) show ?thesis by (simp add: remembers_def)
qed

lemma makeRoom_cases:
  assumes "distinct (map fst (il_attempts l))" "pruneAttempts (attemptsOf l key) (now - il_window l) = []"
  shows "il_window (makeRoom l now key) = il_window l" "il_limit (makeRoom l now key) = il_limit l"
    "il_maxEntries (makeRoom l now key) = il_maxEntries l"
    "distinct (map fst (il_attempts (makeRoom l now key)))"
    "attemptsOf (makeRoom l now key) k = attemptsOf l k \<or>
     attemptsOf (makeRoom l now key) k = pruneAttempts (attemptsOf l k) (now - il_window l)"
    "attemptsOf (makeRoom l now key) key = []"
    "length (il_attempts (makeRoom l now key)) \<le> length (il_attempts l)"
    "key \<notin> fst ` set (il_attempts (makeRoom l now key))"
proof -
  let ?d = "l\<lparr>il_attempts := AList.delete key (il_attempts l)\<rparr>"
  have d: "distinct (map fst (il_attempts ?d))" using assms(1) by (simp add: distinct_delete)
  have le: "length (AList.delete key (il_attempts l)) \<le> length (il_attempts l)" by (simp add: AList.delete_eq)
  have le2: "length (il_attempts (evictExpired ?d now)) \<le> length (AList.delete key (il_attempts l))"
    by (simp add: evictExpired_def Let_def order_trans [OF length_filter_le])
  show "il_window (makeRoom l now key) = il_window l" "il_limit (makeRoom l now key) = il_limit l"
    "il_maxEntries (makeRoom l now key) = il_maxEntries l"
    by (simp_all add: makeRoom_def evictExpired_def Let_def)
  show "distinct (map fst (il_attempts (makeRoom l now key)))"
    using d distinct_evict [OF d] by (simp add: makeRoom_def Let_def)
  show e: "attemptsOf (makeRoom l now key) key = []"
    using attemptsOf_evict [OF d, of now key] by (auto simp: makeRoom_def Let_def attemptsOf_delete pruneAttempts_def)
  show "attemptsOf (makeRoom l now key) k = attemptsOf l k \<or>
     attemptsOf (makeRoom l now key) k = pruneAttempts (attemptsOf l k) (now - il_window l)"
  proof (cases "k = key")
    case True
    with e assms(2) show ?thesis by simp
  next
    case False
    with attemptsOf_evict [OF d, of now k] show ?thesis by (simp add: makeRoom_def Let_def attemptsOf_delete)
  qed
  show "length (il_attempts (makeRoom l now key)) \<le> length (il_attempts l)"
    using le le2 by (simp add: makeRoom_def Let_def)
  have "key \<notin> fst ` set (AList.delete key (il_attempts l))" by (auto simp: AList.delete_eq)
  moreover have "fst ` set (il_attempts (evictExpired ?d now)) \<subseteq> fst ` set (AList.delete key (il_attempts l))"
    by (force simp: evictExpired_def Let_def)
  ultimately show "key \<notin> fst ` set (il_attempts (makeRoom l now key))" by (auto simp: makeRoom_def Let_def)
qed

lemma length_update:
  "length (AList.update key as xs) = (if key \<in> fst ` set xs then length xs else Suc (length xs))"
  by (induction xs) auto

section \<open>What a call does\<close>

text \<open>A call in a sequence whose clock does not run backwards: what is admitted, and what the limiter then remembers.\<close>

lemma Allow_step:
  assumes "remembers l before G" "before \<le> now" "1 \<le> il_limit l" "0 < il_window l" "Allow l now key = ((ok, retry), l')"
  shows "remembers l' now (if ok then G(key := G key @ [now]) else G)" "il_limit l' = il_limit l" "il_window l' = il_window l"
    "il_maxEntries l' = il_maxEntries l"
    "int (length (il_attempts l)) \<le> il_maxEntries l \<Longrightarrow> int (length (il_attempts l')) \<le> il_maxEntries l'"
    "ok \<Longrightarrow> int (length (filter (\<lambda>a. now - il_window l < a) (G key))) < il_limit l"
proof -
  let ?r = "pruneAttempts (attemptsOf l key) (now - il_window l)"
  let ?l1 = "if ?r = [] then makeRoom l now key else l"
  note rem = assms(1) [unfolded remembers_def]
  from rem have d: "distinct (map fst (il_attempts l))" by blast
  have G: "filter (\<lambda>a. c < a) (G k) = filter (\<lambda>a. c < a) (attemptsOf l k)" if "now - il_window l \<le> c" for c k
    using rem that assms(2) by auto
  have r: "?r = filter (\<lambda>a. now - il_window l < a) (attemptsOf l key)" using rem by (intro prune_filter) blast
  have l1: "il_window ?l1 = il_window l" "il_limit ?l1 = il_limit l" "il_maxEntries ?l1 = il_maxEntries l"
    "distinct (map fst (il_attempts ?l1))" "length (il_attempts ?l1) \<le> length (il_attempts l)"
    using makeRoom_cases [OF d] d by auto
  have at1: "attemptsOf ?l1 k = attemptsOf l k \<or> attemptsOf ?l1 k = pruneAttempts (attemptsOf l k) (now - il_window l)" for k
    using makeRoom_cases(5) [OF d] by auto
  have R1: "remembers ?l1 now G" by (rule remembers_prune [OF assms(1,2) l1(1,2,4) at1])
  let ?l2 = "?l1\<lparr>il_attempts := AList.update key ?r (il_attempts ?l1)\<rparr>"
  have at2: "attemptsOf ?l2 k = (if k = key then ?r else attemptsOf ?l1 k)" for k by (rule attemptsOf_upd) simp
  have d2: "distinct (map fst (AList.update key as (il_attempts ?l1)))" for as using l1(4) by (rule distinct_update)
  have R2: "remembers ?l2 now G"
    by (rule remembers_prune [OF assms(1,2)]) (use l1 d2 at1 at2 in auto)
  let ?l3 = "?l1\<lparr>il_attempts := AList.update key (?r @ [now]) (il_attempts ?l1)\<rparr>"
  have at3: "attemptsOf ?l3 k = (if k = key then ?r @ [now] else attemptsOf ?l1 k)" for k by (rule attemptsOf_upd) simp
  have R3: "remembers ?l3 now (G(key := G key @ [now]))" if "int (length ?r) < il_limit l"
  proof -
    have e: "sorted (attemptsOf l key)" "\<forall>a \<in> set (attemptsOf l key). a \<le> before" using rem by blast+
    have s: "sorted (?r @ [now])" "\<forall>a \<in> set (?r @ [now]). a \<le> now"
      using e assms(2) unfolding r by (auto simp: sorted_append intro: sorted_wrt_filter order_trans)
    have f: "filter (\<lambda>a. c < a) (G key @ [now]) = filter (\<lambda>a. c < a) (?r @ [now])" if "now - il_window l \<le> c" for c
      using G [OF that, of key] that unfolding r by (auto intro!: filter_cong)
    show ?thesis
      using R1 s f that d2 l1 unfolding remembers_def at3 by auto
  qed
  have cases: "(ok \<longrightarrow> int (length ?r) < il_limit l \<and> l' = ?l3 \<and> (?r = [] \<longrightarrow> int (length (il_attempts ?l1)) < il_maxEntries l)) \<and>
      (\<not> ok \<longrightarrow> l' = ?l1 \<and> ?r = [] \<or> l' = ?l2 \<and> ?r \<noteq> [])"
    using assms(3-5) by (auto simp: Allow_def Let_def split: if_splits)
  show "remembers l' now (if ok then G(key := G key @ [now]) else G)"
    using cases R1 R2 R3 by (cases ok) auto
  show "il_limit l' = il_limit l" "il_window l' = il_window l" "il_maxEntries l' = il_maxEntries l"
    using cases l1(1-3) by (cases ok; auto)+
  show "ok \<Longrightarrow> int (length (filter (\<lambda>a. now - il_window l < a) (G key))) < il_limit l"
    using cases G [of "now - il_window l" key] r by simp
  show "int (length (il_attempts l')) \<le> il_maxEntries l'" if "int (length (il_attempts l)) \<le> il_maxEntries l"
  proof -
    have "key \<in> fst ` set (il_attempts ?l1)" if "?r \<noteq> []"
    proof (rule ccontr)
      assume "key \<notin> fst ` set (il_attempts ?l1)"
      then have "map_of (il_attempts l) key = None" using that by (simp add: map_of_eq_None_iff)
      then have "attemptsOf l key = []" by (simp add: attemptsOf_def)
      with that show False by (simp add: pruneAttempts_def)
    qed
    with cases l1 that show ?thesis by (cases ok; cases "?r = []") (auto simp: length_update)
  qed
qed

section \<open>A sequence of calls\<close>

fun runCalls :: "rateLimiter \<Rightarrow> (int \<times> string) list \<Rightarrow> bool list \<times> rateLimiter" where
  "runCalls l [] = ([], l)"
| "runCalls l ((now, key) # cs) =
     (let ((ok, _), l') = Allow l now key; (oks, l'') = runCalls l' cs in (ok # oks, l''))"

definition admitted :: "string \<Rightarrow> int \<Rightarrow> int \<Rightarrow> (int \<times> string) list \<Rightarrow> bool list \<Rightarrow> nat" where
  "admitted key from till cs oks = length (filter (\<lambda>((now, k), ok). ok \<and> k = key \<and> from < now \<and> now \<le> till) (zip cs oks))"

lemma length_filter_imp: "(\<And>x. P x \<Longrightarrow> Q x) \<Longrightarrow> length (filter P xs) \<le> length (filter Q xs)"
  by (induction xs) auto

lemma runCalls_bound:
  assumes "remembers l before G" "1 \<le> il_limit l" "0 < il_window l" "runCalls l cs = (oks, l')"
    and "sorted (map fst cs)" "\<forall>c \<in> set cs. before \<le> fst c"
    and "\<And>till. int (length (filter (\<lambda>a. till - il_window l < a \<and> a \<le> till) (G key))) \<le> il_limit l"
  shows "int (length (filter (\<lambda>a. till - il_window l < a \<and> a \<le> till) (G key)) + admitted key (till - il_window l) till cs oks) \<le> il_limit l"
  using assms
proof (induction cs arbitrary: l before G oks)
  case Nil
  then show ?case by (simp add: admitted_def)
next
  case (Cons c cs)
  obtain now k where c: "c = (now, k)" by force
  obtain ok retry l1 where a: "Allow l now k = ((ok, retry), l1)" by (metis prod.exhaust)
  obtain oks' where oks: "oks = ok # oks'" "runCalls l1 cs = (oks', l')"
    using Cons.prems(4) a by (auto simp: c split: prod.splits)
  let ?G = "if ok then G(k := G k @ [now]) else G"
  have b: "before \<le> now" "sorted (map fst cs)" "\<forall>c \<in> set cs. now \<le> fst c" using Cons.prems(5,6) by (auto simp: c)
  note st = Allow_step [OF Cons.prems(1) b(1) Cons.prems(2,3) a]
  have w: "int (length (filter (\<lambda>a. till - il_window l < a \<and> a \<le> till) (?G key))) \<le> il_limit l" for till
  proof (cases "ok \<and> k = key \<and> till - il_window l < now \<and> now \<le> till")
    case True
    then have "length (filter (\<lambda>a. till - il_window l < a \<and> a \<le> till) (G key)) \<le> length (filter (\<lambda>a. now - il_window l < a) (G key))"
      by (intro length_filter_imp) auto
    moreover have "int (length (filter (\<lambda>a. now - il_window l < a) (G key))) < il_limit l" using st(6) True by simp
    ultimately show ?thesis using True by simp
  next
    case False
    with Cons.prems(7) [of till] show ?thesis by auto
  qed
  have "int (length (filter (\<lambda>a. till - il_window l1 < a \<and> a \<le> till) (?G key)) + admitted key (till - il_window l1) till cs oks') \<le> il_limit l1"
    by (rule Cons.IH [OF st(1) _ _ oks(2) b(2,3)]) (use st(2,3) Cons.prems(2,3) w in auto)
  then show ?case using st(2,3) by (auto simp: admitted_def c oks(1) split: if_splits)
qed

lemma runCalls_size:
  assumes "remembers l before G" "1 \<le> il_limit l" "0 < il_window l" "runCalls l cs = (oks, l')"
    and "sorted (map fst cs)" "\<forall>c \<in> set cs. before \<le> fst c" "int (length (il_attempts l)) \<le> il_maxEntries l"
  shows "length oks = length cs \<and> int (length (il_attempts l')) \<le> il_maxEntries l' \<and> il_maxEntries l' = il_maxEntries l"
  using assms
proof (induction cs arbitrary: l before G oks)
  case (Cons c cs)
  obtain now k where c: "c = (now, k)" by force
  obtain ok retry l1 where a: "Allow l now k = ((ok, retry), l1)" by (metis prod.exhaust)
  obtain oks' where oks: "oks = ok # oks'" "runCalls l1 cs = (oks', l')"
    using Cons.prems(4) a by (auto simp: c split: prod.splits)
  have b: "before \<le> now" "sorted (map fst cs)" "\<forall>c \<in> set cs. now \<le> fst c" using Cons.prems(5,6) by (auto simp: c)
  note st = Allow_step [OF Cons.prems(1) b(1) Cons.prems(2,3) a]
  have "length oks' = length cs \<and> int (length (il_attempts l')) \<le> il_maxEntries l' \<and> il_maxEntries l' = il_maxEntries l1"
    by (rule Cons.IH [OF st(1) _ _ oks(2) b(2,3)]) (use st(2-5) Cons.prems(2,3,7) in auto)
  with oks(1) st(4) show ?case by simp
qed simp

text \<open>
  C12. The limiter limits. In any sequence of calls whose clock does not run backwards, starting from an empty limiter,
  no identity is admitted more than \<open>limit\<close> times in any window, wherever the window lies and whatever other
  identities do, and the table never outgrows its bound.
\<close>
theorem rate_limit_holds:
  assumes "runCalls (NewIdentityRateLimiter limit window) cs = (oks, l)" "1 \<le> limit" "0 < window" "sorted (map fst cs)"
  shows "int (admitted key (till - window) till cs oks) \<le> limit \<and> length oks = length cs \<and> length (il_attempts l) \<le> 16384"
proof -
  let ?l = "NewIdentityRateLimiter limit window"
  have start: "remembers ?l (fst (hd (cs @ [(0, [])]))) (\<lambda>k. [])"
    using assms(2,3) by (simp add: remembers_def NewIdentityRateLimiter_def attemptsOf_def)
  have first: "\<forall>c \<in> set cs. fst (hd (cs @ [(0, [])])) \<le> fst c" using assms(4) by (cases cs) auto
  have "int (length (filter (\<lambda>a. till - il_window ?l < a \<and> a \<le> till) []) + admitted key (till - il_window ?l) till cs oks) \<le> il_limit ?l"
    using runCalls_bound [OF start _ _ assms(1,4) first] assms(2,3) by (simp add: NewIdentityRateLimiter_def)
  moreover have "length oks = length cs \<and> int (length (il_attempts l)) \<le> il_maxEntries l \<and> il_maxEntries l = il_maxEntries ?l"
    using runCalls_size [OF start _ _ assms(1,4) first] assms(2,3) by (simp add: NewIdentityRateLimiter_def)
  ultimately show ?thesis by (simp add: NewIdentityRateLimiter_def)
qed

theorem rate_limit_holds_witness:
  "admitted ''a'' 0 60 [(0, ''a''), (10, ''a''), (20, ''b''), (30, ''a''), (61, ''a'')] [True, True, True, False, True] = 1 \<and>
   int (admitted ''a'' (60 - 60) 60 [(0, ''a''), (10, ''a''), (20, ''b''), (30, ''a''), (61, ''a'')] [True, True, True, False, True]) \<le> 2"
proof -
  have "fst (runCalls (NewIdentityRateLimiter 2 60) [(0, ''a''), (10, ''a''), (20, ''b''), (30, ''a''), (61, ''a'')]) =
      [True, True, True, False, True]" by code_simp
  then obtain l where "runCalls (NewIdentityRateLimiter 2 60) [(0, ''a''), (10, ''a''), (20, ''b''), (30, ''a''), (61, ''a'')] =
      ([True, True, True, False, True], l)" by (metis prod.collapse)
  from rate_limit_holds [OF this, of "''a''" 60] show ?thesis by (simp add: admitted_def)
qed

end
