(* ===== verification/Token_Exchange.thy ===== *)
theory Token_Exchange
  imports Access_Token
begin

text \<open>
  Exchanging a session for an access token: \<^verbatim>\<open>TokenExchange\<close> of \<^verbatim>\<open>internal/services/user_service.go\<close> and the user side
  of \<^verbatim>\<open>trino_identity.go\<close>. \<^verbatim>\<open>TokenExchange\<close> is one long function; its stages are separate definitions here,
  composed in the same order: the target tenant, the scopes, the platform log scope, the lifetime, the claims.
\<close>

section \<open>Trino\<close>

definition reservedTrinoAudience :: "go_unicode \<Rightarrow> string \<Rightarrow> bool" where
  "reservedTrinoAudience U audience \<longleftrightarrow> HasPrefix (ToLower U (TrimSpace audience)) ''trino:''"

definition trinoRequest :: "string \<Rightarrow> string \<Rightarrow> string list \<Rightarrow> string \<times> bool" where
  "trinoRequest audience tenantID scopes =
     (let (installation, valid) = TrinoInstallationAudience audience in
      (installation, valid \<and> tenantIDPattern tenantID \<and> scopes = [TrinoQueryScope]))"

definition trinoClaims ::
  "goLibrary \<Rightarrow> trinoPrincipal \<Rightarrow> string \<Rightarrow> string \<Rightarrow> string \<Rightarrow> string \<Rightarrow> string \<Rightarrow> int \<Rightarrow> int \<Rightarrow> string \<Rightarrow> claims res" where
  "trinoClaims L p installation tenantID kind subject issuer now ttl jti =
     (if tp_InstallationUID p \<noteq> installation \<or> tp_TenantID p \<noteq> tenantID \<or> tp_SubjectKind p \<noteq> kind \<or>
         kind = ''User'' \<and> tp_SubjectUID p \<noteq> subject \<or> issuer = []
      then Inl ErrUnauthorizedScope
      else (case OpaquePrincipal (sha256hex L) p of
              Inl _ \<Rightarrow> Inl ErrUnauthorizedScope
            | Inr opaque \<Rightarrow>
                Inr [''iss'' \<mapsto> JStr issuer, ''aud'' \<mapsto> JStr (''trino:'' @ installation), ''sub'' \<mapsto> JStr subject,
                     ''tid'' \<mapsto> JStr tenantID, ''scope'' \<mapsto> JStr TrinoQueryScope, ''trino_principal'' \<mapsto> JStr opaque,
                     ''iat'' \<mapsto> GoInt (Unix now), ''exp'' \<mapsto> GoInt (Unix now + ttl), ''jti'' \<mapsto> JStr jti]))"

definition boundedTTL :: "int \<Rightarrow> int \<Rightarrow> int" where
  "boundedTTL ttl remaining = (if remaining < ttl then remaining else ttl)"

definition exchangeTrinoUser ::
  "('w, 'k) userService \<Rightarrow> 'w \<Rightarrow> callEnv \<Rightarrow> tokenExchangeReq \<Rightarrow> user \<Rightarrow> claims \<Rightarrow> tokenExchangeResp res" where
  "exchangeTrinoUser s w E req u source =
     (let (installation, valid) = trinoRequest (te_Audience req) (te_TenantID req) (te_Scopes req) in
      case us_trinoAuthority s of
        None \<Rightarrow> Inl ErrUnauthorizedScope
      | Some authorizeUser \<Rightarrow>
          if \<not> valid \<or> length (te_EventTypes req) > 0 \<or> te_DiscoverTenantTargetsV1 req \<or>
             te_DiscoverTenantTargetsV2 req \<or> te_ScopeCeilingV1 req \<noteq> None
          then Inl ErrUnauthorizedScope
          else
            (case authorizeUser w installation (te_TenantID req) (u_Id u) of
               Inl _ \<Rightarrow> Inl ErrUnauthorizedScope
             | Inr p \<Rightarrow>
                 let ttl = (if te_TTLSeconds req \<le> 0 \<or> te_TTLSeconds req > 300 then 300 else te_TTLSeconds req) in
                 (case expirationTime (us_jwt s) source of
                    Inr (Some ex) \<Rightarrow>
                      let remaining = Unix ex - Unix (ev_now E) in
                      if remaining \<le> 0 then Inl ErrInvalidToken
                      else
                        (case trinoClaims (us_library s) p installation (te_TenantID req) ''User'' (u_Id u)
                                (us_issuerBaseURL s) (ev_now E) (boundedTTL ttl remaining) (ev_uuid E 0) of
                           Inl e \<Rightarrow> Inl e
                         | Inr c \<Rightarrow>
                             (case canonicalAuthenticationMethods (us_unicode s) source of
                                None \<Rightarrow> Inl ErrInvalidToken
                              | Some amr \<Rightarrow>
                                  (case getRSAPrivateKey s of
                                     Inl _ \<Rightarrow> Inl ErrAuthenticationUnavailable
                                   | Inr key \<Rightarrow>
                                       if us_jwksKeyID s = [] then Inl ErrAuthenticationUnavailable
                                       else
                                         (case signRS256 (us_jwt s) (Some (us_jwksKeyID s))
                                                 (putWhen (length amr > 0) ''amr'' (GoStrs amr) c) key of
                                            Inl _ \<Rightarrow> Inl ErrAuthenticationUnavailable
                                          | Inr signed \<Rightarrow>
                                              Inr (bearer signed (boundedTTL ttl remaining) [TrinoQueryScope])))))
                  | _ \<Rightarrow> Inl ErrInvalidToken)))"

section \<open>The target tenant\<close>

record exchangeTarget =
  xt_tenantID :: string
  xt_strictTarget :: string
  xt_roles :: "string list"
  xt_permissions :: "string list"

text \<open>A user without a company acts only through current directory assignments.\<close>

definition directoryTarget :: "('w, 'k) userService \<Rightarrow> 'w \<Rightarrow> user \<Rightarrow> string \<Rightarrow> string list \<Rightarrow> exchangeTarget res" where
  "directoryTarget s w u tenantID memberTenants =
     (case us_directoryAccess s of
        None \<Rightarrow> Inl ErrInvalidTenant
      | Some d \<Rightarrow>
          if \<not> containsString memberTenants tenantID then Inl ErrInvalidTenant
          else
            (case dirGetEffectiveTenantRoles d w (u_Id u) tenantID of
               Inl _ \<Rightarrow> Inl ErrInvalidTenant
             | Inr roles \<Rightarrow>
                 if length roles = 0 then Inl ErrInvalidTenant
                 else
                   (case us_roleSvc s of
                      None \<Rightarrow> Inl ErrUnauthorizedScope
                    | Some R \<Rightarrow>
                        (case rsResolvePermissions R w tenantID roles of
                           Inl _ \<Rightarrow> Inl ErrUnauthorizedScope
                         | Inr perms \<Rightarrow>
                             Inr \<lparr>xt_tenantID = tenantID, xt_strictTarget = tenantID, xt_roles = roles,
                                  xt_permissions = normalizePermissions perms\<rparr>))))"

definition legacyTarget ::
  "('w, 'k) userService \<Rightarrow> 'w \<Rightarrow> user \<Rightarrow> tokenExchangeReq \<Rightarrow> string \<Rightarrow> exchangeTarget res" where
  "legacyTarget s w u req strictTarget =
     (if strictTarget \<noteq> [] then
        (case resolveTenantScopedTokenAuthorization s w (Some u) strictTarget of
           Inl e \<Rightarrow> Inl e
         | Inr a \<Rightarrow>
             Inr \<lparr>xt_tenantID = strictTarget, xt_strictTarget = strictTarget, xt_roles = ta_roles a,
                  xt_permissions = ta_permissions a\<rparr>)
      else
        let memberTenants = listTenantIDs s w (u_Id u);
            requested = TrimSpace (te_TenantID req);
            tenantID = (if requested \<noteq> [] then requested
                        else (case memberTenants of i # _ \<Rightarrow> i | [] \<Rightarrow> derefString (u_CompanyId u))) in
        if tenantID = [] then Inl ErrInvalidTenant
        else if length memberTenants > 0 \<and> \<not> containsString memberTenants tenantID then Inl ErrInvalidTenant
        else if length memberTenants = 0 \<and> u_CompanyId u \<noteq> None \<and> u_CompanyId u \<noteq> Some tenantID
        then Inl ErrInvalidTenant
        else if u_CompanyId u = None then directoryTarget s w u tenantID memberTenants
        else Inr \<lparr>xt_tenantID = tenantID, xt_strictTarget = [], xt_roles = [], xt_permissions = []\<rparr>)"

section \<open>The scopes\<close>

abbreviation employeeScopes :: "string list" where
  "employeeScopes \<equiv>
     [''codeq:claim'', ''codeq:heartbeat'', ''codeq:abandon'', ''codeq:nack'', ''codeq:result'', ''codeq:subscribe'']"

definition membershipRoleNames :: "('w, 'k) userService \<Rightarrow> 'w \<Rightarrow> string \<Rightarrow> user \<Rightarrow> string list" where
  "membershipRoleNames s w tenantID u =
     (case us_directoryAccess s of
        Some d \<Rightarrow>
          (case dirGetEffectiveTenantRoles d w (u_Id u) tenantID of Inl _ \<Rightarrow> [] | Inr roles \<Rightarrow> roles)
      | None \<Rightarrow>
          (case us_membershipRepo s of
             None \<Rightarrow> []
           | Some M \<Rightarrow>
               (case mbGet M w tenantID (u_Id u) of Inr (Some m) \<Rightarrow> m_Roles m | _ \<Rightarrow> [])))"

definition roleNameScopes :: "('w, 'k) userService \<Rightarrow> 'w \<Rightarrow> string \<Rightarrow> string \<Rightarrow> string list" where
  "roleNameScopes s w tenantID r0 =
     (let r = TrimSpace r0 in
      if r = [] then []
      else (if r = RoleCompanyEmployee then employeeScopes else []) @
        (case us_roleSvc s of
           None \<Rightarrow> []
         | Some R \<Rightarrow> (case rsResolvePermissions R w tenantID [r] of Inl _ \<Rightarrow> [] | Inr perms \<Rightarrow> perms)))"

definition scopesAllowed ::
  "('w, 'k) userService \<Rightarrow> 'w \<Rightarrow> string \<Rightarrow> user \<Rightarrow> string list \<Rightarrow> string \<Rightarrow> bool" where
  "scopesAllowed s w tenantID u scopes0 platformPrivilege =
     (case (if length scopes0 > 0 then CanonicalAudienceScopes (us_policy s) scopes0 else Some scopes0) of
        None \<Rightarrow> False
      | Some scopes \<Rightarrow>
          let role = effectiveUserRole (Some u) platformPrivilege in
          if role = RoleAdmin then True
          else if role = RoleCompanyAdmin then \<not> containsString scopes PlatformTenantAdminScope
          else let allowed = concat (map (roleNameScopes s w tenantID) (role # membershipRoleNames s w tenantID u)) in
            list_all (\<lambda>sc. sc \<in> set allowed) scopes)"

definition clientScopes ::
  "('w, 'k) userService \<Rightarrow> 'w \<Rightarrow> tokenExchangeReq \<Rightarrow> string \<Rightarrow> string list res" where
  "clientScopes s w req tenantID =
     (let scopes = normalizeList (te_Scopes req) in
      case us_clientSvc s of
        None \<Rightarrow> Inr scopes
      | Some getClient \<Rightarrow>
          (case getClient w tenantID (te_Audience req) of
             Inl e \<Rightarrow> Inl e
           | Inr None \<Rightarrow> Inl ErrInvalidAudience
           | Inr (Some cl) \<Rightarrow>
               if c_Status cl \<noteq> ClientStatusActive then Inl ErrInvalidAudience
               else let scopes' = (if length scopes = 0 then c_DefaultScopes cl else scopes) in
                 if \<not> subsetList scopes' (c_DefaultScopes cl) \<and> length (c_DefaultScopes cl) > 0
                 then Inl ErrUnauthorizedScope else Inr scopes'))"

definition legacyScopes ::
  "('w, 'k) userService \<Rightarrow> 'w \<Rightarrow> user \<Rightarrow> tokenExchangeReq \<Rightarrow> string \<Rightarrow> exchangeTarget \<Rightarrow> string list res" where
  "legacyScopes s w u req platformPrivilege x =
     (case clientScopes s w req (xt_tenantID x) of
        Inl e \<Rightarrow> Inl e
      | Inr scopes \<Rightarrow>
          if xt_strictTarget x \<noteq> [] then
            (if \<not> subsetList (normalizePermissions scopes) (xt_permissions x) then Inl ErrUnauthorizedScope
             else Inr (normalizePermissions scopes))
          else if length scopes > 0 \<and> \<not> scopesAllowed s w (xt_tenantID x) u scopes platformPrivilege
          then Inl ErrUnauthorizedScope
          else Inr scopes)"

text \<open>The whole decision: target, scopes and, for a discovery request, the discovered authority.\<close>

record exchangeDecision =
  xd_target :: exchangeTarget
  xd_scopes :: "string list"
  xd_discovery :: "tenantDiscoveryAuthorization option"

definition discoveryDecision ::
  "('w, 'k) userService \<Rightarrow> 'w \<Rightarrow> user \<Rightarrow> claims \<Rightarrow> tokenExchangeReq \<Rightarrow> bool \<Rightarrow> string \<Rightarrow> exchangeDecision res" where
  "discoveryDecision s w u c req dynamicTargets platformPrivilege =
     (let role = claimStringValue c ''role'' in
      case resolveDiscoveryHome s w (Some u) (claimStringValue c ''tid'') role platformPrivilege of
        Inl e \<Rightarrow> Inl e
      | Inr (home, directoryPrincipal) \<Rightarrow>
          (case fst (resolveTenantDiscoveryAuthorization s w (Some u) (te_TenantID req) home role
                       (case te_ScopeCeilingV1 req of None \<Rightarrow> [] | Some ceil \<Rightarrow> ceil) (te_Scopes req) dynamicTargets
                       platformPrivilege directoryPrincipal) of
             Inl e \<Rightarrow> Inl e
           | Inr d \<Rightarrow>
               Inr \<lparr>xd_target =
                      \<lparr>xt_tenantID = tda_tenantID d,
                       xt_strictTarget =
                         (if tda_tenantID d = home \<and> \<not> tda_directoryPrincipal d then [] else tda_tenantID d),
                       xt_roles = tda_roles d, xt_permissions = []\<rparr>,
                    xd_scopes = tda_scopes d, xd_discovery = Some d\<rparr>))"

definition legacyDecision ::
  "('w, 'k) userService \<Rightarrow> 'w \<Rightarrow> user \<Rightarrow> tokenExchangeReq \<Rightarrow> string \<Rightarrow> string \<Rightarrow> exchangeDecision res" where
  "legacyDecision s w u req strictTarget platformPrivilege =
     (case legacyTarget s w u req strictTarget of
        Inl e \<Rightarrow> Inl e
      | Inr x \<Rightarrow>
          (case legacyScopes s w u req platformPrivilege x of
             Inl e \<Rightarrow> Inl e
           | Inr scopes \<Rightarrow> Inr \<lparr>xd_target = x, xd_scopes = scopes, xd_discovery = None\<rparr>))"

text \<open>\<open>Some v2\<close> when the request asks for discovery and the audience and the configuration admit it.\<close>

definition discoveryMode :: "('w, 'k) userService \<Rightarrow> tokenExchangeReq \<Rightarrow> bool option res" where
  "discoveryMode s req =
     (let requested = te_DiscoverTenantTargetsV1 req \<or> te_DiscoverTenantTargetsV2 req;
          v1 = te_DiscoverTenantTargetsV1 req \<and> us_tenantScopedTokenClaimsV1 s \<and>
               te_Audience req = CodeAdminAudienceClientID;
          v2 = te_DiscoverTenantTargetsV2 req \<and> us_tenantTargetDiscoveryV2 s \<and>
               te_Audience req = CodeAdminAudienceClientID in
      if te_ScopeCeilingV1 req \<noteq> None \<and> \<not> requested then Inl ErrInvalidArgument
      else if te_DiscoverTenantTargetsV1 req \<and> te_DiscoverTenantTargetsV2 req then Inl ErrInvalidArgument
      else if requested \<and> \<not> (v1 \<or> v2) then Inl ErrInvalidArgument
      else Inr (if v1 \<or> v2 then Some v2 else None))"

definition exchangeDecide ::
  "('w, 'k) userService \<Rightarrow> 'w \<Rightarrow> user \<Rightarrow> claims \<Rightarrow> tokenExchangeReq \<Rightarrow> (exchangeDecision \<times> bool) res" where
  "exchangeDecide s w u c req =
     (let (strictTarget, protected) = tenantScopedTokenTarget s (te_TenantID req);
          platformPrivilege = validatedPlatformPrivilege u c in
      if protected \<and> strictTarget = [] then Inl ErrInvalidTenant
      else
        (case discoveryMode s req of
           Inl e \<Rightarrow> Inl e
         | Inr None \<Rightarrow>
             (case legacyDecision s w u req strictTarget platformPrivilege of
                Inl e \<Rightarrow> Inl e | Inr d \<Rightarrow> Inr (d, False))
         | Inr (Some v2) \<Rightarrow>
             (case discoveryDecision s w u c req v2 platformPrivilege of
                Inl e \<Rightarrow> Inl e | Inr d \<Rightarrow> Inr (d, v2))))"

definition canonicalScopes :: "policy \<Rightarrow> string list \<Rightarrow> string list res" where
  "canonicalScopes P scopes =
     (if length scopes > 0 then
        (case CanonicalAudienceScopes P scopes of None \<Rightarrow> Inl ErrUnauthorizedScope | Some canon \<Rightarrow> Inr canon)
      else Inr scopes)"

definition platformLogScopes ::
  "('w, 'k) userService \<Rightarrow> 'w \<Rightarrow> user \<Rightarrow> claims \<Rightarrow> tokenExchangeReq \<Rightarrow> exchangeDecision \<Rightarrow> bool \<Rightarrow> string list \<Rightarrow>
   string list res" where
  "platformLogScopes s w u c req d v2 scopes =
     (if managedLogsPlatformReadScope \<notin> set scopes then Inr scopes
      else let tenantID = xt_tenantID (xd_target d);
               principal = (case xd_discovery d of None \<Rightarrow> [] | Some a \<Rightarrow> tda_principalTenantID a);
               discoverAtPrincipal = v2 \<and> length (te_Scopes req) = 0 \<and> tenantID = principal in
        if managedLogsPlatformIssuance s w u c req tenantID discoverAtPrincipal then Inr scopes
        else if xd_discovery d = None \<or> length (te_Scopes req) > 0 then Inl ErrUnauthorizedScope
        else let scopes' = filter (\<lambda>sc. sc \<noteq> managedLogsPlatformReadScope) scopes in
          if length scopes' = 0 then Inl ErrUnauthorizedScope else Inr scopes')"

section \<open>The token\<close>

definition exchangeTTL :: "int \<Rightarrow> int \<Rightarrow> int" where
  "exchangeTTL requested sourceTTL =
     (let ttl = (if requested \<le> 0 then 3600 else requested); ttl' = (if ttl > 86400 then 86400 else ttl) in
      if ttl' > sourceTTL then sourceTTL else ttl')"

text \<open>An empty role list of the target is the nil slice, which is encoded as null.\<close>

definition rolesClaim :: "string list \<Rightarrow> jval" where
  "rolesClaim rs = (if rs = [] then JNull else GoStrs rs)"

definition accessTokenClaims ::
  "('w, 'k) userService \<Rightarrow> callEnv \<Rightarrow> tokenExchangeReq \<Rightarrow> user \<Rightarrow> string \<Rightarrow> exchangeDecision \<Rightarrow> string list \<Rightarrow>
   string list \<Rightarrow> string list \<Rightarrow> int \<Rightarrow> claims" where
  "accessTokenClaims s E req u platformPrivilege d scopes eventTypes amr ttl =
     (let x = xd_target d;
          role = effectiveUserRole (Some u) platformPrivilege;
          direct = (case xd_discovery d of None \<Rightarrow> False | Some a \<Rightarrow> tda_directMasterPlatformAuthority a);
          principal = (case xd_discovery d of None \<Rightarrow> [] | Some a \<Rightarrow> tda_principalTenantID a);
          admin = containsString scopes PlatformTenantAdminScope;
          base = [''iss'' \<mapsto> JStr (us_issuerBaseURL s), ''aud'' \<mapsto> JStr (te_Audience req), ''sub'' \<mapsto> JStr (u_Id u),
                  ''email'' \<mapsto> JStr (u_Email u), ''role'' \<mapsto> JStr role, ''tid'' \<mapsto> JStr (xt_tenantID x),
                  ''ver'' \<mapsto> GoInt (u_TokenVersion u), ''iat'' \<mapsto> GoInt (Unix (ev_now E)),
                  ''exp'' \<mapsto> GoInt (Unix (ev_now E) + ttl), ''jti'' \<mapsto> JStr (ev_uuid E 0)];
          c1 = putWhen direct ''principal_tid'' (JStr principal)
                 (putWhen (homeTenant u \<noteq> []) ''principal_tid'' (JStr (homeTenant u)) base);
          c2 = (if xt_strictTarget x \<noteq> [] then (c1(''role'' := None))(''roles'' \<mapsto> rolesClaim (xt_roles x)) else c1);
          c3 = (if direct \<and> admin
                then c2(''role'' \<mapsto> JStr RoleAdmin, PlatformPrivilegeClaim \<mapsto> JStr PlatformPrivilegeAdmin)
                else putWhen (xt_strictTarget x = [] \<and> role = RoleAdmin \<and> admin) PlatformPrivilegeClaim
                       (JStr PlatformPrivilegeAdmin) c2) in
      putWhen (length amr > 0) ''amr'' (GoStrs amr)
      (putWhen (length eventTypes > 0) ''eventTypes'' (GoStrs eventTypes)
      (putWhen (JoinStr '' '' scopes \<noteq> []) ''scope'' (JStr (JoinStr '' '' scopes))
      (putWhen (platformPrivilege = PlatformPrivilegeAdmin) platformAuthorityOriginClaim
         (JStr platformAuthorityOriginSAML) c3))))"

definition exchangeResponse :: "exchangeDecision \<Rightarrow> string list \<Rightarrow> string \<Rightarrow> int \<Rightarrow> tokenExchangeResp" where
  "exchangeResponse d scopes signed ttl =
     (case xd_discovery d of
        None \<Rightarrow> bearer signed ttl []
      | Some a \<Rightarrow>
          (bearer signed ttl scopes)\<lparr>ter_PrincipalTenantID := tda_principalTenantID a,
            ter_AuthorizedTenants := tda_authorizedTenants a\<rparr>)"

definition issueAccessToken ::
  "('w, 'k) userService \<Rightarrow> callEnv \<Rightarrow> tokenExchangeReq \<Rightarrow> user \<Rightarrow> claims \<Rightarrow> exchangeDecision \<Rightarrow> string list \<Rightarrow>
   tokenExchangeResp res" where
  "issueAccessToken s E req u c d scopes =
     (let eventTypes = normalizeList (te_EventTypes req) in
      if te_Audience req = ''codeq-worker'' \<and> length eventTypes = 0 then Inl ErrInvalidArgument
      else
        (case expirationTime (us_jwt s) c of
           Inr (Some ex) \<Rightarrow>
             let sourceTTL = Unix ex - Unix (ev_now E); ttl = exchangeTTL (te_TTLSeconds req) sourceTTL in
             if sourceTTL \<le> 0 then Inl ErrInvalidToken
             else
               (case canonicalAuthenticationMethods (us_unicode s) c of
                  None \<Rightarrow> Inl ErrInvalidToken
                | Some amr \<Rightarrow>
                    (case getRSAPrivateKey s of
                       Inl e \<Rightarrow> Inl e
                     | Inr key \<Rightarrow>
                         (case signRS256 (us_jwt s) (if us_jwksKeyID s \<noteq> [] then Some (us_jwksKeyID s) else None)
                                 (accessTokenClaims s E req u (validatedPlatformPrivilege u c) d scopes eventTypes amr ttl)
                                 key of
                            Inl e \<Rightarrow> Inl e
                          | Inr signed \<Rightarrow> Inr (exchangeResponse d scopes signed ttl))))
         | _ \<Rightarrow> Inl ErrInvalidToken))"

definition exchangeUser ::
  "('w, 'k) userService \<Rightarrow> 'w \<Rightarrow> callEnv \<Rightarrow> tokenExchangeReq \<Rightarrow> user \<Rightarrow> claims \<Rightarrow> tokenExchangeResp res" where
  "exchangeUser s w E req u c =
     (case exchangeDecide s w u c req of
        Inl e \<Rightarrow> Inl e
      | Inr (d, v2) \<Rightarrow>
          (case canonicalScopes (us_policy s) (xd_scopes d) of
             Inl e \<Rightarrow> Inl e
           | Inr scopes0 \<Rightarrow>
               (case platformLogScopes s w u c req d v2 scopes0 of
                  Inl e \<Rightarrow> Inl e
                | Inr scopes \<Rightarrow> issueAccessToken s E req u c d scopes)))"

definition TokenExchange ::
  "('w, 'k) userService \<Rightarrow> 'w \<Rightarrow> callEnv \<Rightarrow> tokenExchangeReq \<Rightarrow> tokenExchangeResp res \<times> 'w" where
  "TokenExchange s w E req =
     (if TrimSpace (te_TenantID req) = RetiredDefaultTenantID then (Inl ErrInvalidTenant, w)
      else if TrimSpace (te_IdToken req) = [] then (Inl ErrInvalidToken, w)
      else if TrimSpace (te_Audience req) = [] \<or> te_Audience req = StoreAudience then (Inl ErrInvalidAudience, w)
      else
        (case validateCurrentIDToken s w E (te_IdToken req) (us_issuerBaseURL s) (us_defaultAudience s) of
           Inl e \<Rightarrow> (Inl e, w)
         | Inr (c, u) \<Rightarrow>
             (case allowAuthenticationAttempt s w ''token-exchange:user'' (u_Id u)
                     (rls_TokenExchange (us_authenticationRateLimits s)) of
                (Inl _, w1) \<Rightarrow> (Inl ErrAuthenticationUnavailable, w1)
              | (Inr False, w1) \<Rightarrow> (Inl ErrRateLimited, w1)
              | (Inr True, w1) \<Rightarrow>
                  (if reservedTrinoAudience (us_unicode s) (te_Audience req) then exchangeTrinoUser s w1 E req u c
                   else if reservedAIAudience (us_unicode s) (us_aiGateway s) (te_Audience req)
                   then exchangeAIUser s w1 E req u c
                   else exchangeUser s w1 E req u c, w1))))"

section \<open>Lemmas\<close>

lemma exchangeTTL_bounds:
  assumes "0 < remaining"
  shows "1 \<le> exchangeTTL requested remaining" "exchangeTTL requested remaining \<le> 86400"
    "exchangeTTL requested remaining \<le> remaining" "0 < requested \<Longrightarrow> exchangeTTL requested remaining \<le> requested"
  using assms by (auto simp: exchangeTTL_def Let_def)

lemma canonicalScopes_Inr:
  "canonicalScopes P scopes = Inr out \<Longrightarrow> canonical out \<and> set out = TrimSpace ` set scopes \<and> [] \<notin> set out"
  using audience.canon_canonical [of P scopes out] audience.canon_set [of P scopes out]
    CanonicalAudienceScopes_nonempty_members [of P scopes out]
  by (auto simp: canonicalScopes_def split: if_splits option.splits)

lemma platformLogScopes_Inr:
  assumes "platformLogScopes s w u c req d v2 scopes = Inr out"
  shows "set out \<subseteq> set scopes" "canonical scopes \<Longrightarrow> canonical out"
    "managedLogsPlatformReadScope \<in> set out \<Longrightarrow>
     \<exists>b. managedLogsPlatformIssuance s w u c req (xt_tenantID (xd_target d)) b"
  using assms by (auto simp: platformLogScopes_def Let_def canonical_filter split: if_splits)

lemma exchangeUser_Inr:
  assumes "exchangeUser s w E req u c = Inr resp"
  obtains d v2 scopes0 scopes where
    "exchangeDecide s w u c req = Inr (d, v2)" "canonicalScopes (us_policy s) (xd_scopes d) = Inr scopes0"
    "platformLogScopes s w u c req d v2 scopes0 = Inr scopes" "issueAccessToken s E req u c d scopes = Inr resp"
  using assms by (auto simp: exchangeUser_def split: sum.splits prod.splits)

lemma issueAccessToken_Inr:
  assumes "issueAccessToken s E req u c d scopes = Inr resp"
  obtains ex amr key signed where
    "expirationTime (us_jwt s) c = Inr (Some ex)" "0 < Unix ex - Unix (ev_now E)"
    "canonicalAuthenticationMethods (us_unicode s) c = Some amr" "getRSAPrivateKey s = Inr key"
    "signRS256 (us_jwt s) (if us_jwksKeyID s \<noteq> [] then Some (us_jwksKeyID s) else None)
       (accessTokenClaims s E req u (validatedPlatformPrivilege u c) d scopes (normalizeList (te_EventTypes req)) amr
          (exchangeTTL (te_TTLSeconds req) (Unix ex - Unix (ev_now E)))) key = Inr signed"
    "resp = exchangeResponse d scopes signed (exchangeTTL (te_TTLSeconds req) (Unix ex - Unix (ev_now E)))"
proof -
  from assms obtain ex where ex: "expirationTime (us_jwt s) c = Inr (Some ex)" "0 < Unix ex - Unix (ev_now E)"
    by (auto simp: issueAccessToken_def Let_def split: if_splits sum.splits option.splits)
  from assms ex obtain amr where amr: "canonicalAuthenticationMethods (us_unicode s) c = Some amr"
    by (auto simp: issueAccessToken_def Let_def split: if_splits option.splits)
  from assms ex amr obtain key where key: "getRSAPrivateKey s = Inr key"
    by (auto simp: issueAccessToken_def Let_def split: if_splits sum.splits)
  from assms ex amr key obtain signed where
    "signRS256 (us_jwt s) (if us_jwksKeyID s \<noteq> [] then Some (us_jwksKeyID s) else None)
       (accessTokenClaims s E req u (validatedPlatformPrivilege u c) d scopes (normalizeList (te_EventTypes req)) amr
          (exchangeTTL (te_TTLSeconds req) (Unix ex - Unix (ev_now E)))) key = Inr signed"
    "resp = exchangeResponse d scopes signed (exchangeTTL (te_TTLSeconds req) (Unix ex - Unix (ev_now E)))"
    by (auto simp: issueAccessToken_def Let_def split: if_splits sum.splits)
  with ex amr key that show thesis by blast
qed

lemma exchangeResponse_fields [simp]:
  "ter_AccessToken (exchangeResponse d scopes signed ttl) = signed"
  "ter_ExpiresIn (exchangeResponse d scopes signed ttl) = ttl"
  by (simp_all add: exchangeResponse_def bearer_def split: option.splits)

lemma accessTokenClaims_apply:
  "accessTokenClaims s E req u priv d scopes evs amr ttl ''iss'' = Some (JStr (us_issuerBaseURL s))"
  "accessTokenClaims s E req u priv d scopes evs amr ttl ''aud'' = Some (JStr (te_Audience req))"
  "accessTokenClaims s E req u priv d scopes evs amr ttl ''sub'' = Some (JStr (u_Id u))"
  "accessTokenClaims s E req u priv d scopes evs amr ttl ''email'' = Some (JStr (u_Email u))"
  "accessTokenClaims s E req u priv d scopes evs amr ttl ''tid'' = Some (JStr (xt_tenantID (xd_target d)))"
  "accessTokenClaims s E req u priv d scopes evs amr ttl ''ver'' = Some (GoInt (u_TokenVersion u))"
  "accessTokenClaims s E req u priv d scopes evs amr ttl ''exp'' = Some (GoInt (Unix (ev_now E) + ttl))"
  "accessTokenClaims s E req u priv d scopes evs amr ttl ''nbf'' = None"
  "accessTokenClaims s E req u priv d scopes evs amr ttl ''scope'' =
     (if JoinStr '' '' scopes = [] then None else Some (JStr (JoinStr '' '' scopes)))"
  "accessTokenClaims s E req u priv d scopes evs amr ttl ''roles'' =
     (if xt_strictTarget (xd_target d) = [] then None else Some (rolesClaim (xt_roles (xd_target d))))"
  "accessTokenClaims s E req u priv d scopes evs amr ttl ''native_client_id'' = None"
  "accessTokenClaims s E req u priv d scopes evs amr ttl ''native_policy'' = None"
  by (simp_all add: accessTokenClaims_def Let_def putWhen_apply)

section \<open>Permissions of tenant roles\<close>

text \<open>What the exchange relies on in the role service: resolved permissions are ones a tenant role may grant.\<close>

locale permission_resolver =
  fixes P :: policy
    and resolve :: "'w \<Rightarrow> string \<Rightarrow> string list \<Rightarrow> string list res"
  assumes resolve_grantable: "resolve w t names = Inr ps \<Longrightarrow> v \<in> set ps \<Longrightarrow> grantable P v"
begin

lemma roleNameScopes_sources:
  assumes "us_roleSvc s = Some R" "rsResolvePermissions R = resolve" "v \<in> set (roleNameScopes s w t r)"
  shows "v \<in> set employeeScopes \<or> grantable P v"
proof -
  have "v \<in> set (if TrimSpace r = RoleCompanyEmployee then employeeScopes else []) \<or>
      (\<exists>ps. resolve w t [TrimSpace r] = Inr ps \<and> v \<in> set ps)"
    using assms by (cases "resolve w t [TrimSpace r]") (simp_all add: roleNameScopes_def Let_def split: if_splits)
  then show ?thesis
  proof
    assume "\<exists>ps. resolve w t [TrimSpace r] = Inr ps \<and> v \<in> set ps"
    then show ?thesis using resolve_grantable by blast
  qed (simp split: if_splits)
qed

lemma directoryTarget_grantable:
  assumes "us_roleSvc s = Some R" "rsResolvePermissions R = resolve" "directoryTarget s w u t ids = Inr x"
    "v \<in> set (xt_permissions x)"
  shows "grantable P v"
proof -
  from assms obtain names ps where "resolve w t names = Inr ps" "xt_permissions x = normalizePermissions ps"
    by (auto simp: directoryTarget_def split: if_splits sum.splits option.splits)
  with assms(4) resolve_grantable [of w t names ps] show ?thesis by (auto simp: grantable_def)
qed

end

lemma roleService_ResolvePermissions_grantable:
  assumes "roleService_ResolvePermissions P S w t names = Inr ps" "v \<in> set ps"
  shows "grantable P v"
proof -
  from assms obtain qs where q: "collectPermissions P S w t [] names = Inr qs" "v \<in> set qs"
    by (auto simp: roleService_ResolvePermissions_def split: if_splits sum.splits)
  from collectPermissions_assignable [OF q(1)] q(2) show ?thesis by (simp add: grantable_def)
qed

interpretation resolved_roles: permission_resolver P "roleService_ResolvePermissions P S" for P S
  by unfold_locales (rule roleService_ResolvePermissions_grantable)

section \<open>The ceiling of the audience client\<close>

lemma clientScopes_ceiling:
  assumes "clientScopes s w req t = Inr scopes" "us_clientSvc s = Some getClient"
  obtains cl where "getClient w t (te_Audience req) = Inr (Some cl)" "c_Status cl = ClientStatusActive"
    "c_DefaultScopes cl \<noteq> [] \<longrightarrow> set scopes - {[]} \<subseteq> set (c_DefaultScopes cl)"
  using assms by (auto simp: clientScopes_def Let_def subsetList_iff split: if_splits sum.splits option.splits)

lemma legacyScopes_Inr:
  assumes "legacyScopes s w u req priv x = Inr scopes"
  obtains cs where "clientScopes s w req (xt_tenantID x) = Inr cs"
    "xt_strictTarget x \<noteq> []" "scopes = normalizePermissions cs" "set scopes \<subseteq> set (xt_permissions x)"
  | "clientScopes s w req (xt_tenantID x) = Inr scopes" "xt_strictTarget x = []"
    "scopes = [] \<or> scopesAllowed s w (xt_tenantID x) u scopes priv"
  using assms by (auto simp: legacyScopes_def subsetList_iff split: if_splits sum.splits)

lemma TrimSpace_image_trimmed: "TrimSpace ` (TrimSpace ` A - {[]}) - {[]} = TrimSpace ` A - {[]}"
proof -
  have "TrimSpace ` (B - {[]}) - {[]} = TrimSpace ` B - {[]}" for B by auto
  from this [of "TrimSpace ` A"] show ?thesis by (simp add: image_image)
qed

lemma legacyDecision_Inr:
  assumes "legacyDecision s w u req strict priv = Inr d"
  obtains x where "legacyTarget s w u req strict = Inr x" "xd_target d = x" "xd_discovery d = None"
    "legacyScopes s w u req priv x = Inr (xd_scopes d)"
  using assms by (auto simp: legacyDecision_def split: sum.splits)

lemma discoveryDecision_Inr:
  assumes "discoveryDecision s w u c req dyn priv = Inr d"
  obtains home dirp a om where
    "resolveTenantDiscoveryAuthorization s w (Some u) (te_TenantID req) home (claimStringValue c ''role'')
       (case te_ScopeCeilingV1 req of None \<Rightarrow> [] | Some ceil \<Rightarrow> ceil) (te_Scopes req) dyn priv dirp = (Inr a, om)"
    "xd_scopes d = tda_scopes a" "xt_tenantID (xd_target d) = tda_tenantID a" "xd_discovery d = Some a"
  using assms by (auto simp: discoveryDecision_def Let_def split: sum.splits prod.splits) (metis prod.collapse)+

lemma exchangeDecide_Inr:
  assumes "exchangeDecide s w u c req = Inr (d, v2)"
  obtains strict where "legacyDecision s w u req strict (validatedPlatformPrivilege u c) = Inr d"
  | dyn where "discoveryDecision s w u c req dyn (validatedPlatformPrivilege u c) = Inr d"
      "te_Audience req = CodeAdminAudienceClientID"
  using assms by (auto simp: exchangeDecide_def discoveryMode_def Let_def split: prod.splits if_splits sum.splits)

lemma discovery_client_ceiling:
  assumes "resolveTenantDiscoveryAuthorization s w (Some u) target home sr ceil0 req dyn priv dirp = (Inr a, om)"
    and "us_clientSvc s = Some getClient"
  obtains cl where "getClient w (tda_tenantID a) CodeAdminAudienceClientID = Inr (Some cl)" "c_Status cl = ClientStatusActive"
    "set (tda_scopes a) \<subseteq> TrimSpace ` set (c_DefaultScopes cl)"
  using assms(1)
proof (rule resolveTenantDiscoveryAuthorization_Inr)
  fix getClient' oc defaults authority ceil
  assume c: "us_clientSvc s = Some getClient'" "getClient' w target CodeAdminAudienceClientID = Inr oc" "tda_tenantID a = target"
    and def: "audienceDefaults (us_policy s) target home oc = Inr defaults"
    and r: "requestedWithin (us_policy s) req (intersectScopeSets defaults [authority, ceil]) = Inr (tda_scopes a)"
  from def obtain cl where cl: "oc = Some cl" "c_Status cl = ClientStatusActive"
    "set defaults = TrimSpace ` set (c_DefaultScopes cl)" by (rule audienceDefaults_Inr)
  have "set (tda_scopes a) \<subseteq> set defaults"
    using requestedWithin_Inr(2) [OF r] by (auto simp: set_intersectScopeSets)
  with c cl assms(2) that show thesis by simp
qed

lemma discovery_trimmed:
  assumes "resolveTenantDiscoveryAuthorization s w (Some u) target home sr ceil0 req dyn priv dirp = (Inr a, om)"
  shows "TrimSpace ` set (tda_scopes a) = set (tda_scopes a)"
  using assms
proof (rule resolveTenantDiscoveryAuthorization_Inr)
  fix oc defaults authority ceil
  assume def: "audienceDefaults (us_policy s) target home oc = Inr defaults"
    and r: "requestedWithin (us_policy s) req (intersectScopeSets defaults [authority, ceil]) = Inr (tda_scopes a)"
  from def obtain cl where "oc = Some cl" "set defaults = TrimSpace ` set (c_DefaultScopes cl)" by (rule audienceDefaults_Inr)
  moreover have "set (tda_scopes a) \<subseteq> set defaults"
    using requestedWithin_Inr(2) [OF r] by (auto simp: set_intersectScopeSets)
  ultimately have "\<forall>v \<in> set (tda_scopes a). TrimSpace v = v" by fastforce
  then show ?thesis by auto
qed

lemma exchangeDecide_ceiling:
  assumes "exchangeDecide s w u c req = Inr (d, v2)" "us_clientSvc s = Some getClient"
  obtains cl where "getClient w (xt_tenantID (xd_target d)) (te_Audience req) = Inr (Some cl)"
    "c_Status cl = ClientStatusActive"
    "c_DefaultScopes cl \<noteq> [] \<longrightarrow> TrimSpace ` set (xd_scopes d) - {[]} \<subseteq> TrimSpace ` set (c_DefaultScopes cl)"
  using assms(1)
proof (cases rule: exchangeDecide_Inr)
  case (1 strict)
  then show thesis
  proof (rule legacyDecision_Inr)
    fix x
    assume x: "xd_target d = x" "legacyScopes s w u req (validatedPlatformPrivilege u c) x = Inr (xd_scopes d)"
    from x(2) obtain cs where cs: "clientScopes s w req (xt_tenantID x) = Inr cs"
      "TrimSpace ` set (xd_scopes d) - {[]} = TrimSpace ` set cs - {[]}"
      by (cases rule: legacyScopes_Inr) (auto simp: TrimSpace_image_trimmed)
    from clientScopes_ceiling [OF cs(1) assms(2)] obtain cl where
      cl: "getClient w (xt_tenantID x) (te_Audience req) = Inr (Some cl)" "c_Status cl = ClientStatusActive"
        "c_DefaultScopes cl \<noteq> [] \<longrightarrow> set cs - {[]} \<subseteq> set (c_DefaultScopes cl)" .
    have "TrimSpace ` set cs - {[]} \<subseteq> TrimSpace ` (set cs - {[]})" by auto
    then have "c_DefaultScopes cl \<noteq> [] \<longrightarrow> TrimSpace ` set cs - {[]} \<subseteq> TrimSpace ` set (c_DefaultScopes cl)"
      using cl(3) image_mono [of "set cs - {[]}" "set (c_DefaultScopes cl)" TrimSpace] by (meson subset_trans)
    then show thesis using cl(1,2) x(1) unfolding cs(2) [symmetric] by (intro that) simp_all
  qed
next
  case (2 dyn)
  from 2(1) show thesis
  proof (rule discoveryDecision_Inr)
    fix home dirp a om
    assume r: "resolveTenantDiscoveryAuthorization s w (Some u) (te_TenantID req) home (claimStringValue c ''role'')
       (case te_ScopeCeilingV1 req of None \<Rightarrow> [] | Some ceil \<Rightarrow> ceil) (te_Scopes req) dyn (validatedPlatformPrivilege u c)
       dirp = (Inr a, om)"
      and d: "xd_scopes d = tda_scopes a" "xt_tenantID (xd_target d) = tda_tenantID a"
    from discovery_client_ceiling [OF r assms(2)] obtain cl where
      cl: "getClient w (tda_tenantID a) CodeAdminAudienceClientID = Inr (Some cl)" "c_Status cl = ClientStatusActive"
        "set (tda_scopes a) \<subseteq> TrimSpace ` set (c_DefaultScopes cl)" .
    from cl(3) have "TrimSpace ` set (tda_scopes a) \<subseteq> TrimSpace ` set (c_DefaultScopes cl)" by fastforce
    with cl d 2(2) that [of cl] show thesis by auto
  qed
qed

lemma exchangeDecide_requested:
  assumes "exchangeDecide s w u c req = Inr (d, v2)" and "TrimSpace ` set (te_Scopes req) - {[]} \<noteq> {}"
  shows "TrimSpace ` set (xd_scopes d) \<subseteq> TrimSpace ` set (te_Scopes req)"
  using assms(1)
proof (cases rule: exchangeDecide_Inr)
  case (1 strict)
  then show ?thesis
  proof (rule legacyDecision_Inr)
    fix x assume x: "legacyScopes s w u req (validatedPlatformPrivilege u c) x = Inr (xd_scopes d)"
    have named: "set cs \<subseteq> TrimSpace ` set (te_Scopes req)" if "clientScopes s w req t = Inr cs" for t cs
    proof -
      have "normalizeList (te_Scopes req) \<noteq> []" using assms(2) set_normalizeList [of "te_Scopes req"] by force
      with that have "cs = normalizeList (te_Scopes req)"
        by (auto simp: clientScopes_def Let_def split: option.splits sum.splits if_splits)
      then show ?thesis by auto
    qed
    have trimmed: "TrimSpace ` A \<subseteq> TrimSpace ` set (te_Scopes req)" if "A \<subseteq> TrimSpace ` set (te_Scopes req)" for A
      using image_mono [OF that, of TrimSpace] by (simp add: image_image)
    from x show ?thesis
    proof (rule legacyScopes_Inr)
      fix cs assume cs: "clientScopes s w req (xt_tenantID x) = Inr cs" "xd_scopes d = normalizePermissions cs"
      have "TrimSpace ` set cs - {[]} \<subseteq> TrimSpace ` set (te_Scopes req)"
        by (rule subset_trans [OF Diff_subset trimmed [OF named [OF cs(1)]]])
      then show ?thesis unfolding cs(2) set_normalizePermissions by (rule trimmed)
    next
      assume "clientScopes s w req (xt_tenantID x) = Inr (xd_scopes d)"
      then show ?thesis by (rule trimmed [OF named])
    qed
  qed
next
  case (2 dyn)
  from 2(1) show ?thesis
  proof (rule discoveryDecision_Inr)
    fix home dirp a om
    assume r: "resolveTenantDiscoveryAuthorization s w (Some u) (te_TenantID req) home (claimStringValue c ''role'')
       (case te_ScopeCeilingV1 req of None \<Rightarrow> [] | Some ceil \<Rightarrow> ceil) (te_Scopes req) dyn (validatedPlatformPrivilege u c)
       dirp = (Inr a, om)" and d: "xd_scopes d = tda_scopes a"
    from r obtain eff where "requestedWithin (us_policy s) (te_Scopes req) eff = Inr (tda_scopes a)"
      by (rule resolveTenantDiscoveryAuthorization_Inr)
    from requestedWithin_Inr(4) [OF this] assms(2) have "set (tda_scopes a) = TrimSpace ` set (te_Scopes req)" by auto
    then show ?thesis unfolding d by (simp add: image_image)
  qed
qed

section \<open>The platform scope\<close>

lemma platform_not_grantable: "\<not> grantable compiledPolicy PlatformTenantAdminScope"
  by (simp add: grantable_def compiled_eval)

text \<open>The role service behind the user service is the one modelled in \<open>Role_Service\<close>, over any repository \<open>S\<close>.\<close>

definition modelledRoles :: "('w, 'k) userService \<Rightarrow> 'w roleRepository \<Rightarrow> bool" where
  "modelledRoles s S \<longleftrightarrow>
     (\<forall>R. us_roleSvc s = Some R \<longrightarrow> rsResolvePermissions R = roleService_ResolvePermissions (us_policy s) S)"

lemma scopesAllowed_platform:
  assumes "scopesAllowed s w t u scopes priv" "us_policy s = compiledPolicy"
    and "modelledRoles s S"
    and "PlatformTenantAdminScope \<in> TrimSpace ` set scopes"
  shows "effectiveUserRole (Some u) priv = RoleAdmin"
proof (rule ccontr)
  assume na: "effectiveUserRole (Some u) priv \<noteq> RoleAdmin"
  from assms(4) have "scopes \<noteq> []" by auto
  with assms(1) obtain canon where canon: "CanonicalAudienceScopes (us_policy s) scopes = Some canon"
    by (auto simp: scopesAllowed_def split: option.splits)
  have p: "PlatformTenantAdminScope \<in> set canon" using audience.canon_set [OF canon] assms(4) by simp
  with assms(1) canon na \<open>scopes \<noteq> []\<close> obtain r where "PlatformTenantAdminScope \<in> set (roleNameScopes s w t r)"
    by (auto simp: scopesAllowed_def containsString_def list_all_iff Let_def split: if_splits)
  moreover have "PlatformTenantAdminScope \<notin> set (roleNameScopes s w t r)"
  proof (cases "us_roleSvc s")
    case None
    then show ?thesis by (simp add: roleNameScopes_def Let_def)
  next
    case (Some R)
    from assms(2,3) Some have "rsResolvePermissions R = roleService_ResolvePermissions compiledPolicy S" by (simp add: modelledRoles_def)
    from resolved_roles.roleNameScopes_sources [OF Some this] platform_not_grantable show ?thesis by force
  qed
  ultimately show False by simp
qed

lemma legacyTarget_strict:
  assumes "legacyTarget s w u req strict = Inr x" "xt_strictTarget x \<noteq> []" "modelledRoles s S" "v \<in> set (xt_permissions x)"
  shows "grantable (us_policy s) v"
proof (cases "strict = []")
  case False
  with assms(1) obtain a where "resolveTenantScopedTokenAuthorization s w (Some u) strict = Inr a"
    "xt_permissions x = ta_permissions a" by (auto simp: legacyTarget_def split: sum.splits)
  with assms(4) show ?thesis
    by (auto simp: resolveTenantScopedTokenAuthorization_def elim!: resolveTenantScopedAuthorization_Inr)
next
  case True
  with assms(1,2) obtain t ids where d: "directoryTarget s w u t ids = Inr x"
    by (auto simp: legacyTarget_def Let_def split: if_splits)
  then obtain R where R: "us_roleSvc s = Some R"
    by (auto simp: directoryTarget_def split: option.splits if_splits sum.splits)
  with assms(3) have "rsResolvePermissions R = roleService_ResolvePermissions (us_policy s) S" by (simp add: modelledRoles_def)
  from resolved_roles.directoryTarget_grantable [OF R this d assms(4)] show ?thesis .
qed

lemma exchangeDecide_platform:
  assumes "exchangeDecide s w u c req = Inr (d, v2)" "us_policy s = compiledPolicy" "modelledRoles s S"
    and p: "PlatformTenantAdminScope \<in> TrimSpace ` set (xd_scopes d)"
  shows "u_Role u = RoleAdmin \<and> (u_AuthSource u = AuthSourceSAML \<longrightarrow> validatedPlatformPrivilege u c = PlatformPrivilegeAdmin)"
  using assms(1)
proof (cases rule: exchangeDecide_Inr)
  case (1 strict)
  then obtain x where x: "legacyTarget s w u req strict = Inr x"
    "legacyScopes s w u req (validatedPlatformPrivilege u c) x = Inr (xd_scopes d)" by (rule legacyDecision_Inr)
  from x(2) have "effectiveUserRole (Some u) (validatedPlatformPrivilege u c) = RoleAdmin"
  proof (cases rule: legacyScopes_Inr)
    case (1 cs)
    then have "TrimSpace ` set (xd_scopes d) \<subseteq> set (xd_scopes d)" by auto
    with p 1(4) have "PlatformTenantAdminScope \<in> set (xt_permissions x)" by auto
    from legacyTarget_strict [OF x(1) 1(2) assms(3) this] assms(2) platform_not_grantable show ?thesis by simp
  next
    case 2
    from 2(3) p have "scopesAllowed s w (xt_tenantID x) u (xd_scopes d) (validatedPlatformPrivilege u c)" by auto
    then show ?thesis using assms(2,3) p by (rule scopesAllowed_platform)
  qed
  then show ?thesis by (auto simp: effectiveUserRole_admin)
next
  case (2 dyn)
  from 2(1) show ?thesis
  proof (rule discoveryDecision_Inr)
    fix home dirp a om
    assume r: "resolveTenantDiscoveryAuthorization s w (Some u) (te_TenantID req) home (claimStringValue c ''role'')
       (case te_ScopeCeilingV1 req of None \<Rightarrow> [] | Some ceil \<Rightarrow> ceil) (te_Scopes req) dyn (validatedPlatformPrivilege u c)
       dirp = (Inr a, om)" and d: "xd_scopes d = tda_scopes a"
    from discovery_trimmed [OF r] p d have "PlatformTenantAdminScope \<in> set (tda_scopes a)" by simp
    from discovery_platform_scope [OF r assms(2) this] show ?thesis by blast
  qed
qed

lemma audience_scopes_graphic:
  assumes "CanonicalAudienceScopes P xs = Some ys"
  shows "\<forall>v \<in> set ys. v \<noteq> [] \<and> list_all graphic v"
  using assms by (auto simp: CanonicalAudienceScopes_eq_Some audienceAllowed_def validPermission_graphic)

lemma exchange_scopes:
  assumes "canonicalScopes P xs = Inr ys" "platformLogScopes s w u c req d v2 ys = Inr scopes"
  shows "canonical scopes" "set scopes \<subseteq> TrimSpace ` set xs" "Fields (JoinStr '' '' scopes) = scopes" "[] \<notin> set scopes"
proof -
  have g: "\<forall>v \<in> set ys. v \<noteq> [] \<and> list_all graphic v"
    using assms(1) audience_scopes_graphic by (auto simp: canonicalScopes_def split: if_splits option.splits)
  note c = canonicalScopes_Inr [OF assms(1)] and p = platformLogScopes_Inr [OF assms(2)]
  show "canonical scopes" "set scopes \<subseteq> TrimSpace ` set xs" "[] \<notin> set scopes" using c p by auto
  show "Fields (JoinStr '' '' scopes) = scopes" by (rule Fields_Join_roundtrip) (use g p in blast)
qed

lemma exchangeUser_signed:
  assumes "exchangeUser s w E req u c = Inr resp"
  obtains d v2 scopes0 scopes amr kid key ex where
    "exchangeDecide s w u c req = Inr (d, v2)" "canonicalScopes (us_policy s) (xd_scopes d) = Inr scopes0"
    "platformLogScopes s w u c req d v2 scopes0 = Inr scopes"
    "expirationTime (us_jwt s) c = Inr (Some ex)" "0 < Unix ex - Unix (ev_now E)"
    "ter_ExpiresIn resp = exchangeTTL (te_TTLSeconds req) (Unix ex - Unix (ev_now E))" "getRSAPrivateKey s = Inr key"
    "signRS256 (us_jwt s) kid (accessTokenClaims s E req u (validatedPlatformPrivilege u c) d scopes
       (normalizeList (te_EventTypes req)) amr (ter_ExpiresIn resp)) key = Inr (ter_AccessToken resp)"
    "\<And>priv evs amr ttl. Fields (claimStringValue (accessTokenClaims s E req u priv d scopes evs amr ttl) ''scope'') = scopes"
  using assms
proof (rule exchangeUser_Inr)
  fix d v2 scopes0 scopes
  assume d: "exchangeDecide s w u c req = Inr (d, v2)" "canonicalScopes (us_policy s) (xd_scopes d) = Inr scopes0"
    "platformLogScopes s w u c req d v2 scopes0 = Inr scopes" and i: "issueAccessToken s E req u c d scopes = Inr resp"
  have f: "Fields (claimStringValue (accessTokenClaims s E req u priv d scopes evs amr ttl) ''scope'') = scopes"
    for priv evs amr ttl
    using exchange_scopes(3) [OF d(2,3)] by (auto simp: claimStringValue_def accessTokenClaims_apply)
  from i show thesis by (rule issueAccessToken_Inr) (rule that [OF d _ _ _ _ _ f], simp_all)
qed

section \<open>Properties\<close>

text \<open>
  C39. What an exchange signs is bounded by the session and the request: the token names the session's user at its
  current version, expires with the session at the latest and within a day, lives no longer than asked for, and its
  signed scopes are a sorted list of scopes the request names, when it names any, inside the default scopes of the
  active audience client of the target tenant, when that client lists any; the platform log scope is among them only
  with platform log authority.
\<close>
theorem exchange_bounded:
  assumes "exchangeUser s w E req u c = Inr resp"
  shows "1 \<le> ter_ExpiresIn resp \<and> ter_ExpiresIn resp \<le> 86400 \<and>
    (0 < te_TTLSeconds req \<longrightarrow> ter_ExpiresIn resp \<le> te_TTLSeconds req) \<and>
    (\<exists>ex. expirationTime (us_jwt s) c = Inr (Some ex) \<and> Unix (ev_now E) + ter_ExpiresIn resp \<le> Unix ex) \<and>
    (\<exists>kid claims key scopes t. signRS256 (us_jwt s) kid claims key = Inr (ter_AccessToken resp) \<and>
       claims ''sub'' = Some (JStr (u_Id u)) \<and> claims ''ver'' = Some (GoInt (u_TokenVersion u)) \<and>
       claims ''aud'' = Some (JStr (te_Audience req)) \<and> claims ''tid'' = Some (JStr t) \<and>
       claims ''exp'' = Some (GoInt (Unix (ev_now E) + ter_ExpiresIn resp)) \<and>
       Fields (claimStringValue claims ''scope'') = scopes \<and> canonical scopes \<and>
       (TrimSpace ` set (te_Scopes req) - {[]} \<noteq> {} \<longrightarrow> set scopes \<subseteq> TrimSpace ` set (te_Scopes req)) \<and>
       (managedLogsPlatformReadScope \<in> set scopes \<longrightarrow> managedLogsPlatformAuthority s w u c) \<and>
       (\<forall>getClient. us_clientSvc s = Some getClient \<longrightarrow>
          (\<exists>cl. getClient w t (te_Audience req) = Inr (Some cl) \<and> c_Status cl = ClientStatusActive \<and>
             (c_DefaultScopes cl \<noteq> [] \<longrightarrow> set scopes \<subseteq> TrimSpace ` set (c_DefaultScopes cl)))))"
  using assms
proof (rule exchangeUser_signed)
  fix d v2 scopes0 scopes amr kid key ex
  let ?claims = "accessTokenClaims s E req u (validatedPlatformPrivilege u c) d scopes (normalizeList (te_EventTypes req)) amr
    (ter_ExpiresIn resp)"
  assume d: "exchangeDecide s w u c req = Inr (d, v2)" "canonicalScopes (us_policy s) (xd_scopes d) = Inr scopes0"
      "platformLogScopes s w u c req d v2 scopes0 = Inr scopes"
    and ex: "expirationTime (us_jwt s) c = Inr (Some ex)" "0 < Unix ex - Unix (ev_now E)"
      "ter_ExpiresIn resp = exchangeTTL (te_TTLSeconds req) (Unix ex - Unix (ev_now E))"
    and sg: "signRS256 (us_jwt s) kid ?claims key = Inr (ter_AccessToken resp)"
    and f: "\<And>priv evs amr ttl. Fields (claimStringValue (accessTokenClaims s E req u priv d scopes evs amr ttl) ''scope'') = scopes"
  note sc = exchange_scopes [OF d(2,3)] and ttl = exchangeTTL_bounds [OF ex(2), of "te_TTLSeconds req"]
  have log: "managedLogsPlatformReadScope \<in> set scopes \<longrightarrow> managedLogsPlatformAuthority s w u c"
    using platformLogScopes_Inr(3) [OF d(3)]
    by (auto simp: managedLogsPlatformIssuance_def Let_def split: option.splits if_splits)
  have client: "\<exists>cl. getClient w (xt_tenantID (xd_target d)) (te_Audience req) = Inr (Some cl) \<and> c_Status cl = ClientStatusActive \<and>
      (c_DefaultScopes cl \<noteq> [] \<longrightarrow> set scopes \<subseteq> TrimSpace ` set (c_DefaultScopes cl))"
    if g: "us_clientSvc s = Some getClient" for getClient
  proof -
    from exchangeDecide_ceiling [OF d(1) g] obtain cl where
      cl: "getClient w (xt_tenantID (xd_target d)) (te_Audience req) = Inr (Some cl)" "c_Status cl = ClientStatusActive"
        "c_DefaultScopes cl \<noteq> [] \<longrightarrow> TrimSpace ` set (xd_scopes d) - {[]} \<subseteq> TrimSpace ` set (c_DefaultScopes cl)" .
    have "set scopes \<subseteq> TrimSpace ` set (xd_scopes d) - {[]}" using sc(2,4) by auto
    with cl show ?thesis by (intro exI [of _ cl]) (meson subset_trans)
  qed
  have named: "TrimSpace ` set (te_Scopes req) - {[]} \<noteq> {} \<longrightarrow> set scopes \<subseteq> TrimSpace ` set (te_Scopes req)"
    using exchangeDecide_requested [OF d(1)] sc(2) by (meson subset_trans)
  have "\<exists>ex. expirationTime (us_jwt s) c = Inr (Some ex) \<and> Unix (ev_now E) + ter_ExpiresIn resp \<le> Unix ex"
    using ex ttl(3) by (intro exI [of _ ex]) simp
  moreover have "1 \<le> ter_ExpiresIn resp" "ter_ExpiresIn resp \<le> 86400"
    "0 < te_TTLSeconds req \<longrightarrow> ter_ExpiresIn resp \<le> te_TTLSeconds req"
    using ex(3) ttl(1,2,4) by simp_all
  moreover have "?claims ''sub'' = Some (JStr (u_Id u))" "?claims ''ver'' = Some (GoInt (u_TokenVersion u))"
    "?claims ''aud'' = Some (JStr (te_Audience req))" "?claims ''tid'' = Some (JStr (xt_tenantID (xd_target d)))"
    "?claims ''exp'' = Some (GoInt (Unix (ev_now E) + ter_ExpiresIn resp))"
    by (simp_all only: accessTokenClaims_apply)
  ultimately show ?thesis
    using sg f [of "validatedPlatformPrivilege u c" "normalizeList (te_EventTypes req)" amr "ter_ExpiresIn resp"] sc(1) named log client
    by (intro conjI) (assumption | rule exI [of _ kid], rule exI [of _ ?claims], rule exI [of _ key],
      rule exI [of _ scopes], rule exI [of _ "xt_tenantID (xd_target d)"], intro conjI allI impI; assumption | blast)+
qed

text \<open>An ADMIN of \<^verbatim>\<open>acme\<close> exchanges a session for the platform scope; roles come from the modelled role service.\<close>

definition rootUser :: user where
  "rootUser = sampleUser\<lparr>u_Role := RoleAdmin\<rparr>"

definition emptyRoles :: "unit roleRepository" where
  "emptyRoles =
     \<lparr>rpCreate = (\<lambda>w t r. (Inl ErrInvalidArgument, w)), rpCreateIfAbsent = (\<lambda>w t r. (Inl ErrInvalidArgument, w)),
      rpGet = (\<lambda>w t n. Inr None), rpList = (\<lambda>w t. Inr []), rpExact = None\<rparr>"

definition rootService :: "(unit, unit) userService" where
  "rootService = masterService\<lparr>us_roleSvc := Some
     \<lparr>rsGetByName = roleService_GetByName compiledPolicy emptyRoles,
      rsResolvePermissions = roleService_ResolvePermissions compiledPolicy emptyRoles\<rparr>\<rparr>"

definition rootRequest :: tokenExchangeReq where
  "rootRequest =
     \<lparr>te_IdToken = ''id-token'', te_Audience = CodeAdminAudienceClientID, te_Scopes = [PlatformTenantAdminScope],
      te_EventTypes = [], te_TTLSeconds = 600, te_TenantID = ''acme'', te_DiscoverTenantTargetsV1 = False,
      te_DiscoverTenantTargetsV2 = False, te_ScopeCeilingV1 = None\<rparr>"

lemma root_fields:
  "us_policy rootService = compiledPolicy" "us_unicode rootService = asciiUnicode" "us_jwt rootService = sampleJwt"
  "us_clientSvc rootService = Some (\<lambda>w t a. Inr (Some (sampleAudience t a\<lparr>c_DefaultScopes := [PlatformTenantAdminScope]\<rparr>)))"
  "us_tenantScopedTokenClaimsV1 rootService" "us_tenantScopedTokenAllowlist rootService = [''globex'']"
  "us_directoryAccess rootService = Some sampleDirectory" "getRSAPrivateKey rootService = Inr ()"
  by (simp_all add: rootService_def masterService_def sampleService_def getRSAPrivateKey_def ParseRSAPrivateKey_def sampleJwt_def)

lemma root_exchange:
  "\<exists>resp. exchangeUser rootService () sampleCall rootRequest rootUser [''exp'' \<mapsto> GoInt 1000] = Inr resp \<and> ter_ExpiresIn resp = 600"
proof -
  have t: "TrimSpace ''acme'' = ''acme''" "TrimSpace PlatformTenantAdminScope = PlatformTenantAdminScope"
    by (simp_all add: TrimSpace_all_graphic graphic_def)
  have r: "te_TenantID rootRequest = ''acme''" "te_Audience rootRequest = CodeAdminAudienceClientID" "te_Scopes rootRequest = [PlatformTenantAdminScope]"
    "te_EventTypes rootRequest = []" "te_TTLSeconds rootRequest = 600" "\<not> te_DiscoverTenantTargetsV1 rootRequest"
    "\<not> te_DiscoverTenantTargetsV2 rootRequest" "te_ScopeCeilingV1 rootRequest = None" by (simp_all add: rootRequest_def)
  have u: "u_Id rootUser = ''u-1''" "u_CompanyId rootUser = Some ''acme''" "u_Role rootUser = RoleAdmin" "u_AuthSource rootUser = AuthSourcePassword"
    by (simp_all add: rootUser_def sampleUser_def)
  have aud: "audienceAllowed compiledPolicy PlatformTenantAdminScope" by (simp add: audienceAllowed_def compiled_eval)
  have cs: "CanonicalAudienceScopes compiledPolicy [PlatformTenantAdminScope] = Some [PlatformTenantAdminScope]"
    using aud by (simp add: CanonicalAudienceScopes_eq_Some audienceAllowed_TrimSpace sort_uniq_def)
  have tt: "tenantScopedTokenTarget rootService ''acme'' = ([], False)"
    by (simp add: tenantScopedTokenTarget_def root_fields t ToLower_def is_ascii_def ascii_lower_def)
  have ids: "listTenantIDs rootService () ''u-1'' = [''acme'', ''globex'']"
    by (simp add: listTenantIDs_def root_fields sampleDirectory_def withoutRetiredDefaultTenant_def)
  have lt: "legacyTarget rootService () rootUser rootRequest [] =
      Inr \<lparr>xt_tenantID = ''acme'', xt_strictTarget = [], xt_roles = [], xt_permissions = []\<rparr>"
    by (simp add: legacyTarget_def r u ids t containsString_def)
  have nl: "normalizeList [PlatformTenantAdminScope] = [PlatformTenantAdminScope]" "normalizeList [] = []"
    by (simp_all add: t)
  have cl: "clientScopes rootService () rootRequest ''acme'' = Inr [PlatformTenantAdminScope]"
    by (simp add: clientScopes_def r root_fields nl t Let_def sampleAudience_def subsetList_def)
  have sa: "scopesAllowed rootService () ''acme'' rootUser [PlatformTenantAdminScope] priv" for priv
    by (simp add: scopesAllowed_def root_fields cs effectiveUserRole_def u)
  have ls: "legacyScopes rootService () rootUser rootRequest priv
      \<lparr>xt_tenantID = ''acme'', xt_strictTarget = [], xt_roles = [], xt_permissions = []\<rparr> = Inr [PlatformTenantAdminScope]" for priv
    by (simp add: legacyScopes_def cl sa)
  have ld: "legacyDecision rootService () rootUser rootRequest [] priv = Inr \<lparr>xd_target =
      \<lparr>xt_tenantID = ''acme'', xt_strictTarget = [], xt_roles = [], xt_permissions = []\<rparr>,
      xd_scopes = [PlatformTenantAdminScope], xd_discovery = None\<rparr>" for priv
    by (simp add: legacyDecision_def lt ls)
  have dm: "discoveryMode rootService rootRequest = Inr None" by (simp add: discoveryMode_def r)
  have dec: "exchangeDecide rootService () rootUser [''exp'' \<mapsto> GoInt 1000] rootRequest =
      Inr (\<lparr>xd_target = \<lparr>xt_tenantID = ''acme'', xt_strictTarget = [], xt_roles = [], xt_permissions = []\<rparr>,
            xd_scopes = [PlatformTenantAdminScope], xd_discovery = None\<rparr>, False)"
    by (simp add: exchangeDecide_def dm tt r ld)
  have ex: "expirationTime sampleJwt [''exp'' \<mapsto> GoInt 1000] = Inr (Some 1000000000000)" "Unix (ev_now sampleCall) = 5" "Unix 1000000000000 = 1000"
    by (simp_all add: sampleJwt_def sampleCall_def Unix_def)
  have am: "canonicalAuthenticationMethods asciiUnicode [''exp'' \<mapsto> GoInt 1000] = Some []"
    by (simp add: canonicalAuthenticationMethods_def)
  have sg: "signRS256 sampleJwt kid c k = Inr ''access-token''" for kid c k by (simp add: sampleJwt_def)
  show ?thesis
    by (simp add: exchangeUser_def dec canonicalScopes_def cs root_fields platformLogScopes_def issueAccessToken_def r nl ex am sg
        exchangeTTL_def)
qed

theorem exchange_bounded_witness:
  "\<exists>resp. exchangeUser rootService () sampleCall rootRequest rootUser [''exp'' \<mapsto> GoInt 1000] = Inr resp \<and>
     ter_ExpiresIn resp = 600 \<and> ter_ExpiresIn resp \<le> 86400"
proof -
  from root_exchange obtain resp where
    r: "exchangeUser rootService () sampleCall rootRequest rootUser [''exp'' \<mapsto> GoInt 1000] = Inr resp" "ter_ExpiresIn resp = 600" by blast
  from exchange_bounded [OF r(1)] have "ter_ExpiresIn resp \<le> 86400" by (elim conjE)
  with r show ?thesis by blast
qed

text \<open>
  C40. No exchange escalates to platform administration. With the compiled scope policy and the role service of this
  program, a signed token carries the platform tenant administration scope only if the user record holds ADMIN, and
  for a federated user only if the session proved the platform privilege; no tenant role, membership or client default
  can supply it.
\<close>
theorem exchange_no_platform_escalation:
  assumes "exchangeUser s w E req u c = Inr resp" and "us_policy s = compiledPolicy" and "modelledRoles s S"
  shows "\<exists>kid claims key. signRS256 (us_jwt s) kid claims key = Inr (ter_AccessToken resp) \<and>
    (PlatformTenantAdminScope \<in> set (Fields (claimStringValue claims ''scope'')) \<longrightarrow>
       u_Role u = RoleAdmin \<and> (u_AuthSource u = AuthSourceSAML \<longrightarrow> validatedPlatformPrivilege u c = PlatformPrivilegeAdmin))"
  using assms(1)
proof (rule exchangeUser_signed)
  fix d v2 scopes0 scopes amr kid key ex
  let ?claims = "accessTokenClaims s E req u (validatedPlatformPrivilege u c) d scopes (normalizeList (te_EventTypes req)) amr
    (ter_ExpiresIn resp)"
  assume d: "exchangeDecide s w u c req = Inr (d, v2)" "canonicalScopes (us_policy s) (xd_scopes d) = Inr scopes0"
      "platformLogScopes s w u c req d v2 scopes0 = Inr scopes"
    and sg: "signRS256 (us_jwt s) kid ?claims key = Inr (ter_AccessToken resp)"
    and f: "\<And>priv evs amr ttl. Fields (claimStringValue (accessTokenClaims s E req u priv d scopes evs amr ttl) ''scope'') = scopes"
  have "u_Role u = RoleAdmin \<and> (u_AuthSource u = AuthSourceSAML \<longrightarrow> validatedPlatformPrivilege u c = PlatformPrivilegeAdmin)"
    if "PlatformTenantAdminScope \<in> set scopes"
    using exchangeDecide_platform [OF d(1) assms(2,3)] exchange_scopes(2) [OF d(2,3)] that by auto
  then show ?thesis
    by (intro exI [of _ kid] exI [of _ ?claims] exI [of _ key]) (simp add: f sg)
qed

theorem exchange_no_platform_escalation_witness:
  "\<exists>resp kid claims key. exchangeUser rootService () sampleCall rootRequest rootUser [''exp'' \<mapsto> GoInt 1000] = Inr resp \<and>
     signRS256 (us_jwt rootService) kid claims key = Inr (ter_AccessToken resp) \<and> u_Role rootUser = RoleAdmin"
proof -
  from root_exchange obtain resp where
    r: "exchangeUser rootService () sampleCall rootRequest rootUser [''exp'' \<mapsto> GoInt 1000] = Inr resp" by blast
  have "modelledRoles rootService emptyRoles" by (simp add: modelledRoles_def rootService_def masterService_def sampleService_def)
  from exchange_no_platform_escalation [OF r root_fields(1) this] r show ?thesis by (auto simp: rootUser_def)
qed

end
