(* ===== verification/Workload_Service.thy ===== *)
theory Workload_Service
  imports Authority_Contracts Workload_Binding Rate_Limit Token_Exchange
begin

text \<open>
  The workload identity service, \<^verbatim>\<open>internal/services/workload_identity_service.go\<close>: its state, the projected-token
  check, the legacy grant read from a stored binding, the topic controller (\<^verbatim>\<open>codeq_topic_identity.go\<close>) and the Trino
  grant (\<^verbatim>\<open>trino_identity.go\<close>). The other grants are in \<^verbatim>\<open>Workload_Grants\<close>.

  The projected-token verifier, the grant authorities and the retained-tenant reader are interfaces and stay
  functions over the world; an absent one is \<^term>\<open>None\<close>. A bounded channel of slots is the predicate that says whether
  it has room. The rate limiters are the state an exchange changes, so they are threaded.
\<close>

section \<open>Requests and answers\<close>

record workloadExchangeReq =
  wx_SubjectToken :: string
  wx_SubjectTokenType :: string
  wx_Audience :: string
  wx_Scopes :: "string list"
  wx_TenantID :: string
  wx_CodeQTopicID :: string
  wx_LogsGrant :: string
  wx_LogsGrantKind :: string
  wx_LogsConfigUID :: string
  wx_LogsConfigGeneration :: int
  wx_AIGrant :: string
  wx_UserToken :: string

record workloadExchangeResp =
  wp_AccessToken :: string
  wp_TokenType :: string
  wp_ExpiresIn :: int
  wp_Audience :: string
  wp_Scopes :: "string list"
  wp_TenantID :: string
  wp_EventTypes :: "string list"

text \<open>\<open>Refused status code correlationID retryAfter\<close> is \<^verbatim>\<open>*domain.WorkloadExchangeError\<close>.\<close>

datatype workloadRefusal = Plain gerror | Refused int string string int

type_synonym 'a wres = "workloadRefusal + 'a"

section \<open>The service\<close>

record topicController =
  tc_Enabled :: bool
  tc_Issuer :: string
  tc_ClusterRef :: string
  tc_Namespace :: string
  tc_ServiceAccount :: string
  tc_ServiceAccountUID :: string

record trinoWorkloadAuthorization =
  tw_Principal :: trinoPrincipal
  tw_ServiceAccountUID :: string
  tw_PodUID :: string

record aiActor =
  aa_Subject :: string
  aa_Workload :: aiWorkload

record aiClaims =
  ac_Issuer :: string
  ac_Audience :: string
  ac_Subject :: string
  ac_TenantID :: string
  ac_Scope :: string
  ac_IssuedAt :: int
  ac_ExpiresAt :: int
  ac_ID :: string
  ac_PrincipalKind :: string
  ac_TenantUID :: string
  ac_TenantEpoch :: string
  ac_Version :: "int option"
  ac_Workload :: "aiWorkload option"
  ac_Actor :: "aiActor option"

type_synonym 'w retainedReader = "'w \<Rightarrow> string \<Rightarrow> int \<Rightarrow> tenant option res"

text \<open>The authority of queue bindings fails with a class and an HTTP status (\<^verbatim>\<open>codeqbinding.ClassifyFailure\<close>).\<close>

record 'w codeqBindingExchange =
  cx_enabled :: bool
  cx_ttl :: int
  cx_authority :: "('w \<Rightarrow> authorityRequest \<Rightarrow> string \<Rightarrow> (string \<times> int) + authorityDecision) option"
  cx_tenants :: "'w retainedReader option"
  cx_limited :: bool
  cx_inflight :: "('w \<Rightarrow> bool) option"

record 'w managedLogsExchange =
  lx_Enabled :: bool
  lx_TTL :: int
  lx_authority :: "('w \<Rightarrow> logsRequest \<Rightarrow> string \<Rightarrow> logsDecision res) option"
  lx_tenants :: "'w retainedReader option"
  lx_slots :: "('w \<Rightarrow> bool) option"
  lx_limited :: bool

record ('w, 'k) workloadService =
  wi_unicode :: go_unicode
  wi_jwt :: "'k jwtlib"
  wi_bitLen :: "'k \<Rightarrow> int"
  wi_parseTopicToken :: "string \<Rightarrow> string \<Rightarrow> 'k \<Rightarrow> string \<Rightarrow> string \<Rightarrow> int \<Rightarrow> claims option"
  wi_library :: goLibrary
  wi_marshalController :: "topicController \<Rightarrow> string"
  wi_trinoAuthority :: "('w \<Rightarrow> string \<Rightarrow> string \<Rightarrow> workloadSubject \<Rightarrow> trinoWorkloadAuthorization res) option"
  wi_topicController :: topicController
  wi_topicTenants :: "'w retainedReader option"
  wi_repo :: "'w workloadBindingRepository option"
  wi_verifier :: "('w \<Rightarrow> string \<Rightarrow> workloadSubject res) option"
  wi_issuer :: string
  wi_privatePEM :: string
  wi_keyID :: string
  wi_ttl :: int
  wi_trustedClusterRefs :: "string list"
  wi_scopedWorkloadBindings :: bool
  wi_refuseLegacyCodeQAdmin :: bool
  wi_codeqBindings :: "'w codeqBindingExchange option"
  wi_managedLogs :: "'w managedLogsExchange option"
  wi_aiGateway :: "'w aiGatewayExchange option"
  wi_aiUsers :: "('w \<Rightarrow> string \<Rightarrow> aiClaims res) option"

record workloadLimiters =
  wl_codeq :: rateLimiter
  wl_logs :: rateLimiter
  wl_ai :: rateLimiter

text \<open>What one exchange reads from outside: the successive \<^verbatim>\<open>s.now()\<close>, the limiter's clock and the fresh UUIDs.\<close>

record workloadEnv =
  we_now :: "nat \<Rightarrow> int"
  we_limiterNow :: int
  we_call :: callEnv

abbreviation we_uuid :: "workloadEnv \<Rightarrow> nat \<Rightarrow> string" where
  "we_uuid E \<equiv> ev_uuid (we_call E)"

text \<open>\<^verbatim>\<open>NewWorkloadIdentityService\<close> without options.\<close>

definition workloadTTL :: "int \<Rightarrow> int" where
  "workloadTTL ttl =
     (let ttl1 = (if ttl \<le> 0 then 300000000000 else ttl) in if ttl1 > 3600000000000 then 3600000000000 else ttl1)"

definition NewWorkloadIdentityService ::
  "go_unicode \<Rightarrow> 'k jwtlib \<Rightarrow> ('k \<Rightarrow> int) \<Rightarrow> (string \<Rightarrow> string \<Rightarrow> 'k \<Rightarrow> string \<Rightarrow> string \<Rightarrow> int \<Rightarrow> claims option) \<Rightarrow> goLibrary \<Rightarrow>
   (topicController \<Rightarrow> string) \<Rightarrow> 'w workloadBindingRepository option \<Rightarrow> ('w \<Rightarrow> string \<Rightarrow> workloadSubject res) option \<Rightarrow>
   string \<Rightarrow> string \<Rightarrow> string \<Rightarrow> int \<Rightarrow> ('w, 'k) workloadService" where
  "NewWorkloadIdentityService U J bits parse L marsh repo verifier issuer privatePEM keyID ttl =
     \<lparr>wi_unicode = U, wi_jwt = J, wi_bitLen = bits, wi_parseTopicToken = parse, wi_library = L, wi_marshalController = marsh,
      wi_trinoAuthority = None,
      wi_topicController = \<lparr>tc_Enabled = False, tc_Issuer = [], tc_ClusterRef = [], tc_Namespace = [],
        tc_ServiceAccount = [], tc_ServiceAccountUID = []\<rparr>,
      wi_topicTenants = None, wi_repo = repo, wi_verifier = verifier, wi_issuer = TrimSpace issuer,
      wi_privatePEM = privatePEM, wi_keyID = TrimSpace keyID, wi_ttl = workloadTTL ttl, wi_trustedClusterRefs = [],
      wi_scopedWorkloadBindings = False, wi_refuseLegacyCodeQAdmin = False, wi_codeqBindings = None,
      wi_managedLogs = None, wi_aiGateway = None, wi_aiUsers = None\<rparr>"

definition WithTrustedClusterRefs :: "string list \<Rightarrow> ('w, 'k) workloadService \<Rightarrow> ('w, 'k) workloadService" where
  "WithTrustedClusterRefs clusterRefs s = s\<lparr>wi_trustedClusterRefs := clusterRefs\<rparr>"

definition WithScopedWorkloadBindings :: "bool \<Rightarrow> ('w, 'k) workloadService \<Rightarrow> ('w, 'k) workloadService" where
  "WithScopedWorkloadBindings enabled s = s\<lparr>wi_scopedWorkloadBindings := enabled\<rparr>"

definition WithLegacyCodeQAdminGrant :: "bool \<Rightarrow> ('w, 'k) workloadService \<Rightarrow> ('w, 'k) workloadService" where
  "WithLegacyCodeQAdminGrant enabled s = s\<lparr>wi_refuseLegacyCodeQAdmin := \<not> enabled\<rparr>"

definition WithCodeQTopicController ::
  "topicController \<Rightarrow> 'w retainedReader option \<Rightarrow> ('w, 'k) workloadService \<Rightarrow> ('w, 'k) workloadService" where
  "WithCodeQTopicController policy reader s = s\<lparr>wi_topicController := policy, wi_topicTenants := reader\<rparr>"

definition WithWorkloadTrinoIdentityAuthority ::
  "('w \<Rightarrow> string \<Rightarrow> string \<Rightarrow> workloadSubject \<Rightarrow> trinoWorkloadAuthorization res) option \<Rightarrow>
   ('w, 'k) workloadService \<Rightarrow> ('w, 'k) workloadService" where
  "WithWorkloadTrinoIdentityAuthority authority s = s\<lparr>wi_trinoAuthority := authority\<rparr>"

section \<open>The projected token and the signing key\<close>

definition VerifyProjectedToken :: "('w, 'k) workloadService \<Rightarrow> 'w \<Rightarrow> string \<Rightarrow> workloadSubject res" where
  "VerifyProjectedToken s w token =
     (case wi_verifier s of
        None \<Rightarrow> Inl ErrWorkloadIdentityUnavailable
      | Some verify \<Rightarrow>
          (case verify w token of
             Inr subject \<Rightarrow> Inr subject
           | Inl e \<Rightarrow>
               if errors_Is e ErrWorkloadTokenInvalid then Inl ErrWorkloadTokenInvalid
               else Inl ErrWorkloadIdentityUnavailable))"

definition signingKey :: "('w, 'k) workloadService \<Rightarrow> 'k res" where
  "signingKey s =
     (case ParseRSAPrivateKey (wi_jwt s) (wi_privatePEM s) of
        Inl e \<Rightarrow> Inl e
      | Inr key \<Rightarrow>
          if wi_bitLen s key < 2048 then Inl (ErrText ''workload signing key must be at least 2048 bits'') else Inr key)"

text \<open>Signing with the service's key under its key id, for the callers that answer any failure alike.\<close>

definition signWorkload :: "('w, 'k) workloadService \<Rightarrow> claims \<Rightarrow> string res" where
  "signWorkload s c =
     (if wi_issuer s = [] \<or> wi_keyID s = [] then Inl ErrWorkloadIdentityUnavailable
      else (case signingKey s of
              Inl _ \<Rightarrow> Inl ErrWorkloadIdentityUnavailable
            | Inr key \<Rightarrow>
                (case signRS256 (wi_jwt s) (Some (wi_keyID s)) c key of
                   Inl _ \<Rightarrow> Inl ErrWorkloadIdentityUnavailable
                 | Inr raw \<Rightarrow> Inr raw)))"

section \<open>Audiences, scopes and event types\<close>

definition workloadAudienceAllowed :: "string \<Rightarrow> bool" where
  "workloadAudienceAllowed audience \<longleftrightarrow> audience = WorkloadProducerAudience \<or> audience = WorkloadWorkerAudience"

definition normalizedWorkloadScopes :: "string list \<Rightarrow> string list" where
  "normalizedWorkloadScopes scopes = remdups_adj (sort (normalizeList scopes))"

definition workloadScopesAllowed :: "string \<Rightarrow> string list \<Rightarrow> bool" where
  "workloadScopesAllowed audience scopes =
     (let normalized = normalizedWorkloadScopes scopes in
      if audience = WorkloadProducerAudience then normalized = [WorkloadAdminScope]
      else if audience = WorkloadWorkerAudience
      then normalized = [WorkloadClaimScope, WorkloadNackScope, WorkloadResultScope]
      else False)"

definition normalizedWorkloadEventTypes :: "string list \<Rightarrow> string list" where
  "normalizedWorkloadEventTypes eventTypes = remdups_adj (sort (normalizeList eventTypes))"

definition workloadEventTypesAllowed :: "string \<Rightarrow> string list \<Rightarrow> bool" where
  "workloadEventTypesAllowed audience eventTypes =
     (let normalized = normalizedWorkloadEventTypes eventTypes in
      if audience = WorkloadProducerAudience then length normalized = 0
      else if audience \<noteq> WorkloadWorkerAudience \<or> length normalized = 0 \<or> length normalized > MaxWorkloadEventTypes
      then False
      else list_all (\<lambda>e. \<not> (length e > 128 \<or> list_ex (\<lambda>c. c \<in> {CHR 0x0D, CHR 0x0A, CHR 0x09}) e)) normalized)"

section \<open>Stored bindings\<close>

definition scopedBindingsRequired :: "('w, 'k) workloadService \<Rightarrow> bool" where
  "scopedBindingsRequired s \<longleftrightarrow> wi_scopedWorkloadBindings s \<and> length (wi_trustedClusterRefs s) > 1"

definition legacyBinding ::
  "('w, 'k) workloadService \<Rightarrow> 'w workloadBindingRepository \<Rightarrow> 'w \<Rightarrow> workloadSubject \<Rightarrow> workloadBinding option res" where
  "legacyBinding s repo w subject =
     (let unscoped = (if scopedBindingsRequired s then Inr None else wrGet repo w (ws_Subject subject)) in
      if ws_ClusterRef subject \<noteq> []
      then (case wrGet repo w (WorkloadBindingKey (ws_ClusterRef subject) (ws_Subject subject)) of
              Inl e \<Rightarrow> Inl e
            | Inr (Some b) \<Rightarrow> Inr (Some b)
            | Inr None \<Rightarrow> unscoped)
      else unscoped)"

definition normalizedGrant :: "workloadGrant \<Rightarrow> workloadGrant" where
  "normalizedGrant g =
     g\<lparr>wg_Scopes := normalizedWorkloadScopes (wg_Scopes g),
       wg_EventTypes := normalizedWorkloadEventTypes (wg_EventTypes g)\<rparr>"

definition workloadBindingGrant ::
  "workloadBinding option \<Rightarrow> workloadSubject \<Rightarrow> string \<Rightarrow> string \<Rightarrow> string list \<Rightarrow> workloadGrant option" where
  "workloadBindingGrant ob subject tenantID audience scopes =
     (case ob of
        None \<Rightarrow> None
      | Some b \<Rightarrow>
          if wb_Revoked b \<or> wb_Subject b \<noteq> ws_Subject subject \<or> wb_Namespace b \<noteq> ws_Namespace subject \<or>
             wb_ServiceAccount b \<noteq> ws_ServiceAccount subject then None
          else if wb_ClusterRef b \<noteq> [] \<and> wb_ClusterRef b \<noteq> ws_ClusterRef subject \<or>
                  wb_ServiceAccountUID b \<noteq> [] \<and> wb_ServiceAccountUID b \<noteq> ws_ServiceAccountUID subject then None
          else map_option normalizedGrant
            (find (\<lambda>g. wg_TenantID g = tenantID \<and> wg_Audience g = audience \<and>
                       normalizedWorkloadScopes (wg_Scopes g) = normalizedWorkloadScopes scopes \<and>
                       workloadEventTypesAllowed (wg_Audience g) (wg_EventTypes g)) (wb_Grants b)))"

record bindingUpsertReq =
  bu_Subject :: string
  bu_Namespace :: string
  bu_ServiceAccount :: string
  bu_ClusterRef :: string
  bu_ServiceAccountUID :: string
  bu_Grants :: "workloadGrant list"

fun checkGrants :: "string list \<Rightarrow> workloadGrant list \<Rightarrow> workloadGrant list option" where
  "checkGrants seen [] = Some []"
| "checkGrants seen (g # gs) =
     (if \<not> tenantIDPattern (wg_TenantID g) \<or> \<not> workloadAudienceAllowed (wg_Audience g) \<or>
         \<not> workloadScopesAllowed (wg_Audience g) (wg_Scopes g) \<or>
         \<not> workloadEventTypesAllowed (wg_Audience g) (wg_EventTypes g) then None
      else
        let grantKey = wg_TenantID g @ [CHR 0x00] @ wg_Audience g in
        if grantKey \<in> set seen then None
        else map_option (\<lambda>rest. normalizedGrant g # rest) (checkGrants (grantKey # seen) gs))"

definition UpsertBinding ::
  "('w, 'k) workloadService \<Rightarrow> 'w \<Rightarrow> workloadEnv \<Rightarrow> bindingUpsertReq \<Rightarrow> workloadBinding res \<times> 'w" where
  "UpsertBinding s w E req =
     (case wi_repo s of
        None \<Rightarrow> (Inl ErrWorkloadIdentityUnavailable, w)
      | Some repo \<Rightarrow>
          (case ParseWorkloadSubject (bu_Subject req) of
             None \<Rightarrow> (Inl ErrInvalidArgument, w)
           | Some subject \<Rightarrow>
               if ws_Namespace subject \<noteq> TrimSpace (bu_Namespace req) \<or>
                  ws_ServiceAccount subject \<noteq> TrimSpace (bu_ServiceAccount req) \<or> length (bu_Grants req) = 0 \<or>
                  length (bu_Grants req) > MaxWorkloadGrants \<or>
                  bu_ClusterRef req \<noteq> [] \<and> bu_ClusterRef req \<notin> set (wi_trustedClusterRefs s) \<or>
                  bu_ServiceAccountUID req \<noteq> [] \<and> \<not> ValidWorkloadObjectUID (bu_ServiceAccountUID req) \<or>
                  bu_ClusterRef req = [] \<and> scopedBindingsRequired s
               then (Inl ErrInvalidArgument, w)
               else (case checkGrants [] (bu_Grants req) of
                       None \<Rightarrow> (Inl ErrInvalidArgument, w)
                     | Some grants \<Rightarrow>
                         let b = \<lparr>wb_Subject = ws_Subject subject, wb_Namespace = ws_Namespace subject,
                                  wb_ServiceAccount = ws_ServiceAccount subject, wb_ClusterRef = bu_ClusterRef req,
                                  wb_ServiceAccountUID = bu_ServiceAccountUID req, wb_Grants = grants, wb_Revoked = False,
                                  wb_UpdatedAt = Some (we_now E 0)\<rparr> in
                         (case wrUpsert repo w b of
                            (Some e, w') \<Rightarrow> (Inl ErrWorkloadIdentityUnavailable, w')
                          | (None, w') \<Rightarrow> (Inr b, w')))))"

definition RevokeBinding ::
  "('w, 'k) workloadService \<Rightarrow> 'w \<Rightarrow> workloadEnv \<Rightarrow> string \<Rightarrow> string \<Rightarrow> workloadBinding res \<times> 'w" where
  "RevokeBinding s w E subject0 clusterRef =
     (case (wi_repo s, ParseWorkloadSubject subject0) of
        (Some repo, Some subject) \<Rightarrow>
          if clusterRef \<noteq> [] \<and> \<not> ValidWorkloadClusterRef clusterRef then (Inl ErrInvalidArgument, w)
          else (case wrRevoke repo w (WorkloadBindingKey clusterRef (ws_Subject subject)) (Some (we_now E 0)) of
                  (Inl e, w') \<Rightarrow> (Inl ErrWorkloadIdentityUnavailable, w')
                | (Inr None, w') \<Rightarrow> (Inl ErrNotFound, w')
                | (Inr (Some b), w') \<Rightarrow> (Inr b, w'))
      | _ \<Rightarrow> (Inl ErrInvalidArgument, w))"

section \<open>The legacy grant\<close>

definition workloadBearer :: "string \<Rightarrow> int \<Rightarrow> string \<Rightarrow> string list \<Rightarrow> string \<Rightarrow> string list \<Rightarrow> workloadExchangeResp" where
  "workloadBearer token ttl audience scopes tenantID eventTypes =
     \<lparr>wp_AccessToken = token, wp_TokenType = ''Bearer'', wp_ExpiresIn = ttl div 1000000000, wp_Audience = audience,
      wp_Scopes = scopes, wp_TenantID = tenantID, wp_EventTypes = eventTypes\<rparr>"

definition legacyClaims ::
  "('w, 'k) workloadService \<Rightarrow> workloadEnv \<Rightarrow> workloadExchangeReq \<Rightarrow> workloadSubject \<Rightarrow> workloadGrant \<Rightarrow> claims" where
  "legacyClaims s E req subject g =
     (let base =
        [''iss'' \<mapsto> JStr (wi_issuer s), ''aud'' \<mapsto> JStr (wx_Audience req), ''sub'' \<mapsto> JStr (ws_Subject subject),
         ''tid'' \<mapsto> JStr (wx_TenantID req), ''scope'' \<mapsto> JStr (JoinStr '' '' (normalizedWorkloadScopes (wx_Scopes req))),
         ''iat'' \<mapsto> GoInt (Unix (we_now E 0)), ''exp'' \<mapsto> GoInt (Unix (we_now E 0 + wi_ttl s)), ''jti'' \<mapsto> JStr (we_uuid E 0)] in
      if length (wg_EventTypes g) > 0 then base(''eventTypes'' \<mapsto> GoStrs (wg_EventTypes g)) else base)"

definition exchangeLegacy ::
  "('w, 'k) workloadService \<Rightarrow> 'w \<Rightarrow> workloadEnv \<Rightarrow> workloadExchangeReq \<Rightarrow> workloadExchangeResp res" where
  "exchangeLegacy s w E req =
     (if \<not> workloadAudienceAllowed (wx_Audience req) \<or> \<not> tenantIDPattern (wx_TenantID req) then Inl ErrInvalidArgument
      else if \<not> workloadScopesAllowed (wx_Audience req) (wx_Scopes req) then Inl ErrWorkloadBindingDenied
      else
        (case wi_repo s of
           None \<Rightarrow> Inl ErrWorkloadIdentityUnavailable
         | Some repo \<Rightarrow>
             (case VerifyProjectedToken s w (wx_SubjectToken req) of
                Inl e \<Rightarrow>
                  if errors_Is e ErrWorkloadTokenInvalid then Inl ErrWorkloadTokenInvalid else Inl ErrWorkloadIdentityUnavailable
              | Inr subject \<Rightarrow>
                  if wx_Audience req = WorkloadProducerAudience \<and> wi_refuseLegacyCodeQAdmin s
                  then Inl ErrWorkloadBindingDenied
                  else
                    (case legacyBinding s repo w subject of
                       Inl _ \<Rightarrow> Inl ErrWorkloadIdentityUnavailable
                     | Inr ob \<Rightarrow>
                         (case workloadBindingGrant ob subject (wx_TenantID req) (wx_Audience req) (wx_Scopes req) of
                            None \<Rightarrow> Inl ErrWorkloadBindingDenied
                          | Some g \<Rightarrow>
                              (case signWorkload s (legacyClaims s E req subject g) of
                                 Inl e \<Rightarrow> Inl e
                               | Inr signed \<Rightarrow>
                                   Inr (workloadBearer signed (wi_ttl s) (wx_Audience req)
                                          (normalizedWorkloadScopes (wx_Scopes req)) (wx_TenantID req) (wg_EventTypes g))))))))"

section \<open>The topic controller\<close>

abbreviation CodeQTopicManageScope :: string where "CodeQTopicManageScope \<equiv> ''codeq:topics:manage''"

definition controllerSubject :: "topicController \<Rightarrow> string" where
  "controllerSubject p = workloadSubjectPrefix @ tc_Namespace p @ '':'' @ tc_ServiceAccount p"

definition controllerValid :: "topicController \<Rightarrow> bool" where
  "controllerValid p \<longleftrightarrow>
     tc_Enabled p \<and>
     (case ParseWorkloadSubject (controllerSubject p) of
        None \<Rightarrow> False | Some subject \<Rightarrow> ws_Namespace subject = tc_Namespace p) \<and>
     tc_Issuer p \<noteq> [] \<and> tc_ClusterRef p \<noteq> [] \<and> tc_ServiceAccountUID p \<noteq> []"

definition controllerDigest :: "('w, 'k) workloadService \<Rightarrow> string" where
  "controllerDigest s = sha256hex (wi_library s) (wi_marshalController s (wi_topicController s))"

record codeqTopicAuthority =
  ct_SchemaVersion :: string
  ct_TenantID :: string
  ct_TenantEpoch :: string
  ct_Active :: bool

definition topicEpoch :: "('w, 'k) workloadService \<Rightarrow> string \<Rightarrow> tenant \<Rightarrow> string" where
  "topicEpoch s tenantID t =
     sha256hex (wi_library s)
       (''codefoundry/tenant-lifetime/v1'' @ [CHR 0x00] @ tenantID @ [CHR 0x00] @ rfc3339Nano (wi_library s) (t_CreatedAt t))"

definition topicAuthority :: "('w, 'k) workloadService \<Rightarrow> 'w \<Rightarrow> int \<Rightarrow> string \<Rightarrow> codeqTopicAuthority res" where
  "topicAuthority s w now tenantID =
     (case wi_topicTenants s of
        None \<Rightarrow> Inl ErrWorkloadBindingDenied
      | Some getRetained \<Rightarrow>
          if \<not> controllerValid (wi_topicController s) \<or> \<not> tenantIDPattern tenantID then Inl ErrWorkloadBindingDenied
          else (case getRetained w tenantID now of
                  Inl _ \<Rightarrow> Inl ErrWorkloadIdentityUnavailable
                | Inr ot \<Rightarrow>
                    if \<not> activeTenant ot tenantID now then Inl ErrWorkloadBindingDenied
                    else Inr \<lparr>ct_SchemaVersion = ''codeq-topic-authority/v1'', ct_TenantID = tenantID,
                      ct_TenantEpoch = topicEpoch s tenantID (the ot), ct_Active = True\<rparr>))"

text \<open>The verified subject is the installation's controller, UID included.\<close>

definition isController :: "topicController \<Rightarrow> workloadSubject \<Rightarrow> bool" where
  "isController p subject \<longleftrightarrow>
     ws_Issuer subject = tc_Issuer p \<and> ws_ClusterRef subject = tc_ClusterRef p \<and> ws_Namespace subject = tc_Namespace p \<and>
     ws_ServiceAccount subject = tc_ServiceAccount p \<and> ws_ServiceAccountUID subject = tc_ServiceAccountUID p \<and>
     ws_PodUID subject \<noteq> [] \<and> ws_Subject subject = controllerSubject p"

definition topicClaims ::
  "('w, 'k) workloadService \<Rightarrow> workloadEnv \<Rightarrow> workloadSubject \<Rightarrow> codeqTopicAuthority \<Rightarrow> int \<Rightarrow> claims" where
  "topicClaims s E subject a ttl =
     [''iss'' \<mapsto> JStr (wi_issuer s), ''aud'' \<mapsto> JStr WorkloadProducerAudience, ''sub'' \<mapsto> JStr (ws_Subject subject),
      ''tid'' \<mapsto> JStr (ct_TenantID a), ''tenant_epoch'' \<mapsto> JStr (ct_TenantEpoch a), ''scope'' \<mapsto> JStr CodeQTopicManageScope,
      ''topic_controller'' \<mapsto> JStr (controllerDigest s), ''iat'' \<mapsto> GoInt (Unix (we_now E 1)),
      ''exp'' \<mapsto> GoInt (Unix (we_now E 1 + ttl)), ''jti'' \<mapsto> JStr (we_uuid E 0)]"

definition exchangeCodeQTopic ::
  "('w, 'k) workloadService \<Rightarrow> 'w \<Rightarrow> workloadEnv \<Rightarrow> workloadExchangeReq \<Rightarrow> workloadExchangeResp res" where
  "exchangeCodeQTopic s w E req =
     (if wx_Scopes req \<noteq> [CodeQTopicManageScope] \<or> wx_Audience req \<noteq> WorkloadProducerAudience \<or>
         \<not> controllerValid (wi_topicController s) then Inl ErrWorkloadBindingDenied
      else
        (case VerifyProjectedToken s w (wx_SubjectToken req) of
           Inl e \<Rightarrow> Inl e
         | Inr subject \<Rightarrow>
             if \<not> isController (wi_topicController s) subject then Inl ErrWorkloadBindingDenied
             else
               (case topicAuthority s w (we_now E 0) (wx_TenantID req) of
                  Inl e \<Rightarrow> Inl e
                | Inr a \<Rightarrow>
                    let ttl = (if wi_ttl s < 60000000000 then wi_ttl s else 60000000000) in
                    (case signWorkload s (topicClaims s E subject a ttl) of
                       Inl e \<Rightarrow> Inl e
                     | Inr raw \<Rightarrow> Inr (workloadBearer raw ttl WorkloadProducerAudience [CodeQTopicManageScope] (ct_TenantID a) [])))))"

definition ValidateCodeQTopicToken ::
  "('w, 'k) workloadService \<Rightarrow> 'w \<Rightarrow> workloadEnv \<Rightarrow> string \<Rightarrow> codeqTopicAuthority res" where
  "ValidateCodeQTopicToken s w E raw =
     (if length raw > 16384 \<or> \<not> controllerValid (wi_topicController s) then Inl ErrWorkloadBindingDenied
      else
        (case signingKey s of
           Inl _ \<Rightarrow> Inl ErrWorkloadIdentityUnavailable
         | Inr key \<Rightarrow>
             (case wi_parseTopicToken s raw (wi_keyID s) key (wi_issuer s) WorkloadProducerAudience (we_now E 0) of
                None \<Rightarrow> Inl ErrWorkloadBindingDenied
              | Some c \<Rightarrow>
                  if c ''scope'' \<noteq> Some (JStr CodeQTopicManageScope) \<or>
                     c ''topic_controller'' \<noteq> Some (JStr (controllerDigest s)) \<or>
                     c ''sub'' \<noteq> Some (JStr (controllerSubject (wi_topicController s))) then Inl ErrWorkloadBindingDenied
                  else
                    (case c ''tid'' of
                       Some (JStr tid) \<Rightarrow>
                         (case topicAuthority s w (we_now E 1) tid of
                            Inl e \<Rightarrow> Inl e
                          | Inr a \<Rightarrow>
                              if c ''tenant_epoch'' \<noteq> Some (JStr (ct_TenantEpoch a)) then Inl ErrWorkloadBindingDenied else Inr a)
                     | _ \<Rightarrow> Inl ErrWorkloadBindingDenied))))"

section \<open>The Trino grant\<close>

text \<open>The subject is the canonical form of its own name.\<close>

definition canonicalSubject :: "workloadSubject \<Rightarrow> bool" where
  "canonicalSubject subject =
     (case ParseWorkloadSubject (ws_Subject subject) of
        None \<Rightarrow> False
      | Some k \<Rightarrow> ws_Subject k = ws_Subject subject \<and> ws_Namespace k = ws_Namespace subject \<and>
          ws_ServiceAccount k = ws_ServiceAccount subject)"

definition exchangeTrinoWorkload ::
  "('w, 'k) workloadService \<Rightarrow> 'w \<Rightarrow> workloadEnv \<Rightarrow> workloadExchangeReq \<Rightarrow> workloadExchangeResp res" where
  "exchangeTrinoWorkload s w E req =
     (let (installation, valid) = trinoRequest (wx_Audience req) (wx_TenantID req) (wx_Scopes req) in
      case wi_trinoAuthority s of
        None \<Rightarrow> Inl ErrWorkloadBindingDenied
      | Some authorizeWorkload \<Rightarrow>
          if \<not> valid then Inl ErrWorkloadBindingDenied
          else
            (case VerifyProjectedToken s w (wx_SubjectToken req) of
               Inl e \<Rightarrow> Inl e
             | Inr subject \<Rightarrow>
                 if \<not> canonicalSubject subject \<or> ws_Issuer subject = [] \<or> ws_ClusterRef subject = [] \<or>
                    ws_ServiceAccountUID subject = [] then Inl ErrWorkloadTokenInvalid
                 else
                   (case authorizeWorkload w installation (wx_TenantID req) subject of
                      Inl _ \<Rightarrow> Inl ErrWorkloadBindingDenied
                    | Inr a \<Rightarrow>
                        if tw_ServiceAccountUID a \<noteq> ws_ServiceAccountUID subject \<or> tw_PodUID a \<noteq> ws_PodUID subject
                        then Inl ErrWorkloadBindingDenied
                        else
                          let ttl0 = wi_ttl s div 1000000000; ttl = (if ttl0 \<le> 0 \<or> ttl0 > 300 then 300 else ttl0) in
                          (case trinoClaims (wi_library s) (tw_Principal a) installation (wx_TenantID req) ''Service''
                                  (ws_Subject subject) (wi_issuer s) (we_now E 0) ttl (we_uuid E 0) of
                             Inl _ \<Rightarrow> Inl ErrWorkloadBindingDenied
                           | Inr c \<Rightarrow>
                               (case signWorkload s c of
                                  Inl e \<Rightarrow> Inl e
                                | Inr signed \<Rightarrow>
                                    Inr (workloadBearer signed (ttl * 1000000000) (wx_Audience req) [TrinoQueryScope]
                                           (wx_TenantID req) []))))))"

end
