(* ===== verification/Workload_Grants.thy ===== *)
theory Workload_Grants
  imports Workload_Service
begin

text \<open>
  The grants of the workload service that answer to a live authority: AI workloads and machines
  (\<^verbatim>\<open>internal/services/ai_workload.go\<close>), queue bindings (\<^verbatim>\<open>codeq_binding_exchange.go\<close>) and platform logs
  (\<^verbatim>\<open>managed_logs.go\<close>), and the dispatch \<^verbatim>\<open>Exchange\<close> over all of them. An exchange changes only its rate limiter; the
  audit record of a queue binding exchange is part of its result.
\<close>

section \<open>Shared steps\<close>

definition subjectKey :: "workloadSubject \<Rightarrow> string" where
  "subjectKey subject =
     IdentityKey (ws_ClusterRef subject) (ws_Namespace subject) (ws_ServiceAccount subject) (ws_PodUID subject)"

text \<open>What is left of the projected token, in whole seconds; a zero time lies before every other.\<close>

definition subjectRemaining :: "workloadSubject \<Rightarrow> int \<Rightarrow> int" where
  "subjectRemaining subject now =
     (case ws_ExpiresAt subject of None \<Rightarrow> - (2 ^ 63) | Some ex \<Rightarrow> truncateSecond (timeSub ex now))"

definition wholeSecond :: "int \<Rightarrow> int" where
  "wholeSecond now = Unix now * 1000000000"

section \<open>AI workloads and machines\<close>

definition aiSubjectValid :: "workloadSubject \<Rightarrow> int \<Rightarrow> bool" where
  "aiSubjectValid subject now \<longleftrightarrow>
     (case ParseWorkloadSubject (ws_Subject subject) of
        None \<Rightarrow> False
      | Some p \<Rightarrow> ws_Namespace p = ws_Namespace subject \<and> ws_ServiceAccount p = ws_ServiceAccount subject) \<and>
     ws_Issuer subject \<noteq> [] \<and> ValidWorkloadClusterRef (ws_ClusterRef subject) \<and>
     ValidWorkloadObjectUID (ws_ServiceAccountUID subject) \<and> ValidWorkloadObjectUID (ws_PodUID subject) \<and>
     (case ws_ExpiresAt subject of None \<Rightarrow> False | Some ex \<Rightarrow> now < ex)"

definition workloadIdentity :: "workloadSubject \<Rightarrow> string \<Rightarrow> string list \<Rightarrow> aiIdentity" where
  "workloadIdentity subject tenantID scopes =
     \<lparr>ai_SchemaVersion = IdentityVersion, ai_Kind = ''Workload'', ai_Subject = ws_Subject subject, ai_TenantID = tenantID,
      ai_Scopes = scopes,
      ai_Workload = Some \<lparr>awr_Issuer = ws_Issuer subject, awr_ClusterRef = ws_ClusterRef subject,
        awr_Namespace = ws_Namespace subject, awr_ServiceAccount = ws_ServiceAccount subject,
        awr_ServiceAccountUID = ws_ServiceAccountUID subject, awr_PodUID = ws_PodUID subject\<rparr>\<rparr>"

text \<open>The user token that may delegate to a workload: a current AI token of a user of the same tenant covering the scopes.\<close>

definition delegating :: "string \<Rightarrow> string list \<Rightarrow> aiClaims \<Rightarrow> bool" where
  "delegating tenantID scopes user \<longleftrightarrow>
     ac_PrincipalKind user = ''User'' \<and> ac_Actor user = None \<and> ac_Workload user = None \<and> ac_Version user \<noteq> None \<and>
     ac_TenantID user = tenantID \<and> subsetList scopes (SplitChar CHR '' '' (ac_Scope user))"

definition delegation ::
  "('w, 'k) workloadService \<Rightarrow> 'w \<Rightarrow> workloadExchangeReq \<Rightarrow> string list \<Rightarrow> aiClaims option res" where
  "delegation s w r scopes =
     (if wx_UserToken r = [] then Inr None
      else (case wi_aiUsers s of
              None \<Rightarrow> Inl ErrWorkloadBindingDenied
            | Some validate \<Rightarrow>
                (case validate w (wx_UserToken r) of
                   Inl _ \<Rightarrow> Inl ErrWorkloadBindingDenied
                 | Inr user \<Rightarrow>
                     if delegating (wx_TenantID r) scopes user then Inr (Some user) else Inl ErrWorkloadBindingDenied)))"

definition aiWorkloadJson :: "aiWorkload \<Rightarrow> (string \<times> jval) list" where
  "aiWorkloadJson k =
     [(''issuer'', JStr (aw_Issuer k)), (''service_uid'', JStr (aw_ServiceUID k)), (''cluster_ref'', JStr (aw_ClusterRef k)),
      (''namespace'', JStr (aw_Namespace k)), (''service_account'', JStr (aw_ServiceAccount k)),
      (''service_account_uid'', JStr (aw_ServiceAccountUID k)), (''pod_uid'', JStr (aw_PodUID k))]"

text \<open>\<^verbatim>\<open>principalMatches\<close> has refused a principal without a workload for these kinds.\<close>

definition aiWorkloadClaims :: "aiClaims option \<Rightarrow> aiPrincipal \<Rightarrow> claims \<Rightarrow> claims" where
  "aiWorkloadClaims ou p c =
     (case ap_Workload p of
        None \<Rightarrow> c
      | Some k \<Rightarrow>
          (case ou of
             None \<Rightarrow> c(''workload'' \<mapsto> JObj (aiWorkloadJson k))
           | Some user \<Rightarrow>
               c(''ver'' \<mapsto> GoInt (the (ac_Version user)),
                 ''act'' \<mapsto> JObj ((''sub'', JStr (''codefoundry:service:'' @ aw_ServiceUID k)) # aiWorkloadJson k))))"

definition aiWorkloadTTL :: "aiGatewayConfig \<Rightarrow> workloadSubject \<Rightarrow> aiClaims option \<Rightarrow> int \<Rightarrow> int" where
  "aiWorkloadTTL cfg subject ou now =
     (let ttl = min (seconds (agc_AccessTokenTTLSeconds cfg)) (subjectRemaining subject now) in
      case ou of None \<Rightarrow> ttl | Some user \<Rightarrow> min ttl (timeSub (ac_ExpiresAt user * 1000000000) now))"

definition exchangeAIPrincipal ::
  "('w, 'k) workloadService \<Rightarrow> 'w aiGatewayExchange \<Rightarrow> 'w \<Rightarrow> workloadEnv \<Rightarrow> workloadExchangeReq \<Rightarrow> workloadSubject \<Rightarrow> int \<Rightarrow>
   workloadExchangeResp res" where
  "exchangeAIPrincipal s e w E r subject now =
     (case AIScopes (wx_Scopes r) of
        None \<Rightarrow> Inl ErrWorkloadBindingDenied
      | Some scopes \<Rightarrow>
          if wx_Audience r \<noteq> AIGatewayAudienceClientID \<or> wx_UserToken r = [] \<and> UsageScope \<in> set scopes
          then Inl ErrWorkloadBindingDenied
          else
            (case delegation s w r scopes of
               Inl err \<Rightarrow> Inl err
             | Inr ou \<Rightarrow>
                 let base = workloadIdentity subject (wx_TenantID r) scopes;
                     identity = (case ou of None \<Rightarrow> base
                                 | Some user \<Rightarrow> base\<lparr>ai_Kind := ''Delegated'', ai_Subject := ac_Subject user\<rparr>);
                     ttl = aiWorkloadTTL (ax_cfg e) subject ou now in
                 if ttl < 1000000000 then Inl ErrWorkloadTokenInvalid
                 else
                   (case signingKey s of
                      Inl _ \<Rightarrow> Inl ErrWorkloadIdentityUnavailable
                    | Inr key \<Rightarrow>
                        (case aiAuthorize (wi_jwt s) (wi_library s) (Some e) w (we_call E) identity key (wi_issuer s)
                                (wi_keyID s) now of
                           Inl err \<Rightarrow> Inl err
                         | Inr p \<Rightarrow>
                             if (case ou of None \<Rightarrow> False
                                 | Some user \<Rightarrow> ap_TenantUID p \<noteq> ac_TenantUID user \<or> ap_TenantEpoch p \<noteq> ac_TenantEpoch user)
                             then Inl ErrWorkloadBindingDenied
                             else
                               (case signAIClaims (wi_jwt s) key (wi_keyID s)
                                       (aiWorkloadClaims ou p
                                          (aiPrincipalClaims p (wi_issuer s) scopes now ttl (we_uuid E 1))) of
                                  Inl err \<Rightarrow> Inl err
                                | Inr raw \<Rightarrow> Inr (workloadBearer raw ttl (wx_Audience r) scopes (wx_TenantID r) []))))))"

definition aiMachineMatches :: "aiMachineIdentity \<Rightarrow> workloadSubject \<Rightarrow> bool" where
  "aiMachineMatches p subject \<longleftrightarrow>
     mi_Enabled p \<and> mi_Issuer p \<noteq> [] \<and> mi_ClusterRef p \<noteq> [] \<and> mi_ServiceAccountUID p \<noteq> [] \<and>
     ws_Issuer subject = mi_Issuer p \<and> ws_ClusterRef subject = mi_ClusterRef p \<and> ws_Namespace subject = mi_Namespace p \<and>
     ws_ServiceAccount subject = mi_ServiceAccount p \<and> ws_ServiceAccountUID subject = mi_ServiceAccountUID p"

definition aiStoreScopes :: "string \<Rightarrow> string list" where
  "aiStoreScopes grant =
     (if grant = ''CefasRuntime''
      then [''cefas:item:read:ai-usage'', ''cefas:item:write:ai-usage'', ''cefas:query:ai-usage'']
      else if grant = ''CefasBootstrap'' then [''cefas:table:create'', ''cefas:table:describe'']
      else [])"

abbreviation RuntimeAudience :: string where "RuntimeAudience \<equiv> ''code-admin-api''"
abbreviation RuntimeScope :: string where "RuntimeScope \<equiv> ''code-admin:ai:runtime''"
abbreviation RuntimeVersion :: string where "RuntimeVersion \<equiv> ''ai-runtime/v1''"

text \<open>The pinned identity, the scopes and the longest lifetime of a machine grant; \<^term>\<open>None\<close> is a refusal.\<close>

definition aiMachineGrant ::
  "aiGatewayConfig \<Rightarrow> workloadExchangeReq \<Rightarrow> (aiMachineIdentity \<times> string list \<times> int) option" where
  "aiMachineGrant p r =
     (if wx_AIGrant r = ''Runtime''
      then (if wx_Audience r \<noteq> RuntimeAudience then None else Some (agc_Runtime p, [RuntimeScope], 60000000000))
      else if wx_AIGrant r = ''CefasRuntime'' \<or> wx_AIGrant r = ''CefasBootstrap''
      then (if agc_StoreAudience p = [] \<or> agc_StoreAudience p = ''code-admin-logs-store'' \<or>
               agc_StoreAudience p = RuntimeAudience \<or> agc_StoreAudience p = AIGatewayAudienceClientID \<or>
               wx_Audience r \<noteq> agc_StoreAudience p then None
            else Some (if wx_AIGrant r = ''CefasBootstrap'' then agc_StoreBootstrap p else agc_StoreRuntime p,
                       aiStoreScopes (wx_AIGrant r), seconds (agc_AccessTokenTTLSeconds p)))
      else None)"

definition aiMachineClaims ::
  "('w, 'k) workloadService \<Rightarrow> aiGatewayConfig \<Rightarrow> workloadEnv \<Rightarrow> workloadExchangeReq \<Rightarrow> workloadSubject \<Rightarrow> string \<Rightarrow>
   string list \<Rightarrow> int \<Rightarrow> int \<Rightarrow> claims" where
  "aiMachineClaims s p E r subject epoch scopes now ttl =
     [''iss'' \<mapsto> JStr (wi_issuer s), ''aud'' \<mapsto> JStr (wx_Audience r),
      ''sub'' \<mapsto> JStr (''codefoundry:ai-gateway:'' @ agc_InstallationUID p), ''tid'' \<mapsto> JStr (wx_TenantID r),
      ''tenant_uid'' \<mapsto> JStr (wx_TenantID r), ''tenant_epoch'' \<mapsto> JStr epoch, ''scope'' \<mapsto> JStr (JoinStr '' '' scopes),
      ''iat'' \<mapsto> GoInt (Unix now), ''exp'' \<mapsto> GoInt (Unix (now + ttl)), ''jti'' \<mapsto> JStr (we_uuid E 0),
      ''ai_runtime'' \<mapsto> JObj
        [(''schemaVersion'', JStr RuntimeVersion), (''installationUID'', JStr (agc_InstallationUID p)),
         (''cluster_ref'', JStr (ws_ClusterRef subject)), (''namespace'', JStr (ws_Namespace subject)),
         (''service_account'', JStr (ws_ServiceAccount subject)),
         (''service_account_uid'', JStr (ws_ServiceAccountUID subject)), (''pod_uid'', JStr (ws_PodUID subject))]]"

definition exchangeAIMachine ::
  "('w, 'k) workloadService \<Rightarrow> 'w aiGatewayExchange \<Rightarrow> 'w \<Rightarrow> workloadEnv \<Rightarrow> workloadExchangeReq \<Rightarrow> workloadSubject \<Rightarrow> int \<Rightarrow>
   workloadExchangeResp res" where
  "exchangeAIMachine s e w E r subject now =
     (let p = ax_cfg e in
      if wx_UserToken r \<noteq> [] \<or> wx_TenantID r \<noteq> agc_RuntimeTenantID p \<or> \<not> ValidWorkloadObjectUID (agc_InstallationUID p)
      then Inl ErrWorkloadBindingDenied
      else
        (case aiMachineGrant p r of
           None \<Rightarrow> Inl ErrWorkloadBindingDenied
         | Some (identity, scopes, longest) \<Rightarrow>
             let ttl = min longest (subjectRemaining subject now) in
             if sort (wx_Scopes r) \<noteq> scopes \<or> \<not> aiMachineMatches identity subject \<or> ttl < 1000000000
             then Inl ErrWorkloadBindingDenied
             else
               (case aiTenant (wi_library s) e w (wx_TenantID r) now of
                  Inl err \<Rightarrow> Inl err
                | Inr epoch \<Rightarrow>
                    (case signingKey s of
                       Inl _ \<Rightarrow> Inl ErrWorkloadIdentityUnavailable
                     | Inr key \<Rightarrow>
                         (case signAIClaims (wi_jwt s) key (wi_keyID s)
                                 (aiMachineClaims s p E r subject epoch scopes now ttl) of
                            Inl err \<Rightarrow> Inl err
                          | Inr raw \<Rightarrow> Inr (workloadBearer raw ttl (wx_Audience r) scopes (wx_TenantID r) []))))))"

definition exchangeAIWorkload ::
  "('w, 'k) workloadService \<Rightarrow> 'w \<Rightarrow> workloadLimiters \<Rightarrow> workloadEnv \<Rightarrow> workloadExchangeReq \<Rightarrow>
   workloadExchangeResp res \<times> workloadLimiters" where
  "exchangeAIWorkload s w l E r =
     (case wi_aiGateway s of
        None \<Rightarrow> (Inl ErrWorkloadBindingDenied, l)
      | Some e \<Rightarrow>
          if \<not> aiReady (Some e) then (Inl ErrWorkloadBindingDenied, l)
          else if wx_SubjectTokenType r \<noteq> WorkloadSubjectTokenType \<or> wx_SubjectToken r = [] \<or>
                  length (wx_SubjectToken r) > 16384 \<or> wx_CodeQTopicID r \<noteq> [] \<or> wx_LogsGrant r \<noteq> [] \<or>
                  wx_LogsGrantKind r \<noteq> [] \<or> wx_LogsConfigUID r \<noteq> [] \<or> wx_LogsConfigGeneration r \<noteq> 0
          then (Inl ErrInvalidArgument, l)
          else
            (case VerifyProjectedToken s w (wx_SubjectToken r) of
               Inl err \<Rightarrow> (Inl err, l)
             | Inr subject \<Rightarrow>
                 let now = wholeSecond (we_now E 0) in
                 if \<not> aiSubjectValid subject now then (Inl ErrWorkloadTokenInvalid, l)
                 else
                   (let ((allowed, retry), lim) = Allow (wl_ai l) (we_limiterNow E) (subjectKey subject);
                        l' = l\<lparr>wl_ai := lim\<rparr> in
                    if \<not> allowed then (Inl ErrRateLimited, l')
                    else if wx_AIGrant r \<noteq> [] then (exchangeAIMachine s e w E r subject now, l')
                    else (exchangeAIPrincipal s e w E r subject now, l'))))"

section \<open>Queue bindings\<close>

abbreviation codeqPublishScopes :: "string list" where "codeqPublishScopes \<equiv> [''codeq:publish'']"
abbreviation codeqSubscribeScopes :: "string list" where
  "codeqSubscribeScopes \<equiv> [''codeq:abandon'', WorkloadClaimScope, ''codeq:heartbeat'', WorkloadNackScope, WorkloadResultScope]"
abbreviation FailureThrottled :: string where "FailureThrottled \<equiv> ''throttled''"
abbreviation FailureRejected :: string where "FailureRejected \<equiv> ''rejected''"
abbreviation FailureInvalid :: string where "FailureInvalid \<equiv> ''invalid''"
abbreviation codeqBindingMinimumTTL :: int where "codeqBindingMinimumTTL \<equiv> 30000000000"
abbreviation codeqBindingMaximumTTL :: int where "codeqBindingMaximumTTL \<equiv> 300000000000"

text \<open>The audit record of one exchange, without its latency.\<close>

record bindingAudit =
  ba_correlationID :: string
  ba_code :: string
  ba_tenantID :: string
  ba_clusterRef :: string
  ba_namespace :: string
  ba_serviceAccount :: string
  ba_serviceAccountUID :: string
  ba_podUID :: string
  ba_topicID :: string
  ba_policy :: string
  ba_bindingUID :: string
  ba_bindingGeneration :: int
  ba_authorityResult :: string
  ba_authorityStatus :: int
  ba_exclusionReason :: string
  ba_jti :: string
  ba_exp :: int

type_synonym 'a audited = "'a wres \<times> bindingAudit"

definition refuseBinding :: "bindingAudit \<Rightarrow> int \<Rightarrow> string \<Rightarrow> int \<Rightarrow> 'a audited" where
  "refuseBinding d status code retryAfter =
     (Inl (Refused status code (ba_correlationID d) retryAfter), d\<lparr>ba_code := code\<rparr>)"

definition codeqBindingPolicy :: "string \<Rightarrow> string list \<Rightarrow> (string \<times> string list) option" where
  "codeqBindingPolicy audience scopes =
     (let sorted = sort scopes in
      if audience = WorkloadProducerAudience \<and> sorted = codeqPublishScopes then Some (PolicyPublish, codeqPublishScopes)
      else if audience = WorkloadWorkerAudience \<and> sorted = codeqSubscribeScopes
      then Some (PolicySubscribe, codeqSubscribeScopes)
      else None)"

definition codeqBindingTopicName :: "string \<Rightarrow> string \<Rightarrow> string option" where
  "codeqBindingTopicName tenantID topicID =
     (if \<not> tenantIDPattern tenantID \<or> \<not> HasPrefix topicID (tenantID @ ''.'') then None
      else let name = drop (length (tenantID @ ''.'')) topicID in if ValidTopicName name then Some name else None)"

definition CodeQBindingSubject :: "string \<Rightarrow> string \<Rightarrow> string \<Rightarrow> string \<Rightarrow> string" where
  "CodeQBindingSubject clusterRef namespace serviceAccount podUID =
     ''codefoundry:workload:'' @ clusterRef @ '':'' @ namespace @ '':'' @ serviceAccount @ '':'' @ podUID"

definition codeqBindingAuthorityFailureResult :: "string \<Rightarrow> string" where
  "codeqBindingAuthorityFailureResult class =
     (if class = FailureThrottled then ''throttled'' else if class = FailureRejected then ''rejected''
      else if class = FailureInvalid then ''invalid'' else ''unavailable'')"

definition requestedTopicExclusion :: "excludedBinding list \<Rightarrow> string \<Rightarrow> string \<Rightarrow> string" where
  "requestedTopicExclusion excluded topicID policy =
     (case find (\<lambda>x. xb_TopicID x = topicID \<and> (xb_Policy x = policy \<or> xb_Policy x = [])) excluded of
        None \<Rightarrow> [] | Some x \<Rightarrow> xb_Reason x)"

definition signCodeQBindingAssertion :: "('w, 'k) workloadService \<Rightarrow> int \<Rightarrow> string \<Rightarrow> string res" where
  "signCodeQBindingAssertion s now jti =
     signWorkload s
       [''iss'' \<mapsto> JStr (TrimSuffix (wi_issuer s) ''/''), ''aud'' \<mapsto> JStr codeqAuthorityAudience,
        ''sub'' \<mapsto> JStr codeqServiceSubject, ''jti'' \<mapsto> JStr jti, ''iat'' \<mapsto> GoInt (Unix now),
        ''nbf'' \<mapsto> GoInt (Unix now - 5), ''exp'' \<mapsto> GoInt (Unix now + 60)]"

definition codeqBindingClaims ::
  "('w, 'k) workloadService \<Rightarrow> workloadSubject \<Rightarrow> string \<Rightarrow> string \<Rightarrow> string list \<Rightarrow> string \<Rightarrow> queueBinding \<Rightarrow> int \<Rightarrow> int \<Rightarrow>
   string \<Rightarrow> claims" where
  "codeqBindingClaims s subject tenantID audience scopes topicName b issuedAt ttl jti =
     [''iss'' \<mapsto> JStr (wi_issuer s), ''aud'' \<mapsto> JStr audience,
      ''sub'' \<mapsto> JStr (CodeQBindingSubject (ws_ClusterRef subject) (ws_Namespace subject) (ws_ServiceAccount subject)
                          (ws_PodUID subject)),
      ''tid'' \<mapsto> JStr tenantID, ''scope'' \<mapsto> JStr (JoinStr '' '' scopes), ''eventTypes'' \<mapsto> GoStrs [topicName],
      ''codeq_binding'' \<mapsto> JObj [(''uid'', JStr (qb_BindingUID b)), (''generation'', GoInt (qb_Generation b)),
                                  (''policy'', JStr (qb_Policy b)), (''topicId'', JStr (qb_TopicID b))],
      ''cluster_ref'' \<mapsto> JStr (ws_ClusterRef subject), ''iat'' \<mapsto> GoInt (Unix issuedAt),
      ''exp'' \<mapsto> GoInt (Unix (issuedAt + ttl)), ''jti'' \<mapsto> JStr jti]"

definition signCodeQBindingToken ::
  "('w, 'k) workloadService \<Rightarrow> workloadSubject \<Rightarrow> string \<Rightarrow> string \<Rightarrow> string list \<Rightarrow> string \<Rightarrow> queueBinding \<Rightarrow> int \<Rightarrow> int \<Rightarrow>
   string \<Rightarrow> (string \<times> string \<times> int) res" where
  "signCodeQBindingToken s subject tenantID audience scopes topicName b issuedAt ttl jti =
     (case signWorkload s (codeqBindingClaims s subject tenantID audience scopes topicName b issuedAt ttl jti) of
        Inl e \<Rightarrow> Inl e
      | Inr signed \<Rightarrow> Inr (signed, jti, Unix (issuedAt + ttl)))"

text \<open>Step 3: the verified subject is canonical, bound to a service account and a pod, and its cluster is known.\<close>

definition codeqBindingSubjectStep ::
  "('w, 'k) workloadService \<Rightarrow> 'w \<Rightarrow> workloadExchangeReq \<Rightarrow> bindingAudit \<Rightarrow> workloadSubject audited" where
  "codeqBindingSubjectStep s w req d =
     (if TrimSpace (wx_SubjectToken req) = [] then refuseBinding d 401 ''SubjectTokenInvalid'' 0
      else
        (case VerifyProjectedToken s w (wx_SubjectToken req) of
           Inl e \<Rightarrow>
             if errors_Is e ErrWorkloadTokenInvalid then refuseBinding d 401 ''SubjectTokenInvalid'' 0
             else refuseBinding d 503 ''IdentityUnavailable'' 0
         | Inr subject \<Rightarrow>
             if \<not> canonicalSubject subject \<or> ws_ExpiresAt subject = None then refuseBinding d 401 ''SubjectTokenInvalid'' 0
             else
               let d1 = d\<lparr>ba_namespace := ws_Namespace subject, ba_serviceAccount := ws_ServiceAccount subject,
                          ba_serviceAccountUID := ws_ServiceAccountUID subject, ba_podUID := ws_PodUID subject\<rparr> in
               if ws_ServiceAccountUID subject = [] \<or> ws_PodUID subject = [] then refuseBinding d1 401 ''UnboundSubjectToken'' 0
               else if \<not> ValidCanonicalUUID (ws_ServiceAccountUID subject) \<or> \<not> ValidCanonicalUUID (ws_PodUID subject)
               then refuseBinding d1 401 ''SubjectTokenInvalid'' 0
               else if ws_ClusterRef subject = [] \<or> \<not> ValidWorkloadClusterRef (ws_ClusterRef subject)
               then refuseBinding d1 403 ''IssuerAmbiguous'' 0
               else (Inr subject, d1\<lparr>ba_clusterRef := ws_ClusterRef subject\<rparr>)))"

text \<open>Step 6: one call to the authority; a failure or a decision that does not answer the request is a 503.\<close>

definition callCodeQBindingAuthority ::
  "('w, 'k) workloadService \<Rightarrow> ('w \<Rightarrow> authorityRequest \<Rightarrow> string \<Rightarrow> (string \<times> int) + authorityDecision) \<Rightarrow> 'w \<Rightarrow> workloadEnv \<Rightarrow>
   authorityRequest \<Rightarrow> bindingAudit \<Rightarrow> authorityDecision audited" where
  "callCodeQBindingAuthority s authorize w E request d =
     (case signCodeQBindingAssertion s (we_now E 1) (we_uuid E 1) of
        Inl _ \<Rightarrow> refuseBinding d 503 ''IdentityUnavailable'' 0
      | Inr assertion \<Rightarrow>
          (case authorize w request assertion of
             Inl (class, status) \<Rightarrow>
               refuseBinding (d\<lparr>ba_authorityResult := codeqBindingAuthorityFailureResult class, ba_authorityStatus := status\<rparr>)
                 503 ''AuthorityUnavailable'' (if class = FailureThrottled then 1 else 0)
           | Inr result \<Rightarrow>
               if \<not> codeqValidDecision request result
               then refuseBinding (d\<lparr>ba_authorityResult := ''invalid''\<rparr>) 503 ''AuthorityUnavailable'' 0
               else (Inr result,
                     d\<lparr>ba_authorityResult := (if IsAllowed result then ''allowed'' else ''denied''),
                       ba_authorityStatus := 200\<rparr>)))"

text \<open>Steps 7 to 9: the one eligible binding and the token for it.\<close>

definition issueCodeQBinding ::
  "('w, 'k) workloadService \<Rightarrow> int \<Rightarrow> workloadEnv \<Rightarrow> workloadExchangeReq \<Rightarrow> string \<Rightarrow> string list \<Rightarrow> string \<Rightarrow> workloadSubject \<Rightarrow>
   authorityDecision \<Rightarrow> bindingAudit \<Rightarrow> workloadExchangeResp audited" where
  "issueCodeQBinding s configured E req policy scopes topicName subject decision d =
     (if \<not> IsAllowed decision then refuseBinding d 403 (''Authority'' @ cd_Reason decision) 0
      else
        (case filter (\<lambda>b. qb_TopicID b = wx_CodeQTopicID req \<and> qb_Policy b = policy) (cd_Bindings decision) of
           [] \<Rightarrow>
             refuseBinding (d\<lparr>ba_exclusionReason :=
                                 requestedTopicExclusion (cd_Excluded decision) (wx_CodeQTopicID req) policy\<rparr>)
               403 ''BindingNotFound'' 0
         | [b] \<Rightarrow>
             let d1 = d\<lparr>ba_bindingUID := qb_BindingUID b, ba_bindingGeneration := qb_Generation b\<rparr>;
                 issuedAt = wholeSecond (we_now E 2);
                 remaining = subjectRemaining subject issuedAt;
                 ttl = (if remaining < configured then remaining else configured) in
             if ttl < codeqBindingMinimumTTL then refuseBinding d1 401 ''SubjectTokenExpiring'' 0
             else
               (case signCodeQBindingToken s subject (wx_TenantID req) (wx_Audience req) scopes topicName b issuedAt ttl
                       (we_uuid E 2) of
                  Inl _ \<Rightarrow> refuseBinding d1 503 ''IdentityUnavailable'' 0
                | Inr (signed, jti, ex) \<Rightarrow>
                    (Inr (workloadBearer signed ttl (wx_Audience req) scopes (wx_TenantID req) [topicName]),
                     d1\<lparr>ba_code := ''Issued'', ba_jti := jti, ba_exp := ex\<rparr>))
         | _ \<Rightarrow> refuseBinding d 403 ''BindingAmbiguous'' 0))"

definition bindingRequest :: "workloadExchangeReq \<Rightarrow> workloadSubject \<Rightarrow> string \<Rightarrow> authorityRequest" where
  "bindingRequest req subject correlationID =
     \<lparr>cq_SchemaVersion = codeqSchemaVersion, cq_RequestID = correlationID, cq_TenantID = wx_TenantID req,
      cq_ClusterRef = ws_ClusterRef subject, cq_Namespace = ws_Namespace subject,
      cq_ServiceAccountName = ws_ServiceAccount subject, cq_ServiceAccountUID = ws_ServiceAccountUID subject,
      cq_PodUID = ws_PodUID subject\<rparr>"

text \<open>Steps 4 to 9 for a verified subject.\<close>

definition codeqBindingAuthorised ::
  "('w, 'k) workloadService \<Rightarrow> 'w codeqBindingExchange \<Rightarrow> 'w \<Rightarrow> workloadLimiters \<Rightarrow> workloadEnv \<Rightarrow> workloadExchangeReq \<Rightarrow>
   string \<Rightarrow> string list \<Rightarrow> string \<Rightarrow> workloadSubject \<Rightarrow> bindingAudit \<Rightarrow> workloadExchangeResp audited \<times> workloadLimiters" where
  "codeqBindingAuthorised s x w l E req policy scopes topicName subject d =
     (case the (cx_tenants x) w (wx_TenantID req) (we_now E 0) of
        Inl _ \<Rightarrow> (refuseBinding d 503 ''IdentityUnavailable'' 0, l)
      | Inr ot \<Rightarrow>
          if \<not> activeTenant ot (wx_TenantID req) (we_now E 0) then (refuseBinding d 403 ''TenantInactive'' 0, l)
          else
            (let ((allowed, retry), lim) = Allow (wl_codeq l) (we_limiterNow E) (subjectKey subject);
                 l' = l\<lparr>wl_codeq := lim\<rparr> in
             if \<not> allowed then (refuseBinding d 429 ''RateLimited'' retry, l')
             else if \<not> the (cx_inflight x) w then (refuseBinding d 503 ''AuthorityBusy'' 1, l')
             else
               (case callCodeQBindingAuthority s (the (cx_authority x)) w E
                       (bindingRequest req subject (ba_correlationID d)) d of
                  (Inl e, d1) \<Rightarrow> ((Inl e, d1), l')
                | (Inr decision, d1) \<Rightarrow>
                    (issueCodeQBinding s (cx_ttl x) E req policy scopes topicName subject decision d1, l'))))"

definition codeqBindingProcedure ::
  "('w, 'k) workloadService \<Rightarrow> 'w \<Rightarrow> workloadLimiters \<Rightarrow> workloadEnv \<Rightarrow> workloadExchangeReq \<Rightarrow> bindingAudit \<Rightarrow>
   workloadExchangeResp audited \<times> workloadLimiters" where
  "codeqBindingProcedure s w l E req d =
     (if CodeQTopicManageScope \<in> set (normalizedWorkloadScopes (wx_Scopes req)) \<or>
         reservedTrinoAudience (wi_unicode s) (wx_Audience req)
      then (refuseBinding d 400 ''InvalidRequest'' 0, l)
      else
        (case wi_codeqBindings s of
           None \<Rightarrow> (refuseBinding d 403 ''FeatureDisabled'' 0, l)
         | Some x \<Rightarrow>
             if \<not> cx_enabled x then (refuseBinding d 403 ''FeatureDisabled'' 0, l)
             else
               (case (codeqBindingPolicy (wx_Audience req) (wx_Scopes req),
                      codeqBindingTopicName (wx_TenantID req) (wx_CodeQTopicID req)) of
                  (Some (policy, scopes), Some topicName) \<Rightarrow>
                    if wx_SubjectTokenType req \<noteq> WorkloadSubjectTokenType then (refuseBinding d 400 ''InvalidRequest'' 0, l)
                    else
                      let d1 = d\<lparr>ba_policy := policy\<rparr> in
                      if cx_authority x = None \<or> cx_tenants x = None \<or> \<not> cx_limited x \<or> cx_inflight x = None \<or>
                         cx_ttl x < codeqBindingMinimumTTL \<or> cx_ttl x > codeqBindingMaximumTTL
                      then (refuseBinding d1 503 ''AuthorityUnavailable'' 0, l)
                      else
                        (case codeqBindingSubjectStep s w req d1 of
                           (Inl e, d2) \<Rightarrow> ((Inl e, d2), l)
                         | (Inr subject, d2) \<Rightarrow>
                             codeqBindingAuthorised s x w l E req policy scopes topicName subject d2)
                | _ \<Rightarrow> (refuseBinding d 400 ''InvalidRequest'' 0, l))))"

definition newBindingAudit :: "workloadEnv \<Rightarrow> workloadExchangeReq \<Rightarrow> bindingAudit" where
  "newBindingAudit E req =
     \<lparr>ba_correlationID = we_uuid E 0, ba_code = [], ba_tenantID = wx_TenantID req, ba_clusterRef = [], ba_namespace = [],
      ba_serviceAccount = [], ba_serviceAccountUID = [], ba_podUID = [], ba_topicID = wx_CodeQTopicID req, ba_policy = [],
      ba_bindingUID = [], ba_bindingGeneration = 0, ba_authorityResult = [], ba_authorityStatus = 0,
      ba_exclusionReason = [], ba_jti = [], ba_exp = 0\<rparr>"

definition exchangeCodeQBinding ::
  "('w, 'k) workloadService \<Rightarrow> 'w \<Rightarrow> workloadLimiters \<Rightarrow> workloadEnv \<Rightarrow> workloadExchangeReq \<Rightarrow>
   workloadExchangeResp audited \<times> workloadLimiters" where
  "exchangeCodeQBinding s w l E req = codeqBindingProcedure s w l E req (newBindingAudit E req)"

section \<open>Platform logs\<close>

definition logsShapeScopes :: "string \<Rightarrow> string \<Rightarrow> string list option" where
  "logsShapeScopes grant audience =
     (if grant = ''Ingest'' then (if audience = ''logs-ingest'' then Some [''logs:ingest''] else None)
      else if grant = ''Resolve'' then (if audience = logsAuthorityAudience then Some [] else None)
      else if grant = ''CefasBootstrap'' \<or> grant = ''CefasRuntime''
      then (if audience = logsStoreAudience then Some (StoreScopes grant) else None)
      else if grant = ''Publish'' then (if audience = WorkloadProducerAudience then Some codeqPublishScopes else None)
      else if grant = ''Subscribe'' then (if audience = WorkloadWorkerAudience then Some codeqSubscribeScopes else None)
      else None)"

definition logsExchangeShape :: "workloadExchangeReq \<Rightarrow> string list option" where
  "logsExchangeShape r =
     (if wx_SubjectTokenType r \<noteq> WorkloadSubjectTokenType \<or> TrimSpace (wx_SubjectToken r) = [] \<or>
         wx_CodeQTopicID r \<noteq> [] \<or> \<not> ValidGrantKind (wx_LogsGrant r) (wx_LogsGrantKind r) then None
      else
        (case logsShapeScopes (wx_LogsGrant r) (wx_Audience r) of
           None \<Rightarrow> None
         | Some scopes \<Rightarrow>
             if length (wx_Scopes r) \<noteq> length scopes \<or> sort (wx_Scopes r) \<noteq> scopes then None
             else if installationOperation (wx_LogsGrant r)
             then (if wx_TenantID r = [] \<and> wx_LogsConfigUID r = [] \<and> wx_LogsConfigGeneration r = 0 then Some scopes else None)
             else if tenantIDPattern (wx_TenantID r) \<and> wx_LogsConfigUID r \<noteq> [] \<and> length (wx_LogsConfigUID r) \<le> 128 \<and>
                     wx_LogsConfigGeneration r > 0 then Some scopes
             else None))"

definition signLogsAssertion :: "('w, 'k) workloadService \<Rightarrow> int \<Rightarrow> string \<Rightarrow> string \<Rightarrow> string res" where
  "signLogsAssertion s now jti subject =
     signWorkload s
       [''iss'' \<mapsto> JStr (TrimSuffix (wi_issuer s) ''/''), ''aud'' \<mapsto> JStr logsAuthorityAudience, ''sub'' \<mapsto> JStr subject,
        ''jti'' \<mapsto> JStr jti, ''iat'' \<mapsto> GoInt (Unix now), ''nbf'' \<mapsto> GoInt (Unix now - 5),
        ''exp'' \<mapsto> GoInt (Unix now + 60)]"

definition logsBaseClaims ::
  "('w, 'k) workloadService \<Rightarrow> workloadExchangeReq \<Rightarrow> workloadSubject \<Rightarrow> int \<Rightarrow> int \<Rightarrow> string \<Rightarrow> claims" where
  "logsBaseClaims s r subject now ttl jti =
     [''iss'' \<mapsto> JStr (TrimSuffix (wi_issuer s) ''/''), ''aud'' \<mapsto> JStr (wx_Audience r),
      ''sub'' \<mapsto> JStr (CodeQBindingSubject (ws_ClusterRef subject) (ws_Namespace subject) (ws_ServiceAccount subject)
                          (ws_PodUID subject)),
      ''iat'' \<mapsto> GoInt (Unix now), ''exp'' \<mapsto> GoInt (Unix (now + ttl)), ''jti'' \<mapsto> JStr jti]"

definition collectorJson :: "workloadSubject \<Rightarrow> logsDecision \<Rightarrow> jval" where
  "collectorJson subject d =
     JObj [(''schemaVersion'', JStr CollectorVersion), (''installationId'', JStr (ld_InstallationID d)),
           (''clusterUID'', JStr (ld_ClusterUID d)), (''clusterRef'', JStr (ws_ClusterRef subject)),
           (''namespace'', JStr (ws_Namespace subject)), (''serviceAccountName'', JStr (ws_ServiceAccount subject)),
           (''serviceAccountUid'', JStr (ws_ServiceAccountUID subject)), (''podUid'', JStr (ws_PodUID subject)),
           (''grantUID'', JStr (ld_GrantUID d)), (''grantGeneration'', GoInt (ld_GrantGeneration d))]"

text \<open>The claims and the scopes of an installation grant.\<close>

definition installationClaims ::
  "workloadExchangeReq \<Rightarrow> workloadSubject \<Rightarrow> int \<Rightarrow> string list \<Rightarrow> logsDecision \<Rightarrow> claims \<Rightarrow> (claims \<times> string list) option" where
  "installationClaims r subject now scopes d c =
     (if wx_LogsGrant r = ''Resolve''
      then Some (c(''sub'' \<mapsto> JStr GatewaySubject, ''nbf'' \<mapsto> GoInt (Unix now - 5)), scopes)
      else if wx_LogsGrant r = ''Ingest''
      then Some (c(''scope'' \<mapsto> JStr ''logs:ingest'', ''logs_collector'' \<mapsto> collectorJson subject d), scopes)
      else if wx_LogsGrant r = ''CefasBootstrap'' \<or> wx_LogsGrant r = ''CefasRuntime''
      then Some (c(''aud'' \<mapsto> JStr logsStoreAudience, ''scope'' \<mapsto> JStr (JoinStr '' '' (StoreScopes (wx_LogsGrant r)))),
                 StoreScopes (wx_LogsGrant r))
      else None)"

definition logsTTL :: "'w managedLogsExchange \<Rightarrow> workloadExchangeReq \<Rightarrow> workloadSubject \<Rightarrow> int \<Rightarrow> int" where
  "logsTTL e r subject now =
     (let ttl = min (lx_TTL e) (subjectRemaining subject now) in
      if wx_LogsGrant r = ''Resolve'' then min ttl 60000000000 else ttl)"

definition logsBinding :: "workloadExchangeReq \<Rightarrow> logsDecision \<Rightarrow> queueBinding" where
  "logsBinding r d =
     \<lparr>qb_BindingUID = ld_GrantUID d, qb_Generation = ld_GrantGeneration d, qb_TopicID = ld_TopicID d,
      qb_TopicName = logsTopicName, qb_Policy = wx_LogsGrant r\<rparr>"

definition tenantGrant :: "workloadExchangeReq \<Rightarrow> bool" where
  "tenantGrant r \<longleftrightarrow> wx_LogsGrant r = ''Publish'' \<or> wx_LogsGrant r = ''Subscribe''"

definition issueLogsToken ::
  "('w, 'k) workloadService \<Rightarrow> 'w managedLogsExchange \<Rightarrow> workloadEnv \<Rightarrow> workloadSubject \<Rightarrow> workloadExchangeReq \<Rightarrow>
   string list \<Rightarrow> logsDecision \<Rightarrow> workloadExchangeResp wres" where
  "issueLogsToken s e E subject r scopes d =
     (let now = wholeSecond (we_now E 3); ttl = logsTTL e r subject now in
      if ttl < 30000000000 then Inl (Refused 401 ''SubjectTokenExpiring'' (we_uuid E 2) 0)
      else if tenantGrant r
      then (case signCodeQBindingToken s subject (wx_TenantID r) (wx_Audience r) scopes logsTopicName (logsBinding r d) now
                   ttl (we_uuid E 2) of
              Inl _ \<Rightarrow> Inl (Plain ErrWorkloadIdentityUnavailable)
            | Inr (raw, _, _) \<Rightarrow> Inr (workloadBearer raw ttl (wx_Audience r) scopes (wx_TenantID r) [logsTopicName]))
      else
        (case installationClaims r subject now scopes d (logsBaseClaims s r subject now ttl (we_uuid E 2)) of
           None \<Rightarrow> Inl (Plain ErrInvalidArgument)
         | Some (c, granted) \<Rightarrow>
             (case signWorkload s c of
                Inl e' \<Rightarrow> Inl (Plain e')
              | Inr raw \<Rightarrow> Inr (workloadBearer raw ttl (wx_Audience r) granted [] []))))"

text \<open>The tenant of a queue grant is active now; an installation grant names none.\<close>

definition logsTenantStep ::
  "'w managedLogsExchange \<Rightarrow> 'w \<Rightarrow> workloadEnv \<Rightarrow> workloadExchangeReq \<Rightarrow> (int \<times> string) option" where
  "logsTenantStep e w E r =
     (if \<not> tenantGrant r then None
      else (case lx_tenants e of
              None \<Rightarrow> Some (503, ''IdentityUnavailable'')
            | Some getRetained \<Rightarrow>
                (case getRetained w (wx_TenantID r) (we_now E 0) of
                   Inl _ \<Rightarrow> Some (503, ''IdentityUnavailable'')
                 | Inr ot \<Rightarrow> if \<not> activeTenant ot (wx_TenantID r) (we_now E 1) then Some (403, ''TenantInactive'') else None)))"

definition logsRequestFor :: "workloadExchangeReq \<Rightarrow> workloadSubject \<Rightarrow> string \<Rightarrow> logsRequest" where
  "logsRequestFor r subject requestID =
     \<lparr>lq_SchemaVersion = logsVersion, lq_RequestID = requestID, lq_Operation = wx_LogsGrant r,
      lq_GrantKind = wx_LogsGrantKind r,
      lq_Identity = \<lparr>li_ClusterRef = ws_ClusterRef subject, li_Namespace = ws_Namespace subject,
        li_ServiceAccountName = ws_ServiceAccount subject, li_ServiceAccountUID = ws_ServiceAccountUID subject,
        li_PodUID = ws_PodUID subject\<rparr>,
      lq_TenantID = wx_TenantID r, lq_ConfigUID = wx_LogsConfigUID r, lq_ConfigGeneration = wx_LogsConfigGeneration r\<rparr>"

definition logsAuthorised ::
  "('w, 'k) workloadService \<Rightarrow> 'w managedLogsExchange \<Rightarrow> 'w \<Rightarrow> workloadEnv \<Rightarrow> workloadSubject \<Rightarrow> workloadExchangeReq \<Rightarrow>
   string list \<Rightarrow> workloadExchangeResp wres" where
  "logsAuthorised s e w E subject r scopes =
     (let request = logsRequestFor r subject (we_uuid E 0) in
      case signLogsAssertion s (we_now E 2) (we_uuid E 1) logsAuthoritySubject of
        Inl _ \<Rightarrow> Inl (Refused 503 ''IdentityUnavailable'' (we_uuid E 1) 0)
      | Inr assertion \<Rightarrow>
          (case the (lx_authority e) w request assertion of
             Inl _ \<Rightarrow> Inl (Refused 503 ''LogsAuthorityUnavailable'' (we_uuid E 2) 0)
           | Inr d \<Rightarrow>
               if \<not> logsValidDecision request d then Inl (Refused 503 ''LogsAuthorityUnavailable'' (we_uuid E 2) 0)
               else if \<not> ld_Allowed d then Inl (Refused 403 ''LogsGrantDenied'' (we_uuid E 2) 0)
               else issueLogsToken s e E subject r scopes d))"

definition boundLogsSubject :: "workloadSubject \<Rightarrow> bool" where
  "boundLogsSubject subject \<longleftrightarrow>
     canonicalSubject subject \<and> ValidWorkloadClusterRef (ws_ClusterRef subject) \<and>
     ValidCanonicalUUID (ws_ServiceAccountUID subject) \<and> ValidCanonicalUUID (ws_PodUID subject) \<and>
     ws_ExpiresAt subject \<noteq> None"

definition exchangeManagedLogs ::
  "('w, 'k) workloadService \<Rightarrow> 'w \<Rightarrow> workloadLimiters \<Rightarrow> workloadEnv \<Rightarrow> workloadExchangeReq \<Rightarrow>
   workloadExchangeResp wres \<times> workloadLimiters" where
  "exchangeManagedLogs s w l E r =
     (let refuse = (\<lambda>status code. Inl (Refused status code (we_uuid E 0) 0)) in
      case wi_managedLogs s of
        None \<Rightarrow> (refuse 403 ''LogsFeatureDisabled'', l)
      | Some e \<Rightarrow>
          if \<not> lx_Enabled e then (refuse 403 ''LogsFeatureDisabled'', l)
          else
            (case logsExchangeShape r of
               None \<Rightarrow> (refuse 400 ''LogsInvalidRequest'', l)
             | Some scopes \<Rightarrow>
                 if lx_authority e = None \<or> lx_slots e = None \<or> \<not> lx_limited e \<or> lx_TTL e < 30000000000 \<or>
                    lx_TTL e > 300000000000 then (refuse 503 ''LogsAuthorityUnavailable'', l)
                 else
                   (case VerifyProjectedToken s w (wx_SubjectToken r) of
                      Inl err \<Rightarrow>
                        if errors_Is err ErrWorkloadTokenInvalid then (refuse 401 ''SubjectTokenInvalid'', l)
                        else (refuse 503 ''IdentityUnavailable'', l)
                    | Inr subject \<Rightarrow>
                        if \<not> boundLogsSubject subject then (refuse 401 ''UnboundSubjectToken'', l)
                        else
                          (case logsTenantStep e w E r of
                             Some (status, code) \<Rightarrow> (refuse status code, l)
                           | None \<Rightarrow>
                               (let ((allowed, retry), lim) = Allow (wl_logs l) (we_limiterNow E) (subjectKey subject);
                                    l' = l\<lparr>wl_logs := lim\<rparr> in
                                if \<not> allowed then (Inl (Refused 429 ''LogsRateLimited'' (we_uuid E 0) retry), l')
                                else if \<not> the (lx_slots e) w then (refuse 503 ''LogsAuthorityBusy'', l')
                                else (logsAuthorised s e w E subject r scopes, l'))))))"

section \<open>The dispatch\<close>

definition plainly :: "'a res \<Rightarrow> 'a wres" where
  "plainly r = (case r of Inl e \<Rightarrow> Inl (Plain e) | Inr x \<Rightarrow> Inr x)"

definition Exchange ::
  "('w, 'k) workloadService \<Rightarrow> 'w \<Rightarrow> workloadLimiters \<Rightarrow> workloadEnv \<Rightarrow> workloadExchangeReq \<Rightarrow>
   workloadExchangeResp wres \<times> workloadLimiters" where
  "Exchange s w l E req =
     (if wx_AIGrant req \<noteq> [] \<or> wx_UserToken req \<noteq> [] \<or>
         reservedAIAudience (wi_unicode s) (wi_aiGateway s) (wx_Audience req) \<or> RuntimeScope \<in> set (wx_Scopes req)
      then (case exchangeAIWorkload s w l E req of (r, l') \<Rightarrow> (plainly r, l'))
      else if wx_LogsGrant req \<noteq> [] then exchangeManagedLogs s w l E req
      else if wx_LogsGrantKind req \<noteq> [] \<or> wx_LogsConfigUID req \<noteq> [] \<or> wx_LogsConfigGeneration req \<noteq> 0
      then (Inl (Plain ErrInvalidArgument), l)
      else if wx_CodeQTopicID req \<noteq> []
      then (case exchangeCodeQBinding s w l E req of ((r, _), l') \<Rightarrow> (r, l'))
      else if TrimSpace (wx_SubjectToken req) = [] \<or> wx_SubjectTokenType req \<noteq> WorkloadSubjectTokenType
      then (Inl (Plain ErrWorkloadTokenInvalid), l)
      else if CodeQTopicManageScope \<in> set (normalizedWorkloadScopes (wx_Scopes req))
      then (plainly (exchangeCodeQTopic s w E req), l)
      else if reservedTrinoAudience (wi_unicode s) (wx_Audience req)
      then (plainly (exchangeTrinoWorkload s w E req), l)
      else (plainly (exchangeLegacy s w E req), l))"

section \<open>Options\<close>

text \<open>\<open>slotFree\<close> is whether the channel of \<^verbatim>\<open>MaximumConcurrent\<close> slots has room.\<close>

definition WithCodeQBindingExchange ::
  "bool \<Rightarrow> int \<Rightarrow> int \<Rightarrow> int \<Rightarrow> ('w \<Rightarrow> bool) \<Rightarrow>
   ('w \<Rightarrow> authorityRequest \<Rightarrow> string \<Rightarrow> (string \<times> int) + authorityDecision) option \<Rightarrow> 'w retainedReader option \<Rightarrow>
   ('w, 'k) workloadService \<times> workloadLimiters \<Rightarrow> ('w, 'k) workloadService \<times> workloadLimiters" where
  "WithCodeQBindingExchange enabled ttl maximumConcurrent perMinute slotFree authority tenants sl =
     (let (s, l) = sl;
          x = \<lparr>cx_enabled = enabled, cx_ttl = ttl, cx_authority = authority, cx_tenants = tenants,
               cx_limited = (perMinute > 0), cx_inflight = (if maximumConcurrent > 0 then Some slotFree else None)\<rparr> in
      (s\<lparr>wi_codeqBindings := Some x\<rparr>,
       if perMinute > 0 then l\<lparr>wl_codeq := NewIdentityRateLimiter perMinute 60000000000\<rparr> else l))"

definition WithManagedLogs ::
  "bool \<Rightarrow> int \<Rightarrow> int \<Rightarrow> int \<Rightarrow> ('w \<Rightarrow> bool) \<Rightarrow> ('w \<Rightarrow> logsRequest \<Rightarrow> string \<Rightarrow> logsDecision res) option \<Rightarrow>
   'w retainedReader option \<Rightarrow>
   ('w, 'k) workloadService \<times> workloadLimiters \<Rightarrow> ('w, 'k) workloadService \<times> workloadLimiters" where
  "WithManagedLogs enabled ttl maximumConcurrent perMinute slotFree authority tenants sl =
     (let (s, l) = sl;
          limited = (perMinute > 0 \<and> perMinute \<le> 60);
          e = \<lparr>lx_Enabled = enabled, lx_TTL = ttl, lx_authority = authority, lx_tenants = tenants,
               lx_slots = (if maximumConcurrent > 0 \<and> maximumConcurrent \<le> 32 then Some slotFree else None),
               lx_limited = limited\<rparr> in
      (s\<lparr>wi_managedLogs := Some e\<rparr>,
       if limited then l\<lparr>wl_logs := NewIdentityRateLimiter perMinute 60000000000\<rparr> else l))"

definition WithWorkloadAIGateway ::
  "aiGatewayConfig \<Rightarrow> ('w \<Rightarrow> string \<Rightarrow> aiPrincipal res) option \<Rightarrow> ('w \<Rightarrow> string \<Rightarrow> int \<Rightarrow> tenant option res) option \<Rightarrow>
   ('w \<Rightarrow> bool) \<Rightarrow> ('w \<Rightarrow> string \<Rightarrow> aiClaims res) option \<Rightarrow>
   ('w, 'k) workloadService \<times> workloadLimiters \<Rightarrow> ('w, 'k) workloadService \<times> workloadLimiters" where
  "WithWorkloadAIGateway cfg authority tenants slotFree users sl =
     (let (s, l) = sl; e = newAIGatewayExchange cfg authority tenants slotFree in
      (s\<lparr>wi_aiGateway := Some e, wi_aiUsers := users\<rparr>,
       if ax_limiter e then l\<lparr>wl_ai := NewIdentityRateLimiter (agc_PerIdentityPerMinute cfg) 60000000000\<rparr> else l))"

end
