(* ===== verification/AI_Identity.thy ===== *)
theory AI_Identity
  imports Workload_Grants Role_Service
begin

text \<open>
  The AI identity records of a tenant, \<^verbatim>\<open>internal/services/ai_gateway_identity.go\<close>: activation raises the console
  ceiling, ensures two roles, assigns the administrator and only then writes the audience that marks the feature
  active; deactivation marks it inactive. The four stores are the interfaces the service calls, over a world that the
  calls change; an absent one is \<^term>\<open>None\<close>. The repositories behind them return a record with every success, so
  the nil checks of the code on a stored record have no counterpart except where nil is an answer.
\<close>

section \<open>The service\<close>

record 'w aiClientStore =
  cs_ensure :: "'w \<Rightarrow> string \<Rightarrow> client \<Rightarrow> (client \<times> bool) res \<times> 'w"
  cs_setStatus :: "'w \<Rightarrow> string \<Rightarrow> string \<Rightarrow> string \<Rightarrow> string \<Rightarrow> (client option \<times> bool) res \<times> 'w"
  cs_raise :: "'w \<Rightarrow> string \<Rightarrow> string list \<Rightarrow> (client \<times> bool) res \<times> 'w"

text \<open>\<open>gi_assignments i\<close> is the \<open>i\<close>-th call of \<^verbatim>\<open>AddExactUserRole\<close>: other clients act differently during each.\<close>

record 'w aiIdentityService =
  gi_policy :: policy
  gi_tenants :: "('w \<Rightarrow> string \<Rightarrow> tenant option res) option"
  gi_roles :: "('w \<Rightarrow> string \<Rightarrow> string \<Rightarrow> string list \<Rightarrow> (roleResp \<times> bool) res \<times> 'w) option"
  gi_clients :: "'w aiClientStore option"
  gi_assignments :: "(nat \<Rightarrow> 'w \<Rightarrow> string \<Rightarrow> string \<Rightarrow> string \<Rightarrow> string list \<Rightarrow> (accessAssignment \<times> bool) res \<times> 'w) option"
  gi_now :: int

record aiIdentityResp =
  gr_TenantId :: string
  gr_Client :: managedAudienceClientResp
  gr_Roles :: "roleResp list"
  gr_PrincipalId :: string
  gr_Role :: string

record aiDeactivationResp =
  gd_TenantId :: string
  gd_ClientId :: string
  gd_Status :: string

text \<open>A failure carries the stage it happened in.\<close>

type_synonym 'a staged = "(string \<times> gerror) + 'a"

definition stageError :: "string \<Rightarrow> gerror \<Rightarrow> 'a staged" where
  "stageError stage e = Inl (stage, if IsStoredRoleContractMismatch e then ErrRoleConflict else e)"

definition AIGatewayClientScopes :: "string list" where
  "AIGatewayClientScopes = [InvokeScope, ModelsScope, UsageScope]"

definition AIGatewayAdminRole :: "string \<Rightarrow> string" where
  "AIGatewayAdminRole tenantID = tenantID @ ''-ai-admin''"

definition AIGatewayRoleDefinitions :: "string \<Rightarrow> roleResp list" where
  "AIGatewayRoleDefinitions tenantID =
     [\<lparr>rr_Name = AIGatewayAdminRole tenantID,
       rr_Permissions = [''code-admin:ai:read'', ''code-admin:ai:write'', InvokeScope, ModelsScope]\<rparr>,
      \<lparr>rr_Name = tenantID @ ''-ai-user'', rr_Permissions = [''code-admin:ai:read'', InvokeScope, ModelsScope]\<rparr>]"

definition AIGatewayConsoleCeilingScopes :: "string list" where
  "AIGatewayConsoleCeilingScopes = [''code-admin:ai:read'', ''code-admin:ai:write'']"

section \<open>The steps of an activation\<close>

definition raiseConsoleCeiling :: "policy \<Rightarrow> 'w aiClientStore \<Rightarrow> 'w \<Rightarrow> string \<Rightarrow> bool res \<times> 'w" where
  "raiseConsoleCeiling P cs w tenantID =
     (let scopes = AIGatewayConsoleCeilingScopes in
      if list_ex (\<lambda>sc. \<not> TenantRoleAssignable P sc \<or> sc = ''code-admin:ai:platform'' \<or> sc = RuntimeScope) scopes
      then (Inl ErrInvalidArgument, w)
      else
        (case cs_raise cs w tenantID scopes of
           (Inl e, w') \<Rightarrow> (Inl (if errors_Is e ErrManagedClientConflict then ErrManagedClientConflict else e), w')
         | (Inr (stored, changed), w') \<Rightarrow>
             if \<not> IsManagedCodeAdminAudience tenantID (Some stored) \<and> \<not> IsBootstrapLegacyCodeAdminAudience tenantID (Some stored)
             then (Inl ErrManagedClientConflict, w')
             else if \<not> list_all (\<lambda>sc. sc \<in> set (c_DefaultScopes stored)) scopes then (Inl ErrManagedClientConflict, w')
             else (Inr changed, w')))"

text \<open>The policy check of the code on its own role definitions, then the creation of each role.\<close>

fun ensureRoles ::
  "policy \<Rightarrow> ('w \<Rightarrow> string \<Rightarrow> string \<Rightarrow> string list \<Rightarrow> (roleResp \<times> bool) res \<times> 'w) \<Rightarrow> string \<Rightarrow> roleResp list \<Rightarrow> 'w \<Rightarrow>
   (roleResp list \<times> bool) staged \<times> 'w" where
  "ensureRoles P create tenantID [] w = (Inr ([], False), w)"
| "ensureRoles P create tenantID (r # rs) w =
     (case CanonicalPermissions P (rr_Permissions r) of
        None \<Rightarrow> (stageError ''roles'' ErrInvalidArgument, w)
      | Some permissions \<Rightarrow>
          if permissions \<noteq> rr_Permissions r \<or> ''code-admin:ai:platform'' \<in> set permissions \<or> RuntimeScope \<in> set permissions
          then (stageError ''roles'' ErrInvalidArgument, w)
          else
            (case create w tenantID (rr_Name r) permissions of
               (Inl e, w') \<Rightarrow> (stageError ''roles'' e, w')
             | (Inr (stored, created), w') \<Rightarrow>
                 if rr_Name stored \<noteq> rr_Name r \<or> rr_Permissions stored \<noteq> permissions
                 then (stageError ''roles'' ErrRoleConflict, w')
                 else
                   (case ensureRoles P create tenantID rs w' of
                      (Inl e, w'') \<Rightarrow> (Inl e, w'')
                    | (Inr (out, more_created), w'') \<Rightarrow> (Inr (stored # out, created \<or> more_created), w''))))"

abbreviation aiGatewayAssignmentAttempts :: nat where "aiGatewayAssignmentAttempts \<equiv> 4"

fun assignAttempts ::
  "(nat \<Rightarrow> 'w \<Rightarrow> string \<Rightarrow> string \<Rightarrow> string \<Rightarrow> string list \<Rightarrow> (accessAssignment \<times> bool) res \<times> 'w) \<Rightarrow> nat \<Rightarrow> nat \<Rightarrow> 'w \<Rightarrow>
   string \<Rightarrow> string \<Rightarrow> roleResp \<Rightarrow> bool res \<times> 'w" where
  "assignAttempts add i 0 w tenantID userID r = (Inl ErrVersionConflict, w)"
| "assignAttempts add i (Suc left) w tenantID userID r =
     (case add i w tenantID userID (rr_Name r) (rr_Permissions r) of
        (Inl e, w') \<Rightarrow>
          if errors_Is e ErrVersionConflict then assignAttempts add (Suc i) left w' tenantID userID r
          else if errors_Is e ErrNotFound \<or> errors_Is e ErrInvalidTenant \<or> errors_Is e ErrInvalidArgument
          then (Inl ErrAIGatewayAdministrator, w')
          else (Inl e, w')
      | (Inr (stored, changed), w') \<Rightarrow>
          if a_TenantID stored \<noteq> tenantID \<or> a_PrincipalType stored \<noteq> AccessPrincipalUser \<or> a_PrincipalID stored \<noteq> userID \<or>
             rr_Name r \<notin> set (a_Roles stored)
          then (Inl ErrDirectoryInvariant, w')
          else (Inr changed, w'))"

definition assignAdministrator ::
  "(nat \<Rightarrow> 'w \<Rightarrow> string \<Rightarrow> string \<Rightarrow> string \<Rightarrow> string list \<Rightarrow> (accessAssignment \<times> bool) res \<times> 'w) \<Rightarrow> 'w \<Rightarrow>
   string \<Rightarrow> string \<Rightarrow> roleResp \<Rightarrow> bool res \<times> 'w" where
  "assignAdministrator add w tenantID userID r =
     (if rr_Name r \<noteq> AIGatewayAdminRole tenantID then (Inl ErrInvalidArgument, w)
      else assignAttempts add 0 aiGatewayAssignmentAttempts w tenantID userID r)"

definition aiAudienceFor :: "string \<Rightarrow> client" where
  "aiAudienceFor tenantID =
     \<lparr>c_Id = AIGatewayAudienceClientID, c_TenantId = tenantID, c_SecretHash = [], c_Type = ClientTypeService,
      c_AllowedGrantTypes = [GrantTypeTokenExchange], c_DefaultScopes = AIGatewayClientScopes,
      c_Status = ClientStatusActive, c_ManagedBy = AIGatewayAudienceClientManager\<rparr>"

text \<open>The last step: the audience, whose active presence is the activation.\<close>

definition activateAudience :: "'w aiClientStore \<Rightarrow> 'w \<Rightarrow> string \<Rightarrow> (client \<times> bool) staged \<times> 'w" where
  "activateAudience cs w tenantID =
     (case cs_ensure cs w tenantID (aiAudienceFor tenantID) of
        (Inl e, w') \<Rightarrow> (stageError ''audience'' (if errors_Is e ErrManagedClientConflict then ErrManagedClientConflict else e), w')
      | (Inr (stored, created), w') \<Rightarrow>
          if \<not> IsManagedAIGatewayAudience tenantID (Some stored) \<or> c_DefaultScopes stored \<noteq> AIGatewayClientScopes
          then (stageError ''audience'' ErrManagedClientConflict, w')
          else (Inr (stored, created), w'))"

definition identityResp :: "string \<Rightarrow> string \<Rightarrow> roleResp list \<Rightarrow> client \<Rightarrow> aiIdentityResp" where
  "identityResp tenantID administratorID roles c =
     \<lparr>gr_TenantId = tenantID,
      gr_Client = \<lparr>mac_ClientId = c_Id c, mac_TenantId = c_TenantId c, mac_Type = c_Type c,
        mac_AllowedGrantTypes = c_AllowedGrantTypes c, mac_DefaultScopes = c_DefaultScopes c, mac_Status = c_Status c\<rparr>,
      gr_Roles = roles, gr_PrincipalId = administratorID, gr_Role = AIGatewayAdminRole tenantID\<rparr>"

section \<open>Activation and deactivation\<close>

definition activateTenant ::
  "'w aiIdentityService \<Rightarrow> ('w \<Rightarrow> string \<Rightarrow> string \<Rightarrow> string list \<Rightarrow> (roleResp \<times> bool) res \<times> 'w) \<Rightarrow> 'w aiClientStore \<Rightarrow>
   (nat \<Rightarrow> 'w \<Rightarrow> string \<Rightarrow> string \<Rightarrow> string \<Rightarrow> string list \<Rightarrow> (accessAssignment \<times> bool) res \<times> 'w) \<Rightarrow>
   'w \<Rightarrow> string \<Rightarrow> string \<Rightarrow> (aiIdentityResp \<times> bool) staged \<times> 'w" where
  "activateTenant s create cs add w tenantID administratorID =
     (case raiseConsoleCeiling (gi_policy s) cs w tenantID of
        (Inl e, w1) \<Rightarrow> (stageError ''ceiling'' e, w1)
      | (Inr raised, w1) \<Rightarrow>
          (case ensureRoles (gi_policy s) create tenantID (AIGatewayRoleDefinitions tenantID) w1 of
             (Inl e, w2) \<Rightarrow> (Inl e, w2)
           | (Inr (roles, rolesCreated), w2) \<Rightarrow>
               (case find (\<lambda>r. rr_Name r = AIGatewayAdminRole tenantID) roles of
                  None \<Rightarrow> (stageError ''roles'' ErrRoleConflict, w2)
                | Some admin \<Rightarrow>
                    (case assignAdministrator add w2 tenantID administratorID admin of
                       (Inl e, w3) \<Rightarrow> (stageError ''assignment'' e, w3)
                     | (Inr assigned, w3) \<Rightarrow>
                         (case activateAudience cs w3 tenantID of
                            (Inl e, w4) \<Rightarrow> (Inl e, w4)
                          | (Inr (c, clientCreated), w4) \<Rightarrow>
                              (Inr (identityResp tenantID administratorID roles c,
                                 raised \<or> rolesCreated \<or> assigned \<or> clientCreated), w4))))))"

definition EnsureAIIdentity ::
  "'w aiIdentityService \<Rightarrow> 'w \<Rightarrow> string \<Rightarrow> string \<Rightarrow> (aiIdentityResp \<times> bool) staged \<times> 'w" where
  "EnsureAIIdentity s w tenantID administratorID =
     (case (gi_tenants s, gi_roles s, gi_clients s, gi_assignments s) of
        (Some getTenant, Some create, Some cs, Some add) \<Rightarrow>
          if TrimSpace administratorID \<noteq> administratorID \<or> administratorID = []
          then (stageError ''request'' ErrAIGatewayAdministrator, w)
          else if \<not> validRoleTenantID tenantID \<or> tenantID = RetiredDefaultTenantID
          then (stageError ''request'' ErrInvalidTenant, w)
          else
            (case getTenant w tenantID of
               Inl e \<Rightarrow> (stageError ''tenant'' e, w)
             | Inr ot \<Rightarrow>
                 if \<not> activeTenant ot tenantID (gi_now s) then (stageError ''tenant'' ErrInvalidTenant, w)
                 else activateTenant s create cs add w tenantID administratorID)
      | _ \<Rightarrow> (stageError ''request'' ErrAuthenticationUnavailable, w))"

definition DeactivateAIIdentity ::
  "'w aiIdentityService \<Rightarrow> 'w \<Rightarrow> string \<Rightarrow> (aiDeactivationResp \<times> bool) res \<times> 'w" where
  "DeactivateAIIdentity s w tenantID =
     (case (gi_tenants s, gi_clients s) of
        (Some getTenant, Some cs) \<Rightarrow>
          if \<not> validRoleTenantID tenantID \<or> tenantID = RetiredDefaultTenantID then (Inl ErrInvalidTenant, w)
          else
            (case getTenant w tenantID of
               Inl e \<Rightarrow> (Inl e, w)
             | Inr ot \<Rightarrow>
                 if (case ot of None \<Rightarrow> True | Some t \<Rightarrow> t_Id t \<noteq> tenantID) then (Inl ErrInvalidTenant, w)
                 else
                   let out = \<lparr>gd_TenantId = tenantID, gd_ClientId = AIGatewayAudienceClientID, gd_Status = ''ABSENT''\<rparr> in
                   (case cs_setStatus cs w tenantID AIGatewayAudienceClientID AIGatewayAudienceClientManager
                           ClientStatusInactive of
                      (Inl e, w') \<Rightarrow> (Inl e, w')
                    | (Inr (None, _), w') \<Rightarrow> (Inr (out, False), w')
                    | (Inr (Some stored, changed), w') \<Rightarrow>
                        if \<not> IsManagedAIGatewayAudienceRecord tenantID (Some stored) \<or> c_Status stored \<noteq> ClientStatusInactive
                        then (Inl ErrManagedClientConflict, w')
                        else (Inr (out\<lparr>gd_Status := c_Status stored\<rparr>, changed), w')))
      | _ \<Rightarrow> (Inl ErrAuthenticationUnavailable, w))"

section \<open>Activation comes last\<close>

text \<open>\<open>preserves P f\<close>: whatever the call answers, \<open>P\<close> still holds after it.\<close>

definition preserves :: "('w \<Rightarrow> bool) \<Rightarrow> ('w \<Rightarrow> 'a \<times> 'w) \<Rightarrow> bool" where
  "preserves P f \<longleftrightarrow> (\<forall>v. P v \<longrightarrow> P (snd (f v)))"

lemma preservesD: "preserves P f \<Longrightarrow> P v \<Longrightarrow> f v = (r, v') \<Longrightarrow> P v'"
  unfolding preserves_def by (metis snd_conv)

lemma stageError_not_Inr [simp]: "stageError st e \<noteq> Inr x"
  by (auto simp: stageError_def)

lemma raiseConsoleCeiling_keeps:
  assumes "raiseConsoleCeiling Q cs w t = (r, w')" "P w" "\<And>sc. preserves P (\<lambda>v. cs_raise cs v t sc)"
  shows "P w'"
  using assms(1,2) preservesD [OF assms(3)]
  by (auto simp: raiseConsoleCeiling_def Let_def split: if_split_asm prod.splits sum.splits)

lemma ensureRoles_keeps:
  assumes "ensureRoles Q create t rs w = (r, w')" "P w" "\<And>n ps. preserves P (\<lambda>v. create v t n ps)"
  shows "P w'"
  using assms(1,2)
proof (induction rs arbitrary: w r w')
  case (Cons a rs)
  from Cons.prems preservesD [OF assms(3)] show ?case
    by (auto split: option.splits if_split_asm prod.splits sum.splits dest: Cons.IH)
qed simp

lemma ensureRoles_exact: "ensureRoles Q create t rs w = (Inr (out, b), w') \<Longrightarrow> out = (rs :: roleResp list)"
proof (induction rs arbitrary: w out b w')
  case (Cons a rs)
  from Cons.prems show ?case
    by (auto split: option.splits if_split_asm prod.splits sum.splits dest: Cons.IH intro!: roleResp.equality)
qed simp

text \<open>The roles were created, or already stood, exactly as defined: every call answered with its definition.\<close>

fun rolesStand ::
  "('w \<Rightarrow> string \<Rightarrow> string \<Rightarrow> string list \<Rightarrow> (roleResp \<times> bool) res \<times> 'w) \<Rightarrow> string \<Rightarrow> roleResp list \<Rightarrow> 'w \<Rightarrow> 'w \<Rightarrow> bool" where
  "rolesStand create t [] w w' \<longleftrightarrow> w' = w"
| "rolesStand create t (r # rs) w w' \<longleftrightarrow>
     (\<exists>b v. create w t (rr_Name r) (rr_Permissions r) = (Inr (r, b), v) \<and> rolesStand create t rs v w')"

lemma ensureRoles_stand: "ensureRoles Q create t rs w = (Inr (out, b), w') \<Longrightarrow> rolesStand create t rs w w'"
proof (induction rs arbitrary: w out b)
  case (Cons a rs)
  from Cons.prems obtain stored created v out' b' where
    c: "create w t (rr_Name a) (rr_Permissions a) = (Inr (stored, created), v)"
      "rr_Name stored = rr_Name a" "rr_Permissions stored = rr_Permissions a"
    and rest: "ensureRoles Q create t rs v = (Inr (out', b'), w')"
    by (auto simp: stageError_def split: option.splits if_split_asm prod.splits sum.splits)
  from c(2,3) have "stored = a" by (auto intro!: roleResp.equality)
  with c(1) Cons.IH [OF rest] show ?case by auto
qed simp

text \<open>The administrator holds the role: one of the four attempts stored an assignment with it.\<close>

definition administratorAssigned ::
  "(nat \<Rightarrow> 'w \<Rightarrow> string \<Rightarrow> string \<Rightarrow> string \<Rightarrow> string list \<Rightarrow> (accessAssignment \<times> bool) res \<times> 'w) \<Rightarrow>
   string \<Rightarrow> string \<Rightarrow> roleResp \<Rightarrow> 'w \<Rightarrow> bool" where
  "administratorAssigned add t u r w' \<longleftrightarrow>
     (\<exists>i v stored changed. i < aiGatewayAssignmentAttempts \<and>
        add i v t u (rr_Name r) (rr_Permissions r) = (Inr (stored, changed), w') \<and>
        a_TenantID stored = t \<and> a_PrincipalType stored = AccessPrincipalUser \<and> a_PrincipalID stored = u \<and>
        rr_Name r \<in> set (a_Roles stored))"

lemma assignAttempts_Inr:
  "assignAttempts add i n w t u r = (Inr b, w') \<Longrightarrow> i + n \<le> aiGatewayAssignmentAttempts \<Longrightarrow> administratorAssigned add t u r w'"
proof (induction n arbitrary: i w)
  case (Suc n)
  obtain z v where a: "add i w t u (rr_Name r) (rr_Permissions r) = (z, v)" by force
  show ?case
  proof (cases z)
    case (Inl e)
    with a Suc show ?thesis by (auto split: if_split_asm)
  next
    case (Inr x)
    with a Suc.prems show ?thesis unfolding administratorAssigned_def
      by (cases x) (auto split: if_split_asm intro!: exI [of _ i] exI [of _ w])
  qed
qed simp

lemma ensureRoles_stage:
  "ensureRoles Q create t rs w = (Inl (stage, e), w') \<Longrightarrow> stage = ''roles''"
proof (induction rs arbitrary: w w')
  case (Cons a rs)
  from Cons.prems show ?case
    by (auto simp: stageError_def split: option.splits if_split_asm prod.splits sum.splits dest: Cons.IH)
qed simp

lemma assignAttempts_keeps:
  assumes "assignAttempts add i n w t u r = (z, w')" "P w" "\<And>j m ps. preserves P (\<lambda>v. add j v t u m ps)"
  shows "P w'"
  using assms(1,2)
proof (induction n arbitrary: i w)
  case (Suc n)
  from Suc.prems preservesD [OF assms(3)] show ?case
    by (auto split: if_split_asm prod.splits sum.splits dest: Suc.IH)
qed simp

lemma assignAdministrator_keeps:
  assumes "assignAdministrator add w t u r = (z, w')" "P w" "\<And>j m ps. preserves P (\<lambda>v. add j v t u m ps)"
  shows "P w'"
  using assms(1,2) assignAttempts_keeps [where P = P and add = add and w = w and t = t and u = u] assms(3)
  unfolding assignAdministrator_def by (auto split: if_split_asm)

lemma activateAudience_Inr:
  assumes "activateAudience cs w t = (Inr (c, b), w')"
  shows "cs_ensure cs w t (aiAudienceFor t) = (Inr (c, b), w') \<and> IsManagedAIGatewayAudience t (Some c) \<and>
    c_DefaultScopes c = AIGatewayClientScopes"
  using assms by (auto simp: activateAudience_def stageError_def split: if_split_asm prod.splits sum.splits)

lemma activateAudience_stage: "activateAudience cs w t = (Inl (stage, e), w') \<Longrightarrow> stage = ''audience''"
  by (auto simp: activateAudience_def stageError_def split: if_split_asm prod.splits sum.splits)

text \<open>The calls of an activation that come before the audience.\<close>

definition earlierKeep :: "('w \<Rightarrow> bool) \<Rightarrow> 'w aiIdentityService \<Rightarrow> string \<Rightarrow> string \<Rightarrow> bool" where
  "earlierKeep P s t a \<longleftrightarrow>
     (\<forall>cs sc. gi_clients s = Some cs \<longrightarrow> preserves P (\<lambda>v. cs_raise cs v t sc)) \<and>
     (\<forall>create n ps. gi_roles s = Some create \<longrightarrow> preserves P (\<lambda>v. create v t n ps)) \<and>
     (\<forall>add i n ps. gi_assignments s = Some add \<longrightarrow> preserves P (\<lambda>v. add i v t a n ps))"

lemma activateTenant_last:
  assumes "activateTenant s create cs add w t a = (r, w')" "P w"
    and "\<And>sc. preserves P (\<lambda>v. cs_raise cs v t sc)" "\<And>n ps. preserves P (\<lambda>v. create v t n ps)"
    and "\<And>i n ps. preserves P (\<lambda>v. add i v t a n ps)"
  shows "case r of
      Inl (stage, e) \<Rightarrow> stage = ''audience'' \<or> P w'
    | Inr (resp, b) \<Rightarrow> \<exists>w1 w2 v admin c cb raised assigned. raiseConsoleCeiling (gi_policy s) cs w t = (Inr raised, w1) \<and>
        rolesStand create t (AIGatewayRoleDefinitions t) w1 w2 \<and>
        find (\<lambda>x. rr_Name x = AIGatewayAdminRole t) (AIGatewayRoleDefinitions t) = Some admin \<and>
        assignAdministrator add w2 t a admin = (Inr assigned, v) \<and> administratorAssigned add t a admin v \<and> P v \<and>
        cs_ensure cs v t (aiAudienceFor t) = (Inr (c, cb), w') \<and> IsManagedAIGatewayAudience t (Some c) \<and> c_DefaultScopes c = AIGatewayClientScopes \<and>
        gr_Roles resp = AIGatewayRoleDefinitions t \<and> gr_PrincipalId resp = a"
proof -
  obtain z1 w1 where 1: "raiseConsoleCeiling (gi_policy s) cs w t = (z1, w1)" by force
  have P1: "P w1" by (rule raiseConsoleCeiling_keeps [OF 1 assms(2,3)])
  obtain z2 w2 where 2: "ensureRoles (gi_policy s) create t (AIGatewayRoleDefinitions t) w1 = (z2, w2)" by force
  have P2: "P w2" by (rule ensureRoles_keeps [OF 2 P1 assms(4)])
  show ?thesis
  proof (cases z1)
    case (Inr raised)
    show ?thesis
    proof (cases z2)
      case z2: (Inr out)
      obtain roles rb where out: "out = (roles, rb)" by force
      have roles: "roles = AIGatewayRoleDefinitions t" by (rule ensureRoles_exact [OF 2 [unfolded z2 out]])
      note stand = ensureRoles_stand [OF 2 [unfolded z2 out]]
      obtain admin where admin: "find (\<lambda>r. rr_Name r = AIGatewayAdminRole t) roles = Some admin"
        by (simp add: roles AIGatewayRoleDefinitions_def)
      obtain z3 w3 where 3: "assignAdministrator add w2 t a admin = (z3, w3)" by force
      obtain z4 w4 where 4: "activateAudience cs w3 t = (z4, w4)" by force
      have P3: "P w3" by (rule assignAdministrator_keeps [OF 3 P2 assms(5)])
      have "activateTenant s create cs add w t a =
          (case z3 of Inl e \<Rightarrow> (stageError ''assignment'' e, w3)
           | Inr assigned \<Rightarrow> (case z4 of Inl e \<Rightarrow> (Inl e, w4)
             | Inr (c, cb) \<Rightarrow> (Inr (identityResp t a roles c, raised \<or> rb \<or> assigned \<or> cb), w4)))"
        by (simp add: activateTenant_def 1 Inr 2 z2 out admin 3 4 split: sum.split)
      then have run: "(r, w') = (case z3 of Inl e \<Rightarrow> (stageError ''assignment'' e, w3)
           | Inr assigned \<Rightarrow> (case z4 of Inl e \<Rightarrow> (Inl e, w4)
             | Inr (c, cb) \<Rightarrow> (Inr (identityResp t a roles c, raised \<or> rb \<or> assigned \<or> cb), w4)))"
        using assms(1) by simp
      show ?thesis
      proof (cases z3)
        case (Inl e)
        with run P3 show ?thesis by (simp add: stageError_def)
      next
        case z3: (Inr assigned)
        show ?thesis
        proof (cases z4)
          case (Inl x)
          with run z3 4 activateAudience_stage show ?thesis by (cases x) fastforce
        next
          case (Inr y)
          obtain c cb where y: "y = (c, cb)" by force
          have assigned: "administratorAssigned add t a admin w3"
            using 3 [unfolded z3] assignAttempts_Inr [where i = 0 and n = aiGatewayAssignmentAttempts and add = add and w = w2
              and t = t and u = a and r = admin and w' = w3]
            unfolding assignAdministrator_def by (auto simp del: assignAttempts.simps split: if_split_asm)
          from activateAudience_Inr [OF 4 [unfolded Inr y]] run have
            "cs_ensure cs w3 t (aiAudienceFor t) = (Inr (c, cb), w') \<and> IsManagedAIGatewayAudience t (Some c) \<and>
              c_DefaultScopes c = AIGatewayClientScopes" "r = Inr (identityResp t a roles c, raised \<or> rb \<or> assigned \<or> cb)"
            by (simp_all add: z3 Inr y)
          with 1 \<open>z1 = Inr raised\<close> stand admin 3 [unfolded z3] assigned P3 show ?thesis by (auto simp: roles identityResp_def)
        qed
      qed
    qed (use assms(1) 1 2 Inr P2 ensureRoles_stage in \<open>auto simp: activateTenant_def\<close>)
  qed (use assms(1) 1 P1 in \<open>auto simp: activateTenant_def stageError_def\<close>)
qed

text \<open>
  C13. A tenant's AI audience is activated last. If an activation fails, then in the audience step itself or with
  everything the earlier calls leave alone as it was; the audience among it. If it succeeds, the tenant was active and
  the named user non-empty, and in this order the console ceiling was raised, the two roles were created or already stood
  exactly as defined, with no scope of the platform, the user was stored as holding the administrator role, and the
  audience was written, which is the managed active one with the closed scopes.
\<close>
theorem ai_activation_last:
  assumes "EnsureAIIdentity s w t a = (r, w')" "earlierKeep P s t a" "P w"
  shows "case r of
      Inl (stage, e) \<Rightarrow> stage = ''audience'' \<or> P w'
    | Inr (resp, b) \<Rightarrow>
        \<exists>getTenant ot cs create add w1 w2 v admin c cb raised assigned. gi_tenants s = Some getTenant \<and> getTenant w t = Inr ot \<and>
          activeTenant ot t (gi_now s) \<and> gi_clients s = Some cs \<and> gi_roles s = Some create \<and> gi_assignments s = Some add \<and>
          raiseConsoleCeiling (gi_policy s) cs w t = (Inr raised, w1) \<and>
          rolesStand create t (AIGatewayRoleDefinitions t) w1 w2 \<and>
          find (\<lambda>x. rr_Name x = AIGatewayAdminRole t) (AIGatewayRoleDefinitions t) = Some admin \<and>
          assignAdministrator add w2 t a admin = (Inr assigned, v) \<and> administratorAssigned add t a admin v \<and> P v \<and>
          cs_ensure cs v t (aiAudienceFor t) = (Inr (c, cb), w') \<and>
          IsManagedAIGatewayAudience t (Some c) \<and> c_DefaultScopes c = AIGatewayClientScopes \<and>
          gr_Roles resp = AIGatewayRoleDefinitions t \<and> gr_PrincipalId resp = a \<and> a \<noteq> [] \<and>
          list_all (\<lambda>x. set (rr_Permissions x) \<inter> {''code-admin:ai:platform'', RuntimeScope} = {}) (gr_Roles resp)"
proof -
  from assms(1) have "\<exists>stage e. r = Inl (stage, e) \<and> w' = w \<or> (\<exists>getTenant ot create cs add. gi_tenants s = Some getTenant \<and>
      gi_roles s = Some create \<and> gi_clients s = Some cs \<and> gi_assignments s = Some add \<and> getTenant w t = Inr ot \<and>
      activeTenant ot t (gi_now s) \<and> a \<noteq> [] \<and> activateTenant s create cs add w t a = (r, w'))"
    by (auto simp: EnsureAIIdentity_def stageError_def split: if_split_asm option.splits sum.splits)
  then show ?thesis
  proof (elim exE disjE conjE)
    fix stage e assume "r = Inl (stage, e)" "w' = w"
    with assms(3) show ?thesis by simp
  next
    fix getTenant ot create cs add
    assume g: "gi_tenants s = Some getTenant" "gi_roles s = Some create" "gi_clients s = Some cs" "gi_assignments s = Some add"
      "getTenant w t = Inr ot" "activeTenant ot t (gi_now s)" "a \<noteq> []" "activateTenant s create cs add w t a = (r, w')"
    have keep: "preserves P (\<lambda>v. cs_raise cs v t sc)" "preserves P (\<lambda>v. create v t n ps)" "preserves P (\<lambda>v. add i v t a n ps)"
      for sc n ps i using assms(2) g(2-4) by (auto simp: earlierKeep_def)
    have "list_all (\<lambda>x. set (rr_Permissions x) \<inter> {''code-admin:ai:platform'', RuntimeScope} = {}) (AIGatewayRoleDefinitions t)"
      by (simp add: AIGatewayRoleDefinitions_def)
    then show ?thesis using activateTenant_last [OF g(8) assms(3) keep] g(1-7)
      by (cases r) (fastforce split: prod.splits)+
  qed
qed

section \<open>A witness\<close>

text \<open>A world that records which calls were made, and stores that answer what they were asked to write.\<close>

definition loggedClients :: "(string list) aiClientStore" where
  "loggedClients =
     \<lparr>cs_ensure = (\<lambda>w t c. (Inr (c, True), w @ [''audience''])),
      cs_setStatus = (\<lambda>w t i m st. (Inr (None, False), w @ [''status''])),
      cs_raise = (\<lambda>w t scs. (Inr (\<lparr>c_Id = CodeAdminAudienceClientID, c_TenantId = t, c_SecretHash = [], c_Type = ClientTypeService,
        c_AllowedGrantTypes = [GrantTypeTokenExchange], c_DefaultScopes = scs, c_Status = ClientStatusActive,
        c_ManagedBy = CodeAdminAudienceClientManager\<rparr>, True), w @ [''ceiling'']))\<rparr>"

definition loggedService :: "(string list) aiIdentityService" where
  "loggedService =
     \<lparr>gi_policy = compiledPolicy, gi_tenants = Some (\<lambda>w t. Inr (Some (activeSample t))),
      gi_roles = Some (\<lambda>w t n ps. (Inr (\<lparr>rr_Name = n, rr_Permissions = ps\<rparr>, True), w @ [''role''])),
      gi_clients = Some loggedClients,
      gi_assignments = Some (\<lambda>i w t u n ps. (if i < 1 then Inl ErrVersionConflict
        else Inr (\<lparr>a_TenantID = t, a_PrincipalType = AccessPrincipalUser, a_PrincipalID = u, a_Roles = [n], a_Version = 1,
          a_CreatedAt = Some 1, a_UpdatedAt = Some 1\<rparr>, True), w @ [''assignment''])),
      gi_now = 5\<rparr>"

lemma logged_run:
  "(case EnsureAIIdentity loggedService [] ''acme'' ''u-1'' of
      (Inr (resp, b), w) \<Rightarrow> b \<and> gr_PrincipalId resp = ''u-1'' \<and>
        w = [''ceiling'', ''role'', ''role'', ''assignment'', ''assignment'', ''audience'']
    | _ \<Rightarrow> False)"
  by code_simp

theorem ai_activation_last_witness:
  "\<exists>resp w'. EnsureAIIdentity loggedService [] ''acme'' ''u-1'' = (Inr (resp, True), w') \<and>
     gr_Roles resp = AIGatewayRoleDefinitions ''acme'' \<and> last w' = ''audience''"
proof -
  from logged_run obtain resp w' where e: "EnsureAIIdentity loggedService [] ''acme'' ''u-1'' = (Inr (resp, True), w')"
    "last w' = ''audience''"
    by (auto split: prod.splits sum.splits)
  have "earlierKeep (\<lambda>w. ''audience'' \<notin> set w) loggedService ''acme'' ''u-1''"
    by (simp add: earlierKeep_def preserves_def loggedService_def loggedClients_def)
  from ai_activation_last [OF e(1) this] e show ?thesis by auto
qed

end
