(* ===== verification/Strict_Json.thy ===== *)
theory Strict_Json
  imports Token_Claims
begin

text \<open>
  The strict JSON decoders of \<^verbatim>\<open>internal/aigateway/json.go\<close> and \<^verbatim>\<open>internal/managedlogs/json.go\<close>. A destination type is
  what the code reads of it by reflection: the tag names and types of its fields. The token stream of a body is the
  tree of its one JSON value, members in order and repeated keys kept; \<open>parse\<close>, a parameter, is \<^term>\<open>None\<close> for a body
  that is not exactly one value. \<open>fill\<close> is \<^verbatim>\<open>json.Decoder.Decode\<close> into the destination with unknown fields disallowed.
\<close>

section \<open>The shape of a body\<close>

datatype goType = GoScalar | GoStruct "(string \<times> goType) list" | GoSlice goType | GoPointer goType

fun pointee :: "goType \<Rightarrow> goType" where
  "pointee (GoPointer t) = pointee t"
| "pointee t = t"

fun jscalar :: "jval \<Rightarrow> bool" where
  "jscalar (JObj _) = False"
| "jscalar (JArr _) = False"
| "jscalar (GoStrs _) = False"
| "jscalar _ = True"

lemma member_size [termination_simp]: "kv \<in> set kvs \<Longrightarrow> size (snd kv) < Suc (size_list (size_prod (\<lambda>_. 0) size) kvs)"
  by (induction kvs) (auto simp: less_Suc_eq_le)

text \<open>
  \<open>deref\<close> is \<^const>\<open>pointee\<close> for \<^verbatim>\<open>aigateway\<close>; the copy in \<^verbatim>\<open>managedlogs\<close> has no loop over pointers.
\<close>

function (sequential) shape :: "(goType \<Rightarrow> goType) \<Rightarrow> goType \<Rightarrow> nat \<Rightarrow> jval \<Rightarrow> bool"
  and shapeFields :: "(goType \<Rightarrow> goType) \<Rightarrow> (string \<rightharpoonup> goType) \<Rightarrow> nat \<Rightarrow> string list \<Rightarrow> (string \<times> jval) list \<Rightarrow> bool"
  and shapeItems :: "(goType \<Rightarrow> goType) \<Rightarrow> goType \<Rightarrow> nat \<Rightarrow> nat \<Rightarrow> jval list \<Rightarrow> bool" where
  "shape deref t depth v =
     (if depth > 8 then False
      else (case deref t of
              GoStruct fs \<Rightarrow> (case v of JObj kvs \<Rightarrow> shapeFields deref (map_of (rev fs)) depth [] kvs | _ \<Rightarrow> False)
            | GoSlice t' \<Rightarrow> (case v of JArr vs \<Rightarrow> shapeItems deref t' depth 0 vs | _ \<Rightarrow> False)
            | _ \<Rightarrow> jscalar v))"
| "shapeFields deref fs depth seen [] = True"
| "shapeFields deref fs depth seen ((key, v) # kvs) =
     (if key \<in> set seen then False
      else (case fs key of
              None \<Rightarrow> False
            | Some t \<Rightarrow> shape deref t (depth + 1) v \<and> shapeFields deref fs depth (key # seen) kvs))"
| "shapeItems deref t depth n [] = True"
| "shapeItems deref t depth n (v # vs) =
     (if n + 1 > 256 then False else shape deref t (depth + 1) v \<and> shapeItems deref t depth (n + 1) vs)"
  by pat_completeness auto

termination
  by (relation "measure (\<lambda>x. case x of Inl (_, _, _, v) \<Rightarrow> 2 * size v
        | Inr (Inl (_, _, _, _, kvs)) \<Rightarrow> Suc (2 * size_list (size_prod (\<lambda>_. 0) size) kvs)
        | Inr (Inr (_, _, _, _, vs)) \<Rightarrow> Suc (2 * size_list size vs))") auto

declare shape.simps [simp del]

definition strictDecode ::
  "nat \<Rightarrow> (goType \<Rightarrow> goType) \<Rightarrow> (string \<Rightarrow> jval option) \<Rightarrow> (string \<Rightarrow> 'a option) \<Rightarrow> goType \<Rightarrow> string \<Rightarrow> 'a option" where
  "strictDecode limit deref parse fill t raw =
     (if length raw > limit then None
      else (case parse raw of None \<Rightarrow> None | Some v \<Rightarrow> if shape deref t 0 v then fill raw else None))"

definition aiDecode :: "(string \<Rightarrow> jval option) \<Rightarrow> (string \<Rightarrow> 'a option) \<Rightarrow> goType \<Rightarrow> string \<Rightarrow> 'a option" where
  "aiDecode = strictDecode 16384 pointee"

definition logsDecode :: "(string \<Rightarrow> jval option) \<Rightarrow> (string \<Rightarrow> 'a option) \<Rightarrow> goType \<Rightarrow> string \<Rightarrow> 'a option" where
  "logsDecode = strictDecode 98304 (\<lambda>t. t)"

section \<open>The destinations\<close>

definition scalars :: "string list \<Rightarrow> (string \<times> goType) list" where
  "scalars = map (\<lambda>k. (k, GoScalar))"

definition aiWorkloadType :: goType where
  "aiWorkloadType = GoStruct (scalars [''issuer'', ''service_uid'', ''cluster_ref'', ''namespace'', ''service_account'',
     ''service_account_uid'', ''pod_uid''])"

definition aiPrincipalType :: goType where
  "aiPrincipalType = GoStruct (scalars [''schemaVersion'', ''tenantId'', ''tenantUID'', ''tenantEpoch'', ''subject'',
     ''principalKind''] @ [(''workload'', GoPointer aiWorkloadType)])"

definition aiActorType :: goType where
  "aiActorType = GoStruct (scalars [''sub'', ''issuer'', ''service_uid'', ''cluster_ref'', ''namespace'', ''service_account'',
     ''service_account_uid'', ''pod_uid''])"

definition aiClaimsType :: goType where
  "aiClaimsType = GoStruct (scalars [''iss'', ''aud'', ''sub'', ''tid'', ''scope'', ''iat'', ''exp'', ''jti'',
     ''principal_kind'', ''tenant_uid'', ''tenant_epoch''] @ [(''ver'', GoPointer GoScalar),
     (''workload'', GoPointer aiWorkloadType), (''act'', GoPointer aiActorType)])"

definition logsDecisionType :: goType where
  "logsDecisionType = GoStruct (scalars [''schemaVersion'', ''requestId'', ''allowed'', ''reason'', ''installationId'',
     ''clusterUID'', ''grantUID'', ''grantGeneration'', ''tenantId'', ''topicId'', ''retentionSeconds''])"

section \<open>What is accepted\<close>

text \<open>
  The specification: a value conforms to a type when its objects have exactly known keys, each once, and its parts
  conform to the types of their fields; its depth and its longest list are bounded apart from that.
\<close>

inductive conforms :: "(goType \<Rightarrow> goType) \<Rightarrow> goType \<Rightarrow> jval \<Rightarrow> bool" for deref where
  conforms_struct: "deref t = GoStruct fs \<Longrightarrow> distinct (map fst kvs) \<Longrightarrow>
     (\<And>k v. (k, v) \<in> set kvs \<Longrightarrow> \<exists>t'. map_of (rev fs) k = Some t' \<and> conforms deref t' v) \<Longrightarrow> conforms deref t (JObj kvs)"
| conforms_slice: "deref t = GoSlice t' \<Longrightarrow> (\<And>v. v \<in> set vs \<Longrightarrow> conforms deref t' v) \<Longrightarrow> conforms deref t (JArr vs)"
| conforms_scalar: "(\<nexists>fs. deref t = GoStruct fs) \<Longrightarrow> (\<nexists>t'. deref t = GoSlice t') \<Longrightarrow> jscalar v \<Longrightarrow> conforms deref t v"

inductive_simps conforms_obj: "conforms deref t (JObj kvs)"
inductive_simps conforms_arr: "conforms deref t (JArr vs)"
inductive_cases conformsE: "conforms deref t v"

fun nesting :: "jval \<Rightarrow> nat" where
  "nesting (JObj kvs) = foldr (\<lambda>kv. max (Suc (nesting (snd kv)))) kvs 0"
| "nesting (JArr vs) = foldr (\<lambda>v. max (Suc (nesting v))) vs 0"
| "nesting _ = 0"

fun shortLists :: "jval \<Rightarrow> bool" where
  "shortLists (JObj kvs) = list_all (\<lambda>kv. shortLists (snd kv)) kvs"
| "shortLists (JArr vs) = (length vs \<le> 256 \<and> list_all shortLists vs)"
| "shortLists _ = True"

lemma foldr_max_le: "foldr (\<lambda>x. max (f x)) xs (0::nat) \<le> n \<longleftrightarrow> (\<forall>x \<in> set xs. f x \<le> n)"
  by (induction xs) auto

lemma depth_foldr:
  "d \<le> 8 \<Longrightarrow> d + foldr (\<lambda>x. max (Suc (f x))) xs 0 \<le> 8 \<longleftrightarrow> (\<forall>x \<in> set xs. d + 1 + f x \<le> (8::nat))"
  using foldr_max_le [of "\<lambda>x. Suc (f x)" xs "8 - d"] by (auto simp: le_diff_conv2 add.commute)

lemma scalar_flat: "jscalar v \<Longrightarrow> nesting v = 0 \<and> shortLists v"
  by (cases v) auto

text \<open>What \<^const>\<open>shapeFields\<close> asks of one member.\<close>

definition fieldOk :: "(goType \<Rightarrow> goType) \<Rightarrow> (string \<rightharpoonup> goType) \<Rightarrow> nat \<Rightarrow> string \<times> jval \<Rightarrow> bool" where
  "fieldOk deref fs d kv \<longleftrightarrow> (\<exists>t. fs (fst kv) = Some t \<and> conforms deref t (snd kv)) \<and> shortLists (snd kv) \<and> d + 1 + nesting (snd kv) \<le> 8"

lemma conforms_struct_iff:
  "deref t = GoStruct fs \<Longrightarrow> conforms deref t v \<longleftrightarrow>
     (\<exists>kvs. v = JObj kvs \<and> distinct (map fst kvs) \<and> (\<forall>kv \<in> set kvs. \<exists>t'. map_of (rev fs) (fst kv) = Some t' \<and> conforms deref t' (snd kv)))"
  by (auto elim!: conformsE intro!: conforms_struct) fastforce+

lemma conforms_slice_iff:
  "deref t = GoSlice t' \<Longrightarrow> conforms deref t v \<longleftrightarrow> (\<exists>vs. v = JArr vs \<and> (\<forall>x \<in> set vs. conforms deref t' x))"
  by (auto elim!: conformsE intro!: conforms_slice)

lemma conforms_scalar_iff:
  "deref t = GoScalar \<or> deref t = GoPointer t' \<Longrightarrow> conforms deref t v \<longleftrightarrow> jscalar v"
  by (auto elim!: conformsE intro!: conforms_scalar)

lemma shape_conforms:
  "shape deref t d v \<longleftrightarrow> conforms deref t v \<and> shortLists v \<and> d + nesting v \<le> 8"
  "shapeFields deref fs d seen kvs \<longleftrightarrow> distinct (map fst kvs) \<and> set seen \<inter> set (map fst kvs) = {} \<and>
     (\<forall>kv \<in> set kvs. fieldOk deref fs d kv)"
  "shapeItems deref t d n vs \<longleftrightarrow> (vs = [] \<or> n + length vs \<le> 256) \<and>
     (\<forall>v \<in> set vs. conforms deref t v \<and> shortLists v \<and> d + 1 + nesting v \<le> 8)"
proof (induction deref t d v and deref fs d seen kvs and deref t d n vs rule: shape_shapeFields_shapeItems.induct)
  case (1 deref t d v)
  show ?case
  proof (cases "d > 8")
    case False
    then have d: "d \<le> 8" "\<not> 8 < d" by auto
    show ?thesis
    proof (cases "deref t")
      case (GoStruct fs)
      show ?thesis
      proof (cases v)
        case (JObj kvs)
        have "shapeFields deref (map_of (rev fs)) d [] kvs \<longleftrightarrow> distinct (map fst kvs) \<and>
            (\<forall>kv \<in> set kvs. fieldOk deref (map_of (rev fs)) d kv)"
          using 1(1) [OF d(2) GoStruct JObj] by simp
        then show ?thesis
          unfolding JObj by (auto simp: shape.simps GoStruct d conforms_struct_iff fieldOk_def depth_foldr list_all_iff)
      qed (auto simp: shape.simps GoStruct d conforms_struct_iff)
    next
      case (GoSlice t')
      show ?thesis
      proof (cases v)
        case (JArr vs)
        then show ?thesis
          using 1(2) [OF d(2) GoSlice JArr]
          by (auto simp: shape.simps GoSlice d conforms_slice_iff depth_foldr list_all_iff)
      qed (auto simp: shape.simps GoSlice d conforms_slice_iff)
    qed (auto simp: shape.simps d conforms_scalar_iff scalar_flat)
  qed (simp add: shape.simps)
next
  case (3 deref fs d seen key v kvs)
  then show ?case by (auto simp: fieldOk_def split: option.splits)
next
  case (5 deref t d n v vs)
  then show ?case by (cases "n + 1 > 256") auto
qed auto

text \<open>
  C7. The strict decoder accepts exactly the bodies of at most 16384 bytes that hold one value conforming to the
  destination's type (every key known, exact in case and never repeated, at every level), nested at most eight deep,
  with no list longer than 256, and that the plain decoder fills the destination from.
\<close>
theorem strict_decode_exact:
  "aiDecode parse fill t raw = Some x \<longleftrightarrow>
     length raw \<le> 16384 \<and> fill raw = Some x \<and>
     (\<exists>v. parse raw = Some v \<and> conforms pointee t v \<and> shortLists v \<and> nesting v \<le> 8)"
  by (auto simp: aiDecode_def strictDecode_def shape_conforms(1) split: option.splits)

end
