(* ===== verification/Authority_Clients.thy ===== *)
theory Authority_Clients
  imports Workload_Grants Strict_Json
begin

text \<open>
  The HTTP clients of the three authorities: \<^verbatim>\<open>internal/codeqbinding/client.go\<close>, \<^verbatim>\<open>internal/managedlogs/authority.go\<close>
  and \<^verbatim>\<open>internal/aigateway/authority.go\<close>. One call is one request and one answer, never repeated. The transport is a
  parameter that maps the body and the assertion to an answer, \<^term>\<open>None\<close> being a transport error; \<^verbatim>\<open>json.Marshal\<close>,
  \<^verbatim>\<open>json.Decoder\<close> and \<^verbatim>\<open>mime.ParseMediaType\<close> are parameters too.
\<close>

section \<open>Answers\<close>

text \<open>\<open>ha_body\<close> is all there is to read; \<^verbatim>\<open>io.LimitReader\<close> hands the code one byte more than it admits.\<close>

record httpAnswer =
  ha_status :: int
  ha_contentType :: string
  ha_cacheControl :: "string list"
  ha_pragma :: "string list"
  ha_body :: "string option"

definition headerGet :: "string list \<Rightarrow> string" where
  "headerGet values = (case values of [] \<Rightarrow> [] | v # _ \<Rightarrow> v)"

definition hasDirective :: "go_unicode \<Rightarrow> string list \<Rightarrow> string \<Rightarrow> bool" where
  "hasDirective U values expected =
     list_ex (\<lambda>v. list_ex (\<lambda>directive. EqualFold U (TrimSpace (hd (SplitChar CHR ''='' directive))) expected)
       (SplitChar CHR '','' v)) values"

section \<open>Queue bindings\<close>

definition statusFailure :: "int \<Rightarrow> string \<times> int" where
  "statusFailure status =
     (if status = 429 \<or> status = 503 then (FailureThrottled, status)
      else if status = 401 \<or> status = 403 then (FailureRejected, status)
      else (''status'', status))"

definition codeqNewClient :: "string \<Rightarrow> bool \<Rightarrow> int \<Rightarrow> string option" where
  "codeqNewClient endpoint0 client timeout =
     (let endpoint = TrimSpace endpoint0 in
      if \<not> client \<or> timeout \<le> 0 \<or> timeout > 10000000000 \<or>
         \<not> HasSuffix endpoint ''/internal/v1/codeq-bindings:authorize'' \<or>
         \<not> (HasPrefix endpoint ''https://'' \<or> HasPrefix endpoint ''http://'')
      then None else Some endpoint)"

definition codeqAuthorize ::
  "go_unicode \<Rightarrow> (string \<Rightarrow> string option) \<Rightarrow> (authorityRequest \<Rightarrow> string option) \<Rightarrow> (string \<Rightarrow> authorityDecision option) \<Rightarrow>
   ('w \<Rightarrow> string \<Rightarrow> string \<Rightarrow> httpAnswer option) \<Rightarrow> 'w \<Rightarrow> authorityRequest \<Rightarrow> string \<Rightarrow> (string \<times> int) + authorityDecision" where
  "codeqAuthorize U parseMedia encode decode send w request assertion =
     (if assertion = [] \<or> length assertion > 16384 \<or> \<not> codeqValidRequest request then Inl (''local'', 0)
      else
        (case encode request of
           None \<Rightarrow> Inl (''local'', 0)
         | Some body \<Rightarrow>
             if length body > 8192 then Inl (''local'', 0)
             else
               (case send w body assertion of
                  None \<Rightarrow> Inl (''transport'', 0)
                | Some a \<Rightarrow>
                    if ha_status a \<noteq> 200 then Inl (statusFailure (ha_status a))
                    else if parseMedia (ha_contentType a) \<noteq> Some ''application/json'' \<or>
                            \<not> hasDirective U (ha_cacheControl a) ''no-store'' \<or> \<not> hasDirective U (ha_pragma a) ''no-cache''
                    then Inl (FailureInvalid, ha_status a)
                    else
                      (case ha_body a of
                         None \<Rightarrow> Inl (''transport'', ha_status a)
                       | Some raw \<Rightarrow>
                           if length raw = 0 \<or> length raw > 65536 then Inl (FailureInvalid, ha_status a)
                           else
                             (case decode raw of
                                None \<Rightarrow> Inl (FailureInvalid, ha_status a)
                              | Some d \<Rightarrow>
                                  if codeqValidDecision request d then Inr d else Inl (FailureInvalid, ha_status a))))))"

section \<open>Platform logs\<close>

abbreviation ErrUnavailable :: gerror where "ErrUnavailable \<equiv> ErrText ''authority unavailable''"

definition logsAuthorize ::
  "(string \<Rightarrow> string option) \<Rightarrow> (logsRequest \<Rightarrow> string option) \<Rightarrow> (string \<Rightarrow> jval option) \<Rightarrow>
   (string \<Rightarrow> logsDecision option) \<Rightarrow> ('w \<Rightarrow> string \<Rightarrow> string \<Rightarrow> httpAnswer option) \<Rightarrow> 'w \<Rightarrow> logsRequest \<Rightarrow> string \<Rightarrow> logsDecision res" where
  "logsAuthorize parseMedia encode parse fill send w request assertion =
     (case encode request of
        None \<Rightarrow> Inl ErrUnavailable
      | Some body \<Rightarrow>
          (case send w body assertion of
             None \<Rightarrow> Inl ErrUnavailable
           | Some a \<Rightarrow>
               if parseMedia (ha_contentType a) \<noteq> Some ''application/json'' \<or> ha_status a \<noteq> 200 \<or>
                  headerGet (ha_cacheControl a) \<noteq> ''no-store'' \<or> headerGet (ha_pragma a) \<noteq> ''no-cache''
               then Inl ErrUnavailable
               else
                 (case ha_body a of
                    None \<Rightarrow> Inl ErrUnavailable
                  | Some raw \<Rightarrow>
                      if length raw > 16384 then Inl ErrUnavailable
                      else (case logsDecode parse fill logsDecisionType raw of
                              None \<Rightarrow> Inl ErrUnavailable
                            | Some d \<Rightarrow> if logsValidDecision request d then Inr d else Inl ErrUnavailable))))"

section \<open>AI identities\<close>

definition aiClientAuthorize ::
  "(string \<Rightarrow> string option) \<Rightarrow> (string \<Rightarrow> jval option) \<Rightarrow> (string \<Rightarrow> aiPrincipal option) \<Rightarrow> ('w \<Rightarrow> string \<Rightarrow> httpAnswer option) \<Rightarrow> 'w \<Rightarrow> string \<Rightarrow>
   aiPrincipal res" where
  "aiClientAuthorize parseMedia parse fill send w assertion =
     (if assertion = [] \<or> length assertion > 16384 \<or> list_ex (\<lambda>c. c \<in> {CHR '' '', CHR 0x09, CHR 0x0D, CHR 0x0A}) assertion
      then Inl ErrUnavailable
      else
        (case send w assertion of
           None \<Rightarrow> Inl ErrUnavailable
         | Some a \<Rightarrow>
             if ha_status a = 401 \<or> ha_status a = 403 \<or> ha_status a = 404 then Inl ErrDenied
             else if ha_status a \<noteq> 200 \<or> parseMedia (ha_contentType a) \<noteq> Some ''application/json'' then Inl ErrUnavailable
             else
               (case ha_body a of
                  None \<Rightarrow> Inl ErrUnavailable
                | Some raw \<Rightarrow>
                    (case aiDecode parse fill aiPrincipalType (take 16385 raw) of None \<Rightarrow> Inl ErrUnavailable | Some p \<Rightarrow> Inr p))))"

section \<open>Authorities that answer the question\<close>

text \<open>
  An authority honours its contract when a decision it returns answers the request it got. The exchange checks again;
  for such an authority the second check changes nothing.
\<close>

locale queue_authority =
  fixes authorize :: "'w \<Rightarrow> authorityRequest \<Rightarrow> string \<Rightarrow> (string \<times> int) + authorityDecision"
  assumes answers: "authorize w request assertion = Inr d \<Longrightarrow> codeqValidDecision request d"
begin

text \<open>A call without a decision is a failed signature or a failed authority, never a rejected decision.\<close>

lemma refusal_cause:
  assumes "callCodeQBindingAuthority s authorize w E request d = (Inl r, d')"
  shows "(\<exists>e. signCodeQBindingAssertion s (we_now E 1) (we_uuid E 1) = Inl e) \<or>
    (\<exists>assertion class status. authorize w request assertion = Inl (class, status) \<and>
       ba_authorityResult d' = codeqBindingAuthorityFailureResult class \<and> ba_authorityStatus d' = status)"
proof (cases "signCodeQBindingAssertion s (we_now E 1) (we_uuid E 1)")
  case (Inr assertion)
  then obtain cl status where failed: "authorize w request assertion = Inl (cl, status)"
    using assms answers by (auto simp: callCodeQBindingAuthority_def split: if_split_asm sum.splits prod.splits)
  with Inr show ?thesis
    using assms by (intro disjI2 exI [of _ assertion] exI [of _ cl] exI [of _ status])
      (auto simp: callCodeQBindingAuthority_def refuseBinding_def)
qed simp

end

locale logs_authority =
  fixes authorize :: "'w \<Rightarrow> logsRequest \<Rightarrow> string \<Rightarrow> logsDecision res"
  assumes answers: "authorize w request assertion = Inr d \<Longrightarrow> logsValidDecision request d"
begin

lemma tenant_of_decision:
  assumes "authorize w request assertion = Inr d" "ld_Allowed d"
  shows "(if installationOperation (lq_Operation request) then ld_TenantID d = [] else ld_TenantID d = lq_TenantID request) \<and>
    1 \<le> ld_GrantGeneration d"
  using answers [OF assms(1)] assms(2) by (auto simp: logsValidDecision_def split: if_split_asm)

end

interpretation codeq_client: queue_authority "codeqAuthorize U parseMedia encode decode send"
  for U parseMedia encode decode and send :: "'w \<Rightarrow> string \<Rightarrow> string \<Rightarrow> httpAnswer option"
  by unfold_locales (auto simp: codeqAuthorize_def split: if_split_asm option.splits)

interpretation logs_client: logs_authority "logsAuthorize parseMedia encode parse fill send"
  for parseMedia encode parse fill and send :: "'w \<Rightarrow> string \<Rightarrow> string \<Rightarrow> httpAnswer option"
  by unfold_locales (auto simp: logsAuthorize_def split: if_split_asm option.splits)

end
