(* ===== verification/AI_Token.thy ===== *)
theory AI_Token
  imports Workload_Grants Strict_Json
begin

text \<open>
  \<^verbatim>\<open>ValidateAIAccessToken\<close> of \<^verbatim>\<open>internal/services/ai_gateway.go\<close>: an AI token is checked against the user, the
  permissions, the tenant and the authority as they are now, not only against its own claims. The JWT library is a
  parameter: \<open>al_payload\<close> decodes the middle segment and \<open>al_verify\<close> is \<^verbatim>\<open>jwt.Parse\<close> with RS256, the issuer, the AI
  audience, an expiry and the issue time required, for the given key id.
\<close>

section \<open>Decoding\<close>

record 'k aiTokenLibrary =
  al_payload :: "string \<Rightarrow> string option"
  al_parse :: "string \<Rightarrow> jval option"
  al_fill :: "string \<Rightarrow> aiClaims option"
  al_verify :: "string \<Rightarrow> 'k \<Rightarrow> string \<Rightarrow> string \<Rightarrow> int \<Rightarrow> bool"

section \<open>Validation\<close>

definition decodeAIToken :: "'k aiTokenLibrary \<Rightarrow> string \<Rightarrow> aiClaims option" where
  "decodeAIToken A raw =
     (case SplitChar CHR ''.'' raw of
        [_, payload, _] \<Rightarrow>
          (case al_payload A payload of
             None \<Rightarrow> None
           | Some data \<Rightarrow> aiDecode (al_parse A) (al_fill A) aiClaimsType data)
      | _ \<Rightarrow> None)"

definition aiTokenScopes :: "aiClaims \<Rightarrow> string list option" where
  "aiTokenScopes c = AIScopes (SplitChar CHR '' '' (ac_Scope c))"

definition aiClaimsCurrent :: "aiClaims \<Rightarrow> string list \<Rightarrow> int \<Rightarrow> bool" where
  "aiClaimsCurrent c scopes now \<longleftrightarrow>
     JoinStr '' '' scopes = ac_Scope c \<and> ac_Audience c = AIGatewayAudienceClientID \<and> 0 < ac_IssuedAt c \<and>
     ac_IssuedAt c \<le> Unix now \<and> Unix now < ac_ExpiresAt c \<and> ac_ExpiresAt c - ac_IssuedAt c \<le> 300 \<and> ac_ID c \<noteq> []"

definition workloadRequest :: "aiWorkload \<Rightarrow> aiWorkloadRequest" where
  "workloadRequest k =
     \<lparr>awr_Issuer = aw_Issuer k, awr_ClusterRef = aw_ClusterRef k, awr_Namespace = aw_Namespace k,
      awr_ServiceAccount = aw_ServiceAccount k, awr_ServiceAccountUID = aw_ServiceAccountUID k, awr_PodUID = aw_PodUID k\<rparr>"

definition actorRequest :: "aiActor \<Rightarrow> aiWorkloadRequest" where
  "actorRequest a = workloadRequest (aa_Workload a)"

text \<open>The two arms of the switch on the principal's kind: the identity to ask the authority about.\<close>

definition aiTokenUser :: "('w, 'k) userService \<Rightarrow> 'w \<Rightarrow> aiClaims \<Rightarrow> string list \<Rightarrow> aiIdentity \<Rightarrow> aiIdentity res" where
  "aiTokenUser s w c scopes identity =
     (case (usByID (us_repo s), ac_Version c) of
        (Some byID, Some version) \<Rightarrow>
          if version < 0 \<or> ac_Workload c \<noteq> None \<or> (ac_PrincipalKind c = ''User'') \<noteq> (ac_Actor c = None)
          then Inl ErrInvalidToken
          else
            (case idFindByID byID w (ac_Subject c) of
               Inr (Some u) \<Rightarrow>
                 if u_Id u \<noteq> ac_Subject c \<or> u_Status u \<noteq> UserStatusActive \<or> u_PasswordChangeRequired u \<or>
                    u_TokenVersion u \<noteq> version
                 then Inl ErrInvalidToken
                 else
                   (case aiUserPermissions s w u (ac_TenantID c) scopes of
                      Some e \<Rightarrow> Inl e
                    | None \<Rightarrow>
                        (case ac_Actor c of
                           None \<Rightarrow> Inr identity
                         | Some a \<Rightarrow>
                             if aa_Subject a \<noteq> ''codefoundry:service:'' @ aw_ServiceUID (aa_Workload a) then Inl ErrInvalidToken
                             else Inr (identity\<lparr>ai_Workload := Some (actorRequest a)\<rparr>)))
             | _ \<Rightarrow> Inl ErrInvalidToken)
      | _ \<Rightarrow> Inl ErrInvalidToken)"

definition aiTokenWorkload :: "aiClaims \<Rightarrow> aiIdentity \<Rightarrow> aiIdentity res" where
  "aiTokenWorkload c identity =
     (case ac_Workload c of
        None \<Rightarrow> Inl ErrInvalidToken
      | Some k \<Rightarrow>
          if ac_Version c \<noteq> None \<or> ac_Actor c \<noteq> None \<or> ac_Subject c \<noteq> ''codefoundry:service:'' @ aw_ServiceUID k
          then Inl ErrInvalidToken
          else Inr (identity\<lparr>ai_Subject := ''system:serviceaccount:'' @ aw_Namespace k @ '':'' @ aw_ServiceAccount k,
                             ai_Workload := Some (workloadRequest k)\<rparr>))"

definition aiTokenIdentity :: "('w, 'k) userService \<Rightarrow> 'w \<Rightarrow> aiClaims \<Rightarrow> string list \<Rightarrow> aiIdentity res" where
  "aiTokenIdentity s w c scopes =
     (let identity = \<lparr>ai_SchemaVersion = IdentityVersion, ai_Kind = ac_PrincipalKind c, ai_Subject = ac_Subject c,
                      ai_TenantID = ac_TenantID c, ai_Scopes = scopes, ai_Workload = None\<rparr> in
      if ac_PrincipalKind c = ''User'' \<or> ac_PrincipalKind c = ''Delegated'' then aiTokenUser s w c scopes identity
      else if ac_PrincipalKind c = ''Workload'' then aiTokenWorkload c identity
      else Inl ErrInvalidToken)"

text \<open>
  The authority's answer against the token. The code dereferences the answered workload; \<^const>\<open>principalMatches\<close>
  has refused an answer without one for a kind other than a user.
\<close>

definition aiPrincipalAgrees :: "aiPrincipal \<Rightarrow> aiClaims \<Rightarrow> bool" where
  "aiPrincipalAgrees p c \<longleftrightarrow>
     ap_Subject p = ac_Subject c \<and> ap_TenantUID p = ac_TenantUID c \<and> ap_TenantEpoch p = ac_TenantEpoch c \<and>
     \<not> (ac_Workload c \<noteq> None \<and> ap_Workload p \<noteq> ac_Workload c \<or>
        ac_Actor c \<noteq> None \<and> map_option aw_ServiceUID (ap_Workload p) \<noteq> map_option (\<lambda>a. aw_ServiceUID (aa_Workload a)) (ac_Actor c))"

definition ValidateAIAccessToken ::
  "'k aiTokenLibrary \<Rightarrow> ('w, 'k) userService \<Rightarrow> 'w \<Rightarrow> callEnv \<Rightarrow> string \<Rightarrow> aiClaims res" where
  "ValidateAIAccessToken A s w E raw =
     (if \<not> aiReady (us_aiGateway s) \<or> length raw > 16384 \<or>
         list_ex (\<lambda>c. c \<in> {CHR '' '', CHR 0x09, CHR 0x0D, CHR 0x0A}) raw then Inl ErrInvalidToken
      else
        (case getRSAPrivateKey s of
           Inl _ \<Rightarrow> Inl ErrAuthenticationUnavailable
         | Inr key \<Rightarrow>
             (case decodeAIToken A raw of
                None \<Rightarrow> Inl ErrInvalidToken
              | Some c \<Rightarrow>
                  let now = Unix (ev_now E) * 1000000000 in
                  (case aiTokenScopes c of
                     None \<Rightarrow> Inl ErrInvalidToken
                   | Some scopes \<Rightarrow>
                       if \<not> al_verify A raw key (us_jwksKeyID s) (us_issuerBaseURL s) (ev_parseTime E) \<or>
                          \<not> aiClaimsCurrent c scopes now
                       then Inl ErrInvalidToken
                       else
                         (case aiTokenIdentity s w c scopes of
                            Inl e \<Rightarrow> Inl e
                          | Inr identity \<Rightarrow>
                              (case aiAuthorize (us_jwt s) (us_library s) (us_aiGateway s) w E identity key
                                      (us_issuerBaseURL s) (us_jwksKeyID s) now of
                                 Inl e \<Rightarrow> Inl e
                               | Inr p \<Rightarrow> if aiPrincipalAgrees p c then Inr c else Inl ErrInvalidToken))))))"

section \<open>What a valid token means\<close>

lemma aiTokenUser_Inr:
  assumes "aiTokenUser s w c scopes identity = Inr i"
  obtains byID u where "usByID (us_repo s) = Some byID" "idFindByID byID w (ac_Subject c) = Inr (Some u)"
    "u_Id u = ac_Subject c" "u_Status u = UserStatusActive" "\<not> u_PasswordChangeRequired u"
    "ac_Version c = Some (u_TokenVersion u)" "aiUserEffectiveScopes s w u (ac_TenantID c) scopes = Inr scopes"
    "ai_TenantID i = ai_TenantID identity" "ai_Kind i = ai_Kind identity"
  using assms
  by (auto simp: aiTokenUser_def aiUserPermissions_def split: option.splits sum.splits if_split_asm)

lemma aiTokenWorkload_Inr:
  assumes "aiTokenWorkload c identity = Inr i"
  obtains k where "ac_Workload c = Some k" "ac_Version c = None" "ac_Actor c = None"
    "ac_Subject c = ''codefoundry:service:'' @ aw_ServiceUID k" "ai_TenantID i = ai_TenantID identity"
    "ai_Kind i = ai_Kind identity" "ai_Workload i = Some (workloadRequest k)"
  using assms by (auto simp: aiTokenWorkload_def split: option.splits if_split_asm)

lemma aiTokenIdentity_fields:
  "aiTokenIdentity s w c scopes = Inr i \<Longrightarrow> ai_TenantID i = ac_TenantID c \<and> ai_Kind i = ac_PrincipalKind c"
  by (auto simp: aiTokenIdentity_def Let_def split: if_split_asm elim!: aiTokenUser_Inr aiTokenWorkload_Inr)

lemma ValidateAIAccessToken_Inr:
  assumes "ValidateAIAccessToken A s w E raw = Inr c"
  obtains e scopes i key p where "us_aiGateway s = Some e" "aiTokenScopes c = Some scopes"
    "aiClaimsCurrent c scopes (Unix (ev_now E) * 1000000000)" "aiTokenIdentity s w c scopes = Inr i"
    "aiAuthorize (us_jwt s) (us_library s) (us_aiGateway s) w E i key (us_issuerBaseURL s) (us_jwksKeyID s)
       (Unix (ev_now E) * 1000000000) = Inr p" "aiPrincipalAgrees p c" "getRSAPrivateKey s = Inr key"
    "decodeAIToken A raw = Some c" "al_verify A raw key (us_jwksKeyID s) (us_issuerBaseURL s) (ev_parseTime E)"
  using assms
  by (auto simp: ValidateAIAccessToken_def Let_def aiReady_def split: option.splits sum.splits if_split_asm)

lemma principalMatches_workload:
  "principalMatches i epoch p \<Longrightarrow> ai_Kind i \<noteq> ''User'' \<Longrightarrow> \<exists>k. ap_Workload p = Some k \<and> ValidWorkloadObjectUID (aw_ServiceUID k)"
  by (auto simp: principalMatches_def split: option.splits)

text \<open>The identity a token stands for, and that the authority was asked about it in this validation and answered.\<close>

definition tokenIdentity :: "aiClaims \<Rightarrow> string list \<Rightarrow> aiIdentity" where
  "tokenIdentity c scopes =
     \<lparr>ai_SchemaVersion = IdentityVersion, ai_Kind = ac_PrincipalKind c,
      ai_Subject = (case ac_Workload c of
          None \<Rightarrow> ac_Subject c
        | Some k \<Rightarrow> ''system:serviceaccount:'' @ aw_Namespace k @ '':'' @ aw_ServiceAccount k),
      ai_TenantID = ac_TenantID c, ai_Scopes = scopes,
      ai_Workload = (case ac_Workload c of None \<Rightarrow> map_option actorRequest (ac_Actor c) | Some k \<Rightarrow> Some (workloadRequest k))\<rparr>"

definition authorityAnswered ::
  "('w, 'k) userService \<Rightarrow> 'w \<Rightarrow> callEnv \<Rightarrow> 'w aiGatewayExchange \<Rightarrow> aiIdentity \<Rightarrow> aiPrincipal \<Rightarrow> bool" where
  "authorityAnswered s w E e identity p \<longleftrightarrow>
     (\<exists>key assertion answer claims. signAIClaims (us_jwt s) key (us_jwksKeyID s) claims = Inr assertion \<and>
        claims ''ai_identity'' = Some (identityJson identity) \<and> claims ''aud'' = Some (JStr AuthorityAudience) \<and>
        claims ''exp'' = Some (GoInt (Unix (ev_now E) + 60)) \<and>
        ax_authority e = Some answer \<and> answer w assertion = Inr p)"

lemma aiTokenIdentity_value:
  "aiTokenIdentity s w c scopes = Inr i \<Longrightarrow> i = tokenIdentity c scopes"
  by (auto simp: aiTokenIdentity_def Let_def aiTokenUser_def aiTokenWorkload_def tokenIdentity_def
      split: if_split_asm option.splits sum.splits)

lemma aiTokenIdentity_actor:
  "aiTokenIdentity s w c scopes = Inr i \<Longrightarrow> ac_PrincipalKind c = ''Delegated'' \<Longrightarrow>
   \<exists>a. ac_Actor c = Some a \<and> ac_Workload c = None \<and> aa_Subject a = ''codefoundry:service:'' @ aw_ServiceUID (aa_Workload a)"
  by (auto simp: aiTokenIdentity_def Let_def aiTokenUser_def split: if_split_asm option.splits sum.splits)

lemma aiAuthorize_answered:
  assumes "aiAuthorize (us_jwt s) (us_library s) (us_aiGateway s) w E identity key issuer (us_jwksKeyID s)
       (Unix (ev_now E) * 1000000000) = Inr p" "us_aiGateway s = Some e"
  shows "authorityAnswered s w E e identity p"
proof -
  let ?n = "Unix (ev_now E) * 1000000000"
  let ?c = "[''iss'' \<mapsto> JStr issuer, ''aud'' \<mapsto> JStr AuthorityAudience, ''sub'' \<mapsto> JStr ''tikti'', ''iat'' \<mapsto> GoInt (Unix ?n),
     ''nbf'' \<mapsto> GoInt (Unix ?n), ''exp'' \<mapsto> GoInt (Unix (?n + 60000000000)), ''jti'' \<mapsto> JStr (ev_uuid E 0),
     ''ai_identity'' \<mapsto> identityJson identity]"
  from assms obtain assertion where a: "signAIClaims (us_jwt s) key (us_jwksKeyID s) ?c = Inr assertion"
    "the (ax_authority e) w assertion = Inr p"
    by (auto simp: aiAuthorize_def split: sum.splits if_splits)
  from assms have "ax_authority e \<noteq> None" by (auto simp: aiAuthorize_def aiReady_def split: if_splits)
  then obtain answer where answer: "ax_authority e = Some answer" by blast
  have u: "Unix (?n + 60000000000) = Unix (ev_now E) + 60" by (simp add: Unix_def)
  show ?thesis unfolding authorityAnswered_def
    by (rule exI [of _ key], rule exI [of _ assertion], rule exI [of _ answer], rule exI [of _ ?c])
      (use a answer u in simp)
qed

text \<open>
  C4. A valid AI token is valid now. It was signed by this service for the AI audience, is at most 300 seconds long and
  not expired; its tenant is active, before and after the authority is asked, with exactly the lifetime the token was
  issued for; and the authority was asked about
  the identity and scopes of the token in this very validation and answered with a principal of the same kind, subject,
  tenant and lifetime. A token of a user or of a delegate names a stored, active user who need not change the password,
  whose token version is the token's and who still holds every scope of it; the workload a delegate acts through, and
  the workload of a workload token, is the one the authority answered, under the pins of the token.
\<close>
theorem ai_token_current:
  assumes "ValidateAIAccessToken A s w E raw = Inr c"
  shows "(\<exists>key. getRSAPrivateKey s = Inr key \<and> decodeAIToken A raw = Some c \<and>
      al_verify A raw key (us_jwksKeyID s) (us_issuerBaseURL s) (ev_parseTime E)) \<and> ac_Audience c = AIGatewayAudienceClientID \<and>
    Unix (ev_now E) < ac_ExpiresAt c \<and> ac_ExpiresAt c - ac_IssuedAt c \<le> 300 \<and> ac_TenantUID c = ac_TenantID c \<and>
    (\<exists>e scopes p. us_aiGateway s = Some e \<and> aiTokenScopes c = Some scopes \<and>
      (\<forall>n. n = Unix (ev_now E) * 1000000000 \<or> n = ev_recheck E \<longrightarrow>
        aiTenant (us_library s) e w (ac_TenantID c) n = Inr (ac_TenantEpoch c)) \<and>
      authorityAnswered s w E e (tokenIdentity c scopes) p \<and> ap_PrincipalKind p = ac_PrincipalKind c \<and>
      ap_Subject p = ac_Subject c \<and> ap_TenantID p = ac_TenantID c \<and> ap_TenantEpoch p = ac_TenantEpoch c \<and>
      (if ac_PrincipalKind c = ''Workload''
       then \<exists>k. ac_Workload c = Some k \<and> ap_Workload p = Some k \<and> ValidWorkloadObjectUID (aw_ServiceUID k) \<and>
          ac_Subject c = ''codefoundry:service:'' @ aw_ServiceUID k
       else ac_PrincipalKind c \<in> {''User'', ''Delegated''} \<and>
          (\<exists>byID u. usByID (us_repo s) = Some byID \<and> idFindByID byID w (ac_Subject c) = Inr (Some u) \<and>
            u_Status u = UserStatusActive \<and> \<not> u_PasswordChangeRequired u \<and> ac_Version c = Some (u_TokenVersion u) \<and>
            aiUserEffectiveScopes s w u (ac_TenantID c) scopes = Inr scopes) \<and>
          (ac_PrincipalKind c = ''Delegated'' \<longrightarrow>
            (\<exists>a k. ac_Actor c = Some a \<and> aa_Subject a = ''codefoundry:service:'' @ aw_ServiceUID k \<and>
               ap_Workload p = Some k \<and> aw_ServiceUID (aa_Workload a) = aw_ServiceUID k \<and> workloadRequest k = actorRequest a))))"
proof -
  obtain e scopes i key p where v: "us_aiGateway s = Some e" "aiTokenScopes c = Some scopes"
    "aiClaimsCurrent c scopes (Unix (ev_now E) * 1000000000)" "aiTokenIdentity s w c scopes = Inr i"
    "aiAuthorize (us_jwt s) (us_library s) (us_aiGateway s) w E i key (us_issuerBaseURL s) (us_jwksKeyID s)
       (Unix (ev_now E) * 1000000000) = Inr p" "aiPrincipalAgrees p c" "getRSAPrivateKey s = Inr key"
    "decodeAIToken A raw = Some c" "al_verify A raw key (us_jwksKeyID s) (us_issuerBaseURL s) (ev_parseTime E)"
    using assms by (rule ValidateAIAccessToken_Inr)
  have i: "ai_TenantID i = ac_TenantID c" "ai_Kind i = ac_PrincipalKind c" using aiTokenIdentity_fields [OF v(4)] by simp_all
  have asked: "authorityAnswered s w E e (tokenIdentity c scopes) p"
    using aiAuthorize_answered [OF v(5,1)] unfolding aiTokenIdentity_value [OF v(4)] .
  obtain epoch where a: "aiTenant (us_library s) e w (ac_TenantID c) (Unix (ev_now E) * 1000000000) = Inr epoch"
    "aiTenant (us_library s) e w (ac_TenantID c) (ev_recheck E) = Inr epoch" "principalMatches i epoch p"
    using v(5) by (rule aiAuthorize_Inr) (use v(1) i in auto)
  have pin: "epoch = ac_TenantEpoch c" "ac_TenantUID c = ac_TenantID c" "ap_PrincipalKind p = ac_PrincipalKind c"
    "ap_Subject p = ac_Subject c" "ap_TenantID p = ac_TenantID c" "ap_TenantEpoch p = ac_TenantEpoch c"
    using a(3) v(6) i by (auto simp: principalMatches_def aiPrincipalAgrees_def)
  have time: "Unix (ev_now E) < ac_ExpiresAt c" "ac_ExpiresAt c - ac_IssuedAt c \<le> 300" "ac_Audience c = AIGatewayAudienceClientID"
    using v(3) by (auto simp: aiClaimsCurrent_def Unix_def)
  have tenant: "\<forall>n. n = Unix (ev_now E) * 1000000000 \<or> n = ev_recheck E \<longrightarrow>
      aiTenant (us_library s) e w (ac_TenantID c) n = Inr (ac_TenantEpoch c)"
    using a(1,2) unfolding pin(1) by blast
  have kind: "if ac_PrincipalKind c = ''Workload''
       then \<exists>k. ac_Workload c = Some k \<and> ap_Workload p = Some k \<and> ValidWorkloadObjectUID (aw_ServiceUID k) \<and>
          ac_Subject c = ''codefoundry:service:'' @ aw_ServiceUID k
       else ac_PrincipalKind c \<in> {''User'', ''Delegated''} \<and>
          (\<exists>byID u. usByID (us_repo s) = Some byID \<and> idFindByID byID w (ac_Subject c) = Inr (Some u) \<and>
            u_Status u = UserStatusActive \<and> \<not> u_PasswordChangeRequired u \<and> ac_Version c = Some (u_TokenVersion u) \<and>
            aiUserEffectiveScopes s w u (ac_TenantID c) scopes = Inr scopes) \<and>
          (ac_PrincipalKind c = ''Delegated'' \<longrightarrow>
            (\<exists>a k. ac_Actor c = Some a \<and> aa_Subject a = ''codefoundry:service:'' @ aw_ServiceUID k \<and>
               ap_Workload p = Some k \<and> aw_ServiceUID (aa_Workload a) = aw_ServiceUID k \<and> workloadRequest k = actorRequest a))"
  proof (cases "ac_PrincipalKind c = ''Workload''")
    case True
    then obtain k where k: "ac_Workload c = Some k" "ac_Subject c = ''codefoundry:service:'' @ aw_ServiceUID k"
      using v(4) by (auto simp: aiTokenIdentity_def Let_def elim!: aiTokenWorkload_Inr)
    have "ap_Workload p = Some k \<and> ValidWorkloadObjectUID (aw_ServiceUID k)"
      using principalMatches_workload [OF a(3)] i True v(6) k(1) by (auto simp: aiPrincipalAgrees_def)
    then show ?thesis using k True by auto
  next
    case False
    then have kind: "ac_PrincipalKind c \<in> {''User'', ''Delegated''}" and "\<exists>identity. aiTokenUser s w c scopes identity = Inr i"
      using v(4) by (auto simp: aiTokenIdentity_def Let_def split: if_split_asm)
    then obtain byID u where u: "usByID (us_repo s) = Some byID" "idFindByID byID w (ac_Subject c) = Inr (Some u)"
      "u_Status u = UserStatusActive" "\<not> u_PasswordChangeRequired u" "ac_Version c = Some (u_TokenVersion u)"
      "aiUserEffectiveScopes s w u (ac_TenantID c) scopes = Inr scopes"
      by (auto elim!: aiTokenUser_Inr)
    have "\<exists>a k. ac_Actor c = Some a \<and> aa_Subject a = ''codefoundry:service:'' @ aw_ServiceUID k \<and>
        ap_Workload p = Some k \<and> aw_ServiceUID (aa_Workload a) = aw_ServiceUID k \<and> workloadRequest k = actorRequest a"
      if d: "ac_PrincipalKind c = ''Delegated''"
    proof -
      from aiTokenIdentity_actor [OF v(4) d] obtain x where x: "ac_Actor c = Some x" "ac_Workload c = None"
        "aa_Subject x = ''codefoundry:service:'' @ aw_ServiceUID (aa_Workload x)" by blast
      have w: "ai_Workload i = Some (actorRequest x)" "ai_Kind i = ''Delegated''"
        using aiTokenIdentity_value [OF v(4)] x d by (simp_all add: tokenIdentity_def)
      from a(3) w obtain k where k: "ap_Workload p = Some k" "workloadRequest k = actorRequest x"
        by (auto simp: principalMatches_def workloadRequest_def actorRequest_def split: option.splits)
      have "aw_ServiceUID (aa_Workload x) = aw_ServiceUID k" using v(6) x(1) k(1) by (auto simp: aiPrincipalAgrees_def)
      with x k show ?thesis by auto
    qed
    with u kind False show ?thesis by simp
  qed
  show ?thesis using time pin(2-6) v(1,2,7-9) tenant asked kind by blast
qed

section \<open>A witness\<close>

definition sampleAIClaims :: aiClaims where
  "sampleAIClaims =
     \<lparr>ac_Issuer = ''https://id'', ac_Audience = AIGatewayAudienceClientID, ac_Subject = ''u-1'', ac_TenantID = ''globex'',
      ac_Scope = UsageScope, ac_IssuedAt = 4, ac_ExpiresAt = 64, ac_ID = ''jti'', ac_PrincipalKind = ''User'',
      ac_TenantUID = ''globex'', ac_TenantEpoch = sampleEpoch, ac_Version = Some 3, ac_Workload = None, ac_Actor = None\<rparr>"

definition sampleTokenLibrary :: "unit aiTokenLibrary" where
  "sampleTokenLibrary =
     \<lparr>al_payload = Some, al_parse = (\<lambda>d. Some (JObj [(''sub'', JStr ''u-1''), (''ver'', JNum 3)])),
      al_fill = (\<lambda>d. Some sampleAIClaims), al_verify = (\<lambda>raw k kid iss now. True)\<rparr>"

lemma sample_ai_tenant: "1 \<le> n \<Longrightarrow> aiTenant sampleLibrary sampleGateway () ''globex'' n = Inr sampleEpoch"
  by (simp add: aiTenant_def sampleGateway_def newAIGatewayExchange_def tenantIDPattern_def inLower_def inDigit_def
      activeTenant_def activeSample_def sampleLibrary_def sampleEpoch_def)

lemma sample_ai_authorize:
  "\<exists>p. aiAuthorize sampleJwt sampleLibrary (Some sampleGateway) () sampleCall
     \<lparr>ai_SchemaVersion = IdentityVersion, ai_Kind = ''User'', ai_Subject = ''u-1'', ai_TenantID = ''globex'',
      ai_Scopes = [UsageScope], ai_Workload = None\<rparr> () ''https://id'' ''k1'' 5000000000 = Inr p \<and>
     aiPrincipalAgrees p sampleAIClaims"
proof -
  have "aiReady (Some sampleGateway)" by (simp add: aiReady_def sampleGateway_def newAIGatewayExchange_def)
  moreover have "signAIClaims sampleJwt () ''k1'' c = Inr ''access-token''" for c
    by (simp add: signAIClaims_def sampleJwt_def)
  moreover have "ax_authority sampleGateway = Some (\<lambda>w assertion. Inr \<lparr>ap_SchemaVersion = IdentityVersion,
      ap_TenantID = ''globex'', ap_TenantUID = ''globex'', ap_TenantEpoch = sampleEpoch, ap_Subject = ''u-1'',
      ap_PrincipalKind = ''User'', ap_Workload = None\<rparr>)" "ax_slotFree sampleGateway ()"
    by (simp_all add: sampleGateway_def newAIGatewayExchange_def)
  ultimately show ?thesis
    by (simp add: aiAuthorize_def sample_ai_tenant principalMatches_def sampleCall_def aiPrincipalAgrees_def
        sampleAIClaims_def)
qed

lemma sample_ai_decoded: "decodeAIToken sampleTokenLibrary ''h.p.s'' = Some sampleAIClaims"
proof -
  have "SplitChar CHR ''.'' ''h.p.s'' = [''h'', ''p'', ''s'']" by code_simp
  moreover have "shape pointee aiClaimsType 0 (JObj [(''sub'', JStr ''u-1''), (''ver'', JNum 3)])"
    by (simp add: shape.simps aiClaimsType_def scalars_def)
  ultimately show ?thesis
    by (simp add: decodeAIToken_def sampleTokenLibrary_def aiDecode_def strictDecode_def)
qed

lemma sample_ai_scopes: "aiTokenScopes sampleAIClaims = Some [UsageScope]" "aiClaimsCurrent sampleAIClaims [UsageScope] 5000000000"
proof -
  have "SplitChar CHR '' '' UsageScope = [UsageScope]" by code_simp
  then show "aiTokenScopes sampleAIClaims = Some [UsageScope]"
    by (simp add: aiTokenScopes_def sampleAIClaims_def AIScopes_eq_Some aiKnown_def)
  have "JoinStr '' '' [UsageScope] = UsageScope" by code_simp
  then show "aiClaimsCurrent sampleAIClaims [UsageScope] 5000000000"
    by (simp add: aiClaimsCurrent_def sampleAIClaims_def Unix_def)
qed

lemma sample_ai_identity:
  "aiTokenIdentity aiService () sampleAIClaims [UsageScope] =
     Inr \<lparr>ai_SchemaVersion = IdentityVersion, ai_Kind = ''User'', ai_Subject = ''u-1'', ai_TenantID = ''globex'',
          ai_Scopes = [UsageScope], ai_Workload = None\<rparr>"
proof -
  have "us_repo aiService = sampleRepo" by (simp add: aiService_def sampleService_def)
  moreover have "aiUserPermissions aiService () sampleUser ''globex'' [UsageScope] = None"
    by (simp add: aiUserPermissions_def ai_sample_scopes)
  ultimately show ?thesis
    by (simp add: aiTokenIdentity_def aiTokenUser_def sampleAIClaims_def sampleRepo_def sampleUser_def)
qed

lemma sample_ai_token: "ValidateAIAccessToken sampleTokenLibrary aiService () sampleCall ''h.p.s'' = Inr sampleAIClaims"
proof -
  have "us_aiGateway aiService = Some sampleGateway" "us_jwt aiService = sampleJwt" "us_library aiService = sampleLibrary"
    "us_jwksKeyID aiService = ''k1''" "us_issuerBaseURL aiService = ''https://id''" "getRSAPrivateKey aiService = Inr ()"
    by (simp_all add: aiService_def sampleService_def getRSAPrivateKey_def ParseRSAPrivateKey_def sampleJwt_def)
  moreover have "aiReady (Some sampleGateway)" by (simp add: aiReady_def sampleGateway_def newAIGatewayExchange_def)
  moreover have "Unix (ev_now sampleCall) * 1000000000 = 5000000000" by (simp add: Unix_def sampleCall_def)
  moreover have "al_verify sampleTokenLibrary raw k kid iss n" for raw k kid iss n by (simp add: sampleTokenLibrary_def)
  ultimately show ?thesis
    using sample_ai_authorize
    by (auto simp: ValidateAIAccessToken_def sample_ai_decoded sample_ai_scopes sample_ai_identity)
qed

theorem ai_token_current_witness:
  "ac_ExpiresAt sampleAIClaims \<le> 300 + ac_IssuedAt sampleAIClaims \<and>
   (\<exists>byID u. usByID (us_repo aiService) = Some byID \<and> idFindByID byID () (ac_Subject sampleAIClaims) = Inr (Some u) \<and>
      u_Status u = UserStatusActive \<and> ac_Version sampleAIClaims = Some (u_TokenVersion u)) \<and>
   (\<exists>e p. us_aiGateway aiService = Some e \<and>
      authorityAnswered aiService () sampleCall e (tokenIdentity sampleAIClaims [UsageScope]) p \<and> ap_Subject p = ''u-1'')"
proof -
  have f: "ac_Subject sampleAIClaims = ''u-1''" "ac_PrincipalKind sampleAIClaims = ''User''"
    "ac_ExpiresAt sampleAIClaims \<le> 300 + ac_IssuedAt sampleAIClaims" by (simp_all add: sampleAIClaims_def)
  from ai_token_current [OF sample_ai_token] obtain e scopes p where e: "us_aiGateway aiService = Some e"
    "aiTokenScopes sampleAIClaims = Some scopes"
    "authorityAnswered aiService () sampleCall e (tokenIdentity sampleAIClaims scopes) p" "ap_Subject p = ac_Subject sampleAIClaims"
    and u: "\<exists>byID u. usByID (us_repo aiService) = Some byID \<and> idFindByID byID () (ac_Subject sampleAIClaims) = Inr (Some u) \<and>
      u_Status u = UserStatusActive \<and> ac_Version sampleAIClaims = Some (u_TokenVersion u)"
    by (simp add: f(2)) blast
  from e(2) sample_ai_scopes(1) have "scopes = [UsageScope]" by simp
  with e u f show ?thesis by (simp only:) blast
qed

end
