(* ===== verification/Workload_Samples.thy ===== *)
theory Workload_Samples
  imports Workload_Grants Directory_Samples
begin

text \<open>
  A small installation for the witnesses: one service account on a trusted cluster, which is at once the pinned topic
  controller and the pinned AI runtime, an authority that binds the topic \<^verbatim>\<open>acme.orders\<close>, and a Redis in memory.
\<close>

definition wlSubject :: workloadSubject where
  "wlSubject =
     \<lparr>ws_ServiceAccountUID = ''11111111-1111-4111-8111-111111111111'',
      ws_PodUID = ''22222222-2222-4222-8222-222222222222'', ws_Subject = ''system:serviceaccount:apps:worker'',
      ws_Issuer = ''https://k8s'', ws_ClusterRef = ''c1'', ws_Namespace = ''apps'', ws_ServiceAccount = ''worker'',
      ws_ExpiresAt = Some 1000000000000\<rparr>"

definition wlController :: topicController where
  "wlController =
     \<lparr>tc_Enabled = True, tc_Issuer = ''https://k8s'', tc_ClusterRef = ''c1'', tc_Namespace = ''apps'',
      tc_ServiceAccount = ''worker'', tc_ServiceAccountUID = ''11111111-1111-4111-8111-111111111111''\<rparr>"

definition wlMachine :: aiMachineIdentity where
  "wlMachine =
     \<lparr>mi_Enabled = True, mi_Issuer = ''https://k8s'', mi_ClusterRef = ''c1'', mi_Namespace = ''apps'',
      mi_ServiceAccount = ''worker'', mi_ServiceAccountUID = ''11111111-1111-4111-8111-111111111111''\<rparr>"

definition wlTenants :: "'w retainedReader" where
  "wlTenants = (\<lambda>w t now. Inr (Some (activeSample t)))"

definition wlBound :: queueBinding where
  "wlBound =
     \<lparr>qb_BindingUID = ''b-1'', qb_Generation = 1, qb_TopicID = ''acme.orders'', qb_TopicName = ''orders'',
      qb_Policy = PolicyPublish\<rparr>"

definition wlQueues :: "'w codeqBindingExchange" where
  "wlQueues =
     \<lparr>cx_enabled = True, cx_ttl = 60000000000,
      cx_authority = Some (\<lambda>w rq assertion. Inr \<lparr>cd_SchemaVersion = codeqSchemaVersion, cd_RequestID = cq_RequestID rq,
        cd_Allowed = Some True, cd_Reason = ReasonResolved, cd_Bindings = [wlBound], cd_Excluded = []\<rparr>),
      cx_tenants = Some wlTenants, cx_limited = True, cx_inflight = Some (\<lambda>w. True)\<rparr>"

definition wlGateway :: "'w aiGatewayExchange" where
  "wlGateway =
     newAIGatewayExchange
       \<lparr>agc_Enabled = True, agc_AccessTokenTTLSeconds = 120, agc_MaximumConcurrent = 8, agc_PerIdentityPerMinute = 10,
        agc_InstallationUID = ''inst-1'', agc_RuntimeTenantID = ''acme'', agc_Runtime = wlMachine, agc_StoreAudience = [],
        agc_StoreRuntime = noMachine, agc_StoreBootstrap = noMachine\<rparr>
       (Some (\<lambda>w assertion. Inl ErrDenied)) (Some wlTenants) (\<lambda>w. True)"

text \<open>The record of the binding of the service account on the cluster, and its revoked form.\<close>

definition wlBinding :: workloadBinding where
  "wlBinding =
     \<lparr>wb_Subject = ''system:serviceaccount:apps:worker'', wb_Namespace = ''apps'', wb_ServiceAccount = ''worker'',
      wb_ClusterRef = ''c1'', wb_ServiceAccountUID = [],
      wb_Grants = [\<lparr>wg_TenantID = ''acme'', wg_Audience = WorkloadProducerAudience, wg_Scopes = [WorkloadAdminScope],
        wg_EventTypes = []\<rparr>],
      wb_Revoked = False, wb_UpdatedAt = Some 1\<rparr>"

definition wlRevoked :: workloadBinding where
  "wlRevoked = wlBinding\<lparr>wb_Revoked := True, wb_UpdatedAt := Some 100000000000\<rparr>"

definition wlCodec :: "workloadBinding codec" where
  "wlCodec = tableCodec [(wlBinding, ''active''), (wlRevoked, ''revoked'')]"

definition wlRepo :: "memory workloadBindingRepository" where
  "wlRepo = NewWorkloadBindingRepo memStore wlCodec (\<lambda>w. w)"

definition wlKey :: string where
  "wlKey = WorkloadBindingKey ''c1'' ''system:serviceaccount:apps:worker''"

definition wlMemory :: memory where
  "wlMemory =
     \<lparr>mem_keys = emptyKeys\<lparr>ks_hash := (\<lambda>k. Map.empty)(workloadBindingsKey := [wlKey \<mapsto> ''active''])\<rparr>, mem_fields = []\<rparr>"

definition wlEnv :: workloadEnv where
  "wlEnv = \<lparr>we_now = (\<lambda>n. 100000000000), we_limiterNow = 100000000000, we_call = sampleCall\<rparr>"

text \<open>A JWT library that signs the one token the topic controller gets and reads it back.\<close>

definition wlTopicClaims :: claims where
  "wlTopicClaims =
     [''iss'' \<mapsto> JStr ''https://id'', ''aud'' \<mapsto> JStr WorkloadProducerAudience,
      ''sub'' \<mapsto> JStr ''system:serviceaccount:apps:worker'', ''tid'' \<mapsto> JStr ''acme'',
      ''tenant_epoch'' \<mapsto> JStr (''codefoundry/tenant-lifetime/v1'' @ [CHR 0x00] @ ''acme'' @ [CHR 0x00]),
      ''scope'' \<mapsto> JStr CodeQTopicManageScope, ''topic_controller'' \<mapsto> JStr ''controller'',
      ''iat'' \<mapsto> GoInt 100, ''exp'' \<mapsto> GoInt 160, ''jti'' \<mapsto> JStr ''uuid'']"

definition wlTopicJwt :: "unit jwtlib" where
  "wlTopicJwt = sampleJwt\<lparr>signRS256 := (\<lambda>kid c k. if c = wlTopicClaims then Inr ''topic-token'' else Inl ErrInvalidToken)\<rparr>"

definition wlService :: "'w workloadBindingRepository option \<Rightarrow> ('w, unit) workloadService" where
  "wlService repo =
     \<lparr>wi_unicode = asciiUnicode, wi_jwt = sampleJwt, wi_bitLen = (\<lambda>k. 2048),
      wi_parseTopicToken = (\<lambda>raw kid key iss aud now.
        if 100000000000 \<le> now \<and> now < 160000000000 then Some (jsonClaims wlTopicClaims) else None),
      wi_library = sampleLibrary, wi_marshalController = (\<lambda>p. ''controller''), wi_trinoAuthority = None,
      wi_topicController = wlController, wi_topicTenants = Some wlTenants, wi_repo = repo,
      wi_verifier = Some (\<lambda>w token. Inr wlSubject), wi_issuer = ''https://id'', wi_privatePEM = ''pem'', wi_keyID = ''k1'',
      wi_ttl = 300000000000, wi_trustedClusterRefs = [''c1''], wi_scopedWorkloadBindings = False,
      wi_refuseLegacyCodeQAdmin = False, wi_codeqBindings = Some wlQueues, wi_managedLogs = None,
      wi_aiGateway = Some wlGateway, wi_aiUsers = None\<rparr>"

definition wlLimiters :: workloadLimiters where
  "wlLimiters =
     \<lparr>wl_codeq = NewIdentityRateLimiter 10 60000000000, wl_logs = NewIdentityRateLimiter 10 60000000000,
      wl_ai = NewIdentityRateLimiter 10 60000000000\<rparr>"

definition wlRequest :: workloadExchangeReq where
  "wlRequest =
     \<lparr>wx_SubjectToken = ''projected'', wx_SubjectTokenType = WorkloadSubjectTokenType, wx_Audience = WorkloadProducerAudience,
      wx_Scopes = [''codeq:publish''], wx_TenantID = ''acme'', wx_CodeQTopicID = ''acme.orders'', wx_LogsGrant = [],
      wx_LogsGrantKind = [], wx_LogsConfigUID = [], wx_LogsConfigGeneration = 0, wx_AIGrant = [], wx_UserToken = []\<rparr>"

definition wlTopicRequest :: workloadExchangeReq where
  "wlTopicRequest = wlRequest\<lparr>wx_Scopes := [CodeQTopicManageScope], wx_CodeQTopicID := []\<rparr>"

definition wlLegacyRequest :: workloadExchangeReq where
  "wlLegacyRequest = wlRequest\<lparr>wx_Scopes := [WorkloadAdminScope], wx_CodeQTopicID := []\<rparr>"

definition wlRuntimeRequest :: workloadExchangeReq where
  "wlRuntimeRequest =
     wlRequest\<lparr>wx_Scopes := [RuntimeScope], wx_Audience := RuntimeAudience, wx_CodeQTopicID := [], wx_AIGrant := ''Runtime''\<rparr>"

definition wlAfter :: memory where
  "wlAfter = wlMemory\<lparr>mem_keys := applyCmd (CHSet workloadBindingsKey wlKey ''revoked'') (mem_keys wlMemory)\<rparr>"

definition wlOutage :: "memory store" where
  "wlOutage = memStore\<lparr>rHGet := (\<lambda>w k f. if f = wlKey then Inl (ErrText ''i/o timeout'') else rHGet memStore w k f)\<rparr>"

end
