(* ===== verification/Workload_Properties.thy ===== *)
theory Workload_Properties
  imports Workload_Samples
begin

text \<open>
  What a workload token means: whose identity it carries, which live decision or stored record it rests on, which
  scopes it can have at all, and how long it lives.
\<close>

section \<open>What each path checked\<close>

lemma signWorkload_Inr:
  assumes "signWorkload s c = Inr raw"
  obtains key where "wi_issuer s \<noteq> []" "wi_keyID s \<noteq> []" "signingKey s = Inr key"
    "signRS256 (wi_jwt s) (Some (wi_keyID s)) c key = Inr raw"
  using assms by (auto simp: signWorkload_def split: if_splits sum.splits)

text \<open>
  A token's own claims: the response carries a token signed over \<open>c\<close> with the installation's key, and its audience and
  scope claim are those the response names; without scopes there is no scope claim.
\<close>

definition scopeClaim :: "string list \<Rightarrow> jval option" where
  "scopeClaim scopes = (if scopes = [] then None else Some (JStr (JoinStr '' '' scopes)))"

definition signedAs :: "('w, 'k) workloadService \<Rightarrow> workloadExchangeResp \<Rightarrow> claims \<Rightarrow> bool" where
  "signedAs s resp c \<longleftrightarrow>
     (\<exists>key. signingKey s = Inr key \<and> signRS256 (wi_jwt s) (Some (wi_keyID s)) c key = Inr (wp_AccessToken resp)) \<and>
     c ''aud'' = Some (JStr (wp_Audience resp)) \<and> c ''scope'' = scopeClaim (wp_Scopes resp)"

lemma signWorkload_signedAs:
  assumes "signWorkload s c = Inr (wp_AccessToken resp)" "c ''aud'' = Some (JStr (wp_Audience resp))"
    "c ''scope'' = scopeClaim (wp_Scopes resp)"
  shows "\<exists>c. signedAs s resp c"
  using assms by (auto simp: signedAs_def elim!: signWorkload_Inr)

lemma signAIClaims_Inr: "signAIClaims J key kid c = Inr raw \<Longrightarrow> signRS256 J (Some kid) c key = Inr raw"
  by (auto simp: signAIClaims_def split: if_splits sum.splits)

lemma workloadBearer_simps [simp]:
  "wp_AccessToken (workloadBearer t n a sc i ev) = t" "wp_ExpiresIn (workloadBearer t n a sc i ev) = n div 1000000000"
  "wp_Audience (workloadBearer t n a sc i ev) = a" "wp_Scopes (workloadBearer t n a sc i ev) = sc"
  "wp_TenantID (workloadBearer t n a sc i ev) = i" "wp_EventTypes (workloadBearer t n a sc i ev) = ev"
  by (simp_all add: workloadBearer_def)

lemma find_SomeD: "find P xs = Some x \<Longrightarrow> x \<in> set xs \<and> P x"
  by (induction xs) (auto split: if_splits)

lemma workloadBindingGrant_Some:
  assumes "workloadBindingGrant ob subject tenantID audience scopes = Some g"
  obtains b g0 where "ob = Some b" "\<not> wb_Revoked b" "wb_Subject b = ws_Subject subject"
    "wb_Namespace b = ws_Namespace subject" "wb_ServiceAccount b = ws_ServiceAccount subject"
    "wb_ClusterRef b \<in> {[], ws_ClusterRef subject}" "wb_ServiceAccountUID b \<in> {[], ws_ServiceAccountUID subject}"
    "g0 \<in> set (wb_Grants b)" "wg_TenantID g0 = tenantID" "wg_Audience g0 = audience"
    "normalizedWorkloadScopes (wg_Scopes g0) = normalizedWorkloadScopes scopes"
    "workloadEventTypesAllowed audience (wg_EventTypes g0)" "g = normalizedGrant g0"
proof -
  note found = that
  let ?P = "\<lambda>g. wg_TenantID g = tenantID \<and> wg_Audience g = audience \<and>
    normalizedWorkloadScopes (wg_Scopes g) = normalizedWorkloadScopes scopes \<and>
    workloadEventTypesAllowed (wg_Audience g) (wg_EventTypes g)"
  from assms obtain b g0 where b: "ob = Some b" "find ?P (wb_Grants b) = Some g0" "g = normalizedGrant g0"
    "\<not> wb_Revoked b" "wb_Subject b = ws_Subject subject" "wb_Namespace b = ws_Namespace subject"
    "wb_ServiceAccount b = ws_ServiceAccount subject" "wb_ClusterRef b \<in> {[], ws_ClusterRef subject}"
    "wb_ServiceAccountUID b \<in> {[], ws_ServiceAccountUID subject}"
    by (auto simp: workloadBindingGrant_def split: option.splits if_split_asm)
  show thesis using find_SomeD [OF b(2)] by (intro found [OF b(1,4-9) _ _ _ _ _ b(3)]) auto
qed

lemma exchangeLegacy_Inr:
  assumes "exchangeLegacy s w E req = Inr resp"
  obtains repo subject ob g where "wi_repo s = Some repo" "VerifyProjectedToken s w (wx_SubjectToken req) = Inr subject"
    "legacyBinding s repo w subject = Inr ob"
    "workloadBindingGrant ob subject (wx_TenantID req) (wx_Audience req) (wx_Scopes req) = Some g"
    "workloadScopesAllowed (wx_Audience req) (wx_Scopes req)"
    "wx_Audience req = WorkloadProducerAudience \<Longrightarrow> \<not> wi_refuseLegacyCodeQAdmin s"
    "signWorkload s (legacyClaims s E req subject g) = Inr (wp_AccessToken resp)"
    "resp = workloadBearer (wp_AccessToken resp) (wi_ttl s) (wx_Audience req) (normalizedWorkloadScopes (wx_Scopes req))
       (wx_TenantID req) (wg_EventTypes g)"
  using assms unfolding exchangeLegacy_def
  by (auto split: if_split_asm option.splits sum.splits)

lemma exchangeCodeQTopic_Inr:
  assumes "exchangeCodeQTopic s w E req = Inr resp"
  obtains subject a ttl where "wx_Scopes req = [CodeQTopicManageScope]" "wx_Audience req = WorkloadProducerAudience"
    "controllerValid (wi_topicController s)" "VerifyProjectedToken s w (wx_SubjectToken req) = Inr subject"
    "isController (wi_topicController s) subject" "topicAuthority s w (we_now E 0) (wx_TenantID req) = Inr a"
    "ttl = min (wi_ttl s) 60000000000" "signWorkload s (topicClaims s E subject a ttl) = Inr (wp_AccessToken resp)"
    "resp = workloadBearer (wp_AccessToken resp) ttl WorkloadProducerAudience [CodeQTopicManageScope] (ct_TenantID a) []"
  using assms
  by (auto simp: exchangeCodeQTopic_def Let_def min_def split: if_split_asm option.splits sum.splits)

lemma trinoRequest_prefix: "trinoRequest aud t scs = (i, True) \<Longrightarrow> HasPrefix aud ''trino:'' \<and> scs = [TrinoQueryScope]"
  by (auto simp: trinoRequest_def TrinoInstallationAudience_def split: prod.splits if_splits)

lemma trinoRequest_audience: "trinoRequest aud t scs = (i, True) \<Longrightarrow> ''trino:'' @ i = aud"
  by (auto simp: trinoRequest_def TrinoInstallationAudience_def Let_def TrimPrefix_def HasPrefix_def split: prod.splits if_splits)
    (metis append_Cons append_Nil append_take_drop_id)

lemma trinoClaims_Inr:
  "trinoClaims L p i t kind subject issuer now ttl jti = Inr c \<Longrightarrow>
   c ''aud'' = Some (JStr (''trino:'' @ i)) \<and> c ''scope'' = Some (JStr TrinoQueryScope)"
  by (auto simp: trinoClaims_def split: if_split_asm sum.splits)

lemma exchangeTrinoWorkload_Inr:
  assumes "exchangeTrinoWorkload s w E req = Inr resp"
  shows "HasPrefix (wp_Audience resp) ''trino:'' \<and> wp_Scopes resp = [TrinoQueryScope] \<and> (\<exists>c. signedAs s resp c)"
proof -
  from assms obtain i p kind subject ttl c raw where t: "trinoRequest (wx_Audience req) (wx_TenantID req) (wx_Scopes req) = (i, True)"
    "trinoClaims (wi_library s) p i (wx_TenantID req) kind subject (wi_issuer s) (we_now E 0) ttl (we_uuid E 0) = Inr c"
    "signWorkload s c = Inr raw"
    "resp = workloadBearer raw (ttl * 1000000000) (wx_Audience req) [TrinoQueryScope] (wx_TenantID req) []"
    by (auto simp: exchangeTrinoWorkload_def Let_def split: if_split_asm option.splits sum.splits prod.splits)
  have "\<exists>c. signedAs s resp c"
    by (rule signWorkload_signedAs [of _ c]) (use t trinoClaims_Inr [OF t(2)] trinoRequest_audience [OF t(1)] in
        \<open>simp_all add: scopeClaim_def\<close>)
  with t(4) trinoRequest_prefix [OF t(1)] show ?thesis by simp
qed

lemma exchangeAIPrincipal_Inr:
  assumes "exchangeAIPrincipal s e w E r subject now = Inr resp"
  obtains scopes ou p key where "AIScopes (wx_Scopes r) = Some scopes" "wx_Audience r = AIGatewayAudienceClientID"
    "delegation s w r scopes = Inr ou" "1000000000 \<le> aiWorkloadTTL (ax_cfg e) subject ou now"
    "wp_Audience resp = wx_Audience r" "wp_Scopes resp = scopes"
    "wp_ExpiresIn resp = aiWorkloadTTL (ax_cfg e) subject ou now div 1000000000"
    "signingKey s = Inr key"
    "aiAuthorize (wi_jwt s) (wi_library s) (Some e) w (we_call E)
       (case ou of None \<Rightarrow> workloadIdentity subject (wx_TenantID r) scopes
        | Some user \<Rightarrow> (workloadIdentity subject (wx_TenantID r) scopes)
            \<lparr>ai_Kind := ''Delegated'', ai_Subject := ac_Subject user\<rparr>) key (wi_issuer s) (wi_keyID s) now = Inr p"
    "signRS256 (wi_jwt s) (Some (wi_keyID s))
       (aiWorkloadClaims ou p (aiPrincipalClaims p (wi_issuer s) scopes now (aiWorkloadTTL (ax_cfg e) subject ou now) (we_uuid E 1)))
       key = Inr (wp_AccessToken resp)"
  using assms
  by (auto simp: exchangeAIPrincipal_def Let_def not_less split: if_split_asm option.splits sum.splits dest!: signAIClaims_Inr)

lemma aiWorkloadClaims_base:
  "k \<notin> {''workload'', ''ver'', ''act''} \<Longrightarrow> aiWorkloadClaims ou p c k = c k"
  by (simp add: aiWorkloadClaims_def split: option.split)

lemma exchangeAIPrincipal_signed:
  assumes "exchangeAIPrincipal s e w E r subject now = Inr resp"
  shows "\<exists>c. signedAs s resp c"
  using assms
proof (rule exchangeAIPrincipal_Inr)
  fix scopes ou p key
  let ?c = "aiWorkloadClaims ou p (aiPrincipalClaims p (wi_issuer s) scopes now (aiWorkloadTTL (ax_cfg e) subject ou now) (we_uuid E 1))"
  assume a: "AIScopes (wx_Scopes r) = Some scopes" "wx_Audience r = AIGatewayAudienceClientID" "wp_Audience resp = wx_Audience r"
    "wp_Scopes resp = scopes" "signingKey s = Inr key"
    "signRS256 (wi_jwt s) (Some (wi_keyID s)) ?c key = Inr (wp_AccessToken resp)"
  have "scopes \<noteq> []" using a(1) by (auto simp: AIScopes_eq_Some)
  then have "signedAs s resp ?c"
    using a(2-6) by (simp add: signedAs_def aiWorkloadClaims_base) (simp add: aiPrincipalClaims_def scopeClaim_def)
  then show ?thesis by blast
qed

lemma exchangeAIMachine_Inr:
  assumes "exchangeAIMachine s e w E r subject now = Inr resp"
  obtains identity scopes longest epoch where "aiMachineGrant (ax_cfg e) r = Some (identity, scopes, longest)"
    "wx_TenantID r = agc_RuntimeTenantID (ax_cfg e)" "aiMachineMatches identity subject"
    "1000000000 \<le> min longest (subjectRemaining subject now)"
    "aiTenant (wi_library s) e w (wx_TenantID r) now = Inr epoch" "wp_Audience resp = wx_Audience r"
    "wp_Scopes resp = scopes" "wp_ExpiresIn resp = min longest (subjectRemaining subject now) div 1000000000"
    "signedAs s resp (aiMachineClaims s (ax_cfg e) E r subject epoch scopes now (min longest (subjectRemaining subject now)))"
proof -
  note found = that
  from assms obtain identity scopes longest epoch key where g:
    "aiMachineGrant (ax_cfg e) r = Some (identity, scopes, longest)"
    "wx_TenantID r = agc_RuntimeTenantID (ax_cfg e)" "aiMachineMatches identity subject"
    "1000000000 \<le> min longest (subjectRemaining subject now)"
    "aiTenant (wi_library s) e w (wx_TenantID r) now = Inr epoch" "wp_Audience resp = wx_Audience r"
    "wp_Scopes resp = scopes" "wp_ExpiresIn resp = min longest (subjectRemaining subject now) div 1000000000"
    and sig: "signingKey s = Inr key" "signRS256 (wi_jwt s) (Some (wi_keyID s))
      (aiMachineClaims s (ax_cfg e) E r subject epoch scopes now (min longest (subjectRemaining subject now))) key =
        Inr (wp_AccessToken resp)"
    by (auto simp: exchangeAIMachine_def Let_def not_less split: if_split_asm option.splits sum.splits prod.splits
        dest!: signAIClaims_Inr)
  have "scopes \<noteq> []" using g(1) by (auto simp: aiMachineGrant_def aiStoreScopes_def split: if_split_asm)
  then have "signedAs s resp (aiMachineClaims s (ax_cfg e) E r subject epoch scopes now (min longest (subjectRemaining subject now)))"
    using sig g(6,7) by (simp add: signedAs_def) (simp add: aiMachineClaims_def scopeClaim_def)
  with g show thesis by (rule found)
qed

lemma exchangeAIWorkload_Inr:
  assumes "exchangeAIWorkload s w l E r = (Inr resp, l')"
  obtains e subject where "wi_aiGateway s = Some e" "aiReady (Some e)"
    "VerifyProjectedToken s w (wx_SubjectToken r) = Inr subject" "aiSubjectValid subject (wholeSecond (we_now E 0))"
    "(if wx_AIGrant r \<noteq> [] then exchangeAIMachine s e w E r subject (wholeSecond (we_now E 0))
      else exchangeAIPrincipal s e w E r subject (wholeSecond (we_now E 0))) = Inr resp"
  using assms
  by (auto simp: exchangeAIWorkload_def Let_def split: if_split_asm option.splits sum.splits prod.splits)

lemma refuseBinding_Inr [simp]: "refuseBinding d st code n \<noteq> (Inr x, d')"
  by (simp add: refuseBinding_def)

lemma codeqBindingSubjectStep_Inr:
  assumes "codeqBindingSubjectStep s w req d = (Inr subject, d')"
  shows "VerifyProjectedToken s w (wx_SubjectToken req) = Inr subject \<and> canonicalSubject subject \<and>
    ws_ExpiresAt subject \<noteq> None \<and> ValidCanonicalUUID (ws_ServiceAccountUID subject) \<and>
    ValidCanonicalUUID (ws_PodUID subject) \<and> ValidWorkloadClusterRef (ws_ClusterRef subject) \<and>
    ba_correlationID d' = ba_correlationID d"
  using assms by (auto simp: codeqBindingSubjectStep_def Let_def split: if_split_asm sum.splits)

lemma callCodeQBindingAuthority_Inr:
  assumes "callCodeQBindingAuthority s authorize w E request d = (Inr decision, d')"
  shows "\<exists>assertion. authorize w request assertion = Inr decision \<and> codeqValidDecision request decision"
  using assms by (auto simp: callCodeQBindingAuthority_def split: if_split_asm sum.splits prod.splits)

lemma issueCodeQBinding_Inr:
  assumes "issueCodeQBinding s configured E req policy scopes topicName subject decision d = (Inr resp, d')"
  obtains b ttl key where "IsAllowed decision"
    "filter (\<lambda>b. qb_TopicID b = wx_CodeQTopicID req \<and> qb_Policy b = policy) (cd_Bindings decision) = [b]"
    "ttl = min (subjectRemaining subject (wholeSecond (we_now E 2))) configured" "codeqBindingMinimumTTL \<le> ttl"
    "signingKey s = Inr key"
    "signRS256 (wi_jwt s) (Some (wi_keyID s))
       (codeqBindingClaims s subject (wx_TenantID req) (wx_Audience req) scopes topicName b (wholeSecond (we_now E 2)) ttl
          (we_uuid E 2)) key = Inr (wp_AccessToken resp)"
    "resp = workloadBearer (wp_AccessToken resp) ttl (wx_Audience req) scopes (wx_TenantID req) [topicName]"
    "ba_code d' = ''Issued''" "ba_bindingUID d' = qb_BindingUID b" "ba_jti d' = we_uuid E 2"
    "ba_exp d' = Unix (wholeSecond (we_now E 2) + ttl)"
  using assms
  by (auto simp: issueCodeQBinding_def signCodeQBindingToken_def Let_def not_less min_def
      split: if_split_asm list.splits sum.splits elim!: signWorkload_Inr)

lemma codeqBindingAuthorised_Inr:
  assumes "codeqBindingAuthorised s x w l E req policy scopes topicName subject d = ((Inr resp, d'), l')"
  obtains ot assertion decision d1 where "the (cx_tenants x) w (wx_TenantID req) (we_now E 0) = Inr ot"
    "activeTenant ot (wx_TenantID req) (we_now E 0)"
    "fst (fst (Allow (wl_codeq l) (we_limiterNow E) (subjectKey subject)))"
    "the (cx_authority x) w (bindingRequest req subject (ba_correlationID d)) assertion = Inr decision"
    "codeqValidDecision (bindingRequest req subject (ba_correlationID d)) decision"
    "issueCodeQBinding s (cx_ttl x) E req policy scopes topicName subject decision d1 = (Inr resp, d')"
  using assms
  by (auto simp: codeqBindingAuthorised_def Let_def split: if_split_asm sum.splits prod.splits
      dest!: callCodeQBindingAuthority_Inr)

lemma codeqBindingProcedure_Inr:
  assumes "codeqBindingProcedure s w l E req d = ((Inr resp, d'), l')"
  obtains x policy scopes topicName subject d1 where "wi_codeqBindings s = Some x" "cx_enabled x"
    "codeqBindingPolicy (wx_Audience req) (wx_Scopes req) = Some (policy, scopes)"
    "codeqBindingTopicName (wx_TenantID req) (wx_CodeQTopicID req) = Some topicName"
    "cx_authority x \<noteq> None" "cx_tenants x \<noteq> None" "codeqBindingMinimumTTL \<le> cx_ttl x" "cx_ttl x \<le> codeqBindingMaximumTTL"
    "codeqBindingSubjectStep s w req (d\<lparr>ba_policy := policy\<rparr>) = (Inr subject, d1)"
    "codeqBindingAuthorised s x w l E req policy scopes topicName subject d1 = ((Inr resp, d'), l')"
  using assms
  by (auto simp: codeqBindingProcedure_def Let_def not_less split: if_split_asm option.splits sum.splits prod.splits)

text \<open>A topic in a valid decision is named after the tenant it was asked for.\<close>

lemma validQueueBindings_topic:
  "validQueueBindings pfx seen bs \<Longrightarrow> b \<in> set bs \<Longrightarrow> validQueueBinding pfx b"
  by (induction pfx seen bs rule: validQueueBindings.induct) (auto split: if_splits)

lemma decision_topic:
  assumes "codeqValidDecision (bindingRequest req subject i) d" "IsAllowed d" "b \<in> set (cd_Bindings d)"
  shows "qb_TopicID b = wx_TenantID req @ ''.'' @ qb_TopicName b"
  using assms validQueueBindings_topic [of "wx_TenantID req @ ''.''" "[]" "cd_Bindings d" b]
  by (auto simp: codeqValidDecision_def IsAllowed_def bindingRequest_def validQueueBinding_def split: if_split_asm option.splits)

lemma codeqBindingTopicName_Some:
  assumes "codeqBindingTopicName tenantID topicID = Some name"
  shows "topicID = tenantID @ ''.'' @ name"
proof -
  let ?p = "tenantID @ ''.''"
  from assms have "take (length ?p) topicID = ?p" "name = drop (length ?p) topicID"
    unfolding codeqBindingTopicName_def Let_def HasPrefix_def by (simp_all split: if_split_asm)
  then have "topicID = ?p @ name" by (metis append_take_drop_id)
  then show ?thesis by simp
qed

lemma remaining_bound:
  assumes "1000000000 \<le> ttl" "ttl \<le> subjectRemaining subject now"
  shows "\<exists>ex. ws_ExpiresAt subject = Some ex \<and> now + ttl \<le> ex"
proof (cases "ws_ExpiresAt subject")
  case (Some ex)
  with assms have t: "1000000000 \<le> truncateSecond (timeSub ex now)" "ttl \<le> truncateSecond (timeSub ex now)"
    by (auto simp: subjectRemaining_def)
  then have "ttl \<le> timeSub ex now" "1000000000 \<le> timeSub ex now" using truncateSecond_le [OF t(1)] by linarith+
  with Some show ?thesis by (auto simp: timeSub_def)
qed (use assms in \<open>simp add: subjectRemaining_def\<close>)

lemma Unix_whole [simp]: "Unix (wholeSecond n + ttl) = Unix n + ttl div 1000000000" "Unix (wholeSecond n) = Unix n"
  by (simp_all add: Unix_def wholeSecond_def)

lemma remaining_seconds:
  assumes "1000000000 \<le> ttl" "ttl \<le> subjectRemaining subject (wholeSecond n)"
  shows "\<exists>ex. ws_ExpiresAt subject = Some ex \<and> Unix n + ttl div 1000000000 \<le> Unix ex"
proof -
  obtain ex where ex: "ws_ExpiresAt subject = Some ex" "wholeSecond n + ttl \<le> ex" using remaining_bound [OF assms] by blast
  then have "Unix (wholeSecond n + ttl) \<le> Unix ex" unfolding Unix_def by (intro zdiv_mono1) simp_all
  with ex(1) show ?thesis by auto
qed

lemma codeqBindingClaims_whole:
  "codeqBindingClaims s subject t a sc n b (wholeSecond m) (ttl div 1000000000 * 1000000000) j =
   codeqBindingClaims s subject t a sc n b (wholeSecond m) ttl j"
  by (simp add: codeqBindingClaims_def)

lemma exchangeCodeQBinding_Inr:
  assumes "exchangeCodeQBinding s w l E req = ((Inr resp, d), l')"
  obtains x policy scopes topicName subject ot assertion decision d2 where "wi_codeqBindings s = Some x" "cx_enabled x"
    "codeqBindingPolicy (wx_Audience req) (wx_Scopes req) = Some (policy, scopes)"
    "codeqBindingTopicName (wx_TenantID req) (wx_CodeQTopicID req) = Some topicName"
    "cx_authority x \<noteq> None" "cx_tenants x \<noteq> None" "cx_ttl x \<le> codeqBindingMaximumTTL"
    "VerifyProjectedToken s w (wx_SubjectToken req) = Inr subject" "canonicalSubject subject"
    "ValidCanonicalUUID (ws_ServiceAccountUID subject)" "ValidCanonicalUUID (ws_PodUID subject)"
    "ValidWorkloadClusterRef (ws_ClusterRef subject)"
    "the (cx_tenants x) w (wx_TenantID req) (we_now E 0) = Inr ot" "activeTenant ot (wx_TenantID req) (we_now E 0)"
    "fst (fst (Allow (wl_codeq l) (we_limiterNow E) (subjectKey subject)))"
    "the (cx_authority x) w (bindingRequest req subject (we_uuid E 0)) assertion = Inr decision"
    "codeqValidDecision (bindingRequest req subject (we_uuid E 0)) decision"
    "issueCodeQBinding s (cx_ttl x) E req policy scopes topicName subject decision d2 = (Inr resp, d)"
proof -
  note found = that
  from assms obtain x policy scopes topicName subject d1 where x: "wi_codeqBindings s = Some x" "cx_enabled x"
    "codeqBindingPolicy (wx_Audience req) (wx_Scopes req) = Some (policy, scopes)"
    "codeqBindingTopicName (wx_TenantID req) (wx_CodeQTopicID req) = Some topicName"
    "cx_authority x \<noteq> None" "cx_tenants x \<noteq> None" "cx_ttl x \<le> codeqBindingMaximumTTL"
    "codeqBindingSubjectStep s w req (newBindingAudit E req\<lparr>ba_policy := policy\<rparr>) = (Inr subject, d1)"
    "codeqBindingAuthorised s x w l E req policy scopes topicName subject d1 = ((Inr resp, d), l')"
    unfolding exchangeCodeQBinding_def by (rule codeqBindingProcedure_Inr)
  note sub = codeqBindingSubjectStep_Inr [OF x(8)]
  then have corr: "ba_correlationID d1 = we_uuid E 0" by (simp add: newBindingAudit_def)
  from x(9) show thesis
    by (rule codeqBindingAuthorised_Inr) (rule found [OF x(1-7)], use sub corr in auto)
qed

section \<open>Queue bindings\<close>

text \<open>
  C1. A token for a queue comes from one live decision. The projected token was verified and names a canonical service
  account with its own UID, its pod and a trusted cluster; the tenant was active; the limiter admitted the pod; the
  authority, asked for exactly this identity, allowed exactly one binding of the asked topic and policy, and the topic
  belongs to the tenant of the token. The token is signed over that binding, lives 30 to 300 seconds, not past the
  projected token, and the audit record names it.
\<close>
theorem codeq_binding_token_exact:
  assumes "exchangeCodeQBinding s w l E req = ((Inr resp, d), l')"
  shows "\<exists>x subject authorize getRetained ot assertion decision b key policy.
    wi_codeqBindings s = Some x \<and> cx_enabled x \<and> cx_authority x = Some authorize \<and> cx_tenants x = Some getRetained \<and>
    VerifyProjectedToken s w (wx_SubjectToken req) = Inr subject \<and> canonicalSubject subject \<and>
    ValidCanonicalUUID (ws_ServiceAccountUID subject) \<and> ValidCanonicalUUID (ws_PodUID subject) \<and>
    ValidWorkloadClusterRef (ws_ClusterRef subject) \<and>
    getRetained w (wx_TenantID req) (we_now E 0) = Inr ot \<and> activeTenant ot (wx_TenantID req) (we_now E 0) \<and>
    fst (fst (Allow (wl_codeq l) (we_limiterNow E) (subjectKey subject))) \<and>
    authorize w (bindingRequest req subject (we_uuid E 0)) assertion = Inr decision \<and> IsAllowed decision \<and>
    codeqBindingPolicy (wx_Audience req) (wx_Scopes req) = Some (policy, wp_Scopes resp) \<and>
    filter (\<lambda>b. qb_TopicID b = wx_CodeQTopicID req \<and> qb_Policy b = policy) (cd_Bindings decision) = [b] \<and>
    qb_TopicID b = wx_TenantID req @ ''.'' @ qb_TopicName b \<and>
    signingKey s = Inr key \<and>
    signRS256 (wi_jwt s) (Some (wi_keyID s))
      (codeqBindingClaims s subject (wx_TenantID req) (wx_Audience req) (wp_Scopes resp) (qb_TopicName b) b
         (wholeSecond (we_now E 2)) (wp_ExpiresIn resp * 1000000000) (we_uuid E 2)) key = Inr (wp_AccessToken resp) \<and>
    30 \<le> wp_ExpiresIn resp \<and> wp_ExpiresIn resp \<le> 300 \<and>
    (\<exists>ex. ws_ExpiresAt subject = Some ex \<and> Unix (we_now E 2) + wp_ExpiresIn resp \<le> Unix ex) \<and>
    ba_code d = ''Issued'' \<and> ba_bindingUID d = qb_BindingUID b \<and> ba_exp d = Unix (we_now E 2) + wp_ExpiresIn resp"
proof -
  from assms obtain x policy scopes topicName subject ot assertion decision d2 where x: "wi_codeqBindings s = Some x"
    "cx_enabled x" "codeqBindingPolicy (wx_Audience req) (wx_Scopes req) = Some (policy, scopes)"
    "codeqBindingTopicName (wx_TenantID req) (wx_CodeQTopicID req) = Some topicName"
    "cx_authority x \<noteq> None" "cx_tenants x \<noteq> None" "cx_ttl x \<le> codeqBindingMaximumTTL"
    "VerifyProjectedToken s w (wx_SubjectToken req) = Inr subject" "canonicalSubject subject"
    "ValidCanonicalUUID (ws_ServiceAccountUID subject)" "ValidCanonicalUUID (ws_PodUID subject)"
    "ValidWorkloadClusterRef (ws_ClusterRef subject)"
    "the (cx_tenants x) w (wx_TenantID req) (we_now E 0) = Inr ot" "activeTenant ot (wx_TenantID req) (we_now E 0)"
    "fst (fst (Allow (wl_codeq l) (we_limiterNow E) (subjectKey subject)))"
    "the (cx_authority x) w (bindingRequest req subject (we_uuid E 0)) assertion = Inr decision"
    and a: "codeqValidDecision (bindingRequest req subject (we_uuid E 0)) decision"
      "issueCodeQBinding s (cx_ttl x) E req policy scopes topicName subject decision d2 = (Inr resp, d)"
    by (rule exchangeCodeQBinding_Inr)
  from a(2) obtain b ttl key where i: "IsAllowed decision"
    "filter (\<lambda>b. qb_TopicID b = wx_CodeQTopicID req \<and> qb_Policy b = policy) (cd_Bindings decision) = [b]"
    "ttl = min (subjectRemaining subject (wholeSecond (we_now E 2))) (cx_ttl x)" "codeqBindingMinimumTTL \<le> ttl"
    "signingKey s = Inr key"
    "signRS256 (wi_jwt s) (Some (wi_keyID s))
       (codeqBindingClaims s subject (wx_TenantID req) (wx_Audience req) scopes topicName b (wholeSecond (we_now E 2)) ttl
          (we_uuid E 2)) key = Inr (wp_AccessToken resp)"
    "resp = workloadBearer (wp_AccessToken resp) ttl (wx_Audience req) scopes (wx_TenantID req) [topicName]"
    "ba_code d = ''Issued''" "ba_bindingUID d = qb_BindingUID b" "ba_exp d = Unix (wholeSecond (we_now E 2) + ttl)"
    by (rule issueCodeQBinding_Inr)
  from i(2) have b: "b \<in> set (cd_Bindings decision)" "qb_TopicID b = wx_CodeQTopicID req"
    by (auto dest!: arg_cong [of _ _ set])
  from decision_topic [OF a(1) i(1) b(1)] codeqBindingTopicName_Some [OF x(4)] b(2)
  have topic: "topicName = qb_TopicName b" "qb_TopicID b = wx_TenantID req @ ''.'' @ qb_TopicName b" by auto
  have resp: "wp_ExpiresIn resp = ttl div 1000000000" "wp_Scopes resp = scopes" by (subst i(7), simp)+
  have ttl: "30 \<le> ttl div 1000000000" "ttl div 1000000000 \<le> 300" using i(3,4) x(7) by linarith+
  have ex: "\<exists>ex. ws_ExpiresAt subject = Some ex \<and> Unix (we_now E 2) + ttl div 1000000000 \<le> Unix ex"
    using remaining_seconds [of ttl subject "we_now E 2"] i(3,4) by auto
  obtain authorize getRetained where f: "cx_authority x = Some authorize" "cx_tenants x = Some getRetained"
    using x(5,6) by blast
  have sig: "signRS256 (wi_jwt s) (Some (wi_keyID s))
      (codeqBindingClaims s subject (wx_TenantID req) (wx_Audience req) scopes (qb_TopicName b) b
         (wholeSecond (we_now E 2)) (ttl div 1000000000 * 1000000000) (we_uuid E 2)) key = Inr (wp_AccessToken resp)"
    using i(6) by (simp only: codeqBindingClaims_whole topic(1))
  have "ba_exp d = Unix (we_now E 2) + ttl div 1000000000" using i(10) by simp
  then show ?thesis
    unfolding resp using x(1-3,8-16) f i(1,2,5,8,9) topic(2) sig ttl ex by auto
qed

section \<open>Topic controllers\<close>

text \<open>
  What the topic check relies on of the JWT library: a token signed under a key id parses under that id, issuer and
  audience with the claims that were signed, from its \<^verbatim>\<open>iat\<close> until before its \<^verbatim>\<open>exp\<close>, and not at another time.
\<close>

definition topicRoundtrip :: "('w, 'k) workloadService \<Rightarrow> bool" where
  "topicRoundtrip s \<longleftrightarrow>
     (\<forall>kid c key raw iss aud i ex now.
        signRS256 (wi_jwt s) (Some kid) c key = Inr raw \<and> c ''iss'' = Some (JStr iss) \<and> c ''aud'' = Some (JStr aud) \<and>
        c ''iat'' = Some (GoInt i) \<and> c ''exp'' = Some (GoInt ex) \<and> c ''nbf'' = None \<longrightarrow>
        wi_parseTopicToken s raw kid key iss aud now =
          (if i * 1000000000 \<le> now \<and> now < ex * 1000000000 then Some (jsonClaims c) else None))"

lemma topicAuthority_tenant: "topicAuthority s w now t = Inr a \<Longrightarrow> ct_TenantID a = t"
  by (auto simp: topicAuthority_def split: option.splits if_split_asm sum.splits)

lemma topicAuthority_eq:
  "topicAuthority s w now t = Inr a \<Longrightarrow> topicAuthority s w' now' t = Inr a' \<Longrightarrow> ct_TenantEpoch a = ct_TenantEpoch a' \<longleftrightarrow> a' = a"
  by (auto simp: topicAuthority_def split: option.splits if_split_asm sum.splits)

text \<open>
  C10. A topic token is worth what the tenant is worth when it is used. The controller's token for a tenant validates
  at a later moment exactly if it is in its lifetime of at most a minute and the tenant is active then with the
  lifetime, creation time included, that it had at issue; a retired or recreated tenant fences every token of its
  predecessor.
\<close>
theorem topic_token_fenced:
  assumes "topicRoundtrip s" "exchangeCodeQTopic s w E req = Inr resp"
  shows "ValidateCodeQTopicToken s w' E' (wp_AccessToken resp) = Inr a \<longleftrightarrow>
    length (wp_AccessToken resp) \<le> 16384 \<and> topicAuthority s w (we_now E 0) (wx_TenantID req) = Inr a \<and>
    topicAuthority s w' (we_now E' 1) (wx_TenantID req) = Inr a \<and>
    Unix (we_now E 1) * 1000000000 \<le> we_now E' 0 \<and>
    we_now E' 0 < Unix (we_now E 1 + min (wi_ttl s) 60000000000) * 1000000000"
proof -
  from assms(2) obtain subject a0 ttl where t: "controllerValid (wi_topicController s)"
    "isController (wi_topicController s) subject" "topicAuthority s w (we_now E 0) (wx_TenantID req) = Inr a0"
    "ttl = min (wi_ttl s) 60000000000" "signWorkload s (topicClaims s E subject a0 ttl) = Inr (wp_AccessToken resp)"
    by (rule exchangeCodeQTopic_Inr)
  from t(5) obtain key where k: "signingKey s = Inr key"
    "signRS256 (wi_jwt s) (Some (wi_keyID s)) (topicClaims s E subject a0 ttl) key = Inr (wp_AccessToken resp)"
    by (rule signWorkload_Inr)
  let ?c = "topicClaims s E subject a0 ttl"
  let ?live = "Unix (we_now E 1) * 1000000000 \<le> we_now E' 0 \<and> we_now E' 0 < Unix (we_now E 1 + ttl) * 1000000000"
  have parse: "wi_parseTopicToken s (wp_AccessToken resp) (wi_keyID s) key (wi_issuer s) WorkloadProducerAudience (we_now E' 0) =
      (if ?live then Some (jsonClaims ?c) else None)"
    using assms(1)[unfolded topicRoundtrip_def] k(2) by (simp add: topicClaims_def)
  have claims: "jsonClaims ?c ''scope'' = Some (JStr CodeQTopicManageScope)"
    "jsonClaims ?c ''topic_controller'' = Some (JStr (controllerDigest s))"
    "jsonClaims ?c ''sub'' = Some (JStr (controllerSubject (wi_topicController s)))"
    "jsonClaims ?c ''tid'' = Some (JStr (wx_TenantID req))" "jsonClaims ?c ''tenant_epoch'' = Some (JStr (ct_TenantEpoch a0))"
    using t(2) topicAuthority_tenant [OF t(3)] by (simp_all add: jsonClaims_def topicClaims_def isController_def)
  have "ValidateCodeQTopicToken s w' E' (wp_AccessToken resp) =
      (if length (wp_AccessToken resp) > 16384 \<or> \<not> ?live then Inl ErrWorkloadBindingDenied
       else (case topicAuthority s w' (we_now E' 1) (wx_TenantID req) of
               Inl e \<Rightarrow> Inl e
             | Inr a' \<Rightarrow> if ct_TenantEpoch a0 \<noteq> ct_TenantEpoch a' then Inl ErrWorkloadBindingDenied else Inr a'))"
    by (simp add: ValidateCodeQTopicToken_def t(1) k(1) parse claims) (auto simp: claims split: sum.split)
  then show ?thesis
    using topicAuthority_eq [OF t(3)] t(3) unfolding t(4) by (auto split: if_split_asm sum.splits)
qed

section \<open>Stored bindings\<close>

lemma last_SplitChar: "last (SplitChar c s) \<noteq> [] \<Longrightarrow> s \<noteq> [] \<and> last s = last (last (SplitChar c s))"
proof (induction s)
  case (Cons x xs)
  obtain y ys where y: "SplitChar c xs = y # ys" by (cases "SplitChar c xs") simp_all
  have "JoinStr [c] (y # ys) = xs" unfolding y [symmetric] by (rule SplitChar_join)
  with y Cons show ?case by (cases ys; cases y) (auto split: if_splits)
qed simp

lemma dns_graphic:
  assumes "validDNSLabel s"
  shows "s \<noteq> [] \<and> graphic (hd s) \<and> graphic (last s)"
  using assms by (auto simp: validDNSLabel_def inLower_def inDigit_def graphic_def)

lemma subdomain_last:
  assumes "validDNSSubdomain s"
  shows "s \<noteq> [] \<and> graphic (last s)"
proof -
  have "validDNSLabel (last (SplitChar CHR ''.'' s))"
    using assms by (simp add: validDNSSubdomain_def list_all_iff)
  with last_SplitChar [of "CHR ''.''" s] dns_graphic show ?thesis by metis
qed

lemma TrimPrefix_append: "HasPrefix s p \<Longrightarrow> p @ TrimPrefix s p = s"
  by (simp add: TrimPrefix_def) (metis HasPrefix_def append_take_drop_id)

lemma parsed_subject:
  assumes "ParseWorkloadSubject raw = Some p"
  shows "ws_Subject p = workloadSubjectPrefix @ ws_Namespace p @ '':'' @ ws_ServiceAccount p"
    "validDNSLabel (ws_Namespace p)" "validDNSSubdomain (ws_ServiceAccount p)"
proof -
  let ?x = "TrimSpace raw"
  from assms obtain n a where p: "HasPrefix ?x workloadSubjectPrefix"
    "SplitChar CHR '':'' (TrimPrefix ?x workloadSubjectPrefix) = [n, a]" "validDNSLabel n" "validDNSSubdomain a"
    "ws_Subject p = ?x" "ws_Namespace p = n" "ws_ServiceAccount p = a"
    by (auto simp: ParseWorkloadSubject_def Let_def split: if_split_asm list.split_asm)
  have "TrimPrefix ?x workloadSubjectPrefix = n @ '':'' @ a"
    using SplitChar_join [of "CHR '':''" "TrimPrefix ?x workloadSubjectPrefix"] unfolding p(2) by simp
  moreover have "?x = workloadSubjectPrefix @ TrimPrefix ?x workloadSubjectPrefix"
    using TrimPrefix_append [OF p(1)] by simp
  ultimately show "ws_Subject p = workloadSubjectPrefix @ ws_Namespace p @ '':'' @ ws_ServiceAccount p"
    unfolding p(5-7) by simp
  from p show "validDNSLabel (ws_Namespace p)" "validDNSSubdomain (ws_ServiceAccount p)" by simp_all
qed

lemma bindingKey_trim:
  assumes "ParseWorkloadSubject raw = Some p" "clusterRef = [] \<or> ValidWorkloadClusterRef clusterRef"
  shows "TrimSpace (WorkloadBindingKey clusterRef (ws_Subject p)) = WorkloadBindingKey clusterRef (ws_Subject p)"
proof -
  let ?k = "WorkloadBindingKey clusterRef (ws_Subject p)"
  have l: "ws_Subject p \<noteq> []" "graphic (hd (ws_Subject p))" "graphic (last (ws_Subject p))"
    using parsed_subject(1) [OF assms(1)] subdomain_last [OF parsed_subject(3) [OF assms(1)]]
    by (simp_all add: graphic_def)
  have "?k \<noteq> [] \<and> graphic (hd ?k) \<and> graphic (last ?k)"
    using l assms(2) dns_graphic [of clusterRef] by (auto simp: WorkloadBindingKey_def ValidWorkloadClusterRef_def)
  then show ?thesis by (simp add: TrimSpace_graphic)
qed

text \<open>What a successful revocation leaves in the store.\<close>

lemma bindingRepo_Revoke_Inr:
  assumes "store_ok R view" "bindingRepo_Revoke R K other w key stamp = (Inr (Some b), w')"
  obtains raw where "marshal K b = Inr raw" "wb_Revoked b"
    "WorkloadBindingKey (wb_ClusterRef b) (wb_Subject b) = TrimSpace key"
    "ks_hash (view w') workloadBindingsKey (TrimSpace key) = Some raw"
proof -
  note found = that
  from assms(2) obtain b0 where b0: "bindingRepo_Get R K w key = Inr (Some b0)"
    "b = b0\<lparr>wb_Revoked := True, wb_UpdatedAt := stamp\<rparr>" "bindingRepo_Upsert R K (other w) (Some b) = (None, w')"
    by (auto simp: bindingRepo_Revoke_def Let_def split: sum.splits option.splits prod.splits)
  from b0(1) have key: "WorkloadBindingKey (wb_ClusterRef b) (wb_Subject b) = TrimSpace key"
    using b0(2) by (auto simp: bindingRepo_Get_def Let_def split: if_split_asm sum.splits option.splits)
  from b0(3) obtain raw where raw: "marshal K b = Inr raw"
    "pipelined R (other w) [CHSet workloadBindingsKey (TrimSpace key) raw] = (None, w')"
    by (auto simp: bindingRepo_Upsert_def key split: if_split_asm sum.splits)
  then have "rExec R (other w) [] (other w) [CHSet workloadBindingsKey (TrimSpace key) raw] = (Committed, w')"
    by (auto simp: pipelined_def split: prod.splits execResult.splits)
  from store_exec(2) [OF assms(1) this] show thesis using raw(1) b0(2) key by (intro found [of raw]) simp_all
qed

lemma bindingRepo_Get_stored:
  assumes "store_ok R view" "rHGet R v workloadBindingsKey (TrimSpace key) = Inr r"
    "ks_hash (view v) workloadBindingsKey (TrimSpace key) = Some raw" "unmarshal K raw = Inr b" "raw \<noteq> []"
    "WorkloadBindingKey (wb_ClusterRef b) (wb_Subject b) = TrimSpace key" "TrimSpace key \<noteq> []"
  shows "bindingRepo_Get R K v key = Inr (Some b)"
  using assms store_reads(2) [OF assms(1,2)] by (simp add: bindingRepo_Get_def Let_def)

text \<open>
  C8. A revoked binding that is read back as stored issues nothing. When \<^verbatim>\<open>RevokeBinding\<close> has answered with the record,
  an exchange on the stored-binding path by that subject of that cluster issues no token, for any tenant, audience and
  scopes, under two conditions: the record in Redis is still the one the revocation left, and Redis answers the read of
  it. Other clients may do anything else meanwhile. Without the second condition it is false: see
  \<open>binding_outage_read_as_missing\<close> below.
\<close>
theorem revoked_binding_refused:
  assumes "store_ok R view" "\<And>b raw. marshal K b = Inr raw \<Longrightarrow> unmarshal K raw = Inr b \<and> raw \<noteq> []"
    and repo: "wi_repo s = Some (NewWorkloadBindingRepo R K other)"
    and revoke: "RevokeBinding s w E subject0 clusterRef = (Inr b, w')"
    and subject: "ParseWorkloadSubject subject0 = Some named"
      "VerifyProjectedToken s v (wx_SubjectToken req) = Inr subject" "ws_Subject subject = ws_Subject named"
      "ws_ClusterRef subject = clusterRef"
    and kept: "field = WorkloadBindingKey clusterRef (ws_Subject named)"
      "ks_hash (view v) workloadBindingsKey field = ks_hash (view w') workloadBindingsKey field"
      "rHGet R v workloadBindingsKey field = Inr found"
  shows "exchangeLegacy s v E' req \<noteq> Inr resp"
proof
  let ?key = "WorkloadBindingKey clusterRef (ws_Subject named)"
  assume "exchangeLegacy s v E' req = Inr resp"
  with repo subject(2) obtain ob g where e: "legacyBinding s (NewWorkloadBindingRepo R K other) v subject = Inr ob"
    "workloadBindingGrant ob subject (wx_TenantID req) (wx_Audience req) (wx_Scopes req) = Some g"
    by (auto elim!: exchangeLegacy_Inr)
  from revoke have "bindingRepo_Revoke R K other w ?key (Some (we_now E 0)) = (Inr (Some b), w')"
    by (auto simp: RevokeBinding_def repo subject(1) NewWorkloadBindingRepo_def split: if_split_asm prod.splits sum.splits option.splits)
  with assms(1) obtain raw where r: "marshal K b = Inr raw" "wb_Revoked b"
    "WorkloadBindingKey (wb_ClusterRef b) (wb_Subject b) = TrimSpace ?key"
    "ks_hash (view w') workloadBindingsKey (TrimSpace ?key) = Some raw"
    by (rule bindingRepo_Revoke_Inr)
  have "clusterRef = [] \<or> ValidWorkloadClusterRef clusterRef"
    using revoke by (auto simp: RevokeBinding_def repo subject(1) split: if_split_asm)
  note trim = bindingKey_trim [OF subject(1) this]
  have "?key \<noteq> []" using parsed_subject(1) [OF subject(1)] by (auto simp: WorkloadBindingKey_def)
  then have get: "bindingRepo_Get R K v ?key = Inr (Some b)"
    by (intro bindingRepo_Get_stored [OF assms(1), where raw = raw and r = found])
      (use kept r assms(2) [OF r(1)] trim in simp_all)
  from e(1) get subject(3,4) have "ob = Some b \<or> ob = None"
    by (auto simp: legacyBinding_def NewWorkloadBindingRepo_def Let_def WorkloadBindingKey_def split: if_split_asm)
  with r(2) e(2) show False by (auto simp: workloadBindingGrant_def)
qed

text \<open>
  A Redis error on the record of a cluster's binding is taken for its absence, revoked or not: the exchange goes on
  with the unscoped record of the same subject, and a revocation answers that there is nothing to revoke.
\<close>
theorem binding_outage_read_as_missing:
  assumes "wi_repo s = Some (NewWorkloadBindingRepo R K other)" "ParseWorkloadSubject subject0 = Some named"
    and "ValidWorkloadClusterRef clusterRef" "ws_ClusterRef subject = clusterRef" "ws_Subject subject = ws_Subject named"
    and "rHGet R w workloadBindingsKey (WorkloadBindingKey clusterRef (ws_Subject named)) = Inl e"
  shows "legacyBinding s (NewWorkloadBindingRepo R K other) w subject =
      (if scopedBindingsRequired s then Inr None else bindingRepo_Get R K w (ws_Subject named)) \<and>
    RevokeBinding s w E subject0 clusterRef = (Inl ErrNotFound, w)"
proof -
  let ?key = "WorkloadBindingKey clusterRef (ws_Subject named)"
  have c: "clusterRef \<noteq> []" using assms(3) by (auto simp: ValidWorkloadClusterRef_def validDNSLabel_def)
  have "TrimSpace ?key = ?key" using bindingKey_trim [OF assms(2)] assms(3) by blast
  moreover have "?key \<noteq> []" using c by (simp add: WorkloadBindingKey_def)
  ultimately have get: "bindingRepo_Get R K w ?key = Inr None" using assms(6) by (simp add: bindingRepo_Get_def Let_def)
  with c assms(4,5) have "legacyBinding s (NewWorkloadBindingRepo R K other) w subject =
      (if scopedBindingsRequired s then Inr None else bindingRepo_Get R K w (ws_Subject named))"
    by (simp add: legacyBinding_def NewWorkloadBindingRepo_def Let_def)
  with get assms(1-3) show ?thesis by (simp add: RevokeBinding_def NewWorkloadBindingRepo_def bindingRepo_Revoke_def)
qed

section \<open>The closed set of scopes\<close>

text \<open>Every scope set a workload can hold, by audience.\<close>

definition aiScopes :: "('w, 'k) workloadService \<Rightarrow> string \<Rightarrow> string list \<Rightarrow> bool" where
  "aiScopes s audience scopes \<longleftrightarrow>
     audience = AIGatewayAudienceClientID \<and> scopes \<noteq> [] \<and> distinct scopes \<and> list_all aiKnown scopes \<or>
     audience = RuntimeAudience \<and> scopes = [RuntimeScope] \<or>
     (\<exists>e. wi_aiGateway s = Some e \<and> audience = agc_StoreAudience (ax_cfg e) \<and>
        (scopes = aiStoreScopes ''CefasRuntime'' \<or> scopes = aiStoreScopes ''CefasBootstrap''))"

definition otherScopes :: "('w, 'k) workloadService \<Rightarrow> string \<Rightarrow> string list \<Rightarrow> bool" where
  "otherScopes s audience scopes \<longleftrightarrow>
     audience = WorkloadProducerAudience \<and>
       (scopes = [WorkloadAdminScope] \<and> \<not> wi_refuseLegacyCodeQAdmin s \<or> scopes = codeqPublishScopes \<or>
        scopes = [CodeQTopicManageScope]) \<or>
     audience = WorkloadWorkerAudience \<and>
       (scopes = [WorkloadClaimScope, WorkloadNackScope, WorkloadResultScope] \<or> scopes = codeqSubscribeScopes) \<or>
     HasPrefix audience ''trino:'' \<and> scopes = [TrinoQueryScope] \<or>
     audience = ''logs-ingest'' \<and> scopes = [''logs:ingest''] \<or>
     audience = logsAuthorityAudience \<and> scopes = [] \<or>
     audience = logsStoreAudience \<and> (scopes = StoreScopes ''CefasBootstrap'' \<or> scopes = StoreScopes ''CefasRuntime'')"

lemma aiScopes_admin: "aiScopes s audience scopes \<Longrightarrow> WorkloadAdminScope \<notin> set scopes"
  unfolding aiScopes_def
  by (elim disjE conjE exE; simp add: aiStoreScopes_def list_all_iff) (force simp: aiKnown_def)+

lemma otherScopes_admin:
  assumes "otherScopes s audience scopes" "WorkloadAdminScope \<in> set scopes"
  shows "audience = WorkloadProducerAudience \<and> \<not> wi_refuseLegacyCodeQAdmin s"
  using assms unfolding otherScopes_def by (elim disjE conjE exE; simp add: StoreScopes_def)

lemma otherScopes_runtime: "otherScopes s audience scopes \<Longrightarrow> RuntimeScope \<notin> set scopes"
  unfolding otherScopes_def by (elim disjE conjE exE; simp add: StoreScopes_def)

lemma signCodeQBindingToken_signedAs:
  assumes "signCodeQBindingToken s subject tenantID audience scopes topicName b issuedAt ttl jti = Inr (wp_AccessToken resp, x)"
    "wp_Audience resp = audience" "wp_Scopes resp = scopes" "scopes \<noteq> []"
  shows "\<exists>c. signedAs s resp c"
  using assms
  by (intro signWorkload_signedAs [of s "codeqBindingClaims s subject tenantID audience scopes topicName b issuedAt ttl jti"])
    (auto simp: signCodeQBindingToken_def codeqBindingClaims_def scopeClaim_def split: sum.splits)

lemma installationClaims_scope:
  assumes "installationClaims r subject now scopes d (logsBaseClaims s r subject now ttl jti) = Some (c, granted)"
    "logsShapeScopes (wx_LogsGrant r) (wx_Audience r) = Some scopes"
  shows "c ''aud'' = Some (JStr (wx_Audience r)) \<and> c ''scope'' = scopeClaim granted \<and> granted = scopes"
  using assms
  by (auto simp: installationClaims_def logsShapeScopes_def logsBaseClaims_def scopeClaim_def StoreScopes_def
      split: if_split_asm)

lemma issueLogsToken_Inr:
  assumes "issueLogsToken s e E subject r scopes d = Inr resp"
    "logsShapeScopes (wx_LogsGrant r) (wx_Audience r) = Some scopes"
  shows "wp_Audience resp = wx_Audience r \<and> wp_Scopes resp = scopes \<and> (\<exists>c. signedAs s resp c)"
proof (cases "tenantGrant r")
  case True
  with assms(1) obtain raw x ttl where t: "signCodeQBindingToken s subject (wx_TenantID r) (wx_Audience r) scopes logsTopicName
      (logsBinding r d) (wholeSecond (we_now E 3)) ttl (we_uuid E 2) = Inr (raw, x)"
    "resp = workloadBearer raw ttl (wx_Audience r) scopes (wx_TenantID r) [logsTopicName]"
    by (auto simp: issueLogsToken_def Let_def split: if_split_asm sum.splits prod.splits)
  have ne: "scopes \<noteq> []" using True assms(2) by (auto simp: tenantGrant_def logsShapeScopes_def split: if_split_asm)
  have "\<exists>c. signedAs s resp c"
    by (rule signCodeQBindingToken_signedAs [of s subject "wx_TenantID r" "wx_Audience r" scopes logsTopicName "logsBinding r d"
          "wholeSecond (we_now E 3)" ttl "we_uuid E 2" resp x]) (use t ne in simp_all)
  with t(2) show ?thesis by simp
next
  case False
  with assms(1) obtain c granted raw ttl where t: "installationClaims r subject (wholeSecond (we_now E 3)) scopes d
      (logsBaseClaims s r subject (wholeSecond (we_now E 3)) ttl (we_uuid E 2)) = Some (c, granted)"
    "signWorkload s c = Inr raw" "resp = workloadBearer raw ttl (wx_Audience r) granted [] []"
    by (auto simp: issueLogsToken_def Let_def split: if_split_asm option.splits sum.splits)
  note c = installationClaims_scope [OF t(1) assms(2)]
  have "\<exists>c. signedAs s resp c" by (rule signWorkload_signedAs [of s c]) (use t(2,3) c in simp_all)
  with t(3) c show ?thesis by simp
qed

lemma exchangeManagedLogs_Inr:
  assumes "exchangeManagedLogs s w l E r = (Inr resp, l')"
  obtains scopes where "logsShapeScopes (wx_LogsGrant r) (wx_Audience r) = Some scopes" "wp_Audience resp = wx_Audience r"
    "wp_Scopes resp = scopes" "\<exists>c. signedAs s resp c"
proof -
  note found = that
  from assms obtain e subject scopes d where
    "issueLogsToken s e E subject r scopes d = Inr resp" "logsExchangeShape r = Some scopes"
    by (auto simp: exchangeManagedLogs_def logsAuthorised_def Let_def
        split: if_split_asm sum.splits option.splits prod.splits)
  moreover from this(2) have "logsShapeScopes (wx_LogsGrant r) (wx_Audience r) = Some scopes"
    by (auto simp: logsExchangeShape_def split: if_split_asm option.splits)
  ultimately show thesis using issueLogsToken_Inr [of s e E subject r scopes d resp] found by blast
qed

lemma logsShapeScopes_closed: "logsShapeScopes g a = Some scopes \<Longrightarrow> otherScopes s a scopes"
  by (auto simp: logsShapeScopes_def otherScopes_def split: if_split_asm)

lemma aiMachineGrant_Some:
  assumes "aiMachineGrant p r = Some (identity, scopes, longest)"
  shows "wx_AIGrant r = ''Runtime'' \<and> identity = agc_Runtime p \<and> wx_Audience r = RuntimeAudience \<and>
      scopes = [RuntimeScope] \<and> longest = 60000000000 \<or>
    (wx_AIGrant r = ''CefasRuntime'' \<or> wx_AIGrant r = ''CefasBootstrap'') \<and> wx_Audience r = agc_StoreAudience p \<and>
      scopes = aiStoreScopes (wx_AIGrant r)"
  using assms unfolding aiMachineGrant_def by (simp split: if_split_asm)

lemma exchangeAIWorkload_closed:
  assumes "exchangeAIWorkload s w l E r = (Inr resp, l')"
  shows "aiScopes s (wp_Audience resp) (wp_Scopes resp) \<and> (\<exists>c. signedAs s resp c)"
proof -
  from assms obtain e subject where e: "wi_aiGateway s = Some e"
    "(if wx_AIGrant r \<noteq> [] then exchangeAIMachine s e w E r subject (wholeSecond (we_now E 0))
      else exchangeAIPrincipal s e w E r subject (wholeSecond (we_now E 0))) = Inr resp"
    by (rule exchangeAIWorkload_Inr)
  show ?thesis
  proof (cases "wx_AIGrant r = []")
    case True
    with e(2) have "exchangeAIPrincipal s e w E r subject (wholeSecond (we_now E 0)) = Inr resp" by simp
    note signed = exchangeAIPrincipal_signed [OF this]
    show ?thesis
      using \<open>exchangeAIPrincipal s e w E r subject (wholeSecond (we_now E 0)) = Inr resp\<close>
    proof (rule exchangeAIPrincipal_Inr)
      fix scopes
      assume "AIScopes (wx_Scopes r) = Some scopes" "wx_Audience r = AIGatewayAudienceClientID"
        "wp_Audience resp = wx_Audience r" "wp_Scopes resp = scopes"
      moreover from this have "scopes \<noteq> [] \<and> distinct scopes \<and> list_all aiKnown scopes"
        by (auto simp: AIScopes_eq_Some list_all_iff)
      ultimately show ?thesis using signed unfolding aiScopes_def by metis
    qed
  next
    case False
    with e(2) have "exchangeAIMachine s e w E r subject (wholeSecond (we_now E 0)) = Inr resp" by simp
    then show ?thesis
    proof (rule exchangeAIMachine_Inr)
      fix identity scopes longest epoch
      assume g: "aiMachineGrant (ax_cfg e) r = Some (identity, scopes, longest)" "wp_Audience resp = wx_Audience r"
        "wp_Scopes resp = scopes"
        "signedAs s resp (aiMachineClaims s (ax_cfg e) E r subject epoch scopes (wholeSecond (we_now E 0))
           (min longest (subjectRemaining subject (wholeSecond (we_now E 0)))))"
      have "aiScopes s (wp_Audience resp) (wp_Scopes resp)"
        using aiMachineGrant_Some [OF g(1)] unfolding aiScopes_def g(2,3) using e(1) by metis
      with g(4) show ?thesis by blast
    qed
  qed
qed

lemma exchangeCodeQBinding_closed:
  fixes s :: "('w, 'k) workloadService"
  assumes "exchangeCodeQBinding s w l E req = ((Inr resp, d), l')"
  shows "otherScopes s (wp_Audience resp) (wp_Scopes resp) \<and> (\<exists>c. signedAs s resp c)"
proof -
  from assms obtain policy scopes topicName subject decision d2 and x :: "'w codeqBindingExchange" where
    p: "codeqBindingPolicy (wx_Audience req) (wx_Scopes req) = Some (policy, scopes)"
    and issue: "issueCodeQBinding s (cx_ttl x) E req policy scopes topicName subject decision d2 = (Inr resp, d)"
    by (rule exchangeCodeQBinding_Inr)
  from issue obtain ttl b key where "resp = workloadBearer (wp_AccessToken resp) ttl (wx_Audience req) scopes (wx_TenantID req) [topicName]"
    and key: "signingKey s = Inr key" "signRS256 (wi_jwt s) (Some (wi_keyID s))
       (codeqBindingClaims s subject (wx_TenantID req) (wx_Audience req) scopes topicName b (wholeSecond (we_now E 2)) ttl
          (we_uuid E 2)) key = Inr (wp_AccessToken resp)"
    by (rule issueCodeQBinding_Inr)
  then have r: "wp_Audience resp = wx_Audience req" "wp_Scopes resp = scopes" by (metis workloadBearer_simps(3,4))+
  have "scopes \<noteq> []" using p by (auto simp: codeqBindingPolicy_def Let_def split: if_split_asm)
  with key r have "signedAs s resp (codeqBindingClaims s subject (wx_TenantID req) (wx_Audience req) scopes topicName b
      (wholeSecond (we_now E 2)) ttl (we_uuid E 2))"
    by (simp add: signedAs_def) (simp add: codeqBindingClaims_def scopeClaim_def)
  with p r show ?thesis by (auto simp: codeqBindingPolicy_def otherScopes_def Let_def split: if_split_asm)
qed

lemma exchangeLegacy_closed:
  assumes "exchangeLegacy s w E req = Inr resp"
  shows "otherScopes s (wp_Audience resp) (wp_Scopes resp) \<and> (\<exists>c. signedAs s resp c)"
proof -
  from assms obtain subject g n i ev where a: "workloadScopesAllowed (wx_Audience req) (wx_Scopes req)"
    "wx_Audience req = WorkloadProducerAudience \<Longrightarrow> \<not> wi_refuseLegacyCodeQAdmin s"
    "signWorkload s (legacyClaims s E req subject g) = Inr (wp_AccessToken resp)"
    "resp = workloadBearer (wp_AccessToken resp) n (wx_Audience req) (normalizedWorkloadScopes (wx_Scopes req)) i ev"
    by (auto elim!: exchangeLegacy_Inr)
  then have r: "wp_Audience resp = wx_Audience req" "wp_Scopes resp = normalizedWorkloadScopes (wx_Scopes req)"
    by (metis workloadBearer_simps(3,4))+
  have "normalizedWorkloadScopes (wx_Scopes req) \<noteq> []"
    using a(1) by (auto simp: workloadScopesAllowed_def Let_def split: if_split_asm)
  then have "\<exists>c. signedAs s resp c"
    by (intro signWorkload_signedAs [OF a(3)]) (simp_all add: legacyClaims_def Let_def r scopeClaim_def)
  with a(1,2) r show ?thesis by (auto simp: workloadScopesAllowed_def otherScopes_def Let_def split: if_split_asm)
qed

lemma exchangeManagedLogs_closed:
  "exchangeManagedLogs s w l E req = (Inr resp, l') \<Longrightarrow>
   otherScopes s (wp_Audience resp) (wp_Scopes resp) \<and> (\<exists>c. signedAs s resp c)"
  by (auto elim!: exchangeManagedLogs_Inr simp: logsShapeScopes_closed)

lemma exchangeTrinoWorkload_closed:
  "exchangeTrinoWorkload s w E req = Inr resp \<Longrightarrow>
   otherScopes s (wp_Audience resp) (wp_Scopes resp) \<and> (\<exists>c. signedAs s resp c)"
  by (simp add: exchangeTrinoWorkload_Inr otherScopes_def)

lemma exchangeCodeQTopic_closed:
  assumes "exchangeCodeQTopic s w E req = Inr resp"
  shows "otherScopes s (wp_Audience resp) (wp_Scopes resp) \<and> (\<exists>c. signedAs s resp c)"
proof -
  from assms obtain subject a n i where t: "signWorkload s (topicClaims s E subject a n) = Inr (wp_AccessToken resp)"
    "resp = workloadBearer (wp_AccessToken resp) n WorkloadProducerAudience [CodeQTopicManageScope] i []"
    by (auto elim!: exchangeCodeQTopic_Inr)
  then have r: "wp_Audience resp = WorkloadProducerAudience" "wp_Scopes resp = [CodeQTopicManageScope]"
    by (metis workloadBearer_simps(3,4))+
  then have "\<exists>c. signedAs s resp c"
    by (intro signWorkload_signedAs [OF t(1)]) (simp_all add: topicClaims_def scopeClaim_def)
  with r show ?thesis by (simp add: otherScopes_def)
qed

text \<open>Which path a token came from shows in its audience and scopes.\<close>

lemma Exchange_Inr:
  assumes "Exchange s w l E req = (Inr resp, l')"
  shows "exchangeAIWorkload s w l E req = (Inr resp, l') \<or>
    otherScopes s (wp_Audience resp) (wp_Scopes resp) \<and> (\<exists>c. signedAs s resp c)"
proof -
  have plain: "plainly r = Inr x \<longleftrightarrow> r = Inr x" for r :: "workloadExchangeResp res" and x
    by (auto simp: plainly_def split: sum.splits)
  show ?thesis
    using assms unfolding Exchange_def
    by (simp add: plain split: if_split_asm prod.split_asm, insert exchangeCodeQBinding_closed [of s w l E req]
        exchangeLegacy_closed [of s w E req] exchangeCodeQTopic_closed [of s w E req]
        exchangeTrinoWorkload_closed [of s w E req] exchangeManagedLogs_closed [of s w l E req], auto)
qed

text \<open>
  C9. The scopes of a workload token come from a closed table. Whatever the request asks for and whatever the stored
  bindings and the authorities answer, a token issued by any path is signed over the audience of the response and over
  exactly one of the scope sets fixed for that audience, the one the response reports; \<^verbatim>\<open>codeq:admin\<close> is only signed
  for the producer audience, by an installation that has not switched the legacy grant off.
\<close>
theorem workload_scopes_closed:
  assumes "Exchange s w l E req = (Inr resp, l')"
  shows "\<exists>key c. signingKey s = Inr key \<and> signRS256 (wi_jwt s) (Some (wi_keyID s)) c key = Inr (wp_AccessToken resp) \<and>
    c ''aud'' = Some (JStr (wp_Audience resp)) \<and> c ''scope'' = scopeClaim (wp_Scopes resp) \<and>
    (aiScopes s (wp_Audience resp) (wp_Scopes resp) \<or> otherScopes s (wp_Audience resp) (wp_Scopes resp)) \<and>
    (WorkloadAdminScope \<in> set (wp_Scopes resp) \<longrightarrow>
       wp_Audience resp = WorkloadProducerAudience \<and> \<not> wi_refuseLegacyCodeQAdmin s)"
proof (rule disjE [OF Exchange_Inr [OF assms]])
  assume "exchangeAIWorkload s w l E req = (Inr resp, l')"
  note a = exchangeAIWorkload_closed [OF this]
  show ?thesis using a aiScopes_admin [OF conjunct1 [OF a]] by (auto simp: signedAs_def)
next
  assume o: "otherScopes s (wp_Audience resp) (wp_Scopes resp) \<and> (\<exists>c. signedAs s resp c)"
  show ?thesis using o otherScopes_admin [OF conjunct1 [OF o]] by (auto simp: signedAs_def)
qed

lemma aiKnown_not_runtime:
  assumes "list_all aiKnown scopes"
  shows "RuntimeScope \<notin> set scopes"
proof
  assume "RuntimeScope \<in> set scopes"
  with assms have "aiKnown RuntimeScope" unfolding list_all_iff by (rule bspec)
  then show False by (simp add: aiKnown_def)
qed

lemma principal_runtime:
  assumes "exchangeAIPrincipal s e w E r subject now = Inr resp"
  shows "RuntimeScope \<notin> set (wp_Scopes resp)"
  using assms
proof (rule exchangeAIPrincipal_Inr)
  fix scopes
  assume "AIScopes (wx_Scopes r) = Some scopes" "wp_Scopes resp = scopes"
  then show ?thesis using aiKnown_not_runtime [of scopes] by (auto simp: AIScopes_eq_Some list_all_iff)
qed

lemma machine_runtime:
  assumes "exchangeAIMachine s e w E r subject now = Inr resp" "RuntimeScope \<in> set (wp_Scopes resp)"
  shows "wx_AIGrant r = ''Runtime'' \<and> wx_Audience r = RuntimeAudience \<and> aiMachineMatches (agc_Runtime (ax_cfg e)) subject \<and>
    wx_TenantID r = agc_RuntimeTenantID (ax_cfg e) \<and>
    (\<exists>epoch. aiTenant (wi_library s) e w (wx_TenantID r) now = Inr epoch \<and>
       signedAs s resp (aiMachineClaims s (ax_cfg e) E r subject epoch [RuntimeScope] now
         (min 60000000000 (subjectRemaining subject now)))) \<and>
    wp_Scopes resp = [RuntimeScope] \<and> 1000000000 \<le> min 60000000000 (subjectRemaining subject now) \<and>
    wp_ExpiresIn resp = min 60000000000 (subjectRemaining subject now) div 1000000000"
proof -
  from assms(1) obtain identity scopes longest epoch where
    g: "aiMachineGrant (ax_cfg e) r = Some (identity, scopes, longest)" "wx_TenantID r = agc_RuntimeTenantID (ax_cfg e)"
    "aiMachineMatches identity subject" "1000000000 \<le> min longest (subjectRemaining subject now)"
    "aiTenant (wi_library s) e w (wx_TenantID r) now = Inr epoch" "wp_Scopes resp = scopes"
    "wp_ExpiresIn resp = min longest (subjectRemaining subject now) div 1000000000"
    "signedAs s resp (aiMachineClaims s (ax_cfg e) E r subject epoch scopes now (min longest (subjectRemaining subject now)))"
    by (rule exchangeAIMachine_Inr)
  have "RuntimeScope \<notin> set (aiStoreScopes x)" for x by (simp add: aiStoreScopes_def)
  with aiMachineGrant_Some [OF g(1)] assms(2) g show ?thesis by metis
qed

lemma machineClaims_runtime:
  assumes "signedAs s resp (aiMachineClaims s p E r subject epoch [RuntimeScope] (wholeSecond n) ttl)"
    "wp_Scopes resp = [RuntimeScope]" "wx_Audience r = RuntimeAudience"
  shows "\<exists>key c. signingKey s = Inr key \<and> signRS256 (wi_jwt s) (Some (wi_keyID s)) c key = Inr (wp_AccessToken resp) \<and>
    c ''aud'' = Some (JStr RuntimeAudience) \<and> c ''scope'' = Some (JStr RuntimeScope) \<and>
    c ''tid'' = Some (JStr (wx_TenantID r)) \<and> c ''tenant_epoch'' = Some (JStr epoch) \<and>
    c ''iat'' = Some (GoInt (Unix n)) \<and> c ''exp'' = Some (GoInt (Unix n + ttl div 1000000000))"
proof -
  let ?c = "aiMachineClaims s p E r subject epoch [RuntimeScope] (wholeSecond n) ttl"
  from assms(1) obtain key where k: "signingKey s = Inr key"
    "signRS256 (wi_jwt s) (Some (wi_keyID s)) ?c key = Inr (wp_AccessToken resp)"
    by (auto simp: signedAs_def)
  have "?c ''aud'' = Some (JStr RuntimeAudience) \<and> ?c ''scope'' = Some (JStr RuntimeScope) \<and>
    ?c ''tid'' = Some (JStr (wx_TenantID r)) \<and> ?c ''tenant_epoch'' = Some (JStr epoch) \<and>
    ?c ''iat'' = Some (GoInt (Unix n)) \<and> ?c ''exp'' = Some (GoInt (Unix n + ttl div 1000000000))"
    using assms(3) by (simp add: aiMachineClaims_def)
  with k show ?thesis by blast
qed

text \<open>
  C11. The global scope \<^verbatim>\<open>code-admin:ai:runtime\<close> is for one pinned machine. A token carries it only if the projected
  token was verified as the service account, UID and cluster configured as the AI runtime, in the configured tenant,
  active with the reserved default tenant excluded. It is signed over that scope alone, that tenant and an expiry a
  minute away at most and not past the projected token.
\<close>
theorem runtime_scope_pinned:
  assumes "Exchange s w l E req = (Inr resp, l')" "RuntimeScope \<in> set (wp_Scopes resp)"
  shows "\<exists>e subject ex epoch. wi_aiGateway s = Some e \<and> VerifyProjectedToken s w (wx_SubjectToken req) = Inr subject \<and>
    wx_AIGrant req = ''Runtime'' \<and> aiMachineMatches (agc_Runtime (ax_cfg e)) subject \<and>
    ValidWorkloadObjectUID (ws_PodUID subject) \<and> wx_TenantID req = agc_RuntimeTenantID (ax_cfg e) \<and>
    aiTenant (wi_library s) e w (wx_TenantID req) (wholeSecond (we_now E 0)) = Inr epoch \<and>
    (\<exists>key c. signingKey s = Inr key \<and> signRS256 (wi_jwt s) (Some (wi_keyID s)) c key = Inr (wp_AccessToken resp) \<and>
       c ''aud'' = Some (JStr RuntimeAudience) \<and> c ''scope'' = Some (JStr RuntimeScope) \<and>
       c ''tid'' = Some (JStr (wx_TenantID req)) \<and> c ''tenant_epoch'' = Some (JStr epoch) \<and>
       c ''iat'' = Some (GoInt (Unix (we_now E 0))) \<and> c ''exp'' = Some (GoInt (Unix (we_now E 0) + wp_ExpiresIn resp))) \<and>
    1 \<le> wp_ExpiresIn resp \<and> wp_ExpiresIn resp \<le> 60 \<and>
    ws_ExpiresAt subject = Some ex \<and> Unix (we_now E 0) + wp_ExpiresIn resp \<le> Unix ex"
proof -
  have ai: "exchangeAIWorkload s w l E req = (Inr resp, l')"
    using Exchange_Inr [OF assms(1)] otherScopes_runtime assms(2) by blast
  then obtain e subject where e: "wi_aiGateway s = Some e" "VerifyProjectedToken s w (wx_SubjectToken req) = Inr subject"
    "aiSubjectValid subject (wholeSecond (we_now E 0))"
    "(if wx_AIGrant req \<noteq> [] then exchangeAIMachine s e w E req subject (wholeSecond (we_now E 0))
      else exchangeAIPrincipal s e w E req subject (wholeSecond (we_now E 0))) = Inr resp"
    by (rule exchangeAIWorkload_Inr)
  have "exchangeAIPrincipal s e w E req subject (wholeSecond (we_now E 0)) \<noteq> Inr resp"
    using principal_runtime assms(2) by metis
  with e(4) have "exchangeAIMachine s e w E req subject (wholeSecond (we_now E 0)) = Inr resp" by (simp split: if_split_asm)
  note m = machine_runtime [OF this assms(2)]
  then obtain epoch where epoch: "aiTenant (wi_library s) e w (wx_TenantID req) (wholeSecond (we_now E 0)) = Inr epoch"
    "signedAs s resp (aiMachineClaims s (ax_cfg e) E req subject epoch [RuntimeScope] (wholeSecond (we_now E 0))
       (min 60000000000 (subjectRemaining subject (wholeSecond (we_now E 0)))))" "wp_Scopes resp = [RuntimeScope]"
    by blast
  have ttl: "1000000000 \<le> min 60000000000 (subjectRemaining subject (wholeSecond (we_now E 0)))"
    "wp_ExpiresIn resp = min 60000000000 (subjectRemaining subject (wholeSecond (we_now E 0))) div 1000000000"
    using m by simp_all
  have t: "1 \<le> wp_ExpiresIn resp" "wp_ExpiresIn resp \<le> 60" using ttl by linarith+
  have signed: "\<exists>key c. signingKey s = Inr key \<and> signRS256 (wi_jwt s) (Some (wi_keyID s)) c key = Inr (wp_AccessToken resp) \<and>
       c ''aud'' = Some (JStr RuntimeAudience) \<and> c ''scope'' = Some (JStr RuntimeScope) \<and>
       c ''tid'' = Some (JStr (wx_TenantID req)) \<and> c ''tenant_epoch'' = Some (JStr epoch) \<and>
       c ''iat'' = Some (GoInt (Unix (we_now E 0))) \<and> c ''exp'' = Some (GoInt (Unix (we_now E 0) + wp_ExpiresIn resp))"
    unfolding ttl(2) by (rule machineClaims_runtime [OF epoch(2,3)]) (use m in simp)
  have "\<exists>ex. ws_ExpiresAt subject = Some ex \<and> Unix (we_now E 0) + wp_ExpiresIn resp \<le> Unix ex"
    unfolding ttl(2) by (rule remaining_seconds) (use ttl(1) in simp_all)
  moreover have "ValidWorkloadObjectUID (ws_PodUID subject)" using e(3) by (simp add: aiSubjectValid_def)
  ultimately show ?thesis using e(1,2) m t epoch(1) signed by blast
qed

section \<open>Witnesses\<close>

lemma wl_codeq:
  "fst (fst (exchangeCodeQBinding (wlService None) () wlLimiters wlEnv wlRequest)) =
     Inr (workloadBearer ''access-token'' 60000000000 WorkloadProducerAudience [''codeq:publish''] ''acme'' [''orders''])"
  by code_simp

theorem codeq_binding_token_exact_witness:
  "\<exists>resp d l' subject. exchangeCodeQBinding (wlService None) () wlLimiters wlEnv wlRequest = ((Inr resp, d), l') \<and>
     VerifyProjectedToken (wlService None) () ''projected'' = Inr subject \<and> canonicalSubject subject \<and>
     wp_Scopes resp = [''codeq:publish''] \<and> 30 \<le> wp_ExpiresIn resp \<and> wp_ExpiresIn resp \<le> 300 \<and> ba_code d = ''Issued''"
proof -
  obtain r d l' where e: "exchangeCodeQBinding (wlService None) () wlLimiters wlEnv wlRequest = ((r, d), l')"
    by (metis prod.collapse)
  with wl_codeq have r: "r = Inr (workloadBearer ''access-token'' 60000000000 WorkloadProducerAudience [''codeq:publish''] ''acme''
      [''orders''])" by simp
  from codeq_binding_token_exact [OF e [unfolded r]] show ?thesis
    unfolding e r by (auto simp: wlRequest_def)
qed

lemma wl_topicRoundtrip: "topicRoundtrip ((wlService None)\<lparr>wi_jwt := wlTopicJwt\<rparr> :: (unit, unit) workloadService)"
  by (auto simp: topicRoundtrip_def wlService_def wlTopicJwt_def wlTopicClaims_def split: if_split_asm)

abbreviation wlTopics :: "(unit, unit) workloadService" where
  "wlTopics \<equiv> (wlService None)\<lparr>wi_jwt := wlTopicJwt\<rparr>"

lemma wl_topicAuthority:
  "topicAuthority wlTopics () 100000000000 ''acme'' =
     Inr \<lparr>ct_SchemaVersion = ''codeq-topic-authority/v1'', ct_TenantID = ''acme'',
       ct_TenantEpoch = ''codefoundry/tenant-lifetime/v1'' @ [CHR 0x00] @ ''acme'' @ [CHR 0x00], ct_Active = True\<rparr>"
proof -
  have "topicAuthority wlTopics () n t = topicAuthority (wlService None) () n t" for n t
    by (simp add: topicAuthority_def topicEpoch_def split: option.split sum.split)
  moreover have "topicAuthority (wlService None) () 100000000000 ''acme'' =
     Inr \<lparr>ct_SchemaVersion = ''codeq-topic-authority/v1'', ct_TenantID = ''acme'',
       ct_TenantEpoch = ''codefoundry/tenant-lifetime/v1'' @ [CHR 0x00] @ ''acme'' @ [CHR 0x00], ct_Active = True\<rparr>"
    by code_simp
  ultimately show ?thesis by simp
qed

lemma wl_topic:
  "exchangeCodeQTopic wlTopics () wlEnv wlTopicRequest =
     Inr (workloadBearer ''topic-token'' 60000000000 WorkloadProducerAudience [CodeQTopicManageScope] ''acme'' [])"
proof -
  have v: "controllerValid wlController" "isController wlController wlSubject" by code_simp+
  have p: "VerifyProjectedToken wlTopics () x = Inr wlSubject" for x by (simp add: VerifyProjectedToken_def wlService_def)
  have k: "signingKey wlTopics = Inr ()"
    by (simp add: signingKey_def ParseRSAPrivateKey_def wlService_def wlTopicJwt_def sampleJwt_def)
  have c: "topicClaims wlTopics wlEnv wlSubject \<lparr>ct_SchemaVersion = ''codeq-topic-authority/v1'', ct_TenantID = ''acme'',
      ct_TenantEpoch = ''codefoundry/tenant-lifetime/v1'' @ [CHR 0x00] @ ''acme'' @ [CHR 0x00], ct_Active = True\<rparr> 60000000000 =
      wlTopicClaims"
    by (simp add: topicClaims_def wlTopicClaims_def wlService_def wlEnv_def wlSubject_def controllerDigest_def sampleCall_def
        sampleLibrary_def Unix_def)
  have f: "wi_topicController wlTopics = wlController" "wi_ttl wlTopics = 300000000000" "wi_issuer wlTopics = ''https://id''"
    "wi_keyID wlTopics = ''k1''" "wi_jwt wlTopics = wlTopicJwt" "we_now wlEnv 0 = 100000000000"
    by (simp_all add: wlService_def wlEnv_def)
  have r: "wx_Scopes wlTopicRequest = [CodeQTopicManageScope]" "wx_Audience wlTopicRequest = WorkloadProducerAudience"
    "wx_TenantID wlTopicRequest = ''acme''"
    by (simp_all add: wlTopicRequest_def wlRequest_def)
  show ?thesis
    by (simp add: exchangeCodeQTopic_def r f v p wl_topicAuthority signWorkload_def k c Let_def del: append.simps)
      (simp add: wlTopicJwt_def)
qed

theorem topic_token_fenced_witness:
  "\<exists>a resp. ValidateCodeQTopicToken wlTopics () wlEnv (wp_AccessToken resp) = Inr a \<and>
     exchangeCodeQTopic wlTopics () wlEnv wlTopicRequest = Inr resp"
proof -
  obtain a where a: "topicAuthority wlTopics () 100000000000 ''acme'' = Inr a" using wl_topicAuthority by blast
  have "ValidateCodeQTopicToken wlTopics () wlEnv ''topic-token'' = Inr a"
    using topic_token_fenced [OF wl_topicRoundtrip wl_topic, of "()" wlEnv a] a
    by (simp add: wlEnv_def wlTopicRequest_def wlRequest_def wlService_def Unix_def)
  with wl_topic show ?thesis by fastforce
qed

lemma wl_runtime:
  "fst (Exchange (wlService None) () wlLimiters wlEnv wlRuntimeRequest) =
     Inr (workloadBearer ''access-token'' 60000000000 RuntimeAudience [RuntimeScope] ''acme'' [])"
  by code_simp

theorem runtime_scope_pinned_witness:
  "\<exists>resp l' subject. \<exists>e :: unit aiGatewayExchange. Exchange (wlService None) () wlLimiters wlEnv wlRuntimeRequest = (Inr resp, l') \<and>
     wp_Scopes resp = [RuntimeScope] \<and> wp_ExpiresIn resp \<le> 60 \<and>
     VerifyProjectedToken (wlService None) () ''projected'' = Inr subject \<and> aiMachineMatches (agc_Runtime (ax_cfg e)) subject"
proof -
  obtain r l' where e: "Exchange (wlService None) () wlLimiters wlEnv wlRuntimeRequest = (r, l')" by (metis prod.collapse)
  with wl_runtime have r: "r = Inr (workloadBearer ''access-token'' 60000000000 RuntimeAudience [RuntimeScope] ''acme'' [])" by simp
  from runtime_scope_pinned [OF e [unfolded r]] obtain subject and ex :: "unit aiGatewayExchange" where
    "VerifyProjectedToken (wlService None) () ''projected'' = Inr subject" "aiMachineMatches (agc_Runtime (ax_cfg ex)) subject"
    by (auto simp: wlRuntimeRequest_def wlRequest_def)
  then show ?thesis unfolding e r by auto
qed

theorem workload_scopes_closed_witness:
  "\<exists>resp l'. Exchange (wlService None) () wlLimiters wlEnv wlRuntimeRequest = (Inr resp, l') \<and>
     (aiScopes (wlService None :: (unit, unit) workloadService) (wp_Audience resp) (wp_Scopes resp) \<or>
      otherScopes (wlService None :: (unit, unit) workloadService) (wp_Audience resp) (wp_Scopes resp))"
proof -
  obtain r l' where e: "Exchange (wlService None) () wlLimiters wlEnv wlRuntimeRequest = (r, l')" by (metis prod.collapse)
  with wl_runtime have r: "r = Inr (workloadBearer ''access-token'' 60000000000 RuntimeAudience [RuntimeScope] ''acme'' [])" by simp
  from workload_scopes_closed [OF e [unfolded r]] e [unfolded r] show ?thesis by blast
qed

lemma wl_codec: "marshal wlCodec b = Inr raw \<Longrightarrow> unmarshal wlCodec raw = Inr b \<and> raw \<noteq> []"
proof -
  assume m: "marshal wlCodec b = Inr raw"
  have "codec_ok wlCodec" unfolding wlCodec_def by (rule tableCodec_ok) simp_all
  then have "unmarshal wlCodec raw = Inr b" using m by (simp add: codec_ok_def)
  moreover have "raw \<noteq> []" using m by (auto simp: wlCodec_def tableCodec_def split: if_split_asm)
  ultimately show ?thesis by simp
qed

lemma wl_key: "WorkloadBindingKey ''c1'' ''system:serviceaccount:apps:worker'' = wlKey" "TrimSpace wlKey = wlKey" "wlKey \<noteq> []"
  by (simp add: wlKey_def) code_simp+

lemma wl_parsed:
  "\<exists>p. ParseWorkloadSubject ''system:serviceaccount:apps:worker'' = Some p \<and>
     ws_Subject p = ''system:serviceaccount:apps:worker''"
proof -
  have "map_option ws_Subject (ParseWorkloadSubject ''system:serviceaccount:apps:worker'') =
      Some ''system:serviceaccount:apps:worker''" by code_simp
  then show ?thesis by auto
qed

lemma wl_revoke:
  "RevokeBinding (wlService (Some wlRepo)) wlMemory wlEnv ''system:serviceaccount:apps:worker'' ''c1'' = (Inr wlRevoked, wlAfter)"
proof -
  obtain p where p: "ParseWorkloadSubject ''system:serviceaccount:apps:worker'' = Some p"
    "ws_Subject p = ''system:serviceaccount:apps:worker''" using wl_parsed by blast
  have c: "ValidWorkloadClusterRef ''c1''" by code_simp
  have get: "bindingRepo_Get memStore wlCodec wlMemory wlKey = Inr (Some wlBinding)"
    by (simp add: bindingRepo_Get_def wl_key memStore_def wlMemory_def wlCodec_def tableCodec_def)
      (simp add: wlBinding_def wl_key)
  have up: "bindingRepo_Upsert memStore wlCodec wlMemory (Some wlRevoked) = (None, wlAfter)"
  proof -
    have "TrimSpace ''system:serviceaccount:apps:worker'' = ''system:serviceaccount:apps:worker''" by code_simp
    moreover have "wlRevoked \<noteq> wlBinding" by (simp add: wlRevoked_def wlBinding_def)
    ultimately show ?thesis
      by (simp add: bindingRepo_Upsert_def wlCodec_def tableCodec_def pipelined_def memStore_def wlAfter_def)
        (simp add: wlRevoked_def wlBinding_def wl_key)
  qed
  show ?thesis
    by (simp add: RevokeBinding_def wlService_def wlRepo_def p c NewWorkloadBindingRepo_def bindingRepo_Revoke_def wl_key get Let_def)
      (use up in \<open>simp add: wlRevoked_def wlEnv_def\<close>)
qed

lemma wl_legacy:
  "exchangeLegacy (wlService (Some wlRepo)) wlMemory wlEnv wlLegacyRequest =
     Inr (workloadBearer ''access-token'' 300000000000 WorkloadProducerAudience [WorkloadAdminScope] ''acme'' [])"
proof -
  have get: "wrGet wlRepo wlMemory (WorkloadBindingKey ''c1'' ''system:serviceaccount:apps:worker'') = Inr (Some wlBinding)"
    by (simp add: wlRepo_def NewWorkloadBindingRepo_def bindingRepo_Get_def wl_key memStore_def wlMemory_def wlCodec_def
        tableCodec_def) (simp add: wlBinding_def wl_key)
  have lb: "legacyBinding (wlService (Some wlRepo)) wlRepo wlMemory wlSubject = Inr (Some wlBinding)"
    using get by (simp add: legacyBinding_def wlSubject_def Let_def)
  have g: "workloadBindingGrant (Some wlBinding) wlSubject ''acme'' WorkloadProducerAudience [WorkloadAdminScope] =
      Some (hd (wb_Grants wlBinding))" by code_simp
  have pure: "workloadAudienceAllowed WorkloadProducerAudience" "tenantIDPattern ''acme''"
    "workloadScopesAllowed WorkloadProducerAudience [WorkloadAdminScope]"
    "normalizedWorkloadScopes [WorkloadAdminScope] = [WorkloadAdminScope]" "wg_EventTypes (hd (wb_Grants wlBinding)) = []"
    by code_simp+
  have p: "VerifyProjectedToken (wlService (Some wlRepo)) wlMemory x = Inr wlSubject" for x
    by (simp add: VerifyProjectedToken_def wlService_def)
  have sig: "signWorkload (wlService (Some wlRepo)) c = Inr ''access-token''" for c
    by (simp add: signWorkload_def signingKey_def ParseRSAPrivateKey_def wlService_def sampleJwt_def)
  have f: "wi_repo (wlService (Some wlRepo)) = Some wlRepo" "wi_ttl (wlService (Some wlRepo)) = 300000000000"
    "\<not> wi_refuseLegacyCodeQAdmin (wlService (Some wlRepo))" by (simp_all add: wlService_def)
  have r: "wx_Scopes wlLegacyRequest = [WorkloadAdminScope]" "wx_Audience wlLegacyRequest = WorkloadProducerAudience"
    "wx_TenantID wlLegacyRequest = ''acme''" by (simp_all add: wlLegacyRequest_def wlRequest_def)
  show ?thesis unfolding exchangeLegacy_def r f p pure(4) using pure by (simp add: lb g f sig)
qed

theorem revoked_binding_refused_witness:
  "exchangeLegacy (wlService (Some wlRepo)) wlMemory wlEnv wlLegacyRequest \<noteq> Inl ErrWorkloadBindingDenied \<and>
   RevokeBinding (wlService (Some wlRepo)) wlMemory wlEnv ''system:serviceaccount:apps:worker'' ''c1'' =
     (Inr wlRevoked, wlAfter) \<and>
   \<not> (\<exists>resp. exchangeLegacy (wlService (Some wlRepo)) wlAfter wlEnv wlLegacyRequest = Inr resp)"
proof -
  obtain p where p: "ParseWorkloadSubject ''system:serviceaccount:apps:worker'' = Some p"
    "ws_Subject p = ''system:serviceaccount:apps:worker''" using wl_parsed by blast
  have "exchangeLegacy (wlService (Some wlRepo)) wlAfter wlEnv wlLegacyRequest \<noteq> Inr resp" for resp
    by (rule revoked_binding_refused [where view = mem_keys and K = wlCodec and R = memStore and other = "\<lambda>w. w" and v = wlAfter
            and subject = wlSubject,
          OF memStore_ok wl_codec _ wl_revoke p(1)])
      (simp_all add: wlService_def wlRepo_def VerifyProjectedToken_def wlSubject_def p(2) memStore_def)
  with wl_legacy wl_revoke show ?thesis by simp
qed

theorem binding_outage_read_as_missing_witness:
  "legacyBinding (wlService (Some (NewWorkloadBindingRepo wlOutage wlCodec (\<lambda>w. w))))
     (NewWorkloadBindingRepo wlOutage wlCodec (\<lambda>w. w)) wlAfter wlSubject =
     bindingRepo_Get wlOutage wlCodec wlAfter ''system:serviceaccount:apps:worker'' \<and>
   RevokeBinding (wlService (Some (NewWorkloadBindingRepo wlOutage wlCodec (\<lambda>w. w)))) wlMemory wlEnv
     ''system:serviceaccount:apps:worker'' ''c1'' = (Inl ErrNotFound, wlMemory)"
proof -
  obtain p where p: "ParseWorkloadSubject ''system:serviceaccount:apps:worker'' = Some p"
    "ws_Subject p = ''system:serviceaccount:apps:worker''" using wl_parsed by blast
  have c: "ValidWorkloadClusterRef ''c1''" by code_simp
  let ?s = "wlService (Some (NewWorkloadBindingRepo wlOutage wlCodec (\<lambda>w. w)))"
  have *: "legacyBinding ?s (NewWorkloadBindingRepo wlOutage wlCodec (\<lambda>w. w)) w wlSubject =
      (if scopedBindingsRequired ?s then Inr None else bindingRepo_Get wlOutage wlCodec w (ws_Subject p)) \<and>
    RevokeBinding ?s w wlEnv ''system:serviceaccount:apps:worker'' ''c1'' = (Inl ErrNotFound, w)" for w
    by (rule binding_outage_read_as_missing [OF _ p(1) c, where e = "ErrText ''i/o timeout''"])
      (simp_all add: wlService_def wlSubject_def p(2) wl_key wlOutage_def)
  have "\<not> scopedBindingsRequired ?s" by (simp add: scopedBindingsRequired_def wlService_def)
  with * [of wlAfter] * [of wlMemory] p(2) show ?thesis by simp
qed

end
