(* ===== verification/Delegation.thy ===== *)
theory Delegation
  imports AI_Token Workload_Properties
begin

text \<open>
  The AI grant of a workload that acts for a user, with the two services wired as the application wires them: the user
  token is checked by \<^const>\<open>ValidateAIAccessToken\<close> of the user service.
\<close>

section \<open>A workload never has more than the user it acts for\<close>

lemma valid_user_token:
  assumes "ValidateAIAccessToken A us w E raw = Inr c" "ac_PrincipalKind c = ''User''"
  obtains byID u held where "usByID (us_repo us) = Some byID" "idFindByID byID w (ac_Subject c) = Inr (Some u)"
    "u_Status u = UserStatusActive" "ac_Version c = Some (u_TokenVersion u)"
    "aiUserEffectiveScopes us w u (ac_TenantID c) held = Inr held" "set held = set (SplitChar CHR '' '' (ac_Scope c))"
proof -
  obtain scopes i where v: "aiTokenScopes c = Some scopes" "aiTokenIdentity us w c scopes = Inr i"
    using assms(1) by (rule ValidateAIAccessToken_Inr) blast
  have "set scopes = set (SplitChar CHR '' '' (ac_Scope c))"
    using v(1) by (auto simp: aiTokenScopes_def AIScopes_eq_Some)
  moreover obtain identity where "aiTokenUser us w c scopes identity = Inr i"
    using v(2) assms(2) by (auto simp: aiTokenIdentity_def Let_def)
  ultimately show ?thesis
    by (elim aiTokenUser_Inr) (rule that)
qed

lemma delegation_user:
  assumes "delegation s w r scopes = Inr ou" "wx_UserToken r \<noteq> []" "wi_aiUsers s = Some validate"
  obtains user where "ou = Some user" "validate w (wx_UserToken r) = Inr user" "delegating (wx_TenantID r) scopes user"
  using assms by (auto simp: delegation_def split: sum.splits if_split_asm)

lemma delegated_ttl:
  assumes "1000000000 \<le> aiWorkloadTTL cfg subject (Some user) now"
  shows "now + aiWorkloadTTL cfg subject (Some user) now \<le> ac_ExpiresAt user * 1000000000"
  using assms by (auto simp: aiWorkloadTTL_def timeSub_def Let_def)

lemma delegated_claims:
  assumes "aiAuthorize J L oe w E ((workloadIdentity subject tenantID scopes)\<lparr>ai_Kind := ''Delegated'', ai_Subject := sub\<rparr>)
      key issuer kid now = Inr p" and "sub = ac_Subject user"
  shows "\<exists>k. aw_ServiceAccountUID k = ws_ServiceAccountUID subject \<and> aw_PodUID k = ws_PodUID subject \<and>
    (let c = aiWorkloadClaims (Some user) p (aiPrincipalClaims p issuer scopes t ttl jti) in
     c ''sub'' = Some (JStr (ac_Subject user)) \<and> c ''tid'' = Some (JStr tenantID) \<and>
     c ''scope'' = Some (JStr (JoinStr '' '' scopes)) \<and> c ''exp'' = Some (GoInt (Unix (t + ttl))) \<and>
     c ''ver'' = Some (GoInt (the (ac_Version user))) \<and>
     c ''act'' = Some (JObj ((''sub'', JStr (''codefoundry:service:'' @ aw_ServiceUID k)) # aiWorkloadJson k)))"
proof -
  obtain epoch where m: "principalMatches ((workloadIdentity subject tenantID scopes)
      \<lparr>ai_Kind := ''Delegated'', ai_Subject := sub\<rparr>) epoch p"
    using assms(1) by (rule aiAuthorize_Inr)
  then obtain k where "ap_Workload p = Some k" "aw_ServiceAccountUID k = ws_ServiceAccountUID subject"
    "aw_PodUID k = ws_PodUID subject" "ap_Subject p = sub" "ap_TenantID p = tenantID"
    by (auto simp: principalMatches_def workloadIdentity_def split: option.splits)
  then show ?thesis unfolding assms(2)
    by (intro exI [of _ k]) (simp add: aiWorkloadClaims_def aiPrincipalClaims_def Let_def)
qed

lemma delegating_scopes:
  assumes "delegating tenantID scopes user" "AIScopes requested = Some scopes"
  shows "ac_PrincipalKind user = ''User'' \<and> ac_TenantID user = tenantID \<and> set scopes \<subseteq> set (SplitChar CHR '' '' (ac_Scope user))"
proof -
  have "set scopes - {[]} \<subseteq> set (SplitChar CHR '' '' (ac_Scope user))" "ac_PrincipalKind user = ''User''"
    "ac_TenantID user = tenantID"
    using assms(1) by (simp_all add: delegating_def subsetList_iff)
  moreover have "[] \<notin> set scopes" using assms(2) by (auto simp: AIScopes_eq_Some list_all_iff aiKnown_def)
  ultimately show ?thesis by blast
qed

text \<open>
  C5. A token issued to a workload that acts for a user rests on that user as they are now: the user token is valid, its
  user is stored and active with the token's version, and the scopes of the new token are among those the user holds in
  that tenant at this moment. That is what is signed: the token's subject is the user, its scope claim lists exactly
  those scopes, its version is the stored one, its actor is the verified service account and pod, and its expiry is not
  past the user token's.
\<close>
theorem delegated_token_bounded:
  assumes "wi_aiUsers s = Some (\<lambda>w raw. ValidateAIAccessToken A us w E' raw)" "wx_UserToken r \<noteq> []"
    and "exchangeAIPrincipal s e w E r subject now = Inr resp"
  shows "\<exists>user byID u held key c k exp. ValidateAIAccessToken A us w E' (wx_UserToken r) = Inr user \<and>
    ac_TenantID user = wx_TenantID r \<and> usByID (us_repo us) = Some byID \<and>
    idFindByID byID w (ac_Subject user) = Inr (Some u) \<and> u_Status u = UserStatusActive \<and>
    ac_Version user = Some (u_TokenVersion u) \<and> aiUserEffectiveScopes us w u (wx_TenantID r) held = Inr held \<and>
    set (wp_Scopes resp) \<subseteq> set held \<and> now + wp_ExpiresIn resp * 1000000000 \<le> ac_ExpiresAt user * 1000000000 \<and>
    signingKey s = Inr key \<and> signRS256 (wi_jwt s) (Some (wi_keyID s)) c key = Inr (wp_AccessToken resp) \<and>
    c ''sub'' = Some (JStr (ac_Subject user)) \<and> c ''tid'' = Some (JStr (wx_TenantID r)) \<and>
    c ''scope'' = Some (JStr (JoinStr '' '' (wp_Scopes resp))) \<and> c ''ver'' = Some (GoInt (u_TokenVersion u)) \<and>
    c ''exp'' = Some (GoInt exp) \<and> exp \<le> ac_ExpiresAt user \<and>
    c ''act'' = Some (JObj ((''sub'', JStr (''codefoundry:service:'' @ aw_ServiceUID k)) # aiWorkloadJson k)) \<and>
    aw_ServiceAccountUID k = ws_ServiceAccountUID subject \<and> aw_PodUID k = ws_PodUID subject"
proof -
  obtain scopes ou p key where sc: "AIScopes (wx_Scopes r) = Some scopes"
    and g: "delegation s w r scopes = Inr ou" "1000000000 \<le> aiWorkloadTTL (ax_cfg e) subject ou now"
    "wp_Scopes resp = scopes" "wp_ExpiresIn resp = aiWorkloadTTL (ax_cfg e) subject ou now div 1000000000"
    "signingKey s = Inr key"
    "aiAuthorize (wi_jwt s) (wi_library s) (Some e) w (we_call E)
       (case ou of None \<Rightarrow> workloadIdentity subject (wx_TenantID r) scopes
        | Some user \<Rightarrow> (workloadIdentity subject (wx_TenantID r) scopes)
            \<lparr>ai_Kind := ''Delegated'', ai_Subject := ac_Subject user\<rparr>) key (wi_issuer s) (wi_keyID s) now = Inr p"
    "signRS256 (wi_jwt s) (Some (wi_keyID s))
       (aiWorkloadClaims ou p (aiPrincipalClaims p (wi_issuer s) scopes now (aiWorkloadTTL (ax_cfg e) subject ou now) (we_uuid E 1)))
       key = Inr (wp_AccessToken resp)"
    using assms(3) by (rule exchangeAIPrincipal_Inr)
  obtain user where u: "ou = Some user" "ValidateAIAccessToken A us w E' (wx_UserToken r) = Inr user"
    "delegating (wx_TenantID r) scopes user"
    using g(1) assms(2,1) by (rule delegation_user)
  have user: "ac_PrincipalKind user = ''User''" "ac_TenantID user = wx_TenantID r"
    "set scopes \<subseteq> set (SplitChar CHR '' '' (ac_Scope user))"
    using delegating_scopes [OF u(3) sc] by blast+
  have upto: "now + aiWorkloadTTL (ax_cfg e) subject ou now \<le> ac_ExpiresAt user * 1000000000"
    using delegated_ttl [OF g(2) [unfolded u(1)]] by (simp add: u(1))
  obtain byID acc held where stored: "usByID (us_repo us) = Some byID" "idFindByID byID w (ac_Subject user) = Inr (Some acc)"
    "u_Status acc = UserStatusActive" "ac_Version user = Some (u_TokenVersion acc)"
    "aiUserEffectiveScopes us w acc (ac_TenantID user) held = Inr held" "set held = set (SplitChar CHR '' '' (ac_Scope user))"
    using u(2) user(1) by (rule valid_user_token)
  obtain k where k: "aw_ServiceAccountUID k = ws_ServiceAccountUID subject \<and> aw_PodUID k = ws_PodUID subject \<and>
    (let c = aiWorkloadClaims (Some user) p (aiPrincipalClaims p (wi_issuer s) scopes now
               (aiWorkloadTTL (ax_cfg e) subject ou now) (we_uuid E 1)) in
     c ''sub'' = Some (JStr (ac_Subject user)) \<and> c ''tid'' = Some (JStr (wx_TenantID r)) \<and>
     c ''scope'' = Some (JStr (JoinStr '' '' scopes)) \<and>
     c ''exp'' = Some (GoInt (Unix (now + aiWorkloadTTL (ax_cfg e) subject ou now))) \<and>
     c ''ver'' = Some (GoInt (the (ac_Version user))) \<and>
     c ''act'' = Some (JObj ((''sub'', JStr (''codefoundry:service:'' @ aw_ServiceUID k)) # aiWorkloadJson k)))"
    using delegated_claims [OF g(6) [unfolded u(1) option.case] refl] unfolding u(1) by blast
  have "now + wp_ExpiresIn resp * 1000000000 \<le> ac_ExpiresAt user * 1000000000" using upto g(4) by simp
  moreover have "Unix (now + aiWorkloadTTL (ax_cfg e) subject ou now) \<le> ac_ExpiresAt user" using upto by (simp add: Unix_def)
  ultimately show ?thesis
    using u(2) user(2,3) stored g(3,5) g(7)[unfolded u(1)] k [unfolded Let_def u(1)] by (auto simp: u(1))
qed

section \<open>A witness\<close>

definition delegatedPrincipal :: aiPrincipal where
  "delegatedPrincipal =
     \<lparr>ap_SchemaVersion = IdentityVersion, ap_TenantID = ''globex'', ap_TenantUID = ''globex'', ap_TenantEpoch = sampleEpoch,
      ap_Subject = ''u-1'', ap_PrincipalKind = ''Delegated'',
      ap_Workload = Some \<lparr>aw_Issuer = ''https://k8s'', aw_ServiceUID = ''33333333-3333-4333-8333-333333333333'',
        aw_ClusterRef = ''c1'', aw_Namespace = ''apps'', aw_ServiceAccount = ''worker'',
        aw_ServiceAccountUID = ''11111111-1111-4111-8111-111111111111'', aw_PodUID = ''22222222-2222-4222-8222-222222222222''\<rparr>\<rparr>"

definition delegatingGateway :: "unit aiGatewayExchange" where
  "delegatingGateway = sampleGateway\<lparr>ax_authority := Some (\<lambda>w assertion. Inr delegatedPrincipal)\<rparr>"

definition delegatingService :: "(unit, unit) workloadService" where
  "delegatingService =
     (wlService None)\<lparr>wi_aiGateway := Some delegatingGateway,
       wi_aiUsers := Some (\<lambda>w raw. ValidateAIAccessToken sampleTokenLibrary aiService w sampleCall raw)\<rparr>"

definition delegatedRequest :: workloadExchangeReq where
  "delegatedRequest =
     wlRequest\<lparr>wx_Scopes := [UsageScope], wx_Audience := AIGatewayAudienceClientID, wx_TenantID := ''globex'',
       wx_CodeQTopicID := [], wx_UserToken := ''h.p.s''\<rparr>"

lemma delegated_run:
  "exchangeAIPrincipal (delegatingService\<lparr>wi_aiUsers := Some (\<lambda>w raw. Inr sampleAIClaims)\<rparr>) delegatingGateway () wlEnv
     delegatedRequest wlSubject 6000000000 =
   Inr (workloadBearer ''access-token'' 58000000000 AIGatewayAudienceClientID [UsageScope] ''globex'' [])"
  by code_simp

lemma delegated_exchange:
  "exchangeAIPrincipal delegatingService delegatingGateway () wlEnv delegatedRequest wlSubject 6000000000 =
   Inr (workloadBearer ''access-token'' 58000000000 AIGatewayAudienceClientID [UsageScope] ''globex'' [])"
proof -
  have d: "delegation delegatingService () delegatedRequest scopes =
      delegation (delegatingService\<lparr>wi_aiUsers := Some (\<lambda>w raw. Inr sampleAIClaims)\<rparr>) () delegatedRequest scopes" for scopes
    using sample_ai_token by (simp add: delegation_def delegatingService_def delegatedRequest_def)
  have same: "wi_jwt (s\<lparr>wi_aiUsers := x\<rparr>) = wi_jwt s" "wi_library (s\<lparr>wi_aiUsers := x\<rparr>) = wi_library s"
    "wi_issuer (s\<lparr>wi_aiUsers := x\<rparr>) = wi_issuer s" "wi_keyID (s\<lparr>wi_aiUsers := x\<rparr>) = wi_keyID s"
    "wi_privatePEM (s\<lparr>wi_aiUsers := x\<rparr>) = wi_privatePEM s" "wi_bitLen (s\<lparr>wi_aiUsers := x\<rparr>) = wi_bitLen s" for s :: "(unit, unit) workloadService" and x by simp_all
  have "exchangeAIPrincipal delegatingService delegatingGateway () wlEnv delegatedRequest wlSubject 6000000000 =
      exchangeAIPrincipal (delegatingService\<lparr>wi_aiUsers := Some (\<lambda>w raw. Inr sampleAIClaims)\<rparr>) delegatingGateway () wlEnv
        delegatedRequest wlSubject 6000000000"
    unfolding exchangeAIPrincipal_def d signingKey_def same ..
  then show ?thesis unfolding delegated_run .
qed

theorem delegated_token_bounded_witness:
  "\<exists>u held. idFindByID (the (usByID (us_repo aiService))) () ''u-1'' = Inr (Some u) \<and> u_Status u = UserStatusActive \<and>
     aiUserEffectiveScopes aiService () u ''globex'' held = Inr held \<and> UsageScope \<in> set held \<and>
     (6 + 58) * 1000000000 \<le> ac_ExpiresAt sampleAIClaims * 1000000000"
proof -
  have "wi_aiUsers delegatingService = Some (\<lambda>w raw. ValidateAIAccessToken sampleTokenLibrary aiService w sampleCall raw)"
    "wx_UserToken delegatedRequest = ''h.p.s''" "wx_TenantID delegatedRequest = ''globex''"
    by (simp_all add: delegatingService_def delegatedRequest_def)
  with delegated_token_bounded [of delegatingService sampleTokenLibrary aiService sampleCall delegatedRequest, OF _ _ delegated_exchange]
  show ?thesis using sample_ai_token by (auto simp: sampleAIClaims_def)
qed

end
