(* ===== verification/Native_Store.thy ===== *)
theory Native_Store
  imports Native_Token Directory_Store
begin

text \<open>
  \<^verbatim>\<open>internal/nativeauth/store.go\<close>: pending authorization requests and one-time codes in Redis. The two Lua scripts run
  atomically on the keyspace; an error reply of a script is the pair \<^verbatim>\<open>error\<close> and its text. The time to live of a
  record is Redis' own step: a record that is gone is a step of another client.

  Parameters: the Redis client, SHA-256, the JSON library (\<open>nj_parse\<close> the one value of a text, \<open>nj_marshal\<close> and
  \<open>nj_fill\<close> for one Go type), the clock and the random source.
\<close>

section \<open>Records\<close>

record nativeRequest =
  nq_ClientID :: string
  nq_ClientFingerprint :: string
  nq_RedirectURI :: string
  nq_State :: string
  nq_Challenge :: string
  nq_ExpiresAt :: int

record 'a nativeJson =
  nj_parse :: "string \<Rightarrow> jval option"
  nj_marshal :: "'a \<Rightarrow> string option"
  nj_fill :: "string \<Rightarrow> 'a option"

record 'w nativeStore =
  nst_redis :: "'w store option"
  nst_sha256hex :: "string \<Rightarrow> string"
  nst_request :: "nativeRequest nativeJson"
  nst_grant :: "nativeGrant nativeJson"

abbreviation RequestTTL :: int where "RequestTTL \<equiv> 300000000000"
abbreviation CodeTTL :: int where "CodeTTL \<equiv> 60000000000"
abbreviation maximumRecord :: nat where "maximumRecord \<equiv> 131072"

text \<open>\<^verbatim>\<open>^[A-Za-z0-9][A-Za-z0-9._:-]{0,127}$\<close>\<close>

definition principalID :: "string \<Rightarrow> bool" where
  "principalID v \<longleftrightarrow>
     1 \<le> length v \<and> length v \<le> 128 \<and> alnum (hd v) \<and> list_all (\<lambda>c. alnum c \<or> c \<in> set ''._:-'') v"

definition opaque :: "string \<Rightarrow> bool" where
  "opaque v = ValidS256Challenge v"

definition fingerprint :: "string \<Rightarrow> bool" where
  "fingerprint v \<longleftrightarrow> length v = 64 \<and> list_all lowerHex v"

definition stateKey :: "(string \<Rightarrow> string) \<Rightarrow> string \<Rightarrow> string \<Rightarrow> string" where
  "stateKey sha kind v = ''identity:v2:native:'' @ kind @ '':'' @ sha v"

definition requestValid :: "nativeRequest \<Rightarrow> bool" where
  "requestValid r \<longleftrightarrow>
     principalID (nq_ClientID r) \<and> fingerprint (nq_ClientFingerprint r) \<and> 0 < length (nq_RedirectURI r) \<and>
     length (nq_RedirectURI r) \<le> 1024 \<and> ValidState (nq_State r) \<and> ValidS256Challenge (nq_Challenge r) \<and>
     0 < nq_ExpiresAt r"

fun scopesOnce :: "string set \<Rightarrow> string list \<Rightarrow> bool" where
  "scopesOnce seen [] = True"
| "scopesOnce seen (sc # scs) = (if \<not> ValidScope sc \<or> sc \<in> seen then False else scopesOnce (insert sc seen) scs)"

definition grantValid :: "nativeGrant \<Rightarrow> bool" where
  "grantValid g =
     (if \<not> principalID (ng_ClientID g) \<or> \<not> fingerprint (ng_ClientFingerprint g) \<or> length (ng_RedirectURI g) < 1 \<or>
         length (ng_RedirectURI g) > 1024 \<or> \<not> ValidS256Challenge (ng_Challenge g) \<or> \<not> principalID (ng_Subject g) \<or>
         \<not> principalID (ng_IdentityTenantID g) \<or> \<not> fingerprint (ng_IdentityFingerprint g) \<or> ng_TokenVersion g < 0 \<or>
         ng_ExpiresAt g < 1 \<or> ng_ExpiresAt g > ng_SessionExpiresAt g \<or> length (ng_ApprovedScopes g) < 1 \<or>
         length (ng_ApprovedScopes g) > 500 then False
      else scopesOnce {} (ng_ApprovedScopes g))"

text \<open>\<^verbatim>\<open>decode\<close>: no repeated top-level key, then the strict decoder of the type.\<close>

definition decodeNative :: "'a nativeJson \<Rightarrow> string \<Rightarrow> 'a option" where
  "decodeNative J raw =
     (case nj_parse J raw of
        Some (JObj kvs) \<Rightarrow> if distinct (map fst kvs) then nj_fill J raw else None
      | _ \<Rightarrow> None)"

section \<open>Scripts\<close>

definition readRecord :: "string \<Rightarrow> nat \<Rightarrow> keyspace \<Rightarrow> string list \<times> cmd list" where
  "readRecord key most ks =
     (case ks_string ks key of
        None \<Rightarrow> ([], [])
      | Some v \<Rightarrow> if length v > most then ([''error'', ''native record invalid''], []) else ([v], []))"

definition consumeRecord :: "string \<Rightarrow> string \<Rightarrow> keyspace \<Rightarrow> string list \<times> cmd list" where
  "consumeRecord key raw ks =
     (case ks_string ks key of
        None \<Rightarrow> ([''0''], [])
      | Some v \<Rightarrow>
          if length v \<noteq> length raw then ([''0''], [])
          else if v \<noteq> raw then ([''0''], [])
          else ([''1''], [CDel key]))"

section \<open>Operations\<close>

text \<open>\<open>draw i\<close> are the 32 random bytes of the attempt \<open>i\<close>, \<open>others i\<close> what other clients do before it.\<close>

fun putAttempts ::
  "'w store \<Rightarrow> (string \<Rightarrow> string) \<Rightarrow> string \<Rightarrow> string \<Rightarrow> (nat \<Rightarrow> string option) \<Rightarrow> (nat \<Rightarrow> 'w \<Rightarrow> 'w) \<Rightarrow> nat \<Rightarrow> nat \<Rightarrow> 'w \<Rightarrow>
   string res \<times> 'w" where
  "putAttempts R sha kind encoded draw others i 0 w = (Inl ErrUnavailable, w)"
| "putAttempts R sha kind encoded draw others i (Suc left) w =
     (case draw i of
        None \<Rightarrow> (Inl ErrUnavailable, w)
      | Some entropy \<Rightarrow>
          (let i_d = b64encode entropy in
           case rSetNX R (others i w) (stateKey sha kind i_d) encoded of
             (Inl _, w') \<Rightarrow> (Inl ErrUnavailable, w')
           | (Inr True, w') \<Rightarrow> (Inr i_d, w')
           | (Inr False, w') \<Rightarrow> putAttempts R sha kind encoded draw others (Suc i) left w'))"

definition putRecord ::
  "'w nativeStore \<Rightarrow> 'a nativeJson \<Rightarrow> (nat \<Rightarrow> string option) \<Rightarrow> (nat \<Rightarrow> 'w \<Rightarrow> 'w) \<Rightarrow> int \<Rightarrow> 'w \<Rightarrow> string \<Rightarrow> 'a \<Rightarrow> int \<Rightarrow>
   string res \<times> 'w" where
  "putRecord S J draw others now w kind v expiry =
     (case nst_redis S of
        None \<Rightarrow> (Inl ErrUnavailable, w)
      | Some R \<Rightarrow>
          (case nj_marshal J v of
             None \<Rightarrow> (Inl ErrUnavailable, w)
           | Some encoded \<Rightarrow>
               if length encoded > maximumRecord then (Inl ErrUnavailable, w)
               else if timeSub (expiry * 1000000000) now \<le> 0 then (Inl ErrInvalidGrant, w)
               else putAttempts R (nst_sha256hex S) kind encoded draw others 0 3 w))"

definition CreateRequest ::
  "'w nativeStore \<Rightarrow> (nat \<Rightarrow> int) \<Rightarrow> (nat \<Rightarrow> string option) \<Rightarrow> (nat \<Rightarrow> 'w \<Rightarrow> 'w) \<Rightarrow> 'w \<Rightarrow> nativeRequest \<Rightarrow> string res \<times> 'w" where
  "CreateRequest S clock draw others w r0 =
     (case nst_redis S of
        None \<Rightarrow> (Inl ErrUnavailable, w)
      | Some _ \<Rightarrow>
          let r = r0\<lparr>nq_ExpiresAt := Unix (clock 0 + RequestTTL)\<rparr> in
          if \<not> requestValid r then (Inl ErrInvalidGrant, w)
          else putRecord S (nst_request S) draw others (clock 1) w ''request'' r (nq_ExpiresAt r))"

definition CreateCode ::
  "'w nativeStore \<Rightarrow> (nat \<Rightarrow> int) \<Rightarrow> (nat \<Rightarrow> string option) \<Rightarrow> (nat \<Rightarrow> 'w \<Rightarrow> 'w) \<Rightarrow> 'w \<Rightarrow> nativeGrant \<Rightarrow> string res \<times> 'w" where
  "CreateCode S clock draw others w g0 =
     (case nst_redis S of
        None \<Rightarrow> (Inl ErrUnavailable, w)
      | Some _ \<Rightarrow>
          let g = g0\<lparr>ng_ExpiresAt := min (Unix (clock 0 + CodeTTL)) (ng_SessionExpiresAt g0)\<rparr> in
          if \<not> grantValid g \<or> ng_ExpiresAt g \<le> Unix (clock 1) then (Inl ErrInvalidGrant, w)
          else putRecord S (nst_grant S) draw others (clock 2) w ''code'' g (ng_ExpiresAt g))"

text \<open>The read script changes nothing; the world after it is the one it left.\<close>

definition readNative :: "'w nativeStore \<Rightarrow> 'w \<Rightarrow> string \<Rightarrow> string \<Rightarrow> string res \<times> 'w" where
  "readNative S w kind i_d =
     (if \<not> opaque i_d then (Inl ErrInvalidGrant, w)
      else
        (case nst_redis S of
           None \<Rightarrow> (Inl ErrUnavailable, w)
         | Some R \<Rightarrow>
             (case rEval R w (readRecord (stateKey (nst_sha256hex S) kind i_d) maximumRecord) of
                (Inl _, w') \<Rightarrow> (Inl ErrUnavailable, w')
              | (Inr [], w') \<Rightarrow> (Inl ErrInvalidGrant, w')
              | (Inr [raw], w') \<Rightarrow>
                  if length raw < 1 \<or> length raw > maximumRecord then (Inl ErrUnavailable, w') else (Inr raw, w')
              | (Inr _, w') \<Rightarrow> (Inl ErrUnavailable, w'))))"

definition RequestSnapshot ::
  "'w nativeStore \<Rightarrow> int \<Rightarrow> 'w \<Rightarrow> string \<Rightarrow> (nativeRequest \<times> string) res \<times> 'w" where
  "RequestSnapshot S now w i_d =
     (case readNative S w ''request'' i_d of
        (Inl e, w') \<Rightarrow> (Inl e, w')
      | (Inr raw, w') \<Rightarrow>
          (case decodeNative (nst_request S) raw of
             None \<Rightarrow> (Inl ErrUnavailable, w')
           | Some r \<Rightarrow>
               if \<not> requestValid r then (Inl ErrUnavailable, w')
               else if nq_ExpiresAt r \<le> Unix now then (Inl ErrInvalidGrant, w')
               else (Inr (r, raw), w')))"

definition CodeSnapshot ::
  "'w nativeStore \<Rightarrow> (nat \<Rightarrow> int) \<Rightarrow> 'w \<Rightarrow> string \<Rightarrow> (nativeGrant \<times> string) res \<times> 'w" where
  "CodeSnapshot S clock w code =
     (case readNative S w ''code'' code of
        (Inl e, w') \<Rightarrow> (Inl e, w')
      | (Inr raw, w') \<Rightarrow>
          (case decodeNative (nst_grant S) raw of
             None \<Rightarrow> (Inl ErrUnavailable, w')
           | Some g \<Rightarrow>
               if \<not> grantValid g then (Inl ErrUnavailable, w')
               else if ng_ExpiresAt g \<le> Unix (clock 0) \<or> ng_SessionExpiresAt g \<le> Unix (clock 1)
               then (Inl ErrInvalidGrant, w')
               else (Inr (g, raw), w')))"

definition consumeNative :: "'w nativeStore \<Rightarrow> 'w \<Rightarrow> string \<Rightarrow> string \<Rightarrow> string \<Rightarrow> bool res \<times> 'w" where
  "consumeNative S w kind i_d raw =
     (if \<not> opaque i_d \<or> length raw < 1 \<or> length raw > maximumRecord then (Inl ErrInvalidGrant, w)
      else
        (case nst_redis S of
           None \<Rightarrow> (Inl ErrUnavailable, w)
         | Some R \<Rightarrow>
             (case rEval R w (consumeRecord (stateKey (nst_sha256hex S) kind i_d) raw) of
                (Inl _, w') \<Rightarrow> (Inl ErrUnavailable, w')
              | (Inr r, w') \<Rightarrow> (Inr (r = [''1'']), w'))))"

definition ConsumeRequest ::
  "'w nativeStore \<Rightarrow> int \<Rightarrow> 'w \<Rightarrow> string \<Rightarrow> nativeRequest \<times> string \<Rightarrow> bool res \<times> 'w" where
  "ConsumeRequest S now w i_d snapshot =
     (case (nst_redis S, snapshot) of
        (None, _) \<Rightarrow> (Inl ErrUnavailable, w)
      | (Some _, (r, raw)) \<Rightarrow>
          if nj_marshal (nst_request S) r \<noteq> Some raw \<or> nq_ExpiresAt r \<le> Unix now then (Inl ErrInvalidGrant, w)
          else consumeNative S w ''request'' i_d raw)"

definition ConsumeCode ::
  "'w nativeStore \<Rightarrow> int \<Rightarrow> 'w \<Rightarrow> string \<Rightarrow> nativeGrant \<times> string \<Rightarrow> bool res \<times> 'w" where
  "ConsumeCode S now w code snapshot =
     (case (nst_redis S, snapshot) of
        (None, _) \<Rightarrow> (Inl ErrUnavailable, w)
      | (Some _, (g, raw)) \<Rightarrow>
          if nj_marshal (nst_grant S) g \<noteq> Some raw \<or> ng_ExpiresAt g \<le> Unix now then (Inl ErrInvalidGrant, w)
          else consumeNative S w ''code'' code raw)"

end
