(* ===== verification/Native_Flow.thy ===== *)
theory Native_Flow
  imports Native_Store Directory_Records
begin

text \<open>
  \<^verbatim>\<open>internal/nativeauth/http.go\<close>: the authorization-code flow of native applications. A request is what the handler
  reads of it; a reply is what it decides, without headers and markup. Query parsing and encoding, HMAC, SHA-256 and the
  media type parser are parameters, as are the interfaces of the handler: the authority, the auditor and the limiter.
\<close>

section \<open>The handler\<close>

record nativeLibrary =
  nl_go :: goLibrary
  nl_unicode :: go_unicode
  nl_sha256 :: "string \<Rightarrow> string"
  nl_hmac :: "string \<Rightarrow> string \<Rightarrow> string"
  nl_parseQuery :: "string \<Rightarrow> (string \<times> string list) list option"
  nl_encode :: "(string \<times> string list) list \<Rightarrow> string"
  nl_mediaType :: "string \<Rightarrow> string option"
  nl_callback :: "string \<Rightarrow> (string \<times> string) list \<Rightarrow> string"

record nativeAuditRecord =
  na_Event :: string
  na_Phase :: string
  na_Decision :: string
  na_ClientID :: string
  na_TenantID :: string
  na_IdentityTenantID :: string
  na_SubjectHash :: string

record 'w nativeHandler =
  nh_library :: nativeLibrary
  nh_issuer :: string
  nh_cookieName :: string
  nh_csrfKey :: string
  nh_clients :: "registry option"
  nh_store :: "'w nativeStore"
  nh_browser :: "'w \<Rightarrow> string \<Rightarrow> nativeClient \<Rightarrow> nativeIdentity res"
  nh_issue :: "'w \<Rightarrow> nativeClient \<Rightarrow> nativeGrant \<Rightarrow> nativeToken res"
  nh_audit :: "'w \<Rightarrow> nativeAuditRecord \<Rightarrow> gerror option \<times> 'w"
  nh_limiter :: "'w \<Rightarrow> string \<Rightarrow> string \<Rightarrow> int \<Rightarrow> int \<Rightarrow> bool res \<times> 'w"
  nh_rateRequests :: int
  nh_rateWindow :: int

text \<open>\<open>ca_other i\<close> is what other clients do before the step \<open>i\<close> of the call.\<close>

record 'w nativeCall =
  ca_method :: string
  ca_path :: string
  ca_rawPath :: string
  ca_rawQuery :: string
  ca_origins :: "string list"
  ca_authorization :: string
  ca_contentType :: string
  ca_body :: string
  ca_cookies :: "(string \<times> string) list"
  ca_ip :: string
  ca_clock :: "nat \<Rightarrow> int"
  ca_draw :: "nat \<Rightarrow> string option"
  ca_other :: "nat \<Rightarrow> 'w \<Rightarrow> 'w"

datatype nativeReply =
    NativeFail int string
  | NativeRetry int
  | NativeClientInfo nativeClient
  | NativeLogin string string
  | NativeConsent nativeClient nativeIdentity string string
  | NativeRedirect string
  | NativeToken nativeToken

abbreviation PublicPrefix :: string where "PublicPrefix \<equiv> ''/identity/v1/native/''"

definition handlerOptionsValid :: "url option \<Rightarrow> 'w nativeHandler \<Rightarrow> bool" where
  "handlerOptionsValid origin h \<longleftrightarrow>
     (case origin of
        None \<Rightarrow> False
      | Some u \<Rightarrow>
          url_Scheme u = ''https'' \<and> url_Host u \<noteq> [] \<and> url_User u = None \<and> url_RawQuery u = [] \<and> url_Fragment u = [] \<and>
          (url_Path u = [] \<or> url_Path u = ''/'') \<and> 32 \<le> length (nh_csrfKey h) \<and> nh_cookieName h \<noteq> [] \<and>
          nh_clients h \<noteq> None \<and> 1 \<le> nh_rateRequests h \<and> 1000000000 \<le> nh_rateWindow h)"

definition nativeFailure :: "gerror \<Rightarrow> nativeReply" where
  "nativeFailure e =
     (if errors_Is e ErrUnavailable then NativeFail 503 ''temporarily_unavailable''
      else if errors_Is e ErrNativeDenied \<or> errors_Is e ErrNoSession then NativeFail 403 ''access_denied''
      else NativeFail 400 ''invalid_grant'')"

section \<open>Reading a request\<close>

definition strictValues :: "nativeLibrary \<Rightarrow> string \<Rightarrow> string list \<Rightarrow> (string \<Rightarrow> string) option" where
  "strictValues L raw keys =
     (if length raw > 8192 then None
      else (case nl_parseQuery L raw of
              None \<Rightarrow> None
            | Some vals \<Rightarrow>
                if length vals \<noteq> length keys then None
                else if list_all (\<lambda>k. case map_of vals k of Some [v] \<Rightarrow> v \<noteq> [] | _ \<Rightarrow> False) keys
                then Some (\<lambda>k. case map_of vals k of Some (v # _) \<Rightarrow> v | _ \<Rightarrow> [])
                else None))"

definition readForm :: "nativeLibrary \<Rightarrow> 'w nativeCall \<Rightarrow> string list \<Rightarrow> (string \<Rightarrow> string) option" where
  "readForm L q keys =
     (if nl_mediaType L (ca_contentType q) \<noteq> Some ''application/x-www-form-urlencoded'' \<or> ca_rawQuery q \<noteq> [] then None
      else if length (ca_body q) > 8192 then None
      else (case nl_parseQuery L (ca_body q) of
              None \<Rightarrow> None
            | Some form \<Rightarrow> strictValues L (nl_encode L form) keys))"

definition nativeSession :: "'w nativeHandler \<Rightarrow> 'w nativeCall \<Rightarrow> string" where
  "nativeSession h q =
     (case filter (\<lambda>c. fst c = nh_cookieName h) (ca_cookies q) of
        [c] \<Rightarrow> if length (snd c) > 32768 then [] else snd c
      | _ \<Rightarrow> [])"

definition nativeCsrf :: "'w nativeHandler \<Rightarrow> string \<Rightarrow> nativeIdentity \<Rightarrow> string \<Rightarrow> string" where
  "nativeCsrf h i_d identity session =
     (let L = nh_library h in
      b64encode (nl_hmac L (nh_csrfKey h)
        (''native-consent-csrf-v1'' @ [CHR 0x00] @ i_d @ [CHR 0x00] @ identityFingerprint (nl_unicode L) (nl_go L) identity @
         [CHR 0x00] @ FormatInt (ni_TokenVersion identity) @ [CHR 0x00] @ nl_sha256 L session)))"

definition redirectRefused :: "nativeLibrary \<Rightarrow> nativeClient \<Rightarrow> string \<Rightarrow> bool" where
  "redirectRefused L c raw \<longleftrightarrow> ValidateRedirect (parseURL (nl_go L)) (urlString (nl_go L)) c raw \<noteq> None"

definition nativeAudit ::
  "'w nativeHandler \<Rightarrow> 'w \<Rightarrow> string \<Rightarrow> string \<Rightarrow> string \<Rightarrow> nativeClient \<Rightarrow> nativeIdentity \<Rightarrow> gerror option \<times> 'w" where
  "nativeAudit h w event phase decision c identity =
     nh_audit h w
       \<lparr>na_Event = event, na_Phase = phase, na_Decision = decision, na_ClientID = nc_ID c, na_TenantID = nc_TenantID c,
        na_IdentityTenantID = nc_IdentityTenantID c,
        na_SubjectHash = sha256hex (nl_go (nh_library h))
          (''native-audit-subject-v1'' @ [CHR 0x00] @ ni_IdentityTenantID identity @ [CHR 0x00] @ ni_Subject identity)\<rparr>"

section \<open>Authorization and consent\<close>

definition showConsent :: "'w nativeHandler \<Rightarrow> 'w nativeCall \<Rightarrow> 'w \<Rightarrow> string \<Rightarrow> nativeClient \<Rightarrow> nativeReply" where
  "showConsent h q w i_d c =
     (let session = nativeSession h q in
      case nh_browser h w session c of
        Inl e \<Rightarrow> if errors_Is e ErrNoSession then NativeLogin (nc_IdentityTenantID c) i_d else nativeFailure e
      | Inr identity \<Rightarrow> NativeConsent c identity i_d (nativeCsrf h i_d identity session))"

definition authorizeNative :: "'w nativeHandler \<Rightarrow> 'w nativeCall \<Rightarrow> 'w \<Rightarrow> nativeReply \<times> 'w" where
  "authorizeNative h q w =
     (let L = nh_library h in
      case strictValues L (ca_rawQuery q)
             [''client_id'', ''response_type'', ''redirect_uri'', ''state'', ''code_challenge'', ''code_challenge_method''] of
        None \<Rightarrow> (NativeFail 400 ''invalid_request'', w)
      | Some get \<Rightarrow>
          (case RegistryGet (nh_clients h) (get ''client_id'') of
             None \<Rightarrow> (NativeFail 400 ''invalid_request'', w)
           | Some c \<Rightarrow>
               if redirectRefused L c (get ''redirect_uri'') \<or> get ''response_type'' \<noteq> ''code'' \<or>
                  get ''code_challenge_method'' \<noteq> ''S256'' \<or> \<not> ValidS256Challenge (get ''code_challenge'') \<or>
                  \<not> ValidState (get ''state'')
               then (NativeFail 400 ''invalid_request'', w)
               else
                 (case CreateRequest (nh_store h) (ca_clock q) (ca_draw q) (ca_other q) w
                         \<lparr>nq_ClientID = nc_ID c,
                          nq_ClientFingerprint = (case clientFingerprint (nl_go L) c of Inl _ \<Rightarrow> [] | Inr p \<Rightarrow> p),
                          nq_RedirectURI = get ''redirect_uri'', nq_State = get ''state'',
                          nq_Challenge = get ''code_challenge'', nq_ExpiresAt = 0\<rparr> of
                    (Inl e, w') \<Rightarrow> (nativeFailure e, w')
                  | (Inr i_d, w') \<Rightarrow> (showConsent h q w' i_d c, w'))))"

text \<open>The pending request under an identifier, for a client that is still registered with the same policy.\<close>

definition pendingRequest ::
  "'w nativeHandler \<Rightarrow> int \<Rightarrow> 'w \<Rightarrow> string \<Rightarrow> ((nativeRequest \<times> string) \<times> nativeClient) res \<times> 'w" where
  "pendingRequest h now w i_d =
     (case RequestSnapshot (nh_store h) now w i_d of
        (Inl e, w') \<Rightarrow> (Inl e, w')
      | (Inr (r, raw), w') \<Rightarrow>
          (case RegistryGet (nh_clients h) (nq_ClientID r) of
             None \<Rightarrow> (Inl ErrInvalidGrant, w')
           | Some c \<Rightarrow>
               if clientFingerprint (nl_go (nh_library h)) c \<noteq> Inr (nq_ClientFingerprint r) \<or>
                  redirectRefused (nh_library h) c (nq_RedirectURI r)
               then (Inl ErrInvalidGrant, w')
               else (Inr ((r, raw), c), w')))"

definition resumeNative :: "'w nativeHandler \<Rightarrow> 'w nativeCall \<Rightarrow> 'w \<Rightarrow> nativeReply \<times> 'w" where
  "resumeNative h q w =
     (case strictValues (nh_library h) (ca_rawQuery q) [''request''] of
        None \<Rightarrow> (NativeFail 400 ''invalid_request'', w)
      | Some get \<Rightarrow>
          (case pendingRequest h (ca_clock q 0) w (get ''request'') of
             (Inl e, w') \<Rightarrow> (nativeFailure e, w')
           | (Inr (_, c), w') \<Rightarrow> (showConsent h q w' (get ''request'') c, w')))"

text \<open>The grant of an approval: what the browser's user approved for the pending request.\<close>

definition approvedGrant :: "nativeLibrary \<Rightarrow> nativeClient \<Rightarrow> nativeRequest \<Rightarrow> nativeIdentity \<Rightarrow> nativeGrant" where
  "approvedGrant L c r identity =
     \<lparr>ng_ClientID = nc_ID c, ng_ClientFingerprint = nq_ClientFingerprint r, ng_RedirectURI = nq_RedirectURI r,
      ng_Challenge = nq_Challenge r, ng_Subject = ni_Subject identity, ng_IdentityTenantID = ni_IdentityTenantID identity,
      ng_IdentityFingerprint = identityFingerprint (nl_unicode L) (nl_go L) identity,
      ng_TokenVersion = ni_TokenVersion identity, ng_ApprovedScopes = ni_Scopes identity,
      ng_SessionExpiresAt = ni_SessionExpiresAt identity, ng_ExpiresAt = 0\<rparr>"

text \<open>After the request was consumed: the code on approval, the audit of the outcome and the redirect.\<close>

definition concludeConsent ::
  "'w nativeHandler \<Rightarrow> 'w nativeCall \<Rightarrow> 'w \<Rightarrow> string \<Rightarrow> nativeRequest \<Rightarrow> nativeClient \<Rightarrow> nativeIdentity \<Rightarrow> nativeReply \<times> 'w" where
  "concludeConsent h q w decision r c identity =
     (let base = [(''state'', nq_State r), (''iss'', nh_issuer h)];
          (result, w') =
            (if decision = ''deny'' then (Inr (base @ [(''error'', ''access_denied'')]), w)
             else
               (case CreateCode (nh_store h) (\<lambda>n. ca_clock q (n + 2)) (ca_draw q) (\<lambda>n. ca_other q (n + 4)) w
                       (approvedGrant (nh_library h) c r identity) of
                  (Inl e, v) \<Rightarrow> (Inl e, v)
                | (Inr code, v) \<Rightarrow> (Inr (base @ [(''code'', code)]), v))) in
      case result of
        Inl e \<Rightarrow> (nativeFailure e, w')
      | Inr query \<Rightarrow>
          (case nativeAudit h w' ''native.consent'' ''outcome'' decision c identity of
             (Some _, w'') \<Rightarrow> (NativeFail 503 ''temporarily_unavailable'', w'')
           | (None, w'') \<Rightarrow> (NativeRedirect (nl_callback (nh_library h) (nq_RedirectURI r) query), w'')))"

definition consentNative :: "'w nativeHandler \<Rightarrow> 'w nativeCall \<Rightarrow> 'w \<Rightarrow> nativeReply \<times> 'w" where
  "consentNative h q w =
     (if ca_origins q \<noteq> [TrimSuffix (nh_issuer h) ''/''] then (NativeFail 403 ''access_denied'', w)
      else
        (case readForm (nh_library h) q [''request'', ''csrf'', ''decision''] of
           None \<Rightarrow> (NativeFail 400 ''invalid_request'', w)
         | Some get \<Rightarrow>
             if get ''decision'' \<noteq> ''approve'' \<and> get ''decision'' \<noteq> ''deny'' then (NativeFail 400 ''invalid_request'', w)
             else
               (case pendingRequest h (ca_clock q 0) w (get ''request'') of
                  (Inl e, w1) \<Rightarrow> (nativeFailure e, w1)
                | (Inr ((r, raw), c), w1) \<Rightarrow>
                    let session = nativeSession h q in
                    (case nh_browser h (ca_other q 0 w1) session c of
                       Inl e \<Rightarrow> (nativeFailure e, ca_other q 0 w1)
                     | Inr identity \<Rightarrow>
                         if get ''csrf'' \<noteq> nativeCsrf h (get ''request'') identity session
                         then (NativeFail 403 ''access_denied'', ca_other q 0 w1)
                         else
                           (case nativeAudit h (ca_other q 1 (ca_other q 0 w1)) ''native.consent'' ''intent''
                                   (get ''decision'') c identity of
                              (Some _, w2) \<Rightarrow> (NativeFail 503 ''temporarily_unavailable'', w2)
                            | (None, w2) \<Rightarrow>
                                (case ConsumeRequest (nh_store h) (ca_clock q 1) (ca_other q 2 w2) (get ''request'') (r, raw) of
                                   (Inl e, w3) \<Rightarrow> (nativeFailure e, w3)
                                 | (Inr False, w3) \<Rightarrow> (NativeFail 400 ''invalid_grant'', w3)
                                 | (Inr True, w3) \<Rightarrow>
                                     concludeConsent h q (ca_other q 3 w3) (get ''decision'') r c identity))))))"

section \<open>The token\<close>

definition grantAdmits :: "'w nativeHandler \<Rightarrow> nativeClient \<Rightarrow> nativeGrant \<Rightarrow> string \<Rightarrow> string \<Rightarrow> bool" where
  "grantAdmits h c g redirectURI verifier \<longleftrightarrow>
     nc_ID c = ng_ClientID g \<and> clientFingerprint (nl_go (nh_library h)) c = Inr (ng_ClientFingerprint g) \<and>
     redirectURI = ng_RedirectURI g \<and> \<not> redirectRefused (nh_library h) c (ng_RedirectURI g) \<and>
     VerifyS256 (nl_sha256 (nh_library h)) verifier (ng_Challenge g)"

text \<open>The user of a grant, as the audit of the token names it; only these two fields are set.\<close>

definition grantIdentity :: "nativeGrant \<Rightarrow> nativeIdentity" where
  "grantIdentity g =
     \<lparr>ni_Subject = ng_Subject g, ni_Email = [], ni_IdentityTenantID = ng_IdentityTenantID g, ni_TenantName = [],
      ni_TokenVersion = 0, ni_SessionExpiresAt = 0, ni_Scopes = []\<rparr>"

definition tokenNative :: "'w nativeHandler \<Rightarrow> 'w nativeCall \<Rightarrow> 'w \<Rightarrow> nativeReply \<times> 'w" where
  "tokenNative h q w =
     (if ca_origins q \<noteq> [] \<or> ca_authorization q \<noteq> [] then (NativeFail 400 ''invalid_request'', w)
      else
        (case readForm (nh_library h) q [''grant_type'', ''client_id'', ''code'', ''redirect_uri'', ''code_verifier''] of
           None \<Rightarrow> (NativeFail 400 ''invalid_request'', w)
         | Some get \<Rightarrow>
             if get ''grant_type'' \<noteq> ''authorization_code'' then (NativeFail 400 ''invalid_request'', w)
             else
               (case CodeSnapshot (nh_store h) (ca_clock q) w (get ''code'') of
                  (Inl e, w1) \<Rightarrow> (nativeFailure e, w1)
                | (Inr (g, raw), w1) \<Rightarrow>
                    (case RegistryGet (nh_clients h) (get ''client_id'') of
                       None \<Rightarrow> (NativeFail 400 ''invalid_grant'', w1)
                     | Some c \<Rightarrow>
                         if \<not> grantAdmits h c g (get ''redirect_uri'') (get ''code_verifier'')
                         then (NativeFail 400 ''invalid_grant'', w1)
                         else
                           (case nativeAudit h (ca_other q 0 w1) ''native.token'' ''intent'' ''approve'' c (grantIdentity g) of
                              (Some _, w2) \<Rightarrow> (NativeFail 503 ''temporarily_unavailable'', w2)
                            | (None, w2) \<Rightarrow>
                                (case ConsumeCode (nh_store h) (ca_clock q 2) (ca_other q 1 w2) (get ''code'') (g, raw) of
                                   (Inl e, w3) \<Rightarrow> (nativeFailure e, w3)
                                 | (Inr False, w3) \<Rightarrow> (NativeFail 400 ''invalid_grant'', w3)
                                 | (Inr True, w3) \<Rightarrow>
                                     (case nh_issue h (ca_other q 2 w3) c g of
                                        Inl e \<Rightarrow> (nativeFailure e, ca_other q 2 w3)
                                      | Inr token \<Rightarrow>
                                          (case nativeAudit h (ca_other q 3 (ca_other q 2 w3)) ''native.token'' ''outcome''
                                                  ''approve'' c (grantIdentity g) of
                                             (Some _, w4) \<Rightarrow> (NativeFail 503 ''temporarily_unavailable'', w4)
                                           | (None, w4) \<Rightarrow> (NativeToken token, w4)))))))))"

section \<open>Dispatch\<close>

definition nativePath :: "'w nativeCall \<Rightarrow> string" where
  "nativePath q =
     (let path = TrimPrefix (ca_path q) PublicPrefix in
      if path = ca_path q then TrimPrefix path ''/v1/native/'' else path)"

definition ServeNative :: "'w nativeHandler \<Rightarrow> 'w nativeCall \<Rightarrow> 'w \<Rightarrow> nativeReply \<times> 'w" where
  "ServeNative h q w =
     (let path = nativePath q in
      if ca_rawPath q \<noteq> [] \<or> CHR ''/'' \<in> set path \<and> \<not> HasPrefix path ''clients/''
      then (NativeFail 404 ''invalid_request'', w)
      else if HasPrefix path ''clients/'' \<and> ca_method q = ''GET'' then
        (case RegistryGet (nh_clients h) (TrimPrefix path ''clients/'') of
           None \<Rightarrow> (NativeFail 404 ''invalid_client'', w)
         | Some c \<Rightarrow> if ca_rawQuery q \<noteq> [] then (NativeFail 404 ''invalid_client'', w) else (NativeClientInfo c, w))
      else if path \<notin> {''authorize'', ''resume'', ''consent'', ''token''} then (NativeFail 404 ''invalid_request'', w)
      else if ca_method q \<noteq> (if path = ''token'' \<or> path = ''consent'' then ''POST'' else ''GET'')
      then (NativeFail 405 ''invalid_request'', w)
      else
        (case nh_limiter h w (''native:'' @ path @ '':ip'') (ca_ip q) (nh_rateRequests h) (nh_rateWindow h) of
           (Inl _, w') \<Rightarrow> (NativeFail 503 ''temporarily_unavailable'', w')
         | (Inr False, w') \<Rightarrow> (NativeRetry (nh_rateWindow h div 1000000000), w')
         | (Inr True, w') \<Rightarrow>
             if path = ''authorize'' then authorizeNative h q w'
             else if path = ''resume'' then resumeNative h q w'
             else if path = ''consent'' then consentNative h q w'
             else tokenNative h q w'))"

end
