(* ===== verification/Native_Properties.thy ===== *)
theory Native_Properties
  imports Native_Flow
begin

text \<open>
  What the native authorization flow guarantees: a code gives at most one token, whatever requests and other clients
  interleave, and only to who holds the verifier of the challenge it was approved for.
\<close>

section \<open>The store\<close>

definition absent :: "('w \<Rightarrow> keyspace) \<Rightarrow> string \<Rightarrow> 'w \<Rightarrow> bool" where
  "absent view k w \<longleftrightarrow> ks_string (view w) k = None"

text \<open>The two kinds of record never share a key.\<close>

lemma request_key_differs: "stateKey sha ''request'' i \<noteq> stateKey sha ''code'' j"
  by (simp add: stateKey_def)

lemma readRecord_writes: "snd (readRecord k n ks) = []"
  by (simp add: readRecord_def split: option.splits)

lemma consumeRecord_writes: "snd (consumeRecord k raw ks) \<in> {[], [CDel k]}"
  by (simp add: consumeRecord_def split: option.splits)

lemma readNative_view:
  assumes "store_ok R view" "nst_redis S = Some R" "readNative S w kind i = (r, w')"
  shows "view w' = view w"
proof (cases "opaque i")
  case True
  obtain x v where e: "rEval R w (readRecord (stateKey (nst_sha256hex S) kind i) maximumRecord) = (x, v)" by force
  then have "view v = view w" using eval_view [OF assms(1) e] by (simp add: readRecord_writes)
  moreover have "w' = v"
    using assms(2,3) True e by (auto simp: readNative_def split: sum.splits list.splits if_split_asm)
  ultimately show ?thesis by simp
qed (use assms(3) in \<open>simp add: readNative_def\<close>)

lemma readNative_Inr:
  assumes "store_ok R view" "nst_redis S = Some R" "readNative S w kind i = (Inr raw, w')"
  shows "ks_string (view w) (stateKey (nst_sha256hex S) kind i) = Some raw" "opaque i"
proof -
  from assms(2,3) have e: "rEval R w (readRecord (stateKey (nst_sha256hex S) kind i) maximumRecord) = (Inr [raw], w')"
    and "opaque i"
    by (auto simp: readNative_def split: sum.splits prod.splits list.splits if_split_asm)
  with store_writes(3) [OF assms(1) e] show "ks_string (view w) (stateKey (nst_sha256hex S) kind i) = Some raw" "opaque i"
    by (auto simp: readRecord_def split: option.splits if_split_asm)
qed

lemma consumeNative_view:
  assumes "store_ok R view" "nst_redis S = Some R" "consumeNative S w kind i raw = (r, w')"
  shows "view w' = view w \<or> view w' = applyCmd (CDel (stateKey (nst_sha256hex S) kind i)) (view w)"
proof (cases "\<not> opaque i \<or> length raw < 1 \<or> length raw > maximumRecord")
  case False
  obtain x v where e: "rEval R w (consumeRecord (stateKey (nst_sha256hex S) kind i) raw) = (x, v)" by force
  have "view v = view w \<or> view v = applyCmd (CDel (stateKey (nst_sha256hex S) kind i)) (view w)"
    using eval_view [OF assms(1) e] consumeRecord_writes [of "stateKey (nst_sha256hex S) kind i" raw "view w"] by auto
  moreover have "w' = v" using assms(2,3) False e by (auto simp: consumeNative_def split: sum.splits if_split_asm)
  ultimately show ?thesis by simp
qed (use assms(3) in \<open>auto simp: consumeNative_def\<close>)

lemma consumeNative_True:
  assumes "store_ok R view" "nst_redis S = Some R" "consumeNative S w kind i raw = (Inr True, w')"
  shows "ks_string (view w) (stateKey (nst_sha256hex S) kind i) = Some raw"
    "absent view (stateKey (nst_sha256hex S) kind i) w'"
proof -
  from assms(2,3) have e: "rEval R w (consumeRecord (stateKey (nst_sha256hex S) kind i) raw) = (Inr [''1''], w')"
    by (auto simp: consumeNative_def split: sum.splits prod.splits if_split_asm)
  with store_writes(3) [OF assms(1) e] show "ks_string (view w) (stateKey (nst_sha256hex S) kind i) = Some raw"
    "absent view (stateKey (nst_sha256hex S) kind i) w'"
    by (auto simp: consumeRecord_def absent_def split: option.splits if_split_asm)
qed

lemma applyCmd_del_absent [simp]: "ks_string (applyCmd (CDel k) ks) j = None \<longleftrightarrow> j = k \<or> ks_string ks j = None"
  by simp

lemma absent_read:
  "store_ok R view \<Longrightarrow> nst_redis S = Some R \<Longrightarrow> readNative S w kind i = (r, w') \<Longrightarrow> absent view k w \<Longrightarrow> absent view k w'"
  by (simp add: absent_def readNative_view)

lemma absent_consume:
  "store_ok R view \<Longrightarrow> nst_redis S = Some R \<Longrightarrow> consumeNative S w kind i raw = (r, w') \<Longrightarrow> absent view k w \<Longrightarrow> absent view k w'"
  using consumeNative_view unfolding absent_def by fastforce

lemma setnx_view:
  assumes "store_ok R view" "rSetNX R w k v = (r, w')"
  shows "view w' = view w \<or> view w' = applyCmd (CSet k v) (view w)"
proof (cases r)
  case (Inl e)
  with store_writes(7) [OF assms(1), of w k v e w'] assms(2) show ?thesis by blast
next
  case (Inr b)
  with store_writes(5,6) [OF assms(1), of w k v w'] assms(2) show ?thesis by (cases b) simp_all
qed

lemma absent_put:
  assumes "store_ok R view" "\<And>i w. absent view k w \<Longrightarrow> absent view k (others i w)"
    and "\<And>i e. draw i = Some e \<Longrightarrow> stateKey sha kind (b64encode e) \<noteq> k"
    and "putAttempts R sha kind encoded draw others i n w = (r, w')" "absent view k w"
  shows "absent view k w'"
  using assms(4,5)
proof (induction n arbitrary: i w)
  case (Suc n)
  show ?case
  proof (cases "draw i")
    case (Some e)
    obtain x v where s: "rSetNX R (others i w) (stateKey sha kind (b64encode e)) encoded = (x, v)" by force
    have gone: "absent view k v"
      using setnx_view [OF assms(1) s] assms(2) [OF Suc.prems(2), of i] assms(3) [OF Some] by (auto simp: absent_def)
    show ?thesis
    proof (cases "x = Inr False")
      case True
      then have "putAttempts R sha kind encoded draw others (Suc i) n v = (r, w')"
        using Suc.prems(1) Some s by simp
      then show ?thesis using gone by (rule Suc.IH)
    qed (use Suc.prems(1) Some s gone in \<open>auto simp: Let_def split: sum.splits bool.splits\<close>)
  qed (use Suc.prems in simp)
qed simp

section \<open>A record that is gone stays gone\<close>

text \<open>
  The rest of the world leaves the record of a code alone: nobody puts a record under its key again, which for another
  client means not drawing the same 256 bits.
\<close>

abbreviation codeKey :: "'w nativeHandler \<Rightarrow> string \<Rightarrow> string" where
  "codeKey h code \<equiv> stateKey (nst_sha256hex (nh_store h)) ''code'' code"

definition quietHandler :: "'w nativeHandler \<Rightarrow> ('w \<Rightarrow> keyspace) \<Rightarrow> string \<Rightarrow> bool" where
  "quietHandler h view k \<longleftrightarrow>
     (\<forall>w r. absent view k w \<longrightarrow> absent view k (snd (nh_audit h w r))) \<and>
     (\<forall>w b i n d. absent view k w \<longrightarrow> absent view k (snd (nh_limiter h w b i n d)))"

definition quietCall :: "'w nativeHandler \<Rightarrow> ('w \<Rightarrow> keyspace) \<Rightarrow> string \<Rightarrow> 'w nativeCall \<Rightarrow> bool" where
  "quietCall h view k q \<longleftrightarrow>
     (\<forall>i w. absent view k w \<longrightarrow> absent view k (ca_other q i w)) \<and>
     (\<forall>i e. ca_draw q i = Some e \<longrightarrow> codeKey h (b64encode e) \<noteq> k)"

text \<open>The lemmas are about the world after an operation, so that they rewrite through the calls of the handlers.\<close>

lemma absent_readNative:
  "store_ok R view \<Longrightarrow> nst_redis S = Some R \<Longrightarrow> absent view k (snd (readNative S w kind i)) = absent view k w"
  by (metis absent_def prod.collapse readNative_view)

lemma absent_snapshots:
  assumes "store_ok R view" "nst_redis S = Some R" "absent view k w"
  shows "absent view k (snd (RequestSnapshot S now w i))" "absent view k (snd (CodeSnapshot S clock w i))"
  using assms(3)
  by (simp_all add: RequestSnapshot_def CodeSnapshot_def split_beta absent_readNative [OF assms(1,2)] split: sum.split option.split)

lemma absent_consumed:
  assumes "store_ok R view" "nst_redis S = Some R" "absent view k w"
  shows "absent view k (snd (ConsumeRequest S now w i snap))" "absent view k (snd (ConsumeCode S now w i snap'))"
proof -
  have "absent view k (snd (consumeNative S w kind i raw))" for kind raw
    using absent_consume [OF assms(1,2), of w kind i raw] assms(3) by (metis prod.collapse)
  then show "absent view k (snd (ConsumeRequest S now w i snap))" "absent view k (snd (ConsumeCode S now w i snap'))"
    using assms(2,3) by (simp_all add: ConsumeRequest_def ConsumeCode_def split_beta)
qed

lemma absent_putAttempts:
  assumes "store_ok R view" "\<And>i w. absent view k w \<Longrightarrow> absent view k (others i w)"
    and "\<And>i e. draw i = Some e \<Longrightarrow> stateKey sha kind (b64encode e) \<noteq> k" "absent view k w"
  shows "absent view k (snd (putAttempts R sha kind encoded draw others i n w))"
proof (cases "putAttempts R sha kind encoded draw others i n w")
  case (Pair r w')
  from absent_put [OF assms(1-3) this assms(4)] Pair show ?thesis by simp
qed

lemma absent_create_code:
  assumes "store_ok R view" "nst_redis S = Some R" "\<And>i w. absent view k w \<Longrightarrow> absent view k (others i w)"
    and "\<And>i e. draw i = Some e \<Longrightarrow> stateKey (nst_sha256hex S) ''code'' (b64encode e) \<noteq> k" "absent view k w"
  shows "absent view k (snd (CreateCode S clock draw others w g))"
  using assms(2,5) absent_putAttempts [OF assms(1,3-5)]
  by (simp add: CreateCode_def putRecord_def Let_def split: option.split)

lemma absent_create_request:
  assumes "store_ok R view" "nst_redis (nh_store h) = Some R" "\<And>i w. absent view (codeKey h code) w \<Longrightarrow>
      absent view (codeKey h code) (others i w)" "absent view (codeKey h code) w"
  shows "absent view (codeKey h code) (snd (CreateRequest (nh_store h) clock draw others w rq))"
  using assms(2,4) absent_putAttempts [OF assms(1,3) request_key_differs assms(4)]
  by (simp add: CreateRequest_def putRecord_def Let_def split: option.split)

lemma absent_pending:
  assumes "store_ok R view" "nst_redis (nh_store h) = Some R" "absent view k w"
  shows "absent view k (snd (pendingRequest h now w i))"
  using absent_snapshots(1) [OF assms, of now i]
  by (simp add: pendingRequest_def split_beta split: sum.split option.split)

lemma quiet_audit: "quietHandler h view k \<Longrightarrow> absent view k w \<Longrightarrow> absent view k (snd (nativeAudit h w e p d c i))"
  by (simp add: nativeAudit_def quietHandler_def)

lemma quiet_other: "quietCall h view k q \<Longrightarrow> absent view k w \<Longrightarrow> absent view k (ca_other q i w)"
  by (simp add: quietCall_def)

lemma absent_authorize:
  assumes "store_ok R view" "nst_redis (nh_store h) = Some R" "quietCall h view (codeKey h code) q"
    and "absent view (codeKey h code) w"
  shows "absent view (codeKey h code) (snd (authorizeNative h q w))"
  using assms(4) absent_create_request [OF assms(1,2) quiet_other [OF assms(3)] assms(4)]
  by (simp add: authorizeNative_def Let_def split_beta split: sum.split option.split)

lemma absent_resume:
  assumes "store_ok R view" "nst_redis (nh_store h) = Some R" "absent view k w"
  shows "absent view k (snd (resumeNative h q w))"
  using assms(3) absent_pending [OF assms]
  by (simp add: resumeNative_def split_beta split: sum.split option.split)

lemma absent_conclude:
  assumes "store_ok R view" "nst_redis (nh_store h) = Some R" "quietHandler h view k" "quietCall h view k q" "absent view k w"
  shows "absent view k (snd (concludeConsent h q w d rq c identity))"
proof -
  have "absent view k (snd (CreateCode (nh_store h) clock (ca_draw q) (\<lambda>n. ca_other q (n + 4)) w g))" for clock g
    by (rule absent_create_code [OF assms(1,2)]) (use quiet_other [OF assms(4)] assms(4,5) in \<open>auto simp: quietCall_def\<close>)
  then show ?thesis
    using assms(5) by (simp add: concludeConsent_def Let_def split_beta quiet_audit [OF assms(3)] split: sum.split option.split)
qed

lemma absent_consent:
  assumes "store_ok R view" "nst_redis (nh_store h) = Some R" "quietHandler h view k" "quietCall h view k q" "absent view k w"
  shows "absent view k (snd (consentNative h q w))"
  using assms(5)
  by (simp add: consentNative_def Let_def split_beta absent_pending [OF assms(1,2)] absent_consumed [OF assms(1,2)]
      absent_conclude [OF assms(1-4)] quiet_audit [OF assms(3)] quiet_other [OF assms(4)]
      split: sum.split option.split bool.split)

text \<open>The dispatch: one of the four handlers after the limiter, or an answer that changes nothing.\<close>

abbreviation limited :: "'w nativeHandler \<Rightarrow> 'w nativeCall \<Rightarrow> 'w \<Rightarrow> bool res \<times> 'w" where
  "limited h q w \<equiv> nh_limiter h w (''native:'' @ nativePath q @ '':ip'') (ca_ip q) (nh_rateRequests h) (nh_rateWindow h)"

lemma ServeNative_cases:
  obtains r where "ServeNative h q w = (r, w)" "\<nexists>t. r = NativeToken t"
  | r where "ServeNative h q w = (r, snd (limited h q w))" "\<nexists>t. r = NativeToken t"
  | handler where "handler \<in> {authorizeNative, resumeNative, consentNative, tokenNative}"
      "ServeNative h q w = handler h q (snd (limited h q w))"
proof -
  define path where "path = nativePath q"
  define lim where "lim = nh_limiter h w (''native:'' @ path @ '':ip'') (ca_ip q) (nh_rateRequests h) (nh_rateWindow h)"
  define post where "post = (case lim of
           (Inl _, w') \<Rightarrow> (NativeFail 503 ''temporarily_unavailable'', w')
         | (Inr False, w') \<Rightarrow> (NativeRetry (nh_rateWindow h div 1000000000), w')
         | (Inr True, w') \<Rightarrow>
             if path = ''authorize'' then authorizeNative h q w'
             else if path = ''resume'' then resumeNative h q w'
             else if path = ''consent'' then consentNative h q w'
             else tokenNative h q w')"
  have "ServeNative h q w = post \<or> (\<exists>r. ServeNative h q w = (r, w) \<and> (\<nexists>t. r = NativeToken t))"
    unfolding ServeNative_def Let_def post_def lim_def path_def by (simp split: option.split)
  moreover have "(\<exists>r. post = (r, snd lim) \<and> (\<nexists>t. r = NativeToken t)) \<or>
      (\<exists>handler \<in> {authorizeNative, resumeNative, consentNative, tokenNative}. post = handler h q (snd lim))"
  proof (cases lim)
    case (Pair b v)
    consider e where "b = Inl e" | "b = Inr True" | "b = Inr False" by (cases b) auto
    then show ?thesis unfolding post_def Pair by cases simp_all
  qed
  moreover have "lim = limited h q w" by (simp add: lim_def path_def)
  ultimately show ?thesis using that by metis
qed

section \<open>One code, at most one token\<close>

definition tokenForm :: "'w nativeHandler \<Rightarrow> 'w nativeCall \<Rightarrow> (string \<Rightarrow> string) option" where
  "tokenForm h q = readForm (nh_library h) q [''grant_type'', ''client_id'', ''code'', ''redirect_uri'', ''code_verifier'']"

text \<open>A token was issued for a code that was in the store and is removed before the token is signed.\<close>

lemma tokenNative_token:
  assumes "tokenNative h q w = (NativeToken t, w')"
  obtains get g raw c w1 w2 w3 where "tokenForm h q = Some get" "get ''grant_type'' = ''authorization_code''"
    "CodeSnapshot (nh_store h) (ca_clock q) w (get ''code'') = (Inr (g, raw), w1)"
    "RegistryGet (nh_clients h) (get ''client_id'') = Some c"
    "grantAdmits h c g (get ''redirect_uri'') (get ''code_verifier'')"
    "nativeAudit h (ca_other q 0 w1) ''native.token'' ''intent'' ''approve'' c (grantIdentity g) = (None, w2)"
    "ConsumeCode (nh_store h) (ca_clock q 2) (ca_other q 1 w2) (get ''code'') (g, raw) = (Inr True, w3)"
    "nh_issue h (ca_other q 2 w3) c g = Inr t"
    "nativeAudit h (ca_other q 3 (ca_other q 2 w3)) ''native.token'' ''outcome'' ''approve'' c (grantIdentity g) = (None, w')"
proof -
  obtain get where get: "tokenForm h q = Some get" "get ''grant_type'' = ''authorization_code''"
    using assms by (auto simp: tokenNative_def tokenForm_def split: option.splits if_split_asm)
  obtain r1 w1 where r1: "CodeSnapshot (nh_store h) (ca_clock q) w (get ''code'') = (r1, w1)" by force
  obtain g raw where s: "r1 = Inr (g, raw)"
    using assms get r1 by (cases r1) (auto simp: tokenNative_def tokenForm_def nativeFailure_def split: if_split_asm)
  obtain c where c: "RegistryGet (nh_clients h) (get ''client_id'') = Some c"
    "grantAdmits h c g (get ''redirect_uri'') (get ''code_verifier'')"
    using assms get r1 s by (auto simp: tokenNative_def tokenForm_def split: option.splits if_split_asm)
  obtain a w2 where a: "nativeAudit h (ca_other q 0 w1) ''native.token'' ''intent'' ''approve'' c (grantIdentity g) = (a, w2)"
    by force
  obtain r3 w3 where r3: "ConsumeCode (nh_store h) (ca_clock q 2) (ca_other q 1 w2) (get ''code'') (g, raw) = (r3, w3)" by force
  have "a = None" "r3 = Inr True"
    using assms get r1 s c a r3
    by (auto simp: tokenNative_def tokenForm_def nativeFailure_def split: option.splits sum.splits bool.splits if_split_asm)
  with assms get r1 s c a r3 that show ?thesis
    by (auto simp: tokenNative_def tokenForm_def nativeFailure_def split: sum.splits prod.splits option.splits if_split_asm)
qed

lemma no_token_replies [simp]:
  "nativeFailure e \<noteq> NativeToken t" "showConsent h q w i c \<noteq> NativeToken t"
  "fst (concludeConsent h q w d rq c identity) \<noteq> NativeToken t"
proof -
  show failure: "nativeFailure e \<noteq> NativeToken t" for e by (simp add: nativeFailure_def)
  then show "showConsent h q w i c \<noteq> NativeToken t" by (simp add: showConsent_def Let_def split: sum.split)
  show "fst (concludeConsent h q w d rq c identity) \<noteq> NativeToken t"
    using failure by (simp add: concludeConsent_def Let_def split_beta split: sum.split option.split)
qed

lemma other_handlers:
  "fst (authorizeNative h q w) \<noteq> NativeToken t" "fst (resumeNative h q w) \<noteq> NativeToken t"
  "fst (consentNative h q w) \<noteq> NativeToken t"
proof -
  show "fst (authorizeNative h q w) \<noteq> NativeToken t"
    by (simp add: authorizeNative_def Let_def split_beta split: sum.split option.split)
  show "fst (resumeNative h q w) \<noteq> NativeToken t"
    by (simp add: resumeNative_def Let_def split_beta split: sum.split option.split)
  show "fst (consentNative h q w) \<noteq> NativeToken t"
    by (simp add: consentNative_def Let_def split_beta split: sum.split option.split bool.split)
qed

lemma ServeNative_token:
  assumes "ServeNative h q w = (NativeToken t, w')"
  shows "tokenNative h q (snd (limited h q w)) = (NativeToken t, w')"
proof (cases rule: ServeNative_cases [of h q w])
  case (3 handler)
  then have "handler = tokenNative"
    using assms other_handlers [of h q "snd (limited h q w)" t] by (metis fst_conv empty_iff insert_iff)
  with 3 assms show ?thesis by simp
qed (use assms in auto)

definition usesCode :: "'w nativeHandler \<Rightarrow> string \<Rightarrow> 'w nativeCall \<Rightarrow> bool" where
  "usesCode h code q \<longleftrightarrow> (case tokenForm h q of None \<Rightarrow> False | Some get \<Rightarrow> get ''code'' = code)"

lemma CodeSnapshot_Inr:
  assumes "store_ok R view" "nst_redis S = Some R" "CodeSnapshot S clock w code = (Inr (g, raw), w')"
  shows "ks_string (view w) (stateKey (nst_sha256hex S) ''code'' code) = Some raw" "decodeNative (nst_grant S) raw = Some g"
    "grantValid g" "Unix (clock 0) < ng_ExpiresAt g" "Unix (clock 1) < ng_SessionExpiresAt g" "view w' = view w"
proof -
  obtain x v where r: "readNative S w ''code'' code = (x, v)" by force
  with assms(3) have x: "x = Inr raw" "v = w'" "decodeNative (nst_grant S) raw = Some g" "grantValid g"
    "Unix (clock 0) < ng_ExpiresAt g" "Unix (clock 1) < ng_SessionExpiresAt g"
    by (auto simp: CodeSnapshot_def split: sum.splits option.splits if_split_asm)
  with r have "readNative S w ''code'' code = (Inr raw, w')" by simp
  from readNative_Inr(1) [OF assms(1,2) this] readNative_view [OF assms(1,2) this] x(3-6)
  show "ks_string (view w) (stateKey (nst_sha256hex S) ''code'' code) = Some raw" "decodeNative (nst_grant S) raw = Some g"
    "grantValid g" "Unix (clock 0) < ng_ExpiresAt g" "Unix (clock 1) < ng_SessionExpiresAt g" "view w' = view w"
    by blast+
qed

lemma ConsumeCode_True:
  assumes "store_ok R view" "nst_redis S = Some R" "ConsumeCode S now w code (g, raw) = (Inr True, w')"
  shows "ks_string (view w) (stateKey (nst_sha256hex S) ''code'' code) = Some raw"
    "absent view (stateKey (nst_sha256hex S) ''code'' code) w'" "nj_marshal (nst_grant S) g = Some raw" "Unix now < ng_ExpiresAt g"
proof -
  from assms(2,3) have "consumeNative S w ''code'' code raw = (Inr True, w')" "nj_marshal (nst_grant S) g = Some raw"
    "Unix now < ng_ExpiresAt g"
    by (auto simp: ConsumeCode_def split: if_split_asm)
  with consumeNative_True [OF assms(1,2)] show "ks_string (view w) (stateKey (nst_sha256hex S) ''code'' code) = Some raw"
    "absent view (stateKey (nst_sha256hex S) ''code'' code) w'" "nj_marshal (nst_grant S) g = Some raw" "Unix now < ng_ExpiresAt g"
    by blast+
qed

section \<open>Interleaved token requests\<close>

text \<open>
  A token request as a process: each step is one interaction with the store, the auditor or the authority, and between
  two steps anything else may run. \<open>tokenNext i\<close> is the step after the \<open>i\<close>-th gap of the call; a reply is final.
\<close>

datatype tokenPhase =
    TkStart
  | TkAdmitted string nativeClient nativeGrant string
  | TkAnnounced string nativeClient nativeGrant string
  | TkConsumed nativeClient nativeGrant
  | TkIssued nativeClient nativeGrant nativeToken
  | TkReplied nativeReply

fun tokenStep :: "'w nativeHandler \<Rightarrow> 'w nativeCall \<Rightarrow> tokenPhase \<Rightarrow> 'w \<Rightarrow> tokenPhase \<times> 'w" where
  "tokenStep h q TkStart w =
     (if ca_origins q \<noteq> [] \<or> ca_authorization q \<noteq> [] then (TkReplied (NativeFail 400 ''invalid_request''), w)
      else
        (case tokenForm h q of
           None \<Rightarrow> (TkReplied (NativeFail 400 ''invalid_request''), w)
         | Some get \<Rightarrow>
             if get ''grant_type'' \<noteq> ''authorization_code'' then (TkReplied (NativeFail 400 ''invalid_request''), w)
             else
               (case CodeSnapshot (nh_store h) (ca_clock q) w (get ''code'') of
                  (Inl e, w') \<Rightarrow> (TkReplied (nativeFailure e), w')
                | (Inr (g, raw), w') \<Rightarrow>
                    (case RegistryGet (nh_clients h) (get ''client_id'') of
                       None \<Rightarrow> (TkReplied (NativeFail 400 ''invalid_grant''), w')
                     | Some c \<Rightarrow>
                         if \<not> grantAdmits h c g (get ''redirect_uri'') (get ''code_verifier'')
                         then (TkReplied (NativeFail 400 ''invalid_grant''), w')
                         else (TkAdmitted (get ''code'') c g raw, w')))))"
| "tokenStep h q (TkAdmitted code c g raw) w =
     (case nativeAudit h w ''native.token'' ''intent'' ''approve'' c (grantIdentity g) of
        (Some _, w') \<Rightarrow> (TkReplied (NativeFail 503 ''temporarily_unavailable''), w')
      | (None, w') \<Rightarrow> (TkAnnounced code c g raw, w'))"
| "tokenStep h q (TkAnnounced code c g raw) w =
     (case ConsumeCode (nh_store h) (ca_clock q 2) w code (g, raw) of
        (Inl e, w') \<Rightarrow> (TkReplied (nativeFailure e), w')
      | (Inr False, w') \<Rightarrow> (TkReplied (NativeFail 400 ''invalid_grant''), w')
      | (Inr True, w') \<Rightarrow> (TkConsumed c g, w'))"
| "tokenStep h q (TkConsumed c g) w =
     (case nh_issue h w c g of
        Inl e \<Rightarrow> (TkReplied (nativeFailure e), w)
      | Inr t \<Rightarrow> (TkIssued c g t, w))"
| "tokenStep h q (TkIssued c g t) w =
     (case nativeAudit h w ''native.token'' ''outcome'' ''approve'' c (grantIdentity g) of
        (Some _, w') \<Rightarrow> (TkReplied (NativeFail 503 ''temporarily_unavailable''), w')
      | (None, w') \<Rightarrow> (TkReplied (NativeToken t), w'))"
| "tokenStep h q (TkReplied r) w = (TkReplied r, w)"

definition tokenNext :: "'w nativeHandler \<Rightarrow> 'w nativeCall \<Rightarrow> nat \<Rightarrow> tokenPhase \<times> 'w \<Rightarrow> tokenPhase \<times> 'w" where
  "tokenNext h q i s =
     (case s of (TkReplied r, w) \<Rightarrow> (TkReplied r, w) | (p, w) \<Rightarrow> tokenStep h q p (ca_other q i w))"

definition tokenSteps :: "'w nativeHandler \<Rightarrow> 'w nativeCall \<Rightarrow> 'w \<Rightarrow> tokenPhase \<times> 'w" where
  "tokenSteps h q w = tokenNext h q 3 (tokenNext h q 2 (tokenNext h q 1 (tokenNext h q 0 (tokenStep h q TkStart w))))"

lemma tokenNext_simps [simp]:
  "tokenNext h q i (TkReplied r, w) = (TkReplied r, w)"
  "tokenNext h q i (TkAdmitted code c g raw, w) = tokenStep h q (TkAdmitted code c g raw) (ca_other q i w)"
  "tokenNext h q i (TkAnnounced code c g raw, w) = tokenStep h q (TkAnnounced code c g raw) (ca_other q i w)"
  "tokenNext h q i (TkConsumed c g, w) = tokenStep h q (TkConsumed c g) (ca_other q i w)"
  "tokenNext h q i (TkIssued c g t, w) = tokenStep h q (TkIssued c g t) (ca_other q i w)"
  by (simp_all add: tokenNext_def)

text \<open>The handler is this process, one step after the other.\<close>

lemma tokenNative_steps: "tokenSteps h q w = map_prod TkReplied id (tokenNative h q w)"
proof -
  have redeem: "tokenNext h q 3 (tokenNext h q 2 (tokenNext h q 1 (TkAnnounced code c g raw, v))) = map_prod TkReplied id
      (case ConsumeCode (nh_store h) (ca_clock q 2) (ca_other q 1 v) code (g, raw) of
         (Inl e, w3) \<Rightarrow> (nativeFailure e, w3)
       | (Inr False, w3) \<Rightarrow> (NativeFail 400 ''invalid_grant'', w3)
       | (Inr True, w3) \<Rightarrow>
           (case nh_issue h (ca_other q 2 w3) c g of
              Inl e \<Rightarrow> (nativeFailure e, ca_other q 2 w3)
            | Inr token \<Rightarrow>
                (case nativeAudit h (ca_other q 3 (ca_other q 2 w3)) ''native.token'' ''outcome'' ''approve'' c (grantIdentity g) of
                   (Some _, w4) \<Rightarrow> (NativeFail 503 ''temporarily_unavailable'', w4)
                 | (None, w4) \<Rightarrow> (NativeToken token, w4))))" for code c g raw v
    by (simp split: sum.split prod.split bool.split option.split)
  show ?thesis
    unfolding tokenSteps_def tokenNative_def tokenStep.simps(1) tokenForm_def [symmetric]
    using redeem by (simp split: option.split prod.split sum.split)
qed

text \<open>Who has redeemed the code and has or may still get a token.\<close>

fun redeemed :: "tokenPhase \<Rightarrow> bool" where
  "redeemed (TkConsumed c g) = True"
| "redeemed (TkIssued c g t) = True"
| "redeemed (TkReplied r) = (\<exists>t. r = NativeToken t)"
| "redeemed p = False"

text \<open>
  Any number of token requests, each at its own phase, and the rest of the world: other native requests (\<open>Q\<close>) and other
  clients of Redis (\<open>F\<close>). The state is the phase of every request and the world.
\<close>

inductive tokenMove ::
  "'w nativeHandler \<Rightarrow> (nat \<Rightarrow> 'w nativeCall) \<Rightarrow> 'w nativeCall set \<Rightarrow> ('w \<Rightarrow> 'w) set \<Rightarrow>
   (nat \<Rightarrow> tokenPhase) \<times> 'w \<Rightarrow> (nat \<Rightarrow> tokenPhase) \<times> 'w \<Rightarrow> bool" for h qs Q F where
  advances: "tokenStep h (qs i) (pool i) w = (p, w') \<Longrightarrow> tokenMove h qs Q F (pool, w) (pool(i := p), w')"
| serves: "handler \<in> {authorizeNative, resumeNative, consentNative} \<Longrightarrow> q \<in> Q \<Longrightarrow>
    tokenMove h qs Q F (pool, w) (pool, snd (handler h q w))"
| meanwhile: "f \<in> F \<Longrightarrow> tokenMove h qs Q F (pool, w) (pool, f w)"

text \<open>A request at the code it names.\<close>

definition atCode :: "'w nativeHandler \<Rightarrow> 'w nativeCall \<Rightarrow> tokenPhase \<Rightarrow> bool" where
  "atCode h q p \<longleftrightarrow>
     (case p of TkAdmitted code _ _ _ \<Rightarrow> usesCode h code q | TkAnnounced code _ _ _ \<Rightarrow> usesCode h code q | _ \<Rightarrow> True)"

lemma tokenStep_atCode:
  assumes "tokenStep h q p w = (p', w')" "atCode h q p"
  shows "atCode h q p'"
  using assms
  by (cases p) (auto simp: atCode_def usesCode_def split: if_split_asm option.splits sum.splits prod.splits bool.splits)

lemma tokenStep_absent:
  assumes "store_ok R view" "nst_redis (nh_store h) = Some R" "quietHandler h view k" "absent view k w"
  shows "absent view k (snd (tokenStep h q p w))"
proof (cases p)
  case TkStart
  then show ?thesis
    using assms(4) by (simp add: split_beta absent_snapshots [OF assms(1,2)] split: sum.split option.split)
next
  case (TkAnnounced code c g raw)
  then show ?thesis
    by (simp add: split_beta absent_consumed [OF assms(1,2,4)] split: sum.split bool.split)
qed (use assms(4) quiet_audit [OF assms(3,4)] in \<open>simp_all add: split_beta split: sum.split option.split\<close>)

lemma tokenStep_redeems:
  assumes "store_ok R view" "nst_redis (nh_store h) = Some R" "tokenStep h q p w = (p', w')" "redeemed p'" "\<not> redeemed p"
  obtains code c g raw where "p = TkAnnounced code c g raw" "\<not> absent view (codeKey h code) w" "absent view (codeKey h code) w'"
proof (cases p)
  case (TkAnnounced code c g raw)
  with assms(3,4) have "ConsumeCode (nh_store h) (ca_clock q 2) w code (g, raw) = (Inr True, w')"
    by (auto split: sum.splits prod.splits bool.splits)
  from ConsumeCode_True(1,2) [OF assms(1,2) this] show thesis
    by (intro that [OF TkAnnounced]) (simp_all add: absent_def)
next
  case TkStart
  with assms(3,4) show thesis
    by (auto split: if_split_asm option.splits sum.splits prod.splits)
next
  case TkAdmitted
  with assms(3,4) show thesis by (auto split: prod.splits option.splits)
qed (use assms(3-5) in simp_all)

text \<open>The invariant: the code is gone once a request has redeemed it, and no second one has.\<close>

definition redeemedOnce ::
  "'w nativeHandler \<Rightarrow> ('w \<Rightarrow> keyspace) \<Rightarrow> (nat \<Rightarrow> 'w nativeCall) \<Rightarrow> string \<Rightarrow> (nat \<Rightarrow> tokenPhase) \<times> 'w \<Rightarrow> bool" where
  "redeemedOnce h view qs code s \<longleftrightarrow>
     (\<forall>i. atCode h (qs i) (fst s i)) \<and>
     (\<forall>i. usesCode h code (qs i) \<and> redeemed (fst s i) \<longrightarrow> absent view (codeKey h code) (snd s)) \<and>
     (\<forall>i j. usesCode h code (qs i) \<and> redeemed (fst s i) \<and> usesCode h code (qs j) \<and> redeemed (fst s j) \<longrightarrow> i = j)"

lemma redeemedOnce_world:
  assumes "redeemedOnce h view qs code (pool, w)" "absent view (codeKey h code) w \<Longrightarrow> absent view (codeKey h code) w'"
  shows "redeemedOnce h view qs code (pool, w')"
  using assms by (auto simp: redeemedOnce_def)

lemma redeemedOnce_advances:
  assumes "store_ok R view" "nst_redis (nh_store h) = Some R" "quietHandler h view (codeKey h code)"
    and "redeemedOnce h view qs code (pool, w)" "tokenStep h (qs i) (pool i) w = (p, w')"
  shows "redeemedOnce h view qs code (pool(i := p), w')"
proof -
  let ?k = "codeKey h code"
  have kept: "absent view ?k w \<Longrightarrow> absent view ?k w'"
    using tokenStep_absent [OF assms(1-3), of w "qs i" "pool i"] assms(5) by simp
  have at: "atCode h (qs j) (pool j)" for j using assms(4) by (simp add: redeemedOnce_def)
  have at': "atCode h (qs i) p" by (rule tokenStep_atCode [OF assms(5) at])
  show ?thesis
  proof (cases "redeemed p \<and> \<not> redeemed (pool i) \<and> usesCode h code (qs i)")
    case True
    then obtain code' c g raw where new: "pool i = TkAnnounced code' c g raw" "\<not> absent view (codeKey h code') w"
      "absent view (codeKey h code') w'"
      using tokenStep_redeems [OF assms(1,2,5)] by blast
    have "code' = code" using at [of i] True by (auto simp: new(1) atCode_def usesCode_def split: option.splits)
    with new have "\<not> absent view ?k w" "absent view ?k w'" by simp_all
    moreover from this(1) assms(4) have "\<not> (usesCode h code (qs j) \<and> redeemed (pool j))" for j by (auto simp: redeemedOnce_def)
    ultimately show ?thesis using at at' by (auto simp: redeemedOnce_def)
  next
    case False
    then have old: "usesCode h code (qs j) \<and> redeemed ((pool(i := p)) j) \<Longrightarrow> redeemed (pool j)" for j by (auto split: if_splits)
    show ?thesis
      using assms(4) kept old at at' unfolding redeemedOnce_def by (metis fst_conv fun_upd_apply snd_conv)
  qed
qed

lemma redeemedOnce_reached:
  assumes "store_ok R view" "nst_redis (nh_store h) = Some R" "quietHandler h view (codeKey h code)"
    and "\<And>q. q \<in> Q \<Longrightarrow> quietCall h view (codeKey h code) q"
    and "\<And>f v. f \<in> F \<Longrightarrow> absent view (codeKey h code) v \<Longrightarrow> absent view (codeKey h code) (f v)"
    and "(tokenMove h qs Q F)\<^sup>*\<^sup>* (\<lambda>i. TkStart, w) s"
  shows "redeemedOnce h view qs code s"
  using assms(6)
proof (induction rule: rtranclp_induct)
  case base
  show ?case by (simp add: redeemedOnce_def atCode_def)
next
  case (step s s')
  from step(2) step(3) show ?case
  proof cases
    case (advances i pool w p w')
    with step(3) show ?thesis using redeemedOnce_advances [OF assms(1-3)] by simp
  next
    case (serves handler q pool w)
    have "absent view (codeKey h code) w \<Longrightarrow> absent view (codeKey h code) (snd (handler h q w))"
      using serves(3) absent_authorize [OF assms(1,2) assms(4) [OF serves(4)]] absent_resume [OF assms(1,2)]
        absent_consent [OF assms(1-3) assms(4) [OF serves(4)]] by auto
    with serves(1,2) step(3) show ?thesis using redeemedOnce_world by metis
  next
    case (meanwhile f pool w)
    with step(3) assms(5) show ?thesis using redeemedOnce_world by metis
  qed
qed

text \<open>
  C2. An authorization code gives at most one token. Any number of token requests run at the same time, each in its
  five steps (the snapshot of the code with its checks, the audit of the intent, the consumption, the issuing, the audit
  of the outcome, which run one after the other are exactly \<^verbatim>\<open>token\<close> of the handler), interleaved with each
  other, with other native requests and with other clients of Redis in any order: two requests for a code that were both
  answered with a token, or both got past the consumption, are the same request, and the code is gone then. Nobody
  else may put a record under the key of that code once it is gone, which means drawing the same 256 bits again.
\<close>
theorem native_code_once:
  assumes "store_ok R view" "nst_redis (nh_store h) = Some R" "quietHandler h view (codeKey h code)"
    and "\<forall>q \<in> Q. quietCall h view (codeKey h code) q"
    and "\<forall>f \<in> F. \<forall>v. absent view (codeKey h code) v \<longrightarrow> absent view (codeKey h code) (f v)"
    and "(tokenMove h qs Q F)\<^sup>*\<^sup>* (\<lambda>i. TkStart, w) (pool, w')"
  shows "(\<forall>q v. tokenSteps h q v = map_prod TkReplied id (tokenNative h q v)) \<and>
    (\<forall>i. usesCode h code (qs i) \<and> redeemed (pool i) \<longrightarrow> absent view (codeKey h code) w') \<and>
    (\<forall>i j. usesCode h code (qs i) \<and> redeemed (pool i) \<and> usesCode h code (qs j) \<and> redeemed (pool j) \<longrightarrow> i = j)"
proof -
  have "redeemedOnce h view qs code (pool, w')"
    by (rule redeemedOnce_reached [OF assms(1-3) _ _ assms(6)]) (use assms(4,5) in blast)+
  then have "(\<forall>i. usesCode h code (qs i) \<and> redeemed (pool i) \<longrightarrow> absent view (codeKey h code) w') \<and>
    (\<forall>i j. usesCode h code (qs i) \<and> redeemed (pool i) \<and> usesCode h code (qs j) \<and> redeemed (pool j) \<longrightarrow> i = j)"
    unfolding redeemedOnce_def fst_conv snd_conv by (rule conjunct2)
  moreover have "\<forall>q v. tokenSteps h q v = map_prod TkReplied id (tokenNative h q v)" by (intro allI tokenNative_steps)
  ultimately show ?thesis by (rule conjI [rotated])
qed

section \<open>What a token rests on\<close>

lemma VerifyS256_challenge: "VerifyS256 sha v challenge \<Longrightarrow> challenge = b64encode (sha v)"
  by (auto simp: VerifyS256_def S256Challenge_def split: if_split_asm)

text \<open>
  C3. A token is issued only for a code that is in the store, unexpired, in exactly the form in which it was stored, to a
  registered client whose policy is still the one of the grant, for the redirect the grant names, and to a caller that
  knows a verifier with the grant's challenge. The record is consumed in one atomic step before the authority issues the
  token, and the authority gets that grant.
\<close>
theorem native_token_bound:
  assumes "store_ok R view" "nst_redis (nh_store h) = Some R" "ServeNative h q w = (NativeToken t, w')"
  shows "\<exists>get g raw c u v. tokenForm h q = Some get \<and> get ''grant_type'' = ''authorization_code'' \<and>
    ks_string (view u) (codeKey h (get ''code'')) = Some raw \<and> absent view (codeKey h (get ''code'')) v \<and>
    ConsumeCode (nh_store h) (ca_clock q 2) u (get ''code'') (g, raw) = (Inr True, v) \<and>
    decodeNative (nst_grant (nh_store h)) raw = Some g \<and> nj_marshal (nst_grant (nh_store h)) g = Some raw \<and>
    grantValid g \<and> Unix (ca_clock q 2) < ng_ExpiresAt g \<and> Unix (ca_clock q 1) < ng_SessionExpiresAt g \<and>
    RegistryGet (nh_clients h) (get ''client_id'') = Some c \<and> nc_ID c = ng_ClientID g \<and>
    clientFingerprint (nl_go (nh_library h)) c = Inr (ng_ClientFingerprint g) \<and> get ''redirect_uri'' = ng_RedirectURI g \<and>
    \<not> redirectRefused (nh_library h) c (ng_RedirectURI g) \<and>
    ng_Challenge g = b64encode (nl_sha256 (nh_library h) (get ''code_verifier'')) \<and>
    nh_issue h (ca_other q 2 v) c g = Inr t"
proof -
  define u where "u = snd (limited h q w)"
  have v: "tokenNative h q u = (NativeToken t, w')" unfolding u_def using assms(3) by (rule ServeNative_token)
  obtain get g raw c w1 w2 w3 where g: "tokenForm h q = Some get" "get ''grant_type'' = ''authorization_code''"
    "CodeSnapshot (nh_store h) (ca_clock q) u (get ''code'') = (Inr (g, raw), w1)"
    "RegistryGet (nh_clients h) (get ''client_id'') = Some c"
    "grantAdmits h c g (get ''redirect_uri'') (get ''code_verifier'')"
    "ConsumeCode (nh_store h) (ca_clock q 2) (ca_other q 1 w2) (get ''code'') (g, raw) = (Inr True, w3)"
    "nh_issue h (ca_other q 2 w3) c g = Inr t"
    using v by (rule tokenNative_token)
  note read = CodeSnapshot_Inr [OF assms(1,2) g(3)]
  note consumed = ConsumeCode_True [OF assms(1,2) g(6)]
  have admits: "nc_ID c = ng_ClientID g" "clientFingerprint (nl_go (nh_library h)) c = Inr (ng_ClientFingerprint g)"
    "get ''redirect_uri'' = ng_RedirectURI g" "\<not> redirectRefused (nh_library h) c (ng_RedirectURI g)"
    "ng_Challenge g = b64encode (nl_sha256 (nh_library h) (get ''code_verifier''))"
    using g(5) VerifyS256_challenge unfolding grantAdmits_def by blast+
  show ?thesis
    by (rule exI [of _ get], rule exI [of _ g], rule exI [of _ raw], rule exI [of _ c], rule exI [of _ "ca_other q 1 w2"],
        rule exI [of _ w3]) (intro conjI g(1,2,4,6,7) read(2,3,5) consumed admits)
qed

section \<open>What a code rests on\<close>

lemma putAttempts_Inr:
  assumes "store_ok R view" "putAttempts R sha kind encoded draw others i n w = (Inr d, w')"
  shows "ks_string (view w') (stateKey sha kind d) = Some encoded"
  using assms(2)
proof (induction n arbitrary: i w)
  case (Suc n)
  obtain e where e: "draw i = Some e" using Suc.prems by (cases "draw i") auto
  obtain x v where s: "rSetNX R (others i w) (stateKey sha kind (b64encode e)) encoded = (x, v)" by force
  show ?case
  proof (cases "x = Inr False")
    case False
    with Suc.prems s e have "x = Inr True" "d = b64encode e" "w' = v"
      by (auto simp: Let_def split: sum.splits bool.splits)
    with store_writes(5) [OF assms(1)] s show ?thesis by auto
  qed (use Suc s e in simp)
qed simp

lemma CreateCode_Inr:
  assumes "store_ok R view" "nst_redis S = Some R" "CreateCode S clock draw others w g0 = (Inr code, w')"
  obtains g encoded where "g = g0\<lparr>ng_ExpiresAt := min (Unix (clock 0 + CodeTTL)) (ng_SessionExpiresAt g0)\<rparr>" "grantValid g"
    "Unix (clock 1) < ng_ExpiresAt g" "nj_marshal (nst_grant S) g = Some encoded"
    "ks_string (view w') (stateKey (nst_sha256hex S) ''code'' code) = Some encoded"
proof -
  define g where "g = g0\<lparr>ng_ExpiresAt := min (Unix (clock 0 + CodeTTL)) (ng_SessionExpiresAt g0)\<rparr>"
  have v: "grantValid g" "Unix (clock 1) < ng_ExpiresAt g"
    and put: "putRecord S (nst_grant S) draw others (clock 2) w ''code'' g (ng_ExpiresAt g) = (Inr code, w')"
    using assms(2,3) by (auto simp: CreateCode_def Let_def g_def split: if_split_asm)
  from put assms(2) obtain encoded where e: "nj_marshal (nst_grant S) g = Some encoded"
    "putAttempts R (nst_sha256hex S) ''code'' encoded draw others 0 3 w = (Inr code, w')"
    by (auto simp: putRecord_def split: option.splits if_split_asm)
  from that [OF g_def v e(1) putAttempts_Inr [OF assms(1) e(2)]] show ?thesis .
qed

lemma pendingRequest_Inr:
  assumes "pendingRequest h now w i = (Inr ((r, raw), c), w')"
  shows "RequestSnapshot (nh_store h) now w i = (Inr (r, raw), w')" "RegistryGet (nh_clients h) (nq_ClientID r) = Some c"
    "clientFingerprint (nl_go (nh_library h)) c = Inr (nq_ClientFingerprint r)"
    "\<not> redirectRefused (nh_library h) c (nq_RedirectURI r)"
  using assms by (auto simp: pendingRequest_def split: sum.splits prod.splits option.splits if_split_asm)

lemma ConsumeRequest_True:
  assumes "store_ok R view" "nst_redis S = Some R" "ConsumeRequest S now w i (r, raw) = (Inr True, w')"
  shows "ks_string (view w) (stateKey (nst_sha256hex S) ''request'' i) = Some raw"
    "absent view (stateKey (nst_sha256hex S) ''request'' i) w'" "nj_marshal (nst_request S) r = Some raw"
proof -
  from assms(2,3) have "consumeNative S w ''request'' i raw = (Inr True, w')" "nj_marshal (nst_request S) r = Some raw"
    by (auto simp: ConsumeRequest_def split: if_split_asm)
  with consumeNative_True [OF assms(1,2)] show "ks_string (view w) (stateKey (nst_sha256hex S) ''request'' i) = Some raw"
    "absent view (stateKey (nst_sha256hex S) ''request'' i) w'" "nj_marshal (nst_request S) r = Some raw"
    by blast+
qed

definition consentForm :: "'w nativeHandler \<Rightarrow> 'w nativeCall \<Rightarrow> (string \<Rightarrow> string) option" where
  "consentForm h q = readForm (nh_library h) q [''request'', ''csrf'', ''decision'']"

lemma consentNative_redirect:
  assumes "consentNative h q w = (NativeRedirect url, w')"
  obtains get r raw c w1 identity w2 w3 where "ca_origins q = [TrimSuffix (nh_issuer h) ''/'']" "consentForm h q = Some get"
    "pendingRequest h (ca_clock q 0) w (get ''request'') = (Inr ((r, raw), c), w1)"
    "nh_browser h (ca_other q 0 w1) (nativeSession h q) c = Inr identity"
    "get ''csrf'' = nativeCsrf h (get ''request'') identity (nativeSession h q)"
    "ConsumeRequest (nh_store h) (ca_clock q 1) (ca_other q 2 w2) (get ''request'') (r, raw) = (Inr True, w3)"
    "concludeConsent h q (ca_other q 3 w3) (get ''decision'') r c identity = (NativeRedirect url, w')"
proof -
  obtain get where get: "ca_origins q = [TrimSuffix (nh_issuer h) ''/'']" "consentForm h q = Some get"
    "\<not> (get ''decision'' \<noteq> ''approve'' \<and> get ''decision'' \<noteq> ''deny'')"
    using assms by (auto simp: consentNative_def consentForm_def split: option.splits if_split_asm)
  note step = consentNative_def get(1) get(2) [unfolded consentForm_def] if_not_P [OF get(3)]
  obtain p w1 where p: "pendingRequest h (ca_clock q 0) w (get ''request'') = (p, w1)" by force
  obtain r raw c where p': "p = Inr ((r, raw), c)"
    using assms p by (cases p) (auto simp: step nativeFailure_def split: if_split_asm)
  obtain identity where i: "nh_browser h (ca_other q 0 w1) (nativeSession h q) c = Inr identity"
    "get ''csrf'' = nativeCsrf h (get ''request'') identity (nativeSession h q)"
    using assms p p' by (auto simp: step nativeFailure_def Let_def split: sum.splits if_split_asm)
  obtain a w2 where a: "nativeAudit h (ca_other q 1 (ca_other q 0 w1)) ''native.consent'' ''intent'' (get ''decision'') c identity = (a, w2)"
    by force
  obtain b w3 where b: "ConsumeRequest (nh_store h) (ca_clock q 1) (ca_other q 2 w2) (get ''request'') (r, raw) = (b, w3)" by force
  have "a = None" using assms p p' i a by (cases a) (simp_all add: step Let_def)
  moreover have "b = Inr True"
    using assms p p' i a b \<open>a = None\<close>
    by (auto simp: step Let_def nativeFailure_def split: sum.splits bool.splits if_split_asm)
  ultimately have "concludeConsent h q (ca_other q 3 w3) (get ''decision'') r c identity = (NativeRedirect url, w')"
    using assms p p' i a b by (simp add: step Let_def)
  with that get(1,2) p p' i b \<open>b = Inr True\<close> show ?thesis by blast
qed

lemma concludeConsent_code:
  assumes "concludeConsent h q w decision r c identity = (NativeRedirect url, w')" "decision \<noteq> ''deny''"
  obtains code v where "CreateCode (nh_store h) (\<lambda>n. ca_clock q (n + 2)) (ca_draw q) (\<lambda>n. ca_other q (n + 4)) w
      (approvedGrant (nh_library h) c r identity) = (Inr code, v)"
    "url = nl_callback (nh_library h) (nq_RedirectURI r) [(''state'', nq_State r), (''iss'', nh_issuer h), (''code'', code)]"
proof -
  obtain x v where x: "CreateCode (nh_store h) (\<lambda>n. ca_clock q (n + 2)) (ca_draw q) (\<lambda>n. ca_other q (n + 4)) w
      (approvedGrant (nh_library h) c r identity) = (x, v)" by force
  have step: "concludeConsent h q w decision r c identity =
      (case x of
         Inl e \<Rightarrow> (nativeFailure e, v)
       | Inr code \<Rightarrow>
           (case nativeAudit h v ''native.consent'' ''outcome'' decision c identity of
              (Some _, w'') \<Rightarrow> (NativeFail 503 ''temporarily_unavailable'', w'')
            | (None, w'') \<Rightarrow> (NativeRedirect (nl_callback (nh_library h) (nq_RedirectURI r)
                [(''state'', nq_State r), (''iss'', nh_issuer h), (''code'', code)]), w'')))"
    unfolding concludeConsent_def Let_def x if_not_P [OF assms(2)] by (cases x) simp_all
  obtain code where c: "x = Inr code" using assms(1) by (cases x) (auto simp: step nativeFailure_def split: if_split_asm)
  with assms(1) have "url = nl_callback (nh_library h) (nq_RedirectURI r) [(''state'', nq_State r), (''iss'', nh_issuer h), (''code'', code)]"
    by (auto simp: step split: prod.splits option.splits)
  with that x c show ?thesis by blast
qed


end
