(* ===== verification/Native_Samples.thy ===== *)
theory Native_Samples
  imports Native_Properties
begin

text \<open>
  A native application with one pending request and one issued code, for the witnesses: the flow over a Redis in memory,
  a table in place of the JSON library, and constant functions in place of the cryptographic ones.
\<close>

definition nvID :: string where "nvID = b64encode (replicate 32 CHR ''q'')"
definition nvCode :: string where "nvCode = b64encode (replicate 32 CHR ''r'')"
definition nvRedirect :: string where "nvRedirect = ''http://127.0.0.1:8080/callback''"
definition nvClient :: nativeClient where "nvClient = normalForm sampleClient"

definition nvGo :: goLibrary where
  "nvGo =
     \<lparr>sha256hex = (\<lambda>s. replicate 64 CHR ''a''), marshalNativeClient = (\<lambda>c. Some []),
      parseURL = (\<lambda>s. Some \<lparr>url_Scheme = ''http'', url_Opaque = [], url_User = None, url_Host = ''127.0.0.1:8080'',
        url_Path = ''/callback'', url_RawPath = [], url_ForceQuery = False, url_RawQuery = [], url_Fragment = [],
        url_RawFragment = []\<rparr>),
      urlString = (\<lambda>u. nvRedirect), rfc3339Nano = (\<lambda>t. [])\<rparr>"

definition nvLibrary :: nativeLibrary where
  "nvLibrary =
     \<lparr>nl_go = nvGo, nl_unicode = asciiUnicode, nl_sha256 = (\<lambda>s. replicate 32 CHR ''s''), nl_hmac = (\<lambda>k m. ''mac''),
      nl_parseQuery = (\<lambda>raw. Some (if raw = ''token''
        then [(''grant_type'', [''authorization_code'']), (''client_id'', [''cli'']), (''code'', [nvCode]),
              (''redirect_uri'', [nvRedirect]), (''code_verifier'', [replicate 43 CHR ''v''])]
        else [(''request'', [nvID]), (''csrf'', [b64encode ''mac'']), (''decision'', [''approve''])])),
      nl_encode = (\<lambda>vals. if length vals = 5 then ''token'' else ''consent''),
      nl_mediaType = (\<lambda>s. Some ''application/x-www-form-urlencoded''),
      nl_callback = (\<lambda>uri query. uri @ concat (map snd query))\<rparr>"

definition nvRequest :: nativeRequest where
  "nvRequest =
     \<lparr>nq_ClientID = ''cli'', nq_ClientFingerprint = replicate 64 CHR ''a'', nq_RedirectURI = nvRedirect,
      nq_State = replicate 43 CHR ''x'', nq_Challenge = b64encode (replicate 32 CHR ''s''), nq_ExpiresAt = 300\<rparr>"

definition nvIdentity :: nativeIdentity where
  "nvIdentity =
     \<lparr>ni_Subject = ''u-1'', ni_Email = ''ana@corp.io'', ni_IdentityTenantID = ''corp'', ni_TenantName = ''Acme'',
      ni_TokenVersion = 3, ni_SessionExpiresAt = 1000, ni_Scopes = [''read'']\<rparr>"

definition nvGrant :: nativeGrant where
  "nvGrant = (approvedGrant nvLibrary nvClient nvRequest nvIdentity)\<lparr>ng_ExpiresAt := 65\<rparr>"

definition nvToken :: nativeToken where
  "nvToken = \<lparr>nt_AccessToken = ''signed'', nt_TokenType = ''Bearer'', nt_ExpiresIn = 300, nt_Scope = ''read'', nt_Email = ''ana@corp.io''\<rparr>"

definition nvStore :: "memory nativeStore" where
  "nvStore =
     \<lparr>nst_redis = Some memStore, nst_sha256hex = (\<lambda>s. s),
      nst_request = \<lparr>nj_parse = (\<lambda>s. Some (JObj [])), nj_marshal = (\<lambda>r. if r = nvRequest then Some ''request'' else None),
        nj_fill = (\<lambda>s. Some nvRequest)\<rparr>,
      nst_grant = \<lparr>nj_parse = (\<lambda>s. Some (JObj [])), nj_marshal = (\<lambda>g. if g = nvGrant then Some ''grant'' else None),
        nj_fill = (\<lambda>s. Some nvGrant)\<rparr>\<rparr>"

definition nvHandler :: "memory nativeHandler" where
  "nvHandler =
     \<lparr>nh_library = nvLibrary, nh_issuer = ''https://id'', nh_cookieName = ''session'', nh_csrfKey = ''key'',
      nh_clients = Some \<lparr>rg_clients = [''cli'' \<mapsto> sampleClient], rg_foreignRoles = Map.empty, rg_roleScopes = Map.empty\<rparr>,
      nh_store = nvStore, nh_browser = (\<lambda>w s c. Inr nvIdentity), nh_issue = (\<lambda>w c g. Inr nvToken),
      nh_audit = (\<lambda>w r. (None, w)), nh_limiter = (\<lambda>w b i n d. (Inr True, w)), nh_rateRequests = 10,
      nh_rateWindow = 60000000000\<rparr>"

definition nvCall :: "string \<Rightarrow> string list \<Rightarrow> memory nativeCall" where
  "nvCall path origins =
     \<lparr>ca_method = ''POST'', ca_path = ''/v1/native/'' @ path, ca_rawPath = [], ca_rawQuery = [], ca_origins = origins,
      ca_authorization = [], ca_contentType = [], ca_body = path, ca_cookies = [(''session'', ''cookie'')], ca_ip = [],
      ca_clock = (\<lambda>n. 5000000000), ca_draw = (\<lambda>i. Some (replicate 32 CHR ''t'')), ca_other = (\<lambda>i w. w)\<rparr>"

definition nvWorld :: "string \<Rightarrow> string \<Rightarrow> memory" where
  "nvWorld k v = \<lparr>mem_keys = emptyKeys\<lparr>ks_string := [k \<mapsto> v]\<rparr>, mem_fields = []\<rparr>"

section \<open>Facts about the sample\<close>

lemma opaque_b64: "length e = 32 \<Longrightarrow> ValidS256Challenge (b64encode e)"
  by (simp add: ValidS256Challenge_def b64decode_encode length_b64encode)

lemma nv_client: "RegistryGet (nh_clients nvHandler) ''cli'' = Some nvClient" "nc_ID nvClient = ''cli''"
  using sampleClient_ok
  by (simp_all add: RegistryGet_def nvHandler_def nvClient_def NormalizeClient_eq normalForm_def sampleClient_def)

lemma nv_fingerprint: "clientFingerprint nvGo nvClient = Inr (replicate 64 CHR ''a'')"
  using clientOk_normalForm [OF sampleClient_ok]
  by (simp add: clientFingerprint_def Fingerprint_def nvClient_def NormalizeClient_eq nvGo_def)

lemma nv_redirect: "\<not> redirectRefused nvLibrary nvClient nvRedirect"
proof -
  have "validPath ''/callback''" using sampleClient_ok by (simp add: clientOk_def sampleClient_def)
  moreover have "splitHostPort ''127.0.0.1:8080'' = (''127.0.0.1'', ''8080'')" "length nvRedirect \<le> 1024"
    by code_simp+
  moreover have "Atoi ''8080'' = Some 8080" by (simp add: Atoi_def decimal_def inDigit_def)
  moreover have "Itoa 8080 = ''8080''" by (simp add: Itoa.simps) code_simp
  moreover have "nc_RedirectPath nvClient = ''/callback''" by (simp add: nvClient_def normalForm_def sampleClient_def)
  ultimately show ?thesis by (simp add: redirectRefused_def ValidateRedirect_def nvLibrary_def nvGo_def)
qed

lemma nv_grant_valid: "grantValid nvGrant" "ng_ExpiresAt nvGrant = 65" "ng_SessionExpiresAt nvGrant = 1000"
    "ng_Challenge nvGrant = b64encode (replicate 32 CHR ''s'')"
proof -
  have "principalID ''cli''" "principalID ''u-1''" "principalID ''corp''" "ValidScope ''read''" "nvRedirect \<noteq> []"
    "length nvRedirect \<le> 1024" "fingerprint (replicate 64 CHR ''a'')"
    by code_simp+
  then show "grantValid nvGrant" "ng_ExpiresAt nvGrant = 65" "ng_SessionExpiresAt nvGrant = 1000"
    "ng_Challenge nvGrant = b64encode (replicate 32 CHR ''s'')"
    by (simp_all add: grantValid_def nvGrant_def approvedGrant_def nv_client(2) nvRequest_def nvIdentity_def opaque_b64
        identityFingerprint_def nvLibrary_def nvGo_def Suc_le_eq)
qed

lemma nv_handler [simp]:
  "nh_library nvHandler = nvLibrary" "nh_issuer nvHandler = ''https://id''" "nh_store nvHandler = nvStore"
  "nst_redis nvStore = Some memStore" "nst_sha256hex nvStore k = k" "nl_go nvLibrary = nvGo"
  "nativeAudit nvHandler w e p d c i = (None, w)" "nh_limiter nvHandler w b a n t = (Inr True, w)"
  "nh_issue nvHandler w c g = Inr nvToken" "nh_browser nvHandler w x c = Inr nvIdentity"
  by (simp_all add: nvHandler_def nvStore_def nvLibrary_def nativeAudit_def)

lemma nv_call [simp]:
  "ca_method (nvCall p os) = ''POST''" "ca_rawPath (nvCall p os) = []" "ca_rawQuery (nvCall p os) = []"
  "ca_origins (nvCall p os) = os" "ca_authorization (nvCall p os) = []" "ca_body (nvCall p os) = p"
  "ca_clock (nvCall p os) n = 5000000000" "ca_other (nvCall p os) i w = w"
  by (simp_all add: nvCall_def)

lemma nv_world: "ks_string (mem_keys (nvWorld k v)) = [k \<mapsto> v]"
  by (simp add: nvWorld_def)

lemma nv_read:
  assumes "opaque i" "v \<noteq> []" "length v \<le> maximumRecord"
  shows "readNative nvStore (nvWorld (stateKey (\<lambda>k. k) kind i) v) kind i = (Inr v, nvWorld (stateKey (\<lambda>k. k) kind i) v)"
proof -
  have "nst_sha256hex nvStore = (\<lambda>k. k)" by (simp add: nvStore_def)
  then show ?thesis
    using assms by (simp add: readNative_def memStore_def readRecord_def nv_world Suc_le_eq)
qed

lemma nv_consume:
  assumes "opaque i" "v \<noteq> []" "length v \<le> maximumRecord"
  shows "\<exists>w'. consumeNative nvStore (nvWorld (stateKey (\<lambda>k. k) kind i) v) kind i v = (Inr True, w')"
proof -
  have "nst_sha256hex nvStore = (\<lambda>k. k)" by (simp add: nvStore_def)
  then show ?thesis
    using assms by (simp add: consumeNative_def memStore_def consumeRecord_def nv_world Suc_le_eq)
qed

lemma nv_opaque: "opaque nvCode" "opaque nvID"
  by (simp_all add: opaque_def nvCode_def nvID_def opaque_b64)

definition nvIssued :: memory where "nvIssued = nvWorld (stateKey (\<lambda>k. k) ''code'' nvCode) ''grant''"
definition nvPending :: memory where "nvPending = nvWorld (stateKey (\<lambda>k. k) ''request'' nvID) ''request''"

lemma nv_snapshot: "CodeSnapshot nvStore (\<lambda>n. 5000000000) nvIssued nvCode = (Inr (nvGrant, ''grant''), nvIssued)"
proof -
  have "decodeNative (nst_grant nvStore) ''grant'' = Some nvGrant" by (simp add: decodeNative_def nvStore_def)
  then show ?thesis
    using nv_grant_valid by (simp add: CodeSnapshot_def nvIssued_def nv_read nv_opaque Unix_def)
qed

lemma nv_consumed: "\<exists>w'. ConsumeCode nvStore 5000000000 nvIssued nvCode (nvGrant, ''grant'') = (Inr True, w')"
  using nv_consume [OF nv_opaque(1), of "''grant''" "''code''"] nv_grant_valid(2)
  by (simp add: ConsumeCode_def nvIssued_def Unix_def) (simp add: nvStore_def)

section \<open>One run of each step\<close>

definition nvTokenCall :: "memory nativeCall" where "nvTokenCall = nvCall ''token'' []"
definition nvConsentCall :: "memory nativeCall" where "nvConsentCall = nvCall ''consent'' [''https://id'']"

lemma nv_parsed:
  "strictValues nvLibrary ''token'' [''grant_type'', ''client_id'', ''code'', ''redirect_uri'', ''code_verifier''] =
     Some (\<lambda>k. case map_of (the (nl_parseQuery nvLibrary ''token'')) k of Some (v # _) \<Rightarrow> v | _ \<Rightarrow> [])"
  "strictValues nvLibrary ''consent'' [''request'', ''csrf'', ''decision''] =
     Some (\<lambda>k. case map_of (the (nl_parseQuery nvLibrary ''consent'')) k of Some (v # _) \<Rightarrow> v | _ \<Rightarrow> [])"
proof -
  have "nvRedirect \<noteq> []" "nvCode \<noteq> []" "nvID \<noteq> []" "b64encode ''mac'' \<noteq> []"
    using length_b64encode [of "replicate 32 CHR ''r''"] length_b64encode [of "replicate 32 CHR ''q''"]
    by (auto simp: nvRedirect_def nvCode_def nvID_def)
  then show "strictValues nvLibrary ''token'' [''grant_type'', ''client_id'', ''code'', ''redirect_uri'', ''code_verifier''] =
     Some (\<lambda>k. case map_of (the (nl_parseQuery nvLibrary ''token'')) k of Some (v # _) \<Rightarrow> v | _ \<Rightarrow> [])"
    "strictValues nvLibrary ''consent'' [''request'', ''csrf'', ''decision''] =
     Some (\<lambda>k. case map_of (the (nl_parseQuery nvLibrary ''consent'')) k of Some (v # _) \<Rightarrow> v | _ \<Rightarrow> [])"
    by (simp_all add: strictValues_def nvLibrary_def)
qed

lemma nv_token_form:
  obtains get where "tokenForm nvHandler nvTokenCall = Some get" "get ''grant_type'' = ''authorization_code''"
    "get ''client_id'' = ''cli''" "get ''code'' = nvCode" "get ''redirect_uri'' = nvRedirect"
    "get ''code_verifier'' = replicate 43 CHR ''v''"
proof -
  have "tokenForm nvHandler nvTokenCall = Some (\<lambda>k. case map_of (the (nl_parseQuery nvLibrary ''token'')) k of Some (v # _) \<Rightarrow> v | _ \<Rightarrow> [])"
    using nv_parsed(1) by (simp add: tokenForm_def nvTokenCall_def readForm_def) (simp add: nvLibrary_def)
  then show ?thesis by (rule that) (simp_all add: nvLibrary_def)
qed

lemma nv_consent_form:
  obtains get where "consentForm nvHandler nvConsentCall = Some get" "get ''request'' = nvID"
    "get ''csrf'' = b64encode ''mac''" "get ''decision'' = ''approve''"
proof -
  have "consentForm nvHandler nvConsentCall = Some (\<lambda>k. case map_of (the (nl_parseQuery nvLibrary ''consent'')) k of Some (v # _) \<Rightarrow> v | _ \<Rightarrow> [])"
    using nv_parsed(2) by (simp add: consentForm_def nvConsentCall_def readForm_def) (simp add: nvLibrary_def)
  then show ?thesis by (rule that) (simp_all add: nvLibrary_def)
qed

lemma nv_admits: "grantAdmits nvHandler nvClient nvGrant nvRedirect (replicate 43 CHR ''v'')"
proof -
  have "unreserved (replicate 43 CHR ''v'')" by code_simp
  then have "VerifyS256 (nl_sha256 nvLibrary) (replicate 43 CHR ''v'') (b64encode (replicate 32 CHR ''s''))"
    using opaque_b64 [of "replicate 32 CHR ''s''"] by (simp add: VerifyS256_def S256Challenge_def nvLibrary_def)
  then show ?thesis
    using nv_fingerprint nv_redirect nv_client(2)
    by (simp add: grantAdmits_def nvGrant_def approvedGrant_def nvRequest_def)
qed

lemma nv_token: "\<exists>w'. ServeNative nvHandler nvTokenCall nvIssued = (NativeToken nvToken, w')"
proof -
  obtain get where get: "tokenForm nvHandler nvTokenCall = Some get" "get ''grant_type'' = ''authorization_code''"
    "get ''client_id'' = ''cli''" "get ''code'' = nvCode" "get ''redirect_uri'' = nvRedirect"
    "get ''code_verifier'' = replicate 43 CHR ''v''"
    by (rule nv_token_form)
  have call: "ca_origins nvTokenCall = []" "ca_authorization nvTokenCall = []" "ca_clock nvTokenCall = (\<lambda>n. 5000000000)"
    "ca_other nvTokenCall i w = w" for i w by (simp_all add: nvTokenCall_def nvCall_def)
  obtain w' where w': "ConsumeCode nvStore 5000000000 nvIssued nvCode (nvGrant, ''grant'') = (Inr True, w')"
    using nv_consumed by blast
  have "tokenNative nvHandler nvTokenCall nvIssued = (NativeToken nvToken, w')"
    using get(1) unfolding tokenForm_def
    by (simp add: tokenNative_def call get(2-6) nv_snapshot nv_client(1) nv_admits w')
  moreover have "nativePath nvTokenCall = ''token''" unfolding nativePath_def nvTokenCall_def nvCall_def by code_simp
  ultimately have "ServeNative nvHandler nvTokenCall nvIssued = (NativeToken nvToken, w')"
    unfolding ServeNative_def by (simp add: nvTokenCall_def HasPrefix_def)
  then show ?thesis ..
qed

section \<open>Witnesses\<close>

lemma b64encode_inj: "b64encode s = b64encode t \<Longrightarrow> s = t"
  by (metis b64decode_encode option.inject)

lemma nv_quiet: "quietHandler nvHandler mem_keys k" "quietCall nvHandler mem_keys (codeKey nvHandler nvCode) nvTokenCall"
proof -
  show "quietHandler nvHandler mem_keys k" by (simp add: quietHandler_def nvHandler_def)
  have "b64encode (replicate 32 CHR ''t'') \<noteq> nvCode"
    unfolding nvCode_def using b64encode_inj [of "replicate 32 CHR ''t''" "replicate 32 CHR ''r''"] by auto
  then show "quietCall nvHandler mem_keys (codeKey nvHandler nvCode) nvTokenCall"
    by (simp add: quietCall_def stateKey_def nvTokenCall_def nvCall_def)
qed

text \<open>Two requests for one code: both read it before either consumes it.\<close>

lemma nv_steps:
  obtains w' where
    "tokenStep nvHandler nvTokenCall TkStart nvIssued = (TkAdmitted nvCode nvClient nvGrant ''grant'', nvIssued)"
    "tokenStep nvHandler nvTokenCall (TkAdmitted nvCode nvClient nvGrant ''grant'') nvIssued =
       (TkAnnounced nvCode nvClient nvGrant ''grant'', nvIssued)"
    "tokenStep nvHandler nvTokenCall (TkAnnounced nvCode nvClient nvGrant ''grant'') nvIssued = (TkConsumed nvClient nvGrant, w')"
    "tokenStep nvHandler nvTokenCall (TkConsumed nvClient nvGrant) w' = (TkIssued nvClient nvGrant nvToken, w')"
    "tokenStep nvHandler nvTokenCall (TkIssued nvClient nvGrant nvToken) w' = (TkReplied (NativeToken nvToken), w')"
proof -
  obtain get where get: "tokenForm nvHandler nvTokenCall = Some get" "get ''grant_type'' = ''authorization_code''"
    "get ''client_id'' = ''cli''" "get ''code'' = nvCode" "get ''redirect_uri'' = nvRedirect"
    "get ''code_verifier'' = replicate 43 CHR ''v''"
    by (rule nv_token_form)
  have call: "ca_origins nvTokenCall = []" "ca_authorization nvTokenCall = []" "ca_clock nvTokenCall = (\<lambda>n. 5000000000)"
    by (simp_all add: nvTokenCall_def nvCall_def)
  obtain w' where w': "ConsumeCode nvStore 5000000000 nvIssued nvCode (nvGrant, ''grant'') = (Inr True, w')"
    using nv_consumed by blast
  show thesis
    by (rule that [of w']) (simp_all add: call get nv_snapshot nv_client(1) nv_admits w')
qed

theorem native_code_once_witness:
  "\<exists>pool w' r. (tokenMove nvHandler (\<lambda>i. nvTokenCall) {nvTokenCall} {\<lambda>w. w})\<^sup>*\<^sup>* (\<lambda>i. TkStart, nvIssued) (pool, w') \<and>
     usesCode nvHandler nvCode nvTokenCall \<and> pool 0 = TkReplied (NativeToken nvToken) \<and> pool 1 = TkReplied r \<and>
     (\<nexists>t. r = NativeToken t)"
proof -
  let ?move = "tokenMove nvHandler (\<lambda>i. nvTokenCall) {nvTokenCall} {\<lambda>w. w}"
  obtain w' where t: "tokenStep nvHandler nvTokenCall TkStart nvIssued = (TkAdmitted nvCode nvClient nvGrant ''grant'', nvIssued)"
    "tokenStep nvHandler nvTokenCall (TkAdmitted nvCode nvClient nvGrant ''grant'') nvIssued =
       (TkAnnounced nvCode nvClient nvGrant ''grant'', nvIssued)"
    "tokenStep nvHandler nvTokenCall (TkAnnounced nvCode nvClient nvGrant ''grant'') nvIssued = (TkConsumed nvClient nvGrant, w')"
    "tokenStep nvHandler nvTokenCall (TkConsumed nvClient nvGrant) w' = (TkIssued nvClient nvGrant nvToken, w')"
    "tokenStep nvHandler nvTokenCall (TkIssued nvClient nvGrant nvToken) w' = (TkReplied (NativeToken nvToken), w')"
    by (rule nv_steps)
  obtain p v where late: "tokenStep nvHandler nvTokenCall (TkAnnounced nvCode nvClient nvGrant ''grant'') w' = (p, v)" by force
  have go: "?move\<^sup>*\<^sup>* s (pool, w) \<Longrightarrow> tokenStep nvHandler nvTokenCall (pool i) w = (q, u) \<Longrightarrow> ?move\<^sup>*\<^sup>* s (pool(i := q), u)"
    for s pool w i q u
    using tokenMove.advances [where h = nvHandler and qs = "\<lambda>i. nvTokenCall"] by (meson rtranclp.rtrancl_into_rtrancl)
  let ?s = "(\<lambda>i. TkStart, nvIssued) :: (nat \<Rightarrow> tokenPhase) \<times> memory"
  let ?adm = "TkAdmitted nvCode nvClient nvGrant ''grant''" and ?ann = "TkAnnounced nvCode nvClient nvGrant ''grant''"
  let ?a = "(\<lambda>i. TkStart)(0 := ?adm)" let ?b = "?a(1 := ?adm)" let ?c = "?b(0 := ?ann)" let ?d = "?c(1 := ?ann)"
  let ?e = "?d(0 := TkConsumed nvClient nvGrant)" let ?f = "?e(0 := TkIssued nvClient nvGrant nvToken)"
  let ?g = "?f(0 := TkReplied (NativeToken nvToken))"
  have "?move\<^sup>*\<^sup>* ?s (?a, nvIssued)" by (rule go) (rule rtranclp.rtrancl_refl, rule t(1))
  then have "?move\<^sup>*\<^sup>* ?s (?b, nvIssued)" by (rule go) (use t(1) in simp)
  then have "?move\<^sup>*\<^sup>* ?s (?c, nvIssued)" by (rule go) (use t(2) in simp)
  then have "?move\<^sup>*\<^sup>* ?s (?d, nvIssued)" by (rule go) (use t(2) in simp)
  then have "?move\<^sup>*\<^sup>* ?s (?e, w')" by (rule go) (use t(3) in simp)
  then have "?move\<^sup>*\<^sup>* ?s (?f, w')" by (rule go) (use t(4) in simp)
  then have "?move\<^sup>*\<^sup>* ?s (?g, w')" by (rule go) (use t(5) in simp)
  then have run: "?move\<^sup>*\<^sup>* ?s (?g(1 := p), v)" by (rule go) (use late in simp)
  obtain get where "tokenForm nvHandler nvTokenCall = Some get" "get ''code'' = nvCode" by (rule nv_token_form)
  then have uses: "usesCode nvHandler nvCode nvTokenCall" by (simp add: usesCode_def)
  have q: "\<forall>c \<in> {nvTokenCall}. quietCall nvHandler mem_keys (codeKey nvHandler nvCode) c" using nv_quiet(2) by simp
  have f: "\<forall>f \<in> {\<lambda>w. w}. \<forall>u. absent mem_keys (codeKey nvHandler nvCode) u \<longrightarrow> absent mem_keys (codeKey nvHandler nvCode) (f u)"
    by simp
  have store: "nst_redis (nh_store nvHandler) = Some memStore" by simp
  note once = native_code_once [OF memStore_ok store nv_quiet(1) q f run, THEN conjunct2, THEN conjunct2]
  have "\<not> redeemed p"
    using once [THEN spec, THEN spec, of 0 1] uses by auto
  moreover have "(\<exists>c g. p = TkConsumed c g) \<or> (\<exists>r. p = TkReplied r)"
    using late by (auto split: sum.splits prod.splits bool.splits)
  ultimately obtain r where "p = TkReplied r" "\<nexists>t. r = NativeToken t" by auto
  with run uses show ?thesis
    by (intro exI [of _ "?g(1 := p)"] exI [of _ v] exI [of _ r]) simp
qed

theorem native_token_bound_witness:
  "\<exists>g raw. \<exists>(u :: memory) (v :: memory). ks_string (mem_keys u) (codeKey nvHandler nvCode) = Some raw \<and> absent mem_keys (codeKey nvHandler nvCode) v \<and>
     decodeNative (nst_grant nvStore) raw = Some g \<and> 5 < ng_ExpiresAt g \<and>
     ng_Challenge g = b64encode (nl_sha256 nvLibrary (replicate 43 CHR ''v''))"
proof -
  obtain get where get: "tokenForm nvHandler nvTokenCall = Some get" "get ''code'' = nvCode"
    "get ''code_verifier'' = replicate 43 CHR ''v''" by (rule nv_token_form)
  obtain w' where run: "ServeNative nvHandler nvTokenCall nvIssued = (NativeToken nvToken, w')" using nv_token by blast
  have store: "nst_redis (nh_store nvHandler) = Some memStore" by simp
  have clock: "Unix (ca_clock nvTokenCall 2) = 5" by (simp add: nvTokenCall_def Unix_def)
  obtain get' g raw and u v :: memory where g: "tokenForm nvHandler nvTokenCall = Some get'"
    "ks_string (mem_keys u) (codeKey nvHandler (get' ''code'')) = Some raw" "absent mem_keys (codeKey nvHandler (get' ''code'')) v"
    "decodeNative (nst_grant (nh_store nvHandler)) raw = Some g" "Unix (ca_clock nvTokenCall 2) < ng_ExpiresAt g"
    "ng_Challenge g = b64encode (nl_sha256 (nh_library nvHandler) (get' ''code_verifier''))"
    using native_token_bound [OF memStore_ok store run] by (elim exE conjE) (rule that, assumption+)
  have "get' = get" using g(1) get(1) by simp
  note facts = g [unfolded this get(2,3) clock]
  show ?thesis
    by (rule exI [of _ g], rule exI [of _ raw], rule exI [of _ u], rule exI [of _ v]) (use facts in simp)
qed

lemma nv_request: "RequestSnapshot nvStore 5000000000 nvPending nvID = (Inr (nvRequest, ''request''), nvPending)"
proof -
  have "principalID ''cli''" "nvRedirect \<noteq> []" "length nvRedirect \<le> 1024" "fingerprint (replicate 64 CHR ''a'')"
    "ValidState (replicate 43 CHR ''x'')"
    by code_simp+
  then have "requestValid nvRequest" by (simp add: requestValid_def nvRequest_def opaque_b64)
  moreover have "decodeNative (nst_request nvStore) ''request'' = Some nvRequest" by (simp add: decodeNative_def nvStore_def)
  moreover have "nq_ExpiresAt nvRequest = 300" by (simp add: nvRequest_def)
  ultimately show ?thesis by (simp add: RequestSnapshot_def nvPending_def nv_read nv_opaque Unix_def)
qed

lemma nv_pending: "pendingRequest nvHandler 5000000000 nvPending nvID = (Inr ((nvRequest, ''request''), nvClient), nvPending)"
proof -
  have "nq_ClientID nvRequest = ''cli''" "nq_ClientFingerprint nvRequest = replicate 64 CHR ''a''"
    "nq_RedirectURI nvRequest = nvRedirect" by (simp_all add: nvRequest_def)
  then show ?thesis using nv_client(1) nv_fingerprint nv_redirect by (simp add: pendingRequest_def nv_request)
qed

lemma nv_create:
  assumes "absent mem_keys (codeKey nvHandler (b64encode (replicate 32 CHR ''t''))) w"
  shows "\<exists>w'. CreateCode nvStore (\<lambda>n. 5000000000) (\<lambda>i. Some (replicate 32 CHR ''t'')) (\<lambda>i w. w) w
      (approvedGrant nvLibrary nvClient nvRequest nvIdentity) = (Inr (b64encode (replicate 32 CHR ''t'')), w')"
proof -
  have g: "(approvedGrant nvLibrary nvClient nvRequest nvIdentity)\<lparr>ng_ExpiresAt := 65\<rparr> = nvGrant" by (simp add: nvGrant_def)
  have e: "ng_SessionExpiresAt (approvedGrant nvLibrary nvClient nvRequest nvIdentity) = 1000"
    by (simp add: approvedGrant_def nvIdentity_def)
  have m: "nj_marshal (nst_grant nvStore) nvGrant = Some ''grant''" by (simp add: nvStore_def)
  have s: "nst_sha256hex nvStore = (\<lambda>k. k)" by (simp add: nvStore_def)
  have p: "putAttempts memStore (\<lambda>k. k) ''code'' ''grant'' (\<lambda>i. Some (replicate 32 CHR ''t'')) (\<lambda>i w. w) 0 3 w =
      (Inr (b64encode (replicate 32 CHR ''t'')),
       w\<lparr>mem_keys := applyCmd (CSet (stateKey (\<lambda>k. k) ''code'' (b64encode (replicate 32 CHR ''t''))) ''grant'') (mem_keys w)\<rparr>)"
    using assms unfolding numeral_3_eq_3 putAttempts.simps by (simp add: absent_def memStore_def s Let_def)
  show ?thesis
    using nv_grant_valid by (simp add: CreateCode_def putRecord_def Let_def Unix_def e g m s p timeSub_def)
qed

lemma nv_consent: "\<exists>url w'. consentNative nvHandler nvConsentCall nvPending = (NativeRedirect url, w')"
proof -
  obtain get where get: "consentForm nvHandler nvConsentCall = Some get" "get ''request'' = nvID"
    "get ''csrf'' = b64encode ''mac''" "get ''decision'' = ''approve''" by (rule nv_consent_form)
  have call: "ca_origins nvConsentCall = [''https://id'']" "ca_clock nvConsentCall = (\<lambda>n. 5000000000)"
    "ca_other nvConsentCall = (\<lambda>i w. w)" "ca_draw nvConsentCall = (\<lambda>i. Some (replicate 32 CHR ''t''))"
    by (simp_all add: nvConsentCall_def nvCall_def)
  have origin: "TrimSuffix ''https://id'' ''/'' = ''https://id''" by code_simp
  have csrf: "nativeCsrf nvHandler nvID nvIdentity x = b64encode ''mac''" for x by (simp add: nativeCsrf_def) (simp add: nvLibrary_def)
  obtain w3 where c: "ConsumeRequest nvStore 5000000000 nvPending nvID (nvRequest, ''request'') = (Inr True, w3)"
    using nv_consume [OF nv_opaque(2), of "''request''" "''request''"]
    by (auto simp: ConsumeRequest_def nvPending_def Unix_def nvRequest_def nvStore_def)
  have "absent mem_keys (codeKey nvHandler (b64encode (replicate 32 CHR ''t''))) nvPending"
    using request_key_differs by (simp add: absent_def nvPending_def nv_world stateKey_def)
  then have "absent mem_keys (codeKey nvHandler (b64encode (replicate 32 CHR ''t''))) w3"
    using absent_consumed(1) [OF memStore_ok nv_handler(4), of _ nvPending 5000000000 nvID "(nvRequest, ''request'')"] c by simp
  from nv_create [OF this] obtain v where "CreateCode nvStore (\<lambda>n. 5000000000) (\<lambda>i. Some (replicate 32 CHR ''t'')) (\<lambda>i w. w) w3
      (approvedGrant nvLibrary nvClient nvRequest nvIdentity) = (Inr (b64encode (replicate 32 CHR ''t'')), v)" by blast
  then have "\<exists>url w'. concludeConsent nvHandler nvConsentCall w3 ''approve'' nvRequest nvClient nvIdentity = (NativeRedirect url, w')"
    by (simp add: concludeConsent_def call)
  then show ?thesis
    using get(1) unfolding consentForm_def
    by (simp add: consentNative_def call origin get(2-4) nv_pending csrf c)
qed


end
