(* ===== verification/Directory_Service.thy ===== *)
theory Directory_Service
  imports Access_Token Directory_Updates Directory_Removal
begin

text \<open>
  The identity directory service: \<^verbatim>\<open>identity_directory_service.go\<close>, \<^verbatim>\<open>identity_directory_exact_role.go\<close>,
  \<^verbatim>\<open>tenant_creator_access.go\<close> and \<^verbatim>\<open>directory_user_deletion.go\<close>. Its repository is the interface
  \<^verbatim>\<open>IdentityDirectoryRepository\<close>, a record of functions; \<open>NewIdentityDirectoryRepo\<close> fills it with the Redis repository,
  with what other clients do during a call and the clock as arguments.
\<close>

section \<open>The repository as an interface\<close>

record 'w identityDirectory =
  dyCreateDirectoryUser :: "'w \<Rightarrow> user option \<Rightarrow> directoryUser res \<times> 'w"
  dyConsumeTemporaryPassword :: "'w \<Rightarrow> string \<Rightarrow> string \<Rightarrow> int \<Rightarrow> string \<Rightarrow> unit res \<times> 'w"
  dyGetDirectoryUser :: "'w \<Rightarrow> string \<Rightarrow> directoryUser option res"
  dyDeleteDirectoryUser :: "'w \<Rightarrow> string \<Rightarrow> int \<Rightarrow> directoryDeletionActor \<Rightarrow> bool res \<times> 'w"
  dyFindDirectoryUserByEmail :: "'w \<Rightarrow> string \<Rightarrow> directoryUser option res"
  dyListDirectoryUsers :: "'w \<Rightarrow> string \<Rightarrow> string \<Rightarrow> int \<Rightarrow> (directoryUser list \<times> string) res"
  dyListTenantDirectoryUsers :: "'w \<Rightarrow> string \<Rightarrow> string \<Rightarrow> string \<Rightarrow> int \<Rightarrow> (directoryUser list \<times> string) res"
  dyGetEffectiveUserAccess ::
    "'w \<Rightarrow> string \<Rightarrow> (directoryUser \<times> (string \<times> string list \<times> accessProvenance list) list) res"
  dyCreateGroup :: "'w \<Rightarrow> string \<Rightarrow> string \<Rightarrow> identityGroup res \<times> 'w"
  dyGetGroupDetail :: "'w \<Rightarrow> string \<Rightarrow> (identityGroup \<times> directoryUser list) option res"
  dyListGroups :: "'w \<Rightarrow> string \<Rightarrow> string \<Rightarrow> int \<Rightarrow> (identityGroup list \<times> string) res"
  dyPatchGroup :: "'w \<Rightarrow> string \<Rightarrow> groupPatch \<Rightarrow> string \<Rightarrow> identityGroup res \<times> 'w"
  dyDeleteGroup :: "'w \<Rightarrow> string \<Rightarrow> string \<Rightarrow> bool res \<times> 'w"
  dyPutGroupMember :: "'w \<Rightarrow> string \<Rightarrow> string \<Rightarrow> string \<Rightarrow> (identityGroup \<times> bool) res \<times> 'w"
  dyDeleteGroupMember :: "'w \<Rightarrow> string \<Rightarrow> string \<Rightarrow> string \<Rightarrow> (identityGroup \<times> bool) res \<times> 'w"
  dyPutAccessAssignment ::
    "'w \<Rightarrow> string \<Rightarrow> string \<Rightarrow> string \<Rightarrow> string list \<Rightarrow> string \<Rightarrow> (accessAssignment \<times> bool) res \<times> 'w"
  dyDeleteAccessAssignment :: "'w \<Rightarrow> string \<Rightarrow> string \<Rightarrow> string \<Rightarrow> string \<Rightarrow> bool res \<times> 'w"
  dyGetAccessAssignment :: "'w \<Rightarrow> string \<Rightarrow> string \<Rightarrow> string \<Rightarrow> accessAssignment option res"
  dyListAccessAssignments :: "'w \<Rightarrow> string \<Rightarrow> string \<Rightarrow> int \<Rightarrow> (accessAssignment list \<times> string) res"
  dyGetEffectiveTenantRoles :: "'w \<Rightarrow> string \<Rightarrow> string \<Rightarrow> (string list \<times> accessProvenance list) res"
  dyAllowAuthenticationAttempt :: "'w \<Rightarrow> string \<Rightarrow> string \<Rightarrow> int \<Rightarrow> int \<Rightarrow> bool res \<times> 'w"

definition NewIdentityDirectoryRepo ::
  "'w store \<Rightarrow> directoryLib \<Rightarrow> registry option \<Rightarrow> (string \<Rightarrow> samlSessionIndexRecord option) \<Rightarrow> (nat \<Rightarrow> 'w \<Rightarrow> 'w) \<Rightarrow>
   (nat \<Rightarrow> int) \<Rightarrow> string \<Rightarrow> 'w identityDirectory" where
  "NewIdentityDirectoryRepo R L rg msgpack others clock uuid =
     \<lparr>dyCreateDirectoryUser = CreateDirectoryUser R L (clock 0),
      dyConsumeTemporaryPassword = ConsumeTemporaryPassword R L others clock,
      dyGetDirectoryUser = GetDirectoryUser R L (clock 0),
      dyDeleteDirectoryUser = DeleteDirectoryUser R L msgpack others clock,
      dyFindDirectoryUserByEmail = FindDirectoryUserByEmail R L (clock 0),
      dyListDirectoryUsers = ListDirectoryUsers R L (clock 0),
      dyListTenantDirectoryUsers = ListTenantDirectoryUsers R L (clock 0),
      dyGetEffectiveUserAccess = GetEffectiveUserAccess R L rg (clock 0),
      dyCreateGroup = CreateGroup R L others (clock 0) uuid, dyGetGroupDetail = GetGroupDetail R L (clock 0),
      dyListGroups = ListGroups R L, dyPatchGroup = PatchGroup R L others clock, dyDeleteGroup = DeleteGroup R L others,
      dyPutGroupMember = (\<lambda>w g u m. changeGroupMember R L others clock w g u m True),
      dyDeleteGroupMember = (\<lambda>w g u m. changeGroupMember R L others clock w g u m False),
      dyPutAccessAssignment = PutAccessAssignment R L rg others clock,
      dyDeleteAccessAssignment = DeleteAccessAssignment R L others, dyGetAccessAssignment = GetAccessAssignment R L,
      dyListAccessAssignments = ListAccessAssignments R L,
      dyGetEffectiveTenantRoles = GetEffectiveTenantRoles R L rg (clock 0),
      dyAllowAuthenticationAttempt = AllowAuthenticationAttempt R L\<rparr>"

section \<open>The service\<close>

text \<open>
  \<open>dv_unicode\<close>, \<open>dv_generate\<close> and \<open>dv_cost\<close> are the library functions behind \<^verbatim>\<open>strings.ToLower\<close>,
  \<^verbatim>\<open>bcrypt.GenerateFromPassword\<close> at the default cost and \<^verbatim>\<open>bcrypt.Cost\<close>; \<open>dv_policy\<close> is the compiled scope policy.
\<close>

record 'w identityDirectoryService =
  dv_unicode :: go_unicode
  dv_policy :: policy
  dv_generate :: "string \<Rightarrow> string res"
  dv_cost :: "string \<Rightarrow> int res"
  dv_directory :: "'w identityDirectory option"
  dv_users :: "'w userRepository option"
  dv_tenants :: "('w \<Rightarrow> string \<Rightarrow> tenant option res) option"
  dv_roles :: "('w \<Rightarrow> string \<Rightarrow> string list \<Rightarrow> role option list res) option"
  dv_groupsWrite :: bool
  dv_verifyPassword :: "string \<Rightarrow> string \<Rightarrow> bool"
  dv_rateLimits :: rateLimits
  dv_nativeClients :: "registry option"

definition temporaryPasswordDummyHash :: string where
  "temporaryPasswordDummyHash = ''$2a$10$E0ITma.2mszCHfbNPAFTK.XtwO7m/I6pZzFSnlhYM6wbTc612RWze''"

abbreviation bcryptDefaultCost :: int where "bcryptDefaultCost \<equiv> 10"
abbreviation authenticationBucketTemporaryPasswordIP :: string where
  "authenticationBucketTemporaryPasswordIP \<equiv> ''temporary-password:ip''"
abbreviation authenticationBucketTemporaryPasswordEmail :: string where
  "authenticationBucketTemporaryPasswordEmail \<equiv> ''temporary-password:email''"

definition directoryService_CreateUser ::
  "'w identityDirectoryService \<Rightarrow> 'w \<Rightarrow> string \<Rightarrow> int \<Rightarrow> string \<Rightarrow> string \<Rightarrow> directoryUser res \<times> 'w" where
  "directoryService_CreateUser s w uuid now email0 temporaryPassword =
     (case (dv_directory s, dv_users s) of
        (Some d, Some us) \<Rightarrow>
          (let email = normalizeIdentityEmail (dv_unicode s) email0 in
           if email = [] \<or> \<not> validDirectoryPassword temporaryPassword then (Inl ErrInvalidArgument, w)
           else (case dv_generate s temporaryPassword of
                   Inl e \<Rightarrow> (Inl ErrInvalidArgument, w)
                 | Inr hash \<Rightarrow>
                     dyCreateDirectoryUser d w (Some
                       \<lparr>u_Id = uuid, u_Email = email, u_Password = hash, u_Role = RoleCompanyEmployee,
                        u_Status = UserStatusActive, u_CompanyId = None, u_TokenVersion = 0, u_Revision = 0,
                        u_CreatedAt = Some now, u_AuthSource = AuthSourcePassword, u_ExternalSubject = [],
                        u_PasswordChangeRequired = True\<rparr>)))
      | _ \<Rightarrow> (Inl ErrDirectoryInvariant, w))"

text \<open>The two attempt counters of a change of password: by address when it is known, then by email.\<close>

definition temporaryPasswordAttempt ::
  "'w identityDirectoryService \<Rightarrow> 'w identityDirectory \<Rightarrow> 'w \<Rightarrow> string \<Rightarrow> string \<Rightarrow> bool res \<times> 'w" where
  "temporaryPasswordAttempt s d w clientIP email =
     (let limit = rls_Login (dv_rateLimits s); window = seconds (rl_WindowSeconds limit) in
      case (if clientIP \<noteq> []
            then dyAllowAuthenticationAttempt d w authenticationBucketTemporaryPasswordIP clientIP (rl_Requests limit) window
            else (Inr True, w)) of
        (Inr True, w') \<Rightarrow>
          dyAllowAuthenticationAttempt d w' authenticationBucketTemporaryPasswordEmail email (rl_Requests limit) window
      | r \<Rightarrow> r)"

text \<open>The hash to verify against, and whether the account may change its password: the dummy hash for all others.\<close>

definition temporaryPasswordHash :: "'w identityDirectoryService \<Rightarrow> user option res \<Rightarrow> (user option \<times> string)" where
  "temporaryPasswordHash s found =
     (case found of
        Inr (Some u) \<Rightarrow>
          if u_Status u = UserStatusActive \<and> u_AuthSource u = AuthSourcePassword \<and> u_PasswordChangeRequired u \<and>
             dv_cost s (u_Password u) = Inr bcryptDefaultCost
          then (Some u, u_Password u) else (None, temporaryPasswordDummyHash)
      | _ \<Rightarrow> (None, temporaryPasswordDummyHash))"

definition ChangeTemporaryPassword ::
  "'w identityDirectoryService \<Rightarrow> 'w \<Rightarrow> string \<Rightarrow> string \<Rightarrow> string \<Rightarrow> string \<Rightarrow> unit res \<times> 'w" where
  "ChangeTemporaryPassword s w clientIP email0 temporaryPassword newPassword =
     (case (dv_directory s, dv_users s) of
        (Some d, Some us) \<Rightarrow>
          (let email = normalizeIdentityEmail (dv_unicode s) email0 in
           if email = [] \<or> \<not> validDirectoryPassword temporaryPassword \<or> \<not> validDirectoryPassword newPassword \<or>
              temporaryPassword = newPassword
           then (Inl ErrInvalidArgument, w)
           else
             (case temporaryPasswordAttempt s d w clientIP email of
                (Inl e, w') \<Rightarrow> (Inl e, w')
              | (Inr False, w') \<Rightarrow> (Inl ErrRateLimited, w')
              | (Inr True, w') \<Rightarrow>
                  (let (eligible, hash) = temporaryPasswordHash s (usFindByEmail us w' email);
                       passwordMatches = dv_verifyPassword s hash temporaryPassword in
                   case eligible of
                     None \<Rightarrow> (Inl ErrInvalidCreds, w')
                   | Some u \<Rightarrow>
                       if \<not> passwordMatches then (Inl ErrInvalidCreds, w')
                       else (case dv_generate s newPassword of
                               Inl e \<Rightarrow> (Inl ErrInvalidArgument, w')
                             | Inr h \<Rightarrow> dyConsumeTemporaryPassword d w' (u_Id u) (u_Password u) (u_TokenVersion u) h))))
      | _ \<Rightarrow> (Inl ErrDirectoryInvariant, w))"

definition orNotFound :: "'a option res \<Rightarrow> 'a res" where
  "orNotFound r = (case r of Inl e \<Rightarrow> Inl e | Inr None \<Rightarrow> Inl ErrNotFound | Inr (Some x) \<Rightarrow> Inr x)"

definition withDirectory :: "'w identityDirectoryService \<Rightarrow> ('w identityDirectory \<Rightarrow> 'a res) \<Rightarrow> 'a res" where
  "withDirectory s f = (case dv_directory s of None \<Rightarrow> Inl ErrDirectoryInvariant | Some d \<Rightarrow> f d)"

definition directoryService_GetUser :: "'w identityDirectoryService \<Rightarrow> 'w \<Rightarrow> string \<Rightarrow> directoryUser res" where
  "directoryService_GetUser s w userID = withDirectory s (\<lambda>d. orNotFound (dyGetDirectoryUser d w userID))"

definition directoryService_DeleteDirectoryUser ::
  "'w identityDirectoryService \<Rightarrow> 'w \<Rightarrow> string \<Rightarrow> int \<Rightarrow> directoryDeletionActor \<Rightarrow> bool res \<times> 'w" where
  "directoryService_DeleteDirectoryUser s w userID version actor =
     (case dv_directory s of
        None \<Rightarrow> (Inl ErrDirectoryInvariant, w) | Some d \<Rightarrow> dyDeleteDirectoryUser d w userID version actor)"

definition directoryService_FindUserByEmail :: "'w identityDirectoryService \<Rightarrow> 'w \<Rightarrow> string \<Rightarrow> directoryUser res" where
  "directoryService_FindUserByEmail s w email =
     withDirectory s (\<lambda>d. orNotFound (dyFindDirectoryUserByEmail d w (normalizeIdentityEmail (dv_unicode s) email)))"

definition directoryService_ListUsers ::
  "'w identityDirectoryService \<Rightarrow> 'w \<Rightarrow> string \<Rightarrow> string \<Rightarrow> int \<Rightarrow> (directoryUser list \<times> string) res" where
  "directoryService_ListUsers s w search token limit =
     withDirectory s (\<lambda>d. dyListDirectoryUsers d w search token limit)"

definition directoryService_ListTenantUsers ::
  "'w identityDirectoryService \<Rightarrow> 'w \<Rightarrow> string \<Rightarrow> string \<Rightarrow> string \<Rightarrow> int \<Rightarrow> (directoryUser list \<times> string) res" where
  "directoryService_ListTenantUsers s w tenantID search token limit =
     withDirectory s (\<lambda>d. dyListTenantDirectoryUsers d w tenantID search token limit)"

definition directoryService_GetUserAccess ::
  "'w identityDirectoryService \<Rightarrow> 'w \<Rightarrow> string \<Rightarrow>
   (directoryUser \<times> (string \<times> string list \<times> accessProvenance list) list) res" where
  "directoryService_GetUserAccess s w userID = withDirectory s (\<lambda>d. dyGetEffectiveUserAccess d w userID)"

section \<open>Groups\<close>

definition requireGroupMutation :: "'w identityDirectoryService \<Rightarrow> 'w identityDirectory res" where
  "requireGroupMutation s =
     withDirectory s (\<lambda>d. if \<not> dv_groupsWrite s then Inl ErrGroupMutationsDisabled else Inr d)"

definition directoryService_CreateGroup ::
  "'w identityDirectoryService \<Rightarrow> 'w \<Rightarrow> string \<Rightarrow> string \<Rightarrow> identityGroup res \<times> 'w" where
  "directoryService_CreateGroup s w name description =
     (case requireGroupMutation s of Inl e \<Rightarrow> (Inl e, w) | Inr d \<Rightarrow> dyCreateGroup d w name description)"

definition directoryService_GetGroup ::
  "'w identityDirectoryService \<Rightarrow> 'w \<Rightarrow> string \<Rightarrow> (identityGroup \<times> directoryUser list) res" where
  "directoryService_GetGroup s w groupID = withDirectory s (\<lambda>d. orNotFound (dyGetGroupDetail d w groupID))"

definition directoryService_ListGroups ::
  "'w identityDirectoryService \<Rightarrow> 'w \<Rightarrow> string \<Rightarrow> string \<Rightarrow> int \<Rightarrow> (identityGroup list \<times> string) res" where
  "directoryService_ListGroups s w search token limit = withDirectory s (\<lambda>d. dyListGroups d w search token limit)"

definition directoryService_PatchGroup ::
  "'w identityDirectoryService \<Rightarrow> 'w \<Rightarrow> string \<Rightarrow> groupPatch \<Rightarrow> string \<Rightarrow> identityGroup res \<times> 'w" where
  "directoryService_PatchGroup s w groupID patch ifMatch =
     (case requireGroupMutation s of Inl e \<Rightarrow> (Inl e, w) | Inr d \<Rightarrow> dyPatchGroup d w groupID patch ifMatch)"

definition directoryService_DeleteGroup ::
  "'w identityDirectoryService \<Rightarrow> 'w \<Rightarrow> string \<Rightarrow> string \<Rightarrow> bool res \<times> 'w" where
  "directoryService_DeleteGroup s w groupID ifMatch =
     (case requireGroupMutation s of Inl e \<Rightarrow> (Inl e, w) | Inr d \<Rightarrow> dyDeleteGroup d w groupID ifMatch)"

definition directoryService_PutGroupMember ::
  "'w identityDirectoryService \<Rightarrow> 'w \<Rightarrow> string \<Rightarrow> string \<Rightarrow> string \<Rightarrow> (identityGroup \<times> bool) res \<times> 'w" where
  "directoryService_PutGroupMember s w groupID userID ifMatch =
     (case requireGroupMutation s of Inl e \<Rightarrow> (Inl e, w) | Inr d \<Rightarrow> dyPutGroupMember d w groupID userID ifMatch)"

definition directoryService_DeleteGroupMember ::
  "'w identityDirectoryService \<Rightarrow> 'w \<Rightarrow> string \<Rightarrow> string \<Rightarrow> string \<Rightarrow> (identityGroup \<times> bool) res \<times> 'w" where
  "directoryService_DeleteGroupMember s w groupID userID ifMatch =
     (case requireGroupMutation s of Inl e \<Rightarrow> (Inl e, w) | Inr d \<Rightarrow> dyDeleteGroupMember d w groupID userID ifMatch)"

section \<open>Assignments\<close>

definition activeTenantError :: "('w \<Rightarrow> string \<Rightarrow> tenant option res) \<Rightarrow> 'w \<Rightarrow> string \<Rightarrow> gerror option" where
  "activeTenantError tenants w tenantID =
     (case tenants w tenantID of
        Inl e \<Rightarrow> Some e
      | Inr None \<Rightarrow> Some ErrNotFound
      | Inr (Some t) \<Rightarrow> if t_Status t \<noteq> TenantStatusActive then Some ErrMembershipDependencyInactive else None)"

text \<open>The loop over the definitions the batch read returned, one per requested name.\<close>

fun checkDefinitions :: "registry option \<Rightarrow> string \<Rightarrow> role option list \<Rightarrow> string list \<Rightarrow> gerror option" where
  "checkDefinitions rg tenantID (None # ds) names = Some ErrMembershipDependencyNotFound"
| "checkDefinitions rg tenantID (Some r # ds) (n # ns) =
     (if r_Name r \<noteq> n \<or> r_TenantId r \<noteq> tenantID then Some ErrDirectoryInvariant
      else if (case ExpectedRoleScopes rg tenantID (r_Name r) of
                 None \<Rightarrow> False | Some expected \<Rightarrow> \<not> nativeScopesEqual (r_Permissions r) expected)
      then Some ErrDirectoryInvariant
      else checkDefinitions rg tenantID ds ns)"
| "checkDefinitions rg tenantID ds ns = None"

definition PutAssignment ::
  "'w identityDirectoryService \<Rightarrow> 'w \<Rightarrow> string \<Rightarrow> string \<Rightarrow> string \<Rightarrow> string list \<Rightarrow> string \<Rightarrow>
   (accessAssignment \<times> bool) res \<times> 'w" where
  "PutAssignment s w tenantID kind principalID roles ifMatch =
     (case (dv_directory s, dv_tenants s, dv_roles s) of
        (Some d, Some tenants, Some getMany) \<Rightarrow>
          if kind = AccessPrincipalGroup \<and> \<not> dv_groupsWrite s then (Inl ErrGroupMutationsDisabled, w)
          else let canonicalRoles = sort (map TrimSpace roles) in
            (case activeTenantError tenants w tenantID of
               Some e \<Rightarrow> (Inl e, w)
             | None \<Rightarrow>
                 (case getMany w tenantID canonicalRoles of
                    Inl e \<Rightarrow> (Inl e, w)
                  | Inr definitions \<Rightarrow>
                      if length definitions \<noteq> length canonicalRoles then (Inl ErrDirectoryInvariant, w)
                      else (case checkDefinitions (dv_nativeClients s) tenantID definitions canonicalRoles of
                              Some e \<Rightarrow> (Inl e, w)
                            | None \<Rightarrow> dyPutAccessAssignment d w tenantID kind principalID canonicalRoles ifMatch)))
      | _ \<Rightarrow> (Inl ErrDirectoryInvariant, w))"

definition DeleteAssignment ::
  "'w identityDirectoryService \<Rightarrow> 'w \<Rightarrow> string \<Rightarrow> string \<Rightarrow> string \<Rightarrow> string \<Rightarrow> bool res \<times> 'w" where
  "DeleteAssignment s w tenantID kind principalID ifMatch =
     (case dv_directory s of
        None \<Rightarrow> (Inl ErrDirectoryInvariant, w)
      | Some d \<Rightarrow>
          if kind = AccessPrincipalGroup \<and> \<not> dv_groupsWrite s then (Inl ErrGroupMutationsDisabled, w)
          else dyDeleteAccessAssignment d w tenantID kind principalID ifMatch)"

definition GetAssignment ::
  "'w identityDirectoryService \<Rightarrow> 'w \<Rightarrow> string \<Rightarrow> string \<Rightarrow> string \<Rightarrow> accessAssignment res" where
  "GetAssignment s w tenantID kind principalID =
     withDirectory s (\<lambda>d. orNotFound (dyGetAccessAssignment d w tenantID kind principalID))"

definition ListAssignments ::
  "'w identityDirectoryService \<Rightarrow> 'w \<Rightarrow> string \<Rightarrow> string \<Rightarrow> int \<Rightarrow> (accessAssignment list \<times> string) res" where
  "ListAssignments s w tenantID token limit = withDirectory s (\<lambda>d. dyListAccessAssignments d w tenantID token limit)"

definition directoryService_GetEffectiveTenantRoles ::
  "'w identityDirectoryService \<Rightarrow> 'w \<Rightarrow> string \<Rightarrow> string \<Rightarrow> (string list \<times> accessProvenance list) res" where
  "directoryService_GetEffectiveTenantRoles s w userID tenantID =
     withDirectory s (\<lambda>d. dyGetEffectiveTenantRoles d w userID tenantID)"

text \<open>
  \<^verbatim>\<open>AddExactUserRole\<close> reads the assignment, other clients act (\<open>other\<close>), and it writes with the version it read.
\<close>

definition exactRoleError ::
  "'w identityDirectoryService \<Rightarrow> 'w \<Rightarrow> string \<Rightarrow> string \<Rightarrow> string list \<Rightarrow> gerror option" where
  "exactRoleError s w tenantID rname permissions =
     (case (dv_directory s, dv_tenants s, dv_roles s) of
        (Some d, Some tenants, Some getMany) \<Rightarrow>
          if rname = [] \<or> TrimSpace rname \<noteq> rname \<or>
             CanonicalPermissions (dv_policy s) permissions \<noteq> Some permissions
          then Some ErrRoleConflict
          else
            (case activeTenantError tenants w tenantID of
               Some e \<Rightarrow> Some e
             | None \<Rightarrow>
                 (case getMany w tenantID [rname] of
                    Inl e \<Rightarrow> Some e
                  | Inr [None] \<Rightarrow> Some ErrMembershipDependencyNotFound
                  | Inr [Some r] \<Rightarrow>
                      if r_Name r \<noteq> rname \<or> r_TenantId r \<noteq> tenantID \<or> r_Scope r \<noteq> RoleScopeTenant \<or>
                         r_ResourceId r \<noteq> [] \<or> r_Permissions r \<noteq> permissions
                      then Some ErrRoleConflict else None
                  | Inr _ \<Rightarrow> Some ErrDirectoryInvariant))
      | _ \<Rightarrow> Some ErrDirectoryInvariant)"

definition AddExactUserRole ::
  "'w identityDirectoryService \<Rightarrow> ('w \<Rightarrow> 'w) \<Rightarrow> 'w \<Rightarrow> string \<Rightarrow> string \<Rightarrow> string \<Rightarrow> string list \<Rightarrow>
   (accessAssignment \<times> bool) res \<times> 'w" where
  "AddExactUserRole s other w tenantID userID rname permissions =
     (case (exactRoleError s w tenantID rname permissions, dv_directory s) of
        (None, Some d) \<Rightarrow>
          (case dyGetAccessAssignment d w tenantID AccessPrincipalUser userID of
             Inl e \<Rightarrow> (Inl e, w)
           | Inr current \<Rightarrow>
               if (case current of None \<Rightarrow> False | Some a \<Rightarrow>
                     a_TenantID a \<noteq> tenantID \<or> a_PrincipalType a \<noteq> AccessPrincipalUser \<or> a_PrincipalID a \<noteq> userID)
               then (Inl ErrDirectoryInvariant, w)
               else if (case current of None \<Rightarrow> False | Some a \<Rightarrow> rname \<in> set (a_Roles a))
               then (Inr (the current, False), w)
               else
                 let roles = (case current of None \<Rightarrow> [rname] | Some a \<Rightarrow> a_Roles a @ [rname]);
                     ifMatch = (case current of None \<Rightarrow> [] | Some a \<Rightarrow> IdentityETag (a_Version a)) in
                 (case dyPutAccessAssignment d (other w) tenantID AccessPrincipalUser userID roles ifMatch of
                    (Inl e, w') \<Rightarrow> (Inl (if errors_Is e ErrInvalidArgument then ErrDirectoryInvariant else e), w')
                  | (Inr (stored, created), w') \<Rightarrow>
                      if a_TenantID stored \<noteq> tenantID \<or> a_PrincipalType stored \<noteq> AccessPrincipalUser \<or>
                         a_PrincipalID stored \<noteq> userID \<or> a_Roles stored \<noteq> sort roles
                      then (Inl ErrDirectoryInvariant, w')
                      else (Inr (stored, created \<or> (case current of None \<Rightarrow> True | Some a \<Rightarrow> a_Version stored \<noteq> a_Version a)), w')))
      | (Some e, _) \<Rightarrow> (Inl e, w)
      | (None, None) \<Rightarrow> (Inl ErrDirectoryInvariant, w))"

section \<open>Authority\<close>

definition CreatorAccess :: "'w identityDirectoryService \<Rightarrow> 'w \<Rightarrow> string \<Rightarrow> string \<Rightarrow> string \<Rightarrow> string res" where
  "CreatorAccess s w tenantID subject privilege =
     (case dv_tenants s of
        None \<Rightarrow> Inl ErrInvalidTenant
      | Some tenants \<Rightarrow>
          if privilege \<noteq> PlatformPrivilegeAdmin then Inl ErrInvalidTenant
          else
            (case activeTenantError tenants w tenantID of
               Some e \<Rightarrow> Inl e
             | None \<Rightarrow>
                 (case Option.bind (dv_users s) usByID of
                    None \<Rightarrow> Inl ErrDirectoryInvariant
                  | Some users \<Rightarrow>
                      (case idFindByID users w subject of
                         Inl e \<Rightarrow> Inl e
                       | Inr None \<Rightarrow> Inl ErrInvalidTenant
                       | Inr (Some u) \<Rightarrow>
                           if u_Id u \<noteq> subject \<or> u_Status u \<noteq> UserStatusActive \<or> u_Role u \<noteq> RoleAdmin
                           then Inl ErrInvalidTenant
                           else if trustedFederatedPlatformPrincipal u MasterTenantID privilege then Inr ''PLATFORM''
                           else if u_AuthSource u = AuthSourceSAML \<and> u_CompanyId u \<noteq> Some tenantID
                           then Inl ErrInvalidTenant
                           else Inr ''MEMBERSHIP''))))"

definition CurrentDirectoryDeletionActor ::
  "('w, 'k) userService \<Rightarrow> 'w \<Rightarrow> callEnv \<Rightarrow> string \<Rightarrow> string \<Rightarrow> string \<Rightarrow> directoryDeletionActor res" where
  "CurrentDirectoryDeletionActor s w E token issuer audience =
     (case ValidateAccessToken s w E token issuer audience of
        Inl e \<Rightarrow> Inl ErrDirectoryDeletionDenied
      | Inr c \<Rightarrow>
          let subject = claimStringValue c ''sub''; email = claimStringValue c ''email'' in
          if subject = [] \<or> claimStringValue c ''role'' \<noteq> RoleAdmin \<or>
             claimStringValue c PlatformPrivilegeClaim \<noteq> PlatformPrivilegeAdmin \<or>
             PlatformTenantAdminScope \<notin> set (Fields (claimStringValue c ''scope''))
          then Inl ErrDirectoryDeletionDenied
          else
            (case (resolveCurrentTokenUser s w subject email, tokenVersion c) of
               (Inr u, Some version) \<Rightarrow>
                 if u_Id u \<noteq> subject \<or> u_Status u \<noteq> UserStatusActive \<or> u_Role u \<noteq> RoleAdmin \<or>
                    u_PasswordChangeRequired u \<or> u_TokenVersion u \<noteq> version \<or> u_Revision u < 0 \<or>
                    \<not> currentPlatformAuthorityValid s (Some u) c
                 then Inl ErrDirectoryDeletionDenied
                 else
                   let recovered = (u_AuthSource u = AuthSourcePassword \<and> u_CompanyId u \<noteq> None \<and>
                         u_CompanyId u \<noteq> Some MasterTenantID \<and> claimStringValue c ''tid'' = MasterTenantID \<and>
                         claimStringValue c ''principal_tid'' = MasterTenantID) in
                   if recovered \<and> \<not> recoveredMasterPlatformAdministrator s w u then Inl ErrDirectoryDeletionDenied
                   else Inr \<lparr>act_UserID = u_Id u, act_TokenVersion = version, act_Revision = u_Revision u,
                             act_RecoveredMaster = recovered\<rparr>
             | _ \<Rightarrow> Inl ErrDirectoryDeletionDenied))"

section \<open>Adding one role\<close>

lemma FormatInt_inj: "FormatInt m = FormatInt n \<Longrightarrow> m = n"
proof -
  assume e: "FormatInt m = FormatInt n"
  have h: "hd (Itoa k) \<noteq> CHR ''-''" for k using Itoa_hd [of k] by (auto simp: inDigit_def)
  show ?thesis
  proof (cases "m < 0"; cases "n < 0")
    assume "m < 0" "n < 0"
    with e show ?thesis using Itoa_inj by (force simp: FormatInt_def)
  next
    assume "m < 0" "\<not> n < 0"
    with e have "hd (Itoa (nat n)) = CHR ''-''" by (simp add: FormatInt_def) (metis list.sel(1))
    with h show ?thesis by simp
  next
    assume "\<not> m < 0" "n < 0"
    with e have "hd (Itoa (nat m)) = CHR ''-''" by (simp add: FormatInt_def)
    with h show ?thesis by simp
  next
    assume "\<not> m < 0" "\<not> n < 0"
    with e show ?thesis using Itoa_inj by (force simp: FormatInt_def)
  qed
qed

lemma matchesVersion_ETag: "matchesVersion (IdentityETag m) n \<longleftrightarrow> m = n"
  using FormatInt_inj by (auto simp: matchesVersion_def IdentityETag_def)

lemma matchesVersion_Nil [simp]: "\<not> matchesVersion [] n"
  by (simp add: matchesVersion_def IdentityETag_def)

lemma exactRoleError_None:
  assumes "exactRoleError s w t n perms = None"
  shows "\<exists>getMany ro. dv_roles s = Some getMany \<and> getMany w t [n] = Inr [Some ro] \<and> r_Name ro = n \<and> r_TenantId ro = t \<and>
      r_Scope ro = RoleScopeTenant \<and> r_ResourceId ro = [] \<and> r_Permissions ro = perms"
    "CanonicalPermissions (dv_policy s) perms = Some perms" "n \<noteq> []" "TrimSpace n = n"
    "\<exists>tenants. dv_tenants s = Some tenants \<and> activeTenantError tenants w t = None"
  using assms by (auto simp: exactRoleError_def split: option.splits if_splits sum.splits list.splits)

lemma repo_assignments [simp]:
  "dyGetAccessAssignment (NewIdentityDirectoryRepo R L rg mp others clock uuid) = GetAccessAssignment R L"
  "dyPutAccessAssignment (NewIdentityDirectoryRepo R L rg mp others clock uuid) = PutAccessAssignment R L rg others clock"
  by (simp_all add: NewIdentityDirectoryRepo_def)

text \<open>The write of \<^verbatim>\<open>AddExactUserRole\<close>: what it asked for, and what the store held at the instant it was applied.\<close>

lemma AddExactUserRole_Inr:
  assumes "dv_directory s = Some (NewIdentityDirectoryRepo R L rg mp others clock uuid)"
    "AddExactUserRole s other w t u n perms = (Inr (stored, changed), w')"
  obtains current where "exactRoleError s w t n perms = None"
    "GetAccessAssignment R L w t AccessPrincipalUser u = Inr current"
    "(\<exists>a. current = Some a \<and> n \<in> set (a_Roles a) \<and> stored = a \<and> \<not> changed \<and> w' = w) \<or>
     (\<exists>created. (case current of None \<Rightarrow> True | Some a \<Rightarrow> n \<notin> set (a_Roles a)) \<and>
        a_Roles stored = sort ((case current of None \<Rightarrow> [] | Some a \<Rightarrow> a_Roles a) @ [n]) \<and>
        PutAccessAssignment R L rg others clock (other w) t AccessPrincipalUser u
          ((case current of None \<Rightarrow> [] | Some a \<Rightarrow> a_Roles a) @ [n])
          (case current of None \<Rightarrow> [] | Some a \<Rightarrow> IdentityETag (a_Version a)) = (Inr (stored, created), w'))"
proof -
  have e: "exactRoleError s w t n perms = None"
    using assms by (auto simp: AddExactUserRole_def split: option.splits)
  obtain current where g: "GetAccessAssignment R L w t AccessPrincipalUser u = Inr current"
    using assms e by (auto simp: AddExactUserRole_def split: sum.splits)
  show thesis
  proof (rule that [OF e g])
    show "(\<exists>a. current = Some a \<and> n \<in> set (a_Roles a) \<and> stored = a \<and> \<not> changed \<and> w' = w) \<or>
     (\<exists>created. (case current of None \<Rightarrow> True | Some a \<Rightarrow> n \<notin> set (a_Roles a)) \<and>
        a_Roles stored = sort ((case current of None \<Rightarrow> [] | Some a \<Rightarrow> a_Roles a) @ [n]) \<and>
        PutAccessAssignment R L rg others clock (other w) t AccessPrincipalUser u
          ((case current of None \<Rightarrow> [] | Some a \<Rightarrow> a_Roles a) @ [n])
          (case current of None \<Rightarrow> [] | Some a \<Rightarrow> IdentityETag (a_Version a)) = (Inr (stored, created), w'))"
      using assms e g
      by (cases current) (auto simp: AddExactUserRole_def Let_def split: if_splits sum.splits prod.splits)
  qed
qed

text \<open>
  What an addition rests on: the assignment \<open>current\<close> read first, whose roles and \<open>n\<close> are the roles now stored, and the
  record at the instant of the write, which is that assignment's version or already the result.
\<close>

definition exactRoleBasis ::
  "('w \<Rightarrow> keyspace) \<Rightarrow> ('w \<Rightarrow> 'w) set \<Rightarrow> 'w store \<Rightarrow> directoryLib \<Rightarrow> 'w \<Rightarrow> string \<Rightarrow> string \<Rightarrow> string \<Rightarrow> accessAssignment \<Rightarrow>
   accessAssignment option \<Rightarrow> 'w \<Rightarrow> bool" where
  "exactRoleBasis view F R L w t u n stored current v \<longleftrightarrow>
     instant view F w v \<and> GetAccessAssignment R L w t AccessPrincipalUser u = Inr current \<and>
     set (a_Roles stored) = insert n (case current of None \<Rightarrow> {} | Some a \<Rightarrow> set (a_Roles a)) \<and>
     (case ks_hash (view v) (assignmentsKey t) (assignmentField AccessPrincipalUser u) of
        None \<Rightarrow> current = None
      | Some raw \<Rightarrow> \<exists>old. decodeAssignment L raw t AccessPrincipalUser u = Inr old \<and>
          (old = stored \<or> (\<exists>a. current = Some a \<and> a_Version old = a_Version a)))"

lemma exactRoleBasis_present:
  assumes "store_ok R view" "GetAccessAssignment R L w t AccessPrincipalUser u = Inr (Some stored)" "n \<in> set (a_Roles stored)"
  shows "exactRoleBasis view F R L w t u n stored (Some stored) w"
proof -
  have "case ks_hash (view w) (assignmentsKey t) (assignmentField AccessPrincipalUser u) of
        None \<Rightarrow> Some stored = None
      | Some raw \<Rightarrow> \<exists>old. decodeAssignment L raw t AccessPrincipalUser u = Inr old \<and>
          (old = stored \<or> (\<exists>a. Some stored = Some a \<and> a_Version old = a_Version a))"
    using assms(2) store_reads(2) [OF assms(1), of w "assignmentsKey t" "assignmentField AccessPrincipalUser u"]
    by (fastforce simp: GetAccessAssignment_def readAssignment_def split: if_splits sum.splits option.splits)
  with assms(2,3) show ?thesis unfolding exactRoleBasis_def by (intro conjI start) auto
qed

lemma exactRoleBasis_put:
  assumes "store_ok R view" "codec_ok (dl_assignment L)" "marshal (dl_assignment L) stored = Inr payload"
    and "GetAccessAssignment R L w t AccessPrincipalUser u = Inr current"
    and "a_Roles stored = sort ((case current of None \<Rightarrow> [] | Some a \<Rightarrow> a_Roles a) @ [n])"
    and "PutAccessAssignment R L rg others clock (other w) t AccessPrincipalUser u
          ((case current of None \<Rightarrow> [] | Some a \<Rightarrow> a_Roles a) @ [n])
          (case current of None \<Rightarrow> [] | Some a \<Rightarrow> IdentityETag (a_Version a)) = (Inr (stored, created), w')"
  shows "\<exists>v. exactRoleBasis view (insert other (range others)) R L w t u n stored current v"
    "\<forall>q. GetAccessAssignment R L w' t AccessPrincipalUser u = Inr q \<longrightarrow> q = Some stored"
proof -
  from PutAccessAssignment_Inr [OF assms(1-3,6)] obtain v where v: "instant view (range others) (other w) v" and k:
    "created \<longleftrightarrow> ks_hash (view v) (assignmentsKey t) (assignmentField AccessPrincipalUser u) = None"
    "if created then a_Version stored = 1 \<and>
         ((case current of None \<Rightarrow> [] | Some a \<Rightarrow> IdentityETag (a_Version a)) = [] \<or>
          (case current of None \<Rightarrow> [] | Some a \<Rightarrow> IdentityETag (a_Version a)) = ''*'')
     else \<exists>raw old. ks_hash (view v) (assignmentsKey t) (assignmentField AccessPrincipalUser u) = Some raw \<and>
            decodeAssignment L raw t AccessPrincipalUser u = Inr old \<and>
            (stored = old \<or> matchesVersion (case current of None \<Rightarrow> [] | Some a \<Rightarrow> IdentityETag (a_Version a)) (a_Version old) \<and>
               a_Version stored = a_Version old + 1)"
    and last: "\<forall>q. GetAccessAssignment R L w' t AccessPrincipalUser u = Inr q \<longrightarrow> q = Some stored" by blast
  have "case ks_hash (view v) (assignmentsKey t) (assignmentField AccessPrincipalUser u) of
        None \<Rightarrow> current = None
      | Some raw \<Rightarrow> \<exists>old. decodeAssignment L raw t AccessPrincipalUser u = Inr old \<and>
          (old = stored \<or> (\<exists>a. current = Some a \<and> a_Version old = a_Version a))"
  proof (cases "ks_hash (view v) (assignmentsKey t) (assignmentField AccessPrincipalUser u)")
    case None
    with k(1,2) have "current = None" by (cases current) (auto simp: IdentityETag_def)
    with None show ?thesis by simp
  next
    case (Some raw)
    with k(1,2) obtain old where o: "decodeAssignment L raw t AccessPrincipalUser u = Inr old"
      "stored = old \<or> matchesVersion (case current of None \<Rightarrow> [] | Some a \<Rightarrow> IdentityETag (a_Version a)) (a_Version old)"
      by auto
    then have "old = stored \<or> (\<exists>a. current = Some a \<and> a_Version old = a_Version a)"
      by (cases current) (auto simp: matchesVersion_ETag)
    with Some o(1) show ?thesis by simp
  qed
  moreover have "instant view (insert other (range others)) w v"
    by (rule instant_trans [OF instant_mono [OF v]], force, rule instant.other [where f = other, OF start], simp)
  moreover have "set (a_Roles stored) = insert n (case current of None \<Rightarrow> {} | Some a \<Rightarrow> set (a_Roles a))"
    by (simp add: assms(5) split: option.split)
  ultimately show "\<exists>v. exactRoleBasis view (insert other (range others)) R L w t u n stored current v"
    using assms(4) unfolding exactRoleBasis_def by blast
  show "\<forall>q. GetAccessAssignment R L w' t AccessPrincipalUser u = Inr q \<longrightarrow> q = Some stored" by (rule last)
qed

text \<open>
  C29. Adding one role. When \<^verbatim>\<open>AddExactUserRole\<close> succeeds on the Redis directory, the tenant was active and defines the role
  under that name as its own, tenant-scoped, bound to no resource, with exactly the given permissions in canonical
  form, none of them a reserved scope that tenants may not assign; and the user's stored assignment has all the roles it
  had when it was read, and this one. At the instant of the write the assignment had the version that was read, or was
  already the result. A version is not an identity: it restarts at one when an assignment is deleted and created again,
  and a new grant between read and write is then overwritten (\<open>exact_role_overwrites_new_grant\<close> below). The read that
  follows returns what was reported.
\<close>

theorem exact_role_added:
  assumes "store_ok R view" "codec_ok (dl_assignment L)" "marshal (dl_assignment L) stored = Inr payload"
    "dv_directory s = Some (NewIdentityDirectoryRepo R L rg mp others clock uuid)"
    "AddExactUserRole s other w t u n perms = (Inr (stored, changed), w')"
  shows "(\<exists>getMany ro. dv_roles s = Some getMany \<and> getMany w t [n] = Inr [Some ro] \<and> r_Name ro = n \<and>
       r_TenantId ro = t \<and> r_Scope ro = RoleScopeTenant \<and> r_ResourceId ro = [] \<and> r_Permissions ro = perms) \<and>
    (\<exists>tenants. dv_tenants s = Some tenants \<and> activeTenantError tenants w t = None) \<and>
    n \<noteq> [] \<and> TrimSpace n = n \<and> CanonicalPermissions (dv_policy s) perms = Some perms \<and>
    (\<forall>p \<in> set perms. HasPrefix p reservedPrefix \<longrightarrow> TenantRoleAssignable (dv_policy s) p) \<and>
    (\<exists>current v. instant view (insert other (range others)) w v \<and> GetAccessAssignment R L w t AccessPrincipalUser u = Inr current \<and>
       set (a_Roles stored) = insert n (case current of None \<Rightarrow> {} | Some a \<Rightarrow> set (a_Roles a)) \<and>
       (case ks_hash (view v) (assignmentsKey t) (assignmentField AccessPrincipalUser u) of
          None \<Rightarrow> current = None
        | Some raw \<Rightarrow> \<exists>old. decodeAssignment L raw t AccessPrincipalUser u = Inr old \<and>
            (old = stored \<or> (\<exists>a. current = Some a \<and> a_Version old = a_Version a)))) \<and>
    (\<forall>q. GetAccessAssignment R L w' t AccessPrincipalUser u = Inr q \<longrightarrow> q = Some stored)"
proof -
  obtain current where c: "exactRoleError s w t n perms = None"
    "GetAccessAssignment R L w t AccessPrincipalUser u = Inr current"
    "(\<exists>a. current = Some a \<and> n \<in> set (a_Roles a) \<and> stored = a \<and> \<not> changed \<and> w' = w) \<or>
     (\<exists>created. (case current of None \<Rightarrow> True | Some a \<Rightarrow> n \<notin> set (a_Roles a)) \<and>
        a_Roles stored = sort ((case current of None \<Rightarrow> [] | Some a \<Rightarrow> a_Roles a) @ [n]) \<and>
        PutAccessAssignment R L rg others clock (other w) t AccessPrincipalUser u
          ((case current of None \<Rightarrow> [] | Some a \<Rightarrow> a_Roles a) @ [n])
          (case current of None \<Rightarrow> [] | Some a \<Rightarrow> IdentityETag (a_Version a)) = (Inr (stored, created), w'))"
    by (rule AddExactUserRole_Inr [OF assms(4,5)])
  note pre = exactRoleError_None [OF c(1)]
  have perms: "\<forall>p \<in> set perms. HasPrefix p reservedPrefix \<longrightarrow> TenantRoleAssignable (dv_policy s) p"
    using pre(2) by (simp add: CanonicalPermissions_eq_Some)
  from c(3) have "(\<exists>v. exactRoleBasis view (insert other (range others)) R L w t u n stored current v) \<and>
      (\<forall>q. GetAccessAssignment R L w' t AccessPrincipalUser u = Inr q \<longrightarrow> q = Some stored)"
  proof (elim disjE exE conjE)
    fix a assume a: "current = Some a" "n \<in> set (a_Roles a)" "stored = a" "w' = w"
    then have g: "GetAccessAssignment R L w t AccessPrincipalUser u = Inr (Some stored)" "n \<in> set (a_Roles stored)"
      using c(2) by simp_all
    have "current = Some stored" using a by simp
    then have "exactRoleBasis view (insert other (range others)) R L w t u n stored current w"
      using exactRoleBasis_present [OF assms(1) g] by simp
    moreover have "\<forall>q. GetAccessAssignment R L w' t AccessPrincipalUser u = Inr q \<longrightarrow> q = Some stored"
      by (simp add: a(4) g(1))
    ultimately show ?thesis by blast
  next
    fix created
    assume p: "a_Roles stored = sort ((case current of None \<Rightarrow> [] | Some a \<Rightarrow> a_Roles a) @ [n])"
      "PutAccessAssignment R L rg others clock (other w) t AccessPrincipalUser u
          ((case current of None \<Rightarrow> [] | Some a \<Rightarrow> a_Roles a) @ [n])
          (case current of None \<Rightarrow> [] | Some a \<Rightarrow> IdentityETag (a_Version a)) = (Inr (stored, created), w')"
    show ?thesis using exactRoleBasis_put [where other = other and w = w, OF assms(1-3) c(2) p] by (rule conjI)
  qed
  with pre perms show ?thesis unfolding exactRoleBasis_def by (intro conjI) (assumption | blast)+
qed

section \<open>A lost update\<close>

definition abaLib :: directoryLib where
  "abaLib = sampleLib\<lparr>dl_assignment := tableCodec [(reader, ''A0''), (reader\<lparr>a_Roles := [''WRITER'']\<rparr>, ''A1''),
     (reader\<lparr>a_Roles := [''OPS'', ''READER''], a_Version := 2\<rparr>, ''A2'')]\<rparr>"

definition abaMem :: Directory_Store.memory where
  "abaMem = sampleMem\<lparr>mem_keys := applyAll [CHSet (assignmentsKey ''acme'') ''user:alice'' ''A0'',
     CSAdd (principalTenantsKey AccessPrincipalUser ''alice'') ''acme''] sampleKeys\<rparr>"

definition opsRole :: role where
  "opsRole = \<lparr>r_Name = ''OPS'', r_Scope = RoleScopeTenant, r_TenantId = ''acme'', r_ResourceId = [], r_Permissions = [''files:read'']\<rparr>"

definition abaService :: "Directory_Store.memory identityDirectoryService" where
  "abaService =
     \<lparr>dv_unicode = asciiUnicode, dv_policy = compiledPolicy, dv_generate = (\<lambda>p. Inr p), dv_cost = (\<lambda>h. Inr 10),
      dv_directory = Some (NewIdentityDirectoryRepo memStore abaLib None (\<lambda>s. None) quiet (\<lambda>i. 9) ''u''),
      dv_users = None,
      dv_tenants = Some (\<lambda>w t. Inr (Some \<lparr>t_Id = t, t_Slug = t, t_Name = t, t_Status = TenantStatusActive,
        t_CreatedAt = Some 1, t_RetiredAt = None\<rparr>)),
      dv_roles = Some (\<lambda>w t ns. Inr [Some opsRole]), dv_groupsWrite = True, dv_verifyPassword = (\<lambda>h p. h = p),
      dv_rateLimits = DefaultAuthenticationRateLimits, dv_nativeClients = None\<rparr>"

text \<open>Another administrator withdraws the assignment and grants another role, each call on its own.\<close>

definition regrant :: "Directory_Store.memory \<Rightarrow> Directory_Store.memory" where
  "regrant w = snd (PutAccessAssignment memStore abaLib None quiet (\<lambda>i. 9)
     (snd (DeleteAccessAssignment memStore abaLib quiet w ''acme'' AccessPrincipalUser ''alice'' ''*''))
     ''acme'' AccessPrincipalUser ''alice'' [''WRITER''] [])"

lemma abaLib_ok: "codec_ok (dl_assignment abaLib)"
proof -
  have "dl_assignment abaLib = tableCodec [(reader, ''A0''), (reader\<lparr>a_Roles := [''WRITER'']\<rparr>, ''A1''),
     (reader\<lparr>a_Roles := [''OPS'', ''READER''], a_Version := 2\<rparr>, ''A2'')]"
    by (simp add: abaLib_def)
  also have "codec_ok \<dots>" by (rule tableCodec_ok; code_simp)
  finally show ?thesis .
qed

lemma abaLib_eval [simp]:
  "canonicalDirectoryStorageUser abaLib now (Some alice) = Inr alice" "unmarshal (dl_user abaLib) ''U0'' = Inr alice"
  "decodeAssignment abaLib ''A0'' ''acme'' AccessPrincipalUser ''alice'' = Inr reader"
  "decodeAssignment abaLib ''A1'' ''acme'' AccessPrincipalUser ''alice'' = Inr (reader\<lparr>a_Roles := [''WRITER'']\<rparr>)"
  "marshal (dl_assignment abaLib) (reader\<lparr>a_Roles := [''WRITER'']\<rparr>) = Inr ''A1''"
  "marshal (dl_assignment abaLib) (reader\<lparr>a_Roles := [''OPS'', ''READER''], a_Version := 2\<rparr>) = Inr ''A2''"
  "canonicalDirectoryRoles [''WRITER''] = Inr [''WRITER'']"
  "canonicalDirectoryRoles [''READER'', ''OPS''] = Inr [''OPS'', ''READER'']"
  "marshal (dl_assignment abaLib) \<lparr>a_TenantID = ''acme'', a_PrincipalType = AccessPrincipalUser, a_PrincipalID = ''alice'',
     a_Roles = [''WRITER''], a_Version = 1, a_CreatedAt = Some 9, a_UpdatedAt = Some 9\<rparr> = Inr ''A1''"
  "marshal (dl_assignment abaLib) (reader\<lparr>a_Roles := [''OPS'', ''READER''], a_Version := 2, a_UpdatedAt := Some 9\<rparr>) = Inr ''A2''"
  "assignmentField AccessPrincipalUser ''alice'' = ''user:alice''" "IdentityETag 1 \<noteq> []" "IdentityETag 1 \<noteq> ''*''"
  "u_AuthSource alice \<noteq> AuthSourceSAML" "a_Version reader = 1" "a_Roles reader = [''READER'']"
  by code_simp+

lemma aba_storedUser [simp]:
  "ks_hash (mem_keys w) usersHashV2 ''alice'' = Some ''U0'' \<Longrightarrow> canonicalStoredUser memStore abaLib now w ''alice'' e = Inr alice"
  by (simp add: canonicalStoredUser_def)

lemma abaMem_keys [simp]:
  "ks_hash (mem_keys abaMem) usersHashV2 = [''alice'' \<mapsto> ''U0'']"
  "ks_hash (mem_keys abaMem) (assignmentsKey ''acme'') = [''user:alice'' \<mapsto> ''A0'']"
  using sampleKeys_simps(4) [of "''acme''"] by (simp_all add: abaMem_def)

lemma aba_exact: "exactRoleError abaService w ''acme'' ''OPS'' [''files:read''] = None"
proof -
  have "validPermission ''files:read''" by code_simp
  then have "CanonicalPermissions compiledPolicy [''files:read''] = Some [''files:read'']"
    by (simp add: CanonicalPermissions_eq_Some HasPrefix_def)
  moreover have "TrimSpace ''OPS'' = ''OPS''" by code_simp
  ultimately show ?thesis
    by (simp add: exactRoleError_def abaService_def activeTenantError_def opsRole_def)
qed

lemma aba_regrant:
  "GetAccessAssignment memStore abaLib (regrant abaMem) ''acme'' AccessPrincipalUser ''alice'' =
     Inr (Some (reader\<lparr>a_Roles := [''WRITER'']\<rparr>))"
  by (simp add: regrant_def DeleteAccessAssignment_def PutAccessAssignment_def retryTx_first deleteAccessAssignmentTx_def
      putAccessAssignmentTx_def assignmentPrincipalError_def watchTx_def Let_def readAssignment_def GetAccessAssignment_def)

lemma aba_current:
  "dyGetAccessAssignment (the (dv_directory abaService)) abaMem ''acme'' AccessPrincipalUser ''alice'' = Inr (Some reader)"
  by (simp add: abaService_def GetAccessAssignment_def readAssignment_def)

lemma aba_put:
  "fst (PutAccessAssignment memStore abaLib None quiet (\<lambda>i. 9) (regrant abaMem) ''acme'' AccessPrincipalUser ''alice''
     [''READER'', ''OPS''] (IdentityETag 1)) = Inr (reader\<lparr>a_Roles := [''OPS'', ''READER''], a_Version := 2, a_UpdatedAt := Some 9\<rparr>, False)"
  by (simp add: regrant_def DeleteAccessAssignment_def PutAccessAssignment_def retryTx_first deleteAccessAssignmentTx_def
      putAccessAssignmentTx_def assignmentPrincipalError_def watchTx_def Let_def readAssignment_def matchesVersion_ETag)

text \<open>
  The version of an assignment does not tell two grants apart. An administrator withdraws the assignment that
  \<^verbatim>\<open>AddExactUserRole\<close> has read and grants another role, before the write. The new assignment again has version one, so
  the write is accepted: the withdrawn role comes back, and the role that was granted since is gone.
\<close>

theorem exact_role_overwrites_new_grant:
  "GetAccessAssignment memStore abaLib abaMem ''acme'' AccessPrincipalUser ''alice'' = Inr (Some reader) \<and>
   GetAccessAssignment memStore abaLib (regrant abaMem) ''acme'' AccessPrincipalUser ''alice'' =
     Inr (Some (reader\<lparr>a_Roles := [''WRITER'']\<rparr>)) \<and>
   fst (AddExactUserRole abaService regrant abaMem ''acme'' ''alice'' ''OPS'' [''files:read'']) =
     Inr (reader\<lparr>a_Roles := [''OPS'', ''READER''], a_Version := 2, a_UpdatedAt := Some 9\<rparr>, True)"
proof -
  obtain d where d: "dv_directory abaService = Some d" "dyGetAccessAssignment d abaMem ''acme'' AccessPrincipalUser ''alice'' = Inr (Some reader)"
    "dyPutAccessAssignment d = PutAccessAssignment memStore abaLib None quiet (\<lambda>i. 9)"
    using aba_current by (simp add: abaService_def)
  obtain w' where p: "PutAccessAssignment memStore abaLib None quiet (\<lambda>i. 9) (regrant abaMem) ''acme'' AccessPrincipalUser ''alice''
     [''READER'', ''OPS''] (IdentityETag 1) = (Inr (reader\<lparr>a_Roles := [''OPS'', ''READER''], a_Version := 2, a_UpdatedAt := Some 9\<rparr>, False), w')"
    using aba_put by (metis prod.collapse)
  have f: "a_TenantID reader = ''acme''" "a_PrincipalType reader = AccessPrincipalUser" "a_PrincipalID reader = ''alice''"
    "sort [''READER'', ''OPS''] = [''OPS'', ''READER'']" by code_simp+
  have "fst (AddExactUserRole abaService regrant abaMem ''acme'' ''alice'' ''OPS'' [''files:read'']) =
     Inr (reader\<lparr>a_Roles := [''OPS'', ''READER''], a_Version := 2, a_UpdatedAt := Some 9\<rparr>, True)"
    using d p f by (simp add: AddExactUserRole_def aba_exact)
  moreover have "GetAccessAssignment memStore abaLib abaMem ''acme'' AccessPrincipalUser ''alice'' = Inr (Some reader)"
    by (simp add: GetAccessAssignment_def readAssignment_def)
  ultimately show ?thesis using aba_regrant by blast
qed

lemma aba_put_quiet:
  "fst (PutAccessAssignment memStore abaLib None quiet (\<lambda>i. 9) abaMem ''acme'' AccessPrincipalUser ''alice''
     [''READER'', ''OPS''] (IdentityETag 1)) = Inr (reader\<lparr>a_Roles := [''OPS'', ''READER''], a_Version := 2, a_UpdatedAt := Some 9\<rparr>, False)"
  by (simp add: PutAccessAssignment_def retryTx_first putAccessAssignmentTx_def assignmentPrincipalError_def watchTx_def
      Let_def readAssignment_def matchesVersion_ETag)

theorem exact_role_added_witness:
  "\<exists>w'. AddExactUserRole abaService (quiet 0) abaMem ''acme'' ''alice'' ''OPS'' [''files:read''] =
       (Inr (reader\<lparr>a_Roles := [''OPS'', ''READER''], a_Version := 2, a_UpdatedAt := Some 9\<rparr>, True), w') \<and>
     (\<forall>q. GetAccessAssignment memStore abaLib w' ''acme'' AccessPrincipalUser ''alice'' = Inr q \<longrightarrow>
        q = Some (reader\<lparr>a_Roles := [''OPS'', ''READER''], a_Version := 2, a_UpdatedAt := Some 9\<rparr>))"
proof -
  let ?a = "reader\<lparr>a_Roles := [''OPS'', ''READER''], a_Version := 2, a_UpdatedAt := Some 9\<rparr>"
  have d: "dv_directory abaService = Some (NewIdentityDirectoryRepo memStore abaLib None (\<lambda>s. None) quiet (\<lambda>i. 9) ''u'')"
    by (simp add: abaService_def)
  have g: "GetAccessAssignment memStore abaLib abaMem ''acme'' AccessPrincipalUser ''alice'' = Inr (Some reader)"
    by (simp add: GetAccessAssignment_def readAssignment_def)
  obtain w' where p: "PutAccessAssignment memStore abaLib None quiet (\<lambda>i. 9) abaMem ''acme'' AccessPrincipalUser ''alice''
     [''READER'', ''OPS''] (IdentityETag 1) = (Inr (?a, False), w')"
    using aba_put_quiet by (metis prod.collapse)
  have f: "a_TenantID reader = ''acme''" "a_PrincipalType reader = AccessPrincipalUser" "a_PrincipalID reader = ''alice''"
    "sort [''READER'', ''OPS''] = [''OPS'', ''READER'']" by code_simp+
  have run: "AddExactUserRole abaService (quiet 0) abaMem ''acme'' ''alice'' ''OPS'' [''files:read''] = (Inr (?a, True), w')"
    using d g p f by (simp add: AddExactUserRole_def aba_exact)
  have m: "marshal (dl_assignment abaLib) ?a = Inr ''A2''" by simp
  from exact_role_added [OF memStore_ok abaLib_ok m d run] run show ?thesis by blast
qed

end
