(* ===== verification/Client_Repository.thy ===== *)
theory Client_Repository
  imports Directory_Samples Client_Service Instants
begin

text \<open>
  Audience clients in Redis: \<^verbatim>\<open>client_repository.go\<close> and \<^verbatim>\<open>client_audience_scopes.go\<close>. A client is a field of the hash
  of its tenant. The clients the installation manages have a second copy in a hash of markers; the Lua scripts change
  record and marker together, by compare-and-swap on the exact stored text, and the generic operations refuse marked
  clients. The JSON of a client is a parameter: \<open>kc_strict\<close> is the decoder that refuses unknown fields and trailing
  text.
\<close>

section \<open>The records\<close>

record clientCodec =
  kc_marshal :: "client \<Rightarrow> string res"
  kc_unmarshal :: "string \<Rightarrow> client res"
  kc_strict :: "string \<Rightarrow> client option"

abbreviation errStoredManagedClientContract :: gerror where
  "errStoredManagedClientContract \<equiv> ErrText ''stored managed client contract mismatch''"
abbreviation contextCanceled :: gerror where "contextCanceled \<equiv> ErrText ''context canceled''"
abbreviation contextDeadlineExceeded :: gerror where "contextDeadlineExceeded \<equiv> ErrText ''context deadline exceeded''"

definition contextDone :: "gerror \<Rightarrow> bool" where
  "contextDone e \<longleftrightarrow> errors_Is e contextCanceled \<or> errors_Is e contextDeadlineExceeded"

definition clientsKey :: "string \<Rightarrow> string" where
  "clientsKey tenantID = ''clients:'' @ tenantID"

definition managedClientsKey :: "string \<Rightarrow> string" where
  "managedClientsKey tenantID = ''managedClients:'' @ tenantID"

definition validManagedAudienceClient :: "policy \<Rightarrow> string \<Rightarrow> client \<Rightarrow> bool" where
  "validManagedAudienceClient P tenantID c \<longleftrightarrow>
     activeTenantIdentity tenantID \<and>
     (IsManagedCodeAdminAudience tenantID (Some c) \<or> IsManagedWorkloadAccountAudience tenantID (Some c) \<or>
      IsManagedAIGatewayAudienceRecord tenantID (Some c)) \<and>
     ValidCanonicalAudienceScopes P (c_DefaultScopes c)"

definition sameManagedAudienceOwner :: "policy \<Rightarrow> client \<Rightarrow> client \<Rightarrow> bool" where
  "sameManagedAudienceOwner P l r \<longleftrightarrow>
     validManagedAudienceClient P (c_TenantId l) l \<and> validManagedAudienceClient P (c_TenantId r) r \<and>
     c_Id l = c_Id r \<and> c_TenantId l = c_TenantId r \<and> c_ManagedBy l = c_ManagedBy r"

definition sameManagedAudienceClient :: "policy \<Rightarrow> client \<Rightarrow> client \<Rightarrow> bool" where
  "sameManagedAudienceClient P l r \<longleftrightarrow>
     sameManagedAudienceOwner P l r \<and> c_Status l = c_Status r \<and> c_DefaultScopes l = c_DefaultScopes r"

definition adoptableLegacyManagedAudienceClient :: "client \<Rightarrow> client \<Rightarrow> bool" where
  "adoptableLegacyManagedAudienceClient legacy desired \<longleftrightarrow>
     c_Id legacy = c_Id desired \<and> c_TenantId legacy = c_TenantId desired \<and>
     list_all (\<lambda>sc. sc \<in> set (c_DefaultScopes desired)) (c_DefaultScopes legacy)"

definition decodeManagedAudienceClient :: "clientCodec \<Rightarrow> policy \<Rightarrow> string \<Rightarrow> string \<Rightarrow> client option" where
  "decodeManagedAudienceClient K P tenantID val =
     (case kc_strict K val of
        None \<Rightarrow> None | Some c \<Rightarrow> if \<not> validManagedAudienceClient P tenantID c then None else Some c)"

definition decodeLegacyManagedAudienceClient :: "clientCodec \<Rightarrow> policy \<Rightarrow> string \<Rightarrow> string \<Rightarrow> client option" where
  "decodeLegacyManagedAudienceClient K P tenantID val =
     (case kc_strict K val of
        None \<Rightarrow> None
      | Some c \<Rightarrow>
          if c_Id c \<noteq> CodeAdminAudienceClientID \<or> c_TenantId c \<noteq> tenantID \<or> c_SecretHash c \<noteq> [] \<or>
             c_Type c \<noteq> ClientTypeService \<or> c_Status c \<noteq> ClientStatusActive \<or> c_ManagedBy c \<noteq> [] \<or>
             c_AllowedGrantTypes c \<noteq> [GrantTypeTokenExchange] \<or>
             \<not> ValidCanonicalAudienceScopes P (c_DefaultScopes c)
          then None else Some c)"

definition decodeBootstrapLegacyCodeAdminAudience :: "clientCodec \<Rightarrow> policy \<Rightarrow> string \<Rightarrow> string \<Rightarrow> client option" where
  "decodeBootstrapLegacyCodeAdminAudience K P tenantID val =
     (case kc_strict K val of
        None \<Rightarrow> None
      | Some c \<Rightarrow>
          if \<not> IsBootstrapLegacyCodeAdminAudience tenantID (Some c) \<or> \<not> ValidCanonicalAudienceScopes P (c_DefaultScopes c)
          then None else Some c)"

section \<open>The scripts\<close>

text \<open>The third argument of \<^verbatim>\<open>clientCreateOnceScript\<close> is a fixed text that a managed record contains.\<close>

definition clientCreateOnceScript :: "string \<Rightarrow> string \<Rightarrow> string \<Rightarrow> keyspace \<Rightarrow> string list \<times> cmd list" where
  "clientCreateOnceScript tenantID clientID data ks =
     (if ks_hash ks (managedClientsKey tenantID) clientID \<noteq> None then ([''protected''], [])
      else (case ks_hash ks (clientsKey tenantID) clientID of
              Some existing \<Rightarrow>
                ([if sublist ([CHR 0x22] @ ''managedBy'' @ [CHR 0x22, CHR '':'', CHR 0x22]) existing
                  then ''corrupt'' else ''exists''], [])
            | None \<Rightarrow> ([''stored''], [CHSet (clientsKey tenantID) clientID data])))"

definition bootstrapClientUpsertScript :: "string \<Rightarrow> string \<Rightarrow> string \<Rightarrow> keyspace \<Rightarrow> string list \<times> cmd list" where
  "bootstrapClientUpsertScript tenantID clientID data ks =
     (if ks_hash ks (managedClientsKey tenantID) clientID \<noteq> None then ([''protected''], [])
      else ([''stored''], [CHSet (clientsKey tenantID) clientID data]))"

definition setBoth :: "string \<Rightarrow> string \<Rightarrow> string \<Rightarrow> cmd list" where
  "setBoth tenantID clientID payload =
     [CHSet (clientsKey tenantID) clientID payload, CHSet (managedClientsKey tenantID) clientID payload]"

definition managedClientEnsureScript :: "string \<Rightarrow> string \<Rightarrow> string \<Rightarrow> keyspace \<Rightarrow> string list \<times> cmd list" where
  "managedClientEnsureScript tenantID clientID payload ks =
     (case (ks_hash ks (clientsKey tenantID) clientID, ks_hash ks (managedClientsKey tenantID) clientID) of
        (None, None) \<Rightarrow> ([''created'', payload], setBoth tenantID clientID payload)
      | (Some val, None) \<Rightarrow> ([''shadow'', val], [])
      | (None, Some marker) \<Rightarrow> ([''corrupt'', []], [])
      | (Some val, Some marker) \<Rightarrow> (if marker \<noteq> val then [''corrupt'', []] else [''existing'', val], []))"

definition managedClientReconcileScript ::
  "string \<Rightarrow> string \<Rightarrow> string \<Rightarrow> string \<Rightarrow> keyspace \<Rightarrow> string list \<times> cmd list" where
  "managedClientReconcileScript tenantID clientID before payload ks =
     (case (ks_hash ks (clientsKey tenantID) clientID, ks_hash ks (managedClientsKey tenantID) clientID) of
        (Some val, Some marker) \<Rightarrow>
          if val \<noteq> before \<or> marker \<noteq> before then ([''changed'', val], [])
          else ([''updated'', payload], setBoth tenantID clientID payload)
      | (val, _) \<Rightarrow> ([''changed'', case val of None \<Rightarrow> [] | Some v \<Rightarrow> v], []))"

definition managedClientAdoptScript ::
  "string \<Rightarrow> string \<Rightarrow> string \<Rightarrow> string \<Rightarrow> keyspace \<Rightarrow> string list \<times> cmd list" where
  "managedClientAdoptScript tenantID clientID before payload ks =
     (case (ks_hash ks (clientsKey tenantID) clientID, ks_hash ks (managedClientsKey tenantID) clientID) of
        (Some val, None) \<Rightarrow>
          if val \<noteq> before then ([''changed'', val], [])
          else ([''adopted'', payload], setBoth tenantID clientID payload)
      | (val, _) \<Rightarrow> ([''changed'', case val of None \<Rightarrow> [] | Some v \<Rightarrow> v], []))"

definition managedClientGetScript :: "string \<Rightarrow> string \<Rightarrow> keyspace \<Rightarrow> string list \<times> cmd list" where
  "managedClientGetScript tenantID clientID ks =
     (case (ks_hash ks (clientsKey tenantID) clientID, ks_hash ks (managedClientsKey tenantID) clientID) of
        (None, None) \<Rightarrow> [''missing'', []]
      | (Some val, None) \<Rightarrow> [''legacy'', val]
      | (None, Some marker) \<Rightarrow> [''corrupt'', []]
      | (Some val, Some marker) \<Rightarrow> if marker \<noteq> val then [''corrupt'', []] else [''managed'', val], [])"

definition existingAudienceScopesScript ::
  "string \<Rightarrow> string \<Rightarrow> string \<Rightarrow> string \<Rightarrow> bool \<Rightarrow> keyspace \<Rightarrow> string list \<times> cmd list" where
  "existingAudienceScopesScript tenantID clientID before after managed ks =
     (let val = ks_hash ks (clientsKey tenantID) clientID; marker = ks_hash ks (managedClientsKey tenantID) clientID in
      if val \<noteq> Some before then ([''changed''], [])
      else if managed \<and> marker \<noteq> val then ([''changed''], [])
      else if \<not> managed \<and> marker \<noteq> None then ([''changed''], [])
      else ([''updated''],
            CHSet (clientsKey tenantID) clientID after #
            (if managed then [CHSet (managedClientsKey tenantID) clientID after] else [])))"

text \<open>\<^verbatim>\<open>Eval\<close> of a script that answers a status and a text, as the managed operations read it.\<close>

definition evalPair :: "'w store \<Rightarrow> (keyspace \<Rightarrow> string list \<times> cmd list) \<Rightarrow> 'w \<Rightarrow> (string \<times> string) res \<times> 'w" where
  "evalPair R script w =
     (case rEval R w script of
        (Inl e, w') \<Rightarrow> (Inl (if contextDone e then e else errStoredManagedClientContract), w')
      | (Inr [status, val], w') \<Rightarrow> (Inr (status, val), w')
      | (Inr _, w') \<Rightarrow> (Inl errStoredManagedClientContract, w'))"

section \<open>Generic clients\<close>

definition unmanagedClientPayload :: "clientCodec \<Rightarrow> string \<Rightarrow> client option \<Rightarrow> (string \<times> string) res" where
  "unmanagedClientPayload K tenantID0 oc =
     (let tenantID = TrimSpace tenantID0 in
      case oc of
        None \<Rightarrow> Inl ErrInvalidArgument
      | Some c \<Rightarrow>
          let clientID = TrimSpace (c_Id c) in
          if \<not> activeTenantIdentity tenantID \<or> clientID = [] \<or> c_ManagedBy c \<noteq> [] then Inl ErrInvalidArgument
          else (case kc_marshal K (c\<lparr>c_Id := clientID\<rparr>) of Inl e \<Rightarrow> Inl e | Inr data \<Rightarrow> Inr (clientID, data)))"

definition clientRepo_Create :: "'w store \<Rightarrow> clientCodec \<Rightarrow> 'w \<Rightarrow> string \<Rightarrow> client option \<Rightarrow> gerror option \<times> 'w" where
  "clientRepo_Create R K w tenantID0 oc =
     (let tenantID = TrimSpace tenantID0 in
      case unmanagedClientPayload K tenantID oc of
        Inl e \<Rightarrow> (Some e, w)
      | Inr (clientID, data) \<Rightarrow>
          (case rEval R w (clientCreateOnceScript tenantID clientID data) of
             (Inl e, w') \<Rightarrow> (Some e, w')
           | (Inr r, w') \<Rightarrow>
               (if r = [''stored''] then None
                else if r = [''protected''] then Some ErrManagedClientConflict
                else if r = [''exists''] then Some ErrClientConflict
                else Some errStoredManagedClientContract, w')))"

definition UpsertBootstrap :: "'w store \<Rightarrow> clientCodec \<Rightarrow> 'w \<Rightarrow> string \<Rightarrow> client option \<Rightarrow> gerror option \<times> 'w" where
  "UpsertBootstrap R K w tenantID0 oc =
     (let tenantID = TrimSpace tenantID0 in
      case unmanagedClientPayload K tenantID oc of
        Inl e \<Rightarrow> (Some e, w)
      | Inr (clientID, data) \<Rightarrow>
          (case rEval R w (bootstrapClientUpsertScript tenantID clientID data) of
             (Inl e, w') \<Rightarrow> (Some e, w')
           | (Inr r, w') \<Rightarrow>
               (if r = [''protected''] then Some ErrManagedClientConflict
                else if r \<noteq> [''stored''] then Some errStoredManagedClientContract
                else None, w')))"

section \<open>Managed clients\<close>

text \<open>
  The four rounds of \<^verbatim>\<open>for range 4\<close>; \<^term>\<open>None\<close> is \<^verbatim>\<open>continue\<close>. Between the scripts of a round and between the rounds
  other clients act.
\<close>

fun casLoop :: "(nat \<Rightarrow> 'w \<Rightarrow> 'a res option \<times> 'w) \<Rightarrow> nat \<Rightarrow> nat \<Rightarrow> 'w \<Rightarrow> 'a res \<times> 'w" where
  "casLoop attempt i 0 w = (Inl ErrManagedClientConflict, w)"
| "casLoop attempt i (Suc left) w =
     (case attempt i w of
        (Some r, w') \<Rightarrow> (r, w')
      | (None, w') \<Rightarrow> casLoop attempt (Suc i) left w')"

text \<open>What the code does with the answer of the second script of a round.\<close>

definition swapped ::
  "clientCodec \<Rightarrow> policy \<Rightarrow> string \<Rightarrow> string \<Rightarrow> string \<Rightarrow> (client \<Rightarrow> bool) \<Rightarrow> (string \<times> string) res \<times> 'w \<Rightarrow>
   client res option \<times> 'w" where
  "swapped K P tenantID expected payload accepted answer =
     (case answer of
        (Inl e, w') \<Rightarrow> (Some (Inl e), w')
      | (Inr (status, val), w') \<Rightarrow>
          if status = ''changed'' then (None, w')
          else if status \<noteq> expected \<or> val \<noteq> payload then (Some (Inl errStoredManagedClientContract), w')
          else (case decodeManagedAudienceClient K P tenantID val of
                  None \<Rightarrow> (Some (Inl errStoredManagedClientContract), w')
                | Some stored \<Rightarrow>
                    (Some (if \<not> accepted stored then Inl errStoredManagedClientContract else Inr stored), w')))"

definition with_flag :: "bool \<Rightarrow> 'a res option \<times> 'w \<Rightarrow> ('a \<times> bool) res option \<times> 'w" where
  "with_flag b r = (map_option (map_sum id (\<lambda>x. (x, b))) (fst r), snd r)"

definition ensureManagedAttempt ::
  "'w store \<Rightarrow> clientCodec \<Rightarrow> policy \<Rightarrow> ('w \<Rightarrow> 'w) \<Rightarrow> string \<Rightarrow> client \<Rightarrow> string \<Rightarrow> 'w \<Rightarrow> (client \<times> bool) res option \<times> 'w" where
  "ensureManagedAttempt R K P other tenantID c payload w =
     (case evalPair R (managedClientEnsureScript tenantID (c_Id c) payload) w of
        (Inl e, w') \<Rightarrow> (Some (Inl e), w')
      | (Inr (status, val), w') \<Rightarrow>
          if status = ''shadow'' then
            (case decodeLegacyManagedAudienceClient K P tenantID val of
               None \<Rightarrow> (Some (Inl ErrManagedClientConflict), w')
             | Some legacy \<Rightarrow>
                 if \<not> adoptableLegacyManagedAudienceClient legacy c \<or> kc_marshal K legacy \<noteq> Inr val
                 then (Some (Inl ErrManagedClientConflict), w')
                 else with_flag False
                   (swapped K P tenantID ''adopted'' payload (\<lambda>stored. sameManagedAudienceClient P stored c)
                     (evalPair R (managedClientAdoptScript tenantID (c_Id c) val payload) (other w'))))
          else if status \<noteq> ''created'' \<and> status \<noteq> ''existing'' then (Some (Inl errStoredManagedClientContract), w')
          else
            (case decodeManagedAudienceClient K P tenantID val of
               None \<Rightarrow> (Some (Inl errStoredManagedClientContract), w')
             | Some stored \<Rightarrow>
                 if kc_marshal K stored \<noteq> Inr val then (Some (Inl errStoredManagedClientContract), w')
                 else if sameManagedAudienceClient P stored c then
                   (if val \<noteq> payload then (Some (Inl errStoredManagedClientContract), w')
                    else (Some (Inr (stored, status = ''created'')), w'))
                 else if status = ''created'' \<or> \<not> sameManagedAudienceOwner P stored c
                 then (Some (Inl errStoredManagedClientContract), w')
                 else with_flag False
                   (swapped K P tenantID ''updated'' payload (\<lambda>reconciled. sameManagedAudienceClient P reconciled c)
                     (evalPair R (managedClientReconcileScript tenantID (c_Id c) val payload) (other w')))))"

definition EnsureManagedAudience ::
  "'w store \<Rightarrow> clientCodec \<Rightarrow> policy \<Rightarrow> (nat \<Rightarrow> 'w \<Rightarrow> 'w) \<Rightarrow> (nat \<Rightarrow> 'w \<Rightarrow> 'w) \<Rightarrow> 'w \<Rightarrow> string \<Rightarrow> client \<Rightarrow>
   (client \<times> bool) res \<times> 'w" where
  "EnsureManagedAudience R K P others between w tenantID c =
     (if \<not> validManagedAudienceClient P tenantID c then (Inl ErrInvalidArgument, w)
      else (case kc_marshal K c of
              Inl e \<Rightarrow> (Inl e, w)
            | Inr payload \<Rightarrow>
                casLoop (\<lambda>i v. ensureManagedAttempt R K P (others i) tenantID c payload (between i v)) 0 4 w))"

definition setStatusAttempt ::
  "'w store \<Rightarrow> clientCodec \<Rightarrow> policy \<Rightarrow> ('w \<Rightarrow> 'w) \<Rightarrow> string \<Rightarrow> string \<Rightarrow> string \<Rightarrow> string \<Rightarrow> 'w \<Rightarrow>
   (client option \<times> bool) res option \<times> 'w" where
  "setStatusAttempt R K P other tenantID clientID managedBy status w =
     (case evalPair R (managedClientGetScript tenantID clientID) w of
        (Inl e, w') \<Rightarrow> (Some (Inl e), w')
      | (Inr (found, val), w') \<Rightarrow>
          if found = ''missing'' then (Some (Inr (None, False)), w')
          else if found = ''legacy'' then (Some (Inl ErrManagedClientConflict), w')
          else if found \<noteq> ''managed'' then (Some (Inl errStoredManagedClientContract), w')
          else
            (case decodeManagedAudienceClient K P tenantID val of
               None \<Rightarrow> (Some (Inl errStoredManagedClientContract), w')
             | Some current \<Rightarrow>
                 if c_Id current \<noteq> clientID \<or> c_ManagedBy current \<noteq> managedBy
                 then (Some (Inl ErrManagedClientConflict), w')
                 else if c_Status current = status then (Some (Inr (Some current, False)), w')
                 else if \<not> validManagedAudienceClient P tenantID (current\<lparr>c_Status := status\<rparr>)
                 then (Some (Inl ErrInvalidArgument), w')
                 else
                   (case kc_marshal K (current\<lparr>c_Status := status\<rparr>) of
                      Inl e \<Rightarrow> (Some (Inl e), w')
                    | Inr payload \<Rightarrow>
                        apfst (map_option (map_sum id (\<lambda>stored. (Some stored, True))))
                          (swapped K P tenantID ''updated'' payload (\<lambda>stored. c_Status stored = status)
                            (evalPair R (managedClientReconcileScript tenantID clientID val payload) (other w'))))))"

definition SetManagedAudienceStatus ::
  "'w store \<Rightarrow> clientCodec \<Rightarrow> policy \<Rightarrow> (nat \<Rightarrow> 'w \<Rightarrow> 'w) \<Rightarrow> (nat \<Rightarrow> 'w \<Rightarrow> 'w) \<Rightarrow> 'w \<Rightarrow>
   string \<Rightarrow> string \<Rightarrow> string \<Rightarrow> string \<Rightarrow> (client option \<times> bool) res \<times> 'w" where
  "SetManagedAudienceStatus R K P others between w tenantID clientID managedBy status =
     (if \<not> activeTenantIdentity tenantID \<or> clientID = [] \<or> managedBy = [] \<or>
         status \<noteq> ClientStatusActive \<and> status \<noteq> ClientStatusInactive
      then (Inl ErrInvalidArgument, w)
      else casLoop (\<lambda>i v. setStatusAttempt R K P (others i) tenantID clientID managedBy status (between i v)) 0 4 w)"

section \<open>Reads\<close>

definition clientRepo_Get :: "'w store \<Rightarrow> clientCodec \<Rightarrow> policy \<Rightarrow> 'w \<Rightarrow> string \<Rightarrow> string \<Rightarrow> client option res \<times> 'w" where
  "clientRepo_Get R K P w tenantID clientID =
     (if \<not> activeTenantIdentity (TrimSpace tenantID) then (Inl ErrInvalidTenant, w)
      else
        (case rEval R w (managedClientGetScript tenantID clientID) of
           (Inl e, w') \<Rightarrow> (Inl e, w')
         | (Inr [status, val], w') \<Rightarrow>
             (if status = ''missing'' then Inr None
              else if status = ''managed'' then
                (case decodeManagedAudienceClient K P tenantID val of
                   None \<Rightarrow> Inl errStoredManagedClientContract | Some c \<Rightarrow> Inr (Some c))
              else if status = ''legacy'' then
                (case kc_unmarshal K val of
                   Inl e \<Rightarrow> Inl e
                 | Inr c \<Rightarrow> if c_ManagedBy c \<noteq> [] then Inl errStoredManagedClientContract else Inr (Some c))
              else Inl errStoredManagedClientContract, w')
         | (Inr _, w') \<Rightarrow> (Inl errStoredManagedClientContract, w')))"

text \<open>The loop of \<^verbatim>\<open>List\<close> over the fields of the hash, in the order the map is visited.\<close>

fun listedClients ::
  "clientCodec \<Rightarrow> policy \<Rightarrow> string \<Rightarrow> (string \<Rightarrow> string option) \<Rightarrow> (string \<times> string) list \<Rightarrow> client list res" where
  "listedClients K P tenantID markers [] = Inr []"
| "listedClients K P tenantID markers ((field, v) # kvs) =
     (case kc_unmarshal K v of
        Inl e \<Rightarrow> Inl e
      | Inr c \<Rightarrow>
          (case (case markers field of
                   Some marker \<Rightarrow>
                     (case decodeManagedAudienceClient K P tenantID v of
                        None \<Rightarrow> None | Some m \<Rightarrow> if marker \<noteq> v then None else Some m)
                 | None \<Rightarrow> if c_ManagedBy c \<noteq> [] then None else Some c) of
             None \<Rightarrow> Inl errStoredManagedClientContract
           | Some d \<Rightarrow>
               (case listedClients K P tenantID markers kvs of Inl e \<Rightarrow> Inl e | Inr ds \<Rightarrow> Inr (d # ds))))"

text \<open>Both hashes are read in one transaction.\<close>

definition clientRepo_List :: "'w store \<Rightarrow> clientCodec \<Rightarrow> policy \<Rightarrow> 'w \<Rightarrow> string \<Rightarrow> client list res" where
  "clientRepo_List R K P w tenantID =
     (if \<not> activeTenantIdentity (TrimSpace tenantID) then Inl ErrInvalidTenant
      else
        (case rHGetAll R w (clientsKey tenantID) of
           Inl e \<Rightarrow> Inl e
         | Inr vals \<Rightarrow>
             (case rHGetAll R w (managedClientsKey tenantID) of
                Inl e \<Rightarrow> Inl e
              | Inr markers \<Rightarrow>
                  (case listedClients K P tenantID (map_of markers) vals of
                     Inl e \<Rightarrow> Inl e
                   | Inr out \<Rightarrow>
                       if length (filter (\<lambda>kv. map_of markers (fst kv) \<noteq> None) vals) \<noteq> length markers
                       then Inl errStoredManagedClientContract
                       else Inr out))))"

section \<open>The scope ceiling of the administration audience\<close>

definition ReconcileCodeAdminAudienceScopes ::
  "'w store \<Rightarrow> clientCodec \<Rightarrow> policy \<Rightarrow> 'w \<Rightarrow> string \<Rightarrow> client option \<Rightarrow> string list \<Rightarrow> client res \<times> 'w" where
  "ReconcileCodeAdminAudienceScopes R K P w tenantID oc scopes =
     (let managed = IsManagedCodeAdminAudience tenantID oc;
          bootstrapHome = (tenantID = MasterTenantID \<and> IsBootstrapLegacyCodeAdminAudience tenantID oc) in
      case oc of
        None \<Rightarrow> (Inl ErrManagedClientConflict, w)
      | Some current \<Rightarrow>
          if \<not> managed \<and> \<not> bootstrapHome \<or> \<not> ValidCanonicalAudienceScopes P scopes then (Inl ErrManagedClientConflict, w)
          else
            (case kc_marshal K current of
               Inl e \<Rightarrow> (Inl e, w)
             | Inr before \<Rightarrow>
                 let desired = current\<lparr>c_DefaultScopes := scopes\<rparr> in
                 (case kc_marshal K desired of
                    Inl e \<Rightarrow> (Inl e, w)
                  | Inr after \<Rightarrow>
                      (case rEval R w (existingAudienceScopesScript tenantID (c_Id current) before after managed) of
                         (Inl e, w') \<Rightarrow> (Inl e, w')
                       | (Inr r, w') \<Rightarrow> (if r \<noteq> [''updated''] then Inl ErrManagedClientConflict else Inr desired, w')))))"

definition raiseBootstrapLegacyCodeAdminAudience ::
  "'w store \<Rightarrow> clientCodec \<Rightarrow> policy \<Rightarrow> string \<Rightarrow> string \<Rightarrow> client \<Rightarrow> 'w \<Rightarrow> client res option \<times> 'w" where
  "raiseBootstrapLegacyCodeAdminAudience R K P tenantID before nxt w =
     (if \<not> IsBootstrapLegacyCodeAdminAudience tenantID (Some nxt) \<or> \<not> ValidCanonicalAudienceScopes P (c_DefaultScopes nxt)
      then (Some (Inl ErrManagedClientConflict), w)
      else
        (case kc_marshal K nxt of
           Inl e \<Rightarrow> (Some (Inl e), w)
         | Inr payload \<Rightarrow>
             (case rEval R w (existingAudienceScopesScript tenantID CodeAdminAudienceClientID before payload False) of
                (Inl e, w') \<Rightarrow> (Some (Inl (if contextDone e then e else errStoredManagedClientContract)), w')
              | (Inr r, w') \<Rightarrow>
                  if r = [''changed''] then (None, w')
                  else if r \<noteq> [''updated''] then (Some (Inl errStoredManagedClientContract), w')
                  else
                    (case decodeBootstrapLegacyCodeAdminAudience K P tenantID payload of
                       None \<Rightarrow> (Some (Inl errStoredManagedClientContract), w')
                     | Some stored \<Rightarrow>
                         (Some (if c_DefaultScopes stored \<noteq> c_DefaultScopes nxt
                                then Inl errStoredManagedClientContract else Inr stored), w')))))"

text \<open>The client whose ceiling is raised, and whether it is the record the bootstrap left.\<close>

definition raisableClient :: "clientCodec \<Rightarrow> policy \<Rightarrow> string \<Rightarrow> string \<Rightarrow> string \<Rightarrow> (client \<times> bool) res" where
  "raisableClient K P tenantID status val =
     (if status = ''missing'' then Inl ErrManagedClientConflict
      else if status = ''legacy'' then
        (case decodeBootstrapLegacyCodeAdminAudience K P tenantID val of
           None \<Rightarrow> Inl ErrManagedClientConflict | Some c \<Rightarrow> Inr (c, True))
      else if status = ''managed'' then
        (case decodeManagedAudienceClient K P tenantID val of
           None \<Rightarrow> Inl errStoredManagedClientContract
         | Some c \<Rightarrow>
             if \<not> IsManagedCodeAdminAudience tenantID (Some c) then Inl ErrManagedClientConflict else Inr (c, False))
      else Inl errStoredManagedClientContract)"

definition raiseAttempt ::
  "'w store \<Rightarrow> clientCodec \<Rightarrow> policy \<Rightarrow> ('w \<Rightarrow> 'w) \<Rightarrow> string \<Rightarrow> string list \<Rightarrow> 'w \<Rightarrow> (client \<times> bool) res option \<times> 'w" where
  "raiseAttempt R K P other tenantID additions w =
     (case evalPair R (managedClientGetScript tenantID CodeAdminAudienceClientID) w of
        (Inl e, w') \<Rightarrow> (Some (Inl e), w')
      | (Inr (status, val), w') \<Rightarrow>
          (case raisableClient K P tenantID status val of
             Inl e \<Rightarrow> (Some (Inl e), w')
           | Inr (current, legacy) \<Rightarrow>
               if list_all (\<lambda>sc. sc \<in> set (c_DefaultScopes current)) additions then (Some (Inr (current, False)), w')
               else
                 (case CanonicalAudienceScopes P (c_DefaultScopes current @ additions) of
                    None \<Rightarrow> (Some (Inl ErrManagedClientConflict), w')
                  | Some raised \<Rightarrow>
                      let nxt = current\<lparr>c_DefaultScopes := raised\<rparr> in
                      if legacy then
                        with_flag True (raiseBootstrapLegacyCodeAdminAudience R K P tenantID val nxt (other w'))
                      else if \<not> validManagedAudienceClient P tenantID nxt then (Some (Inl ErrManagedClientConflict), w')
                      else
                        (case kc_marshal K nxt of
                           Inl e \<Rightarrow> (Some (Inl e), w')
                         | Inr payload \<Rightarrow>
                             with_flag True
                               (swapped K P tenantID ''updated'' payload
                                 (\<lambda>stored. IsManagedCodeAdminAudience tenantID (Some stored) \<and> c_DefaultScopes stored = raised)
                                 (evalPair R (managedClientReconcileScript tenantID CodeAdminAudienceClientID val payload)
                                   (other w')))))))"

definition RaiseManagedCodeAdminAudienceScopes ::
  "'w store \<Rightarrow> clientCodec \<Rightarrow> policy \<Rightarrow> (nat \<Rightarrow> 'w \<Rightarrow> 'w) \<Rightarrow> (nat \<Rightarrow> 'w \<Rightarrow> 'w) \<Rightarrow> 'w \<Rightarrow> string \<Rightarrow> string list \<Rightarrow>
   (client \<times> bool) res \<times> 'w" where
  "RaiseManagedCodeAdminAudienceScopes R K P others between w tenantID scopes =
     (if \<not> activeTenantIdentity tenantID \<or> CanonicalAudienceScopes P scopes \<noteq> Some scopes then (Inl ErrInvalidArgument, w)
      else casLoop (\<lambda>i v. raiseAttempt R K P (others i) tenantID scopes (between i v)) 0 4 w)"

section \<open>The ledger of clients\<close>

text \<open>
  What the repository keeps: a marker is a copy of its record, which is a well-formed managed client of that tenant and
  name, and a record without a marker is a client nobody manages.
\<close>

definition clientsLedger :: "clientCodec \<Rightarrow> policy \<Rightarrow> keyspace \<Rightarrow> bool" where
  "clientsLedger K P ks \<longleftrightarrow>
     (\<forall>t i m. ks_hash ks (managedClientsKey t) i = Some m \<longrightarrow>
        ks_hash ks (clientsKey t) i = Some m \<and> (\<exists>c. decodeManagedAudienceClient K P t m = Some c \<and> c_Id c = i)) \<and>
     (\<forall>t i v. ks_hash ks (clientsKey t) i = Some v \<and> ks_hash ks (managedClientsKey t) i = None \<longrightarrow>
        (\<exists>c. kc_unmarshal K v = Inr c \<and> c_ManagedBy c = []))"

text \<open>A managed client stays, under the same owner.\<close>

definition keepsOwners :: "clientCodec \<Rightarrow> policy \<Rightarrow> keyspace \<Rightarrow> keyspace \<Rightarrow> bool" where
  "keepsOwners K P a b \<longleftrightarrow>
     (\<forall>t i m c. ks_hash a (managedClientsKey t) i = Some m \<and> decodeManagedAudienceClient K P t m = Some c \<longrightarrow>
        (\<exists>m' c'. ks_hash b (managedClientsKey t) i = Some m' \<and> decodeManagedAudienceClient K P t m' = Some c' \<and>
           c_ManagedBy c' = c_ManagedBy c \<and> c_Id c' = c_Id c \<and> c_SecretHash c' = []))"

definition ledgerSafe :: "clientCodec \<Rightarrow> policy \<Rightarrow> keyspace \<Rightarrow> keyspace \<Rightarrow> bool" where
  "ledgerSafe K P a b \<longleftrightarrow> (clientsLedger K P a \<longrightarrow> clientsLedger K P b \<and> keepsOwners K P a b)"

text \<open>What the JSON package guarantees of the texts it wrote, and of the strict decoder.\<close>

definition client_json_ok :: "clientCodec \<Rightarrow> bool" where
  "client_json_ok K \<longleftrightarrow>
     (\<forall>c s. kc_marshal K c = Inr s \<longrightarrow> kc_strict K s = Some c) \<and>
     (\<forall>s c. kc_strict K s = Some c \<longrightarrow> kc_unmarshal K s = Inr c)"

lemma client_keys [simp]:
  "clientsKey t = clientsKey t' \<longleftrightarrow> t = t'" "managedClientsKey t = managedClientsKey t' \<longleftrightarrow> t = t'"
  "clientsKey t \<noteq> managedClientsKey t'" "managedClientsKey t \<noteq> clientsKey t'"
  by (simp_all add: clientsKey_def managedClientsKey_def)

lemma decodeManaged_secret: "decodeManagedAudienceClient K P t m = Some c \<Longrightarrow> c_SecretHash c = [] \<and> c_ManagedBy c \<noteq> []"
  by (auto simp: decodeManagedAudienceClient_def validManagedAudienceClient_def IsManagedCodeAdminAudience_def
      IsManagedWorkloadAccountAudience_def IsManagedAIGatewayAudienceRecord_def split: option.splits if_splits)

lemma keepsOwners_refl: "keepsOwners K P a a"
  using decodeManaged_secret by (fastforce simp: keepsOwners_def)

lemma keepsOwners_trans: "keepsOwners K P a b \<Longrightarrow> keepsOwners K P b c \<Longrightarrow> keepsOwners K P a c"
  unfolding keepsOwners_def by metis

lemma ledgerSafe_refl [simp]: "ledgerSafe K P a a"
  by (simp add: ledgerSafe_def keepsOwners_refl)

lemma ledgerSafe_trans: "ledgerSafe K P a b \<Longrightarrow> ledgerSafe K P b c \<Longrightarrow> ledgerSafe K P a c"
  using keepsOwners_trans unfolding ledgerSafe_def by blast

text \<open>The two ways a script changes the ledger.\<close>

lemma ledgerSafe_unmanaged:
  assumes "ks_hash ks (managedClientsKey t) i = None" "kc_unmarshal K data = Inr c" "c_ManagedBy c = []"
  shows "ledgerSafe K P ks (applyAll [CHSet (clientsKey t) i data] ks)"
  using assms decodeManaged_secret unfolding ledgerSafe_def
  by (auto simp: clientsLedger_def keepsOwners_def)

lemma ledgerSafe_managed:
  assumes "decodeManagedAudienceClient K P t payload = Some c" "c_Id c = i"
    and "\<And>m c0. ks_hash ks (managedClientsKey t) i = Some m \<Longrightarrow> decodeManagedAudienceClient K P t m = Some c0 \<Longrightarrow>
      c_ManagedBy c0 = c_ManagedBy c \<and> c_Id c0 = i"
  shows "ledgerSafe K P ks (applyAll (setBoth t i payload) ks)"
  unfolding ledgerSafe_def
proof (intro impI conjI)
  assume l: "clientsLedger K P ks"
  then show "clientsLedger K P (applyAll (setBoth t i payload) ks)"
    using assms(1,2) by (auto simp: clientsLedger_def setBoth_def)
  show "keepsOwners K P ks (applyAll (setBoth t i payload) ks)"
    unfolding keepsOwners_def
  proof (intro allI impI, elim conjE)
    fix t' i' m c0
    assume m: "ks_hash ks (managedClientsKey t') i' = Some m" "decodeManagedAudienceClient K P t' m = Some c0"
    let ?b = "applyAll (setBoth t i payload) ks"
    show "\<exists>m' c'. ks_hash ?b (managedClientsKey t') i' = Some m' \<and> decodeManagedAudienceClient K P t' m' = Some c' \<and>
        c_ManagedBy c' = c_ManagedBy c0 \<and> c_Id c' = c_Id c0 \<and> c_SecretHash c' = []"
    proof (cases "t' = t \<and> i' = i")
      case True
      with m assms(3) have "c_ManagedBy c0 = c_ManagedBy c" "c_Id c0 = i" by auto
      with True assms(1,2) decodeManaged_secret [OF assms(1)] show ?thesis by (simp add: setBoth_def)
    next
      case False
      then have "ks_hash ?b (managedClientsKey t') i' = Some m" using m(1) by (auto simp: setBoth_def)
      with m(2) decodeManaged_secret [OF m(2)] show ?thesis by auto
    qed
  qed
qed

lemma decode_marshalled:
  "client_json_ok K \<Longrightarrow> kc_marshal K c = Inr s \<Longrightarrow> validManagedAudienceClient P t c \<Longrightarrow>
   decodeManagedAudienceClient K P t s = Some c"
  by (simp add: client_json_ok_def decodeManagedAudienceClient_def)

section \<open>Every script keeps the ledger\<close>

lemma create_safe:
  assumes "client_json_ok K" "unmanagedClientPayload K t0 oc = Inr (i, data)"
  shows "ledgerSafe K P ks (applyAll (snd (clientCreateOnceScript t i data ks)) ks)"
    "ledgerSafe K P ks (applyAll (snd (bootstrapClientUpsertScript t i data ks)) ks)"
proof -
  from assms obtain c where "kc_unmarshal K data = Inr c" "c_ManagedBy c = []"
    by (fastforce simp: unmanagedClientPayload_def Let_def client_json_ok_def split: option.splits if_splits sum.splits)
  note w = ledgerSafe_unmanaged [OF _ this, of ks t i]
  show "ledgerSafe K P ks (applyAll (snd (clientCreateOnceScript t i data ks)) ks)"
    using w by (auto simp: clientCreateOnceScript_def split: option.split)
  show "ledgerSafe K P ks (applyAll (snd (bootstrapClientUpsertScript t i data ks)) ks)"
    using w by (auto simp: bootstrapClientUpsertScript_def)
qed

lemma ensure_safe:
  assumes "client_json_ok K" "kc_marshal K c = Inr payload" "validManagedAudienceClient P t c"
  shows "ledgerSafe K P ks (applyAll (snd (managedClientEnsureScript t (c_Id c) payload ks)) ks)"
    "ledgerSafe K P ks (applyAll (snd (managedClientAdoptScript t (c_Id c) before payload ks)) ks)"
  using ledgerSafe_managed [OF decode_marshalled [OF assms] refl, of ks]
  by (auto simp: managedClientEnsureScript_def managedClientAdoptScript_def split: option.split)

lemma reconcile_safe:
  assumes "client_json_ok K" "kc_marshal K c = Inr payload" "validManagedAudienceClient P t c" "c_Id c = i"
    and "decodeManagedAudienceClient K P t before = Some c0" "c_ManagedBy c0 = c_ManagedBy c" "c_Id c0 = i"
  shows "ledgerSafe K P ks (applyAll (snd (managedClientReconcileScript t i before payload ks)) ks)"
proof (cases "ks_hash ks (clientsKey t) i = Some before \<and> ks_hash ks (managedClientsKey t) i = Some before")
  case True
  have "ledgerSafe K P ks (applyAll (setBoth t i payload) ks)"
    by (rule ledgerSafe_managed [OF decode_marshalled [OF assms(1-3)] assms(4)]) (use True assms(5-7) in auto)
  with True show ?thesis by (simp add: managedClientReconcileScript_def)
next
  case False
  then have "snd (managedClientReconcileScript t i before payload ks) = []"
    by (auto simp: managedClientReconcileScript_def split: option.split)
  then show ?thesis by simp
qed

lemma get_safe: "applyAll (snd (managedClientGetScript t i ks)) ks = ks"
  by (simp add: managedClientGetScript_def)

lemma scopes_managed_safe:
  assumes "client_json_ok K" "IsManagedCodeAdminAudience t (Some c)" "ValidCanonicalAudienceScopes P scopes"
    and "kc_marshal K c = Inr before" "kc_marshal K (c\<lparr>c_DefaultScopes := scopes\<rparr>) = Inr after"
  shows "ledgerSafe K P ks (applyAll (snd (existingAudienceScopesScript t (c_Id c) before after True ks)) ks)"
proof (cases "ks_hash ks (clientsKey t) (c_Id c) = Some before \<and> ks_hash ks (managedClientsKey t) (c_Id c) = Some before")
  case True
  let ?d = "c\<lparr>c_DefaultScopes := scopes\<rparr>"
  have eq: "snd (existingAudienceScopesScript t (c_Id c) before after True ks) = setBoth t (c_Id c) after"
    using True by (simp add: existingAudienceScopesScript_def setBoth_def)
  show ?thesis
  proof (cases "clientsLedger K P ks")
    case l: True
    with True have "\<exists>c0. decodeManagedAudienceClient K P t before = Some c0" unfolding clientsLedger_def by metis
    with assms(1,4) have d: "decodeManagedAudienceClient K P t before = Some c" "activeTenantIdentity t"
      by (auto simp: decodeManagedAudienceClient_def client_json_ok_def validManagedAudienceClient_def split: if_splits option.splits)
    then have v: "validManagedAudienceClient P t ?d"
      using assms(2,3) by (simp add: validManagedAudienceClient_def IsManagedCodeAdminAudience_def)
    show ?thesis unfolding eq
      by (rule ledgerSafe_managed [OF decode_marshalled [OF assms(1,5) v]]) (use True d in auto)
  qed (simp add: ledgerSafe_def)
next
  case False
  then have "snd (existingAudienceScopesScript t (c_Id c) before after True ks) = []"
    by (auto simp: existingAudienceScopesScript_def Let_def)
  then show ?thesis by simp
qed

lemma scopes_unmanaged_safe:
  assumes "client_json_ok K" "c_ManagedBy c = []" "kc_marshal K c = Inr after"
  shows "ledgerSafe K P ks (applyAll (snd (existingAudienceScopesScript t i before after False ks)) ks)"
proof -
  have "kc_unmarshal K after = Inr c" using assms(1,3) by (simp add: client_json_ok_def)
  from ledgerSafe_unmanaged [OF _ this assms(2), of ks t i] show ?thesis
    by (auto simp: existingAudienceScopesScript_def Let_def)
qed

section \<open>Every operation keeps the ledger\<close>

lemma safe_rEval:
  assumes "store_ok R view" "rEval R w f = (r, w')" "\<And>ks. ledgerSafe K P ks (applyAll (snd (f ks)) ks)"
  shows "ledgerSafe K P (view w) (view w')"
  using eval_view [OF assms(1,2)] assms(3) by auto

lemma safe_evalPair:
  assumes "store_ok R view" "evalPair R f w = (r, w')" "\<And>ks. ledgerSafe K P ks (applyAll (snd (f ks)) ks)"
  shows "ledgerSafe K P (view w) (view w')"
proof -
  obtain z where "rEval R w f = (z, w')"
    using assms(2) by (cases "rEval R w f") (auto simp: evalPair_def split: sum.splits list.splits)
  with safe_rEval [OF assms(1) _ assms(3)] show ?thesis by blast
qed

lemma safe_casLoop:
  assumes "casLoop attempt i n w = (r, w')" "\<And>j v z v'. attempt j v = (z, v') \<Longrightarrow> ledgerSafe K P (view v) (view v')"
  shows "ledgerSafe K P (view w) (view w')"
  using assms(1)
proof (induction n arbitrary: i w)
  case (Suc n)
  obtain z v where a: "attempt i w = (z, v)" by force
  with Suc show ?case using assms(2) [OF a] ledgerSafe_trans by (cases z) auto
qed simp

lemma swapped_world [simp]: "snd (swapped K P t expected payload accepted answer) = snd answer"
  by (auto simp: swapped_def split: prod.splits sum.splits option.splits if_splits)

lemma with_flag_world [simp]: "snd (with_flag b r) = snd r"
  by (simp add: with_flag_def)

lemma safe_evalPair_snd:
  assumes "store_ok R view" "\<And>ks. ledgerSafe K P ks (applyAll (snd (f ks)) ks)"
  shows "ledgerSafe K P (view w) (view (snd (evalPair R f w)))"
  by (cases "evalPair R f w") (use safe_evalPair [OF assms(1) _ assms(2)] in auto)

lemma safe_then:
  assumes "store_ok R view" "\<And>v. ledgerSafe K P (view v) (view (other v))"
    and "ledgerSafe K P (view w) (view w1)" "\<And>ks. ledgerSafe K P ks (applyAll (snd (f ks)) ks)"
  shows "ledgerSafe K P (view w) (view (snd (evalPair R f (other w1))))"
  by (rule ledgerSafe_trans [OF ledgerSafe_trans [OF assms(3) assms(2)] safe_evalPair_snd [OF assms(1,4)]])

lemma safe_rounds:
  assumes "casLoop (\<lambda>i v. step i (between i v)) 0 4 w = (r, w')" "\<And>i v. ledgerSafe K P (view v) (view (between i v))"
    and "\<And>i v. ledgerSafe K P (view v) (view (snd (step i v)))"
  shows "ledgerSafe K P (view w) (view w')"
proof (rule safe_casLoop [OF assms(1)])
  fix j v z v'
  assume "step j (between j v) = (z, v')"
  then have "ledgerSafe K P (view (between j v)) (view v')" using assms(3) [of "between j v" j] by simp
  then show "ledgerSafe K P (view v) (view v')" by (rule ledgerSafe_trans [OF assms(2)])
qed

lemma ensureManagedAttempt_safe:
  assumes "store_ok R view" "client_json_ok K" "\<And>v. ledgerSafe K P (view v) (view (other v))"
    and "kc_marshal K c = Inr payload" "validManagedAudienceClient P t c"
  shows "ledgerSafe K P (view w) (view (snd (ensureManagedAttempt R K P other t c payload w)))"
proof -
  obtain a w1 where e: "evalPair R (managedClientEnsureScript t (c_Id c) payload) w = (a, w1)" by force
  have 1: "ledgerSafe K P (view w) (view w1)"
    using safe_evalPair [OF assms(1) e] ensure_safe(1) [OF assms(2,4,5)] by blast
  note then_ = safe_then [OF assms(1,3) 1]
  have adopt: "ledgerSafe K P (view w) (view (snd (evalPair R (managedClientAdoptScript t (c_Id c) before payload) (other w1))))" for before
    by (rule then_, rule ensure_safe(2) [OF assms(2,4,5)])
  have upd: "ledgerSafe K P (view w) (view (snd (evalPair R (managedClientReconcileScript t (c_Id c) before payload) (other w1))))"
    if "decodeManagedAudienceClient K P t before = Some c0" "sameManagedAudienceOwner P c0 c" for before c0
    by (rule then_, rule reconcile_safe [OF assms(2,4,5) refl that(1)]) (use that(2) in \<open>auto simp: sameManagedAudienceOwner_def\<close>)
  show ?thesis
    using 1 adopt upd by (simp add: ensureManagedAttempt_def e split: sum.split prod.split option.split)
qed

lemma EnsureManagedAudience_safe:
  assumes "store_ok R view" "client_json_ok K" "\<And>i v. ledgerSafe K P (view v) (view (others i v))"
    and "\<And>i v. ledgerSafe K P (view v) (view (between i v))"
    and "EnsureManagedAudience R K P others between w t c = (r, w')"
  shows "ledgerSafe K P (view w) (view w')"
proof (cases "validManagedAudienceClient P t c")
  case valid: True
  show ?thesis
  proof (cases "kc_marshal K c")
    case (Inr payload)
    with assms(5) valid have run:
      "casLoop (\<lambda>i v. ensureManagedAttempt R K P (others i) t c payload (between i v)) 0 4 w = (r, w')"
      by (simp add: EnsureManagedAudience_def)
    show ?thesis 
      by (rule safe_rounds [where view = view and between = between and step = "\<lambda>i. ensureManagedAttempt R K P (others i) t c payload", OF run assms(4)])
        (rule ensureManagedAttempt_safe [where view = view, OF assms(1,2) _ Inr valid], rule assms(3))
  qed (use assms(5) valid in \<open>simp add: EnsureManagedAudience_def\<close>)
qed (use assms(5) in \<open>simp add: EnsureManagedAudience_def\<close>)

lemma setStatusAttempt_safe:
  assumes "store_ok R view" "client_json_ok K" "\<And>v. ledgerSafe K P (view v) (view (other v))"
  shows "ledgerSafe K P (view w) (view (snd (setStatusAttempt R K P other t i owner status w)))"
proof -
  obtain a w1 where e: "evalPair R (managedClientGetScript t i) w = (a, w1)" by force
  have 1: "ledgerSafe K P (view w) (view w1)"
    using safe_evalPair [OF assms(1) e] get_safe by simp
  have upd: "ledgerSafe K P (view w) (view (snd (evalPair R (managedClientReconcileScript t (c_Id c0) before payload) (other w1))))"
    if "decodeManagedAudienceClient K P t before = Some c0"
      "validManagedAudienceClient P t (c0\<lparr>c_Status := status\<rparr>)" "kc_marshal K (c0\<lparr>c_Status := status\<rparr>) = Inr payload"
    for before c0 payload
    by (rule safe_then [OF assms(1,3) 1], rule reconcile_safe [OF assms(2) that(3,2) _ that(1)]) simp_all
  show ?thesis
    using 1 upd by (auto simp: setStatusAttempt_def e split: sum.split prod.split option.split)
qed

lemma SetManagedAudienceStatus_safe:
  assumes "store_ok R view" "client_json_ok K" "\<And>i v. ledgerSafe K P (view v) (view (others i v))"
    and "\<And>i v. ledgerSafe K P (view v) (view (between i v))"
    and "SetManagedAudienceStatus R K P others between w t i owner status = (r, w')"
  shows "ledgerSafe K P (view w) (view w')"
proof (cases "fst (SetManagedAudienceStatus R K P others between w t i owner status) = Inl ErrInvalidArgument \<and> w' = w")
  case False
  with assms(5) have run:
      "casLoop (\<lambda>j v. setStatusAttempt R K P (others j) t i owner status (between j v)) 0 4 w = (r, w')"
    by (auto simp: SetManagedAudienceStatus_def split: if_splits)
  show ?thesis 
    by (rule safe_rounds [where view = view and between = between and step = "\<lambda>j. setStatusAttempt R K P (others j) t i owner status", OF run assms(4)])
      (rule setStatusAttempt_safe [where view = view, OF assms(1,2) _], rule assms(3))
qed simp

lemma raiseBootstrap_safe:
  assumes "store_ok R view" "client_json_ok K"
  shows "ledgerSafe K P (view w) (view (snd (raiseBootstrapLegacyCodeAdminAudience R K P t before c w)))"
proof (cases "IsBootstrapLegacyCodeAdminAudience t (Some c)")
  case True
  then have m: "c_ManagedBy c = []" by (simp add: IsBootstrapLegacyCodeAdminAudience_def IsBootstrapLegacyAudience_def)
  have "ledgerSafe K P (view w) (view w1)"
    if "kc_marshal K c = Inr payload" "rEval R w (existingAudienceScopesScript t CodeAdminAudienceClientID before payload False) = (z, w1)"
    for payload z w1
    by (rule safe_rEval [OF assms(1) that(2)], rule scopes_unmanaged_safe [OF assms(2) m that(1)])
  then show ?thesis
    by (auto simp: raiseBootstrapLegacyCodeAdminAudience_def split: sum.split prod.split option.split)
qed (simp add: raiseBootstrapLegacyCodeAdminAudience_def)

lemma raiseAttempt_safe:
  assumes "store_ok R view" "client_json_ok K" "\<And>v. ledgerSafe K P (view v) (view (other v))"
  shows "ledgerSafe K P (view w) (view (snd (raiseAttempt R K P other t additions w)))"
proof -
  obtain a w1 where e: "evalPair R (managedClientGetScript t CodeAdminAudienceClientID) w = (a, w1)" by force
  have 1: "ledgerSafe K P (view w) (view w1)"
    using safe_evalPair [OF assms(1) e] get_safe by simp
  have legacy: "ledgerSafe K P (view w) (view (snd (raiseBootstrapLegacyCodeAdminAudience R K P t before c (other w1))))" for before c
    by (rule ledgerSafe_trans [OF ledgerSafe_trans [OF 1 assms(3)] raiseBootstrap_safe [OF assms(1,2)]])
  have upd: "ledgerSafe K P (view w) (view (snd (evalPair R
      (managedClientReconcileScript t CodeAdminAudienceClientID val payload) (other w1))))"
    if "raisableClient K P t status val = Inr (c0, False)" "validManagedAudienceClient P t (c0\<lparr>c_DefaultScopes := raised\<rparr>)"
      "kc_marshal K (c0\<lparr>c_DefaultScopes := raised\<rparr>) = Inr payload" for status val c0 raised payload
  proof -
    from that(1) have c0: "decodeManagedAudienceClient K P t val = Some c0" "c_Id c0 = CodeAdminAudienceClientID"
      by (auto simp: raisableClient_def IsManagedCodeAdminAudience_def split: if_splits option.splits)
    show ?thesis
      by (rule safe_then [OF assms(1,3) 1], rule reconcile_safe [OF assms(2) that(3,2) _ c0(1)]) (simp_all add: c0(2))
  qed
  show ?thesis
    using 1 legacy upd by (simp add: raiseAttempt_def e Let_def split: sum.split prod.split option.split bool.split)
qed

lemma RaiseManagedCodeAdminAudienceScopes_safe:
  assumes "store_ok R view" "client_json_ok K" "\<And>i v. ledgerSafe K P (view v) (view (others i v))"
    and "\<And>i v. ledgerSafe K P (view v) (view (between i v))"
    and "RaiseManagedCodeAdminAudienceScopes R K P others between w t scopes = (r, w')"
  shows "ledgerSafe K P (view w) (view w')"
proof (cases "activeTenantIdentity t \<and> CanonicalAudienceScopes P scopes = Some scopes")
  case True
  with assms(5) have run: "casLoop (\<lambda>j v. raiseAttempt R K P (others j) t scopes (between j v)) 0 4 w = (r, w')"
    by (auto simp: RaiseManagedCodeAdminAudienceScopes_def)
  show ?thesis 
    by (rule safe_rounds [where view = view and between = between and step = "\<lambda>j. raiseAttempt R K P (others j) t scopes", OF run assms(4)])
      (rule raiseAttempt_safe [where view = view, OF assms(1,2) _], rule assms(3))
qed (use assms(5) in \<open>auto simp: RaiseManagedCodeAdminAudienceScopes_def\<close>)

lemma clientRepo_Create_safe:
  assumes "store_ok R view" "client_json_ok K" "clientRepo_Create R K w t oc = (r, w')"
  shows "ledgerSafe K P (view w) (view w')"
  using assms(3) create_safe(1) [OF assms(2)] safe_rEval [OF assms(1)]
  by (fastforce simp: clientRepo_Create_def Let_def split: sum.splits prod.splits)

lemma UpsertBootstrap_safe:
  assumes "store_ok R view" "client_json_ok K" "UpsertBootstrap R K w t oc = (r, w')"
  shows "ledgerSafe K P (view w) (view w')"
  using assms(3) create_safe(2) [OF assms(2)] safe_rEval [OF assms(1)]
  by (fastforce simp: UpsertBootstrap_def Let_def split: sum.splits prod.splits)

lemma ReconcileCodeAdminAudienceScopes_safe:
  assumes "store_ok R view" "client_json_ok K" "ReconcileCodeAdminAudienceScopes R K P w t oc scopes = (r, w')"
  shows "ledgerSafe K P (view w) (view w')"
proof -
  have s: "ledgerSafe K P ks (applyAll (snd (existingAudienceScopesScript t (c_Id c) before after
      (IsManagedCodeAdminAudience t (Some c)) ks)) ks)"
    if "IsManagedCodeAdminAudience t (Some c) \<or> IsBootstrapLegacyCodeAdminAudience t (Some c)"
      "ValidCanonicalAudienceScopes P scopes" "kc_marshal K c = Inr before" "kc_marshal K (c\<lparr>c_DefaultScopes := scopes\<rparr>) = Inr after"
    for c before after ks
  proof (cases "IsManagedCodeAdminAudience t (Some c)")
    case True
    with scopes_managed_safe [OF assms(2) True that(2-4)] show ?thesis by simp
  next
    case False
    with that(1) have "c_ManagedBy (c\<lparr>c_DefaultScopes := scopes\<rparr>) = []"
      by (simp add: IsBootstrapLegacyCodeAdminAudience_def IsBootstrapLegacyAudience_def)
    from scopes_unmanaged_safe [OF assms(2) this that(4)] False show ?thesis by simp
  qed
  show ?thesis
    using assms(3) s safe_rEval [OF assms(1)]
    by (fastforce simp: ReconcileCodeAdminAudienceScopes_def Let_def split: option.splits if_splits sum.splits prod.splits)
qed

section \<open>Properties\<close>

text \<open>
  The operations that write clients, with other clients of the store acting between and inside them by the same
  operations.
\<close>

inductive clientStep :: "'w store \<Rightarrow> clientCodec \<Rightarrow> policy \<Rightarrow> 'w \<Rightarrow> 'w \<Rightarrow> bool" for R K P where
  create: "clientRepo_Create R K w t oc = (r, w') \<Longrightarrow> clientStep R K P w w'"
| bootstrap: "UpsertBootstrap R K w t oc = (r, w') \<Longrightarrow> clientStep R K P w w'"
| ensure: "\<forall>i v. (clientStep R K P)\<^sup>*\<^sup>* v (others i v) \<Longrightarrow> \<forall>i v. (clientStep R K P)\<^sup>*\<^sup>* v (between i v) \<Longrightarrow>
    EnsureManagedAudience R K P others between w t c = (r', w') \<Longrightarrow> clientStep R K P w w'"
| status: "\<forall>i v. (clientStep R K P)\<^sup>*\<^sup>* v (others i v) \<Longrightarrow> \<forall>i v. (clientStep R K P)\<^sup>*\<^sup>* v (between i v) \<Longrightarrow>
    SetManagedAudienceStatus R K P others between w t i owner st = (r'', w') \<Longrightarrow> clientStep R K P w w'"
| reconcile: "ReconcileCodeAdminAudienceScopes R K P w t oc scopes = (r''', w') \<Longrightarrow> clientStep R K P w w'"
| raise: "\<forall>i v. (clientStep R K P)\<^sup>*\<^sup>* v (others i v) \<Longrightarrow> \<forall>i v. (clientStep R K P)\<^sup>*\<^sup>* v (between i v) \<Longrightarrow>
    RaiseManagedCodeAdminAudienceScopes R K P others between w t scopes = (r', w') \<Longrightarrow> clientStep R K P w w'"

lemma safe_steps:
  assumes "(\<lambda>x y. S x y \<and> ledgerSafe K P (view x) (view y))\<^sup>*\<^sup>* v v'"
  shows "ledgerSafe K P (view v) (view v')"
  using assms
proof (induction rule: rtranclp_induct)
  case (step y z)
  then show ?case using ledgerSafe_trans by blast
qed simp

lemma clientStep_safe:
  assumes "clientStep R K P w w'" "store_ok R view" "client_json_ok K"
  shows "ledgerSafe K P (view w) (view w')"
proof -
  note steps = safe_steps [where S = "clientStep R K P" and view = view]
  show ?thesis
  using assms(1)
proof induction
  case (create w t oc r w')
  then show ?case by (rule clientRepo_Create_safe [OF assms(2,3)])
next
  case (bootstrap w t oc r w')
  then show ?case by (rule UpsertBootstrap_safe [OF assms(2,3)])
next
  case (ensure others between w t c r' w')
  have "\<And>i v. ledgerSafe K P (view v) (view (others i v))" "\<And>i v. ledgerSafe K P (view v) (view (between i v))"
    by (rule steps, use ensure(1,2) in blast)+
  then show ?case by (rule EnsureManagedAudience_safe [where view = view, OF assms(2,3) _ _ ensure(3)])
next
  case (status others between w t i owner st r'' w')
  have "\<And>i v. ledgerSafe K P (view v) (view (others i v))" "\<And>i v. ledgerSafe K P (view v) (view (between i v))"
    by (rule steps, use status(1,2) in blast)+
  then show ?case by (rule SetManagedAudienceStatus_safe [where view = view, OF assms(2,3) _ _ status(3)])
next
  case (reconcile w t oc scopes r''' w')
  then show ?case by (rule ReconcileCodeAdminAudienceScopes_safe [OF assms(2,3)])
next
  case (raise others between w t scopes r' w')
  have "\<And>i v. ledgerSafe K P (view v) (view (others i v))" "\<And>i v. ledgerSafe K P (view v) (view (between i v))"
    by (rule steps, use raise(1,2) in blast)+
  then show ?case by (rule RaiseManagedCodeAdminAudienceScopes_safe [where view = view, OF assms(2,3) _ _ raise(3)])
qed
qed

text \<open>
  C26. The registry of audience clients stays consistent under every interleaving of its operations, failing requests
  included: every marker is a copy of a well-formed managed record without a secret, no record without a marker claims
  an owner, and a client that is managed once is never removed, taken over by another owner or turned into one with a
  secret.
\<close>

theorem client_ledger_invariant:
  assumes "(clientStep R K P)\<^sup>*\<^sup>* w0 w" "store_ok R view" "client_json_ok K" "clientsLedger K P (view w0)"
  shows "clientsLedger K P (view w) \<and> keepsOwners K P (view w0) (view w)"
proof -
  have "ledgerSafe K P (view w0) (view w)"
    using assms(1) by (induction rule: rtranclp_induct) (auto intro: ledgerSafe_trans clientStep_safe [OF _ assms(2,3)])
  with assms(4) show ?thesis by (simp add: ledgerSafe_def)
qed

lemma ledger_empty: "clientsLedger K P emptyKeys"
  by (simp add: clientsLedger_def emptyKeys_def)

section \<open>What the operations return\<close>

lemma evalPair_Inr:
  assumes "store_ok R view" "evalPair R f w = (Inr (status, val), w')"
  shows "fst (f (view w)) = [status, val]" "view w' = applyAll (snd (f (view w))) (view w)"
proof -
  have r: "rEval R w f = (Inr [status, val], w')"
    using assms(2) by (auto simp: evalPair_def split: prod.splits sum.splits list.splits)
  from store_writes(3) [OF assms(1) r]
  show "fst (f (view w)) = [status, val]" "view w' = applyAll (snd (f (view w))) (view w)" by auto
qed

lemma casLoop_Inr:
  assumes "casLoop (\<lambda>i v. step i (between i v)) i n u = (Inr x, w')" "instant view F w u" "range between \<subseteq> F"
    and "\<And>j v v'. step j v = (None, v') \<Longrightarrow> instant view F v v'"
  obtains j v where "instant view F w v" "step j v = (Some (Inr x), w')"
  using assms(1,2)
proof (induction n arbitrary: i u)
  case (Suc n)
  have b: "instant view F w (between i u)" using other [OF Suc.prems(3), of "between i"] assms(3) by blast
  obtain r v where s: "step i (between i u) = (r, v)" by force
  show ?case
  proof (cases r)
    case None
    from instant_trans [OF assms(4) [OF s [unfolded None]] b] Suc s None show ?thesis by simp
  next
    case (Some y)
    with Suc.prems(2) s have "y = Inr x" "v = w'" by simp_all
    with Suc.prems(1) [OF b] s Some show ?thesis by simp
  qed
qed simp

lemma swapped_Inr:
  assumes "swapped K P t expected payload accepted answer = (Some (Inr stored), w')"
  shows "answer = (Inr (expected, payload), w') \<and> expected \<noteq> ''changed'' \<and>
    decodeManagedAudienceClient K P t payload = Some stored \<and> accepted stored"
  using assms by (auto simp: swapped_def split: prod.splits sum.splits option.splits if_splits)

lemma swapped_None:
  assumes "swapped K P t expected payload accepted answer = (None, w')"
  obtains val where "answer = (Inr (''changed'', val), w')"
  using assms by (auto simp: swapped_def split: prod.splits sum.splits option.splits if_splits)

lemma with_flag_None: "with_flag b r = (None, w') \<longleftrightarrow> r = (None, w')"
  by (cases r) (auto simp: with_flag_def)

lemma with_flag_Inr: "with_flag b r = (Some (Inr (x, f)), w') \<longleftrightarrow> r = (Some (Inr x), w') \<and> f = b"
  by (cases r; cases "fst r") (auto simp: with_flag_def map_sum_def split: sum.splits)

text \<open>What the scripts answer when they write nothing.\<close>

lemma nothing_stored:
  "fst (managedClientEnsureScript t i payload ks) = [status, v] \<Longrightarrow> status \<noteq> ''created'' \<Longrightarrow>
     snd (managedClientEnsureScript t i payload ks) = []"
  "fst (managedClientAdoptScript t i before payload ks) = [''changed'', v] \<Longrightarrow> snd (managedClientAdoptScript t i before payload ks) = []"
  "fst (managedClientReconcileScript t i before payload ks) = [''changed'', v] \<Longrightarrow>
     snd (managedClientReconcileScript t i before payload ks) = []"
  "fst (existingAudienceScopesScript t i before after managed ks) = [''changed''] \<Longrightarrow>
     snd (existingAudienceScopesScript t i before after managed ks) = []"
  "snd (managedClientGetScript t i ks) = []"
  by (auto simp: managedClientEnsureScript_def managedClientAdoptScript_def managedClientReconcileScript_def
      existingAudienceScopesScript_def managedClientGetScript_def Let_def split: option.splits if_splits)

lemma evalPair_unseen:
  assumes "store_ok R view" "evalPair R f w = (Inr (status, val), w')" "fst (f (view w)) = [status, val] \<Longrightarrow> snd (f (view w)) = []"
  shows "view w' = view w"
  using evalPair_Inr [OF assms(1,2)] assms(3) by simp

text \<open>The three scripts that store a managed client leave it in both hashes.\<close>

lemma stored_both:
  "fst (managedClientEnsureScript t i payload ks) = [''created'', v] \<Longrightarrow>
     v = payload \<and> snd (managedClientEnsureScript t i payload ks) = setBoth t i payload \<and>
     ks_hash ks (clientsKey t) i = None \<and> ks_hash ks (managedClientsKey t) i = None"
  "fst (managedClientEnsureScript t i payload ks) = [''existing'', v] \<Longrightarrow>
     snd (managedClientEnsureScript t i payload ks) = [] \<and>
     ks_hash ks (clientsKey t) i = Some v \<and> ks_hash ks (managedClientsKey t) i = Some v"
  "fst (managedClientAdoptScript t i before payload ks) = [''adopted'', v] \<Longrightarrow>
     snd (managedClientAdoptScript t i before payload ks) = setBoth t i payload \<and>
     ks_hash ks (clientsKey t) i = Some before \<and> ks_hash ks (managedClientsKey t) i = None"
  "fst (managedClientReconcileScript t i before payload ks) = [''updated'', v] \<Longrightarrow>
     snd (managedClientReconcileScript t i before payload ks) = setBoth t i payload \<and>
     ks_hash ks (clientsKey t) i = Some before \<and> ks_hash ks (managedClientsKey t) i = Some before"
  by (auto simp: managedClientEnsureScript_def managedClientAdoptScript_def managedClientReconcileScript_def
      split: option.splits if_splits)

lemma setBoth_stored:
  "ks_hash (applyAll (setBoth t i payload) ks) (clientsKey t) i = Some payload"
  "ks_hash (applyAll (setBoth t i payload) ks) (managedClientsKey t) i = Some payload"
  by (simp_all add: setBoth_def)

lemma canonical_scopes_fixed: "CanonicalAudienceScopes P xs = Some ys \<Longrightarrow> y \<in> set ys \<Longrightarrow> TrimSpace y = y"
  using audienceAllowed_TrimSpace by (auto simp: CanonicalAudienceScopes_eq_Some)

lemma raised_scopes:
  assumes "ValidCanonicalAudienceScopes P old" "CanonicalAudienceScopes P scopes = Some scopes"
    and "CanonicalAudienceScopes P (old @ scopes) = Some raised"
  shows "set raised = set old \<union> set scopes"
proof -
  have "TrimSpace ` set old = set old" "TrimSpace ` set scopes = set scopes"
    using canonical_scopes_fixed assms(1,2) unfolding ValidCanonicalAudienceScopes_iff by (metis image_cong image_ident)+
  moreover have "raised = sort_uniq (map TrimSpace (old @ scopes))"
    using assms(3) unfolding CanonicalAudienceScopes_eq_Some by blast
  ultimately show ?thesis by (simp add: image_Un)
qed

text \<open>Where a managed client may come from: nothing, itself or an older version of its owner, or an adoptable legacy record.\<close>

definition ensuredFrom :: "clientCodec \<Rightarrow> policy \<Rightarrow> string \<Rightarrow> client \<Rightarrow> bool \<Rightarrow> keyspace \<Rightarrow> bool" where
  "ensuredFrom K P t c created ks \<longleftrightarrow>
     (let val = ks_hash ks (clientsKey t) (c_Id c); marker = ks_hash ks (managedClientsKey t) (c_Id c) in
      if created then val = None \<and> marker = None
      else (\<exists>before old. val = Some before \<and>
              (marker = Some before \<and> decodeManagedAudienceClient K P t before = Some old \<and> sameManagedAudienceOwner P old c \<or>
               marker = None \<and> decodeLegacyManagedAudienceClient K P t before = Some old \<and>
                 adoptableLegacyManagedAudienceClient old c)))"

text \<open>A round that is lost to another client has written nothing.\<close>

lemma ensureManagedAttempt_None:
  assumes "store_ok R view" "ensureManagedAttempt R K P g t c payload w = (None, w')" "g \<in> F"
  shows "instant view F w w'"
proof -
  obtain status val w1 where e: "evalPair R (managedClientEnsureScript t (c_Id c) payload) w = (Inr (status, val), w1)"
    using assms(2) by (auto simp: ensureManagedAttempt_def split: prod.splits sum.splits)
  have st: "status \<noteq> ''created''"
    using assms(2) unfolding ensureManagedAttempt_def e by (auto simp: with_flag_None split: option.splits if_splits)
  have "view w1 = view w"
    using nothing_stored(1) [OF _ st] by (rule evalPair_unseen [OF assms(1) e])
  then have i: "instant view F w (g w1)" using assms(3) by (blast intro: instant.intros)
  consider val' where "evalPair R (managedClientAdoptScript t (c_Id c) val payload) (g w1) = (Inr (''changed'', val'), w')"
    | val' where "evalPair R (managedClientReconcileScript t (c_Id c) val payload) (g w1) = (Inr (''changed'', val'), w')"
    using assms(2) unfolding ensureManagedAttempt_def e
    by (auto simp: with_flag_None split: option.splits if_splits elim!: swapped_None)
  then have "view w' = view (g w1)"
  proof cases
    case 1
    show ?thesis by (rule evalPair_unseen [OF assms(1) 1]) (rule nothing_stored(2))
  next
    case 2
    show ?thesis by (rule evalPair_unseen [OF assms(1) 2]) (rule nothing_stored(3))
  qed
  with i show ?thesis by (rule unseen)
qed

lemma raiseAttempt_None:
  assumes "store_ok R view" "raiseAttempt R K P g t scopes w = (None, w')" "g \<in> F"
  shows "instant view F w w'"
proof -
  let ?i = CodeAdminAudienceClientID
  obtain status val w1 where e: "evalPair R (managedClientGetScript t ?i) w = (Inr (status, val), w1)"
    using assms(2) by (auto simp: raiseAttempt_def split: prod.splits sum.splits)
  have "view w1 = view w" by (rule evalPair_unseen [OF assms(1) e nothing_stored(5)])
  then have i: "instant view F w (g w1)" using assms(3) by (blast intro: instant.intros)
  obtain old legacy where old: "raisableClient K P t status val = Inr (old, legacy)"
    using assms(2) by (auto simp: raiseAttempt_def e split: sum.splits)
  consider (legacy) nxt where "raiseBootstrapLegacyCodeAdminAudience R K P t val nxt (g w1) = (None, w')"
    | (managed) payload val' where "evalPair R (managedClientReconcileScript t ?i val payload) (g w1) = (Inr (''changed'', val'), w')"
    using assms(2) unfolding raiseAttempt_def e prod.case sum.case old Let_def
    by (auto simp: with_flag_None split: option.splits if_splits sum.splits elim!: swapped_None)
  then have "view w' = view (g w1)"
  proof cases
    case legacy
    then obtain payload where "rEval R (g w1) (existingAudienceScopesScript t ?i val payload False) = (Inr [''changed''], w')"
      by (auto simp: raiseBootstrapLegacyCodeAdminAudience_def split: if_splits sum.splits prod.splits option.splits)
    from store_writes(3) [OF assms(1) this] nothing_stored(4) [of t ?i val payload False "view (g w1)"] show ?thesis
      by auto
  next
    case managed
    show ?thesis by (rule evalPair_unseen [OF assms(1) managed]) (rule nothing_stored(3))
  qed
  with i show ?thesis by (rule unseen)
qed

lemma ensureManagedAttempt_Inr:
  assumes "store_ok R view" "ensureManagedAttempt R K P g t c payload w = (Some (Inr (stored, created)), w')" "g \<in> F"
  shows "decodeManagedAudienceClient K P t payload = Some stored \<and>
    ks_hash (view w') (clientsKey t) (c_Id c) = Some payload \<and> ks_hash (view w') (managedClientsKey t) (c_Id c) = Some payload \<and>
    (\<exists>v. instant view F w v \<and> ensuredFrom K P t c created (view v) \<and>
      (view w' = view v \<or> view w' = applyAll (setBoth t (c_Id c) payload) (view v)))"
proof -
  obtain status val w1 where e: "evalPair R (managedClientEnsureScript t (c_Id c) payload) w = (Inr (status, val), w1)"
    using assms(2) by (auto simp: ensureManagedAttempt_def split: prod.splits sum.splits)
  note f = evalPair_Inr [OF assms(1) e]
  have i: "instant view F w (g w1)" if "status \<noteq> ''created''"
  proof -
    have "view w1 = view w" using nothing_stored(1) [OF _ that] by (rule evalPair_unseen [OF assms(1) e])
    then show ?thesis using assms(3) by (blast intro: instant.intros)
  qed
  consider (adopt) legacy where "status = ''shadow''" "decodeLegacyManagedAudienceClient K P t val = Some legacy"
      "adoptableLegacyManagedAudienceClient legacy c" "\<not> created"
      "swapped K P t ''adopted'' payload (\<lambda>stored. sameManagedAudienceClient P stored c)
         (evalPair R (managedClientAdoptScript t (c_Id c) val payload) (g w1)) = (Some (Inr stored), w')"
    | (same) "status = ''created'' \<or> status = ''existing''" "decodeManagedAudienceClient K P t val = Some stored"
      "sameManagedAudienceClient P stored c" "val = payload" "created = (status = ''created'')" "w' = w1"
    | (update) old where "status \<noteq> ''created''" "decodeManagedAudienceClient K P t val = Some old" "sameManagedAudienceOwner P old c" "\<not> created"
      "swapped K P t ''updated'' payload (\<lambda>reconciled. sameManagedAudienceClient P reconciled c)
         (evalPair R (managedClientReconcileScript t (c_Id c) val payload) (g w1)) = (Some (Inr stored), w')"
    using assms(2) unfolding ensureManagedAttempt_def e
    by (auto simp: with_flag_Inr split: option.splits if_splits)
  then show ?thesis
  proof cases
    case adopt
    from swapped_Inr [OF adopt(5)] have s: "evalPair R (managedClientAdoptScript t (c_Id c) val payload) (g w1) = (Inr (''adopted'', payload), w')"
      "decodeManagedAudienceClient K P t payload = Some stored" by auto
    note g = evalPair_Inr [OF assms(1) s(1)]
    from stored_both(3) [OF g(1)] g(2) adopt s(2) show ?thesis
      by (auto simp: ensuredFrom_def Let_def setBoth_stored intro!: exI [of _ "g w1"] i)
  next
    case same
    from same(1) show ?thesis
    proof
      assume "status = ''created''"
      with f same stored_both(1) [of t "c_Id c" payload "view w" val] show ?thesis
        by (auto simp: ensuredFrom_def setBoth_stored intro!: exI [of _ w] start)
    next
      assume st: "status = ''existing''"
      with f same stored_both(2) [of t "c_Id c" payload "view w" val] show ?thesis
        by (auto simp: ensuredFrom_def sameManagedAudienceClient_def intro!: exI [of _ w] start)
    qed
  next
    case update
    from swapped_Inr [OF update(5)] have s: "evalPair R (managedClientReconcileScript t (c_Id c) val payload) (g w1) = (Inr (''updated'', payload), w')"
      "decodeManagedAudienceClient K P t payload = Some stored" by auto
    note g = evalPair_Inr [OF assms(1) s(1)]
    from stored_both(4) [OF g(1)] g(2) update s(2) show ?thesis
      by (auto simp: ensuredFrom_def Let_def setBoth_stored intro!: exI [of _ "g w1"] i)
  qed
qed

text \<open>
  C27. \<^verbatim>\<open>EnsureManagedAudience\<close> returns what it stored: on success record and marker both hold exactly the requested
  client, which is well-formed for its tenant, and nothing else changed. It was created where nothing was, replaced an
  older version of the same owner, or adopted the legacy record of the administration audience with every scope it
  had; it never takes over a client of another owner.
\<close>

theorem ensure_managed_audience_stored:
  assumes "store_ok R view" "client_json_ok K" "EnsureManagedAudience R K P others between w t c = (Inr (stored, created), w')"
  shows "stored = c \<and> validManagedAudienceClient P t c \<and>
    (\<exists>payload v. instant view (range others \<union> range between) w v \<and> kc_marshal K c = Inr payload \<and> ensuredFrom K P t c created (view v) \<and>
       ks_hash (view w') (clientsKey t) (c_Id c) = Some payload \<and>
       ks_hash (view w') (managedClientsKey t) (c_Id c) = Some payload \<and>
       (view w' = view v \<or> view w' = applyAll (setBoth t (c_Id c) payload) (view v)))"
proof -
  obtain payload where p: "validManagedAudienceClient P t c" "kc_marshal K c = Inr payload"
    and run: "casLoop (\<lambda>i v. ensureManagedAttempt R K P (others i) t c payload (between i v)) 0 4 w = (Inr (stored, created), w')"
    using assms(3) by (auto simp: EnsureManagedAudience_def split: if_splits sum.splits)
  let ?F = "range others \<union> range between"
  have "range between \<subseteq> ?F" by simp
  moreover have "instant view ?F v v'" if "ensureManagedAttempt R K P (others j) t c payload v = (None, v')" for j v v'
    using ensureManagedAttempt_None [OF assms(1) that, of ?F] by simp
  ultimately obtain j v where i: "instant view ?F w v"
    and a: "ensureManagedAttempt R K P (others j) t c payload v = (Some (Inr (stored, created)), w')"
    by (rule casLoop_Inr [where step = "\<lambda>j. ensureManagedAttempt R K P (others j) t c payload" and between = between, OF run start])
  have "others j \<in> ?F" by simp
  from ensureManagedAttempt_Inr [OF assms(1) a this] obtain v' where
    "decodeManagedAudienceClient K P t payload = Some stored" "ks_hash (view w') (clientsKey t) (c_Id c) = Some payload"
    "ks_hash (view w') (managedClientsKey t) (c_Id c) = Some payload" "instant view ?F v v'"
    "ensuredFrom K P t c created (view v')" "view w' = view v' \<or> view w' = applyAll (setBoth t (c_Id c) payload) (view v')" by blast
  then show ?thesis using instant_trans [OF _ i] decode_marshalled [OF assms(2) p(2,1)] p by (metis option.inject)
qed

lemma raiseAttempt_Inr:
  assumes "store_ok R view" "client_json_ok K" "CanonicalAudienceScopes P scopes = Some scopes"
    and "raiseAttempt R K P g t scopes w = (Some (Inr (stored, raised)), w')" "g \<in> F"
  shows "\<exists>v before old payload. instant view F w v \<and> ks_hash (view v) (clientsKey t) CodeAdminAudienceClientID = Some before \<and>
    kc_strict K before = Some old \<and> stored = old\<lparr>c_DefaultScopes := c_DefaultScopes stored\<rparr> \<and>
    set (c_DefaultScopes stored) = set (c_DefaultScopes old) \<union> set scopes \<and>
    ks_hash (view w') (clientsKey t) CodeAdminAudienceClientID = Some payload \<and> kc_strict K payload = Some stored \<and>
    (if raised then \<not> set scopes \<subseteq> set (c_DefaultScopes old) else view w' = view v \<and> stored = old)"
proof -
  let ?i = CodeAdminAudienceClientID
  obtain status val w1 where e: "evalPair R (managedClientGetScript t ?i) w = (Inr (status, val), w1)"
    using assms(4) by (auto simp: raiseAttempt_def split: prod.splits sum.splits)
  note f = evalPair_Inr [OF assms(1) e]
  obtain old legacy where old: "raisableClient K P t status val = Inr (old, legacy)"
    using assms(4) by (auto simp: raiseAttempt_def e split: sum.splits)
  have st: "status = ''legacy'' \<or> status = ''managed''" "kc_strict K val = Some old"
    "ValidCanonicalAudienceScopes P (c_DefaultScopes old)"
    using old by (auto simp: raisableClient_def decodeBootstrapLegacyCodeAdminAudience_def decodeManagedAudienceClient_def
        validManagedAudienceClient_def split: if_splits option.splits)
  have v0: "ks_hash (view w) (clientsKey t) ?i = Some val" "view w1 = view w"
    using f st(1) by (auto simp: managedClientGetScript_def split: option.splits if_splits)
  have i: "instant view F w (g w1)" using v0(2) assms(5) by (blast intro: instant.intros)
  show ?thesis
  proof (cases "list_all (\<lambda>sc. sc \<in> set (c_DefaultScopes old)) scopes")
    case True
    with assms(4) old have "stored = old" "\<not> raised" "w' = w1" by (auto simp: raiseAttempt_def e)
    with True v0 st start [of view F w] show ?thesis
      by (intro exI [of _ w] exI [of _ val] exI [of _ old]) (auto simp: list_all_iff)
  next
    case False
    then obtain rs where rs: "CanonicalAudienceScopes P (c_DefaultScopes old @ scopes) = Some rs"
      using assms(4) by (auto simp: raiseAttempt_def e old split: option.splits)
    let ?n = "old\<lparr>c_DefaultScopes := rs\<rparr>"
    note rs' = raised_scopes [OF st(3) assms(3) rs]
    have fin: ?thesis if "instant view F w v" "stored = ?n" "raised" "ks_hash (view v) (clientsKey t) ?i = Some val"
        "ks_hash (view w') (clientsKey t) ?i = Some payload" "kc_strict K payload = Some ?n" for v payload
      using that rs' False st(2) by (intro exI [of _ v] exI [of _ val] exI [of _ old] exI [of _ payload]) (auto simp: list_all_iff)
    show ?thesis
    proof (cases legacy)
      case True
      then have run: "raiseBootstrapLegacyCodeAdminAudience R K P t val ?n (g w1) = (Some (Inr stored), w')" "raised"
        using assms(4) False rs by (auto simp: raiseAttempt_def e old Let_def with_flag_Inr)
      then obtain payload where p: "kc_marshal K ?n = Inr payload"
          "rEval R (g w1) (existingAudienceScopesScript t ?i val payload False) = (Inr [''updated''], w')"
          "decodeBootstrapLegacyCodeAdminAudience K P t payload = Some stored"
        by (auto simp: raiseBootstrapLegacyCodeAdminAudience_def split: if_splits sum.splits prod.splits option.splits)
      have s: "kc_strict K payload = Some ?n" using assms(2) p(1) by (simp add: client_json_ok_def)
      with p(3) have n: "stored = ?n" by (auto simp: decodeBootstrapLegacyCodeAdminAudience_def split: if_splits)
      from store_writes(3) [OF assms(1) p(2)]
      have "ks_hash (view (g w1)) (clientsKey t) ?i = Some val" "ks_hash (view w') (clientsKey t) ?i = Some payload"
        by (auto simp: existingAudienceScopesScript_def Let_def split: if_splits)
      then show ?thesis by (rule fin [OF i n run(2) _ _ s])
    next
      case no: False
      then obtain payload where p: "kc_marshal K ?n = Inr payload" "raised"
          "swapped K P t ''updated'' payload (\<lambda>stored. IsManagedCodeAdminAudience t (Some stored) \<and> c_DefaultScopes stored = rs)
             (evalPair R (managedClientReconcileScript t ?i val payload) (g w1)) = (Some (Inr stored), w')"
        using assms(4) False rs by (auto simp: raiseAttempt_def e old Let_def with_flag_Inr split: if_splits sum.splits)
      have s: "kc_strict K payload = Some ?n" using assms(2) p(1) by (simp add: client_json_ok_def)
      from swapped_Inr [OF p(3)] have q: "evalPair R (managedClientReconcileScript t ?i val payload) (g w1) = (Inr (''updated'', payload), w')"
        "decodeManagedAudienceClient K P t payload = Some stored" by auto
      with s have n: "stored = ?n" by (auto simp: decodeManagedAudienceClient_def split: if_splits)
      note g = evalPair_Inr [OF assms(1) q(1)]
      from stored_both(4) [OF g(1)] g(2)
      have "ks_hash (view (g w1)) (clientsKey t) ?i = Some val" "ks_hash (view w') (clientsKey t) ?i = Some payload"
        by (auto simp: setBoth_stored)
      then show ?thesis by (rule fin [OF i n p(2) _ _ s])
    qed
  qed
qed

text \<open>
  Raising the ceiling only adds. When \<^verbatim>\<open>RaiseManagedCodeAdminAudienceScopes\<close> succeeds, there was an instant at which
  the tenant's administration client was stored, and the client it returns and leaves stored is that one with exactly
  the requested scopes added to those it had: no scope is removed and no other field changes. It reports a change
  exactly when a scope was missing and otherwise writes nothing.
\<close>

theorem raise_only_adds:
  assumes "store_ok R view" "client_json_ok K"
    and "RaiseManagedCodeAdminAudienceScopes R K P others between w t scopes = (Inr (stored, raised), w')"
  shows "\<exists>v before old payload. instant view (range others \<union> range between) w v \<and>
    ks_hash (view v) (clientsKey t) CodeAdminAudienceClientID = Some before \<and>
    kc_strict K before = Some old \<and> stored = old\<lparr>c_DefaultScopes := c_DefaultScopes stored\<rparr> \<and>
    set (c_DefaultScopes stored) = set (c_DefaultScopes old) \<union> set scopes \<and>
    ks_hash (view w') (clientsKey t) CodeAdminAudienceClientID = Some payload \<and> kc_strict K payload = Some stored \<and>
    (if raised then \<not> set scopes \<subseteq> set (c_DefaultScopes old) else view w' = view v \<and> stored = old)"
proof -
  have s: "CanonicalAudienceScopes P scopes = Some scopes"
    and run: "casLoop (\<lambda>i v. raiseAttempt R K P (others i) t scopes (between i v)) 0 4 w = (Inr (stored, raised), w')"
    using assms(3) by (auto simp: RaiseManagedCodeAdminAudienceScopes_def split: if_splits)
  let ?F = "range others \<union> range between"
  have "range between \<subseteq> ?F" by simp
  moreover have "instant view ?F v v'" if "raiseAttempt R K P (others j) t scopes v = (None, v')" for j v v'
    using raiseAttempt_None [OF assms(1) that, of ?F] by simp
  ultimately obtain j v where i: "instant view ?F w v" and a: "raiseAttempt R K P (others j) t scopes v = (Some (Inr (stored, raised)), w')"
    by (rule casLoop_Inr [where step = "\<lambda>j. raiseAttempt R K P (others j) t scopes" and between = between, OF run start])
  have "others j \<in> ?F" by simp
  from raiseAttempt_Inr [OF assms(1,2) s a this] show ?thesis using instant_trans [OF _ i] by blast
qed

section \<open>Reading the ledger\<close>

lemma listedClients_ok:
  "\<forall>(f, v) \<in> set kvs. \<exists>c. kc_unmarshal K v = Inr c \<and>
     (case markers f of Some m \<Rightarrow> m = v \<and> decodeManagedAudienceClient K P t v = Some c | None \<Rightarrow> c_ManagedBy c = []) \<Longrightarrow>
   listedClients K P t markers kvs = Inr (map (\<lambda>kv. projr (kc_unmarshal K (snd kv))) kvs)"
  by (induction kvs) (auto split: option.splits)

lemma ledger_record:
  assumes "clientsLedger K P ks" "client_json_ok K" "ks_hash ks (clientsKey t) i = Some v"
  shows "\<exists>c. kc_unmarshal K v = Inr c \<and>
    (case ks_hash ks (managedClientsKey t) i of
       Some m \<Rightarrow> m = v \<and> decodeManagedAudienceClient K P t v = Some c | None \<Rightarrow> c_ManagedBy c = [])"
proof (cases "ks_hash ks (managedClientsKey t) i")
  case None
  with assms(1,3) show ?thesis by (auto simp: clientsLedger_def)
next
  case (Some m)
  with assms(1,3) obtain c where c: "m = v" "decodeManagedAudienceClient K P t m = Some c"
    by (auto simp: clientsLedger_def) (metis option.inject)
  then have "kc_strict K v = Some c" by (auto simp: decodeManagedAudienceClient_def split: option.splits if_splits)
  with assms(2) c Some show ?thesis by (simp add: client_json_ok_def)
qed

lemma marked_fields:
  assumes "distinct (map fst kvs)" "distinct (map fst ms)" "fst ` set ms \<subseteq> fst ` set kvs"
  shows "length (filter (\<lambda>kv. map_of ms (fst kv) \<noteq> None) kvs) = length ms"
proof -
  let ?m = "filter (\<lambda>kv. map_of ms (fst kv) \<noteq> None) kvs"
  have "length ?m = card (set (map fst ?m))"
    using distinct_card [of "map fst ?m"] assms(1) by (simp add: distinct_map_filter del: not_None_eq)
  also have "set (map fst ?m) = set (map fst ms)"
  proof
    show "set (map fst ms) \<subseteq> set (map fst ?m)"
    proof
      fix f assume f: "f \<in> set (map fst ms)"
      with assms(3) obtain kv where "kv \<in> set kvs" "f = fst kv" by auto
      with f show "f \<in> set (map fst ?m)" by (auto simp: map_of_eq_None_iff simp del: not_None_eq)
    qed
  qed (auto simp: map_of_eq_None_iff simp del: not_None_eq)
  also have "card (set (map fst ms)) = length ms" using assms(2) by (subst distinct_card) simp_all
  finally show ?thesis .
qed

lemma clientRepo_Get_ledger:
  assumes "store_ok R view" "client_json_ok K" "clientsLedger K P (view w)" "activeTenantIdentity (TrimSpace t)"
  shows "(case clientRepo_Get R K P w t i of
       (Inl e, w') \<Rightarrow> rEval R w (managedClientGetScript t i) = (Inl e, w')
     | (Inr oc, w') \<Rightarrow> view w' = view w \<and> map_option Inr oc = map_option (kc_unmarshal K) (ks_hash (view w) (clientsKey t) i))"
proof -
  obtain r w' where run: "rEval R w (managedClientGetScript t i) = (r, w')" by force
  show ?thesis
  proof (cases r)
    case (Inl e)
    with run assms(4) show ?thesis by (simp add: clientRepo_Get_def)
  next
    case (Inr xs)
    from store_writes(3) [OF assms(1) run [unfolded Inr]]
    have x: "xs = fst (managedClientGetScript t i (view w))" "view w' = view w" by (auto simp: managedClientGetScript_def)
    show ?thesis
    proof (cases "ks_hash (view w) (clientsKey t) i")
      case None
      with assms(3) have "ks_hash (view w) (managedClientsKey t) i = None"
        by (metis clientsLedger_def not_None_eq option.distinct(1))
      with None x run Inr assms(4) show ?thesis by (simp add: clientRepo_Get_def managedClientGetScript_def)
    next
      case (Some v)
      from ledger_record [OF assms(3,2) Some] obtain c where c: "kc_unmarshal K v = Inr c"
        "case ks_hash (view w) (managedClientsKey t) i of
           Some m \<Rightarrow> m = v \<and> decodeManagedAudienceClient K P t v = Some c | None \<Rightarrow> c_ManagedBy c = []" by blast
      with x run Inr assms(4) Some show ?thesis
        by (cases "ks_hash (view w) (managedClientsKey t) i") (simp_all add: clientRepo_Get_def managedClientGetScript_def)
    qed
  qed
qed

lemma clientRepo_List_ledger:
  assumes "store_ok R view" "client_json_ok K" "clientsLedger K P (view w)" "activeTenantIdentity (TrimSpace t)"
  shows "(case clientRepo_List R K P w t of
       Inl e \<Rightarrow> rHGetAll R w (clientsKey t) = Inl e \<or> rHGetAll R w (managedClientsKey t) = Inl e
     | Inr cs \<Rightarrow> Inr ` set cs = kc_unmarshal K ` ran (ks_hash (view w) (clientsKey t)) \<and>
                 length cs = card (dom (ks_hash (view w) (clientsKey t))))"
proof -
  show ?thesis
  proof (cases "rHGetAll R w (clientsKey t)")
    case a: (Inr kvs)
    show ?thesis
    proof (cases "rHGetAll R w (managedClientsKey t)")
      case b: (Inr ms)
      from store_reads(4) [OF assms(1) a] store_reads(4) [OF assms(1) b]
      have m: "distinct (map fst kvs)" "map_of kvs = ks_hash (view w) (clientsKey t)"
        "distinct (map fst ms)" "map_of ms = ks_hash (view w) (managedClientsKey t)" by auto
      have "ks_hash (view w) (managedClientsKey t) f = None" if "ks_hash (view w) (clientsKey t) f = None" for f
        using that assms(3) by (metis clientsLedger_def not_None_eq option.distinct(1))
      then have sub: "fst ` set ms \<subseteq> fst ` set kvs" using m(2,4) by (metis map_of_eq_None_iff subsetI)
      have "\<forall>(f, v) \<in> set kvs. \<exists>c. kc_unmarshal K v = Inr c \<and>
         (case map_of ms f of Some m \<Rightarrow> m = v \<and> decodeManagedAudienceClient K P t v = Some c | None \<Rightarrow> c_ManagedBy c = [])"
      proof clarify
        fix f v assume "(f, v) \<in> set kvs"
        with m(1,2) have "ks_hash (view w) (clientsKey t) f = Some v" by (metis map_of_is_SomeI)
        from ledger_record [OF assms(3,2) this] show "\<exists>c. kc_unmarshal K v = Inr c \<and>
            (case map_of ms f of Some m \<Rightarrow> m = v \<and> decodeManagedAudienceClient K P t v = Some c | None \<Rightarrow> c_ManagedBy c = [])"
          by (simp only: m(4))
      qed
      note l = listedClients_ok [OF this] marked_fields [OF m(1,3) sub]
      have u: "Inr (projr (kc_unmarshal K v)) = kc_unmarshal K v" if "(f, v) \<in> set kvs" for f v
        using ledger_record [OF assms(3,2), of t f v] m(1,2) that by (metis map_of_is_SomeI sum.sel(2))
      have r: "ran (map_of kvs) = snd ` set kvs" "dom (map_of kvs) = fst ` set kvs"
        using m(1) by (simp_all add: ran_distinct dom_map_of_conv_image_fst)
      have "Inr ` (\<lambda>kv. projr (kc_unmarshal K (snd kv))) ` set kvs = kc_unmarshal K ` snd ` set kvs"
        using u by (force simp: image_image intro!: image_cong)
      moreover have "card (fst ` set kvs) = length kvs" using m(1) distinct_card [of "map fst kvs"] by simp
      ultimately show ?thesis
        using a b l r assms(4) by (simp add: clientRepo_List_def m(2) [symmetric])
    qed (use a assms(4) in \<open>simp add: clientRepo_List_def\<close>)
  qed (use assms(4) in \<open>simp add: clientRepo_List_def\<close>)
qed

text \<open>
  On a consistent registry a read never reports corruption: \<^verbatim>\<open>Get\<close> returns the stored client, or nothing exactly
  when there is no record, and \<^verbatim>\<open>List\<close> returns every record of the tenant; the only errors are those of Redis.
\<close>

theorem client_reads_exact:
  assumes "store_ok R view" "client_json_ok K" "clientsLedger K P (view w)" "activeTenantIdentity (TrimSpace t)"
  shows "(case clientRepo_Get R K P w t i of
       (Inl e, w') \<Rightarrow> rEval R w (managedClientGetScript t i) = (Inl e, w')
     | (Inr oc, w') \<Rightarrow> view w' = view w \<and> map_option Inr oc = map_option (kc_unmarshal K) (ks_hash (view w) (clientsKey t) i)) \<and>
    (case clientRepo_List R K P w t of
       Inl e \<Rightarrow> rHGetAll R w (clientsKey t) = Inl e \<or> rHGetAll R w (managedClientsKey t) = Inl e
     | Inr cs \<Rightarrow> Inr ` set cs = kc_unmarshal K ` ran (ks_hash (view w) (clientsKey t)) \<and>
                 length cs = card (dom (ks_hash (view w) (clientsKey t))))"
  by (rule conjI [OF clientRepo_Get_ledger [OF assms] clientRepo_List_ledger [OF assms]])

section \<open>Witnesses\<close>

definition console :: "string list \<Rightarrow> client" where
  "console scopes = \<lparr>c_Id = CodeAdminAudienceClientID, c_TenantId = ''acme'', c_SecretHash = [], c_Type = ClientTypeService,
     c_AllowedGrantTypes = [GrantTypeTokenExchange], c_DefaultScopes = scopes, c_Status = ClientStatusActive,
     c_ManagedBy = CodeAdminAudienceClientManager\<rparr>"

definition sampleClientCodec :: clientCodec where
  "sampleClientCodec =
     (let T = tableCodec [(console [''files:read''], ''C0''), (console [''files:read'', ''files:write''], ''C1'')] in
      \<lparr>kc_marshal = marshal T, kc_unmarshal = unmarshal T, kc_strict = exactObject T\<rparr>)"

definition emptyMem :: Directory_Store.memory where
  "emptyMem = \<lparr>mem_keys = emptyKeys, mem_fields = [CodeAdminAudienceClientID]\<rparr>"

definition consoleMem :: Directory_Store.memory where
  "consoleMem = \<lparr>mem_keys = applyAll (setBoth ''acme'' CodeAdminAudienceClientID ''C0'') emptyKeys,
     mem_fields = [CodeAdminAudienceClientID]\<rparr>"

lemma sampleClientCodec_ok: "client_json_ok sampleClientCodec"
proof -
  let ?t = "[(console [''files:read''], ''C0''), (console [''files:read'', ''files:write''], ''C1'')]"
  have "codec_ok (tableCodec ?t)" by (rule tableCodec_ok; code_simp)
  then show ?thesis
    by (simp add: client_json_ok_def sampleClientCodec_def codec_ok_def codec_roundtrip_def tableCodec_def)
qed

lemma sample_scopes:
  "CanonicalAudienceScopes compiledPolicy [''files:read''] = Some [''files:read'']"
  "CanonicalAudienceScopes compiledPolicy [''files:write''] = Some [''files:write'']"
  "CanonicalAudienceScopes compiledPolicy [''files:read'', ''files:write''] = Some [''files:read'', ''files:write'']"
proof -
  have "validPermission ''files:read''" "validPermission ''files:write''" by code_simp+
  then have a: "audienceAllowed compiledPolicy ''files:read''" "audienceAllowed compiledPolicy ''files:write''"
    by (simp_all add: audienceAllowed_def HasPrefix_def)
  show "CanonicalAudienceScopes compiledPolicy [''files:read''] = Some [''files:read'']"
    "CanonicalAudienceScopes compiledPolicy [''files:write''] = Some [''files:write'']"
    "CanonicalAudienceScopes compiledPolicy [''files:read'', ''files:write''] = Some [''files:read'', ''files:write'']"
    using a by (simp_all add: CanonicalAudienceScopes_eq_Some audienceAllowed_TrimSpace sort_uniq_def)
qed

lemma console_valid:
  "CanonicalAudienceScopes compiledPolicy scopes = Some scopes \<Longrightarrow>
   validManagedAudienceClient compiledPolicy ''acme'' (console scopes)"
  by (simp add: validManagedAudienceClient_def IsManagedCodeAdminAudience_def console_def ValidCanonicalAudienceScopes_iff)

lemma sample_codec [simp]:
  "kc_marshal sampleClientCodec (console [''files:read'']) = Inr ''C0''"
  "kc_marshal sampleClientCodec (console [''files:read'', ''files:write'']) = Inr ''C1''"
  "kc_strict sampleClientCodec ''C0'' = Some (console [''files:read''])"
  "kc_strict sampleClientCodec ''C1'' = Some (console [''files:read'', ''files:write''])"
  "kc_unmarshal sampleClientCodec ''C0'' = Inr (console [''files:read''])"
  "c_Id (console scopes) = CodeAdminAudienceClientID" "c_DefaultScopes (console scopes) = scopes"
  "console scopes\<lparr>c_DefaultScopes := rs\<rparr> = console rs"
  by (code_simp | simp add: console_def)+

lemma casLoop_first:
  "casLoop attempt i 4 w = (case attempt i w of (Some r, w') \<Rightarrow> (r, w') | (None, w') \<Rightarrow> casLoop attempt (Suc i) 3 w')"
proof -
  have "(4 :: nat) = Suc 3" by simp
  then show ?thesis by (simp only: casLoop.simps)
qed

lemma memStore_eval: "rEval memStore w f = (Inr (fst (f (mem_keys w))), w\<lparr>mem_keys := applyAll (snd (f (mem_keys w))) (mem_keys w)\<rparr>)"
  by (simp add: memStore_def split: prod.split)

lemma sample_ensure:
  "EnsureManagedAudience memStore sampleClientCodec compiledPolicy quiet quiet emptyMem ''acme'' (console [''files:read'']) =
     (Inr (console [''files:read''], True), consoleMem)"
proof -
  note v = console_valid [OF sample_scopes(1)]
  have s: "sameManagedAudienceClient compiledPolicy (console [''files:read'']) (console [''files:read''])"
    using v by (simp add: sameManagedAudienceClient_def sameManagedAudienceOwner_def) (simp add: console_def)
  have d: "decodeManagedAudienceClient sampleClientCodec compiledPolicy ''acme'' ''C0'' = Some (console [''files:read''])"
    using v by (simp add: decodeManagedAudienceClient_def)
  show ?thesis
    using v s d by (simp add: EnsureManagedAudience_def casLoop_first ensureManagedAttempt_def evalPair_def memStore_eval
        managedClientEnsureScript_def emptyMem_def consoleMem_def emptyKeys_def)
qed

theorem client_ledger_invariant_witness:
  "\<exists>w. (clientStep memStore sampleClientCodec compiledPolicy)\<^sup>*\<^sup>* emptyMem w \<and>
     clientsLedger sampleClientCodec compiledPolicy (mem_keys emptyMem) \<and>
     clientsLedger sampleClientCodec compiledPolicy (mem_keys w) \<and>
     ks_hash (mem_keys w) (managedClientsKey ''acme'') CodeAdminAudienceClientID = Some ''C0''"
proof -
  have "clientStep memStore sampleClientCodec compiledPolicy emptyMem consoleMem"
    by (rule clientStep.ensure [OF _ _ sample_ensure]) simp_all
  then have s: "(clientStep memStore sampleClientCodec compiledPolicy)\<^sup>*\<^sup>* emptyMem consoleMem" by simp
  have l: "clientsLedger sampleClientCodec compiledPolicy (mem_keys emptyMem)" by (simp add: emptyMem_def ledger_empty)
  have "ks_hash (mem_keys consoleMem) (managedClientsKey ''acme'') CodeAdminAudienceClientID = Some ''C0''"
    by (simp add: consoleMem_def setBoth_def)
  with s l client_ledger_invariant [OF s memStore_ok sampleClientCodec_ok l] show ?thesis by blast
qed

theorem ensure_managed_audience_stored_witness:
  "\<exists>w'. EnsureManagedAudience memStore sampleClientCodec compiledPolicy quiet quiet emptyMem ''acme'' (console [''files:read'']) =
      (Inr (console [''files:read''], True), w') \<and>
    ks_hash (mem_keys w') (managedClientsKey ''acme'') CodeAdminAudienceClientID = Some ''C0''"
  using ensure_managed_audience_stored [OF memStore_ok sampleClientCodec_ok sample_ensure] sample_ensure by auto

lemma sample_raise:
  "RaiseManagedCodeAdminAudienceScopes memStore sampleClientCodec compiledPolicy quiet quiet consoleMem ''acme'' [''files:write''] =
     (Inr (console [''files:read'', ''files:write''], True),
      consoleMem\<lparr>mem_keys := applyAll (setBoth ''acme'' CodeAdminAudienceClientID ''C1'') (mem_keys consoleMem)\<rparr>)"
proof -
  note v = console_valid [OF sample_scopes(1)] console_valid [OF sample_scopes(3)]
  have m: "IsManagedCodeAdminAudience ''acme'' (Some (console scopes))" for scopes
    by (simp add: IsManagedCodeAdminAudience_def console_def)
  have d: "decodeManagedAudienceClient sampleClientCodec compiledPolicy ''acme'' ''C0'' = Some (console [''files:read''])"
    "decodeManagedAudienceClient sampleClientCodec compiledPolicy ''acme'' ''C1'' = Some (console [''files:read'', ''files:write''])"
    using v by (simp_all add: decodeManagedAudienceClient_def)
  have g: "evalPair memStore (managedClientGetScript ''acme'' CodeAdminAudienceClientID) consoleMem = (Inr (''managed'', ''C0''), consoleMem)"
    by (simp add: evalPair_def memStore_eval managedClientGetScript_def consoleMem_def setBoth_def)
  have u: "evalPair memStore (managedClientReconcileScript ''acme'' CodeAdminAudienceClientID ''C0'' ''C1'') consoleMem =
      (Inr (''updated'', ''C1''), consoleMem\<lparr>mem_keys := applyAll (setBoth ''acme'' CodeAdminAudienceClientID ''C1'') (mem_keys consoleMem)\<rparr>)"
    by (simp add: evalPair_def memStore_eval managedClientReconcileScript_def consoleMem_def setBoth_def)
  show ?thesis
    using v m d g u sample_scopes
    by (simp add: RaiseManagedCodeAdminAudienceScopes_def casLoop_first raiseAttempt_def raisableClient_def swapped_def with_flag_def Let_def)
qed

theorem raise_only_adds_witness:
  "\<exists>w'. RaiseManagedCodeAdminAudienceScopes memStore sampleClientCodec compiledPolicy quiet quiet consoleMem ''acme'' [''files:write''] =
      (Inr (console [''files:read'', ''files:write''], True), w') \<and>
    ks_hash (mem_keys w') (clientsKey ''acme'') CodeAdminAudienceClientID = Some ''C1''"
  using raise_only_adds [OF memStore_ok sampleClientCodec_ok sample_raise] sample_raise by (auto simp: setBoth_def)

theorem client_reads_exact_witness:
  "fst (clientRepo_Get memStore sampleClientCodec compiledPolicy consoleMem ''acme'' CodeAdminAudienceClientID) =
     Inr (Some (console [''files:read'']))"
proof -
  have l: "clientsLedger sampleClientCodec compiledPolicy (mem_keys consoleMem)"
    using clientStep_safe [OF clientStep.ensure [OF _ _ sample_ensure] memStore_ok sampleClientCodec_ok] ledger_empty
    by (simp add: ledgerSafe_def emptyMem_def)
  have t: "activeTenantIdentity (TrimSpace ''acme'')" by code_simp
  have k: "ks_hash (mem_keys consoleMem) (clientsKey ''acme'') CodeAdminAudienceClientID = Some ''C0''"
    by (simp add: consoleMem_def setBoth_def)
  obtain r w' where g: "clientRepo_Get memStore sampleClientCodec compiledPolicy consoleMem ''acme'' CodeAdminAudienceClientID = (r, w')"
    by force
  from client_reads_exact [OF memStore_ok sampleClientCodec_ok l t, of CodeAdminAudienceClientID] k
  show ?thesis by (auto simp: g memStore_eval split: sum.splits)
qed

end
