(* ===== verification/Account_Broker.thy ===== *)
theory Account_Broker
  imports Directory_Service Client_Repository Token_Exchange
begin

text \<open>
  Workload accounts: the account boundary that the backend of a tenant uses with its projected token instead of a secret,
  \<^verbatim>\<open>internal/services/workload_account_bff_service.go\<close>, and the deletion of such an account in one script,
  \<^verbatim>\<open>internal/repository/workload_account_deletion_repository.go\<close>.
\<close>

section \<open>Configuration and requests\<close>

record brokerRole =
  br_Role :: string
  br_Scopes :: "string list"

record brokerClient =
  bc_TenantID :: string
  bc_Namespace :: string
  bc_ServiceAccount :: string
  bc_Audience :: string
  bc_Role :: string
  bc_Scopes :: "string list"
  bc_MemberScopes :: "string list"
  bc_PreviousBaseRoleScopes :: "string list"
  bc_AdditionalRoles :: "brokerRole list"
  bc_TTLSeconds :: int

record accountCredentials =
  acr_Email :: string
  acr_Password :: string

record accountRegistrationResp =
  arr_LocalId :: string
  arr_Email :: string
  arr_TenantID :: string
  arr_Role :: string
  arr_CreatedAt :: gotime

record accountSessionResp =
  asr_AccessToken :: string
  asr_TokenType :: string
  asr_LocalId :: string
  asr_Email :: string
  asr_ExpiresIn :: int

abbreviation ErrWorkloadAccountConflict :: gerror where
  "ErrWorkloadAccountConflict \<equiv> ErrText ''workload account registration conflict''"
abbreviation ErrWorkloadAccountUnavailable :: gerror where
  "ErrWorkloadAccountUnavailable \<equiv> ErrText ''workload account service unavailable''"

section \<open>The service\<close>

text \<open>
  \<open>wa_parseAddress\<close> is \<^verbatim>\<open>mail.ParseAddress\<close> (the address part), \<open>wa_verifyPassword\<close> the password check of
  \<^verbatim>\<open>utils\<close>. The interfaces are optional, as the code tests them for \<^verbatim>\<open>nil\<close>. \<open>brokerEnv\<close> is what one registration reads
  from outside: the clock, a fresh identifier and the salted hash.
\<close>

record 'w accountUserStore =
  wu_FindByEmail :: "'w \<Rightarrow> string \<Rightarrow> user option res \<times> 'w"
  wu_CreateUser :: "'w \<Rightarrow> user \<Rightarrow> gerror option \<times> 'w"
  wu_DeleteByEmail :: "'w \<Rightarrow> string \<Rightarrow> gerror option \<times> 'w"

record 'w accountTokenService =
  wt_SignIn :: "'w \<Rightarrow> signInReq \<Rightarrow> signInResp option res \<times> 'w"
  wt_TokenExchange :: "'w \<Rightarrow> tokenExchangeReq \<Rightarrow> tokenExchangeResp option res \<times> 'w"

record 'w accountService =
  wa_unicode :: go_unicode
  wa_parseAddress :: "string \<Rightarrow> string option"
  wa_verifyPassword :: "string \<Rightarrow> string \<Rightarrow> bool"
  wa_verifier :: "('w \<Rightarrow> string \<Rightarrow> workloadSubject res) option"
  wa_users :: "'w accountUserStore option"
  wa_memberships :: "('w \<Rightarrow> string \<Rightarrow> string \<Rightarrow> membership option res) option"
  wa_writer :: "('w \<Rightarrow> string \<Rightarrow> string \<Rightarrow> string list \<Rightarrow> (membership option \<times> bool) res \<times> 'w) option"
  wa_access :: "'w identityDirectory option"
  wa_tokens :: "'w accountTokenService option"
  wa_deletion :: "('w \<Rightarrow> string \<Rightarrow> string \<Rightarrow> string \<Rightarrow> gerror option \<times> 'w) option"
  wa_clients :: "string \<Rightarrow> brokerClient option"

record brokerEnv =
  be_now :: int
  be_uuid :: string
  be_generate :: "string \<Rightarrow> string res"

text \<open>The clients by the subject of their service account; a later one replaces an earlier one.\<close>

definition clientsBySubject :: "brokerClient list \<Rightarrow> string \<Rightarrow> brokerClient option" where
  "clientsBySubject clients =
     map_of (rev (map (\<lambda>c. (workloadSubjectPrefix @ bc_Namespace c @ '':'' @ bc_ServiceAccount c, c)) clients))"

definition authorizeBroker :: "'w accountService \<Rightarrow> 'w \<Rightarrow> string \<Rightarrow> brokerClient res" where
  "authorizeBroker s w token =
     (case wa_verifier s of
        None \<Rightarrow> Inl ErrWorkloadTokenInvalid
      | Some verify \<Rightarrow>
          if TrimSpace token = [] then Inl ErrWorkloadTokenInvalid
          else
            (case verify w token of
               Inl e \<Rightarrow> Inl e
             | Inr subject \<Rightarrow>
                 (case wa_clients s (ws_Subject subject) of
                    None \<Rightarrow> Inl ErrWorkloadBindingDenied
                  | Some c \<Rightarrow>
                      if ws_Namespace subject \<noteq> bc_Namespace c \<or> ws_ServiceAccount subject \<noteq> bc_ServiceAccount c
                      then Inl ErrWorkloadBindingDenied else Inr c)))"

definition validWorkloadAccountCredentials :: "'w accountService \<Rightarrow> accountCredentials \<Rightarrow> accountCredentials res" where
  "validWorkloadAccountCredentials s c =
     (let email = ToLower (wa_unicode s) (TrimSpace (acr_Email c)) in
      if wa_parseAddress s email \<noteq> Some email \<or> length email > 254 \<or> length (acr_Password c) < 12 \<or>
         length (acr_Password c) > 72 \<or> CHR 0x00 \<in> set (acr_Password c)
      then Inl ErrInvalidArgument else Inr (c\<lparr>acr_Email := email\<rparr>))"

definition validWorkloadAccountMembership :: "membership option \<Rightarrow> brokerClient \<Rightarrow> string \<Rightarrow> bool" where
  "validWorkloadAccountMembership om c userID =
     (case om of
        None \<Rightarrow> False
      | Some m \<Rightarrow> m_TenantId m = bc_TenantID c \<and> m_UserId m = userID \<and> m_CreatedAt m \<noteq> None \<and> m_Roles m = [bc_Role c])"

definition validWorkloadAccountToken :: "string \<Rightarrow> bool" where
  "validWorkloadAccountToken v \<longleftrightarrow>
     v \<noteq> [] \<and> length v \<le> 16384 \<and> set v \<inter> {CHR '' '', CHR 0x0D, CHR 0x0A, CHR 0x09, CHR '';'', CHR '',''} = {}"

definition workloadAccountSessionScopes :: "brokerClient \<Rightarrow> string list \<Rightarrow> string list" where
  "workloadAccountSessionScopes c roles =
     remdups_adj (sort ((if bc_Role c \<in> set roles then bc_Scopes c @ bc_MemberScopes c else []) @
       concat (map br_Scopes (filter (\<lambda>x. br_Role x \<in> set roles) (bc_AdditionalRoles c)))))"

subsection \<open>Registration\<close>

definition passwordMatches :: "'w accountService \<Rightarrow> accountCredentials \<Rightarrow> user \<Rightarrow> bool" where
  "passwordMatches s c u \<longleftrightarrow> u_Status u = UserStatusActive \<and> wa_verifyPassword s (u_Password u) (acr_Password c)"

definition ensurePasswordUser ::
  "'w accountService \<Rightarrow> 'w \<Rightarrow> brokerEnv \<Rightarrow> brokerClient \<Rightarrow> accountCredentials \<Rightarrow> (user \<times> bool) res \<times> 'w" where
  "ensurePasswordUser s w E client c =
     (case wa_users s of
        None \<Rightarrow> (Inl ErrWorkloadAccountUnavailable, w)
      | Some users \<Rightarrow>
          if wa_writer s = None \<and> wa_access s = None then (Inl ErrWorkloadAccountUnavailable, w)
          else
            (case wu_FindByEmail users w (acr_Email c) of
               (Inl _, w1) \<Rightarrow> (Inl ErrWorkloadAccountUnavailable, w1)
             | (Inr (Some u), w1) \<Rightarrow>
                 (if passwordMatches s c u then Inr (u, False) else Inl ErrWorkloadAccountConflict, w1)
             | (Inr None, w1) \<Rightarrow>
                 (case be_generate E (acr_Password c) of
                    Inl _ \<Rightarrow> (Inl ErrWorkloadAccountUnavailable, w1)
                  | Inr hash \<Rightarrow>
                      let u = \<lparr>u_Id = be_uuid E, u_Email = acr_Email c, u_Password = hash, u_Role = RoleCompanyEmployee,
                               u_Status = UserStatusActive, u_CompanyId = Some (bc_TenantID client), u_TokenVersion = 0,
                               u_Revision = 0, u_CreatedAt = Some (be_now E), u_AuthSource = AuthSourcePassword,
                               u_ExternalSubject = [], u_PasswordChangeRequired = False\<rparr> in
                      (case wu_CreateUser users w1 u of
                         (None, w2) \<Rightarrow> (Inr (u, True), w2)
                       | (Some e, w2) \<Rightarrow>
                           if \<not> errors_Is e ErrEmailExists then (Inl ErrWorkloadAccountUnavailable, w2)
                           else
                             (case wu_FindByEmail users w2 (acr_Email c) of
                                (Inr (Some winner), w3) \<Rightarrow>
                                  (if passwordMatches s c winner then Inr (winner, False)
                                   else Inl ErrWorkloadAccountConflict, w3)
                              | (_, w3) \<Rightarrow> (Inl ErrWorkloadAccountConflict, w3))))))"

text \<open>
  The base role is granted by an assignment where the directory is wired, by a version-two membership otherwise. The
  result is the error and whether the stored grant is the expected one. Without both the caller has already failed.
\<close>

definition grantBaseRole ::
  "'w accountService \<Rightarrow> 'w \<Rightarrow> brokerClient \<Rightarrow> string \<Rightarrow> bool \<Rightarrow> (gerror option \<times> bool) \<times> 'w" where
  "grantBaseRole s w client userID created =
     (case wa_access s of
        Some access \<Rightarrow>
          (case dyPutAccessAssignment access w (bc_TenantID client) AccessPrincipalUser userID [bc_Role client] [] of
             (Inr (a, _), w1) \<Rightarrow>
               ((None, a_TenantID a = bc_TenantID client \<and> a_PrincipalID a = userID \<and>
                  a_PrincipalType a = AccessPrincipalUser \<and> a_Roles a = [bc_Role client]), w1)
           | (Inl e, w1) \<Rightarrow>
               if errors_Is e ErrVersionConflict \<and> \<not> created then
                 (case dyGetAccessAssignment access w1 (bc_TenantID client) AccessPrincipalUser userID of
                    Inl _ \<Rightarrow> ((Some ErrWorkloadAccountUnavailable, False), w1)
                  | Inr None \<Rightarrow> ((Some ErrWorkloadAccountConflict, False), w1)
                  | Inr (Some a) \<Rightarrow>
                      if a_TenantID a = bc_TenantID client \<and> a_PrincipalType a = AccessPrincipalUser \<and>
                         a_PrincipalID a = userID \<and> bc_Role client \<in> set (a_Roles a)
                      then ((None, True), w1) else ((Some ErrWorkloadAccountConflict, False), w1))
               else ((Some e, False), w1))
      | None \<Rightarrow>
          (case wa_writer s of
             None \<Rightarrow> ((Some goPanic, False), w)
           | Some ensure \<Rightarrow>
               (case ensure w (bc_TenantID client) userID [bc_Role client] of
                  (Inl e, w1) \<Rightarrow> ((Some e, False), w1)
                | (Inr (m, _), w1) \<Rightarrow> ((None, validWorkloadAccountMembership m client userID), w1))))"

definition rollbackCreated :: "'w accountService \<Rightarrow> 'w \<Rightarrow> user \<Rightarrow> bool \<Rightarrow> 'w" where
  "rollbackCreated s w u created =
     (case wa_users s of
        None \<Rightarrow> w
      | Some users \<Rightarrow> if created then snd (wu_DeleteByEmail users w (u_Email u)) else w)"

definition isAny :: "gerror option \<Rightarrow> gerror list \<Rightarrow> bool" where
  "isAny oe targets = (case oe of None \<Rightarrow> False | Some e \<Rightarrow> list_ex (errors_Is e) targets)"

definition accountRegister ::
  "'w accountService \<Rightarrow> 'w \<Rightarrow> brokerEnv \<Rightarrow> string \<Rightarrow> accountCredentials \<Rightarrow> (accountRegistrationResp \<times> bool) res \<times> 'w" where
  "accountRegister s w E token c0 =
     (case authorizeBroker s w token of
        Inl e \<Rightarrow> (Inl e, w)
      | Inr client \<Rightarrow>
          (case validWorkloadAccountCredentials s c0 of
             Inl e \<Rightarrow> (Inl e, w)
           | Inr c \<Rightarrow>
               (case ensurePasswordUser s w E client c of
                  (Inl e, w1) \<Rightarrow> (Inl e, w1)
                | (Inr (u, created), w1) \<Rightarrow>
                    (case grantBaseRole s w1 client (u_Id u) created of
                       ((oe, valid), w2) \<Rightarrow>
                         if oe \<noteq> None \<or> \<not> valid then
                           (Inl (if isAny oe [ErrMembershipConflict, ErrVersionConflict, ErrWorkloadAccountConflict]
                                 then ErrWorkloadAccountConflict else ErrWorkloadAccountUnavailable),
                            rollbackCreated s w2 u created)
                         else
                           (Inr (\<lparr>arr_LocalId = u_Id u, arr_Email = u_Email u, arr_TenantID = bc_TenantID client,
                                   arr_Role = bc_Role client, arr_CreatedAt = u_CreatedAt u\<rparr>, created), w2)))))"

subsection \<open>Sessions\<close>

definition sessionScopesFor ::
  "'w accountService \<Rightarrow> 'w \<Rightarrow> brokerClient \<Rightarrow> string \<Rightarrow> string list res" where
  "sessionScopesFor s w client userID =
     (case wa_access s of
        Some access \<Rightarrow>
          (case dyGetEffectiveTenantRoles access w userID (bc_TenantID client) of
             Inl _ \<Rightarrow> Inl ErrWorkloadAccountUnavailable
           | Inr (roles, _) \<Rightarrow>
               let scopes = workloadAccountSessionScopes client roles in
               if scopes = [] then Inl ErrWorkloadBindingDenied else Inr scopes)
      | None \<Rightarrow>
          (case wa_memberships s of
             None \<Rightarrow> Inl ErrWorkloadAccountUnavailable
           | Some get \<Rightarrow>
               (case get w (bc_TenantID client) userID of
                  Inl _ \<Rightarrow> Inl ErrWorkloadAccountUnavailable
                | Inr m \<Rightarrow>
                    if \<not> validWorkloadAccountMembership m client userID then Inl ErrWorkloadBindingDenied
                    else Inr (sort (bc_Scopes client @ bc_MemberScopes client)))))"

definition issueAccountSession ::
  "'w accountTokenService \<Rightarrow> 'w \<Rightarrow> brokerClient \<Rightarrow> accountCredentials \<Rightarrow> user \<Rightarrow> string list \<Rightarrow> accountSessionResp res \<times> 'w" where
  "issueAccountSession tokens w client c u scopes =
     (case wt_SignIn tokens w \<lparr>si_Email = acr_Email c, si_Password = acr_Password c\<rparr> of
        (Inl e, w1) \<Rightarrow> (Inl (if errors_Is e ErrInvalidCreds then ErrInvalidCreds else ErrWorkloadAccountUnavailable), w1)
      | (Inr None, w1) \<Rightarrow> (Inl ErrWorkloadAccountUnavailable, w1)
      | (Inr (Some identity), w1) \<Rightarrow>
          if sir_IdToken identity = [] \<or> sir_LocalId identity \<noteq> u_Id u \<or> sir_Email identity \<noteq> u_Email u
          then (Inl ErrWorkloadAccountUnavailable, w1)
          else
            (case wt_TokenExchange tokens w1
                    \<lparr>te_IdToken = sir_IdToken identity, te_Audience = bc_Audience client, te_Scopes = scopes,
                     te_EventTypes = [], te_TTLSeconds = bc_TTLSeconds client, te_TenantID = bc_TenantID client,
                     te_DiscoverTenantTargetsV1 = False, te_DiscoverTenantTargetsV2 = False,
                     te_ScopeCeilingV1 = None\<rparr> of
               (Inl e, w2) \<Rightarrow>
                 (Inl (if isAny (Some e) [ErrInvalidCreds, ErrInvalidTenant, ErrUnauthorizedScope]
                       then ErrWorkloadBindingDenied else ErrWorkloadAccountUnavailable), w2)
             | (Inr None, w2) \<Rightarrow> (Inl ErrWorkloadAccountUnavailable, w2)
             | (Inr (Some t), w2) \<Rightarrow>
                 if \<not> validWorkloadAccountToken (ter_AccessToken t) \<or> ter_TokenType t \<noteq> ''Bearer'' \<or>
                    ter_ExpiresIn t < 1 \<or> ter_ExpiresIn t > bc_TTLSeconds client
                 then (Inl ErrWorkloadAccountUnavailable, w2)
                 else
                   (Inr \<lparr>asr_AccessToken = ter_AccessToken t, asr_TokenType = ter_TokenType t, asr_LocalId = u_Id u,
                         asr_Email = u_Email u, asr_ExpiresIn = ter_ExpiresIn t\<rparr>, w2)))"

definition accountSession ::
  "'w accountService \<Rightarrow> 'w \<Rightarrow> string \<Rightarrow> accountCredentials \<Rightarrow> accountSessionResp res \<times> 'w" where
  "accountSession s w token c0 =
     (case authorizeBroker s w token of
        Inl e \<Rightarrow> (Inl e, w)
      | Inr client \<Rightarrow>
          (case validWorkloadAccountCredentials s c0 of
             Inl e \<Rightarrow> (Inl e, w)
           | Inr c \<Rightarrow>
               (case (wa_users s, wa_tokens s) of
                  (Some users, Some tokens) \<Rightarrow>
                    if wa_access s = None \<and> wa_memberships s = None then (Inl ErrWorkloadAccountUnavailable, w)
                    else
                      (case wu_FindByEmail users w (acr_Email c) of
                         (Inl _, w1) \<Rightarrow> (Inl ErrWorkloadAccountUnavailable, w1)
                       | (Inr None, w1) \<Rightarrow> (Inl ErrInvalidCreds, w1)
                       | (Inr (Some u), w1) \<Rightarrow>
                           if \<not> passwordMatches s c u then (Inl ErrInvalidCreds, w1)
                           else
                             (case sessionScopesFor s w1 client (u_Id u) of
                                Inl e \<Rightarrow> (Inl e, w1)
                              | Inr scopes \<Rightarrow> issueAccountSession tokens w1 client c u scopes))
                | _ \<Rightarrow> (Inl ErrWorkloadAccountUnavailable, w))))"

subsection \<open>Deletion\<close>

definition accountDelete ::
  "'w accountService \<Rightarrow> 'w \<Rightarrow> string \<Rightarrow> accountCredentials \<Rightarrow> gerror option \<times> 'w" where
  "accountDelete s w token c0 =
     (case authorizeBroker s w token of
        Inl e \<Rightarrow> (Some e, w)
      | Inr client \<Rightarrow>
          (case validWorkloadAccountCredentials s c0 of
             Inl e \<Rightarrow> (Some e, w)
           | Inr c \<Rightarrow>
               (case (wa_users s, wa_memberships s, wa_deletion s) of
                  (Some users, Some get, Some delete) \<Rightarrow>
                    (case wu_FindByEmail users w (acr_Email c) of
                       (Inl _, w1) \<Rightarrow> (Some ErrWorkloadAccountUnavailable, w1)
                     | (Inr None, w1) \<Rightarrow> (Some ErrInvalidCreds, w1)
                     | (Inr (Some u), w1) \<Rightarrow>
                         if \<not> passwordMatches s c u \<or> u_AuthSource u \<noteq> AuthSourcePassword then (Some ErrInvalidCreds, w1)
                         else
                           (case get w1 (bc_TenantID client) (u_Id u) of
                              Inl _ \<Rightarrow> (Some ErrWorkloadAccountUnavailable, w1)
                            | Inr m \<Rightarrow>
                                if \<not> validWorkloadAccountMembership m client (u_Id u)
                                then (Some ErrWorkloadBindingDenied, w1)
                                else
                                  (case delete w1 (bc_TenantID client) (u_Id u) (u_Email u) of
                                     (None, w2) \<Rightarrow> (None, w2)
                                   | (Some e, w2) \<Rightarrow>
                                       (Some (if errors_Is e ErrInvalidArgument \<or> errors_Is e ErrNotFound \<or> contextDone e
                                              then e else ErrWorkloadAccountUnavailable), w2))))
                | _ \<Rightarrow> (Some ErrWorkloadAccountUnavailable, w))))"

section \<open>The deletion script\<close>

abbreviation errWorkloadAccountDeletionContract :: gerror where
  "errWorkloadAccountDeletionContract \<equiv> ErrText ''workload account deletion contract mismatch''"

definition accountDeletionCmds :: "string \<Rightarrow> string \<Rightarrow> string \<Rightarrow> cmd list" where
  "accountDeletionCmds tenantID userID email =
     [CHDel (membershipV2Key tenantID) userID, CSRem (membershipV2ByUserKey userID) tenantID,
      CHDel (membershipsKey tenantID) userID, CSRem (membershipsByUserKey userID) tenantID,
      CHDel usersHashV2 userID, CDel (userByEmailKey email), CHDel legacyUsersHash email]"

definition accountMissing :: "string \<Rightarrow> string \<Rightarrow> keyspace \<Rightarrow> bool" where
  "accountMissing userID email ks \<longleftrightarrow>
     ks_string ks (userByEmailKey email) = None \<and> ks_hash ks usersHashV2 userID = None \<and> ks_hash ks legacyUsersHash email = None"

definition accountIntact :: "string \<Rightarrow> string \<Rightarrow> string \<Rightarrow> keyspace \<Rightarrow> bool" where
  "accountIntact tenantID userID email ks \<longleftrightarrow>
     ks_string ks (userByEmailKey email) = Some userID \<and> ks_hash ks usersHashV2 userID \<noteq> None \<and>
     ks_hash ks (membershipV2Key tenantID) userID \<noteq> None \<and> tenantID \<in> ks_set ks (membershipV2ByUserKey userID) \<and>
     tenantID \<in> ks_set ks (membershipsByUserKey userID) \<and>
     ks_hash ks (membershipsKey tenantID) userID = ks_hash ks (membershipV2Key tenantID) userID"

definition workloadAccountDeletionScript ::
  "string \<Rightarrow> string \<Rightarrow> string \<Rightarrow> keyspace \<Rightarrow> string list \<times> cmd list" where
  "workloadAccountDeletionScript tenantID userID email ks =
     (if accountMissing userID email ks then ([''missing''], [])
      else if \<not> accountIntact tenantID userID email ks then ([''corrupt''], [])
      else ([''deleted''], accountDeletionCmds tenantID userID email))"

definition deleteWorkloadAccount ::
  "'w store \<Rightarrow> 'w \<Rightarrow> string \<Rightarrow> string \<Rightarrow> string \<Rightarrow> gerror option \<times> 'w" where
  "deleteWorkloadAccount R w tenantID userID email =
     (if \<not> activeTenantIdentity tenantID \<or> \<not> canonicalMembershipV2UserID userID \<or> email = []
      then (Some ErrInvalidArgument, w)
      else
        (case rEval R w (workloadAccountDeletionScript tenantID userID email) of
           (Inl e, w') \<Rightarrow> (Some (if contextDone e then e else errWorkloadAccountDeletionContract), w')
         | (Inr status, w') \<Rightarrow>
             (if status = [''deleted''] then None
              else if status = [''missing''] then Some ErrNotFound else Some errWorkloadAccountDeletionContract, w')))"

section \<open>As the application wires it\<close>

text \<open>
  The stores of \<^verbatim>\<open>internal/app/application.go\<close>: the user repository, the legacy membership repository as reader, no
  membership writer, and the identity directory as access. \<open>base\<close> holds the rest.
\<close>

definition wiredAccounts ::
  "'w store \<Rightarrow> directoryLib \<Rightarrow> registry option \<Rightarrow> (string \<Rightarrow> samlSessionIndexRecord option) \<Rightarrow> 'w accountService \<Rightarrow>
   (nat \<Rightarrow> 'w \<Rightarrow> 'w) \<Rightarrow> (nat \<Rightarrow> int) \<Rightarrow> string \<Rightarrow> 'w accountService" where
  "wiredAccounts R L rg msgpack base others clock uuid =
     base\<lparr>wa_users := Some
            \<lparr>wu_FindByEmail = FindByEmail R L others clock,
             wu_CreateUser = (\<lambda>w u. CreateUser R L (clock 0) w (Some u)),
             wu_DeleteByEmail = (\<lambda>w e. case DeleteByEmail R L others clock w e of
               (Inl err, w') \<Rightarrow> (Some err, w') | (Inr _, w') \<Rightarrow> (None, w'))\<rparr>,
          wa_memberships := Some (membershipRepo_Get R L), wa_writer := None,
          wa_access := Some (NewIdentityDirectoryRepo R L rg msgpack others clock uuid),
          wa_deletion := Some (deleteWorkloadAccount R)\<rparr>"

text \<open>The user service as the token service of the boundary; \<open>E1\<close> and \<open>E2\<close> are the surroundings of its two calls.\<close>

definition wiredTokens :: "('w, 'k) userService \<Rightarrow> callEnv \<Rightarrow> callEnv \<Rightarrow> 'w accountTokenService" where
  "wiredTokens us E1 E2 =
     \<lparr>wt_SignIn = (\<lambda>w r. case SignIn us w E1 r of (Inl e, w') \<Rightarrow> (Inl e, w') | (Inr x, w') \<Rightarrow> (Inr (Some x), w')),
      wt_TokenExchange =
        (\<lambda>w r. case TokenExchange us w E2 r of (Inl e, w') \<Rightarrow> (Inl e, w') | (Inr x, w') \<Rightarrow> (Inr (Some x), w'))\<rparr>"

end
