(* ===== verification/Account_Reconcile.thy ===== *)
theory Account_Reconcile
  imports Account_Broker
begin

text \<open>
  \<^verbatim>\<open>internal/workloadaccount/reconcile.go\<close>: at start-up every configured broker gets its role and its managed audience. A replay
  accepts only an exact match; the base role may change only from an explicit previous definition. The texts of the errors
  leave out the quoted names.
\<close>

section \<open>Configuration\<close>

definition validMemberScopes :: "policy \<Rightarrow> string \<Rightarrow> string list \<Rightarrow> bool" where
  "validMemberScopes P tenantID scopes \<longleftrightarrow>
     scopes = [] \<or>
     length scopes \<le> 32 \<and> ValidCanonicalPermissions P scopes \<and> ValidCanonicalAudienceScopes P scopes \<and>
     list_all (\<lambda>s. HasPrefix s (tenantID @ '':'') \<and> HasSuffix s '':self'') scopes"

definition baseRoleScopes :: "brokerClient \<Rightarrow> string list" where
  "baseRoleScopes b = sort (bc_Scopes b @ bc_MemberScopes b)"

definition validPreviousBaseRoleScopes :: "policy \<Rightarrow> brokerClient \<Rightarrow> bool" where
  "validPreviousBaseRoleScopes P b \<longleftrightarrow>
     (let scopes = bc_PreviousBaseRoleScopes b in
      scopes = [] \<or>
      length scopes \<le> 64 \<and> ValidCanonicalPermissions P scopes \<and> ValidCanonicalAudienceScopes P scopes \<and>
      list_all (\<lambda>s. HasPrefix s (bc_Audience b @ '':'') \<or> HasPrefix s (bc_TenantID b @ '':'') \<and> HasSuffix s '':self'') scopes \<and>
      scopes \<noteq> baseRoleScopes b)"

fun validExtras :: "policy \<Rightarrow> brokerClient \<Rightarrow> string \<Rightarrow> brokerRole list \<Rightarrow> bool" where
  "validExtras P b previous [] = True"
| "validExtras P b previous (x # xs) =
     (br_Role x \<noteq> [] \<and> previous < br_Role x \<and> br_Role x \<noteq> bc_Role b \<and> TrimSpace (br_Role x) = br_Role x \<and>
      HasPrefix (br_Role x) (bc_TenantID b @ ''-'') \<and> ValidCanonicalPermissions P (br_Scopes x) \<and>
      ValidCanonicalAudienceScopes P (br_Scopes x) \<and> list_all (\<lambda>s. HasPrefix s (bc_TenantID b @ '':'')) (br_Scopes x) \<and>
      validExtras P b (br_Role x) xs)"

definition validBroker :: "policy \<Rightarrow> brokerClient \<Rightarrow> bool" where
  "validBroker P b \<longleftrightarrow>
     bc_TenantID b \<noteq> [] \<and> bc_Audience b \<noteq> [] \<and> bc_Role b \<noteq> [] \<and> TrimSpace (bc_TenantID b) = bc_TenantID b \<and>
     TrimSpace (bc_Audience b) = bc_Audience b \<and> TrimSpace (bc_Role b) = bc_Role b \<and> bc_Role b \<noteq> ''ADMIN'' \<and>
     bc_Namespace b = ''workload-'' @ bc_TenantID b \<and> bc_ServiceAccount b = bc_Audience b \<and>
     60 \<le> bc_TTLSeconds b \<and> bc_TTLSeconds b \<le> 3600 \<and> ValidCanonicalPermissions P (bc_Scopes b) \<and>
     ValidCanonicalAudienceScopes P (bc_Scopes b) \<and> validMemberScopes P (bc_TenantID b) (bc_MemberScopes b) \<and>
     validPreviousBaseRoleScopes P b \<and> length (bc_AdditionalRoles b) \<le> 8 \<and> validExtras P b [] (bc_AdditionalRoles b)"

definition brokerKey :: "brokerClient \<Rightarrow> string" where
  "brokerKey b = bc_TenantID b @ [CHR 0x00] @ bc_Audience b"

definition desiredRole :: "brokerClient \<Rightarrow> role" where
  "desiredRole b = \<lparr>r_Name = bc_Role b, r_Scope = RoleScopeTenant, r_TenantId = bc_TenantID b, r_ResourceId = [],
     r_Permissions = baseRoleScopes b\<rparr>"

definition desiredAudience :: "brokerClient \<Rightarrow> client" where
  "desiredAudience b = \<lparr>c_Id = bc_Audience b, c_TenantId = bc_TenantID b, c_SecretHash = [], c_Type = ClientTypeService,
     c_AllowedGrantTypes = [GrantTypeTokenExchange],
     c_DefaultScopes = remdups_adj (sort (baseRoleScopes b @ concat (map br_Scopes (bc_AdditionalRoles b)))),
     c_Status = ClientStatusActive, c_ManagedBy = WorkloadAccountBFFClientManager\<rparr>"

section \<open>Reconciliation\<close>

text \<open>The repositories; an optional interface is an optional field.\<close>

record 'w reconcileStores =
  rs_getTenant :: "'w \<Rightarrow> string \<Rightarrow> tenant option res"
  rs_isRetired :: "('w \<Rightarrow> string \<Rightarrow> bool res) option"
  rs_createRole :: "'w \<Rightarrow> string \<Rightarrow> role \<Rightarrow> (role option \<times> bool) res \<times> 'w"
  rs_replaceExact :: "('w \<Rightarrow> string \<Rightarrow> role \<Rightarrow> role \<Rightarrow> gerror option \<times> 'w) option"
  rs_getExact :: "('w \<Rightarrow> string \<Rightarrow> string \<Rightarrow> role option res) option"
  rs_ensureAudience :: "'w \<Rightarrow> string \<Rightarrow> client \<Rightarrow> (client option \<times> bool) res \<times> 'w"

definition sameRole :: "brokerClient \<Rightarrow> role option \<Rightarrow> bool" where
  "sameRole b orole =
     (case orole of
        None \<Rightarrow> False
      | Some r \<Rightarrow> r_Name r = bc_Role b \<and> r_Scope r = RoleScopeTenant \<and> r_TenantId r = bc_TenantID b \<and> r_ResourceId r = [])"

definition migrateRole :: "'w reconcileStores \<Rightarrow> 'w \<Rightarrow> brokerClient \<Rightarrow> gerror option \<times> 'w" where
  "migrateRole S w b =
     (case rs_replaceExact S of
        None \<Rightarrow> (Some (ErrWrap ''workload account role cannot migrate'' ErrRoleConflict), w)
      | Some replace \<Rightarrow>
          (case replace w (bc_TenantID b) ((desiredRole b)\<lparr>r_Permissions := bc_PreviousBaseRoleScopes b\<rparr>) (desiredRole b) of
             (None, w1) \<Rightarrow> (None, w1)
           | (Some e, w1) \<Rightarrow>
               (case rs_getExact S of
                  None \<Rightarrow> (Some (ErrWrap ''workload account role cannot migrate'' e), w1)
                | Some get \<Rightarrow>
                    (case get w1 (bc_TenantID b) (bc_Role b) of
                       Inr (Some r) \<Rightarrow>
                         if sameRole b (Some r) \<and> r_Permissions r = baseRoleScopes b then (None, w1)
                         else (Some (ErrWrap ''workload account role cannot migrate'' e), w1)
                     | _ \<Rightarrow> (Some (ErrWrap ''workload account role cannot migrate'' e), w1)))))"

definition reconcileBroker :: "'w reconcileStores \<Rightarrow> 'w \<Rightarrow> brokerClient \<Rightarrow> gerror option \<times> 'w" where
  "reconcileBroker S w b =
     (case rs_createRole S w (bc_TenantID b) (desiredRole b) of
        (Inr (Some stored, _), w1) \<Rightarrow>
          if \<not> sameRole b (Some stored) \<or>
             r_Permissions stored \<noteq> baseRoleScopes b \<and>
             (bc_PreviousBaseRoleScopes b = [] \<or> r_Permissions stored \<noteq> bc_PreviousBaseRoleScopes b)
          then (Some (ErrWrap ''workload account role conflicts'' ErrRoleConflict), w1)
          else
            (case rs_ensureAudience S w1 (bc_TenantID b) (desiredAudience b) of
               (Inr (Some c, _), w2) \<Rightarrow>
                 if \<not> IsManagedWorkloadAccountAudience (bc_TenantID b) (Some c) \<or> c_Id c \<noteq> bc_Audience b \<or>
                    c_DefaultScopes c \<noteq> c_DefaultScopes (desiredAudience b)
                 then (Some (ErrWrap ''workload account audience conflicts'' ErrManagedClientConflict), w2)
                 else if r_Permissions stored \<noteq> baseRoleScopes b then migrateRole S w2 b
                 else (None, w2)
             | (_, w2) \<Rightarrow> (Some (ErrWrap ''workload account audience conflicts'' ErrManagedClientConflict), w2))
      | (_, w1) \<Rightarrow> (Some (ErrWrap ''workload account role conflicts'' ErrRoleConflict), w1))"

text \<open>A broker of a retired tenant is passed over.\<close>

definition retiredBroker :: "'w reconcileStores \<Rightarrow> 'w \<Rightarrow> string \<Rightarrow> bool" where
  "retiredBroker S w tenantID =
     (rs_getTenant S w tenantID = Inr None \<and>
      (case rs_isRetired S of None \<Rightarrow> False | Some retired \<Rightarrow> retired w tenantID = Inr True))"

definition brokerTenantActive :: "'w reconcileStores \<Rightarrow> 'w \<Rightarrow> string \<Rightarrow> bool" where
  "brokerTenantActive S w tenantID =
     (case rs_getTenant S w tenantID of
        Inr (Some t) \<Rightarrow> t_Id t = tenantID \<and> t_Status t = TenantStatusActive
      | _ \<Rightarrow> False)"

fun reconcileAll :: "policy \<Rightarrow> 'w reconcileStores \<Rightarrow> string list \<Rightarrow> 'w \<Rightarrow> brokerClient list \<Rightarrow> gerror option \<times> 'w" where
  "reconcileAll P S seen w [] = (None, w)"
| "reconcileAll P S seen w (b # bs) =
     (if \<not> validBroker P b then (Some (ErrText ''workload account client is invalid''), w)
      else if brokerKey b \<in> set seen
      then (Some (ErrText ''workload account reconciliation contains a duplicate client''), w)
      else if retiredBroker S w (bc_TenantID b) then reconcileAll P S (brokerKey b # seen) w bs
      else if \<not> brokerTenantActive S w (bc_TenantID b)
      then (Some (ErrWrap ''workload account tenant is unavailable'' ErrInvalidTenant), w)
      else
        (case reconcileBroker S w b of
           (Some e, w') \<Rightarrow> (Some e, w')
         | (None, w') \<Rightarrow> reconcileAll P S (brokerKey b # seen) w' bs))"

definition Reconcile :: "policy \<Rightarrow> 'w reconcileStores \<Rightarrow> 'w \<Rightarrow> brokerClient list \<Rightarrow> gerror option \<times> 'w" where
  "Reconcile P S w desired =
     (if length desired > 16
      then (Some (ErrText ''workload account reconciliation supports at most 16 clients''), w)
      else reconcileAll P S [] w desired)"

section \<open>Lemmas\<close>

text \<open>What a reconciliation without error has established for one broker.\<close>

definition reconciled :: "policy \<Rightarrow> 'w reconcileStores \<Rightarrow> brokerClient \<Rightarrow> bool" where
  "reconciled P S b \<longleftrightarrow>
     (\<exists>v. retiredBroker S v (bc_TenantID b)) \<or>
     (\<exists>v v1 v2 stored created c made. brokerTenantActive S v (bc_TenantID b) \<and>
        rs_createRole S v (bc_TenantID b) (desiredRole b) = (Inr (Some stored, created), v1) \<and>
        rs_ensureAudience S v1 (bc_TenantID b) (desiredAudience b) = (Inr (Some c, made), v2) \<and>
        c_DefaultScopes c = c_DefaultScopes (desiredAudience b) \<and> c_Id c = bc_Audience b \<and>
        IsManagedWorkloadAccountAudience (bc_TenantID b) (Some c) \<and>
        (stored = desiredRole b \<or>
         stored = (desiredRole b)\<lparr>r_Permissions := bc_PreviousBaseRoleScopes b\<rparr> \<and> fst (migrateRole S v2 b) = None))"

lemma sameRole_eq: "sameRole b (Some r) \<longleftrightarrow> r = (desiredRole b)\<lparr>r_Permissions := r_Permissions r\<rparr>"
  by (cases r) (simp add: sameRole_def desiredRole_def)

lemma reconcileBroker_None:
  assumes "reconcileBroker S w b = (None, w')" "brokerTenantActive S w (bc_TenantID b)"
  shows "reconciled P S b"
proof -
  from assms(1) obtain stored created w1 where r: "rs_createRole S w (bc_TenantID b) (desiredRole b) = (Inr (Some stored, created), w1)"
    by (auto simp: reconcileBroker_def split: prod.splits sum.splits option.splits)
  from assms(1) r have p: "sameRole b (Some stored)"
    "r_Permissions stored = baseRoleScopes b \<or> r_Permissions stored = bc_PreviousBaseRoleScopes b"
    by (auto simp: reconcileBroker_def split: if_splits)
  from assms(1) r obtain c made w2 where e: "rs_ensureAudience S w1 (bc_TenantID b) (desiredAudience b) = (Inr (Some c, made), w2)"
    by (auto simp: reconcileBroker_def split: prod.splits sum.splits option.splits if_splits)
  from assms(1) r e have f: "IsManagedWorkloadAccountAudience (bc_TenantID b) (Some c)" "c_Id c = bc_Audience b"
    "c_DefaultScopes c = c_DefaultScopes (desiredAudience b)"
    "r_Permissions stored \<noteq> baseRoleScopes b \<longrightarrow> fst (migrateRole S w2 b) = None"
    by (auto simp: reconcileBroker_def split: if_splits)
  have "stored = desiredRole b \<or>
      stored = (desiredRole b)\<lparr>r_Permissions := bc_PreviousBaseRoleScopes b\<rparr> \<and> fst (migrateRole S w2 b) = None"
  proof (cases "r_Permissions stored = baseRoleScopes b")
    case True
    with p(1) have "stored = (desiredRole b)\<lparr>r_Permissions := baseRoleScopes b\<rparr>" by (simp add: sameRole_eq)
    then show ?thesis by (simp add: desiredRole_def)
  next
    case False
    with p f(4) show ?thesis by (simp add: sameRole_eq)
  qed
  with assms(2) r e f show ?thesis unfolding reconciled_def by blast
qed

lemma reconcileAll_None:
  assumes "reconcileAll P S seen w bs = (None, w')"
  shows "list_all (\<lambda>b. validBroker P b \<and> reconciled P S b) bs \<and> distinct (map brokerKey bs) \<and> set (map brokerKey bs) \<inter> set seen = {}"
  using assms
proof (induction bs arbitrary: seen w)
  case (Cons b bs)
  from Cons.prems have v: "validBroker P b" "brokerKey b \<notin> set seen" by (auto split: if_splits)
  have "reconciled P S b \<and> (\<exists>w1. reconcileAll P S (brokerKey b # seen) w1 bs = (None, w'))"
  proof (cases "retiredBroker S w (bc_TenantID b)")
    case True
    with Cons.prems v have "reconcileAll P S (brokerKey b # seen) w bs = (None, w')" by simp
    moreover have "reconciled P S b" using True unfolding reconciled_def by blast
    ultimately show ?thesis by blast
  next
    case False
    with Cons.prems v have a: "brokerTenantActive S w (bc_TenantID b)" by (auto split: if_splits)
    with False Cons.prems v obtain w1 where "reconcileBroker S w b = (None, w1)" "reconcileAll P S (brokerKey b # seen) w1 bs = (None, w')"
      by (auto split: prod.splits option.splits)
    with reconcileBroker_None [OF _ a] show ?thesis by blast
  qed
  with Cons.IH v show ?case by fastforce
qed simp

text \<open>
  A reconciliation that succeeds has checked every broker and found or made its records exact: at most sixteen valid brokers,
  no two with the same tenant and audience, each with its role as configured (or migrated from the declared previous one) and its
  managed audience with exactly the union of its scopes, unless its tenant is retired.
\<close>

theorem reconcile_exact:
  assumes "Reconcile P S w desired = (None, w')"
  shows "length desired \<le> 16 \<and> list_all (\<lambda>b. validBroker P b \<and> reconciled P S b) desired \<and>
    distinct (map (\<lambda>b. (bc_TenantID b, bc_Audience b)) desired)"
proof -
  from assms have l: "length desired \<le> 16" "reconcileAll P S [] w desired = (None, w')"
    by (auto simp: Reconcile_def split: if_splits)
  note r = reconcileAll_None [OF l(2)]
  have "distinct (map (\<lambda>b. (bc_TenantID b, bc_Audience b)) desired)"
    using r by (auto simp: distinct_map inj_on_def brokerKey_def)
  with l r show ?thesis by blast
qed

end
