(* ===== verification/Account_Properties.thy ===== *)
theory Account_Properties
  imports Account_Broker Directory_Rights
begin

text \<open>
  What the account boundary guarantees and where it falls short: a deletion is all or nothing, an account granted through the
  directory cannot be deleted, a deleted account blocks the listing of the directory, and a session carries the scopes of the
  roles that the directory grants.
\<close>

section \<open>The deletion script\<close>

lemma deleteWorkloadAccount_eval:
  assumes "store_ok R view" "deleteWorkloadAccount R w t u e = (r, w')"
  shows "r = Some ErrInvalidArgument \<and> w' = w \<or>
    activeTenantIdentity t \<and> canonicalMembershipV2UserID u \<and> e \<noteq> [] \<and>
    (view w' = view w \<and> r \<noteq> None \<and> (r = Some ErrNotFound \<longrightarrow> accountMissing u e (view w)) \<or>
     \<not> accountMissing u e (view w) \<and> accountIntact t u e (view w) \<and> r \<noteq> Some ErrNotFound \<and>
       view w' = applyAll (accountDeletionCmds t u e) (view w))"
proof (cases "\<not> activeTenantIdentity t \<or> \<not> canonicalMembershipV2UserID u \<or> e = []")
  case False
  obtain z v where z: "rEval R w (workloadAccountDeletionScript t u e) = (z, v)" by force
  show ?thesis
  proof (cases z)
    case (Inl err)
    with assms(2) False z have r: "w' = v" "r = Some (if contextDone err then err else errWorkloadAccountDeletionContract)"
      by (auto simp: deleteWorkloadAccount_def)
    have "r \<noteq> Some ErrNotFound" "r \<noteq> None"
      using r(2) by (auto simp: contextDone_def)
    with store_writes(4) [OF assms(1)] z Inl r(1) False show ?thesis
      by (fastforce simp: workloadAccountDeletionScript_def split: if_splits)
  next
    case (Inr status)
    with assms(2) False z have r: "w' = v" "r = (if status = [''deleted''] then None
        else if status = [''missing''] then Some ErrNotFound else Some errWorkloadAccountDeletionContract)"
      by (auto simp: deleteWorkloadAccount_def)
    from store_writes(3) [OF assms(1)] z Inr obtain cs where
      "workloadAccountDeletionScript t u e (view w) = (status, cs)" "view v = applyAll cs (view w)" by blast
    with r False show ?thesis
      by (cases "accountMissing u e (view w)"; cases "accountIntact t u e (view w)")
        (auto simp: workloadAccountDeletionScript_def)
  qed
qed (use assms(2) in \<open>simp add: deleteWorkloadAccount_def\<close>)

lemma accountDeletionCmds_linkFree: "list_all linkFree (accountDeletionCmds t u e)"
  by (simp add: accountDeletionCmds_def)

lemma accountDeletionCmds_gone:
  "accountMissing u e (applyAll (accountDeletionCmds t u e) ks)"
  "ks_hash (applyAll (accountDeletionCmds t u e) ks) (membershipsKey t) u = None"
  "ks_hash (applyAll (accountDeletionCmds t u e) ks) (membershipV2Key t) u = None"
  "t \<notin> ks_set (applyAll (accountDeletionCmds t u e) ks) (membershipsByUserKey u)"
  "t \<notin> ks_set (applyAll (accountDeletionCmds t u e) ks) (membershipV2ByUserKey u)"
  by (auto simp: accountDeletionCmds_def accountMissing_def)

lemma accountDeletionCmds_index:
  "ks_zset (applyAll (accountDeletionCmds t u e) ks) directoryUserEmailIndex = ks_zset ks directoryUserEmailIndex"
  by (simp add: accountDeletionCmds_def userByEmailKey_def)

lemma accountDeletionCmds_federated:
  "ks_hash (applyAll (accountDeletionCmds t u e) ks) federatedUsersHash = ks_hash ks federatedUsersHash"
  by (simp add: accountDeletionCmds_def userByEmailKey_def membershipV2Key_def membershipsKey_def)

text \<open>
  C14. Deleting a workload account is all or nothing. Either the keyspace is as before, or the account was whole (its user record,
  its address, and both membership records of this tenant, equal and indexed) and exactly its seven entries are gone. A
  reported success is the second case; a reported absence is the first, with neither a user record, nor a key of the
  address, nor a legacy record of it stored (membership records may remain then). Group memberships and access assignments
  stay as they are.
\<close>
theorem account_deletion_atomic:
  assumes "store_ok R view" "deleteWorkloadAccount R w t u e = (r, w')"
  shows "(view w' = view w \<or> accountIntact t u e (view w) \<and> view w' = applyAll (accountDeletionCmds t u e) (view w)) \<and>
    (r = None \<longrightarrow> accountIntact t u e (view w) \<and> accountMissing u e (view w') \<and>
       ks_hash (view w') (membershipsKey t) u = None \<and> ks_hash (view w') (membershipV2Key t) u = None \<and>
       t \<notin> ks_set (view w') (membershipsByUserKey u) \<and> t \<notin> ks_set (view w') (membershipV2ByUserKey u)) \<and>
    (r = Some ErrNotFound \<longrightarrow> accountMissing u e (view w) \<and> view w' = view w) \<and> sameLinks (view w') (view w)"
  using deleteWorkloadAccount_eval [OF assms] accountDeletionCmds_gone [where t = t and u = u and e = e and ks = "view w"]
    linkFree_all [OF accountDeletionCmds_linkFree, of t u e "view w"]
  by (elim disjE conjE) auto

section \<open>The listing after a deletion\<close>

lemma identityChar_not_NUL:
  assumes "canonicalUserIdentity u"
  shows "CHR 0x00 \<notin> set u"
proof
  assume n: "CHR 0x00 \<in> set u"
  have "\<not> identityChar CHR 0x00" by code_simp
  with assms n show False by (auto simp: canonicalUserIdentity_def list_all_iff split: if_splits)
qed

lemma parse_indexMember:
  assumes "e \<noteq> []" "canonicalUserIdentity u"
  shows "parseDirectoryUserIndexMember L (directoryUserIndexMember e u) = (e, u, normalizeDirectoryEmail L e = e)"
proof -
  have n: "CHR 0x00 \<notin> set u" using assms(2) by (rule identityChar_not_NUL)
  then have "takeWhile (\<lambda>x. x \<noteq> CHR 0x00) (rev u @ CHR 0x00 # rev e) = rev u"
    by (subst takeWhile_append2) auto
  then have "splitLast CHR 0x00 (directoryUserIndexMember e u) = Some (e, u)"
    by (simp add: splitLast_def directoryUserIndexMember_def)
  moreover have "u \<noteq> []" using assms(2) by (auto simp: canonicalUserIdentity_def)
  ultimately show ?thesis using assms by (simp add: parseDirectoryUserIndexMember_def)
qed

lemma readIndexedUsers_Inr:
  assumes "readIndexedUsers R L now w ms = Inr us" "m \<in> set ms" "parseDirectoryUserIndexMember L m = (e, u, ok)"
  shows "\<exists>x. readStorageUser R L now w u = Inr (Some x) \<and> u_Email x = e"
  using assms by (induction ms arbitrary: us) (auto split: if_splits sum.splits option.splits prod.splits)

lemma readStorageUser_absent:
  assumes "store_ok R view" "ks_hash (view w) usersHashV2 u = None" "ks_hash (view w) federatedUsersHash u = None"
  shows "readStorageUser R L now w u \<noteq> Inr (Some x)"
  using assms(2,3) store_reads(2) [OF assms(1), of w usersHashV2 u] store_reads(2) [OF assms(1), of w federatedUsersHash u]
  by (auto simp: readStorageUser_def deletionStorageUser_def split: if_splits sum.splits option.splits)

lemma store_zrange:
  assumes "store_ok R view" "rZRangeByLex R w k lo hi n = Inr ms"
  shows "ms = lexRange (ks_zset (view w) k) lo hi n"
proof -
  have "\<forall>w k lo hi n ms. rZRangeByLex R w k lo hi n = Inr ms \<longrightarrow> finite (ks_zset (view w) k) \<and> ms = lexRange (ks_zset (view w) k) lo hi n"
    using assms(1) unfolding store_ok_def reads_ok_def by (elim conjE)
  with assms(2) show ?thesis by (elim allE impE conjE)
qed

text \<open>A page that covers the index entry of a user without record is never answered.\<close>

lemma ListDirectoryUsers_dangling:
  assumes "store_ok R view" "canonicalUserIdentity u" "e \<noteq> []"
    and "ks_hash (view w) usersHashV2 u = None" "ks_hash (view w) federatedUsersHash u = None"
    and "decodeDirectoryCursor L token ''users'' (normalizeDirectorySearch L search) = Inr after"
      "directoryUserIndexMember e u \<in> set (take (nat limit) (lexRange (ks_zset (view w) directoryUserEmailIndex)
        (fst (lexBounds (normalizeDirectorySearch L search) after)) (snd (lexBounds (normalizeDirectorySearch L search) after))
        (nat limit + 1)))"
  shows "ListDirectoryUsers R L now w search token limit \<noteq> Inr p"
proof
  assume l: "ListDirectoryUsers R L now w search token limit = Inr p"
  let ?m = "directoryUserIndexMember e u"
  have "\<exists>members us. rZRangeByLex R w directoryUserEmailIndex (fst (lexBounds (normalizeDirectorySearch L search) after))
       (snd (lexBounds (normalizeDirectorySearch L search) after)) (nat limit + 1) = Inr members \<and>
      readIndexedUsers R L now w (take (nat limit) members) = Inr us"
    using l unfolding ListDirectoryUsers_def Let_def assms(6)
    by (simp only: sum.case split: if_split_asm sum.split_asm) simp_all
  then obtain members us where m:
    "rZRangeByLex R w directoryUserEmailIndex (fst (lexBounds (normalizeDirectorySearch L search) after))
       (snd (lexBounds (normalizeDirectorySearch L search) after)) (nat limit + 1) = Inr members"
    "readIndexedUsers R L now w (take (nat limit) members) = Inr us"
    by blast
  have "?m \<in> set (take (nat limit) members)"
    using assms(7) unfolding store_zrange [OF assms(1) m(1)] .
  from readIndexedUsers_Inr [OF m(2) this parse_indexMember [OF assms(3,2)]]
  obtain x where "readStorageUser R L now w u = Inr (Some x)" by blast
  with readStorageUser_absent [OF assms(1,4,5)] show False by blast
qed

lemma take_sorted_covers:
  fixes m :: "'a :: linorder"
  assumes "finite z" "m \<in> z" "card {x \<in> z. x < m} < n"
  shows "m \<in> set (take n (sorted_list_of_set z))"
proof -
  let ?xs = "sorted_list_of_set z"
  from assms obtain i where i: "i < length ?xs" "?xs ! i = m" by (metis in_set_conv_nth set_sorted_list_of_set)
  have "(\<lambda>j. ?xs ! j) ` {..<i} \<subseteq> {x \<in> z. x < m}"
  proof
    fix x assume "x \<in> (\<lambda>j. ?xs ! j) ` {..<i}"
    then obtain j where j: "j < i" "x = ?xs ! j" by blast
    with i have "x < m" using strict_sorted_list_of_set sorted_wrt_nth_less by metis
    moreover from i j have "x \<in> z" using assms(1) by (metis nth_mem order.strict_trans set_sorted_list_of_set)
    ultimately show "x \<in> {x \<in> z. x < m}" by simp
  qed
  then have "card ((\<lambda>j. ?xs ! j) ` {..<i}) \<le> card {x \<in> z. x < m}" using assms(1) by (intro card_mono) auto
  moreover have "inj_on (\<lambda>j. ?xs ! j) {..<i}"
    using i(1) by (intro inj_onI) (simp add: nth_eq_iff_index_eq)
  then have "card ((\<lambda>j. ?xs ! j) ` {..<i}) = i" by (simp add: card_image)
  ultimately have "i < n" using assms(3) by linarith
  with i show ?thesis by (metis in_set_conv_nth length_take min_less_iff_conj nth_take)
qed

text \<open>The entries of the index that a page of a search ranges over, behind its cursor.\<close>

definition pageEntries :: "directoryLib \<Rightarrow> string \<Rightarrow> string \<Rightarrow> keyspace \<Rightarrow> string set" where
  "pageEntries L search after ks =
     (case lexBounds (normalizeDirectorySearch L search) after of
        (lo, hi) \<Rightarrow> {m \<in> ks_zset ks directoryUserEmailIndex. lexAtLeast lo m \<and> lexAtMost hi m})"

lemma filter_sorted_list:
  fixes z :: "'a :: linorder set"
  assumes "finite z"
  shows "filter P (sorted_list_of_set z) = sorted_list_of_set {x \<in> z. P x}"
  using assms by (intro sorted_distinct_set_unique) (auto intro: sorted_wrt_filter)

lemma page_covers:
  assumes "finite (ks_zset ks directoryUserEmailIndex)" "m \<in> pageEntries L search after ks"
    and "card {x \<in> pageEntries L search after ks. x < m} < nat limit"
  shows "m \<in> set (take (nat limit) (lexRange (ks_zset ks directoryUserEmailIndex)
      (fst (lexBounds (normalizeDirectorySearch L search) after)) (snd (lexBounds (normalizeDirectorySearch L search) after))
      (nat limit + 1)))"
proof -
  have "lexRange (ks_zset ks directoryUserEmailIndex) (fst (lexBounds (normalizeDirectorySearch L search) after))
      (snd (lexBounds (normalizeDirectorySearch L search) after)) (nat limit + 1) =
      take (nat limit + 1) (sorted_list_of_set (pageEntries L search after ks))"
    by (simp add: lexRange_def filter_sorted_list [OF assms(1)] pageEntries_def split_beta)
  moreover have "finite (pageEntries L search after ks)"
    by (rule finite_subset [OF _ assms(1)]) (auto simp: pageEntries_def split: prod.splits)
  ultimately show ?thesis using take_sorted_covers [OF _ assms(2,3)] by simp
qed

text \<open>
  C16. A deleted workload account blocks the listing of the directory. The deletion leaves the email index as it was, and a
  listing that meets an entry without a user fails: at any later state in which the user still has no record, every page
  that covers the entry, of whatever search, cursor and size, is refused. A page covers the entries of its range up to
  its size.
\<close>
theorem deleted_account_blocks_listing:
  assumes "store_ok R view" "deleteWorkloadAccount R w t u e = (None, w')" "ks_hash (view w) federatedUsersHash u = None"
    and later: "ks_hash (view v) usersHashV2 u = ks_hash (view w') usersHashV2 u"
      "ks_hash (view v) federatedUsersHash u = ks_hash (view w') federatedUsersHash u"
      "finite (ks_zset (view v) directoryUserEmailIndex)"
    and page: "decodeDirectoryCursor L token ''users'' (normalizeDirectorySearch L search) = Inr after"
      "directoryUserIndexMember e u \<in> pageEntries L search after (view v)"
      "card {x \<in> pageEntries L search after (view v). x < directoryUserIndexMember e u} < nat limit"
  shows "ks_zset (view w') directoryUserEmailIndex = ks_zset (view w) directoryUserEmailIndex \<and>
    ListDirectoryUsers R L now v search token limit \<noteq> Inr p"
proof -
  from deleteWorkloadAccount_eval [OF assms(1,2)] have d:
    "canonicalMembershipV2UserID u" "e \<noteq> []" "view w' = applyAll (accountDeletionCmds t u e) (view w)" by auto
  have u: "canonicalUserIdentity u" using d(1) by (simp add: canonicalMembershipV2UserID_def)
  have gone: "ks_hash (view v) usersHashV2 u = None" "ks_hash (view v) federatedUsersHash u = None"
    using accountDeletionCmds_gone(1) [of u e t "view w"] assms(3)
    by (simp_all add: later(1,2) d(3) accountMissing_def accountDeletionCmds_federated)
  have "ListDirectoryUsers R L now v search token limit \<noteq> Inr p"
    by (rule ListDirectoryUsers_dangling [OF assms(1) u d(2) gone page(1) page_covers [OF later(3) page(2,3)]])
  then show ?thesis by (simp add: d(3) accountDeletionCmds_index)
qed

section \<open>Accounts of the directory cannot be deleted\<close>

text \<open>No legacy membership exists in the tenants \<open>T\<close>, and commands that add none.\<close>

definition noMembers :: "string set \<Rightarrow> keyspace \<Rightarrow> bool" where
  "noMembers T ks \<longleftrightarrow> (\<forall>t \<in> T. ks_hash ks (membershipsKey t) = Map.empty)"

fun addsNoMember :: "cmd \<Rightarrow> bool" where
  "addsNoMember (CHSet k f v) = (\<forall>t. k \<noteq> membershipsKey t)"
| "addsNoMember c = True"

definition keepsNone :: "('w \<Rightarrow> keyspace) \<Rightarrow> string set \<Rightarrow> ('w \<Rightarrow> 'w) \<Rightarrow> bool" where
  "keepsNone view T f \<longleftrightarrow> (\<forall>v. noMembers T (view v) \<longrightarrow> noMembers T (view (f v)))"

lemma noMembers_cmd: "addsNoMember c \<Longrightarrow> noMembers T ks \<Longrightarrow> noMembers T (applyCmd c ks)"
  by (cases c) (auto simp: noMembers_def)

lemma noMembers_all: "list_all addsNoMember cs \<Longrightarrow> noMembers T ks \<Longrightarrow> noMembers T (applyAll cs ks)"
  by (induction cs arbitrary: ks) (simp_all add: noMembers_cmd)

lemma membershipsKey_other [simp]:
  "usersHashV2 \<noteq> membershipsKey t" "directoryGroupsHash \<noteq> membershipsKey t" "assignmentsKey t' \<noteq> membershipsKey t"
  by (simp_all add: membershipsKey_def assignmentsKey_def)

lemma noMembers_eval:
  assumes "store_ok R view" "noMembers T (view w)" "list_all addsNoMember (snd (f (view w)))"
  shows "noMembers T (view (snd (rEval R w f)))"
  using eval_view [OF assms(1), of w f] noMembers_all [OF assms(3,2)] assms(2) by (metis prod.collapse)

lemma noMembers_watchTx:
  assumes "store_ok R view" "noMembers T (view w)" "keepsNone view T other"
    and "\<And>cs x. t = Commit cs x \<Longrightarrow> list_all addsNoMember cs"
  shows "noMembers T (view (snd (watchTx R other watched t w)))"
proof -
  obtain r w' where e: "watchTx R other watched t w = (r, w')" by force
  have o: "noMembers T (view (other w))" using assms(2,3) by (simp add: keepsNone_def)
  from watchTx_view [OF assms(1) e] show ?thesis
    using assms(2,4) o noMembers_all by (auto simp: e)
qed

lemma noMembers_retryTx:
  assumes "noMembers T (view w)" "\<And>j v. noMembers T (view v) \<Longrightarrow> noMembers T (view (snd (attempt j v)))"
  shows "noMembers T (view (snd (retryTx attempt i n w)))"
  using assms(1)
proof (induction n arbitrary: i w)
  case (Suc n)
  with assms(2) [of w i] show ?case by (auto split: prod.splits option.splits)
qed simp

lemma FindByEmail_noMembers:
  assumes "store_ok R view" "\<And>i. keepsNone view T (others i)" "noMembers T (view w)"
  shows "noMembers T (view (snd (FindByEmail R L others clock w e)))"
proof -
  have tx: "list_all addsNoMember cs" if "importLegacyTx R L now e v = Commit cs x" for now e v cs x
    using that by (auto simp: importLegacyTx_def split: option.splits sum.splits if_splits bool.splits prod.splits)
  have o: "noMembers T (view (others i v))" if "noMembers T (view v)" for i v
    using that assms(2) [of i] by (simp add: keepsNone_def)
  have step: "noMembers T (view (snd (watchTx R (others j) ks (importLegacyTx R L now e v) v)))" if "noMembers T (view v)"
    for j ks now e v by (rule noMembers_watchTx [OF assms(1) that assms(2)]) (rule tx)
  have "noMembers T (view (snd (findByEmailAttempt R L others clock e i v)))" if "noMembers T (view v)" for e i v
    using that step [OF o [OF that]] by (simp add: findByEmailAttempt_def Let_def split: sum.split option.split)
  with assms(3) show ?thesis by (simp add: FindByEmail_def Let_def noMembers_retryTx)
qed

lemma CreateUser_noMembers:
  assumes "store_ok R view" "noMembers T (view w)"
  shows "noMembers T (view (snd (CreateUser R L now w input)))"
proof -
  have f: "list_all addsNoMember (snd (createDirectoryUserScript i e p m ks))" for i e p m ks
    by (simp add: createDirectoryUserScript_def)
  show ?thesis
    using assms(2) noMembers_eval [OF assms f]
    by (simp add: CreateUser_def CreateDirectoryUser_def Let_def split_beta split: sum.split)
qed

lemma DeleteByEmail_noMembers:
  assumes "store_ok R view" "\<And>i. keepsNone view T (others i)" "noMembers T (view w)"
  shows "noMembers T (view (snd (DeleteByEmail R L others clock w e)))"
proof -
  have tx: "list_all addsNoMember cs" if "deleteByEmailTx R L now e i v = Commit cs x" for now e i v cs x
    using that
    by (auto simp: deleteByEmailTx_def unlinkSubject_def unlinkGroups_def unlinkAssignments_def list_all_iff
        split: sum.splits option.splits if_splits prod.splits)
  have o: "noMembers T (view (others i v))" if "noMembers T (view v)" for i v
    using that assms(2) [of i] by (simp add: keepsNone_def)
  have p: "noMembers T (view (snd (pipelined R v [CHDel k f])))" if "noMembers T (view v)" for v k f
  proof -
    obtain z v' where e: "rExec R v [] v [CHDel k f] = (z, v')" by force
    have "noMembers T (applyAll [CHDel k f] (view v))" by (rule noMembers_all [OF _ that]) simp
    with exec_view [OF assms(1) e] that have "noMembers T (view v')" by auto
    with e show ?thesis by (simp add: pipelined_def split: execResult.split)
  qed
  have step: "noMembers T (view (snd (watchTx R (others j) ks (deleteByEmailTx R L now e i v) v)))" if "noMembers T (view v)"
    for j ks now e i v by (rule noMembers_watchTx [OF assms(1) that assms(2)]) (rule tx)
  have "noMembers T (view (snd (deleteByEmailAttempt R L others clock e i v)))" if "noMembers T (view v)" for e i v
    using that p [OF that] step [OF o [OF that]]
    by (simp add: deleteByEmailAttempt_def Let_def split_beta split: sum.split option.split)
  with assms(3) show ?thesis by (simp add: DeleteByEmail_def Let_def noMembers_retryTx)
qed

lemma PutAccessAssignment_noMembers:
  assumes "store_ok R view" "\<And>i. keepsNone view T (others i)" "noMembers T (view w)"
  shows "noMembers T (view (snd (PutAccessAssignment R L rg others clock w t kind i roles m)))"
proof -
  have tx: "list_all addsNoMember cs" if "putAccessAssignmentTx R L rg now t kind i rs m v = Commit cs x" for now rs v cs x
    using that by (auto simp: putAccessAssignmentTx_def Let_def split: option.splits sum.splits if_splits)
  have "noMembers T (view (snd (watchTx R (others j) ks (putAccessAssignmentTx R L rg now t kind i rs m v) v)))"
    if "noMembers T (view v)" for j ks now rs v
    by (rule noMembers_watchTx [OF assms(1) that assms(2)]) (rule tx)
  with assms(3) show ?thesis by (simp add: PutAccessAssignment_def noMembers_retryTx split: sum.split)
qed

lemma wiredAccounts_fields [simp]:
  "wa_users (wiredAccounts R L rg mp base others clock uuid) = Some
     \<lparr>wu_FindByEmail = FindByEmail R L others clock, wu_CreateUser = (\<lambda>w u. CreateUser R L (clock 0) w (Some u)),
      wu_DeleteByEmail = (\<lambda>w e. case DeleteByEmail R L others clock w e of
        (Inl err, w') \<Rightarrow> (Some err, w') | (Inr _, w') \<Rightarrow> (None, w'))\<rparr>"
  "wa_memberships (wiredAccounts R L rg mp base others clock uuid) = Some (membershipRepo_Get R L)"
  "wa_access (wiredAccounts R L rg mp base others clock uuid) = Some (NewIdentityDirectoryRepo R L rg mp others clock uuid)"
  "wa_deletion (wiredAccounts R L rg mp base others clock uuid) = Some (deleteWorkloadAccount R)"
  "wa_clients (wiredAccounts R L rg mp base others clock uuid) = wa_clients base"
  "wa_verifier (wiredAccounts R L rg mp base others clock uuid) = wa_verifier base"
  "wa_verifyPassword (wiredAccounts R L rg mp base others clock uuid) = wa_verifyPassword base"
  "wa_unicode (wiredAccounts R L rg mp base others clock uuid) = wa_unicode base"
  "wa_parseAddress (wiredAccounts R L rg mp base others clock uuid) = wa_parseAddress base"
  by (simp_all add: wiredAccounts_def)

lemma wired_access [simp]:
  "dyPutAccessAssignment (NewIdentityDirectoryRepo R L rg mp others clock uuid) = PutAccessAssignment R L rg others clock"
  "dyGetAccessAssignment (NewIdentityDirectoryRepo R L rg mp others clock uuid) = GetAccessAssignment R L"
  "dyGetEffectiveTenantRoles (NewIdentityDirectoryRepo R L rg mp others clock uuid) = GetEffectiveTenantRoles R L rg (clock 0)"
  by (simp_all add: NewIdentityDirectoryRepo_def)

lemma ensurePasswordUser_noMembers:
  assumes "store_ok R view" "\<And>i. keepsNone view T (others i)" "noMembers T (view w)"
  shows "noMembers T (view (snd (ensurePasswordUser (wiredAccounts R L rg mp base others clock uuid) w E client c)))"
  using FindByEmail_noMembers [OF assms(1,2)] CreateUser_noMembers [OF assms(1)] assms(3)
  by (simp add: ensurePasswordUser_def Let_def split_beta split: sum.split option.split)

lemma grantBaseRole_noMembers:
  assumes "store_ok R view" "\<And>i. keepsNone view T (others i)" "noMembers T (view w)"
  shows "noMembers T (view (snd (grantBaseRole (wiredAccounts R L rg mp base others clock uuid) w client u created)))"
  using PutAccessAssignment_noMembers [OF assms]
  by (simp add: grantBaseRole_def split_beta split: sum.split option.split)

lemma rollbackCreated_noMembers:
  assumes "store_ok R view" "\<And>i. keepsNone view T (others i)" "noMembers T (view w)"
  shows "noMembers T (view (rollbackCreated (wiredAccounts R L rg mp base others clock uuid) w u created))"
  using DeleteByEmail_noMembers [OF assms] assms(3)
  by (simp add: rollbackCreated_def split_beta split: sum.split)

lemma accountRegister_noMembers:
  assumes "store_ok R view" "\<And>i. keepsNone view T (others i)" "noMembers T (view w)"
  shows "noMembers T (view (snd (accountRegister (wiredAccounts R L rg mp base others clock uuid) w E token c)))"
  using ensurePasswordUser_noMembers [OF assms] grantBaseRole_noMembers [OF assms(1,2)]
    rollbackCreated_noMembers [OF assms(1,2)] assms(3)
  by (simp add: accountRegister_def split_beta split: sum.split)

lemma accountDelete_noMembers:
  assumes "store_ok R view" "\<And>i. keepsNone view T (others i)" "noMembers T (view w)"
    "\<And>sub client. wa_clients base sub = Some client \<Longrightarrow> bc_TenantID client \<in> T"
  shows "fst (accountDelete (wiredAccounts R L rg mp base others clock uuid) w token c) \<noteq> None \<and>
    noMembers T (view (snd (accountDelete (wiredAccounts R L rg mp base others clock uuid) w token c)))"
proof -
  have get: "membershipRepo_Get R L v t u \<noteq> Inr (Some m)" if "noMembers T (view v)" "t \<in> T" for v t u m
  proof -
    have "rHGet R v (membershipsKey t) u \<noteq> Inr (Some x)" for x
      using store_reads(2) [OF assms(1), of v "membershipsKey t" u] that by (force simp: noMembers_def)
    then show ?thesis by (simp add: membershipRepo_Get_def split: sum.split option.split)
  qed
  have valid: "\<not> validWorkloadAccountMembership m client u"
    if "noMembers T (view v)" "bc_TenantID client \<in> T" "membershipRepo_Get R L v (bc_TenantID client) u' = Inr m" for v client u u' m
    using get [OF that(1,2)] that(3) by (cases m) (auto simp: validWorkloadAccountMembership_def)
  have known: "bc_TenantID client \<in> T"
    if "authorizeBroker (wiredAccounts R L rg mp base others clock uuid) w token = Inr client" for client
    using that assms(4) by (simp add: authorizeBroker_def split: option.splits sum.splits if_splits)
  show ?thesis
  proof (cases "authorizeBroker (wiredAccounts R L rg mp base others clock uuid) w token")
    case (Inr client)
    have "\<not> validWorkloadAccountMembership m client u"
      if "membershipRepo_Get R L (snd (FindByEmail R L others clock w e)) (bc_TenantID client) u' = Inr m" for e m u u'
      by (rule valid [OF FindByEmail_noMembers [OF assms(1-3)] known [OF Inr] that])
    then show ?thesis
      using Inr FindByEmail_noMembers [OF assms(1-3)] assms(3)
      by (auto simp: accountDelete_def split_beta split: sum.split option.split)
  qed (simp add: accountDelete_def assms(3))
qed

text \<open>Registrations, deletions and other clients, in any order.\<close>

inductive accountStep ::
  "'w store \<Rightarrow> directoryLib \<Rightarrow> registry option \<Rightarrow> (string \<Rightarrow> samlSessionIndexRecord option) \<Rightarrow> 'w accountService \<Rightarrow>
   ('w \<Rightarrow> 'w) set \<Rightarrow> 'w \<Rightarrow> 'w \<Rightarrow> bool" for R L rg mp base F where
  registers: "range others \<subseteq> F \<Longrightarrow>
    accountStep R L rg mp base F w (snd (accountRegister (wiredAccounts R L rg mp base others clock uuid) w E token c))"
| deletes: "range others \<subseteq> F \<Longrightarrow>
    accountStep R L rg mp base F w (snd (accountDelete (wiredAccounts R L rg mp base others clock uuid) w token c))"
| meanwhile: "f \<in> F \<Longrightarrow> accountStep R L rg mp base F w (f w)"

lemma accountStep_noMembers:
  assumes "accountStep R L rg mp base F w w'" "store_ok R view" "\<And>f. f \<in> F \<Longrightarrow> keepsNone view T f"
    "\<And>sub client. wa_clients base sub = Some client \<Longrightarrow> bc_TenantID client \<in> T" "noMembers T (view w)"
  shows "noMembers T (view w')"
  using assms(1)
proof cases
  case (registers others clock uuid E token c)
  with assms(3) have k: "keepsNone view T (others i)" for i by blast
  show ?thesis unfolding registers(1) by (rule accountRegister_noMembers [OF assms(2) k assms(5)])
next
  case (deletes others clock uuid token c)
  with assms(3) have k: "keepsNone view T (others i)" for i by blast
  have "fst (accountDelete (wiredAccounts R L rg mp base others clock uuid) w token c) \<noteq> None \<and> noMembers T (view w')"
    unfolding deletes(1) by (rule accountDelete_noMembers [OF assms(2) k assms(5)]) (rule assms(4))
  then show ?thesis by blast
next
  case (meanwhile f)
  with assms(3,5) show ?thesis by (simp add: keepsNone_def)
qed

text \<open>
  C17. Deletion tests the membership record that registration no longer writes. With the stores as the application wires
  them, in an installation whose broker tenants hold no legacy membership and where other clients add none, no sequence of
  registrations, deletions and other clients leads to a state in which a deletion succeeds.
\<close>
theorem registered_account_undeletable:
  assumes "store_ok R view" "(accountStep R L rg mp base F)\<^sup>*\<^sup>* w0 w" "noMembers T (view w0)"
    and "\<And>f. f \<in> F \<Longrightarrow> keepsNone view T f" "\<And>i. others i \<in> F"
    and "\<And>sub client. wa_clients base sub = Some client \<Longrightarrow> bc_TenantID client \<in> T"
  shows "fst (accountDelete (wiredAccounts R L rg mp base others clock uuid) w token c) \<noteq> None"
proof -
  have n: "noMembers T (view w)"
    using assms(2,3) by (induction rule: rtranclp_induct) (auto intro: accountStep_noMembers [OF _ assms(1,4,6)])
  have k: "keepsNone view T (others i)" for i by (rule assms(4) [OF assms(5)])
  have "fst (accountDelete (wiredAccounts R L rg mp base others clock uuid) w token c) \<noteq> None \<and>
      noMembers T (view (snd (accountDelete (wiredAccounts R L rg mp base others clock uuid) w token c)))"
    by (rule accountDelete_noMembers [OF assms(1) k n]) (rule assms(6))
  then show ?thesis by blast
qed

section \<open>Sessions\<close>

text \<open>The scopes that a broker attaches to one role of its tenant.\<close>

definition roleScopes :: "brokerClient \<Rightarrow> string \<Rightarrow> string set" where
  "roleScopes client r =
     (if r = bc_Role client then set (bc_Scopes client @ bc_MemberScopes client) else {}) \<union>
     \<Union> {set (br_Scopes x) | x. x \<in> set (bc_AdditionalRoles client) \<and> br_Role x = r}"

lemma set_workloadAccountSessionScopes_roles:
  "set (workloadAccountSessionScopes client roles) = \<Union> (roleScopes client ` set roles)"
  by (auto simp: workloadAccountSessionScopes_def roleScopes_def split: if_splits)

lemma accountSession_Inr:
  assumes "accountSession s w token c0 = (Inr resp, w')"
  obtains client c users tokens u v scopes where
    "authorizeBroker s w token = Inr client" "validWorkloadAccountCredentials s c0 = Inr c"
    "wa_users s = Some users" "wa_tokens s = Some tokens" "wu_FindByEmail users w (acr_Email c) = (Inr (Some u), v)"
    "passwordMatches s c u" "sessionScopesFor s v client (u_Id u) = Inr scopes"
    "issueAccountSession tokens v client c u scopes = (Inr resp, w')"
  using assms by (auto simp: accountSession_def split: sum.splits option.splits prod.splits if_splits)

lemma issueAccountSession_Inr:
  assumes "issueAccountSession tokens w client c u scopes = (Inr resp, w')"
  obtains identity v t where
    "wt_SignIn tokens w \<lparr>si_Email = acr_Email c, si_Password = acr_Password c\<rparr> = (Inr (Some identity), v)"
    "sir_IdToken identity \<noteq> []" "sir_LocalId identity = u_Id u" "sir_Email identity = u_Email u"
    "wt_TokenExchange tokens v
       \<lparr>te_IdToken = sir_IdToken identity, te_Audience = bc_Audience client, te_Scopes = scopes, te_EventTypes = [],
        te_TTLSeconds = bc_TTLSeconds client, te_TenantID = bc_TenantID client, te_DiscoverTenantTargetsV1 = False,
        te_DiscoverTenantTargetsV2 = False, te_ScopeCeilingV1 = None\<rparr> = (Inr (Some t), w')"
    "asr_AccessToken resp = ter_AccessToken t" "asr_ExpiresIn resp = ter_ExpiresIn t" "asr_LocalId resp = u_Id u"
    "1 \<le> ter_ExpiresIn t" "ter_ExpiresIn t \<le> bc_TTLSeconds client"
  using assms by (auto simp: issueAccountSession_def split: sum.splits option.splits prod.splits if_splits)

text \<open>What the exchange signs for a request that names its scopes and a tenant.\<close>

lemma exchangeUser_requested:
  assumes "exchangeUser s w E req u c = Inr resp" "\<not> te_DiscoverTenantTargetsV1 req" "\<not> te_DiscoverTenantTargetsV2 req"
    and "TrimSpace (te_TenantID req) = te_TenantID req" "te_TenantID req \<noteq> []" "TrimSpace ` set (te_Scopes req) - {[]} \<noteq> {}"
  shows "\<exists>kid claims key. signRS256 (us_jwt s) kid claims key = Inr (ter_AccessToken resp) \<and>
    claims ''sub'' = Some (JStr (u_Id u)) \<and> claims ''aud'' = Some (JStr (te_Audience req)) \<and>
    claims ''tid'' = Some (JStr (te_TenantID req)) \<and>
    set (Fields (claimStringValue claims ''scope'')) \<subseteq> TrimSpace ` set (te_Scopes req)"
  using assms(1)
proof (rule exchangeUser_signed)
  fix d v2 scopes0 scopes amr kid key ex
  let ?claims = "accessTokenClaims s E req u (validatedPlatformPrivilege u c) d scopes (normalizeList (te_EventTypes req)) amr
    (ter_ExpiresIn resp)"
  assume d: "exchangeDecide s w u c req = Inr (d, v2)" "canonicalScopes (us_policy s) (xd_scopes d) = Inr scopes0"
      "platformLogScopes s w u c req d v2 scopes0 = Inr scopes"
    and sg: "signRS256 (us_jwt s) kid ?claims key = Inr (ter_AccessToken resp)"
    and f: "\<And>priv evs amr ttl. Fields (claimStringValue (accessTokenClaims s E req u priv d scopes evs amr ttl) ''scope'') = scopes"
  from d(1) assms(2,3) obtain strict where
    strict: "strict = fst (tenantScopedTokenTarget s (te_TenantID req))"
    "legacyDecision s w u req strict (validatedPlatformPrivilege u c) = Inr d"
    by (auto simp: exchangeDecide_def discoveryMode_def Let_def split: prod.splits if_splits sum.splits)
  from strict(2) obtain x where x: "legacyTarget s w u req strict = Inr x" "xd_target d = x"
    "legacyScopes s w u req (validatedPlatformPrivilege u c) x = Inr (xd_scopes d)" by (rule legacyDecision_Inr)
  have "strict = [] \<or> strict = te_TenantID req"
    by (auto simp: strict(1) tenantScopedTokenTarget_def Let_def)
  with x(1) assms(4,5) have tid: "xt_tenantID x = te_TenantID req"
    by (auto simp: legacyTarget_def directoryTarget_def Let_def split: sum.splits if_splits option.splits)
  have "TrimSpace ` set (xd_scopes d) \<subseteq> TrimSpace ` set (te_Scopes req)"
    by (rule exchangeDecide_requested [OF d(1) assms(6)])
  with exchange_scopes(2) [OF d(2,3)] have "set scopes \<subseteq> TrimSpace ` set (te_Scopes req)" by blast
  then have "set (Fields (claimStringValue ?claims ''scope'')) \<subseteq> TrimSpace ` set (te_Scopes req)" unfolding f .
  moreover have "?claims ''tid'' = Some (JStr (te_TenantID req))" unfolding accessTokenClaims_apply x(2) tid ..
  ultimately show ?thesis
    using sg accessTokenClaims_apply(2,3) by (intro exI [of _ kid] exI [of _ ?claims] exI [of _ key] conjI)
qed

text \<open>
  The user service as the token service: what its exchange signs for a broker whose audience is no Trino or AI audience, and
  whose tenant and scopes are written without surrounding blanks, as the configuration requires.
\<close>

definition plainBroker :: "('w, 'k) userService \<Rightarrow> brokerClient \<Rightarrow> bool" where
  "plainBroker us client \<longleftrightarrow>
     TrimSpace (bc_TenantID client) = bc_TenantID client \<and> bc_TenantID client \<noteq> [] \<and>
     \<not> reservedTrinoAudience (us_unicode us) (bc_Audience client) \<and>
     \<not> reservedAIAudience (us_unicode us) (us_aiGateway us) (bc_Audience client) \<and>
     (\<forall>r. \<forall>x \<in> roleScopes client r. TrimSpace x = x \<and> x \<noteq> [])"

definition signedSession ::
  "('w, 'k) userService \<Rightarrow> 'w \<Rightarrow> callEnv \<Rightarrow> brokerClient \<Rightarrow> signInResp \<Rightarrow> string list \<Rightarrow> string \<Rightarrow> bool" where
  "signedSession us w E client identity scopes raw \<longleftrightarrow>
     (\<exists>c u kid claims key.
        validateCurrentIDToken us w E (sir_IdToken identity) (us_issuerBaseURL us) (us_defaultAudience us) = Inr (c, u) \<and>
        signRS256 (us_jwt us) kid claims key = Inr raw \<and> claims ''sub'' = Some (JStr (u_Id u)) \<and>
        claims ''aud'' = Some (JStr (bc_Audience client)) \<and> claims ''tid'' = Some (JStr (bc_TenantID client)) \<and>
        set (Fields (claimStringValue claims ''scope'')) \<subseteq> set scopes)"

lemma wiredTokens_exchange:
  assumes "wt_TokenExchange (wiredTokens us E1 E2) w req = (Inr (Some t), w')"
    and "req = \<lparr>te_IdToken = sir_IdToken identity, te_Audience = bc_Audience client, te_Scopes = scopes, te_EventTypes = [],
      te_TTLSeconds = bc_TTLSeconds client, te_TenantID = bc_TenantID client, te_DiscoverTenantTargetsV1 = False,
      te_DiscoverTenantTargetsV2 = False, te_ScopeCeilingV1 = None\<rparr>"
    and "plainBroker us client" "scopes \<noteq> []" "set scopes \<subseteq> (\<Union>r. roleScopes client r)"
  shows "signedSession us w E2 client identity scopes (ter_AccessToken t)"
proof -
  have x: "TokenExchange us w E2 req = (Inr t, w')"
    using assms(1) by (auto simp: wiredTokens_def split: prod.splits sum.splits)
  have plain: "TrimSpace x = x \<and> x \<noteq> []" if "x \<in> set scopes" for x
    using that assms(3,5) by (auto simp: plainBroker_def)
  have trim: "TrimSpace ` set scopes = set scopes" by (rule image_cong [of _ _ _ id, simplified]) (use plain in auto)
  have "\<not> reservedTrinoAudience (us_unicode us) (te_Audience req)"
    "\<not> reservedAIAudience (us_unicode us) (us_aiGateway us) (te_Audience req)"
    using assms(3) by (simp_all add: plainBroker_def assms(2))
  with x obtain c u w1 where c: "validateCurrentIDToken us w E2 (te_IdToken req) (us_issuerBaseURL us) (us_defaultAudience us) = Inr (c, u)"
    "exchangeUser us w1 E2 req u c = Inr t"
    by (auto simp: TokenExchange_def split: if_split_asm sum.splits prod.splits bool.splits)
  have "\<exists>kid claims key. signRS256 (us_jwt us) kid claims key = Inr (ter_AccessToken t) \<and>
    claims ''sub'' = Some (JStr (u_Id u)) \<and> claims ''aud'' = Some (JStr (te_Audience req)) \<and>
    claims ''tid'' = Some (JStr (te_TenantID req)) \<and>
    set (Fields (claimStringValue claims ''scope'')) \<subseteq> TrimSpace ` set (te_Scopes req)"
  proof (rule exchangeUser_requested [OF c(2)])
    have "hd scopes \<in> set scopes - {[]}" using plain [OF hd_in_set [OF assms(4)]] hd_in_set [OF assms(4)] by simp
    then show "TrimSpace ` set (te_Scopes req) - {[]} \<noteq> {}" by (auto simp: assms(2) trim)
  qed (use assms(3) in \<open>simp_all add: assms(2) plainBroker_def\<close>)
  with c(1) show ?thesis unfolding signedSession_def by (auto simp: assms(2) trim)
qed

text \<open>
  C15. A session of a workload account rests on a sign-in and asks for what the directory grants at that time. The caller is the
  pinned service account of the broker; the password is that of the stored active user, and a sign-in with the same address
  and password returned this very user; its ID token goes into one exchange for the broker's audience and tenant, which names
  exactly the scopes of the granted roles, at least one. The session lives at most as long as configured. With the user service
  as the token service and a plain broker, the token is signed for the user of that ID token, for that audience and
  tenant, and its signed scopes are among those of the granted roles.
\<close>
theorem account_session_scoped:
  assumes "store_ok R view" "wa_access s = Some (NewIdentityDirectoryRepo R L rg mp others clock uuid)"
    and "accountSession s w token c0 = (Inr resp, w')"
  shows "\<exists>verify subject client email u du v (identity::signInResp) scopes tokens v1 req t.
    wa_verifier s = Some verify \<and> verify w token = Inr subject \<and> wa_clients s (ws_Subject subject) = Some client \<and>
    ws_Namespace subject = bc_Namespace client \<and> ws_ServiceAccount subject = bc_ServiceAccount client \<and>
    email = ToLower (wa_unicode s) (TrimSpace (acr_Email c0)) \<and>
    (\<exists>users. wa_users s = Some users \<and> wu_FindByEmail users w email = (Inr (Some u), v)) \<and>
    asr_LocalId resp = u_Id u \<and> u_Status u = UserStatusActive \<and> wa_verifyPassword s (u_Password u) (acr_Password c0) \<and>
    GetDirectoryUser R L (clock 0) v (u_Id u) = Inr (Some du) \<and> scopes \<noteq> [] \<and>
    set scopes = \<Union> (roleScopes client ` {r \<in> grantedRoles L (view v) (bc_TenantID client) (u_Id u).
      foreignPrincipal du (bc_TenantID client) \<longrightarrow> AllowsForeignRole rg (du_HomeTenantID du) (bc_TenantID client) r}) \<and>
    wa_tokens s = Some tokens \<and>
    wt_SignIn tokens v \<lparr>si_Email = email, si_Password = acr_Password c0\<rparr> = (Inr (Some identity), v1) \<and>
    sir_IdToken identity \<noteq> [] \<and> sir_LocalId identity = u_Id u \<and> sir_Email identity = u_Email u \<and>
    te_IdToken req = sir_IdToken identity \<and>
    te_Audience req = bc_Audience client \<and> te_TenantID req = bc_TenantID client \<and> te_Scopes req = scopes \<and>
    wt_TokenExchange tokens v1 req = (Inr (Some t), w') \<and> asr_AccessToken resp = ter_AccessToken t \<and>
    asr_ExpiresIn resp = ter_ExpiresIn t \<and> 1 \<le> asr_ExpiresIn resp \<and> asr_ExpiresIn resp \<le> bc_TTLSeconds client \<and>
    (\<forall>us :: ('w, 'k) userService. \<forall>E1 E2. tokens = wiredTokens us E1 E2 \<and> plainBroker us client \<longrightarrow>
       signedSession us v1 E2 client identity scopes (asr_AccessToken resp))"
  using assms(3)
proof (rule accountSession_Inr)
  fix client c users tokens u v scopes
  assume a: "authorizeBroker s w token = Inr client" "validWorkloadAccountCredentials s c0 = Inr c" "wa_users s = Some users"
      "wa_tokens s = Some tokens" "wu_FindByEmail users w (acr_Email c) = (Inr (Some u), v)" "passwordMatches s c u"
    and sc: "sessionScopesFor s v client (u_Id u) = Inr scopes"
    and i: "issueAccountSession tokens v client c u scopes = (Inr resp, w')"
  from a(1) obtain verify subject where b: "wa_verifier s = Some verify" "verify w token = Inr subject"
    "wa_clients s (ws_Subject subject) = Some client" "ws_Namespace subject = bc_Namespace client"
    "ws_ServiceAccount subject = bc_ServiceAccount client"
    by (auto simp: authorizeBroker_def split: option.splits sum.splits if_splits)
  have pw: "acr_Password c = acr_Password c0" "acr_Email c = ToLower (wa_unicode s) (TrimSpace (acr_Email c0))"
    using a(2) by (auto simp: validWorkloadAccountCredentials_def Let_def split: if_splits)
  from sc assms(2) obtain roles ps where r: "GetEffectiveTenantRoles R L rg (clock 0) v (u_Id u) (bc_TenantID client) = Inr (roles, ps)"
    "scopes = workloadAccountSessionScopes client roles" "scopes \<noteq> []"
    by (auto simp: sessionScopesFor_def Let_def split: sum.splits prod.splits if_splits)
  from GetEffectiveTenantRoles_Inr [OF assms(1) r(1)] obtain du where
    du: "GetDirectoryUser R L (clock 0) v (u_Id u) = Inr (Some du)" "set roles = {r \<in> grantedRoles L (view v) (bc_TenantID client) (u_Id u).
      foreignPrincipal du (bc_TenantID client) \<longrightarrow> AllowsForeignRole rg (du_HomeTenantID du) (bc_TenantID client) r}" by blast
  have scopes: "set scopes = \<Union> (roleScopes client ` set roles)"
    by (simp add: r(2) set_workloadAccountSessionScopes_roles)
  from i show ?thesis
  proof (rule issueAccountSession_Inr)
    fix identity :: signInResp and v1 and t :: tokenExchangeResp
    let ?req = "\<lparr>te_IdToken = sir_IdToken identity, te_Audience = bc_Audience client, te_Scopes = scopes, te_EventTypes = [],
      te_TTLSeconds = bc_TTLSeconds client, te_TenantID = bc_TenantID client, te_DiscoverTenantTargetsV1 = False,
      te_DiscoverTenantTargetsV2 = False, te_ScopeCeilingV1 = None\<rparr>"
    assume signin: "wt_SignIn tokens v \<lparr>si_Email = acr_Email c, si_Password = acr_Password c\<rparr> = (Inr (Some identity), v1)"
      and t: "sir_IdToken identity \<noteq> []" "sir_LocalId identity = u_Id u" "sir_Email identity = u_Email u"
        "wt_TokenExchange tokens v1 ?req = (Inr (Some t), w')"
        "asr_AccessToken resp = ter_AccessToken t" "asr_ExpiresIn resp = ter_ExpiresIn t" "asr_LocalId resp = u_Id u"
        "1 \<le> ter_ExpiresIn t" "ter_ExpiresIn t \<le> bc_TTLSeconds client"
    have facts: "wu_FindByEmail users w (acr_Email c) = (Inr (Some u), v)" "u_Status u = UserStatusActive"
      "wa_verifyPassword s (u_Password u) (acr_Password c0)" "te_IdToken ?req = sir_IdToken identity"
      "te_Audience ?req = bc_Audience client" "te_TenantID ?req = bc_TenantID client" "te_Scopes ?req = scopes"
      "1 \<le> asr_ExpiresIn resp" "asr_ExpiresIn resp \<le> bc_TTLSeconds client"
      "wt_SignIn tokens v \<lparr>si_Email = acr_Email c, si_Password = acr_Password c0\<rparr> = (Inr (Some identity), v1)"
      "set scopes = \<Union> (roleScopes client ` {r \<in> grantedRoles L (view v) (bc_TenantID client) (u_Id u).
        foreignPrincipal du (bc_TenantID client) \<longrightarrow> AllowsForeignRole rg (du_HomeTenantID du) (bc_TenantID client) r})"
      using a(5,6) pw signin t scopes du(2) by (simp_all add: passwordMatches_def)
    have "set scopes \<subseteq> (\<Union>r. roleScopes client r)" by (auto simp: scopes)
    then have signed: "\<forall>us :: ('w, 'k) userService. \<forall>E1 E2. tokens = wiredTokens us E1 E2 \<and> plainBroker us client \<longrightarrow>
        signedSession us v1 E2 client identity scopes (asr_AccessToken resp)"
      using wiredTokens_exchange [OF _ refl _ r(3)] t(4,5) by metis
    show ?thesis by (intro exI conjI) (rule b a(3,4) facts du(1) r(3) t pw(2) signed)+
  qed
qed

end
