(* ===== verification/Account_Samples.thy ===== *)
theory Account_Samples
  imports Account_Properties
begin

text \<open>
  A tenant backend with one workload account for the witnesses: the directory of \<open>Directory_Samples\<close>, its user \<open>alice\<close> as the
  account, a broker that grants \<^verbatim>\<open>READER\<close>, and a token service that answers every request.
\<close>

section \<open>An account with memberships\<close>

definition accountMem :: memory where
  "accountMem = sampleMem\<lparr>mem_keys := applyAll
     [CHSet (membershipV2Key ''acme'') ''alice'' ''M0'', CSAdd (membershipV2ByUserKey ''alice'') ''acme'',
      CHSet (membershipsKey ''acme'') ''alice'' ''M0'', CSAdd (membershipsByUserKey ''alice'') ''acme''] sampleKeys\<rparr>"

lemma accountMem_keys:
  "ks_string (mem_keys accountMem) = [userByEmailKey ''a@ex.io'' \<mapsto> ''alice'']"
  "ks_hash (mem_keys accountMem) usersHashV2 = [''alice'' \<mapsto> ''U0'']" "ks_hash (mem_keys accountMem) federatedUsersHash = Map.empty"
  "ks_zset (mem_keys accountMem) directoryUserEmailIndex = {directoryUserIndexMember ''a@ex.io'' ''alice''}"
  by (simp_all add: accountMem_def membershipsKey_def membershipV2Key_def)

lemma accountMem_intact: "accountIntact ''acme'' ''alice'' ''a@ex.io'' (mem_keys accountMem)"
  by (simp add: accountIntact_def accountMem_keys)
    (simp add: accountMem_def membershipsKey_def membershipV2Key_def membershipsByUserKey_def membershipV2ByUserKey_def)

lemma accountMem_run:
  "deleteWorkloadAccount memStore accountMem ''acme'' ''alice'' ''a@ex.io'' =
     (None, accountMem\<lparr>mem_keys := applyAll (accountDeletionCmds ''acme'' ''alice'' ''a@ex.io'') (mem_keys accountMem)\<rparr>)"
proof -
  have m: "\<not> accountMissing ''alice'' ''a@ex.io'' (mem_keys accountMem)" by (simp add: accountMissing_def accountMem_keys)
  have c: "canonicalMembershipV2UserID ''alice''" by (simp add: canonicalMembershipV2UserID_def)
  have "workloadAccountDeletionScript ''acme'' ''alice'' ''a@ex.io'' (mem_keys accountMem) =
      ([''deleted''], accountDeletionCmds ''acme'' ''alice'' ''a@ex.io'')"
    by (simp add: workloadAccountDeletionScript_def accountMem_intact m)
  then show ?thesis by (simp add: deleteWorkloadAccount_def c)
qed

theorem account_deletion_atomic_witness:
  "\<exists>w'. deleteWorkloadAccount memStore accountMem ''acme'' ''alice'' ''a@ex.io'' = (None, w') \<and>
     accountMissing ''alice'' ''a@ex.io'' (mem_keys w') \<and> ks_hash (mem_keys w') (membershipsKey ''acme'') ''alice'' = None"
  using account_deletion_atomic [OF memStore_ok accountMem_run] accountMem_run by blast

theorem deleted_account_blocks_listing_witness:
  "\<exists>w'. deleteWorkloadAccount memStore accountMem ''acme'' ''alice'' ''a@ex.io'' = (None, w') \<and>
     (\<forall>p. ListDirectoryUsers memStore sampleLib 9 w' [] [] 50 \<noteq> Inr p)"
proof -
  obtain w' where run: "deleteWorkloadAccount memStore accountMem ''acme'' ''alice'' ''a@ex.io'' = (None, w')"
    and keys: "mem_keys w' = applyAll (accountDeletionCmds ''acme'' ''alice'' ''a@ex.io'') (mem_keys accountMem)"
    by (rule that [OF accountMem_run]) simp
  have index: "ks_zset (mem_keys w') directoryUserEmailIndex = {directoryUserIndexMember ''a@ex.io'' ''alice''}"
    by (simp add: keys accountDeletionCmds_index accountMem_keys)
  have page: "pageEntries sampleLib [] [] (mem_keys w') = {directoryUserIndexMember ''a@ex.io'' ''alice''}"
    unfolding pageEntries_def index by (simp add: normalizeDirectorySearch_def ToLower_def lexBounds_def lexAtLeast_def lexAtMost_def)
  have cursor: "decodeDirectoryCursor sampleLib [] ''users'' (normalizeDirectorySearch sampleLib []) = Inr []"
    by (simp add: decodeDirectoryCursor_def)
  have none: "{x \<in> {directoryUserIndexMember ''a@ex.io'' ''alice''}. x < directoryUserIndexMember ''a@ex.io'' ''alice''} = {}" by auto
  have few: "card {x \<in> pageEntries sampleLib [] [] (mem_keys w'). x < directoryUserIndexMember ''a@ex.io'' ''alice''} < nat 50"
    unfolding page none by simp
  have unfed: "ks_hash (mem_keys accountMem) federatedUsersHash ''alice'' = None"
    and fin: "finite (ks_zset (mem_keys w') directoryUserEmailIndex)"
    unfolding index by (simp_all add: accountMem_keys)
  have member: "directoryUserIndexMember ''a@ex.io'' ''alice'' \<in> pageEntries sampleLib [] [] (mem_keys w')" unfolding page by simp
  note b = deleted_account_blocks_listing [OF memStore_ok run unfed refl refl fin cursor member few, THEN conjunct2]
  show ?thesis by (rule exI, rule conjI [OF run]) (intro allI b)
qed

section \<open>A broker\<close>

definition broker :: brokerClient where
  "broker = \<lparr>bc_TenantID = ''acme'', bc_Namespace = ''workload-acme'', bc_ServiceAccount = ''api'', bc_Audience = ''api'',
     bc_Role = ''READER'', bc_Scopes = [''api:read''], bc_MemberScopes = [], bc_PreviousBaseRoleScopes = [],
     bc_AdditionalRoles = [], bc_TTLSeconds = 600\<rparr>"

definition brokerPod :: workloadSubject where
  "brokerPod = \<lparr>ws_ServiceAccountUID = ''uid'', ws_PodUID = ''pod'', ws_Subject = ''system:serviceaccount:workload-acme:api'',
     ws_Issuer = ''https://cluster'', ws_ClusterRef = ''west'', ws_Namespace = ''workload-acme'', ws_ServiceAccount = ''api'',
     ws_ExpiresAt = Some 90\<rparr>"

definition sampleTokens :: "memory accountTokenService" where
  "sampleTokens =
     \<lparr>wt_SignIn = (\<lambda>w r. (Inr (Some \<lparr>sir_IdToken = ''idt'', sir_Email = si_Email r, sir_LocalId = ''alice'', sir_ExpiresIn = 60\<rparr>), w)),
      wt_TokenExchange = (\<lambda>w r. (Inr (Some (bearer ''at'' (te_TTLSeconds r) (te_Scopes r))), w))\<rparr>"

definition baseAccounts :: "memory accountService" where
  "baseAccounts =
     \<lparr>wa_unicode = asciiUnicode, wa_parseAddress = Some, wa_verifyPassword = (\<lambda>hash password. hash = ''hash0''),
      wa_verifier = Some (\<lambda>w token. Inr brokerPod), wa_users = None, wa_memberships = None, wa_writer = None, wa_access = None,
      wa_tokens = Some sampleTokens, wa_deletion = None, wa_clients = clientsBySubject [broker]\<rparr>"

definition sampleAccounts :: "memory accountService" where
  "sampleAccounts = wiredAccounts memStore sampleLib None (\<lambda>s. None) baseAccounts quiet (\<lambda>i. 9) ''uuid''"

definition aliceLogin :: accountCredentials where
  "aliceLogin = \<lparr>acr_Email = ''a@ex.io'', acr_Password = ''correct-horse''\<rparr>"

lemma sampleAccounts_fields [simp]:
  "wa_users sampleAccounts = Some
     \<lparr>wu_FindByEmail = FindByEmail memStore sampleLib quiet (\<lambda>i. 9),
      wu_CreateUser = (\<lambda>w u. CreateUser memStore sampleLib 9 w (Some u)),
      wu_DeleteByEmail = (\<lambda>w e. case DeleteByEmail memStore sampleLib quiet (\<lambda>i. 9) w e of
        (Inl err, w') \<Rightarrow> (Some err, w') | (Inr _, w') \<Rightarrow> (None, w'))\<rparr>"
  "wa_access sampleAccounts = Some (NewIdentityDirectoryRepo memStore sampleLib None (\<lambda>s. None) quiet (\<lambda>i. 9) ''uuid'')"
  "wa_tokens sampleAccounts = Some sampleTokens"
  by (simp_all add: sampleAccounts_def) (simp add: wiredAccounts_def baseAccounts_def)

lemma sample_authorize: "authorizeBroker sampleAccounts w ''projected'' = Inr broker"
proof -
  have "TrimSpace ''projected'' \<noteq> []" "clientsBySubject [broker] (ws_Subject brokerPod) = Some broker"
    "ws_Namespace brokerPod = bc_Namespace broker" "ws_ServiceAccount brokerPod = bc_ServiceAccount broker"
    by code_simp+
  then show ?thesis by (simp add: authorizeBroker_def sampleAccounts_def baseAccounts_def)
qed

lemma sample_credentials: "validWorkloadAccountCredentials sampleAccounts aliceLogin = Inr aliceLogin"
proof -
  have "ToLower asciiUnicode (TrimSpace ''a@ex.io'') = ''a@ex.io''" "CHR 0x00 \<notin> set ''correct-horse''" by code_simp+
  then show ?thesis
    by (simp add: validWorkloadAccountCredentials_def sampleAccounts_def baseAccounts_def aliceLogin_def)
qed

lemma sample_find:
  assumes "ks_string (mem_keys w) (userByEmailKey ''a@ex.io'') = Some ''alice''" "ks_hash (mem_keys w) usersHashV2 ''alice'' = Some ''U0''"
  shows "FindByEmail memStore sampleLib quiet (\<lambda>i. 9) w ''a@ex.io'' = (Inr (Some alice), w)"
proof -
  have n: "normalizeDirectoryEmail sampleLib ''a@ex.io'' = ''a@ex.io''" by code_simp
  have "u_Password alice \<noteq> []" by code_simp
  then have "indexedUser memStore sampleLib w ''a@ex.io'' ''alice'' = Inr (Some alice)"
    using assms(2) n by (simp add: indexedUser_def)
  then show ?thesis
    using assms(1) n by (simp add: FindByEmail_def Let_def retryTx_first findByEmailAttempt_def)
qed

lemma sample_password: "passwordMatches sampleAccounts c alice" "u_AuthSource alice = AuthSourcePassword"
proof -
  show "u_AuthSource alice = AuthSourcePassword" by code_simp
  have "u_Status alice = UserStatusActive" "u_Password alice = ''hash0''" by code_simp+
  then show "passwordMatches sampleAccounts c alice" by (simp add: passwordMatches_def sampleAccounts_def baseAccounts_def)
qed

section \<open>Registration and deletion\<close>

definition sampleBroking :: brokerEnv where
  "sampleBroking = \<lparr>be_now = 9, be_uuid = ''fresh'', be_generate = Inr\<rparr>"

lemma sample_grant:
  "PutAccessAssignment memStore sampleLib None quiet (\<lambda>i. 9) sampleMem ''acme'' AccessPrincipalUser ''alice'' [''READER''] [] =
     (Inr (reader, True), readerMem)"
proof -
  have m: "marshal (dl_assignment sampleLib) reader = Inr ''A0''" "u_AuthSource alice \<noteq> AuthSourceSAML" by code_simp+
  then show ?thesis
    by (simp add: PutAccessAssignment_def retryTx_first putAccessAssignmentTx_def assignmentPrincipalError_def
        watchTx_def Let_def reader_def readerMem_def)
qed

lemma sample_register:
  "accountRegister sampleAccounts sampleMem E ''projected'' aliceLogin =
     (Inr (\<lparr>arr_LocalId = ''alice'', arr_Email = ''a@ex.io'', arr_TenantID = ''acme'', arr_Role = ''READER'', arr_CreatedAt = Some 7\<rparr>,
       False), readerMem)"
proof -
  have f: "acr_Email aliceLogin = ''a@ex.io''" "bc_TenantID broker = ''acme''" "bc_Role broker = ''READER''"
    "a_TenantID reader = ''acme''" "a_PrincipalID reader = ''alice''" "a_PrincipalType reader = AccessPrincipalUser"
    "a_Roles reader = [''READER'']" "u_CreatedAt alice = Some 7" by code_simp+
  have "ensurePasswordUser sampleAccounts sampleMem E broker aliceLogin = (Inr (alice, False), sampleMem)"
    using sample_find [of sampleMem] sample_password(1) by (simp add: ensurePasswordUser_def f)
  moreover have "grantBaseRole sampleAccounts sampleMem broker ''alice'' False = ((None, True), readerMem)"
    using sample_grant by (simp add: grantBaseRole_def f)
  ultimately show ?thesis
    by (simp add: accountRegister_def sample_authorize sample_credentials f)
qed

theorem registered_account_undeletable_witness:
  "\<exists>resp w. accountRegister sampleAccounts sampleMem sampleBroking ''projected'' aliceLogin = (Inr (resp, False), w) \<and>
     arr_LocalId resp = ''alice'' \<and> fst (accountDelete sampleAccounts w ''projected'' aliceLogin) \<noteq> None"
proof -
  let ?step = "accountStep memStore sampleLib None (\<lambda>s. None) baseAccounts {\<lambda>w. w}"
  have "?step sampleMem (snd (accountRegister sampleAccounts sampleMem sampleBroking ''projected'' aliceLogin))"
    unfolding sampleAccounts_def by (rule accountStep.registers) auto
  then have r: "?step\<^sup>*\<^sup>* sampleMem readerMem" unfolding sample_register by simp
  have n: "noMembers {''acme''} (mem_keys sampleMem)"
    by (simp add: noMembers_def sampleKeys_def emptyKeys_def membershipsKey_def)
  have c: "bc_TenantID client \<in> {''acme''}" if "wa_clients baseAccounts sub = Some client" for sub client
    using that by (auto simp: baseAccounts_def clientsBySubject_def broker_def split: if_splits)
  have "fst (accountDelete sampleAccounts readerMem ''projected'' aliceLogin) \<noteq> None"
    unfolding sampleAccounts_def by (rule registered_account_undeletable [OF memStore_ok r n]) (use c in \<open>simp_all add: keepsNone_def\<close>)
  with sample_register show ?thesis by simp
qed

section \<open>A session\<close>

theorem account_session_scoped_witness:
  "\<exists>resp. accountSession sampleAccounts readerMem ''projected'' aliceLogin = (Inr resp, readerMem) \<and> asr_LocalId resp = ''alice'' \<and>
     asr_ExpiresIn resp = 600 \<and> 1 \<le> asr_ExpiresIn resp"
proof -
  obtain ps where ps: "GetEffectiveTenantRoles memStore sampleLib None 9 readerMem ''alice'' ''acme'' = Inr ([''READER''], ps)"
    using sample_effective_roles by blast
  have f: "acr_Email aliceLogin = ''a@ex.io''" "bc_TenantID broker = ''acme''" "bc_TTLSeconds broker = 600"
    "workloadAccountSessionScopes broker [''READER''] = [''api:read'']" "validWorkloadAccountToken ''at''" by code_simp+
  have "sessionScopesFor sampleAccounts readerMem broker ''alice'' = Inr [''api:read'']"
    using ps f by (simp add: sessionScopesFor_def Let_def)
  moreover have "issueAccountSession sampleTokens readerMem broker aliceLogin alice [''api:read''] =
      (Inr \<lparr>asr_AccessToken = ''at'', asr_TokenType = ''Bearer'', asr_LocalId = ''alice'', asr_Email = ''a@ex.io'',
        asr_ExpiresIn = 600\<rparr>, readerMem)"
    using f by (simp add: issueAccountSession_def sampleTokens_def bearer_def)
  moreover have "FindByEmail memStore sampleLib quiet (\<lambda>i. 9) readerMem ''a@ex.io'' = (Inr (Some alice), readerMem)"
    by (rule sample_find) (simp_all add: readerMem_def)
  ultimately have run: "accountSession sampleAccounts readerMem ''projected'' aliceLogin =
      (Inr \<lparr>asr_AccessToken = ''at'', asr_TokenType = ''Bearer'', asr_LocalId = ''alice'', asr_Email = ''a@ex.io'',
        asr_ExpiresIn = 600\<rparr>, readerMem)"
    using f(1) sample_password(1) [of aliceLogin]
    by (simp add: accountSession_def sample_authorize sample_credentials)
  from account_session_scoped [OF memStore_ok sampleAccounts_fields(2) run] run show ?thesis by auto
qed

end
