(* ===== verification/Spec2Isabelle.thy ===== *)
theory Spec2Isabelle
  imports Directory_Limits AI_Identity Authority_Clients Delegation Native_Samples Account_Reconcile Account_Samples
begin

text \<open>
  The verification library of tikti, an identity and token service in Go. It holds users, groups, tenants, roles and
  audience clients in Redis, signs users in, issues HS256 sessions and RS256 access tokens for one tenant and one audience,
  exchanges the projected tokens of Kubernetes pods for workload tokens, and serves the authorization-code flow of native
  applications. Paths below are under \<^verbatim>\<open>src/\<close>; \<^verbatim>\<open>services/\<close>, \<^verbatim>\<open>repository/\<close> and the other packages are those of
  \<^verbatim>\<open>src/internal/\<close>.

  \<^bold>\<open>Shape of the model.\<close> A Go struct is a \<open>record\<close> with its fields in their order, a repository interface a record of
  functions, an \<^verbatim>\<open>error\<close> a value of \<open>gerror\<close>, and a function that may fail returns \<open>gerror + 'a\<close>, so that every early
  return is a branch. Functions keep their Go names; fields carry a prefix of their record (\<open>u_Id\<close>), and where two
  repositories have a method of the same name it carries that of its repository (\<open>tenantRepo_Get\<close>). Stateful code takes and
  returns the world, a type variable \<open>'w\<close>; reads of the clock and fresh identifiers are arguments, numbered in the order
  of the calls (\<open>clock i\<close>, \<open>callEnv\<close>, \<open>workloadEnv\<close>). Strings are lists of bytes. Counters, versions and instants (nanoseconds)
  are unbounded integers: \<^verbatim>\<open>int64\<close> versions and nanoseconds do not wrap in the range in which the program runs; where the
  code itself tests a range, or JSON carries a number as a double, the model does so too.

  \<^bold>\<open>Redis.\<close> A \<open>store\<close> (\<open>Directory_Store\<close>) is the client over worlds whose keys \<open>view\<close> reads off. \<open>store_ok\<close> is what Redis
  documents: successful reads report the keyspace, scripts and transactions are atomic, a transaction commits only over
  unchanged watched keys, and a write that reports an error happened as a whole or not at all. Between the reads and the commit of
  attempt \<open>i\<close> the other clients do \<open>others i\<close>, an arbitrary function; reads of one attempt see one world. An \<open>instant\<close> of a
  call (\<open>Instants\<close>) is a state that others produced before the call wrote anything, and theorems about a successful
  write say what it decided and changed at one such instant. The simpler repositories of roles and tenants use \<open>redis\<close> of
  \<open>Redis_Client\<close> with \<open>hash_reads_writes\<close>. Both have an instance in memory, on which the witnesses run.

  \<^bold>\<open>Theories, from the bottom.\<close>

  \<^item> \<open>Prelude\<close>, \<open>Utf8\<close>, \<open>Domain\<close>, \<open>Redis_Client\<close>: Go strings, \<^verbatim>\<open>sort\<close> and \<^verbatim>\<open>slices\<close>, UTF-8, the types and validators of
    \<^verbatim>\<open>pkg/domain\<close>, the client of the hash commands.

  \<^item> \<open>Scope_Policy\<close> (\<^verbatim>\<open>scopepolicy/policy.go\<close>), \<open>Tenant_Name\<close> (\<^verbatim>\<open>tenantname/name.go\<close>), \<open>Native_Policy\<close>
    (\<^verbatim>\<open>nativepolicy/\<close>): the server-owned policies. Canonicalisation is idempotent and sorts (locale \<open>canonicaliser\<close>, four
    interpretations); the two-row table of \<open>protectedShape\<close> decides edit distance; normalising a native client loses nothing.

  \<^item> \<open>Role_Service\<close>, \<open>Tenant_Service\<close>, \<open>Client_Service\<close>, \<open>Client_Repository\<close>: \<^verbatim>\<open>role_repository.go\<close>,
    \<^verbatim>\<open>tenant_repository.go\<close>, \<^verbatim>\<open>retained_tenant_repository.go\<close>, \<^verbatim>\<open>client_repository.go\<close>, \<^verbatim>\<open>client_audience_scopes.go\<close> and
    their services. The services see their repositories through the locales \<open>exact_role_store\<close>, \<open>role_lookup\<close> and
    \<open>tenant_registry\<close>, interpreted on the Redis repositories. Retirement is final; \<open>clientStep\<close> keeps the ledger of managed
    clients under any interleaving.

  \<^item> \<open>Token_Claims\<close> (\<^verbatim>\<open>utils/\<close>), \<open>User_State\<close>, \<open>Tenant_Scope\<close> (\<^verbatim>\<open>services/tenant_scoped_token.go\<close>), \<open>AI_Gateway\<close>
    (\<^verbatim>\<open>services/ai_gateway.go\<close>), \<open>Session\<close>, \<open>Native_Token\<close> (\<^verbatim>\<open>services/native_saml.go\<close>), \<open>Access_Token\<close>,
    \<open>Token_Exchange\<close> (\<^verbatim>\<open>services/user_service.go\<close>): the struct \<^verbatim>\<open>userService\<close> is the record \<open>userService\<close>. The lemmas say
    what a token that validates or is issued implies: signature, lifetime, current user and version, active tenant, scopes within
    the request, the client and the role, no platform authority by exchange.

  \<^item> \<open>Directory_Store\<close>, \<open>Directory_Records\<close>, \<open>Directory_Users\<close>, \<open>Directory_Groups\<close>, \<open>Directory_Access\<close>,
    \<open>User_Repository\<close>, \<open>Memberships\<close>, \<open>Directory_Deletion\<close>, \<open>Directory_Backfill\<close>, \<open>Oob_Codes\<close>: the operations of
    \<^verbatim>\<open>repository/identity_directory_repository.go\<close>, \<^verbatim>\<open>user_repository.go\<close>, \<^verbatim>\<open>user_legacy_import.go\<close>,
    \<^verbatim>\<open>membership_repository.go\<close>, \<^verbatim>\<open>membership_v2_repository.go\<close>, \<^verbatim>\<open>directory_user_deletion.go\<close> and
    \<^verbatim>\<open>subject_oob_repository.go\<close>. A transaction is a \<open>txn\<close>, what its function decides from its reads, run by \<open>watchTx\<close> and
    \<open>retryTx\<close>; a Lua script is the function it computes on the keyspace.

  \<^item> \<open>Instants\<close>, \<open>Directory_Links\<close>, \<open>Directory_Updates\<close>, \<open>Directory_Rights\<close>, \<open>Directory_Credentials\<close>, \<open>Directory_Removal\<close>,
    \<open>Directory_Pages\<close>, \<open>Directory_Limits\<close>: what that repository guarantees. \<open>directoryStep\<close> are all its writes as steps; the
    forward and reverse copies of every link agree in every reachable state. Then compare-and-set, exact effective roles,
    codes used once, complete deletion, complete listings, and what retries and outages look like from outside.

  \<^item> \<open>Directory_Service\<close>: \<^verbatim>\<open>services/identity_directory_service.go\<close>, \<^verbatim>\<open>identity_directory_exact_role.go\<close>,
    \<^verbatim>\<open>directory_user_deletion.go\<close>, \<^verbatim>\<open>tenant_creator_access.go\<close>, on the repository above.

  \<^item> \<open>Strict_Json\<close>, \<open>Authority_Contracts\<close>, \<open>Authority_Clients\<close>: \<^verbatim>\<open>aigateway/json.go\<close>, \<^verbatim>\<open>managedlogs/\<close>,
    \<^verbatim>\<open>codeqbinding/\<close>. The decoder is a recursive descent over the syntax tree and accepts exactly the relation \<open>conforms\<close>; the
    locales \<open>queue_authority\<close> and \<open>logs_authority\<close> are the contracts of the two authorities, interpreted on their HTTP clients.

  \<^item> \<open>Rate_Limit\<close> (\<^verbatim>\<open>codeqbinding/ratelimit.go\<close>), \<open>Workload_Binding\<close> (\<^verbatim>\<open>repository/workload_binding_repository.go\<close>),
    \<open>Workload_Service\<close>, \<open>Workload_Grants\<close>, \<open>Workload_Properties\<close> (\<^verbatim>\<open>services/workload_identity_service.go\<close>,
    \<^verbatim>\<open>codeq_topic_identity.go\<close>, \<^verbatim>\<open>trino_identity.go\<close>, \<^verbatim>\<open>ai_workload.go\<close>, \<^verbatim>\<open>codeq_binding_exchange.go\<close>): \<open>Exchange\<close> with
    every grant in the order of the code; \<open>signedAs\<close> ties a response to the claims its token was signed over. \<open>AI_Token\<close> validates the tokens of the gateway, \<open>Delegation\<close> joins the workload
    service to the user service, \<open>AI_Identity\<close> is \<^verbatim>\<open>services/ai_gateway_identity.go\<close>.

  \<^item> \<open>Native_Store\<close>, \<open>Native_Flow\<close>, \<open>Native_Properties\<close>: \<^verbatim>\<open>nativeauth/store.go\<close> and \<^verbatim>\<open>nativeauth/http.go\<close>. \<open>ServeNative\<close> is
    one request of the browser flow; \<open>tokenMove\<close> interleaves any number of token requests, step by step, with each other
    and everything else, and \<open>tokenNative_steps\<close> shows that the steps are the handler.

  \<^item> \<open>Account_Broker\<close>, \<open>Account_Reconcile\<close>, \<open>Account_Properties\<close>: the technical accounts of tenant backends
    (\<^verbatim>\<open>services/workload_account_bff_service.go\<close>, \<^verbatim>\<open>repository/workload_account_deletion_repository.go\<close>,
    \<^verbatim>\<open>workloadaccount/reconcile.go\<close>). \<open>wiredAccounts\<close> is the service on the stores of \<^verbatim>\<open>app/application.go\<close>; two theorems
    show that accounts granted through the directory cannot be deleted and what a deletion leaves behind.

  \<^item> \<open>Directory_Samples\<close>, \<open>Workload_Samples\<close>, \<open>Native_Samples\<close>, \<open>Account_Samples\<close>: small installations for the witnesses.

  \<^bold>\<open>Parameters and hypotheses.\<close> Code outside the repository is an argument. \<open>codec\<close>, \<open>clientCodec\<close> and \<open>nativeJson\<close> are
  \<^verbatim>\<open>encoding/json\<close> on one type; \<open>codec_ok\<close>, \<open>codec_roundtrip\<close>, \<open>exact_unmarshals\<close> and \<open>client_json_ok\<close> say that what
  was marshalled is read back and differs from the empty string. \<open>jwtlib\<close> is the JWT library with the RSA keys; \<open>jwtRoundtrip\<close>,
  and \<open>topicRoundtrip\<close> say that a token just signed parses to its claims until it expires, \<open>parseStable\<close> that two parses agree. \<open>go_unicode\<close> and
  \<open>unicode_tables\<close> are \<^verbatim>\<open>unicode\<close> and the normalisation forms; \<open>lower_ok\<close> says that lower case leaves no
  ASCII capital, \<open>foldReflexive\<close> that a string folds to itself. \<open>ol_tonumber\<close> is the number parser of Lua. \<open>commits\<close> says
  that a transaction over quiet keys commits, \<open>quietHandler\<close> and \<open>quietCall\<close> that no other client writes a code's key. Hash
  functions, HMAC, bcrypt, \<^verbatim>\<open>url.Parse\<close>, \<^verbatim>\<open>mime.ParseMediaType\<close>, the HTTP transport and the verifier of projected tokens
  carry no hypothesis. Every property with hypotheses has a witness, a concrete run in which they hold.

  \<^bold>\<open>Bounds.\<close> Loops of the code are bounded by the code: eight attempts of a Redis transaction, four rounds of an assignment or
  client update, three draws of a native identifier, 100 targets of a discovery, pages of the listing limit, 16384
  remembered identities of the limiter, JSON of at most 16384 bytes, depth 8 and 256 items, codes of one minute for native
  requests of five. The retries are primitive recursion on these numbers and the other loops structural, so no fuel can run
  out. Three loops end only when a cursor says so and are a \<open>partial_function\<close>: the scans of the start-up migration, whose
  cursors Redis chooses, and a client that follows the pages of a listing, \<open>followPages\<close>, for which
  \<open>assignment_pages_complete\<close> shows that it ends.

  \<^bold>\<open>Not modelled.\<close> SAML federation (\<^verbatim>\<open>saml/\<close>: XML signatures around an external library); the rest of the HTTP layer
  (\<^verbatim>\<open>controllers/\<close>, \<^verbatim>\<open>app/\<close>, \<^verbatim>\<open>httpidentity/\<close>: request binding, cookies, headers, markup); the configuration loader beyond
  the rate limits; process start-up, command-line clients and migrations (\<^verbatim>\<open>cmd/\<close>, \<^verbatim>\<open>providers/\<close>, \<^verbatim>\<open>redis/\<close>); the signed
  requests of \<^verbatim>\<open>storagests/\<close> and the key discovery of \<^verbatim>\<open>workloadidentity/\<close>, which are \<^verbatim>\<open>net/http\<close> around external
  libraries; metrics, on which no decision depends;
  the membership read and write services with the paged membership reader; the lease renewal of the migration;
  \<^verbatim>\<open>url.Parse\<close> of the configured endpoints in \<^verbatim>\<open>NewClient\<close>.
\<close>

end
